(* ===== verification/Prelude.thy ===== *)
theory Prelude
  imports Main "HOL-Library.List_Lexorder" "HOL-Library.Char_ord"
begin

text \<open>
  What every component of the development shares: Python values and exceptions as HOL values,
  the exception monad, string helpers, and keyed lists (tuples of records that the code looks up
  and replaces by an identity field).

  Conventions. A Python \<open>str\<close> is a \<open>string\<close> whose characters are the code points below 256, so
  \<open>\<le>\<close> on strings (lexicographic, by code point) is Python's order and \<open>py_space\<close> is
  \<open>str.isspace\<close> on that range. A Python \<open>int\<close> is an \<open>int\<close>. A \<open>datetime\<close> is its UTC instant in
  microseconds, tagged by whether it carries a time zone (Python compares two aware datetimes by
  their instants). A raised exception is \<open>Inl\<close>, a returned value is \<open>Inr\<close>. A tuple is a list.
\<close>

section \<open>Exceptions as values\<close>

datatype py_error =
    ValueError string
  | AssertionError
  | KeyError
  | PyTypeError
  | StopIteration
  | InvalidOperation
  | IndexError
  | OverflowError

type_synonym 'a result = "py_error + 'a"

fun and_then :: "'e + 'a \<Rightarrow> ('a \<Rightarrow> 'e + 'b) \<Rightarrow> 'e + 'b" where
  "and_then (Inl e) f = Inl e"
| "and_then (Inr x) f = f x"

text \<open>\<open>if not c: raise ValueError(msg)\<close>.\<close>

definition require :: "bool \<Rightarrow> string \<Rightarrow> unit result" where
  "require c msg = (if c then Inr () else Inl (ValueError msg))"

text \<open>\<open>assert x is not None\<close>, returning the value.\<close>

definition assert_some :: "'a option \<Rightarrow> 'a result" where
  "assert_some x = (case x of None \<Rightarrow> Inl AssertionError | Some v \<Rightarrow> Inr v)"

text \<open>A loop that builds a tuple and stops at the first exception.\<close>

fun traverse :: "('a \<Rightarrow> 'e + 'b) \<Rightarrow> 'a list \<Rightarrow> 'e + 'b list" where
  "traverse f [] = Inr []"
| "traverse f (x # xs) = and_then (f x) (\<lambda>y. and_then (traverse f xs) (\<lambda>ys. Inr (y # ys)))"

text \<open>A loop that only checks.\<close>

fun check_all :: "('a \<Rightarrow> unit result) \<Rightarrow> 'a list \<Rightarrow> unit result" where
  "check_all f [] = Inr ()"
| "check_all f (x # xs) = and_then (f x) (\<lambda>_. check_all f xs)"

lemma and_then_Inr [simp]: "and_then m f = Inr y \<longleftrightarrow> (\<exists>x. m = Inr x \<and> f x = Inr y)"
  by (cases m) auto

lemma and_then_assoc: "and_then (and_then m f) g = and_then m (\<lambda>x. and_then (f x) g)"
  by (cases m) auto

lemma require_Inr [simp]: "require c msg = Inr u \<longleftrightarrow> c"
  by (simp add: require_def)

lemma require_True [simp]: "require True msg = Inr ()"
  by (simp add: require_def)

lemma assert_some_Inr [simp]: "assert_some x = Inr v \<longleftrightarrow> x = Some v"
  by (auto simp: assert_some_def split: option.splits)

lemma assert_some_Some [simp]: "assert_some (Some v) = Inr v"
  by (simp add: assert_some_def)

lemma check_all_Inr [simp]: "check_all f xs = Inr u \<longleftrightarrow> (\<forall>x\<in>set xs. f x = Inr ())"
  by (induction xs) auto

lemma traverse_Inr_iff: "traverse f xs = Inr ys \<longleftrightarrow> list_all2 (\<lambda>x y. f x = Inr y) xs ys"
  by (induction xs arbitrary: ys) (auto simp: list_all2_Cons1)

lemma traverse_map: "(\<And>x. x \<in> set xs \<Longrightarrow> f x = Inr (g x)) \<Longrightarrow> traverse f xs = Inr (map g xs)"
  by (induction xs) auto

text \<open>\<open>m\<close> returns (does not raise) a value with \<open>P\<close>: the total-correctness reading of a computation.\<close>

definition returns :: "'e + 'a \<Rightarrow> ('a \<Rightarrow> bool) \<Rightarrow> bool" where
  "returns m P = (case m of Inl _ \<Rightarrow> False | Inr x \<Rightarrow> P x)"

lemma returns_Inr [simp]: "returns (Inr x) P = P x"
  by (simp add: returns_def)

lemma returns_Inl [simp]: "\<not> returns (Inl e) P"
  by (simp add: returns_def)

lemma returns_and_then [simp]: "returns (and_then m f) P = returns m (\<lambda>x. returns (f x) P)"
  by (cases m) auto

lemma returns_require [simp]: "returns (require c msg) P = (c \<and> P ())"
  by (simp add: require_def)

lemma returns_assert_some [simp]: "returns (assert_some x) P = (\<exists>v. x = Some v \<and> P v)"
  by (cases x) (auto simp: assert_some_def)

lemma returns_iff: "returns m P \<longleftrightarrow> (\<exists>x. m = Inr x \<and> P x)"
  by (cases m) auto

lemma returns_mono: "returns m P \<Longrightarrow> (\<And>x. P x \<Longrightarrow> Q x) \<Longrightarrow> returns m Q"
  by (auto simp: returns_iff)

lemma returns_conj: "returns m P \<Longrightarrow> returns m Q \<Longrightarrow> returns m (\<lambda>x. P x \<and> Q x)"
  by (auto simp: returns_iff)

lemma returnsD: "returns m P \<Longrightarrow> m = Inr x \<Longrightarrow> P x"
  by simp

section \<open>Datetimes and strings\<close>

datatype py_datetime = Naive int | Aware int

fun instant :: "py_datetime \<Rightarrow> int" where
  "instant (Naive t) = t"
| "instant (Aware t) = t"

fun is_aware :: "py_datetime \<Rightarrow> bool" where
  "is_aware (Naive _) = False"
| "is_aware (Aware _) = True"

definition py_space :: "char \<Rightarrow> bool" where
  "py_space c \<longleftrightarrow> (let n = (of_char c :: nat)
     in (9 \<le> n \<and> n \<le> 13) \<or> (28 \<le> n \<and> n \<le> 32) \<or> n = 133 \<or> n = 160)"

definition strip :: "string \<Rightarrow> string" where
  "strip s = rev (dropWhile py_space (rev (dropWhile py_space s)))"

definition join :: "string \<Rightarrow> string list \<Rightarrow> string" where
  "join sep xs = concat (case xs of [] \<Rightarrow> [] | y # ys \<Rightarrow> y # map (\<lambda>z. sep @ z) ys)"

lemma dropWhile_idem [simp]: "dropWhile p (dropWhile p xs) = dropWhile p xs"
  by (induction xs) auto

lemma dropWhile_rev_dropWhile:
  "dropWhile p (rev (dropWhile p (rev (dropWhile p xs)))) = rev (dropWhile p (rev (dropWhile p xs)))"
proof (cases "dropWhile p xs")
  case Nil
  show ?thesis by (simp only: Nil rev.simps dropWhile.simps)
next
  case (Cons y ys)
  then have y: "\<not> p y" by (metis dropWhile_eq_Cons_conv)
  have "rev (dropWhile p (rev (y # ys))) = y # rev (dropWhile p (rev ys))"
    using y by (simp add: dropWhile_append)
  with Cons y show ?thesis by simp
qed

lemma strip_strip [simp]: "strip (strip s) = strip s"
  unfolding strip_def by (simp add: dropWhile_rev_dropWhile)

lemma strip_Nil [simp]: "strip [] = []"
  by (simp add: strip_def)

text \<open>\<open>x and x.strip()\<close> on an optional string: present and not blank.\<close>

definition has_text :: "string option \<Rightarrow> bool" where
  "has_text x = (case x of None \<Rightarrow> False | Some s \<Rightarrow> strip s \<noteq> [])"

text \<open>Python's truth value of an optional string: present and not empty.\<close>

definition truthy :: "string option \<Rightarrow> bool" where
  "truthy x = (case x of None \<Rightarrow> False | Some s \<Rightarrow> s \<noteq> [])"

text \<open>\<open>tuple(sorted(set(xs)))\<close>.\<close>

definition sorted_set :: "'a::linorder list \<Rightarrow> 'a list" where
  "sorted_set xs = sort (remdups xs)"

lemma set_sorted_set [simp]: "set (sorted_set xs) = set xs"
  by (simp add: sorted_set_def)

lemma sorted_sorted_set [simp]: "sorted (sorted_set xs)"
  by (simp add: sorted_set_def)

lemma distinct_sorted_set [simp]: "distinct (sorted_set xs)"
  by (simp add: sorted_set_def)

lemma sorted_set_Nil_iff [simp]: "sorted_set xs = [] \<longleftrightarrow> xs = []"
  by (metis set_empty set_sorted_set)

lemma sorted_set_Nil [simp]: "sorted_set [] = []"
  by simp

lemma sorted_set_id: "sorted xs \<Longrightarrow> distinct xs \<Longrightarrow> sorted_set xs = xs"
  by (simp add: sorted_set_def distinct_remdups_id sorted_sort_id)

text \<open>\<open>tuple(dict.fromkeys(xs))\<close>: each value once, at its first position.\<close>

definition dedup :: "'a list \<Rightarrow> 'a list" where
  "dedup xs = rev (remdups (rev xs))"

lemma set_dedup [simp]: "set (dedup xs) = set xs"
  by (simp add: dedup_def)

lemma distinct_dedup [simp]: "distinct (dedup xs)"
  by (simp add: dedup_def)

lemma dedup_Nil_iff [simp]: "dedup xs = [] \<longleftrightarrow> xs = []"
  by (metis set_dedup set_empty)

lemma dedup_id: "distinct xs \<Longrightarrow> dedup xs = xs"
  by (simp add: dedup_def distinct_remdups_id)

text \<open>
  \<open>max(xs, key=k, default=d)\<close> where \<open>d\<close> has the least key: the first element with the greatest key.
\<close>

fun max_by :: "('a \<Rightarrow> 'k::linorder) \<Rightarrow> 'a \<Rightarrow> 'a list \<Rightarrow> 'a" where
  "max_by k best [] = best"
| "max_by k best (x # xs) = max_by k (if k best < k x then x else best) xs"

lemma max_by_in: "max_by k d xs \<in> insert d (set xs)"
proof (induction xs arbitrary: d)
  case (Cons y ys)
  from Cons [of "if k d < k y then y else d"] show ?case by auto
qed simp

lemma max_by_ge_start: "k d \<le> k (max_by k d xs)"
proof (induction xs arbitrary: d)
  case (Cons y ys)
  from Cons [of "if k d < k y then y else d"] show ?case by (auto split: if_splits intro: order_trans)
qed simp

lemma max_by_ge: "x \<in> set xs \<Longrightarrow> k x \<le> k (max_by k d xs)"
proof (induction xs arbitrary: d)
  case (Cons y ys)
  have "k y \<le> k (if k d < k y then y else d)" by auto
  with Cons.IH [of "if k d < k y then y else d"] Cons.prems
    max_by_ge_start [of k "if k d < k y then y else d" ys] show ?case
    by (auto intro: order_trans)
qed simp

text \<open>\<open>str(n)\<close> of an integer, and \<open>s.removeprefix(p)\<close>.\<close>

fun nat_digits :: "nat \<Rightarrow> string" where
  "nat_digits n = (if n < 10 then [char_of (48 + n)] else nat_digits (n div 10) @ [char_of (48 + n mod 10)])"

declare nat_digits.simps [simp del]

definition str_int :: "int \<Rightarrow> string" where
  "str_int n = (if n < 0 then ''-'' @ nat_digits (nat (- n)) else nat_digits (nat n))"

definition removeprefix :: "string \<Rightarrow> string \<Rightarrow> string" where
  "removeprefix p s = (if take (length p) s = p then drop (length p) s else s)"

text \<open>The number a digit string denotes; \<open>nat_digits\<close> is a right inverse of it.\<close>

definition digits_value :: "string \<Rightarrow> nat" where
  "digits_value s = foldl (\<lambda>a c. 10 * a + (of_char c - 48)) 0 s"

lemma digits_value_nat_digits [simp]: "digits_value (nat_digits n) = n"
  by (induction n rule: nat_digits.induct) (subst nat_digits.simps, auto simp: digits_value_def)

section \<open>Keyed lists\<close>

text \<open>
  The code keeps its records in tuples and addresses them by an identity field:
  \<open>next((x for x in xs if key(x) == k), None)\<close> looks one up, and
  \<open>tuple(u if key(x) == key(u) else x for x in xs)\<close> replaces one.
\<close>

definition lookup_by :: "('a \<Rightarrow> 'k) \<Rightarrow> 'k \<Rightarrow> 'a list \<Rightarrow> 'a option" where
  "lookup_by key k xs = find (\<lambda>x. key x = k) xs"

definition put_by :: "('a \<Rightarrow> 'k) \<Rightarrow> 'a \<Rightarrow> 'a list \<Rightarrow> 'a list" where
  "put_by key u xs = map (\<lambda>x. if key x = key u then u else x) xs"

text \<open>\<open>{key(x): x for x in xs}[k]\<close>: the last record with the key wins.\<close>

definition dict_by :: "('a \<Rightarrow> 'k) \<Rightarrow> 'a list \<Rightarrow> 'k \<Rightarrow> 'a option" where
  "dict_by key xs k = lookup_by key k (rev xs)"

lemma lookup_by_Nil [simp]: "lookup_by key k [] = None"
  by (simp add: lookup_by_def)

lemma lookup_by_Cons [simp]:
  "lookup_by key k (x # xs) = (if key x = k then Some x else lookup_by key k xs)"
  by (simp add: lookup_by_def)

lemma lookup_by_Some: "lookup_by key k xs = Some x \<Longrightarrow> x \<in> set xs \<and> key x = k"
  by (induction xs) (auto split: if_splits)

lemma lookup_by_None_iff: "lookup_by key k xs = None \<longleftrightarrow> k \<notin> key ` set xs"
  by (induction xs) auto

lemma lookup_by_distinct:
  "distinct (map key xs) \<Longrightarrow> x \<in> set xs \<Longrightarrow> lookup_by key (key x) xs = Some x"
  by (induction xs) auto

lemma lookup_by_distinct_iff:
  "distinct (map key xs) \<Longrightarrow> lookup_by key k xs = Some x \<longleftrightarrow> x \<in> set xs \<and> key x = k"
  by (auto dest: lookup_by_Some simp: lookup_by_distinct)

lemma lookup_by_map:
  "(\<And>x. key' (f x) = key x) \<Longrightarrow> lookup_by key' k (map f xs) = map_option f (lookup_by key k xs)"
  by (induction xs) auto

lemma dict_by_distinct: "distinct (map key xs) \<Longrightarrow> dict_by key xs k = lookup_by key k xs"
proof -
  assume d: "distinct (map key xs)"
  then have d': "distinct (map key (rev xs))" by (simp flip: rev_map)
  show ?thesis
  proof (cases "lookup_by key k xs")
    case None
    then show ?thesis by (metis dict_by_def lookup_by_None_iff set_rev)
  next
    case (Some x)
    then show ?thesis using lookup_by_Some [OF Some] lookup_by_distinct [OF d', of x]
      by (simp add: dict_by_def)
  qed
qed

lemma put_by_keys [simp]: "map key (put_by key u xs) = map key xs"
  by (auto simp: put_by_def)

lemma length_put_by [simp]: "length (put_by key u xs) = length xs"
  by (simp add: put_by_def)

lemma set_put_by: "x \<in> set (put_by key u xs) \<Longrightarrow> x = u \<or> (x \<in> set xs \<and> key x \<noteq> key u)"
  by (auto simp: put_by_def split: if_splits)

lemma put_by_absent: "key u \<notin> key ` set xs \<Longrightarrow> put_by key u xs = xs"
  by (induction xs) (auto simp: put_by_def)

lemma put_by_same: "distinct (map key xs) \<Longrightarrow> u \<in> set xs \<Longrightarrow> put_by key u xs = xs"
  unfolding put_by_def by (rule map_idI) (auto simp: distinct_map dest: inj_onD)

lemma lookup_put_by:
  "lookup_by key k (put_by key u xs) =
     (if k = key u then (if k \<in> key ` set xs then Some u else None) else lookup_by key k xs)"
  by (induction xs) (auto simp: put_by_def)

lemma put_by_map_other:
  "(\<And>x. x \<in> set xs \<Longrightarrow> key x = key u \<Longrightarrow> g x = g u) \<Longrightarrow> map g (put_by key u xs) = map g xs"
  by (auto simp: put_by_def)

lemma put_by_concat: "concat (map (\<lambda>x. put_by key u (f x)) xs) = put_by key u (concat (map f xs))"
  by (induction xs) (simp_all add: put_by_def)

lemma put_by_id: "(\<And>x. x \<in> set xs \<Longrightarrow> key x = key u \<Longrightarrow> x = u) \<Longrightarrow> put_by key u xs = xs"
  unfolding put_by_def by (rule map_idI) auto

lemma list_all2_put_by:
  assumes "\<And>x. x \<in> set xs \<Longrightarrow> R x x" and "\<And>x. x \<in> set xs \<Longrightarrow> key x = key u \<Longrightarrow> R x u"
  shows "list_all2 R xs (put_by key u xs)"
  using assms by (induction xs) (auto simp: put_by_def)

lemma insort_key_map: "(\<And>x. f (g x) = k x) \<Longrightarrow> map g (insort_key k x xs) = insort_key f (g x) (map g xs)"
  by (induction xs) auto

lemma sort_key_map: "(\<And>x. f (g x) = k x) \<Longrightarrow> map g (sort_key k xs) = sort_key f (map g xs)"
  by (induction xs) (simp_all add: insort_key_map [of f g k])

lemma sort_key_sorted: "sorted (map k xs) \<Longrightarrow> sort_key k xs = xs"
  by (induction xs) (auto simp: insort_is_Cons)

lemma sort_key_id_iff: "sort_key k xs = xs \<longleftrightarrow> sorted (map k xs)"
  by (metis sort_key_sorted sorted_sort_key)

lemma sort_key_put_by:
  "sort_key key (put_by key u xs) = put_by key u (sort_key key xs)"
  unfolding put_by_def by (rule sort_key_map [symmetric]) auto

lemma list_all2_sort_key:
  assumes "list_all2 R xs ys" and "\<And>x y. R x y \<Longrightarrow> k x = k y"
  shows "list_all2 R (sort_key k xs) (sort_key k ys)"
proof -
  have ins: "list_all2 R (insort_key k x as) (insort_key k y bs)"
    if "R x y" "list_all2 R as bs" for x y as bs
    using that(2)
  proof (induction rule: list_all2_induct)
    case Nil
    from that(1) show ?case by simp
  next
    case (Cons a as b bs)
    have "k x = k y" "k a = k b" using that(1) Cons(1) assms(2) by auto
    then show ?case using that(1) Cons by simp
  qed
  from assms(1) show ?thesis
    by (induction rule: list_all2_induct) (auto intro: ins)
qed

end
