(* ===== verification/Machine.thy ===== *)
theory Machine
  imports Prelude
begin

text \<open>
  Machines driven by a list of inputs: a step that may raise, an invariant it keeps, and a preorder
  it follows. The locale proves once that a run then returns, keeps the invariant and follows the
  preorder; every stateful component of the development is an instance.
\<close>

fun run_machine :: "('s \<Rightarrow> 'i \<Rightarrow> 'e + 's) \<Rightarrow> 's \<Rightarrow> 'i list \<Rightarrow> 'e + 's" where
  "run_machine step s [] = Inr s"
| "run_machine step s (i # is) = and_then (step s i) (\<lambda>s'. run_machine step s' is)"

lemma run_machine_append:
  "run_machine step s (is @ js) = and_then (run_machine step s is) (\<lambda>s'. run_machine step s' js)"
  by (induction "is" arbitrary: s) (auto simp: and_then_assoc)

locale monotone_machine =
  fixes step :: "'s \<Rightarrow> 'i \<Rightarrow> 'e + 's"
    and inv :: "'s \<Rightarrow> bool"
    and valid_input :: "'i \<Rightarrow> bool"
    and evolves :: "'s \<Rightarrow> 's \<Rightarrow> bool"
  assumes evolves_refl: "evolves s s"
    and evolves_trans: "evolves s s' \<Longrightarrow> evolves s' s'' \<Longrightarrow> evolves s s''"
    and step_total: "inv s \<Longrightarrow> valid_input i \<Longrightarrow> \<exists>s'. step s i = Inr s' \<and> inv s' \<and> evolves s s'"
begin

lemma run_total:
  "inv s \<Longrightarrow> \<forall>i\<in>set is. valid_input i \<Longrightarrow> \<exists>s'. run_machine step s is = Inr s' \<and> inv s' \<and> evolves s s'"
proof (induction "is" arbitrary: s)
  case Nil
  then show ?case by (simp add: evolves_refl)
next
  case (Cons i "is")
  then obtain s' where s': "step s i = Inr s'" "inv s'" "evolves s s'"
    using step_total [of s i] by auto
  with Cons.IH [of s'] Cons.prems(2) obtain s'' where "run_machine step s' is = Inr s''" "inv s''" "evolves s' s''" by auto
  with s' evolves_trans show ?case by auto
qed

lemma run_keeps:
  assumes "inv s" "\<forall>i\<in>set is. valid_input i" "run_machine step s is = Inr s'"
  shows "inv s'" "evolves s s'"
  using run_total [OF assms(1,2)] assms(3) by auto

text \<open>A property that the preorder carries forward holds to the end of every run.\<close>

lemma run_carries:
  assumes "inv s" "\<forall>i\<in>set is. valid_input i" "run_machine step s is = Inr s'"
    and "P s" "\<And>x y. P x \<Longrightarrow> evolves x y \<Longrightarrow> P y"
  shows "P s'"
  using run_keeps(2) [OF assms(1-3)] assms(4,5) by blast

end

end
