(* ===== verification/Field_Model.thy ===== *)
theory Field_Model
  imports Prelude
begin

text \<open>
  The immutable values of the canonical M2 field contract, \<open>field/models.py\<close>: its enums, its
  frozen dataclasses and their \<open>__post_init__\<close> checks.

  A class is a record; the field \<open>f\<close> of a class has the class's short prefix (\<open>ts_status\<close> is
  \<open>TaskState.status\<close>). \<open>C_init\<close> is \<open>C.__post_init__\<close>: it gets the raw field values and returns the
  normalised record or the \<open>ValueError\<close>. \<open>dataclasses.replace\<close> runs it again, so the reducer's
  updates do too. Checks on the dynamic type of a value (\<open>isinstance(x, bool)\<close>) are the record's
  types. A value that \<open>C_init\<close> leaves as it is could have been built by the constructor.
\<close>

section \<open>Enums\<close>

datatype PlanDayStatus = DRAFT | ISSUED | ACTIVE | CLOSED

datatype TaskStatus = OPEN | BLOCKED | WAITING | DONE | DISPUTED | SAFE_HOLD

datatype StageStatus = OPEN | DONE | DISPUTED | SAFE_HOLD

datatype AssignmentKind = SINGLE | CREW

datatype CompletionType = TASK | STAGE | WAITING | VISIT | DAY_CLOSE

datatype EvidenceKind = PHOTO | VOICE | TEXT | MEASUREMENT

datatype FieldEventType =
    DAY_PLAN_ACTIVATED
  | START_DELAY_REPORTED
  | START_EXCEPTION_REPORTED
  | UNAVAILABLE_TODAY_REPORTED
  | WORK_START_BLOCKED
  | RESOURCE_MISSING_REPORTED
  | SITE_PROBLEM_REPORTED
  | SCOPE_FACT_REPORTED
  | TASK_COMPLETION_REPORTED
  | STAGE_COMPLETION_REPORTED
  | TECHNICAL_WAIT_REPORTED
  | VISIT_COMPLETION_REPORTED
  | DAY_CLOSE_REPORTED
  | COMPLETION_DISPUTED
  | WORKER_ACKNOWLEDGED
  | WORKER_ACTION_EXCEPTION

text \<open>
  The reason enums reach the reducer only as the set of their string values
  (\<open>reason_class not in {item.value for item in DelayReason}\<close>), so they are kept as that set.
\<close>

definition DelayReason_values :: "string list" where
  "DelayReason_values = [''TRAFFIC'', ''TRANSPORT'', ''PERSONAL'', ''OTHER'']"

definition StartExceptionReason_values :: "string list" where
  "StartExceptionReason_values = [''TRANSPORT_BLOCKED'', ''PERSONAL_EMERGENCY'', ''SICK'', ''OTHER'']"

definition WorkStartBlockedReason_values :: "string list" where
  "WorkStartBlockedReason_values =
     [''NO_ACCESS'', ''CLIENT_ABSENT'', ''PREDECESSOR_NOT_READY'', ''UNSAFE'', ''WEATHER'', ''OTHER'']"

definition ResourceKind_values :: "string list" where
  "ResourceKind_values = [''MATERIAL'', ''TOOL'', ''VEHICLE'', ''KEY'', ''DRAWING'', ''OTHER'']"

definition UnavailableReason_values :: "string list" where
  "UnavailableReason_values = [''SICK'', ''PERSONAL_EMERGENCY'', ''OTHER'']"

definition ActionExceptionReason_values :: "string list" where
  "ActionExceptionReason_values =
     [''VEHICLE_UNSAFE'', ''PHYSICALLY_UNABLE'', ''CONFLICTING_FACT'', ''ALREADY_COMMITTED'', ''OTHER'']"

datatype ProblemHint = BLOCKS_WORK | UNSAFE | QUALITY | OTHER

datatype DirectiveClass = INFO | ACTION | STOP

datatype DirectiveType = INFO_NOTICE | ACTION_REQUIRED | STOP_DIRECTIVE | END_OF_DAY_OPTIONS | WHY_EXPLAINED

datatype DeliveryEvidence = QUEUED | CHANNEL_ACCEPTED | APP_OBSERVED | ACKED

datatype SiteProblemAction = RECORD_ONLY | HOLD | ESCALATE | HOLD_AND_ESCALATE | REQUEST_STOP

datatype EndOfDayAction = RETURN_BASE | PREP_NEXT_DAY | OFFER_SOFT_OPTIONS | END_ON_SITE | ASK_OWNER

datatype SystemSignalType =
    START_WINDOW_ELAPSED
  | DIRECTIVE_E1_ELAPSED
  | EARLY_FINISH_EVALUATED
  | END_OF_DAY_POLICY_SATISFIED
  | STATE_REHYDRATED
  | SYNC_REPLAYED
  | DAY_ROLLED_OVER

datatype ReductionOutcome = APPLIED | REPORTED | NOOP | REJECTED

datatype EffectType =
    PLAN_DAY_ACTIVATED
  | START_UNKNOWN_ESCALATED
  | START_DELAY_RECORDED
  | DELAY_IMPACT_EVALUATION_REQUIRED
  | START_EXCEPTION_RECORDED
  | TRANSPORT_RESOLUTION_REQUIRED
  | UNAVAILABLE_TODAY_RECORDED
  | TASK_HELD
  | RESOURCE_MISSING_RECORDED
  | SITE_PROBLEM_RECORDED
  | SITE_PROBLEM_ESCALATED
  | STOP_DIRECTIVE_REQUESTED
  | NON_BINDING_SCOPE_CHANGE_RECORDED
  | COMPLETION_ACCEPTED
  | COMPLETION_REJECTED
  | ASSIGNMENT_INVALID
  | TECHNICAL_WAIT_RECORDED
  | COMPLETION_DISPUTED
  | HUMAN_REVIEW_REQUIRED
  | DIRECTIVE_ACKED
  | ACTION_REEVALUATION_REQUIRED
  | SAFE_HOLD_ENTERED
  | ACK_MISSING_ESCALATED
  | STOP_UNCONFIRMED
  | EARLY_FINISH_SOFT_OPTIONS
  | END_OF_DAY_POLICY_REQUESTED
  | DAY_CLOSED

datatype RootKind = JOB_EXECUTION | PLAN_DAY | DIRECTIVE

text \<open>The enum values (\<open>item.value\<close>) that the code sorts by or puts into strings.\<close>

fun EvidenceKind_value :: "EvidenceKind \<Rightarrow> string" where
  "EvidenceKind_value PHOTO = ''PHOTO''"
| "EvidenceKind_value VOICE = ''VOICE''"
| "EvidenceKind_value TEXT = ''TEXT''"
| "EvidenceKind_value MEASUREMENT = ''MEASUREMENT''"

fun EndOfDayAction_value :: "EndOfDayAction \<Rightarrow> string" where
  "EndOfDayAction_value RETURN_BASE = ''RETURN_BASE''"
| "EndOfDayAction_value PREP_NEXT_DAY = ''PREP_NEXT_DAY''"
| "EndOfDayAction_value OFFER_SOFT_OPTIONS = ''OFFER_SOFT_OPTIONS''"
| "EndOfDayAction_value END_ON_SITE = ''END_ON_SITE''"
| "EndOfDayAction_value ASK_OWNER = ''ASK_OWNER''"

fun RootKind_value :: "RootKind \<Rightarrow> string" where
  "RootKind_value JOB_EXECUTION = ''JOB_EXECUTION''"
| "RootKind_value PLAN_DAY = ''PLAN_DAY''"
| "RootKind_value DIRECTIVE = ''DIRECTIVE''"

section \<open>Field checks\<close>

definition nonblank :: "string \<Rightarrow> string \<Rightarrow> string result" where
  "nonblank v name = (if strip v = [] then Inl (ValueError (name @ '' must be non-blank'')) else Inr (strip v))"

definition aware :: "py_datetime \<Rightarrow> string \<Rightarrow> unit result" where
  "aware v name = require (is_aware v) (name @ '' must be timezone-aware'')"

definition unique :: "string list \<Rightarrow> string \<Rightarrow> string list result" where
  "unique vs name = (if distinct vs then Inr (sort vs) else Inl (ValueError (name @ '' must be unique'')))"

text \<open>A check applied to an optional field, which it leaves alone when absent.\<close>

definition optionally :: "('a \<Rightarrow> 'a result) \<Rightarrow> 'a option \<Rightarrow> 'a option result" where
  "optionally f x = (case x of None \<Rightarrow> Inr None | Some v \<Rightarrow> and_then (f v) (\<lambda>w. Inr (Some w)))"

definition aware_opt :: "py_datetime option \<Rightarrow> string \<Rightarrow> unit result" where
  "aware_opt x name = (case x of None \<Rightarrow> Inr () | Some v \<Rightarrow> aware v name)"

section \<open>Evidence, stages and task definitions\<close>

record EvidenceItem =
  ev_evidence_id :: string
  ev_kind :: EvidenceKind
  ev_content_reference :: string

definition EvidenceItem_init :: "EvidenceItem \<Rightarrow> EvidenceItem result" where
  "EvidenceItem_init x =
     and_then (nonblank (ev_evidence_id x) ''evidence_id'') (\<lambda>i.
     and_then (nonblank (ev_content_reference x) ''content_reference'') (\<lambda>c.
     Inr (x\<lparr>ev_evidence_id := i, ev_content_reference := c\<rparr>)))"

record StageState =
  sg_stage_id :: string
  sg_status :: StageStatus
  sg_completion_event_id :: "string option"

definition StageState_init :: "StageState \<Rightarrow> StageState result" where
  "StageState_init x =
     and_then (nonblank (sg_stage_id x) ''stage_id'') (\<lambda>i. Inr (x\<lparr>sg_stage_id := i\<rparr>))"

record TaskDefinition =
  td_task_id :: string
  td_definition_version :: string
  td_job_id :: string
  td_source_handoff_id :: string
  td_source_revision :: int
  td_business_meaning :: string
  td_completion_type :: CompletionType
  td_required_postconditions :: "string list"
  td_required_evidence :: "EvidenceKind list"
  td_stage_ids :: "string list"
  td_requires_quantity :: bool
  td_assignment_kind :: AssignmentKind
  td_supersedes_task_id :: "string option"

definition TaskDefinition_init :: "TaskDefinition \<Rightarrow> TaskDefinition result" where
  "TaskDefinition_init x =
     and_then (nonblank (td_task_id x) ''task_id'') (\<lambda>tid.
     and_then (nonblank (td_definition_version x) ''definition_version'') (\<lambda>ver.
     and_then (nonblank (td_job_id x) ''job_id'') (\<lambda>jid.
     and_then (nonblank (td_source_handoff_id x) ''source_handoff_id'') (\<lambda>hid.
     and_then (nonblank (td_business_meaning x) ''business_meaning'') (\<lambda>bm.
     and_then (require (1 \<le> td_source_revision x) ''source_revision must be positive'') (\<lambda>_.
     and_then (unique (td_required_postconditions x) ''required_postconditions'') (\<lambda>pcs.
     and_then (unique (td_stage_ids x) ''stage_ids'') (\<lambda>sids.
     and_then (require (distinct (td_required_evidence x)) ''required_evidence must be unique'') (\<lambda>_.
     and_then (optionally (\<lambda>p. nonblank p ''supersedes_task_id'') (td_supersedes_task_id x)) (\<lambda>sup.
     and_then (require (sup \<noteq> Some tid) ''task cannot supersede itself'') (\<lambda>_.
     Inr (x\<lparr>td_task_id := tid, td_definition_version := ver, td_job_id := jid,
            td_source_handoff_id := hid, td_business_meaning := bm,
            td_required_postconditions := pcs, td_stage_ids := sids,
            td_required_evidence := sort_key EvidenceKind_value (td_required_evidence x),
            td_supersedes_task_id := sup\<rparr>))))))))))))"

record FieldObservation =
  fo_event_id :: string
  fo_actor_id :: string
  fo_text :: "string option"
  fo_evidence :: "EvidenceItem list"
  fo_interpretation :: "string option"

definition FieldObservation_init :: "FieldObservation \<Rightarrow> FieldObservation result" where
  "FieldObservation_init x =
     and_then (nonblank (fo_event_id x) ''event_id'') (\<lambda>e.
     and_then (nonblank (fo_actor_id x) ''actor_id'') (\<lambda>a.
     and_then (require (distinct (map ev_evidence_id (fo_evidence x)))
        ''observation evidence identities must be unique'') (\<lambda>_.
     Inr (x\<lparr>fo_event_id := e, fo_actor_id := a\<rparr>))))"

section \<open>Task states and assignments\<close>

record TaskState =
  ts_definition :: TaskDefinition
  ts_status :: TaskStatus
  ts_stages :: "StageState list"
  ts_evidence :: "EvidenceItem list"
  ts_observations :: "FieldObservation list"
  ts_completion_event_id :: "string option"
  ts_safe_hold_directive_id :: "string option"
  ts_blocked_pending_resolution :: bool
  ts_execution_authorized :: bool

definition TaskState_init :: "TaskState \<Rightarrow> TaskState result" where
  "TaskState_init x =
     (let stage_ids = map sg_stage_id (ts_stages x) in
      and_then (require (distinct stage_ids) ''task stages must be unique'') (\<lambda>_.
      and_then (require (set stage_ids = set (td_stage_ids (ts_definition x)))
         ''task stages must match the immutable task definition'') (\<lambda>_.
      and_then (require (distinct (map ev_evidence_id (ts_evidence x)))
         ''task evidence identities must be unique'') (\<lambda>_.
      and_then (require (distinct (map fo_event_id (ts_observations x)))
         ''task observation event identities must be unique'') (\<lambda>_.
      and_then (require (\<not> (ts_status x = TaskStatus.SAFE_HOLD \<and>
           (\<not> ts_blocked_pending_resolution x \<or> ts_execution_authorized x)))
         ''SAFE_HOLD must block execution pending resolution'') (\<lambda>_.
      Inr (x\<lparr>ts_stages := sort_key sg_stage_id (ts_stages x)\<rparr>)))))))"

record AssignmentState =
  as_assignment_id :: string
  as_job_id :: string
  as_task_id :: string
  as_task_definition_version :: string
  as_kind :: AssignmentKind
  as_member_worker_ids :: "string list"
  as_plan_day_ids :: "string list"
  as_lead_worker_id :: "string option"
  as_released_worker_ids :: "string list"
  as_supersedes_assignment_id :: "string option"

definition AssignmentState_init :: "AssignmentState \<Rightarrow> AssignmentState result" where
  "AssignmentState_init x =
     and_then (nonblank (as_assignment_id x) ''assignment_id'') (\<lambda>aid.
     and_then (nonblank (as_job_id x) ''job_id'') (\<lambda>jid.
     and_then (nonblank (as_task_id x) ''task_id'') (\<lambda>tid.
     and_then (nonblank (as_task_definition_version x) ''task_definition_version'') (\<lambda>ver.
     and_then (traverse (\<lambda>i. nonblank i ''member_worker_id'') (as_member_worker_ids x)) (\<lambda>ms.
     and_then (traverse (\<lambda>i. nonblank i ''plan_day_id'') (as_plan_day_ids x)) (\<lambda>ps.
     and_then (traverse (\<lambda>i. nonblank i ''released_worker_id'') (as_released_worker_ids x)) (\<lambda>rs.
     and_then (unique ms ''member_worker_ids'') (\<lambda>ms'.
     and_then (unique ps ''plan_day_ids'') (\<lambda>ps'.
     and_then (unique rs ''released_worker_ids'') (\<lambda>rs'.
     and_then (optionally (\<lambda>p. nonblank p ''lead_worker_id'') (as_lead_worker_id x)) (\<lambda>lead.
     and_then (optionally (\<lambda>p. nonblank p ''supersedes_assignment_id'') (as_supersedes_assignment_id x)) (\<lambda>sup.
     and_then (require (sup \<noteq> Some aid) ''assignment cannot supersede itself'') (\<lambda>_.
     Inr (x\<lparr>as_assignment_id := aid, as_job_id := jid, as_task_id := tid,
            as_task_definition_version := ver, as_member_worker_ids := ms',
            as_plan_day_ids := ps', as_released_worker_ids := rs',
            as_lead_worker_id := lead, as_supersedes_assignment_id := sup\<rparr>))))))))))))))"

section \<open>Plan days and directives\<close>

record PlanDayRoot =
  pd_plan_day_id :: string
  pd_worker_id :: string
  pd_business_date :: int \<comment> \<open>a \<open>date\<close>, as its ordinal\<close>
  pd_start_at :: py_datetime
  pd_status :: PlanDayStatus
  pd_worker_available :: bool
  pd_day_close_reported :: bool
  pd_start_unknown_escalated :: bool
  pd_confirmed_plan_reference :: "string option"
  pd_plan_day_revision :: int

definition PlanDayRoot_init :: "PlanDayRoot \<Rightarrow> PlanDayRoot result" where
  "PlanDayRoot_init x =
     and_then (nonblank (pd_plan_day_id x) ''plan_day_id'') (\<lambda>pid.
     and_then (nonblank (pd_worker_id x) ''worker_id'') (\<lambda>wid.
     and_then (aware (pd_start_at x) ''start_at'') (\<lambda>_.
     and_then (require (0 \<le> pd_plan_day_revision x) ''plan_day_revision must be non-negative'') (\<lambda>_.
     and_then (optionally (\<lambda>r. nonblank r ''confirmed_plan_reference'') (pd_confirmed_plan_reference x)) (\<lambda>ref.
     and_then (require (\<not> (pd_status x = PlanDayStatus.CLOSED \<and> pd_worker_available x))
        ''DAY_CLOSED cannot retain worker availability'') (\<lambda>_.
     Inr (x\<lparr>pd_plan_day_id := pid, pd_worker_id := wid, pd_confirmed_plan_reference := ref\<rparr>)))))))"

record DirectiveDefinition =
  dd_directive_id :: string
  dd_directive_type :: DirectiveType
  dd_directive_class :: DirectiveClass
  dd_worker_id :: string
  dd_issued_at :: py_datetime
  dd_escalation_due_at :: "py_datetime option"
  dd_job_id :: "string option"
  dd_task_id :: "string option"
  dd_assignment_id :: "string option"
  dd_plan_day_id :: "string option"
  dd_proposed_plan_reference :: "string option"
  dd_issuance_sequence :: int
  dd_supersedes_directive_id :: "string option"

definition DirectiveDefinition_init :: "DirectiveDefinition \<Rightarrow> DirectiveDefinition result" where
  "DirectiveDefinition_init x =
     and_then (nonblank (dd_directive_id x) ''directive_id'') (\<lambda>did.
     and_then (nonblank (dd_worker_id x) ''worker_id'') (\<lambda>wid.
     and_then (aware (dd_issued_at x) ''issued_at'') (\<lambda>_.
     and_then (aware_opt (dd_escalation_due_at x) ''escalation_due_at'') (\<lambda>_.
     and_then (optionally (\<lambda>v. nonblank v ''job_id'') (dd_job_id x)) (\<lambda>jid.
     and_then (optionally (\<lambda>v. nonblank v ''task_id'') (dd_task_id x)) (\<lambda>tid.
     and_then (optionally (\<lambda>v. nonblank v ''assignment_id'') (dd_assignment_id x)) (\<lambda>aid.
     and_then (optionally (\<lambda>v. nonblank v ''plan_day_id'') (dd_plan_day_id x)) (\<lambda>pid.
     and_then (optionally (\<lambda>v. nonblank v ''proposed_plan_reference'') (dd_proposed_plan_reference x)) (\<lambda>ref.
     and_then (optionally (\<lambda>v. nonblank v ''supersedes_directive_id'') (dd_supersedes_directive_id x)) (\<lambda>sup.
     and_then (require (1 \<le> dd_issuance_sequence x) ''issuance_sequence must be positive'') (\<lambda>_.
     and_then (require (sup \<noteq> Some did) ''directive cannot supersede itself'') (\<lambda>_.
     and_then (require (\<not> (dd_directive_type x = ACTION_REQUIRED \<and> dd_directive_class x \<noteq> ACTION))
        ''ACTION_REQUIRED must use ACTION class'') (\<lambda>_.
     and_then (require (\<not> (dd_directive_type x = STOP_DIRECTIVE \<and> dd_directive_class x \<noteq> STOP))
        ''STOP_DIRECTIVE must use STOP class'') (\<lambda>_.
     Inr (x\<lparr>dd_directive_id := did, dd_worker_id := wid, dd_job_id := jid, dd_task_id := tid,
            dd_assignment_id := aid, dd_plan_day_id := pid, dd_proposed_plan_reference := ref,
            dd_supersedes_directive_id := sup\<rparr>)))))))))))))))"

record DirectiveRoot =
  dr_definition :: DirectiveDefinition
  dr_delivery_evidence :: DeliveryEvidence
  dr_acknowledged_event_id :: "string option"
  dr_exception_event_id :: "string option"
  dr_e1_escalated :: bool
  dr_stop_in_force :: bool
  dr_directive_revision :: int

definition DirectiveRoot_init :: "DirectiveRoot \<Rightarrow> DirectiveRoot result" where
  "DirectiveRoot_init x =
     and_then (optionally (\<lambda>v. nonblank v ''acknowledged_event_id'') (dr_acknowledged_event_id x)) (\<lambda>ack.
     and_then (optionally (\<lambda>v. nonblank v ''exception_event_id'') (dr_exception_event_id x)) (\<lambda>exc.
     and_then (require (0 \<le> dr_directive_revision x) ''directive_revision must be non-negative'') (\<lambda>_.
     Inr (x\<lparr>dr_acknowledged_event_id := ack, dr_exception_event_id := exc\<rparr>))))"

text \<open>The properties of \<open>DirectiveRoot\<close> that read its definition.\<close>

abbreviation dr_directive_id :: "DirectiveRoot \<Rightarrow> string" where
  "dr_directive_id d \<equiv> dd_directive_id (dr_definition d)"
abbreviation dr_directive_type :: "DirectiveRoot \<Rightarrow> DirectiveType" where
  "dr_directive_type d \<equiv> dd_directive_type (dr_definition d)"
abbreviation dr_directive_class :: "DirectiveRoot \<Rightarrow> DirectiveClass" where
  "dr_directive_class d \<equiv> dd_directive_class (dr_definition d)"
abbreviation dr_worker_id :: "DirectiveRoot \<Rightarrow> string" where
  "dr_worker_id d \<equiv> dd_worker_id (dr_definition d)"
abbreviation dr_escalation_due_at :: "DirectiveRoot \<Rightarrow> py_datetime option" where
  "dr_escalation_due_at d \<equiv> dd_escalation_due_at (dr_definition d)"
abbreviation dr_job_id :: "DirectiveRoot \<Rightarrow> string option" where
  "dr_job_id d \<equiv> dd_job_id (dr_definition d)"
abbreviation dr_task_id :: "DirectiveRoot \<Rightarrow> string option" where
  "dr_task_id d \<equiv> dd_task_id (dr_definition d)"
abbreviation dr_assignment_id :: "DirectiveRoot \<Rightarrow> string option" where
  "dr_assignment_id d \<equiv> dd_assignment_id (dr_definition d)"
abbreviation dr_plan_day_id :: "DirectiveRoot \<Rightarrow> string option" where
  "dr_plan_day_id d \<equiv> dd_plan_day_id (dr_definition d)"
abbreviation dr_proposed_plan_reference :: "DirectiveRoot \<Rightarrow> string option" where
  "dr_proposed_plan_reference d \<equiv> dd_proposed_plan_reference (dr_definition d)"
abbreviation dr_issuance_sequence :: "DirectiveRoot \<Rightarrow> int" where
  "dr_issuance_sequence d \<equiv> dd_issuance_sequence (dr_definition d)"
abbreviation dr_supersedes_directive_id :: "DirectiveRoot \<Rightarrow> string option" where
  "dr_supersedes_directive_id d \<equiv> dd_supersedes_directive_id (dr_definition d)"

section \<open>Inputs, effects and receipts\<close>

record FieldEventEnvelope =
  fe_event_id :: string
  fe_schema_version :: int
  fe_event_type :: FieldEventType
  fe_actor_id :: string
  fe_occurred_at :: py_datetime
  fe_plan_day_id :: "string option"
  fe_job_id :: "string option"
  fe_task_id :: "string option"
  fe_assignment_id :: "string option"
  fe_stage_id :: "string option"
  fe_directive_id :: "string option"
  fe_against_event_id :: "string option"
  fe_reason_class :: "string option"
  fe_eta :: "string option"
  fe_text :: "string option"
  fe_wait_condition :: "string option"
  fe_wait_until :: "py_datetime option"
  fe_quantity :: "string option"
  fe_unit :: "string option"
  fe_severity_hint :: "ProblemHint option"
  fe_attachments :: "EvidenceItem list"
  fe_satisfied_postconditions :: "string list"
  fe_offline_origin :: bool
  fe_client_context :: "(string \<times> string) list"

text \<open>
  \<open>tuple(sorted(pairs))\<close> on pairs with distinct keys is the sort by key: the second components
  are never compared.
\<close>

definition FieldEventEnvelope_init :: "FieldEventEnvelope \<Rightarrow> FieldEventEnvelope result" where
  "FieldEventEnvelope_init x =
     and_then (nonblank (fe_event_id x) ''event_id'') (\<lambda>eid.
     and_then (nonblank (fe_actor_id x) ''actor_id'') (\<lambda>aid.
     and_then (require (1 \<le> fe_schema_version x) ''schema_version must be positive'') (\<lambda>_.
     and_then (aware (fe_occurred_at x) ''occurred_at'') (\<lambda>_.
     and_then (aware_opt (fe_wait_until x) ''wait_until'') (\<lambda>_.
     and_then (unique (fe_satisfied_postconditions x) ''satisfied_postconditions'') (\<lambda>pcs.
     and_then (require (distinct (map ev_evidence_id (fe_attachments x)))
        ''attachment evidence identities must be unique'') (\<lambda>_.
     and_then (require (distinct (map fst (fe_client_context x))) ''client_context keys must be unique'') (\<lambda>_.
     Inr (x\<lparr>fe_event_id := eid, fe_actor_id := aid, fe_satisfied_postconditions := pcs,
            fe_client_context := sort_key fst (fe_client_context x)\<rparr>)))))))))"

record FieldEventInput =
  fi_event :: FieldEventEnvelope
  fi_server_event_id :: string

definition FieldEventInput_init :: "FieldEventInput \<Rightarrow> FieldEventInput result" where
  "FieldEventInput_init x =
     and_then (nonblank (fi_server_event_id x) ''server_event_id'') (\<lambda>i. Inr (x\<lparr>fi_server_event_id := i\<rparr>))"

record SystemSignal =
  sy_signal_id :: string
  sy_signal_type :: SystemSignalType
  sy_plan_day_id :: "string option"
  sy_directive_id :: "string option"
  sy_task_id :: "string option"
  sy_policy_result :: "EndOfDayAction option"

definition SystemSignal_init :: "SystemSignal \<Rightarrow> SystemSignal result" where
  "SystemSignal_init x =
     and_then (nonblank (sy_signal_id x) ''signal_id'') (\<lambda>i. Inr (x\<lparr>sy_signal_id := i\<rparr>))"

record M2Policy =
  po_start_unknown_escalation_enabled :: bool
  po_site_problem_action :: SiteProblemAction
  po_early_finish_options :: "EndOfDayAction list"
  po_end_of_day_action :: EndOfDayAction

definition M2Policy_init :: "M2Policy \<Rightarrow> M2Policy result" where
  "M2Policy_init x =
     and_then (require (distinct (po_early_finish_options x)) ''early_finish_options must be unique'') (\<lambda>_. Inr x)"

definition M2_REDUCER_RULE_VERSION :: string where
  "M2_REDUCER_RULE_VERSION = ''m2-reducer-v1''"

record PolicyTimeContext =
  cx_now :: py_datetime
  cx_policy :: M2Policy
  cx_rule_version :: string

definition PolicyTimeContext_init :: "PolicyTimeContext \<Rightarrow> PolicyTimeContext result" where
  "PolicyTimeContext_init x =
     and_then (aware (cx_now x) ''now'') (\<lambda>_.
     and_then (nonblank (cx_rule_version x) ''rule_version'') (\<lambda>v. Inr (x\<lparr>cx_rule_version := v\<rparr>)))"

record SystemEffect =
  ef_effect_type :: EffectType
  ef_source_id :: string
  ef_plan_day_id :: "string option"
  ef_job_id :: "string option"
  ef_task_id :: "string option"
  ef_assignment_id :: "string option"
  ef_stage_id :: "string option"
  ef_directive_id :: "string option"
  ef_actor_id :: "string option"
  ef_details :: "(string \<times> string) list"

definition SystemEffect_init :: "SystemEffect \<Rightarrow> SystemEffect result" where
  "SystemEffect_init x =
     and_then (nonblank (ef_source_id x) ''source_id'') (\<lambda>i.
     and_then (require (distinct (map fst (ef_details x))) ''effect detail keys must be unique'') (\<lambda>_.
     Inr (x\<lparr>ef_source_id := i, ef_details := sort_key fst (ef_details x)\<rparr>)))"

record ProcessedEventReceipt =
  rc_event :: FieldEventEnvelope
  rc_server_event_id :: string
  rc_outcome :: ReductionOutcome
  rc_response_effects :: "SystemEffect list"
  rc_missing_requirements :: "string list"
  rc_reason_codes :: "string list"

end
