(* ===== verification/Field_Scope.thy ===== *)
theory Field_Scope
  imports Field_Model "HOL-Library.Product_Lexorder"
begin

text \<open>
  The canonical roots of M2 and the reduction scope, \<open>field/models.py\<close> from
  \<open>M2JobExecutionRoot\<close> to the end: construction checks, look-ups, the authority checks on
  directives, and the value a reduction returns.
\<close>

section \<open>M1 publications\<close>

text \<open>
  The hand-off publications of \<open>intake/publication.py\<close> that a task definition cites. The scope
  reads their identities only.
\<close>

datatype CanonicalJobLifecycle = RECEIVED

datatype CanonicalJobActivity = ACTIVE | DORMANT

datatype FactKnowledgeState = KNOWN | UNKNOWN

datatype FactVerificationState = UNVERIFIED | VERIFIED

datatype JobFactName =
    CLIENT_REFERENCE
  | CLIENT_NAME
  | ADDRESS
  | PHONE
  | EMAIL
  | SCOPE
  | MATERIALS
  | PREFERRED_CONTACT_CHANNEL

record M1HandoffFact =
  hf_name :: JobFactName
  hf_revision :: int
  hf_value :: "string option"
  hf_knowledge_state :: FactKnowledgeState
  hf_verification_state :: FactVerificationState
  hf_provenance_source :: string
  hf_evidence_id :: "string option"

record M1HandoffProjection =
  hp_job_id :: string
  hp_source_revision :: int
  hp_lifecycle_state :: CanonicalJobLifecycle
  hp_activity_state :: CanonicalJobActivity
  hp_facts :: "M1HandoffFact list"
  hp_schema_version :: string

record M1HandoffPublication =
  hb_handoff_id :: string
  hb_projection :: M1HandoffProjection
  hb_content_sha256 :: string
  hb_published_at :: py_datetime

section \<open>Job execution roots\<close>

abbreviation ts_task_id :: "TaskState \<Rightarrow> string" where
  "ts_task_id t \<equiv> td_task_id (ts_definition t)"

record M2JobExecutionRoot =
  jr_job_id :: string
  jr_tasks :: "TaskState list"
  jr_assignments :: "AssignmentState list"
  jr_job_execution_revision :: int

definition root_task :: "M2JobExecutionRoot \<Rightarrow> string \<Rightarrow> TaskState option" where
  "root_task r k = lookup_by ts_task_id k (jr_tasks r)"

definition root_assignment :: "M2JobExecutionRoot \<Rightarrow> string \<Rightarrow> AssignmentState option" where
  "root_assignment r k = lookup_by as_assignment_id k (jr_assignments r)"

text \<open>
  The \<open>while\<close> loop of \<open>_task_lineage_contains\<close>, at the task \<open>cid\<close> with the visited identities;
  every turn visits a task of the root that was not visited before.
\<close>

function task_lineage_from :: "TaskState list \<Rightarrow> string \<Rightarrow> string list \<Rightarrow> string \<Rightarrow> bool" where
  "task_lineage_from ts predecessor visited cid =
     (case lookup_by ts_task_id cid ts of
        None \<Rightarrow> False
      | Some current \<Rightarrow>
          if cid \<in> set visited then False
          else if cid = predecessor then True
          else (case td_supersedes_task_id (ts_definition current) of
                  None \<Rightarrow> False
                | Some nid \<Rightarrow> task_lineage_from ts predecessor (cid # visited) nid))"
  by pat_completeness auto

lemma filter_visited_less:
  assumes "x \<in> set xs" and "key x \<notin> set visited"
  shows "length (filter (\<lambda>y. key y \<noteq> key x \<and> key y \<notin> set visited) xs)
    < length (filter (\<lambda>y. key y \<notin> set visited) xs)"
  using assms
proof (induction xs)
  case Nil
  then show ?case by simp
next
  case (Cons y ys)
  have le: "length (filter (\<lambda>y. key y \<noteq> key x \<and> key y \<notin> set visited) ys)
      \<le> length (filter (\<lambda>y. key y \<notin> set visited) ys)"
    by (induction ys) auto
  show ?case
  proof (cases "x = y")
    case True
    with Cons.prems le show ?thesis by simp
  next
    case False
    with Cons show ?thesis by auto
  qed
qed

termination task_lineage_from
proof (relation "measure (\<lambda>(ts, _, visited, _). length (filter (\<lambda>t. ts_task_id t \<notin> set visited) ts))",
    goal_cases)
  case 1
  show ?case by simp
next
  case (2 ts predecessor visited cid current nid)
  then show ?case
    using filter_visited_less [of current ts ts_task_id visited] lookup_by_Some [of ts_task_id cid ts current]
    by simp
qed

definition task_lineage_contains :: "M2JobExecutionRoot \<Rightarrow> string \<Rightarrow> string \<Rightarrow> bool" where
  "task_lineage_contains r task_id predecessor = task_lineage_from (jr_tasks r) predecessor [] task_id"

text \<open>
  The inner loop of \<open>_validate_acyclic_supersession\<close>: follow \<open>predecessor_by_id\<close> from \<open>current\<close>
  until it leaves the relation (\<open>True\<close>) or comes back to a visited identity (\<open>False\<close>).
\<close>

function chain_ends :: "(string \<times> string option) list \<Rightarrow> string list \<Rightarrow> string \<Rightarrow> bool" where
  "chain_ends relations visited current =
     (if current \<in> set visited then False
      else (case dict_by fst relations current of
              Some (_, Some p) \<Rightarrow> chain_ends relations (current # visited) p
            | _ \<Rightarrow> True))"
  by pat_completeness auto

termination chain_ends
proof (relation "measure (\<lambda>(rel, visited, _). length (filter (\<lambda>t. fst t \<notin> set visited) rel))",
    goal_cases)
  case 1
  show ?case by simp
next
  case (2 relations visited current x2 x y p)
  then have "x2 \<in> set relations \<and> fst x2 = current"
    by (auto simp: dict_by_def dest!: lookup_by_Some)
  with 2 show ?case
    using filter_visited_less [of x2 relations fst visited] by simp
qed

declare task_lineage_from.simps [simp del] chain_ends.simps [simp del]

definition validate_acyclic_supersession :: "(string \<times> string option) list \<Rightarrow> string \<Rightarrow> unit result" where
  "validate_acyclic_supersession relations relation_name =
     require (\<forall>identity\<in>set (map fst relations). chain_ends relations [] identity)
       (relation_name @ '' supersession must be acyclic'')"

text \<open>The two loops of \<open>M2JobExecutionRoot.__post_init__\<close> over its tasks and assignments.\<close>

definition check_root_task :: "M2JobExecutionRoot \<Rightarrow> TaskState \<Rightarrow> unit result" where
  "check_root_task r t =
     and_then (require (td_job_id (ts_definition t) = jr_job_id r)
        ''task definition must belong to its job execution root'') (\<lambda>_.
     case td_supersedes_task_id (ts_definition t) of
       None \<Rightarrow> Inr ()
     | Some predecessor_id \<Rightarrow>
         (case root_task r predecessor_id of
            None \<Rightarrow> Inl (ValueError ''superseded task must exist in the same job execution root'')
          | Some predecessor \<Rightarrow>
              require (\<not> td_source_revision (ts_definition predecessor) > td_source_revision (ts_definition t))
                ''task cannot supersede a newer source revision''))"

definition check_root_assignment :: "M2JobExecutionRoot \<Rightarrow> AssignmentState \<Rightarrow> unit result" where
  "check_root_assignment r a =
     and_then (require (as_job_id a = jr_job_id r)
        ''assignment must belong to its job execution root'') (\<lambda>_.
     case root_task r (as_task_id a) of
       None \<Rightarrow> Inl (ValueError ''assignment must reference a task in its job execution root'')
     | Some task \<Rightarrow>
         and_then (require (as_task_definition_version a = td_definition_version (ts_definition task))
            ''assignment task definition version must be exact'') (\<lambda>_.
         case as_supersedes_assignment_id a of
           None \<Rightarrow> Inr ()
         | Some predecessor_id \<Rightarrow>
             (case root_assignment r predecessor_id of
                None \<Rightarrow> Inl (ValueError ''superseded assignment must exist in the same job execution root'')
              | Some predecessor \<Rightarrow>
                  require (task_lineage_contains r (ts_task_id task) (as_task_id predecessor))
                    ''superseded assignment must use a compatible task lineage'')))"

definition M2JobExecutionRoot_init :: "M2JobExecutionRoot \<Rightarrow> M2JobExecutionRoot result" where
  "M2JobExecutionRoot_init x =
     and_then (nonblank (jr_job_id x) ''job_id'') (\<lambda>jid.
     and_then (require (0 \<le> jr_job_execution_revision x) ''job_execution_revision must be non-negative'') (\<lambda>_.
     and_then (require (distinct (map ts_task_id (jr_tasks x))) ''tasks identities must be unique'') (\<lambda>_.
     and_then (require (distinct (map as_assignment_id (jr_assignments x)))
        ''assignments identities must be unique'') (\<lambda>_.
     let r = x\<lparr>jr_job_id := jid, jr_tasks := sort_key ts_task_id (jr_tasks x),
               jr_assignments := sort_key as_assignment_id (jr_assignments x)\<rparr>
     in and_then (check_all (check_root_task r) (jr_tasks r)) (\<lambda>_.
        and_then (check_all (check_root_assignment r) (jr_assignments r)) (\<lambda>_.
        and_then (validate_acyclic_supersession
           (map (\<lambda>t. (ts_task_id t, td_supersedes_task_id (ts_definition t))) (jr_tasks r)) ''task'') (\<lambda>_.
        and_then (validate_acyclic_supersession
           (map (\<lambda>a. (as_assignment_id a, as_supersedes_assignment_id a)) (jr_assignments r)) ''assignment'') (\<lambda>_.
        Inr r))))))))"

section \<open>The registry, the ledger and the reduction scope\<close>

record WorkerIdentityRegistry =
  wr_worker_ids :: "string list"
  wr_registry_revision :: int

definition WorkerIdentityRegistry_init :: "WorkerIdentityRegistry \<Rightarrow> WorkerIdentityRegistry result" where
  "WorkerIdentityRegistry_init x =
     and_then (traverse (\<lambda>i. nonblank i ''worker_id'') (wr_worker_ids x)) (\<lambda>ids.
     and_then (unique ids ''worker_ids'') (\<lambda>ids'.
     and_then (require (0 \<le> wr_registry_revision x) ''registry_revision must be non-negative'') (\<lambda>_.
     Inr (x\<lparr>wr_worker_ids := ids'\<rparr>))))"

record ProcessedEventLedger =
  lg_receipts :: "ProcessedEventReceipt list"

abbreviation rc_event_id :: "ProcessedEventReceipt \<Rightarrow> string" where
  "rc_event_id r \<equiv> fe_event_id (rc_event r)"

definition ProcessedEventLedger_init :: "ProcessedEventLedger \<Rightarrow> ProcessedEventLedger result" where
  "ProcessedEventLedger_init x =
     and_then (require (distinct (map rc_event_id (lg_receipts x)))
        ''processed event identities must be unique'') (\<lambda>_.
     and_then (require (distinct (map rc_server_event_id (lg_receipts x)))
        ''processed server event identities must be unique'') (\<lambda>_.
     Inr (x\<lparr>lg_receipts := sort_key rc_event_id (lg_receipts x)\<rparr>)))"

definition ledger_receipt :: "ProcessedEventLedger \<Rightarrow> string \<Rightarrow> ProcessedEventReceipt option" where
  "ledger_receipt l event_id = lookup_by rc_event_id event_id (lg_receipts l)"

record M2ReductionScope =
  sc_publications :: "M1HandoffPublication list"
  sc_worker_registry :: WorkerIdentityRegistry
  sc_job_execution_roots :: "M2JobExecutionRoot list"
  sc_plan_day_roots :: "PlanDayRoot list"
  sc_directive_roots :: "DirectiveRoot list"
  sc_processed_events :: ProcessedEventLedger

abbreviation worker_ids :: "M2ReductionScope \<Rightarrow> string list" where
  "worker_ids s \<equiv> wr_worker_ids (sc_worker_registry s)"

definition tasks :: "M2ReductionScope \<Rightarrow> TaskState list" where
  "tasks s = sort_key ts_task_id (concat (map jr_tasks (sc_job_execution_roots s)))"

definition assignments :: "M2ReductionScope \<Rightarrow> AssignmentState list" where
  "assignments s = sort_key as_assignment_id (concat (map jr_assignments (sc_job_execution_roots s)))"

definition job_execution :: "M2ReductionScope \<Rightarrow> string \<Rightarrow> M2JobExecutionRoot option" where
  "job_execution s k = lookup_by jr_job_id k (sc_job_execution_roots s)"

definition plan_day :: "M2ReductionScope \<Rightarrow> string \<Rightarrow> PlanDayRoot option" where
  "plan_day s k = lookup_by pd_plan_day_id k (sc_plan_day_roots s)"

definition task :: "M2ReductionScope \<Rightarrow> string \<Rightarrow> TaskState option" where
  "task s k = lookup_by ts_task_id k (tasks s)"

definition assignment :: "M2ReductionScope \<Rightarrow> string \<Rightarrow> AssignmentState option" where
  "assignment s k = lookup_by as_assignment_id k (assignments s)"

definition directive :: "M2ReductionScope \<Rightarrow> string \<Rightarrow> DirectiveRoot option" where
  "directive s k = lookup_by dr_directive_id k (sc_directive_roots s)"

definition receipt :: "M2ReductionScope \<Rightarrow> string \<Rightarrow> ProcessedEventReceipt option" where
  "receipt s event_id = ledger_receipt (sc_processed_events s) event_id"

definition directive_stream_key :: "DirectiveRoot \<Rightarrow> string \<times> string \<times> string" where
  "directive_stream_key d =
     (case dr_plan_day_id d of
        Some p \<Rightarrow> (dr_worker_id d, ''PLAN_DAY'', p)
      | None \<Rightarrow>
     (case dr_assignment_id d of
        Some a \<Rightarrow> (dr_worker_id d, ''ASSIGNMENT'', a)
      | None \<Rightarrow>
     (case dr_task_id d of
        Some t \<Rightarrow> (dr_worker_id d, ''TASK'', t)
      | None \<Rightarrow>
     (case dr_job_id d of
        Some j \<Rightarrow> (dr_worker_id d, ''JOB'', j)
      | None \<Rightarrow> (dr_worker_id d, ''WORKER'', dr_worker_id d)))))"

definition resolved_directive_job :: "M2ReductionScope \<Rightarrow> DirectiveRoot \<Rightarrow> string option" where
  "resolved_directive_job s d =
     (case dr_job_id d of
        Some j \<Rightarrow> Some j
      | None \<Rightarrow>
     (case Option.bind (dr_task_id d) (task s) of
        Some t \<Rightarrow> Some (td_job_id (ts_definition t))
      | None \<Rightarrow> map_option as_job_id (Option.bind (dr_assignment_id d) (assignment s))))"

text \<open>\<open>a is None or b is None or a == b\<close>.\<close>

definition compatible :: "'a option \<Rightarrow> 'a option \<Rightarrow> bool" where
  "compatible a b \<longleftrightarrow> a = None \<or> b = None \<or> a = b"

definition directive_scopes_compatible :: "M2ReductionScope \<Rightarrow> DirectiveRoot \<Rightarrow> DirectiveRoot \<Rightarrow> bool" where
  "directive_scopes_compatible s predecessor successor \<longleftrightarrow>
     compatible (resolved_directive_job s predecessor) (resolved_directive_job s successor) \<and>
     compatible (dr_task_id predecessor) (dr_task_id successor) \<and>
     compatible (dr_assignment_id predecessor) (dr_assignment_id successor) \<and>
     compatible (dr_plan_day_id predecessor) (dr_plan_day_id successor)"

section \<open>Authority checks on a directive\<close>

text \<open>The assignments that give a directive without an assignment its execution context.\<close>

definition directive_context_matches ::
    "M2ReductionScope \<Rightarrow> DirectiveRoot \<Rightarrow> TaskState option \<Rightarrow> AssignmentState list" where
  "directive_context_matches s d t =
     filter (\<lambda>candidate.
        Some (as_job_id candidate) =
          (case t of Some tk \<Rightarrow> Some (td_job_id (ts_definition tk)) | None \<Rightarrow> dr_job_id d) \<and>
        (case t of
           None \<Rightarrow> True
         | Some tk \<Rightarrow> as_task_id candidate = ts_task_id tk \<and>
             as_task_definition_version candidate = td_definition_version (ts_definition tk)) \<and>
        dr_worker_id d \<in> set (as_member_worker_ids candidate) \<and>
        (case dr_plan_day_id d of None \<Rightarrow> True | Some p \<Rightarrow> p \<in> set (as_plan_day_ids candidate)))
       (assignments s)"

definition directive_scope_errors :: "M2ReductionScope \<Rightarrow> DirectiveRoot \<Rightarrow> string list" where
  "directive_scope_errors s d =
     (let t = Option.bind (dr_task_id d) (task s);
          a = Option.bind (dr_assignment_id d) (assignment s);
          p = Option.bind (dr_plan_day_id d) (plan_day s);
          job_errors =
            (case dr_job_id d of
               None \<Rightarrow> []
             | Some j \<Rightarrow> if job_execution s j = None then [''CROSS_JOB_DIRECTIVE''] else []) @
            (if dr_worker_id d \<notin> set (worker_ids s) then [''UNKNOWN_DIRECTIVE_WORKER''] else []);
          task_errors =
            (case t of
               None \<Rightarrow> if dr_task_id d \<noteq> None then [''UNKNOWN_DIRECTIVE_TASK''] else []
             | Some tk \<Rightarrow>
                 if dr_job_id d \<noteq> None \<and> Some (td_job_id (ts_definition tk)) \<noteq> dr_job_id d
                 then [''CROSS_JOB_DIRECTIVE_TASK''] else []);
          assignment_errors =
            (case a of
               None \<Rightarrow> if dr_assignment_id d \<noteq> None then [''UNKNOWN_DIRECTIVE_ASSIGNMENT''] else []
             | Some asg \<Rightarrow>
                 (if dr_job_id d \<noteq> None \<and> Some (as_job_id asg) \<noteq> dr_job_id d
                  then [''CROSS_JOB_DIRECTIVE_ASSIGNMENT''] else []) @
                 (if \<exists>m\<in>set (as_member_worker_ids asg). m \<notin> set (worker_ids s)
                  then [''UNKNOWN_DIRECTIVE_ASSIGNMENT_MEMBER''] else []) @
                 (if dr_task_id d \<noteq> None \<and> Some (as_task_id asg) \<noteq> dr_task_id d
                  then [''CROSS_TASK_DIRECTIVE_ASSIGNMENT''] else []) @
                 (case t of
                    None \<Rightarrow> []
                  | Some tk \<Rightarrow>
                      if as_task_definition_version asg \<noteq> td_definition_version (ts_definition tk)
                      then [''DIRECTIVE_TASK_DEFINITION_VERSION_MISMATCH''] else []) @
                 (if dr_worker_id d \<notin> set (as_member_worker_ids asg)
                  then [''DIRECTIVE_WORKER_NOT_ASSIGNED''] else []));
          plan_errors =
            (case p of
               None \<Rightarrow> if dr_plan_day_id d \<noteq> None then [''UNKNOWN_DIRECTIVE_PLAN_DAY''] else []
             | Some pl \<Rightarrow>
                 (if pd_worker_id pl \<noteq> dr_worker_id d then [''DIRECTIVE_PLAN_DAY_WORKER_MISMATCH''] else []) @
                 (case a of
                    None \<Rightarrow> []
                  | Some asg \<Rightarrow>
                      if pd_plan_day_id pl \<notin> set (as_plan_day_ids asg)
                      then [''CROSS_PLAN_DAY_DIRECTIVE_ASSIGNMENT''] else []));
          context_errors =
            (if a = None \<and> (t \<noteq> None \<or> (dr_job_id d \<noteq> None \<and> dr_plan_day_id d \<noteq> None)) then
               (case directive_context_matches s d t of
                  [] \<Rightarrow> [''DIRECTIVE_EXECUTION_CONTEXT_REQUIRED'']
                | [_] \<Rightarrow> []
                | _ \<Rightarrow> [''AMBIGUOUS_DIRECTIVE_EXECUTION_CONTEXT''])
             else [])
      in sorted_set (job_errors @ task_errors @ assignment_errors @ plan_errors @ context_errors))"

text \<open>\<open>event_value is None or event_value == directive_value\<close>.\<close>

definition agrees :: "'a option \<Rightarrow> 'a option \<Rightarrow> bool" where
  "agrees event_value directive_value \<longleftrightarrow> event_value = None \<or> event_value = directive_value"

definition directive_worker_informed :: "M2ReductionScope \<Rightarrow> string \<Rightarrow> bool" where
  "directive_worker_informed s directive_id =
     (case directive s directive_id of
        None \<Rightarrow> False
      | Some d \<Rightarrow>
          dr_delivery_evidence d = ACKED \<and>
          (case dr_acknowledged_event_id d of
             None \<Rightarrow> False
           | Some ack \<Rightarrow>
               directive_scope_errors s d = [] \<and>
               (case receipt s ack of
                  None \<Rightarrow> False
                | Some r \<Rightarrow>
                    rc_outcome r = ReductionOutcome.APPLIED \<and>
                    fe_event_type (rc_event r) = FieldEventType.WORKER_ACKNOWLEDGED \<and>
                    fe_directive_id (rc_event r) = Some (dr_directive_id d) \<and>
                    fe_actor_id (rc_event r) = dr_worker_id d \<and>
                    agrees (fe_job_id (rc_event r)) (dr_job_id d) \<and>
                    agrees (fe_task_id (rc_event r)) (dr_task_id d) \<and>
                    agrees (fe_assignment_id (rc_event r)) (dr_assignment_id d) \<and>
                    agrees (fe_plan_day_id (rc_event r)) (dr_plan_day_id d))))"

text \<open>
  The loop of \<open>_directive_supersedes\<close>. Every turn visits an identity not visited before, and from
  the second turn on the current directive is one of the scope's.
\<close>

function directive_supersedes_from ::
    "DirectiveRoot list \<Rightarrow> string \<Rightarrow> string list \<Rightarrow> DirectiveRoot \<Rightarrow> bool" where
  "directive_supersedes_from ds predecessor_id visited current =
     (case dr_supersedes_directive_id current of
        None \<Rightarrow> False
      | Some sid \<Rightarrow>
          if dr_directive_id current \<in> set visited then False
          else if sid = predecessor_id then True
          else (case lookup_by dr_directive_id sid ds of
                  None \<Rightarrow> False
                | Some predecessor \<Rightarrow>
                    directive_supersedes_from ds predecessor_id (dr_directive_id current # visited) predecessor))"
  by pat_completeness auto

termination directive_supersedes_from
proof (relation "measure (\<lambda>(ds, _, visited, current).
      length (filter (\<lambda>d. dr_directive_id d \<notin> set visited) ds) + (if current \<in> set ds then 0 else 1))",
    goal_cases)
  case 1
  show ?case by simp
next
  case (2 ds predecessor_id visited current sid predecessor)
  then have "predecessor \<in> set ds" by (auto dest: lookup_by_Some)
  moreover have "length (filter (\<lambda>d. dr_directive_id d \<noteq> dr_directive_id current \<and> dr_directive_id d \<notin> set visited) ds)
      \<le> length (filter (\<lambda>d. dr_directive_id d \<notin> set visited) ds)"
    by (induction ds) auto
  ultimately show ?case
    using 2 filter_visited_less [of current ds dr_directive_id visited] by auto
qed

declare directive_supersedes_from.simps [simp del]

definition directive_supersedes :: "M2ReductionScope \<Rightarrow> DirectiveRoot \<Rightarrow> string \<Rightarrow> bool" where
  "directive_supersedes s d predecessor_id =
     directive_supersedes_from (sc_directive_roots s) predecessor_id [] d"

definition later_governing_directive_exists :: "M2ReductionScope \<Rightarrow> DirectiveRoot \<Rightarrow> bool" where
  "later_governing_directive_exists s d \<longleftrightarrow>
     (\<exists>candidate\<in>set (sc_directive_roots s).
        dr_issuance_sequence candidate > dr_issuance_sequence d \<and>
        directive_stream_key candidate = directive_stream_key d \<and>
        directive_scope_errors s candidate = [] \<and>
        (directive_supersedes s candidate (dr_directive_id d) \<or>
         (dr_directive_class candidate = ACTION \<and>
            directive_worker_informed s (dr_directive_id candidate)) \<or>
         (dr_directive_class candidate = STOP \<and>
            (dr_stop_in_force candidate \<or> directive_worker_informed s (dr_directive_id candidate)))))"

section \<open>Construction of a scope\<close>

definition publication_key :: "M1HandoffPublication \<Rightarrow> string \<times> int \<times> string" where
  "publication_key p = (hp_job_id (hb_projection p), hp_source_revision (hb_projection p), hb_handoff_id p)"

definition check_task_publication :: "M2ReductionScope \<Rightarrow> TaskState \<Rightarrow> unit result" where
  "check_task_publication s t =
     require (length (filter (\<lambda>p.
           hp_job_id (hb_projection p) = td_job_id (ts_definition t) \<and>
           hp_source_revision (hb_projection p) = td_source_revision (ts_definition t) \<and>
           hb_handoff_id p = td_source_handoff_id (ts_definition t)) (sc_publications s)) = 1)
       ''task definition must reference exactly one canonical M1 publication''"

definition check_assignment_workers :: "M2ReductionScope \<Rightarrow> AssignmentState \<Rightarrow> unit result" where
  "check_assignment_workers s a =
     and_then (require (set (as_member_worker_ids a) \<subseteq> set (worker_ids s))
        ''assignment member must use the canonical worker namespace'') (\<lambda>_.
     require (case as_lead_worker_id a of None \<Rightarrow> True | Some w \<Rightarrow> w \<in> set (worker_ids s))
        ''assignment lead must use the canonical worker namespace'')"

definition check_directive_predecessor :: "M2ReductionScope \<Rightarrow> DirectiveRoot \<Rightarrow> unit result" where
  "check_directive_predecessor s d =
     (case dr_supersedes_directive_id d of
        None \<Rightarrow> Inr ()
      | Some pid \<Rightarrow>
          (case directive s pid of
             None \<Rightarrow> Inl (ValueError ''superseded directive must exist in reduction scope'')
           | Some p \<Rightarrow>
               and_then (require (dr_worker_id p = dr_worker_id d)
                  ''superseded directive must use the same worker'') (\<lambda>_.
               and_then (require (directive_stream_key p = directive_stream_key d \<and>
                     directive_scopes_compatible s p d)
                  ''superseded directive must use a compatible scope'') (\<lambda>_.
               require (dr_issuance_sequence p < dr_issuance_sequence d)
                  ''superseded directive must have an earlier issuance sequence''))))"

text \<open>The loop over the directives, with \<open>seen_sequences\<close>.\<close>

fun check_directives ::
    "M2ReductionScope \<Rightarrow> ((string \<times> string \<times> string) \<times> int) list \<Rightarrow> DirectiveRoot list \<Rightarrow> unit result" where
  "check_directives s seen [] = Inr ()"
| "check_directives s seen (d # ds) =
     (let sequence_key = (directive_stream_key d, dr_issuance_sequence d)
      in and_then (require (sequence_key \<notin> set seen)
            ''issuance_sequence must be unique within a directive stream'') (\<lambda>_.
         and_then (check_directive_predecessor s d) (\<lambda>_.
         check_directives s (sequence_key # seen) ds)))"

definition scope_sorted :: "M2ReductionScope \<Rightarrow> M2ReductionScope" where
  "scope_sorted x =
     x\<lparr>sc_publications := sort_key publication_key (sc_publications x),
       sc_job_execution_roots := sort_key jr_job_id (sc_job_execution_roots x),
       sc_plan_day_roots := sort_key pd_plan_day_id (sc_plan_day_roots x),
       sc_directive_roots := sort_key dr_directive_id (sc_directive_roots x)\<rparr>"

definition M2ReductionScope_init :: "M2ReductionScope \<Rightarrow> M2ReductionScope result" where
  "M2ReductionScope_init x =
     and_then (require (distinct (map publication_key (sc_publications x)))
        ''publication identities must be unique'') (\<lambda>_.
     and_then (require (distinct (map jr_job_id (sc_job_execution_roots x)))
        ''job_execution_roots identities must be unique'') (\<lambda>_.
     and_then (require (distinct (map pd_plan_day_id (sc_plan_day_roots x)))
        ''plan_day_roots identities must be unique'') (\<lambda>_.
     and_then (require (distinct (map dr_directive_id (sc_directive_roots x)))
        ''directive_roots identities must be unique'') (\<lambda>_.
     let s = scope_sorted x
     in and_then (require (distinct (map ts_task_id (tasks s)))
           ''task identities must be globally unique in reduction scope'') (\<lambda>_.
        and_then (require (distinct (map as_assignment_id (assignments s)))
           ''assignment identities must be globally unique in reduction scope'') (\<lambda>_.
        and_then (check_all (check_task_publication s) (tasks s)) (\<lambda>_.
        and_then (require (\<forall>p\<in>set (sc_plan_day_roots s). pd_worker_id p \<in> set (worker_ids s))
           ''plan day worker must use the canonical worker namespace'') (\<lambda>_.
        and_then (require (\<forall>d\<in>set (sc_directive_roots s). dr_worker_id d \<in> set (worker_ids s))
           ''directive worker must use the canonical worker namespace'') (\<lambda>_.
        and_then (check_all (check_assignment_workers s) (assignments s)) (\<lambda>_.
        and_then (check_directives s [] (sc_directive_roots s)) (\<lambda>_.
        Inr s)))))))))))"

section \<open>What a reduction returns\<close>

datatype RootState =
    JobRoot M2JobExecutionRoot
  | PlanRoot PlanDayRoot
  | DirRoot DirectiveRoot

record RootDelta =
  rd_root_kind :: RootKind
  rd_root_id :: string
  rd_expected_revision :: int
  rd_resulting_revision :: int
  rd_next_root :: RootState

text \<open>The identity and revision that \<open>RootDelta.__post_init__\<close> expects of a root of the kind.\<close>

fun root_identity_revision :: "RootKind \<Rightarrow> RootState \<Rightarrow> (string \<times> int) option" where
  "root_identity_revision JOB_EXECUTION (JobRoot r) = Some (jr_job_id r, jr_job_execution_revision r)"
| "root_identity_revision PLAN_DAY (PlanRoot r) = Some (pd_plan_day_id r, pd_plan_day_revision r)"
| "root_identity_revision DIRECTIVE (DirRoot r) = Some (dr_directive_id r, dr_directive_revision r)"
| "root_identity_revision _ _ = None"

definition RootDelta_init :: "RootDelta \<Rightarrow> RootDelta result" where
  "RootDelta_init x =
     and_then (nonblank (rd_root_id x) ''root_id'') (\<lambda>rid.
     and_then (require (0 \<le> rd_expected_revision x) ''expected_revision must be non-negative'') (\<lambda>_.
     and_then (require (rd_resulting_revision x = rd_expected_revision x + 1)
        ''resulting_revision must increment exactly once'') (\<lambda>_.
     case root_identity_revision (rd_root_kind x) (rd_next_root x) of
       None \<Rightarrow> Inl (ValueError ''root_kind must match next_root type'')
     | Some (identity, revision) \<Rightarrow>
         and_then (require (identity = rid) ''root_id must match next_root identity'') (\<lambda>_.
         and_then (require (revision = rd_resulting_revision x)
            ''next_root revision must match resulting_revision'') (\<lambda>_.
         Inr (x\<lparr>rd_root_id := rid\<rparr>))))))"

record Reduction =
  re_state :: M2ReductionScope
  re_outcome :: ReductionOutcome
  re_root_deltas :: "RootDelta list"
  re_appended_receipt :: "ProcessedEventReceipt option"
  re_emitted_effects :: "SystemEffect list"
  re_response_effects :: "SystemEffect list"
  re_server_event_id :: "string option"
  re_missing_requirements :: "string list"
  re_reason_codes :: "string list"
  re_replayed :: bool

datatype ExplicitInput = FieldInput FieldEventInput | SignalInput SystemSignal

end
