(* ===== verification/Field_Reducer.thy ===== *)
theory Field_Reducer
  imports Field_Scope
begin

text \<open>
  The pure reducer of the canonical M2 field contract, \<open>field/reducer.py\<close>: the reference checks,
  the sixteen event handlers, the system signals, and the finalisation that turns the difference
  between two scopes into revisioned root deltas.

  A handler returns the next scope, the outcome, the effects, the missing requirements and the
  reason codes, or raises. Every \<open>dataclasses.replace\<close> of the source is the record update followed
  by the \<open>C_init\<close> of its class; every \<open>assert x is not None\<close> is \<open>assert_some\<close>. A look-up by an
  optional identity finds nothing when the identity is absent.
\<close>

type_synonym handled =
  "(M2ReductionScope \<times> ReductionOutcome \<times> SystemEffect list \<times> string list \<times> string list)"

section \<open>Effects and small helpers\<close>

definition effect :: "FieldEventEnvelope \<Rightarrow> EffectType \<Rightarrow> (string \<times> string) list \<Rightarrow> SystemEffect result" where
  "effect e effect_type details =
     SystemEffect_init \<lparr>ef_effect_type = effect_type, ef_source_id = fe_event_id e,
       ef_plan_day_id = fe_plan_day_id e, ef_job_id = fe_job_id e, ef_task_id = fe_task_id e,
       ef_assignment_id = fe_assignment_id e, ef_stage_id = fe_stage_id e,
       ef_directive_id = fe_directive_id e, ef_actor_id = Some (fe_actor_id e), ef_details = details\<rparr>"

text \<open>The effects \<open>_effect(event, t)\<close> without details, one for each type.\<close>

definition effects :: "FieldEventEnvelope \<Rightarrow> EffectType list \<Rightarrow> SystemEffect list result" where
  "effects e types = traverse (\<lambda>t. effect e t []) types"

definition signal_effect ::
    "SystemSignal \<Rightarrow> EffectType \<Rightarrow> string option \<Rightarrow> string option \<Rightarrow> string option \<Rightarrow> string option \<Rightarrow>
     (string \<times> string) list \<Rightarrow> SystemEffect result" where
  "signal_effect sig effect_type plan_day_id task_id assignment_id directive_id details =
     SystemEffect_init \<lparr>ef_effect_type = effect_type, ef_source_id = sy_signal_id sig,
       ef_plan_day_id = plan_day_id, ef_job_id = None, ef_task_id = task_id,
       ef_assignment_id = assignment_id, ef_stage_id = None,
       ef_directive_id = directive_id, ef_actor_id = None, ef_details = details\<rparr>"

text \<open>
  \<open>task.status is SAFE_HOLD or task.blocked_pending_resolution or any(stage.status is SAFE_HOLD)\<close>,
  which the source writes out in four places.
\<close>

definition safe_hold_active :: "TaskState \<Rightarrow> bool" where
  "safe_hold_active t \<longleftrightarrow>
     ts_status t = TaskStatus.SAFE_HOLD \<or> ts_blocked_pending_resolution t \<or>
     (\<exists>stage\<in>set (ts_stages t). sg_status stage = StageStatus.SAFE_HOLD)"

definition ordinary_task_status :: "TaskState \<Rightarrow> TaskStatus \<Rightarrow> TaskState result" where
  "ordinary_task_status t status =
     (if safe_hold_active t then Inr t else TaskState_init (t\<lparr>ts_status := status\<rparr>))"

text \<open>
  \<open>by_id = {item.evidence_id: item}\<close> then \<open>setdefault\<close>, as an association list in insertion order
  (the last of the existing items with an identity, then the first of the submitted ones).
\<close>

fun dict_assign :: "('k \<times> 'v) list \<Rightarrow> 'k \<Rightarrow> 'v \<Rightarrow> ('k \<times> 'v) list" where
  "dict_assign [] k v = [(k, v)]"
| "dict_assign ((k', v') # d) k v = (if k' = k then (k, v) # d else (k', v') # dict_assign d k v)"

definition dict_setdefault :: "('k \<times> 'v) list \<Rightarrow> 'k \<Rightarrow> 'v \<Rightarrow> ('k \<times> 'v) list" where
  "dict_setdefault d k v = (if k \<in> fst ` set d then d else dict_assign d k v)"

definition merge_evidence :: "EvidenceItem list \<Rightarrow> EvidenceItem list \<Rightarrow> EvidenceItem list" where
  "merge_evidence existing submitted =
     (let by_id = foldl (\<lambda>d item. dict_assign d (ev_evidence_id item) item) [] existing;
          by_id' = foldl (\<lambda>d item. dict_setdefault d (ev_evidence_id item) item) by_id submitted
      in sort_key ev_evidence_id (map snd by_id'))"

text \<open>\<open>tuple(replace(stage, **changes) if cond(stage) else stage for stage in stages)\<close>.\<close>

definition replace_stages ::
    "(StageState \<Rightarrow> bool) \<Rightarrow> (StageState \<Rightarrow> StageState) \<Rightarrow> StageState list \<Rightarrow> StageState list result" where
  "replace_stages cond changes stages =
     traverse (\<lambda>stage. if cond stage then StageState_init (changes stage) else Inr stage) stages"

definition safe_hold_task :: "TaskState \<Rightarrow> string option \<Rightarrow> string option \<Rightarrow> TaskState result" where
  "safe_hold_task t directive_id stage_id =
     and_then (replace_stages (\<lambda>stage. stage_id = Some (sg_stage_id stage))
        (\<lambda>stage. stage\<lparr>sg_status := StageStatus.SAFE_HOLD\<rparr>) (ts_stages t)) (\<lambda>stages.
     TaskState_init (t\<lparr>ts_status := TaskStatus.SAFE_HOLD, ts_stages := stages,
       ts_safe_hold_directive_id :=
         (if truthy directive_id then directive_id else ts_safe_hold_directive_id t),
       ts_blocked_pending_resolution := True, ts_execution_authorized := False\<rparr>))"

section \<open>Replacing a root of the scope\<close>

definition with_plan_day :: "M2ReductionScope \<Rightarrow> PlanDayRoot \<Rightarrow> M2ReductionScope result" where
  "with_plan_day s updated =
     M2ReductionScope_init (s\<lparr>sc_plan_day_roots := put_by pd_plan_day_id updated (sc_plan_day_roots s)\<rparr>)"

definition with_job_execution :: "M2ReductionScope \<Rightarrow> M2JobExecutionRoot \<Rightarrow> M2ReductionScope result" where
  "with_job_execution s updated =
     M2ReductionScope_init
       (s\<lparr>sc_job_execution_roots := put_by jr_job_id updated (sc_job_execution_roots s)\<rparr>)"

definition with_task :: "M2ReductionScope \<Rightarrow> TaskState \<Rightarrow> M2ReductionScope result" where
  "with_task s updated =
     (case job_execution s (td_job_id (ts_definition updated)) of
        None \<Rightarrow> Inl (ValueError ''updated task must belong to one loaded job execution root'')
      | Some root \<Rightarrow>
          and_then (require (root_task root (ts_task_id updated) \<noteq> None)
             ''updated task must belong to one loaded job execution root'') (\<lambda>_.
          and_then (M2JobExecutionRoot_init
             (root\<lparr>jr_tasks := put_by ts_task_id updated (jr_tasks root)\<rparr>)) (\<lambda>updated_root.
          with_job_execution s updated_root)))"

definition with_assignment :: "M2ReductionScope \<Rightarrow> AssignmentState \<Rightarrow> M2ReductionScope result" where
  "with_assignment s updated =
     (case job_execution s (as_job_id updated) of
        None \<Rightarrow> Inl (ValueError ''updated assignment must belong to one loaded job execution root'')
      | Some root \<Rightarrow>
          and_then (require (root_assignment root (as_assignment_id updated) \<noteq> None)
             ''updated assignment must belong to one loaded job execution root'') (\<lambda>_.
          and_then (M2JobExecutionRoot_init
             (root\<lparr>jr_assignments := put_by as_assignment_id updated (jr_assignments root)\<rparr>)) (\<lambda>updated_root.
          with_job_execution s updated_root)))"

definition with_directive :: "M2ReductionScope \<Rightarrow> DirectiveRoot \<Rightarrow> M2ReductionScope result" where
  "with_directive s updated =
     M2ReductionScope_init
       (s\<lparr>sc_directive_roots := put_by dr_directive_id updated (sc_directive_roots s)\<rparr>)"

section \<open>Reference errors\<close>

definition completion_events :: "FieldEventType list" where
  "completion_events = [TASK_COMPLETION_REPORTED, STAGE_COMPLETION_REPORTED, VISIT_COMPLETION_REPORTED]"

definition event_scope_job_id :: "M2ReductionScope \<Rightarrow> FieldEventEnvelope \<Rightarrow> string option" where
  "event_scope_job_id s e =
     (case fe_job_id e of Some j \<Rightarrow> Some j | None \<Rightarrow>
     (case Option.bind (fe_task_id e) (task s) of Some t \<Rightarrow> Some (td_job_id (ts_definition t)) | None \<Rightarrow>
     (case Option.bind (fe_assignment_id e) (assignment s) of Some a \<Rightarrow> Some (as_job_id a) | None \<Rightarrow>
     (case Option.bind (fe_directive_id e) (directive s) of Some d \<Rightarrow> dr_job_id d | None \<Rightarrow> None))))"

definition plan_events :: "FieldEventType list" where
  "plan_events = [DAY_PLAN_ACTIVATED, START_DELAY_REPORTED, START_EXCEPTION_REPORTED,
     UNAVAILABLE_TODAY_REPORTED, DAY_CLOSE_REPORTED]"

definition task_assignment_events :: "FieldEventType list" where
  "task_assignment_events = [WORK_START_BLOCKED, SITE_PROBLEM_REPORTED, TASK_COMPLETION_REPORTED,
     STAGE_COMPLETION_REPORTED, TECHNICAL_WAIT_REPORTED, VISIT_COMPLETION_REPORTED,
     FieldEventType.COMPLETION_DISPUTED]"

text \<open>\<open>if cond: errors.append(code)\<close>.\<close>

definition report :: "bool \<Rightarrow> 'a \<Rightarrow> 'a list" where
  "report c x = (if c then [x] else [])"

definition required_reference_errors :: "FieldEventEnvelope \<Rightarrow> string list" where
  "required_reference_errors e =
     report (fe_event_type e \<in> set plan_events \<and> fe_plan_day_id e = None) ''PLAN_DAY_REQUIRED'' @
     (if fe_event_type e \<in> set task_assignment_events then
        report (fe_job_id e = None) ''JOB_REQUIRED'' @
        report (fe_plan_day_id e = None) ''PLAN_DAY_REQUIRED'' @
        report (fe_task_id e = None) ''TASK_REQUIRED'' @
        report (fe_assignment_id e = None) ''ASSIGNMENT_REQUIRED''
      else []) @
     report (fe_event_type e = STAGE_COMPLETION_REPORTED \<and> fe_stage_id e = None) ''STAGE_REQUIRED'' @
     report (fe_event_type e \<in> {WORKER_ACKNOWLEDGED, WORKER_ACTION_EXCEPTION} \<and> fe_directive_id e = None)
       ''DIRECTIVE_REQUIRED'' @
     report (fe_event_type e = FieldEventType.COMPLETION_DISPUTED \<and> fe_against_event_id e = None)
       ''AGAINST_EVENT_REQUIRED'' @
     report (fe_event_type e = FieldEventType.COMPLETION_DISPUTED \<and>
           \<not> (has_text (fe_reason_class e) \<or> has_text (fe_text e) \<or> fe_attachments e \<noteq> []))
       ''DISPUTE_REASON_OR_EVIDENCE_REQUIRED'' @
     report (fe_event_type e = WORK_START_BLOCKED \<and> \<not> has_text (fe_reason_class e))
       ''WORK_START_BLOCKED_REASON_REQUIRED'' @
     report (fe_event_type e = SITE_PROBLEM_REPORTED \<and> \<not> has_text (fe_text e) \<and> fe_attachments e = [])
       ''SITE_PROBLEM_EVIDENCE_REQUIRED''"

definition authority_matches :: "M2ReductionScope \<Rightarrow> FieldEventEnvelope \<Rightarrow> TaskState \<Rightarrow> AssignmentState list" where
  "authority_matches s e t =
     filter (\<lambda>candidate.
        as_task_id candidate = ts_task_id t \<and>
        as_job_id candidate = td_job_id (ts_definition t) \<and>
        as_task_definition_version candidate = td_definition_version (ts_definition t) \<and>
        fe_actor_id e \<in> set (as_member_worker_ids candidate) \<and>
        (\<forall>member\<in>set (as_member_worker_ids candidate). member \<in> set (worker_ids s)) \<and>
        (case fe_plan_day_id e of None \<Rightarrow> True | Some p \<Rightarrow> p \<in> set (as_plan_day_ids candidate)))
       (assignments s)"

text \<open>
  \<open>evidence_history\<close>: an item with the job, task and (for a processed event) assignment it was
  submitted for.
\<close>

definition evidence_history ::
    "M2ReductionScope \<Rightarrow> (EvidenceItem \<times> string option \<times> string option \<times> string option) list" where
  "evidence_history s =
     concat (map (\<lambda>t. map (\<lambda>item.
        (item, Some (td_job_id (ts_definition t)), Some (ts_task_id t), None)) (ts_evidence t)) (tasks s)) @
     concat (map (\<lambda>r. map (\<lambda>item.
        (item, event_scope_job_id s (rc_event r), fe_task_id (rc_event r), fe_assignment_id (rc_event r)))
          (fe_attachments (rc_event r))) (lg_receipts (sc_processed_events s)))"

definition evidence_errors :: "M2ReductionScope \<Rightarrow> FieldEventEnvelope \<Rightarrow> string list" where
  "evidence_errors s e =
     concat (map (\<lambda>submitted. concat (map (\<lambda>(prior, prior_job_id, prior_task_id, prior_assignment_id).
        if ev_evidence_id prior \<noteq> ev_evidence_id submitted then []
        else report (prior \<noteq> submitted) ''EVIDENCE_ID_CONFLICT'' @
             report (prior_job_id \<noteq> event_scope_job_id s e \<or> prior_task_id \<noteq> fe_task_id e \<or>
                   (prior_assignment_id \<noteq> None \<and> fe_assignment_id e \<noteq> None \<and>
                    prior_assignment_id \<noteq> fe_assignment_id e)) ''EVIDENCE_SCOPE_CONFLICT'')
        (evidence_history s))) (fe_attachments e))"

definition plan_reference_errors :: "M2ReductionScope \<Rightarrow> FieldEventEnvelope \<Rightarrow> string list" where
  "plan_reference_errors s e =
     (case Option.bind (fe_plan_day_id e) (plan_day s) of
        None \<Rightarrow> report (fe_plan_day_id e \<noteq> None) ''UNKNOWN_PLAN_DAY''
      | Some p \<Rightarrow> report (pd_worker_id p \<noteq> fe_actor_id e) ''PLAN_DAY_ACTOR_MISMATCH'')"

definition task_reference_errors :: "M2ReductionScope \<Rightarrow> FieldEventEnvelope \<Rightarrow> string list" where
  "task_reference_errors s e =
     (case Option.bind (fe_task_id e) (task s) of
        None \<Rightarrow> report (fe_task_id e \<noteq> None) ''UNKNOWN_TASK''
      | Some t \<Rightarrow> report (fe_job_id e \<noteq> None \<and> Some (td_job_id (ts_definition t)) \<noteq> fe_job_id e) ''CROSS_JOB_TASK'')"

definition assignment_reference_errors :: "M2ReductionScope \<Rightarrow> FieldEventEnvelope \<Rightarrow> string list" where
  "assignment_reference_errors s e =
     (case Option.bind (fe_assignment_id e) (assignment s) of
        None \<Rightarrow> report (fe_assignment_id e \<noteq> None) ''UNKNOWN_ASSIGNMENT''
      | Some a \<Rightarrow>
          report (fe_task_id e \<noteq> None \<and> Some (as_task_id a) \<noteq> fe_task_id e) ''CROSS_TASK_ASSIGNMENT'' @
          report (fe_job_id e \<noteq> None \<and> Some (as_job_id a) \<noteq> fe_job_id e) ''CROSS_JOB_ASSIGNMENT'' @
          report (fe_actor_id e \<notin> set (as_member_worker_ids a)) ''ACTOR_NOT_ASSIGNED'' @
          report (case fe_plan_day_id e of None \<Rightarrow> False | Some p \<Rightarrow> p \<notin> set (as_plan_day_ids a))
            ''CROSS_PLAN_DAY_ASSIGNMENT'' @
          (case Option.bind (fe_task_id e) (task s) of
             None \<Rightarrow> []
           | Some t \<Rightarrow> report (as_task_definition_version a \<noteq> td_definition_version (ts_definition t))
               ''TASK_DEFINITION_VERSION_MISMATCH'') @
          report (\<exists>member\<in>set (as_member_worker_ids a). member \<notin> set (worker_ids s))
            ''UNKNOWN_ASSIGNMENT_MEMBER'')"

definition resource_authority_errors :: "M2ReductionScope \<Rightarrow> FieldEventEnvelope \<Rightarrow> string list" where
  "resource_authority_errors s e =
     (case (Option.bind (fe_task_id e) (task s), Option.bind (fe_assignment_id e) (assignment s)) of
        (Some t, None) \<Rightarrow>
          if fe_event_type e = RESOURCE_MISSING_REPORTED then
            (case authority_matches s e t of
               [] \<Rightarrow> [''TASK_AUTHORITY_REQUIRED'']
             | [_] \<Rightarrow> []
             | _ \<Rightarrow> [''AMBIGUOUS_TASK_AUTHORITY''])
          else []
      | _ \<Rightarrow> [])"

definition stage_reference_errors :: "M2ReductionScope \<Rightarrow> FieldEventEnvelope \<Rightarrow> string list" where
  "stage_reference_errors s e =
     (case fe_stage_id e of
        None \<Rightarrow> []
      | Some sid \<Rightarrow>
          report (case Option.bind (fe_task_id e) (task s) of
                  None \<Rightarrow> True
                | Some t \<Rightarrow> \<forall>stage\<in>set (ts_stages t). sg_stage_id stage \<noteq> sid) ''UNKNOWN_OR_CROSS_TASK_STAGE'')"

definition directive_reference_errors :: "M2ReductionScope \<Rightarrow> FieldEventEnvelope \<Rightarrow> string list" where
  "directive_reference_errors s e =
     (case Option.bind (fe_directive_id e) (directive s) of
        None \<Rightarrow> report (fe_directive_id e \<noteq> None) ''UNKNOWN_DIRECTIVE''
      | Some d \<Rightarrow>
          directive_scope_errors s d @
          report (dr_worker_id d \<noteq> fe_actor_id e) ''DIRECTIVE_ACTOR_MISMATCH'' @
          report (fe_job_id e \<noteq> None \<and> dr_job_id d \<noteq> fe_job_id e) ''CROSS_JOB_DIRECTIVE'' @
          report (fe_task_id e \<noteq> None \<and> dr_task_id d \<noteq> fe_task_id e) ''CROSS_TASK_DIRECTIVE'' @
          report (fe_assignment_id e \<noteq> None \<and> dr_assignment_id d \<noteq> fe_assignment_id e)
            ''CROSS_ASSIGNMENT_DIRECTIVE'' @
          report (fe_plan_day_id e \<noteq> None \<and> dr_plan_day_id d \<noteq> fe_plan_day_id e)
            ''CROSS_PLAN_DAY_DIRECTIVE'')"

definition reference_errors :: "M2ReductionScope \<Rightarrow> FieldEventEnvelope \<Rightarrow> string list" where
  "reference_errors s e =
     sorted_set (
       report (fe_actor_id e \<notin> set (worker_ids s)) ''UNKNOWN_ACTOR'' @
       plan_reference_errors s e @
       report (case fe_job_id e of None \<Rightarrow> False | Some j \<Rightarrow> job_execution s j = None) ''CROSS_JOB_REFERENCE'' @
       task_reference_errors s e @
       assignment_reference_errors s e @
       resource_authority_errors s e @
       stage_reference_errors s e @
       directive_reference_errors s e @
       evidence_errors s e @
       required_reference_errors e)"

definition completion_rejection_effects ::
    "FieldEventEnvelope \<Rightarrow> string list \<Rightarrow> SystemEffect list result" where
  "completion_rejection_effects e reasons =
     (if fe_event_type e \<notin> set completion_events then Inr []
      else and_then (effect e EffectType.COMPLETION_REJECTED [(''reasons'', join '','' reasons)]) (\<lambda>x. Inr [x]))"

text \<open>\<open>event.reason_class in {item.value for item in E}\<close>.\<close>

definition reason_in :: "FieldEventEnvelope \<Rightarrow> string list \<Rightarrow> bool" where
  "reason_in e vals = (case fe_reason_class e of None \<Rightarrow> False | Some r \<Rightarrow> r \<in> set vals)"

section \<open>Start of the day, availability and work holds\<close>

definition day_plan_activated :: "M2ReductionScope \<Rightarrow> FieldEventEnvelope \<Rightarrow> handled result" where
  "day_plan_activated s e =
     and_then (assert_some (Option.bind (fe_plan_day_id e) (plan_day s))) (\<lambda>plan.
     if pd_status plan = PlanDayStatus.ACTIVE then Inr (s, NOOP, [], [], [])
     else if pd_status plan \<notin> {PlanDayStatus.DRAFT, PlanDayStatus.ISSUED}
     then Inr (s, REJECTED, [], [], [''PLAN_DAY_NOT_ACTIVATABLE''])
     else
       and_then (PlanDayRoot_init (plan\<lparr>pd_status := PlanDayStatus.ACTIVE\<rparr>)) (\<lambda>updated.
       and_then (with_plan_day s updated) (\<lambda>next_state.
       and_then (effects e [PLAN_DAY_ACTIVATED]) (\<lambda>fx.
       Inr (next_state, APPLIED, fx, [], [])))))"

definition start_delay_reported :: "M2ReductionScope \<Rightarrow> FieldEventEnvelope \<Rightarrow> handled result" where
  "start_delay_reported s e =
     (if fe_reason_class e \<noteq> None \<and> \<not> reason_in e DelayReason_values
      then Inr (s, REJECTED, [], [], [''INVALID_DELAY_REASON''])
      else
        let details = (case fe_reason_class e of None \<Rightarrow> [] | Some r \<Rightarrow> [(''reason'', r)]) @
                      (case fe_eta e of None \<Rightarrow> [] | Some x \<Rightarrow> [(''eta'', x)])
        in and_then (effect e START_DELAY_RECORDED details) (\<lambda>x1.
           and_then (effect e DELAY_IMPACT_EVALUATION_REQUIRED details) (\<lambda>x2.
           Inr (s, REPORTED, [x1, x2], [], []))))"

definition start_exception_reported :: "M2ReductionScope \<Rightarrow> FieldEventEnvelope \<Rightarrow> handled result" where
  "start_exception_reported s e =
     (if \<not> reason_in e StartExceptionReason_values
      then Inr (s, REJECTED, [], [], [''INVALID_START_EXCEPTION_REASON''])
      else
        and_then (effect e START_EXCEPTION_RECORDED [(''reason'', the (fe_reason_class e))]) (\<lambda>x1.
        if fe_reason_class e = Some ''TRANSPORT_BLOCKED'' then
          and_then (effect e TRANSPORT_RESOLUTION_REQUIRED []) (\<lambda>x2. Inr (s, REPORTED, [x1, x2], [], []))
        else Inr (s, REPORTED, [x1], [], [])))"

definition unavailable_today_reported :: "M2ReductionScope \<Rightarrow> FieldEventEnvelope \<Rightarrow> handled result" where
  "unavailable_today_reported s e =
     (if \<not> reason_in e UnavailableReason_values
      then Inr (s, REJECTED, [], [], [''INVALID_UNAVAILABLE_REASON''])
      else
        and_then (assert_some (Option.bind (fe_plan_day_id e) (plan_day s))) (\<lambda>plan.
        and_then (PlanDayRoot_init (plan\<lparr>pd_worker_available := False\<rparr>)) (\<lambda>updated.
        and_then (with_plan_day s updated) (\<lambda>next_state.
        and_then (effect e UNAVAILABLE_TODAY_RECORDED [(''reason'', the (fe_reason_class e))]) (\<lambda>x.
        Inr (next_state, APPLIED, [x], [], []))))))"

definition work_start_blocked :: "M2ReductionScope \<Rightarrow> FieldEventEnvelope \<Rightarrow> handled result" where
  "work_start_blocked s e =
     (if \<not> reason_in e WorkStartBlockedReason_values
      then Inr (s, REJECTED, [], [], [''INVALID_WORK_START_BLOCKED_REASON''])
      else
        and_then (assert_some (Option.bind (fe_task_id e) (task s))) (\<lambda>t.
        and_then (ordinary_task_status t TaskStatus.BLOCKED) (\<lambda>updated.
        and_then (with_task s updated) (\<lambda>next_state.
        and_then (effects e [TASK_HELD]) (\<lambda>fx.
        Inr (next_state, APPLIED, fx, [], []))))))"

definition resource_missing_reported :: "M2ReductionScope \<Rightarrow> FieldEventEnvelope \<Rightarrow> handled result" where
  "resource_missing_reported s e =
     (if fe_task_id e = None \<and> fe_plan_day_id e = None
      then Inr (s, REJECTED, [], [], [''TASK_OR_PLAN_DAY_REQUIRED''])
      else if \<not> reason_in e ResourceKind_values
      then Inr (s, REJECTED, [], [], [''INVALID_RESOURCE_KIND''])
      else
        and_then (effect e RESOURCE_MISSING_RECORDED []) (\<lambda>x1.
        if fe_task_id e \<noteq> None then
          and_then (assert_some (Option.bind (fe_task_id e) (task s))) (\<lambda>t.
          and_then (ordinary_task_status t TaskStatus.BLOCKED) (\<lambda>updated.
          and_then (with_task s updated) (\<lambda>next_state.
          and_then (effect e TASK_HELD []) (\<lambda>x2.
          Inr (next_state, APPLIED, [x1, x2], [], [])))))
        else Inr (s, APPLIED, [x1], [], [])))"

section \<open>Site problems and scope facts\<close>

text \<open>
  The task part of \<open>_site_problem_reported\<close>: the updated task and the effect types added to
  \<open>SITE_PROBLEM_RECORDED\<close>.
\<close>

definition site_problem_task ::
    "TaskState \<Rightarrow> FieldEventEnvelope \<Rightarrow> M2Policy \<Rightarrow> (TaskState \<times> EffectType list) result" where
  "site_problem_task t e policy =
     and_then (FieldObservation_init \<lparr>fo_event_id = fe_event_id e, fo_actor_id = fe_actor_id e,
        fo_text = fe_text e, fo_evidence = fe_attachments e, fo_interpretation = None\<rparr>) (\<lambda>observation.
     and_then (TaskState_init (t\<lparr>ts_evidence := merge_evidence (ts_evidence t) (fe_attachments e),
        ts_observations := ts_observations t @ [observation]\<rparr>)) (\<lambda>updated.
     let conflicting_completion =
           ts_status t = TaskStatus.DONE \<or>
           (fe_stage_id e \<noteq> None \<and>
            (\<exists>stage\<in>set (ts_stages t). Some (sg_stage_id stage) = fe_stage_id e \<and>
               sg_status stage = StageStatus.DONE))
     in if safe_hold_active t then
          Inr (updated, if conflicting_completion then [HUMAN_REVIEW_REQUIRED] else [])
        else if conflicting_completion then
          and_then (replace_stages (\<lambda>stage. fe_stage_id e = Some (sg_stage_id stage))
             (\<lambda>stage. stage\<lparr>sg_status := StageStatus.DISPUTED\<rparr>) (ts_stages updated)) (\<lambda>stages.
          and_then (TaskState_init (updated\<lparr>ts_status := TaskStatus.DISPUTED, ts_stages := stages\<rparr>)) (\<lambda>updated'.
          Inr (updated', [TASK_HELD, HUMAN_REVIEW_REQUIRED])))
        else if po_site_problem_action policy \<in> {HOLD, HOLD_AND_ESCALATE} then
          and_then (ordinary_task_status updated TaskStatus.BLOCKED) (\<lambda>updated'.
          Inr (updated', [TASK_HELD]))
        else Inr (updated, [])))"

definition site_problem_reported ::
    "M2ReductionScope \<Rightarrow> FieldEventEnvelope \<Rightarrow> PolicyTimeContext \<Rightarrow> handled result" where
  "site_problem_reported s e context =
     (let tail = (if po_site_problem_action (cx_policy context) \<in> {ESCALATE, HOLD_AND_ESCALATE}
                  then [SITE_PROBLEM_ESCALATED]
                  else if po_site_problem_action (cx_policy context) = REQUEST_STOP
                  then [STOP_DIRECTIVE_REQUESTED] else [])
      in and_then (case Option.bind (fe_task_id e) (task s) of
           None \<Rightarrow> Inr (s, [])
         | Some t \<Rightarrow>
             and_then (site_problem_task t e (cx_policy context)) (\<lambda>(updated, types).
             and_then (with_task s updated) (\<lambda>next_state. Inr (next_state, types)))) (\<lambda>(next_state, types).
         and_then (effects e ([SITE_PROBLEM_RECORDED] @ types @ tail)) (\<lambda>fx.
         Inr (next_state, APPLIED, fx, [], []))))"

definition scope_fact_reported :: "M2ReductionScope \<Rightarrow> FieldEventEnvelope \<Rightarrow> handled result" where
  "scope_fact_reported s e =
     (if \<not> (has_text (fe_text e) \<or> fe_attachments e \<noteq> [])
      then Inr (s, REJECTED, [], [], [''SCOPE_DESCRIPTION_REQUIRED''])
      else and_then (effects e [NON_BINDING_SCOPE_CHANGE_RECORDED]) (\<lambda>fx. Inr (s, REPORTED, fx, [], [])))"

section \<open>Completion\<close>

definition completion_authority_errors ::
    "TaskState \<Rightarrow> AssignmentState \<Rightarrow> FieldEventEnvelope \<Rightarrow> string list" where
  "completion_authority_errors t a e =
     sort (report (as_kind a \<noteq> td_assignment_kind (ts_definition t)) ''ASSIGNMENT_KIND_MISMATCH'' @
       (if as_kind a = CREW then
          (case as_lead_worker_id a of
             None \<Rightarrow> [''INVALID_OR_MISSING_LEAD'']
           | Some lead \<Rightarrow>
               if lead \<notin> set (as_member_worker_ids a) then [''INVALID_OR_MISSING_LEAD'']
               else report (fe_actor_id e \<noteq> lead) ''COMPLETION_BY_NON_LEAD'')
        else report (fe_actor_id e \<notin> set (as_member_worker_ids a)) ''COMPLETION_BY_UNASSIGNED_WORKER''))"

text \<open>One turn of the loop of \<open>_completion_blocked_by_stop\<close>: does this directive return \<open>True\<close>?\<close>

definition stop_blocks :: "M2ReductionScope \<Rightarrow> FieldEventEnvelope \<Rightarrow> DirectiveRoot \<Rightarrow> bool" where
  "stop_blocks s e d \<longleftrightarrow>
     \<not> (dr_directive_class d \<noteq> STOP \<or> \<not> dr_stop_in_force d \<or>
        \<not> (dr_job_id d = None \<or> dr_job_id d = event_scope_job_id s e)) \<and>
     (if dr_task_id d \<noteq> None then dr_task_id d = fe_task_id e
      else if dr_assignment_id d \<noteq> None then dr_assignment_id d = fe_assignment_id e
      else if dr_plan_day_id d \<noteq> None then dr_plan_day_id d = fe_plan_day_id e
      else dr_worker_id d = fe_actor_id e)"

definition completion_blocked_by_stop :: "M2ReductionScope \<Rightarrow> FieldEventEnvelope \<Rightarrow> bool" where
  "completion_blocked_by_stop s e \<longleftrightarrow> (\<exists>d\<in>set (sc_directive_roots s). stop_blocks s e d)"

definition has_unresolved_unsafe_report :: "M2ReductionScope \<Rightarrow> FieldEventEnvelope \<Rightarrow> bool" where
  "has_unresolved_unsafe_report s e \<longleftrightarrow>
     (\<exists>r\<in>set (lg_receipts (sc_processed_events s)).
        rc_outcome r \<in> {APPLIED, REPORTED} \<and>
        fe_event_type (rc_event r) = SITE_PROBLEM_REPORTED \<and>
        fe_severity_hint (rc_event r) = Some ProblemHint.UNSAFE \<and>
        fe_job_id (rc_event r) = fe_job_id e \<and>
        fe_task_id (rc_event r) = fe_task_id e \<and>
        (fe_stage_id e = None \<or> fe_stage_id (rc_event r) = None \<or> fe_stage_id (rc_event r) = fe_stage_id e))"

definition missing_completion_requirements :: "TaskState \<Rightarrow> FieldEventEnvelope \<Rightarrow> string list" where
  "missing_completion_requirements t e =
     (let evidence_kinds = set (map ev_kind (ts_evidence t @ fe_attachments e)) in
      sort (map (\<lambda>item. ''POSTCONDITION:'' @ item)
              (filter (\<lambda>item. item \<notin> set (fe_satisfied_postconditions e))
                 (td_required_postconditions (ts_definition t))) @
            map (\<lambda>item. ''EVIDENCE:'' @ EvidenceKind_value item)
              (filter (\<lambda>item. item \<notin> evidence_kinds) (td_required_evidence (ts_definition t))) @
            report (td_requires_quantity (ts_definition t) \<and> \<not> (truthy (fe_quantity e) \<and> truthy (fe_unit e)))
              ''QUANTITY_AND_UNIT''))"

fun expected_completion_type :: "FieldEventType \<Rightarrow> CompletionType option" where
  "expected_completion_type TASK_COMPLETION_REPORTED = Some CompletionType.TASK"
| "expected_completion_type STAGE_COMPLETION_REPORTED = Some CompletionType.STAGE"
| "expected_completion_type VISIT_COMPLETION_REPORTED = Some CompletionType.VISIT"
| "expected_completion_type _ = None"

text \<open>\<open>gate_reasons\<close> of \<open>_completion_reported\<close>.\<close>

definition completion_gate_reasons :: "M2ReductionScope \<Rightarrow> FieldEventEnvelope \<Rightarrow> TaskState \<Rightarrow> string list" where
  "completion_gate_reasons s e t =
     report (\<not> ts_execution_authorized t) ''EXECUTION_NOT_AUTHORIZED'' @
     report (ts_blocked_pending_resolution t) ''BLOCKED_PENDING_RESOLUTION'' @
     report (safe_hold_active t) ''SAFE_HOLD_HAS_PRECEDENCE'' @
     report (completion_blocked_by_stop s e) ''STOP_IN_FORCE'' @
     report (has_unresolved_unsafe_report s e) ''UNRESOLVED_UNSAFE_REPORT''"

text \<open>The branch of \<open>_completion_reported\<close> for a closed gate.\<close>

definition completion_gated ::
    "M2ReductionScope \<Rightarrow> FieldEventEnvelope \<Rightarrow> TaskState \<Rightarrow> string list \<Rightarrow> handled result" where
  "completion_gated s e t reasons =
     and_then (completion_rejection_effects e reasons) (\<lambda>fx.
     if has_unresolved_unsafe_report s e then
       and_then (if \<not> safe_hold_active t then
            and_then (replace_stages (\<lambda>stage. fe_stage_id e = Some (sg_stage_id stage))
               (\<lambda>stage. stage\<lparr>sg_status := StageStatus.DISPUTED\<rparr>) (ts_stages t)) (\<lambda>stages.
            and_then (TaskState_init (t\<lparr>ts_status := TaskStatus.DISPUTED, ts_stages := stages\<rparr>)) (\<lambda>updated.
            with_task s updated))
          else Inr s) (\<lambda>next_state.
       and_then (effects e [TASK_HELD, HUMAN_REVIEW_REQUIRED]) (\<lambda>more.
       Inr (next_state, REJECTED, fx @ more, [], reasons)))
     else Inr (s, REJECTED, fx, [], reasons))"

text \<open>The end of \<open>_completion_reported\<close>, once the task and the stage can be completed.\<close>

definition completion_recorded :: "M2ReductionScope \<Rightarrow> FieldEventEnvelope \<Rightarrow> TaskState \<Rightarrow> handled result" where
  "completion_recorded s e t =
     (let missing = missing_completion_requirements t e in
      and_then (TaskState_init (t\<lparr>ts_evidence := merge_evidence (ts_evidence t) (fe_attachments e)\<rparr>)) (\<lambda>with_evidence.
      if missing \<noteq> [] then
        and_then (effect e EffectType.COMPLETION_REJECTED [(''missing'', join '','' missing)]) (\<lambda>x.
        and_then (with_task s with_evidence) (\<lambda>next_state.
        Inr (next_state, REPORTED, [x], missing, [''POSTCONDITIONS_NOT_MET''])))
      else
        and_then (if fe_event_type e = STAGE_COMPLETION_REPORTED then
             and_then (replace_stages (\<lambda>stage. Some (sg_stage_id stage) = fe_stage_id e)
                (\<lambda>stage. stage\<lparr>sg_status := StageStatus.DONE, sg_completion_event_id := Some (fe_event_id e)\<rparr>)
                (ts_stages with_evidence)) (\<lambda>stages.
             TaskState_init (with_evidence\<lparr>ts_stages := stages\<rparr>))
           else TaskState_init (with_evidence\<lparr>ts_status := TaskStatus.DONE,
                  ts_completion_event_id := Some (fe_event_id e)\<rparr>)) (\<lambda>completed.
        and_then (with_task s completed) (\<lambda>next_state.
        and_then (effects e [COMPLETION_ACCEPTED]) (\<lambda>fx.
        Inr (next_state, APPLIED, fx, [], []))))))"

definition completion_refused :: "M2ReductionScope \<Rightarrow> FieldEventEnvelope \<Rightarrow> string \<Rightarrow> handled result" where
  "completion_refused s e reason =
     and_then (completion_rejection_effects e [reason]) (\<lambda>fx. Inr (s, REJECTED, fx, [], [reason]))"

definition completion_reported :: "M2ReductionScope \<Rightarrow> FieldEventEnvelope \<Rightarrow> handled result" where
  "completion_reported s e =
     and_then (assert_some (Option.bind (fe_task_id e) (task s))) (\<lambda>t.
     and_then (assert_some (Option.bind (fe_assignment_id e) (assignment s))) (\<lambda>a.
     let invalid_authority = completion_authority_errors t a e in
     if invalid_authority \<noteq> [] then
       and_then (effect e ASSIGNMENT_INVALID [(''reasons'', join '','' invalid_authority)]) (\<lambda>x1.
       and_then (effect e EffectType.COMPLETION_REJECTED [(''reasons'', join '','' invalid_authority)]) (\<lambda>x2.
       Inr (s, REJECTED, [x1, x2], [], invalid_authority)))
     else
       (case expected_completion_type (fe_event_type e) of
          None \<Rightarrow> Inl KeyError
        | Some expected_type \<Rightarrow>
     if td_completion_type (ts_definition t) \<noteq> expected_type then
       completion_refused s e ''COMPLETION_TYPE_MISMATCH''
     else
       let target_stage = (if fe_event_type e = STAGE_COMPLETION_REPORTED
             then Option.bind (fe_stage_id e) (\<lambda>sid. lookup_by sg_stage_id sid (ts_stages t)) else None);
           gate_reasons = completion_gate_reasons s e t
       in if gate_reasons \<noteq> [] then completion_gated s e t (sorted_set gate_reasons)
          else if ts_status t = TaskStatus.DONE \<or>
            (case target_stage of None \<Rightarrow> False | Some stage \<Rightarrow> sg_status stage = StageStatus.DONE)
          then Inr (s, NOOP, [], [], [''COMPLETION_ALREADY_RECORDED''])
          else if ts_status t \<in> {TaskStatus.BLOCKED, TaskStatus.WAITING, TaskStatus.DISPUTED, TaskStatus.SAFE_HOLD}
          then completion_refused s e ''TASK_NOT_COMPLETABLE''
          else if (case target_stage of None \<Rightarrow> False
                   | Some stage \<Rightarrow> sg_status stage \<in> {StageStatus.DISPUTED, StageStatus.SAFE_HOLD})
          then completion_refused s e ''STAGE_NOT_COMPLETABLE''
          else completion_recorded s e t)))"

section \<open>Waiting, the end of the day, disputes\<close>

definition technical_wait_reported :: "M2ReductionScope \<Rightarrow> FieldEventEnvelope \<Rightarrow> handled result" where
  "technical_wait_reported s e =
     (if \<not> truthy (fe_wait_condition e) \<and> fe_wait_until e = None
      then Inr (s, REJECTED, [], [], [''WAIT_CONDITION_REQUIRED''])
      else
        and_then (assert_some (Option.bind (fe_task_id e) (task s))) (\<lambda>t.
        and_then (assert_some (Option.bind (fe_assignment_id e) (assignment s))) (\<lambda>a.
        if safe_hold_active t then Inr (s, REJECTED, [], [], [''SAFE_HOLD_HAS_PRECEDENCE''])
        else
          and_then (TaskState_init (t\<lparr>ts_status := TaskStatus.WAITING\<rparr>)) (\<lambda>updated_task.
          and_then (AssignmentState_init (a\<lparr>as_released_worker_ids :=
             sorted_set (as_released_worker_ids a @ [fe_actor_id e])\<rparr>)) (\<lambda>updated_assignment.
          and_then (with_task s updated_task) (\<lambda>mid_state.
          and_then (with_assignment mid_state updated_assignment) (\<lambda>next_state.
          and_then (effects e [TECHNICAL_WAIT_RECORDED]) (\<lambda>fx.
          Inr (next_state, APPLIED, fx, [], []))))))))) "

definition day_close_reported :: "M2ReductionScope \<Rightarrow> FieldEventEnvelope \<Rightarrow> handled result" where
  "day_close_reported s e =
     and_then (assert_some (Option.bind (fe_plan_day_id e) (plan_day s))) (\<lambda>plan.
     if pd_status plan = PlanDayStatus.CLOSED then Inr (s, NOOP, [], [], [])
     else
       and_then (PlanDayRoot_init (plan\<lparr>pd_day_close_reported := True\<rparr>)) (\<lambda>updated.
       and_then (with_plan_day s updated) (\<lambda>next_state.
       and_then (effect e END_OF_DAY_POLICY_REQUESTED [(''policy'', ''company.policy.end_of_day'')]) (\<lambda>x.
       Inr (next_state, APPLIED, [x], [], [])))))"

text \<open>The guard of \<open>_completion_disputed\<close> on the event that is disputed.\<close>

definition valid_against_event :: "M2ReductionScope \<Rightarrow> FieldEventEnvelope \<Rightarrow> ProcessedEventReceipt option \<Rightarrow> bool" where
  "valid_against_event s e source =
     (case source of
        None \<Rightarrow> False
      | Some r \<Rightarrow>
          rc_outcome r = APPLIED \<and>
          fe_event_type (rc_event r) \<in> set completion_events \<and>
          fe_job_id (rc_event r) = fe_job_id e \<and>
          fe_task_id (rc_event r) = fe_task_id e \<and>
          fe_assignment_id (rc_event r) = fe_assignment_id e \<and>
          fe_stage_id (rc_event r) = fe_stage_id e \<and>
          fe_actor_id (rc_event r) \<noteq> fe_actor_id e \<and>
          (case Option.bind (fe_assignment_id (rc_event r)) (assignment s) of
             None \<Rightarrow> False
           | Some a \<Rightarrow> fe_actor_id e \<in> set (as_member_worker_ids a)))"

definition completion_disputed :: "M2ReductionScope \<Rightarrow> FieldEventEnvelope \<Rightarrow> handled result" where
  "completion_disputed s e =
     and_then (assert_some (fe_against_event_id e)) (\<lambda>against_event_id.
     if \<not> valid_against_event s e (receipt s against_event_id)
     then Inr (s, REJECTED, [], [], [''INVALID_AGAINST_EVENT''])
     else
       and_then (assert_some (Option.bind (fe_task_id e) (task s))) (\<lambda>t.
       and_then
         (if ts_status t = TaskStatus.SAFE_HOLD \<or> ts_blocked_pending_resolution t \<or>
             (\<exists>stage\<in>set (ts_stages t). sg_status stage = StageStatus.SAFE_HOLD \<and>
                (fe_stage_id e = None \<or> Some (sg_stage_id stage) = fe_stage_id e))
          then Inr t
          else if fe_stage_id e \<noteq> None then
            and_then (replace_stages (\<lambda>stage. Some (sg_stage_id stage) = fe_stage_id e)
               (\<lambda>stage. stage\<lparr>sg_status := StageStatus.DISPUTED\<rparr>) (ts_stages t)) (\<lambda>stages.
            TaskState_init (t\<lparr>ts_stages := stages\<rparr>))
          else TaskState_init (t\<lparr>ts_status := TaskStatus.DISPUTED\<rparr>)) (\<lambda>updated.
       and_then (with_task s updated) (\<lambda>next_state.
       and_then (effects e [EffectType.COMPLETION_DISPUTED, HUMAN_REVIEW_REQUIRED]) (\<lambda>fx.
       Inr (next_state, APPLIED, fx, [], []))))))"

section \<open>Directives\<close>

definition worker_acknowledged :: "M2ReductionScope \<Rightarrow> FieldEventEnvelope \<Rightarrow> handled result" where
  "worker_acknowledged s e =
     and_then (assert_some (Option.bind (fe_directive_id e) (directive s))) (\<lambda>d.
     if directive_worker_informed s (dr_directive_id d) then Inr (s, NOOP, [], [], [])
     else
       and_then (DirectiveRoot_init (d\<lparr>dr_delivery_evidence := ACKED,
          dr_acknowledged_event_id := Some (fe_event_id e)\<rparr>)) (\<lambda>updated_directive.
       and_then (with_directive s updated_directive) (\<lambda>mid_state.
       and_then
         (if dr_directive_class d = ACTION \<and> dr_plan_day_id d \<noteq> None \<and>
             dr_proposed_plan_reference d \<noteq> None \<and> \<not> later_governing_directive_exists s d
          then (case Option.bind (dr_plan_day_id d) (plan_day mid_state) of
                  None \<Rightarrow> Inr mid_state
                | Some plan \<Rightarrow>
                    and_then (PlanDayRoot_init
                       (plan\<lparr>pd_confirmed_plan_reference := dr_proposed_plan_reference d\<rparr>)) (\<lambda>updated.
                    with_plan_day mid_state updated))
          else Inr mid_state) (\<lambda>next_state.
       and_then (effects e [DIRECTIVE_ACKED]) (\<lambda>fx.
       Inr (next_state, APPLIED, fx, [], []))))))"

definition worker_action_exception :: "M2ReductionScope \<Rightarrow> FieldEventEnvelope \<Rightarrow> handled result" where
  "worker_action_exception s e =
     (if \<not> reason_in e ActionExceptionReason_values
      then Inr (s, REJECTED, [], [], [''INVALID_ACTION_EXCEPTION_REASON''])
      else
        and_then (assert_some (Option.bind (fe_directive_id e) (directive s))) (\<lambda>d.
        if dr_directive_type d \<notin> {ACTION_REQUIRED, STOP_DIRECTIVE}
        then Inr (s, REJECTED, [], [], [''DIRECTIVE_NOT_ACTION_OR_STOP''])
        else
          and_then (DirectiveRoot_init (d\<lparr>dr_exception_event_id := Some (fe_event_id e)\<rparr>)) (\<lambda>updated_directive.
          and_then (with_directive s updated_directive) (\<lambda>mid_state.
          if dr_directive_class d = STOP then
            if dr_task_id d = None then Inr (s, REJECTED, [], [], [''STOP_TASK_REQUIRED''])
            else (case Option.bind (dr_task_id d) (task s) of
                None \<Rightarrow> Inr (s, REJECTED, [], [], [''UNKNOWN_STOP_TASK''])
              | Some t \<Rightarrow>
                  and_then (DirectiveRoot_init (updated_directive\<lparr>dr_stop_in_force := True\<rparr>)) (\<lambda>updated_directive'.
                  and_then (with_directive mid_state updated_directive') (\<lambda>stop_state.
                  and_then (safe_hold_task t (Some (dr_directive_id d)) None) (\<lambda>held.
                  and_then (with_task stop_state held) (\<lambda>next_state.
                  and_then (effects e [SAFE_HOLD_ENTERED]) (\<lambda>fx.
                  Inr (next_state, APPLIED, fx, [], [])))))))
          else
            and_then (effects e [ACTION_REEVALUATION_REQUIRED]) (\<lambda>fx.
            Inr (mid_state, APPLIED, fx, [], []))))))"

section \<open>Field events\<close>

text \<open>The table \<open>handlers\<close>.\<close>

fun handle_field_event ::
    "FieldEventType \<Rightarrow> M2ReductionScope \<Rightarrow> FieldEventEnvelope \<Rightarrow> PolicyTimeContext \<Rightarrow> handled result" where
  "handle_field_event DAY_PLAN_ACTIVATED s e c = day_plan_activated s e"
| "handle_field_event START_DELAY_REPORTED s e c = start_delay_reported s e"
| "handle_field_event START_EXCEPTION_REPORTED s e c = start_exception_reported s e"
| "handle_field_event UNAVAILABLE_TODAY_REPORTED s e c = unavailable_today_reported s e"
| "handle_field_event WORK_START_BLOCKED s e c = work_start_blocked s e"
| "handle_field_event RESOURCE_MISSING_REPORTED s e c = resource_missing_reported s e"
| "handle_field_event SITE_PROBLEM_REPORTED s e c = site_problem_reported s e c"
| "handle_field_event SCOPE_FACT_REPORTED s e c = scope_fact_reported s e"
| "handle_field_event TASK_COMPLETION_REPORTED s e c = completion_reported s e"
| "handle_field_event STAGE_COMPLETION_REPORTED s e c = completion_reported s e"
| "handle_field_event TECHNICAL_WAIT_REPORTED s e c = technical_wait_reported s e"
| "handle_field_event VISIT_COMPLETION_REPORTED s e c = completion_reported s e"
| "handle_field_event DAY_CLOSE_REPORTED s e c = day_close_reported s e"
| "handle_field_event FieldEventType.COMPLETION_DISPUTED s e c = completion_disputed s e"
| "handle_field_event WORKER_ACKNOWLEDGED s e c = worker_acknowledged s e"
| "handle_field_event WORKER_ACTION_EXCEPTION s e c = worker_action_exception s e"

text \<open>The \<open>Reduction\<close> dataclass with its default values.\<close>

definition Reduction_default :: "M2ReductionScope \<Rightarrow> ReductionOutcome \<Rightarrow> Reduction" where
  "Reduction_default s outcome =
     \<lparr>re_state = s, re_outcome = outcome, re_root_deltas = [], re_appended_receipt = None,
      re_emitted_effects = [], re_response_effects = [], re_server_event_id = None,
      re_missing_requirements = [], re_reason_codes = [], re_replayed = False\<rparr>"

definition finish_event ::
    "M2ReductionScope \<Rightarrow> FieldEventInput \<Rightarrow> ReductionOutcome \<Rightarrow> SystemEffect list \<Rightarrow> string list \<Rightarrow>
     string list \<Rightarrow> Reduction result" where
  "finish_event s inp outcome fx missing reasons =
     (let r = \<lparr>rc_event = fi_event inp, rc_server_event_id = fi_server_event_id inp, rc_outcome = outcome,
               rc_response_effects = fx, rc_missing_requirements = missing, rc_reason_codes = reasons\<rparr>
      in and_then (ProcessedEventLedger_init \<lparr>lg_receipts = lg_receipts (sc_processed_events s) @ [r]\<rparr>) (\<lambda>ledger.
         and_then (M2ReductionScope_init (s\<lparr>sc_processed_events := ledger\<rparr>)) (\<lambda>final_state.
         Inr ((Reduction_default final_state outcome)\<lparr>re_appended_receipt := Some r,
              re_emitted_effects := fx, re_response_effects := fx,
              re_server_event_id := Some (fi_server_event_id inp),
              re_missing_requirements := missing, re_reason_codes := reasons\<rparr>))))"

definition reduce_field_event ::
    "M2ReductionScope \<Rightarrow> FieldEventInput \<Rightarrow> PolicyTimeContext \<Rightarrow> Reduction result" where
  "reduce_field_event s inp context =
     (let e = fi_event inp in
      case receipt s (fe_event_id e) of
        Some existing \<Rightarrow>
          if rc_event existing \<noteq> e then
            Inr ((Reduction_default s REJECTED)\<lparr>re_server_event_id := Some (rc_server_event_id existing),
                 re_reason_codes := [''EVENT_ID_CONFLICT'']\<rparr>)
          else
            Inr ((Reduction_default s (rc_outcome existing))\<lparr>re_response_effects := rc_response_effects existing,
                 re_server_event_id := Some (rc_server_event_id existing),
                 re_missing_requirements := rc_missing_requirements existing,
                 re_reason_codes := rc_reason_codes existing, re_replayed := True\<rparr>)
      | None \<Rightarrow>
          if \<exists>r\<in>set (lg_receipts (sc_processed_events s)). rc_server_event_id r = fi_server_event_id inp then
            Inr ((Reduction_default s REJECTED)\<lparr>re_reason_codes := [''SERVER_EVENT_ID_CONFLICT'']\<rparr>)
          else
            let errors = reference_errors s e in
            if errors \<noteq> [] then
              and_then (completion_rejection_effects e errors) (\<lambda>fx.
              finish_event s inp REJECTED fx [] errors)
            else
              and_then (handle_field_event (fe_event_type e) s e context)
                (\<lambda>(next_state, outcome, fx, missing, reasons).
                   finish_event next_state inp outcome fx missing reasons))"

section \<open>System signals\<close>

definition system_applied :: "M2ReductionScope \<Rightarrow> SystemEffect list \<Rightarrow> Reduction" where
  "system_applied s fx = (Reduction_default s APPLIED)\<lparr>re_emitted_effects := fx, re_response_effects := fx\<rparr>"

definition system_rejection_reasons :: "M2ReductionScope \<Rightarrow> string list \<Rightarrow> Reduction" where
  "system_rejection_reasons s reasons = (Reduction_default s REJECTED)\<lparr>re_reason_codes := reasons\<rparr>"

definition system_rejection :: "M2ReductionScope \<Rightarrow> string \<Rightarrow> Reduction" where
  "system_rejection s reason = system_rejection_reasons s [reason]"

text \<open>\<open>state.plan_day(signal.plan_day_id) if signal.plan_day_id else None\<close>, and so for directives.\<close>

definition signal_plan_day :: "M2ReductionScope \<Rightarrow> SystemSignal \<Rightarrow> PlanDayRoot option" where
  "signal_plan_day s sig =
     (if truthy (sy_plan_day_id sig) then Option.bind (sy_plan_day_id sig) (plan_day s) else None)"

definition signal_directive :: "M2ReductionScope \<Rightarrow> SystemSignal \<Rightarrow> DirectiveRoot option" where
  "signal_directive s sig =
     (if truthy (sy_directive_id sig) then Option.bind (sy_directive_id sig) (directive s) else None)"

definition start_window_elapsed ::
    "M2ReductionScope \<Rightarrow> SystemSignal \<Rightarrow> PolicyTimeContext \<Rightarrow> Reduction result" where
  "start_window_elapsed s sig context =
     (case signal_plan_day s sig of
        None \<Rightarrow> Inr (system_rejection s ''UNKNOWN_PLAN_DAY'')
      | Some plan \<Rightarrow>
          if \<not> po_start_unknown_escalation_enabled (cx_policy context) \<or>
             instant (cx_now context) < instant (pd_start_at plan) \<or>
             pd_status plan = PlanDayStatus.ACTIVE \<or> pd_status plan = PlanDayStatus.CLOSED \<or>
             pd_start_unknown_escalated plan
          then Inr (Reduction_default s NOOP)
          else
            and_then (PlanDayRoot_init (plan\<lparr>pd_start_unknown_escalated := True\<rparr>)) (\<lambda>updated.
            and_then (signal_effect sig START_UNKNOWN_ESCALATED None None None None []) (\<lambda>x.
            and_then (with_plan_day s updated) (\<lambda>next_state.
            Inr (system_applied next_state [x])))))"

definition directive_e1_elapsed ::
    "M2ReductionScope \<Rightarrow> SystemSignal \<Rightarrow> PolicyTimeContext \<Rightarrow> Reduction result" where
  "directive_e1_elapsed s sig context =
     (case signal_directive s sig of
        None \<Rightarrow> Inr (system_rejection s ''UNKNOWN_DIRECTIVE'')
      | Some d \<Rightarrow>
          let scope_errors = directive_scope_errors s d @
                report (sy_plan_day_id sig \<noteq> None \<and> sy_plan_day_id sig \<noteq> dr_plan_day_id d)
                  ''CROSS_PLAN_DAY_SYSTEM_SIGNAL'' @
                report (sy_task_id sig \<noteq> None \<and> sy_task_id sig \<noteq> dr_task_id d) ''CROSS_TASK_SYSTEM_SIGNAL''
          in if scope_errors \<noteq> [] then Inr (system_rejection_reasons s (sorted_set scope_errors))
             else if directive_worker_informed s (dr_directive_id d) \<or> dr_e1_escalated d \<or>
               (case dr_escalation_due_at d of None \<Rightarrow> True | Some due \<Rightarrow> instant (cx_now context) < instant due)
             then Inr (Reduction_default s NOOP)
             else if dr_directive_class d \<noteq> ACTION \<and> dr_directive_class d \<noteq> STOP
             then Inr (Reduction_default s NOOP)
             else
               and_then (DirectiveRoot_init (d\<lparr>dr_e1_escalated := True\<rparr>)) (\<lambda>updated.
               and_then (signal_effect sig
                  (if dr_directive_class d = ACTION then ACK_MISSING_ESCALATED else STOP_UNCONFIRMED)
                  (dr_plan_day_id d) (dr_task_id d) (dr_assignment_id d) (Some (dr_directive_id d)) []) (\<lambda>x.
               and_then (with_directive s updated) (\<lambda>next_state.
               Inr (system_applied next_state [x])))))"

definition early_finish_evaluated ::
    "M2ReductionScope \<Rightarrow> SystemSignal \<Rightarrow> PolicyTimeContext \<Rightarrow> Reduction result" where
  "early_finish_evaluated s sig context =
     (case signal_plan_day s sig of
        None \<Rightarrow> Inr (system_rejection s ''UNKNOWN_PLAN_DAY'')
      | Some plan \<Rightarrow>
          let options = po_early_finish_options (cx_policy context)
          in if options = [] then Inr (Reduction_default s NOOP)
             else and_then (signal_effect sig EARLY_FINISH_SOFT_OPTIONS (Some (pd_plan_day_id plan)) None None None
                    [(''options'', join '','' (map EndOfDayAction_value options))]) (\<lambda>x.
                  Inr (system_applied s [x])))"

definition end_of_day_policy_satisfied ::
    "M2ReductionScope \<Rightarrow> SystemSignal \<Rightarrow> PolicyTimeContext \<Rightarrow> Reduction result" where
  "end_of_day_policy_satisfied s sig context =
     (case signal_plan_day s sig of
        None \<Rightarrow> Inr (system_rejection s ''UNKNOWN_PLAN_DAY'')
      | Some plan \<Rightarrow>
          if \<not> pd_day_close_reported plan then Inr (system_rejection s ''DAY_CLOSE_NOT_REPORTED'')
          else if sy_policy_result sig \<noteq> Some (po_end_of_day_action (cx_policy context))
          then Inr (system_rejection s ''END_OF_DAY_POLICY_RESULT_MISMATCH'')
          else if pd_status plan = PlanDayStatus.CLOSED then Inr (Reduction_default s NOOP)
          else
            and_then (PlanDayRoot_init (plan\<lparr>pd_status := PlanDayStatus.CLOSED, pd_worker_available := False\<rparr>)) (\<lambda>updated.
            and_then (signal_effect sig DAY_CLOSED (Some (pd_plan_day_id plan)) None None None
               [(''policy_result'', EndOfDayAction_value (po_end_of_day_action (cx_policy context)))]) (\<lambda>x.
            and_then (with_plan_day s updated) (\<lambda>next_state.
            Inr (system_applied next_state [x])))))"

fun reduce_signal_of_type ::
    "SystemSignalType \<Rightarrow> M2ReductionScope \<Rightarrow> SystemSignal \<Rightarrow> PolicyTimeContext \<Rightarrow> Reduction result" where
  "reduce_signal_of_type STATE_REHYDRATED s sig c = Inr (Reduction_default s NOOP)"
| "reduce_signal_of_type SYNC_REPLAYED s sig c = Inr (Reduction_default s NOOP)"
| "reduce_signal_of_type DAY_ROLLED_OVER s sig c = Inr (Reduction_default s NOOP)"
| "reduce_signal_of_type START_WINDOW_ELAPSED s sig c = start_window_elapsed s sig c"
| "reduce_signal_of_type DIRECTIVE_E1_ELAPSED s sig c = directive_e1_elapsed s sig c"
| "reduce_signal_of_type EARLY_FINISH_EVALUATED s sig c = early_finish_evaluated s sig c"
| "reduce_signal_of_type END_OF_DAY_POLICY_SATISFIED s sig c = end_of_day_policy_satisfied s sig c"

definition reduce_system_signal ::
    "M2ReductionScope \<Rightarrow> SystemSignal \<Rightarrow> PolicyTimeContext \<Rightarrow> Reduction result" where
  "reduce_system_signal s sig context = reduce_signal_of_type (sy_signal_type sig) s sig context"

section \<open>Finalisation\<close>

text \<open>
  One turn of the loop of \<open>_finalize_root_group\<close>. The attribute \<open>revision_name\<close> is the pair of
  its reader and its writer; \<open>init\<close> is the \<open>__post_init__\<close> that \<open>replace\<close> runs.
\<close>

definition finalize_root ::
    "RootKind \<Rightarrow> ('a \<Rightarrow> int) \<Rightarrow> (int \<Rightarrow> 'a \<Rightarrow> 'a) \<Rightarrow> ('a \<Rightarrow> 'a result) \<Rightarrow> ('a \<Rightarrow> RootState) \<Rightarrow>
     string \<Rightarrow> 'a \<Rightarrow> 'a \<Rightarrow> ('a \<times> RootDelta option) result" where
  "finalize_root kind revision set_revision init wrap root_id previous candidate =
     (let expected_revision = revision previous in
      and_then (init (set_revision expected_revision candidate)) (\<lambda>comparable_candidate.
      if comparable_candidate = previous then Inr (previous, None)
      else
        and_then (init (set_revision (expected_revision + 1) candidate)) (\<lambda>next_root.
        and_then (RootDelta_init \<lparr>rd_root_kind = kind, rd_root_id = root_id,
           rd_expected_revision = expected_revision, rd_resulting_revision = expected_revision + 1,
           rd_next_root = wrap next_root\<rparr>) (\<lambda>d.
        Inr (next_root, Some d)))))"

definition finalize_root_group ::
    "RootKind \<Rightarrow> ('a \<Rightarrow> string) \<Rightarrow> ('a \<Rightarrow> int) \<Rightarrow> (int \<Rightarrow> 'a \<Rightarrow> 'a) \<Rightarrow> ('a \<Rightarrow> 'a result) \<Rightarrow>
     ('a \<Rightarrow> RootState) \<Rightarrow> 'a list \<Rightarrow> 'a list \<Rightarrow> ('a list \<times> RootDelta list) result" where
  "finalize_root_group kind ident revision set_revision init wrap previous_roots candidate_roots =
     and_then (require (set (map ident previous_roots) = set (map ident candidate_roots))
        ''reducer cannot add or remove canonical roots'') (\<lambda>_.
     and_then (traverse (\<lambda>root_id.
          case (dict_by ident previous_roots root_id, dict_by ident candidate_roots root_id) of
            (Some previous, Some candidate) \<Rightarrow>
              finalize_root kind revision set_revision init wrap root_id previous candidate
          | _ \<Rightarrow> Inl KeyError)
        (sorted_set (map ident previous_roots))) (\<lambda>rs.
     Inr (map fst rs, List.map_filter snd rs)))"

definition set_job_revision :: "int \<Rightarrow> M2JobExecutionRoot \<Rightarrow> M2JobExecutionRoot" where
  "set_job_revision n r = r\<lparr>jr_job_execution_revision := n\<rparr>"

definition set_plan_revision :: "int \<Rightarrow> PlanDayRoot \<Rightarrow> PlanDayRoot" where
  "set_plan_revision n r = r\<lparr>pd_plan_day_revision := n\<rparr>"

definition set_directive_revision :: "int \<Rightarrow> DirectiveRoot \<Rightarrow> DirectiveRoot" where
  "set_directive_revision n r = r\<lparr>dr_directive_revision := n\<rparr>"

definition finalized_root :: "M2ReductionScope \<Rightarrow> RootKind \<Rightarrow> string \<Rightarrow> RootState result" where
  "finalized_root s kind root_id =
     (case (case kind of
              JOB_EXECUTION \<Rightarrow> map_option JobRoot (job_execution s root_id)
            | PLAN_DAY \<Rightarrow> map_option PlanRoot (plan_day s root_id)
            | DIRECTIVE \<Rightarrow> map_option DirRoot (directive s root_id)) of
        None \<Rightarrow> Inl (ValueError ''finalized root is missing from reduction scope'')
      | Some root \<Rightarrow> Inr root)"

definition finalize_reduction :: "M2ReductionScope \<Rightarrow> Reduction \<Rightarrow> Reduction result" where
  "finalize_reduction previous raw =
     (let next_state = re_state raw in
      and_then (finalize_root_group JOB_EXECUTION jr_job_id jr_job_execution_revision set_job_revision
         M2JobExecutionRoot_init JobRoot
         (sc_job_execution_roots previous) (sc_job_execution_roots next_state)) (\<lambda>(job_roots, job_deltas).
      and_then (finalize_root_group PLAN_DAY pd_plan_day_id pd_plan_day_revision set_plan_revision
         PlanDayRoot_init PlanRoot
         (sc_plan_day_roots previous) (sc_plan_day_roots next_state)) (\<lambda>(plan_roots, plan_deltas).
      and_then (finalize_root_group DIRECTIVE (\<lambda>d. dr_directive_id d) dr_directive_revision set_directive_revision
         DirectiveRoot_init DirRoot
         (sc_directive_roots previous) (sc_directive_roots next_state)) (\<lambda>(directive_roots, directive_deltas).
      let provisional_deltas =
            sort_key (\<lambda>d. (RootKind_value (rd_root_kind d), rd_root_id d)) (job_deltas @ plan_deltas @ directive_deltas)
      in and_then (M2ReductionScope_init (next_state\<lparr>sc_job_execution_roots := job_roots,
            sc_plan_day_roots := plan_roots, sc_directive_roots := directive_roots\<rparr>)) (\<lambda>finalized_state.
         and_then (traverse (\<lambda>d.
              and_then (finalized_root finalized_state (rd_root_kind d) (rd_root_id d)) (\<lambda>root.
              RootDelta_init (d\<lparr>rd_next_root := root\<rparr>))) provisional_deltas) (\<lambda>deltas.
         Inr (raw\<lparr>re_state := finalized_state, re_root_deltas := deltas\<rparr>)))))))"

definition reduce :: "M2ReductionScope \<Rightarrow> ExplicitInput \<Rightarrow> PolicyTimeContext \<Rightarrow> Reduction result" where
  "reduce previous_state explicit_input context =
     and_then
       (if cx_rule_version context \<noteq> M2_REDUCER_RULE_VERSION then
          Inr ((Reduction_default previous_state REJECTED)\<lparr>re_reason_codes := [''UNSUPPORTED_RULE_VERSION'']\<rparr>)
        else (case explicit_input of
                FieldInput inp \<Rightarrow> reduce_field_event previous_state inp context
              | SignalInput sig \<Rightarrow> reduce_system_signal previous_state sig context)) (\<lambda>raw_result.
     finalize_reduction previous_state raw_result)"

end
