(* ===== verification/Field_Invariant.thy ===== *)
theory Field_Invariant
  imports Field_Reducer
begin

text \<open>
  Well-formedness of the M2 values and what it gives the reducer. A value is well formed when its
  constructor leaves it as it is; a scope is well formed when every value in it is, and every
  observation of a task stems from an event of the ledger.

  The scope's construction checks only read its skeleton: identities, task definitions,
  assignments without their released workers, directive definitions, publications and the worker
  registry. The reducer never changes the skeleton, so each \<open>with_\<dots>\<close> reconstruction of a well
  formed scope succeeds and is the plain replacement \<open>put_\<dots>\<close>.
\<close>

section \<open>Well-formed values\<close>

definition stage_ok :: "StageState \<Rightarrow> bool" where
  "stage_ok x \<longleftrightarrow> StageState_init x = Inr x"

definition evidence_ok :: "EvidenceItem \<Rightarrow> bool" where
  "evidence_ok x \<longleftrightarrow> EvidenceItem_init x = Inr x"

definition observation_ok :: "FieldObservation \<Rightarrow> bool" where
  "observation_ok x \<longleftrightarrow> FieldObservation_init x = Inr x"

definition task_ok :: "TaskState \<Rightarrow> bool" where
  "task_ok t \<longleftrightarrow> TaskState_init t = Inr t \<and> TaskDefinition_init (ts_definition t) = Inr (ts_definition t) \<and>
     (\<forall>x\<in>set (ts_stages t). stage_ok x) \<and> (\<forall>x\<in>set (ts_evidence t). evidence_ok x) \<and>
     (\<forall>x\<in>set (ts_observations t). observation_ok x)"

definition assignment_ok :: "AssignmentState \<Rightarrow> bool" where
  "assignment_ok a \<longleftrightarrow> AssignmentState_init a = Inr a"

definition root_ok :: "M2JobExecutionRoot \<Rightarrow> bool" where
  "root_ok r \<longleftrightarrow> M2JobExecutionRoot_init r = Inr r \<and>
     (\<forall>t\<in>set (jr_tasks r). task_ok t) \<and> (\<forall>a\<in>set (jr_assignments r). assignment_ok a)"

definition plan_ok :: "PlanDayRoot \<Rightarrow> bool" where
  "plan_ok p \<longleftrightarrow> PlanDayRoot_init p = Inr p"

definition directive_ok :: "DirectiveRoot \<Rightarrow> bool" where
  "directive_ok d \<longleftrightarrow> DirectiveRoot_init d = Inr d \<and> DirectiveDefinition_init (dr_definition d) = Inr (dr_definition d)"

definition event_ok :: "FieldEventEnvelope \<Rightarrow> bool" where
  "event_ok e \<longleftrightarrow> FieldEventEnvelope_init e = Inr e \<and> (\<forall>x\<in>set (fe_attachments e). evidence_ok x)"

definition ledger_ok :: "ProcessedEventLedger \<Rightarrow> bool" where
  "ledger_ok l \<longleftrightarrow> ProcessedEventLedger_init l = Inr l \<and> (\<forall>r\<in>set (lg_receipts l). event_ok (rc_event r))"

definition ledger_ids :: "M2ReductionScope \<Rightarrow> string set" where
  "ledger_ids s = set (map rc_event_id (lg_receipts (sc_processed_events s)))"

text \<open>Every observation of a task stems from one of the given events.\<close>

definition observations_within :: "string set \<Rightarrow> M2ReductionScope \<Rightarrow> bool" where
  "observations_within ids s \<longleftrightarrow> (\<forall>t\<in>set (tasks s). fo_event_id ` set (ts_observations t) \<subseteq> ids)"

definition scope_valid :: "M2ReductionScope \<Rightarrow> bool" where
  "scope_valid s \<longleftrightarrow> M2ReductionScope_init s = Inr s \<and>
     WorkerIdentityRegistry_init (sc_worker_registry s) = Inr (sc_worker_registry s) \<and>
     (\<forall>r\<in>set (sc_job_execution_roots s). root_ok r) \<and>
     (\<forall>p\<in>set (sc_plan_day_roots s). plan_ok p) \<and>
     (\<forall>d\<in>set (sc_directive_roots s). directive_ok d) \<and>
     ledger_ok (sc_processed_events s)"

definition scope_ok :: "M2ReductionScope \<Rightarrow> bool" where
  "scope_ok s \<longleftrightarrow> scope_valid s \<and> observations_within (ledger_ids s) s"

definition input_ok :: "ExplicitInput \<Rightarrow> bool" where
  "input_ok i = (case i of
     FieldInput inp \<Rightarrow> FieldEventInput_init inp = Inr inp \<and> event_ok (fi_event inp)
   | SignalInput sig \<Rightarrow> SystemSignal_init sig = Inr sig)"

lemma nonblank_Inr [simp]: "nonblank v name = Inr w \<longleftrightarrow> w = strip v \<and> strip v \<noteq> []"
  by (auto simp: nonblank_def)

lemma unique_Inr [simp]: "unique vs name = Inr ws \<longleftrightarrow> distinct vs \<and> ws = sort vs"
  by (auto simp: unique_def)

lemma aware_Inr [simp]: "aware v name = Inr u \<longleftrightarrow> is_aware v"
  by (simp add: aware_def)

lemma sort_id_iff: "sort xs = xs \<longleftrightarrow> sorted (xs::'a::linorder list)"
  by (metis sorted_sort sorted_sort_id)

section \<open>Well-formedness spelled out\<close>

lemma stage_ok_iff: "stage_ok x \<longleftrightarrow> strip (sg_stage_id x) = sg_stage_id x \<and> sg_stage_id x \<noteq> []"
  by (cases x) (auto simp: stage_ok_def StageState_init_def)

definition task_checks :: "TaskState \<Rightarrow> bool" where
  "task_checks t \<longleftrightarrow> distinct (map sg_stage_id (ts_stages t)) \<and> sorted (map sg_stage_id (ts_stages t)) \<and>
     set (map sg_stage_id (ts_stages t)) = set (td_stage_ids (ts_definition t)) \<and>
     distinct (map ev_evidence_id (ts_evidence t)) \<and>
     distinct (map fo_event_id (ts_observations t)) \<and>
     (ts_status t = TaskStatus.SAFE_HOLD \<longrightarrow> ts_blocked_pending_resolution t \<and> \<not> ts_execution_authorized t)"

lemma TaskState_init_ok: "TaskState_init t = Inr t \<longleftrightarrow> task_checks t"
  by (cases t) (auto simp: TaskState_init_def task_checks_def Let_def sort_key_id_iff)

lemma TaskState_init_eq: "task_checks t \<Longrightarrow> TaskState_init t = Inr t"
  by (simp add: TaskState_init_ok)

lemma PlanDayRoot_init_ok: "PlanDayRoot_init p = Inr p \<longleftrightarrow>
    strip (pd_plan_day_id p) = pd_plan_day_id p \<and> pd_plan_day_id p \<noteq> [] \<and>
    strip (pd_worker_id p) = pd_worker_id p \<and> pd_worker_id p \<noteq> [] \<and>
    is_aware (pd_start_at p) \<and> 0 \<le> pd_plan_day_revision p \<and>
    (case pd_confirmed_plan_reference p of None \<Rightarrow> True | Some r \<Rightarrow> strip r = r \<and> r \<noteq> []) \<and>
    \<not> (pd_status p = PlanDayStatus.CLOSED \<and> pd_worker_available p)"
  by (cases p) (auto simp: PlanDayRoot_init_def optionally_def split: option.splits)

lemma DirectiveRoot_init_ok: "DirectiveRoot_init d = Inr d \<longleftrightarrow>
    (case dr_acknowledged_event_id d of None \<Rightarrow> True | Some r \<Rightarrow> strip r = r \<and> r \<noteq> []) \<and>
    (case dr_exception_event_id d of None \<Rightarrow> True | Some r \<Rightarrow> strip r = r \<and> r \<noteq> []) \<and>
    0 \<le> dr_directive_revision d"
  by (cases d) (auto simp: DirectiveRoot_init_def optionally_def split: option.splits)

lemma ProcessedEventLedger_init_ok: "ProcessedEventLedger_init l = Inr l \<longleftrightarrow>
    distinct (map rc_event_id (lg_receipts l)) \<and> distinct (map rc_server_event_id (lg_receipts l)) \<and>
    sorted (map rc_event_id (lg_receipts l))"
  by (cases l) (auto simp: ProcessedEventLedger_init_def sort_key_id_iff)

lemma event_okD:
  assumes "event_ok e"
  shows "strip (fe_event_id e) = fe_event_id e" "fe_event_id e \<noteq> []"
    "strip (fe_actor_id e) = fe_actor_id e" "fe_actor_id e \<noteq> []"
    "distinct (map ev_evidence_id (fe_attachments e))"
    "\<And>x. x \<in> set (fe_attachments e) \<Longrightarrow> evidence_ok x"
  using assms by (cases e; force simp: event_ok_def FieldEventEnvelope_init_def)+

section \<open>The skeleton of a root and of a scope\<close>

definition assignment_skeleton :: "AssignmentState \<Rightarrow> AssignmentState" where
  "assignment_skeleton a = a\<lparr>as_released_worker_ids := []\<rparr>"

definition root_skeleton :: "M2JobExecutionRoot \<Rightarrow> string \<times> TaskDefinition list \<times> AssignmentState list" where
  "root_skeleton r =
     (jr_job_id r, map ts_definition (jr_tasks r), map assignment_skeleton (jr_assignments r))"

definition scope_skeleton ::
    "M2ReductionScope \<Rightarrow> M1HandoffPublication list \<times> WorkerIdentityRegistry \<times>
       (string \<times> TaskDefinition list \<times> AssignmentState list) list \<times> (string \<times> string) list \<times>
       DirectiveDefinition list" where
  "scope_skeleton s =
     (sc_publications s, sc_worker_registry s, map root_skeleton (sc_job_execution_roots s),
      map (\<lambda>p. (pd_plan_day_id p, pd_worker_id p)) (sc_plan_day_roots s),
      map dr_definition (sc_directive_roots s))"

lemma assignment_skeleton_sel [simp]:
  "as_assignment_id (assignment_skeleton a) = as_assignment_id a"
  "as_job_id (assignment_skeleton a) = as_job_id a"
  "as_task_id (assignment_skeleton a) = as_task_id a"
  "as_task_definition_version (assignment_skeleton a) = as_task_definition_version a"
  "as_kind (assignment_skeleton a) = as_kind a"
  "as_member_worker_ids (assignment_skeleton a) = as_member_worker_ids a"
  "as_plan_day_ids (assignment_skeleton a) = as_plan_day_ids a"
  "as_lead_worker_id (assignment_skeleton a) = as_lead_worker_id a"
  "as_supersedes_assignment_id (assignment_skeleton a) = as_supersedes_assignment_id a"
  by (simp_all add: assignment_skeleton_def)

lemma assignment_skeletonD:
  assumes "assignment_skeleton a' = assignment_skeleton a"
  shows "as_assignment_id a' = as_assignment_id a" "as_job_id a' = as_job_id a"
    "as_task_id a' = as_task_id a" "as_task_definition_version a' = as_task_definition_version a"
    "as_kind a' = as_kind a" "as_member_worker_ids a' = as_member_worker_ids a"
    "as_plan_day_ids a' = as_plan_day_ids a" "as_lead_worker_id a' = as_lead_worker_id a"
    "as_supersedes_assignment_id a' = as_supersedes_assignment_id a"
  using assms by (cases a; cases a'; simp add: assignment_skeleton_def)+

lemma map_eq_list_all2: "map f xs = map g ys \<longleftrightarrow> list_all2 (\<lambda>x y. f x = g y) xs ys"
  by (induction xs arbitrary: ys) (auto simp: list_all2_Cons1 Cons_eq_map_conv)

lemma map_eq_mapD: "map f xs = map f ys \<Longrightarrow> (\<And>x. h x = k (f x)) \<Longrightarrow> map h xs = map h ys"
  by (metis (mono_tags, lifting) comp_apply list.map_comp map_eq_conv)

lemma lookup_by_same_image:
  assumes "map f xs = map f ys" and "\<And>x. key x = k (f x)"
  shows "map_option f (lookup_by key i xs) = map_option f (lookup_by key i ys)"
proof -
  have "map_option f (lookup_by key i zs) = lookup_by k i (map f zs)" for zs
    using lookup_by_map [of k f key i zs] assms(2) by simp
  with assms(1) show ?thesis by simp
qed

lemma map_sort_key_same_image:
  assumes "map f xs = map f ys" and "\<And>x. key x = k (f x)"
  shows "map f (sort_key key xs) = map f (sort_key key ys)"
  using assms sort_key_map [of k f key] by metis

lemma map_option_eqE:
  assumes "map_option f x = map_option f y"
  obtains "x = None" "y = None" | a b where "x = Some a" "y = Some b" "f a = f b"
  using assms by (cases x; cases y) auto

lemma task_lineage_from_skeleton:
  "map ts_definition ts' = map ts_definition ts \<Longrightarrow>
   task_lineage_from ts' p visited cid = task_lineage_from ts p visited cid"
proof (induction ts p visited cid rule: task_lineage_from.induct)
  case (1 ts p visited cid)
  have lk: "map_option ts_definition (lookup_by ts_task_id cid ts') = map_option ts_definition (lookup_by ts_task_id cid ts)"
    using 1(2) by (rule lookup_by_same_image [where k = td_task_id]) simp
  show ?case
  proof (rule map_option_eqE [OF lk])
    assume "lookup_by ts_task_id cid ts' = None" "lookup_by ts_task_id cid ts = None"
    then show ?thesis
      by (simp add: task_lineage_from.simps [of ts'] task_lineage_from.simps [of ts])
  next
    fix a b
    assume ab: "lookup_by ts_task_id cid ts' = Some a" "lookup_by ts_task_id cid ts = Some b"
      "ts_definition a = ts_definition b"
    show ?thesis
      apply (subst task_lineage_from.simps [of ts'])
      apply (subst task_lineage_from.simps [of ts])
      using ab 1(1) [OF ab(2)] 1(2) by (auto split: option.splits)
  qed
qed

lemma check_root_task_skeleton:
  assumes "root_skeleton r' = root_skeleton r" and "ts_definition t' = ts_definition t"
  shows "check_root_task r' t' = check_root_task r t"
proof -
  have "map_option ts_definition (root_task r' i) = map_option ts_definition (root_task r i)" for i
    unfolding root_task_def
    by (rule lookup_by_same_image [where k = td_task_id]) (use assms in \<open>auto simp: root_skeleton_def\<close>)
  note lk = this
  have j: "jr_job_id r' = jr_job_id r" using assms by (simp add: root_skeleton_def)
  show ?thesis
  proof (cases "td_supersedes_task_id (ts_definition t)")
    case None
    then show ?thesis by (simp add: check_root_task_def assms(2) j)
  next
    case (Some i)
    then show ?thesis
      by (cases rule: map_option_eqE [OF lk [of i]]) (auto simp: check_root_task_def assms(2) j)
  qed
qed

lemma check_root_assignment_skeleton:
  assumes r: "root_skeleton r' = root_skeleton r" and a: "assignment_skeleton a' = assignment_skeleton a"
  shows "check_root_assignment r' a' = check_root_assignment r a"
proof -
  have lt: "map_option ts_definition (root_task r' i) = map_option ts_definition (root_task r i)" for i
    unfolding root_task_def
    by (rule lookup_by_same_image [where k = td_task_id]) (use r in \<open>auto simp: root_skeleton_def\<close>)
  have la: "map_option assignment_skeleton (root_assignment r' i) = map_option assignment_skeleton (root_assignment r i)" for i
    unfolding root_assignment_def
    by (rule lookup_by_same_image [where k = as_assignment_id]) (use r in \<open>auto simp: root_skeleton_def\<close>)
  have ln: "task_lineage_contains r' = task_lineage_contains r"
    unfolding task_lineage_contains_def using r
    by (intro ext task_lineage_from_skeleton) (simp add: root_skeleton_def)
  have j: "jr_job_id r' = jr_job_id r" using r by (simp add: root_skeleton_def)
  note a' = assignment_skeletonD [OF a]
  show ?thesis
  proof (cases rule: map_option_eqE [OF lt [of "as_task_id a"]])
    case 1
    then show ?thesis by (simp add: check_root_assignment_def a' j)
  next
    case t: (2 t' t)
    show ?thesis
    proof (cases "as_supersedes_assignment_id a")
      case None
      with t show ?thesis by (simp add: check_root_assignment_def a' j)
    next
      case (Some i)
      then show ?thesis using t
        by (cases rule: map_option_eqE [OF la [of i]])
          (auto simp: check_root_assignment_def a' j ln dest: assignment_skeletonD)
    qed
  qed
qed

definition root_checks :: "M2JobExecutionRoot \<Rightarrow> bool" where
  "root_checks r \<longleftrightarrow> strip (jr_job_id r) = jr_job_id r \<and> jr_job_id r \<noteq> [] \<and>
     distinct (map ts_task_id (jr_tasks r)) \<and> distinct (map as_assignment_id (jr_assignments r)) \<and>
     sorted (map ts_task_id (jr_tasks r)) \<and> sorted (map as_assignment_id (jr_assignments r)) \<and>
     (\<forall>t\<in>set (jr_tasks r). check_root_task r t = Inr ()) \<and>
     (\<forall>a\<in>set (jr_assignments r). check_root_assignment r a = Inr ()) \<and>
     validate_acyclic_supersession
       (map (\<lambda>t. (ts_task_id t, td_supersedes_task_id (ts_definition t))) (jr_tasks r)) ''task'' = Inr () \<and>
     validate_acyclic_supersession
       (map (\<lambda>a. (as_assignment_id a, as_supersedes_assignment_id a)) (jr_assignments r)) ''assignment'' = Inr ()"

lemma M2JobExecutionRoot_init_ok:
  "M2JobExecutionRoot_init r = Inr r \<longleftrightarrow> root_checks r \<and> 0 \<le> jr_job_execution_revision r"
proof -
  obtain j ts as n where r: "r = \<lparr>jr_job_id = j, jr_tasks = ts, jr_assignments = as, jr_job_execution_revision = n\<rparr>"
    by (cases r)
  show ?thesis
    unfolding M2JobExecutionRoot_init_def root_checks_def Let_def r
    by (simp add: sort_key_id_iff) (auto simp: sort_key_sorted)
qed

lemma root_checks_skeleton:
  assumes s: "root_skeleton r' = root_skeleton r" and c: "root_checks r"
  shows "root_checks r'"
proof -
  have j: "jr_job_id r' = jr_job_id r" and d: "map ts_definition (jr_tasks r') = map ts_definition (jr_tasks r)"
    and a: "map assignment_skeleton (jr_assignments r') = map assignment_skeleton (jr_assignments r)"
    using s by (auto simp: root_skeleton_def)
  have ids: "map ts_task_id (jr_tasks r') = map ts_task_id (jr_tasks r)"
    by (rule map_eq_mapD [OF d, where k = td_task_id]) simp
  have rel: "map (\<lambda>t. (ts_task_id t, td_supersedes_task_id (ts_definition t))) (jr_tasks r') =
      map (\<lambda>t. (ts_task_id t, td_supersedes_task_id (ts_definition t))) (jr_tasks r)"
    by (rule map_eq_mapD [OF d, where k = "\<lambda>x. (td_task_id x, td_supersedes_task_id x)"]) simp
  have aids: "map as_assignment_id (jr_assignments r') = map as_assignment_id (jr_assignments r)"
    by (rule map_eq_mapD [OF a, where k = as_assignment_id]) simp
  have arel: "map (\<lambda>a. (as_assignment_id a, as_supersedes_assignment_id a)) (jr_assignments r') =
      map (\<lambda>a. (as_assignment_id a, as_supersedes_assignment_id a)) (jr_assignments r)"
    by (rule map_eq_mapD [OF a, where k = "\<lambda>x. (as_assignment_id x, as_supersedes_assignment_id x)"]) simp
  have t: "check_root_task r' t' = Inr ()" if "t' \<in> set (jr_tasks r')" for t'
  proof -
    from that d obtain t where "t \<in> set (jr_tasks r)" "ts_definition t' = ts_definition t"
      by (metis (no_types, opaque_lifting) imageE imageI list.set_map)
    with c s show ?thesis using check_root_task_skeleton [OF s] by (auto simp: root_checks_def)
  qed
  have b: "check_root_assignment r' a' = Inr ()" if "a' \<in> set (jr_assignments r')" for a'
  proof -
    from that a obtain b where "b \<in> set (jr_assignments r)" "assignment_skeleton a' = assignment_skeleton b"
      by (metis (no_types, opaque_lifting) imageE imageI list.set_map)
    with c s show ?thesis using check_root_assignment_skeleton [OF s] by (auto simp: root_checks_def)
  qed
  show ?thesis using c t b by (simp add: root_checks_def j ids rel aids arel)
qed

section \<open>What the scope's checks read\<close>

lemma map_concat_same_image:
  "map (\<lambda>x. map g (f x)) xs = map (\<lambda>x. map g (f x)) ys \<Longrightarrow> map g (concat (map f xs)) = map g (concat (map f ys))"
  by (simp add: map_concat comp_def)

text \<open>Two scopes with one skeleton.\<close>

lemma skeletonD:
  assumes "scope_skeleton s' = scope_skeleton s"
  shows "sc_publications s' = sc_publications s"
    and "sc_worker_registry s' = sc_worker_registry s"
    and "map root_skeleton (sc_job_execution_roots s') = map root_skeleton (sc_job_execution_roots s)"
    and "map (\<lambda>p. (pd_plan_day_id p, pd_worker_id p)) (sc_plan_day_roots s') =
         map (\<lambda>p. (pd_plan_day_id p, pd_worker_id p)) (sc_plan_day_roots s)"
    and "map dr_definition (sc_directive_roots s') = map dr_definition (sc_directive_roots s)"
  using assms by (simp_all add: scope_skeleton_def)

lemma tasks_skeleton:
  assumes "scope_skeleton s' = scope_skeleton s"
  shows "map ts_definition (tasks s') = map ts_definition (tasks s)"
proof -
  have "map (\<lambda>r. map ts_definition (jr_tasks r)) (sc_job_execution_roots s') =
      map (\<lambda>r. map ts_definition (jr_tasks r)) (sc_job_execution_roots s)"
    by (rule map_eq_mapD [OF skeletonD(3) [OF assms], where k = "\<lambda>x. fst (snd x)"])
      (simp add: root_skeleton_def)
  then show ?thesis unfolding tasks_def
    by (intro map_sort_key_same_image [where k = td_task_id] map_concat_same_image) simp_all
qed

lemma assignments_skeleton:
  assumes "scope_skeleton s' = scope_skeleton s"
  shows "map assignment_skeleton (assignments s') = map assignment_skeleton (assignments s)"
proof -
  have "map (\<lambda>r. map assignment_skeleton (jr_assignments r)) (sc_job_execution_roots s') =
      map (\<lambda>r. map assignment_skeleton (jr_assignments r)) (sc_job_execution_roots s)"
    by (rule map_eq_mapD [OF skeletonD(3) [OF assms], where k = "\<lambda>x. snd (snd x)"])
      (simp add: root_skeleton_def)
  then show ?thesis unfolding assignments_def
    by (intro map_sort_key_same_image [where k = as_assignment_id] map_concat_same_image) simp_all
qed

lemma task_skeleton:
  "scope_skeleton s' = scope_skeleton s \<Longrightarrow>
   map_option ts_definition (task s' k) = map_option ts_definition (task s k)"
  unfolding task_def by (rule lookup_by_same_image [where k = td_task_id, OF tasks_skeleton]) simp_all

lemma assignment_skeleton_lookup:
  "scope_skeleton s' = scope_skeleton s \<Longrightarrow>
   map_option assignment_skeleton (assignment s' k) = map_option assignment_skeleton (assignment s k)"
  unfolding assignment_def
  by (rule lookup_by_same_image [where k = as_assignment_id, OF assignments_skeleton]) simp_all

lemma plan_day_skeleton:
  "scope_skeleton s' = scope_skeleton s \<Longrightarrow>
   map_option (\<lambda>p. (pd_plan_day_id p, pd_worker_id p)) (plan_day s' k) =
   map_option (\<lambda>p. (pd_plan_day_id p, pd_worker_id p)) (plan_day s k)"
  unfolding plan_day_def by (rule lookup_by_same_image [where k = fst]) (auto dest: skeletonD)

lemma directive_skeleton:
  "scope_skeleton s' = scope_skeleton s \<Longrightarrow>
   map_option dr_definition (directive s' k) = map_option dr_definition (directive s k)"
  unfolding directive_def
  by (rule lookup_by_same_image [where k = dd_directive_id]) (auto dest: skeletonD)

lemma job_execution_skeleton:
  "scope_skeleton s' = scope_skeleton s \<Longrightarrow>
   map_option root_skeleton (job_execution s' k) = map_option root_skeleton (job_execution s k)"
  unfolding job_execution_def
  by (rule lookup_by_same_image [where k = fst]) (auto simp: root_skeleton_def dest: skeletonD)

lemma bind_same_image:
  "(\<And>k. map_option f (m k) = map_option f (m' k)) \<Longrightarrow>
   map_option f (Option.bind x m) = map_option f (Option.bind x m')"
  by (cases x) auto

lemma map_option_comp_eq: "map_option f x = map_option f y \<Longrightarrow> (\<And>z. g z = h (f z)) \<Longrightarrow> map_option g x = map_option g y"
  by (cases x; cases y) auto

lemma resolved_directive_job_skeleton:
  assumes s: "scope_skeleton s' = scope_skeleton s" and d: "dr_definition d' = dr_definition d"
  shows "resolved_directive_job s' d' = resolved_directive_job s d"
proof -
  have t: "map_option ts_definition (Option.bind x (task s')) = map_option ts_definition (Option.bind x (task s))" for x
    by (rule bind_same_image) (rule task_skeleton [OF s])
  have a: "map_option as_job_id (Option.bind x (assignment s')) = map_option as_job_id (Option.bind x (assignment s))" for x
    by (rule map_option_comp_eq [OF bind_same_image [OF assignment_skeleton_lookup [OF s]], where h = as_job_id]) simp
  show ?thesis
    by (cases rule: map_option_eqE [OF t [of "dr_task_id d"]])
      (auto simp: resolved_directive_job_def d a split: option.splits)
qed

lemma directive_stream_key_definition:
  "dr_definition d' = dr_definition d \<Longrightarrow> directive_stream_key d' = directive_stream_key d"
  by (auto simp: directive_stream_key_def split: option.splits)

lemma directive_scopes_compatible_skeleton:
  assumes "scope_skeleton s' = scope_skeleton s" "dr_definition p' = dr_definition p" "dr_definition d' = dr_definition d"
  shows "directive_scopes_compatible s' p' d' = directive_scopes_compatible s p d"
  using assms resolved_directive_job_skeleton [OF assms(1)] by (simp add: directive_scopes_compatible_def)

lemma check_directive_predecessor_skeleton:
  assumes s: "scope_skeleton s' = scope_skeleton s" and d: "dr_definition d' = dr_definition d"
  shows "check_directive_predecessor s' d' = check_directive_predecessor s d"
proof (cases "dr_supersedes_directive_id d")
  case None
  then show ?thesis by (simp add: check_directive_predecessor_def d)
next
  case (Some i)
  show ?thesis
  proof (cases rule: map_option_eqE [OF directive_skeleton [OF s, of i]])
    case 1
    then show ?thesis by (simp add: check_directive_predecessor_def d Some)
  next
    case (2 p' p)
    then show ?thesis
      using directive_stream_key_definition [OF d] directive_stream_key_definition [OF 2(3)]
        directive_scopes_compatible_skeleton [OF s 2(3) d]
      by (simp add: check_directive_predecessor_def d Some)
  qed
qed

lemma check_directives_skeleton:
  assumes s: "scope_skeleton s' = scope_skeleton s" and d: "map dr_definition ds' = map dr_definition ds"
  shows "check_directives s' seen ds' = check_directives s seen ds"
  using d
proof (induction ds' arbitrary: ds seen)
  case Nil
  then show ?case by simp
next
  case (Cons d' ds')
  then obtain d dt where "ds = d # dt" "dr_definition d' = dr_definition d" "map dr_definition ds' = map dr_definition dt"
    by (auto simp: Cons_eq_map_conv)
  then show ?case
    using Cons.IH [of dt] directive_stream_key_definition [of d' d] check_directive_predecessor_skeleton [OF s, of d' d]
    by (simp add: Let_def)
qed

definition scope_checks :: "M2ReductionScope \<Rightarrow> bool" where
  "scope_checks s \<longleftrightarrow>
     distinct (map publication_key (sc_publications s)) \<and> sorted (map publication_key (sc_publications s)) \<and>
     distinct (map jr_job_id (sc_job_execution_roots s)) \<and> sorted (map jr_job_id (sc_job_execution_roots s)) \<and>
     distinct (map pd_plan_day_id (sc_plan_day_roots s)) \<and> sorted (map pd_plan_day_id (sc_plan_day_roots s)) \<and>
     distinct (map dr_directive_id (sc_directive_roots s)) \<and> sorted (map dr_directive_id (sc_directive_roots s)) \<and>
     distinct (map ts_task_id (tasks s)) \<and> distinct (map as_assignment_id (assignments s)) \<and>
     (\<forall>t\<in>set (tasks s). check_task_publication s t = Inr ()) \<and>
     (\<forall>p\<in>set (sc_plan_day_roots s). pd_worker_id p \<in> set (worker_ids s)) \<and>
     (\<forall>d\<in>set (sc_directive_roots s). dr_worker_id d \<in> set (worker_ids s)) \<and>
     (\<forall>a\<in>set (assignments s). check_assignment_workers s a = Inr ()) \<and>
     check_directives s [] (sc_directive_roots s) = Inr ()"

lemma scope_sorted_id: "scope_sorted s = s \<longleftrightarrow>
    sorted (map publication_key (sc_publications s)) \<and> sorted (map jr_job_id (sc_job_execution_roots s)) \<and>
    sorted (map pd_plan_day_id (sc_plan_day_roots s)) \<and> sorted (map dr_directive_id (sc_directive_roots s))"
  by (cases s) (auto simp: scope_sorted_def sort_key_id_iff)

lemma M2ReductionScope_init_ok: "M2ReductionScope_init s = Inr s \<longleftrightarrow> scope_checks s"
proof (cases "scope_sorted s = s")
  case True
  with scope_sorted_id [of s] show ?thesis
    by (auto simp: M2ReductionScope_init_def scope_checks_def Let_def)
next
  case False
  have "M2ReductionScope_init s \<noteq> Inr s"
    using False by (auto simp: M2ReductionScope_init_def Let_def)
  moreover have "\<not> scope_checks s"
    using False scope_sorted_id [of s] by (auto simp: scope_checks_def)
  ultimately show ?thesis by simp
qed

lemma all_same_image:
  assumes "map f xs = map f ys" and "\<And>x. P x = Q (f x)" and "\<forall>y\<in>set ys. P y"
  shows "\<forall>x\<in>set xs. P x"
  using assms by (metis (no_types, lifting) imageE imageI list.set_map)

lemma scope_checks_skeleton:
  assumes s: "scope_skeleton s' = scope_skeleton s" and c: "scope_checks s"
  shows "scope_checks s'"
proof -
  note k = skeletonD [OF s]
  have j: "map jr_job_id (sc_job_execution_roots s') = map jr_job_id (sc_job_execution_roots s)"
    by (rule map_eq_mapD [OF k(3), where k = fst]) (simp add: root_skeleton_def)
  have p: "map pd_plan_day_id (sc_plan_day_roots s') = map pd_plan_day_id (sc_plan_day_roots s)"
    by (rule map_eq_mapD [OF k(4), where k = fst]) simp
  have d: "map dr_directive_id (sc_directive_roots s') = map dr_directive_id (sc_directive_roots s)"
    by (rule map_eq_mapD [OF k(5), where k = dd_directive_id]) simp
  have t: "map ts_task_id (tasks s') = map ts_task_id (tasks s)"
    by (rule map_eq_mapD [OF tasks_skeleton [OF s], where k = td_task_id]) simp
  have a: "map as_assignment_id (assignments s') = map as_assignment_id (assignments s)"
    by (rule map_eq_mapD [OF assignments_skeleton [OF s], where k = as_assignment_id]) simp
  have "\<forall>x\<in>set (tasks s'). check_task_publication s x = Inr ()"
    by (rule all_same_image [OF tasks_skeleton [OF s], where Q = "\<lambda>x. check_task_publication s
          (\<lparr>ts_definition = x, ts_status = TaskStatus.OPEN, ts_stages = [], ts_evidence = [], ts_observations = [],
            ts_completion_event_id = None, ts_safe_hold_directive_id = None, ts_blocked_pending_resolution = False,
            ts_execution_authorized = False\<rparr>) = Inr ()"])
      (use c in \<open>auto simp: check_task_publication_def scope_checks_def\<close>)
  then have tp: "\<forall>x\<in>set (tasks s'). check_task_publication s' x = Inr ()"
    by (simp add: check_task_publication_def k)
  have "\<forall>x\<in>set (assignments s'). check_assignment_workers s x = Inr ()"
    by (rule all_same_image [OF assignments_skeleton [OF s], where Q = "\<lambda>x. check_assignment_workers s x = Inr ()"])
      (use c in \<open>auto simp: check_assignment_workers_def scope_checks_def\<close>)
  then have aw: "\<forall>x\<in>set (assignments s'). check_assignment_workers s' x = Inr ()"
    by (simp add: check_assignment_workers_def k cong: option.case_cong)
  have pw: "\<forall>x\<in>set (sc_plan_day_roots s'). pd_worker_id x \<in> set (worker_ids s')"
    by (rule all_same_image [OF k(4), where Q = "\<lambda>x. snd x \<in> set (worker_ids s')"])
      (use c k(2) in \<open>auto simp: scope_checks_def\<close>)
  have dw: "\<forall>x\<in>set (sc_directive_roots s'). dr_worker_id x \<in> set (worker_ids s')"
    by (rule all_same_image [OF k(5), where Q = "\<lambda>x. dd_worker_id x \<in> set (worker_ids s')"])
      (use c k(2) in \<open>auto simp: scope_checks_def\<close>)
  show ?thesis
    using c tp aw pw dw
    by (simp add: scope_checks_def j p d t a k(1) check_directives_skeleton [OF s k(5)])
qed

section \<open>Plain replacement\<close>

definition put_task :: "TaskState \<Rightarrow> M2ReductionScope \<Rightarrow> M2ReductionScope" where
  "put_task t s = s\<lparr>sc_job_execution_roots :=
     map (\<lambda>r. r\<lparr>jr_tasks := put_by ts_task_id t (jr_tasks r)\<rparr>) (sc_job_execution_roots s)\<rparr>"

definition put_assignment :: "AssignmentState \<Rightarrow> M2ReductionScope \<Rightarrow> M2ReductionScope" where
  "put_assignment a s = s\<lparr>sc_job_execution_roots :=
     map (\<lambda>r. r\<lparr>jr_assignments := put_by as_assignment_id a (jr_assignments r)\<rparr>) (sc_job_execution_roots s)\<rparr>"

definition put_plan_day :: "PlanDayRoot \<Rightarrow> M2ReductionScope \<Rightarrow> M2ReductionScope" where
  "put_plan_day p s = s\<lparr>sc_plan_day_roots := put_by pd_plan_day_id p (sc_plan_day_roots s)\<rparr>"

definition put_directive :: "DirectiveRoot \<Rightarrow> M2ReductionScope \<Rightarrow> M2ReductionScope" where
  "put_directive d s = s\<lparr>sc_directive_roots := put_by dr_directive_id d (sc_directive_roots s)\<rparr>"

lemma put_task_sel [simp]:
  "tasks (put_task t s) = put_by ts_task_id t (tasks s)"
  "assignments (put_task t s) = assignments s"
  "sc_plan_day_roots (put_task t s) = sc_plan_day_roots s"
  "sc_directive_roots (put_task t s) = sc_directive_roots s"
  "sc_processed_events (put_task t s) = sc_processed_events s"
  "sc_publications (put_task t s) = sc_publications s"
  "sc_worker_registry (put_task t s) = sc_worker_registry s"
proof -
  show "tasks (put_task t s) = put_by ts_task_id t (tasks s)"
    by (simp add: tasks_def put_task_def comp_def put_by_concat sort_key_put_by)
qed (simp_all add: assignments_def put_task_def comp_def)

lemma put_assignment_sel [simp]:
  "tasks (put_assignment a s) = tasks s"
  "assignments (put_assignment a s) = put_by as_assignment_id a (assignments s)"
  "sc_plan_day_roots (put_assignment a s) = sc_plan_day_roots s"
  "sc_directive_roots (put_assignment a s) = sc_directive_roots s"
  "sc_processed_events (put_assignment a s) = sc_processed_events s"
  "sc_publications (put_assignment a s) = sc_publications s"
  "sc_worker_registry (put_assignment a s) = sc_worker_registry s"
proof -
  show "assignments (put_assignment a s) = put_by as_assignment_id a (assignments s)"
    by (simp add: assignments_def put_assignment_def comp_def put_by_concat sort_key_put_by)
qed (simp_all add: tasks_def put_assignment_def comp_def)

lemma put_plan_day_sel [simp]:
  "tasks (put_plan_day p s) = tasks s" "assignments (put_plan_day p s) = assignments s"
  "sc_job_execution_roots (put_plan_day p s) = sc_job_execution_roots s"
  "sc_plan_day_roots (put_plan_day p s) = put_by pd_plan_day_id p (sc_plan_day_roots s)"
  "sc_directive_roots (put_plan_day p s) = sc_directive_roots s"
  "sc_processed_events (put_plan_day p s) = sc_processed_events s"
  "sc_publications (put_plan_day p s) = sc_publications s"
  "sc_worker_registry (put_plan_day p s) = sc_worker_registry s"
  by (simp_all add: tasks_def assignments_def put_plan_day_def)

lemma put_directive_sel [simp]:
  "tasks (put_directive d s) = tasks s" "assignments (put_directive d s) = assignments s"
  "sc_job_execution_roots (put_directive d s) = sc_job_execution_roots s"
  "sc_plan_day_roots (put_directive d s) = sc_plan_day_roots s"
  "sc_directive_roots (put_directive d s) = put_by dr_directive_id d (sc_directive_roots s)"
  "sc_processed_events (put_directive d s) = sc_processed_events s"
  "sc_publications (put_directive d s) = sc_publications s"
  "sc_worker_registry (put_directive d s) = sc_worker_registry s"
  by (simp_all add: tasks_def assignments_def put_directive_def)

lemma job_roots_put [simp]:
  "sc_job_execution_roots (put_task t s) =
     map (\<lambda>r. r\<lparr>jr_tasks := put_by ts_task_id t (jr_tasks r)\<rparr>) (sc_job_execution_roots s)"
  "sc_job_execution_roots (put_assignment a s) =
     map (\<lambda>r. r\<lparr>jr_assignments := put_by as_assignment_id a (jr_assignments r)\<rparr>) (sc_job_execution_roots s)"
  by (simp_all add: put_task_def put_assignment_def)

lemma scope_validD:
  assumes "scope_valid s"
  shows "scope_checks s" "\<And>r. r \<in> set (sc_job_execution_roots s) \<Longrightarrow> root_ok r"
    "\<And>p. p \<in> set (sc_plan_day_roots s) \<Longrightarrow> plan_ok p" "\<And>d. d \<in> set (sc_directive_roots s) \<Longrightarrow> directive_ok d"
    "ledger_ok (sc_processed_events s)"
    "distinct (map ts_task_id (tasks s))" "distinct (map as_assignment_id (assignments s))"
    "distinct (map jr_job_id (sc_job_execution_roots s))" "distinct (map pd_plan_day_id (sc_plan_day_roots s))"
    "distinct (map dr_directive_id (sc_directive_roots s))"
  using assms by (auto simp: scope_valid_def M2ReductionScope_init_ok scope_checks_def)

lemma set_tasks: "set (tasks s) = (\<Union>r\<in>set (sc_job_execution_roots s). set (jr_tasks r))"
  by (simp add: tasks_def)

lemma set_assignments: "set (assignments s) = (\<Union>r\<in>set (sc_job_execution_roots s). set (jr_assignments r))"
  by (simp add: assignments_def)

lemma task_ids_unique:
  "scope_valid s \<Longrightarrow> t \<in> set (tasks s) \<Longrightarrow> u \<in> set (tasks s) \<Longrightarrow> ts_task_id t = ts_task_id u \<Longrightarrow> t = u"
  using scope_validD(6) [of s] by (auto simp: distinct_map dest: inj_onD)

lemma assignment_ids_unique:
  "scope_valid s \<Longrightarrow> t \<in> set (assignments s) \<Longrightarrow> u \<in> set (assignments s) \<Longrightarrow>
   as_assignment_id t = as_assignment_id u \<Longrightarrow> t = u"
  using scope_validD(7) [of s] by (auto simp: distinct_map dest: inj_onD)

text \<open>A record of a scope and where it stands.\<close>

lemma taskE:
  assumes "scope_valid s" and "task s k = Some t"
  obtains r where "r \<in> set (sc_job_execution_roots s)" "t \<in> set (jr_tasks r)" "t \<in> set (tasks s)"
    "ts_task_id t = k" "jr_job_id r = td_job_id (ts_definition t)" "task_ok t" "task_checks t"
    "job_execution s (td_job_id (ts_definition t)) = Some r" "root_task r k = Some t" "root_ok r"
proof -
  from assms(2) have t: "t \<in> set (tasks s)" "ts_task_id t = k"
    by (auto simp: task_def dest: lookup_by_Some)
  then obtain r where r: "r \<in> set (sc_job_execution_roots s)" "t \<in> set (jr_tasks r)"
    by (auto simp: set_tasks)
  with scope_validD(2) [OF assms(1)] have ok: "root_ok r" by blast
  then have c: "root_checks r" and tok: "task_ok t"
    using r by (auto simp: root_ok_def M2JobExecutionRoot_init_ok)
  then have j: "jr_job_id r = td_job_id (ts_definition t)"
    using r by (auto simp: root_checks_def check_root_task_def)
  have "job_execution s (td_job_id (ts_definition t)) = Some r"
    using lookup_by_distinct [OF scope_validD(8) [OF assms(1)] r(1)] by (simp add: job_execution_def j)
  moreover have "root_task r k = Some t"
    using lookup_by_distinct [of ts_task_id "jr_tasks r" t] c r t by (simp add: root_task_def root_checks_def)
  moreover have "task_checks t" using tok by (simp add: task_ok_def TaskState_init_ok)
  ultimately show thesis using that r t j tok ok by blast
qed

lemma assignmentE:
  assumes "scope_valid s" and "assignment s k = Some a"
  obtains r where "r \<in> set (sc_job_execution_roots s)" "a \<in> set (jr_assignments r)" "a \<in> set (assignments s)"
    "as_assignment_id a = k" "jr_job_id r = as_job_id a" "assignment_ok a"
    "job_execution s (as_job_id a) = Some r" "root_assignment r k = Some a" "root_ok r"
proof -
  from assms(2) have a: "a \<in> set (assignments s)" "as_assignment_id a = k"
    by (auto simp: assignment_def dest: lookup_by_Some)
  then obtain r where r: "r \<in> set (sc_job_execution_roots s)" "a \<in> set (jr_assignments r)"
    by (auto simp: set_assignments)
  with scope_validD(2) [OF assms(1)] have ok: "root_ok r" by blast
  then have c: "root_checks r" and aok: "assignment_ok a"
    using r by (auto simp: root_ok_def M2JobExecutionRoot_init_ok)
  then have j: "jr_job_id r = as_job_id a"
    using r by (auto simp: root_checks_def check_root_assignment_def)
  have "job_execution s (as_job_id a) = Some r"
    using lookup_by_distinct [OF scope_validD(8) [OF assms(1)] r(1)] by (simp add: job_execution_def j)
  moreover have "root_assignment r k = Some a"
    using lookup_by_distinct [of as_assignment_id "jr_assignments r" a] c r a
    by (simp add: root_assignment_def root_checks_def)
  ultimately show thesis using that r a j aok ok by blast
qed

lemma plan_dayE:
  assumes "scope_valid s" and "plan_day s k = Some p"
  obtains "p \<in> set (sc_plan_day_roots s)" "pd_plan_day_id p = k" "plan_ok p"
  using assms scope_validD(3) [OF assms(1)] by (auto simp: plan_day_def dest: lookup_by_Some)

lemma directiveE:
  assumes "scope_valid s" and "directive s k = Some d"
  obtains "d \<in> set (sc_directive_roots s)" "dr_directive_id d = k" "directive_ok d"
  using assms scope_validD(4) [OF assms(1)] by (auto simp: directive_def dest: lookup_by_Some)

end
