(* ===== verification/Field_Updates.thy ===== *)
theory Field_Updates
  imports Field_Invariant
begin

text \<open>
  Each \<open>with_\<dots>\<close> of the reducer on a well formed scope: it returns, it is the plain replacement
  \<open>put_\<dots>\<close>, the result is well formed and has the same skeleton.
\<close>

section \<open>Tasks\<close>

lemma put_task_skeleton:
  assumes v: "scope_valid s" and t: "task s k = Some t" and d: "ts_definition t' = ts_definition t"
  shows "scope_skeleton (put_task t' s) = scope_skeleton s"
proof -
  have "map ts_definition (put_by ts_task_id t' (jr_tasks r)) = map ts_definition (jr_tasks r)"
    if r: "r \<in> set (sc_job_execution_roots s)" for r
  proof (rule put_by_map_other)
    fix x assume x: "x \<in> set (jr_tasks r)" "ts_task_id x = ts_task_id t'"
    from taskE [OF v t] have "t \<in> set (tasks s)" by blast
    moreover have "x \<in> set (tasks s)" using r x by (auto simp: set_tasks)
    ultimately have "x = t" using task_ids_unique [OF v] x d by auto
    then show "ts_definition x = ts_definition t'" by (simp add: d)
  qed
  then show ?thesis by (simp add: scope_skeleton_def root_skeleton_def)
qed

lemma valid_from_skeleton:
  assumes v: "scope_valid s" and s: "scope_skeleton s' = scope_skeleton s"
    and "\<And>r. r \<in> set (sc_job_execution_roots s') \<Longrightarrow> root_ok r"
    and "\<And>p. p \<in> set (sc_plan_day_roots s') \<Longrightarrow> plan_ok p"
    and "\<And>d. d \<in> set (sc_directive_roots s') \<Longrightarrow> directive_ok d"
    and "ledger_ok (sc_processed_events s')"
  shows "scope_valid s'"
  using assms scope_checks_skeleton [OF s] skeletonD [OF s]
  by (auto simp: scope_valid_def M2ReductionScope_init_ok)

lemma put_task_root_ok:
  assumes v: "scope_valid s" and t: "task s k = Some t" and d: "ts_definition t' = ts_definition t" and ok: "task_ok t'"
    and r: "r \<in> set (sc_job_execution_roots s)"
  shows "root_ok (r\<lparr>jr_tasks := put_by ts_task_id t' (jr_tasks r)\<rparr>)"
proof -
  have "map root_skeleton (sc_job_execution_roots (put_task t' s)) = map root_skeleton (sc_job_execution_roots s)"
    using put_task_skeleton [OF v t d] by (rule skeletonD)
  then have sk: "root_skeleton (r\<lparr>jr_tasks := put_by ts_task_id t' (jr_tasks r)\<rparr>) = root_skeleton r"
    using r by simp
  from scope_validD(2) [OF v r] have "root_checks r" "0 \<le> jr_job_execution_revision r"
      "\<forall>t\<in>set (jr_tasks r). task_ok t" "\<forall>a\<in>set (jr_assignments r). assignment_ok a"
    by (auto simp: root_ok_def M2JobExecutionRoot_init_ok)
  with root_checks_skeleton [OF sk] ok show ?thesis
    by (auto simp: root_ok_def M2JobExecutionRoot_init_ok dest!: set_put_by)
qed

lemma put_task_valid:
  assumes "scope_valid s" "task s k = Some t" "ts_definition t' = ts_definition t" "task_ok t'"
  shows "scope_valid (put_task t' s)"
  by (rule valid_from_skeleton [OF assms(1) put_task_skeleton [OF assms(1-3)]])
    (use assms put_task_root_ok [OF assms] in \<open>auto dest: scope_validD\<close>)

lemma with_task_eq:
  assumes v: "scope_valid s" and t: "task s k = Some t" and d: "ts_definition t' = ts_definition t" and ok: "task_ok t'"
  shows "with_task s t' = Inr (put_task t' s)"
proof -
  obtain r where r: "r \<in> set (sc_job_execution_roots s)" "job_execution s (td_job_id (ts_definition t)) = Some r"
    "root_task r k = Some t" "ts_task_id t = k" "t \<in> set (tasks s)" "t \<in> set (jr_tasks r)"
    using taskE [OF v t] by metis
  let ?r = "r\<lparr>jr_tasks := put_by ts_task_id t' (jr_tasks r)\<rparr>"
  have init: "M2JobExecutionRoot_init ?r = Inr ?r"
    using put_task_root_ok [OF assms r(1)] by (simp add: root_ok_def)
  have "put_by jr_job_id ?r (sc_job_execution_roots s) =
      map (\<lambda>r. r\<lparr>jr_tasks := put_by ts_task_id t' (jr_tasks r)\<rparr>) (sc_job_execution_roots s)"
    unfolding put_by_def [of jr_job_id]
  proof (rule map_cong [OF refl])
    fix x assume x: "x \<in> set (sc_job_execution_roots s)"
    have unique: "x = r" if "jr_job_id x = jr_job_id r"
      using scope_validD(8) [OF v] x r(1) that by (auto simp: distinct_map dest: inj_onD)
    have "put_by ts_task_id t' (jr_tasks x) = jr_tasks x" if "x \<noteq> r"
    proof (rule put_by_absent)
      show "ts_task_id t' \<notin> ts_task_id ` set (jr_tasks x)"
      proof
        assume "ts_task_id t' \<in> ts_task_id ` set (jr_tasks x)"
        then obtain u where u: "u \<in> set (jr_tasks x)" "ts_task_id u = ts_task_id t'" by auto
        with x have "u \<in> set (tasks s)" by (auto simp: set_tasks)
        with task_ids_unique [OF v this r(5)] u d have "u = t" by simp
        have "td_job_id (ts_definition t) = jr_job_id x" "td_job_id (ts_definition t) = jr_job_id r"
          using scope_validD(2) [OF v x] scope_validD(2) [OF v r(1)] u r(6) \<open>u = t\<close>
          by (auto simp: root_ok_def M2JobExecutionRoot_init_ok root_checks_def check_root_task_def)
        with unique that show False by simp
      qed
    qed
    then show "(if jr_job_id x = jr_job_id ?r then ?r else x) = x\<lparr>jr_tasks := put_by ts_task_id t' (jr_tasks x)\<rparr>"
      using unique by (cases "x = r") auto
  qed
  then have "with_job_execution s ?r = M2ReductionScope_init (put_task t' s)"
    by (simp add: with_job_execution_def put_task_def)
  moreover have "M2ReductionScope_init (put_task t' s) = Inr (put_task t' s)"
    using put_task_valid [OF assms] by (simp add: scope_valid_def)
  ultimately show ?thesis
    using r init d by (simp add: with_task_def)
qed

section \<open>Assignments\<close>

lemma put_assignment_skeleton:
  assumes v: "scope_valid s" and a: "assignment s k = Some a" and d: "assignment_skeleton a' = assignment_skeleton a"
  shows "scope_skeleton (put_assignment a' s) = scope_skeleton s"
proof -
  have "map assignment_skeleton (put_by as_assignment_id a' (jr_assignments r)) = map assignment_skeleton (jr_assignments r)"
    if r: "r \<in> set (sc_job_execution_roots s)" for r
  proof (rule put_by_map_other)
    fix x assume x: "x \<in> set (jr_assignments r)" "as_assignment_id x = as_assignment_id a'"
    from assignmentE [OF v a] have "a \<in> set (assignments s)" by blast
    moreover have "x \<in> set (assignments s)" using r x by (auto simp: set_assignments)
    ultimately have "x = a" using assignment_ids_unique [OF v] x assignment_skeletonD [OF d] by auto
    then show "assignment_skeleton x = assignment_skeleton a'" by (simp add: d)
  qed
  then show ?thesis by (simp add: scope_skeleton_def root_skeleton_def)
qed

lemma put_assignment_root_ok:
  assumes v: "scope_valid s" and a: "assignment s k = Some a" and d: "assignment_skeleton a' = assignment_skeleton a"
    and ok: "assignment_ok a'" and r: "r \<in> set (sc_job_execution_roots s)"
  shows "root_ok (r\<lparr>jr_assignments := put_by as_assignment_id a' (jr_assignments r)\<rparr>)"
proof -
  have "map root_skeleton (sc_job_execution_roots (put_assignment a' s)) = map root_skeleton (sc_job_execution_roots s)"
    using put_assignment_skeleton [OF v a d] by (rule skeletonD)
  then have sk: "root_skeleton (r\<lparr>jr_assignments := put_by as_assignment_id a' (jr_assignments r)\<rparr>) = root_skeleton r"
    using r by simp
  from scope_validD(2) [OF v r] have "root_checks r" "0 \<le> jr_job_execution_revision r"
      "\<forall>t\<in>set (jr_tasks r). task_ok t" "\<forall>a\<in>set (jr_assignments r). assignment_ok a"
    by (auto simp: root_ok_def M2JobExecutionRoot_init_ok)
  with root_checks_skeleton [OF sk] ok show ?thesis
    by (auto simp: root_ok_def M2JobExecutionRoot_init_ok dest!: set_put_by)
qed

lemma put_assignment_valid:
  assumes "scope_valid s" "assignment s k = Some a" "assignment_skeleton a' = assignment_skeleton a" "assignment_ok a'"
  shows "scope_valid (put_assignment a' s)"
  by (rule valid_from_skeleton [OF assms(1) put_assignment_skeleton [OF assms(1-3)]])
    (use assms put_assignment_root_ok [OF assms] in \<open>auto dest: scope_validD\<close>)

lemma with_assignment_eq:
  assumes v: "scope_valid s" and a: "assignment s k = Some a" and d: "assignment_skeleton a' = assignment_skeleton a"
    and ok: "assignment_ok a'"
  shows "with_assignment s a' = Inr (put_assignment a' s)"
proof -
  note d' = assignment_skeletonD [OF d]
  obtain r where r: "r \<in> set (sc_job_execution_roots s)" "job_execution s (as_job_id a) = Some r"
    "root_assignment r k = Some a" "as_assignment_id a = k" "a \<in> set (assignments s)" "a \<in> set (jr_assignments r)"
    using assignmentE [OF v a] by metis
  let ?r = "r\<lparr>jr_assignments := put_by as_assignment_id a' (jr_assignments r)\<rparr>"
  have init: "M2JobExecutionRoot_init ?r = Inr ?r"
    using put_assignment_root_ok [OF assms r(1)] by (simp add: root_ok_def)
  have "put_by jr_job_id ?r (sc_job_execution_roots s) =
      map (\<lambda>r. r\<lparr>jr_assignments := put_by as_assignment_id a' (jr_assignments r)\<rparr>) (sc_job_execution_roots s)"
    unfolding put_by_def [of jr_job_id]
  proof (rule map_cong [OF refl])
    fix x assume x: "x \<in> set (sc_job_execution_roots s)"
    have unique: "x = r" if "jr_job_id x = jr_job_id r"
      using scope_validD(8) [OF v] x r(1) that by (auto simp: distinct_map dest: inj_onD)
    have "put_by as_assignment_id a' (jr_assignments x) = jr_assignments x" if "x \<noteq> r"
    proof (rule put_by_absent)
      show "as_assignment_id a' \<notin> as_assignment_id ` set (jr_assignments x)"
      proof
        assume "as_assignment_id a' \<in> as_assignment_id ` set (jr_assignments x)"
        then obtain u where u: "u \<in> set (jr_assignments x)" "as_assignment_id u = as_assignment_id a'" by auto
        with x have "u \<in> set (assignments s)" by (auto simp: set_assignments)
        with assignment_ids_unique [OF v this r(5)] u d' have "u = a" by simp
        have "as_job_id a = jr_job_id x" "as_job_id a = jr_job_id r"
          using scope_validD(2) [OF v x] scope_validD(2) [OF v r(1)] u r(6) \<open>u = a\<close>
          by (auto simp: root_ok_def M2JobExecutionRoot_init_ok root_checks_def check_root_assignment_def)
        with unique that show False by simp
      qed
    qed
    then show "(if jr_job_id x = jr_job_id ?r then ?r else x) =
        x\<lparr>jr_assignments := put_by as_assignment_id a' (jr_assignments x)\<rparr>"
      using unique by (cases "x = r") auto
  qed
  then have "with_job_execution s ?r = M2ReductionScope_init (put_assignment a' s)"
    by (simp add: with_job_execution_def put_assignment_def)
  moreover have "M2ReductionScope_init (put_assignment a' s) = Inr (put_assignment a' s)"
    using put_assignment_valid [OF assms] by (simp add: scope_valid_def)
  ultimately show ?thesis
    using r init d' by (simp add: with_assignment_def)
qed

section \<open>Plan days and directives\<close>

text \<open>The plan day fields that the scope's checks read.\<close>

definition plan_key :: "PlanDayRoot \<Rightarrow> string \<times> string" where
  "plan_key p = (pd_plan_day_id p, pd_worker_id p)"

lemma put_plan_day_skeleton:
  assumes v: "scope_valid s" and p: "plan_day s k = Some p" and d: "plan_key p' = plan_key p"
  shows "scope_skeleton (put_plan_day p' s) = scope_skeleton s"
proof -
  have "map (\<lambda>p. (pd_plan_day_id p, pd_worker_id p)) (put_by pd_plan_day_id p' (sc_plan_day_roots s)) =
      map (\<lambda>p. (pd_plan_day_id p, pd_worker_id p)) (sc_plan_day_roots s)"
  proof (rule put_by_map_other)
    fix x assume x: "x \<in> set (sc_plan_day_roots s)" "pd_plan_day_id x = pd_plan_day_id p'"
    from plan_dayE [OF v p] have "p \<in> set (sc_plan_day_roots s)" by blast
    with x d scope_validD(9) [OF v] have "x = p" by (auto simp: plan_key_def distinct_map dest: inj_onD)
    with d show "(pd_plan_day_id x, pd_worker_id x) = (pd_plan_day_id p', pd_worker_id p')"
      by (simp add: plan_key_def)
  qed
  then show ?thesis by (simp add: scope_skeleton_def)
qed

lemma put_plan_day_valid:
  assumes "scope_valid s" "plan_day s k = Some p" "plan_key p' = plan_key p" "plan_ok p'"
  shows "scope_valid (put_plan_day p' s)"
  by (rule valid_from_skeleton [OF assms(1) put_plan_day_skeleton [OF assms(1-3)]])
    (use assms in \<open>auto dest: scope_validD dest!: set_put_by\<close>)

lemma with_plan_day_eq:
  assumes "scope_valid s" "plan_day s k = Some p" "plan_key p' = plan_key p" "plan_ok p'"
  shows "with_plan_day s p' = Inr (put_plan_day p' s)"
  using put_plan_day_valid [OF assms] by (simp add: with_plan_day_def put_plan_day_def scope_valid_def)

lemma put_directive_skeleton:
  assumes v: "scope_valid s" and d: "directive s k = Some d" and e: "dr_definition d' = dr_definition d"
  shows "scope_skeleton (put_directive d' s) = scope_skeleton s"
proof -
  have "map dr_definition (put_by dr_directive_id d' (sc_directive_roots s)) = map dr_definition (sc_directive_roots s)"
  proof (rule put_by_map_other)
    fix x assume x: "x \<in> set (sc_directive_roots s)" "dr_directive_id x = dr_directive_id d'"
    from directiveE [OF v d] have "d \<in> set (sc_directive_roots s)" by blast
    with x e scope_validD(10) [OF v] have "x = d" by (auto simp: distinct_map dest: inj_onD)
    with e show "dr_definition x = dr_definition d'" by simp
  qed
  then show ?thesis by (simp add: scope_skeleton_def)
qed

lemma put_directive_valid:
  assumes "scope_valid s" "directive s k = Some d" "dr_definition d' = dr_definition d" "directive_ok d'"
  shows "scope_valid (put_directive d' s)"
  by (rule valid_from_skeleton [OF assms(1) put_directive_skeleton [OF assms(1-3)]])
    (use assms in \<open>auto dest: scope_validD dest!: set_put_by\<close>)

lemma with_directive_eq:
  assumes "scope_valid s" "directive s k = Some d" "dr_definition d' = dr_definition d" "directive_ok d'"
  shows "with_directive s d' = Inr (put_directive d' s)"
  using put_directive_valid [OF assms] by (simp add: with_directive_def put_directive_def scope_valid_def)

section \<open>Look-ups after a replacement\<close>

lemma task_Some_in: "task s k = Some t \<Longrightarrow> t \<in> set (tasks s) \<and> ts_task_id t = k"
  by (auto simp: task_def dest: lookup_by_Some)

lemma assignment_Some_in: "assignment s k = Some a \<Longrightarrow> a \<in> set (assignments s) \<and> as_assignment_id a = k"
  by (auto simp: assignment_def dest: lookup_by_Some)

lemma plan_day_Some_in: "plan_day s k = Some p \<Longrightarrow> p \<in> set (sc_plan_day_roots s) \<and> pd_plan_day_id p = k"
  by (auto simp: plan_day_def dest: lookup_by_Some)

lemma directive_Some_in: "directive s k = Some d \<Longrightarrow> d \<in> set (sc_directive_roots s) \<and> dr_directive_id d = k"
  by (auto simp: directive_def dest: lookup_by_Some)

lemma task_put_task:
  "task s (ts_task_id t') = Some t \<Longrightarrow> task (put_task t' s) k = (if k = ts_task_id t' then Some t' else task s k)"
  by (auto simp: task_def lookup_put_by lookup_by_None_iff [of ts_task_id, symmetric])

lemma plan_day_put_plan_day:
  "plan_day s (pd_plan_day_id p') = Some p \<Longrightarrow>
   plan_day (put_plan_day p' s) k = (if k = pd_plan_day_id p' then Some p' else plan_day s k)"
  by (auto simp: plan_day_def lookup_put_by lookup_by_None_iff [of pd_plan_day_id, symmetric])

lemma directive_put_directive:
  "directive s (dr_directive_id d') = Some d \<Longrightarrow>
   directive (put_directive d' s) k = (if k = dr_directive_id d' then Some d' else directive s k)"
  by (auto simp: directive_def lookup_put_by lookup_by_None_iff [of "\<lambda>d. dr_directive_id d", symmetric])

lemma lookups_put_other [simp]:
  "task (put_assignment a s) = task s" "task (put_plan_day p s) = task s" "task (put_directive d s) = task s"
  "assignment (put_task t s) = assignment s" "assignment (put_plan_day p s) = assignment s"
  "assignment (put_directive d s) = assignment s"
  "plan_day (put_task t s) = plan_day s" "plan_day (put_assignment a s) = plan_day s"
  "plan_day (put_directive d s) = plan_day s"
  "directive (put_task t s) = directive s" "directive (put_assignment a s) = directive s"
  "directive (put_plan_day p s) = directive s"
  by (auto simp: task_def assignment_def plan_day_def directive_def fun_eq_iff)

section \<open>Edits of a task that keep it well formed\<close>

definition map_stages ::
    "(StageState \<Rightarrow> bool) \<Rightarrow> (StageState \<Rightarrow> StageState) \<Rightarrow> StageState list \<Rightarrow> StageState list" where
  "map_stages cond changes stages = map (\<lambda>x. if cond x then changes x else x) stages"

lemma map_stages_ids [simp]:
  "(\<And>x. sg_stage_id (g x) = sg_stage_id x) \<Longrightarrow> map sg_stage_id (map_stages c g xs) = map sg_stage_id xs"
  by (simp add: map_stages_def)

lemma replace_stages_eq:
  assumes "\<forall>x\<in>set xs. stage_ok x" and "\<And>x. sg_stage_id (g x) = sg_stage_id x"
  shows "replace_stages c g xs = Inr (map_stages c g xs)"
  unfolding replace_stages_def map_stages_def
  by (rule traverse_map) (use assms in \<open>auto simp: stage_ok_iff stage_ok_def [symmetric]\<close>)

lemma map_stages_ok:
  "\<forall>x\<in>set xs. stage_ok x \<Longrightarrow> (\<And>x. sg_stage_id (g x) = sg_stage_id x) \<Longrightarrow> \<forall>x\<in>set (map_stages c g xs). stage_ok x"
  by (auto simp: map_stages_def stage_ok_iff)

lemma task_checks_status:
  "task_checks t \<Longrightarrow> st \<noteq> TaskStatus.SAFE_HOLD \<Longrightarrow> task_checks (t\<lparr>ts_status := st\<rparr>)"
  by (simp add: task_checks_def)

lemma task_checks_stages:
  assumes "task_checks t" "map sg_stage_id xs = map sg_stage_id (ts_stages t)"
  shows "task_checks (t\<lparr>ts_stages := xs\<rparr>)"
proof -
  from assms(2) have "sg_stage_id ` set xs = sg_stage_id ` set (ts_stages t)"
    by (metis list.set_map)
  with assms show ?thesis by (simp add: task_checks_def)
qed

lemma task_ok_iff: "task_ok t \<longleftrightarrow> task_checks t \<and> TaskDefinition_init (ts_definition t) = Inr (ts_definition t) \<and>
     (\<forall>x\<in>set (ts_stages t). stage_ok x) \<and> (\<forall>x\<in>set (ts_evidence t). evidence_ok x) \<and>
     (\<forall>x\<in>set (ts_observations t). observation_ok x)"
  by (simp add: task_ok_def TaskState_init_ok)

lemma task_ok_init: "task_ok t \<Longrightarrow> TaskState_init t = Inr t"
  by (simp add: task_ok_def)

lemma task_ok_stages: "task_ok t \<Longrightarrow> \<forall>x\<in>set (ts_stages t). stage_ok x"
  by (simp add: task_ok_def)

lemma task_ok_status [intro]:
  "task_ok t \<Longrightarrow> st \<noteq> TaskStatus.SAFE_HOLD \<Longrightarrow> task_ok (t\<lparr>ts_status := st\<rparr>)"
  by (auto simp: task_ok_iff task_checks_status)

lemma task_ok_map_stages:
  assumes "task_ok t" and "\<And>x. sg_stage_id (g x) = sg_stage_id x"
  shows "task_ok (t\<lparr>ts_stages := map_stages c g (ts_stages t)\<rparr>)"
  using assms task_checks_stages [of t "map_stages c g (ts_stages t)"] map_stages_ok [of "ts_stages t" g c]
  by (auto simp: task_ok_iff)

text \<open>\<open>_merge_evidence\<close> on items with distinct identities: the old items and the new ones among the rest.\<close>

lemma dict_assign_fresh: "k \<notin> fst ` set d \<Longrightarrow> dict_assign d k v = d @ [(k, v)]"
  by (induction d k v rule: dict_assign.induct) auto

lemma fold_assign_distinct:
  "distinct (map key xs) \<Longrightarrow> (\<And>x. x \<in> set xs \<Longrightarrow> key x \<notin> fst ` set d) \<Longrightarrow>
   foldl (\<lambda>d x. dict_assign d (key x) x) d xs = d @ map (\<lambda>x. (key x, x)) xs"
proof (induction xs arbitrary: d)
  case Nil
  then show ?case by simp
next
  case (Cons x xs)
  have "\<And>y. y \<in> set xs \<Longrightarrow> key y \<notin> fst ` set (d @ [(key x, x)])"
    using Cons.prems by auto (metis image_eqI)+
  then show ?case using Cons.prems Cons.IH [of "d @ [(key x, x)]"] by (simp add: dict_assign_fresh)
qed

lemma fold_setdefault_distinct:
  "distinct (map key xs) \<Longrightarrow>
   foldl (\<lambda>d x. dict_setdefault d (key x) x) d xs =
     d @ map (\<lambda>x. (key x, x)) (filter (\<lambda>x. key x \<notin> fst ` set d) xs)"
proof (induction xs arbitrary: d)
  case Nil
  then show ?case by simp
next
  case (Cons x xs)
  show ?case
  proof (cases "key x \<in> fst ` set d")
    case True
    with Cons show ?thesis by (simp add: dict_setdefault_def)
  next
    case False
    have "filter (\<lambda>y. key y \<notin> fst ` set (d @ [(key x, x)])) xs = filter (\<lambda>y. key y \<notin> fst ` set d) xs"
      using Cons.prems by (intro filter_cong) (auto, metis image_eqI)
    with False Cons.prems Cons.IH [of "d @ [(key x, x)]"] show ?thesis
      by (simp add: dict_setdefault_def dict_assign_fresh)
  qed
qed

lemma merge_evidence_distinct:
  assumes "distinct (map ev_evidence_id xs)" "distinct (map ev_evidence_id ys)"
  shows "merge_evidence xs ys = sort_key ev_evidence_id
    (xs @ filter (\<lambda>y. ev_evidence_id y \<notin> ev_evidence_id ` set xs) ys)"
  using assms fold_assign_distinct [of ev_evidence_id xs "[]"]
    fold_setdefault_distinct [of ev_evidence_id ys "map (\<lambda>x. (ev_evidence_id x, x)) xs"]
  by (simp add: merge_evidence_def Let_def image_image comp_def)

lemma distinct_sort_key_map [simp]: "distinct (map f (sort_key k xs)) = distinct (map f xs)"
  by (simp only: distinct_map distinct_sort set_sort)

lemma task_ok_merge:
  assumes t: "task_ok t" and "distinct (map ev_evidence_id ys)" and "\<forall>y\<in>set ys. evidence_ok y"
  shows "task_ok (t\<lparr>ts_evidence := merge_evidence (ts_evidence t) ys\<rparr>)"
proof -
  have d: "distinct (map ev_evidence_id (ts_evidence t))"
    using t by (simp add: task_ok_iff task_checks_def)
  then have m: "merge_evidence (ts_evidence t) ys = sort_key ev_evidence_id
      (ts_evidence t @ filter (\<lambda>y. ev_evidence_id y \<notin> ev_evidence_id ` set (ts_evidence t)) ys)"
    using assms(2) by (rule merge_evidence_distinct)
  have "distinct (map ev_evidence_id (filter (\<lambda>y. ev_evidence_id y \<notin> ev_evidence_id ` set (ts_evidence t)) ys))"
    using assms(2) by (rule distinct_map_filter)
  then have "distinct (map ev_evidence_id (merge_evidence (ts_evidence t) ys))"
    using d by (auto simp: m) (metis image_eqI)
  then show ?thesis using t assms(3) by (auto simp: task_ok_iff task_checks_def m)
qed

lemma merge_evidence_grows:
  "task_ok t \<Longrightarrow> distinct (map ev_evidence_id ys) \<Longrightarrow> set (ts_evidence t) \<subseteq> set (merge_evidence (ts_evidence t) ys)"
  by (simp add: merge_evidence_distinct task_ok_iff task_checks_def)

lemma task_ok_observe:
  "task_ok t \<Longrightarrow> observation_ok x \<Longrightarrow> fo_event_id x \<notin> fo_event_id ` set (ts_observations t) \<Longrightarrow>
   task_ok (t\<lparr>ts_observations := ts_observations t @ [x]\<rparr>)"
  by (auto simp: task_ok_iff task_checks_def)

lemma task_ok_hold:
  "task_ok t \<Longrightarrow> task_ok (t\<lparr>ts_status := TaskStatus.SAFE_HOLD, ts_safe_hold_directive_id := x,
     ts_blocked_pending_resolution := True, ts_execution_authorized := False\<rparr>)"
  by (auto simp: task_ok_iff task_checks_def)

lemma task_ok_completed:
  "task_ok t \<Longrightarrow> st \<noteq> TaskStatus.SAFE_HOLD \<Longrightarrow> task_ok (t\<lparr>ts_status := st, ts_completion_event_id := x\<rparr>)"
  by (auto simp: task_ok_iff task_checks_def)

end
