(* ===== verification/Field_Spec.thy ===== *)
theory Field_Spec
  imports Field_Updates
begin

text \<open>
  What the M2 contract promises of one field event, as a specification: which event, of whom, may
  change which part of a scope, and how (\<open>permitted\<close>); and the order in which the states of a scope
  only ever move (\<open>scope_evolves\<close>): definitions are immutable, a safe hold, a STOP in force, an
  acknowledgement, an escalation and the end of a day are never undone, evidence and observations
  are only added.
\<close>

section \<open>Which references an accepted event makes\<close>

text \<open>The plan day, task and assignment an event names, as its checks leave them.\<close>

definition event_plan :: "M2ReductionScope \<Rightarrow> FieldEventEnvelope \<Rightarrow> PlanDayRoot \<Rightarrow> bool" where
  "event_plan s e p \<longleftrightarrow> (\<exists>k. fe_plan_day_id e = Some k \<and> plan_day s k = Some p) \<and> pd_worker_id p = fe_actor_id e"

definition event_task :: "M2ReductionScope \<Rightarrow> FieldEventEnvelope \<Rightarrow> TaskState \<Rightarrow> bool" where
  "event_task s e t \<longleftrightarrow> (\<exists>k. fe_task_id e = Some k \<and> task s k = Some t) \<and>
     (fe_job_id e = None \<or> fe_job_id e = Some (td_job_id (ts_definition t)))"

definition event_assignment :: "M2ReductionScope \<Rightarrow> FieldEventEnvelope \<Rightarrow> AssignmentState \<Rightarrow> bool" where
  "event_assignment s e a \<longleftrightarrow> (\<exists>k. fe_assignment_id e = Some k \<and> assignment s k = Some a) \<and>
     fe_actor_id e \<in> set (as_member_worker_ids a) \<and>
     (fe_task_id e = None \<or> fe_task_id e = Some (as_task_id a)) \<and>
     (case fe_plan_day_id e of None \<Rightarrow> True | Some p \<Rightarrow> p \<in> set (as_plan_day_ids a))"

definition event_directive :: "M2ReductionScope \<Rightarrow> FieldEventEnvelope \<Rightarrow> DirectiveRoot \<Rightarrow> bool" where
  "event_directive s e d \<longleftrightarrow> (\<exists>k. fe_directive_id e = Some k \<and> directive s k = Some d) \<and>
     dr_worker_id d = fe_actor_id e \<and> directive_scope_errors s d = [] \<and>
     agrees (fe_job_id e) (dr_job_id d) \<and> agrees (fe_task_id e) (dr_task_id d) \<and>
     agrees (fe_assignment_id e) (dr_assignment_id d) \<and> agrees (fe_plan_day_id e) (dr_plan_day_id d)"

section \<open>Completion authority\<close>

text \<open>Who may complete: the lead of a crew, or a member of a single-worker assignment.\<close>

definition may_complete :: "TaskState \<Rightarrow> AssignmentState \<Rightarrow> string \<Rightarrow> bool" where
  "may_complete t a actor \<longleftrightarrow>
     as_kind a = td_assignment_kind (ts_definition t) \<and> actor \<in> set (as_member_worker_ids a) \<and>
     (as_kind a = CREW \<longrightarrow> as_lead_worker_id a = Some actor)"

text \<open>What must hold of the task for its completion to be taken up at all.\<close>

definition completion_open :: "M2ReductionScope \<Rightarrow> FieldEventEnvelope \<Rightarrow> TaskState \<Rightarrow> bool" where
  "completion_open s e t \<longleftrightarrow>
     ts_execution_authorized t \<and> \<not> ts_blocked_pending_resolution t \<and> \<not> safe_hold_active t \<and>
     \<not> completion_blocked_by_stop s e \<and> \<not> has_unresolved_unsafe_report s e \<and>
     ts_status t = TaskStatus.OPEN"

definition conflicting_completion :: "TaskState \<Rightarrow> FieldEventEnvelope \<Rightarrow> bool" where
  "conflicting_completion t e \<longleftrightarrow> ts_status t = TaskStatus.DONE \<or>
     (\<exists>stage\<in>set (ts_stages t). Some (sg_stage_id stage) = fe_stage_id e \<and> sg_status stage = StageStatus.DONE)"

section \<open>The new value of a task\<close>

definition dispute_stages :: "FieldEventEnvelope \<Rightarrow> StageState list \<Rightarrow> StageState list" where
  "dispute_stages e = map_stages (\<lambda>x. fe_stage_id e = Some (sg_stage_id x)) (\<lambda>x. x\<lparr>sg_status := StageStatus.DISPUTED\<rparr>)"

definition observed_task :: "FieldEventEnvelope \<Rightarrow> TaskState \<Rightarrow> TaskState" where
  "observed_task e t = t\<lparr>ts_evidence := merge_evidence (ts_evidence t) (fe_attachments e),
     ts_observations := ts_observations t @ [\<lparr>fo_event_id = fe_event_id e, fo_actor_id = fe_actor_id e,
       fo_text = fe_text e, fo_evidence = fe_attachments e, fo_interpretation = None\<rparr>]\<rparr>"

definition problem_task :: "M2Policy \<Rightarrow> FieldEventEnvelope \<Rightarrow> TaskState \<Rightarrow> TaskState" where
  "problem_task policy e t =
     (if safe_hold_active t then observed_task e t
      else if conflicting_completion t e then
        (observed_task e t)\<lparr>ts_status := TaskStatus.DISPUTED, ts_stages := dispute_stages e (ts_stages t)\<rparr>
      else if po_site_problem_action policy \<in> {HOLD, HOLD_AND_ESCALATE} then
        (observed_task e t)\<lparr>ts_status := TaskStatus.BLOCKED\<rparr>
      else observed_task e t)"

definition with_merged_evidence :: "FieldEventEnvelope \<Rightarrow> TaskState \<Rightarrow> TaskState" where
  "with_merged_evidence e t = t\<lparr>ts_evidence := merge_evidence (ts_evidence t) (fe_attachments e)\<rparr>"

definition completed_task :: "FieldEventEnvelope \<Rightarrow> TaskState \<Rightarrow> TaskState" where
  "completed_task e t = (with_merged_evidence e t)\<lparr>ts_status := TaskStatus.DONE,
     ts_completion_event_id := Some (fe_event_id e)\<rparr>"

definition stage_completed_task :: "FieldEventEnvelope \<Rightarrow> TaskState \<Rightarrow> TaskState" where
  "stage_completed_task e t = (with_merged_evidence e t)\<lparr>ts_stages :=
     map_stages (\<lambda>x. Some (sg_stage_id x) = fe_stage_id e)
       (\<lambda>x. x\<lparr>sg_status := StageStatus.DONE, sg_completion_event_id := Some (fe_event_id e)\<rparr>) (ts_stages t)\<rparr>"

definition disputed_task :: "FieldEventEnvelope \<Rightarrow> TaskState \<Rightarrow> TaskState" where
  "disputed_task e t =
     (if ts_status t = TaskStatus.SAFE_HOLD \<or> ts_blocked_pending_resolution t \<or>
         (\<exists>stage\<in>set (ts_stages t). sg_status stage = StageStatus.SAFE_HOLD \<and>
            (fe_stage_id e = None \<or> Some (sg_stage_id stage) = fe_stage_id e))
      then t
      else if fe_stage_id e \<noteq> None then t\<lparr>ts_stages := dispute_stages e (ts_stages t)\<rparr>
      else t\<lparr>ts_status := TaskStatus.DISPUTED\<rparr>)"

definition held_task :: "DirectiveRoot \<Rightarrow> TaskState \<Rightarrow> TaskState" where
  "held_task d t = t\<lparr>ts_status := TaskStatus.SAFE_HOLD, ts_safe_hold_directive_id := Some (dr_directive_id d),
     ts_blocked_pending_resolution := True, ts_execution_authorized := False\<rparr>"

section \<open>Permitted transitions\<close>

definition plan_reference_due :: "M2ReductionScope \<Rightarrow> DirectiveRoot \<Rightarrow> bool" where
  "plan_reference_due s d \<longleftrightarrow> dr_directive_class d = ACTION \<and> dr_plan_day_id d \<noteq> None \<and>
     dr_proposed_plan_reference d \<noteq> None \<and> \<not> later_governing_directive_exists s d"

definition acked :: "FieldEventEnvelope \<Rightarrow> DirectiveRoot \<Rightarrow> DirectiveRoot" where
  "acked e d = d\<lparr>dr_delivery_evidence := ACKED, dr_acknowledged_event_id := Some (fe_event_id e)\<rparr>"

inductive permitted ::
    "M2Policy \<Rightarrow> M2ReductionScope \<Rightarrow> FieldEventEnvelope \<Rightarrow> ReductionOutcome \<Rightarrow> M2ReductionScope \<Rightarrow> bool"
  for policy s e where
  refused: "permitted policy s e REJECTED s"
| reported: "fe_event_type e \<in> {START_DELAY_REPORTED, START_EXCEPTION_REPORTED, SCOPE_FACT_REPORTED}
     \<Longrightarrow> permitted policy s e REPORTED s"
| already_active: "\<lbrakk>fe_event_type e = DAY_PLAN_ACTIVATED; event_plan s e p; pd_status p = PlanDayStatus.ACTIVE\<rbrakk>
     \<Longrightarrow> permitted policy s e NOOP s"
| already_closed: "\<lbrakk>fe_event_type e = DAY_CLOSE_REPORTED; event_plan s e p; pd_status p = PlanDayStatus.CLOSED\<rbrakk>
     \<Longrightarrow> permitted policy s e NOOP s"
| already_informed: "\<lbrakk>fe_event_type e = WORKER_ACKNOWLEDGED; event_directive s e d;
      directive_worker_informed s (dr_directive_id d)\<rbrakk>
     \<Longrightarrow> permitted policy s e NOOP s"
| already_completed: "\<lbrakk>fe_event_type e \<in> set completion_events; event_task s e t; completion_gate_reasons s e t = [];
      ts_status t = TaskStatus.DONE \<or>
      (\<exists>stage\<in>set (ts_stages t). fe_stage_id e = Some (sg_stage_id stage) \<and> sg_status stage = StageStatus.DONE)\<rbrakk>
     \<Longrightarrow> permitted policy s e NOOP s"
| activated:
    "\<lbrakk>fe_event_type e = DAY_PLAN_ACTIVATED; event_plan s e p;
      pd_status p \<in> {PlanDayStatus.DRAFT, PlanDayStatus.ISSUED}\<rbrakk>
     \<Longrightarrow> permitted policy s e APPLIED (put_plan_day (p\<lparr>pd_status := PlanDayStatus.ACTIVE\<rparr>) s)"
| unavailable:
    "\<lbrakk>fe_event_type e = UNAVAILABLE_TODAY_REPORTED; event_plan s e p\<rbrakk>
     \<Longrightarrow> permitted policy s e APPLIED (put_plan_day (p\<lparr>pd_worker_available := False\<rparr>) s)"
| close_reported:
    "\<lbrakk>fe_event_type e = DAY_CLOSE_REPORTED; event_plan s e p; pd_status p \<noteq> PlanDayStatus.CLOSED\<rbrakk>
     \<Longrightarrow> permitted policy s e APPLIED (put_plan_day (p\<lparr>pd_day_close_reported := True\<rparr>) s)"
| resource_missing: "\<lbrakk>fe_event_type e = RESOURCE_MISSING_REPORTED; fe_task_id e = None\<rbrakk>
     \<Longrightarrow> permitted policy s e APPLIED s"
| work_held:
    "\<lbrakk>fe_event_type e \<in> {WORK_START_BLOCKED, RESOURCE_MISSING_REPORTED}; event_task s e t\<rbrakk>
     \<Longrightarrow> permitted policy s e APPLIED
           (put_task (if safe_hold_active t then t else t\<lparr>ts_status := TaskStatus.BLOCKED\<rparr>) s)"
| problem:
    "\<lbrakk>fe_event_type e = SITE_PROBLEM_REPORTED; event_task s e t\<rbrakk>
     \<Longrightarrow> permitted policy s e APPLIED (put_task (problem_task policy e t) s)"
| evidence_recorded:
    "\<lbrakk>fe_event_type e \<in> set completion_events; event_task s e t; event_assignment s e a;
      may_complete t a (fe_actor_id e); completion_open s e t; missing_completion_requirements t e \<noteq> []\<rbrakk>
     \<Longrightarrow> permitted policy s e REPORTED (put_task (with_merged_evidence e t) s)"
| task_completed:
    "\<lbrakk>fe_event_type e \<in> {TASK_COMPLETION_REPORTED, VISIT_COMPLETION_REPORTED}; event_task s e t;
      expected_completion_type (fe_event_type e) = Some (td_completion_type (ts_definition t));
      event_assignment s e a; may_complete t a (fe_actor_id e); completion_open s e t;
      missing_completion_requirements t e = []\<rbrakk>
     \<Longrightarrow> permitted policy s e APPLIED (put_task (completed_task e t) s)"
| stage_completed:
    "\<lbrakk>fe_event_type e = STAGE_COMPLETION_REPORTED; event_task s e t;
      expected_completion_type (fe_event_type e) = Some (td_completion_type (ts_definition t));
      event_assignment s e a; may_complete t a (fe_actor_id e); completion_open s e t;
      missing_completion_requirements t e = [];
      stage \<in> set (ts_stages t); fe_stage_id e = Some (sg_stage_id stage); sg_status stage = StageStatus.OPEN\<rbrakk>
     \<Longrightarrow> permitted policy s e APPLIED (put_task (stage_completed_task e t) s)"
| unsafe_conflict:
    "\<lbrakk>fe_event_type e \<in> set completion_events; event_task s e t;
      expected_completion_type (fe_event_type e) = Some (td_completion_type (ts_definition t));
      event_assignment s e a; may_complete t a (fe_actor_id e); has_unresolved_unsafe_report s e;
      \<not> safe_hold_active t\<rbrakk>
     \<Longrightarrow> permitted policy s e REJECTED
           (put_task (t\<lparr>ts_status := TaskStatus.DISPUTED, ts_stages := dispute_stages e (ts_stages t)\<rparr>) s)"
| waiting:
    "\<lbrakk>fe_event_type e = TECHNICAL_WAIT_REPORTED; event_task s e t; event_assignment s e a; \<not> safe_hold_active t\<rbrakk>
     \<Longrightarrow> permitted policy s e APPLIED
           (put_assignment (a\<lparr>as_released_worker_ids := sorted_set (as_released_worker_ids a @ [fe_actor_id e])\<rparr>)
             (put_task (t\<lparr>ts_status := TaskStatus.WAITING\<rparr>) s))"
| disputed:
    "\<lbrakk>fe_event_type e = FieldEventType.COMPLETION_DISPUTED; event_task s e t; fe_against_event_id e = Some k;
      valid_against_event s e (receipt s k)\<rbrakk>
     \<Longrightarrow> permitted policy s e APPLIED (put_task (disputed_task e t) s)"
| acknowledged:
    "\<lbrakk>fe_event_type e = WORKER_ACKNOWLEDGED; event_directive s e d;
      \<not> directive_worker_informed s (dr_directive_id d);
      \<not> plan_reference_due s d \<or> Option.bind (dr_plan_day_id d) (plan_day s) = None\<rbrakk>
     \<Longrightarrow> permitted policy s e APPLIED (put_directive (acked e d) s)"
| plan_confirmed:
    "\<lbrakk>fe_event_type e = WORKER_ACKNOWLEDGED; event_directive s e d;
      \<not> directive_worker_informed s (dr_directive_id d);
      plan_reference_due s d; Option.bind (dr_plan_day_id d) (plan_day s) = Some p\<rbrakk>
     \<Longrightarrow> permitted policy s e APPLIED
           (put_plan_day (p\<lparr>pd_confirmed_plan_reference := dr_proposed_plan_reference d\<rparr>)
             (put_directive (acked e d) s))"
| excepted:
    "\<lbrakk>fe_event_type e = WORKER_ACTION_EXCEPTION; event_directive s e d; dr_directive_class d = ACTION\<rbrakk>
     \<Longrightarrow> permitted policy s e APPLIED (put_directive (d\<lparr>dr_exception_event_id := Some (fe_event_id e)\<rparr>) s)"
| stop_excepted:
    "\<lbrakk>fe_event_type e = WORKER_ACTION_EXCEPTION; event_directive s e d; dr_directive_class d = STOP;
      dr_task_id d = Some k; task s k = Some t\<rbrakk>
     \<Longrightarrow> permitted policy s e APPLIED
           (put_task (held_task d t)
             (put_directive (d\<lparr>dr_exception_event_id := Some (fe_event_id e), dr_stop_in_force := True\<rparr>) s))"

end
