(* ===== verification/Field_Refinement.thy ===== *)
theory Field_Refinement
  imports Field_Spec
begin

text \<open>
  Every handler of the reducer returns, and what it returns is permitted: the detailed handlers
  implement the specification of \<open>Field_Spec\<close>.
\<close>

section \<open>Effects never raise for a validated event\<close>

definition effect_of :: "FieldEventEnvelope \<Rightarrow> EffectType \<Rightarrow> (string \<times> string) list \<Rightarrow> SystemEffect" where
  "effect_of e effect_type details =
     \<lparr>ef_effect_type = effect_type, ef_source_id = fe_event_id e,
       ef_plan_day_id = fe_plan_day_id e, ef_job_id = fe_job_id e, ef_task_id = fe_task_id e,
       ef_assignment_id = fe_assignment_id e, ef_stage_id = fe_stage_id e,
       ef_directive_id = fe_directive_id e, ef_actor_id = Some (fe_actor_id e),
       ef_details = sort_key fst details\<rparr>"

lemma nonblank_ok: "strip v = v \<Longrightarrow> v \<noteq> [] \<Longrightarrow> nonblank v n = Inr v"
  by (simp add: nonblank_def)

lemma effect_eq: "event_ok e \<Longrightarrow> distinct (map fst d) \<Longrightarrow> effect e ty d = Inr (effect_of e ty d)"
  by (simp add: effect_def SystemEffect_init_def nonblank_ok event_okD effect_of_def)

lemma effects_eq: "event_ok e \<Longrightarrow> effects e tys = Inr (map (\<lambda>t. effect_of e t []) tys)"
  unfolding effects_def by (rule traverse_map) (simp add: effect_eq)

lemma completion_rejection_effects_eq:
  "event_ok e \<Longrightarrow> completion_rejection_effects e rs =
     Inr (if fe_event_type e \<in> set completion_events
          then [effect_of e EffectType.COMPLETION_REJECTED [(''reasons'', join '','' rs)]] else [])"
  by (simp add: completion_rejection_effects_def effect_eq)

section \<open>What an empty list of reference errors says\<close>

lemma report_Nil [simp]: "report c x = [] \<longleftrightarrow> \<not> c"
  by (simp add: report_def)

lemma reference_errors_Nil: "reference_errors s e = [] \<longleftrightarrow>
    fe_actor_id e \<in> set (worker_ids s) \<and> plan_reference_errors s e = [] \<and>
    (case fe_job_id e of None \<Rightarrow> True | Some j \<Rightarrow> job_execution s j \<noteq> None) \<and>
    task_reference_errors s e = [] \<and> assignment_reference_errors s e = [] \<and>
    resource_authority_errors s e = [] \<and> stage_reference_errors s e = [] \<and>
    directive_reference_errors s e = [] \<and> evidence_errors s e = [] \<and> required_reference_errors e = []"
  unfolding reference_errors_def by (auto split: option.splits)

lemma referenced_plan:
  assumes "reference_errors s e = []" and "fe_plan_day_id e \<noteq> None"
  obtains p k where "event_plan s e p" "fe_plan_day_id e = Some k" "plan_day s k = Some p"
  using assms by (auto simp: reference_errors_Nil plan_reference_errors_def event_plan_def split: option.splits)

lemma referenced_task:
  assumes "reference_errors s e = []" and "fe_task_id e \<noteq> None"
  obtains t k where "event_task s e t" "fe_task_id e = Some k" "task s k = Some t"
  using assms by (auto simp: reference_errors_Nil task_reference_errors_def event_task_def split: option.splits)

lemma referenced_assignment:
  assumes "reference_errors s e = []" and "fe_assignment_id e \<noteq> None"
  obtains a k where "event_assignment s e a" "fe_assignment_id e = Some k" "assignment s k = Some a"
proof -
  have n: "assignment_reference_errors s e = []" using assms(1) by (simp add: reference_errors_Nil)
  from assms(2) obtain k where k: "fe_assignment_id e = Some k" by auto
  with n obtain a where a: "assignment s k = Some a"
    by (cases "assignment s k") (auto simp: assignment_reference_errors_def)
  have "event_assignment s e a"
    using n k a unfolding assignment_reference_errors_def event_assignment_def
    by (cases "fe_plan_day_id e") auto
  with k a show thesis using that by blast
qed

lemma referenced_directive:
  assumes "reference_errors s e = []" and "fe_directive_id e \<noteq> None"
  obtains d k where "event_directive s e d" "fe_directive_id e = Some k" "directive s k = Some d"
proof -
  from assms obtain k d where k: "fe_directive_id e = Some k" "directive s k = Some d"
    by (auto simp: reference_errors_Nil directive_reference_errors_def split: option.splits)
  with assms show thesis
    by (intro that [of d k])
      (auto simp: reference_errors_Nil directive_reference_errors_def event_directive_def agrees_def)
qed

lemma required_plan: "reference_errors s e = [] \<Longrightarrow> fe_event_type e \<in> set plan_events \<Longrightarrow> fe_plan_day_id e \<noteq> None"
  by (auto simp: reference_errors_Nil required_reference_errors_def)

lemma required_task_assignment:
  assumes "reference_errors s e = []" "fe_event_type e \<in> set task_assignment_events"
  shows "fe_task_id e \<noteq> None" "fe_assignment_id e \<noteq> None" "fe_job_id e \<noteq> None" "fe_plan_day_id e \<noteq> None"
  using assms by (auto simp: reference_errors_Nil required_reference_errors_def)

lemma required_directive:
  "reference_errors s e = [] \<Longrightarrow> fe_event_type e \<in> {WORKER_ACKNOWLEDGED, WORKER_ACTION_EXCEPTION} \<Longrightarrow>
   fe_directive_id e \<noteq> None"
  by (auto simp: reference_errors_Nil required_reference_errors_def)

lemma required_stage:
  "reference_errors s e = [] \<Longrightarrow> fe_event_type e = STAGE_COMPLETION_REPORTED \<Longrightarrow> fe_stage_id e \<noteq> None"
  by (auto simp: reference_errors_Nil required_reference_errors_def)

lemma required_against:
  "reference_errors s e = [] \<Longrightarrow> fe_event_type e = FieldEventType.COMPLETION_DISPUTED \<Longrightarrow> fe_against_event_id e \<noteq> None"
  by (auto simp: reference_errors_Nil required_reference_errors_def)

text \<open>A handler implements the specification.\<close>

definition implements ::
    "M2Policy \<Rightarrow> M2ReductionScope \<Rightarrow> FieldEventEnvelope \<Rightarrow> handled result \<Rightarrow> bool" where
  "implements policy s e m \<longleftrightarrow> returns m (\<lambda>(s', outcome, fx, missing, reasons). permitted policy s e outcome s')"

lemma implements_Inr [simp]: "implements policy s e (Inr (s', outcome, r)) \<longleftrightarrow> permitted policy s e outcome s'"
  by (cases r) (auto simp: implements_def)

lemma implements_if [simp]:
  "implements policy s e (if c then m else m') \<longleftrightarrow> (if c then implements policy s e m else implements policy s e m')"
  by simp

declare permitted.refused [simp]

section \<open>Plan day handlers\<close>

lemma plan_ok_edit:
  "plan_ok p \<Longrightarrow> pd_status p \<noteq> PlanDayStatus.CLOSED \<Longrightarrow> plan_ok (p\<lparr>pd_status := PlanDayStatus.ACTIVE\<rparr>)"
  "plan_ok p \<Longrightarrow> plan_ok (p\<lparr>pd_worker_available := False\<rparr>)"
  "plan_ok p \<Longrightarrow> plan_ok (p\<lparr>pd_day_close_reported := True\<rparr>)"
  "plan_ok p \<Longrightarrow> plan_ok (p\<lparr>pd_start_unknown_escalated := True\<rparr>)"
  "plan_ok p \<Longrightarrow> strip r = r \<Longrightarrow> r \<noteq> [] \<Longrightarrow> plan_ok (p\<lparr>pd_confirmed_plan_reference := Some r\<rparr>)"
  "plan_ok p \<Longrightarrow> plan_ok (p\<lparr>pd_status := PlanDayStatus.CLOSED, pd_worker_available := False\<rparr>)"
  by (auto simp: plan_ok_def PlanDayRoot_init_ok)

lemma plan_ok_init: "plan_ok p \<Longrightarrow> PlanDayRoot_init p = Inr p"
  by (simp add: plan_ok_def)

lemma day_plan_activated_implements:
  assumes v: "scope_valid s" and e: "event_ok e" and r: "reference_errors s e = []"
    and ty: "fe_event_type e = DAY_PLAN_ACTIVATED"
  shows "implements policy s e (day_plan_activated s e)"
proof -
  have "fe_plan_day_id e \<noteq> None" using required_plan [OF r] ty by (simp add: plan_events_def)
  then obtain p k where p: "event_plan s e p" "fe_plan_day_id e = Some k" "plan_day s k = Some p"
    using referenced_plan [OF r] by blast
  have ok: "plan_ok p" using plan_dayE [OF v p(3)] .
  show ?thesis
  proof (cases "pd_status p \<in> {PlanDayStatus.DRAFT, PlanDayStatus.ISSUED}")
    case True
    let ?p = "p\<lparr>pd_status := PlanDayStatus.ACTIVE\<rparr>"
    have okp: "plan_ok ?p" using plan_ok_edit(1) [OF ok] True by auto
    have "with_plan_day s ?p = Inr (put_plan_day ?p s)"
      by (rule with_plan_day_eq [OF v p(3)]) (simp_all add: okp plan_key_def)
    then show ?thesis
      using True permitted.activated [OF ty p(1) True, of policy] p
      by (auto simp: day_plan_activated_def plan_ok_init [OF okp] effects_eq [OF e])
  next
    case False
    then show ?thesis using p permitted.already_active [OF ty p(1), of policy]
      by (auto simp: day_plan_activated_def)
  qed
qed

lemma unavailable_today_implements:
  assumes v: "scope_valid s" and e: "event_ok e" and r: "reference_errors s e = []"
    and ty: "fe_event_type e = UNAVAILABLE_TODAY_REPORTED"
  shows "implements policy s e (unavailable_today_reported s e)"
proof -
  have "fe_plan_day_id e \<noteq> None" using required_plan [OF r] ty by (simp add: plan_events_def)
  then obtain p k where p: "event_plan s e p" "fe_plan_day_id e = Some k" "plan_day s k = Some p"
    using referenced_plan [OF r] by blast
  let ?p = "p\<lparr>pd_worker_available := False\<rparr>"
  have okp: "plan_ok ?p" using plan_dayE [OF v p(3)] plan_ok_edit(2) by blast
  have "with_plan_day s ?p = Inr (put_plan_day ?p s)"
    by (rule with_plan_day_eq [OF v p(3)]) (simp_all add: okp plan_key_def)
  then show ?thesis
    using permitted.unavailable [OF ty p(1), of policy] p
    by (simp add: unavailable_today_reported_def plan_ok_init [OF okp] effect_eq [OF e])
qed

lemma day_close_implements:
  assumes v: "scope_valid s" and e: "event_ok e" and r: "reference_errors s e = []"
    and ty: "fe_event_type e = DAY_CLOSE_REPORTED"
  shows "implements policy s e (day_close_reported s e)"
proof -
  have "fe_plan_day_id e \<noteq> None" using required_plan [OF r] ty by (simp add: plan_events_def)
  then obtain p k where p: "event_plan s e p" "fe_plan_day_id e = Some k" "plan_day s k = Some p"
    using referenced_plan [OF r] by blast
  let ?p = "p\<lparr>pd_day_close_reported := True\<rparr>"
  have okp: "plan_ok ?p" using plan_dayE [OF v p(3)] plan_ok_edit(3) by blast
  have "with_plan_day s ?p = Inr (put_plan_day ?p s)"
    by (rule with_plan_day_eq [OF v p(3)]) (simp_all add: okp plan_key_def)
  then show ?thesis
    using permitted.close_reported [OF ty p(1), of policy] permitted.already_closed [OF ty p(1), of policy] p
    by (simp add: day_close_reported_def plan_ok_init [OF okp] effect_eq [OF e])
qed

text \<open>The handlers that only report.\<close>

lemma start_delay_implements:
  "event_ok e \<Longrightarrow> fe_event_type e = START_DELAY_REPORTED \<Longrightarrow> implements policy s e (start_delay_reported s e)"
  using permitted.reported [of e policy s]
  by (auto simp: start_delay_reported_def Let_def effect_eq split: option.splits)

lemma start_exception_implements:
  "event_ok e \<Longrightarrow> fe_event_type e = START_EXCEPTION_REPORTED \<Longrightarrow> implements policy s e (start_exception_reported s e)"
  using permitted.reported [of e policy s] by (simp add: start_exception_reported_def effect_eq)

lemma scope_fact_implements:
  "event_ok e \<Longrightarrow> fe_event_type e = SCOPE_FACT_REPORTED \<Longrightarrow> implements policy s e (scope_fact_reported s e)"
  using permitted.reported [of e policy s] by (simp add: scope_fact_reported_def effects_eq)

section \<open>Task handlers\<close>

lemma task_found:
  assumes "scope_valid s" "task s k = Some t"
  shows "task_ok t" "ts_task_id t = k"
  using assms taskE by blast+

lemma ordinary_task_status_eq:
  "task_ok t \<Longrightarrow> st \<noteq> TaskStatus.SAFE_HOLD \<Longrightarrow>
   ordinary_task_status t st = Inr (if safe_hold_active t then t else t\<lparr>ts_status := st\<rparr>)"
  using task_ok_status [of t st] by (simp add: ordinary_task_status_def task_ok_init)

lemma task_ok_ordinary:
  "task_ok t \<Longrightarrow> st \<noteq> TaskStatus.SAFE_HOLD \<Longrightarrow> task_ok (if safe_hold_active t then t else t\<lparr>ts_status := st\<rparr>)"
  by auto

lemma with_task_ordinary:
  assumes v: "scope_valid s" and t: "task s k = Some t" and st: "st \<noteq> TaskStatus.SAFE_HOLD"
  shows "with_task s (if safe_hold_active t then t else t\<lparr>ts_status := st\<rparr>) =
    Inr (put_task (if safe_hold_active t then t else t\<lparr>ts_status := st\<rparr>) s)"
  by (rule with_task_eq [OF v t _ task_ok_ordinary [OF task_found(1) [OF v t] st]]) simp

lemma work_start_blocked_implements:
  assumes v: "scope_valid s" and e: "event_ok e" and r: "reference_errors s e = []"
    and ty: "fe_event_type e = WORK_START_BLOCKED"
  shows "implements policy s e (work_start_blocked s e)"
proof -
  have "fe_task_id e \<noteq> None" using required_task_assignment [OF r] ty by (simp add: task_assignment_events_def)
  then obtain t k where t: "event_task s e t" "fe_task_id e = Some k" "task s k = Some t"
    using referenced_task [OF r] by blast
  have "permitted policy s e APPLIED
      (put_task (if safe_hold_active t then t else t\<lparr>ts_status := TaskStatus.BLOCKED\<rparr>) s)"
    by (rule permitted.work_held) (simp_all add: ty t)
  then show ?thesis
    using with_task_ordinary [OF v t(3), of TaskStatus.BLOCKED] t
    by (simp add: work_start_blocked_def ordinary_task_status_eq task_found [OF v t(3)] effects_eq [OF e])
qed

lemma resource_missing_implements:
  assumes v: "scope_valid s" and e: "event_ok e" and r: "reference_errors s e = []"
    and ty: "fe_event_type e = RESOURCE_MISSING_REPORTED"
  shows "implements policy s e (resource_missing_reported s e)"
proof (cases "fe_task_id e = None")
  case True
  then show ?thesis
    using permitted.resource_missing [OF ty True, of policy s]
    by (simp add: resource_missing_reported_def effect_eq [OF e])
next
  case False
  then obtain t k where t: "event_task s e t" "fe_task_id e = Some k" "task s k = Some t"
    using referenced_task [OF r] by blast
  have "permitted policy s e APPLIED
      (put_task (if safe_hold_active t then t else t\<lparr>ts_status := TaskStatus.BLOCKED\<rparr>) s)"
    by (rule permitted.work_held) (simp_all add: ty t)
  then show ?thesis
    using with_task_ordinary [OF v t(3), of TaskStatus.BLOCKED] t
    by (simp add: resource_missing_reported_def ordinary_task_status_eq task_found [OF v t(3)] effect_eq [OF e])
qed

text \<open>Site problems: the event's observation is new to the task.\<close>

lemma observed_task_ok:
  assumes "task_ok t" "event_ok e" "fe_event_id e \<notin> fo_event_id ` set (ts_observations t)"
  shows "task_ok (observed_task e t)"
proof -
  let ?o = "\<lparr>fo_event_id = fe_event_id e, fo_actor_id = fe_actor_id e, fo_text = fe_text e,
      fo_evidence = fe_attachments e, fo_interpretation = None\<rparr>"
  have "observation_ok ?o"
    using event_okD [OF assms(2)] by (simp add: observation_ok_def FieldObservation_init_def nonblank_ok)
  then have "task_ok (t\<lparr>ts_observations := ts_observations t @ [?o]\<rparr>)"
    using assms task_ok_observe by auto
  then have "task_ok ((t\<lparr>ts_observations := ts_observations t @ [?o]\<rparr>)\<lparr>ts_evidence :=
      merge_evidence (ts_evidence (t\<lparr>ts_observations := ts_observations t @ [?o]\<rparr>)) (fe_attachments e)\<rparr>)"
    by (rule task_ok_merge) (use event_okD [OF assms(2)] in auto)
  then show ?thesis by (cases t) (simp add: observed_task_def)
qed

lemma dispute_stages_eq:
  "task_ok t \<Longrightarrow> replace_stages (\<lambda>stage. fe_stage_id e = Some (sg_stage_id stage))
     (\<lambda>stage. stage\<lparr>sg_status := StageStatus.DISPUTED\<rparr>) (ts_stages t) = Inr (dispute_stages e (ts_stages t))"
  unfolding dispute_stages_def by (rule replace_stages_eq) (simp_all add: task_ok_stages)

lemma task_ok_disputed_stages: "task_ok t \<Longrightarrow> task_ok (t\<lparr>ts_stages := dispute_stages e (ts_stages t)\<rparr>)"
  unfolding dispute_stages_def by (rule task_ok_map_stages) simp_all

lemma task_ok_disputed:
  assumes "task_ok t"
  shows "task_ok (t\<lparr>ts_status := TaskStatus.DISPUTED, ts_stages := dispute_stages e (ts_stages t)\<rparr>)"
proof -
  have "task_ok ((t\<lparr>ts_stages := dispute_stages e (ts_stages t)\<rparr>)\<lparr>ts_status := TaskStatus.DISPUTED\<rparr>)"
    by (rule task_ok_status [OF task_ok_disputed_stages [OF assms]]) simp
  then show ?thesis by (cases t) simp
qed

lemma observed_task_sel [simp]:
  "ts_definition (observed_task e t) = ts_definition t" "ts_status (observed_task e t) = ts_status t"
  "ts_stages (observed_task e t) = ts_stages t"
  "ts_blocked_pending_resolution (observed_task e t) = ts_blocked_pending_resolution t"
  "ts_execution_authorized (observed_task e t) = ts_execution_authorized t"
  by (simp_all add: observed_task_def)

lemma safe_hold_active_cong:
  "ts_status t' = ts_status t \<Longrightarrow> ts_stages t' = ts_stages t \<Longrightarrow>
   ts_blocked_pending_resolution t' = ts_blocked_pending_resolution t \<Longrightarrow> safe_hold_active t' = safe_hold_active t"
  by (simp add: safe_hold_active_def)

lemma problem_task_ok:
  assumes "task_ok t" "event_ok e" "fe_event_id e \<notin> fo_event_id ` set (ts_observations t)"
  shows "task_ok (problem_task policy e t)"
  using observed_task_ok [OF assms] task_ok_disputed [OF observed_task_ok [OF assms], of e]
    task_ok_status [OF observed_task_ok [OF assms], of TaskStatus.BLOCKED]
  by (simp add: problem_task_def)

lemma problem_task_definition [simp]: "ts_definition (problem_task policy e t) = ts_definition t"
  by (simp add: problem_task_def)

lemma site_problem_task_eq:
  assumes t: "task_ok t" and e: "event_ok e" and n: "fe_event_id e \<notin> fo_event_id ` set (ts_observations t)"
  shows "\<exists>types. site_problem_task t e policy = Inr (problem_task policy e t, types)"
proof -
  note ok = observed_task_ok [OF assms]
  let ?o = "\<lparr>fo_event_id = fe_event_id e, fo_actor_id = fe_actor_id e, fo_text = fe_text e,
      fo_evidence = fe_attachments e, fo_interpretation = None\<rparr>"
  have o: "FieldObservation_init ?o = Inr ?o"
    using event_okD [OF e] by (simp add: FieldObservation_init_def nonblank_ok)
  have hold: "safe_hold_active (observed_task e t) = safe_hold_active t"
    by (rule safe_hold_active_cong) simp_all
  have c: "(ts_status t = TaskStatus.DONE \<or> (fe_stage_id e \<noteq> None \<and>
      (\<exists>stage\<in>set (ts_stages t). Some (sg_stage_id stage) = fe_stage_id e \<and> sg_status stage = StageStatus.DONE))) =
      conflicting_completion t e"
    by (cases "fe_stage_id e") (auto simp: conflicting_completion_def)
  have obs: "TaskState_init (t\<lparr>ts_evidence := merge_evidence (ts_evidence t) (fe_attachments e),
      ts_observations := ts_observations t @ [?o]\<rparr>) = Inr (observed_task e t)"
    using task_ok_init [OF ok] by (simp add: observed_task_def)
  show ?thesis
    using dispute_stages_eq [OF ok, of e] task_ok_init [OF task_ok_disputed [OF ok, of e]]
      ordinary_task_status_eq [OF ok, of TaskStatus.BLOCKED]
    unfolding site_problem_task_def Let_def c
    by (simp add: o obs hold problem_task_def)
qed

lemma site_problem_implements:
  assumes v: "scope_valid s" and e: "event_ok e" and r: "reference_errors s e = []"
    and ty: "fe_event_type e = SITE_PROBLEM_REPORTED"
    and n: "\<forall>t\<in>set (tasks s). fe_event_id e \<notin> fo_event_id ` set (ts_observations t)"
  shows "implements (cx_policy c) s e (site_problem_reported s e c)"
proof -
  have "fe_task_id e \<noteq> None" using required_task_assignment [OF r] ty by (simp add: task_assignment_events_def)
  then obtain t k where t: "event_task s e t" "fe_task_id e = Some k" "task s k = Some t"
    using referenced_task [OF r] by blast
  have ok: "task_ok t" and fresh: "fe_event_id e \<notin> fo_event_id ` set (ts_observations t)"
    using task_found [OF v t(3)] n task_Some_in [OF t(3)] by auto
  from site_problem_task_eq [OF ok e fresh] obtain types
    where st: "site_problem_task t e (cx_policy c) = Inr (problem_task (cx_policy c) e t, types)" by blast
  have "with_task s (problem_task (cx_policy c) e t) = Inr (put_task (problem_task (cx_policy c) e t) s)"
    by (rule with_task_eq [OF v t(3)]) (simp_all add: problem_task_ok [OF ok e fresh])
  then show ?thesis
    using t st permitted.problem [OF ty t(1), of "cx_policy c"]
    by (simp add: site_problem_reported_def Let_def effects_eq [OF e])
qed

lemma traverse_nonblank [simp]:
  "traverse (\<lambda>i. nonblank i n) xs = Inr ys \<longleftrightarrow> ys = map strip xs \<and> (\<forall>x\<in>set xs. strip x \<noteq> [])"
  by (induction xs arbitrary: ys) auto

lemma sort_strip_id: "sort (map strip xs) = xs \<longleftrightarrow> sorted xs \<and> (\<forall>x\<in>set xs. strip x = x)"
proof
  assume a: "sort (map strip xs) = xs"
  have "strip ` set xs = set xs" using arg_cong [OF a, of set] by simp
  then have "strip x = x" if "x \<in> set xs" for x using that by (metis imageE strip_strip)
  moreover have "sorted xs" by (metis a sorted_sort)
  ultimately show "sorted xs \<and> (\<forall>x\<in>set xs. strip x = x)" by blast
next
  assume "sorted xs \<and> (\<forall>x\<in>set xs. strip x = x)"
  then show "sort (map strip xs) = xs" by (simp add: map_idI sorted_sort_id)
qed

lemma assignment_ok_released:
  assumes "assignment_ok a" and "strip w = w" "w \<noteq> []"
  shows "assignment_ok (a\<lparr>as_released_worker_ids := sorted_set (as_released_worker_ids a @ [w])\<rparr>)"
proof -
  have a: "sort (map strip (as_released_worker_ids a)) = as_released_worker_ids a"
      "\<forall>x\<in>set (as_released_worker_ids a). strip x \<noteq> []"
    using assms(1) by (cases a; auto simp: assignment_ok_def AssignmentState_init_def)+
  let ?r = "sorted_set (as_released_worker_ids a @ [w])"
  have "\<forall>x\<in>set ?r. strip x = x" using a(1) assms(2) by (auto simp: sort_strip_id)
  then have m: "map strip ?r = ?r" by (intro map_idI) auto
  have "sort ?r = ?r" by (simp add: sorted_sort_id)
  moreover have "\<forall>x\<in>set ?r. strip x \<noteq> []" using a(2) assms(2,3) by auto
  ultimately show ?thesis
    using assms(1) m unfolding assignment_ok_def AssignmentState_init_def
    by (cases a) (auto simp: optionally_def split: option.splits)
qed

lemma technical_wait_implements:
  assumes v: "scope_valid s" and e: "event_ok e" and r: "reference_errors s e = []"
    and ty: "fe_event_type e = TECHNICAL_WAIT_REPORTED"
  shows "implements policy s e (technical_wait_reported s e)"
proof -
  have q: "fe_task_id e \<noteq> None" "fe_assignment_id e \<noteq> None"
    using required_task_assignment [OF r] ty by (simp_all add: task_assignment_events_def)
  obtain t k where t: "event_task s e t" "fe_task_id e = Some k" "task s k = Some t"
    using referenced_task [OF r q(1)] by blast
  obtain a j where a: "event_assignment s e a" "fe_assignment_id e = Some j" "assignment s j = Some a"
    using referenced_assignment [OF r q(2)] by blast
  let ?t = "t\<lparr>ts_status := TaskStatus.WAITING\<rparr>"
  let ?a = "a\<lparr>as_released_worker_ids := sorted_set (as_released_worker_ids a @ [fe_actor_id e])\<rparr>"
  have okt: "task_ok ?t" using task_found [OF v t(3)] by auto
  have "assignment_ok a" using assignmentE [OF v a(3)] by blast
  then have oka: "assignment_ok ?a"
    using event_okD(3,4) [OF e] by (rule assignment_ok_released)
  have mid: "scope_valid (put_task ?t s)" "with_task s ?t = Inr (put_task ?t s)"
    using put_task_valid [OF v t(3) _ okt] with_task_eq [OF v t(3) _ okt] by simp_all
  have "with_assignment (put_task ?t s) ?a = Inr (put_assignment ?a (put_task ?t s))"
    by (rule with_assignment_eq [OF mid(1) _ _ oka, of j a]) (simp_all add: a assignment_skeleton_def)
  then show ?thesis
    using t a mid oka okt permitted.waiting [OF ty t(1) a(1), of policy]
    by (simp add: technical_wait_reported_def effects_eq [OF e] task_ok_init assignment_ok_def)
qed

section \<open>Completion\<close>

lemma may_complete_iff:
  assumes "fe_actor_id e \<in> set (as_member_worker_ids a)"
  shows "completion_authority_errors t a e = [] \<longleftrightarrow> may_complete t a (fe_actor_id e)"
proof -
  have n: "sort xs = [] \<longleftrightarrow> xs = []" for xs :: "string list" by (metis set_empty set_sort)
  show ?thesis
    using assms by (auto simp: completion_authority_errors_def may_complete_def n split: option.splits)
qed

lemma completion_gate_Nil: "completion_gate_reasons s e t = [] \<longleftrightarrow>
    ts_execution_authorized t \<and> \<not> ts_blocked_pending_resolution t \<and> \<not> safe_hold_active t \<and>
    \<not> completion_blocked_by_stop s e \<and> \<not> has_unresolved_unsafe_report s e"
  by (simp add: completion_gate_reasons_def)

lemma with_merged_evidence_ok:
  "task_ok t \<Longrightarrow> event_ok e \<Longrightarrow> task_ok (with_merged_evidence e t)"
  unfolding with_merged_evidence_def by (rule task_ok_merge) (auto simp: event_okD)

lemma with_merged_evidence_sel [simp]:
  "ts_definition (with_merged_evidence e t) = ts_definition t" "ts_status (with_merged_evidence e t) = ts_status t"
  "ts_stages (with_merged_evidence e t) = ts_stages t"
  "ts_observations (with_merged_evidence e t) = ts_observations t"
  "ts_blocked_pending_resolution (with_merged_evidence e t) = ts_blocked_pending_resolution t"
  "ts_execution_authorized (with_merged_evidence e t) = ts_execution_authorized t"
  by (simp_all add: with_merged_evidence_def)

lemma completed_task_ok: "task_ok t \<Longrightarrow> event_ok e \<Longrightarrow> task_ok (completed_task e t)"
  unfolding completed_task_def by (rule task_ok_completed) (simp_all add: with_merged_evidence_ok)

lemma stage_completed_task_ok: "task_ok t \<Longrightarrow> event_ok e \<Longrightarrow> task_ok (stage_completed_task e t)"
  unfolding stage_completed_task_def
  using task_ok_map_stages [OF with_merged_evidence_ok, of t e] by simp

lemma completion_refused_implements: "event_ok e \<Longrightarrow> implements policy s e (completion_refused s e reason)"
  by (simp add: completion_refused_def completion_rejection_effects_eq)

lemma completion_gated_implements:
  assumes v: "scope_valid s" and e: "event_ok e" and ty: "fe_event_type e \<in> set completion_events"
    and t: "event_task s e t" "task s k = Some t" and a: "event_assignment s e a"
    and c: "expected_completion_type (fe_event_type e) = Some (td_completion_type (ts_definition t))"
    and m: "may_complete t a (fe_actor_id e)"
  shows "implements policy s e (completion_gated s e t reasons)"
proof (cases "has_unresolved_unsafe_report s e \<and> \<not> safe_hold_active t")
  case True
  let ?t = "t\<lparr>ts_status := TaskStatus.DISPUTED, ts_stages := dispute_stages e (ts_stages t)\<rparr>"
  have ok: "task_ok t" "task_ok ?t" using task_found [OF v t(2)] task_ok_disputed by auto
  have "with_task s ?t = Inr (put_task ?t s)"
    by (rule with_task_eq [OF v t(2) _ ok(2)]) simp
  then show ?thesis
    using True dispute_stages_eq [OF ok(1), of e] task_ok_init [OF ok(2)]
      permitted.unsafe_conflict [OF ty t(1) c a m, of policy]
    by (simp add: completion_gated_def completion_rejection_effects_eq [OF e] effects_eq [OF e])
next
  case False
  then show ?thesis
    by (auto simp: completion_gated_def completion_rejection_effects_eq [OF e] effects_eq [OF e])
qed

lemma completion_recorded_implements:
  assumes v: "scope_valid s" and e: "event_ok e" and ty: "fe_event_type e \<in> set completion_events"
    and t: "event_task s e t" "task s k = Some t" and a: "event_assignment s e a"
    and c: "expected_completion_type (fe_event_type e) = Some (td_completion_type (ts_definition t))"
    and m: "may_complete t a (fe_actor_id e)" and o: "completion_open s e t"
    and g: "fe_event_type e = STAGE_COMPLETION_REPORTED \<Longrightarrow>
      \<exists>stage\<in>set (ts_stages t). fe_stage_id e = Some (sg_stage_id stage) \<and> sg_status stage = StageStatus.OPEN"
  shows "implements policy s e (completion_recorded s e t)"
proof -
  have ok: "task_ok t" using task_found [OF v t(2)] by simp
  have we: "TaskState_init (t\<lparr>ts_evidence := merge_evidence (ts_evidence t) (fe_attachments e)\<rparr>) =
      Inr (with_merged_evidence e t)"
    using task_ok_init [OF with_merged_evidence_ok [OF ok e]] by (simp add: with_merged_evidence_def)
  have wt: "with_task s u = Inr (put_task u s)" if "task_ok u" "ts_definition u = ts_definition t" for u
    using with_task_eq [OF v t(2) that(2) that(1)] .
  consider (missing) "missing_completion_requirements t e \<noteq> []"
    | (stage) "missing_completion_requirements t e = []" "fe_event_type e = STAGE_COMPLETION_REPORTED"
    | (task) "missing_completion_requirements t e = []" "fe_event_type e \<noteq> STAGE_COMPLETION_REPORTED"
    by blast
  then show ?thesis
  proof cases
    case missing
    with permitted.evidence_recorded [OF ty t(1) a m o missing, of policy] show ?thesis
      by (simp add: completion_recorded_def Let_def we wt with_merged_evidence_ok ok e effect_eq)
  next
    case stage
    from g [OF stage(2)] obtain sg where sg: "sg \<in> set (ts_stages t)" "fe_stage_id e = Some (sg_stage_id sg)"
      "sg_status sg = StageStatus.OPEN" by blast
    have rs: "replace_stages (\<lambda>stage. Some (sg_stage_id stage) = fe_stage_id e)
        (\<lambda>stage. stage\<lparr>sg_status := StageStatus.DONE, sg_completion_event_id := Some (fe_event_id e)\<rparr>)
        (ts_stages t) =
        Inr (map_stages (\<lambda>stage. Some (sg_stage_id stage) = fe_stage_id e)
        (\<lambda>stage. stage\<lparr>sg_status := StageStatus.DONE, sg_completion_event_id := Some (fe_event_id e)\<rparr>)
        (ts_stages t))"
      by (rule replace_stages_eq) (use task_ok_stages [OF ok] in simp_all)
    have d: "ts_definition (stage_completed_task e t) = ts_definition t" by (simp add: stage_completed_task_def)
    note sok = stage_completed_task_ok [OF ok e]
    show ?thesis
      using permitted.stage_completed [OF stage(2) t(1) c a m o stage(1) sg, of policy]
        task_ok_init [OF sok] wt [OF sok d]
      by (simp add: completion_recorded_def we stage rs effects_eq [OF e] flip: stage_completed_task_def)
  next
    case task
    have ty': "fe_event_type e \<in> {TASK_COMPLETION_REPORTED, VISIT_COMPLETION_REPORTED}"
      using ty task by (auto simp: completion_events_def)
    have d: "ts_definition (completed_task e t) = ts_definition t" by (simp add: completed_task_def)
    note cok = completed_task_ok [OF ok e]
    show ?thesis
      using permitted.task_completed [OF ty' t(1) c a m o task(1), of policy]
        task_ok_init [OF cok] wt [OF cok d]
      by (simp add: completion_recorded_def we task effects_eq [OF e] flip: completed_task_def)
  qed
qed

lemma referenced_stage:
  assumes "reference_errors s e = []" "fe_stage_id e = Some sid" "fe_task_id e = Some k" "task s k = Some t"
  obtains stage where "stage \<in> set (ts_stages t)" "sg_stage_id stage = sid"
proof -
  have "stage_reference_errors s e = []" using assms(1) by (simp add: reference_errors_Nil)
  with assms(2-) that show thesis by (auto simp: stage_reference_errors_def)
qed

lemma implements_chain:
  "(c1 \<Longrightarrow> implements policy s e m1) \<Longrightarrow> implements policy s e m2 \<Longrightarrow> implements policy s e m3 \<Longrightarrow>
   (\<not> (c1 \<or> c2 \<or> c3) \<Longrightarrow> implements policy s e m4) \<Longrightarrow>
   implements policy s e (if c1 then m1 else if c2 then m2 else if c3 then m3 else m4)"
  by simp

lemma completion_implements:
  assumes v: "scope_valid s" and e: "event_ok e" and r: "reference_errors s e = []"
    and ty: "fe_event_type e \<in> set completion_events"
  shows "implements policy s e (completion_reported s e)"
proof -
  have q: "fe_task_id e \<noteq> None" "fe_assignment_id e \<noteq> None"
    using required_task_assignment [OF r] ty by (auto simp: task_assignment_events_def completion_events_def)
  obtain t k where t: "event_task s e t" "fe_task_id e = Some k" "task s k = Some t"
    using referenced_task [OF r q(1)] by blast
  obtain a j where a: "event_assignment s e a" "fe_assignment_id e = Some j" "assignment s j = Some a"
    using referenced_assignment [OF r q(2)] by blast
  have mem: "fe_actor_id e \<in> set (as_member_worker_ids a)" using a(1) by (simp add: event_assignment_def)
  obtain ct where ct: "expected_completion_type (fe_event_type e) = Some ct"
    using ty by (auto simp: completion_events_def)
  have stage: "\<exists>stage\<in>set (ts_stages t). lookup_by sg_stage_id sid (ts_stages t) = Some stage \<and> sg_stage_id stage = sid"
    if "fe_stage_id e = Some sid" for sid
  proof -
    from referenced_stage [OF r that t(2,3)] have "sid \<in> sg_stage_id ` set (ts_stages t)" by auto
    then obtain y where "lookup_by sg_stage_id sid (ts_stages t) = Some y"
      by (cases "lookup_by sg_stage_id sid (ts_stages t)") (auto simp: lookup_by_None_iff)
    then show ?thesis by (auto dest: lookup_by_Some)
  qed
  have rec: "implements policy s e (completion_recorded s e t)"
    if "may_complete t a (fe_actor_id e)" "td_completion_type (ts_definition t) = ct"
      "completion_gate_reasons s e t = []" "ts_status t = TaskStatus.OPEN"
      "fe_event_type e = STAGE_COMPLETION_REPORTED \<Longrightarrow>
        \<forall>stage. Option.bind (fe_stage_id e) (\<lambda>sid. lookup_by sg_stage_id sid (ts_stages t)) = Some stage \<longrightarrow>
          sg_status stage = StageStatus.OPEN"
  proof (rule completion_recorded_implements [OF v e ty t(1,3) a(1)])
    show "completion_open s e t" using that by (simp add: completion_open_def completion_gate_Nil)
    show "\<exists>stage\<in>set (ts_stages t). fe_stage_id e = Some (sg_stage_id stage) \<and> sg_status stage = StageStatus.OPEN"
      if st: "fe_event_type e = STAGE_COMPLETION_REPORTED"
    proof -
      obtain sid where sid: "fe_stage_id e = Some sid" using required_stage [OF r st] by auto
      from stage [OF sid] \<open>fe_event_type e = _ \<Longrightarrow> _\<close> [OF st] sid show ?thesis by auto
    qed
  qed (use that ct in auto)
  have gated: "implements policy s e (completion_gated s e t reasons)"
    if "completion_authority_errors t a e = []" "td_completion_type (ts_definition t) = ct" for reasons
    by (rule completion_gated_implements [OF v e ty t(1,3) a(1)]) (use that ct may_complete_iff [OF mem] in auto)
  show ?thesis
  proof (cases "completion_authority_errors t a e = [] \<and> td_completion_type (ts_definition t) = ct \<and>
      completion_gate_reasons s e t = []")
    case False
    then show ?thesis
      using t a ct gated
      by (auto simp: completion_reported_def Let_def effect_eq [OF e] completion_refused_implements [OF e])
  next
    case True
    then have m: "may_complete t a (fe_actor_id e)" using may_complete_iff [OF mem] by simp
    let ?tgt = "if fe_event_type e = STAGE_COMPLETION_REPORTED
      then Option.bind (fe_stage_id e) (\<lambda>sid. lookup_by sg_stage_id sid (ts_stages t)) else None"
    let ?done = "ts_status t = TaskStatus.DONE \<or>
      (case ?tgt of None \<Rightarrow> False | Some stage \<Rightarrow> sg_status stage = StageStatus.DONE)"
    let ?shut = "ts_status t \<in> {TaskStatus.BLOCKED, TaskStatus.WAITING, TaskStatus.DISPUTED, TaskStatus.SAFE_HOLD}"
    let ?closed = "case ?tgt of None \<Rightarrow> False
      | Some stage \<Rightarrow> sg_status stage \<in> {StageStatus.DISPUTED, StageStatus.SAFE_HOLD}"
    have eq: "completion_reported s e =
      (if ?done then Inr (s, NOOP, [], [], [''COMPLETION_ALREADY_RECORDED''])
       else if ?shut then completion_refused s e ''TASK_NOT_COMPLETABLE''
       else if ?closed then completion_refused s e ''STAGE_NOT_COMPLETABLE''
       else completion_recorded s e t)"
      using True t(2,3) a(2,3) ct unfolding completion_reported_def Let_def by simp
    show ?thesis
      unfolding eq
    proof (rule implements_chain)
      assume open_task: "\<not> (?done \<or> ?shut \<or> ?closed)"
      then have "ts_status t = TaskStatus.OPEN" by (cases "ts_status t") simp_all
      moreover have "sg_status stage = StageStatus.OPEN"
        if "fe_event_type e = STAGE_COMPLETION_REPORTED"
          "Option.bind (fe_stage_id e) (\<lambda>sid. lookup_by sg_stage_id sid (ts_stages t)) = Some stage" for stage
        using open_task that by (cases "sg_status stage") simp_all
      ultimately show "implements policy s e (completion_recorded s e t)"
        using rec [OF m] True by blast
    next
      assume ?done
      then have "ts_status t = TaskStatus.DONE \<or>
          (\<exists>stage\<in>set (ts_stages t). fe_stage_id e = Some (sg_stage_id stage) \<and> sg_status stage = StageStatus.DONE)"
        by (auto simp: bind_eq_Some_conv dest!: lookup_by_Some split: if_splits option.splits)
      then show "implements policy s e (Inr (s, NOOP, [], [], [''COMPLETION_ALREADY_RECORDED'']))"
        using permitted.already_completed [OF ty t(1), of policy] True by simp
    qed (simp_all add: completion_refused_implements [OF e])
  qed
qed

section \<open>Disputes and directives\<close>

lemma disputed_task_ok: "task_ok t \<Longrightarrow> task_ok (disputed_task e t)"
  by (auto simp: disputed_task_def task_ok_disputed_stages)

lemma disputed_task_definition [simp]: "ts_definition (disputed_task e t) = ts_definition t"
  by (simp add: disputed_task_def)

lemma completion_disputed_implements:
  assumes v: "scope_valid s" and e: "event_ok e" and r: "reference_errors s e = []"
    and ty: "fe_event_type e = FieldEventType.COMPLETION_DISPUTED"
  shows "implements policy s e (completion_disputed s e)"
proof -
  have "fe_task_id e \<noteq> None" using required_task_assignment [OF r] ty by (simp add: task_assignment_events_def)
  then obtain t k where t: "event_task s e t" "fe_task_id e = Some k" "task s k = Some t"
    using referenced_task [OF r] by blast
  obtain g where g: "fe_against_event_id e = Some g" using required_against [OF r ty] by auto
  have ok: "task_ok t" using task_found [OF v t(3)] by simp
  have rs: "replace_stages (\<lambda>stage. sg_stage_id stage = sid)
      (\<lambda>stage. stage\<lparr>sg_status := StageStatus.DISPUTED\<rparr>) (ts_stages t) = Inr (dispute_stages e (ts_stages t))"
    if "fe_stage_id e = Some sid" for sid
    using dispute_stages_eq [OF ok, of e] that by (simp add: eq_commute [of sid])
  have i: "TaskState_init (t\<lparr>ts_stages := dispute_stages e (ts_stages t)\<rparr>) = Inr (t\<lparr>ts_stages := dispute_stages e (ts_stages t)\<rparr>)"
      "TaskState_init (t\<lparr>ts_status := TaskStatus.DISPUTED\<rparr>) = Inr (t\<lparr>ts_status := TaskStatus.DISPUTED\<rparr>)"
    using task_ok_init [OF task_ok_disputed_stages [OF ok, of e]] task_ok_init [OF task_ok_status [OF ok]] by simp_all
  have w: "with_task s (disputed_task e t) = Inr (put_task (disputed_task e t) s)"
    by (rule with_task_eq [OF v t(3) _ disputed_task_ok [OF ok]]) simp
  have eq: "completion_disputed s e =
      (if \<not> valid_against_event s e (receipt s g) then Inr (s, REJECTED, [], [], [''INVALID_AGAINST_EVENT''])
       else and_then (Inr (disputed_task e t)) (\<lambda>updated.
         and_then (with_task s updated) (\<lambda>next_state.
         and_then (effects e [EffectType.COMPLETION_DISPUTED, HUMAN_REVIEW_REQUIRED]) (\<lambda>fx.
         Inr (next_state, APPLIED, fx, [], [])))))"
    unfolding completion_disputed_def disputed_task_def using t g
    by (cases "fe_stage_id e") (auto simp: rs i)
  show ?thesis
    using permitted.disputed [OF ty t(1) g, of policy] by (simp add: eq w effects_eq [OF e])
qed

lemma put_by_put_by: "key u = key v \<Longrightarrow> put_by key v (put_by key u xs) = put_by key v xs"
  by (auto simp: put_by_def)

lemma put_directive_put_directive:
  "dr_definition d' = dr_definition d \<Longrightarrow> put_directive d' (put_directive d s) = put_directive d' s"
  by (simp add: put_directive_def put_by_put_by)

lemma directive_ok_edit:
  "directive_ok d \<Longrightarrow> event_ok e \<Longrightarrow> directive_ok (acked e d)"
  "directive_ok d \<Longrightarrow> event_ok e \<Longrightarrow> directive_ok (d\<lparr>dr_exception_event_id := Some (fe_event_id e)\<rparr>)"
  "directive_ok d \<Longrightarrow> directive_ok (d\<lparr>dr_stop_in_force := True\<rparr>)"
  "directive_ok d \<Longrightarrow> directive_ok (d\<lparr>dr_e1_escalated := True\<rparr>)"
  by (simp_all add: directive_ok_def DirectiveRoot_init_ok acked_def event_okD)

lemma directive_ok_init: "directive_ok d \<Longrightarrow> DirectiveRoot_init d = Inr d"
  by (simp add: directive_ok_def)

lemma directive_ok_class:
  assumes "directive_ok d"
  shows "dr_directive_type d = ACTION_REQUIRED \<Longrightarrow> dr_directive_class d = ACTION"
    "dr_directive_type d = STOP_DIRECTIVE \<Longrightarrow> dr_directive_class d = STOP"
    "dr_proposed_plan_reference d = Some x \<Longrightarrow> strip x = x \<and> x \<noteq> []"
    "strip (dr_directive_id d) = dr_directive_id d" "dr_directive_id d \<noteq> []"
proof -
  obtain x where x: "dr_definition d = x" "DirectiveDefinition_init x = Inr x"
    using assms by (simp add: directive_ok_def)
  show "dr_directive_type d = ACTION_REQUIRED \<Longrightarrow> dr_directive_class d = ACTION"
    "dr_directive_type d = STOP_DIRECTIVE \<Longrightarrow> dr_directive_class d = STOP"
    "dr_proposed_plan_reference d = Some y \<Longrightarrow> strip y = y \<and> y \<noteq> []"
    "strip (dr_directive_id d) = dr_directive_id d" "dr_directive_id d \<noteq> []" for y
    using x by (cases x; auto simp: DirectiveDefinition_init_def optionally_def split: option.splits)+
qed

lemma worker_acknowledged_implements:
  assumes v: "scope_valid s" and e: "event_ok e" and r: "reference_errors s e = []"
    and ty: "fe_event_type e = WORKER_ACKNOWLEDGED"
  shows "implements policy s e (worker_acknowledged s e)"
proof -
  have "fe_directive_id e \<noteq> None" using required_directive [OF r] ty by simp
  then obtain d k where d: "event_directive s e d" "fe_directive_id e = Some k" "directive s k = Some d"
    using referenced_directive [OF r] by blast
  have ok: "directive_ok d" using directiveE [OF v d(3)] .
  have acked_eq: "d\<lparr>dr_delivery_evidence := ACKED, dr_acknowledged_event_id := Some (fe_event_id e)\<rparr> = acked e d"
    by (simp add: acked_def)
  have def_eq: "dr_definition (acked e d) = dr_definition d" by (simp add: acked_def)
  have mid: "with_directive s (acked e d) = Inr (put_directive (acked e d) s)"
      "scope_valid (put_directive (acked e d) s)"
    using with_directive_eq [OF v d(3) def_eq] put_directive_valid [OF v d(3) def_eq] directive_ok_edit(1) [OF ok e]
    by simp_all
  show ?thesis
  proof (cases "directive_worker_informed s (dr_directive_id d)")
    case True
    with d permitted.already_informed [OF ty d(1), of policy] show ?thesis by (simp add: worker_acknowledged_def)
  next
    case False
    show ?thesis
    proof (cases "plan_reference_due s d \<and> Option.bind (dr_plan_day_id d) (plan_day s) \<noteq> None")
      case True
      then obtain j p where p: "dr_plan_day_id d = Some j" "plan_day s j = Some p"
        by (auto simp: bind_eq_Some_conv)
      obtain x where x: "dr_proposed_plan_reference d = Some x" using True by (auto simp: plan_reference_due_def)
      let ?p = "p\<lparr>pd_confirmed_plan_reference := dr_proposed_plan_reference d\<rparr>"
      have okp: "plan_ok ?p"
        using plan_ok_edit(5) [of p x] plan_dayE [OF v p(2)] directive_ok_class(3) [OF ok x] x by auto
      have w: "with_plan_day (put_directive (acked e d) s) ?p = Inr (put_plan_day ?p (put_directive (acked e d) s))"
        by (rule with_plan_day_eq [OF mid(2), of j p]) (simp_all add: p okp plan_key_def)
      have "permitted policy s e APPLIED (put_plan_day ?p (put_directive (acked e d) s))"
        by (rule permitted.plan_confirmed [OF ty d(1) False]) (use True p in simp_all)
      then show ?thesis
        using d False True p w mid plan_ok_init [OF okp] directive_ok_init [OF directive_ok_edit(1) [OF ok e]]
        by (simp add: worker_acknowledged_def acked_eq plan_reference_due_def effects_eq [OF e])
    next
      case nodue: False
      have perm: "permitted policy s e APPLIED (put_directive (acked e d) s)"
        by (rule permitted.acknowledged [OF ty d(1) False]) (use nodue in auto)
      have none: "Option.bind (dr_plan_day_id d) (plan_day s) = None" if "plan_reference_due s d"
        using nodue that by auto
      have "(if dr_directive_class d = ACTION \<and> dr_plan_day_id d \<noteq> None \<and>
             dr_proposed_plan_reference d \<noteq> None \<and> \<not> later_governing_directive_exists s d
          then (case Option.bind (dr_plan_day_id d) (plan_day (put_directive (acked e d) s)) of
                  None \<Rightarrow> Inr (put_directive (acked e d) s)
                | Some plan \<Rightarrow>
                    and_then (PlanDayRoot_init
                       (plan\<lparr>pd_confirmed_plan_reference := dr_proposed_plan_reference d\<rparr>)) (\<lambda>updated.
                    with_plan_day (put_directive (acked e d) s) updated))
          else Inr (put_directive (acked e d) s)) = Inr (put_directive (acked e d) s)"
        using none unfolding plan_reference_due_def by auto
      then show ?thesis
        using d False perm mid directive_ok_init [OF directive_ok_edit(1) [OF ok e]]
        by (simp add: worker_acknowledged_def acked_eq effects_eq [OF e])
    qed
  qed
qed

lemma held_task_ok: "task_ok t \<Longrightarrow> task_ok (held_task d t)"
  unfolding held_task_def by (rule task_ok_hold)

lemma held_task_definition [simp]: "ts_definition (held_task d t) = ts_definition t"
  by (simp add: held_task_def)

lemma safe_hold_task_eq:
  assumes "task_ok t" "directive_ok d"
  shows "safe_hold_task t (Some (dr_directive_id d)) None = Inr (held_task d t)"
proof -
  have "replace_stages (\<lambda>stage. None = Some (sg_stage_id stage)) g (ts_stages t) = Inr (ts_stages t)" for g
    unfolding replace_stages_def using traverse_map [of "ts_stages t" Inr "\<lambda>x. x"] by simp
  then show ?thesis
    using task_ok_init [OF task_ok_hold [OF assms(1)]] directive_ok_class(5) [OF assms(2)]
    by (simp add: safe_hold_task_def truthy_def held_task_def)
qed

lemma worker_action_exception_implements:
  assumes v: "scope_valid s" and e: "event_ok e" and r: "reference_errors s e = []"
    and ty: "fe_event_type e = WORKER_ACTION_EXCEPTION"
  shows "implements policy s e (worker_action_exception s e)"
proof -
  have "fe_directive_id e \<noteq> None" using required_directive [OF r] ty by simp
  then obtain d k where d: "event_directive s e d" "fe_directive_id e = Some k" "directive s k = Some d"
    using referenced_directive [OF r] by blast
  have ok: "directive_ok d" using directiveE [OF v d(3)] .
  let ?d = "d\<lparr>dr_exception_event_id := Some (fe_event_id e)\<rparr>"
  let ?d' = "d\<lparr>dr_exception_event_id := Some (fe_event_id e), dr_stop_in_force := True\<rparr>"
  have okd: "directive_ok ?d" "directive_ok ?d'"
    using directive_ok_edit(2) [OF ok e] directive_ok_edit(3) [OF directive_ok_edit(2) [OF ok e]] by simp_all
  have mid: "with_directive s ?d = Inr (put_directive ?d s)" "scope_valid (put_directive ?d s)"
    using with_directive_eq [OF v d(3) _ okd(1)] put_directive_valid [OF v d(3) _ okd(1)] by simp_all
  have "directive (put_directive ?d s) k = Some ?d"
    using directive_put_directive [of s ?d d k] d directive_Some_in [OF d(3)] by simp
  then have stop: "with_directive (put_directive ?d s) ?d' = Inr (put_directive ?d' s)"
      "scope_valid (put_directive ?d' s)"
    using with_directive_eq [OF mid(2) _ _ okd(2)] put_directive_valid [OF v d(3) _ okd(2)]
    by (simp_all add: put_directive_put_directive)
  consider (other) "dr_directive_type d \<notin> {ACTION_REQUIRED, STOP_DIRECTIVE}"
    | (action) "dr_directive_type d = ACTION_REQUIRED" | (stop) "dr_directive_type d = STOP_DIRECTIVE" by blast
  then show ?thesis
  proof cases
    case other
    with d show ?thesis by (simp add: worker_action_exception_def)
  next
    case action
    then have c: "dr_directive_class d = ACTION" using directive_ok_class(1) [OF ok] by simp
    with action d mid directive_ok_init [OF okd(1)] permitted.excepted [OF ty d(1) c, of policy]
    show ?thesis by (simp add: worker_action_exception_def effects_eq [OF e])
  next
    case st: stop
    then have c: "dr_directive_class d = STOP" using directive_ok_class(2) [OF ok] by simp
    show ?thesis
    proof (cases "Option.bind (dr_task_id d) (task s)")
      case None
      with st c d mid directive_ok_init [OF okd(1)] show ?thesis
        by (simp add: worker_action_exception_def)
    next
      case (Some t)
      then obtain j where t: "dr_task_id d = Some j" "task s j = Some t" by (auto simp: bind_eq_Some_conv)
      have okt: "task_ok t" "task_ok (held_task d t)"
        using task_found(1) [OF v t(2)] held_task_ok by simp_all
      have w: "with_task (put_directive ?d' s) (held_task d t) = Inr (put_task (held_task d t) (put_directive ?d' s))"
        by (rule with_task_eq [OF stop(2), of j t]) (simp_all add: t okt)
      show ?thesis
        using st c d mid stop w t directive_ok_init [OF okd(1)] directive_ok_init [OF okd(2)]
          safe_hold_task_eq [OF okt(1) ok] permitted.stop_excepted [OF ty d(1) c t, of policy]
        by (simp add: worker_action_exception_def effects_eq [OF e])
    qed
  qed
qed

section \<open>All handlers\<close>

lemma handler_implements:
  assumes "scope_valid s" "event_ok e" "reference_errors s e = []"
    and "\<forall>t\<in>set (tasks s). fe_event_id e \<notin> fo_event_id ` set (ts_observations t)"
  shows "implements (cx_policy c) s e (handle_field_event (fe_event_type e) s e c)"
  using assms day_plan_activated_implements [OF assms(1-3)] unavailable_today_implements [OF assms(1-3)]
    day_close_implements [OF assms(1-3)] start_delay_implements start_exception_implements scope_fact_implements
    work_start_blocked_implements [OF assms(1-3)] resource_missing_implements [OF assms(1-3)]
    site_problem_implements [OF assms(1-3)] technical_wait_implements [OF assms(1-3)]
    completion_implements [OF assms(1-3)] completion_disputed_implements [OF assms(1-3)]
    worker_acknowledged_implements [OF assms(1-3)] worker_action_exception_implements [OF assms(1-3)]
  by (cases "fe_event_type e") (simp_all add: completion_events_def)

end
