(* ===== verification/Field_Evolution.thy ===== *)
theory Field_Evolution
  imports Field_Refinement
begin

text \<open>
  The direction in which an M2 scope moves. \<open>scope_evolves\<close> is a preorder that every permitted
  transition follows: what is immutable, what is sticky, what only grows, and the plan day's
  life cycle.
\<close>

section \<open>The preorder\<close>

definition stage_evolves :: "StageState \<Rightarrow> StageState \<Rightarrow> bool" where
  "stage_evolves x y \<longleftrightarrow> sg_stage_id y = sg_stage_id x \<and>
     (sg_status x = StageStatus.SAFE_HOLD \<longrightarrow> sg_status y = StageStatus.SAFE_HOLD) \<and>
     (sg_completion_event_id x \<noteq> None \<longrightarrow> sg_completion_event_id y \<noteq> None)"

definition task_evolves :: "TaskState \<Rightarrow> TaskState \<Rightarrow> bool" where
  "task_evolves t u \<longleftrightarrow> ts_definition u = ts_definition t \<and>
     (ts_status t = TaskStatus.SAFE_HOLD \<longrightarrow> ts_status u = TaskStatus.SAFE_HOLD) \<and>
     (ts_blocked_pending_resolution t \<longrightarrow> ts_blocked_pending_resolution u) \<and>
     (ts_execution_authorized u \<longrightarrow> ts_execution_authorized t) \<and>
     (ts_completion_event_id t \<noteq> None \<longrightarrow> ts_completion_event_id u \<noteq> None) \<and>
     list_all2 stage_evolves (ts_stages t) (ts_stages u) \<and>
     set (ts_evidence t) \<subseteq> set (ts_evidence u) \<and>
     (\<exists>new. ts_observations u = ts_observations t @ new)"

definition assignment_evolves :: "AssignmentState \<Rightarrow> AssignmentState \<Rightarrow> bool" where
  "assignment_evolves a b \<longleftrightarrow> assignment_skeleton b = assignment_skeleton a \<and>
     set (as_released_worker_ids a) \<subseteq> set (as_released_worker_ids b)"

definition job_root_evolves :: "M2JobExecutionRoot \<Rightarrow> M2JobExecutionRoot \<Rightarrow> bool" where
  "job_root_evolves r q \<longleftrightarrow> jr_job_id q = jr_job_id r \<and>
     list_all2 task_evolves (jr_tasks r) (jr_tasks q) \<and>
     list_all2 assignment_evolves (jr_assignments r) (jr_assignments q) \<and>
     jr_job_execution_revision r \<le> jr_job_execution_revision q"

definition plan_status_evolves :: "PlanDayStatus \<Rightarrow> PlanDayStatus \<Rightarrow> bool" where
  "plan_status_evolves x y \<longleftrightarrow> y = x \<or> y = PlanDayStatus.CLOSED \<or>
     (x \<in> {PlanDayStatus.DRAFT, PlanDayStatus.ISSUED} \<and> y = PlanDayStatus.ACTIVE)"

definition plan_evolves :: "PlanDayRoot \<Rightarrow> PlanDayRoot \<Rightarrow> bool" where
  "plan_evolves p q \<longleftrightarrow> pd_plan_day_id q = pd_plan_day_id p \<and> pd_worker_id q = pd_worker_id p \<and>
     pd_business_date q = pd_business_date p \<and> pd_start_at q = pd_start_at p \<and>
     plan_status_evolves (pd_status p) (pd_status q) \<and>
     (pd_status q = PlanDayStatus.CLOSED \<and> pd_status p \<noteq> PlanDayStatus.CLOSED \<longrightarrow> pd_day_close_reported q) \<and>
     (pd_worker_available q \<longrightarrow> pd_worker_available p) \<and>
     (pd_day_close_reported p \<longrightarrow> pd_day_close_reported q) \<and>
     (pd_start_unknown_escalated p \<longrightarrow> pd_start_unknown_escalated q) \<and>
     (pd_confirmed_plan_reference p \<noteq> None \<longrightarrow> pd_confirmed_plan_reference q \<noteq> None) \<and>
     pd_plan_day_revision p \<le> pd_plan_day_revision q"

definition directive_evolves :: "DirectiveRoot \<Rightarrow> DirectiveRoot \<Rightarrow> bool" where
  "directive_evolves d c \<longleftrightarrow> dr_definition c = dr_definition d \<and>
     (dr_stop_in_force d \<longrightarrow> dr_stop_in_force c) \<and> (dr_e1_escalated d \<longrightarrow> dr_e1_escalated c) \<and>
     (dr_delivery_evidence c = dr_delivery_evidence d \<or> dr_delivery_evidence c = ACKED) \<and>
     (dr_acknowledged_event_id d \<noteq> None \<longrightarrow> dr_acknowledged_event_id c \<noteq> None) \<and>
     (dr_exception_event_id d \<noteq> None \<longrightarrow> dr_exception_event_id c \<noteq> None) \<and>
     dr_directive_revision d \<le> dr_directive_revision c"

definition scope_evolves :: "M2ReductionScope \<Rightarrow> M2ReductionScope \<Rightarrow> bool" where
  "scope_evolves s s' \<longleftrightarrow> sc_publications s' = sc_publications s \<and>
     sc_worker_registry s' = sc_worker_registry s \<and>
     list_all2 job_root_evolves (sc_job_execution_roots s) (sc_job_execution_roots s') \<and>
     list_all2 plan_evolves (sc_plan_day_roots s) (sc_plan_day_roots s') \<and>
     list_all2 directive_evolves (sc_directive_roots s) (sc_directive_roots s') \<and>
     set (lg_receipts (sc_processed_events s)) \<subseteq> set (lg_receipts (sc_processed_events s'))"

lemma stage_evolves_refl [simp]: "stage_evolves x x"
  by (simp add: stage_evolves_def)

lemma task_evolves_refl [simp]: "task_evolves t t"
  by (simp add: task_evolves_def list_all2_refl)

lemma assignment_evolves_refl [simp]: "assignment_evolves a a"
  by (simp add: assignment_evolves_def)

lemma job_root_evolves_refl [simp]: "job_root_evolves r r"
  by (simp add: job_root_evolves_def list_all2_refl)

lemma plan_evolves_refl [simp]: "plan_evolves p p"
  by (simp add: plan_evolves_def plan_status_evolves_def)

lemma directive_evolves_refl [simp]: "directive_evolves d d"
  by (simp add: directive_evolves_def)

lemma scope_evolves_refl [simp]: "scope_evolves s s"
  by (simp add: scope_evolves_def list_all2_refl)

lemma list_all2_transp:
  "(\<And>x y z. R x y \<Longrightarrow> R y z \<Longrightarrow> R x z) \<Longrightarrow> list_all2 R xs ys \<Longrightarrow> list_all2 R ys zs \<Longrightarrow> list_all2 R xs zs"
  by (rule list_all2_trans [of R R R]) blast+

lemma stage_evolves_trans: "stage_evolves x y \<Longrightarrow> stage_evolves y z \<Longrightarrow> stage_evolves x z"
  by (auto simp: stage_evolves_def)

lemma stages_evolve_trans:
  "list_all2 stage_evolves xs ys \<Longrightarrow> list_all2 stage_evolves ys zs \<Longrightarrow> list_all2 stage_evolves xs zs"
  by (rule list_all2_transp [OF stage_evolves_trans])

lemma task_evolves_trans:
  assumes "task_evolves x y" "task_evolves y z"
  shows "task_evolves x z"
proof -
  have "list_all2 stage_evolves (ts_stages x) (ts_stages z)"
    using assms stages_evolve_trans unfolding task_evolves_def by blast
  moreover have "\<exists>new. ts_observations z = ts_observations x @ new"
    using assms unfolding task_evolves_def by auto
  ultimately show ?thesis using assms unfolding task_evolves_def by (simp add: subset_trans) auto
qed

lemma assignment_evolves_trans: "assignment_evolves x y \<Longrightarrow> assignment_evolves y z \<Longrightarrow> assignment_evolves x z"
  by (auto simp: assignment_evolves_def)

lemma tasks_evolve_trans:
  "list_all2 task_evolves xs ys \<Longrightarrow> list_all2 task_evolves ys zs \<Longrightarrow> list_all2 task_evolves xs zs"
  by (rule list_all2_transp [OF task_evolves_trans])

lemma assignments_evolve_trans:
  "list_all2 assignment_evolves xs ys \<Longrightarrow> list_all2 assignment_evolves ys zs \<Longrightarrow> list_all2 assignment_evolves xs zs"
  by (rule list_all2_transp [OF assignment_evolves_trans])

lemma job_root_evolves_trans:
  assumes "job_root_evolves x y" "job_root_evolves y z"
  shows "job_root_evolves x z"
  using assms tasks_evolve_trans [of "jr_tasks x" "jr_tasks y" "jr_tasks z"]
    assignments_evolve_trans [of "jr_assignments x" "jr_assignments y" "jr_assignments z"]
  by (simp add: job_root_evolves_def)

lemma plan_status_evolves_trans:
  "plan_status_evolves x y \<Longrightarrow> plan_status_evolves y z \<Longrightarrow> plan_status_evolves x z"
  by (auto simp: plan_status_evolves_def)

lemma plan_evolves_trans:
  assumes "plan_evolves x y" "plan_evolves y z"
  shows "plan_evolves x z"
proof -
  have "plan_status_evolves (pd_status x) (pd_status z)"
    using assms plan_status_evolves_trans unfolding plan_evolves_def by blast
  then show ?thesis
    using assms unfolding plan_evolves_def by simp blast
qed

lemma directive_evolves_trans: "directive_evolves x y \<Longrightarrow> directive_evolves y z \<Longrightarrow> directive_evolves x z"
  by (auto simp: directive_evolves_def)

lemma roots_evolve_trans:
  "list_all2 job_root_evolves js ks \<Longrightarrow> list_all2 job_root_evolves ks ls \<Longrightarrow> list_all2 job_root_evolves js ls"
  "list_all2 plan_evolves ps qs \<Longrightarrow> list_all2 plan_evolves qs rs \<Longrightarrow> list_all2 plan_evolves ps rs"
  "list_all2 directive_evolves ds es \<Longrightarrow> list_all2 directive_evolves es fs \<Longrightarrow> list_all2 directive_evolves ds fs"
  by (rule list_all2_transp [OF job_root_evolves_trans] list_all2_transp [OF plan_evolves_trans]
      list_all2_transp [OF directive_evolves_trans]; assumption)+

lemma scope_evolves_trans:
  assumes "scope_evolves x y" and "scope_evolves y z"
  shows "scope_evolves x z"
  using assms roots_evolve_trans unfolding scope_evolves_def by (metis subset_trans)

section \<open>Replacements follow it\<close>

lemma put_task_evolves:
  assumes v: "scope_valid s" and t: "task s k = Some t" and r: "task_evolves t t'"
  shows "scope_evolves s (put_task t' s)"
proof -
  have "job_root_evolves q (q\<lparr>jr_tasks := put_by ts_task_id t' (jr_tasks q)\<rparr>)"
    if q: "q \<in> set (sc_job_execution_roots s)" for q
  proof -
    have "list_all2 task_evolves (jr_tasks q) (put_by ts_task_id t' (jr_tasks q))"
    proof (rule list_all2_put_by)
      fix x assume x: "x \<in> set (jr_tasks q)" "ts_task_id x = ts_task_id t'"
      have "x \<in> set (tasks s)" using q x by (auto simp: set_tasks)
      with x r task_Some_in [OF t] task_ids_unique [OF v] have "x = t"
        by (metis task_evolves_def)
      with r show "task_evolves x t'" by simp
    qed simp
    then show ?thesis by (simp add: job_root_evolves_def list_all2_refl)
  qed
  then show ?thesis by (auto simp: scope_evolves_def list_all2_refl list.rel_map intro!: list.rel_refl_strong)
qed

lemma put_assignment_evolves:
  assumes v: "scope_valid s" and t: "assignment s k = Some a" and r: "assignment_evolves a a'"
  shows "scope_evolves s (put_assignment a' s)"
proof -
  have "job_root_evolves q (q\<lparr>jr_assignments := put_by as_assignment_id a' (jr_assignments q)\<rparr>)"
    if q: "q \<in> set (sc_job_execution_roots s)" for q
  proof -
    have "list_all2 assignment_evolves (jr_assignments q) (put_by as_assignment_id a' (jr_assignments q))"
    proof (rule list_all2_put_by)
      fix x assume x: "x \<in> set (jr_assignments q)" "as_assignment_id x = as_assignment_id a'"
      have "x \<in> set (assignments s)" using q x by (auto simp: set_assignments)
      with x r assignment_Some_in [OF t] assignment_ids_unique [OF v] have "x = a"
        by (metis assignment_evolves_def assignment_skeletonD(1))
      with r show "assignment_evolves x a'" by simp
    qed simp
    then show ?thesis by (simp add: job_root_evolves_def list_all2_refl)
  qed
  then show ?thesis by (auto simp: scope_evolves_def list_all2_refl list.rel_map intro!: list.rel_refl_strong)
qed

lemma put_plan_day_evolves:
  assumes v: "scope_valid s" and p: "plan_day s k = Some p" and r: "plan_evolves p p'"
  shows "scope_evolves s (put_plan_day p' s)"
proof -
  have "list_all2 plan_evolves (sc_plan_day_roots s) (put_by pd_plan_day_id p' (sc_plan_day_roots s))"
  proof (rule list_all2_put_by)
    fix x assume x: "x \<in> set (sc_plan_day_roots s)" "pd_plan_day_id x = pd_plan_day_id p'"
    with r plan_day_Some_in [OF p] scope_validD(9) [OF v] have "x = p"
      by (auto simp: plan_evolves_def distinct_map dest: inj_onD)
    with r show "plan_evolves x p'" by simp
  qed simp
  then show ?thesis by (simp add: scope_evolves_def list_all2_refl)
qed

lemma put_directive_evolves:
  assumes v: "scope_valid s" and d: "directive s k = Some d" and r: "directive_evolves d d'"
  shows "scope_evolves s (put_directive d' s)"
proof -
  have "list_all2 directive_evolves (sc_directive_roots s) (put_by dr_directive_id d' (sc_directive_roots s))"
  proof (rule list_all2_put_by)
    fix x assume x: "x \<in> set (sc_directive_roots s)" "dr_directive_id x = dr_directive_id d'"
    with r directive_Some_in [OF d] scope_validD(10) [OF v] have "x = d"
      by (auto simp: directive_evolves_def distinct_map dest: inj_onD)
    with r show "directive_evolves x d'" by simp
  qed simp
  then show ?thesis by (simp add: scope_evolves_def list_all2_refl)
qed

section \<open>Permitted transitions follow it\<close>

text \<open>From a well formed scope to a well formed one with the same skeleton, forwards, ledger untouched.\<close>

definition sound_change :: "M2ReductionScope \<Rightarrow> M2ReductionScope \<Rightarrow> bool" where
  "sound_change s s' \<longleftrightarrow> scope_valid s' \<and> scope_skeleton s' = scope_skeleton s \<and> scope_evolves s s' \<and>
     sc_processed_events s' = sc_processed_events s"

lemma sound_change_refl: "scope_valid s \<Longrightarrow> sound_change s s"
  by (simp add: sound_change_def)

lemma sound_change_trans: "sound_change s s' \<Longrightarrow> sound_change s' s'' \<Longrightarrow> sound_change s s''"
  unfolding sound_change_def using scope_evolves_trans by metis

lemma sound_put_task:
  "scope_valid s \<Longrightarrow> task s k = Some t \<Longrightarrow> task_ok t' \<Longrightarrow> task_evolves t t' \<Longrightarrow> sound_change s (put_task t' s)"
  unfolding sound_change_def
  by (auto intro: put_task_valid put_task_skeleton put_task_evolves simp: task_evolves_def)

lemma sound_put_assignment:
  "scope_valid s \<Longrightarrow> assignment s k = Some a \<Longrightarrow> assignment_ok a' \<Longrightarrow> assignment_evolves a a' \<Longrightarrow>
   sound_change s (put_assignment a' s)"
  unfolding sound_change_def
  by (auto intro: put_assignment_valid put_assignment_skeleton put_assignment_evolves simp: assignment_evolves_def)

lemma sound_put_plan_day:
  assumes "scope_valid s" "plan_day s k = Some p" "plan_ok p'" "plan_evolves p p'"
  shows "sound_change s (put_plan_day p' s)"
proof -
  have "plan_key p' = plan_key p" using assms(4) by (simp add: plan_evolves_def plan_key_def)
  with assms show ?thesis unfolding sound_change_def
    by (auto intro: put_plan_day_valid put_plan_day_skeleton put_plan_day_evolves)
qed

lemma sound_put_directive:
  "scope_valid s \<Longrightarrow> directive s k = Some d \<Longrightarrow> directive_ok d' \<Longrightarrow> directive_evolves d d' \<Longrightarrow>
   sound_change s (put_directive d' s)"
  unfolding sound_change_def
  by (auto intro: put_directive_valid put_directive_skeleton put_directive_evolves simp: directive_evolves_def)

lemma stages_evolve_map:
  assumes "\<And>x. x \<in> set xs \<Longrightarrow> c x \<Longrightarrow> stage_evolves x (g x)"
  shows "list_all2 stage_evolves xs (map_stages c g xs)"
  using assms by (induction xs) (auto simp: map_stages_def)

lemma dispute_stages_evolve:
  "(\<And>x. x \<in> set (ts_stages t) \<Longrightarrow> fe_stage_id e = Some (sg_stage_id x) \<Longrightarrow> sg_status x \<noteq> StageStatus.SAFE_HOLD) \<Longrightarrow>
   list_all2 stage_evolves (ts_stages t) (dispute_stages e (ts_stages t))"
  unfolding dispute_stages_def by (rule stages_evolve_map) (auto simp: stage_evolves_def)

lemma no_hold_stage: "\<not> safe_hold_active t \<Longrightarrow> x \<in> set (ts_stages t) \<Longrightarrow> sg_status x \<noteq> StageStatus.SAFE_HOLD"
  by (auto simp: safe_hold_active_def)

lemma no_hold_status: "\<not> safe_hold_active t \<Longrightarrow> ts_status t \<noteq> TaskStatus.SAFE_HOLD"
  by (auto simp: safe_hold_active_def)

lemma status_evolves:
  "\<not> safe_hold_active t \<Longrightarrow> task_evolves t (t\<lparr>ts_status := st\<rparr>)"
  by (simp add: task_evolves_def no_hold_status list_all2_refl)

lemma observed_task_evolves:
  "task_ok t \<Longrightarrow> event_ok e \<Longrightarrow> task_evolves t (observed_task e t)"
  using merge_evidence_grows [of t "fe_attachments e"]
  by (simp add: task_evolves_def observed_task_def list_all2_refl event_okD)

lemma disputed_evolves:
  "\<not> safe_hold_active t \<Longrightarrow>
   task_evolves t (t\<lparr>ts_status := TaskStatus.DISPUTED, ts_stages := dispute_stages e (ts_stages t)\<rparr>)"
  using dispute_stages_evolve [of t e] by (auto simp: task_evolves_def no_hold_status no_hold_stage)

lemma problem_task_evolves:
  assumes "task_ok t" "event_ok e"
  shows "task_evolves t (problem_task policy e t)"
proof (cases "safe_hold_active t")
  case True
  then show ?thesis using observed_task_evolves [OF assms] by (simp add: problem_task_def)
next
  case False
  then have "\<not> safe_hold_active (observed_task e t)"
    using safe_hold_active_cong [of "observed_task e t" t] by simp
  then show ?thesis
    using False task_evolves_trans [OF observed_task_evolves [OF assms] status_evolves, of TaskStatus.BLOCKED]
      task_evolves_trans [OF observed_task_evolves [OF assms] disputed_evolves [of "observed_task e t" e]]
      observed_task_evolves [OF assms]
    by (simp add: problem_task_def)
qed

lemma merged_evidence_evolves:
  "task_ok t \<Longrightarrow> event_ok e \<Longrightarrow> task_evolves t (with_merged_evidence e t)"
  using merge_evidence_grows [of t "fe_attachments e"]
  by (simp add: task_evolves_def with_merged_evidence_def list_all2_refl event_okD)

lemma completed_evolves:
  assumes "task_ok t" "event_ok e" "\<not> safe_hold_active t"
  shows "task_evolves t (completed_task e t)" "task_evolves t (stage_completed_task e t)"
proof -
  note m = merged_evidence_evolves [OF assms(1,2)]
  show "task_evolves t (completed_task e t)"
    using m no_hold_status [OF assms(3)] by (simp add: task_evolves_def completed_task_def)
  have "list_all2 stage_evolves (ts_stages t) (ts_stages (stage_completed_task e t))"
    unfolding stage_completed_task_def using no_hold_stage [OF assms(3)]
    by (auto intro!: stages_evolve_map simp: stage_evolves_def)
  with m show "task_evolves t (stage_completed_task e t)"
    by (simp add: task_evolves_def stage_completed_task_def)
qed

lemma disputed_task_evolves: "task_evolves t (disputed_task e t)"
proof (cases "ts_status t = TaskStatus.SAFE_HOLD \<or> ts_blocked_pending_resolution t \<or>
    (\<exists>stage\<in>set (ts_stages t). sg_status stage = StageStatus.SAFE_HOLD \<and>
       (fe_stage_id e = None \<or> Some (sg_stage_id stage) = fe_stage_id e))")
  case True
  then show ?thesis unfolding disputed_task_def by (simp only: if_True task_evolves_refl)
next
  case False
  then have "list_all2 stage_evolves (ts_stages t) (dispute_stages e (ts_stages t))"
    by (intro dispute_stages_evolve) auto
  with False show ?thesis
    unfolding disputed_task_def by (simp only: if_False) (simp add: task_evolves_def list_all2_refl)
qed

lemma held_task_evolves: "task_evolves t (held_task d t)"
  by (simp add: task_evolves_def held_task_def list_all2_refl)

text \<open>The observations a permitted transition leaves in the tasks.\<close>

lemma observations_within_put_task:
  "observations_within ids s \<Longrightarrow> fo_event_id ` set (ts_observations t') \<subseteq> ids \<Longrightarrow> observations_within ids (put_task t' s)"
  by (auto simp: observations_within_def dest!: set_put_by)

lemma observations_within_mono: "observations_within ids s \<Longrightarrow> ids \<subseteq> ids' \<Longrightarrow> observations_within ids' s"
  by (auto simp: observations_within_def)

lemma observations_within_same [simp]:
  "observations_within ids (put_assignment a s) = observations_within ids s"
  "observations_within ids (put_plan_day p s) = observations_within ids s"
  "observations_within ids (put_directive d s) = observations_within ids s"
  by (simp_all add: observations_within_def)

lemma event_taskE:
  assumes "event_task s e t"
  obtains k where "fe_task_id e = Some k" "task s k = Some t"
  using assms by (auto simp: event_task_def)

lemma event_planE:
  assumes "event_plan s e p"
  obtains k where "fe_plan_day_id e = Some k" "plan_day s k = Some p"
  using assms by (auto simp: event_plan_def)

lemma event_assignmentE:
  assumes "event_assignment s e a"
  obtains k where "fe_assignment_id e = Some k" "assignment s k = Some a"
  using assms by (auto simp: event_assignment_def)

lemma event_directiveE:
  assumes "event_directive s e d"
  obtains k where "fe_directive_id e = Some k" "directive s k = Some d"
  using assms by (auto simp: event_directive_def)

lemma sound_task_change:
  "scope_valid s \<Longrightarrow> event_task s e t \<Longrightarrow> task_ok t' \<Longrightarrow> task_evolves t t' \<Longrightarrow> sound_change s (put_task t' s)"
  by (erule event_taskE) (rule sound_put_task)

lemma event_task_ok: "scope_valid s \<Longrightarrow> event_task s e t \<Longrightarrow> task_ok t"
  by (erule event_taskE) (rule task_found(1))

lemma completion_open_no_hold: "completion_open s e t \<Longrightarrow> \<not> safe_hold_active t"
  by (simp add: completion_open_def)

theorem permitted_sound:
  assumes v: "scope_valid s" and e: "event_ok e" and p: "permitted policy s e outcome s'"
    and n: "\<forall>t\<in>set (tasks s). fe_event_id e \<notin> fo_event_id ` set (ts_observations t)"
  shows "sound_change s s'"
  using p
proof (cases rule: permitted.cases)
  case (activated p)
  then obtain k where k: "plan_day s k = Some p" using event_planE by blast
  have "plan_ok (p\<lparr>pd_status := PlanDayStatus.ACTIVE\<rparr>)"
    by (rule plan_ok_edit(1) [OF plan_dayE [OF v k]]) (use activated(5) in auto)
  then show ?thesis unfolding activated(2)
    using activated(5) by (intro sound_put_plan_day [OF v k])
      (auto simp: plan_evolves_def plan_status_evolves_def)
next
  case (unavailable p)
  then obtain k where k: "plan_day s k = Some p" using event_planE by blast
  show ?thesis unfolding unavailable(2)
    by (rule sound_put_plan_day [OF v k]) (use plan_dayE [OF v k] in
      \<open>auto simp: plan_evolves_def plan_status_evolves_def intro!: plan_ok_edit(2)\<close>)
next
  case (close_reported p)
  then obtain k where k: "plan_day s k = Some p" using event_planE by blast
  show ?thesis unfolding close_reported(2)
    by (rule sound_put_plan_day [OF v k]) (use plan_dayE [OF v k] in
      \<open>auto simp: plan_evolves_def plan_status_evolves_def intro!: plan_ok_edit(3)\<close>)
next
  case resource_missing
  then show ?thesis by (simp add: sound_change_refl v)
next
  case (work_held t)
  show ?thesis unfolding work_held(2)
    by (rule sound_task_change [OF v work_held(4)])
      (use event_task_ok [OF v work_held(4)] status_evolves in auto)
next
  case (problem t)
  obtain k where k: "task s k = Some t" using problem event_taskE by blast
  then have "fe_event_id e \<notin> fo_event_id ` set (ts_observations t)" using n task_Some_in by blast
  with sound_task_change [OF v problem(4) problem_task_ok problem_task_evolves] event_task_ok [OF v problem(4)] e
  show ?thesis unfolding problem(2) by blast
next
  case (evidence_recorded t a)
  with sound_task_change [OF v evidence_recorded(4) with_merged_evidence_ok merged_evidence_evolves]
    event_task_ok [OF v evidence_recorded(4)] e
  show ?thesis by blast
next
  case (task_completed t a)
  with sound_task_change [OF v task_completed(4) completed_task_ok completed_evolves(1)]
    event_task_ok [OF v task_completed(4)] e completion_open_no_hold
  show ?thesis by blast
next
  case (stage_completed t a stage)
  with sound_task_change [OF v stage_completed(4) stage_completed_task_ok completed_evolves(2)]
    event_task_ok [OF v stage_completed(4)] e completion_open_no_hold
  show ?thesis by blast
next
  case (unsafe_conflict t)
  with sound_task_change [OF v unsafe_conflict(4) task_ok_disputed disputed_evolves]
    event_task_ok [OF v unsafe_conflict(4)]
  show ?thesis by blast
next
  case (waiting t a)
  obtain j where j: "assignment s j = Some a" using waiting event_assignmentE by blast
  let ?t = "t\<lparr>ts_status := TaskStatus.WAITING\<rparr>"
  let ?a = "a\<lparr>as_released_worker_ids := sorted_set (as_released_worker_ids a @ [fe_actor_id e])\<rparr>"
  have one: "sound_change s (put_task ?t s)"
    by (rule sound_task_change [OF v waiting(4)])
      (use event_task_ok [OF v waiting(4)] status_evolves [OF waiting(6)] in auto)
  have "assignment_ok ?a"
    using assignmentE [OF v j] event_okD(3,4) [OF e] assignment_ok_released by blast
  then have "sound_change (put_task ?t s) (put_assignment ?a (put_task ?t s))"
    using one by (intro sound_put_assignment [of _ j a])
      (auto simp: sound_change_def assignment_evolves_def assignment_skeleton_def j)
  with one show ?thesis unfolding waiting(2) by (rule sound_change_trans)
next
  case (disputed t k)
  with sound_task_change [OF v disputed(4) disputed_task_ok disputed_task_evolves]
    event_task_ok [OF v disputed(4)]
  show ?thesis by blast
next
  case (acknowledged d)
  then obtain k where k: "directive s k = Some d" using event_directiveE by blast
  show ?thesis unfolding acknowledged(2)
    by (rule sound_put_directive [OF v k]) (use directiveE [OF v k] directive_ok_edit(1) [OF _ e] in
      \<open>auto simp: directive_evolves_def acked_def\<close>)
next
  case (plan_confirmed d p)
  obtain k where k: "directive s k = Some d" using plan_confirmed event_directiveE by blast
  obtain j where j: "plan_day s j = Some p" using plan_confirmed by (auto simp: bind_eq_Some_conv)
  obtain x where x: "dr_proposed_plan_reference d = Some x"
    using plan_confirmed by (auto simp: plan_reference_due_def)
  have okd: "directive_ok d" using directiveE [OF v k] .
  let ?p = "p\<lparr>pd_confirmed_plan_reference := dr_proposed_plan_reference d\<rparr>"
  have one: "sound_change s (put_directive (acked e d) s)"
    by (rule sound_put_directive [OF v k]) (use okd directive_ok_edit(1) [OF _ e] in
      \<open>auto simp: directive_evolves_def acked_def\<close>)
  have "plan_ok ?p"
    using plan_ok_edit(5) [of p x] plan_dayE [OF v j] directive_ok_class(3) [OF okd x] x by auto
  then have "sound_change (put_directive (acked e d) s) (put_plan_day ?p (put_directive (acked e d) s))"
    using one x by (intro sound_put_plan_day [of _ j p])
      (auto simp: sound_change_def plan_evolves_def plan_status_evolves_def j)
  with one show ?thesis unfolding plan_confirmed(2) by (rule sound_change_trans)
next
  case (excepted d)
  then obtain k where k: "directive s k = Some d" using event_directiveE by blast
  show ?thesis unfolding excepted(2)
    by (rule sound_put_directive [OF v k]) (use directiveE [OF v k] directive_ok_edit(2) [OF _ e] in
      \<open>auto simp: directive_evolves_def\<close>)
next
  case (stop_excepted d k t)
  obtain j where j: "directive s j = Some d" using stop_excepted event_directiveE by blast
  let ?d = "d\<lparr>dr_exception_event_id := Some (fe_event_id e), dr_stop_in_force := True\<rparr>"
  have "directive_ok d" using directiveE [OF v j] .
  then have "directive_ok ?d" using directive_ok_edit(2) [of d e] directive_ok_edit(3) e by fastforce
  then have one: "sound_change s (put_directive ?d s)"
    by (intro sound_put_directive [OF v j]) (auto simp: directive_evolves_def)
  have "sound_change (put_directive ?d s) (put_task (held_task d t) (put_directive ?d s))"
    using one stop_excepted by (intro sound_put_task [of _ k t])
      (auto simp: sound_change_def held_task_evolves held_task_ok task_found(1) [OF v])
  with one show ?thesis unfolding stop_excepted(2) by (rule sound_change_trans)
qed (simp_all add: sound_change_refl v)

lemma observed_ids:
  "observations_within ids s \<Longrightarrow> event_task s e t \<Longrightarrow> fo_event_id ` set (ts_observations t) \<subseteq> ids"
  by (erule event_taskE) (auto simp: observations_within_def dest: task_Some_in)

lemma kept_observations [simp]:
  "ts_observations (completed_task e t) = ts_observations t"
  "ts_observations (stage_completed_task e t) = ts_observations t"
  "ts_observations (disputed_task e t) = ts_observations t"
  "ts_observations (held_task d t) = ts_observations t"
  "ts_observations (if c then t else t\<lparr>ts_status := st\<rparr>) = ts_observations t"
  by (simp_all add: completed_task_def stage_completed_task_def disputed_task_def held_task_def)

lemma problem_observations:
  "set (ts_observations (problem_task policy e t)) = set (ts_observations (observed_task e t))"
  by (simp add: problem_task_def)

lemma permitted_observations:
  assumes p: "permitted policy s e outcome s'" and o: "observations_within ids s"
  shows "observations_within (insert (fe_event_id e) ids) s'"
proof -
  have w: "observations_within (insert (fe_event_id e) ids) s"
    using o by (rule observations_within_mono) blast
  have put: "observations_within (insert (fe_event_id e) ids) (put_task t' s)"
    if "event_task s e t" "fo_event_id ` set (ts_observations t') \<subseteq> insert (fe_event_id e) (fo_event_id ` set (ts_observations t))"
    for t t'
    by (rule observations_within_put_task [OF w]) (use observed_ids [OF o that(1)] that(2) in blast)
  from p show ?thesis
  proof (cases rule: permitted.cases)
    case (problem t)
    show ?thesis unfolding problem(2)
      by (rule put [OF problem(4)]) (auto simp: problem_observations observed_task_def)
  next
    case (waiting t a)
    have "observations_within (insert (fe_event_id e) ids) (put_task (t\<lparr>ts_status := TaskStatus.WAITING\<rparr>) s)"
      by (rule put [OF waiting(4)]) auto
    then show ?thesis unfolding waiting(2) by simp
  next
    case (stop_excepted d k t)
    let ?d = "d\<lparr>dr_exception_event_id := Some (fe_event_id e), dr_stop_in_force := True\<rparr>"
    have "fo_event_id ` set (ts_observations t) \<subseteq> ids"
      using o task_Some_in [OF stop_excepted(7)] by (auto simp: observations_within_def)
    then have "observations_within (insert (fe_event_id e) ids) (put_task (held_task d t) (put_directive ?d s))"
      by (intro observations_within_put_task) (auto simp: w)
    then show ?thesis unfolding stop_excepted(2) .
  qed (auto intro: put w)
qed

section \<open>System signals\<close>

inductive signal_permitted ::
    "PolicyTimeContext \<Rightarrow> M2ReductionScope \<Rightarrow> SystemSignal \<Rightarrow> ReductionOutcome \<Rightarrow> M2ReductionScope \<Rightarrow> bool"
  for c s sig where
  signal_unchanged: "outcome \<noteq> APPLIED \<or> sy_signal_type sig = EARLY_FINISH_EVALUATED \<Longrightarrow> signal_permitted c s sig outcome s"
| start_unknown:
    "\<lbrakk>sy_signal_type sig = START_WINDOW_ELAPSED; sy_plan_day_id sig = Some k; plan_day s k = Some p;
      po_start_unknown_escalation_enabled (cx_policy c); instant (pd_start_at p) \<le> instant (cx_now c);
      pd_status p \<in> {PlanDayStatus.DRAFT, PlanDayStatus.ISSUED}; \<not> pd_start_unknown_escalated p\<rbrakk>
     \<Longrightarrow> signal_permitted c s sig APPLIED (put_plan_day (p\<lparr>pd_start_unknown_escalated := True\<rparr>) s)"
| acknowledgement_overdue:
    "\<lbrakk>sy_signal_type sig = DIRECTIVE_E1_ELAPSED; sy_directive_id sig = Some k; directive s k = Some d;
      dr_directive_class d \<in> {ACTION, STOP}; \<not> directive_worker_informed s k; \<not> dr_e1_escalated d;
      dr_escalation_due_at d = Some due; instant due \<le> instant (cx_now c)\<rbrakk>
     \<Longrightarrow> signal_permitted c s sig APPLIED (put_directive (d\<lparr>dr_e1_escalated := True\<rparr>) s)"
| day_closed:
    "\<lbrakk>sy_signal_type sig = END_OF_DAY_POLICY_SATISFIED; sy_plan_day_id sig = Some k; plan_day s k = Some p;
      pd_day_close_reported p; sy_policy_result sig = Some (po_end_of_day_action (cx_policy c));
      pd_status p \<noteq> PlanDayStatus.CLOSED\<rbrakk>
     \<Longrightarrow> signal_permitted c s sig APPLIED
           (put_plan_day (p\<lparr>pd_status := PlanDayStatus.CLOSED, pd_worker_available := False\<rparr>) s)"

declare signal_unchanged [simp]

lemma signal_plan_dayE:
  assumes "signal_plan_day s sig = Some p"
  obtains k where "sy_plan_day_id sig = Some k" "plan_day s k = Some p"
  using assms by (auto simp: signal_plan_day_def bind_eq_Some_conv split: if_splits)

lemma signal_directiveE:
  assumes "signal_directive s sig = Some d"
  obtains k where "sy_directive_id sig = Some k" "directive s k = Some d"
  using assms by (auto simp: signal_directive_def bind_eq_Some_conv split: if_splits)

text \<open>A signal's reduction returns, and what it returns is permitted; it never touches the ledger.\<close>

definition signal_implements ::
    "PolicyTimeContext \<Rightarrow> M2ReductionScope \<Rightarrow> SystemSignal \<Rightarrow> Reduction result \<Rightarrow> bool" where
  "signal_implements c s sig m \<longleftrightarrow> returns m (\<lambda>re.
     signal_permitted c s sig (re_outcome re) (re_state re) \<and> re_appended_receipt re = None \<and>
     (re_outcome re \<noteq> APPLIED \<longrightarrow> re_state re = s \<and> re_emitted_effects re = []))"

lemma reduction_sel [simp]:
  "re_state (Reduction_default s o') = s" "re_outcome (Reduction_default s o') = o'"
  "re_appended_receipt (Reduction_default s o') = None" "re_emitted_effects (Reduction_default s o') = []"
  "re_state (system_applied s fx) = s" "re_outcome (system_applied s fx) = APPLIED"
  "re_appended_receipt (system_applied s fx) = None"
  "re_state (system_rejection s r) = s" "re_outcome (system_rejection s r) = REJECTED"
  "re_appended_receipt (system_rejection s r) = None" "re_emitted_effects (system_rejection s r) = []"
  "re_state (system_rejection_reasons s rs) = s" "re_outcome (system_rejection_reasons s rs) = REJECTED"
  "re_appended_receipt (system_rejection_reasons s rs) = None"
  "re_emitted_effects (system_rejection_reasons s rs) = []"
  by (simp_all add: Reduction_default_def system_applied_def system_rejection_def system_rejection_reasons_def)

lemma signal_effect_returns:
  "SystemSignal_init sig = Inr sig \<Longrightarrow> distinct (map fst ds) \<Longrightarrow>
   \<exists>x. signal_effect sig ty p t a d ds = Inr x"
  by (cases sig) (auto simp: signal_effect_def SystemEffect_init_def SystemSignal_init_def nonblank_def split: if_splits)

lemma signal_implements_chain:
  "signal_implements c s sig m1 \<Longrightarrow> signal_implements c s sig m2 \<Longrightarrow> signal_implements c s sig m3 \<Longrightarrow>
   (\<not> (c1 \<or> c2 \<or> c3) \<Longrightarrow> signal_implements c s sig m4) \<Longrightarrow>
   signal_implements c s sig (if c1 then m1 else if c2 then m2 else if c3 then m3 else m4)"
  by simp

lemma signal_implements_signal:
  assumes v: "scope_valid s" and i: "SystemSignal_init sig = Inr sig"
  shows "signal_implements c s sig (reduce_system_signal s sig c)"
proof (cases "sy_signal_type sig")
  case START_WINDOW_ELAPSED
  show ?thesis
  proof (cases "signal_plan_day s sig")
    case None
    then show ?thesis
      by (simp add: signal_implements_def reduce_system_signal_def START_WINDOW_ELAPSED start_window_elapsed_def)
  next
    case (Some p)
    then obtain k where k: "sy_plan_day_id sig = Some k" "plan_day s k = Some p" by (rule signal_plan_dayE)
    let ?p = "p\<lparr>pd_start_unknown_escalated := True\<rparr>"
    have ok: "plan_ok ?p" using plan_dayE [OF v k(2)] plan_ok_edit(4) by blast
    have w: "with_plan_day s ?p = Inr (put_plan_day ?p s)"
      by (rule with_plan_day_eq [OF v k(2)]) (simp_all add: ok plan_key_def)
    obtain x where x: "signal_effect sig START_UNKNOWN_ESCALATED None None None None [] = Inr x"
      using signal_effect_returns [OF i] by fastforce
    show ?thesis
      using start_unknown [OF START_WINDOW_ELAPSED k, of c]
      by (cases "pd_status p") (simp_all add: signal_implements_def reduce_system_signal_def START_WINDOW_ELAPSED
          start_window_elapsed_def Some w x plan_ok_init [OF ok])
  qed
next
  case DIRECTIVE_E1_ELAPSED
  show ?thesis
  proof (cases "signal_directive s sig")
    case None
    then show ?thesis
      by (simp add: signal_implements_def reduce_system_signal_def DIRECTIVE_E1_ELAPSED directive_e1_elapsed_def)
  next
    case (Some d)
    then obtain k where k: "sy_directive_id sig = Some k" "directive s k = Some d" by (rule signal_directiveE)
    have id: "dr_directive_id d = k" "directive_ok d" using directiveE [OF v k(2)] by blast+
    let ?d = "d\<lparr>dr_e1_escalated := True\<rparr>"
    have ok: "directive_ok ?d" using id directive_ok_edit(4) by blast
    have w: "with_directive s ?d = Inr (put_directive ?d s)"
      by (rule with_directive_eq [OF v k(2)]) (simp_all add: ok)
    have x: "\<exists>x. signal_effect sig ty a b f g [] = Inr x" for ty a b f g
      using signal_effect_returns [OF i] by fastforce
    let ?eff = "signal_effect sig (if dr_directive_class d = ACTION then ACK_MISSING_ESCALATED else STOP_UNCONFIRMED)
      (dr_plan_day_id d) (dr_task_id d) (dr_assignment_id d) (Some (dr_directive_id d)) []"
    obtain y where y: "?eff = Inr y" using x by blast
    let ?errors = "directive_scope_errors s d @
        report (sy_plan_day_id sig \<noteq> None \<and> sy_plan_day_id sig \<noteq> dr_plan_day_id d) ''CROSS_PLAN_DAY_SYSTEM_SIGNAL'' @
        report (sy_task_id sig \<noteq> None \<and> sy_task_id sig \<noteq> dr_task_id d) ''CROSS_TASK_SYSTEM_SIGNAL''"
    let ?idle = "directive_worker_informed s (dr_directive_id d) \<or> dr_e1_escalated d \<or>
        (case dr_escalation_due_at d of None \<Rightarrow> True | Some due \<Rightarrow> instant (cx_now c) < instant due)"
    let ?info = "dr_directive_class d \<noteq> ACTION \<and> dr_directive_class d \<noteq> STOP"
    have eq: "reduce_system_signal s sig c =
      (if ?errors \<noteq> [] then Inr (system_rejection_reasons s (sorted_set ?errors))
       else if ?idle then Inr (Reduction_default s NOOP)
       else if ?info then Inr (Reduction_default s NOOP)
       else Inr (system_applied (put_directive ?d s) [y]))"
      unfolding reduce_system_signal_def DIRECTIVE_E1_ELAPSED reduce_signal_of_type.simps directive_e1_elapsed_def
      by (simp only: Some option.case Let_def directive_ok_init [OF ok] and_then.simps w y)
    show ?thesis
      unfolding eq
    proof (rule signal_implements_chain)
      assume open_directive: "\<not> (?errors \<noteq> [] \<or> ?idle \<or> ?info)"
      then obtain due where "dr_escalation_due_at d = Some due" "instant due \<le> instant (cx_now c)"
        by (cases "dr_escalation_due_at d") auto
      then have "signal_permitted c s sig APPLIED (put_directive ?d s)"
        using open_directive id(1) by (intro acknowledgement_overdue [OF DIRECTIVE_E1_ELAPSED k]) auto
      then show "signal_implements c s sig (Inr (system_applied (put_directive ?d s) [y]))"
        by (simp add: signal_implements_def)
    qed (simp_all add: signal_implements_def)
  qed
next
  case EARLY_FINISH_EVALUATED
  have x: "\<exists>x. signal_effect sig EARLY_FINISH_SOFT_OPTIONS (Some p) None None None [(''options'', os)] = Inr x" for p os
    by (rule signal_effect_returns [OF i]) simp
  show ?thesis
  proof (cases "signal_plan_day s sig")
    case (Some p)
    obtain y where "signal_effect sig EARLY_FINISH_SOFT_OPTIONS (Some (pd_plan_day_id p)) None None None
        [(''options'', join '','' (map EndOfDayAction_value (po_early_finish_options (cx_policy c))))] = Inr y"
      using x by blast
    with Some show ?thesis
      by (simp add: signal_implements_def reduce_system_signal_def EARLY_FINISH_EVALUATED
          early_finish_evaluated_def Let_def)
  qed (simp add: signal_implements_def reduce_system_signal_def EARLY_FINISH_EVALUATED early_finish_evaluated_def)
next
  case END_OF_DAY_POLICY_SATISFIED
  show ?thesis
  proof (cases "signal_plan_day s sig")
    case None
    then show ?thesis
      by (simp add: signal_implements_def reduce_system_signal_def END_OF_DAY_POLICY_SATISFIED
          end_of_day_policy_satisfied_def)
  next
    case (Some p)
    then obtain k where k: "sy_plan_day_id sig = Some k" "plan_day s k = Some p" by (rule signal_plan_dayE)
    let ?p = "p\<lparr>pd_status := PlanDayStatus.CLOSED, pd_worker_available := False\<rparr>"
    have ok: "plan_ok ?p" using plan_dayE [OF v k(2)] plan_ok_edit(6) by blast
    have w: "with_plan_day s ?p = Inr (put_plan_day ?p s)"
      by (rule with_plan_day_eq [OF v k(2)]) (simp_all add: ok plan_key_def)
    have "\<exists>x. signal_effect sig DAY_CLOSED (Some (pd_plan_day_id p)) None None None
        [(''policy_result'', EndOfDayAction_value (po_end_of_day_action (cx_policy c)))] = Inr x"
      by (rule signal_effect_returns [OF i]) simp
    then obtain x where x: "signal_effect sig DAY_CLOSED (Some (pd_plan_day_id p)) None None None
        [(''policy_result'', EndOfDayAction_value (po_end_of_day_action (cx_policy c)))] = Inr x" by blast
    show ?thesis
      using day_closed [OF END_OF_DAY_POLICY_SATISFIED k, of c]
      by (auto simp: signal_implements_def reduce_system_signal_def END_OF_DAY_POLICY_SATISFIED
          end_of_day_policy_satisfied_def Some w x plan_ok_init [OF ok])
  qed
qed (simp_all add: signal_implements_def reduce_system_signal_def)

end
