(* ===== verification/Field_Finalization.thy ===== *)
theory Field_Finalization
  imports Field_Evolution
begin

text \<open>
  \<open>_finalize_reduction\<close>: comparing the scope before and after a handler root by root. The three
  groups of roots share one contract, the locale \<open>revisioned_root\<close>, interpreted on job execution
  roots, plan days and directives: finalisation returns, leaves an unchanged root alone, and gives
  a changed one exactly its next revision, with one delta that says so.
\<close>

section \<open>What finalisation makes of one root\<close>

definition finalized_value :: "('a \<Rightarrow> int) \<Rightarrow> (int \<Rightarrow> 'a \<Rightarrow> 'a) \<Rightarrow> 'a \<Rightarrow> 'a \<Rightarrow> 'a" where
  "finalized_value revision set_revision previous candidate =
     (if set_revision (revision previous) candidate = previous then previous
      else set_revision (revision previous + 1) candidate)"

definition root_delta ::
    "RootKind \<Rightarrow> ('a \<Rightarrow> string) \<Rightarrow> ('a \<Rightarrow> int) \<Rightarrow> (int \<Rightarrow> 'a \<Rightarrow> 'a) \<Rightarrow> ('a \<Rightarrow> RootState) \<Rightarrow> 'a \<Rightarrow> 'a \<Rightarrow> RootDelta option" where
  "root_delta kind ident revision set_revision wrap previous candidate =
     (if set_revision (revision previous) candidate = previous then None
      else Some \<lparr>rd_root_kind = kind, rd_root_id = ident previous, rd_expected_revision = revision previous,
        rd_resulting_revision = revision previous + 1,
        rd_next_root = wrap (set_revision (revision previous + 1) candidate)\<rparr>)"

text \<open>The identity, revision and constructor check of a kind of root, and the laws finalisation needs.\<close>

locale revisioned_root =
  fixes kind :: RootKind
    and ident :: "'a \<Rightarrow> string"
    and revision :: "'a \<Rightarrow> int"
    and set_revision :: "int \<Rightarrow> 'a \<Rightarrow> 'a"
    and init :: "'a \<Rightarrow> 'a result"
    and wrap :: "'a \<Rightarrow> RootState"
    and ok :: "'a \<Rightarrow> bool"
  assumes ident_set [simp]: "ident (set_revision n x) = ident x"
    and revision_set [simp]: "revision (set_revision n x) = n"
    and set_revision_id [simp]: "set_revision (revision x) x = x"
    and ok_set: "ok x \<Longrightarrow> 0 \<le> n \<Longrightarrow> ok (set_revision n x)"
    and ok_init: "ok x \<Longrightarrow> init x = Inr x"
    and ok_revision: "ok x \<Longrightarrow> 0 \<le> revision x"
    and ok_ident: "ok x \<Longrightarrow> strip (ident x) = ident x \<and> ident x \<noteq> []"
    and wrap_root: "root_identity_revision kind (wrap x) = Some (ident x, revision x)"
begin

lemma finalize_root_eq:
  assumes "ok p" "ok c" "ident c = ident p"
  shows "finalize_root kind revision set_revision init wrap (ident p) p c =
    Inr (finalized_value revision set_revision p c, root_delta kind ident revision set_revision wrap p c)"
proof -
  have o: "ok (set_revision (revision p) c)" "ok (set_revision (revision p + 1) c)"
    using ok_set [OF assms(2)] ok_revision [OF assms(1)] by simp_all
  show ?thesis
    using ok_init [OF o(1)] ok_init [OF o(2)] ok_ident [OF assms(1)] ok_revision [OF assms(1)] assms(3)
    by (simp add: finalize_root_def finalized_value_def root_delta_def RootDelta_init_def nonblank_ok wrap_root Let_def)
qed

lemma finalized_ok:
  assumes "ok p" "ok c"
  shows "ok (finalized_value revision set_revision p c)"
  using assms ok_set [OF assms(2), of "revision p + 1"] ok_revision [OF assms(1)]
  by (simp add: finalized_value_def)

lemma finalized_ident: "ident c = ident p \<Longrightarrow> ident (finalized_value revision set_revision p c) = ident p"
  by (simp add: finalized_value_def)

text \<open>A root that the handler left alone keeps its value, any other gets the next revision.\<close>

lemma finalized_same: "finalized_value revision set_revision p p = p"
  by (simp add: finalized_value_def)

lemma finalized_changed:
  "revision c = revision p \<Longrightarrow> c \<noteq> p \<Longrightarrow> finalized_value revision set_revision p c = set_revision (revision p + 1) c"
  by (auto simp: finalized_value_def dest: sym)

lemma finalized_revision:
  assumes "revision c = revision p"
  shows "revision (finalized_value revision set_revision p c) = revision p + (if c = p then 0 else 1)"
  using finalized_same finalized_changed [OF assms] by simp

lemma finalize_root_group_eq:
  assumes ids: "map ident cs = map ident ps" and d: "distinct (map ident ps)" and s: "sorted (map ident ps)"
    and okp: "\<forall>p\<in>set ps. ok p" and okc: "\<forall>c\<in>set cs. ok c"
  shows "finalize_root_group kind ident revision set_revision init wrap ps cs =
    Inr (map2 (finalized_value revision set_revision) ps cs,
         List.map_filter (\<lambda>x. x) (map2 (root_delta kind ident revision set_revision wrap) ps cs))"
proof -
  have len: "length cs = length ps" using ids by (metis length_map)
  have at: "ident (cs ! i) = ident (ps ! i)" if "i < length ps" for i
    using ids that len by (metis nth_map)
  let ?r = "map2 (\<lambda>p c. (finalized_value revision set_revision p c,
    root_delta kind ident revision set_revision wrap p c)) ps cs"
  have dict: "dict_by ident ps (ident (ps ! i)) = Some (ps ! i)" "dict_by ident cs (ident (ps ! i)) = Some (cs ! i)"
    if i: "i < length ps" for i
  proof -
    have "dict_by ident xs (ident (xs ! i)) = Some (xs ! i)" if "distinct (map ident xs)" "i < length xs" for xs
      using dict_by_distinct [OF that(1)] lookup_by_distinct [OF that(1) nth_mem [OF that(2)]] by simp
    from this [OF d i] this [of cs] d ids at [OF i] i len
    show "dict_by ident ps (ident (ps ! i)) = Some (ps ! i)" "dict_by ident cs (ident (ps ! i)) = Some (cs ! i)"
      by simp_all
  qed
  have "traverse (\<lambda>root_id. case (dict_by ident ps root_id, dict_by ident cs root_id) of
            (Some previous, Some candidate) \<Rightarrow>
              finalize_root kind revision set_revision init wrap root_id previous candidate
          | _ \<Rightarrow> Inl KeyError) (map ident ps) = Inr ?r"
    unfolding traverse_Inr_iff list_all2_conv_all_nth
    using dict at len okp okc finalize_root_eq by simp
  moreover have "map fst ?r = map2 (finalized_value revision set_revision) ps cs"
    by (simp add: comp_def case_prod_beta)
  moreover have "List.map_filter snd ?r =
      List.map_filter (\<lambda>x. x) (map2 (root_delta kind ident revision set_revision wrap) ps cs)"
    by (simp add: map_filter_def filter_map comp_def case_prod_beta)
  ultimately show ?thesis
    using ids s d by (simp add: finalize_root_group_def sorted_set_id)
qed

lemma delta_wellformed:
  assumes "root_delta kind ident revision set_revision wrap p c = Some d" "ok p" "ident c = ident p"
  shows "rd_root_kind d = kind" "rd_root_id d = ident p" "rd_expected_revision d = revision p"
    "rd_resulting_revision d = revision p + 1" "rd_next_root d = wrap (finalized_value revision set_revision p c)"
    "RootDelta_init d = Inr d"
  using assms ok_ident [OF assms(2)] ok_revision [OF assms(2)]
  by (auto simp: root_delta_def finalized_value_def RootDelta_init_def nonblank_ok wrap_root split: if_splits)

end

section \<open>The three kinds of root\<close>

interpretation job: revisioned_root JOB_EXECUTION jr_job_id jr_job_execution_revision set_job_revision
  M2JobExecutionRoot_init JobRoot root_ok
proof unfold_locales
  fix n :: int and x :: M2JobExecutionRoot
  have sk: "root_skeleton (set_job_revision n x) = root_skeleton x"
    by (simp add: root_skeleton_def set_job_revision_def)
  show "root_ok (set_job_revision n x)" if "root_ok x" "0 \<le> n"
    using that root_checks_skeleton [OF sk]
    by (simp add: root_ok_def M2JobExecutionRoot_init_ok) (simp add: set_job_revision_def)
qed (auto simp: set_job_revision_def root_ok_def M2JobExecutionRoot_init_ok root_checks_def)

interpretation plan: revisioned_root PLAN_DAY pd_plan_day_id pd_plan_day_revision set_plan_revision
  PlanDayRoot_init PlanRoot plan_ok
  by unfold_locales (auto simp: set_plan_revision_def plan_ok_def PlanDayRoot_init_ok split: option.splits)

interpretation dir: revisioned_root DIRECTIVE "\<lambda>d. dr_directive_id d" dr_directive_revision set_directive_revision
  DirectiveRoot_init DirRoot directive_ok
  by unfold_locales
    (auto simp: set_directive_revision_def directive_ok_class directive_ok_init, 
     auto simp: directive_ok_def DirectiveRoot_init_ok split: option.splits)

section \<open>The finalised scope\<close>

definition finalized_scope :: "M2ReductionScope \<Rightarrow> M2ReductionScope \<Rightarrow> M2ReductionScope" where
  "finalized_scope s s' = s'\<lparr>
     sc_job_execution_roots := map2 (finalized_value jr_job_execution_revision set_job_revision)
       (sc_job_execution_roots s) (sc_job_execution_roots s'),
     sc_plan_day_roots := map2 (finalized_value pd_plan_day_revision set_plan_revision)
       (sc_plan_day_roots s) (sc_plan_day_roots s'),
     sc_directive_roots := map2 (finalized_value dr_directive_revision set_directive_revision)
       (sc_directive_roots s) (sc_directive_roots s')\<rparr>"

definition scope_deltas :: "M2ReductionScope \<Rightarrow> M2ReductionScope \<Rightarrow> RootDelta list" where
  "scope_deltas s s' = sort_key (\<lambda>d. (RootKind_value (rd_root_kind d), rd_root_id d))
     (List.map_filter (\<lambda>x. x) (map2 (root_delta JOB_EXECUTION jr_job_id jr_job_execution_revision set_job_revision JobRoot)
        (sc_job_execution_roots s) (sc_job_execution_roots s')) @
      List.map_filter (\<lambda>x. x) (map2 (root_delta PLAN_DAY pd_plan_day_id pd_plan_day_revision set_plan_revision PlanRoot)
        (sc_plan_day_roots s) (sc_plan_day_roots s')) @
      List.map_filter (\<lambda>x. x) (map2 (root_delta DIRECTIVE (\<lambda>d. dr_directive_id d) dr_directive_revision
          set_directive_revision DirRoot)
        (sc_directive_roots s) (sc_directive_roots s')))"

lemma map2_map_right:
  "length xs = length ys \<Longrightarrow> (\<And>x y. (x, y) \<in> set (zip xs ys) \<Longrightarrow> g (f x y) = g y) \<Longrightarrow> map g (map2 f xs ys) = map g ys"
proof (induction xs ys rule: list_induct2)
  case (Cons x xs y ys)
  then show ?case by simp
qed simp

lemma skeleton_ids:
  assumes "scope_skeleton s' = scope_skeleton s"
  shows "map jr_job_id (sc_job_execution_roots s') = map jr_job_id (sc_job_execution_roots s)"
    "map pd_plan_day_id (sc_plan_day_roots s') = map pd_plan_day_id (sc_plan_day_roots s)"
    "map (\<lambda>d. dr_directive_id d) (sc_directive_roots s') = map (\<lambda>d. dr_directive_id d) (sc_directive_roots s)"
proof -
  note k = skeletonD [OF assms]
  show "map jr_job_id (sc_job_execution_roots s') = map jr_job_id (sc_job_execution_roots s)"
    by (rule map_eq_mapD [OF k(3), where k = fst]) (simp add: root_skeleton_def)
  show "map pd_plan_day_id (sc_plan_day_roots s') = map pd_plan_day_id (sc_plan_day_roots s)"
    by (rule map_eq_mapD [OF k(4), where k = fst]) simp
  show "map (\<lambda>d. dr_directive_id d) (sc_directive_roots s') = map (\<lambda>d. dr_directive_id d) (sc_directive_roots s)"
    by (rule map_eq_mapD [OF k(5), where k = dd_directive_id]) simp
qed

lemma evolves_lengths:
  assumes "scope_evolves s s'"
  shows "length (sc_job_execution_roots s') = length (sc_job_execution_roots s)"
    "length (sc_plan_day_roots s') = length (sc_plan_day_roots s)"
    "length (sc_directive_roots s') = length (sc_directive_roots s)"
  using assms by (auto simp: scope_evolves_def dest: list_all2_lengthD)

lemma finalized_value_cases:
  "finalized_value revision set_revision p c = p \<or>
   finalized_value revision set_revision p c = set_revision (revision p + 1) c"
  by (simp add: finalized_value_def)

lemma finalized_field:
  "(\<And>n. g (set_revision n c) = g c) \<Longrightarrow> g c = g p \<Longrightarrow> g (finalized_value revision set_revision p c) = g c"
  by (simp add: finalized_value_def)

lemma zip_all2: "list_all2 R xs ys \<Longrightarrow> (x, y) \<in> set (zip xs ys) \<Longrightarrow> R x y"
  by (auto simp: list_all2_iff)

lemma set_map2: "length xs = length ys \<Longrightarrow> z \<in> set (map2 f xs ys) \<Longrightarrow> \<exists>x y. (x, y) \<in> set (zip xs ys) \<and> z = f x y"
  by auto

lemma finalized_skeleton:
  assumes k: "scope_skeleton s' = scope_skeleton s" and e: "scope_evolves s s'"
  shows "scope_skeleton (finalized_scope s s') = scope_skeleton s'"
proof -
  note len = evolves_lengths [OF e]
  have all: "list_all2 job_root_evolves (sc_job_execution_roots s) (sc_job_execution_roots s')"
      "list_all2 plan_evolves (sc_plan_day_roots s) (sc_plan_day_roots s')"
      "list_all2 directive_evolves (sc_directive_roots s) (sc_directive_roots s')"
    using e by (simp_all add: scope_evolves_def)
  have sk: "list_all2 (\<lambda>r r'. root_skeleton r' = root_skeleton r) (sc_job_execution_roots s) (sc_job_execution_roots s')"
    using skeletonD(3) [OF k] unfolding map_eq_list_all2
    by (simp add: list_all2_conv_all_nth)
  have "map root_skeleton (map2 (finalized_value jr_job_execution_revision set_job_revision)
      (sc_job_execution_roots s) (sc_job_execution_roots s')) = map root_skeleton (sc_job_execution_roots s')"
  proof (rule map2_map_right)
    fix x y assume "(x, y) \<in> set (zip (sc_job_execution_roots s) (sc_job_execution_roots s'))"
    from zip_all2 [OF sk this] show "root_skeleton (finalized_value jr_job_execution_revision set_job_revision x y) = root_skeleton y"
      by (intro finalized_field) (simp_all add: root_skeleton_def set_job_revision_def)
  qed (simp add: len)
  moreover have "map (\<lambda>p. (pd_plan_day_id p, pd_worker_id p)) (map2 (finalized_value pd_plan_day_revision set_plan_revision)
      (sc_plan_day_roots s) (sc_plan_day_roots s')) = map (\<lambda>p. (pd_plan_day_id p, pd_worker_id p)) (sc_plan_day_roots s')"
    by (rule map2_map_right) (use len zip_all2 [OF all(2)] in
      \<open>auto simp: plan_evolves_def finalized_value_def set_plan_revision_def\<close>)
  moreover have "map dr_definition (map2 (finalized_value dr_directive_revision set_directive_revision)
      (sc_directive_roots s) (sc_directive_roots s')) = map dr_definition (sc_directive_roots s')"
    by (rule map2_map_right) (use len zip_all2 [OF all(3)] in
      \<open>auto simp: directive_evolves_def finalized_value_def set_directive_revision_def\<close>)
  ultimately show ?thesis by (simp add: scope_skeleton_def finalized_scope_def)
qed

lemma finalized_valid:
  assumes v: "scope_valid s" and c: "scope_valid s'" and k: "scope_skeleton s' = scope_skeleton s"
    and e: "scope_evolves s s'"
  shows "scope_valid (finalized_scope s s')"
proof (rule valid_from_skeleton [OF c finalized_skeleton [OF k e]])
  note len = evolves_lengths [OF e]
  fix r assume "r \<in> set (sc_job_execution_roots (finalized_scope s s'))"
  then obtain p q where "p \<in> set (sc_job_execution_roots s)" "q \<in> set (sc_job_execution_roots s')"
    "r = finalized_value jr_job_execution_revision set_job_revision p q"
    by (auto simp: finalized_scope_def dest: set_zip_leftD set_zip_rightD)
  then show "root_ok r" using job.finalized_ok scope_validD(2) [OF v] scope_validD(2) [OF c] by blast
next
  fix r assume "r \<in> set (sc_plan_day_roots (finalized_scope s s'))"
  then obtain p q where "p \<in> set (sc_plan_day_roots s)" "q \<in> set (sc_plan_day_roots s')"
    "r = finalized_value pd_plan_day_revision set_plan_revision p q"
    by (auto simp: finalized_scope_def dest: set_zip_leftD set_zip_rightD)
  then show "plan_ok r" using plan.finalized_ok scope_validD(3) [OF v] scope_validD(3) [OF c] by blast
next
  fix r assume "r \<in> set (sc_directive_roots (finalized_scope s s'))"
  then obtain p q where "p \<in> set (sc_directive_roots s)" "q \<in> set (sc_directive_roots s')"
    "r = finalized_value dr_directive_revision set_directive_revision p q"
    by (auto simp: finalized_scope_def dest: set_zip_leftD set_zip_rightD)
  then show "directive_ok r" using dir.finalized_ok scope_validD(4) [OF v] scope_validD(4) [OF c] by blast
next
  show "ledger_ok (sc_processed_events (finalized_scope s s'))"
    using scope_validD(5) [OF c] by (simp add: finalized_scope_def)
qed

lemma finalized_evolves:
  assumes e: "scope_evolves s s'"
  shows "scope_evolves s (finalized_scope s s')"
proof -
  note len = evolves_lengths [OF e]
  have all: "list_all2 job_root_evolves (sc_job_execution_roots s) (sc_job_execution_roots s')"
      "list_all2 plan_evolves (sc_plan_day_roots s) (sc_plan_day_roots s')"
      "list_all2 directive_evolves (sc_directive_roots s) (sc_directive_roots s')"
    using e by (simp_all add: scope_evolves_def)
  have lift: "list_all2 R xs (map2 f xs ys)" if "list_all2 R xs ys" "\<And>x y. R x y \<Longrightarrow> R x (f x y)" for R f xs ys
    using that by (auto simp: list_all2_conv_all_nth)
  have "list_all2 job_root_evolves (sc_job_execution_roots s) (sc_job_execution_roots (finalized_scope s s'))"
    unfolding finalized_scope_def
    by simp (rule lift [OF all(1)], auto simp: finalized_value_def job_root_evolves_def set_job_revision_def list_all2_refl)
  moreover have "list_all2 plan_evolves (sc_plan_day_roots s) (sc_plan_day_roots (finalized_scope s s'))"
    unfolding finalized_scope_def
    by simp (rule lift [OF all(2)], simp add: finalized_value_def plan_evolves_def set_plan_revision_def plan_status_evolves_def)
  moreover have "list_all2 directive_evolves (sc_directive_roots s) (sc_directive_roots (finalized_scope s s'))"
    unfolding finalized_scope_def
    by simp (rule lift [OF all(3)], simp add: finalized_value_def directive_evolves_def set_directive_revision_def)
  ultimately show ?thesis using e by (simp add: scope_evolves_def finalized_scope_def)
qed

lemma finalized_scope_sel [simp]:
  "sc_processed_events (finalized_scope s s') = sc_processed_events s'"
  "sc_publications (finalized_scope s s') = sc_publications s'"
  "sc_worker_registry (finalized_scope s s') = sc_worker_registry s'"
  by (simp_all add: finalized_scope_def)

lemma in_group:
  assumes "length ys = length xs" and "d \<in> set (List.map_filter (\<lambda>x. x) (map2 f xs ys))"
  obtains p c where "(p, c) \<in> set (zip xs ys)" "f p c = Some d"
  using assms(2) by (auto simp: map_filter_def)

lemma zip_same_ident:
  assumes "map f ys = map f xs" and "(x, y) \<in> set (zip xs ys)"
  shows "f y = f x"
proof -
  have "list_all2 (\<lambda>x y. f y = f x) xs ys"
    using assms(1) by (auto simp: map_eq_list_all2 list_all2_conv_all_nth)
  then show ?thesis using assms(2) by (rule zip_all2)
qed

lemma delta_checked:
  assumes v: "scope_valid s" and c': "scope_valid s'" "scope_skeleton s' = scope_skeleton s" "scope_evolves s s'"
    and d: "d \<in> set (scope_deltas s s')"
  shows "finalized_root (finalized_scope s s') (rd_root_kind d) (rd_root_id d) = Inr (rd_next_root d)"
    and "RootDelta_init d = Inr d"
proof -
  note len = evolves_lengths [OF c'(3)] and ids = skeleton_ids [OF c'(2)]
  note fv = finalized_valid [OF v c']
  note dist = scope_validD(8-10) [OF fv]
  from d consider
      (job) "d \<in> set (List.map_filter (\<lambda>x. x) (map2 (root_delta JOB_EXECUTION jr_job_id jr_job_execution_revision
        set_job_revision JobRoot) (sc_job_execution_roots s) (sc_job_execution_roots s')))"
    | (plan) "d \<in> set (List.map_filter (\<lambda>x. x) (map2 (root_delta PLAN_DAY pd_plan_day_id pd_plan_day_revision
        set_plan_revision PlanRoot) (sc_plan_day_roots s) (sc_plan_day_roots s')))"
    | (dir) "d \<in> set (List.map_filter (\<lambda>x. x) (map2 (root_delta DIRECTIVE (\<lambda>d. dr_directive_id d)
        dr_directive_revision set_directive_revision DirRoot) (sc_directive_roots s) (sc_directive_roots s')))"
    by (auto simp: scope_deltas_def)
  then have "finalized_root (finalized_scope s s') (rd_root_kind d) (rd_root_id d) = Inr (rd_next_root d) \<and>
      RootDelta_init d = Inr d"
  proof cases
    case job
    then obtain p q where pq: "(p, q) \<in> set (zip (sc_job_execution_roots s) (sc_job_execution_roots s'))"
      "root_delta JOB_EXECUTION jr_job_id jr_job_execution_revision set_job_revision JobRoot p q = Some d"
      using in_group [OF len(1)] by metis
    have i: "jr_job_id q = jr_job_id p" using zip_same_ident [OF ids(1) pq(1)] .
    have okp: "root_ok p" using pq(1) scope_validD(2) [OF v] by (auto dest: set_zip_leftD)
    let ?v = "finalized_value jr_job_execution_revision set_job_revision p q"
    have "?v \<in> set (sc_job_execution_roots (finalized_scope s s'))"
      using pq(1) by (force simp: finalized_scope_def)
    then have "job_execution (finalized_scope s s') (jr_job_id p) = Some ?v"
      using lookup_by_distinct [OF dist(1), of ?v] job.finalized_ident [OF i] by (simp add: job_execution_def)
    with job.delta_wellformed [OF pq(2) okp i] show ?thesis by (simp add: finalized_root_def)
  next
    case plan
    then obtain p q where pq: "(p, q) \<in> set (zip (sc_plan_day_roots s) (sc_plan_day_roots s'))"
      "root_delta PLAN_DAY pd_plan_day_id pd_plan_day_revision set_plan_revision PlanRoot p q = Some d"
      using in_group [OF len(2)] by metis
    have i: "pd_plan_day_id q = pd_plan_day_id p" using zip_same_ident [OF ids(2) pq(1)] .
    have okp: "plan_ok p" using pq(1) scope_validD(3) [OF v] by (auto dest: set_zip_leftD)
    let ?v = "finalized_value pd_plan_day_revision set_plan_revision p q"
    have "?v \<in> set (sc_plan_day_roots (finalized_scope s s'))"
      using pq(1) by (force simp: finalized_scope_def)
    then have "plan_day (finalized_scope s s') (pd_plan_day_id p) = Some ?v"
      using lookup_by_distinct [OF dist(2), of ?v] plan.finalized_ident [OF i] by (simp add: plan_day_def)
    with plan.delta_wellformed [OF pq(2) okp i] show ?thesis by (simp add: finalized_root_def)
  next
    case dir
    then obtain p q where pq: "(p, q) \<in> set (zip (sc_directive_roots s) (sc_directive_roots s'))"
      "root_delta DIRECTIVE (\<lambda>d. dr_directive_id d) dr_directive_revision set_directive_revision DirRoot p q = Some d"
      using in_group [OF len(3)] by metis
    have i: "dr_directive_id q = dr_directive_id p" using zip_same_ident [OF ids(3) pq(1)] .
    have okp: "directive_ok p" using pq(1) scope_validD(4) [OF v] by (auto dest: set_zip_leftD)
    let ?v = "finalized_value dr_directive_revision set_directive_revision p q"
    have "?v \<in> set (sc_directive_roots (finalized_scope s s'))"
      using pq(1) by (force simp: finalized_scope_def)
    then have "directive (finalized_scope s s') (dr_directive_id p) = Some ?v"
      using lookup_by_distinct [OF dist(3), of ?v] dir.finalized_ident [OF i] by (simp add: directive_def)
    with dir.delta_wellformed [OF pq(2) okp i] show ?thesis by (simp add: finalized_root_def)
  qed
  then show "finalized_root (finalized_scope s s') (rd_root_kind d) (rd_root_id d) = Inr (rd_next_root d)"
    and "RootDelta_init d = Inr d" by simp_all
qed

lemma finalize_reduction_eq:
  assumes v: "scope_valid s" and c: "scope_valid s'" "scope_skeleton s' = scope_skeleton s" "scope_evolves s s'"
    and raw: "re_state raw = s'"
  shows "finalize_reduction s raw =
    Inr (raw\<lparr>re_state := finalized_scope s s', re_root_deltas := scope_deltas s s'\<rparr>)"
proof -
  note ids = skeleton_ids [OF c(2)]
  have ck: "scope_checks s" using scope_validD(1) [OF v] .
  have j: "finalize_root_group JOB_EXECUTION jr_job_id jr_job_execution_revision set_job_revision
      M2JobExecutionRoot_init JobRoot (sc_job_execution_roots s) (sc_job_execution_roots s') =
    Inr (sc_job_execution_roots (finalized_scope s s'), List.map_filter (\<lambda>x. x)
      (map2 (root_delta JOB_EXECUTION jr_job_id jr_job_execution_revision set_job_revision JobRoot)
        (sc_job_execution_roots s) (sc_job_execution_roots s')))"
    using job.finalize_root_group_eq [OF ids(1)] ck scope_validD(2) [OF v] scope_validD(2) [OF c(1)]
    by (simp add: scope_checks_def finalized_scope_def)
  have p: "finalize_root_group PLAN_DAY pd_plan_day_id pd_plan_day_revision set_plan_revision
      PlanDayRoot_init PlanRoot (sc_plan_day_roots s) (sc_plan_day_roots s') =
    Inr (sc_plan_day_roots (finalized_scope s s'), List.map_filter (\<lambda>x. x)
      (map2 (root_delta PLAN_DAY pd_plan_day_id pd_plan_day_revision set_plan_revision PlanRoot)
        (sc_plan_day_roots s) (sc_plan_day_roots s')))"
    using plan.finalize_root_group_eq [OF ids(2)] ck scope_validD(3) [OF v] scope_validD(3) [OF c(1)]
    by (simp add: scope_checks_def finalized_scope_def)
  have d: "finalize_root_group DIRECTIVE (\<lambda>d. dr_directive_id d) dr_directive_revision set_directive_revision
      DirectiveRoot_init DirRoot (sc_directive_roots s) (sc_directive_roots s') =
    Inr (sc_directive_roots (finalized_scope s s'), List.map_filter (\<lambda>x. x)
      (map2 (root_delta DIRECTIVE (\<lambda>d. dr_directive_id d) dr_directive_revision set_directive_revision DirRoot)
        (sc_directive_roots s) (sc_directive_roots s')))"
    using dir.finalize_root_group_eq [OF ids(3)] ck scope_validD(4) [OF v] scope_validD(4) [OF c(1)]
    by (simp add: scope_checks_def finalized_scope_def)
  have fin: "s'\<lparr>sc_job_execution_roots := sc_job_execution_roots (finalized_scope s s'),
      sc_plan_day_roots := sc_plan_day_roots (finalized_scope s s'),
      sc_directive_roots := sc_directive_roots (finalized_scope s s')\<rparr> = finalized_scope s s'"
    by (simp add: finalized_scope_def)
  have init: "M2ReductionScope_init (finalized_scope s s') = Inr (finalized_scope s s')"
    using finalized_valid [OF v c] by (simp add: scope_valid_def)
  have "traverse (\<lambda>d. and_then (finalized_root (finalized_scope s s') (rd_root_kind d) (rd_root_id d)) (\<lambda>root.
      RootDelta_init (d\<lparr>rd_next_root := root\<rparr>))) (scope_deltas s s') = Inr (map (\<lambda>d. d) (scope_deltas s s'))"
    by (rule traverse_map) (simp add: delta_checked [OF v c])
  then show ?thesis
    by (simp add: finalize_reduction_def Let_def raw j p d fin init flip: scope_deltas_def)
qed

end
