(* ===== verification/Field_Reduction.thy ===== *)
theory Field_Reduction
  imports Field_Finalization
begin

text \<open>
  One whole reduction: \<open>reduce\<close> returns on every well formed scope and validated input, and what it
  returns is described by three lemmas, one for a fresh event, one for an event the ledger knows,
  one for a system signal. The properties of the M2 core follow from them.
\<close>

section \<open>What finalisation keeps\<close>

lemma finalized_keeps:
  "(\<And>n. g (set_revision n c) = g c) \<Longrightarrow> g (finalized_value revision set_revision p c) = g c"
  by (metis finalized_value_def)

lemma finalized_job_fields:
  assumes "scope_evolves s s'" and "\<And>n c. g (set_job_revision n c) = g c"
  shows "map g (sc_job_execution_roots (finalized_scope s s')) = map g (sc_job_execution_roots s')"
proof -
  have "map g (map2 (finalized_value jr_job_execution_revision set_job_revision)
      (sc_job_execution_roots s) (sc_job_execution_roots s')) = map g (sc_job_execution_roots s')"
    by (rule map2_map_right) (use evolves_lengths(1) [OF assms(1)] assms(2) in \<open>auto intro: finalized_keeps\<close>)
  then show ?thesis by (simp add: finalized_scope_def)
qed

lemma finalized_plan_fields:
  assumes "scope_evolves s s'" and "\<And>n c. g (set_plan_revision n c) = g c"
  shows "map g (sc_plan_day_roots (finalized_scope s s')) = map g (sc_plan_day_roots s')"
proof -
  have "map g (map2 (finalized_value pd_plan_day_revision set_plan_revision)
      (sc_plan_day_roots s) (sc_plan_day_roots s')) = map g (sc_plan_day_roots s')"
    by (rule map2_map_right) (use evolves_lengths(2) [OF assms(1)] assms(2) in \<open>auto intro: finalized_keeps\<close>)
  then show ?thesis by (simp add: finalized_scope_def)
qed

lemma finalized_directive_fields:
  assumes "scope_evolves s s'" and "\<And>n c. g (set_directive_revision n c) = g c"
  shows "map g (sc_directive_roots (finalized_scope s s')) = map g (sc_directive_roots s')"
proof -
  have "map g (map2 (finalized_value dr_directive_revision set_directive_revision)
      (sc_directive_roots s) (sc_directive_roots s')) = map g (sc_directive_roots s')"
    by (rule map2_map_right) (use evolves_lengths(3) [OF assms(1)] assms(2) in \<open>auto intro: finalized_keeps\<close>)
  then show ?thesis by (simp add: finalized_scope_def)
qed

lemma finalized_tasks:
  assumes "scope_evolves s s'"
  shows "tasks (finalized_scope s s') = tasks s'" "assignments (finalized_scope s s') = assignments s'"
  using finalized_job_fields [OF assms, of jr_tasks] finalized_job_fields [OF assms, of jr_assignments]
  by (simp_all add: tasks_def assignments_def set_job_revision_def)

lemma finalized_lookups:
  assumes "scope_evolves s s'"
  shows "task (finalized_scope s s') = task s'" "assignment (finalized_scope s s') = assignment s'"
  using finalized_tasks [OF assms] by (auto simp: task_def assignment_def fun_eq_iff)

section \<open>Appending to the ledger\<close>

definition appended :: "ProcessedEventReceipt \<Rightarrow> ProcessedEventLedger \<Rightarrow> ProcessedEventLedger" where
  "appended r l = \<lparr>lg_receipts = sort_key rc_event_id (lg_receipts l @ [r])\<rparr>"

definition with_receipt :: "ProcessedEventReceipt \<Rightarrow> M2ReductionScope \<Rightarrow> M2ReductionScope" where
  "with_receipt r s = s\<lparr>sc_processed_events := appended r (sc_processed_events s)\<rparr>"

lemma set_appended [simp]: "set (lg_receipts (appended r l)) = insert r (set (lg_receipts l))"
  by (simp add: appended_def)

lemma with_receipt_sel [simp]:
  "sc_job_execution_roots (with_receipt r s) = sc_job_execution_roots s"
  "sc_plan_day_roots (with_receipt r s) = sc_plan_day_roots s"
  "sc_directive_roots (with_receipt r s) = sc_directive_roots s"
  "sc_publications (with_receipt r s) = sc_publications s"
  "sc_worker_registry (with_receipt r s) = sc_worker_registry s"
  "sc_processed_events (with_receipt r s) = appended r (sc_processed_events s)"
  "tasks (with_receipt r s) = tasks s" "assignments (with_receipt r s) = assignments s"
  by (simp_all add: with_receipt_def tasks_def assignments_def)

lemma with_receipt_skeleton [simp]: "scope_skeleton (with_receipt r s) = scope_skeleton s"
  by (simp add: scope_skeleton_def)

definition fresh_receipt :: "ProcessedEventReceipt \<Rightarrow> ProcessedEventLedger \<Rightarrow> bool" where
  "fresh_receipt r l \<longleftrightarrow> rc_event_id r \<notin> set (map rc_event_id (lg_receipts l)) \<and>
     rc_server_event_id r \<notin> set (map rc_server_event_id (lg_receipts l))"

lemma appended_ledger_ok:
  assumes "ledger_ok l" "fresh_receipt r l" "event_ok (rc_event r)"
  shows "ledger_ok (appended r l)"
    and "ProcessedEventLedger_init \<lparr>lg_receipts = lg_receipts l @ [r]\<rparr> = Inr (appended r l)"
  using assms by (auto simp: ledger_ok_def ProcessedEventLedger_init_ok fresh_receipt_def appended_def
      ProcessedEventLedger_init_def sort_key_id_iff)

lemma with_receipt_valid:
  assumes "scope_valid s" "fresh_receipt r (sc_processed_events s)" "event_ok (rc_event r)"
  shows "scope_valid (with_receipt r s)"
  by (rule valid_from_skeleton [OF assms(1) with_receipt_skeleton])
    (use assms scope_validD(2-5) [OF assms(1)] appended_ledger_ok(1) in auto)

definition event_receipt ::
    "FieldEventInput \<Rightarrow> ReductionOutcome \<Rightarrow> SystemEffect list \<Rightarrow> string list \<Rightarrow> string list \<Rightarrow> ProcessedEventReceipt" where
  "event_receipt inp outcome fx missing reasons =
     \<lparr>rc_event = fi_event inp, rc_server_event_id = fi_server_event_id inp, rc_outcome = outcome,
      rc_response_effects = fx, rc_missing_requirements = missing, rc_reason_codes = reasons\<rparr>"

definition recorded_reduction :: "M2ReductionScope \<Rightarrow> ProcessedEventReceipt \<Rightarrow> Reduction" where
  "recorded_reduction s r = (Reduction_default (with_receipt r s) (rc_outcome r))\<lparr>
     re_appended_receipt := Some r, re_emitted_effects := rc_response_effects r,
     re_response_effects := rc_response_effects r, re_server_event_id := Some (rc_server_event_id r),
     re_missing_requirements := rc_missing_requirements r, re_reason_codes := rc_reason_codes r\<rparr>"

lemma finish_event_eq:
  assumes v: "scope_valid s" and e: "event_ok (fi_event inp)"
    and r: "r = event_receipt inp outcome fx missing reasons" and f: "fresh_receipt r (sc_processed_events s)"
  shows "finish_event s inp outcome fx missing reasons = Inr (recorded_reduction s r)"
proof -
  have rr: "\<lparr>rc_event = fi_event inp, rc_server_event_id = fi_server_event_id inp, rc_outcome = outcome,
      rc_response_effects = fx, rc_missing_requirements = missing, rc_reason_codes = reasons\<rparr> = r"
    by (simp add: r event_receipt_def)
  have re: "rc_event r = fi_event inp" "rc_outcome r = outcome" "rc_response_effects r = fx"
      "rc_missing_requirements r = missing" "rc_reason_codes r = reasons" "rc_server_event_id r = fi_server_event_id inp"
    by (simp_all add: r event_receipt_def)
  have l: "ProcessedEventLedger_init \<lparr>lg_receipts = lg_receipts (sc_processed_events s) @ [r]\<rparr> =
      Inr (appended r (sc_processed_events s))"
    using appended_ledger_ok(2) [OF scope_validD(5) [OF v] f] e re by simp
  have "M2ReductionScope_init (with_receipt r s) = Inr (with_receipt r s)"
    using with_receipt_valid [OF v f] e re by (simp add: scope_valid_def)
  then have i: "M2ReductionScope_init (s\<lparr>sc_processed_events := appended r (sc_processed_events s)\<rparr>) = Inr (with_receipt r s)"
    by (simp add: with_receipt_def)
  show ?thesis
    unfolding finish_event_def Let_def rr by (simp add: l i recorded_reduction_def re)
qed

section \<open>A fresh event\<close>

definition fresh_event :: "M2ReductionScope \<Rightarrow> FieldEventInput \<Rightarrow> bool" where
  "fresh_event s inp \<longleftrightarrow> receipt s (fe_event_id (fi_event inp)) = None \<and>
     (\<forall>r\<in>set (lg_receipts (sc_processed_events s)). rc_server_event_id r \<noteq> fi_server_event_id inp)"

lemma receipt_None: "receipt s k = None \<longleftrightarrow> k \<notin> ledger_ids s"
  by (simp add: receipt_def ledger_receipt_def lookup_by_None_iff ledger_ids_def)

lemma fresh_event_receipt:
  "fresh_event s inp \<Longrightarrow> rc_event r = fi_event inp \<Longrightarrow> rc_server_event_id r = fi_server_event_id inp \<Longrightarrow>
   fresh_receipt r (sc_processed_events s)"
  by (auto simp: fresh_event_def fresh_receipt_def receipt_None ledger_ids_def)

lemma fresh_not_observed:
  assumes "scope_ok s" "fresh_event s inp"
  shows "\<forall>t\<in>set (tasks s). fe_event_id (fi_event inp) \<notin> fo_event_id ` set (ts_observations t)"
  using assms by (auto simp: scope_ok_def observations_within_def fresh_event_def receipt_None)

text \<open>
  What the reduction of a fresh event is: a permitted transition to \<open>s'\<close> (or none, when a reference
  is wrong), the receipt \<open>r\<close> appended, then finalisation.
\<close>

definition field_transition ::
    "M2Policy \<Rightarrow> M2ReductionScope \<Rightarrow> FieldEventInput \<Rightarrow> M2ReductionScope \<Rightarrow> ProcessedEventReceipt \<Rightarrow> bool" where
  "field_transition policy s inp s' r \<longleftrightarrow>
     rc_event r = fi_event inp \<and> rc_server_event_id r = fi_server_event_id inp \<and>
     (if reference_errors s (fi_event inp) = [] then permitted policy s (fi_event inp) (rc_outcome r) s'
      else s' = s \<and> rc_outcome r = REJECTED \<and> rc_reason_codes r = reference_errors s (fi_event inp))"

definition finalized_reduction :: "M2ReductionScope \<Rightarrow> Reduction \<Rightarrow> Reduction" where
  "finalized_reduction s raw = raw\<lparr>re_state := finalized_scope s (re_state raw),
     re_root_deltas := scope_deltas s (re_state raw)\<rparr>"

lemma field_transition_sound:
  assumes ok: "scope_ok s" and e: "event_ok (fi_event inp)" and f: "fresh_event s inp"
    and t: "field_transition policy s inp s' r"
  shows "sound_change s s'" "observations_within (insert (fe_event_id (fi_event inp)) (ledger_ids s)) s'"
proof -
  have v: "scope_valid s" "observations_within (ledger_ids s) s" using ok by (simp_all add: scope_ok_def)
  show "sound_change s s'"
    using t permitted_sound [OF v(1) e _ fresh_not_observed [OF ok f]] sound_change_refl [OF v(1)]
    by (auto simp: field_transition_def split: if_splits)
  show "observations_within (insert (fe_event_id (fi_event inp)) (ledger_ids s)) s'"
    using t permitted_observations [OF _ v(2)] observations_within_mono [OF v(2) subset_insertI]
    by (auto simp: field_transition_def split: if_splits)
qed

text \<open>The state and the outcome that the handler of an event returns.\<close>

definition handled_as ::
    "PolicyTimeContext \<Rightarrow> M2ReductionScope \<Rightarrow> FieldEventInput \<Rightarrow> M2ReductionScope \<Rightarrow> ReductionOutcome \<Rightarrow> bool" where
  "handled_as c s inp s' outcome \<longleftrightarrow> (\<exists>fx missing reasons.
     handle_field_event (fe_event_type (fi_event inp)) s (fi_event inp) c = Inr (s', outcome, fx, missing, reasons))"

lemma reduce_field_event_fresh:
  assumes ok: "scope_ok s" and e: "event_ok (fi_event inp)" and f: "fresh_event s inp"
  obtains s' r where "field_transition (cx_policy c) s inp s' r"
    "reduce_field_event s inp c = Inr (recorded_reduction s' r)"
    "reference_errors s (fi_event inp) = [] \<Longrightarrow> handled_as c s inp s' (rc_outcome r)"
proof -
  have v: "scope_valid s" using ok by (simp add: scope_ok_def)
  let ?e = "fi_event inp"
  have start: "reduce_field_event s inp c = (if reference_errors s ?e \<noteq> [] then
        and_then (completion_rejection_effects ?e (reference_errors s ?e)) (\<lambda>fx.
        finish_event s inp REJECTED fx [] (reference_errors s ?e))
      else and_then (handle_field_event (fe_event_type ?e) s ?e c)
        (\<lambda>(next_state, outcome, fx, missing, reasons). finish_event next_state inp outcome fx missing reasons))"
    using f by (auto simp: reduce_field_event_def Let_def fresh_event_def)
  show thesis
  proof (cases "reference_errors s ?e = []")
    case False
    obtain fx where fx: "completion_rejection_effects ?e (reference_errors s ?e) = Inr fx"
      by (simp add: completion_rejection_effects_eq [OF e])
    let ?r = "event_receipt inp REJECTED fx [] (reference_errors s ?e)"
    have "finish_event s inp REJECTED fx [] (reference_errors s ?e) = Inr (recorded_reduction s ?r)"
      by (rule finish_event_eq [OF v e refl fresh_event_receipt [OF f]]) (simp_all add: event_receipt_def)
    with False fx start have "reduce_field_event s inp c = Inr (recorded_reduction s ?r)" by simp
    moreover have "field_transition (cx_policy c) s inp s ?r"
      using False by (simp add: field_transition_def event_receipt_def)
    ultimately show thesis using that False by simp
  next
    case True
    have "implements (cx_policy c) s ?e (handle_field_event (fe_event_type ?e) s ?e c)"
      by (rule handler_implements [OF v e True fresh_not_observed [OF ok f]])
    then obtain s' outcome fx missing reasons where
      h: "handle_field_event (fe_event_type ?e) s ?e c = Inr (s', outcome, fx, missing, reasons)"
      and p: "permitted (cx_policy c) s ?e outcome s'"
      by (auto simp: implements_def returns_iff)
    let ?r = "event_receipt inp outcome fx missing reasons"
    have tr: "field_transition (cx_policy c) s inp s' ?r"
      using True p by (simp add: field_transition_def event_receipt_def)
    from field_transition_sound(1) [OF ok e f tr] have s': "scope_valid s'" "sc_processed_events s' = sc_processed_events s"
      by (simp_all add: sound_change_def)
    have "fresh_receipt ?r (sc_processed_events s')"
      unfolding s'(2) by (rule fresh_event_receipt [OF f]) (simp_all add: event_receipt_def)
    from finish_event_eq [OF s'(1) e refl this] have
      "reduce_field_event s inp c = Inr (recorded_reduction s' ?r)"
      using True h start by simp
    moreover have "handled_as c s inp s' (rc_outcome ?r)" using h by (simp add: handled_as_def event_receipt_def)
    ultimately show thesis using that [OF tr] by blast
  qed
qed

lemma recorded_reduction_sel [simp]:
  "re_state (recorded_reduction s r) = with_receipt r s" "re_outcome (recorded_reduction s r) = rc_outcome r"
  "re_appended_receipt (recorded_reduction s r) = Some r"
  "re_emitted_effects (recorded_reduction s r) = rc_response_effects r"
  "re_response_effects (recorded_reduction s r) = rc_response_effects r"
  "re_reason_codes (recorded_reduction s r) = rc_reason_codes r"
  "re_missing_requirements (recorded_reduction s r) = rc_missing_requirements r"
  "re_server_event_id (recorded_reduction s r) = Some (rc_server_event_id r)"
  "re_replayed (recorded_reduction s r) = False"
  by (simp_all add: recorded_reduction_def Reduction_default_def)

lemma finalized_reduction_sel [simp]:
  "re_state (finalized_reduction s raw) = finalized_scope s (re_state raw)"
  "re_outcome (finalized_reduction s raw) = re_outcome raw"
  "re_root_deltas (finalized_reduction s raw) = scope_deltas s (re_state raw)"
  "re_appended_receipt (finalized_reduction s raw) = re_appended_receipt raw"
  "re_emitted_effects (finalized_reduction s raw) = re_emitted_effects raw"
  "re_response_effects (finalized_reduction s raw) = re_response_effects raw"
  "re_reason_codes (finalized_reduction s raw) = re_reason_codes raw"
  "re_missing_requirements (finalized_reduction s raw) = re_missing_requirements raw"
  "re_server_event_id (finalized_reduction s raw) = re_server_event_id raw"
  "re_replayed (finalized_reduction s raw) = re_replayed raw"
  by (simp_all add: finalized_reduction_def)

text \<open>Appending a receipt to a scope that a sound change reached.\<close>

lemma with_receipt_advances:
  assumes c: "sound_change s s'" and f: "fresh_receipt r (sc_processed_events s)" and e: "event_ok (rc_event r)"
  shows "scope_valid (with_receipt r s')" "scope_skeleton (with_receipt r s') = scope_skeleton s"
    "scope_evolves s (with_receipt r s')"
  using assms with_receipt_valid [of s' r]
  by (auto simp: sound_change_def scope_evolves_def)

theorem reduce_fresh:
  assumes ok: "scope_ok s" and e: "event_ok (fi_event inp)" and f: "fresh_event s inp"
    and ver: "cx_rule_version c = M2_REDUCER_RULE_VERSION"
  obtains s' r where "field_transition (cx_policy c) s inp s' r" "sound_change s s'"
    "reduce s (FieldInput inp) c = Inr (finalized_reduction s (recorded_reduction s' r))"
    "scope_ok (finalized_scope s (with_receipt r s'))"
    "scope_evolves s (finalized_scope s (with_receipt r s'))"
    "reference_errors s (fi_event inp) = [] \<Longrightarrow> handled_as c s inp s' (rc_outcome r)"
proof -
  obtain s' r where t: "field_transition (cx_policy c) s inp s' r"
    and red: "reduce_field_event s inp c = Inr (recorded_reduction s' r)"
    and h: "reference_errors s (fi_event inp) = [] \<Longrightarrow> handled_as c s inp s' (rc_outcome r)"
    by (rule reduce_field_event_fresh [OF ok e f, where c = c]) blast
  have v: "scope_valid s" using ok by (simp add: scope_ok_def)
  note snd = field_transition_sound [OF ok e f t]
  have r: "rc_event r = fi_event inp" "rc_server_event_id r = fi_server_event_id inp"
    using t by (simp_all add: field_transition_def)
  have fr: "fresh_receipt r (sc_processed_events s)" using fresh_event_receipt [OF f r] .
  note adv = with_receipt_advances [OF snd(1) fr] 
  have er: "event_ok (rc_event r)" using e r by simp
  note adv = adv [OF er]
  have "reduce s (FieldInput inp) c = Inr (finalized_reduction s (recorded_reduction s' r))"
    using finalize_reduction_eq [OF v adv, of "recorded_reduction s' r"]
    by (simp add: reduce_def ver red finalized_reduction_def)
  moreover have "scope_ok (finalized_scope s (with_receipt r s'))"
  proof -
    have ids: "ledger_ids (finalized_scope s (with_receipt r s')) = insert (fe_event_id (fi_event inp)) (ledger_ids s)"
      using snd(1) by (simp add: ledger_ids_def r sound_change_def)
    have "observations_within (ledger_ids (finalized_scope s (with_receipt r s'))) (finalized_scope s (with_receipt r s'))"
      using snd(2) finalized_tasks(1) [OF adv(3)] by (simp add: observations_within_def ids)
    then show ?thesis using finalized_valid [OF v adv] by (simp add: scope_ok_def)
  qed
  moreover have "scope_evolves s (finalized_scope s (with_receipt r s'))"
    using finalized_evolves [OF adv(3)] .
  ultimately show thesis using that [OF t snd(1)] h by blast
qed

section \<open>Reductions that leave the scope alone\<close>

lemma map2_same: "(\<And>x. f x x = g x) \<Longrightarrow> map2 f xs xs = map g xs"
  by (induction xs) auto

lemma finalized_scope_same: "finalized_scope s s = s"
  by (simp add: finalized_scope_def map2_same [of _ "\<lambda>x. x"] job.finalized_same plan.finalized_same dir.finalized_same)

lemma map_filter_None [simp]: "List.map_filter (\<lambda>x. x) (map (\<lambda>x. None) xs) = []"
  by (induction xs) simp_all

lemma scope_deltas_same: "scope_deltas s s = []"
  by (simp add: scope_deltas_def map2_same [of _ "\<lambda>x. None"] root_delta_def
      job.set_revision_id plan.set_revision_id dir.set_revision_id)

lemma finalize_unchanged:
  assumes "scope_valid s" "re_state raw = s" "re_root_deltas raw = []"
  shows "finalize_reduction s raw = Inr raw"
  using finalize_reduction_eq [OF assms(1) assms(1) refl scope_evolves_refl assms(2)] assms
  by (cases raw) (simp add: finalized_scope_same scope_deltas_same)

theorem reduce_known_event:
  assumes ok: "scope_ok s" and ver: "cx_rule_version c = M2_REDUCER_RULE_VERSION"
    and r: "receipt s (fe_event_id (fi_event inp)) = Some r"
  shows "reduce s (FieldInput inp) c = Inr (if rc_event r = fi_event inp
    then (Reduction_default s (rc_outcome r))\<lparr>re_response_effects := rc_response_effects r,
      re_server_event_id := Some (rc_server_event_id r), re_missing_requirements := rc_missing_requirements r,
      re_reason_codes := rc_reason_codes r, re_replayed := True\<rparr>
    else (Reduction_default s REJECTED)\<lparr>re_server_event_id := Some (rc_server_event_id r),
      re_reason_codes := [''EVENT_ID_CONFLICT'']\<rparr>)"
proof -
  have v: "scope_valid s" using ok by (simp add: scope_ok_def)
  show ?thesis
    using r finalize_unchanged [OF v] by (simp add: reduce_def ver reduce_field_event_def Let_def Reduction_default_def)
qed

theorem reduce_server_conflict:
  assumes ok: "scope_ok s" and ver: "cx_rule_version c = M2_REDUCER_RULE_VERSION"
    and n: "receipt s (fe_event_id (fi_event inp)) = None"
    and r: "r \<in> set (lg_receipts (sc_processed_events s))" "rc_server_event_id r = fi_server_event_id inp"
  shows "reduce s (FieldInput inp) c =
    Inr ((Reduction_default s REJECTED)\<lparr>re_reason_codes := [''SERVER_EVENT_ID_CONFLICT'']\<rparr>)"
proof -
  have v: "scope_valid s" using ok by (simp add: scope_ok_def)
  have "reduce_field_event s inp c = Inr ((Reduction_default s REJECTED)\<lparr>re_reason_codes := [''SERVER_EVENT_ID_CONFLICT'']\<rparr>)"
    using n r by (auto simp: reduce_field_event_def Let_def)
  then show ?thesis
    using finalize_unchanged [OF v] by (simp add: reduce_def ver Reduction_default_def)
qed

theorem reduce_unsupported_version:
  assumes ok: "scope_ok s" and ver: "cx_rule_version c \<noteq> M2_REDUCER_RULE_VERSION"
  shows "reduce s i c = Inr ((Reduction_default s REJECTED)\<lparr>re_reason_codes := [''UNSUPPORTED_RULE_VERSION'']\<rparr>)"
proof -
  have v: "scope_valid s" using ok by (simp add: scope_ok_def)
  show ?thesis
    using finalize_unchanged [OF v] by (simp add: reduce_def ver Reduction_default_def)
qed

section \<open>Signals\<close>

lemma signal_permitted_sound:
  assumes v: "scope_valid s" and p: "signal_permitted c s sig outcome s'"
  shows "sound_change s s'" "tasks s' = tasks s" "assignments s' = assignments s"
proof -
  have "sound_change s s' \<and> tasks s' = tasks s \<and> assignments s' = assignments s"
    using p
  proof (cases rule: signal_permitted.cases)
    case signal_unchanged
    then show ?thesis by (simp add: sound_change_refl v)
  next
    case (start_unknown k p)
    have "plan_ok (p\<lparr>pd_start_unknown_escalated := True\<rparr>)"
      by (rule plan_ok_edit(4) [OF plan_dayE [OF v start_unknown(5)]])
    then show ?thesis unfolding start_unknown(2)
      by (auto intro!: sound_put_plan_day [OF v start_unknown(5)] simp: plan_evolves_def plan_status_evolves_def)
  next
    case (acknowledgement_overdue k d due)
    have "directive_ok (d\<lparr>dr_e1_escalated := True\<rparr>)"
      by (rule directive_ok_edit(4) [OF directiveE [OF v acknowledgement_overdue(5)]])
    then show ?thesis unfolding acknowledgement_overdue(2)
      by (auto intro!: sound_put_directive [OF v acknowledgement_overdue(5)] simp: directive_evolves_def)
  next
    case (day_closed k p)
    have "plan_ok (p\<lparr>pd_status := PlanDayStatus.CLOSED, pd_worker_available := False\<rparr>)"
      by (rule plan_ok_edit(6) [OF plan_dayE [OF v day_closed(5)]])
    then show ?thesis unfolding day_closed(2)
      using day_closed by (auto intro!: sound_put_plan_day [OF v day_closed(5)] simp: plan_evolves_def plan_status_evolves_def)
  qed
  then show "sound_change s s'" "tasks s' = tasks s" "assignments s' = assignments s" by simp_all
qed

theorem reduce_signal:
  assumes ok: "scope_ok s" and i: "SystemSignal_init sig = Inr sig"
    and ver: "cx_rule_version c = M2_REDUCER_RULE_VERSION"
  obtains raw where "signal_permitted c s sig (re_outcome raw) (re_state raw)" "sound_change s (re_state raw)"
    "reduce s (SignalInput sig) c = Inr (finalized_reduction s raw)" "re_appended_receipt raw = None"
    "re_outcome raw \<noteq> APPLIED \<Longrightarrow> re_state raw = s \<and> re_emitted_effects raw = []"
    "scope_ok (finalized_scope s (re_state raw))" "scope_evolves s (finalized_scope s (re_state raw))"
proof -
  have v: "scope_valid s" using ok by (simp add: scope_ok_def)
  from signal_implements_signal [OF v i, of c] obtain raw where
    raw: "reduce_system_signal s sig c = Inr raw" "signal_permitted c s sig (re_outcome raw) (re_state raw)"
      "re_appended_receipt raw = None" "re_outcome raw \<noteq> APPLIED \<longrightarrow> re_state raw = s \<and> re_emitted_effects raw = []"
    by (auto simp: signal_implements_def returns_iff)
  note snd = signal_permitted_sound [OF v raw(2)]
  have adv: "scope_valid (re_state raw)" "scope_skeleton (re_state raw) = scope_skeleton s" "scope_evolves s (re_state raw)"
    using snd(1) by (simp_all add: sound_change_def)
  have "reduce s (SignalInput sig) c = Inr (finalized_reduction s raw)"
    using finalize_reduction_eq [OF v adv refl] by (simp add: reduce_def ver raw(1) finalized_reduction_def)
  moreover have "scope_ok (finalized_scope s (re_state raw))"
    using finalized_valid [OF v adv] ok snd finalized_tasks(1) [OF adv(3)]
    by (simp add: scope_ok_def observations_within_def ledger_ids_def sound_change_def)
  ultimately show thesis using that raw snd(1) finalized_evolves [OF adv(3)] by blast
qed

section \<open>Every reduction\<close>

text \<open>The four kinds of a reduction of a well formed scope.\<close>

lemma reduce_cases [consumes 3, case_names unsupported known server_conflict fresh signal]:
  assumes ok: "scope_ok s" and i: "input_ok i" and r: "reduce s i c = Inr re"
  obtains "cx_rule_version c \<noteq> M2_REDUCER_RULE_VERSION" "re_state re = s" "re_outcome re = REJECTED"
      "re_root_deltas re = []" "re_appended_receipt re = None" "re_emitted_effects re = []"
  | inp r where "i = FieldInput inp" "receipt s (fe_event_id (fi_event inp)) = Some r" "re_state re = s"
      "re_root_deltas re = []" "re_appended_receipt re = None" "re_emitted_effects re = []"
      "rc_event r = fi_event inp \<Longrightarrow> re_outcome re = rc_outcome r" "rc_event r \<noteq> fi_event inp \<Longrightarrow> re_outcome re = REJECTED"
  | inp where "i = FieldInput inp" "re_state re = s" "re_outcome re = REJECTED" "re_root_deltas re = []"
      "re_appended_receipt re = None" "re_emitted_effects re = []"
  | inp s' r where "i = FieldInput inp" "cx_rule_version c = M2_REDUCER_RULE_VERSION" "event_ok (fi_event inp)"
      "fresh_event s inp" "field_transition (cx_policy c) s inp s' r" "sound_change s s'"
      "re = finalized_reduction s (recorded_reduction s' r)"
  | sig raw where "i = SignalInput sig" "cx_rule_version c = M2_REDUCER_RULE_VERSION"
      "signal_permitted c s sig (re_outcome raw) (re_state raw)" "sound_change s (re_state raw)"
      "re = finalized_reduction s raw" "re_appended_receipt raw = None"
      "re_outcome raw \<noteq> APPLIED \<Longrightarrow> re_state raw = s \<and> re_emitted_effects raw = []"
proof (cases "cx_rule_version c = M2_REDUCER_RULE_VERSION")
  case False
  then show thesis
    using that(1) r reduce_unsupported_version [OF ok False, of i] by (auto simp: Reduction_default_def)
next
  case ver: True
  show thesis
  proof (cases i)
    case (FieldInput inp)
    have e: "event_ok (fi_event inp)" using i FieldInput by (simp add: input_ok_def)
    show thesis
    proof (cases "receipt s (fe_event_id (fi_event inp))")
      case (Some x)
      then show thesis
        using that(2) [OF FieldInput Some] r reduce_known_event [OF ok ver Some] FieldInput
        by (auto simp: Reduction_default_def split: if_splits)
    next
      case None
      show thesis
      proof (cases "fresh_event s inp")
        case True
        obtain s' x where x: "field_transition (cx_policy c) s inp s' x" "sound_change s s'"
          "reduce s (FieldInput inp) c = Inr (finalized_reduction s (recorded_reduction s' x))"
          by (rule reduce_fresh [OF ok e True ver])
        then show thesis using that(4) [OF FieldInput ver e True x(1,2)] r FieldInput by simp
      next
        case False
        then obtain x where "x \<in> set (lg_receipts (sc_processed_events s))" "rc_server_event_id x = fi_server_event_id inp"
          using None by (auto simp: fresh_event_def)
        then show thesis
          using that(3) [OF FieldInput] r reduce_server_conflict [OF ok ver None] FieldInput
          by (auto simp: Reduction_default_def)
      qed
    qed
  next
    case (SignalInput sig)
    then have "SystemSignal_init sig = Inr sig" using i by (simp add: input_ok_def)
    from reduce_signal [OF ok this ver] obtain raw where
      "signal_permitted c s sig (re_outcome raw) (re_state raw)" "sound_change s (re_state raw)"
      "reduce s (SignalInput sig) c = Inr (finalized_reduction s raw)" "re_appended_receipt raw = None"
      "re_outcome raw \<noteq> APPLIED \<Longrightarrow> re_state raw = s \<and> re_emitted_effects raw = []" by metis
    then show thesis using that(5) [OF SignalInput ver] r SignalInput by simp
  qed
qed

end
