(* ===== verification/Field_Example.thy ===== *)
theory Field_Example
  imports Field_Invariant
begin

text \<open>
  One small concrete M2 scope (a job with a single-worker task and a crew task with a stage, an
  issued plan day, an action and a STOP directive) and inputs for it, at which the properties are
  applied.
\<close>

definition ex_publication :: M1HandoffPublication where
  "ex_publication = \<lparr>hb_handoff_id = ''H1'',
     hb_projection = \<lparr>hp_job_id = ''J1'', hp_source_revision = 1, hp_lifecycle_state = RECEIVED,
       hp_activity_state = CanonicalJobActivity.ACTIVE, hp_facts = [], hp_schema_version = ''1''\<rparr>,
     hb_content_sha256 = ''00'', hb_published_at = Aware 0\<rparr>"

definition ex_task :: TaskState where
  "ex_task = \<lparr>ts_definition = \<lparr>td_task_id = ''T1'', td_definition_version = ''v1'', td_job_id = ''J1'',
       td_source_handoff_id = ''H1'', td_source_revision = 1, td_business_meaning = ''fit'',
       td_completion_type = CompletionType.TASK, td_required_postconditions = [''p''],
       td_required_evidence = [PHOTO], td_stage_ids = [], td_requires_quantity = False,
       td_assignment_kind = SINGLE, td_supersedes_task_id = None\<rparr>,
     ts_status = TaskStatus.OPEN, ts_stages = [], ts_evidence = [], ts_observations = [],
     ts_completion_event_id = None, ts_safe_hold_directive_id = None,
     ts_blocked_pending_resolution = False, ts_execution_authorized = True\<rparr>"

definition ex_crew_task :: TaskState where
  "ex_crew_task = \<lparr>ts_definition = \<lparr>td_task_id = ''T2'', td_definition_version = ''v1'', td_job_id = ''J1'',
       td_source_handoff_id = ''H1'', td_source_revision = 1, td_business_meaning = ''paint'',
       td_completion_type = CompletionType.STAGE, td_required_postconditions = [],
       td_required_evidence = [], td_stage_ids = [''S1''], td_requires_quantity = False,
       td_assignment_kind = CREW, td_supersedes_task_id = Some ''T1''\<rparr>,
     ts_status = TaskStatus.OPEN,
     ts_stages = [\<lparr>sg_stage_id = ''S1'', sg_status = StageStatus.OPEN, sg_completion_event_id = None\<rparr>],
     ts_evidence = [], ts_observations = [],
     ts_completion_event_id = None, ts_safe_hold_directive_id = None,
     ts_blocked_pending_resolution = False, ts_execution_authorized = True\<rparr>"

definition ex_root :: M2JobExecutionRoot where
  "ex_root = \<lparr>jr_job_id = ''J1'', jr_tasks = [ex_task, ex_crew_task],
     jr_assignments = [
       \<lparr>as_assignment_id = ''A1'', as_job_id = ''J1'', as_task_id = ''T1'', as_task_definition_version = ''v1'',
        as_kind = SINGLE, as_member_worker_ids = [''W1''], as_plan_day_ids = [''P1''],
        as_lead_worker_id = None, as_released_worker_ids = [], as_supersedes_assignment_id = None\<rparr>,
       \<lparr>as_assignment_id = ''A2'', as_job_id = ''J1'', as_task_id = ''T2'', as_task_definition_version = ''v1'',
        as_kind = CREW, as_member_worker_ids = [''W1'', ''W2''], as_plan_day_ids = [''P1''],
        as_lead_worker_id = Some ''W1'', as_released_worker_ids = [], as_supersedes_assignment_id = None\<rparr>],
     jr_job_execution_revision = 0\<rparr>"

definition ex_plan :: PlanDayRoot where
  "ex_plan = \<lparr>pd_plan_day_id = ''P1'', pd_worker_id = ''W1'', pd_business_date = 0, pd_start_at = Aware 0,
     pd_status = ISSUED, pd_worker_available = True, pd_day_close_reported = True,
     pd_start_unknown_escalated = False, pd_confirmed_plan_reference = None, pd_plan_day_revision = 0\<rparr>"

definition ex_action :: DirectiveRoot where
  "ex_action = \<lparr>dr_definition = \<lparr>dd_directive_id = ''D1'', dd_directive_type = ACTION_REQUIRED,
       dd_directive_class = ACTION, dd_worker_id = ''W1'', dd_issued_at = Aware 0,
       dd_escalation_due_at = Some (Aware 5), dd_job_id = Some ''J1'', dd_task_id = Some ''T1'',
       dd_assignment_id = Some ''A1'', dd_plan_day_id = Some ''P1'', dd_proposed_plan_reference = Some ''R1'',
       dd_issuance_sequence = 1, dd_supersedes_directive_id = None\<rparr>,
     dr_delivery_evidence = QUEUED, dr_acknowledged_event_id = None, dr_exception_event_id = None,
     dr_e1_escalated = False, dr_stop_in_force = False, dr_directive_revision = 0\<rparr>"

text \<open>A later directive of the same stream that supersedes the first one.\<close>

definition ex_later_action :: DirectiveRoot where
  "ex_later_action = ex_action\<lparr>dr_definition := (dr_definition ex_action)\<lparr>dd_directive_id := ''D3'',
     dd_issuance_sequence := 2, dd_supersedes_directive_id := Some ''D1'',
     dd_proposed_plan_reference := Some ''R2''\<rparr>\<rparr>"

definition ex_stop :: DirectiveRoot where
  "ex_stop = \<lparr>dr_definition = \<lparr>dd_directive_id = ''D2'', dd_directive_type = STOP_DIRECTIVE,
       dd_directive_class = STOP, dd_worker_id = ''W1'', dd_issued_at = Aware 0,
       dd_escalation_due_at = None, dd_job_id = Some ''J1'', dd_task_id = Some ''T1'',
       dd_assignment_id = Some ''A1'', dd_plan_day_id = None, dd_proposed_plan_reference = None,
       dd_issuance_sequence = 1, dd_supersedes_directive_id = None\<rparr>,
     dr_delivery_evidence = QUEUED, dr_acknowledged_event_id = None, dr_exception_event_id = None,
     dr_e1_escalated = False, dr_stop_in_force = False, dr_directive_revision = 0\<rparr>"

definition ex_scope :: M2ReductionScope where
  "ex_scope = \<lparr>sc_publications = [ex_publication],
     sc_worker_registry = \<lparr>wr_worker_ids = [''W1'', ''W2''], wr_registry_revision = 0\<rparr>,
     sc_job_execution_roots = [ex_root], sc_plan_day_roots = [ex_plan],
     sc_directive_roots = [ex_action, ex_stop], sc_processed_events = \<lparr>lg_receipts = []\<rparr>\<rparr>"

text \<open>The scope with the first task in safe hold, and with the STOP directive in force.\<close>

definition ex_held_scope :: M2ReductionScope where
  "ex_held_scope = ex_scope\<lparr>sc_job_execution_roots := [ex_root\<lparr>jr_tasks :=
     [ex_task\<lparr>ts_status := TaskStatus.SAFE_HOLD, ts_safe_hold_directive_id := Some ''D2'',
        ts_blocked_pending_resolution := True, ts_execution_authorized := False\<rparr>, ex_crew_task]\<rparr>]\<rparr>"

definition ex_stopped_scope :: M2ReductionScope where
  "ex_stopped_scope = ex_scope\<lparr>sc_directive_roots := [ex_action, ex_stop\<lparr>dr_stop_in_force := True\<rparr>]\<rparr>"

definition ex_superseded_scope :: M2ReductionScope where
  "ex_superseded_scope = ex_scope\<lparr>sc_directive_roots := [ex_action, ex_stop, ex_later_action]\<rparr>"

definition ex_context :: PolicyTimeContext where
  "ex_context = \<lparr>cx_now = Aware 10, cx_policy = \<lparr>po_start_unknown_escalation_enabled = True,
     po_site_problem_action = HOLD, po_early_finish_options = [RETURN_BASE], po_end_of_day_action = END_ON_SITE\<rparr>,
     cx_rule_version = ''m2-reducer-v1''\<rparr>"

definition ex_event :: FieldEventEnvelope where
  "ex_event = \<lparr>fe_event_id = ''E1'', fe_schema_version = 1, fe_event_type = TASK_COMPLETION_REPORTED,
     fe_actor_id = ''W1'', fe_occurred_at = Aware 1, fe_plan_day_id = Some ''P1'', fe_job_id = Some ''J1'',
     fe_task_id = Some ''T1'', fe_assignment_id = Some ''A1'', fe_stage_id = None, fe_directive_id = None,
     fe_against_event_id = None, fe_reason_class = None, fe_eta = None, fe_text = None,
     fe_wait_condition = None, fe_wait_until = None, fe_quantity = None, fe_unit = None,
     fe_severity_hint = None,
     fe_attachments = [\<lparr>ev_evidence_id = ''X1'', ev_kind = PHOTO, ev_content_reference = ''c''\<rparr>],
     fe_satisfied_postconditions = [''p''], fe_offline_origin = False, fe_client_context = []\<rparr>"

definition ex_input :: FieldEventInput where
  "ex_input = \<lparr>fi_event = ex_event, fi_server_event_id = ''V1''\<rparr>"

text \<open>The crew lead completes the stage.\<close>

definition ex_stage_input :: FieldEventInput where
  "ex_stage_input = \<lparr>fi_event = ex_event\<lparr>fe_event_id := ''E2'', fe_event_type := STAGE_COMPLETION_REPORTED,
     fe_task_id := Some ''T2'', fe_assignment_id := Some ''A2'', fe_stage_id := Some ''S1'',
     fe_attachments := [], fe_satisfied_postconditions := []\<rparr>, fi_server_event_id = ''V2''\<rparr>"

definition ex_ack_input :: FieldEventInput where
  "ex_ack_input = \<lparr>fi_event = ex_event\<lparr>fe_event_id := ''E3'', fe_event_type := WORKER_ACKNOWLEDGED,
     fe_directive_id := Some ''D1'', fe_attachments := [], fe_satisfied_postconditions := []\<rparr>,
     fi_server_event_id = ''V3''\<rparr>"

text \<open>The worker excepts from the STOP directive: the vehicle is unsafe.\<close>

definition ex_exception_input :: FieldEventInput where
  "ex_exception_input = \<lparr>fi_event = ex_event\<lparr>fe_event_id := ''E5'', fe_event_type := WORKER_ACTION_EXCEPTION,
     fe_plan_day_id := None, fe_directive_id := Some ''D2'', fe_reason_class := Some ''VEHICLE_UNSAFE'',
     fe_attachments := [], fe_satisfied_postconditions := []\<rparr>, fi_server_event_id = ''V5''\<rparr>"

text \<open>An event that names no task, by the wrong worker: rejected.\<close>

definition ex_rejected_input :: FieldEventInput where
  "ex_rejected_input = \<lparr>fi_event = ex_event\<lparr>fe_event_id := ''E4'', fe_event_type := WORK_START_BLOCKED,
     fe_actor_id := ''W2'', fe_task_id := None, fe_attachments := []\<rparr>, fi_server_event_id = ''V4''\<rparr>"

definition ex_close_signal :: SystemSignal where
  "ex_close_signal = \<lparr>sy_signal_id = ''G1'', sy_signal_type = END_OF_DAY_POLICY_SATISFIED,
     sy_plan_day_id = Some ''P1'', sy_directive_id = None, sy_task_id = None,
     sy_policy_result = Some END_ON_SITE\<rparr>"

text \<open>A scope whose ledger already knows \<open>ex_event\<close>.\<close>

definition ex_known_scope :: M2ReductionScope where
  "ex_known_scope = ex_scope\<lparr>sc_processed_events := \<lparr>lg_receipts = [\<lparr>rc_event = ex_event,
     rc_server_event_id = ''V1'', rc_outcome = APPLIED, rc_response_effects = [],
     rc_missing_requirements = [], rc_reason_codes = []\<rparr>]\<rparr>\<rparr>"

text \<open>A scope whose ledger holds a report of unsafe work on the first task.\<close>

definition ex_unsafe_scope :: M2ReductionScope where
  "ex_unsafe_scope = ex_scope\<lparr>sc_processed_events := \<lparr>lg_receipts = [\<lparr>rc_event = ex_event\<lparr>fe_event_id := ''E0'',
     fe_event_type := SITE_PROBLEM_REPORTED, fe_severity_hint := Some ProblemHint.UNSAFE, fe_text := Some ''x'',
     fe_reason_class := Some ''r'', fe_attachments := [], fe_satisfied_postconditions := []\<rparr>,
     rc_server_event_id = ''V0'', rc_outcome = APPLIED, rc_response_effects = [],
     rc_missing_requirements = [], rc_reason_codes = []\<rparr>]\<rparr>\<rparr>"

lemma ex_scope_ok: "scope_ok ex_scope"
  by code_simp

lemma ex_held_scope_ok: "scope_ok ex_held_scope"
  by code_simp

lemma ex_stopped_scope_ok: "scope_ok ex_stopped_scope"
  by code_simp

lemma ex_superseded_scope_ok: "scope_ok ex_superseded_scope"
  by code_simp

lemma ex_unsafe_scope_ok: "scope_ok ex_unsafe_scope"
  by code_simp

lemma ex_known_scope_ok: "scope_ok ex_known_scope"
  by code_simp

lemma ex_inputs_ok:
  "input_ok (FieldInput ex_input)" "input_ok (FieldInput ex_stage_input)" "input_ok (FieldInput ex_ack_input)"
  "input_ok (FieldInput ex_rejected_input)" "input_ok (SignalInput ex_close_signal)"
  by code_simp+

end
