(* ===== verification/Field_Properties.thy ===== *)
theory Field_Properties
  imports Field_Reduction Field_Example Machine
begin

text \<open>
  Properties of the M2 core, stated over \<open>reduce\<close> and over runs of it. A run feeds a list of inputs,
  each with its policy and time context, and keeps the resulting scope.
\<close>

section \<open>Runs\<close>

definition m2_step :: "M2ReductionScope \<Rightarrow> ExplicitInput \<times> PolicyTimeContext \<Rightarrow> M2ReductionScope result" where
  "m2_step s ic = and_then (reduce s (fst ic) (snd ic)) (\<lambda>re. Inr (re_state re))"

definition m2_run :: "M2ReductionScope \<Rightarrow> (ExplicitInput \<times> PolicyTimeContext) list \<Rightarrow> M2ReductionScope result" where
  "m2_run = run_machine m2_step"

lemma reduce_returns:
  assumes ok: "scope_ok s" and i: "input_ok i"
  shows "\<exists>re. reduce s i c = Inr re \<and> scope_ok (re_state re) \<and> scope_evolves s (re_state re)"
proof (cases "cx_rule_version c = M2_REDUCER_RULE_VERSION")
  case False
  then show ?thesis
    using reduce_unsupported_version [OF ok False, of i] ok by (simp add: Reduction_default_def)
next
  case ver: True
  show ?thesis
  proof (cases i)
    case (FieldInput inp)
    have e: "event_ok (fi_event inp)" using i FieldInput by (simp add: input_ok_def)
    show ?thesis
    proof (cases "receipt s (fe_event_id (fi_event inp))")
      case (Some x)
      then show ?thesis
        using reduce_known_event [OF ok ver Some] FieldInput ok by (auto simp: Reduction_default_def)
    next
      case None
      show ?thesis
      proof (cases "fresh_event s inp")
        case True
        then show ?thesis using reduce_fresh [OF ok e True ver] FieldInput
          by (metis finalized_reduction_sel(1) recorded_reduction_sel(1))
      next
        case False
        then obtain x where "x \<in> set (lg_receipts (sc_processed_events s))" "rc_server_event_id x = fi_server_event_id inp"
          using None by (auto simp: fresh_event_def)
        from reduce_server_conflict [OF ok ver None this] FieldInput ok show ?thesis
          by (simp add: Reduction_default_def)
      qed
    qed
  next
    case (SignalInput sig)
    then have "SystemSignal_init sig = Inr sig" using i by (simp add: input_ok_def)
    from reduce_signal [OF ok this ver] SignalInput show ?thesis
      by (metis finalized_reduction_sel(1))
  qed
qed

interpretation m2: monotone_machine m2_step scope_ok "\<lambda>ic. input_ok (fst ic)" scope_evolves
proof
  show "scope_evolves s s" for s by simp
  show "scope_evolves s s' \<Longrightarrow> scope_evolves s' s'' \<Longrightarrow> scope_evolves s s''" for s s' s''
    by (rule scope_evolves_trans)
  show "scope_ok s \<Longrightarrow> input_ok (fst ic) \<Longrightarrow> \<exists>s'. m2_step s ic = Inr s' \<and> scope_ok s' \<and> scope_evolves s s'" for s ic
    using reduce_returns [of s "fst ic" "snd ic"] by (auto simp: m2_step_def)
qed

section \<open>What the preorder says of a looked-up record\<close>

lemma all2_lookup:
  assumes "list_all2 R xs ys" and "\<And>x y. R x y \<Longrightarrow> key y = key x" and "lookup_by key k xs = Some x"
  shows "\<exists>y. lookup_by key k ys = Some y \<and> R x y"
  using assms(1,3)
proof (induction rule: list_all2_induct)
  case (Cons a as b bs)
  then show ?case using assms(2) [OF Cons(1)] by (auto split: if_splits)
qed simp

lemma concat_all2:
  "list_all2 (\<lambda>x y. list_all2 R (f x) (f y)) xs ys \<Longrightarrow> list_all2 R (concat (map f xs)) (concat (map f ys))"
  by (induction rule: list_all2_induct) (auto intro: list_all2_appendI)

lemma evolves_task:
  assumes "scope_evolves s s'" "task s k = Some t"
  shows "\<exists>t'. task s' k = Some t' \<and> task_evolves t t'"
proof -
  have "list_all2 (\<lambda>r r'. list_all2 task_evolves (jr_tasks r) (jr_tasks r')) (sc_job_execution_roots s) (sc_job_execution_roots s')"
    using assms(1) unfolding scope_evolves_def job_root_evolves_def by (auto intro: list.rel_mono_strong)
  then have "list_all2 task_evolves (tasks s) (tasks s')"
    unfolding tasks_def by (intro list_all2_sort_key concat_all2) (auto simp: task_evolves_def)
  then show ?thesis
    using all2_lookup [of task_evolves "tasks s" "tasks s'" ts_task_id k t] assms(2)
    by (simp add: task_def task_evolves_def)
qed

lemma evolves_plan_day:
  assumes "scope_evolves s s'" "plan_day s k = Some p"
  shows "\<exists>p'. plan_day s' k = Some p' \<and> plan_evolves p p'"
  using all2_lookup [of plan_evolves "sc_plan_day_roots s" "sc_plan_day_roots s'" pd_plan_day_id k p] assms
  by (simp add: plan_day_def plan_evolves_def scope_evolves_def)

lemma evolves_directive:
  assumes "scope_evolves s s'" "directive s k = Some d"
  shows "\<exists>d'. directive s' k = Some d' \<and> directive_evolves d d'"
  using all2_lookup [of directive_evolves "sc_directive_roots s" "sc_directive_roots s'" "\<lambda>d. dr_directive_id d" k d] assms
  by (simp add: directive_def directive_evolves_def scope_evolves_def)

text \<open>Look-ups in a finalised scope, up to the revision.\<close>

lemma finalized_plan_day:
  assumes "scope_evolves s s'"
  shows "map_option (set_plan_revision 0) (plan_day (finalized_scope s s') k) = map_option (set_plan_revision 0) (plan_day s' k)"
  unfolding plan_day_def
  by (rule lookup_by_same_image [where k = pd_plan_day_id, OF finalized_plan_fields [OF assms]])
    (simp_all add: set_plan_revision_def)

lemma finalized_directive:
  assumes "scope_evolves s s'"
  shows "map_option (set_directive_revision 0) (directive (finalized_scope s s') k) =
    map_option (set_directive_revision 0) (directive s' k)"
  unfolding directive_def
  by (rule lookup_by_same_image [where k = "\<lambda>d. dr_directive_id d", OF finalized_directive_fields [OF assms]])
    (simp_all add: set_directive_revision_def)

lemma with_receipt_lookups [simp]:
  "task (with_receipt r s) = task s" "assignment (with_receipt r s) = assignment s"
  "plan_day (with_receipt r s) = plan_day s" "directive (with_receipt r s) = directive s"
  "job_execution (with_receipt r s) = job_execution s"
  by (auto simp: task_def assignment_def plan_day_def directive_def job_execution_def fun_eq_iff)

lemma evolves_with_receipt: "sound_change s s' \<Longrightarrow> scope_evolves s (with_receipt r s')"
  by (auto simp: sound_change_def scope_evolves_def)

section \<open>Causes\<close>

text \<open>Which permitted transition completes a task, a stage, or puts a task on safe hold.\<close>

lemma task_after_put:
  "task s j = Some u \<Longrightarrow> ts_task_id u' = ts_task_id u \<Longrightarrow> task (put_task u' s) k = (if k = j then Some u' else task s k)"
  using task_put_task [of s u' u k] task_Some_in [of s j u] by auto

lemma problem_task_status: "ts_status (problem_task policy e t) \<in> {ts_status t, TaskStatus.DISPUTED, TaskStatus.BLOCKED}"
  by (auto simp: problem_task_def)

lemma disputed_task_status: "ts_status (disputed_task e t) \<in> {ts_status t, TaskStatus.DISPUTED}"
  by (auto simp: disputed_task_def)

lemma permitted_task_change:
  assumes p: "permitted policy s e outcome s'" and t: "task s k = Some t" "task s' k = Some t'"
  obtains (same) "t' = t"
  | (held) "outcome = APPLIED" "t' = t\<lparr>ts_status := TaskStatus.BLOCKED\<rparr>" "event_task s e t"
  | (problem) "outcome = APPLIED" "t' = problem_task policy e t" "event_task s e t"
  | (evidence) "t' = with_merged_evidence e t" "event_task s e t" "completion_open s e t"
  | (task_completed) a where "outcome = APPLIED" "t' = completed_task e t"
      "fe_event_type e \<in> {TASK_COMPLETION_REPORTED, VISIT_COMPLETION_REPORTED}" "event_task s e t" "event_assignment s e a"
      "may_complete t a (fe_actor_id e)" "completion_open s e t" "missing_completion_requirements t e = []"
  | (stage_completed) a where "outcome = APPLIED" "t' = stage_completed_task e t"
      "fe_event_type e = STAGE_COMPLETION_REPORTED" "event_task s e t" "event_assignment s e a"
      "may_complete t a (fe_actor_id e)" "completion_open s e t" "missing_completion_requirements t e = []"
  | (unsafe) "outcome = REJECTED" "t' = t\<lparr>ts_status := TaskStatus.DISPUTED, ts_stages := dispute_stages e (ts_stages t)\<rparr>"
      "fe_event_type e \<in> set completion_events" "has_unresolved_unsafe_report s e"
  | (waiting) "outcome = APPLIED" "t' = t\<lparr>ts_status := TaskStatus.WAITING\<rparr>"
  | (disputed) "outcome = APPLIED" "t' = disputed_task e t"
  | (stopped) d where "outcome = APPLIED" "t' = held_task d t" "fe_event_type e = WORKER_ACTION_EXCEPTION"
      "event_directive s e d" "dr_directive_class d = STOP" "dr_task_id d = Some k"
proof -
  have put: "t' = t \<or> k = j \<and> u = t \<and> t' = u'"
    if "s' = put_task u' s" "event_task s e u" "fe_task_id e = Some j" "task s j = Some u" "ts_task_id u' = ts_task_id u" for u u' j
    using that t task_after_put [OF that(4,5)] by (auto split: if_splits)
  have named: "\<exists>j. fe_task_id e = Some j \<and> task s j = Some u" if "event_task s e u" for u
    using that by (auto simp: event_task_def)
  show thesis
    using p
  proof (cases rule: permitted.cases)
    case (work_held u)
    with put [OF work_held(2)] named [of u] that(1,2) show thesis by (fastforce split: if_splits)
  next
    case (problem u)
    with put [OF problem(2)] named [of u] that(1,3) show thesis by fastforce
  next
    case (evidence_recorded u a)
    with put [OF evidence_recorded(2)] named [of u] that(1,4) show thesis by fastforce
  next
    case (task_completed u a)
    with put [OF task_completed(2)] named [of u] that(1) that(5) [of a] show thesis by (fastforce simp: completed_task_def)
  next
    case (stage_completed u a stage)
    with put [OF stage_completed(2)] named [of u] that(1) that(6) [of a] show thesis by (fastforce simp: stage_completed_task_def)
  next
    case (unsafe_conflict u)
    with put [OF unsafe_conflict(2)] named [of u] that(1,7) show thesis by fastforce
  next
    case (waiting u a)
    with named [of u] obtain j where "task s j = Some u" by blast
    with task_after_put [OF this, of "u\<lparr>ts_status := TaskStatus.WAITING\<rparr>" k] waiting t that(1,8) show thesis
      by (auto split: if_splits)
  next
    case (disputed u j)
    with put [OF disputed(2)] named [of u] that(1,9) show thesis by fastforce
  next
    case (stop_excepted d j u)
    let ?d = "d\<lparr>dr_exception_event_id := Some (fe_event_id e), dr_stop_in_force := True\<rparr>"
    have "task (put_directive ?d s) j = Some u" using stop_excepted by simp
    with task_after_put [OF this, of "held_task d u" k] stop_excepted t that(1) that(10) [of d] show thesis
      by (auto split: if_splits)
  qed (use t that(1) in auto)
qed

lemma changed_status [simp]:
  "ts_status (with_merged_evidence e t) = ts_status t" "ts_status (completed_task e t) = TaskStatus.DONE"
  "ts_status (stage_completed_task e t) = ts_status t" "ts_status (held_task d t) = TaskStatus.SAFE_HOLD"
  "ts_completion_event_id (completed_task e t) = Some (fe_event_id e)"
  "ts_safe_hold_directive_id (held_task d t) = Some (dr_directive_id d)"
  by (simp_all add: completed_task_def stage_completed_task_def held_task_def)

lemma permitted_done:
  assumes p: "permitted policy s e outcome s'" and t: "task s k = Some t" "task s' k = Some t'"
    and d: "ts_status t' = TaskStatus.DONE" "ts_status t \<noteq> TaskStatus.DONE"
  obtains a where "outcome = APPLIED" "fe_event_type e \<in> {TASK_COMPLETION_REPORTED, VISIT_COMPLETION_REPORTED}"
    "event_task s e t" "event_assignment s e a" "may_complete t a (fe_actor_id e)" "completion_open s e t"
    "missing_completion_requirements t e = []" "ts_completion_event_id t' = Some (fe_event_id e)"
  using p t
proof (cases rule: permitted_task_change)
  case (task_completed a)
  then show thesis using that [of a] by auto
qed (use d problem_task_status [of policy e t] disputed_task_status [of e t] in auto)

lemma permitted_held:
  assumes p: "permitted policy s e outcome s'" and t: "task s k = Some t" "task s' k = Some t'"
    and d: "ts_status t' = TaskStatus.SAFE_HOLD" "ts_status t \<noteq> TaskStatus.SAFE_HOLD"
  obtains d where "outcome = APPLIED" "fe_event_type e = WORKER_ACTION_EXCEPTION" "event_directive s e d"
    "dr_directive_class d = STOP" "dr_task_id d = Some k" "ts_safe_hold_directive_id t' = Some (dr_directive_id d)"
  using p t
proof (cases rule: permitted_task_change)
  case (stopped d)
  then show thesis using that [of d] by auto
qed (use d problem_task_status [of policy e t] disputed_task_status [of e t] in auto)

section \<open>Totality and direction\<close>

text \<open>
  C1. On a well formed scope and a validated input the reducer returns (no \<open>assert\<close>, no constructor
  check and no look-up of any handler can raise), and the scope it returns is well formed again.
\<close>

theorem reduce_total:
  assumes "scope_ok s" and "input_ok i"
  shows "\<exists>re. reduce s i c = Inr re \<and> scope_ok (re_state re)"
  using reduce_returns [OF assms] by blast

theorem reduce_total_witness:
  "\<exists>re. reduce ex_scope (FieldInput ex_input) ex_context = Inr re \<and> scope_ok (re_state re)"
  by (rule reduce_total [OF ex_scope_ok ex_inputs_ok(1)])

text \<open>
  C2. Every sequence of validated inputs runs to the end, keeps the scope well formed, and moves it
  only forwards: publications, registry, definitions, plan identity and dates are unchanged, holds,
  STOPs, acknowledgements and escalations are never undone, evidence, observations and receipts are
  only added, revisions never decrease.
\<close>

theorem m2_run_evolves:
  assumes "scope_ok s" and "\<forall>ic\<in>set is. input_ok (fst ic)"
  shows "\<exists>s'. m2_run s is = Inr s' \<and> scope_ok s' \<and> scope_evolves s s'"
  unfolding m2_run_def by (rule m2.run_total [OF assms])

theorem m2_run_evolves_witness:
  "\<exists>s'. m2_run ex_scope [(FieldInput ex_input, ex_context), (SignalInput ex_close_signal, ex_context)] = Inr s' \<and>
    scope_ok s' \<and> scope_evolves ex_scope s'"
  by (rule m2_run_evolves [OF ex_scope_ok]) (simp add: ex_inputs_ok)

text \<open>
  C3. A task on safe hold stays on safe hold to the end of every run: it is blocked pending
  resolution and its execution is not authorised, whatever events and signals arrive.
\<close>

theorem safe_hold_is_final:
  assumes "scope_ok s" and "\<forall>ic\<in>set is. input_ok (fst ic)" and "m2_run s is = Inr s'"
    and "task s k = Some t" and "ts_status t = TaskStatus.SAFE_HOLD"
  shows "\<exists>t'. task s' k = Some t' \<and> ts_status t' = TaskStatus.SAFE_HOLD \<and>
    ts_blocked_pending_resolution t' \<and> \<not> ts_execution_authorized t'"
proof -
  note run = m2.run_keeps [OF assms(1,2), folded m2_run_def, OF assms(3)]
  obtain t' where t': "task s' k = Some t'" "task_evolves t t'" using evolves_task [OF run(2) assms(4)] by blast
  have "task_checks t'" using taskE [of s' k t'] run(1) t'(1) by (auto simp: scope_ok_def)
  with t' assms(5) show ?thesis by (auto simp: task_evolves_def task_checks_def)
qed

theorem safe_hold_is_final_witness:
  "\<exists>s' t'. m2_run ex_held_scope [(FieldInput ex_input, ex_context)] = Inr s' \<and>
    task s' ''T1'' = Some t' \<and> ts_status t' = TaskStatus.SAFE_HOLD"
proof -
  have i: "\<forall>ic\<in>set [(FieldInput ex_input, ex_context)]. input_ok (fst ic)" by (simp add: ex_inputs_ok)
  obtain s' where s': "m2_run ex_held_scope [(FieldInput ex_input, ex_context)] = Inr s'"
    using m2.run_total [OF ex_held_scope_ok i] by (auto simp: m2_run_def)
  have "map_option ts_status (task ex_held_scope ''T1'') = Some TaskStatus.SAFE_HOLD" by code_simp
  then obtain t where "task ex_held_scope ''T1'' = Some t" "ts_status t = TaskStatus.SAFE_HOLD" by auto
  from safe_hold_is_final [OF ex_held_scope_ok i s' this] s' show ?thesis by blast
qed

section \<open>Completion\<close>

text \<open>
  C4. A task becomes DONE only by a completion event for that very task whose actor is entitled to
  complete it (the crew's lead, or a member of the single-worker assignment), while the task is
  open, authorised and not held, no STOP is in force for it, no unsafe report on it is unresolved,
  and nothing it requires is missing; the task then records that event.
\<close>

theorem task_done_authority:
  assumes "scope_ok s" and "input_ok i" and "reduce s i c = Inr re"
    and "task s k = Some t" and "task (re_state re) k = Some t'"
    and "ts_status t' = TaskStatus.DONE" and "ts_status t \<noteq> TaskStatus.DONE"
  shows "\<exists>inp a. i = FieldInput inp \<and> re_outcome re = APPLIED \<and>
    fe_event_type (fi_event inp) \<in> {TASK_COMPLETION_REPORTED, VISIT_COMPLETION_REPORTED} \<and>
    event_task s (fi_event inp) t \<and> event_assignment s (fi_event inp) a \<and>
    may_complete t a (fe_actor_id (fi_event inp)) \<and> completion_open s (fi_event inp) t \<and>
    missing_completion_requirements t (fi_event inp) = [] \<and>
    ts_completion_event_id t' = Some (fe_event_id (fi_event inp))"
  using assms(1-3)
proof (cases rule: reduce_cases)
  case (fresh inp s' r)
  have t': "task s' k = Some t'"
    using assms(5) fresh(7) finalized_lookups(1) [OF evolves_with_receipt [OF fresh(6)], of r] by simp
  have "permitted (cx_policy c) s (fi_event inp) (rc_outcome r) s'"
    using fresh(5) t' assms(4,6,7) by (auto simp: field_transition_def split: if_splits)
  then show ?thesis
    by (rule permitted_done [OF _ assms(4) t' assms(6,7)]) (use fresh in auto)
next
  case (signal sig raw)
  then have "task (re_state re) k = task s k"
    using finalized_lookups(1) [of s "re_state raw"] signal_permitted_sound(2) [OF _ signal(3)] assms(1)
    by (simp add: sound_change_def scope_ok_def task_def)
  with assms show ?thesis by simp
qed (use assms in auto)

theorem task_done_authority_witness:
  "\<exists>re t. reduce ex_scope (FieldInput ex_input) ex_context = Inr re \<and> task ex_scope ''T1'' = Some t \<and>
    may_complete t (hd (jr_assignments ex_root)) ''W1'' \<and>
    (\<exists>a. event_assignment ex_scope ex_event a \<and> completion_open ex_scope ex_event t)"
proof -
  have "case reduce ex_scope (FieldInput ex_input) ex_context of Inr re \<Rightarrow>
      map_option ts_status (task (re_state re) ''T1'') = Some TaskStatus.DONE | _ \<Rightarrow> False" by code_simp
  then obtain re t' where re: "reduce ex_scope (FieldInput ex_input) ex_context = Inr re"
      "task (re_state re) ''T1'' = Some t'" "ts_status t' = TaskStatus.DONE"
    by (auto split: sum.splits)
  have "case task ex_scope ''T1'' of Some t \<Rightarrow> ts_status t \<noteq> TaskStatus.DONE \<and>
      may_complete t (hd (jr_assignments ex_root)) ''W1'' | None \<Rightarrow> False" by code_simp
  then obtain t where t: "task ex_scope ''T1'' = Some t" "ts_status t \<noteq> TaskStatus.DONE"
      "may_complete t (hd (jr_assignments ex_root)) ''W1''" by (auto split: option.splits)
  from task_done_authority [OF ex_scope_ok ex_inputs_ok(1) re(1) t(1) re(2,3) t(2)] re t show ?thesis
    by (auto simp: ex_input_def)
qed

text \<open>The status of a stage after an edit, when it is \<open>DONE\<close>.\<close>

lemma done_stage_kept:
  assumes "x \<in> set (map_stages c g xs)" "sg_status x = StageStatus.DONE"
    and "\<And>y. sg_status (g y) = StageStatus.DISPUTED"
  shows "x \<in> set xs"
  using assms by (auto simp: map_stages_def split: if_splits)

lemma permitted_stage_done:
  assumes p: "permitted policy s e outcome s'" and t: "task s k = Some t" "task s' k = Some t'"
    and x: "x \<in> set (ts_stages t')" "sg_status x = StageStatus.DONE" "x \<notin> set (ts_stages t)"
  obtains a where "outcome = APPLIED" "fe_event_type e = STAGE_COMPLETION_REPORTED" "event_task s e t"
    "event_assignment s e a" "may_complete t a (fe_actor_id e)" "completion_open s e t"
    "missing_completion_requirements t e = []" "fe_stage_id e = Some (sg_stage_id x)"
    "sg_completion_event_id x = Some (fe_event_id e)"
  using p t
proof (cases rule: permitted_task_change)
  case (stage_completed a)
  then have "fe_stage_id e = Some (sg_stage_id x) \<and> sg_completion_event_id x = Some (fe_event_id e)"
    using x by (auto simp: stage_completed_task_def map_stages_def split: if_splits)
  with stage_completed that [of a] show thesis by blast
next
  case problem
  then have "x \<in> set (ts_stages t) \<or> x \<in> set (dispute_stages e (ts_stages t))"
    using x by (auto simp: problem_task_def split: if_splits)
  then show thesis using x(2,3) done_stage_kept unfolding dispute_stages_def by force
next
  case disputed
  then have "x \<in> set (ts_stages t) \<or> x \<in> set (dispute_stages e (ts_stages t))"
    using x by (auto simp: disputed_task_def split: if_splits)
  then show thesis using x(2,3) done_stage_kept unfolding dispute_stages_def by force
next
  case unsafe
  then have "x \<in> set (dispute_stages e (ts_stages t))" using x by simp
  then show thesis using x(2,3) done_stage_kept unfolding dispute_stages_def by force
qed (use x in \<open>auto simp: completed_task_def held_task_def\<close>)

text \<open>
  A stage becomes DONE (or gets a new completion) only by a stage completion for that very stage
  of that task, under the same authority and gates, and it records that event.
\<close>

theorem stage_done_authority:
  assumes "scope_ok s" and "input_ok i" and "reduce s i c = Inr re"
    and "task s k = Some t" and "task (re_state re) k = Some t'"
    and "x \<in> set (ts_stages t')" and "sg_status x = StageStatus.DONE" and "x \<notin> set (ts_stages t)"
  shows "\<exists>inp a. i = FieldInput inp \<and> re_outcome re = APPLIED \<and>
    fe_event_type (fi_event inp) = STAGE_COMPLETION_REPORTED \<and> fe_stage_id (fi_event inp) = Some (sg_stage_id x) \<and>
    event_task s (fi_event inp) t \<and> event_assignment s (fi_event inp) a \<and>
    may_complete t a (fe_actor_id (fi_event inp)) \<and> completion_open s (fi_event inp) t \<and>
    missing_completion_requirements t (fi_event inp) = [] \<and>
    sg_completion_event_id x = Some (fe_event_id (fi_event inp))"
  using assms(1-3)
proof (cases rule: reduce_cases)
  case (fresh inp s' r)
  have t': "task s' k = Some t'"
    using assms(5) fresh(7) finalized_lookups(1) [OF evolves_with_receipt [OF fresh(6)], of r] by simp
  have "permitted (cx_policy c) s (fi_event inp) (rc_outcome r) s'"
    using fresh(5) t' assms(4,6,8) by (auto simp: field_transition_def split: if_splits)
  then show ?thesis
    by (rule permitted_stage_done [OF _ assms(4) t' assms(6-8)]) (use fresh in auto)
next
  case (signal sig raw)
  then have "task (re_state re) k = task s k"
    using finalized_lookups(1) [of s "re_state raw"] signal_permitted_sound(2) [OF _ signal(3)] assms(1)
    by (simp add: sound_change_def scope_ok_def task_def)
  with assms show ?thesis by simp
qed (use assms in auto)

theorem stage_done_authority_witness:
  "\<exists>t. task ex_scope ''T2'' = Some t \<and>
    (\<exists>a. event_assignment ex_scope (fi_event ex_stage_input) a \<and> may_complete t a ''W1'')"
proof -
  have "case reduce ex_scope (FieldInput ex_stage_input) ex_context of Inr re \<Rightarrow>
      (case task (re_state re) ''T2'' of Some t' \<Rightarrow> map sg_status (ts_stages t') = [StageStatus.DONE] | None \<Rightarrow> False)
    | _ \<Rightarrow> False" by code_simp
  then obtain re t' where re: "reduce ex_scope (FieldInput ex_stage_input) ex_context = Inr re"
      "task (re_state re) ''T2'' = Some t'" "map sg_status (ts_stages t') = [StageStatus.DONE]"
    by (auto split: sum.splits option.splits)
  then obtain x where x: "x \<in> set (ts_stages t')" "sg_status x = StageStatus.DONE" by auto
  have "case task ex_scope ''T2'' of Some t \<Rightarrow> \<forall>y\<in>set (ts_stages t). sg_status y \<noteq> StageStatus.DONE
    | None \<Rightarrow> False" by code_simp
  then obtain t where t: "task ex_scope ''T2'' = Some t" "x \<notin> set (ts_stages t)"
    using x by (auto split: option.splits)
  from stage_done_authority [OF ex_scope_ok ex_inputs_ok(2) re(1) t(1) re(2) x t(2)] t show ?thesis
    by (auto simp: ex_stage_input_def ex_event_def)
qed

section \<open>Revisions and deltas\<close>

lemma zip_ident_unique:
  assumes "distinct (map f xs)" "(x, y) \<in> set (zip xs ys)" "(x', y') \<in> set (zip xs ys)" "f x = f x'"
  shows "x = x' \<and> y = y'"
  using assms
proof -
  obtain i j where "i < length xs" "i < length ys" "x = xs ! i" "y = ys ! i"
      "j < length xs" "j < length ys" "x' = xs ! j" "y' = ys ! j"
    using assms(2,3) by (auto simp: in_set_zip)
  moreover have "i = j" using assms(1,4) calculation nth_eq_iff_index_eq [of "map f xs" i j] by simp
  ultimately show ?thesis by simp
qed

text \<open>The state of a root after a list of deltas: the delta of its identity, when there is one.\<close>

definition delta_for :: "RootDelta list \<Rightarrow> RootKind \<Rightarrow> string \<Rightarrow> RootDelta option" where
  "delta_for ds kind root_id = lookup_by (\<lambda>d. (rd_root_kind d, rd_root_id d)) (kind, root_id) ds"

fun job_after :: "RootDelta list \<Rightarrow> M2JobExecutionRoot \<Rightarrow> M2JobExecutionRoot" where
  "job_after ds r = (case delta_for ds JOB_EXECUTION (jr_job_id r) of
     Some d \<Rightarrow> (case rd_next_root d of JobRoot r' \<Rightarrow> r' | _ \<Rightarrow> r) | None \<Rightarrow> r)"

fun plan_after :: "RootDelta list \<Rightarrow> PlanDayRoot \<Rightarrow> PlanDayRoot" where
  "plan_after ds r = (case delta_for ds PLAN_DAY (pd_plan_day_id r) of
     Some d \<Rightarrow> (case rd_next_root d of PlanRoot r' \<Rightarrow> r' | _ \<Rightarrow> r) | None \<Rightarrow> r)"

fun directive_after :: "RootDelta list \<Rightarrow> DirectiveRoot \<Rightarrow> DirectiveRoot" where
  "directive_after ds r = (case delta_for ds DIRECTIVE (dr_directive_id r) of
     Some d \<Rightarrow> (case rd_next_root d of DirRoot r' \<Rightarrow> r' | _ \<Rightarrow> r) | None \<Rightarrow> r)"

text \<open>Among the deltas of one group, the one of a root.\<close>

definition group_deltas ::
    "RootKind \<Rightarrow> ('a \<Rightarrow> string) \<Rightarrow> ('a \<Rightarrow> int) \<Rightarrow> (int \<Rightarrow> 'a \<Rightarrow> 'a) \<Rightarrow> ('a \<Rightarrow> RootState) \<Rightarrow> 'a list \<Rightarrow> 'a list \<Rightarrow> RootDelta list" where
  "group_deltas kind ident revision set_revision wrap ps cs =
     List.map_filter (\<lambda>x. x) (map2 (root_delta kind ident revision set_revision wrap) ps cs)"

lemma set_group_deltas:
  "set (group_deltas kind ident revision set_revision wrap ps cs) =
    {d. \<exists>(p, c) \<in> set (zip ps cs). root_delta kind ident revision set_revision wrap p c = Some d}"
  by (force simp: group_deltas_def map_filter_def)

lemma root_delta_key:
  "root_delta kind ident revision set_revision wrap p c = Some d \<Longrightarrow> rd_root_kind d = kind \<and> rd_root_id d = ident p"
  by (auto simp: root_delta_def split: if_splits)

lemma group_deltas_kind:
  "d \<in> set (group_deltas kind ident revision set_revision wrap ps cs) \<Longrightarrow> rd_root_kind d = kind"
  by (auto simp: set_group_deltas dest: root_delta_key)

lemma delta_for_group:
  assumes ds: "\<And>d. d \<in> set ds \<and> rd_root_kind d = kind \<longleftrightarrow>
      d \<in> set (group_deltas kind ident revision set_revision wrap ps cs)"
    and dist: "distinct (map ident ps)" and pc: "(p, c) \<in> set (zip ps cs)"
  shows "delta_for ds kind (ident p) = root_delta kind ident revision set_revision wrap p c"
proof (cases "delta_for ds kind (ident p)")
  case None
  have "root_delta kind ident revision set_revision wrap p c \<noteq> Some d" for d
  proof
    assume d: "root_delta kind ident revision set_revision wrap p c = Some d"
    with pc have "d \<in> set (group_deltas kind ident revision set_revision wrap ps cs)"
      by (auto simp: set_group_deltas)
    with ds [of d] have "d \<in> set ds" by simp
    with None root_delta_key [OF d] show False
      by (auto simp: delta_for_def lookup_by_None_iff image_iff)
  qed
  with None show ?thesis by (metis not_Some_eq)
next
  case (Some d)
  then have d: "d \<in> set ds" "rd_root_kind d = kind" "rd_root_id d = ident p"
    by (auto simp: delta_for_def dest: lookup_by_Some)
  with ds [of d] obtain p' c' where p': "(p', c') \<in> set (zip ps cs)"
    "root_delta kind ident revision set_revision wrap p' c' = Some d"
    by (auto simp: set_group_deltas)
  have "ident p = ident p'" using d(3) root_delta_key [OF p'(2)] by simp
  from zip_ident_unique [OF dist pc p'(1) this] p'(2) Some show ?thesis by metis
qed

lemma scope_deltas_groups:
  "set (scope_deltas s s') =
    set (group_deltas JOB_EXECUTION jr_job_id jr_job_execution_revision set_job_revision JobRoot
      (sc_job_execution_roots s) (sc_job_execution_roots s')) \<union>
    set (group_deltas PLAN_DAY pd_plan_day_id pd_plan_day_revision set_plan_revision PlanRoot
      (sc_plan_day_roots s) (sc_plan_day_roots s')) \<union>
    set (group_deltas DIRECTIVE (\<lambda>d. dr_directive_id d) dr_directive_revision set_directive_revision DirRoot
      (sc_directive_roots s) (sc_directive_roots s'))"
  by (simp add: scope_deltas_def group_deltas_def Un_assoc)

lemma map_zip_eq:
  "length xs = length ys \<Longrightarrow> (\<And>x y. (x, y) \<in> set (zip xs ys) \<Longrightarrow> g x = f x y) \<Longrightarrow> map g xs = map2 f xs ys"
  by (induction xs ys rule: list_induct2) auto

lemma deltas_give_roots:
  assumes v: "scope_valid s" and e: "scope_evolves s s'"
  shows "map (job_after (scope_deltas s s')) (sc_job_execution_roots s) = sc_job_execution_roots (finalized_scope s s')"
    and "map (plan_after (scope_deltas s s')) (sc_plan_day_roots s) = sc_plan_day_roots (finalized_scope s s')"
    and "map (directive_after (scope_deltas s s')) (sc_directive_roots s) = sc_directive_roots (finalized_scope s s')"
proof -
  note len = evolves_lengths [OF e]
  let ?ds = "scope_deltas s s'"
  have kinds: "d \<in> set ?ds \<and> rd_root_kind d = JOB_EXECUTION \<longleftrightarrow>
      d \<in> set (group_deltas JOB_EXECUTION jr_job_id jr_job_execution_revision set_job_revision JobRoot
        (sc_job_execution_roots s) (sc_job_execution_roots s'))"
    "d \<in> set ?ds \<and> rd_root_kind d = PLAN_DAY \<longleftrightarrow>
      d \<in> set (group_deltas PLAN_DAY pd_plan_day_id pd_plan_day_revision set_plan_revision PlanRoot
        (sc_plan_day_roots s) (sc_plan_day_roots s'))"
    "d \<in> set ?ds \<and> rd_root_kind d = DIRECTIVE \<longleftrightarrow>
      d \<in> set (group_deltas DIRECTIVE (\<lambda>d. dr_directive_id d) dr_directive_revision set_directive_revision DirRoot
        (sc_directive_roots s) (sc_directive_roots s'))" for d
    by (auto simp: scope_deltas_groups dest: group_deltas_kind)
  show "map (job_after ?ds) (sc_job_execution_roots s) = sc_job_execution_roots (finalized_scope s s')"
    unfolding finalized_scope_def using len(1) delta_for_group [OF kinds(1) scope_validD(8) [OF v]]
    by (auto intro!: map_zip_eq simp: root_delta_def finalized_value_def)
  show "map (plan_after ?ds) (sc_plan_day_roots s) = sc_plan_day_roots (finalized_scope s s')"
    unfolding finalized_scope_def using len(2) delta_for_group [OF kinds(2) scope_validD(9) [OF v]]
    by (auto intro!: map_zip_eq simp: root_delta_def finalized_value_def)
  show "map (directive_after ?ds) (sc_directive_roots s) = sc_directive_roots (finalized_scope s s')"
    unfolding finalized_scope_def using len(3) delta_for_group [OF kinds(3) scope_validD(10) [OF v]]
    by (auto intro!: map_zip_eq simp: root_delta_def finalized_value_def)
qed

text \<open>
  A completion event that reaches the gate and meets a report of unsafe work that is not resolved: its
  references and its type are right, its actor may complete the task, and the task is not on safe hold.
\<close>

definition completion_conflict :: "M2ReductionScope \<Rightarrow> FieldEventEnvelope \<Rightarrow> TaskState \<Rightarrow> bool" where
  "completion_conflict s e t \<longleftrightarrow> fe_event_type e \<in> set completion_events \<and> reference_errors s e = [] \<and>
     event_task s e t \<and> expected_completion_type (fe_event_type e) = Some (td_completion_type (ts_definition t)) \<and>
     (\<exists>a. event_assignment s e a \<and> may_complete t a (fe_actor_id e)) \<and>
     has_unresolved_unsafe_report s e \<and> \<not> safe_hold_active t"




text \<open>Every reduction is a finalisation of what its branch returned.\<close>

lemma reduce_finalized:
  assumes "scope_ok s" "input_ok i" "reduce s i c = Inr re"
  obtains s' where "scope_evolves s s'" "re_state re = finalized_scope s s'" "re_root_deltas re = scope_deltas s s'"
    "re_outcome re = NOOP \<or> re_outcome re = REJECTED \<Longrightarrow>
       (\<exists>inp t. i = FieldInput inp \<and> cx_rule_version c = M2_REDUCER_RULE_VERSION \<and> fresh_event s inp \<and>
         completion_conflict s (fi_event inp) t) \<or>
       sc_job_execution_roots s' = sc_job_execution_roots s \<and> sc_plan_day_roots s' = sc_plan_day_roots s \<and>
       sc_directive_roots s' = sc_directive_roots s"
  using assms
proof (cases rule: reduce_cases)
  case (fresh inp s' r)
  have "rc_outcome r = NOOP \<or> rc_outcome r = REJECTED \<Longrightarrow> s' = s \<or> (\<exists>t. completion_conflict s (fi_event inp) t)"
    using fresh(5)
    by (cases "reference_errors s (fi_event inp) = []")
      (auto simp: field_transition_def completion_conflict_def elim!: permitted.cases)
  then show thesis
    using fresh by (intro that [of "with_receipt r s'"] evolves_with_receipt) auto
next
  case (signal sig raw)
  then show thesis by (intro that [of "re_state raw"]) (auto simp: sound_change_def)
qed (use that [of s] in \<open>auto simp: finalized_scope_same scope_deltas_same\<close>)

text \<open>
  C5. Revision discipline. In every reduction each root either keeps its value, revision included,
  or moves to exactly its next revision; every delta spans exactly one revision.
\<close>

theorem revision_discipline:
  assumes "scope_ok s" and "input_ok i" and "reduce s i c = Inr re"
  shows "list_all2 (\<lambda>r r'. r' = r \<or> jr_job_execution_revision r' = jr_job_execution_revision r + 1)
      (sc_job_execution_roots s) (sc_job_execution_roots (re_state re)) \<and>
    list_all2 (\<lambda>p p'. p' = p \<or> pd_plan_day_revision p' = pd_plan_day_revision p + 1)
      (sc_plan_day_roots s) (sc_plan_day_roots (re_state re)) \<and>
    list_all2 (\<lambda>d d'. d' = d \<or> dr_directive_revision d' = dr_directive_revision d + 1)
      (sc_directive_roots s) (sc_directive_roots (re_state re)) \<and>
    (\<forall>d\<in>set (re_root_deltas re). rd_resulting_revision d = rd_expected_revision d + 1)"
proof (rule reduce_finalized [OF assms])
  fix s' assume e: "scope_evolves s s'" and st: "re_state re = finalized_scope s s'" "re_root_deltas re = scope_deltas s s'"
  show ?thesis
    using evolves_lengths [OF e]
    by (auto simp: st finalized_scope_def finalized_value_def list_all2_conv_all_nth scope_deltas_groups
        set_group_deltas root_delta_def set_job_revision_def set_plan_revision_def set_directive_revision_def
        split: if_splits)
qed

theorem revision_discipline_witness:
  "\<exists>re. reduce ex_scope (FieldInput ex_input) ex_context = Inr re \<and>
    list_all2 (\<lambda>r r'. r' = r \<or> jr_job_execution_revision r' = jr_job_execution_revision r + 1)
      (sc_job_execution_roots ex_scope) (sc_job_execution_roots (re_state re))"
proof -
  obtain re where re: "reduce ex_scope (FieldInput ex_input) ex_context = Inr re"
    using reduce_returns [OF ex_scope_ok ex_inputs_ok(1)] by blast
  from revision_discipline [OF ex_scope_ok ex_inputs_ok(1) re] re show ?thesis by blast
qed

text \<open>
  C6. The deltas are complete: replacing in the old scope exactly the roots that have a delta, by the
  delta's next root, gives all roots of the new scope. Persisting the deltas persists the reduction.
\<close>

theorem deltas_determine_roots:
  assumes "scope_ok s" and "input_ok i" and "reduce s i c = Inr re"
  shows "map (job_after (re_root_deltas re)) (sc_job_execution_roots s) = sc_job_execution_roots (re_state re) \<and>
    map (plan_after (re_root_deltas re)) (sc_plan_day_roots s) = sc_plan_day_roots (re_state re) \<and>
    map (directive_after (re_root_deltas re)) (sc_directive_roots s) = sc_directive_roots (re_state re)"
proof (rule reduce_finalized [OF assms])
  fix s' assume e: "scope_evolves s s'" and st: "re_state re = finalized_scope s s'" "re_root_deltas re = scope_deltas s s'"
  have "scope_valid s" using assms(1) by (simp add: scope_ok_def)
  from deltas_give_roots [OF this e] show ?thesis by (simp add: st)
qed

theorem deltas_determine_roots_witness:
  "\<exists>re. reduce ex_scope (FieldInput ex_ack_input) ex_context = Inr re \<and>
    map (plan_after (re_root_deltas re)) (sc_plan_day_roots ex_scope) = sc_plan_day_roots (re_state re)"
proof -
  obtain re where re: "reduce ex_scope (FieldInput ex_ack_input) ex_context = Inr re"
    using reduce_returns [OF ex_scope_ok ex_inputs_ok(3)] by blast
  from deltas_determine_roots [OF ex_scope_ok ex_inputs_ok(3) re] re show ?thesis by blast
qed

section \<open>The ledger\<close>

lemma lookup_by_same_set:
  assumes "distinct (map key xs)" "distinct (map key ys)" "set xs = set ys"
  shows "lookup_by key k xs = lookup_by key k ys"
proof (cases "lookup_by key k ys")
  case None
  then show ?thesis using assms(3) by (metis lookup_by_None_iff)
next
  case (Some y)
  then show ?thesis
    using lookup_by_distinct_iff [OF assms(1), of k y] lookup_by_distinct_iff [OF assms(2), of k y] assms(3) by simp
qed

lemma lookup_by_append: "lookup_by key k (xs @ ys) = (case lookup_by key k xs of None \<Rightarrow> lookup_by key k ys | Some x \<Rightarrow> Some x)"
  by (induction xs) auto

lemma receipt_with_receipt:
  assumes v: "scope_valid s" and f: "fresh_receipt r (sc_processed_events s)"
  shows "receipt (with_receipt r s) = (receipt s)(rc_event_id r \<mapsto> r)"
proof
  fix k
  let ?xs = "lg_receipts (sc_processed_events s) @ [r]"
  have d: "distinct (map rc_event_id ?xs)"
    using scope_validD(5) [OF v] f by (auto simp: ledger_ok_def ProcessedEventLedger_init_ok fresh_receipt_def)
  have "receipt (with_receipt r s) k = lookup_by rc_event_id k ?xs"
    unfolding receipt_def ledger_receipt_def with_receipt_sel appended_def
    using lookup_by_same_set [of rc_event_id "sort_key rc_event_id ?xs" ?xs k] d by simp
  moreover have "lookup_by rc_event_id (rc_event_id r) (lg_receipts (sc_processed_events s)) = None"
    using f by (simp add: lookup_by_None_iff fresh_receipt_def)
  ultimately show "receipt (with_receipt r s) k = ((receipt s)(rc_event_id r \<mapsto> r)) k"
    by (auto simp: lookup_by_append receipt_def ledger_receipt_def split: option.splits)
qed

lemma receipt_finalized [simp]: "receipt (finalized_scope s s') = receipt s'"
  by (auto simp: receipt_def fun_eq_iff)

lemma receipt_same_events: "sc_processed_events s' = sc_processed_events s \<Longrightarrow> receipt s' = receipt s"
  by (auto simp: receipt_def fun_eq_iff)

lemma receipt_fresh_reduction:
  assumes ok: "scope_ok s" and c: "sound_change s s'" and f: "fresh_event s inp" and e: "event_ok (fi_event inp)"
    and t: "field_transition policy s inp s' r"
  shows "receipt (finalized_scope s (with_receipt r s')) = (receipt s)(fe_event_id (fi_event inp) \<mapsto> r)"
proof -
  have r: "rc_event r = fi_event inp" "rc_server_event_id r = fi_server_event_id inp"
    using t by (simp_all add: field_transition_def)
  have c': "scope_valid s'" "sc_processed_events s' = sc_processed_events s" using c by (simp_all add: sound_change_def)
  have "fresh_receipt r (sc_processed_events s')" using fresh_event_receipt [OF f r] c' by simp
  from receipt_with_receipt [OF c'(1) this] receipt_same_events [OF c'(2)] r show ?thesis by simp
qed

text \<open>
  C7. The ledger refines a write-once map from event identities to receipts: a reduction either
  leaves the map as it is, or binds one identity that was unbound, to the receipt it returns, which
  is the submitted event's and carries the reduction's own outcome.
\<close>

theorem ledger_is_write_once:
  assumes "scope_ok s" and "input_ok i" and "reduce s i c = Inr re"
  shows "(case re_appended_receipt re of
      None \<Rightarrow> receipt (re_state re) = receipt s
    | Some r \<Rightarrow> receipt s (rc_event_id r) = None \<and> receipt (re_state re) = (receipt s)(rc_event_id r \<mapsto> r) \<and>
        rc_outcome r = re_outcome re \<and> rc_response_effects r = re_emitted_effects re \<and>
        i = FieldInput \<lparr>fi_event = rc_event r, fi_server_event_id = rc_server_event_id r\<rparr>)"
  using assms
proof (cases rule: reduce_cases)
  case (fresh inp s' r)
  have r: "rc_event r = fi_event inp" "rc_server_event_id r = fi_server_event_id inp"
    using fresh(5) by (simp_all add: field_transition_def)
  show ?thesis
    using receipt_fresh_reduction [OF assms(1) fresh(6,4,3,5)] fresh r
    by (simp add: fresh_event_def)
next
  case (signal sig raw)
  then show ?thesis using receipt_same_events [of "re_state raw" s] by (simp add: sound_change_def)
qed simp_all

theorem ledger_is_write_once_witness:
  "\<exists>re r. reduce ex_scope (FieldInput ex_input) ex_context = Inr re \<and>
    receipt (re_state re) = (receipt ex_scope)(''E1'' \<mapsto> r) \<and> rc_outcome r = APPLIED"
proof -
  have "case reduce ex_scope (FieldInput ex_input) ex_context of Inr re \<Rightarrow>
      re_outcome re = APPLIED \<and> map_option rc_event_id (re_appended_receipt re) = Some ''E1'' | _ \<Rightarrow> False" by code_simp
  then obtain re r where re: "reduce ex_scope (FieldInput ex_input) ex_context = Inr re"
      "re_appended_receipt re = Some r" "rc_event_id r = ''E1''" "re_outcome re = APPLIED"
    by (auto split: sum.splits)
  from ledger_is_write_once [OF ex_scope_ok ex_inputs_ok(1) re(1)] re show ?thesis by auto
qed

text \<open>
  C8. Exactly once. Submitting an event a second time, whatever the policy and the clock say by then,
  returns the answer of the first time and changes nothing: same outcome, response effects, missing
  requirements, reasons and server identity, no delta, no receipt, and no effect emitted again.
\<close>

theorem retry_is_exactly_once:
  assumes "scope_ok s" and "input_ok (FieldInput inp)" and "fresh_event s inp"
    and "cx_rule_version c = M2_REDUCER_RULE_VERSION" and "cx_rule_version c' = M2_REDUCER_RULE_VERSION"
    and "reduce s (FieldInput inp) c = Inr re"
  shows "reduce (re_state re) (FieldInput inp) c' =
    Inr (re\<lparr>re_root_deltas := [], re_appended_receipt := None, re_emitted_effects := [], re_replayed := True\<rparr>)"
proof -
  have e: "event_ok (fi_event inp)" using assms(2) by (simp add: input_ok_def)
  obtain s' r where f: "field_transition (cx_policy c) s inp s' r" "sound_change s s'"
    "reduce s (FieldInput inp) c = Inr (finalized_reduction s (recorded_reduction s' r))"
    "scope_ok (finalized_scope s (with_receipt r s'))"
    by (rule reduce_fresh [OF assms(1) e assms(3,4)])
  have re: "re = finalized_reduction s (recorded_reduction s' r)" using f(3) assms(6) by simp
  have "receipt (re_state re) (fe_event_id (fi_event inp)) = Some r"
    using receipt_fresh_reduction [OF assms(1) f(2) assms(3) e f(1)] by (simp add: re)
  moreover have "rc_event r = fi_event inp" using f(1) by (simp add: field_transition_def)
  ultimately show ?thesis
    using reduce_known_event [of "re_state re" c' inp r] f(4) assms(5)
    by (simp add: re finalized_reduction_def recorded_reduction_def Reduction_default_def)
qed

theorem retry_is_exactly_once_witness:
  "\<exists>re. reduce ex_scope (FieldInput ex_input) ex_context = Inr re \<and>
    reduce (re_state re) (FieldInput ex_input) ex_context =
      Inr (re\<lparr>re_root_deltas := [], re_appended_receipt := None, re_emitted_effects := [], re_replayed := True\<rparr>)"
proof -
  obtain re where re: "reduce ex_scope (FieldInput ex_input) ex_context = Inr re"
    using reduce_returns [OF ex_scope_ok ex_inputs_ok(1)] by blast
  have f: "fresh_event ex_scope ex_input" and v: "cx_rule_version ex_context = M2_REDUCER_RULE_VERSION"
    by code_simp+
  from retry_is_exactly_once [OF ex_scope_ok ex_inputs_ok(1) f v v re] re show ?thesis by blast
qed

text \<open>
  A known or conflicting identity changes nothing: when the event's identity is in the ledger,
  or its server identity is, the reduction returns the scope unchanged, without delta, receipt or
  emitted effect; a different event under a known identity is rejected as a conflict.
\<close>

theorem known_identity_changes_nothing:
  assumes "scope_ok s" and "input_ok (FieldInput inp)" and "\<not> fresh_event s inp"
    and "reduce s (FieldInput inp) c = Inr re"
  shows "re_state re = s \<and> re_root_deltas re = [] \<and> re_appended_receipt re = None \<and> re_emitted_effects re = [] \<and>
    (case receipt s (fe_event_id (fi_event inp)) of None \<Rightarrow> re_outcome re = REJECTED
     | Some r \<Rightarrow> re_outcome re = (if rc_event r = fi_event inp \<and> cx_rule_version c = M2_REDUCER_RULE_VERSION
         then rc_outcome r else REJECTED))"
proof (cases "cx_rule_version c = M2_REDUCER_RULE_VERSION")
  case False
  then show ?thesis
    using reduce_unsupported_version [OF assms(1) False] assms(4)
    by (auto simp: Reduction_default_def split: option.splits)
next
  case ver: True
  show ?thesis
  proof (cases "receipt s (fe_event_id (fi_event inp))")
    case (Some r)
    then show ?thesis
      using reduce_known_event [OF assms(1) ver Some] assms(4) ver
      by (auto simp: Reduction_default_def)
  next
    case None
    then obtain r where "r \<in> set (lg_receipts (sc_processed_events s))" "rc_server_event_id r = fi_server_event_id inp"
      using assms(3) by (auto simp: fresh_event_def)
    from reduce_server_conflict [OF assms(1) ver None this] assms(4) None show ?thesis
      by (auto simp: Reduction_default_def)
  qed
qed

theorem known_identity_changes_nothing_witness:
  "\<exists>re. reduce ex_known_scope (FieldInput ex_input) ex_context = Inr re \<and> re_state re = ex_known_scope \<and>
    re_emitted_effects re = []"
proof -
  obtain re where re: "reduce ex_known_scope (FieldInput ex_input) ex_context = Inr re"
    using reduce_returns [OF ex_known_scope_ok ex_inputs_ok(1)] by blast
  have f: "\<not> fresh_event ex_known_scope ex_input" by code_simp
  from known_identity_changes_nothing [OF ex_known_scope_ok ex_inputs_ok(1) f re] re show ?thesis by blast
qed

section \<open>Refusals\<close>





text \<open>
  C10. A STOP in force blocks completion: while a directive of the scope stops the event's task,
  assignment, plan day or worker, a completion event is rejected. The one exception is the exact replay of
  an event that the ledger knows: it repeats the stored answer and does nothing, with no change of the
  scope, no receipt, no delta and no emitted effect.
\<close>

theorem stop_blocks_completion:
  assumes "scope_ok s" and "input_ok (FieldInput inp)" and "reduce s (FieldInput inp) c = Inr re"
    and "fe_event_type (fi_event inp) \<in> set completion_events"
    and "completion_blocked_by_stop s (fi_event inp)"
  shows "re_outcome re = REJECTED \<or>
    (\<exists>r. receipt s (fe_event_id (fi_event inp)) = Some r \<and> rc_event r = fi_event inp \<and> re_outcome re = rc_outcome r) \<and>
    re_state re = s \<and> re_root_deltas re = [] \<and> re_appended_receipt re = None \<and> re_emitted_effects re = []"
  using assms(1,2,3)
proof (cases rule: reduce_cases)
  case (fresh inp' s' r)
  have "rc_outcome r = REJECTED"
  proof (cases "reference_errors s (fi_event inp) = []")
    case False
    then show ?thesis using fresh by (auto simp: field_transition_def)
  next
    case True
    then have "permitted (cx_policy c) s (fi_event inp) (rc_outcome r) s'"
      using fresh by (simp add: field_transition_def)
    then show ?thesis
      using assms(4,5)
      by (cases rule: permitted.cases) (auto simp: completion_events_def completion_open_def completion_gate_Nil)
  qed
  then show ?thesis using fresh by simp
next
  case (known inp' r)
  then show ?thesis by (cases "rc_event r = fi_event inp") auto
qed auto

theorem stop_blocks_completion_witness:
  "\<exists>re. reduce ex_stopped_scope (FieldInput ex_input) ex_context = Inr re \<and> re_outcome re = REJECTED"
proof -
  obtain re where re: "reduce ex_stopped_scope (FieldInput ex_input) ex_context = Inr re"
    using reduce_returns [OF ex_stopped_scope_ok ex_inputs_ok(1)] by blast
  have f: "receipt ex_stopped_scope (fe_event_id (fi_event ex_input)) = None" 
    and t: "fe_event_type (fi_event ex_input) \<in> set completion_events"
    and b: "completion_blocked_by_stop ex_stopped_scope (fi_event ex_input)" by code_simp+
  from stop_blocks_completion [OF ex_stopped_scope_ok ex_inputs_ok(1) re t b] f re show ?thesis by simp
qed

section \<open>Directives\<close>

text \<open>The authority checks on a directive read the skeleton only.\<close>

lemma length_cases_same_image:
  "map f xs = map f ys \<Longrightarrow> (case xs of [] \<Rightarrow> a | [_] \<Rightarrow> b | _ \<Rightarrow> c) = (case ys of [] \<Rightarrow> a | [_] \<Rightarrow> b | _ \<Rightarrow> c)"
  by (auto simp: Cons_eq_map_conv split: list.splits)

lemma map_filter_same_image:
  "map f xs = map f ys \<Longrightarrow> (\<And>x y. f x = f y \<Longrightarrow> P x = Q y) \<Longrightarrow> map f (filter P xs) = map f (filter Q ys)"
proof (induction xs arbitrary: ys)
  case (Cons x xs)
  then obtain y zs where y: "ys = y # zs" "f x = f y" "map f xs = map f zs" by (auto simp: Cons_eq_map_conv)
  with Cons.prems(2) have "P x = Q y" by blast
  with y Cons.IH [OF y(3) Cons.prems(2)] show ?case by simp
qed simp

lemma directive_context_skeleton:
  assumes s: "scope_skeleton s' = scope_skeleton s" and d: "dr_definition d' = dr_definition d"
    and t: "map_option ts_definition t' = map_option ts_definition t"
  shows "map assignment_skeleton (directive_context_matches s' d' t') =
    map assignment_skeleton (directive_context_matches s d t)"
  unfolding directive_context_matches_def
proof (rule map_filter_same_image [OF assignments_skeleton [OF s]], goal_cases)
  case (1 x y)
  from t show ?case
    by (cases rule: map_option_eqE) (auto simp: assignment_skeletonD [OF 1] d split: option.splits)
qed

lemma directive_scope_errors_skeleton:
  assumes s: "scope_skeleton s' = scope_skeleton s" and d: "dr_definition d' = dr_definition d"
  shows "directive_scope_errors s' d' = directive_scope_errors s d"
proof -
  have t: "map_option ts_definition (Option.bind (dr_task_id d) (task s')) =
      map_option ts_definition (Option.bind (dr_task_id d) (task s))"
    by (rule bind_same_image) (rule task_skeleton [OF s])
  have a: "map_option assignment_skeleton (Option.bind (dr_assignment_id d) (assignment s')) =
      map_option assignment_skeleton (Option.bind (dr_assignment_id d) (assignment s))"
    by (rule bind_same_image) (rule assignment_skeleton_lookup [OF s])
  have p: "map_option (\<lambda>p. (pd_plan_day_id p, pd_worker_id p)) (Option.bind (dr_plan_day_id d) (plan_day s')) =
      map_option (\<lambda>p. (pd_plan_day_id p, pd_worker_id p)) (Option.bind (dr_plan_day_id d) (plan_day s))"
    by (rule bind_same_image) (rule plan_day_skeleton [OF s])
  have j: "job_execution s' j = None \<longleftrightarrow> job_execution s j = None" for j
    using job_execution_skeleton [OF s, of j] by (cases "job_execution s' j"; cases "job_execution s j") auto
  have w: "worker_ids s' = worker_ids s" using skeletonD(2) [OF s] by simp
  have c: "(case directive_context_matches s' d' (Option.bind (dr_task_id d) (task s')) of [] \<Rightarrow> x | [_] \<Rightarrow> y | _ \<Rightarrow> z) =
      (case directive_context_matches s d (Option.bind (dr_task_id d) (task s)) of [] \<Rightarrow> x | [_] \<Rightarrow> y | _ \<Rightarrow> z)"
    for x y z :: "string list"
    by (rule length_cases_same_image [OF directive_context_skeleton [OF s d t]])
  have parts: "directive_scope_errors s' d' = directive_scope_errors s d"
    if "x' = None \<and> x = None \<or> (\<exists>y' y. x' = Some y' \<and> x = Some y \<and> as_job_id y' = as_job_id y \<and> as_task_id y' = as_task_id y \<and>
        as_task_definition_version y' = as_task_definition_version y \<and>
        as_member_worker_ids y' = as_member_worker_ids y \<and> as_plan_day_ids y' = as_plan_day_ids y)"
      "Option.bind (dr_assignment_id d) (assignment s') = x'" "Option.bind (dr_assignment_id d) (assignment s) = x" for x' x
    unfolding directive_scope_errors_def Let_def d c w j that(2,3)
    by (rule map_option_eqE [OF t]; rule map_option_eqE [OF p]; insert that(1); elim disjE conjE exE) simp_all
  show ?thesis
  proof (rule map_option_eqE [OF a])
    assume "Option.bind (dr_assignment_id d) (assignment s') = None" "Option.bind (dr_assignment_id d) (assignment s) = None"
    then show ?thesis by (rule parts [rotated]) simp
  next
    fix y' y
    assume y: "Option.bind (dr_assignment_id d) (assignment s') = Some y'"
      "Option.bind (dr_assignment_id d) (assignment s) = Some y" "assignment_skeleton y' = assignment_skeleton y"
    show ?thesis by (rule parts [OF _ y(1,2)]) (simp add: assignment_skeletonD [OF y(3)])
  qed
qed

lemma finalized_directive_is:
  assumes "scope_evolves s s'" "directive s' k = Some d"
  shows "\<exists>d'. directive (finalized_scope s s') k = Some d' \<and> set_directive_revision 0 d' = set_directive_revision 0 d"
  using finalized_directive [OF assms(1), of k] assms(2) by auto

lemma same_but_revision:
  assumes "set_directive_revision 0 d' = set_directive_revision 0 d"
  shows "dr_definition d' = dr_definition d" "dr_delivery_evidence d' = dr_delivery_evidence d"
    "dr_acknowledged_event_id d' = dr_acknowledged_event_id d" "dr_stop_in_force d' = dr_stop_in_force d"
  using assms by (cases d; cases d'; simp add: set_directive_revision_def)+

lemma permitted_acknowledged:
  assumes "permitted policy s e APPLIED s'" "fe_event_type e = WORKER_ACKNOWLEDGED"
  obtains d k where "event_directive s e d" "fe_directive_id e = Some k" "directive s k = Some d"
    "directive s' k = Some (acked e d)"
  using assms
proof (cases rule: permitted.cases)
  case (acknowledged d)
  then obtain k where k: "fe_directive_id e = Some k" "directive s k = Some d" by (auto elim: event_directiveE)
  have "directive (put_directive (acked e d) s) k = Some (acked e d)"
    using directive_put_directive [of s "acked e d" d k] directive_Some_in [OF k(2)] k(2) by (simp add: acked_def)
  with that acknowledged k show thesis by blast
next
  case (plan_confirmed d p)
  then obtain k where k: "fe_directive_id e = Some k" "directive s k = Some d" by (auto elim: event_directiveE)
  have "directive (put_directive (acked e d) s) k = Some (acked e d)"
    using directive_put_directive [of s "acked e d" d k] directive_Some_in [OF k(2)] k(2) by (simp add: acked_def)
  with that plan_confirmed k show thesis by auto
qed simp_all

text \<open>
  An accepted acknowledgement informs: after it, the contract's own test \<open>directive_worker_informed\<close>
  holds of the directive it names (delivery is acknowledged, by an applied event of the directive's
  own worker that the ledger holds, and the directive has no authority error).
\<close>

theorem acknowledgement_informs:
  assumes "scope_ok s" and "input_ok (FieldInput inp)" and "fresh_event s inp"
    and "reduce s (FieldInput inp) c = Inr re" and "re_outcome re = APPLIED"
    and "fe_event_type (fi_event inp) = WORKER_ACKNOWLEDGED" and "fe_directive_id (fi_event inp) = Some k"
  shows "directive_worker_informed (re_state re) k"
  using assms(1,2,4)
proof (cases rule: reduce_cases)
  case (fresh inp' s' r)
  let ?e = "fi_event inp"
  have r: "rc_outcome r = APPLIED" "rc_event r = ?e" using fresh assms(5) by (auto simp: field_transition_def)
  have "permitted (cx_policy c) s ?e APPLIED s'"
    using fresh(5) r fresh(1) by (auto simp: field_transition_def split: if_splits)
  then obtain d where d: "event_directive s ?e d" "directive s k = Some d" "directive s' k = Some (acked ?e d)"
    by (rule permitted_acknowledged [OF _ assms(6)]) (use assms(7) in auto)
  have ev: "scope_evolves s (with_receipt r s')" using evolves_with_receipt [OF fresh(6)] .
  have st: "re_state re = finalized_scope s (with_receipt r s')" using fresh by simp
  obtain d' where d': "directive (re_state re) k = Some d'" "set_directive_revision 0 d' = set_directive_revision 0 (acked ?e d)"
    using finalized_directive_is [OF ev, of k "acked ?e d"] d st by auto
  note f = same_but_revision [OF d'(2)]
  have id: "dr_directive_id d = k" using directive_Some_in [OF d(2)] by simp
  have "scope_skeleton (re_state re) = scope_skeleton s"
    unfolding st using finalized_skeleton [OF _ ev] fresh(6) by (simp add: sound_change_def)
  then have "directive_scope_errors (re_state re) d' = directive_scope_errors s d"
    by (rule directive_scope_errors_skeleton) (simp add: f acked_def)
  moreover have "receipt (re_state re) (fe_event_id ?e) = Some r"
    using receipt_fresh_reduction [OF assms(1) fresh(6,4,3,5)] fresh(1) st by simp
  ultimately show ?thesis
    using d(1) d'(1) f r id assms(6,7)
    by (simp add: directive_worker_informed_def acked_def event_directive_def)
qed (use assms in \<open>auto simp: fresh_event_def\<close>)

theorem acknowledgement_informs_witness:
  "\<exists>re. reduce ex_scope (FieldInput ex_ack_input) ex_context = Inr re \<and> directive_worker_informed (re_state re) ''D1''"
proof -
  have "case reduce ex_scope (FieldInput ex_ack_input) ex_context of Inr re \<Rightarrow> re_outcome re = APPLIED | _ \<Rightarrow> False"
    by code_simp
  then obtain re where re: "reduce ex_scope (FieldInput ex_ack_input) ex_context = Inr re" "re_outcome re = APPLIED"
    by (auto split: sum.splits)
  have f: "fresh_event ex_scope ex_ack_input" "fe_event_type (fi_event ex_ack_input) = WORKER_ACKNOWLEDGED"
    "fe_directive_id (fi_event ex_ack_input) = Some ''D1''" by code_simp+
  from acknowledgement_informs [OF ex_scope_ok ex_inputs_ok(3) f(1) re f(2,3)] re show ?thesis by blast
qed

text \<open>
  A late acknowledgement does not overwrite the plan: when a later directive of the same stream
  already governs, acknowledging the earlier one leaves every plan day as it is.
\<close>

theorem late_acknowledgement_keeps_plan:
  assumes "scope_ok s" and "input_ok (FieldInput inp)" and "reduce s (FieldInput inp) c = Inr re"
    and "fe_event_type (fi_event inp) = WORKER_ACKNOWLEDGED" and "fe_directive_id (fi_event inp) = Some k"
    and "directive s k = Some d" and "later_governing_directive_exists s d"
  shows "sc_plan_day_roots (re_state re) = sc_plan_day_roots s"
  using assms(1-3)
proof (cases rule: reduce_cases)
  case (fresh inp' s' r)
  have "sc_plan_day_roots s' = sc_plan_day_roots s"
  proof (cases "reference_errors s (fi_event inp) = []")
    case False
    then show ?thesis using fresh by (auto simp: field_transition_def)
  next
    case True
    then have "permitted (cx_policy c) s (fi_event inp) (rc_outcome r) s'"
      using fresh by (simp add: field_transition_def)
    then show ?thesis
      using assms(4-7)
      by (cases rule: permitted.cases) (auto simp: event_directive_def plan_reference_due_def completion_events_def)
  qed
  then show ?thesis
    using fresh by (simp add: finalized_scope_def map2_same [of _ "\<lambda>x. x"] plan.finalized_same)
qed auto

theorem late_acknowledgement_keeps_plan_witness:
  "\<exists>re. reduce ex_superseded_scope (FieldInput ex_ack_input) ex_context = Inr re \<and>
    sc_plan_day_roots (re_state re) = sc_plan_day_roots ex_superseded_scope"
proof -
  obtain re where re: "reduce ex_superseded_scope (FieldInput ex_ack_input) ex_context = Inr re"
    using reduce_returns [OF ex_superseded_scope_ok ex_inputs_ok(3)] by blast
  have d: "fe_event_type (fi_event ex_ack_input) = WORKER_ACKNOWLEDGED"
      "fe_directive_id (fi_event ex_ack_input) = Some ''D1''"
      "directive ex_superseded_scope ''D1'' = Some ex_action"
      "later_governing_directive_exists ex_superseded_scope ex_action" by code_simp+
  from late_acknowledgement_keeps_plan [OF ex_superseded_scope_ok ex_inputs_ok(3) re d] re show ?thesis by blast
qed

section \<open>Plan days\<close>

lemma permitted_plan_status:
  assumes "permitted policy s e outcome s'" "plan_day s k = Some p" "plan_day s' k = Some p'"
  shows "pd_status p' = PlanDayStatus.CLOSED \<Longrightarrow> pd_status p = PlanDayStatus.CLOSED"
proof -
  have put: "q' = p' \<or> p' = p" if "s' = put_plan_day q' s" "event_plan s e q" "pd_plan_day_id q' = pd_plan_day_id q" for q q'
  proof -
    from that(2) obtain j where j: "plan_day s j = Some q" by (auto elim: event_planE)
    then have "plan_day s (pd_plan_day_id q') = Some q" using plan_day_Some_in [OF j] that(3) by simp
    from plan_day_put_plan_day [OF this] that(1) assms(2,3) show ?thesis by (auto split: if_splits)
  qed
  assume c: "pd_status p' = PlanDayStatus.CLOSED"
  show ?thesis
    using assms(1)
  proof (cases rule: permitted.cases)
    case (activated q)
    with put [OF activated(2,4)] c show ?thesis by auto
  next
    case (unavailable q)
    then obtain j where j: "plan_day s j = Some q" by (auto elim: event_planE)
    with plan_day_Some_in [OF j] plan_day_put_plan_day [of s "q\<lparr>pd_worker_available := False\<rparr>" q k] unavailable assms c
    show ?thesis by (auto split: if_splits)
  next
    case (close_reported q)
    then obtain j where j: "plan_day s j = Some q" by (auto elim: event_planE)
    with plan_day_Some_in [OF j] plan_day_put_plan_day [of s "q\<lparr>pd_day_close_reported := True\<rparr>" q k] close_reported assms c
    show ?thesis by (auto split: if_splits)
  next
    case (plan_confirmed d q)
    then obtain j where j: "plan_day (put_directive (acked e d) s) j = Some q" by (auto simp: bind_eq_Some_conv)
    with plan_day_Some_in [OF j]
      plan_day_put_plan_day [of "put_directive (acked e d) s" "q\<lparr>pd_confirmed_plan_reference := dr_proposed_plan_reference d\<rparr>" q k]
      plan_confirmed assms c
    show ?thesis by (auto split: if_splits)
  qed (use assms c in auto)
qed

text \<open>
  C11. Only the end-of-day policy closes a plan day: it becomes CLOSED only by the signal that this
  policy is satisfied, for that day, after the worker reported the close, with the policy's result.
  No field event, in particular no reported day close, closes a day by itself.
\<close>

theorem day_closes_by_policy_only:
  assumes "scope_ok s" and "input_ok i" and "reduce s i c = Inr re"
    and "plan_day s k = Some p" and "plan_day (re_state re) k = Some p'"
    and "pd_status p' = PlanDayStatus.CLOSED" and "pd_status p \<noteq> PlanDayStatus.CLOSED"
  shows "\<exists>sig. i = SignalInput sig \<and> sy_signal_type sig = END_OF_DAY_POLICY_SATISFIED \<and>
    sy_plan_day_id sig = Some k \<and> pd_day_close_reported p \<and>
    sy_policy_result sig = Some (po_end_of_day_action (cx_policy c)) \<and> \<not> pd_worker_available p'"
proof -
  have fin: "\<exists>q. plan_day s' k = Some q \<and> set_plan_revision 0 q = set_plan_revision 0 p'"
    if "re_state re = finalized_scope s s'" "scope_evolves s s'" for s'
    using finalized_plan_day [OF that(2), of k] assms(5) that(1) by (cases "plan_day s' k") auto
  have same: "pd_status q = pd_status p' \<and> pd_worker_available q = pd_worker_available p'"
    if "set_plan_revision 0 q = set_plan_revision 0 p'" for q
    using that by (cases q; cases p') (simp add: set_plan_revision_def)
  show ?thesis
    using assms(1-3)
  proof (cases rule: reduce_cases)
    case (fresh inp s' r)
    obtain q where q: "plan_day s' k = Some q" "pd_status q = PlanDayStatus.CLOSED"
      using fin [of "with_receipt r s'"] evolves_with_receipt [OF fresh(6)] fresh(7) same assms(6) by auto
    have "s' = s \<or> permitted (cx_policy c) s (fi_event inp) (rc_outcome r) s'"
      using fresh(5) by (auto simp: field_transition_def split: if_splits)
    with permitted_plan_status [OF _ assms(4) q(1)] q assms(4,7) show ?thesis by auto
  next
    case (signal sig raw)
    obtain q where q: "plan_day (re_state raw) k = Some q" "set_plan_revision 0 q = set_plan_revision 0 p'"
      using fin [of "re_state raw"] signal by (auto simp: sound_change_def)
    note q' = same [OF q(2)]
    from signal(3) show ?thesis
    proof (cases rule: signal_permitted.cases)
      case signal_unchanged
      with q q' assms(4,6,7) show ?thesis by simp
    next
      case (start_unknown j u)
      with plan_day_put_plan_day [of s "u\<lparr>pd_start_unknown_escalated := True\<rparr>" u k] plan_day_Some_in [OF start_unknown(5)]
        q q' assms(4,6,7) show ?thesis by (auto split: if_splits)
    next
      case (acknowledgement_overdue j d due)
      with q q' assms(4,6,7) show ?thesis by simp
    next
      case (day_closed j u)
      with plan_day_put_plan_day [of s "u\<lparr>pd_status := PlanDayStatus.CLOSED, pd_worker_available := False\<rparr>" u k]
        plan_day_Some_in [OF day_closed(5)] q q' assms(4,6,7) signal show ?thesis by (auto split: if_splits)
    qed
  qed (use assms in auto)
qed

theorem day_closes_by_policy_only_witness:
  "\<exists>re p'. reduce ex_scope (SignalInput ex_close_signal) ex_context = Inr re \<and>
    plan_day (re_state re) ''P1'' = Some p' \<and> \<not> pd_worker_available p'"
proof -
  have "case reduce ex_scope (SignalInput ex_close_signal) ex_context of Inr re \<Rightarrow>
      map_option pd_status (plan_day (re_state re) ''P1'') = Some PlanDayStatus.CLOSED | _ \<Rightarrow> False" by code_simp
  then obtain re p' where re: "reduce ex_scope (SignalInput ex_close_signal) ex_context = Inr re"
      "plan_day (re_state re) ''P1'' = Some p'" "pd_status p' = PlanDayStatus.CLOSED"
    by (auto split: sum.splits)
  have p: "plan_day ex_scope ''P1'' = Some ex_plan" "pd_status ex_plan \<noteq> PlanDayStatus.CLOSED" by code_simp+
  from day_closes_by_policy_only [OF ex_scope_ok ex_inputs_ok(5) re(1) p(1) re(2,3) p(2)] re show ?thesis by blast
qed

text \<open>
  C12. The life cycle of a plan day over any run: it keeps its identity, worker, date and start; it
  moves from draft or issued to active, from anything to closed, and never back; a worker reported
  unavailable does not become available again; a closed day has its close reported.
\<close>

theorem plan_day_life_cycle:
  assumes "scope_ok s" and "\<forall>ic\<in>set is. input_ok (fst ic)" and "m2_run s is = Inr s'" and "plan_day s k = Some p"
  shows "\<exists>p'. plan_day s' k = Some p' \<and> pd_worker_id p' = pd_worker_id p \<and>
    pd_business_date p' = pd_business_date p \<and> pd_start_at p' = pd_start_at p \<and>
    (pd_status p, pd_status p') \<in> {(x, y). y = x \<or> y = PlanDayStatus.CLOSED \<or>
       x \<in> {PlanDayStatus.DRAFT, PlanDayStatus.ISSUED} \<and> y = PlanDayStatus.ACTIVE} \<and>
    (pd_worker_available p \<or> \<not> pd_worker_available p') \<and>
    (pd_status p = PlanDayStatus.CLOSED \<or> pd_status p' \<noteq> PlanDayStatus.CLOSED \<or> pd_day_close_reported p')"
proof -
  note run = m2.run_keeps [OF assms(1,2), folded m2_run_def, OF assms(3)]
  obtain p' where "plan_day s' k = Some p'" "plan_evolves p p'" using evolves_plan_day [OF run(2) assms(4)] by blast
  then show ?thesis by (auto simp: plan_evolves_def plan_status_evolves_def)
qed

theorem plan_day_life_cycle_witness:
  "\<exists>s' p'. m2_run ex_scope [(SignalInput ex_close_signal, ex_context), (FieldInput ex_input, ex_context)] = Inr s' \<and>
    plan_day s' ''P1'' = Some p' \<and> pd_worker_id p' = ''W1''"
proof -
  have i: "\<forall>ic\<in>set [(SignalInput ex_close_signal, ex_context), (FieldInput ex_input, ex_context)]. input_ok (fst ic)"
    by (simp add: ex_inputs_ok)
  obtain s' where s': "m2_run ex_scope [(SignalInput ex_close_signal, ex_context), (FieldInput ex_input, ex_context)] = Inr s'"
    using m2.run_total [OF ex_scope_ok i] by (auto simp: m2_run_def)
  have "plan_day ex_scope ''P1'' = Some ex_plan" "pd_worker_id ex_plan = ''W1''" by code_simp+
  with plan_day_life_cycle [OF ex_scope_ok i s' this(1)] s' show ?thesis by auto
qed

section \<open>STOP and safe hold\<close>

lemma evolves_directive_member:
  assumes "scope_evolves s s'" "d \<in> set (sc_directive_roots s)"
  shows "\<exists>d'\<in>set (sc_directive_roots s'). directive_evolves d d'"
  using assms unfolding scope_evolves_def by (metis in_set_conv_nth list_all2_conv_all_nth)

text \<open>
  A STOP in force stays in force: if it blocks an event's completion now, it blocks it after
  every run, so no sequence of events and signals lifts it.
\<close>

theorem stop_in_force_is_final:
  assumes "scope_ok s" and "\<forall>ic\<in>set is. input_ok (fst ic)" and "m2_run s is = Inr s'"
    and "completion_blocked_by_stop s e" and "fe_job_id e \<noteq> None"
  shows "completion_blocked_by_stop s' e"
proof -
  note run = m2.run_keeps [OF assms(1,2), folded m2_run_def, OF assms(3)]
  obtain d where d: "d \<in> set (sc_directive_roots s)" "stop_blocks s e d"
    using assms(4) by (auto simp: completion_blocked_by_stop_def)
  obtain d' where d': "d' \<in> set (sc_directive_roots s')" "directive_evolves d d'"
    using evolves_directive_member [OF run(2) d(1)] by blast
  have "event_scope_job_id s' e = event_scope_job_id s e" using assms(5) by (auto simp: event_scope_job_id_def)
  with d(2) d'(2) have "stop_blocks s' e d'" by (simp add: stop_blocks_def directive_evolves_def)
  with d'(1) show ?thesis by (auto simp: completion_blocked_by_stop_def)
qed

theorem stop_in_force_is_final_witness:
  "\<exists>s'. m2_run ex_stopped_scope [(FieldInput ex_ack_input, ex_context)] = Inr s' \<and> completion_blocked_by_stop s' ex_event"
proof -
  have i: "\<forall>ic\<in>set [(FieldInput ex_ack_input, ex_context)]. input_ok (fst ic)" by (simp add: ex_inputs_ok)
  obtain s' where s': "m2_run ex_stopped_scope [(FieldInput ex_ack_input, ex_context)] = Inr s'"
    using m2.run_total [OF ex_stopped_scope_ok i] by (auto simp: m2_run_def)
  have "completion_blocked_by_stop ex_stopped_scope ex_event" "fe_job_id ex_event \<noteq> None" by code_simp+
  from stop_in_force_is_final [OF ex_stopped_scope_ok i s' this] s' show ?thesis by blast
qed

text \<open>
  Safe hold is entered only through a STOP: a task comes under safe hold only when the worker a
  STOP directive addresses reports an action exception to that directive, and the directive is for
  this task and free of authority errors; the task then names the directive.
\<close>

theorem safe_hold_cause:
  assumes "scope_ok s" and "input_ok i" and "reduce s i c = Inr re"
    and "task s k = Some t" and "task (re_state re) k = Some t'"
    and "ts_status t' = TaskStatus.SAFE_HOLD" and "ts_status t \<noteq> TaskStatus.SAFE_HOLD"
  shows "\<exists>inp d. i = FieldInput inp \<and> fe_event_type (fi_event inp) = WORKER_ACTION_EXCEPTION \<and>
    event_directive s (fi_event inp) d \<and> dr_directive_class d = STOP \<and> dr_task_id d = Some k \<and>
    ts_safe_hold_directive_id t' = Some (dr_directive_id d)"
  using assms(1-3)
proof (cases rule: reduce_cases)
  case (fresh inp s' r)
  have t': "task s' k = Some t'"
    using assms(5) fresh(7) finalized_lookups(1) [OF evolves_with_receipt [OF fresh(6)], of r] by simp
  have "permitted (cx_policy c) s (fi_event inp) (rc_outcome r) s'"
    using fresh(5) t' assms(4,6,7) by (auto simp: field_transition_def split: if_splits)
  then show ?thesis
    by (rule permitted_held [OF _ assms(4) t' assms(6,7)]) (use fresh in auto)
next
  case (signal sig raw)
  then have "task (re_state re) k = task s k"
    using finalized_lookups(1) [of s "re_state raw"] signal_permitted_sound(2) [OF _ signal(3)] assms(1)
    by (simp add: sound_change_def scope_ok_def task_def)
  with assms show ?thesis by simp
qed (use assms in auto)

theorem safe_hold_cause_witness:
  "\<exists>t d. task ex_scope ''T1'' = Some t \<and> event_directive ex_scope (fi_event ex_exception_input) d"
proof -
  have "case reduce ex_scope (FieldInput ex_exception_input) ex_context of Inr re \<Rightarrow>
      map_option ts_status (task (re_state re) ''T1'') = Some TaskStatus.SAFE_HOLD | _ \<Rightarrow> False" by code_simp
  then obtain re t' where re: "reduce ex_scope (FieldInput ex_exception_input) ex_context = Inr re"
      "task (re_state re) ''T1'' = Some t'" "ts_status t' = TaskStatus.SAFE_HOLD"
    by (auto split: sum.splits)
  have "map_option ts_status (task ex_scope ''T1'') = Some TaskStatus.OPEN" by code_simp
  then obtain t where t: "task ex_scope ''T1'' = Some t" "ts_status t \<noteq> TaskStatus.SAFE_HOLD" by auto
  have i: "input_ok (FieldInput ex_exception_input)" by code_simp
  from safe_hold_cause [OF ex_scope_ok i re(1) t(1) re(2,3) t(2)] t show ?thesis by auto
qed

text \<open>A system signal never touches the ledger and never changes a task or an assignment.\<close>

theorem signals_keep_ledger:
  assumes "scope_ok s" and "input_ok (SignalInput sig)" and "reduce s (SignalInput sig) c = Inr re"
  shows "sc_processed_events (re_state re) = sc_processed_events s \<and> re_appended_receipt re = None \<and>
    tasks (re_state re) = tasks s \<and> assignments (re_state re) = assignments s"
  using assms
proof (cases rule: reduce_cases)
  case (signal sig' raw)
  have "scope_valid s" using assms(1) by (simp add: scope_ok_def)
  then show ?thesis
    using signal signal_permitted_sound(2,3) [OF _ signal(3)] finalized_tasks [of s "re_state raw"]
    by (simp add: sound_change_def)
qed simp_all

theorem signals_keep_ledger_witness:
  "\<exists>re. reduce ex_scope (SignalInput ex_close_signal) ex_context = Inr re \<and> tasks (re_state re) = tasks ex_scope"
proof -
  obtain re where re: "reduce ex_scope (SignalInput ex_close_signal) ex_context = Inr re"
    using reduce_returns [OF ex_scope_ok ex_inputs_ok(5)] by blast
  from signals_keep_ledger [OF ex_scope_ok ex_inputs_ok(5) re] re show ?thesis by blast
qed

section \<open>The handlers and the specification\<close>

text \<open>
  C13. Refinement. For an event without reference errors, the handler of its type returns, and the
  outcome and scope it returns are a transition that the specification \<open>permitted\<close> allows for that
  event under that policy.
\<close>

theorem handlers_implement_specification:
  assumes "scope_ok s" and "event_ok e" and "reference_errors s e = []" and "receipt s (fe_event_id e) = None"
  shows "returns (handle_field_event (fe_event_type e) s e c)
    (\<lambda>(s', outcome, fx, missing, reasons). permitted (cx_policy c) s e outcome s')"
proof -
  have "\<forall>t\<in>set (tasks s). fe_event_id e \<notin> fo_event_id ` set (ts_observations t)"
    using assms(1,4) by (auto simp: scope_ok_def observations_within_def receipt_None)
  with handler_implements [of s e c] assms show ?thesis by (simp add: scope_ok_def implements_def)
qed

theorem handlers_implement_specification_witness:
  "returns (completion_reported ex_scope ex_event)
    (\<lambda>(s', outcome, fx, missing, reasons). permitted (cx_policy ex_context) ex_scope ex_event outcome s')"
proof -
  have e: "event_ok ex_event" "reference_errors ex_scope ex_event = []" "receipt ex_scope (fe_event_id ex_event) = None"
    by code_simp+
  have "fe_event_type ex_event = TASK_COMPLETION_REPORTED" by (simp add: ex_event_def)
  with handlers_implement_specification [OF ex_scope_ok e, of ex_context] show ?thesis by simp
qed

section \<open>Supersession\<close>

text \<open>The relation that the supersession check walks: an identity to the one it supersedes.\<close>

definition supersession :: "(string \<times> string option) list \<Rightarrow> (string \<times> string) set" where
  "supersession relations = {(a, b). \<exists>x. dict_by fst relations a = Some (x, Some b)}"

lemma chain_ends_acc:
  "chain_ends relations visited current \<Longrightarrow> current \<in> Wellfounded.acc ((supersession relations)\<inverse>)"
proof (induction relations visited current rule: chain_ends.induct)
  case (1 relations visited current)
  have c: "current \<notin> set visited" using 1(2) chain_ends.simps [of relations visited current] by (auto split: if_splits)
  show ?case
  proof (rule accI)
    fix y assume "(y, current) \<in> (supersession relations)\<inverse>"
    then obtain x where x: "dict_by fst relations current = Some (x, Some y)" by (auto simp: supersession_def)
    then have "chain_ends relations (current # visited) y"
      using 1(2) c chain_ends.simps [of relations visited current] by simp
    with 1(1) [OF c x refl refl] show "y \<in> Wellfounded.acc ((supersession relations)\<inverse>)" by simp
  qed
qed

lemma acyclic_chain_ends:
  assumes "acyclic (supersession relations)"
  shows "\<forall>v\<in>set visited. (v, current) \<in> (supersession relations)\<^sup>+ \<Longrightarrow> chain_ends relations visited current"
  using assms
proof (induction relations visited current rule: chain_ends.induct)
  case (1 relations visited current)
  have c: "current \<notin> set visited" using 1(2,3) by (auto simp: acyclic_def)
  show ?case
  proof (cases "\<exists>x p. dict_by fst relations current = Some (x, Some p)")
    case True
    then obtain x p where x: "dict_by fst relations current = Some (x, Some p)" by blast
    then have e: "(current, p) \<in> supersession relations" by (auto simp: supersession_def)
    have "\<forall>v\<in>set (current # visited). (v, p) \<in> (supersession relations)\<^sup>+"
      using 1(2) e by (auto intro: trancl_into_trancl)
    with 1(1) [OF c x refl refl _ 1(3)] c x chain_ends.simps [of relations visited current] show ?thesis by simp
  next
    case False
    then show ?thesis
      using c chain_ends.simps [of relations visited current] by (auto split: option.splits)
  qed
qed

text \<open>
  C14. The supersession check is exact: it accepts a relation if and only if following supersessions
  can never come back to the same identity.
\<close>

theorem supersession_check_is_acyclicity:
  "validate_acyclic_supersession relations name = Inr () \<longleftrightarrow> acyclic (supersession relations)"
proof
  assume "validate_acyclic_supersession relations name = Inr ()"
  then have ends: "\<forall>i\<in>set (map fst relations). chain_ends relations [] i"
    by (simp add: validate_acyclic_supersession_def)
  have "x \<in> Wellfounded.acc ((supersession relations)\<inverse>)" for x
  proof (cases "x \<in> set (map fst relations)")
    case True
    with ends chain_ends_acc show ?thesis by blast
  next
    case False
    have "\<not> (\<exists>y. (x, y) \<in> supersession relations)"
      using False by (force simp: supersession_def dict_by_def dest!: lookup_by_Some)
    then show ?thesis by (auto intro: accI)
  qed
  then have "wf ((supersession relations)\<inverse>)" by (intro acc_wfI) blast
  then show "acyclic (supersession relations)" using wf_acyclic acyclic_converse by blast
next
  assume "acyclic (supersession relations)"
  then show "validate_acyclic_supersession relations name = Inr ()"
    using acyclic_chain_ends [of relations "[]"] by (simp add: validate_acyclic_supersession_def)
qed

end
