(* ===== verification/Decision_Semantics.thy ===== *)
theory Decision_Semantics
  imports Prelude
begin

text \<open>
  domain/decision_semantics.py: the data-quality scope of an action, the assessment of a promise,
  of recovery and of an objection, and the voice pipeline that turns a draft into an approved text
  and an approved text into a sent message. Every function of the file is a definition here, with
  the code's branches in the code's order. The second half states what the promise assessment
  decides as a closed rule, and the voice pipeline as a relation of the records the functions can
  issue.
\<close>

section \<open>Data quality\<close>

datatype DataQuality = SUFFICIENT | INSUFFICIENT_DATA | STALE | CONFLICTING

fun DataQuality_value :: "DataQuality \<Rightarrow> string" where
  "DataQuality_value SUFFICIENT = ''SUFFICIENT''"
| "DataQuality_value INSUFFICIENT_DATA = ''INSUFFICIENT_DATA''"
| "DataQuality_value STALE = ''STALE''"
| "DataQuality_value CONFLICTING = ''CONFLICTING''"

record ScopedFactQuality =
  sf_fact_id :: string
  sf_quality :: DataQuality
  sf_dependent_actions :: "string list"

record DataScopeAssessment =
  da_action_id :: string
  da_critical_data_quality :: DataQuality
  da_blocking_fact_ids :: "string list"

definition da_blocked :: "DataScopeAssessment \<Rightarrow> bool" where
  "da_blocked a \<longleftrightarrow> da_critical_data_quality a \<noteq> SUFFICIENT"

fun data_quality_precedence :: "DataQuality \<Rightarrow> int" where
  "data_quality_precedence SUFFICIENT = 0"
| "data_quality_precedence INSUFFICIENT_DATA = 1"
| "data_quality_precedence STALE = 2"
| "data_quality_precedence CONFLICTING = 3"

definition assess_data_scope :: "string \<Rightarrow> ScopedFactQuality list \<Rightarrow> DataScopeAssessment" where
  "assess_data_scope action_id facts =
     (let relevant = filter (\<lambda>fact. action_id \<in> set (sf_dependent_actions fact)) facts;
          blocking = map sf_fact_id (filter (\<lambda>fact. sf_quality fact \<noteq> SUFFICIENT) relevant);
          quality = max_by data_quality_precedence SUFFICIENT (map sf_quality relevant)
      in \<lparr>da_action_id = action_id, da_critical_data_quality = quality, da_blocking_fact_ids = blocking\<rparr>)"

section \<open>Promises\<close>

datatype TechnicalFeasibility = FEASIBLE | CONDITIONAL | INFEASIBLE | UNKNOWN

datatype PolicyRelation = WITHIN_ENVELOPE | SOFT_EXCEPTION | HARD_BLOCK

datatype OverrideStatus = NOT_REQUIRED | PENDING | APPROVED | REJECTED

datatype ExecutionAuthorization = ALLOWED | BLOCKED

datatype PromiseState = SAFE | CONDITIONAL | INFEASIBLE | FORCED

datatype Disposition = EXECUTE | EXECUTE_WITH_RECORDED_RISK | ABSTAIN | FORBIDDEN | HALT

datatype SafetyStatus = CLEAR | UNVERIFIED_CONCERN | HARD_BLOCK

datatype PermissionStatus = NOT_REQUIRED | VERIFIED | MISSING | UNKNOWN

datatype ConsentStatus = NOT_REQUIRED | REQUESTED | FREELY_GIVEN | DECLINED | PRESSURED | ABSENT

fun ConsentStatus_value :: "ConsentStatus \<Rightarrow> string" where
  "ConsentStatus_value ConsentStatus.NOT_REQUIRED = ''NOT_REQUIRED''"
| "ConsentStatus_value REQUESTED = ''REQUESTED''"
| "ConsentStatus_value FREELY_GIVEN = ''FREELY_GIVEN''"
| "ConsentStatus_value DECLINED = ''DECLINED''"
| "ConsentStatus_value PRESSURED = ''PRESSURED''"
| "ConsentStatus_value ABSENT = ''ABSENT''"

text \<open>The keyword arguments of \<open>assess_promise\<close> (\<open>common\<close> in its body).\<close>

record PromiseInput =
  pi_feasibility :: TechnicalFeasibility
  pi_policy_relation :: PolicyRelation
  pi_override_status :: OverrideStatus
  pi_critical_data_quality :: DataQuality
  pi_safety_status :: SafetyStatus
  pi_permission_status :: PermissionStatus
  pi_consent_status :: ConsentStatus

record PromiseAssessment =
  pa_technical_feasibility :: TechnicalFeasibility
  pa_policy_relation :: PolicyRelation
  pa_override_status :: OverrideStatus
  pa_critical_data_quality :: DataQuality
  pa_safety_status :: SafetyStatus
  pa_permission_status :: PermissionStatus
  pa_consent_status :: ConsentStatus
  pa_execution_authorization :: ExecutionAuthorization
  pa_derived_state :: "PromiseState option"
  pa_disposition :: Disposition
  pa_reason_codes :: "string list"

definition promise_result ::
    "PromiseInput \<Rightarrow> PromiseState option \<Rightarrow> ExecutionAuthorization \<Rightarrow> Disposition \<Rightarrow> string list \<Rightarrow>
     PromiseAssessment" where
  "promise_result common state authorization disp reasons =
     \<lparr>pa_technical_feasibility = pi_feasibility common,
      pa_policy_relation = pi_policy_relation common,
      pa_override_status = pi_override_status common,
      pa_critical_data_quality = pi_critical_data_quality common,
      pa_safety_status = pi_safety_status common,
      pa_permission_status = pi_permission_status common,
      pa_consent_status = pi_consent_status common,
      pa_execution_authorization = authorization,
      pa_derived_state = state,
      pa_disposition = disp,
      pa_reason_codes = reasons\<rparr>"

definition promise_hard_reasons :: "PromiseInput \<Rightarrow> string list" where
  "promise_hard_reasons p =
     (if pi_policy_relation p = PolicyRelation.HARD_BLOCK then [''POLICY_HARD_BLOCK''] else []) @
     (if pi_safety_status p = SafetyStatus.HARD_BLOCK then [''HARD_SAFETY_BLOCK''] else []) @
     (if pi_permission_status p = MISSING then [''REQUIRED_PERMISSION_MISSING''] else [])"

definition assess_promise :: "PromiseInput \<Rightarrow> PromiseAssessment" where
  "assess_promise p =
     (if promise_hard_reasons p \<noteq> [] then
        promise_result p (Some PromiseState.INFEASIBLE) BLOCKED FORBIDDEN (promise_hard_reasons p)
      else if pi_critical_data_quality p \<noteq> SUFFICIENT then
        promise_result p None BLOCKED ABSTAIN
          [''CRITICAL_DATA_'' @ DataQuality_value (pi_critical_data_quality p)]
      else if pi_safety_status p = UNVERIFIED_CONCERN then
        promise_result p (Some PromiseState.CONDITIONAL) BLOCKED ABSTAIN
          [''SAFETY_OR_TECHNICAL_CONCERN_REQUIRES_VERIFICATION'']
      else if pi_permission_status p = PermissionStatus.UNKNOWN then
        promise_result p None BLOCKED ABSTAIN [''REQUIRED_PERMISSION_UNKNOWN'']
      else if pi_consent_status p \<notin> {ConsentStatus.NOT_REQUIRED, FREELY_GIVEN} then
        promise_result p (Some PromiseState.CONDITIONAL) BLOCKED ABSTAIN
          [''REQUIRED_CONSENT_'' @ ConsentStatus_value (pi_consent_status p)]
      else if pi_feasibility p = TechnicalFeasibility.UNKNOWN then
        promise_result p None BLOCKED ABSTAIN [''FEASIBILITY_UNKNOWN'']
      else if pi_feasibility p = TechnicalFeasibility.INFEASIBLE then
        promise_result p (Some PromiseState.INFEASIBLE) BLOCKED ABSTAIN [''TECHNICALLY_INFEASIBLE'']
      else if pi_feasibility p = TechnicalFeasibility.CONDITIONAL then
        promise_result p (Some PromiseState.CONDITIONAL) BLOCKED ABSTAIN [''NAMED_CONDITION_OUTSTANDING'']
      else if pi_policy_relation p = WITHIN_ENVELOPE then
        promise_result p (Some SAFE) ALLOWED EXECUTE []
      else if pi_override_status p = APPROVED then
        promise_result p (Some FORCED) ALLOWED EXECUTE_WITH_RECORDED_RISK [''OWNER_APPROVED_SOFT_EXCEPTION'']
      else
        promise_result p (Some PromiseState.CONDITIONAL) BLOCKED ABSTAIN
          [if pi_override_status p = REJECTED then ''SOFT_EXCEPTION_REJECTED''
           else ''SOFT_EXCEPTION_REQUIRES_OWNER''])"

section \<open>Recovery and objections\<close>

datatype HealthAssessment = INSUFFICIENT_DATA | HEALTHY | LOAD_TIGHT | STRAINED | UNSTABLE

datatype RecoverySignal = NONE | RECOVERY_NEEDED

datatype OwnerRecoveryDecision = NOT_REQUESTED | PENDING | ACTIVATED | DECLINED

datatype RecoveryControlState = INACTIVE | RECOVERY_REQUIRED

datatype OwnerPosture = STABILITY | GROWTH | PEAK | RECOVERY_POSTURE

record RecoveryAssessment =
  ra_health_assessment :: HealthAssessment
  ra_recovery_signal :: RecoverySignal
  ra_owner_recovery_decision :: OwnerRecoveryDecision
  ra_recovery_control_state :: RecoveryControlState
  ra_owner_posture :: OwnerPosture

definition assess_recovery ::
    "HealthAssessment \<Rightarrow> RecoverySignal \<Rightarrow> OwnerRecoveryDecision \<Rightarrow> OwnerPosture \<Rightarrow> RecoveryAssessment" where
  "assess_recovery health sig decision posture =
     \<lparr>ra_health_assessment = health, ra_recovery_signal = sig, ra_owner_recovery_decision = decision,
      ra_recovery_control_state = (if decision = ACTIVATED then RECOVERY_REQUIRED else INACTIVE),
      ra_owner_posture = posture\<rparr>"

datatype ObjectionType =
    PREFERENCE
  | FACT_CORRECTION
  | PLAN_UNWORKABLE
  | AVAILABILITY_LIMIT
  | SAFETY_OR_TECHNICAL_CONCERN
  | HARD_SAFETY_BLOCK

fun ObjectionType_value :: "ObjectionType \<Rightarrow> string" where
  "ObjectionType_value PREFERENCE = ''PREFERENCE''"
| "ObjectionType_value FACT_CORRECTION = ''FACT_CORRECTION''"
| "ObjectionType_value PLAN_UNWORKABLE = ''PLAN_UNWORKABLE''"
| "ObjectionType_value AVAILABILITY_LIMIT = ''AVAILABILITY_LIMIT''"
| "ObjectionType_value SAFETY_OR_TECHNICAL_CONCERN = ''SAFETY_OR_TECHNICAL_CONCERN''"
| "ObjectionType_value HARD_SAFETY_BLOCK = ''HARD_SAFETY_BLOCK''"

record Objection =
  ob_objection_type :: ObjectionType
  ob_actor_id :: string
  ob_actor_role :: string
  ob_scope :: string

record ObjectionAssessment =
  oa_disposition :: Disposition
  oa_requires_reassessment :: bool
  oa_reason_code :: string

text \<open>The argument \<open>Objection | ObjectionType\<close>.\<close>

datatype objection_input = AnObjection Objection | AType ObjectionType

fun objection_type :: "objection_input \<Rightarrow> ObjectionType" where
  "objection_type (AnObjection x) = ob_objection_type x"
| "objection_type (AType t) = t"

definition assess_objection :: "objection_input \<Rightarrow> ObjectionAssessment" where
  "assess_objection objection =
     (let t = objection_type objection in
      if t = PREFERENCE then
        \<lparr>oa_disposition = EXECUTE, oa_requires_reassessment = False,
         oa_reason_code = ''PREFERENCE_RECORDED_NO_VETO''\<rparr>
      else if t = HARD_SAFETY_BLOCK then
        \<lparr>oa_disposition = FORBIDDEN, oa_requires_reassessment = False, oa_reason_code = ''HARD_SAFETY_BLOCK''\<rparr>
      else if t = AVAILABILITY_LIMIT then
        \<lparr>oa_disposition = ABSTAIN, oa_requires_reassessment = False, oa_reason_code = ''CONSENT_REQUIRED''\<rparr>
      else
        \<lparr>oa_disposition = ABSTAIN, oa_requires_reassessment = True, oa_reason_code = ObjectionType_value t\<rparr>)"

section \<open>Voice\<close>

datatype ClaimEvidence = VERIFIED | CONDITIONAL | UNKNOWN | FALSE

datatype ClaimRendering = FACT | CONDITION | ESTIMATE | GUARANTEE

datatype CommunicationKind = DRAFT_TEXT | APPROVED_TEXT | SENT_MESSAGE | ACTUAL_CLAIM

fun CommunicationKind_value :: "CommunicationKind \<Rightarrow> string" where
  "CommunicationKind_value DRAFT_TEXT = ''DRAFT_TEXT''"
| "CommunicationKind_value APPROVED_TEXT = ''APPROVED_TEXT''"
| "CommunicationKind_value SENT_MESSAGE = ''SENT_MESSAGE''"
| "CommunicationKind_value ACTUAL_CLAIM = ''ACTUAL_CLAIM''"

datatype SpeechAct = FIELD_TALK | UNCONFIRMED_BINDING_CLAIM | INTENT | WINDOW | PROMISE

record CommunicationRecord =
  cr_kind :: CommunicationKind
  cr_text_hash :: string
  cr_approved_by_system :: bool

definition CommunicationRecord_init :: "CommunicationRecord \<Rightarrow> CommunicationRecord result" where
  "CommunicationRecord_init x =
     (if cr_kind x \<in> {DRAFT_TEXT, ACTUAL_CLAIM} then
        (if cr_approved_by_system x
         then Inl (ValueError (CommunicationKind_value (cr_kind x) @ '' cannot be system-approved''))
         else Inr x)
      else if \<not> cr_approved_by_system x
      then Inl (ValueError (CommunicationKind_value (cr_kind x) @ '' requires deterministic approval''))
      else Inr x)"

record VoiceClaim =
  vc_claim_id :: string
  vc_evidence :: ClaimEvidence
  vc_rendering :: ClaimRendering
  vc_material_to_recipient :: bool
  vc_named_condition :: "string option"

record ActualClaim =
  ac_claim_id :: string
  ac_speaker_role :: string
  ac_speech_act :: SpeechAct
  ac_communication :: CommunicationRecord
  ac_contradiction_fact_ids :: "string list"

record VoiceAssessment =
  va_approved :: bool
  va_reason_codes :: "string list"
  va_approved_text :: "CommunicationRecord option"

definition draft_text :: "string \<Rightarrow> CommunicationRecord result" where
  "draft_text text_hash =
     CommunicationRecord_init \<lparr>cr_kind = DRAFT_TEXT, cr_text_hash = text_hash, cr_approved_by_system = False\<rparr>"

text \<open>The keyword-only arguments of \<open>validate_voice\<close>.\<close>

record VoiceContext =
  vx_promise_state :: "PromiseState option"
  vx_critical_data_quality :: DataQuality
  vx_contains_material_omission :: bool
  vx_contains_false_certainty :: bool
  vx_misrepresents_consent :: bool
  vx_misrepresents_authority :: bool

text \<open>One turn of the loop over the claims.\<close>

definition claim_reasons :: "VoiceContext \<Rightarrow> VoiceClaim \<Rightarrow> string list" where
  "claim_reasons x claim =
     (if \<not> vc_material_to_recipient claim then []
      else
        (if vc_evidence claim = FALSE then [vc_claim_id claim @ '':FALSE_CLAIM''] else []) @
        (if vc_rendering claim = FACT \<and> vc_evidence claim \<noteq> ClaimEvidence.VERIFIED
         then [vc_claim_id claim @ '':UNVERIFIED_AS_FACT''] else []) @
        (if vc_rendering claim = GUARANTEE \<and>
            (vc_evidence claim \<noteq> ClaimEvidence.VERIFIED \<or> vx_promise_state x \<noteq> Some SAFE \<or>
             vx_critical_data_quality x \<noteq> SUFFICIENT)
         then [vc_claim_id claim @ '':UNSUPPORTED_GUARANTEE''] else []) @
        (if vc_evidence claim \<in> {ClaimEvidence.CONDITIONAL, ClaimEvidence.UNKNOWN} \<and>
            (vc_rendering claim \<noteq> CONDITION \<or> \<not> truthy (vc_named_condition claim))
         then [vc_claim_id claim @ '':CONDITION_NOT_NAMED''] else []))"

definition voice_reasons :: "CommunicationRecord \<Rightarrow> VoiceClaim list \<Rightarrow> VoiceContext \<Rightarrow> string list" where
  "voice_reasons draft claims x =
     (if cr_kind draft \<noteq> DRAFT_TEXT then [''VOICE_INPUT_NOT_DRAFT_TEXT''] else []) @
     (if vx_contains_material_omission x then [''MATERIAL_OMISSION''] else []) @
     (if vx_contains_false_certainty x then [''FALSE_CERTAINTY''] else []) @
     (if vx_misrepresents_consent x then [''FALSE_CONSENT''] else []) @
     (if vx_misrepresents_authority x then [''FALSE_AUTHORITY''] else []) @
     concat (map (claim_reasons x) claims)"

definition validate_voice ::
    "CommunicationRecord \<Rightarrow> VoiceClaim list \<Rightarrow> VoiceContext \<Rightarrow> VoiceAssessment result" where
  "validate_voice draft claims x =
     (let reason_codes = dedup (voice_reasons draft claims x) in
      and_then (if reason_codes = [] then
           and_then (CommunicationRecord_init
             \<lparr>cr_kind = APPROVED_TEXT, cr_text_hash = cr_text_hash draft, cr_approved_by_system = True\<rparr>)
             (\<lambda>t. Inr (Some t))
         else Inr None) (\<lambda>approved_text.
      Inr \<lparr>va_approved = (reason_codes = []), va_reason_codes = reason_codes, va_approved_text = approved_text\<rparr>))"

definition mark_message_sent :: "CommunicationRecord \<Rightarrow> CommunicationRecord result" where
  "mark_message_sent approved_text =
     and_then (require (cr_kind approved_text = APPROVED_TEXT) ''Only APPROVED_TEXT can become SENT_MESSAGE'') (\<lambda>_.
     CommunicationRecord_init
       \<lparr>cr_kind = SENT_MESSAGE, cr_text_hash = cr_text_hash approved_text, cr_approved_by_system = True\<rparr>)"

definition record_actual_claim ::
    "string \<Rightarrow> string \<Rightarrow> SpeechAct \<Rightarrow> string \<Rightarrow> string list \<Rightarrow> ActualClaim result" where
  "record_actual_claim claim_id speaker_role speech_act text_hash contradiction_fact_ids =
     and_then (CommunicationRecord_init
       \<lparr>cr_kind = ACTUAL_CLAIM, cr_text_hash = text_hash, cr_approved_by_system = False\<rparr>) (\<lambda>communication.
     Inr \<lparr>ac_claim_id = claim_id, ac_speaker_role = speaker_role, ac_speech_act = speech_act,
          ac_communication = communication, ac_contradiction_fact_ids = contradiction_fact_ids\<rparr>)"

end
