(* ===== verification/Decision_Properties.thy ===== *)
theory Decision_Properties
  imports Decision_Semantics
begin

text \<open>
  What the decision semantics promises: the rule by which a promise may be executed, the reach of
  an owner's override, the effect of deficient facts, and the voice pipeline as a relation between
  the operations performed and the communication records issued.
\<close>

section \<open>Promises\<close>

text \<open>Every gate that no owner can lift.\<close>

definition promise_gates :: "PromiseInput \<Rightarrow> bool" where
  "promise_gates p \<longleftrightarrow>
     pi_policy_relation p \<noteq> PolicyRelation.HARD_BLOCK \<and>
     pi_critical_data_quality p = SUFFICIENT \<and>
     pi_safety_status p = CLEAR \<and>
     pi_permission_status p \<in> {PermissionStatus.NOT_REQUIRED, PermissionStatus.VERIFIED} \<and>
     pi_consent_status p \<in> {ConsentStatus.NOT_REQUIRED, FREELY_GIVEN} \<and>
     pi_feasibility p = FEASIBLE"

lemma promise_hard_reasons_iff:
  "promise_hard_reasons p = [] \<longleftrightarrow>
     pi_policy_relation p \<noteq> PolicyRelation.HARD_BLOCK \<and> pi_safety_status p \<noteq> SafetyStatus.HARD_BLOCK \<and>
     pi_permission_status p \<noteq> MISSING"
  by (auto simp: promise_hard_reasons_def)

lemma promise_result_sel [simp]:
  "pa_execution_authorization (promise_result p st au d rs) = au"
  "pa_derived_state (promise_result p st au d rs) = st"
  "pa_disposition (promise_result p st au d rs) = d"
  "pa_reason_codes (promise_result p st au d rs) = rs"
  by (simp_all add: promise_result_def)

lemma assess_promise_blocked:
  assumes "\<not> promise_gates p"
  shows "pa_execution_authorization (assess_promise p) = BLOCKED"
    and "pa_derived_state (assess_promise p) \<notin> {Some SAFE, Some FORCED}"
    and "pa_disposition (assess_promise p) = (if promise_hard_reasons p = [] then ABSTAIN else FORBIDDEN)"
    and "pa_reason_codes (assess_promise p) \<noteq> []"
proof -
  let ?soft = "promise_hard_reasons p = [] \<and> pi_critical_data_quality p = SUFFICIENT \<and>
    pi_safety_status p \<noteq> UNVERIFIED_CONCERN \<and> pi_permission_status p \<noteq> PermissionStatus.UNKNOWN \<and>
    pi_consent_status p \<in> {ConsentStatus.NOT_REQUIRED, FREELY_GIVEN}"
  have f: "?soft \<Longrightarrow> pi_feasibility p \<noteq> FEASIBLE"
    using assms
    by (cases "pi_safety_status p"; cases "pi_permission_status p")
      (auto simp: promise_gates_def promise_hard_reasons_iff)
  show "pa_execution_authorization (assess_promise p) = BLOCKED"
    using f unfolding assess_promise_def by (cases "pi_feasibility p"; simp; blast?)
  show "pa_derived_state (assess_promise p) \<notin> {Some SAFE, Some FORCED}"
    using f unfolding assess_promise_def by (cases "pi_feasibility p"; simp; blast?)
  show "pa_disposition (assess_promise p) = (if promise_hard_reasons p = [] then ABSTAIN else FORBIDDEN)"
    using f unfolding assess_promise_def by (cases "pi_feasibility p"; simp; blast?)
  show "pa_reason_codes (assess_promise p) \<noteq> []"
    using f unfolding assess_promise_def by (cases "pi_feasibility p"; simp; blast?)
qed

lemma assess_promise_open:
  assumes "promise_gates p"
  shows "assess_promise p =
    (if pi_policy_relation p = WITHIN_ENVELOPE then promise_result p (Some SAFE) ALLOWED EXECUTE []
     else if pi_override_status p = APPROVED
     then promise_result p (Some FORCED) ALLOWED EXECUTE_WITH_RECORDED_RISK [''OWNER_APPROVED_SOFT_EXCEPTION'']
     else promise_result p (Some PromiseState.CONDITIONAL) BLOCKED ABSTAIN
       [if pi_override_status p = REJECTED then ''SOFT_EXCEPTION_REJECTED'' else ''SOFT_EXCEPTION_REQUIRES_OWNER''])"
proof -
  have "promise_hard_reasons p = []" using assms by (auto simp: promise_gates_def promise_hard_reasons_iff)
  with assms show ?thesis by (auto simp: assess_promise_def promise_gates_def)
qed

text \<open>
  C27. The promise rule. Execution is allowed exactly when every gate is open (no hard policy
  block, sufficient critical data, clear safety, permission and consent in order, technical
  feasibility) and the promise is within the policy envelope or the owner approved the soft
  exception; SAFE and FORCED are the states of exactly these two cases, a promise is FORBIDDEN
  exactly under a hard block, and everything that is not plainly SAFE carries a reason.
\<close>

theorem promise_decision:
  "(pa_execution_authorization (assess_promise p) = ALLOWED \<longleftrightarrow>
      promise_gates p \<and> (pi_policy_relation p = WITHIN_ENVELOPE \<or> pi_override_status p = APPROVED)) \<and>
   (pa_derived_state (assess_promise p) = Some SAFE \<longleftrightarrow>
      promise_gates p \<and> pi_policy_relation p = WITHIN_ENVELOPE) \<and>
   (pa_derived_state (assess_promise p) = Some FORCED \<longleftrightarrow>
      promise_gates p \<and> pi_policy_relation p = SOFT_EXCEPTION \<and> pi_override_status p = APPROVED) \<and>
   (pa_disposition (assess_promise p) = FORBIDDEN \<longleftrightarrow>
      pi_policy_relation p = PolicyRelation.HARD_BLOCK \<or> pi_safety_status p = SafetyStatus.HARD_BLOCK \<or>
      pi_permission_status p = MISSING) \<and>
   (pa_reason_codes (assess_promise p) = [] \<longleftrightarrow> pa_disposition (assess_promise p) = EXECUTE)"
proof (cases "promise_gates p")
  case True
  then show ?thesis
    by (cases "pi_policy_relation p") (auto simp: assess_promise_open promise_gates_def)
next
  case False
  then show ?thesis using assess_promise_blocked [OF False] by (simp add: promise_hard_reasons_iff)
qed

text \<open>
  The reach of an override. Whatever the owner decides, the authorisation, the derived state,
  the disposition and the reasons of a promise stay the same unless the promise is a soft exception
  with every other gate open; and for such a promise execution is allowed exactly on approval.
\<close>

theorem override_opens_soft_exceptions_only:
  "if promise_gates p \<and> pi_policy_relation p = SOFT_EXCEPTION
   then pa_execution_authorization (assess_promise (p\<lparr>pi_override_status := decision\<rparr>)) =
     (if decision = APPROVED then ALLOWED else BLOCKED)
   else assess_promise (p\<lparr>pi_override_status := decision\<rparr>) =
     (assess_promise p)\<lparr>pa_override_status := decision\<rparr>"
proof (cases "promise_gates p \<and> pi_policy_relation p = SOFT_EXCEPTION")
  case True
  then have "promise_gates (p\<lparr>pi_override_status := decision\<rparr>)" by (simp add: promise_gates_def)
  with True show ?thesis by (simp add: assess_promise_open)
next
  case False
  let ?q = "p\<lparr>pi_override_status := decision\<rparr>"
  have upd: "(promise_result p st au d rs)\<lparr>pa_override_status := decision\<rparr> = promise_result ?q st au d rs"
    for st au d rs by (simp add: promise_result_def)
  have hard: "promise_hard_reasons ?q = promise_hard_reasons p" by (simp add: promise_hard_reasons_def)
  have "assess_promise ?q = (assess_promise p)\<lparr>pa_override_status := decision\<rparr>"
  proof (cases "promise_gates p")
    case True
    with False have "pi_policy_relation p = WITHIN_ENVELOPE"
      by (cases "pi_policy_relation p") (auto simp: promise_gates_def)
    moreover from True have "promise_gates ?q" by (simp add: promise_gates_def)
    ultimately show ?thesis using True by (simp add: assess_promise_open upd)
  next
    case gates: False
    define soft where "soft \<longleftrightarrow> promise_hard_reasons p = [] \<and> pi_critical_data_quality p = SUFFICIENT \<and>
        pi_safety_status p \<noteq> UNVERIFIED_CONCERN \<and> pi_permission_status p \<noteq> PermissionStatus.UNKNOWN \<and>
        pi_consent_status p \<in> {ConsentStatus.NOT_REQUIRED, FREELY_GIVEN}"
    have "soft \<Longrightarrow> pi_feasibility p \<noteq> FEASIBLE"
      using gates unfolding soft_def
      by (cases "pi_safety_status p"; cases "pi_permission_status p")
        (auto simp: promise_gates_def promise_hard_reasons_iff)
    then show ?thesis
      unfolding soft_def assess_promise_def hard
      by (cases "pi_feasibility p"; simp add: upd; blast?)
  qed
  with False show ?thesis by (simp only: if_False)
qed

section \<open>Data scope\<close>

lemma data_quality_precedence_inj: "data_quality_precedence a = data_quality_precedence b \<longleftrightarrow> a = b"
  by (cases a; cases b) simp_all

lemma data_quality_precedence_pos: "0 < data_quality_precedence q \<longleftrightarrow> q \<noteq> SUFFICIENT"
  by (cases q) simp_all

definition depends :: "string \<Rightarrow> ScopedFactQuality \<Rightarrow> bool" where
  "depends action_id f \<longleftrightarrow> action_id \<in> set (sf_dependent_actions f)"

text \<open>
  Data scope. The quality of an action is the worst quality among the facts that declare the
  action as dependent, and SUFFICIENT when there is none; it is blocked exactly by the facts it
  lists, in their order; facts that do not declare the action have no influence.
\<close>

theorem data_scope_worst_quality:
  "(let a = assess_data_scope action_id facts; relevant = filter (depends action_id) facts in
     a = assess_data_scope action_id relevant \<and>
     da_critical_data_quality a \<in> insert SUFFICIENT (sf_quality ` set relevant) \<and>
     (\<forall>fact\<in>set relevant.
        data_quality_precedence (sf_quality fact) \<le> data_quality_precedence (da_critical_data_quality a)) \<and>
     (da_blocked a \<longleftrightarrow> da_blocking_fact_ids a \<noteq> []) \<and>
     da_blocking_fact_ids a = map sf_fact_id (filter (\<lambda>fact. sf_quality fact \<noteq> SUFFICIENT) relevant))"
proof -
  let ?r = "filter (depends action_id) facts"
  let ?q = "max_by data_quality_precedence SUFFICIENT (map sf_quality ?r)"
  have a: "assess_data_scope action_id facts =
      \<lparr>da_action_id = action_id, da_critical_data_quality = ?q,
       da_blocking_fact_ids = map sf_fact_id (filter (\<lambda>fact. sf_quality fact \<noteq> SUFFICIENT) ?r)\<rparr>"
    by (simp add: assess_data_scope_def depends_def [abs_def])
  have b: "assess_data_scope action_id ?r = assess_data_scope action_id facts"
    by (simp add: assess_data_scope_def depends_def Let_def)
  have c: "?q \<in> insert SUFFICIENT (sf_quality ` set ?r)"
    using max_by_in [of data_quality_precedence SUFFICIENT "map sf_quality ?r"] by simp
  have d: "data_quality_precedence (sf_quality f) \<le> data_quality_precedence ?q" if "f \<in> set ?r" for f
    using max_by_ge [of "sf_quality f" "map sf_quality ?r" data_quality_precedence SUFFICIENT] that by auto
  have e: "?q \<noteq> SUFFICIENT \<longleftrightarrow> filter (\<lambda>fact. sf_quality fact \<noteq> SUFFICIENT) ?r \<noteq> []"
  proof
    assume "?q \<noteq> SUFFICIENT"
    with c show "filter (\<lambda>fact. sf_quality fact \<noteq> SUFFICIENT) ?r \<noteq> []" by (auto simp: filter_empty_conv)
  next
    assume "filter (\<lambda>fact. sf_quality fact \<noteq> SUFFICIENT) ?r \<noteq> []"
    then obtain f where "f \<in> set ?r" "sf_quality f \<noteq> SUFFICIENT" unfolding filter_empty_conv by blast
    with d [of f] have "0 < data_quality_precedence ?q"
      using data_quality_precedence_pos [of "sf_quality f"] by simp
    then show "?q \<noteq> SUFFICIENT" by (simp add: data_quality_precedence_pos)
  qed
  show ?thesis
    unfolding Let_def b unfolding a
    using c d e by (simp add: da_blocked_def)
qed

definition ex_facts :: "ScopedFactQuality list" where
  "ex_facts =
     [\<lparr>sf_fact_id = ''F1'', sf_quality = SUFFICIENT, sf_dependent_actions = [''A'', ''B'']\<rparr>,
      \<lparr>sf_fact_id = ''F2'', sf_quality = STALE, sf_dependent_actions = [''A'']\<rparr>,
      \<lparr>sf_fact_id = ''F3'', sf_quality = CONFLICTING, sf_dependent_actions = [''B'']\<rparr>,
      \<lparr>sf_fact_id = ''F4'', sf_quality = DataQuality.INSUFFICIENT_DATA, sf_dependent_actions = [''A'']\<rparr>]"

theorem data_scope_worst_quality_witness:
  "data_quality_precedence (sf_quality (ex_facts ! 3)) \<le> data_quality_precedence STALE \<and>
   da_critical_data_quality (assess_data_scope ''A'' ex_facts) = STALE \<and>
   da_blocking_fact_ids (assess_data_scope ''A'' ex_facts) = [''F2'', ''F4'']"
proof -
  have v: "da_critical_data_quality (assess_data_scope ''A'' ex_facts) = STALE"
    "da_blocking_fact_ids (assess_data_scope ''A'' ex_facts) = [''F2'', ''F4'']" by code_simp+
  have "ex_facts ! 3 \<in> set (filter (depends ''A'') ex_facts)" by (simp add: ex_facts_def depends_def)
  then have "data_quality_precedence (sf_quality (ex_facts ! 3)) \<le> data_quality_precedence STALE"
    using data_scope_worst_quality [of "''A''" ex_facts] by (simp only: Let_def v simp_thms)
  with v show ?thesis by simp
qed

section \<open>The voice pipeline\<close>

text \<open>The no-deception rule, stated on its own.\<close>

definition honest_claim :: "VoiceContext \<Rightarrow> VoiceClaim \<Rightarrow> bool" where
  "honest_claim x c \<longleftrightarrow>
     vc_evidence c \<noteq> FALSE \<and>
     (vc_rendering c = FACT \<longrightarrow> vc_evidence c = ClaimEvidence.VERIFIED) \<and>
     (vc_rendering c = GUARANTEE \<longrightarrow>
        vc_evidence c = ClaimEvidence.VERIFIED \<and> vx_promise_state x = Some SAFE \<and>
        vx_critical_data_quality x = SUFFICIENT) \<and>
     (vc_evidence c \<in> {ClaimEvidence.CONDITIONAL, ClaimEvidence.UNKNOWN} \<longrightarrow>
        vc_rendering c = CONDITION \<and> (\<exists>n. vc_named_condition c = Some n \<and> n \<noteq> []))"

definition honest :: "VoiceContext \<Rightarrow> VoiceClaim list \<Rightarrow> bool" where
  "honest x claims \<longleftrightarrow>
     \<not> vx_contains_material_omission x \<and> \<not> vx_contains_false_certainty x \<and>
     \<not> vx_misrepresents_consent x \<and> \<not> vx_misrepresents_authority x \<and>
     (\<forall>c\<in>set claims. vc_material_to_recipient c \<longrightarrow> honest_claim x c)"

lemma claim_reasons_Nil: "claim_reasons x c = [] \<longleftrightarrow> (vc_material_to_recipient c \<longrightarrow> honest_claim x c)"
  by (cases "vc_evidence c"; cases "vc_rendering c")
    (auto simp: claim_reasons_def honest_claim_def truthy_def split: option.splits)

lemma voice_reasons_Nil: "voice_reasons d claims x = [] \<longleftrightarrow> cr_kind d = DRAFT_TEXT \<and> honest x claims"
  by (auto simp: voice_reasons_def honest_def claim_reasons_Nil concat_eq_Nil_conv)

lemma validate_voice_eq:
  "validate_voice d claims x = Inr
     (if cr_kind d = DRAFT_TEXT \<and> honest x claims
      then \<lparr>va_approved = True, va_reason_codes = [], va_approved_text =
        Some \<lparr>cr_kind = APPROVED_TEXT, cr_text_hash = cr_text_hash d, cr_approved_by_system = True\<rparr>\<rparr>
      else \<lparr>va_approved = False, va_reason_codes = dedup (voice_reasons d claims x), va_approved_text = None\<rparr>)"
proof -
  have "dedup (voice_reasons d claims x) = [] \<longleftrightarrow> cr_kind d = DRAFT_TEXT \<and> honest x claims"
    by (simp add: voice_reasons_Nil)
  then show ?thesis by (auto simp: validate_voice_def CommunicationRecord_init_def Let_def)
qed

lemma mark_message_sent_Inr:
  "mark_message_sent t = Inr m \<longleftrightarrow> cr_kind t = APPROVED_TEXT \<and>
     m = \<lparr>cr_kind = SENT_MESSAGE, cr_text_hash = cr_text_hash t, cr_approved_by_system = True\<rparr>"
  by (auto simp: mark_message_sent_def CommunicationRecord_init_def)

text \<open>
  A run of the pipeline: the operations performed so far, newest first, and the records they
  issued. An operation works on records that were issued before.
\<close>

datatype voice_op =
    Draft string
  | Validate CommunicationRecord "VoiceClaim list" VoiceContext
  | Send CommunicationRecord
  | Claim string string SpeechAct string "string list"

inductive voice_run :: "voice_op list \<Rightarrow> CommunicationRecord list \<Rightarrow> bool" where
  start: "voice_run [] []"
| draft: "voice_run ops rs \<Longrightarrow> draft_text h = Inr r \<Longrightarrow> voice_run (Draft h # ops) (r # rs)"
| validate: "voice_run ops rs \<Longrightarrow> d \<in> set rs \<Longrightarrow> validate_voice d claims x = Inr a \<Longrightarrow>
    voice_run (Validate d claims x # ops) (case va_approved_text a of None \<Rightarrow> rs | Some t \<Rightarrow> t # rs)"
| send: "voice_run ops rs \<Longrightarrow> t \<in> set rs \<Longrightarrow> mark_message_sent t = Inr m \<Longrightarrow> voice_run (Send t # ops) (m # rs)"
| claim: "voice_run ops rs \<Longrightarrow> record_actual_claim c w a h fs = Inr k \<Longrightarrow>
    voice_run (Claim c w a h fs # ops) (ac_communication k # rs)"

inductive_cases voice_run_NilE: "voice_run [] rs"

text \<open>What a record of each kind presupposes of the operations before it.\<close>

fun backed :: "voice_op list \<Rightarrow> CommunicationRecord \<Rightarrow> bool" where
  "backed ops r =
     (case cr_kind r of
        DRAFT_TEXT \<Rightarrow> \<not> cr_approved_by_system r \<and> Draft (cr_text_hash r) \<in> set ops
      | ACTUAL_CLAIM \<Rightarrow> \<not> cr_approved_by_system r
      | _ \<Rightarrow> cr_approved_by_system r \<and>
          (\<exists>d claims x. Validate d claims x \<in> set ops \<and> Draft (cr_text_hash r) \<in> set ops \<and>
             cr_kind d = DRAFT_TEXT \<and> cr_text_hash d = cr_text_hash r \<and> honest x claims))"

lemma backed_mono: "backed ops r \<Longrightarrow> backed (op # ops) r"
  by (fastforce split: CommunicationKind.splits)

lemma voice_run_backed: "voice_run ops rs \<Longrightarrow> r \<in> set rs \<Longrightarrow> backed ops r"
proof (induction arbitrary: r rule: voice_run.induct)
  case (draft ops rs h m)
  then show ?case
    by (auto simp: draft_text_def CommunicationRecord_init_def simp del: backed.simps intro: backed_mono)
      (simp add: CommunicationRecord_init_def)
next
  case (validate ops rs d claims x a)
  from validate.IH [OF validate.hyps(2)] have d: "backed ops d" .
  from validate show ?case
  proof (cases "cr_kind d = DRAFT_TEXT \<and> honest x claims")
    case True
    with validate have "r = \<lparr>cr_kind = APPROVED_TEXT, cr_text_hash = cr_text_hash d, cr_approved_by_system = True\<rparr>
        \<or> r \<in> set rs"
      by (auto simp: validate_voice_eq)
    with validate.IH [of r] True d show ?thesis
      by (auto simp del: backed.simps intro: backed_mono) auto
  next
    case False
    with validate have "r \<in> set rs" by (auto simp: validate_voice_eq)
    with validate.IH [of r] show ?thesis by (blast intro: backed_mono)
  qed
next
  case (send ops rs t m)
  from send.IH [OF send.hyps(2)] send.hyps(3) have "backed (Send t # ops) m"
    by (auto simp: mark_message_sent_Inr)
  with send show ?case by (auto simp del: backed.simps intro: backed_mono)
next
  case (claim ops rs c w a h fs k)
  then have "backed (Claim c w a h fs # ops) (ac_communication k)"
    by (auto simp: record_actual_claim_def CommunicationRecord_init_def)
  with claim show ?case by (auto simp del: backed.simps intro: backed_mono)
qed simp

text \<open>
  C28. No deception. In every run of the voice pipeline, a message that was sent carries a text
  that was drafted and then validated, in that run, with honest claims and no omission, false
  certainty, or misrepresented consent or authority; human claims and drafts are never marked as
  approved by the system.
\<close>

theorem sent_messages_were_validated:
  assumes "voice_run ops rs" and "r \<in> set rs"
  shows "(cr_kind r \<in> {APPROVED_TEXT, SENT_MESSAGE} \<longrightarrow>
      (\<exists>d claims x. Validate d claims x \<in> set ops \<and> Draft (cr_text_hash r) \<in> set ops \<and>
         cr_kind d = DRAFT_TEXT \<and> cr_text_hash d = cr_text_hash r \<and> honest x claims)) \<and>
    (cr_approved_by_system r \<longleftrightarrow> cr_kind r \<in> {APPROVED_TEXT, SENT_MESSAGE})"
  using voice_run_backed [OF assms] by (auto split: CommunicationKind.splits)

definition ex_voice_context :: VoiceContext where
  "ex_voice_context = \<lparr>vx_promise_state = Some SAFE, vx_critical_data_quality = SUFFICIENT,
     vx_contains_material_omission = False, vx_contains_false_certainty = False,
     vx_misrepresents_consent = False, vx_misrepresents_authority = False\<rparr>"

definition ex_voice_claim :: VoiceClaim where
  "ex_voice_claim = \<lparr>vc_claim_id = ''C1'', vc_evidence = ClaimEvidence.VERIFIED, vc_rendering = GUARANTEE,
     vc_material_to_recipient = True, vc_named_condition = None\<rparr>"

theorem sent_messages_were_validated_witness:
  "\<exists>ops rs r d claims x. voice_run ops rs \<and> r \<in> set rs \<and> cr_kind r = SENT_MESSAGE \<and> cr_text_hash r = ''h'' \<and>
     Validate d claims x \<in> set ops \<and> cr_text_hash d = ''h'' \<and> honest x claims"
proof -
  let ?d = "\<lparr>cr_kind = DRAFT_TEXT, cr_text_hash = ''h'', cr_approved_by_system = False\<rparr>"
  let ?t = "\<lparr>cr_kind = APPROVED_TEXT, cr_text_hash = ''h'', cr_approved_by_system = True\<rparr>"
  let ?m = "\<lparr>cr_kind = SENT_MESSAGE, cr_text_hash = ''h'', cr_approved_by_system = True\<rparr>"
  let ?v = "Validate ?d [ex_voice_claim] ex_voice_context"
  have h: "honest ex_voice_context [ex_voice_claim]"
    by (simp add: honest_def honest_claim_def ex_voice_context_def ex_voice_claim_def)
  have "voice_run [Draft ''h''] [?d]"
    by (rule voice_run.draft [OF voice_run.start]) (simp add: draft_text_def CommunicationRecord_init_def)
  from voice_run.validate [OF this, of ?d "[ex_voice_claim]" ex_voice_context] h
  have "voice_run [?v, Draft ''h''] [?t, ?d]" by (simp add: validate_voice_eq)
  from voice_run.send [OF this, of ?t ?m]
  have run: "voice_run [Send ?t, ?v, Draft ''h''] [?m, ?t, ?d]" by (simp add: mark_message_sent_Inr)
  from sent_messages_were_validated [OF run, of ?m] obtain d claims x where
    "Validate d claims x \<in> set [Send ?t, ?v, Draft ''h'']" "cr_text_hash d = ''h''" "honest x claims"
    by auto
  with run show ?thesis
    by (intro exI [of _ "[Send ?t, ?v, Draft ''h'']"] exI [of _ "[?m, ?t, ?d]"] exI [of _ ?m]
        exI [of _ d] exI [of _ claims] exI [of _ x]) simp
qed

end
