(* ===== verification/Permutations.thy ===== *)
theory Permutations
  imports "HOL-Library.Multiset"
begin

text \<open>
  \<open>itertools.permutations\<close>, in its order: lexicographic by the positions of the elements. The
  orderings it yields are exactly the rearrangements of the list.
\<close>

fun picks :: "'a list \<Rightarrow> ('a \<times> 'a list) list" where
  "picks [] = []"
| "picks (x # xs) = (x, xs) # map (\<lambda>p. (fst p, x # snd p)) (picks xs)"

lemma picks_mset: "p \<in> set (picks xs) \<Longrightarrow> mset xs = add_mset (fst p) (mset (snd p))"
  by (induction xs arbitrary: p) auto

lemma picks_ex: "y \<in> set xs \<Longrightarrow> \<exists>ys. (y, ys) \<in> set (picks xs)"
  by (induction xs) (auto, force)

function permutations :: "'a list \<Rightarrow> 'a list list" where
  "permutations [] = [[]]"
| "permutations (x # xs) = concat (map (\<lambda>p. map ((#) (fst p)) (permutations (snd p))) (picks (x # xs)))"
  by pat_completeness auto
termination
proof (relation "measure length", goal_cases)
  case (2 x xs p)
  then have "size (mset (x # xs)) = size (add_mset (fst p) (mset (snd p)))" by (simp only: picks_mset)
  then show ?case by simp
qed simp

lemma set_permutations: "set (permutations xs) = {ys. mset ys = mset xs}"
proof (induction xs rule: permutations.induct)
  case 1
  show ?case by simp
next
  case (2 x xs)
  show ?case
  proof (intro set_eqI iffI)
    fix ys assume "ys \<in> set (permutations (x # xs))"
    then obtain p zs where p: "p \<in> set (picks (x # xs))" "ys = fst p # zs" "zs \<in> set (permutations (snd p))"
      by (auto simp del: picks.simps)
    with 2 [OF p(1)] picks_mset [OF p(1)] show "ys \<in> {ys. mset ys = mset (x # xs)}" by simp
  next
    fix ys assume "ys \<in> {ys. mset ys = mset (x # xs)}"
    then have m: "mset ys = mset (x # xs)" by simp
    then obtain y zs where ys: "ys = y # zs" by (cases ys) auto
    have "y \<in> set (x # xs)" using mset_eq_setD [OF m] ys by (metis list.set_intros(1))
    then obtain us where us: "(y, us) \<in> set (picks (x # xs))" by (blast dest: picks_ex)
    then have "mset zs = mset us" using picks_mset [OF us] m ys by simp
    then have "zs \<in> set (permutations us)" using 2 [OF us] by simp
    with us ys show "ys \<in> set (permutations (x # xs))" by (force simp del: picks.simps)
  qed
qed

lemma permutations_not_Nil [simp]: "permutations xs \<noteq> []"
  using set_permutations [of xs] by fastforce

end
