(* ===== verification/Dispatch_Planner.thy ===== *)
theory Dispatch_Planner
  imports Prelude Permutations "HOL-Library.Product_Lexorder"
begin

text \<open>
  dispatch/models.py (the values the planner works on) and dispatch/planner.py: the bounded search
  over the orderings of one worker's assignments of a day. Instants are in microseconds; datetimes
  of one zone are compared and subtracted as instants, which is what Python does as long as the
  zone's offset does not change within the day. The zone's calendar (which date an instant has)
  and the hash of the proposal's payload are parameters: they are the time zone database and
  SHA-256. A \<open>datetime\<close> ends with the year 9999: an addition that leaves it raises \<open>OverflowError\<close>, and so does
  a \<open>timedelta\<close> of more than a billion days, which would leave it too. The last instant is a parameter,
  because it depends on the zone. The date of an instant in a zone is a total function here: \<open>astimezone\<close> also
  raises within a day of the ends of the calendar.
\<close>

section \<open>Values\<close>

definition require_aware :: "py_datetime \<Rightarrow> string \<Rightarrow> unit result" where
  "require_aware value field_name = require (is_aware value) (field_name @ '' must be timezone-aware'')"

definition DISPATCH_RULE_VERSION :: string where
  "DISPATCH_RULE_VERSION = ''daily-dispatch-v1''"

datatype AddressStatus = CONFIRMED | UNCONFIRMED

record StructuredAddress =
  sa_street :: string
  sa_house_number :: string
  sa_postal_code :: string
  sa_city :: string
  sa_country :: string

record ConfirmedCoordinates =
  cc_latitude :: string
  cc_longitude :: string
  cc_source :: string

record PersistentJob =
  pj_job_id :: string
  pj_title :: string
  pj_address :: StructuredAddress
  pj_address_status :: AddressStatus
  pj_coordinates :: "ConfirmedCoordinates option"

datatype CalendarStatus = CONFIRMED | IN_PROGRESS | COMPLETED | CANCELLED

record CalendarAssignment =
  ca_assignment_id :: string
  ca_job_id :: string
  ca_workflow_instance_id :: string
  ca_scheduled_task_id :: string
  ca_work_item_name :: string
  ca_worker_id :: string
  ca_required_skill_ids :: "string list"
  ca_vehicle_id :: "string option"
  ca_start_at :: py_datetime
  ca_end_at :: py_datetime
  ca_hard_deadline :: "py_datetime option"
  ca_status :: CalendarStatus
  ca_revision :: int

definition CalendarAssignment_init :: "CalendarAssignment \<Rightarrow> CalendarAssignment result" where
  "CalendarAssignment_init x =
     and_then (require_aware (ca_start_at x) ''start_at'') (\<lambda>_.
     and_then (require_aware (ca_end_at x) ''end_at'') (\<lambda>_.
     and_then (require (\<not> instant (ca_end_at x) \<le> instant (ca_start_at x))
        ''Calendar assignment duration must be positive'') (\<lambda>_.
     and_then (case ca_hard_deadline x of None \<Rightarrow> Inr () | Some d \<Rightarrow> require_aware d ''hard_deadline'') (\<lambda>_.
     Inr x))))"

record AvailabilityWindow =
  aw_start_at :: py_datetime
  aw_end_at :: py_datetime

definition AvailabilityWindow_init :: "AvailabilityWindow \<Rightarrow> AvailabilityWindow result" where
  "AvailabilityWindow_init x =
     and_then (require_aware (aw_start_at x) ''availability.start_at'') (\<lambda>_.
     and_then (require_aware (aw_end_at x) ''availability.end_at'') (\<lambda>_.
     and_then (require (\<not> instant (aw_end_at x) \<le> instant (aw_start_at x))
        ''Availability duration must be positive'') (\<lambda>_.
     Inr x)))"

record DispatchWorker =
  dw_worker_id :: string
  dw_skill_ids :: "string list"
  dw_availability :: "AvailabilityWindow list"

record DispatchVehicle =
  dv_vehicle_id :: string
  dv_availability :: "AvailabilityWindow list"

datatype MaterialReadinessStatus = READY | EXPECTED | BLOCKED

record MaterialReadiness =
  mr_job_id :: string
  mr_scheduled_task_id :: string
  mr_status :: MaterialReadinessStatus
  mr_available_at :: "py_datetime option"
  mr_blocking :: bool
  mr_source :: string
  mr_updated_at :: py_datetime
  mr_revision :: int

definition MaterialReadiness_init :: "MaterialReadiness \<Rightarrow> MaterialReadiness result" where
  "MaterialReadiness_init x =
     and_then (require_aware (mr_updated_at x) ''material.updated_at'') (\<lambda>_.
     and_then (case mr_available_at x of None \<Rightarrow> Inr () | Some t \<Rightarrow> require_aware t ''material.available_at'') (\<lambda>_.
     and_then (require (\<not> (mr_blocking x \<and> mr_status x = EXPECTED \<and> mr_available_at x = None))
        ''Blocking EXPECTED material requires available_at'') (\<lambda>_.
     Inr x)))"

datatype RouteSnapshotStatus = VALID | FAILED

record RouteSnapshot =
  rs_route_snapshot_id :: string
  rs_origin_reference :: string
  rs_origin_fingerprint :: string
  rs_destination_reference :: string
  rs_destination_fingerprint :: string
  rs_transport_mode :: string
  rs_departure_time_basis :: string
  rs_distance_meters :: int
  rs_travel_duration_seconds :: int
  rs_provider :: string
  rs_retrieved_at :: py_datetime
  rs_status :: RouteSnapshotStatus
  rs_input_fingerprint :: string

definition RouteSnapshot_init :: "RouteSnapshot \<Rightarrow> RouteSnapshot result" where
  "RouteSnapshot_init x =
     and_then (require_aware (rs_retrieved_at x) ''route.retrieved_at'') (\<lambda>_.
     and_then (require (\<not> (rs_distance_meters x < 0 \<or> rs_travel_duration_seconds x < 0))
        ''Route distance and duration cannot be negative'') (\<lambda>_.
     Inr x))"

record SchedulePlacement =
  sp_assignment_id :: string
  sp_job_id :: string
  sp_scheduled_task_id :: string
  sp_worker_id :: string
  sp_vehicle_id :: "string option"
  sp_start_at :: py_datetime
  sp_end_at :: py_datetime

datatype ReplanProposalStatus = PENDING_OWNER_APPROVAL | APPROVED | REJECTED | STALE | APPLIED

record ReplanProposal =
  rp_proposal_id :: string
  rp_initiating_workflow_instance_id :: string
  rp_status :: ReplanProposalStatus
  rp_affected_job_ids :: "string list"
  rp_affected_workflow_instance_ids :: "string list"
  rp_affected_assignment_ids :: "string list"
  rp_before_schedule :: "SchedulePlacement list"
  rp_after_schedule :: "SchedulePlacement list"
  rp_reason_codes :: "string list"
  rp_material_readiness_references :: "string list"
  rp_route_snapshot_references :: "string list"
  rp_expected_workflow_revisions :: "(string \<times> int) list"
  rp_expected_calendar_revisions :: "(string \<times> int) list"
  rp_worker_idle_time_before_seconds :: int
  rp_worker_idle_time_after_seconds :: int
  rp_travel_time_before_seconds :: int
  rp_travel_time_after_seconds :: int
  rp_deadline_impact :: string
  rp_conditional :: bool
  rp_proposal_fingerprint :: string
  rp_created_at :: py_datetime

datatype DispatchPlanStatus = PROPOSAL_CREATED | NO_FEASIBLE_REPLAN | NO_CHANGE

record DispatchPlanResult =
  dp_status :: DispatchPlanStatus
  dp_proposal :: "ReplanProposal option"
  dp_reason_codes :: "string list"
  dp_public_summary :: string

section \<open>One ordering\<close>

record Candidate =
  cn_placements :: "SchedulePlacement list"
  cn_changed_commitments :: int
  cn_idle_seconds :: int
  cn_travel_seconds :: int
  cn_route_ids :: "string list"
  cn_conditional :: bool

definition covers :: "int \<Rightarrow> int \<Rightarrow> AvailabilityWindow list \<Rightarrow> bool" where
  "covers start stop windows \<longleftrightarrow>
     (\<exists>window\<in>set windows. instant (aw_start_at window) \<le> start \<and> stop \<le> instant (aw_end_at window))"

definition duration :: "CalendarAssignment \<Rightarrow> int" where
  "duration a = instant (ca_end_at a) - instant (ca_start_at a)"

text \<open>The arguments of \<open>_evaluate_order\<close> that do not change, and the locals of its loop.\<close>

record order_context =
  oc_last_instant :: int
  oc_workday_end :: int
  oc_materials :: "string \<times> string \<Rightarrow> MaterialReadiness option"
  oc_routes :: "string \<times> string \<Rightarrow> RouteSnapshot option"
  oc_worker :: DispatchWorker
  oc_vehicles :: "string \<Rightarrow> DispatchVehicle option"

record order_state =
  os_cursor :: int
  os_previous_job :: "string option"
  os_placements :: "SchedulePlacement list"
  os_route_ids :: "string list"
  os_idle_seconds :: int
  os_travel_seconds :: int
  os_conditional :: bool

definition seconds :: "int \<Rightarrow> int" where
  "seconds n = 1000000 * n"

text \<open>\<open>datetime + timedelta\<close>, for a \<open>timedelta\<close> that is not negative.\<close>

definition later :: "order_context \<Rightarrow> int \<Rightarrow> int \<Rightarrow> int result" where
  "later x t n = (if oc_last_instant x < t + n then Inl OverflowError else Inr (t + n))"

text \<open>The travel to the next job: \<open>Inr (Inl f)\<close> is the failure code \<open>f\<close>.\<close>

definition travel_to :: "order_context \<Rightarrow> order_state \<Rightarrow> CalendarAssignment \<Rightarrow> (string + order_state) result" where
  "travel_to x st a =
     (case os_previous_job st of
        None \<Rightarrow> Inr (Inr st)
      | Some previous_job \<Rightarrow>
          if previous_job \<noteq> ca_job_id a then
            (case oc_routes x (previous_job, ca_job_id a) of
               None \<Rightarrow> Inr (Inl ''ROUTE_SNAPSHOT_MISSING'')
             | Some route \<Rightarrow>
                 and_then (later x (os_cursor st) (seconds (rs_travel_duration_seconds route))) (\<lambda>cursor.
                 Inr (Inr (st\<lparr>os_cursor := cursor,
                         os_travel_seconds := os_travel_seconds st + rs_travel_duration_seconds route,
                         os_route_ids := os_route_ids st @ [rs_route_snapshot_id route]\<rparr>))))
          else Inr (Inr st))"

text \<open>The earliest start that the material allows, and whether it waits for an expected delivery.\<close>

definition material_start :: "MaterialReadiness \<Rightarrow> int \<Rightarrow> (string + int \<times> bool) result" where
  "material_start m cursor =
     (if \<not> mr_blocking m then Inr (Inr (cursor, False))
      else if mr_status m = BLOCKED then Inr (Inl ''MATERIAL_BLOCKED'')
      else if mr_status m = EXPECTED then
        (case mr_available_at m of
           None \<Rightarrow> Inl PyTypeError
         | Some t \<Rightarrow> Inr (Inr (max cursor (instant t), True)))
      else Inr (Inr (cursor, False)))"

text \<open>The checks on the slot from \<open>earliest\<close> to \<open>stop\<close>: the first failure code, if any.\<close>

definition slot_failure :: "order_context \<Rightarrow> CalendarAssignment \<Rightarrow> int \<Rightarrow> int \<Rightarrow> string option" where
  "slot_failure x a earliest stop =
     (if oc_workday_end x < stop then Some ''WORKING_HOURS_EXCEEDED''
      else if (case ca_hard_deadline a of None \<Rightarrow> False | Some d \<Rightarrow> instant d < stop)
      then Some ''HARD_DEADLINE_VIOLATION''
      else if \<not> covers earliest stop (dw_availability (oc_worker x)) then Some ''WORKER_UNAVAILABLE''
      else (case ca_vehicle_id a of
              None \<Rightarrow> None
            | Some v \<Rightarrow>
                (case oc_vehicles x v of
                   None \<Rightarrow> Some ''VEHICLE_UNAVAILABLE''
                 | Some vehicle \<Rightarrow>
                     if covers earliest stop (dv_availability vehicle) then None
                     else Some ''VEHICLE_UNAVAILABLE'')))"

definition placement_of :: "CalendarAssignment \<Rightarrow> py_datetime \<Rightarrow> py_datetime \<Rightarrow> SchedulePlacement" where
  "placement_of a start stop =
     \<lparr>sp_assignment_id = ca_assignment_id a, sp_job_id = ca_job_id a,
      sp_scheduled_task_id = ca_scheduled_task_id a, sp_worker_id = ca_worker_id a,
      sp_vehicle_id = ca_vehicle_id a, sp_start_at = start, sp_end_at = stop\<rparr>"

text \<open>One turn of the loop of \<open>_evaluate_order\<close>.\<close>

definition place_one :: "order_context \<Rightarrow> order_state \<Rightarrow> CalendarAssignment \<Rightarrow> (string + order_state) result" where
  "place_one x st0 a =
     and_then (travel_to x st0 a) (\<lambda>t.
     case t of
       Inl failure \<Rightarrow> Inr (Inl failure)
     | Inr st \<Rightarrow>
         (case oc_materials x (ca_job_id a, ca_scheduled_task_id a) of
            None \<Rightarrow> Inr (Inl ''MATERIAL_READINESS_MISSING'')
          | Some m \<Rightarrow>
              and_then (material_start m (os_cursor st)) (\<lambda>w.
              case w of
                Inl failure \<Rightarrow> Inr (Inl failure)
              | Inr (earliest, waits) \<Rightarrow>
                  and_then (later x earliest (duration a)) (\<lambda>stop.
                  case slot_failure x a earliest stop of
                    Some failure \<Rightarrow> Inr (Inl failure)
                  | None \<Rightarrow> Inr (Inr (st\<lparr>
                      os_cursor := stop,
                      os_previous_job := Some (ca_job_id a),
                      os_placements := os_placements st @ [placement_of a (Aware earliest) (Aware stop)],
                      os_idle_seconds := os_idle_seconds st + (earliest - os_cursor st) div seconds 1,
                      os_conditional := os_conditional st \<or> waits\<rparr>))))))"

fun place_all :: "order_context \<Rightarrow> order_state \<Rightarrow> CalendarAssignment list \<Rightarrow> (string + order_state) result" where
  "place_all x st [] = Inr (Inr st)"
| "place_all x st (a # as) =
     and_then (place_one x st a) (\<lambda>r. case r of Inl failure \<Rightarrow> Inr (Inl failure) | Inr st' \<Rightarrow> place_all x st' as)"

definition moved :: "SchedulePlacement \<Rightarrow> CalendarAssignment \<Rightarrow> bool" where
  "moved p a \<longleftrightarrow>
     instant (sp_start_at p) \<noteq> instant (ca_start_at a) \<or> instant (sp_end_at p) \<noteq> instant (ca_end_at a)"

definition changed_commitments :: "SchedulePlacement list \<Rightarrow> CalendarAssignment list \<Rightarrow> int" where
  "changed_commitments ps as =
     sum_list (concat (map (\<lambda>p. map (\<lambda>a. if moved p a then 1 else 0)
       (filter (\<lambda>a. sp_assignment_id p = ca_assignment_id a) as)) ps))"

definition start_state :: "int \<Rightarrow> order_state" where
  "start_state t = \<lparr>os_cursor = t, os_previous_job = None, os_placements = [], os_route_ids = [],
     os_idle_seconds = 0, os_travel_seconds = 0, os_conditional = False\<rparr>"

definition evaluate_order ::
    "order_context \<Rightarrow> int \<Rightarrow> CalendarAssignment list \<Rightarrow> (Candidate option \<times> string list) result" where
  "evaluate_order x workday_start items =
     and_then (place_all x (start_state workday_start) items) (\<lambda>r.
     Inr (case r of
            Inl failure \<Rightarrow> (None, [failure])
          | Inr st \<Rightarrow>
              (Some \<lparr>cn_placements = os_placements st,
                     cn_changed_commitments = changed_commitments (os_placements st) items,
                     cn_idle_seconds = os_idle_seconds st,
                     cn_travel_seconds = os_travel_seconds st,
                     cn_route_ids = os_route_ids st,
                     cn_conditional = os_conditional st\<rparr>, [])))"

section \<open>The plan of a day\<close>

text \<open>
  The arguments of \<open>plan\<close>. \<open>dq_start_date\<close> is the date of an instant in the zone of
  \<open>workday_start\<close> (\<open>astimezone(workday_start.tzinfo).date()\<close>), \<open>dq_end_date\<close> the same in the zone of
  \<open>workday_end\<close>; \<open>dq_last_instant\<close> is the instant of \<open>datetime.max\<close> in the zone of the workday.
\<close>

record dispatch_query =
  dq_initiating_workflow_instance_id :: string
  dq_planning_date :: int
  dq_start_date :: "int \<Rightarrow> int"
  dq_end_date :: "int \<Rightarrow> int"
  dq_last_instant :: int
  dq_now :: py_datetime
  dq_workday_start :: py_datetime
  dq_workday_end :: py_datetime
  dq_jobs :: "PersistentJob list"
  dq_workflow_revisions :: "string \<Rightarrow> int option"
  dq_assignments :: "CalendarAssignment list"
  dq_materials :: "MaterialReadiness list"
  dq_routes :: "RouteSnapshot list"
  dq_worker :: DispatchWorker
  dq_vehicles :: "DispatchVehicle list"

definition no_replan :: "string list \<Rightarrow> string \<Rightarrow> DispatchPlanResult" where
  "no_replan reasons summary =
     \<lparr>dp_status = NO_FEASIBLE_REPLAN, dp_proposal = None, dp_reason_codes = reasons, dp_public_summary = summary\<rparr>"

definition plan_candidates :: "dispatch_query \<Rightarrow> CalendarAssignment list" where
  "plan_candidates q =
     filter (\<lambda>item. ca_status item \<notin> {COMPLETED, CANCELLED} \<and>
       dq_start_date q (instant (ca_start_at item)) = dq_planning_date q) (dq_assignments q)"

definition address_missing :: "dispatch_query \<Rightarrow> CalendarAssignment \<Rightarrow> bool" where
  "address_missing q item =
     (case dict_by pj_job_id (dq_jobs q) (ca_job_id item) of
        None \<Rightarrow> True
      | Some job \<Rightarrow> pj_address_status job \<noteq> AddressStatus.CONFIRMED \<or> pj_coordinates job = None)"

definition valid_routes :: "dispatch_query \<Rightarrow> RouteSnapshot list" where
  "valid_routes q = filter (\<lambda>item. rs_status item = VALID) (dq_routes q)"

definition route_pair :: "RouteSnapshot \<Rightarrow> string \<times> string" where
  "route_pair r = (rs_origin_reference r, rs_destination_reference r)"

text \<open>The early returns of \<open>plan\<close> before the orderings are compared.\<close>

definition plan_refusal :: "dispatch_query \<Rightarrow> DispatchPlanResult option" where
  "plan_refusal q =
     (let candidates = plan_candidates q; worker = dq_worker q in
      if candidates = [] then
        Some (no_replan [''NO_UNFINISHED_TASKS''] ''No unfinished assignments exist for the planning day.'')
      else if 3 < length candidates then
        Some (no_replan [''BOUNDED_PLANNER_LIMIT'']
          ''M7 compares at most three explicit same-worker assignments.'')
      else if \<exists>item\<in>set candidates. ca_status item = IN_PROGRESS then
        Some (no_replan [''IN_PROGRESS_IMMOVABLE''] ''An IN_PROGRESS assignment cannot be moved.'')
      else if set (map ca_worker_id candidates) \<noteq> {dw_worker_id worker} then
        Some (no_replan [''WORKER_REASSIGNMENT_FORBIDDEN'']
          ''All reordered assignments must retain the same worker.'')
      else if \<exists>item\<in>set candidates. address_missing q item then
        Some (no_replan [''ADDRESS_NOT_CONFIRMED'']
          ''Routing requires CONFIRMED addresses and fixture coordinates.'')
      else if \<exists>item\<in>set candidates. \<not> set (ca_required_skill_ids item) \<subseteq> set (dw_skill_ids worker) then
        Some (no_replan [''ASSIGNED_WORKER_MISSING_SKILL'']
          ''The existing assigned worker lacks a required skill.'')
      else if card (set (map route_pair (valid_routes q))) \<noteq> length (valid_routes q) then
        Some (no_replan [''AMBIGUOUS_ROUTE_SNAPSHOT'']
          ''More than one valid route exists for the same ordered pair.'')
      else None)"

definition plan_context :: "dispatch_query \<Rightarrow> order_context" where
  "plan_context q =
     \<lparr>oc_last_instant = dq_last_instant q, oc_workday_end = instant (dq_workday_end q),
      oc_materials = dict_by (\<lambda>item. (mr_job_id item, mr_scheduled_task_id item)) (dq_materials q),
      oc_routes = dict_by route_pair (valid_routes q),
      oc_worker = dq_worker q,
      oc_vehicles = dict_by dv_vehicle_id (dq_vehicles q)\<rparr>"

definition plan_start :: "dispatch_query \<Rightarrow> int" where
  "plan_start q = max (instant (dq_workday_start q)) (instant (dq_now q))"

definition candidate_key :: "Candidate \<Rightarrow> int \<times> int \<times> int \<times> (string \<times> string) list" where
  "candidate_key c =
     (cn_changed_commitments c, cn_idle_seconds c, cn_travel_seconds c,
      map (\<lambda>p. (sp_job_id p, sp_scheduled_task_id p)) (cn_placements c))"

definition by_start :: "CalendarAssignment list \<Rightarrow> CalendarAssignment list" where
  "by_start = sort_key (\<lambda>item. (instant (ca_start_at item), ca_assignment_id item))"

definition placement_order :: "Candidate \<Rightarrow> string list" where
  "placement_order c = map sp_assignment_id (cn_placements c)"

text \<open>The payload that \<open>_hash\<close> serialises; the schedules by identity, start and end.\<close>

record replan_payload =
  py_initiating_workflow_instance_id :: string
  py_affected_jobs :: "string list"
  py_affected_workflows :: "string list"
  py_affected_assignments :: "string list"
  py_before :: "(string \<times> py_datetime \<times> py_datetime) list"
  py_after :: "(string \<times> py_datetime \<times> py_datetime) list"
  py_workflow_revisions :: "(string \<times> int) list"
  py_calendar_revisions :: "(string \<times> int) list"
  py_material_references :: "string list"
  py_route_references :: "string list"
  py_rule_version :: string

definition schedule_rows :: "SchedulePlacement list \<Rightarrow> (string \<times> py_datetime \<times> py_datetime) list" where
  "schedule_rows = map (\<lambda>p. (sp_assignment_id p, sp_start_at p, sp_end_at p))"

definition assignment_moved :: "CalendarAssignment list \<Rightarrow> SchedulePlacement \<Rightarrow> bool result" where
  "assignment_moved candidates placement =
     (case lookup_by ca_assignment_id (sp_assignment_id placement) candidates of
        None \<Rightarrow> Inl StopIteration
      | Some item \<Rightarrow> Inr (moved placement item))"

definition affected_placements ::
    "CalendarAssignment list \<Rightarrow> SchedulePlacement list \<Rightarrow> string list result" where
  "affected_placements candidates placements =
     and_then (traverse (\<lambda>p. and_then (assignment_moved candidates p) (\<lambda>m. Inr (p, m))) placements) (\<lambda>rs.
     Inr (map (\<lambda>r. sp_assignment_id (fst r)) (filter snd rs)))"

definition REPLAN_REASON_CODES :: "string list" where
  "REPLAN_REASON_CODES =
     [''MATERIAL_NOT_READY_UNTIL'', ''ALTERNATIVE_TASK_READY'', ''ROUTE_FEASIBLE'',
      ''HARD_DEADLINE_PRESERVED'', ''CONFIRMED_COMMITMENT_CHANGE'', ''OWNER_APPROVAL_REQUIRED'']"

text \<open>The last part of \<open>plan\<close>: the proposal for the best candidate.\<close>

definition propose ::
    "(replan_payload \<Rightarrow> string) \<Rightarrow> dispatch_query \<Rightarrow> Candidate list \<Rightarrow> Candidate \<Rightarrow> DispatchPlanResult result" where
  "propose sha256 q evaluated best =
     (let candidates = plan_candidates q;
          original_order = map ca_assignment_id (by_start candidates);
          baseline = find (\<lambda>item. placement_order item = original_order) evaluated;
          before = map (\<lambda>item. placement_of item (ca_start_at item) (ca_end_at item)) (by_start candidates)
      in
      and_then (affected_placements candidates (cn_placements best)) (\<lambda>affected.
      let hit = filter (\<lambda>item. ca_assignment_id item \<in> set affected) candidates;
          affected_jobs = sorted_set (map ca_job_id hit);
          affected_workflows = sorted_set (map ca_workflow_instance_id hit)
      in
      and_then (traverse (\<lambda>w. case dq_workflow_revisions q w of None \<Rightarrow> Inl KeyError | Some n \<Rightarrow> Inr (w, n))
         affected_workflows) (\<lambda>workflow_revs.
      let expected_workflow_revisions = sort workflow_revs;
          expected_calendar_revisions = sort (map (\<lambda>item. (ca_assignment_id item, ca_revision item)) hit);
          material_refs = sort (map (\<lambda>item. mr_job_id item @ '':'' @ mr_scheduled_task_id item @ '':r'' @
              str_int (mr_revision item))
            (filter (\<lambda>item. mr_job_id item \<in> set affected_jobs) (dq_materials q)));
          payload = \<lparr>py_initiating_workflow_instance_id = dq_initiating_workflow_instance_id q,
            py_affected_jobs = affected_jobs, py_affected_workflows = affected_workflows,
            py_affected_assignments = affected, py_before = schedule_rows before,
            py_after = schedule_rows (cn_placements best),
            py_workflow_revisions = expected_workflow_revisions,
            py_calendar_revisions = expected_calendar_revisions,
            py_material_references = material_refs, py_route_references = cn_route_ids best,
            py_rule_version = DISPATCH_RULE_VERSION\<rparr>;
          fingerprint = ''sha256:'' @ sha256 payload
      in Inr \<lparr>dp_status = PROPOSAL_CREATED,
           dp_proposal = Some \<lparr>
             rp_proposal_id = ''replan-'' @ take 24 (removeprefix ''sha256:'' fingerprint),
             rp_initiating_workflow_instance_id = dq_initiating_workflow_instance_id q,
             rp_status = PENDING_OWNER_APPROVAL,
             rp_affected_job_ids = affected_jobs,
             rp_affected_workflow_instance_ids = affected_workflows,
             rp_affected_assignment_ids = affected,
             rp_before_schedule = before,
             rp_after_schedule = cn_placements best,
             rp_reason_codes = REPLAN_REASON_CODES,
             rp_material_readiness_references = material_refs,
             rp_route_snapshot_references = cn_route_ids best,
             rp_expected_workflow_revisions = expected_workflow_revisions,
             rp_expected_calendar_revisions = expected_calendar_revisions,
             rp_worker_idle_time_before_seconds =
               (case baseline of None \<Rightarrow> -1 | Some b \<Rightarrow> cn_idle_seconds b),
             rp_worker_idle_time_after_seconds = cn_idle_seconds best,
             rp_travel_time_before_seconds =
               (case baseline of None \<Rightarrow> -1 | Some b \<Rightarrow> cn_travel_seconds b),
             rp_travel_time_after_seconds = cn_travel_seconds best,
             rp_deadline_impact = ''All true hard deadlines remain satisfied.'',
             rp_conditional = cn_conditional best,
             rp_proposal_fingerprint = fingerprint,
             rp_created_at = dq_now q\<rparr>,
           dp_reason_codes = REPLAN_REASON_CODES,
           dp_public_summary =
             ''A deterministic change to the order of existing same-worker assignments requires owner approval.''\<rparr>)))"

text \<open>The result when the best ordering is the original one.\<close>

definition keep_order :: "dispatch_query \<Rightarrow> Candidate \<Rightarrow> DispatchPlanResult" where
  "keep_order q best =
     (let unchanged = (\<forall>(placement, item)\<in>set (zip (cn_placements best) (by_start (plan_candidates q))).
            \<not> moved placement item)
      in if unchanged then
           \<lparr>dp_status = NO_CHANGE, dp_proposal = None, dp_reason_codes = [''CURRENT_ORDER_ALREADY_FEASIBLE''],
            dp_public_summary = ''The confirmed order is already feasible.''\<rparr>
         else no_replan [''NO_FEASIBLE_REORDER'']
           ''No feasible change to the order of existing assignments exists.'')"

definition check_query :: "dispatch_query \<Rightarrow> unit result" where
  "check_query q =
     and_then (require_aware (dq_now q) ''now'') (\<lambda>_.
     and_then (require_aware (dq_workday_start q) ''workday_start'') (\<lambda>_.
     and_then (require_aware (dq_workday_end q) ''workday_end'') (\<lambda>_.
     and_then (require (\<not> (dq_start_date q (instant (dq_workday_start q)) \<noteq> dq_planning_date q \<or>
          dq_end_date q (instant (dq_workday_end q)) \<noteq> dq_planning_date q))
        ''Workday bounds must match planning_date'') (\<lambda>_.
     require (\<not> instant (dq_workday_end q) \<le> instant (dq_workday_start q)) ''Working hours are invalid''))))"

definition evaluate_orderings :: "dispatch_query \<Rightarrow> (Candidate option \<times> string list) list result" where
  "evaluate_orderings q =
     traverse (evaluate_order (plan_context q) (plan_start q)) (permutations (plan_candidates q))"

definition plan :: "(replan_payload \<Rightarrow> string) \<Rightarrow> dispatch_query \<Rightarrow> DispatchPlanResult result" where
  "plan sha256 q =
     and_then (check_query q) (\<lambda>_.
     case plan_refusal q of
       Some refusal \<Rightarrow> Inr refusal
     | None \<Rightarrow>
         and_then (evaluate_orderings q) (\<lambda>rs.
         case sort_key candidate_key (List.map_filter fst rs) of
           [] \<Rightarrow>
             let failure_codes = sorted_set (concat (map snd rs)) in
             Inr (no_replan (if failure_codes \<noteq> [] then failure_codes else [''NO_FEASIBLE_ORDERING''])
               ''No ordering satisfies material, route, availability, working-hour and hard-deadline constraints.'')
         | best # others \<Rightarrow>
             if placement_order best = map ca_assignment_id (by_start (plan_candidates q))
             then Inr (keep_order q best)
             else propose sha256 q (best # others) best))"

end
