(* ===== verification/Dispatch_Properties.thy ===== *)
theory Dispatch_Properties
  imports Dispatch_Planner
begin

text \<open>
  What the planner of a day promises. A schedule for an ordering is feasible (\<open>schedule_from\<close>) when
  the assignments follow one another with the travel between them, each in a slot that keeps its
  duration and respects material, working hours, deadline and the availability of worker and
  vehicle. The planner's loop builds feasible schedules only, and the plan selects among all
  orderings of the day's candidates.
\<close>

section \<open>Feasible schedules\<close>

definition material_ready :: "order_context \<Rightarrow> CalendarAssignment \<Rightarrow> int \<Rightarrow> bool" where
  "material_ready x a start \<longleftrightarrow>
     (case oc_materials x (ca_job_id a, ca_scheduled_task_id a) of
        None \<Rightarrow> False
      | Some m \<Rightarrow> mr_blocking m \<longrightarrow> mr_status m \<noteq> BLOCKED \<and>
          (mr_status m = EXPECTED \<longrightarrow> (case mr_available_at m of None \<Rightarrow> False | Some t \<Rightarrow> instant t \<le> start)))"

definition vehicle_free :: "order_context \<Rightarrow> CalendarAssignment \<Rightarrow> int \<Rightarrow> int \<Rightarrow> bool" where
  "vehicle_free x a start stop \<longleftrightarrow>
     (case ca_vehicle_id a of
        None \<Rightarrow> True
      | Some v \<Rightarrow> (case oc_vehicles x v of
            None \<Rightarrow> False
          | Some vehicle \<Rightarrow> covers start stop (dv_availability vehicle)))"

definition deadline_kept :: "CalendarAssignment \<Rightarrow> int \<Rightarrow> bool" where
  "deadline_kept a stop \<longleftrightarrow> (case ca_hard_deadline a of None \<Rightarrow> True | Some d \<Rightarrow> stop \<le> instant d)"

definition slot_feasible :: "order_context \<Rightarrow> CalendarAssignment \<Rightarrow> SchedulePlacement \<Rightarrow> bool" where
  "slot_feasible x a p \<longleftrightarrow>
     (let start = instant (sp_start_at p); stop = instant (sp_end_at p) in
      p = placement_of a (Aware start) (Aware stop) \<and>
      stop - start = duration a \<and>
      stop \<le> oc_workday_end x \<and>
      deadline_kept a stop \<and>
      covers start stop (dw_availability (oc_worker x)) \<and>
      vehicle_free x a start stop \<and>
      material_ready x a start)"

text \<open>The travel from the previous job, in seconds.\<close>

fun travel_between :: "order_context \<Rightarrow> string option \<Rightarrow> string \<Rightarrow> int option" where
  "travel_between x None j = Some 0"
| "travel_between x (Some i) j =
     (if i = j then Some 0 else map_option rs_travel_duration_seconds (oc_routes x (i, j)))"

fun schedule_from ::
    "order_context \<Rightarrow> int \<Rightarrow> string option \<Rightarrow> CalendarAssignment list \<Rightarrow> SchedulePlacement list \<Rightarrow> bool" where
  "schedule_from x t previous [] [] = True"
| "schedule_from x t previous (a # as) (p # ps) \<longleftrightarrow>
     (case travel_between x previous (ca_job_id a) of
        None \<Rightarrow> False
      | Some n \<Rightarrow> t + seconds n \<le> instant (sp_start_at p)) \<and>
     slot_feasible x a p \<and>
     schedule_from x (instant (sp_end_at p)) (Some (ca_job_id a)) as ps"
| "schedule_from x t previous _ _ = False"

section \<open>The loop builds feasible schedules\<close>

lemma later_Inr [simp]: "later x t n = Inr u \<longleftrightarrow> u = t + n \<and> t + n \<le> oc_last_instant x"
  by (auto simp: later_def)

lemma travel_to_Inr:
  "travel_to x st a = Inr (Inr st') \<Longrightarrow>
     \<exists>n. travel_between x (os_previous_job st) (ca_job_id a) = Some n \<and>
       os_cursor st' = os_cursor st + seconds n \<and> os_placements st' = os_placements st"
  by (auto simp: travel_to_def seconds_def split: option.splits if_splits)

lemma material_start_Inr:
  "material_start m cursor = Inr (Inr (earliest, waits)) \<Longrightarrow>
     cursor \<le> earliest \<and>
     (mr_blocking m \<longrightarrow> mr_status m \<noteq> BLOCKED \<and>
        (mr_status m = EXPECTED \<longrightarrow>
           (case mr_available_at m of None \<Rightarrow> False | Some t \<Rightarrow> instant t \<le> earliest)))"
  by (auto simp: material_start_def split: if_splits option.splits)

lemma slot_failure_None:
  "slot_failure x a start stop = None \<longleftrightarrow>
     stop \<le> oc_workday_end x \<and> deadline_kept a stop \<and>
     covers start stop (dw_availability (oc_worker x)) \<and> vehicle_free x a start stop"
  by (auto simp: slot_failure_def vehicle_free_def deadline_kept_def not_less split: option.splits if_splits)

lemma place_one_Inr:
  assumes "place_one x st a = Inr (Inr st')"
  shows "\<exists>p n. os_placements st' = os_placements st @ [p] \<and> slot_feasible x a p \<and>
    travel_between x (os_previous_job st) (ca_job_id a) = Some n \<and> os_cursor st + seconds n \<le> instant (sp_start_at p) \<and>
    os_cursor st' = instant (sp_end_at p) \<and> os_previous_job st' = Some (ca_job_id a)"
proof -
  from assms obtain t where t: "travel_to x st a = Inr t" by (auto simp: place_one_def)
  with assms obtain mid where mid: "travel_to x st a = Inr (Inr mid)" by (cases t) (simp_all add: place_one_def)
  from assms mid obtain m where m: "oc_materials x (ca_job_id a, ca_scheduled_task_id a) = Some m"
    by (auto simp: place_one_def split: option.splits)
  from assms mid m obtain r where r: "material_start m (os_cursor mid) = Inr r"
    by (auto simp: place_one_def)
  with assms mid m obtain earliest waits where
    w: "material_start m (os_cursor mid) = Inr (Inr (earliest, waits))"
    and s: "slot_failure x a earliest (earliest + duration a) = None"
    and st': "os_cursor st' = earliest + duration a" "os_previous_job st' = Some (ca_job_id a)"
      "os_placements st' = os_placements mid @ [placement_of a (Aware earliest) (Aware (earliest + duration a))]"
    by (cases r) (auto simp: place_one_def split: option.splits)
  let ?p = "placement_of a (Aware earliest) (Aware (earliest + duration a))"
  have p: "instant (sp_start_at ?p) = earliest" "instant (sp_end_at ?p) = earliest + duration a"
    by (simp_all add: placement_of_def)
  have "material_ready x a earliest"
    using material_start_Inr [OF w] m by (auto simp: material_ready_def)
  then have "slot_feasible x a ?p"
    using s by (simp add: slot_feasible_def p slot_failure_None)
  then show ?thesis
    using travel_to_Inr [OF mid] material_start_Inr [OF w] st' p by (metis order_trans)
qed

lemma place_all_feasible:
  "place_all x st as = Inr (Inr st') \<Longrightarrow>
     \<exists>ps. os_placements st' = os_placements st @ ps \<and>
       schedule_from x (os_cursor st) (os_previous_job st) as ps"
proof (induction as arbitrary: st)
  case (Cons a as)
  then obtain r where r: "place_one x st a = Inr r"
      "(case r of Inl failure \<Rightarrow> Inr (Inl failure) | Inr st'' \<Rightarrow> place_all x st'' as) = Inr (Inr st')"
    by auto
  then obtain mid where mid: "place_one x st a = Inr (Inr mid)" "place_all x mid as = Inr (Inr st')"
    by (cases r) auto
  from place_one_Inr [OF mid(1)] obtain p n where
    p: "os_placements mid = os_placements st @ [p]" "slot_feasible x a p"
      "travel_between x (os_previous_job st) (ca_job_id a) = Some n" "os_cursor st + seconds n \<le> instant (sp_start_at p)"
      "os_cursor mid = instant (sp_end_at p)" "os_previous_job mid = Some (ca_job_id a)" by blast
  from Cons.IH [OF mid(2)] obtain ps where
    "os_placements st' = os_placements mid @ ps"
    "schedule_from x (os_cursor mid) (os_previous_job mid) as ps" by blast
  with p show ?case by (intro exI [of _ "p # ps"]) auto
qed simp

lemma schedule_from_ids:
  "schedule_from x t previous as ps \<Longrightarrow> map sp_assignment_id ps = map ca_assignment_id as"
proof (induction x t previous as ps rule: schedule_from.induct)
  case (2 x t previous a as p ps)
  then have "p = placement_of a (Aware (instant (sp_start_at p))) (Aware (instant (sp_end_at p)))"
    by (simp add: slot_feasible_def Let_def)
  then have "sp_assignment_id p = ca_assignment_id a" by (metis placement_of_def SchedulePlacement.select_convs(1))
  with 2 show ?case by simp
qed simp_all

lemma evaluate_order_feasible:
  assumes "evaluate_order x t as = Inr (Some c, fs)"
  shows "schedule_from x t None as (cn_placements c)"
proof -
  from assms obtain r where "place_all x (start_state t) as = Inr r" by (auto simp: evaluate_order_def)
  with assms obtain st where st: "place_all x (start_state t) as = Inr (Inr st)" "cn_placements c = os_placements st"
    by (cases r) (auto simp: evaluate_order_def)
  from place_all_feasible [OF st(1)] st(2) show ?thesis by (auto simp: start_state_def)
qed

section \<open>The loop returns\<close>

definition materials_ok :: "order_context \<Rightarrow> bool" where
  "materials_ok x \<longleftrightarrow> (\<forall>k m. oc_materials x k = Some m \<longrightarrow>
     (mr_blocking m \<and> mr_status m = EXPECTED \<longrightarrow> mr_available_at m \<noteq> None))"

lemma material_start_returns:
  "(mr_blocking m \<and> mr_status m = EXPECTED \<longrightarrow> mr_available_at m \<noteq> None) \<Longrightarrow> \<exists>r. material_start m cursor = Inr r"
  by (auto simp: material_start_def)

lemma later_Inl [simp]: "later x t n = Inl e \<longleftrightarrow> e = OverflowError \<and> oc_last_instant x < t + n"
  by (auto simp: later_def)

text \<open>The loop raises nothing but \<open>OverflowError\<close>.\<close>

lemma place_one_raises:
  assumes "materials_ok x" "place_one x st a = Inl e"
  shows "e = OverflowError"
proof -
  have m: "material_start m cursor \<noteq> Inl y" if "oc_materials x k = Some m" for k m cursor y
  proof -
    have "mr_blocking m \<and> mr_status m = EXPECTED \<longrightarrow> mr_available_at m \<noteq> None"
      using assms(1) that unfolding materials_ok_def by (cases k) blast
    from material_start_returns [OF this, of cursor] show ?thesis by auto
  qed
  have t: "y = OverflowError" if "travel_to x st a = Inl y" for y
    using that by (auto simp: travel_to_def later_def split: option.splits if_splits)
  show ?thesis
  proof (cases "travel_to x st a")
    case (Inl y)
    with assms(2) t show ?thesis by (simp add: place_one_def)
  next
    case (Inr r)
    then obtain mid where mid: "travel_to x st a = Inr (Inr mid)"
      using assms(2) by (cases r) (simp_all add: place_one_def)
    then obtain mr where mr: "oc_materials x (ca_job_id a, ca_scheduled_task_id a) = Some mr"
      using assms(2) by (cases "oc_materials x (ca_job_id a, ca_scheduled_task_id a)") (simp_all add: place_one_def)
    obtain w where w: "material_start mr (os_cursor mid) = Inr w"
      using m [OF mr] by (cases "material_start mr (os_cursor mid)") auto
    then obtain earliest waits where "material_start mr (os_cursor mid) = Inr (Inr (earliest, waits))"
      using assms(2) mid mr by (cases w) (auto simp: place_one_def)
    with assms(2) mid mr show ?thesis
      by (cases "later x earliest (duration a)") (auto simp: place_one_def split: option.splits)
  qed
qed

lemma place_all_raises: "materials_ok x \<Longrightarrow> place_all x st as = Inl e \<Longrightarrow> e = OverflowError"
proof (induction as arbitrary: st)
  case (Cons a as)
  show ?case
  proof (cases "place_one x st a")
    case (Inl e')
    with Cons.prems place_one_raises [OF Cons.prems(1) Inl] show ?thesis by simp
  next
    case (Inr r)
    with Cons show ?thesis by (cases r) auto
  qed
qed simp

text \<open>
  Room in the calendar: no start that the loop can reach lies after \<open>T\<close>, and every assignment still fits in
  after \<open>T\<close>. A start is the first one, the end of a slot, which is within the workday, with the travel
  after it, or a delivery.
\<close>

definition room :: "order_context \<Rightarrow> int \<Rightarrow> CalendarAssignment set \<Rightarrow> bool" where
  "room x T As \<longleftrightarrow> oc_workday_end x \<le> T \<and>
     (\<forall>k r. oc_routes x k = Some r \<longrightarrow> oc_workday_end x + seconds (rs_travel_duration_seconds r) \<le> T) \<and>
     (\<forall>k m t. oc_materials x k = Some m \<longrightarrow> mr_available_at m = Some t \<longrightarrow> instant t \<le> T) \<and>
     (\<forall>a\<in>As. 0 < duration a \<and> T + duration a \<le> oc_last_instant x)"

definition in_room :: "order_context \<Rightarrow> int \<Rightarrow> order_state \<Rightarrow> bool" where
  "in_room x T st \<longleftrightarrow> os_cursor st \<le> T \<and> (os_previous_job st \<noteq> None \<longrightarrow> os_cursor st \<le> oc_workday_end x)"

lemma place_one_returns:
  assumes ok: "materials_ok x" and room: "room x T As" "a \<in> As" and st: "in_room x T st"
  shows "\<exists>r. place_one x st a = Inr r \<and> (case r of Inl _ \<Rightarrow> True | Inr st' \<Rightarrow> in_room x T st')"
proof -
  have T: "T \<le> oc_last_instant x" using room by (force simp: room_def)
  have "\<exists>t. travel_to x st a = Inr t \<and> (case t of Inl _ \<Rightarrow> True | Inr mid \<Rightarrow> os_cursor mid \<le> T)"
    using st room T by (fastforce simp: travel_to_def in_room_def room_def later_def split: option.split)
  then obtain t where t: "travel_to x st a = Inr t" "case t of Inl _ \<Rightarrow> True | Inr mid \<Rightarrow> os_cursor mid \<le> T" by blast
  show ?thesis
  proof (cases t)
    case (Inr mid)
    show ?thesis
    proof (cases "oc_materials x (ca_job_id a, ca_scheduled_task_id a)")
      case (Some m)
      with ok obtain w where w: "material_start m (os_cursor mid) = Inr w"
        using material_start_returns [of m "os_cursor mid"] by (auto simp: materials_ok_def)
      show ?thesis
      proof (cases w)
        case (Inr y)
        obtain earliest waits where y: "y = (earliest, waits)" by (cases y)
        have "earliest \<le> T"
          using w Inr y Some room(1) t(2) \<open>t = Inr mid\<close>
          by (auto simp: material_start_def room_def split: if_splits option.splits)
        then have fits: "earliest + duration a \<le> oc_last_instant x" using room by (force simp: room_def)
        show ?thesis
        proof (cases "slot_failure x a earliest (earliest + duration a)")
          case None
          then have "earliest + duration a \<le> oc_workday_end x" by (simp add: slot_failure_None)
          with None room(1) show ?thesis
            by (simp add: place_one_def t(1) \<open>t = Inr mid\<close> Some w Inr y later_def fits not_less in_room_def room_def)
        qed (simp add: place_one_def t(1) \<open>t = Inr mid\<close> Some w Inr y later_def fits not_less)
      qed (simp add: place_one_def t(1) \<open>t = Inr mid\<close> Some w)
    qed (simp add: place_one_def t(1) Inr)
  qed (simp add: place_one_def t(1))
qed

lemma place_all_returns:
  "materials_ok x \<Longrightarrow> room x T As \<Longrightarrow> set as \<subseteq> As \<Longrightarrow> in_room x T st \<Longrightarrow> \<exists>r. place_all x st as = Inr r"
proof (induction as arbitrary: st)
  case (Cons a as)
  then have "a \<in> As" by simp
  from place_one_returns [OF Cons.prems(1,2) this Cons.prems(4)] obtain r where
    "place_one x st a = Inr r" "case r of Inl _ \<Rightarrow> True | Inr st' \<Rightarrow> in_room x T st'" by blast
  with Cons show ?case by (cases r) auto
qed simp

lemma evaluate_order_raises: "materials_ok x \<Longrightarrow> evaluate_order x t as = Inl e \<Longrightarrow> e = OverflowError"
  by (cases "place_all x (start_state t) as") (auto simp: evaluate_order_def dest: place_all_raises)

lemma evaluate_order_returns:
  assumes "materials_ok x" "room x T As" "set as \<subseteq> As" "t \<le> T"
  shows "\<exists>r. evaluate_order x t as = Inr r"
proof -
  have "in_room x T (start_state t)" using assms(4) by (simp add: in_room_def start_state_def)
  from place_all_returns [OF assms(1-3) this] show ?thesis by (auto simp: evaluate_order_def)
qed

section \<open>The orderings of a day\<close>

text \<open>
  A query as the repository loads it: validated values, one row per assignment identity, and a
  revision for the workflow of every assignment.
\<close>

definition query_ok :: "dispatch_query \<Rightarrow> bool" where
  "query_ok q \<longleftrightarrow>
     check_query q = Inr () \<and>
     (\<forall>a\<in>set (dq_assignments q). CalendarAssignment_init a = Inr a \<and>
        dq_workflow_revisions q (ca_workflow_instance_id a) \<noteq> None) \<and>
     distinct (map ca_assignment_id (dq_assignments q)) \<and>
     (\<forall>m\<in>set (dq_materials q). MaterialReadiness_init m = Inr m) \<and>
     (\<forall>r\<in>set (dq_routes q). RouteSnapshot_init r = Inr r)"

abbreviation evaluates :: "dispatch_query \<Rightarrow> CalendarAssignment list \<Rightarrow> Candidate \<Rightarrow> bool" where
  "evaluates q as c \<equiv> evaluate_order (plan_context q) (plan_start q) as = Inr (Some c, [])"

lemma evaluate_order_Some_Nil:
  assumes "evaluate_order x t as = Inr (Some c, fs)" shows "fs = []"
proof -
  from assms obtain r where "place_all x (start_state t) as = Inr r" by (auto simp: evaluate_order_def)
  with assms show ?thesis by (cases r) (auto simp: evaluate_order_def)
qed

lemma materials_ok_context: "query_ok q \<Longrightarrow> materials_ok (plan_context q)"
  by (fastforce simp: query_ok_def materials_ok_def plan_context_def dict_by_def MaterialReadiness_init_def
      dest!: lookup_by_Some)

text \<open>
  The latest starts that a plan can reach, and the queries whose calendar has room after them for every
  candidate: all but those within days of the end of the calendar, or with routes of such a length.
\<close>

definition latest_starts :: "dispatch_query \<Rightarrow> int list" where
  "latest_starts q = [plan_start q, instant (dq_workday_end q)] @
     map (\<lambda>r. instant (dq_workday_end q) + seconds (rs_travel_duration_seconds r)) (valid_routes q) @
     map instant (List.map_filter mr_available_at (dq_materials q))"

definition within_calendar :: "dispatch_query \<Rightarrow> bool" where
  "within_calendar q \<longleftrightarrow>
     (\<forall>a\<in>set (plan_candidates q). \<forall>t\<in>set (latest_starts q). t + duration a \<le> dq_last_instant q)"

lemma dict_by_member: "dict_by key xs k = Some x \<Longrightarrow> x \<in> set xs"
  by (auto simp: dict_by_def dest: lookup_by_Some)

lemma in_map_filter: "y \<in> set (List.map_filter f xs) \<longleftrightarrow> (\<exists>x\<in>set xs. f x = Some y)"
  by (induction xs) (auto simp: List.map_filter_def)

lemma within_calendar_room:
  assumes q: "query_ok q" and fits: "within_calendar q"
  shows "room (plan_context q) (Max (set (latest_starts q))) (set (plan_candidates q))"
proof -
  let ?T = "Max (set (latest_starts q))"
  have T: "t \<le> ?T" if "t \<in> set (latest_starts q)" for t using that by (intro Max_ge) simp_all
  have "?T \<in> set (latest_starts q)" by (rule Max_in) (simp_all add: latest_starts_def)
  then have "?T + duration a \<le> dq_last_instant q" if "a \<in> set (plan_candidates q)" for a
    using fits that by (simp add: within_calendar_def)
  moreover have "0 < duration a" if "a \<in> set (plan_candidates q)" for a
  proof -
    from that q have "CalendarAssignment_init a = Inr a" by (simp add: plan_candidates_def query_ok_def)
    then show ?thesis by (simp add: CalendarAssignment_init_def duration_def)
  qed
  moreover have "instant (dq_workday_end q) \<le> ?T" by (rule T) (simp add: latest_starts_def)
  moreover have "instant (dq_workday_end q) + seconds (rs_travel_duration_seconds r) \<le> ?T"
    if "dict_by route_pair (valid_routes q) k = Some r" for k r
    by (rule T) (use dict_by_member [OF that] in \<open>simp add: latest_starts_def\<close>)
  moreover have "instant t \<le> ?T"
    if "dict_by (\<lambda>item. (mr_job_id item, mr_scheduled_task_id item)) (dq_materials q) k = Some m" "mr_available_at m = Some t" for k m t
  proof (rule T)
    have "t \<in> set (List.map_filter mr_available_at (dq_materials q))"
      using dict_by_member [OF that(1)] that(2) by (auto simp: in_map_filter)
    then show "instant t \<in> set (latest_starts q)" by (simp add: latest_starts_def)
  qed
  ultimately show ?thesis by (simp add: room_def plan_context_def)
qed

lemma evaluate_orderings_returns:
  assumes "query_ok q" "within_calendar q"
  shows "\<exists>rs. evaluate_orderings q = Inr rs"
proof -
  let ?e = "evaluate_order (plan_context q) (plan_start q)" and ?T = "Max (set (latest_starts q))"
  have start: "plan_start q \<le> ?T" by (rule Max_ge) (simp_all add: latest_starts_def)
  have "?e as = Inr (projr (?e as))" if "as \<in> set (permutations (plan_candidates q))" for as
  proof -
    from that have "set as \<subseteq> set (plan_candidates q)" by (auto simp: set_permutations dest: mset_eq_setD)
    from evaluate_order_returns [OF materials_ok_context [OF assms(1)] within_calendar_room [OF assms] this start]
    show ?thesis by auto
  qed
  then have "evaluate_orderings q = Inr (map (\<lambda>as. projr (?e as)) (permutations (plan_candidates q)))"
    unfolding evaluate_orderings_def by (rule traverse_map)
  then show ?thesis by blast
qed

lemma traverse_Inl: "traverse f xs = Inl e \<Longrightarrow> \<exists>x\<in>set xs. f x = Inl e"
proof (induction xs)
  case (Cons x xs)
  then show ?case by (cases "f x"; cases "traverse f xs") auto
qed simp

lemma evaluate_orderings_raises:
  assumes "query_ok q" "evaluate_orderings q = Inl e"
  shows "e = OverflowError"
  using traverse_Inl [OF assms(2) [unfolded evaluate_orderings_def]] evaluate_order_raises [OF materials_ok_context [OF assms(1)]]
  by blast

lemma evaluated_iff:
  assumes "evaluate_orderings q = Inr rs"
  shows "c \<in> set (List.map_filter fst rs) \<longleftrightarrow> (\<exists>as. mset as = mset (plan_candidates q) \<and> evaluates q as c)"
proof -
  let ?e = "evaluate_order (plan_context q) (plan_start q)"
  have all: "list_all2 (\<lambda>as r. ?e as = Inr r) (permutations (plan_candidates q)) rs"
    using assms by (simp add: evaluate_orderings_def traverse_Inr_iff)
  have "(\<exists>r\<in>set rs. fst r = Some c) \<longleftrightarrow> (\<exists>as\<in>set (permutations (plan_candidates q)). evaluates q as c)"
  proof
    assume "\<exists>r\<in>set rs. fst r = Some c"
    then obtain i where i: "i < length rs" "fst (rs ! i) = Some c" by (metis in_set_conv_nth)
    with all have "i < length (permutations (plan_candidates q))" "?e (permutations (plan_candidates q) ! i) = Inr (rs ! i)"
      by (auto simp: list_all2_conv_all_nth)
    with i evaluate_order_Some_Nil show "\<exists>as\<in>set (permutations (plan_candidates q)). evaluates q as c"
      by (metis nth_mem prod.collapse)
  next
    assume "\<exists>as\<in>set (permutations (plan_candidates q)). evaluates q as c"
    then obtain i where i: "i < length (permutations (plan_candidates q))"
      "evaluates q (permutations (plan_candidates q) ! i) c" by (metis in_set_conv_nth)
    with all have "i < length rs" "rs ! i = (Some c, [])" by (auto simp: list_all2_conv_all_nth)
    then show "\<exists>r\<in>set rs. fst r = Some c" by (metis nth_mem fst_conv)
  qed
  then show ?thesis by (simp add: in_map_filter set_permutations)
qed

lemma plan_cases [consumes 1, case_names refused infeasible kept proposed]:
  assumes "plan sha256 q = Inr r"
  obtains "plan_refusal q = Some r"
  | "plan_refusal q = None" "\<nexists>as c. mset as = mset (plan_candidates q) \<and> evaluates q as c"
    "dp_status r = NO_FEASIBLE_REPLAN" "dp_proposal r = None"
  | best as where "plan_refusal q = None" "mset as = mset (plan_candidates q)" "evaluates q as best"
    "\<And>as' c. mset as' = mset (plan_candidates q) \<Longrightarrow> evaluates q as' c \<Longrightarrow> candidate_key best \<le> candidate_key c"
    "placement_order best = map ca_assignment_id (by_start (plan_candidates q))" "r = keep_order q best"
  | best as es where "plan_refusal q = None" "mset as = mset (plan_candidates q)" "evaluates q as best"
    "\<And>as' c. mset as' = mset (plan_candidates q) \<Longrightarrow> evaluates q as' c \<Longrightarrow> candidate_key best \<le> candidate_key c"
    "placement_order best \<noteq> map ca_assignment_id (by_start (plan_candidates q))"
    "propose sha256 q es best = Inr r"
proof (cases "plan_refusal q")
  case (Some x)
  with assms that(1) show ?thesis by (auto simp: plan_def)
next
  case None
  with assms obtain rs where rs: "evaluate_orderings q = Inr rs" by (auto simp: plan_def)
  let ?es = "sort_key candidate_key (List.map_filter fst rs)"
  have es: "c \<in> set ?es \<longleftrightarrow> (\<exists>as. mset as = mset (plan_candidates q) \<and> evaluates q as c)" for c
    using evaluated_iff [OF rs] by simp
  show ?thesis
  proof (cases ?es)
    case Nil
    then have none: "\<nexists>as c. mset as = mset (plan_candidates q) \<and> evaluates q as c"
      using es by (metis list.set(1) empty_iff)
    from assms None rs Nil have "dp_status r = NO_FEASIBLE_REPLAN" "dp_proposal r = None"
      by (auto simp: plan_def no_replan_def Let_def)
    with that(2) None none show ?thesis by blast
  next
    case (Cons best others)
    then obtain as where as: "mset as = mset (plan_candidates q)" "evaluates q as best"
      using es [of best] by auto
    have least: "candidate_key best \<le> candidate_key c" if "c \<in> set ?es" for c
    proof -
      have "sorted (map candidate_key (best # others))" using sorted_sort_key [of candidate_key] Cons by metis
      with that Cons show ?thesis by auto
    qed
    show ?thesis
    proof (cases "placement_order best = map ca_assignment_id (by_start (plan_candidates q))")
      case True
      with assms None rs Cons have "r = keep_order q best" by (simp add: plan_def)
      with that(3) None as least es True show ?thesis by blast
    next
      case False
      with assms None rs Cons have "propose sha256 q (best # others) best = Inr r" by (simp add: plan_def)
      with that(4) None as least es False show ?thesis by blast
    qed
  qed
qed

section \<open>The proposal\<close>

lemma plan_candidates_subset: "a \<in> set (plan_candidates q) \<Longrightarrow> a \<in> set (dq_assignments q)"
  by (simp add: plan_candidates_def)

lemma plan_candidates_distinct: "query_ok q \<Longrightarrow> distinct (map ca_assignment_id (plan_candidates q))"
  by (simp add: query_ok_def plan_candidates_def distinct_map_filter)

lemma plan_refusal_NoneD:
  assumes "plan_refusal q = None" and "a \<in> set (plan_candidates q)"
  shows "ca_status a = CalendarStatus.CONFIRMED" and "ca_worker_id a = dw_worker_id (dq_worker q)"
    and "set (ca_required_skill_ids a) \<subseteq> set (dw_skill_ids (dq_worker q))" and "\<not> address_missing q a"
    and "length (plan_candidates q) \<le> 3"
proof -
  from assms(2) have s: "ca_status a \<notin> {COMPLETED, CANCELLED}" by (simp add: plan_candidates_def)
  from assms have "ca_status a \<noteq> IN_PROGRESS" "ca_worker_id a \<in> {dw_worker_id (dq_worker q)}"
    by (auto simp: plan_refusal_def Let_def split: if_splits)
  with s show "ca_status a = CalendarStatus.CONFIRMED" "ca_worker_id a = dw_worker_id (dq_worker q)"
    by (cases "ca_status a"; simp)+
  from assms show "set (ca_required_skill_ids a) \<subseteq> set (dw_skill_ids (dq_worker q))" "\<not> address_missing q a"
      "length (plan_candidates q) \<le> 3"
    by (auto simp: plan_refusal_def Let_def split: if_splits)
qed

definition affected_by :: "CalendarAssignment list \<Rightarrow> SchedulePlacement list \<Rightarrow> CalendarAssignment \<Rightarrow> bool" where
  "affected_by as ps a \<longleftrightarrow> (\<exists>p\<in>set ps. sp_assignment_id p = ca_assignment_id a \<and> moved p a)"

lemma affected_placements_eq:
  assumes "distinct (map ca_assignment_id as)" and "sp_assignment_id ` set ps \<subseteq> ca_assignment_id ` set as"
  shows "\<exists>ids. affected_placements as ps = Inr ids \<and>
    (\<forall>a\<in>set as. ca_assignment_id a \<in> set ids \<longleftrightarrow> affected_by as ps a)"
proof -
  let ?item = "\<lambda>p. the (lookup_by ca_assignment_id (sp_assignment_id p) as)"
  have item: "lookup_by ca_assignment_id (sp_assignment_id p) as = Some (?item p)" if "p \<in> set ps" for p
    using assms(2) that by (cases "lookup_by ca_assignment_id (sp_assignment_id p) as")
      (auto simp: lookup_by_None_iff)
  have "traverse (\<lambda>p. and_then (assignment_moved as p) (\<lambda>m. Inr (p, m))) ps =
      Inr (map (\<lambda>p. (p, moved p (?item p))) ps)"
  proof (rule traverse_map)
    fix p assume "p \<in> set ps"
    then obtain i where "lookup_by ca_assignment_id (sp_assignment_id p) as = Some i" using item by blast
    then show "and_then (assignment_moved as p) (\<lambda>m. Inr (p, m)) = Inr (p, moved p (?item p))"
      by (simp add: assignment_moved_def)
  qed
  then have ids: "affected_placements as ps =
      Inr (map sp_assignment_id (filter (\<lambda>p. moved p (?item p)) ps))"
    by (simp add: affected_placements_def filter_map comp_def)
  have same: "?item p = a" if "a \<in> set as" "p \<in> set ps" "sp_assignment_id p = ca_assignment_id a" for a p
    using lookup_by_distinct [OF assms(1) that(1)] that(3) by simp
  have "ca_assignment_id a \<in> sp_assignment_id ` {p \<in> set ps. moved p (?item p)} \<longleftrightarrow> affected_by as ps a"
    if a: "a \<in> set as" for a
  proof
    assume "ca_assignment_id a \<in> sp_assignment_id ` {p \<in> set ps. moved p (?item p)}"
    then obtain p where "p \<in> set ps" "moved p (?item p)" "sp_assignment_id p = ca_assignment_id a" by auto
    with same [OF a] show "affected_by as ps a" by (auto simp: affected_by_def)
  next
    assume "affected_by as ps a"
    then obtain p where p: "p \<in> set ps" "sp_assignment_id p = ca_assignment_id a" "moved p a"
      by (auto simp: affected_by_def)
    with same [OF a] have "moved p (?item p)" by simp
    with p show "ca_assignment_id a \<in> sp_assignment_id ` {p \<in> set ps. moved p (?item p)}"
      by (metis (mono_tags, lifting) image_eqI mem_Collect_eq)
  qed
  with ids show ?thesis by simp
qed

lemma set_sort_pair [simp]: "set (sort xs) = set xs"
  by simp

lemma propose_facts:
  assumes "query_ok q" and "mset as = mset (plan_candidates q)" and "evaluates q as best"
    and hit: "hit = {a \<in> set (plan_candidates q). affected_by (plan_candidates q) (cn_placements best) a}"
  obtains r pr where "propose sha256 q es best = Inr r" "dp_status r = PROPOSAL_CREATED" "dp_proposal r = Some pr"
    "rp_after_schedule pr = cn_placements best"
    "rp_worker_idle_time_after_seconds pr = cn_idle_seconds best"
    "rp_travel_time_after_seconds pr = cn_travel_seconds best"
    "set (rp_affected_job_ids pr) = ca_job_id ` hit"
    "set (rp_affected_assignment_ids pr) \<inter> ca_assignment_id ` set (plan_candidates q) = ca_assignment_id ` hit"
    "set (rp_expected_calendar_revisions pr) = (\<lambda>a. (ca_assignment_id a, ca_revision a)) ` hit"
    "set (rp_expected_workflow_revisions pr) =
      (\<lambda>a. (ca_workflow_instance_id a, the (dq_workflow_revisions q (ca_workflow_instance_id a)))) ` hit"
proof -
  let ?cs = "plan_candidates q"
  have "map sp_assignment_id (cn_placements best) = map ca_assignment_id as"
    using schedule_from_ids [OF evaluate_order_feasible [OF assms(3)]] .
  then have "sp_assignment_id ` set (cn_placements best) \<subseteq> ca_assignment_id ` set ?cs"
    using mset_eq_setD [OF assms(2)] by (metis list.set_map order_refl)
  from affected_placements_eq [OF plan_candidates_distinct [OF assms(1)] this] obtain ids where
    ids: "affected_placements ?cs (cn_placements best) = Inr ids"
      "\<And>a. a \<in> set ?cs \<Longrightarrow> ca_assignment_id a \<in> set ids \<longleftrightarrow> affected_by ?cs (cn_placements best) a" by blast
  let ?hit = "filter (\<lambda>item. ca_assignment_id item \<in> set ids) ?cs"
  let ?wf = "\<lambda>w. case dq_workflow_revisions q w of None \<Rightarrow> Inl KeyError | Some n \<Rightarrow> Inr (w, n)"
  have hit: "set ?hit = hit" unfolding hit using ids(2) by auto
  have "?wf w = Inr (w, the (dq_workflow_revisions q w))" if "w \<in> set (sorted_set (map ca_workflow_instance_id ?hit))" for w
    using that assms(1) plan_candidates_subset by (fastforce simp: query_ok_def split: option.split)
  then have revs: "traverse ?wf (sorted_set (map ca_workflow_instance_id ?hit)) =
      Inr (map (\<lambda>w. (w, the (dq_workflow_revisions q w))) (sorted_set (map ca_workflow_instance_id ?hit)))"
    by (rule traverse_map)
  have inter: "set ids \<inter> ca_assignment_id ` set ?cs = ca_assignment_id ` set ?hit" by auto
  have "\<exists>r. propose sha256 q es best = Inr r"
    unfolding propose_def Let_def ids(1) and_then.simps revs by (rule exI, rule refl)
  then obtain r where r: "propose sha256 q es best = Inr r" by blast
  note eq = r [unfolded propose_def Let_def ids(1) and_then.simps revs sum.inject, symmetric]
  note sel = ReplanProposal.select_convs DispatchPlanResult.select_convs option.sel
    set_sorted_set set_sort list.set_map image_image comp_def
  show thesis
  proof (rule that [OF r])
    show "dp_status r = PROPOSAL_CREATED" "dp_proposal r = Some (the (dp_proposal r))"
      "rp_after_schedule (the (dp_proposal r)) = cn_placements best"
      "rp_worker_idle_time_after_seconds (the (dp_proposal r)) = cn_idle_seconds best"
      "rp_travel_time_after_seconds (the (dp_proposal r)) = cn_travel_seconds best"
      unfolding eq sel by (rule refl)+
    show "set (rp_affected_job_ids (the (dp_proposal r))) = ca_job_id ` hit"
      "set (rp_affected_assignment_ids (the (dp_proposal r))) \<inter> ca_assignment_id ` set ?cs = ca_assignment_id ` hit"
      "set (rp_expected_calendar_revisions (the (dp_proposal r))) = (\<lambda>a. (ca_assignment_id a, ca_revision a)) ` hit"
      "set (rp_expected_workflow_revisions (the (dp_proposal r))) =
        (\<lambda>a. (ca_workflow_instance_id a, the (dq_workflow_revisions q (ca_workflow_instance_id a)))) ` hit"
      unfolding eq sel hit inter by (rule refl)+
  qed
qed

lemma propose_returns:
  assumes "query_ok q" and "mset as = mset (plan_candidates q)" and "evaluates q as best"
  shows "\<exists>r pr. propose sha256 q es best = Inr r \<and> dp_status r = PROPOSAL_CREATED \<and> dp_proposal r = Some pr"
  by (rule propose_facts [OF assms refl, of sha256 es]) (intro exI conjI)

lemma proposal_facts:
  assumes "query_ok q" and "mset as = mset (plan_candidates q)" and "evaluates q as best"
    and "propose sha256 q es best = Inr r" and "dp_proposal r = Some pr"
  defines "hit \<equiv> {a \<in> set (plan_candidates q). affected_by (plan_candidates q) (cn_placements best) a}"
  shows "rp_after_schedule pr = cn_placements best \<and>
      rp_worker_idle_time_after_seconds pr = cn_idle_seconds best \<and>
      rp_travel_time_after_seconds pr = cn_travel_seconds best"
    and "set (rp_affected_job_ids pr) = ca_job_id ` hit \<and>
      set (rp_affected_assignment_ids pr) \<inter> ca_assignment_id ` set (plan_candidates q) = ca_assignment_id ` hit \<and>
      set (rp_expected_calendar_revisions pr) = (\<lambda>a. (ca_assignment_id a, ca_revision a)) ` hit \<and>
      set (rp_expected_workflow_revisions pr) =
        (\<lambda>a. (ca_workflow_instance_id a, the (dq_workflow_revisions q (ca_workflow_instance_id a)))) ` hit"
proof -
  have hit: "hit = {a \<in> set (plan_candidates q). affected_by (plan_candidates q) (cn_placements best) a}"
    by (simp only: hit_def)
  obtain r' pr' where r': "propose sha256 q es best = Inr r'" "dp_status r' = PROPOSAL_CREATED" "dp_proposal r' = Some pr'"
    and f: "rp_after_schedule pr' = cn_placements best"
    "rp_worker_idle_time_after_seconds pr' = cn_idle_seconds best"
    "rp_travel_time_after_seconds pr' = cn_travel_seconds best"
    "set (rp_affected_job_ids pr') = ca_job_id ` hit"
    "set (rp_affected_assignment_ids pr') \<inter> ca_assignment_id ` set (plan_candidates q) = ca_assignment_id ` hit"
    "set (rp_expected_calendar_revisions pr') = (\<lambda>a. (ca_assignment_id a, ca_revision a)) ` hit"
    "set (rp_expected_workflow_revisions pr') =
      (\<lambda>a. (ca_workflow_instance_id a, the (dq_workflow_revisions q (ca_workflow_instance_id a)))) ` hit"
    by (rule propose_facts [OF assms(1-3) hit])
  from r' assms(4,5) have "pr' = pr" by simp
  with f show "rp_after_schedule pr = cn_placements best \<and>
      rp_worker_idle_time_after_seconds pr = cn_idle_seconds best \<and>
      rp_travel_time_after_seconds pr = cn_travel_seconds best"
    "set (rp_affected_job_ids pr) = ca_job_id ` hit \<and>
      set (rp_affected_assignment_ids pr) \<inter> ca_assignment_id ` set (plan_candidates q) = ca_assignment_id ` hit \<and>
      set (rp_expected_calendar_revisions pr) = (\<lambda>a. (ca_assignment_id a, ca_revision a)) ` hit \<and>
      set (rp_expected_workflow_revisions pr) =
        (\<lambda>a. (ca_workflow_instance_id a, the (dq_workflow_revisions q (ca_workflow_instance_id a)))) ` hit"
    by (simp_all only: simp_thms)
qed

section \<open>Properties of a plan\<close>

lemma keep_order_status:
  "dp_status (keep_order q best) \<noteq> PROPOSAL_CREATED" "dp_proposal (keep_order q best) = None"
  "dp_status (keep_order q best) = NO_CHANGE \<longleftrightarrow>
     (\<forall>(p, a)\<in>set (zip (cn_placements best) (by_start (plan_candidates q))). \<not> moved p a)"
  by (auto simp: keep_order_def no_replan_def Let_def)

lemma plan_refusal_status:
  "plan_refusal q = Some r \<Longrightarrow> dp_status r = NO_FEASIBLE_REPLAN \<and> dp_proposal r = None"
  by (auto simp: plan_refusal_def no_replan_def Let_def split: if_splits)

lemma plan_proposal_cases:
  assumes "query_ok q" and "plan sha256 q = Inr r" and "dp_proposal r = Some pr"
  obtains best as es where "plan_refusal q = None" "mset as = mset (plan_candidates q)" "evaluates q as best"
    "\<forall>as' c. mset as' = mset (plan_candidates q) \<longrightarrow> evaluates q as' c \<longrightarrow> candidate_key best \<le> candidate_key c"
    "map ca_assignment_id as \<noteq> map ca_assignment_id (by_start (plan_candidates q))"
    "propose sha256 q es best = Inr r"
  using assms(2)
proof (cases rule: plan_cases)
  case refused
  with assms(3) show ?thesis by (auto dest: plan_refusal_status)
next
  case infeasible
  with assms(3) show ?thesis by simp
next
  case (kept best as)
  with assms(3) show ?thesis by (simp add: keep_order_status)
next
  case (proposed best as es)
  moreover have "placement_order best = map ca_assignment_id as"
    using schedule_from_ids [OF evaluate_order_feasible [OF proposed(3)]] by (simp add: placement_order_def)
  ultimately show ?thesis using that by metis
qed

text \<open>
  C23. The only exception a plan can end with is the overflow of the calendar. On every query the repository
  can load whose calendar has room after the latest possible start, the planner returns, and whenever it
  returns the result carries a proposal exactly when its status says so: no missing delivery time, unknown
  assignment or missing workflow revision raises.
\<close>

theorem dispatch_plan_returns:
  assumes "query_ok q"
  shows "case plan sha256 q of
      Inr r \<Rightarrow> dp_status r = PROPOSAL_CREATED \<longleftrightarrow> dp_proposal r \<noteq> None
    | Inl e \<Rightarrow> e = OverflowError \<and> \<not> within_calendar q"
proof -
  have check: "check_query q = Inr ()" using assms by (simp add: query_ok_def)
  show ?thesis
  proof (cases "plan_refusal q")
    case (Some r)
    then show ?thesis using check plan_refusal_status [OF Some] by (simp add: plan_def)
  next
    case None
    show ?thesis
    proof (cases "evaluate_orderings q")
      case (Inl e)
      then have "\<not> within_calendar q" using evaluate_orderings_returns [OF assms] by auto
      with Inl evaluate_orderings_raises [OF assms Inl] show ?thesis by (simp add: plan_def check None)
    next
      case rs: (Inr rs)
      show ?thesis
      proof (cases "sort_key candidate_key (List.map_filter fst rs)")
        case Nil
        then show ?thesis by (simp add: plan_def check None rs no_replan_def Let_def)
      next
        case (Cons best others)
        then have "best \<in> set (List.map_filter fst rs)" by (metis list.set_intros(1) set_sort)
        then obtain as where as: "mset as = mset (plan_candidates q)" "evaluates q as best"
          using evaluated_iff [OF rs] by blast
        from propose_returns [OF assms as, of sha256 "best # others"] obtain r pr where
          "propose sha256 q (best # others) best = Inr r" "dp_status r = PROPOSAL_CREATED" "dp_proposal r = Some pr"
          by blast
        then show ?thesis using Cons keep_order_status(1,2) [of q best]
          by (cases "placement_order best = map ca_assignment_id (by_start (plan_candidates q))")
            (simp_all add: plan_def check None rs)
      qed
    qed
  qed
qed

text \<open>
  C24. Every proposal is executable. It rearranges exactly the day's confirmed assignments of the one
  worker into a different order, at most three of them, all with confirmed addresses and skills the
  worker has, and its schedule is feasible: it starts neither before the workday nor before now,
  leaves the travel between jobs, keeps every duration, waits for expected material, and stays
  within working hours, hard deadlines and the availability of worker and vehicle.
\<close>

theorem dispatch_proposal_feasible:
  assumes "query_ok q" and "plan sha256 q = Inr r" and "dp_proposal r = Some pr"
  shows "\<exists>as. mset as = mset (plan_candidates q) \<and> length as \<le> 3 \<and>
    schedule_from (plan_context q) (max (instant (dq_workday_start q)) (instant (dq_now q))) None as
      (rp_after_schedule pr) \<and>
    map ca_assignment_id as \<noteq> map ca_assignment_id (by_start (plan_candidates q)) \<and>
    (\<forall>a\<in>set as. ca_status a = CalendarStatus.CONFIRMED \<and> ca_worker_id a = dw_worker_id (dq_worker q) \<and>
       set (ca_required_skill_ids a) \<subseteq> set (dw_skill_ids (dq_worker q)) \<and> \<not> address_missing q a)"
proof -
  obtain best as es where
    p: "plan_refusal q = None" "mset as = mset (plan_candidates q)" "evaluates q as best"
      "\<forall>as' c. mset as' = mset (plan_candidates q) \<longrightarrow> evaluates q as' c \<longrightarrow> candidate_key best \<le> candidate_key c"
      "map ca_assignment_id as \<noteq> map ca_assignment_id (by_start (plan_candidates q))"
      "propose sha256 q es best = Inr r"
    by (rule plan_proposal_cases [OF assms]) (rule that)
  have after: "rp_after_schedule pr = cn_placements best"
    using proposal_facts(1) [OF assms(1) p(2,3,6) assms(3)] by (elim conjE)
  have as: "set as = set (plan_candidates q)" "length as = length (plan_candidates q)"
    using p(2) by (auto dest: mset_eq_setD mset_eq_length)
  have "as \<noteq> []" using p(2,5) by (auto simp: by_start_def)
  then obtain a where "a \<in> set (plan_candidates q)" using as by (cases as) auto
  then have "length as \<le> 3" using plan_refusal_NoneD(5) [OF p(1)] as by simp
  moreover have "schedule_from (plan_context q) (plan_start q) None as (rp_after_schedule pr)"
    unfolding after by (rule evaluate_order_feasible [OF p(3)])
  ultimately show ?thesis
    using p(2,5) as plan_refusal_NoneD(1-4) [OF p(1)] unfolding plan_start_def
    by (intro exI [of _ as] conjI ballI) simp_all
qed

text \<open>
  C25. Every proposal is a best one: among all orderings of the candidates that the planner can
  schedule, none has a smaller key (moved commitments, then idle time, then travel, then the
  job and task identities), and the proposal states this ordering's idle and travel time.
\<close>

theorem dispatch_proposal_minimal:
  assumes "query_ok q" and "plan sha256 q = Inr r" and "dp_proposal r = Some pr"
  shows "\<exists>as best. mset as = mset (plan_candidates q) \<and>
    evaluate_order (plan_context q) (plan_start q) as = Inr (Some best, []) \<and>
    rp_after_schedule pr = cn_placements best \<and>
    rp_worker_idle_time_after_seconds pr = cn_idle_seconds best \<and>
    rp_travel_time_after_seconds pr = cn_travel_seconds best \<and>
    (\<forall>as' c. mset as' = mset (plan_candidates q) \<longrightarrow>
       evaluate_order (plan_context q) (plan_start q) as' = Inr (Some c, []) \<longrightarrow>
       candidate_key best \<le> candidate_key c)"
proof -
  obtain best as es where
    p: "plan_refusal q = None" "mset as = mset (plan_candidates q)" "evaluates q as best"
      "\<forall>as' c. mset as' = mset (plan_candidates q) \<longrightarrow> evaluates q as' c \<longrightarrow> candidate_key best \<le> candidate_key c"
      "map ca_assignment_id as \<noteq> map ca_assignment_id (by_start (plan_candidates q))"
      "propose sha256 q es best = Inr r"
    by (rule plan_proposal_cases [OF assms]) (rule that)
  have "rp_after_schedule pr = cn_placements best \<and>
      rp_worker_idle_time_after_seconds pr = cn_idle_seconds best \<and>
      rp_travel_time_after_seconds pr = cn_travel_seconds best"
    by (rule proposal_facts(1) [OF assms(1) p(2,3,6) assms(3)])
  with p(2-4) show ?thesis by (intro exI [of _ as] exI [of _ best]) (elim conjE, intro conjI)
qed

text \<open>
  A proposal pins what it moves: it names exactly the assignments whose slot changes, their
  jobs, and for the compare-and-swap of its application the revision each of these assignments and
  each of their workflows had when it was planned.
\<close>

theorem dispatch_proposal_pins_affected:
  assumes "query_ok q" and "plan sha256 q = Inr r" and "dp_proposal r = Some pr"
  shows "\<exists>hit. hit = {a \<in> set (plan_candidates q). \<exists>p\<in>set (rp_after_schedule pr).
        sp_assignment_id p = ca_assignment_id a \<and>
        (instant (sp_start_at p) \<noteq> instant (ca_start_at a) \<or> instant (sp_end_at p) \<noteq> instant (ca_end_at a))} \<and>
    set (rp_affected_job_ids pr) = ca_job_id ` hit \<and>
    set (rp_affected_assignment_ids pr) \<inter> ca_assignment_id ` set (plan_candidates q) = ca_assignment_id ` hit \<and>
    set (rp_expected_calendar_revisions pr) = (\<lambda>a. (ca_assignment_id a, ca_revision a)) ` hit \<and>
    set (rp_expected_workflow_revisions pr) =
      (\<lambda>a. (ca_workflow_instance_id a, the (dq_workflow_revisions q (ca_workflow_instance_id a)))) ` hit"
proof -
  obtain best as es where
    p: "plan_refusal q = None" "mset as = mset (plan_candidates q)" "evaluates q as best"
      "\<forall>as' c. mset as' = mset (plan_candidates q) \<longrightarrow> evaluates q as' c \<longrightarrow> candidate_key best \<le> candidate_key c"
      "map ca_assignment_id as \<noteq> map ca_assignment_id (by_start (plan_candidates q))"
      "propose sha256 q es best = Inr r"
    by (rule plan_proposal_cases [OF assms]) (rule that)
  have after: "rp_after_schedule pr = cn_placements best"
    using proposal_facts(1) [OF assms(1) p(2,3,6) assms(3)] by (elim conjE)
  from proposal_facts(2) [OF assms(1) p(2,3,6) assms(3)] show ?thesis
    unfolding affected_by_def moved_def after [symmetric] by (intro exI conjI refl) (simp_all only:)
qed

section \<open>Keeping the order\<close>

definition current_placements :: "dispatch_query \<Rightarrow> SchedulePlacement list" where
  "current_placements q =
     map (\<lambda>a. placement_of a (ca_start_at a) (ca_end_at a)) (by_start (plan_candidates q))"

lemma aware_datetime: "is_aware t \<Longrightarrow> Aware (instant t) = t"
  by (cases t) auto

lemma assignment_aware: "CalendarAssignment_init a = Inr a \<Longrightarrow> is_aware (ca_start_at a) \<and> is_aware (ca_end_at a)"
  by (simp add: CalendarAssignment_init_def require_aware_def)

lemma slot_unmoved:
  "slot_feasible x a p \<Longrightarrow> \<not> moved p a \<Longrightarrow> CalendarAssignment_init a = Inr a \<Longrightarrow>
     p = placement_of a (ca_start_at a) (ca_end_at a)"
  by (auto simp: slot_feasible_def moved_def Let_def dest!: assignment_aware simp: aware_datetime)

lemma schedule_from_unmoved:
  "schedule_from x t previous as ps \<Longrightarrow> \<forall>(p, a)\<in>set (zip ps as). \<not> moved p a \<Longrightarrow>
     \<forall>a\<in>set as. CalendarAssignment_init a = Inr a \<Longrightarrow>
     ps = map (\<lambda>a. placement_of a (ca_start_at a) (ca_end_at a)) as"
proof (induction x t previous as ps rule: schedule_from.induct)
  case (2 x t previous a as p ps)
  then have "p = placement_of a (ca_start_at a) (ca_end_at a)" by (intro slot_unmoved [of x]) auto
  with 2 show ?case by simp
qed simp_all

text \<open>
  NO_CHANGE means what it says: the calendar as confirmed, in its order and at its times, is
  itself a feasible schedule of the day.
\<close>

theorem dispatch_no_change_is_feasible:
  assumes "query_ok q" and "plan sha256 q = Inr r" and "dp_status r = NO_CHANGE"
  shows "schedule_from (plan_context q) (plan_start q) None (by_start (plan_candidates q)) (current_placements q)"
  using assms(2)
proof (cases rule: plan_cases)
  case refused
  with assms(3) show ?thesis by (auto dest: plan_refusal_status)
next
  case infeasible
  with assms(3) show ?thesis by simp
next
  case (kept best as)
  have f: "schedule_from (plan_context q) (plan_start q) None as (cn_placements best)"
    by (rule evaluate_order_feasible [OF kept(3)])
  have "map ca_assignment_id as = map ca_assignment_id (by_start (plan_candidates q))"
    using kept(5) schedule_from_ids [OF f] by (simp add: placement_order_def)
  moreover have sets: "set as = set (plan_candidates q)" using kept(2) by (rule mset_eq_setD)
  moreover have inj: "inj_on ca_assignment_id (set (plan_candidates q))"
    using plan_candidates_distinct [OF assms(1)] by (simp add: distinct_map)
  ultimately have as: "as = by_start (plan_candidates q)"
    by (intro inj_on_map_eq_map [THEN iffD1, of ca_assignment_id]) (auto simp: by_start_def)
  have "\<forall>(p, a)\<in>set (zip (cn_placements best) as). \<not> moved p a"
    using assms(3) kept(6) as keep_order_status(3) [of q best] by simp
  moreover have "\<forall>a\<in>set as. CalendarAssignment_init a = Inr a"
    using assms(1) plan_candidates_subset sets by (auto simp: query_ok_def)
  ultimately have "cn_placements best = current_placements q"
    using schedule_from_unmoved [OF f] as by (simp add: current_placements_def)
  with f as show ?thesis by simp
next
  case (proposed best as es)
  then have "dp_status r = PROPOSAL_CREATED"
    using propose_returns [OF assms(1) proposed(2,3), of sha256 es] by (metis sum.inject(2))
  with assms(3) show ?thesis by simp
qed

section \<open>Examples\<close>

definition hour :: "int \<Rightarrow> py_datetime" where
  "hour h = Aware (seconds (3600 * h))"

definition ex_call :: "string \<Rightarrow> string \<Rightarrow> int \<Rightarrow> int \<Rightarrow> CalendarAssignment" where
  "ex_call i j start stop =
     \<lparr>ca_assignment_id = i, ca_job_id = j, ca_workflow_instance_id = ''wf-'' @ j, ca_scheduled_task_id = ''t-'' @ i,
      ca_work_item_name = ''work'', ca_worker_id = ''W1'', ca_required_skill_ids = [''tiles''],
      ca_vehicle_id = Some ''V1'', ca_start_at = Aware (seconds (60 * start)), ca_end_at = Aware (seconds (60 * stop)),
      ca_hard_deadline = None, ca_status = CalendarStatus.CONFIRMED, ca_revision = 3\<rparr>"

definition ex_job :: "string \<Rightarrow> PersistentJob" where
  "ex_job j =
     \<lparr>pj_job_id = j, pj_title = ''job'',
      pj_address = \<lparr>sa_street = ''s'', sa_house_number = ''1'', sa_postal_code = ''p'', sa_city = ''c'', sa_country = ''DE''\<rparr>,
      pj_address_status = AddressStatus.CONFIRMED,
      pj_coordinates = Some \<lparr>cc_latitude = ''52.5'', cc_longitude = ''13.4'', cc_source = ''fixture''\<rparr>\<rparr>"

definition ex_material :: "CalendarAssignment \<Rightarrow> py_datetime option \<Rightarrow> MaterialReadiness" where
  "ex_material a t =
     \<lparr>mr_job_id = ca_job_id a, mr_scheduled_task_id = ca_scheduled_task_id a,
      mr_status = (if t = None then READY else EXPECTED), mr_available_at = t, mr_blocking = True,
      mr_source = ''demo'', mr_updated_at = hour 7, mr_revision = 1\<rparr>"

definition ex_leg :: "string \<Rightarrow> string \<Rightarrow> RouteSnapshot" where
  "ex_leg i j =
     \<lparr>rs_route_snapshot_id = ''r-'' @ i @ j, rs_origin_reference = i, rs_origin_fingerprint = ''f'',
      rs_destination_reference = j, rs_destination_fingerprint = ''g'', rs_transport_mode = ''DRIVE'',
      rs_departure_time_basis = ''b'', rs_distance_meters = 5000, rs_travel_duration_seconds = 600,
      rs_provider = ''fixture'', rs_retrieved_at = hour 7, rs_status = VALID, rs_input_fingerprint = ''x''\<rparr>"

definition ex_query ::
    "py_datetime \<Rightarrow> py_datetime \<Rightarrow> CalendarAssignment list \<Rightarrow> MaterialReadiness list \<Rightarrow> dispatch_query" where
  "ex_query start stop as ms =
     \<lparr>dq_initiating_workflow_instance_id = ''wf-J1'', dq_planning_date = 0, dq_start_date = (\<lambda>_. 0),
      dq_end_date = (\<lambda>_. 0), dq_last_instant = seconds (86400 * 3652059), dq_now = start, dq_workday_start = start, dq_workday_end = stop,
      dq_jobs = [ex_job ''J1'', ex_job ''J2''], dq_workflow_revisions = (\<lambda>_. Some 4), dq_assignments = as,
      dq_materials = ms, dq_routes = [ex_leg ''J1'' ''J2'', ex_leg ''J2'' ''J1''],
      dq_worker = \<lparr>dw_worker_id = ''W1'', dw_skill_ids = [''tiles''],
        dw_availability = [\<lparr>aw_start_at = hour 6, aw_end_at = hour 20\<rparr>]\<rparr>,
      dq_vehicles = [\<lparr>dv_vehicle_id = ''V1'', dv_availability = [\<lparr>aw_start_at = hour 6, aw_end_at = hour 20\<rparr>]\<rparr>]\<rparr>"

text \<open>The material of the first call is delayed to ten o'clock: the calls change places.\<close>

definition ex_delayed :: dispatch_query where
  "ex_delayed = ex_query (hour 9) (hour 12) [ex_call ''A1'' ''J1'' 540 600, ex_call ''A2'' ''J2'' 600 660]
     [ex_material (ex_call ''A1'' ''J1'' 540 600) (Some (hour 10)), ex_material (ex_call ''A2'' ''J2'' 600 660) None]"

text \<open>Two calls on one job, back to back from the start of the workday.\<close>

definition ex_packed :: dispatch_query where
  "ex_packed = ex_query (hour 9) (hour 12) [ex_call ''A1'' ''J1'' 540 600, ex_call ''A2'' ''J1'' 600 660]
     [ex_material (ex_call ''A1'' ''J1'' 540 600) None, ex_material (ex_call ''A2'' ''J1'' 600 660) None]"

text \<open>The same calls with half an hour of slack before each.\<close>

definition ex_slack :: dispatch_query where
  "ex_slack = ex_query (hour 8) (hour 17) [ex_call ''A1'' ''J1'' 510 570, ex_call ''A2'' ''J1'' 600 660]
     [ex_material (ex_call ''A1'' ''J1'' 510 570) None, ex_material (ex_call ''A2'' ''J1'' 600 660) None]"

definition ex_hash :: "replan_payload \<Rightarrow> string" where
  "ex_hash p = ''0123456789abcdef0123456789abcdef''"

lemma ex_query_ok: "query_ok ex_delayed" "query_ok ex_packed" "query_ok ex_slack"
  by code_simp+

lemma ex_delayed_proposal:
  "case plan ex_hash ex_delayed of
     Inr r \<Rightarrow> (case dp_proposal r of
       Some pr \<Rightarrow> map sp_assignment_id (rp_after_schedule pr) = [''A2'', ''A1''] \<and>
         rp_travel_time_after_seconds pr = 600 \<and> rp_affected_job_ids pr = [''J1'', ''J2'']
     | None \<Rightarrow> False)
   | Inl _ \<Rightarrow> False"
  by code_simp

lemma plan_Inr_the: "(case plan h q of Inr r \<Rightarrow> P r | Inl _ \<Rightarrow> False) \<Longrightarrow> \<exists>r. plan h q = Inr r \<and> P r"
  by (auto split: sum.splits)

text \<open>The same day with routes of three hundred million years: the second call overflows the calendar.\<close>

definition ex_endless :: dispatch_query where
  "ex_endless = ex_delayed\<lparr>dq_routes := map (\<lambda>r. r\<lparr>rs_travel_duration_seconds := 10 ^ 16\<rparr>) (dq_routes ex_delayed)\<rparr>"

theorem dispatch_plan_returns_witness:
  "(\<exists>r. plan ex_hash ex_slack = Inr r \<and> (dp_status r = PROPOSAL_CREATED \<longleftrightarrow> dp_proposal r \<noteq> None)) \<and>
   plan ex_hash ex_endless = Inl OverflowError"
proof -
  have "within_calendar ex_slack" by code_simp
  with dispatch_plan_returns [OF ex_query_ok(3), of ex_hash]
  have 1: "\<exists>r. plan ex_hash ex_slack = Inr r \<and> (dp_status r = PROPOSAL_CREATED \<longleftrightarrow> dp_proposal r \<noteq> None)"
    by (simp split: sum.splits)
  have "query_ok ex_endless" by code_simp
  moreover have "case plan ex_hash ex_endless of Inr _ \<Rightarrow> False | Inl _ \<Rightarrow> True" by code_simp
  ultimately have "plan ex_hash ex_endless = Inl OverflowError"
    using dispatch_plan_returns [of ex_endless ex_hash] by (simp split: sum.splits)
  with 1 show ?thesis ..
qed

lemma ex_delayed_plan:
  obtains r pr where "plan ex_hash ex_delayed = Inr r" "dp_proposal r = Some pr"
    "map sp_assignment_id (rp_after_schedule pr) = [''A2'', ''A1'']" "rp_affected_job_ids pr = [''J1'', ''J2'']"
  using plan_Inr_the [OF ex_delayed_proposal] by (auto split: option.splits)

theorem dispatch_proposal_feasible_witness:
  "\<exists>r pr as. plan ex_hash ex_delayed = Inr r \<and> dp_proposal r = Some pr \<and>
     map sp_assignment_id (rp_after_schedule pr) = [''A2'', ''A1''] \<and>
     schedule_from (plan_context ex_delayed) (max (instant (hour 9)) (instant (hour 9))) None as (rp_after_schedule pr)"
proof -
  obtain r pr where r: "plan ex_hash ex_delayed = Inr r" "dp_proposal r = Some pr"
    "map sp_assignment_id (rp_after_schedule pr) = [''A2'', ''A1'']" by (rule ex_delayed_plan)
  from dispatch_proposal_feasible [OF ex_query_ok(1) r(1,2)] obtain as where
    "schedule_from (plan_context ex_delayed) (max (instant (dq_workday_start ex_delayed)) (instant (dq_now ex_delayed)))
       None as (rp_after_schedule pr)" by (elim exE conjE) (rule that, assumption+)
  then have "schedule_from (plan_context ex_delayed) (max (instant (hour 9)) (instant (hour 9)))
       None as (rp_after_schedule pr)" by (simp add: ex_delayed_def ex_query_def)
  with r show ?thesis by (intro exI conjI)
qed

theorem dispatch_proposal_minimal_witness:
  "\<exists>r pr as best. plan ex_hash ex_delayed = Inr r \<and> dp_proposal r = Some pr \<and>
     rp_after_schedule pr = cn_placements best \<and>
     evaluate_order (plan_context ex_delayed) (plan_start ex_delayed) as = Inr (Some best, [])"
proof -
  obtain r pr where r: "plan ex_hash ex_delayed = Inr r" "dp_proposal r = Some pr" by (rule ex_delayed_plan)
  from dispatch_proposal_minimal [OF ex_query_ok(1) r] r show ?thesis by (elim exE conjE) (intro exI conjI)
qed

theorem dispatch_proposal_pins_affected_witness:
  "\<exists>r pr. \<exists>hit :: CalendarAssignment set. plan ex_hash ex_delayed = Inr r \<and> dp_proposal r = Some pr \<and> ca_job_id ` hit = {''J1'', ''J2''} \<and>
     set (rp_expected_calendar_revisions pr) = (\<lambda>a. (ca_assignment_id a, ca_revision a)) ` hit"
proof -
  obtain r pr where r: "plan ex_hash ex_delayed = Inr r" "dp_proposal r = Some pr" "rp_affected_job_ids pr = [''J1'', ''J2'']"
    by (rule ex_delayed_plan)
  from dispatch_proposal_pins_affected [OF ex_query_ok(1) r(1,2)] obtain hit :: "CalendarAssignment set" where
    "set (rp_affected_job_ids pr) = ca_job_id ` hit"
    "set (rp_expected_calendar_revisions pr) = (\<lambda>a. (ca_assignment_id a, ca_revision a)) ` hit"
    by (elim exE conjE) (rule that, assumption+)
  with r show ?thesis by (intro exI [of _ r] exI [of _ pr] exI [of _ hit]) simp
qed

theorem dispatch_no_change_is_feasible_witness:
  "\<exists>r. plan ex_hash ex_packed = Inr r \<and> dp_status r = NO_CHANGE \<and>
     schedule_from (plan_context ex_packed) (plan_start ex_packed) None (by_start (plan_candidates ex_packed))
       (current_placements ex_packed)"
proof -
  have "case plan ex_hash ex_packed of Inr r \<Rightarrow> dp_status r = NO_CHANGE | Inl _ \<Rightarrow> False" by code_simp
  then obtain r where r: "plan ex_hash ex_packed = Inr r" "dp_status r = NO_CHANGE" by (blast dest: plan_Inr_the)
  with dispatch_no_change_is_feasible [OF ex_query_ok(2) r] show ?thesis by blast
qed

text \<open>
  C26. A feasible calendar can be refused. The planner compares only schedules that start each assignment as
  early as possible, so a confirmed calendar with slack in it is never found unchanged: there is a
  day whose confirmed calendar is feasible as it stands, and whose calls could also be exchanged,
  for which the planner answers that no feasible replan and no feasible reorder exists.
\<close>

theorem dispatch_slack_is_refused:
  "\<exists>q r as c. query_ok q \<and> plan sha256 q = Inr r \<and>
     schedule_from (plan_context q) (plan_start q) None (by_start (plan_candidates q)) (current_placements q) \<and>
     mset as = mset (plan_candidates q) \<and> as \<noteq> by_start (plan_candidates q) \<and>
     evaluate_order (plan_context q) (plan_start q) as = Inr (Some c, []) \<and>
     dp_status r = NO_FEASIBLE_REPLAN \<and> dp_reason_codes r = [''NO_FEASIBLE_REORDER'']"
proof -
  have "case plan sha256 ex_slack of
      Inr r \<Rightarrow> dp_status r = NO_FEASIBLE_REPLAN \<and> dp_reason_codes r = [''NO_FEASIBLE_REORDER''] | Inl _ \<Rightarrow> False"
    by code_simp
  then obtain r where r: "plan sha256 ex_slack = Inr r" "dp_status r = NO_FEASIBLE_REPLAN"
    "dp_reason_codes r = [''NO_FEASIBLE_REORDER'']" by (blast dest: plan_Inr_the)
  let ?a = "ex_call ''A1'' ''J1'' 510 570" and ?b = "ex_call ''A2'' ''J1'' 600 660"
  have cs: "by_start (plan_candidates ex_slack) = [?a, ?b]" "plan_candidates ex_slack = [?a, ?b]"
    by code_simp+
  have "case evaluate_order (plan_context ex_slack) (plan_start ex_slack) [?b, ?a] of
      Inr (Some c, []) \<Rightarrow> True | _ \<Rightarrow> False" by code_simp
  then obtain c where c: "evaluate_order (plan_context ex_slack) (plan_start ex_slack) [?b, ?a] = Inr (Some c, [])"
    by (auto split: sum.splits prod.splits option.splits list.splits)
  have "schedule_from (plan_context ex_slack) (plan_start ex_slack) None (by_start (plan_candidates ex_slack))
      (current_placements ex_slack)" by code_simp
  moreover have "[?b, ?a] \<noteq> by_start (plan_candidates ex_slack)" by code_simp
  moreover have "mset [?b, ?a] = mset (plan_candidates ex_slack)" unfolding cs by simp
  ultimately show ?thesis using ex_query_ok(3) r c by blast
qed

end
