(* ===== verification/Decimals.thy ===== *)
theory Decimals
  imports Prelude Complex_Main "HOL-Library.Log_Nat"
begin

text \<open>
  Python's \<open>decimal\<close> in its default context: 28 significant digits, results rounded half to even,
  \<open>quantize\<close> rounding half up and failing when the result needs more digits than the context has.
  A finite \<open>Decimal\<close> is its value, a rational; where the exponent of a \<open>Decimal\<close> matters (the scale
  given to \<open>quantize\<close>) it is a coefficient and an exponent.
\<close>

section \<open>Rounding to the context\<close>

definition round_half_even :: "rat \<Rightarrow> int" where
  "round_half_even y =
     (let f = floor y; d = y - of_int f in
      if d < 1 / 2 then f else if 1 / 2 < d then f + 1 else if even f then f else f + 1)"

text \<open>The number of decimal digits of a positive integer.\<close>

function digit_count :: "int \<Rightarrow> int" where
  "digit_count n = (if n \<le> 0 then 0 else digit_count (n div 10) + 1)"
  by pat_completeness auto

termination
  by (relation "measure nat") auto

declare digit_count.simps [simp del]

lemma digit_count_floorlog: "digit_count n = int (floorlog 10 (nat n))"
proof (induction n rule: digit_count.induct)
  case (1 n)
  show ?case
  proof (cases "0 < n")
    case True
    then have "floorlog 10 (nat n) = floorlog 10 (nat (n div 10)) + 1"
      by (subst compute_floorlog) (simp add: nat_div_distrib)
    with 1 True show ?thesis by (subst digit_count.simps) simp
  qed (subst digit_count.simps, simp add: compute_floorlog)
qed

text \<open>The exponent of the leading digit: \<open>10 ^ e \<le> \<bar>x\<bar> < 10 ^ (e + 1)\<close> for \<open>x \<noteq> 0\<close>.\<close>

definition adjusted :: "rat \<Rightarrow> int" where
  "adjusted x =
     (let (p, q) = quotient_of \<bar>x\<bar>;
          e = digit_count p - digit_count q
      in if 10 powi e \<le> \<bar>x\<bar> then e else e - 1)"

definition dround :: "rat \<Rightarrow> rat" where
  "dround x =
     (if x = 0 then 0
      else let u = 10 powi (adjusted x - 27) in of_int (round_half_even (x / u)) * u)"

lemma round_half_even_int [simp]: "round_half_even (of_int n) = n"
  by (simp add: round_half_even_def)

lemma round_half_even_bounds: "y - 1 / 2 \<le> of_int (round_half_even y)" "of_int (round_half_even y) \<le> y + 1 / 2"
  by (auto simp: round_half_even_def Let_def) linarith+

lemma round_half_even_mono:
  assumes "x \<le> y" shows "round_half_even x \<le> round_half_even y"
proof (cases "floor x = floor y")
  case True
  with assms show ?thesis by (auto simp: round_half_even_def Let_def)
next
  case False
  with floor_mono [OF assms] have "floor x + 1 \<le> floor y" by simp
  moreover have "round_half_even x \<le> floor x + 1" "floor y \<le> round_half_even y"
    by (auto simp: round_half_even_def Let_def)
  ultimately show ?thesis by linarith
qed

lemma floorlog_10_bounds:
  assumes "0 < n"
  shows "10 powi (int (floorlog 10 (nat n)) - 1) \<le> (of_int n :: rat)"
    and "(of_int n :: rat) < 10 powi int (floorlog 10 (nat n))"
proof -
  let ?f = "floorlog 10 (nat n)"
  have b: "10 ^ (?f - 1) \<le> nat n" "nat n < 10 ^ ?f" "0 < ?f"
    using floorlog_bounds [of "nat n" 10] floorlog_eq_zero_iff [of 10 "nat n"] assms by simp_all
  have "int (?f - 1) = int ?f - 1" using b(3) by simp
  then have "10 powi (int ?f - 1) = (of_nat (10 ^ (?f - 1)) :: rat)" by (metis of_nat_numeral of_nat_power power_int_of_nat)
  also have "\<dots> \<le> of_nat (nat n)" using b(1) by (simp only: of_nat_le_iff)
  finally show "10 powi (int ?f - 1) \<le> (of_int n :: rat)" using assms by simp
  have "(of_nat (nat n) :: rat) < of_nat (10 ^ ?f)" using b(2) by (simp only: of_nat_less_iff)
  then show "(of_int n :: rat) < 10 powi int ?f" using assms by (simp add: power_int_of_nat)
qed

lemma adjusted_bounds:
  assumes "x \<noteq> 0"
  shows "10 powi adjusted x \<le> \<bar>x\<bar>" and "\<bar>x\<bar> < 10 powi (adjusted x + 1)"
proof -
  obtain p q where pq: "quotient_of \<bar>x\<bar> = (p, q)" by (cases "quotient_of \<bar>x\<bar>")
  then have q: "0 < q" and x: "\<bar>x\<bar> = of_int p / of_int q"
    using quotient_of_denom_pos quotient_of_div by blast+
  have "0 < \<bar>x\<bar>" using assms by simp
  with x q have p: "0 < p" by (simp add: zero_less_divide_iff)
  let ?a = "int (floorlog 10 (nat p))" and ?b = "int (floorlog 10 (nat q))"
  note P = floorlog_10_bounds [OF p] and Q = floorlog_10_bounds [OF q]
  have D: "(10 :: rat) powi (m - n) = 10 powi m / 10 powi n" for m n
    by (rule power_int_diff) simp
  have "10 powi (?a - ?b - 1) = 10 powi (?a - 1) / (10 powi ?b :: rat)"
    unfolding D [symmetric] by (simp only: diff_right_commute)
  also have "\<dots> \<le> of_int p / of_int q"
    using P Q p q by (intro frac_le) (simp_all add: less_imp_le)
  finally have low: "10 powi (?a - ?b - 1) \<le> \<bar>x\<bar>" using x by simp
  have "of_int p / of_int q < 10 powi ?a / (10 powi (?b - 1) :: rat)"
    using P Q p q by (intro frac_less) simp_all
  also have "\<dots> = 10 powi (?a - ?b + 1)"
    unfolding D [symmetric] by (simp only: diff_diff_eq2 add_diff_eq diff_add_eq)
  finally have high: "\<bar>x\<bar> < 10 powi (?a - ?b + 1)" using x by simp
  have adj: "adjusted x = (if 10 powi (?a - ?b) \<le> \<bar>x\<bar> then ?a - ?b else ?a - ?b - 1)"
    by (simp add: adjusted_def pq Let_def digit_count_floorlog)
  show "10 powi adjusted x \<le> \<bar>x\<bar>" using low adj by auto
  show "\<bar>x\<bar> < 10 powi (adjusted x + 1)" using high adj by auto
qed

lemma powi_nat: "0 \<le> k \<Longrightarrow> (10 :: rat) powi k = of_int (10 ^ nat k)"
  by (simp add: power_int_def)

lemma adjusted_less:
  assumes "x \<noteq> 0" and "\<bar>x\<bar> < 10 powi k"
  shows "adjusted x < k"
proof -
  have "(10 :: rat) powi adjusted x < 10 powi k" using adjusted_bounds(1) [OF assms(1)] assms(2) by linarith
  then show ?thesis using power_int_increasing [of k "adjusted x" "10 :: rat"] by (meson linorder_not_le one_le_numeral)
qed

lemma adjusted_mono:
  assumes "x \<noteq> 0" and "\<bar>x\<bar> \<le> \<bar>y\<bar>" and "y \<noteq> 0"
  shows "adjusted x \<le> adjusted y"
  using adjusted_less [OF assms(1), of "adjusted y + 1"] adjusted_bounds(2) [OF assms(3)] assms(2) by simp

lemma dround_0 [simp]: "dround 0 = 0"
  by (simp add: dround_def)

text \<open>A value with at most 28 significant digits is not changed.\<close>

lemma dround_exact:
  assumes "\<bar>c\<bar> < 10 ^ 28"
  shows "dround (of_int c * 10 powi k) = of_int c * 10 powi k"
proof (cases "c = 0")
  case False
  let ?x = "of_int c * 10 powi k :: rat"
  have nz: "?x \<noteq> 0" using False by simp
  have "\<bar>of_int c :: rat\<bar> < 10 ^ 28" using assms by (metis of_int_abs of_int_less_numeral_power_cancel_iff)
  then have "\<bar>?x\<bar> < 10 ^ 28 * 10 powi k" by (simp add: abs_mult)
  also have "\<dots> = 10 powi (28 + k)" by (simp add: power_int_add)
  finally have "adjusted ?x - 27 \<le> k" using adjusted_less [OF nz, of "28 + k"] by linarith
  then have k: "0 \<le> k - (adjusted ?x - 27)" by simp
  have "?x / 10 powi (adjusted ?x - 27) = of_int c * 10 powi (k - (adjusted ?x - 27))"
    by (simp add: power_int_diff)
  also have "\<dots> = of_int (c * 10 ^ nat (k - (adjusted ?x - 27)))" using powi_nat [OF k] by simp
  finally have "of_int (round_half_even (?x / 10 powi (adjusted ?x - 27))) = ?x / 10 powi (adjusted ?x - 27)"
    by (metis round_half_even_int)
  then show ?thesis using nz by (simp add: dround_def Let_def)
qed simp

lemma round_half_even_minus: "round_half_even (- y) = - round_half_even y"
proof -
  have "floor (- y) = - floor y - 1" if "of_int (floor y) \<noteq> y"
  proof (rule floor_unique)
    show "of_int (- floor y - 1) \<le> - y" "- y < of_int (- floor y - 1) + 1"
      using that of_int_floor_le [of y] floor_correct [of y] by (simp_all add: less_le)
  qed
  moreover have "floor (- y) = - floor y" if "of_int (floor y) = y"
    using that by (metis floor_of_int of_int_minus)
  ultimately show ?thesis by (cases "of_int (floor y) = y") (auto simp: round_half_even_def Let_def)
qed

lemma adjusted_minus [simp]: "adjusted (- x) = adjusted x"
  by (simp add: adjusted_def)

lemma dround_minus: "dround (- x) = - dround x"
  by (simp add: dround_def Let_def round_half_even_minus)

lemma dround_pos_bounds:
  assumes "0 < x"
  shows "10 powi adjusted x \<le> dround x" and "dround x \<le> 10 powi (adjusted x + 1)"
proof -
  let ?e = "adjusted x"
  let ?u = "10 powi (?e - 27) :: rat"
  have u: "0 < ?u" by simp
  have e: "10 powi ?e = of_int (10 ^ 27) * ?u" "10 powi (?e + 1) = of_int (10 ^ 28) * ?u"
    using power_int_add [of "10 :: rat" "27" "?e - 27"] power_int_add [of "10 :: rat" "28" "?e - 27"]
    by (simp_all add: algebra_simps)
  have b: "10 powi ?e \<le> x" "x < 10 powi (?e + 1)" using adjusted_bounds [of x] assms by simp_all
  have "of_int (10 ^ 27) \<le> x / ?u" using b(1) u unfolding e by (simp add: pos_le_divide_eq)
  then have "10 ^ 27 \<le> round_half_even (x / ?u)" using round_half_even_mono by (metis round_half_even_int)
  then have "(of_int (10 ^ 27) :: rat) * ?u \<le> of_int (round_half_even (x / ?u)) * ?u"
    using u by (intro mult_right_mono) (simp_all only: of_int_le_iff less_imp_le)
  then show "10 powi ?e \<le> dround x" using assms unfolding e by (simp add: dround_def Let_def)
  have "x / ?u \<le> of_int (10 ^ 28)" using b(2) u unfolding e by (simp add: pos_divide_le_eq)
  then have "round_half_even (x / ?u) \<le> 10 ^ 28" using round_half_even_mono by (metis round_half_even_int)
  then have "of_int (round_half_even (x / ?u)) * ?u \<le> (of_int (10 ^ 28) :: rat) * ?u"
    using u by (intro mult_right_mono) (simp_all only: of_int_le_iff less_imp_le)
  then show "dround x \<le> 10 powi (?e + 1)" using assms unfolding e by (simp add: dround_def Let_def)
qed

lemma dround_pos: "0 < x \<Longrightarrow> 0 < dround x"
  using dround_pos_bounds(1) [of x] by (metis less_le_trans zero_less_numeral zero_less_power_int)

lemma dround_mono_pos:
  assumes "0 < x" and "x \<le> y" shows "dround x \<le> dround y"
proof (cases "adjusted x = adjusted y")
  case True
  let ?u = "10 powi (adjusted y - 27) :: rat"
  have "round_half_even (x / ?u) \<le> round_half_even (y / ?u)"
    using assms by (intro round_half_even_mono) (simp add: divide_right_mono)
  with assms True show ?thesis by (simp add: dround_def Let_def mult_right_mono)
next
  case False
  then have "adjusted x + 1 \<le> adjusted y" using adjusted_mono [of x y] assms by simp
  then have "(10 :: rat) powi (adjusted x + 1) \<le> 10 powi adjusted y" by (rule power_int_increasing) simp
  with dround_pos_bounds(2) [OF assms(1)] dround_pos_bounds(1) [of y] assms show ?thesis by linarith
qed

lemma dround_mono:
  assumes "x \<le> y" shows "dround x \<le> dround y"
proof (cases "0 < x")
  case True
  then show ?thesis using assms by (rule dround_mono_pos)
next
  case False
  show ?thesis
  proof (cases "0 < y")
    case True
    have "0 \<le> dround (- x)" using False dround_pos [of "- x"] by (cases "x = 0") auto
    with dround_pos [OF True] show ?thesis by (simp add: dround_minus)
  next
    case neg: False
    show ?thesis
    proof (cases "y = 0")
      case True
      with False show ?thesis using dround_pos [of "- x"] by (cases "x = 0") (auto simp: dround_minus)
    next
      case False
      with neg assms dround_mono_pos [of "- y" "- x"] show ?thesis by (simp add: dround_minus)
    qed
  qed
qed

lemma dround_nonneg: "0 \<le> x \<Longrightarrow> 0 \<le> dround x"
  using dround_mono [of 0 x] by simp

text \<open>Values with \<open>n\<close> decimal places below \<open>10 ^ (28 - n)\<close> are exact.\<close>

lemma dround_places:
  assumes "\<bar>c\<bar> < 10 ^ 28"
  shows "dround (of_int c / 10 ^ n) = of_int c / 10 ^ n"
  using dround_exact [OF assms, of "- int n"] by (simp add: power_int_minus divide_inverse)

section \<open>Quantising\<close>

datatype decimal = Decimal int int

fun dvalue :: "decimal \<Rightarrow> rat" where
  "dvalue (Decimal c e) = of_int c * 10 powi e"

fun dexponent :: "decimal \<Rightarrow> int" where
  "dexponent (Decimal c e) = e"

definition round_half_up :: "rat \<Rightarrow> int" where
  "round_half_up y = (if 0 \<le> y then floor (y + 1 / 2) else - floor (- y + 1 / 2))"

text \<open>\<open>x.quantize(scale, rounding=ROUND_HALF_UP)\<close>.\<close>

definition quantize :: "rat \<Rightarrow> decimal \<Rightarrow> rat result" where
  "quantize x scale =
     (let u = 10 powi dexponent scale; c = round_half_up (x / u)
      in if \<bar>c\<bar> < 10 ^ 28 then Inr (of_int c * u) else Inl InvalidOperation)"

lemma round_half_up_nonneg: "0 \<le> y \<Longrightarrow> 0 \<le> round_half_up y"
  by (simp add: round_half_up_def)

lemma round_half_up_int [simp]: "round_half_up (of_int n) = n"
  by (auto simp: round_half_up_def floor_eq_iff)

lemma round_half_up_bounds: "y - 1 / 2 \<le> of_int (round_half_up y)" "of_int (round_half_up y) \<le> y + 1 / 2"
  by (auto simp: round_half_up_def) linarith+

lemma round_half_up_mono:
  assumes "x \<le> y" shows "round_half_up x \<le> round_half_up y"
proof -
  consider "0 \<le> x" "0 \<le> y" | "x < 0" "0 \<le> y" | "x < 0" "y < 0" using assms by linarith
  then show ?thesis
  proof cases
    case 2
    then have "round_half_up x \<le> 0" by (simp add: round_half_up_def)
    with 2 round_half_up_nonneg [of y] show ?thesis by linarith
  qed (use assms in \<open>simp_all add: round_half_up_def floor_mono\<close>)
qed

lemma quantize_Inr:
  assumes "quantize x scale = Inr y"
  shows "\<exists>c. \<bar>c\<bar> < 10 ^ 28 \<and> y = of_int c * 10 powi dexponent scale \<and> c = round_half_up (x / 10 powi dexponent scale)"
  using assms by (auto simp: quantize_def Let_def split: if_splits)

lemma quantize_nonneg: "quantize x scale = Inr y \<Longrightarrow> 0 \<le> x \<Longrightarrow> 0 \<le> y"
  by (auto dest!: quantize_Inr simp: round_half_up_nonneg)

text \<open>A sum of quantised values is exact when it fits the context.\<close>

lemma quantize_dround: "quantize x scale = Inr y \<Longrightarrow> dround y = y"
  by (auto dest!: quantize_Inr simp: dround_exact)

end
