(* ===== verification/Catalog_Chunking.thy ===== *)
theory Catalog_Chunking
  imports Decimals
begin

text \<open>
  catalog/models.py, catalog/eligibility.py and catalog/chunking.py: the business configuration, the
  exact-skill eligibility of a worker, and the division of a job item into chunks of at most one
  task day. Decimals are rationals rounded to the context after every operation (theory Decimals).
\<close>

section \<open>The configuration\<close>

definition DATA_CLASSIFICATION_DEMO :: string where
  "DATA_CLASSIFICATION_DEMO = ''DEMO_SYNTHETIC''"

definition EXPECTED_SKUS :: "string list" where
  "EXPECTED_SKUS =
     [''painting.wash'', ''painting.strip'', ''painting.mold'', ''painting.fill'', ''painting.prime'',
      ''painting.coat1'', ''painting.coat2'', ''furniture.shift'', ''plaster.skim'', ''plaster.repair'',
      ''tile.floor'', ''tile.wall'', ''waterproof.bath'', ''drywall.partition'', ''drywall.ceiling'',
      ''demo.interior'', ''sanitary.install'', ''white.toilet'', ''white.sink'', ''white.shower'',
      ''white.faucet'', ''mount.curtain'', ''mount.small'', ''furniture.carry'']"

datatype UnitType = SQUARE_METER | WORKER_HOUR | PIECE | ROOM

fun UnitType_value :: "UnitType \<Rightarrow> string" where
  "UnitType_value SQUARE_METER = ''SQUARE_METER''"
| "UnitType_value WORKER_HOUR = ''WORKER_HOUR''"
| "UnitType_value PIECE = ''PIECE''"
| "UnitType_value ROOM = ''ROOM''"

definition UnitType_members :: "UnitType list" where
  "UnitType_members = [SQUARE_METER, WORKER_HOUR, PIECE, ROOM]"

datatype VehicleClass = NONE | LIGHT | GENERAL_CARGO | LARGE_CARGO

fun VehicleClass_value :: "VehicleClass \<Rightarrow> string" where
  "VehicleClass_value NONE = ''NONE''"
| "VehicleClass_value LIGHT = ''LIGHT''"
| "VehicleClass_value GENERAL_CARGO = ''GENERAL_CARGO''"
| "VehicleClass_value LARGE_CARGO = ''LARGE_CARGO''"

datatype CrewRole = OWNER | WORKER

datatype VehicleKind = COMPANY | PRIVATE | RENTAL

record UnitDisplayAlias =
  ua_unit :: UnitType
  ua_short_label :: string
  ua_english_label :: string

record ServiceCatalogItem =
  sc_sku :: string
  sc_unit :: UnitType

record SkuPlanningProfile =
  pp_sku :: string
  pp_unit :: UnitType
  pp_norm_worker_hours_per_unit :: rat
  pp_required_skill_key :: string
  pp_min_skill_level :: int
  pp_vehicle_class :: VehicleClass
  pp_site_verification_required :: bool
  pp_predecessor_if_present :: "string list"

record SkillRating =
  sr_sku :: string
  sr_level :: int

record CrewMember =
  cm_worker_id :: string
  cm_name :: string
  cm_role :: CrewRole
  cm_license_b :: bool
  cm_private_vehicle_id :: "string option"
  cm_saturday :: bool
  cm_overnight :: bool
  cm_owner_last_resort :: bool
  cm_skills :: "SkillRating list"

record VehicleProfile =
  vp_vehicle_id :: string
  vp_name :: string
  vp_kind :: VehicleKind
  vp_capabilities :: "VehicleClass list"
  vp_plate :: "string option"
  vp_seats :: "int option"
  vp_cargo_approx_cubic_meters :: "rat option"
  vp_assigned_worker_id :: "string option"
  vp_data_classification :: string

record VehiclePreference =
  vf_vehicle_class :: VehicleClass
  vf_vehicle_ids :: "string list"

record VehiclePolicy =
  vo_execution_preferences :: "VehiclePreference list"
  vo_site_visit_preference :: "string list"
  vo_unavailable_company_fallback_order :: "VehicleKind list"
  vo_rental_preferences :: "VehiclePreference list"
  vo_rental_daily_net_rate :: rat
  vo_rental_currency :: string

record CatalogLabel =
  cl_sku :: string
  cl_english :: string
  cl_german :: string

record ChunkingPolicy =
  cp_max_scheduled_hours_per_task_day :: rat

record M8BusinessConfiguration =
  bc_service_catalog_version :: string
  bc_sku_planning_profile_version :: string
  bc_skill_matrix_version :: string
  bc_vehicle_policy_version :: string
  bc_i18n_catalog_version :: string
  bc_data_classification :: string
  bc_service_catalog :: "ServiceCatalogItem list"
  bc_planning_profiles :: "SkuPlanningProfile list"
  bc_crew :: "CrewMember list"
  bc_vehicles :: "VehicleProfile list"
  bc_vehicle_policy :: VehiclePolicy
  bc_labels :: "CatalogLabel list"
  bc_unit_aliases :: "UnitDisplayAlias list"
  bc_chunking_policy :: ChunkingPolicy
  bc_plaster_skim_limitation_en :: string
  bc_plaster_skim_limitation_de :: string

text \<open>The one element with a key: \<open>matches = tuple(...)\<close>, then \<open>if len(matches) != 1: raise\<close>.\<close>

fun the_only :: "py_error \<Rightarrow> 'a list \<Rightarrow> 'a result" where
  "the_only e [x] = Inr x"
| "the_only e _ = Inl e"

definition profile :: "M8BusinessConfiguration \<Rightarrow> string \<Rightarrow> SkuPlanningProfile result" where
  "profile config sku = the_only KeyError (filter (\<lambda>item. pp_sku item = sku) (bc_planning_profiles config))"

definition catalog_item :: "M8BusinessConfiguration \<Rightarrow> string \<Rightarrow> ServiceCatalogItem result" where
  "catalog_item config sku = the_only KeyError (filter (\<lambda>item. sc_sku item = sku) (bc_service_catalog config))"

definition label :: "M8BusinessConfiguration \<Rightarrow> string \<Rightarrow> CatalogLabel result" where
  "label config sku = the_only KeyError (filter (\<lambda>item. cl_sku item = sku) (bc_labels config))"

section \<open>Eligibility\<close>

definition exact_skill_level :: "CrewMember \<Rightarrow> string \<Rightarrow> int result" where
  "exact_skill_level worker sku =
     the_only (ValueError (''Worker '' @ cm_worker_id worker @ '' must have exactly one skill entry for '' @ sku))
       (map sr_level (filter (\<lambda>item. sr_sku item = sku) (cm_skills worker)))"

definition is_worker_schedulable :: "CrewMember \<Rightarrow> SkuPlanningProfile \<Rightarrow> bool result" where
  "is_worker_schedulable worker p =
     and_then (exact_skill_level worker (pp_required_skill_key p)) (\<lambda>level. Inr (pp_min_skill_level p \<le> level))"

section \<open>Chunks\<close>

record ScheduledChunk =
  ch_chunk_id :: string
  ch_sequence :: int
  ch_quantity :: rat
  ch_estimated_worker_hours :: rat
  ch_predecessor_chunk_id :: "string option"

record ChunkedJobItem =
  cj_job_id :: string
  cj_job_item_id :: string
  cj_sku :: string
  cj_chunks :: "ScheduledChunk list"

definition positive_decimal :: "rat \<Rightarrow> string \<Rightarrow> rat result" where
  "positive_decimal value name =
     and_then (require (\<not> value \<le> 0) (name @ '' must be a positive finite Decimal'')) (\<lambda>_. Inr value)"

definition estimated_worker_hours :: "rat \<Rightarrow> SkuPlanningProfile \<Rightarrow> rat result" where
  "estimated_worker_hours quantity p =
     and_then (positive_decimal quantity ''quantity'') (\<lambda>q.
     and_then (positive_decimal (pp_norm_worker_hours_per_unit p) ''norm_worker_hours_per_unit'') (\<lambda>per_unit.
     Inr (dround (q * per_unit))))"

text \<open>The branch for continuous units: pairs of quantity and hours.\<close>

definition continuous_chunk_values :: "rat \<Rightarrow> rat \<Rightarrow> rat \<Rightarrow> (rat \<times> rat) list" where
  "continuous_chunk_values quantity per_unit maximum =
     (let total_hours = dround (quantity * per_unit);
          full_count = floor (dround (total_hours / maximum));
          full_quantity = dround (maximum / per_unit);
          remainder_hours = dround (total_hours - dround (maximum * of_int full_count))
      in replicate (nat full_count) (full_quantity, maximum) @
         (if 0 < remainder_hours then [(dround (remainder_hours / per_unit), remainder_hours)] else []))"

text \<open>The \<open>while\<close> loop of the branch for discrete units, for at least one unit per chunk.\<close>

function discrete_chunk_values :: "rat \<Rightarrow> int \<Rightarrow> int \<Rightarrow> (rat \<times> rat) list" where
  "discrete_chunk_values per_unit units_per_full_chunk remaining =
     (if 0 < remaining \<and> 1 \<le> units_per_full_chunk then
        let units = min units_per_full_chunk remaining
        in (of_int units, dround (of_int units * per_unit)) #
           discrete_chunk_values per_unit units_per_full_chunk (remaining - units)
      else [])"
  by pat_completeness auto

termination
  by (relation "measure (\<lambda>(_, _, remaining). nat remaining)") auto

declare discrete_chunk_values.simps [simp del]

definition chunk_values :: "UnitType \<Rightarrow> rat \<Rightarrow> rat \<Rightarrow> rat \<Rightarrow> (rat \<times> rat) list result" where
  "chunk_values unit quantity per_unit maximum =
     (if unit \<in> {SQUARE_METER, WORKER_HOUR} then Inr (continuous_chunk_values quantity per_unit maximum)
      else
        and_then (require (quantity = of_int (floor quantity)) ''PIECE and ROOM quantities must be whole units'') (\<lambda>_.
        let units_per_full_chunk = floor (dround (maximum / per_unit)) in
        and_then (require (\<not> units_per_full_chunk < 1) ''One PIECE/ROOM unit does not fit in a task day'') (\<lambda>_.
        Inr (discrete_chunk_values per_unit units_per_full_chunk (floor quantity)))))"

text \<open>The format \<open>{index:03d}\<close> of a positive integer.\<close>

definition pad3 :: "int \<Rightarrow> string" where
  "pad3 n = (let s = str_int n in replicate (3 - length s) (CHR ''0'') @ s)"

definition chunk_id :: "string \<Rightarrow> int \<Rightarrow> string" where
  "chunk_id job_item_id index = job_item_id @ '':chunk:'' @ pad3 index"

text \<open>The loop that numbers the chunks; the predecessor is the chunk made before.\<close>

fun number_chunks :: "string \<Rightarrow> int \<Rightarrow> string option \<Rightarrow> (rat \<times> rat) list \<Rightarrow> ScheduledChunk list" where
  "number_chunks job_item_id index previous [] = []"
| "number_chunks job_item_id index previous ((q, hours) # vs) =
     \<lparr>ch_chunk_id = chunk_id job_item_id index, ch_sequence = index, ch_quantity = q,
      ch_estimated_worker_hours = hours, ch_predecessor_chunk_id = previous\<rparr> #
     number_chunks job_item_id (index + 1) (Some (chunk_id job_item_id index)) vs"

definition generate_job_item_chunks ::
    "string \<Rightarrow> rat \<Rightarrow> SkuPlanningProfile \<Rightarrow> ChunkingPolicy \<Rightarrow> ScheduledChunk list result" where
  "generate_job_item_chunks job_item_id quantity0 p policy =
     and_then (require (strip job_item_id \<noteq> []) ''job_item_id is required'') (\<lambda>_.
     and_then (positive_decimal quantity0 ''quantity'') (\<lambda>quantity.
     and_then (positive_decimal (pp_norm_worker_hours_per_unit p) ''norm_worker_hours_per_unit'') (\<lambda>per_unit.
     and_then (positive_decimal (cp_max_scheduled_hours_per_task_day policy) ''max_scheduled_hours_per_task_day'') (\<lambda>maximum.
     and_then (chunk_values (pp_unit p) quantity per_unit maximum) (\<lambda>vs.
     Inr (number_chunks job_item_id 1 None vs))))))"

definition conditional_predecessor_chunk_ids ::
    "string \<Rightarrow> SkuPlanningProfile \<Rightarrow> ChunkedJobItem list \<Rightarrow> string list result" where
  "conditional_predecessor_chunk_ids job_id p explicit_job_items =
     (let matching = sort_key cj_job_item_id
            (filter (\<lambda>item. cj_job_id item = job_id \<and> cj_sku item \<in> set (pp_predecessor_if_present p))
               explicit_job_items)
      in and_then (require (\<not> (\<exists>item\<in>set matching. cj_chunks item = []))
           ''Explicit predecessor JobItem must have at least one chunk'') (\<lambda>_.
         Inr (map (\<lambda>item. ch_chunk_id (last (cj_chunks item))) matching)))"

end
