(* ===== verification/Catalog_Validation.thy ===== *)
theory Catalog_Validation
  imports Catalog_Chunking "HOL-Library.Product_Lexorder"
begin

text \<open>
  catalog/validation.py: the fail-fast validation of the business configuration. The code appends
  issues to one list and sorts it at the end; each loop is a list of issues here, in the code's
  order. Checks of Python's dynamic types (\<open>isinstance\<close>) hold by typing and add no issue.
\<close>

record ConfigurationIssue =
  ci_code :: string
  ci_affected_id :: string
  ci_explanation :: string

definition issue :: "string \<Rightarrow> string \<Rightarrow> string \<Rightarrow> ConfigurationIssue" where
  "issue code affected_id explanation =
     \<lparr>ci_code = code, ci_affected_id = affected_id, ci_explanation = explanation\<rparr>"

text \<open>\<open>if c: _issue(...)\<close>.\<close>

definition issue_if :: "bool \<Rightarrow> string \<Rightarrow> string \<Rightarrow> string \<Rightarrow> ConfigurationIssue list" where
  "issue_if c code affected_id explanation = (if c then [issue code affected_id explanation] else [])"

definition duplicates :: "string list \<Rightarrow> string list" where
  "duplicates values = sorted_set (filter (\<lambda>v. 1 < count_list values v) values)"

section \<open>Predecessor cycles\<close>

definition predecessor_graph :: "M8BusinessConfiguration \<Rightarrow> (string \<times> string list) list" where
  "predecessor_graph config =
     map (\<lambda>p. (pp_sku p, filter (\<lambda>x. x \<in> set EXPECTED_SKUS) (pp_predecessor_if_present p)))
       (filter (\<lambda>p. pp_sku p \<in> set EXPECTED_SKUS) (bc_planning_profiles config))"

definition children :: "(string \<times> string list) list \<Rightarrow> string \<Rightarrow> string list" where
  "children graph sku = sort (case dict_by fst graph sku of None \<Rightarrow> [] | Some (_, ps) \<Rightarrow> ps)"

text \<open>The variables that the nested function \<open>visit\<close> changes; \<open>visiting\<close> is restored by its \<open>pop\<close>.\<close>

record cycle_search =
  cs_visited :: "string list"
  cs_reported :: "string list list"
  cs_issues :: "ConfigurationIssue list"

definition cycle_from :: "string list \<Rightarrow> string \<Rightarrow> string list" where
  "cycle_from visiting sku = dropWhile (\<lambda>x. x \<noteq> sku) visiting @ [sku]"

definition report_cycle :: "string list \<Rightarrow> cycle_search \<Rightarrow> cycle_search" where
  "report_cycle cycle st =
     (let canonical = sorted_set cycle in
      if canonical \<in> set (cs_reported st) then st
      else st\<lparr>cs_reported := canonical # cs_reported st,
              cs_issues := cs_issues st @
                [issue ''PREDECESSOR_CYCLE'' (join '' -> '' cycle) ''predecessorIfPresent graph must be acyclic.'']\<rparr>)"

lemma children_key: "children graph sku \<noteq> [] \<Longrightarrow> sku \<in> fst ` set graph"
  by (auto simp: children_def dict_by_def dest!: lookup_by_Some split: option.splits intro: rev_image_eqI)

lemma unvisited_less:
  assumes "sku \<notin> set visiting" and "sku \<in> fst ` set graph"
  shows "length (filter (\<lambda>e. fst e \<noteq> sku \<and> fst e \<notin> set visiting) graph) <
    length (filter (\<lambda>e. fst e \<notin> set visiting) graph)"
proof -
  obtain e where e: "e \<in> set (filter (\<lambda>e. fst e \<notin> set visiting) graph)" "fst e = sku" using assms by auto
  have eq: "filter (\<lambda>e. fst e \<noteq> sku \<and> fst e \<notin> set visiting) graph =
      filter (\<lambda>e. fst e \<noteq> sku) (filter (\<lambda>e. fst e \<notin> set visiting) graph)"
    by (simp add: conj_commute)
  show ?thesis unfolding eq by (rule length_filter_less [OF e(1)]) (simp add: e(2))
qed

function visit :: "(string \<times> string list) list \<Rightarrow> string list \<Rightarrow> string \<Rightarrow> cycle_search \<Rightarrow> cycle_search"
  and visit_all :: "(string \<times> string list) list \<Rightarrow> string list \<Rightarrow> string list \<Rightarrow> cycle_search \<Rightarrow> cycle_search" where
  "visit graph visiting sku st =
     (if sku \<in> set visiting then report_cycle (cycle_from visiting sku) st
      else if sku \<in> set (cs_visited st) then st
      else if children graph sku = [] then st\<lparr>cs_visited := cs_visited st @ [sku]\<rparr>
      else
        let st' = visit_all graph (visiting @ [sku]) (children graph sku) st
        in st'\<lparr>cs_visited := cs_visited st' @ [sku]\<rparr>)"
| "visit_all graph visiting [] st = st"
| "visit_all graph visiting (sku # skus) st = visit_all graph visiting skus (visit graph visiting sku st)"
  by pat_completeness auto

termination
  by (relation "inv_image (less_than <*lex*> less_than)
      (\<lambda>x. case x of
         Inl (graph, visiting, sku, st) \<Rightarrow> (length (filter (\<lambda>e. fst e \<notin> set visiting) graph), 0)
       | Inr (graph, visiting, skus, st) \<Rightarrow> (length (filter (\<lambda>e. fst e \<notin> set visiting) graph), Suc (length skus)))")
    (auto dest: children_key intro!: unvisited_less)

text \<open>The test for an empty list of children only skips a loop over nothing: it is the code's \<open>visit\<close>.\<close>

lemma visit_code:
  "visit graph visiting sku st =
     (if sku \<in> set visiting then report_cycle (cycle_from visiting sku) st
      else if sku \<in> set (cs_visited st) then st
      else
        let st' = visit_all graph (visiting @ [sku]) (children graph sku) st
        in st'\<lparr>cs_visited := cs_visited st' @ [sku]\<rparr>)"
  by (simp add: Let_def)

declare visit.simps [simp del]

definition cycle_issues :: "M8BusinessConfiguration \<Rightarrow> ConfigurationIssue list" where
  "cycle_issues config =
     (let graph = predecessor_graph config
      in cs_issues (visit_all graph [] (sorted_set (map fst graph))
           \<lparr>cs_visited = [], cs_reported = [], cs_issues = []\<rparr>))"

section \<open>The checks\<close>

definition version_issues :: "M8BusinessConfiguration \<Rightarrow> ConfigurationIssue list" where
  "version_issues config =
     concat (map (\<lambda>(name, value). issue_if (strip value = []) ''MISSING_VERSION_IDENTIFIER'' name
         ''Frozen configuration version identifier is required.'')
       [(''SERVICE_CATALOG_VERSION'', bc_service_catalog_version config),
        (''SKU_PLANNING_PROFILE_VERSION'', bc_sku_planning_profile_version config),
        (''SKILL_MATRIX_VERSION'', bc_skill_matrix_version config),
        (''VEHICLE_POLICY_VERSION'', bc_vehicle_policy_version config),
        (''I18N_CATALOG_VERSION'', bc_i18n_catalog_version config)]) @
     issue_if (bc_data_classification config \<noteq> DATA_CLASSIFICATION_DEMO) ''INVALID_DATA_CLASSIFICATION''
       ''configuration'' ''M8.0 frozen data must be explicitly DEMO_SYNTHETIC.''"

definition duplicate_issues :: "string \<Rightarrow> string \<Rightarrow> string list \<Rightarrow> ConfigurationIssue list" where
  "duplicate_issues code explanation values = map (\<lambda>v. issue code v explanation) (duplicates values)"

text \<open>\<open>sorted(a - b)\<close> of two sets.\<close>

definition sorted_difference :: "string list \<Rightarrow> string list \<Rightarrow> string list" where
  "sorted_difference a b = sorted_set (filter (\<lambda>x. x \<notin> set b) a)"

definition coverage_issues :: "string \<Rightarrow> string list \<Rightarrow> ConfigurationIssue list" where
  "coverage_issues collection_name skus =
     map (\<lambda>sku. issue ''MISSING_SKU'' (collection_name @ '':'' @ sku) ''Expected frozen SKU is missing.'')
       (sorted_difference EXPECTED_SKUS skus) @
     map (\<lambda>sku. issue ''UNKNOWN_SKU'' (collection_name @ '':'' @ sku)
         ''Unknown SKU is not allowed in the frozen catalog.'')
       (sorted_difference skus EXPECTED_SKUS)"

definition sku_issues :: "M8BusinessConfiguration \<Rightarrow> ConfigurationIssue list" where
  "sku_issues config =
     (let catalog_skus = map sc_sku (bc_service_catalog config);
          profile_skus = map pp_sku (bc_planning_profiles config);
          label_skus = map cl_sku (bc_labels config)
      in duplicate_issues ''DUPLICATE_CATALOG_SKU'' ''Service catalog SKU occurs more than once.'' catalog_skus @
         duplicate_issues ''DUPLICATE_SKU_PROFILE'' ''Planning profile occurs more than once.'' profile_skus @
         duplicate_issues ''DUPLICATE_CATALOG_LABEL'' ''Catalog label occurs more than once.'' label_skus @
         coverage_issues ''catalog'' catalog_skus @
         coverage_issues ''planning-profile'' profile_skus @
         coverage_issues ''label'' label_skus @
         concat (map (\<lambda>sku. [issue ''MISSING_EN_LABEL'' sku ''English catalog label is required.'',
                            issue ''MISSING_DE_LABEL'' sku ''German catalog label is required.''])
           (sorted_difference EXPECTED_SKUS label_skus)))"

text \<open>\<open>a // b\<close> of positive Decimals: fails when the quotient needs more digits than the context has.\<close>

definition dfloordiv :: "rat \<Rightarrow> rat \<Rightarrow> int result" where
  "dfloordiv a b = (let n = floor (a / b) in if n < 10 ^ 28 then Inr n else Inl InvalidOperation)"

definition capacity_issues :: "M8BusinessConfiguration \<Rightarrow> SkuPlanningProfile \<Rightarrow> ConfigurationIssue list result" where
  "capacity_issues config p =
     (if pp_unit p \<in> {PIECE, ROOM} \<and> 0 < pp_norm_worker_hours_per_unit p \<and>
         0 < cp_max_scheduled_hours_per_task_day (bc_chunking_policy config)
      then and_then (dfloordiv (cp_max_scheduled_hours_per_task_day (bc_chunking_policy config))
             (pp_norm_worker_hours_per_unit p)) (\<lambda>n.
           Inr (issue_if (n < 1) ''CHUNK_CAPACITY_ZERO'' (pp_sku p) ''A PIECE/ROOM unit cannot fit in one task day.''))
      else Inr [])"

definition profile_issues :: "M8BusinessConfiguration \<Rightarrow> SkuPlanningProfile \<Rightarrow> ConfigurationIssue list result" where
  "profile_issues config p =
     and_then (capacity_issues config p) (\<lambda>capacity. Inr (
       (case dict_by sc_sku (bc_service_catalog config) (pp_sku p) of
          None \<Rightarrow> []
        | Some item \<Rightarrow> issue_if (pp_unit p \<noteq> sc_unit item) ''PROFILE_UNIT_MISMATCH'' (pp_sku p)
            ''Planning profile unit differs from service catalog unit.'') @
       issue_if (\<not> 0 < pp_norm_worker_hours_per_unit p) ''INVALID_NORM'' (pp_sku p)
         ''normWorkerHoursPerUnit must be a positive finite Decimal.'' @
       issue_if (pp_min_skill_level p \<notin> {2, 3}) ''INVALID_MIN_SKILL_LEVEL'' (pp_sku p)
         ''minSkillLevel must be exactly 2 or 3.'' @
       issue_if (pp_required_skill_key p \<noteq> pp_sku p) ''REQUIRED_SKILL_KEY_MISMATCH'' (pp_sku p)
         ''requiredSkillKey must equal the exact SKU.'' @
       concat (map (\<lambda>predecessor. issue_if (predecessor \<notin> set EXPECTED_SKUS) ''UNKNOWN_PREDECESSOR''
           (pp_sku p @ '':'' @ predecessor) ''predecessorIfPresent references an unknown SKU.'')
         (pp_predecessor_if_present p)) @
       capacity))"

definition label_issues :: "M8BusinessConfiguration \<Rightarrow> ConfigurationIssue list" where
  "label_issues config =
     concat (map (\<lambda>l. issue_if (strip (cl_english l) = []) ''MISSING_EN_LABEL'' (cl_sku l)
           ''English catalog label is required.'' @
         issue_if (strip (cl_german l) = []) ''MISSING_DE_LABEL'' (cl_sku l) ''German catalog label is required.'')
       (bc_labels config))"

definition worker_issues :: "CrewMember \<Rightarrow> ConfigurationIssue list" where
  "worker_issues worker =
     (let skill_skus = map sr_sku (cm_skills worker); ident = (\<lambda>sku. cm_worker_id worker @ '':'' @ sku) in
      map (\<lambda>sku. issue ''DUPLICATE_WORKER_SKILL'' (ident sku) ''Worker has duplicate exact-SKU skill entry.'')
        (duplicates skill_skus) @
      map (\<lambda>sku. issue ''MISSING_WORKER_SKILL'' (ident sku) ''Worker must have an explicit skill value for every SKU.'')
        (sorted_difference EXPECTED_SKUS skill_skus) @
      map (\<lambda>sku. issue ''UNKNOWN_WORKER_SKILL'' (ident sku) ''Worker skill references an unknown SKU.'')
        (sorted_difference skill_skus EXPECTED_SKUS) @
      concat (map (\<lambda>skill. issue_if (\<not> (0 \<le> sr_level skill \<and> sr_level skill \<le> 3)) ''INVALID_SKILL_LEVEL''
          (ident (sr_sku skill)) ''Skill level must be an integer from 0 through 3.'') (cm_skills worker)))"

definition crew_issues :: "M8BusinessConfiguration \<Rightarrow> ConfigurationIssue list" where
  "crew_issues config =
     duplicate_issues ''DUPLICATE_WORKER_ID'' ''Frozen crew stable ID occurs more than once.''
       (map cm_worker_id (bc_crew config)) @
     concat (map worker_issues (bc_crew config))"

definition vehicle_by_id :: "M8BusinessConfiguration \<Rightarrow> string \<Rightarrow> VehicleProfile option" where
  "vehicle_by_id config = dict_by vp_vehicle_id (bc_vehicles config)"

definition vehicle_issues :: "M8BusinessConfiguration \<Rightarrow> VehicleProfile \<Rightarrow> ConfigurationIssue list" where
  "vehicle_issues config v =
     issue_if (vp_data_classification v \<noteq> DATA_CLASSIFICATION_DEMO) ''INVALID_VEHICLE_DATA_CLASSIFICATION''
       (vp_vehicle_id v) ''Vehicle must be marked DEMO_SYNTHETIC.'' @
     concat (map (\<lambda>capability. issue_if (capability = VehicleClass.NONE) ''UNKNOWN_VEHICLE_CAPABILITY''
         (vp_vehicle_id v) ''Vehicle capability contains an unknown or NONE class.'') (vp_capabilities v)) @
     (if vp_kind v = PRIVATE then
        issue_if (vp_assigned_worker_id v \<notin> Some ` set (map cm_worker_id (bc_crew config)))
          ''INVALID_PRIVATE_VEHICLE_OWNER'' (vp_vehicle_id v) ''Private vehicle must belong to a frozen crew member.'' @
        issue_if (vp_capabilities v \<noteq> [LIGHT]) ''INVALID_PRIVATE_VEHICLE_CAPABILITY'' (vp_vehicle_id v)
          ''M8 private vehicles support LIGHT only.''
      else [])"

definition binding_issues :: "M8BusinessConfiguration \<Rightarrow> CrewMember \<Rightarrow> ConfigurationIssue list" where
  "binding_issues config worker =
     (case cm_private_vehicle_id worker of
        None \<Rightarrow> []
      | Some vid \<Rightarrow>
          issue_if (case vehicle_by_id config vid of
              None \<Rightarrow> True
            | Some v \<Rightarrow> vp_kind v \<noteq> PRIVATE \<or> vp_assigned_worker_id v \<noteq> Some (cm_worker_id worker))
            ''PRIVATE_VEHICLE_BINDING_MISMATCH'' (cm_worker_id worker) ''Worker private vehicle binding is invalid.'')"

definition preferred_vehicle_issues ::
    "M8BusinessConfiguration \<Rightarrow> VehicleKind \<Rightarrow> string \<Rightarrow> VehicleClass \<Rightarrow> string \<Rightarrow> ConfigurationIssue list" where
  "preferred_vehicle_issues config expected_kind prefix vclass vid =
     (case vehicle_by_id config vid of
        None \<Rightarrow> [issue ''UNKNOWN_PREFERRED_VEHICLE'' (prefix @ '':'' @ vid)
          ''Vehicle preference references an unknown vehicle.'']
      | Some v \<Rightarrow>
          if vp_kind v \<noteq> expected_kind then
            [issue ''INVALID_PREFERRED_VEHICLE_KIND'' (prefix @ '':'' @ vid)
               ''Vehicle preference uses the wrong vehicle kind.'']
          else issue_if (vclass \<notin> set (vp_capabilities v)) ''INCAPABLE_PREFERRED_VEHICLE''
            (VehicleClass_value vclass @ '':'' @ vid) ''Preferred vehicle cannot satisfy the requested class.'')"

definition preference_issues ::
    "M8BusinessConfiguration \<Rightarrow> VehiclePreference list \<Rightarrow> VehicleKind \<Rightarrow> string \<Rightarrow> ConfigurationIssue list" where
  "preference_issues config preferences expected_kind prefix =
     (let classes = map vf_vehicle_class preferences; expected = [LIGHT, GENERAL_CARGO, LARGE_CARGO] in
      concat (map (\<lambda>c. issue_if (c \<notin> set expected) ''INVALID_VEHICLE_CLASS'' (prefix @ '':'' @ VehicleClass_value c)
        ''Vehicle preference class is unknown.'') classes) @
      concat (map (\<lambda>c. issue_if (c \<notin> set classes) ''MISSING_VEHICLE_PREFERENCE'' (prefix @ '':'' @ VehicleClass_value c)
        ''Vehicle preference is required for this class.'') expected) @
      map (\<lambda>v. issue ''DUPLICATE_VEHICLE_PREFERENCE'' (prefix @ '':'' @ v) ''Vehicle class preference occurs more than once.'')
        (duplicates (map VehicleClass_value classes)) @
      concat (map (\<lambda>preference. concat (map
          (preferred_vehicle_issues config expected_kind prefix (vf_vehicle_class preference))
          (vf_vehicle_ids preference))) preferences))"

definition site_visit_issues :: "M8BusinessConfiguration \<Rightarrow> string \<Rightarrow> ConfigurationIssue list" where
  "site_visit_issues config vid =
     (case vehicle_by_id config vid of
        None \<Rightarrow> [issue ''UNKNOWN_PREFERRED_VEHICLE'' (''site-visit:'' @ vid)
          ''Site-visit preference references an unknown vehicle.'']
      | Some v \<Rightarrow> issue_if (vp_kind v \<noteq> COMPANY \<or> LIGHT \<notin> set (vp_capabilities v)) ''INCAPABLE_PREFERRED_VEHICLE''
          (''site-visit:'' @ vid) ''Site-visit vehicle must be a LIGHT-capable company vehicle.'')"

definition vehicle_policy_issues :: "M8BusinessConfiguration \<Rightarrow> ConfigurationIssue list" where
  "vehicle_policy_issues config =
     (let policy = bc_vehicle_policy config in
      preference_issues config (vo_execution_preferences policy) COMPANY ''execution'' @
      preference_issues config (vo_rental_preferences policy) RENTAL ''rental'' @
      issue_if (vo_unavailable_company_fallback_order policy \<noteq> [PRIVATE, RENTAL]) ''INVALID_VEHICLE_FALLBACK_ORDER''
        ''vehicle-policy'' ''Company-unavailable fallback must be assigned private vehicle, then rental.'' @
      concat (map (site_visit_issues config) (vo_site_visit_preference policy)) @
      issue_if (\<not> 0 < vo_rental_daily_net_rate policy) ''INVALID_RENTAL_DAILY_RATE'' ''vehicle-policy''
        ''Rental daily rate must be a positive finite Decimal.'' @
      issue_if (vo_rental_currency policy \<noteq> ''EUR'') ''INVALID_RENTAL_CURRENCY'' ''vehicle-policy''
        ''Frozen rental currency must be EUR.'')"

definition policy_issues :: "M8BusinessConfiguration \<Rightarrow> ConfigurationIssue list" where
  "policy_issues config =
     (let maximum = cp_max_scheduled_hours_per_task_day (bc_chunking_policy config);
          aliases = map ua_unit (bc_unit_aliases config)
      in issue_if (\<not> 0 < maximum \<or> maximum \<noteq> 8) ''INVALID_CHUNKING_LIMIT'' ''chunking-policy''
           ''maxScheduledHoursPerTaskDay must be Decimal 8.00.'' @
         concat (map (\<lambda>unit. issue_if (count_list aliases unit \<noteq> 1) ''INVALID_UNIT_ALIAS'' (UnitType_value unit)
           ''Every UnitType requires exactly one display alias.'') UnitType_members))"

definition issue_key :: "ConfigurationIssue \<Rightarrow> string \<times> string \<times> string" where
  "issue_key i = (ci_code i, ci_affected_id i, ci_explanation i)"

definition validate_m8_configuration :: "M8BusinessConfiguration \<Rightarrow> ConfigurationIssue list result" where
  "validate_m8_configuration config =
     and_then (traverse (profile_issues config) (bc_planning_profiles config)) (\<lambda>of_profiles.
     Inr (sort_key issue_key
       (version_issues config @ sku_issues config @ concat of_profiles @ cycle_issues config @
        label_issues config @ crew_issues config @
        duplicate_issues ''DUPLICATE_VEHICLE_ID'' ''Vehicle stable ID occurs more than once.''
          (map vp_vehicle_id (bc_vehicles config)) @
        concat (map (vehicle_issues config) (bc_vehicles config)) @
        concat (map (binding_issues config) (bc_crew config)) @
        vehicle_policy_issues config @ policy_issues config)))"

text \<open>\<open>assert_valid_m8_configuration\<close> raises the issues, if there are any.\<close>

definition assert_valid_m8_configuration :: "M8BusinessConfiguration \<Rightarrow> (ConfigurationIssue list + unit) result" where
  "assert_valid_m8_configuration config =
     and_then (validate_m8_configuration config) (\<lambda>issues. Inr (if issues \<noteq> [] then Inl issues else Inr ()))"

end
