(* ===== verification/Catalog_Properties.thy ===== *)
theory Catalog_Properties
  imports Catalog_Validation
begin

text \<open>
  Properties of the catalog: the chunks of a job item divide its work exactly, the cycle check of the
  validation is exact, and a configuration without issues supports every look-up of the planner.
\<close>

section \<open>Decimal numerals\<close>

lemma digits_value_zeros [simp]: "digits_value (replicate k (CHR ''0'') @ s) = digits_value s"
  by (induction k) (simp_all add: digits_value_def)

lemma pad3_inj: "0 \<le> m \<Longrightarrow> 0 \<le> n \<Longrightarrow> pad3 m = pad3 n \<Longrightarrow> m = n"
  by (metis digits_value_nat_digits digits_value_zeros int_nat_eq linorder_not_le pad3_def str_int_def)

lemma chunk_id_inj: "0 \<le> m \<Longrightarrow> 0 \<le> n \<Longrightarrow> chunk_id i m = chunk_id i n \<Longrightarrow> m = n"
  by (auto simp: chunk_id_def dest: pad3_inj)

section \<open>Numbering\<close>

lemma number_chunks_values:
  "map ch_quantity (number_chunks i k prev vs) = map fst vs"
  "map ch_estimated_worker_hours (number_chunks i k prev vs) = map snd vs"
  by (induction i k prev vs rule: number_chunks.induct) auto

lemma length_number_chunks [simp]: "length (number_chunks i k prev vs) = length vs"
  by (induction i k prev vs rule: number_chunks.induct) auto

lemma number_chunks_sequence:
  "map ch_sequence (number_chunks i k prev vs) = map (\<lambda>n. k + int n) [0..<length vs]"
proof (induction i k prev vs rule: number_chunks.induct)
  case (2 i k prev q h vs)
  then show ?case by (simp add: upt_conv_Cons map_Suc_upt [symmetric] comp_def del: upt_Suc)
qed simp

lemma number_chunks_id:
  "map ch_chunk_id (number_chunks i k prev vs) = map (chunk_id i) (map ch_sequence (number_chunks i k prev vs))"
  by (induction i k prev vs rule: number_chunks.induct) auto

lemma number_chunks_predecessor:
  "map ch_predecessor_chunk_id (number_chunks i k prev vs) =
     take (length vs) (prev # map (Some \<circ> ch_chunk_id) (number_chunks i k prev vs))"
  by (induction i k prev vs rule: number_chunks.induct) auto

lemma number_chunks_distinct:
  assumes "0 \<le> k" shows "distinct (map ch_chunk_id (number_chunks i k prev vs))"
  unfolding number_chunks_id number_chunks_sequence distinct_map
  using assms by (auto simp: inj_on_def dest: chunk_id_inj [rotated 2])

section \<open>Exact division of the work\<close>

text \<open>Decimals as they occur in a configuration: positive, below a million, at most four places.\<close>

definition short_decimal :: "rat \<Rightarrow> bool" where
  "short_decimal x \<longleftrightarrow> (\<exists>k. x = of_int k / 10 ^ 4 \<and> 0 < k \<and> k < 10 ^ 10)"

lemma short_decimalE:
  assumes "short_decimal x" obtains k where "x = of_int k / 10 ^ 4" "0 < k" "k < 10 ^ 10"
  using assms by (auto simp: short_decimal_def)

text \<open>The rounded quotient has the floor of the exact one when it has few digits.\<close>

lemma floor_dround_quotient:
  fixes a b :: int
  assumes b: "0 < b" "b \<le> 10 ^ n" and a: "0 \<le> a" and bound: "(a div b + 1) * 10 ^ n < 10 ^ 28"
  shows "floor (dround (of_int a / of_int b)) = a div b"
proof (rule floor_unique)
  let ?f = "a div b" and ?r = "of_int a / of_int b :: rat"
  have f: "0 \<le> ?f" using a b(1) by (simp add: pos_imp_zdiv_nonneg_iff)
  have "?f \<le> ?f * 10 ^ n" using f by (simp add: mult_le_cancel_left1)
  moreover have "(0 :: int) < 10 ^ n" by simp
  ultimately have "?f < 10 ^ 28" using bound unfolding distrib_right mult_1 by linarith
  then have "dround (of_int ?f) = of_int ?f" using dround_places [of ?f 0] f by simp
  moreover have "of_int ?f \<le> ?r" using b(1) by (metis floor_divide_of_int_eq of_int_floor_le)
  ultimately show "of_int ?f \<le> dround ?r" using dround_mono by metis
  let ?g = "(?f + 1) * 10 ^ n - 1"
  have "a + 1 \<le> (?f + 1) * b"
    using div_mult_mod_eq [of a b] pos_mod_bound [OF b(1), of a] unfolding distrib_right mult_1 by linarith
  then have "(of_int a + 1 :: rat) \<le> (of_int ?f + 1) * of_int b" by (metis of_int_1 of_int_add of_int_le_iff of_int_mult)
  then have "?r \<le> of_int ?f + 1 - 1 / of_int b" using b(1) by (simp add: field_simps)
  also have "\<dots> \<le> of_int ?f + 1 - 1 / 10 ^ n"
    using b of_int_le_iff [of b "10 ^ n", where 'a = rat] by (simp add: frac_le)
  also have "\<dots> = of_int ?g / 10 ^ n" by (simp add: field_simps)
  finally have "dround ?r \<le> of_int ?g / 10 ^ n"
    using dround_mono [of ?r "of_int ?g / 10 ^ n"] dround_places [of ?g n] bound f by simp
  also have "\<dots> < of_int ?f + 1" by (simp add: field_simps)
  finally show "dround ?r < of_int ?f + 1" .
qed

lemma continuous_values:
  assumes "short_decimal q" "short_decimal per" "short_decimal m" "1 \<le> m"
  shows "sum_list (map snd (continuous_chunk_values q per m)) = q * per"
    and "list_all (\<lambda>v. 0 < snd v \<and> snd v \<le> m) (continuous_chunk_values q per m)"
proof -
  obtain a b c where q: "q = of_int a / 10 ^ 4" "0 < a" "a < 10 ^ 10"
    and per: "per = of_int b / 10 ^ 4" "0 < b" "b < 10 ^ 10"
    and m: "m = of_int c / 10 ^ 4" "0 < c" "c < 10 ^ 10"
    using assms by (elim short_decimalE) simp
  have c: "10 ^ 4 \<le> c" using assms(4) by (simp add: m(1) pos_le_divide_eq)
  let ?A = "a * b" and ?B = "c * 10 ^ 4"
  let ?f = "?A div ?B"
  have A: "0 < ?A" "?A < 10 ^ 10 * 10 ^ 10" using q per mult_strict_mono [of a "10 ^ 10" b "10 ^ 10"] by simp_all
  have B: "0 < ?B" "?B \<le> 10 ^ 14" "10 ^ 8 \<le> ?B" using m c by simp_all
  have f: "0 \<le> ?f" "?f * ?B \<le> ?A"
    using A(1) pos_imp_zdiv_nonneg_iff [OF B(1), of ?A] div_mult_mod_eq [of ?A ?B] pos_mod_sign [OF B(1), of ?A]
    by linarith+
  have "?f * 10 ^ 8 \<le> ?A" using f B(3) mult_left_mono [OF B(3) f(1)] by linarith
  then have f2: "?f \<le> 10 ^ 12" using A(2) by simp
  have t: "q * per = of_int ?A / 10 ^ 8" by (simp add: q per)
  then have total: "dround (q * per) = of_int ?A / 10 ^ 8" unfolding t using dround_places [of ?A 8] A by simp
  have quot: "of_int ?A / 10 ^ 8 / m = of_int ?A / (of_int ?B :: rat)" by (simp add: m(1))
  have bound: "(?f + 1) * 10 ^ 14 < 10 ^ 28" using f2 by simp
  have count: "floor (dround (of_int ?A / 10 ^ 8 / m)) = ?f"
    unfolding quot by (rule floor_dround_quotient [OF B(1,2) less_imp_le [OF A(1)] bound])
  have cf: "0 \<le> c * ?f" "c * ?f < 10 ^ 28" using f A(2) m(2) by (simp, simp add: algebra_simps)
  have mf: "m * of_int ?f = of_int (c * ?f) / 10 ^ 4" by (simp add: m(1))
  have full: "dround (m * of_int ?f) = m * of_int ?f"
    unfolding mf by (rule dround_places) (use cf in linarith)
  have A_eq: "of_int ?A = (of_int ?f * of_int ?B + of_int (?A mod ?B) :: rat)"
    by (metis div_mult_mod_eq of_int_add of_int_mult)
  have rest: "of_int ?A / 10 ^ 8 - m * of_int ?f = of_int (?A mod ?B) / 10 ^ 8"
    by (subst A_eq) (simp add: m(1) add_divide_distrib)
  have mod: "0 \<le> ?A mod ?B" "?A mod ?B < ?B" using B by simp_all
  moreover have "?B < 10 ^ 28" using B(2) by simp
  ultimately have mod3: "?A mod ?B < 10 ^ 28" by linarith
  have rem: "dround (of_int ?A / 10 ^ 8 - m * of_int ?f) = of_int (?A mod ?B) / 10 ^ 8"
    unfolding rest by (rule dround_places) (use mod(1) mod3 in linarith)
  have vs: "map snd (continuous_chunk_values q per m) =
      replicate (nat ?f) m @ (if 0 < ?A mod ?B then [of_int (?A mod ?B) / 10 ^ 8] else [])"
    unfolding continuous_chunk_values_def Let_def total count full rem by simp
  have "sum_list (map snd (continuous_chunk_values q per m)) = of_int ?f * m + of_int (?A mod ?B) / 10 ^ 8"
    unfolding vs using f(1) mod by (simp add: sum_list_replicate)
  also have "\<dots> = q * per" unfolding t rest [symmetric] by (simp add: mult.commute)
  finally show "sum_list (map snd (continuous_chunk_values q per m)) = q * per" .
  have "of_int (?A mod ?B) / 10 ^ 8 \<le> (of_int ?B :: rat) / 10 ^ 8"
    using mod by (intro divide_right_mono) (simp_all only: of_int_le_iff less_imp_le zero_le_power zero_le_numeral)
  then have "of_int (?A mod ?B) / 10 ^ 8 \<le> m" by (simp add: m(1))
  then have "list_all (\<lambda>h. 0 < h \<and> h \<le> m) (map snd (continuous_chunk_values q per m))"
    unfolding vs using m by (auto simp: list_all_iff)
  then show "list_all (\<lambda>v. 0 < snd v \<and> snd v \<le> m) (continuous_chunk_values q per m)"
    by (simp add: list_all_iff)
qed

lemma discrete_values:
  assumes "0 \<le> n" "1 \<le> k" "0 < per" "of_int k * per \<le> m"
    and "\<And>u. 0 \<le> u \<Longrightarrow> u \<le> n \<Longrightarrow> dround (of_int u * per) = of_int u * per"
  shows "sum_list (map fst (discrete_chunk_values per k n)) = of_int n \<and>
    sum_list (map snd (discrete_chunk_values per k n)) = of_int n * per \<and>
    list_all (\<lambda>v. 0 < snd v \<and> snd v \<le> m) (discrete_chunk_values per k n)"
  using assms
proof (induction per k n rule: discrete_chunk_values.induct)
  case (1 per k n)
  show ?case
  proof (cases "0 < n")
    case True
    let ?u = "min k n"
    have u: "0 < ?u" "?u \<le> n" "?u \<le> k" using True 1 by auto
    have rec: "discrete_chunk_values per k n = (of_int ?u, of_int ?u * per) # discrete_chunk_values per k (n - ?u)"
      using True u 1(3) 1(6) [of ?u] by (subst discrete_chunk_values.simps) (simp add: Let_def)
    have "of_int ?u * per \<le> of_int k * per" using u(3) 1(4) by (intro mult_right_mono) simp_all
    then have "of_int ?u * per \<le> m" using 1(5) by linarith
    moreover have "0 < of_int ?u * per" using u(1) 1(4) by (simp add: zero_less_mult_iff)
    ultimately show ?thesis using 1(1) [of ?u] u True 1(3-6) unfolding rec by (simp add: algebra_simps)
  next
    case False
    with 1 show ?thesis by (subst (1 2 3) discrete_chunk_values.simps) simp
  qed
qed

lemma discrete_division:
  assumes "short_decimal q" "short_decimal per" "short_decimal m" and whole: "q = of_int (floor q)"
    and fits: "1 \<le> floor (dround (m / per))"
  shows "sum_list (map fst (discrete_chunk_values per (floor (dround (m / per))) (floor q))) = q \<and>
    sum_list (map snd (discrete_chunk_values per (floor (dround (m / per))) (floor q))) = q * per \<and>
    list_all (\<lambda>v. 0 < snd v \<and> snd v \<le> m) (discrete_chunk_values per (floor (dround (m / per))) (floor q))"
proof -
  obtain a b c where q: "q = of_int a / 10 ^ 4" "0 < a" "a < 10 ^ 10"
    and per: "per = of_int b / 10 ^ 4" "0 < b" "b < 10 ^ 10"
    and m: "m = of_int c / 10 ^ 4" "0 < c" "c < 10 ^ 10"
    using assms(1-3) by (elim short_decimalE) simp
  have quot: "m / per = of_int c / of_int b" by (simp add: m(1) per(1))
  have "c div b \<le> c" using m(2) per(2) zdiv_mono2 [of c 1 b] by simp
  then have k: "floor (dround (m / per)) = c div b"
    unfolding quot using m per by (intro floor_dround_quotient [of b 10]) simp_all
  have "c div b * b \<le> c"
    using div_mult_mod_eq [of c b] pos_mod_sign [OF per(2), of c] by linarith
  then have "(of_int (c div b) :: rat) * of_int b \<le> of_int c" by (metis of_int_le_iff of_int_mult)
  then have fit: "of_int (c div b) * per \<le> m" by (simp add: m(1) per(1) divide_right_mono)
  have n: "0 \<le> floor q" "floor q < 10 ^ 6" using q by (simp_all add: floor_less_iff)
  have exact: "dround (of_int u * per) = of_int u * per" if "0 \<le> u" "u \<le> floor q" for u
  proof -
    have "u \<le> 10 ^ 6" using that n by linarith
    then have "u * b \<le> 10 ^ 6 * 10 ^ 10" using that(1) per by (intro mult_mono) simp_all
    then have "\<bar>u * b\<bar> < 10 ^ 28" using that per by simp
    then show ?thesis using dround_places [of "u * b" 4] by (simp add: per(1))
  qed
  have "0 < per" using per by simp
  then show ?thesis
    using discrete_values [OF n(1) _ _ fit exact] fits whole unfolding k by simp
qed

text \<open>What \<open>generate_job_item_chunks\<close> returns, from the values its branches compute.\<close>

lemma chunk_values_divide:
  assumes "chunk_values unit q per m = Inr vs"
    and "short_decimal q" "short_decimal per" "short_decimal m" "1 \<le> m"
  shows "sum_list (map snd vs) = q * per" "list_all (\<lambda>v. 0 < snd v \<and> snd v \<le> m) vs"
    "unit \<in> {PIECE, ROOM} \<Longrightarrow> sum_list (map fst vs) = q"
  using assms continuous_values [OF assms(2-5)] discrete_division [OF assms(2-4)]
  by (auto simp: chunk_values_def Let_def split: if_splits)

text \<open>
  C34. Chunking divides the work exactly. For a quantity, a norm and a daily maximum that are positive, below a
  million and have at most four decimal places, and a maximum of at least one hour, the hours of the chunks of a job item sum to quantity times norm without any
  rounding loss, every chunk has positive hours within the daily maximum, and the quantities of
  PIECE and ROOM items sum to the quantity. The chunks are numbered from 1, their identifiers are
  distinct, and each names the chunk before it as its predecessor.
\<close>

theorem chunks_divide_the_work:
  assumes "generate_job_item_chunks i q p policy = Inr chunks"
    and "short_decimal q" "short_decimal (pp_norm_worker_hours_per_unit p)"
    and "short_decimal (cp_max_scheduled_hours_per_task_day policy)" "1 \<le> cp_max_scheduled_hours_per_task_day policy"
  shows "sum_list (map ch_estimated_worker_hours chunks) = q * pp_norm_worker_hours_per_unit p \<and>
    list_all (\<lambda>c. 0 < ch_estimated_worker_hours c \<and>
      ch_estimated_worker_hours c \<le> cp_max_scheduled_hours_per_task_day policy) chunks \<and>
    (pp_unit p \<in> {PIECE, ROOM} \<longrightarrow> sum_list (map ch_quantity chunks) = q) \<and>
    map ch_sequence chunks = map (\<lambda>n. 1 + int n) [0..<length chunks] \<and>
    distinct (map ch_chunk_id chunks) \<and>
    map ch_predecessor_chunk_id chunks = take (length chunks) (None # map (Some \<circ> ch_chunk_id) chunks)"
proof -
  let ?m = "cp_max_scheduled_hours_per_task_day policy" and ?per = "pp_norm_worker_hours_per_unit p"
  obtain vs where vs: "chunk_values (pp_unit p) q ?per ?m = Inr vs" and chunks: "chunks = number_chunks i 1 None vs"
    using assms(1) by (auto simp: generate_job_item_chunks_def positive_decimal_def)
  note divided = chunk_values_divide [OF vs assms(2-5)]
  have "list_all (\<lambda>h. 0 < h \<and> h \<le> ?m) (map ch_estimated_worker_hours chunks)"
    unfolding chunks number_chunks_values using divided(2) by (simp add: list_all_iff)
  then have "list_all (\<lambda>c. 0 < ch_estimated_worker_hours c \<and> ch_estimated_worker_hours c \<le> ?m) chunks"
    by (simp add: list_all_iff)
  with divided show ?thesis unfolding chunks
    by (simp add: number_chunks_values number_chunks_sequence number_chunks_distinct number_chunks_predecessor)
qed

section \<open>The cycle check\<close>

definition edges :: "(string \<times> string list) list \<Rightarrow> (string \<times> string) set" where
  "edges graph = {(a, b). b \<in> set (children graph a)}"

text \<open>The nodes from which no infinite path starts.\<close>

abbreviation safe_nodes :: "(string \<times> string list) list \<Rightarrow> string set" where
  "safe_nodes graph \<equiv> Wellfounded.acc ((edges graph)\<inverse>)"

lemma safe_nodeI: "set (children graph a) \<subseteq> safe_nodes graph \<Longrightarrow> a \<in> safe_nodes graph"
  by (rule accI) (auto simp: edges_def)

text \<open>What the search guarantees when it goes from \<open>st\<close> to \<open>st'\<close> without a report.\<close>

definition search_ok :: "(string \<times> string list) list \<Rightarrow> string set \<Rightarrow> cycle_search \<Rightarrow> cycle_search \<Rightarrow> bool" where
  "search_ok graph goals st st' \<longleftrightarrow>
     (cs_reported st' = [] \<longrightarrow> cs_reported st = [] \<and>
       set (cs_visited st) \<subseteq> set (cs_visited st') \<and> goals \<subseteq> set (cs_visited st') \<and>
       (set (cs_visited st) \<subseteq> safe_nodes graph \<longrightarrow> set (cs_visited st') \<subseteq> safe_nodes graph))"

lemma report_cycle_reported [simp]: "cs_reported (report_cycle cycle st) \<noteq> []"
  by (auto simp: report_cycle_def Let_def)

lemma search_complete:
  "search_ok graph {sku} st (visit graph visiting sku st)"
  "search_ok graph (set skus) st (visit_all graph visiting skus st)"
proof (induction graph visiting sku st and graph visiting skus st rule: visit_visit_all.induct)
  case (1 graph visiting sku st)
  show ?case
  proof (cases "sku \<in> set visiting \<or> sku \<in> set (cs_visited st)")
    case True
    then show ?thesis by (auto simp: visit_code search_ok_def)
  next
    case False
    let ?st' = "visit_all graph (visiting @ [sku]) (children graph sku) st"
    have ok: "search_ok graph (set (children graph sku)) st ?st'"
      using 1 False by (cases "children graph sku = []") (simp_all add: search_ok_def)
    then have "set (cs_visited st) \<subseteq> safe_nodes graph \<Longrightarrow> cs_reported ?st' = [] \<Longrightarrow> sku \<in> safe_nodes graph"
      by (intro safe_nodeI) (auto simp: search_ok_def)
    with ok False show ?thesis by (auto simp: visit_code search_ok_def Let_def)
  qed
next
  case (3 graph visiting sku skus st)
  then show ?case by (auto simp: search_ok_def)
qed (simp add: search_ok_def)

text \<open>The path kept in \<open>visiting\<close> makes every report a cycle.\<close>

lemma search_sound:
  "(\<And>v. v \<in> set visiting \<Longrightarrow> (v, sku) \<in> (edges graph)\<^sup>+) \<Longrightarrow>
     acyclic (edges graph) \<Longrightarrow> cs_issues (visit graph visiting sku st) = cs_issues st"
  "(\<And>v s. v \<in> set visiting \<Longrightarrow> s \<in> set skus \<Longrightarrow> (v, s) \<in> (edges graph)\<^sup>+) \<Longrightarrow>
     acyclic (edges graph) \<Longrightarrow> cs_issues (visit_all graph visiting skus st) = cs_issues st"
proof (induction graph visiting sku st and graph visiting skus st rule: visit_visit_all.induct)
  case (1 graph visiting sku st)
  have not_on_path: "sku \<notin> set visiting" using 1(2,3) by (auto simp: acyclic_def)
  have step: "(sku, s) \<in> edges graph" if "s \<in> set (children graph sku)" for s
    using that by (simp add: edges_def)
  have path: "(v, s) \<in> (edges graph)\<^sup>+" if "v \<in> set (visiting @ [sku])" "s \<in> set (children graph sku)" for v s
    using that 1(2) [of v] step [of s] by (auto intro: trancl_into_trancl)
  show ?case
    using 1(1) [OF not_on_path _ _ path 1(3)] not_on_path
    by (cases "children graph sku = []") (auto simp: visit_code Let_def)
qed auto

lemma issues_reported:
  "cs_issues st = [] \<longleftrightarrow> cs_reported st = [] \<Longrightarrow> cs_issues (visit graph visiting sku st) = [] \<longleftrightarrow> cs_reported (visit graph visiting sku st) = []"
  "cs_issues st = [] \<longleftrightarrow> cs_reported st = [] \<Longrightarrow> cs_issues (visit_all graph visiting skus st) = [] \<longleftrightarrow> cs_reported (visit_all graph visiting skus st) = []"
proof (induction graph visiting sku st and graph visiting skus st rule: visit_visit_all.induct)
  case (1 graph visiting sku st)
  then show ?case
    by (cases "children graph sku = []") (auto simp: visit_code Let_def report_cycle_def)
qed auto

lemma safe_keys_acyclic:
  assumes "fst ` set graph \<subseteq> safe_nodes graph"
  shows "acyclic (edges graph)"
proof -
  have "a \<in> safe_nodes graph" for a
    using assms children_key [of graph a] safe_nodeI [of graph a] by (cases "children graph a = []") auto
  then have "wf ((edges graph)\<inverse>)" by (auto intro: acc_wfI)
  then show ?thesis by (metis acyclic_converse wf_acyclic)
qed

lemma cycle_issues_exact:
  "cycle_issues config \<noteq> [] \<longleftrightarrow> \<not> acyclic (edges (predecessor_graph config))"
proof -
  let ?g = "predecessor_graph config" and ?st = "\<lparr>cs_visited = [], cs_reported = [], cs_issues = []\<rparr>"
  let ?skus = "sorted_set (map fst ?g)"
  have issues: "cycle_issues config = cs_issues (visit_all ?g [] ?skus ?st)"
    by (simp add: cycle_issues_def Let_def)
  show ?thesis
  proof (cases "cycle_issues config = []")
    case True
    then have "cs_reported (visit_all ?g [] ?skus ?st) = []"
      using issues issues_reported(2) [of ?st] by simp
    then have "fst ` set ?g \<subseteq> safe_nodes ?g"
      using search_complete(2) [of ?g ?skus ?st "[]"] by (auto simp: search_ok_def)
    with True show ?thesis by (simp add: safe_keys_acyclic)
  next
    case False
    with issues search_sound(2) [of "[]" ?skus ?g ?st] show ?thesis by auto
  qed
qed

section \<open>Valid configurations\<close>

lemma issue_if_Nil [simp]: "issue_if c a b e = [] \<longleftrightarrow> \<not> c"
  by (simp add: issue_if_def)

lemma distinct_counts: "distinct vs \<longleftrightarrow> (\<forall>v\<in>set vs. count_list vs v \<le> 1)"
proof (induction vs)
  case (Cons x vs)
  have "count_list vs v \<le> count_list (x # vs) v" for v by simp
  then have "(\<forall>v\<in>set (x # vs). count_list (x # vs) v \<le> 1) \<longleftrightarrow>
      x \<notin> set vs \<and> (\<forall>v\<in>set vs. count_list vs v \<le> 1)"
    by (auto simp: count_list_0_iff)
  with Cons show ?case by simp
qed simp

lemma duplicates_Nil [simp]: "duplicates vs = [] \<longleftrightarrow> distinct vs"
  by (auto simp: duplicates_def filter_empty_conv distinct_counts not_less)

lemma duplicate_issues_Nil [simp]: "duplicate_issues c e vs = [] \<longleftrightarrow> distinct vs"
  by (simp add: duplicate_issues_def)

lemma sorted_difference_Nil [simp]: "sorted_difference a b = [] \<longleftrightarrow> set a \<subseteq> set b"
  by (auto simp: sorted_difference_def filter_empty_conv)

lemma coverage_issues_Nil [simp]: "coverage_issues n skus = [] \<longleftrightarrow> set skus = set EXPECTED_SKUS"
  by (auto simp: coverage_issues_def)

lemma sort_key_Nil_iff [simp]: "sort_key k xs = [] \<longleftrightarrow> xs = []"
  by (metis set_empty set_sort)

lemma the_only_distinct:
  assumes "distinct (map key xs)" "x \<in> set xs"
  shows "the_only e (filter (\<lambda>y. key y = key x) xs) = Inr x"
proof -
  have "filter (\<lambda>y. key y = key x) xs = [x]" using assms
    by (induction xs) (auto simp: filter_empty_conv intro: rev_image_eqI)
  then show ?thesis by simp
qed

lemmas look_ups = profile_def catalog_item_def label_def

text \<open>Only the cycle search makes issues with its code.\<close>

lemma issue_code [simp]: "ci_code (issue c a e) = c"
  by (simp add: issue_def)

lemma set_issue_if [simp]: "i \<in> set (issue_if b c a e) \<longleftrightarrow> b \<and> i = issue c a e"
  by (auto simp: issue_if_def)

abbreviation no_cycle_code :: "ConfigurationIssue list \<Rightarrow> bool" where
  "no_cycle_code is \<equiv> (\<forall>i\<in>set is. ci_code i \<noteq> ''PREDECESSOR_CYCLE'')"

lemma other_codes:
  "no_cycle_code (version_issues c)" "no_cycle_code (sku_issues c)" "no_cycle_code (label_issues c)"
  "no_cycle_code (crew_issues c)" "no_cycle_code (vehicle_issues c v)" "no_cycle_code (binding_issues c w)"
  "no_cycle_code (policy_issues c)"
  "profile_issues c p = Inr is \<Longrightarrow> no_cycle_code is"
  by (auto simp: version_issues_def sku_issues_def Let_def duplicate_issues_def coverage_issues_def
    label_issues_def crew_issues_def worker_issues_def vehicle_issues_def binding_issues_def
    policy_issues_def profile_issues_def capacity_issues_def split: option.splits if_splits)

lemma other_codes_vehicles: "no_cycle_code (vehicle_policy_issues c)"
  by (auto simp: vehicle_policy_issues_def preference_issues_def site_visit_issues_def preferred_vehicle_issues_def
    Let_def split: option.splits if_splits)

lemma cycle_codes:
  "(\<forall>i\<in>set (cs_issues st). ci_code i = ''PREDECESSOR_CYCLE'') \<Longrightarrow>
     \<forall>i\<in>set (cs_issues (visit graph visiting sku st)). ci_code i = ''PREDECESSOR_CYCLE''"
  "(\<forall>i\<in>set (cs_issues st). ci_code i = ''PREDECESSOR_CYCLE'') \<Longrightarrow>
     \<forall>i\<in>set (cs_issues (visit_all graph visiting skus st)). ci_code i = ''PREDECESSOR_CYCLE''"
proof (induction graph visiting sku st and graph visiting skus st rule: visit_visit_all.induct)
  case (1 graph visiting sku st)
  then show ?case
    by (cases "children graph sku = []") (simp_all add: visit_code Let_def report_cycle_def)
qed simp_all

lemma cycle_issues_codes: "\<forall>i\<in>set (cycle_issues c). ci_code i = ''PREDECESSOR_CYCLE''"
  unfolding cycle_issues_def Let_def by (rule cycle_codes(2)) simp

lemma traverse_mem: "traverse f xs = Inr ys \<Longrightarrow> y \<in> set ys \<Longrightarrow> \<exists>x\<in>set xs. f x = Inr y"
  by (induction xs arbitrary: ys) auto

lemma only_code:
  assumes "\<forall>x\<in>xs. f x \<noteq> k" "\<forall>x\<in>zs. f x \<noteq> k" and "ws = xs \<union> ys \<union> zs"
  shows "k \<in> f ` ws \<longleftrightarrow> k \<in> f ` ys"
  using assms by blast

lemma validation_cycle_codes:
  assumes "validate_m8_configuration config = Inr issues"
  shows "''PREDECESSOR_CYCLE'' \<in> ci_code ` set issues \<longleftrightarrow> cycle_issues config \<noteq> []"
proof -
  obtain rs where rs: "traverse (profile_issues config) (bc_planning_profiles config) = Inr rs"
    using assms by (auto simp: validate_m8_configuration_def)
  with assms have issues: "issues = sort_key issue_key
       (version_issues config @ sku_issues config @ concat rs @ cycle_issues config @
        label_issues config @ crew_issues config @
        duplicate_issues ''DUPLICATE_VEHICLE_ID'' ''Vehicle stable ID occurs more than once.''
          (map vp_vehicle_id (bc_vehicles config)) @
        concat (map (vehicle_issues config) (bc_vehicles config)) @
        concat (map (binding_issues config) (bc_crew config)) @
        vehicle_policy_issues config @ policy_issues config)"
    by (simp add: validate_m8_configuration_def)
  have of_rs: "no_cycle_code (concat rs)"
    using traverse_mem [OF rs] other_codes(8) by (simp only: set_concat) blast
  have of_lists: "no_cycle_code (concat (map (vehicle_issues config) (bc_vehicles config)))"
    "no_cycle_code (concat (map (binding_issues config) (bc_crew config)))"
    "no_cycle_code (duplicate_issues ''DUPLICATE_VEHICLE_ID'' e vs)" for e vs
    using other_codes(5,6) by (auto simp: duplicate_issues_def)
  let ?pre = "version_issues config @ sku_issues config @ concat rs"
  let ?post = "label_issues config @ crew_issues config @
      duplicate_issues ''DUPLICATE_VEHICLE_ID'' ''Vehicle stable ID occurs more than once.''
        (map vp_vehicle_id (bc_vehicles config)) @
      concat (map (vehicle_issues config) (bc_vehicles config)) @
      concat (map (binding_issues config) (bc_crew config)) @
      vehicle_policy_issues config @ policy_issues config"
  have none: "no_cycle_code ?pre" "no_cycle_code ?post"
    unfolding set_append ball_Un by (intro conjI other_codes(1-4,7) other_codes_vehicles of_rs of_lists)+
  have set: "set issues = set ?pre \<union> set (cycle_issues config) \<union> set ?post"
    unfolding issues set_sort set_append by (simp only: Un_assoc)
  have "''PREDECESSOR_CYCLE'' \<in> ci_code ` set (cycle_issues config) \<longleftrightarrow> cycle_issues config \<noteq> []"
    using cycle_issues_codes [of config] by (cases "cycle_issues config") auto
  with only_code [OF none set] show ?thesis by simp
qed

text \<open>
  C35. The predecessor check is exact: a validated configuration has a PREDECESSOR_CYCLE issue if and
  only if the predecessor graph over the expected SKUs has a cycle.
\<close>

theorem cycle_check_exact:
  assumes "validate_m8_configuration config = Inr issues"
  shows "''PREDECESSOR_CYCLE'' \<in> ci_code ` set issues \<longleftrightarrow> \<not> acyclic (edges (predecessor_graph config))"
  by (simp add: validation_cycle_codes [OF assms] cycle_issues_exact)

text \<open>What the absence of issues says, group by group.\<close>

lemma valid_groups:
  assumes "validate_m8_configuration config = Inr []"
  shows "sku_issues config = []" "cycle_issues config = []" "label_issues config = []" "crew_issues config = []"
    "policy_issues config = []" "\<And>p. p \<in> set (bc_planning_profiles config) \<Longrightarrow> profile_issues config p = Inr []"
proof -
  obtain of_profiles where profiles: "list_all2 (\<lambda>p r. profile_issues config p = Inr r) (bc_planning_profiles config) of_profiles"
    and none: "concat of_profiles = []" and rest: "sku_issues config = []" "cycle_issues config = []"
      "label_issues config = []" "crew_issues config = []" "policy_issues config = []"
    using assms by (auto simp: validate_m8_configuration_def traverse_Inr_iff simp del: concat_eq_Nil_conv)
  show "sku_issues config = []" "cycle_issues config = []" "label_issues config = []" "crew_issues config = []"
    "policy_issues config = []" by (fact rest)+
  show "profile_issues config p = Inr []" if "p \<in> set (bc_planning_profiles config)" for p
    using profiles none that by (fastforce simp: list_all2_conv_all_nth in_set_conv_nth)
qed

text \<open>
  C36. A configuration without issues supports planning: for every expected SKU the profile, the
  catalog item and the label are found, with one unit and texts in both languages; every crew member
  has an answer to the exact-skill question; every quantity (whole, for PIECE and ROOM) is divided
  into chunks; and the predecessor graph is acyclic. None of these raises.
\<close>

theorem valid_configuration_supports_planning:
  assumes valid: "validate_m8_configuration config = Inr []" and sku: "sku \<in> set EXPECTED_SKUS"
  shows "acyclic (edges (predecessor_graph config)) \<and>
    returns (profile config sku) (\<lambda>p.
      returns (catalog_item config sku) (\<lambda>item. sc_unit item = pp_unit p) \<and>
      returns (label config sku) (\<lambda>l. strip (cl_english l) \<noteq> [] \<and> strip (cl_german l) \<noteq> []) \<and>
      list_all (\<lambda>w. returns (is_worker_schedulable w p) (\<lambda>_. True)) (bc_crew config) \<and>
      (\<forall>i q. strip i \<noteq> [] \<longrightarrow> 0 < q \<longrightarrow> (pp_unit p \<in> {PIECE, ROOM} \<longrightarrow> q = of_int (floor q)) \<longrightarrow>
         returns (generate_job_item_chunks i q p (bc_chunking_policy config)) (\<lambda>_. True)))"
proof -
  note groups = valid_groups [OF valid]
  have skus: "distinct (map sc_sku (bc_service_catalog config))" "sc_sku ` set (bc_service_catalog config) = set EXPECTED_SKUS"
    "distinct (map pp_sku (bc_planning_profiles config))" "pp_sku ` set (bc_planning_profiles config) = set EXPECTED_SKUS"
    "distinct (map cl_sku (bc_labels config))" "cl_sku ` set (bc_labels config) = set EXPECTED_SKUS"
    using groups(1) by (auto simp: sku_issues_def Let_def)
  obtain p where p: "p \<in> set (bc_planning_profiles config)" "pp_sku p = sku" using sku skus(4) by (metis imageE)
  obtain item where item: "item \<in> set (bc_service_catalog config)" "sc_sku item = sku" using sku skus(2) by (metis imageE)
  obtain l where l: "l \<in> set (bc_labels config)" "cl_sku l = sku" using sku skus(6) by (metis imageE)
  have found: "profile config sku = Inr p" "catalog_item config sku = Inr item" "label config sku = Inr l"
    using the_only_distinct [OF skus(3) p(1)] the_only_distinct [OF skus(1) item(1)] the_only_distinct [OF skus(5) l(1)] p item l
    by (simp_all add: look_ups)
  have "dict_by sc_sku (bc_service_catalog config) sku = Some item"
    using skus(1) item by (simp add: dict_by_distinct lookup_by_distinct_iff)
  with groups(6) [OF p(1)] p(2) have of_p: "pp_unit p = sc_unit item" "0 < pp_norm_worker_hours_per_unit p"
      "pp_required_skill_key p = sku" "capacity_issues config p = Inr []"
    by (auto simp: profile_issues_def)
  have texts: "strip (cl_english l) \<noteq> [] \<and> strip (cl_german l) \<noteq> []"
    using groups(3) l(1) by (auto simp: label_issues_def)
  have "returns (is_worker_schedulable w p) (\<lambda>_. True)" if w: "w \<in> set (bc_crew config)" for w
  proof -
    have ws: "distinct (map sr_sku (cm_skills w))" "set EXPECTED_SKUS \<subseteq> sr_sku ` set (cm_skills w)"
      using groups(4) w by (auto simp: crew_issues_def worker_issues_def Let_def)
    then obtain s where "s \<in> set (cm_skills w)" "sr_sku s = sku" using sku by (metis imageE subsetD)
    then have "filter (\<lambda>y. sr_sku y = sku) (cm_skills w) = [s]"
      using the_only_distinct [OF ws(1), of s KeyError] by (auto elim: the_only.elims)
    then show ?thesis by (simp add: is_worker_schedulable_def exact_skill_level_def of_p(3))
  qed
  moreover have "returns (generate_job_item_chunks i q p (bc_chunking_policy config)) (\<lambda>_. True)"
    if "strip i \<noteq> []" "0 < q" "pp_unit p \<in> {PIECE, ROOM} \<longrightarrow> q = of_int (floor q)" for i q
  proof -
    have m: "cp_max_scheduled_hours_per_task_day (bc_chunking_policy config) = 8"
      using groups(5) by (simp add: policy_issues_def Let_def)
    have "1 \<le> floor (dround (8 / pp_norm_worker_hours_per_unit p))" if "pp_unit p \<in> {PIECE, ROOM}"
    proof -
      have "1 \<le> 8 / pp_norm_worker_hours_per_unit p"
        using of_p(2,4) that m by (auto simp: capacity_issues_def dfloordiv_def Let_def split: if_splits)
      then show ?thesis using dround_mono [of 1] dround_places [of 1 0] by simp
    qed
    with that of_p(2) m show ?thesis
      by (cases "pp_unit p") (simp_all add: generate_job_item_chunks_def positive_decimal_def chunk_values_def Let_def)
  qed
  ultimately show ?thesis
    using found texts of_p(1) groups(2) cycle_issues_exact [of config] by (simp add: list_all_iff)
qed

section \<open>A configuration\<close>

definition example_profile :: "string \<Rightarrow> SkuPlanningProfile" where
  "example_profile sku =
     \<lparr>pp_sku = sku, pp_unit = (if sku = ''white.toilet'' then PIECE else SQUARE_METER),
      pp_norm_worker_hours_per_unit = 13 / 10, pp_required_skill_key = sku, pp_min_skill_level = 2,
      pp_vehicle_class = LIGHT, pp_site_verification_required = False,
      pp_predecessor_if_present = (if sku = ''painting.coat2'' then [''painting.coat1''] else [])\<rparr>"

definition example_configuration :: M8BusinessConfiguration where
  "example_configuration =
     \<lparr>bc_service_catalog_version = ''c1'', bc_sku_planning_profile_version = ''p1'', bc_skill_matrix_version = ''s1'',
      bc_vehicle_policy_version = ''v1'', bc_i18n_catalog_version = ''i1'',
      bc_data_classification = DATA_CLASSIFICATION_DEMO,
      bc_service_catalog = map (\<lambda>sku. \<lparr>sc_sku = sku, sc_unit = pp_unit (example_profile sku)\<rparr>) EXPECTED_SKUS,
      bc_planning_profiles = map example_profile EXPECTED_SKUS,
      bc_crew = [\<lparr>cm_worker_id = ''w1'', cm_name = ''Adam'', cm_role = WORKER, cm_license_b = True,
        cm_private_vehicle_id = Some ''p1'', cm_saturday = False, cm_overnight = False, cm_owner_last_resort = False,
        cm_skills = map (\<lambda>sku. \<lparr>sr_sku = sku, sr_level = 3\<rparr>) EXPECTED_SKUS\<rparr>],
      bc_vehicles =
        [\<lparr>vp_vehicle_id = ''van'', vp_name = ''Van'', vp_kind = COMPANY, vp_capabilities = [LIGHT, GENERAL_CARGO, LARGE_CARGO],
          vp_plate = None, vp_seats = Some 3, vp_cargo_approx_cubic_meters = None, vp_assigned_worker_id = None,
          vp_data_classification = DATA_CLASSIFICATION_DEMO\<rparr>,
         \<lparr>vp_vehicle_id = ''p1'', vp_name = ''Car'', vp_kind = PRIVATE, vp_capabilities = [LIGHT],
          vp_plate = None, vp_seats = None, vp_cargo_approx_cubic_meters = None, vp_assigned_worker_id = Some ''w1'',
          vp_data_classification = DATA_CLASSIFICATION_DEMO\<rparr>,
         \<lparr>vp_vehicle_id = ''rent'', vp_name = ''Rental'', vp_kind = RENTAL, vp_capabilities = [LIGHT, GENERAL_CARGO, LARGE_CARGO],
          vp_plate = None, vp_seats = None, vp_cargo_approx_cubic_meters = None, vp_assigned_worker_id = None,
          vp_data_classification = DATA_CLASSIFICATION_DEMO\<rparr>],
      bc_vehicle_policy =
        \<lparr>vo_execution_preferences = map (\<lambda>c. \<lparr>vf_vehicle_class = c, vf_vehicle_ids = [''van'']\<rparr>) [LIGHT, GENERAL_CARGO, LARGE_CARGO],
         vo_site_visit_preference = [''van''], vo_unavailable_company_fallback_order = [PRIVATE, RENTAL],
         vo_rental_preferences = map (\<lambda>c. \<lparr>vf_vehicle_class = c, vf_vehicle_ids = [''rent'']\<rparr>) [LIGHT, GENERAL_CARGO, LARGE_CARGO],
         vo_rental_daily_net_rate = 50, vo_rental_currency = ''EUR''\<rparr>,
      bc_labels = map (\<lambda>sku. \<lparr>cl_sku = sku, cl_english = sku, cl_german = sku\<rparr>) EXPECTED_SKUS,
      bc_unit_aliases = map (\<lambda>u. \<lparr>ua_unit = u, ua_short_label = ''u'', ua_english_label = ''u''\<rparr>) UnitType_members,
      bc_chunking_policy = \<lparr>cp_max_scheduled_hours_per_task_day = 8\<rparr>,
      bc_plaster_skim_limitation_en = ''skim'', bc_plaster_skim_limitation_de = ''skim''\<rparr>"

lemma example_configuration_valid: "validate_m8_configuration example_configuration = Inr []"
  by code_simp

lemma example_expected: "''white.toilet'' \<in> set EXPECTED_SKUS"
  by code_simp

theorem valid_configuration_supports_planning_witness:
  "acyclic (edges (predecessor_graph example_configuration)) \<and>
   returns (profile example_configuration ''white.toilet'') (\<lambda>p.
     returns (generate_job_item_chunks ''i1'' 14 p (bc_chunking_policy example_configuration)) (\<lambda>_. True))"
proof -
  have "strip ''i1'' \<noteq> []" by code_simp
  then show ?thesis
    using valid_configuration_supports_planning [OF example_configuration_valid example_expected]
    by (auto simp: returns_iff)
qed

text \<open>The same configuration with a cycle through both coats.\<close>

definition cyclic_configuration :: M8BusinessConfiguration where
  "cyclic_configuration = example_configuration
     \<lparr>bc_planning_profiles := map (\<lambda>p. if pp_sku p = ''painting.coat1''
        then p\<lparr>pp_predecessor_if_present := [''painting.coat2'']\<rparr> else p) (bc_planning_profiles example_configuration)\<rparr>"

lemma cyclic_configuration_issues:
  "validate_m8_configuration cyclic_configuration =
     Inr [issue ''PREDECESSOR_CYCLE'' ''painting.coat1 -> painting.coat2 -> painting.coat1''
       ''predecessorIfPresent graph must be acyclic.'']"
  by code_simp

theorem cycle_check_exact_witness:
  "\<not> acyclic (edges (predecessor_graph cyclic_configuration))"
  using cycle_check_exact [OF cyclic_configuration_issues] by simp

theorem chunks_divide_the_work_witness:
  "returns (generate_job_item_chunks ''i1'' 14 (example_profile ''white.toilet'') (bc_chunking_policy example_configuration))
     (\<lambda>chunks. length chunks = 3 \<and> sum_list (map ch_estimated_worker_hours chunks) = 182 / 10 \<and> distinct (map ch_chunk_id chunks))"
proof -
  have run: "returns (generate_job_item_chunks ''i1'' 14 (example_profile ''white.toilet'') (bc_chunking_policy example_configuration))
     (\<lambda>chunks. length chunks = 3)"
    by code_simp
  then obtain chunks where chunks: "length chunks = 3"
    "generate_job_item_chunks ''i1'' 14 (example_profile ''white.toilet'') (bc_chunking_policy example_configuration) = Inr chunks"
    by (auto simp: returns_iff)
  have short: "short_decimal 14" "short_decimal (13 / 10)" "short_decimal 8"
    unfolding short_decimal_def by (rule exI [of _ 140000], simp) (rule exI [of _ 13000], simp, rule exI [of _ 80000], simp)
  show ?thesis
    using chunks chunks_divide_the_work [OF chunks(2)] short
    by (simp add: example_profile_def example_configuration_def)
qed

end
