(* ===== verification/Json_Values.thy ===== *)
theory Json_Values
  imports Decimals
begin

text \<open>
  JSON values as the code builds them for fingerprints and payloads, and the texts of the scalars it
  writes into them. Turning a value into bytes (\<open>json.dumps\<close>) and hashing it is left to the users of
  this theory, who take it as a parameter.
\<close>

datatype json =
    JNull
  | JBool bool
  | JInt int
  | JString string
  | JList "json list"
  | JObject "(string \<times> json) list"

definition json_option :: "('a \<Rightarrow> json) \<Rightarrow> 'a option \<Rightarrow> json" where
  "json_option f x = (case x of None \<Rightarrow> JNull | Some v \<Rightarrow> f v)"

definition json_list :: "('a \<Rightarrow> json) \<Rightarrow> 'a list \<Rightarrow> json" where
  "json_list f xs = JList (map f xs)"

text \<open>
  The text of a finite Decimal: \<open>normalize\<close> rounds it to the context and drops the trailing zeros, the
  format \<open>f\<close> writes it without an exponent. The least number of places that makes the value whole is
  at most the one of the 28th digit.
\<close>

definition decimal_places :: "rat \<Rightarrow> nat" where
  "decimal_places y =
     (if y = 0 then 0
      else case find (\<lambda>n. y * 10 ^ n = of_int (floor (y * 10 ^ n))) [0..<Suc (nat (27 - adjusted y))] of
          Some n \<Rightarrow> n | None \<Rightarrow> 0)"

definition pad_left :: "nat \<Rightarrow> string \<Rightarrow> string" where
  "pad_left n s = replicate (n - length s) (CHR ''0'') @ s"

definition decimal_text :: "rat \<Rightarrow> string" where
  "decimal_text x =
     (let y = dround x; n = decimal_places y; c = nat (floor (\<bar>y\<bar> * 10 ^ n))
      in (if y < 0 then ''-'' else []) @ nat_digits (c div 10 ^ n) @
         (if n = 0 then [] else ''.'' @ pad_left n (nat_digits (c mod 10 ^ n))))"

end
