(* ===== verification/Pricing_Model.thy ===== *)
theory Pricing_Model
  imports Json_Values
begin

text \<open>
  pricing/models.py, pricing/tax.py and the plan values of domain/models.py that pricing reads. An
  amount is the value of a finite Decimal; \<open>money_scale\<close> keeps its exponent, which \<open>quantize\<close> uses.
  Texts shown to the user are written without Polish diacritics, dashes as \<open>-\<close>.
\<close>

section \<open>Plans\<close>

record ScheduledTask =
  st_work_item_id :: string
  st_work_item_name :: string
  st_employee_id :: string
  st_start_at :: py_datetime
  st_end_at :: py_datetime
  st_vehicle_id :: "string option"

record PlanVariant =
  pv_id :: string
  pv_job_request_id :: string
  pv_label :: string
  pv_start_at :: py_datetime
  pv_end_at :: py_datetime
  pv_assignments :: "ScheduledTask list"
  pv_employee_ids :: "string list"
  pv_vehicle_ids :: "string list"
  pv_rationale :: string
  pv_limitations :: "string list"

section \<open>Inputs\<close>

datatype CostCategory =
  LABOR | VEHICLE_TRAVEL | DELIVERY | MATERIAL | TOOL_RENTAL | DISPOSAL | SUBCONTRACTOR | PARKING_TOLL

fun CostCategory_value :: "CostCategory \<Rightarrow> string" where
  "CostCategory_value LABOR = ''LABOR''"
| "CostCategory_value VEHICLE_TRAVEL = ''VEHICLE_TRAVEL''"
| "CostCategory_value DELIVERY = ''DELIVERY''"
| "CostCategory_value MATERIAL = ''MATERIAL''"
| "CostCategory_value TOOL_RENTAL = ''TOOL_RENTAL''"
| "CostCategory_value DISPOSAL = ''DISPOSAL''"
| "CostCategory_value SUBCONTRACTOR = ''SUBCONTRACTOR''"
| "CostCategory_value PARKING_TOLL = ''PARKING_TOLL''"

definition CostCategory_members :: "CostCategory list" where
  "CostCategory_members =
     [LABOR, VEHICLE_TRAVEL, DELIVERY, MATERIAL, TOOL_RENTAL, DISPOSAL, SUBCONTRACTOR, PARKING_TOLL]"

datatype PricingStatus = COMPLETE | INCOMPLETE | REVIEW_REQUIRED

datatype TaxTreatment = STANDARD_19 | MANUAL_REVIEW | REVERSE_CHARGE_13B

fun TaxTreatment_value :: "TaxTreatment \<Rightarrow> string" where
  "TaxTreatment_value STANDARD_19 = ''STANDARD_19''"
| "TaxTreatment_value MANUAL_REVIEW = ''MANUAL_REVIEW''"
| "TaxTreatment_value REVERSE_CHARGE_13B = ''REVERSE_CHARGE_13B''"

record PricingPolicy =
  po_policy_id :: string
  po_policy_version :: string
  po_currency :: string
  po_overhead_rate :: "rat option"
  po_risk_reserve_rate :: "rat option"
  po_target_margin_rate :: "rat option"
  po_rounding_mode :: string
  po_money_scale :: decimal
  po_data_classification :: string

record MaterialCostInput =
  mc_cost_source_id :: string
  mc_description :: string
  mc_quantity_base :: "rat option"
  mc_unit :: string
  mc_purchase_net_unit_cost :: "rat option"
  mc_currency :: string
  mc_waste_rate :: "rat option"
  mc_source_reference :: string
  mc_data_classification :: string

record DirectCostInput =
  dc_cost_source_id :: string
  dc_category :: CostCategory
  dc_description :: string
  dc_quantity :: "rat option"
  dc_unit :: string
  dc_unit_cost :: "rat option"
  dc_currency :: string
  dc_source_reference :: string
  dc_data_classification :: string

record VehicleUsageInput =
  vu_cost_source_id :: string
  vu_plan_id :: string
  vu_vehicle_id :: string
  vu_purpose :: string
  vu_distance_km_total :: "rat option"
  vu_currency :: string
  vu_source_reference :: string
  vu_data_classification :: string

record EmployeeRateSnapshot =
  er_employee_id :: string
  er_employee_name :: string
  er_hourly_cost_amount :: "rat option"
  er_currency :: string
  er_data_classification :: string

record VehicleRateSnapshot =
  vr_vehicle_id :: string
  vr_vehicle_name :: string
  vr_cost_per_km_amount :: "rat option"
  vr_currency :: string
  vr_data_classification :: string

record JobPricingContext =
  jx_job_request_id :: string
  jx_pricing_policy :: PricingPolicy
  jx_tax_treatment :: "TaxTreatment option"
  jx_standard_tax_rate :: "rat option"
  jx_materials :: "MaterialCostInput list"
  jx_common_direct_costs :: "DirectCostInput list"
  jx_data_classification :: string

record PlanPricingInput =
  pi_job_request_id :: string
  pi_plan :: PlanVariant
  pi_planning_rule_version :: string
  pi_employee_rates :: "EmployeeRateSnapshot list"
  pi_vehicle_rates :: "VehicleRateSnapshot list"
  pi_vehicle_usages :: "VehicleUsageInput list"
  pi_plan_specific_direct_costs :: "DirectCostInput list"
  pi_data_classification :: string

section \<open>Results\<close>

record CostLine =
  ln_cost_source_id :: string
  ln_category :: CostCategory
  ln_description :: string
  ln_quantity :: rat
  ln_unit :: string
  ln_unit_cost :: rat
  ln_total :: rat
  ln_source_reference :: string
  ln_data_classification :: string

record CategoryTotal =
  ct_category :: CostCategory
  ct_total :: rat

record PricingIssue =
  ps_code :: string
  ps_description :: string

record PlanPricingResult =
  rs_result_id :: string
  rs_job_request_id :: string
  rs_plan_id :: string
  rs_plan_label :: string
  rs_status :: PricingStatus
  rs_employee_rates :: "EmployeeRateSnapshot list"
  rs_vehicle_rates :: "VehicleRateSnapshot list"
  rs_materials :: "MaterialCostInput list"
  rs_vehicle_usages :: "VehicleUsageInput list"
  rs_direct_cost_inputs :: "DirectCostInput list"
  rs_cost_lines :: "CostLine list"
  rs_pricing_policy :: PricingPolicy
  rs_tax_treatment :: "TaxTreatment option"
  rs_planning_rule_version :: string
  rs_pricing_rule_version :: string
  rs_category_totals :: "CategoryTotal list"
  rs_direct_cost :: "rat option"
  rs_overhead_amount :: "rat option"
  rs_cost_before_risk :: "rat option"
  rs_risk_reserve_amount :: "rat option"
  rs_modeled_company_cost :: "rat option"
  rs_recommended_net_price :: "rat option"
  rs_tax_amount :: "rat option"
  rs_gross_price :: "rat option"
  rs_issues :: "PricingIssue list"
  rs_data_classification :: string
  rs_input_fingerprint :: string

definition category_total :: "PlanPricingResult \<Rightarrow> CostCategory \<Rightarrow> rat option" where
  "category_total r category = map_option ct_total (lookup_by ct_category category (rs_category_totals r))"

record PlanPricingComparison =
  pc_base_plan_id :: string
  pc_compared_plan_id :: string
  pc_modeled_company_cost_difference :: rat
  pc_recommended_net_price_difference :: rat
  pc_largest_cost_driver :: CostCategory
  pc_largest_cost_driver_difference :: rat
  pc_data_classification :: string

section \<open>Tax\<close>

record TaxCalculation =
  tx_status :: PricingStatus
  tx_tax_amount :: "rat option"
  tx_gross_price :: "rat option"
  tx_issues :: "PricingIssue list"

definition apply_tax_policy :: "rat \<Rightarrow> TaxTreatment \<Rightarrow> rat option \<Rightarrow> decimal \<Rightarrow> TaxCalculation result" where
  "apply_tax_policy recommended_net_price treatment standard_tax_rate money_scale =
     (if treatment = STANDARD_19 then
        case standard_tax_rate of
          None \<Rightarrow> Inl (ValueError ''STANDARD_19 wymaga standard_tax_rate'')
        | Some rate \<Rightarrow>
            and_then (quantize (dround (recommended_net_price * rate)) money_scale) (\<lambda>tax_amount. Inr
              \<lparr>tx_status = COMPLETE, tx_tax_amount = Some tax_amount,
               tx_gross_price = Some (dround (recommended_net_price + tax_amount)), tx_issues = []\<rparr>)
      else Inr
        \<lparr>tx_status = REVIEW_REQUIRED, tx_tax_amount = None, tx_gross_price = None,
         tx_issues =
           [\<lparr>ps_code = (if treatment = MANUAL_REVIEW then ''TAX_MANUAL_REVIEW'' else ''REVERSE_CHARGE_13B_REVIEW''),
             ps_description =
               ''TaxTreatment wymaga decyzji czlowieka; VAT i gross nie sa finalizowane.''\<rparr>]\<rparr>)"

end
