(* ===== verification/Pricing_Engine.thy ===== *)
theory Pricing_Engine
  imports Pricing_Model
begin

text \<open>
  pricing/engine.py. The lists and the set that the function changes while it prices a plan are the
  record \<open>pricing_run\<close>; each loop body is a step on it. The text of a datetime (\<open>isoformat\<close>) and the
  hash of a JSON value (\<open>json.dumps\<close> and SHA-256) are the parameters \<open>isoformat\<close> and \<open>digest\<close>.
\<close>

section \<open>Fingerprints\<close>

definition json_decimal :: "rat \<Rightarrow> json" where
  "json_decimal x = JString (decimal_text x)"

definition canonical_policy :: "PricingPolicy \<Rightarrow> json" where
  "canonical_policy p = JObject
     [(''policy_id'', JString (po_policy_id p)), (''policy_version'', JString (po_policy_version p)),
      (''currency'', JString (po_currency p)), (''overhead_rate'', json_option json_decimal (po_overhead_rate p)),
      (''risk_reserve_rate'', json_option json_decimal (po_risk_reserve_rate p)),
      (''target_margin_rate'', json_option json_decimal (po_target_margin_rate p)),
      (''rounding_mode'', JString (po_rounding_mode p)), (''money_scale'', json_decimal (dvalue (po_money_scale p))),
      (''data_classification'', JString (po_data_classification p))]"

definition canonical_material :: "MaterialCostInput \<Rightarrow> json" where
  "canonical_material m = JObject
     [(''cost_source_id'', JString (mc_cost_source_id m)), (''description'', JString (mc_description m)),
      (''quantity_base'', json_option json_decimal (mc_quantity_base m)), (''unit'', JString (mc_unit m)),
      (''purchase_net_unit_cost'', json_option json_decimal (mc_purchase_net_unit_cost m)),
      (''currency'', JString (mc_currency m)), (''waste_rate'', json_option json_decimal (mc_waste_rate m)),
      (''source_reference'', JString (mc_source_reference m)),
      (''data_classification'', JString (mc_data_classification m))]"

definition canonical_direct_cost :: "DirectCostInput \<Rightarrow> json" where
  "canonical_direct_cost d = JObject
     [(''cost_source_id'', JString (dc_cost_source_id d)), (''category'', JString (CostCategory_value (dc_category d))),
      (''description'', JString (dc_description d)), (''quantity'', json_option json_decimal (dc_quantity d)),
      (''unit'', JString (dc_unit d)), (''unit_cost'', json_option json_decimal (dc_unit_cost d)),
      (''currency'', JString (dc_currency d)), (''source_reference'', JString (dc_source_reference d)),
      (''data_classification'', JString (dc_data_classification d))]"

definition canonical_usage :: "VehicleUsageInput \<Rightarrow> json" where
  "canonical_usage u = JObject
     [(''cost_source_id'', JString (vu_cost_source_id u)), (''plan_id'', JString (vu_plan_id u)),
      (''vehicle_id'', JString (vu_vehicle_id u)), (''purpose'', JString (vu_purpose u)),
      (''distance_km_total'', json_option json_decimal (vu_distance_km_total u)),
      (''currency'', JString (vu_currency u)), (''source_reference'', JString (vu_source_reference u)),
      (''data_classification'', JString (vu_data_classification u))]"

definition canonical_employee_rate :: "EmployeeRateSnapshot \<Rightarrow> json" where
  "canonical_employee_rate e = JObject
     [(''employee_id'', JString (er_employee_id e)), (''employee_name'', JString (er_employee_name e)),
      (''hourly_cost_amount'', json_option json_decimal (er_hourly_cost_amount e)),
      (''currency'', JString (er_currency e)), (''data_classification'', JString (er_data_classification e))]"

definition canonical_vehicle_rate :: "VehicleRateSnapshot \<Rightarrow> json" where
  "canonical_vehicle_rate v = JObject
     [(''vehicle_id'', JString (vr_vehicle_id v)), (''vehicle_name'', JString (vr_vehicle_name v)),
      (''cost_per_km_amount'', json_option json_decimal (vr_cost_per_km_amount v)),
      (''currency'', JString (vr_currency v)), (''data_classification'', JString (vr_data_classification v))]"

definition canonical_task :: "(py_datetime \<Rightarrow> string) \<Rightarrow> ScheduledTask \<Rightarrow> json" where
  "canonical_task isoformat t = JObject
     [(''work_item_id'', JString (st_work_item_id t)), (''work_item_name'', JString (st_work_item_name t)),
      (''employee_id'', JString (st_employee_id t)), (''start_at'', JString (isoformat (st_start_at t))),
      (''end_at'', JString (isoformat (st_end_at t))), (''vehicle_id'', json_option JString (st_vehicle_id t))]"

definition canonical_plan :: "(py_datetime \<Rightarrow> string) \<Rightarrow> PlanVariant \<Rightarrow> json" where
  "canonical_plan isoformat p = JObject
     [(''id'', JString (pv_id p)), (''job_request_id'', JString (pv_job_request_id p)), (''label'', JString (pv_label p)),
      (''start_at'', JString (isoformat (pv_start_at p))), (''end_at'', JString (isoformat (pv_end_at p))),
      (''assignments'', json_list (canonical_task isoformat) (pv_assignments p)),
      (''employee_ids'', json_list JString (pv_employee_ids p)), (''vehicle_ids'', json_list JString (pv_vehicle_ids p)),
      (''rationale'', JString (pv_rationale p)), (''limitations'', json_list JString (pv_limitations p))]"

definition canonical_context :: "JobPricingContext \<Rightarrow> json" where
  "canonical_context c = JObject
     [(''job_request_id'', JString (jx_job_request_id c)), (''pricing_policy'', canonical_policy (jx_pricing_policy c)),
      (''tax_treatment'', json_option (JString \<circ> TaxTreatment_value) (jx_tax_treatment c)),
      (''standard_tax_rate'', json_option json_decimal (jx_standard_tax_rate c)),
      (''materials'', json_list canonical_material (jx_materials c)),
      (''common_direct_costs'', json_list canonical_direct_cost (jx_common_direct_costs c)),
      (''data_classification'', JString (jx_data_classification c))]"

definition canonical_plan_input :: "(py_datetime \<Rightarrow> string) \<Rightarrow> PlanPricingInput \<Rightarrow> json" where
  "canonical_plan_input isoformat i = JObject
     [(''job_request_id'', JString (pi_job_request_id i)), (''plan'', canonical_plan isoformat (pi_plan i)),
      (''planning_rule_version'', JString (pi_planning_rule_version i)),
      (''employee_rates'', json_list canonical_employee_rate (pi_employee_rates i)),
      (''vehicle_rates'', json_list canonical_vehicle_rate (pi_vehicle_rates i)),
      (''vehicle_usages'', json_list canonical_usage (pi_vehicle_usages i)),
      (''plan_specific_direct_costs'', json_list canonical_direct_cost (pi_plan_specific_direct_costs i)),
      (''data_classification'', JString (pi_data_classification i))]"

definition pricing_input_fingerprint ::
    "(json \<Rightarrow> string) \<Rightarrow> (py_datetime \<Rightarrow> string) \<Rightarrow> JobPricingContext \<Rightarrow> PlanPricingInput \<Rightarrow> string" where
  "pricing_input_fingerprint digest isoformat context i =
     digest (JObject [(''context'', canonical_context context), (''plan_input'', canonical_plan_input isoformat i)])"

section \<open>Issues\<close>

definition money :: "rat \<Rightarrow> decimal \<Rightarrow> rat result" where
  "money value scale = quantize value scale"

text \<open>\<open>_issue\<close>: an issue is listed once.\<close>

definition add_issue :: "string \<Rightarrow> string \<Rightarrow> PricingIssue list \<Rightarrow> PricingIssue list" where
  "add_issue code description issues =
     (let item = \<lparr>ps_code = code, ps_description = description\<rparr>
      in if item \<in> set issues then issues else issues @ [item])"

definition issue_when :: "bool \<Rightarrow> string \<Rightarrow> string \<Rightarrow> PricingIssue list \<Rightarrow> PricingIssue list" where
  "issue_when c code description issues = (if c then add_issue code description issues else issues)"

text \<open>The three checks of a rate of the policy: present, not negative, and for the margin below one.\<close>

definition check_rate :: "rat option \<Rightarrow> string \<Rightarrow> string \<Rightarrow> bool \<Rightarrow> PricingIssue list \<Rightarrow> PricingIssue list" where
  "check_rate rate code name below_one issues =
     (case rate of
        None \<Rightarrow> add_issue (''MISSING_'' @ code) (''PricingPolicy nie zawiera '' @ name @ ''.'') issues
      | Some r \<Rightarrow>
          if r < 0 then add_issue (''INVALID_'' @ code) (name @ '' nie moze byc ujemne.'') issues
          else issue_when (below_one \<and> 1 \<le> r) (''INVALID_'' @ code) (name @ '' musi byc mniejsze od 1.'') issues)"

definition validate_policy :: "JobPricingContext \<Rightarrow> PricingIssue list \<Rightarrow> PricingIssue list" where
  "validate_policy context issues =
     (let policy = jx_pricing_policy context in
      (issue_when (po_data_classification policy \<noteq> jx_data_classification context) ''DATA_CLASSIFICATION_MISMATCH''
         ''PricingPolicy i JobPricingContext maja rozne klasyfikacje danych.'' \<circ>
       issue_when (po_currency policy = []) ''MISSING_POLICY_CURRENCY'' ''PricingPolicy wymaga waluty.'' \<circ>
       issue_when (dvalue (po_money_scale policy) \<le> 0) ''INVALID_MONEY_SCALE'' ''money_scale musi byc dodatnie.'' \<circ>
       issue_when (po_rounding_mode policy \<noteq> ''ROUND_HALF_UP'') ''UNSUPPORTED_ROUNDING_MODE''
         ''M5 obsluguje wylacznie ROUND_HALF_UP.'' \<circ>
       check_rate (po_target_margin_rate policy) ''TARGET_MARGIN_RATE'' ''target_margin_rate'' True \<circ>
       check_rate (po_risk_reserve_rate policy) ''RISK_RESERVE_RATE'' ''risk_reserve_rate'' False \<circ>
       check_rate (po_overhead_rate policy) ''OVERHEAD_RATE'' ''overhead_rate'' False) issues)"

definition validate_tax :: "JobPricingContext \<Rightarrow> PricingIssue list \<Rightarrow> PricingIssue list" where
  "validate_tax context issues =
     (case jx_tax_treatment context of
        None \<Rightarrow> add_issue ''MISSING_TAX_TREATMENT'' ''Brak jawnego TaxTreatment.'' issues
      | Some STANDARD_19 \<Rightarrow>
          (case jx_standard_tax_rate context of
             None \<Rightarrow> add_issue ''MISSING_STANDARD_TAX_RATE'' ''Brak standard_tax_rate.'' issues
           | Some r \<Rightarrow> issue_when (r < 0) ''INVALID_STANDARD_TAX_RATE'' ''standard_tax_rate nie moze byc ujemne.'' issues)
      | Some _ \<Rightarrow> issues)"

section \<open>The run\<close>

record pricing_run =
  run_issues :: "PricingIssue list"
  run_lines :: "CostLine list"
  run_sources :: "string list"

definition run_issue :: "string \<Rightarrow> string \<Rightarrow> pricing_run \<Rightarrow> pricing_run" where
  "run_issue code description run = run\<lparr>run_issues := add_issue code description (run_issues run)\<rparr>"

definition run_issue_when :: "bool \<Rightarrow> string \<Rightarrow> string \<Rightarrow> pricing_run \<Rightarrow> pricing_run" where
  "run_issue_when c code description run = (if c then run_issue code description run else run)"

definition run_line :: "CostLine \<Rightarrow> pricing_run \<Rightarrow> pricing_run" where
  "run_line line run = run\<lparr>run_lines := run_lines run @ [line]\<rparr>"

text \<open>\<open>if not claim_source(id): continue\<close>, else the rest \<open>f\<close> of the loop body.\<close>

definition claiming :: "string \<Rightarrow> (pricing_run \<Rightarrow> pricing_run result) \<Rightarrow> pricing_run \<Rightarrow> pricing_run result" where
  "claiming cost_source_id f run =
     (if cost_source_id \<in> set (run_sources run) then
        Inr (run_issue ''DUPLICATE_COST_SOURCE_ID'' (''Powielony cost_source_id: '' @ cost_source_id @ ''.'') run)
      else f (run\<lparr>run_sources := cost_source_id # run_sources run\<rparr>))"

text \<open>The last statement of each loop body: the total is rounded, then the line is appended.\<close>

definition priced_line :: "CostLine \<Rightarrow> rat \<Rightarrow> decimal \<Rightarrow> pricing_run \<Rightarrow> pricing_run result" where
  "priced_line line amount scale run =
     and_then (money amount scale) (\<lambda>total. Inr (run_line (line\<lparr>ln_total := total\<rparr>) run))"

fun fold_result :: "('a \<Rightarrow> 'b \<Rightarrow> 'b result) \<Rightarrow> 'a list \<Rightarrow> 'b \<Rightarrow> 'b result" where
  "fold_result f [] s = Inr s"
| "fold_result f (x # xs) s = and_then (f x s) (fold_result f xs)"

text \<open>\<open>a - b\<close> of two datetimes, in microseconds.\<close>

definition datetime_minus :: "py_datetime \<Rightarrow> py_datetime \<Rightarrow> int result" where
  "datetime_minus a b = (if is_aware a = is_aware b then Inr (instant a - instant b) else Inl PyTypeError)"

text \<open>
  \<open>Decimal(str(d.total_seconds()))\<close>: exact for the durations below 31 years, whose seconds have at
  most fifteen digits and survive the way through a float and its text.
\<close>

definition total_seconds :: "int \<Rightarrow> rat" where
  "total_seconds micros = of_int micros / 10 ^ 6"

definition labor_source :: "PlanVariant \<Rightarrow> ScheduledTask \<Rightarrow> string" where
  "labor_source p a = ''labor:'' @ pv_id p @ '':'' @ st_work_item_id a @ '':'' @ st_employee_id a"

definition price_assignment ::
    "PricingPolicy \<Rightarrow> decimal \<Rightarrow> PlanPricingInput \<Rightarrow> ScheduledTask \<Rightarrow> pricing_run \<Rightarrow> pricing_run result" where
  "price_assignment policy scale i a =
     claiming (labor_source (pi_plan i) a) (\<lambda>run.
       and_then (datetime_minus (st_end_at a) (st_start_at a)) (\<lambda>micros.
       let hours = dround (total_seconds micros / 3600); eid = st_employee_id a in
       if hours \<le> 0 then
         Inr (run_issue ''INVALID_TASK_DURATION'' (''Zadanie '' @ st_work_item_id a @ '' nie ma dodatniego czasu.'') run)
       else case dict_by er_employee_id (pi_employee_rates i) eid of
         None \<Rightarrow> Inr (run_issue ''MISSING_HOURLY_COST'' (''Brak hourly_cost_amount dla '' @ eid @ ''.'') run)
       | Some rate \<Rightarrow> (case er_hourly_cost_amount rate of
           None \<Rightarrow> Inr (run_issue ''MISSING_HOURLY_COST'' (''Brak hourly_cost_amount dla '' @ eid @ ''.'') run)
         | Some amount \<Rightarrow>
             if amount < 0 then
               Inr (run_issue ''INVALID_HOURLY_COST'' (''Ujemny hourly_cost_amount dla '' @ eid @ ''.'') run)
             else if er_currency rate \<noteq> po_currency policy then
               Inr (run_issue ''CURRENCY_MISMATCH''
                 (''Stawka '' @ eid @ '' ma walute '' @ er_currency rate @ ''.'') run)
             else priced_line
               \<lparr>ln_cost_source_id = labor_source (pi_plan i) a, ln_category = LABOR,
                ln_description = st_work_item_name a @ '' - '' @ er_employee_name rate,
                ln_quantity = hours, ln_unit = ''hour'', ln_unit_cost = amount, ln_total = 0,
                ln_source_reference = st_work_item_id a, ln_data_classification = pi_data_classification i\<rparr>
               (dround (hours * amount)) scale run)))"

definition price_usage ::
    "PricingPolicy \<Rightarrow> decimal \<Rightarrow> PlanPricingInput \<Rightarrow> string \<Rightarrow> VehicleUsageInput \<Rightarrow> pricing_run \<Rightarrow> pricing_run result" where
  "price_usage policy scale i vehicle_id usage =
     claiming (vu_cost_source_id usage) (\<lambda>run.
       if vu_plan_id usage \<noteq> pv_id (pi_plan i) then
         Inr (run_issue ''VEHICLE_USAGE_PLAN_MISMATCH''
           (''Uzycie '' @ vu_cost_source_id usage @ '' dotyczy innego planu.'') run)
       else case vu_distance_km_total usage of
         None \<Rightarrow> Inr (run_issue ''MISSING_VEHICLE_DISTANCE'' (''Brak jawnego distance_km_total dla '' @ vehicle_id @ ''.'') run)
       | Some distance \<Rightarrow>
           if distance < 0 then
             Inr (run_issue ''INVALID_VEHICLE_DISTANCE'' (''Ujemny distance_km_total dla '' @ vehicle_id @ ''.'') run)
           else if vu_purpose usage \<noteq> ''JOB_EXECUTION'' then
             Inr (run_issue ''INVALID_VEHICLE_PURPOSE'' (''Nieobslugiwany purpose uzycia '' @ vehicle_id @ ''.'') run)
           else case dict_by vr_vehicle_id (pi_vehicle_rates i) vehicle_id of
             None \<Rightarrow> Inr (run_issue ''MISSING_VEHICLE_RATE'' (''Brak cost_per_km_amount dla '' @ vehicle_id @ ''.'') run)
           | Some rate \<Rightarrow> (case vr_cost_per_km_amount rate of
               None \<Rightarrow> Inr (run_issue ''MISSING_VEHICLE_RATE'' (''Brak cost_per_km_amount dla '' @ vehicle_id @ ''.'') run)
             | Some amount \<Rightarrow>
                 if vu_currency usage \<noteq> po_currency policy \<or> vr_currency rate \<noteq> po_currency policy then
                   Inr (run_issue ''CURRENCY_MISMATCH''
                     (''Dane pojazdu '' @ vehicle_id @ '' nie sa w '' @ po_currency policy @ ''.'') run)
                 else priced_line
                   \<lparr>ln_cost_source_id = vu_cost_source_id usage, ln_category = VEHICLE_TRAVEL,
                    ln_description = vu_purpose usage @ '' - '' @ vr_vehicle_name rate,
                    ln_quantity = distance, ln_unit = ''km'', ln_unit_cost = amount, ln_total = 0,
                    ln_source_reference = vu_source_reference usage,
                    ln_data_classification = vu_data_classification usage\<rparr>
                   (dround (distance * amount)) scale run))"

text \<open>\<open>usages_by_vehicle.get(vehicle_id, [])\<close>.\<close>

definition usages_of :: "PlanPricingInput \<Rightarrow> string \<Rightarrow> VehicleUsageInput list" where
  "usages_of i vehicle_id = filter (\<lambda>u. vu_vehicle_id u = vehicle_id) (pi_vehicle_usages i)"

definition price_vehicle ::
    "PricingPolicy \<Rightarrow> decimal \<Rightarrow> PlanPricingInput \<Rightarrow> string \<Rightarrow> pricing_run \<Rightarrow> pricing_run result" where
  "price_vehicle policy scale i vehicle_id run =
     (case usages_of i vehicle_id of
        [] \<Rightarrow> Inr (run_issue ''MISSING_VEHICLE_DISTANCE''
          (''Brak jawnego distance_km_total dla '' @ vehicle_id @ ''.'') run)
      | usage # others \<Rightarrow>
          price_usage policy scale i vehicle_id usage
            (run_issue_when (others \<noteq> []) ''DUPLICATE_VEHICLE_USAGE''
               (''Pojazd '' @ vehicle_id @ '' ma wiecej niz jedno uzycie w planie.'') run))"

definition price_material ::
    "PricingPolicy \<Rightarrow> decimal \<Rightarrow> MaterialCostInput \<Rightarrow> pricing_run \<Rightarrow> pricing_run result" where
  "price_material policy scale m =
     (let sid = mc_cost_source_id m in
      claiming sid (\<lambda>run.
        case (mc_quantity_base m, mc_purchase_net_unit_cost m, mc_waste_rate m) of
          (None, _, _) \<Rightarrow> Inr (run_issue ''MISSING_MATERIAL_QUANTITY'' (''Brak quantity_base dla '' @ sid @ ''.'') run)
        | (_, None, _) \<Rightarrow>
            Inr (run_issue ''MISSING_MATERIAL_UNIT_COST'' (''Brak purchase_net_unit_cost dla '' @ sid @ ''.'') run)
        | (_, _, None) \<Rightarrow> Inr (run_issue ''MISSING_WASTE_RATE'' (''Brak waste_rate dla '' @ sid @ ''.'') run)
        | (Some quantity, Some unit_cost, Some waste) \<Rightarrow>
            if quantity \<le> 0 then
              Inr (run_issue ''INVALID_MATERIAL_QUANTITY'' (''quantity_base dla '' @ sid @ '' musi byc dodatnie.'') run)
            else if unit_cost < 0 then
              Inr (run_issue ''INVALID_MATERIAL_UNIT_COST'' (''Ujemny koszt materialu '' @ sid @ ''.'') run)
            else if waste < 0 then
              Inr (run_issue ''INVALID_WASTE_RATE'' (''Ujemny waste_rate dla '' @ sid @ ''.'') run)
            else if mc_currency m \<noteq> po_currency policy then
              Inr (run_issue ''CURRENCY_MISMATCH'' (''Material '' @ sid @ '' ma walute '' @ mc_currency m @ ''.'') run)
            else
              let effective = dround (quantity * dround (1 + waste)) in
              priced_line
                \<lparr>ln_cost_source_id = sid, ln_category = MATERIAL, ln_description = mc_description m,
                 ln_quantity = effective, ln_unit = mc_unit m, ln_unit_cost = unit_cost, ln_total = 0,
                 ln_source_reference = mc_source_reference m, ln_data_classification = mc_data_classification m\<rparr>
                (dround (effective * unit_cost)) scale run))"

definition add_direct_cost_line ::
    "string \<Rightarrow> decimal \<Rightarrow> DirectCostInput \<Rightarrow> pricing_run \<Rightarrow> pricing_run result" where
  "add_direct_cost_line currency scale item run =
     (let sid = dc_cost_source_id item in
      if dc_category item \<in> {LABOR, VEHICLE_TRAVEL, MATERIAL} then
        Inr (run_issue ''INVALID_DIRECT_COST_CATEGORY''
          (CostCategory_value (dc_category item) @ '' nie moze byc naliczone przez DirectCostInput.'') run)
      else case (dc_quantity item, dc_unit_cost item) of
        (None, _) \<Rightarrow> Inr (run_issue ''MISSING_DIRECT_COST_QUANTITY'' (''Brak quantity dla '' @ sid @ ''.'') run)
      | (_, None) \<Rightarrow> Inr (run_issue ''MISSING_DIRECT_COST_UNIT_COST'' (''Brak unit_cost dla '' @ sid @ ''.'') run)
      | (Some quantity, Some unit_cost) \<Rightarrow>
          if quantity \<le> 0 \<or> unit_cost < 0 then
            Inr (run_issue ''INVALID_DIRECT_COST'' (''Niespojna wartosc '' @ sid @ ''.'') run)
          else if dc_currency item \<noteq> currency then
            Inr (run_issue ''CURRENCY_MISMATCH'' (''Koszt '' @ sid @ '' ma walute '' @ dc_currency item @ ''.'') run)
          else priced_line
            \<lparr>ln_cost_source_id = sid, ln_category = dc_category item, ln_description = dc_description item,
             ln_quantity = quantity, ln_unit = dc_unit item, ln_unit_cost = unit_cost, ln_total = 0,
             ln_source_reference = dc_source_reference item, ln_data_classification = dc_data_classification item\<rparr>
            (dround (quantity * unit_cost)) scale run)"

definition price_direct_cost ::
    "PricingPolicy \<Rightarrow> decimal \<Rightarrow> DirectCostInput \<Rightarrow> pricing_run \<Rightarrow> pricing_run result" where
  "price_direct_cost policy scale item =
     claiming (dc_cost_source_id item) (add_direct_cost_line (po_currency policy) scale item)"

section \<open>Results\<close>

text \<open>\<open>sum\<close> of Decimals: every addition is rounded to the context.\<close>

definition decimal_add :: "rat \<Rightarrow> rat \<Rightarrow> rat" where
  "decimal_add a x = dround (a + x)"

definition decimal_sum :: "rat list \<Rightarrow> rat" where
  "decimal_sum xs = foldl decimal_add 0 xs"

definition lines_of :: "CostCategory \<Rightarrow> CostLine list \<Rightarrow> CostLine list" where
  "lines_of category ls = filter (\<lambda>l. ln_category l = category) ls"

definition category_entry :: "CostLine list \<Rightarrow> decimal \<Rightarrow> CostCategory \<Rightarrow> CategoryTotal result" where
  "category_entry ls scale category =
     and_then (money (decimal_sum (map ln_total (lines_of category ls))) scale) (\<lambda>total.
     Inr \<lparr>ct_category = category, ct_total = total\<rparr>)"

definition category_totals :: "CostLine list \<Rightarrow> decimal \<Rightarrow> CategoryTotal list result" where
  "category_totals ls scale =
     traverse (category_entry ls scale) (filter (\<lambda>category. lines_of category ls \<noteq> []) CostCategory_members)"

text \<open>\<open>_result\<close>: the eight amounts are absent, or given by name.\<close>

definition pricing_result ::
    "JobPricingContext \<Rightarrow> PlanPricingInput \<Rightarrow> string \<Rightarrow> PricingStatus \<Rightarrow> CostLine list \<Rightarrow> CategoryTotal list \<Rightarrow>
     PricingIssue list \<Rightarrow> PlanPricingResult" where
  "pricing_result context i fingerprint status ls totals issues =
     \<lparr>rs_result_id = ''pricing-'' @ pv_id (pi_plan i) @ ''-'' @ take 16 fingerprint,
      rs_job_request_id = pi_job_request_id i, rs_plan_id = pv_id (pi_plan i), rs_plan_label = pv_label (pi_plan i),
      rs_status = status, rs_employee_rates = pi_employee_rates i, rs_vehicle_rates = pi_vehicle_rates i,
      rs_materials = jx_materials context, rs_vehicle_usages = pi_vehicle_usages i,
      rs_direct_cost_inputs = jx_common_direct_costs context @ pi_plan_specific_direct_costs i,
      rs_cost_lines = ls, rs_pricing_policy = jx_pricing_policy context, rs_tax_treatment = jx_tax_treatment context,
      rs_planning_rule_version = pi_planning_rule_version i, rs_pricing_rule_version = ''plan-pricing-v1'',
      rs_category_totals = totals, rs_direct_cost = None, rs_overhead_amount = None, rs_cost_before_risk = None,
      rs_risk_reserve_amount = None, rs_modeled_company_cost = None, rs_recommended_net_price = None,
      rs_tax_amount = None, rs_gross_price = None, rs_issues = issues,
      rs_data_classification = jx_data_classification context, rs_input_fingerprint = fingerprint\<rparr>"

definition effective_scale :: "PricingPolicy \<Rightarrow> decimal" where
  "effective_scale policy = (if 0 < dvalue (po_money_scale policy) then po_money_scale policy else Decimal 1 (- 2))"

text \<open>The checks before the first loop.\<close>

definition initial_run :: "JobPricingContext \<Rightarrow> PlanPricingInput \<Rightarrow> pricing_run" where
  "initial_run context i =
     \<lparr>run_issues =
        (issue_when (pi_data_classification i \<noteq> jx_data_classification context) ''DATA_CLASSIFICATION_MISMATCH''
           ''PlanPricingInput i JobPricingContext maja rozne klasyfikacje danych.'' \<circ>
         issue_when (pv_job_request_id (pi_plan i) \<noteq> pi_job_request_id i) ''PLAN_JOB_REQUEST_ID_MISMATCH''
           (''Plan '' @ pv_id (pi_plan i) @ '' dotyczy innego job_request_id.'') \<circ>
         issue_when (jx_job_request_id context \<noteq> pi_job_request_id i) ''JOB_REQUEST_ID_MISMATCH''
           ''JobPricingContext i PlanPricingInput dotycza roznych zlecen.'' \<circ>
         validate_tax context \<circ> validate_policy context) [],
      run_lines = [], run_sources = []\<rparr>"

text \<open>\<open>len({key(x): x for x in xs}) != len(xs)\<close>.\<close>

definition duplicate_keys :: "('a \<Rightarrow> string) \<Rightarrow> 'a list \<Rightarrow> bool" where
  "duplicate_keys key xs \<longleftrightarrow> length (remdups (map key xs)) \<noteq> length xs"

definition assigned_vehicle_ids :: "PlanVariant \<Rightarrow> string set" where
  "assigned_vehicle_ids p =
     set (concat (map (\<lambda>a. case st_vehicle_id a of Some v \<Rightarrow> if v \<noteq> [] then [v] else [] | None \<Rightarrow> [])
       (pv_assignments p)))"

text \<open>The loops over assignments, vehicles, materials and direct costs.\<close>

definition price_all :: "JobPricingContext \<Rightarrow> PlanPricingInput \<Rightarrow> pricing_run result" where
  "price_all context i =
     (let policy = jx_pricing_policy context; scale = effective_scale policy; p = pi_plan i in
      and_then (fold_result (price_assignment policy scale i) (pv_assignments p)
        (run_issue_when (duplicate_keys er_employee_id (pi_employee_rates i)) ''DUPLICATE_EMPLOYEE_RATE''
           ''Powielono snapshot stawki pracownika.'' (initial_run context i))) (\<lambda>run.
      and_then (fold_result (price_vehicle policy scale i) (pv_vehicle_ids p)
        (run_issue_when (assigned_vehicle_ids p \<noteq> set (pv_vehicle_ids p)) ''PLAN_VEHICLE_REFERENCE_MISMATCH''
           ''vehicle_ids planu nie odpowiadaja pojazdom zapisanym w zadaniach.''
           (run_issue_when (duplicate_keys vr_vehicle_id (pi_vehicle_rates i)) ''DUPLICATE_VEHICLE_RATE''
              ''Powielono snapshot stawki pojazdu.'' run))) (\<lambda>run.
      and_then (fold_result (price_material policy scale) (jx_materials context) run) (\<lambda>run.
      fold_result (price_direct_cost policy scale)
        (jx_common_direct_costs context @ pi_plan_specific_direct_costs i) run))))"

text \<open>A rate that the validation has found present; arithmetic on \<open>None\<close> is a TypeError.\<close>

definition present :: "'a option \<Rightarrow> 'a result" where
  "present x = (case x of None \<Rightarrow> Inl PyTypeError | Some v \<Rightarrow> Inr v)"

text \<open>The tax of a net price: every treatment but STANDARD_19 goes to review, also a missing one.\<close>

definition tax_of :: "JobPricingContext \<Rightarrow> rat \<Rightarrow> decimal \<Rightarrow> TaxCalculation result" where
  "tax_of context net scale =
     apply_tax_policy net (case jx_tax_treatment context of None \<Rightarrow> REVERSE_CHARGE_13B | Some t \<Rightarrow> t)
       (jx_standard_tax_rate context) scale"

definition price_totals ::
    "JobPricingContext \<Rightarrow> PlanPricingInput \<Rightarrow> string \<Rightarrow> CostLine list \<Rightarrow> CategoryTotal list \<Rightarrow> PlanPricingResult result" where
  "price_totals context i fingerprint ls totals =
     (let policy = jx_pricing_policy context; scale = effective_scale policy in
      and_then (money (decimal_sum (map ln_total ls)) scale) (\<lambda>direct_cost.
      and_then (present (po_overhead_rate policy)) (\<lambda>overhead_rate.
      and_then (money (dround (direct_cost * overhead_rate)) scale) (\<lambda>overhead_amount.
      let cost_before_risk = dround (direct_cost + overhead_amount) in
      and_then (present (po_risk_reserve_rate policy)) (\<lambda>risk_rate.
      and_then (money (dround (cost_before_risk * risk_rate)) scale) (\<lambda>risk_reserve_amount.
      let modeled_company_cost = dround (cost_before_risk + risk_reserve_amount) in
      and_then (present (po_target_margin_rate policy)) (\<lambda>margin.
      and_then (money (dround (modeled_company_cost / dround (1 - margin))) scale) (\<lambda>net.
      and_then (tax_of context net scale) (\<lambda>tax.
      Inr ((pricing_result context i fingerprint (tx_status tax) ls totals (tx_issues tax))
        \<lparr>rs_direct_cost := Some direct_cost, rs_overhead_amount := Some overhead_amount,
         rs_cost_before_risk := Some cost_before_risk, rs_risk_reserve_amount := Some risk_reserve_amount,
         rs_modeled_company_cost := Some modeled_company_cost, rs_recommended_net_price := Some net,
         rs_tax_amount := tx_tax_amount tax, rs_gross_price := tx_gross_price tax\<rparr>))))))))))"

definition calculate_plan_pricing ::
    "(json \<Rightarrow> string) \<Rightarrow> (py_datetime \<Rightarrow> string) \<Rightarrow> JobPricingContext \<Rightarrow> PlanPricingInput \<Rightarrow> PlanPricingResult result" where
  "calculate_plan_pricing digest isoformat context i =
     (let fingerprint = pricing_input_fingerprint digest isoformat context i in
      and_then (price_all context i) (\<lambda>run.
      and_then (category_totals (run_lines run) (effective_scale (jx_pricing_policy context))) (\<lambda>totals.
      if run_issues run \<noteq> [] then
        Inr (pricing_result context i fingerprint INCOMPLETE (run_lines run) totals (run_issues run))
      else price_totals context i fingerprint (run_lines run) totals)))"

section \<open>Quotes\<close>

definition quote_plan ::
    "(json \<Rightarrow> string) \<Rightarrow> (py_datetime \<Rightarrow> string) \<Rightarrow> JobPricingContext \<Rightarrow> PlanPricingResult list \<Rightarrow>
     PlanPricingInput \<Rightarrow> PlanPricingResult result" where
  "quote_plan digest isoformat context existing_results i =
     (case dict_by rs_input_fingerprint existing_results (pricing_input_fingerprint digest isoformat context i) of
        Some r \<Rightarrow> Inr r
      | None \<Rightarrow> calculate_plan_pricing digest isoformat context i)"

definition calculate_plan_quotes ::
    "(json \<Rightarrow> string) \<Rightarrow> (py_datetime \<Rightarrow> string) \<Rightarrow> JobPricingContext \<Rightarrow> PlanPricingInput list \<Rightarrow>
     PlanPricingResult list \<Rightarrow> PlanPricingResult list result" where
  "calculate_plan_quotes digest isoformat context plan_inputs existing_results =
     and_then (require (plan_inputs \<noteq> []) ''NO_PLANS: brak PlanVariant do wyceny'') (\<lambda>_.
     traverse (quote_plan digest isoformat context existing_results) plan_inputs)"

definition category_difference :: "PlanPricingResult \<Rightarrow> PlanPricingResult \<Rightarrow> CostCategory \<Rightarrow> rat" where
  "category_difference base compared category =
     (let total = (\<lambda>r. case dict_by ct_category (rs_category_totals r) category of Some t \<Rightarrow> ct_total t | None \<Rightarrow> 0)
      in dround (total compared - total base))"

definition compare_plan_pricing :: "PlanPricingResult list \<Rightarrow> PlanPricingComparison option result" where
  "compare_plan_pricing results =
     (case results of
        [base, compared] \<Rightarrow>
          if rs_status base \<noteq> COMPLETE \<or> rs_status compared \<noteq> COMPLETE then Inr None
          else
            let difference = category_difference base compared;
                largest_driver = max_by (\<lambda>category. \<bar>difference category\<bar>) LABOR CostCategory_members in
            and_then (present (rs_modeled_company_cost compared)) (\<lambda>m1.
            and_then (present (rs_modeled_company_cost base)) (\<lambda>m0.
            and_then (present (rs_recommended_net_price compared)) (\<lambda>n1.
            and_then (present (rs_recommended_net_price base)) (\<lambda>n0.
            Inr (Some
              \<lparr>pc_base_plan_id = rs_plan_id base, pc_compared_plan_id = rs_plan_id compared,
               pc_modeled_company_cost_difference = dround (m1 - m0),
               pc_recommended_net_price_difference = dround (n1 - n0),
               pc_largest_cost_driver = largest_driver,
               pc_largest_cost_driver_difference = difference largest_driver,
               pc_data_classification = rs_data_classification base\<rparr>)))))
      | _ \<Rightarrow> Inr None)"

end
