(* ===== verification/Pricing_Properties.thy ===== *)
theory Pricing_Properties
  imports Pricing_Engine
begin

text \<open>
  Properties of pricing: the amounts of a priced plan add up exactly although every operation rounds,
  every cost source is billed once, and a result with issues carries no price. Two concrete plans
  show a missing check of a negative rate and a fingerprint that ignores the scale of the money.
\<close>

section \<open>Exact sums\<close>

text \<open>The unit of a scale, and the multiples of it.\<close>

definition unit_of :: "decimal \<Rightarrow> rat" where
  "unit_of scale = 10 powi dexponent scale"

lemma unit_pos [simp]: "0 < unit_of scale" "unit_of scale \<noteq> 0"
  by (simp_all add: unit_of_def)

text \<open>\<open>x\<close> is a non-negative amount of the scale.\<close>

definition amount :: "decimal \<Rightarrow> rat \<Rightarrow> bool" where
  "amount scale x \<longleftrightarrow> (\<exists>c. x = of_int c * unit_of scale \<and> 0 \<le> c \<and> c < 10 ^ 28)"

definition too_large :: "decimal \<Rightarrow> rat \<Rightarrow> bool" where
  "too_large scale x \<longleftrightarrow> 10 ^ 28 * unit_of scale \<le> x"

lemma amount_nonneg: "amount scale x \<Longrightarrow> 0 \<le> x"
  using unit_pos(1) [of scale] by (auto simp: amount_def less_imp_le)

lemma amount_0 [simp]: "amount scale 0"
  by (auto simp: amount_def)

lemma dround_amount: "amount scale x \<Longrightarrow> dround x = x"
  by (auto simp: amount_def unit_of_def intro!: dround_exact)

lemma dround_limit: "dround (10 ^ 28 * unit_of scale) = 10 ^ 28 * unit_of scale"
proof -
  have "10 ^ 28 * unit_of scale = of_int 1 * 10 powi (28 + dexponent scale)"
    by (simp add: unit_of_def power_int_add)
  then show ?thesis by (metis dround_exact abs_1 one_less_power zero_less_numeral one_less_numeral_iff semiring_norm(76))
qed

lemma too_large_dround: "too_large scale x \<Longrightarrow> too_large scale (dround x)"
  unfolding too_large_def using dround_mono [of "10 ^ 28 * unit_of scale" x] unfolding dround_limit .

lemma too_large_mono: "too_large scale x \<Longrightarrow> x \<le> y \<Longrightarrow> too_large scale y"
  by (simp add: too_large_def)

lemma money_not_too_large: "money x scale = Inr y \<Longrightarrow> \<not> too_large scale x"
proof
  assume m: "money x scale = Inr y" and "too_large scale x"
  then have "of_int (10 ^ 28) \<le> x / unit_of scale" by (simp add: too_large_def pos_le_divide_eq)
  then have "10 ^ 28 \<le> round_half_up (x / unit_of scale)" by (metis round_half_up_int round_half_up_mono)
  with m show False by (simp add: money_def quantize_def unit_of_def Let_def split: if_splits)
qed

lemma money_value: "money x scale = Inr y \<Longrightarrow> y = of_int (round_half_up (x / unit_of scale)) * unit_of scale"
  by (auto simp: money_def quantize_def unit_of_def Let_def split: if_splits)

lemma money_amount:
  assumes "money x scale = Inr y" "0 \<le> x" shows "amount scale y"
proof -
  have "0 \<le> round_half_up (x / unit_of scale)" using assms(2) unit_pos(1) [of scale] by (intro round_half_up_nonneg divide_nonneg_pos)
  with assms(1) show ?thesis
    by (auto simp: money_def quantize_def amount_def unit_of_def Let_def split: if_splits)
qed

lemma money_of_amount: "money x scale = Inr y \<Longrightarrow> amount scale x \<Longrightarrow> y = x"
  by (auto simp: amount_def dest: money_value)

lemma money_ge_amount:
  assumes "money x scale = Inr y" "amount scale a" "a \<le> x" shows "a \<le> y"
proof -
  obtain c where a: "a = of_int c * unit_of scale" using assms(2) by (auto simp: amount_def)
  have "of_int c \<le> x / unit_of scale" using assms(3) unfolding a by (simp add: pos_le_divide_eq)
  then have "c \<le> round_half_up (x / unit_of scale)" by (metis round_half_up_int round_half_up_mono)
  then show ?thesis unfolding a money_value [OF assms(1)] by (simp add: mult_right_mono)
qed

text \<open>A rounded sum of two amounts is exact, or too large for any later amount.\<close>

lemma dround_sum:
  assumes "amount scale a" "amount scale b"
  shows "(dround (a + b) = a + b \<and> amount scale (a + b)) \<or> too_large scale (dround (a + b))"
proof -
  obtain m n where a: "a = of_int m * unit_of scale" and b: "b = of_int n * unit_of scale"
    and mn: "0 \<le> m" "0 \<le> n" using assms by (auto simp: amount_def)
  have sum: "a + b = of_int (m + n) * unit_of scale" by (simp add: a b algebra_simps)
  show ?thesis
  proof (cases "m + n < 10 ^ 28")
    case True
    then have "amount scale (a + b)" unfolding sum amount_def using mn by (intro exI [of _ "m + n"]) simp
    then show ?thesis by (simp add: dround_amount)
  next
    case False
    then have "(of_int (10 ^ 28) :: rat) \<le> of_int (m + n)" by (simp only: of_int_le_iff not_less)
    then have "too_large scale (a + b)" unfolding sum too_large_def by (intro mult_right_mono) (simp_all add: less_imp_le)
    then show ?thesis by (simp add: too_large_dround)
  qed
qed

lemma fold_too_large:
  "too_large scale a \<Longrightarrow> \<forall>x\<in>set xs. 0 \<le> x \<Longrightarrow> too_large scale (foldl decimal_add a xs)"
proof (induction xs arbitrary: a)
  case (Cons x xs)
  then have "too_large scale (decimal_add a x)"
    unfolding decimal_add_def by (intro too_large_dround too_large_mono [OF Cons.prems(1)]) simp
  with Cons show ?case by simp
qed simp

lemma fold_exact:
  "amount scale a \<Longrightarrow> \<forall>x\<in>set xs. amount scale x \<Longrightarrow>
     (foldl decimal_add a xs = a + sum_list xs \<and> amount scale (a + sum_list xs)) \<or>
     too_large scale (foldl decimal_add a xs)"
proof (induction xs arbitrary: a)
  case (Cons x xs)
  from Cons.prems have "amount scale x" by simp
  with dround_sum [OF Cons.prems(1)]
  consider "decimal_add a x = a + x" "amount scale (a + x)" | "too_large scale (decimal_add a x)"
    unfolding decimal_add_def by blast
  then show ?case
  proof cases
    case 1
    with Cons.IH [of "a + x"] Cons.prems show ?thesis by (simp add: add.assoc)
  next
    case 2
    with fold_too_large [of scale "decimal_add a x" xs] Cons.prems show ?thesis by (auto dest: amount_nonneg)
  qed
qed simp

lemma money_decimal_sum:
  assumes "money (decimal_sum xs) scale = Inr y" "\<forall>x\<in>set xs. amount scale x"
  shows "y = sum_list xs" "amount scale y"
  using fold_exact [OF amount_0 assms(2)] money_not_too_large [OF assms(1)] money_of_amount [OF assms(1)]
  by (auto simp: decimal_sum_def)

lemma dround_sum_small:
  assumes "amount scale a" "amount scale b" "\<not> too_large scale (dround (a + b))"
  shows "dround (a + b) = a + b" "amount scale (a + b)"
  using dround_sum [OF assms(1,2)] assms(3) by auto

text \<open>Dividing by a rounded number between 0 and 1 does not make an amount smaller.\<close>

lemma quotient_ge:
  assumes "0 \<le> x" "0 \<le> m" "m < 1"
  shows "x \<le> x / dround (1 - m)"
proof -
  have "0 < dround (1 - m)" using assms(3) by (intro dround_pos) simp
  moreover have "dround (1 - m) \<le> 1" using dround_mono [of "1 - m" 1] assms(2) dround_exact [of 1 0] by simp
  ultimately show ?thesis using assms(1) by (simp add: pos_le_divide_eq mult_left_le)
qed

section \<open>Runs without issues\<close>

lemma add_issue_Nil [simp]: "add_issue c d is \<noteq> []"
  by (auto simp: add_issue_def Let_def)

lemma issue_when_Nil [simp]: "issue_when b c d is = [] \<longleftrightarrow> \<not> b \<and> is = []"
  by (simp add: issue_when_def)

lemma check_rate_Nil [simp]:
  "check_rate rate c n below is = [] \<longleftrightarrow> is = [] \<and> (\<exists>r. rate = Some r \<and> 0 \<le> r \<and> (below \<longrightarrow> r < 1))"
  by (auto simp: check_rate_def split: option.splits)

lemma run_issue_Nil [simp]: "run_issues (run_issue c d run) \<noteq> []"
  by (simp add: run_issue_def)

lemma run_issue_when_Nil [simp]: "run_issues (run_issue_when b c d run) = [] \<longleftrightarrow> \<not> b \<and> run_issues run = []"
  by (simp add: run_issue_when_def)

lemma run_issue_when_other [simp]:
  "run_lines (run_issue_when b c d run) = run_lines run" "run_sources (run_issue_when b c d run) = run_sources run"
  by (simp_all add: run_issue_when_def run_issue_def)

text \<open>The rates of a policy without issues.\<close>

lemma policy_rates:
  assumes "run_issues (initial_run context i) = []"
  obtains overhead risk margin where
    "po_overhead_rate (jx_pricing_policy context) = Some overhead" "0 \<le> overhead"
    "po_risk_reserve_rate (jx_pricing_policy context) = Some risk" "0 \<le> risk"
    "po_target_margin_rate (jx_pricing_policy context) = Some margin" "0 \<le> margin" "margin < 1"
    "\<exists>t. jx_tax_treatment context = Some t \<and>
       (t = STANDARD_19 \<longrightarrow> (\<exists>r. jx_standard_tax_rate context = Some r \<and> 0 \<le> r))"
proof -
  have "validate_tax context (validate_policy context []) = []"
    using assms by (simp add: initial_run_def)
  then have policy: "validate_policy context [] = []"
    and tax: "\<exists>t. jx_tax_treatment context = Some t \<and>
       (t = STANDARD_19 \<longrightarrow> (\<exists>r. jx_standard_tax_rate context = Some r \<and> 0 \<le> r))"
    by (auto simp: validate_tax_def split: option.splits TaxTreatment.splits)
  from policy tax show ?thesis by (auto simp: validate_policy_def Let_def intro!: that)
qed

section \<open>Billing\<close>

text \<open>
  The contract of a loop body: when it leaves no issue, there was none before, and it has added
  exactly the lines of its item, whose sources are new.
\<close>

definition bill_of :: "CostLine \<Rightarrow> string \<times> CostCategory" where
  "bill_of line = (ln_cost_source_id line, ln_category line)"

definition billed :: "decimal \<Rightarrow> (string \<times> CostCategory) list \<Rightarrow> pricing_run \<Rightarrow> pricing_run \<Rightarrow> bool" where
  "billed scale bills run run' \<longleftrightarrow>
     run_issues run = [] \<and>
     (\<exists>ls. run_lines run' = run_lines run @ ls \<and> map bill_of ls = bills \<and>
        (\<forall>l\<in>set ls. \<exists>x. money x scale = Inr (ln_total l))) \<and>
     set (run_sources run') = set (run_sources run) \<union> set (map fst bills) \<and>
     distinct (map fst bills) \<and> set (map fst bills) \<inter> set (run_sources run) = {}"

lemma billed_refl: "run_issues run = [] \<Longrightarrow> billed scale [] run run"
  by (simp add: billed_def)

lemma billed_trans:
  assumes "billed scale bs run run'" "billed scale cs run' run''"
  shows "billed scale (bs @ cs) run run''"
proof -
  obtain ls ls' where lines: "run_lines run' = run_lines run @ ls" "map bill_of ls = bs"
      "\<forall>l\<in>set ls. \<exists>x. money x scale = Inr (ln_total l)"
      "run_lines run'' = run_lines run' @ ls'" "map bill_of ls' = cs"
      "\<forall>l\<in>set ls'. \<exists>x. money x scale = Inr (ln_total l)"
    using assms unfolding billed_def by auto
  have "\<exists>ks. run_lines run'' = run_lines run @ ks \<and> map bill_of ks = bs @ cs \<and>
      (\<forall>l\<in>set ks. \<exists>x. money x scale = Inr (ln_total l))"
    by (rule exI [of _ "ls @ ls'"]) (use lines in auto)
  moreover have "set (run_sources run'') = set (run_sources run) \<union> set (map fst (bs @ cs))"
    "distinct (map fst (bs @ cs))" "set (map fst (bs @ cs)) \<inter> set (run_sources run) = {}" "run_issues run = []"
    using assms unfolding billed_def map_append set_append distinct_append by blast+
  ultimately show ?thesis unfolding billed_def by (intro conjI)
qed

locale billing_step =
  fixes step :: "'a \<Rightarrow> pricing_run \<Rightarrow> pricing_run result"
    and bills :: "'a \<Rightarrow> (string \<times> CostCategory) list"
    and scale :: decimal
  assumes step_bills: "step x run = Inr run' \<Longrightarrow> run_issues run' = [] \<Longrightarrow> billed scale (bills x) run run'"
begin

lemma loop_bills:
  "fold_result step xs run = Inr run' \<Longrightarrow> run_issues run' = [] \<Longrightarrow> billed scale (concat (map bills xs)) run run'"
proof (induction xs arbitrary: run)
  case (Cons x xs)
  then obtain run1 where "step x run = Inr run1" "fold_result step xs run1 = Inr run'" by auto
  with Cons have rest: "billed scale (concat (map bills xs)) run1 run'" by blast
  then have "run_issues run1 = []" by (simp add: billed_def)
  with \<open>step x run = Inr run1\<close> have "billed scale (bills x) run run1" by (rule step_bills)
  with rest show ?case by (simp add: billed_trans)
qed (simp add: billed_refl)

end

text \<open>Every loop body claims its source and then either reports an issue or appends one line.\<close>

definition adds_line :: "decimal \<Rightarrow> string \<times> CostCategory \<Rightarrow> pricing_run \<Rightarrow> pricing_run \<Rightarrow> bool" where
  "adds_line scale bill run run' \<longleftrightarrow> (\<exists>line x. bill_of line = bill \<and> priced_line line x scale run = Inr run')"

lemma adds_lineI:
  "priced_line \<lparr>ln_cost_source_id = sid, ln_category = category, ln_description = d, ln_quantity = q, ln_unit = u,
     ln_unit_cost = c, ln_total = t, ln_source_reference = r, ln_data_classification = k\<rparr> x scale run = Inr run' \<Longrightarrow>
   adds_line scale (sid, category) run run'"
  unfolding adds_line_def by (intro exI conjI) (auto simp: bill_of_def)

lemma claiming_bills:
  assumes "claiming (sid) f run = Inr run'" "run_issues run' = []"
    and "\<And>run1. f run1 = Inr run' \<Longrightarrow> run_issues run' = [] \<Longrightarrow> adds_line scale (sid, category) run1 run'"
  shows "billed scale [(sid, category)] run run'"
proof -
  from assms(1,2) have new: "sid \<notin> set (run_sources run)"
    and f: "f (run\<lparr>run_sources := sid # run_sources run\<rparr>) = Inr run'"
    by (auto simp: claiming_def split: if_splits)
  from assms(3) [OF f assms(2)] obtain line x where line: "bill_of line = (sid, category)"
    and "priced_line line x scale (run\<lparr>run_sources := sid # run_sources run\<rparr>) = Inr run'"
    by (auto simp: adds_line_def)
  then obtain total where "money x scale = Inr total"
    and "run' = run_line (line\<lparr>ln_total := total\<rparr>) (run\<lparr>run_sources := sid # run_sources run\<rparr>)"
    by (auto simp: priced_line_def)
  with line new assms(2) show ?thesis
    by (auto simp: billed_def run_line_def bill_of_def)
qed

lemma price_assignment_bills:
  assumes "price_assignment policy scale i a run = Inr run'" "run_issues run' = []"
  shows "billed scale [(labor_source (pi_plan i) a, LABOR)] run run'"
  using assms unfolding price_assignment_def Let_def
  by (rule claiming_bills)
    (auto simp: Let_def split: if_splits option.splits elim!: adds_lineI)

lemma price_usage_bills:
  assumes "price_usage policy scale i vehicle_id usage run = Inr run'" "run_issues run' = []"
  shows "billed scale [(vu_cost_source_id usage, VEHICLE_TRAVEL)] run run'"
  using assms unfolding price_usage_def Let_def
  by (rule claiming_bills)
    (auto simp: Let_def split: if_splits option.splits elim!: adds_lineI)

lemma price_material_bills:
  assumes "price_material policy scale m run = Inr run'" "run_issues run' = []"
  shows "billed scale [(mc_cost_source_id m, MATERIAL)] run run'"
  using assms unfolding price_material_def Let_def
  by (rule claiming_bills)
    (auto simp: Let_def split: if_splits option.splits elim!: adds_lineI)

lemma price_direct_cost_bills:
  assumes "price_direct_cost policy scale d run = Inr run'" "run_issues run' = []"
  shows "billed scale [(dc_cost_source_id d, dc_category d)] run run'"
  using assms unfolding price_direct_cost_def Let_def
  by (rule claiming_bills)
    (auto simp: add_direct_cost_line_def Let_def split: if_splits option.splits elim!: adds_lineI)

lemma price_vehicle_bills:
  assumes "price_vehicle policy scale i vehicle_id run = Inr run'" "run_issues run' = []"
  shows "billed scale (map (\<lambda>u. (vu_cost_source_id u, VEHICLE_TRAVEL)) (usages_of i vehicle_id)) run run'"
proof (cases "usages_of i vehicle_id")
  case Nil
  with assms show ?thesis by (auto simp: price_vehicle_def)
next
  case (Cons usage others)
  let ?run = "run_issue_when (others \<noteq> []) ''DUPLICATE_VEHICLE_USAGE''
      (''Pojazd '' @ vehicle_id @ '' ma wiecej niz jedno uzycie w planie.'') run"
  have "billed scale [(vu_cost_source_id usage, VEHICLE_TRAVEL)] ?run run'"
    using assms Cons by (intro price_usage_bills) (auto simp: price_vehicle_def)
  then show ?thesis using Cons by (auto simp: billed_def)
qed

interpretation labor: billing_step "price_assignment policy scale i" "\<lambda>a. [(labor_source (pi_plan i) a, LABOR)]" scale
  for policy scale i
  by unfold_locales (rule price_assignment_bills)

interpretation vehicles: billing_step "price_vehicle policy scale i"
    "\<lambda>v. map (\<lambda>u. (vu_cost_source_id u, VEHICLE_TRAVEL)) (usages_of i v)" scale
  for policy scale i
  by unfold_locales (rule price_vehicle_bills)

interpretation materials: billing_step "price_material policy scale" "\<lambda>m. [(mc_cost_source_id m, MATERIAL)]" scale
  for policy scale
  by unfold_locales (rule price_material_bills)

interpretation direct_costs: billing_step "price_direct_cost policy scale" "\<lambda>d. [(dc_cost_source_id d, dc_category d)]" scale
  for policy scale
  by unfold_locales (rule price_direct_cost_bills)

text \<open>All the bills of a plan, in the order of the loops.\<close>

definition plan_bills :: "JobPricingContext \<Rightarrow> PlanPricingInput \<Rightarrow> (string \<times> CostCategory) list" where
  "plan_bills context i =
     map (\<lambda>a. (labor_source (pi_plan i) a, LABOR)) (pv_assignments (pi_plan i)) @
     concat (map (\<lambda>v. map (\<lambda>u. (vu_cost_source_id u, VEHICLE_TRAVEL)) (usages_of i v)) (pv_vehicle_ids (pi_plan i))) @
     map (\<lambda>m. (mc_cost_source_id m, MATERIAL)) (jx_materials context) @
     map (\<lambda>d. (dc_cost_source_id d, dc_category d)) (jx_common_direct_costs context @ pi_plan_specific_direct_costs i)"

lemma concat_singletons [simp]: "concat (map (\<lambda>x. [f x]) xs) = map f xs"
  by (induction xs) simp_all

lemma price_all_bills:
  assumes "price_all context i = Inr run" "run_issues run = []"
  shows "billed (effective_scale (jx_pricing_policy context)) (plan_bills context i) (initial_run context i) run"
proof -
  let ?policy = "jx_pricing_policy context" let ?scale = "effective_scale ?policy"
  obtain run0 run0' run1 run1' run2 run3 where runs:
      "run0 = run_issue_when (duplicate_keys er_employee_id (pi_employee_rates i)) ''DUPLICATE_EMPLOYEE_RATE''
           ''Powielono snapshot stawki pracownika.'' (initial_run context i)"
      "fold_result (price_assignment ?policy ?scale i) (pv_assignments (pi_plan i)) run0 = Inr run1"
      "run1' = run_issue_when (assigned_vehicle_ids (pi_plan i) \<noteq> set (pv_vehicle_ids (pi_plan i))) ''PLAN_VEHICLE_REFERENCE_MISMATCH''
           ''vehicle_ids planu nie odpowiadaja pojazdom zapisanym w zadaniach.''
           (run_issue_when (duplicate_keys vr_vehicle_id (pi_vehicle_rates i)) ''DUPLICATE_VEHICLE_RATE''
              ''Powielono snapshot stawki pojazdu.'' run1)"
      "fold_result (price_vehicle ?policy ?scale i) (pv_vehicle_ids (pi_plan i)) run1' = Inr run2"
      "fold_result (price_material ?policy ?scale) (jx_materials context) run2 = Inr run3"
      "fold_result (price_direct_cost ?policy ?scale)
        (jx_common_direct_costs context @ pi_plan_specific_direct_costs i) run3 = Inr run"
    using assms(1) by (auto simp: price_all_def Let_def)
  note b4 = direct_costs.loop_bills [OF runs(6) assms(2)]
  then have "run_issues run3 = []" by (simp add: billed_def)
  note b3 = materials.loop_bills [OF runs(5) this]
  then have "run_issues run2 = []" by (simp add: billed_def)
  note b2 = vehicles.loop_bills [OF runs(4) this]
  then have clean1: "run_issues run1 = []" "run_issues run1' = []" by (simp_all add: billed_def runs(3))
  note b1 = labor.loop_bills [OF runs(2) clean1(1)]
  have "billed ?scale (concat (map (\<lambda>v. map (\<lambda>u. (vu_cost_source_id u, VEHICLE_TRAVEL)) (usages_of i v)) (pv_vehicle_ids (pi_plan i)))) run1 run2"
    using b2 clean1 by (simp add: billed_def runs(3))
  moreover have "billed ?scale (map (\<lambda>a. (labor_source (pi_plan i) a, LABOR)) (pv_assignments (pi_plan i))) (initial_run context i) run1"
    using b1 by (simp add: billed_def runs(1))
  ultimately show ?thesis using b3 b4 unfolding plan_bills_def concat_singletons by (intro billed_trans)
qed

section \<open>The result\<close>

lemma initial_run_empty [simp]: "run_lines (initial_run context i) = []" "run_sources (initial_run context i) = []"
  by (simp_all add: initial_run_def)

text \<open>The two ways to a result.\<close>

lemma calculate_cases:
  assumes "calculate_plan_pricing digest isoformat context i = Inr r"
  obtains
    (incomplete) run totals where "price_all context i = Inr run" "run_issues run \<noteq> []"
      "r = pricing_result context i (pricing_input_fingerprint digest isoformat context i) INCOMPLETE (run_lines run) totals (run_issues run)"
  | (priced) run totals where "price_all context i = Inr run" "run_issues run = []"
      "category_totals (run_lines run) (effective_scale (jx_pricing_policy context)) = Inr totals"
      "price_totals context i (pricing_input_fingerprint digest isoformat context i) (run_lines run) totals = Inr r"
  using assms by (auto simp: calculate_plan_pricing_def Let_def split: if_splits)

text \<open>The amounts of a priced result as the code computes them.\<close>

lemma price_totals_values:
  assumes "price_totals context i fingerprint ls totals = Inr r"
    and "po_overhead_rate (jx_pricing_policy context) = Some overhead_rate"
    and "po_risk_reserve_rate (jx_pricing_policy context) = Some risk_rate"
    and "po_target_margin_rate (jx_pricing_policy context) = Some margin"
  obtains direct overhead risk net tax where
    "money (decimal_sum (map ln_total ls)) (effective_scale (jx_pricing_policy context)) = Inr direct"
    "money (dround (direct * overhead_rate)) (effective_scale (jx_pricing_policy context)) = Inr overhead"
    "money (dround (dround (direct + overhead) * risk_rate)) (effective_scale (jx_pricing_policy context)) = Inr risk"
    "money (dround (dround (dround (direct + overhead) + risk) / dround (1 - margin))) (effective_scale (jx_pricing_policy context)) = Inr net"
    "tax_of context net (effective_scale (jx_pricing_policy context)) = Inr tax"
    "rs_status r = tx_status tax" "rs_cost_lines r = ls" "rs_category_totals r = totals" "rs_issues r = tx_issues tax"
    "rs_direct_cost r = Some direct" "rs_overhead_amount r = Some overhead"
    "rs_cost_before_risk r = Some (dround (direct + overhead))" "rs_risk_reserve_amount r = Some risk"
    "rs_modeled_company_cost r = Some (dround (dround (direct + overhead) + risk))"
    "rs_recommended_net_price r = Some net" "rs_tax_amount r = tx_tax_amount tax" "rs_gross_price r = tx_gross_price tax"
  using assms by (auto simp: price_totals_def present_def Let_def pricing_result_def)

lemma tax_of_cases:
  assumes "tax_of context net scale = Inr tax"
  obtains (standard) rate amount where "jx_tax_treatment context = Some STANDARD_19" "jx_standard_tax_rate context = Some rate"
      "money (dround (net * rate)) scale = Inr amount" "tx_status tax = COMPLETE" "tx_tax_amount tax = Some amount"
      "tx_gross_price tax = Some (dround (net + amount))" "tx_issues tax = []"
  | (review) "jx_tax_treatment context \<noteq> Some STANDARD_19" "tx_status tax = REVIEW_REQUIRED" "tx_tax_amount tax = None"
      "tx_gross_price tax = None" "tx_issues tax \<noteq> []"
  using assms by (auto simp: tax_of_def apply_tax_policy_def money_def split: if_splits option.splits TaxTreatment.splits)

lemma category_sums:
  assumes "category_totals ls scale = Inr totals" "\<forall>l\<in>set ls. amount scale (ln_total l)"
  shows "totals = map (\<lambda>c. \<lparr>ct_category = c, ct_total = sum_list (map ln_total (lines_of c ls))\<rparr>)
    (filter (\<lambda>c. lines_of c ls \<noteq> []) CostCategory_members)"
proof -
  have "t = \<lparr>ct_category = c, ct_total = sum_list (map ln_total (lines_of c ls))\<rparr>"
    if "category_entry ls scale c = Inr t" for c t
  proof -
    from that obtain total where "money (decimal_sum (map ln_total (lines_of c ls))) scale = Inr total"
      "t = \<lparr>ct_category = c, ct_total = total\<rparr>" by (auto simp: category_entry_def)
    moreover have "\<forall>x\<in>set (map ln_total (lines_of c ls)). amount scale x" using assms(2) by (auto simp: lines_of_def)
    ultimately show ?thesis by (simp add: money_decimal_sum(1))
  qed
  with assms(1) show ?thesis
    unfolding category_totals_def traverse_Inr_iff
    by (auto simp: list_all2_conv_all_nth intro!: nth_equalityI)
qed

lemma sum_by_category:
  "sum_list (map (\<lambda>c. sum_list (map f (lines_of c ls))) (filter (\<lambda>c. lines_of c ls \<noteq> []) CostCategory_members)) =
     (sum_list (map f ls) :: rat)"
proof -
  have "sum_list (map (\<lambda>c. sum_list (map f (lines_of c ls))) (filter (\<lambda>c. lines_of c ls \<noteq> []) cs)) =
      sum_list (map (\<lambda>c. sum_list (map f (lines_of c ls))) cs)" for cs
    by (induction cs) auto
  moreover have "sum_list (map (\<lambda>c. sum_list (map f (lines_of c ls))) CostCategory_members) = sum_list (map f ls)"
  proof (induction ls)
    case (Cons l ls)
    then show ?case by (cases "ln_category l") (simp_all add: CostCategory_members_def lines_of_def algebra_simps)
  qed (simp add: CostCategory_members_def lines_of_def)
  ultimately show ?thesis by simp
qed

lemma money_amount_nonneg:
  assumes "money x scale = Inr y" "0 \<le> y" shows "amount scale y"
proof -
  have "0 \<le> round_half_up (x / unit_of scale)"
    using assms money_value [OF assms(1)] unit_pos(1) [of scale] by (simp add: zero_le_mult_iff)
  with assms(1) show ?thesis
    by (auto simp: money_def quantize_def amount_def unit_of_def Let_def split: if_splits)
qed

text \<open>Only a travel line can be negative: the other loops refuse every negative factor.\<close>

definition fair_line :: "CostLine \<Rightarrow> bool" where
  "fair_line l \<longleftrightarrow> (ln_category l \<noteq> VEHICLE_TRAVEL \<longrightarrow> 0 \<le> ln_total l)"

abbreviation fair_run :: "pricing_run \<Rightarrow> bool" where
  "fair_run run \<equiv> list_all fair_line (run_lines run)"

lemma fold_result_keeps:
  "fold_result f xs s = Inr s' \<Longrightarrow> (\<And>x s s'. f x s = Inr s' \<Longrightarrow> P s \<Longrightarrow> P s') \<Longrightarrow> P s \<Longrightarrow> P s'"
  by (induction xs arbitrary: s) auto

lemma fair_run_issue [simp]:
  "run_lines (run_issue c d run) = run_lines run" "run_lines (run_issue_when b c d run) = run_lines run"
  by (simp_all add: run_issue_def run_issue_when_def)

lemma priced_line_fair:
  assumes "priced_line l x scale run = Inr run'" "fair_run run" "ln_category l \<noteq> VEHICLE_TRAVEL \<Longrightarrow> 0 \<le> x"
  shows "fair_run run'"
proof -
  obtain total where total: "money x scale = Inr total" "run' = run_line (l\<lparr>ln_total := total\<rparr>) run"
    using assms(1) by (auto simp: priced_line_def)
  have "0 \<le> total" if "0 \<le> x" using amount_nonneg [OF money_amount [OF total(1) that]] .
  with assms(2,3) show ?thesis by (auto simp: total(2) run_line_def fair_line_def)
qed

lemma claiming_fair:
  assumes "claiming sid f run = Inr run'" "fair_run run" "\<And>run. f run = Inr run' \<Longrightarrow> fair_run run \<Longrightarrow> fair_run run'"
  shows "fair_run run'"
  using assms by (auto simp: claiming_def split: if_splits)

lemma price_assignment_fair: "price_assignment policy scale i a run = Inr run' \<Longrightarrow> fair_run run \<Longrightarrow> fair_run run'"
  unfolding price_assignment_def Let_def
  by (erule (1) claiming_fair, unfold and_then_Inr, elim exE conjE)
    (simp only: not_le [symmetric] if_False split: if_split_asm option.split_asm;
      auto elim!: priced_line_fair intro!: dround_nonneg)

lemma price_vehicle_fair: "price_vehicle policy scale i v run = Inr run' \<Longrightarrow> fair_run run \<Longrightarrow> fair_run run'"
  by (auto simp: price_vehicle_def price_usage_def split: if_splits option.splits list.splits
      elim!: priced_line_fair claiming_fair)

lemma price_material_fair: "price_material policy scale m run = Inr run' \<Longrightarrow> fair_run run \<Longrightarrow> fair_run run'"
  unfolding price_material_def Let_def
  by (erule claiming_fair)
    (auto split: if_splits option.splits elim!: priced_line_fair intro!: dround_nonneg mult_nonneg_nonneg)

lemma price_direct_cost_fair: "price_direct_cost policy scale d run = Inr run' \<Longrightarrow> fair_run run \<Longrightarrow> fair_run run'"
  unfolding price_direct_cost_def
  by (erule claiming_fair)
    (auto simp: add_direct_cost_line_def Let_def split: if_splits option.splits elim!: priced_line_fair intro!: dround_nonneg)

lemma price_all_fair: "price_all context i = Inr run \<Longrightarrow> fair_run run"
  by (auto simp: price_all_def Let_def elim!: fold_result_keeps [where P = fair_run] price_assignment_fair price_vehicle_fair
      price_material_fair price_direct_cost_fair)

abbreviation travel_priced_fairly :: "CostLine list \<Rightarrow> bool" where
  "travel_priced_fairly \<equiv> list_all (\<lambda>l. ln_category l = VEHICLE_TRAVEL \<longrightarrow> 0 \<le> ln_total l)"

lemma priced_lines_amounts:
  assumes "price_all context i = Inr run" "run_issues run = []" "travel_priced_fairly (run_lines run)"
  shows "\<forall>l\<in>set (run_lines run). amount (effective_scale (jx_pricing_policy context)) (ln_total l)"
proof -
  have "\<forall>l\<in>set (run_lines run). 0 \<le> ln_total l"
    using price_all_fair [OF assms(1)] assms(3) by (auto simp: list_all_iff fair_line_def)
  with price_all_bills [OF assms(1,2)] show ?thesis
    by (auto simp: billed_def list_all_iff) (metis money_amount_nonneg)
qed

text \<open>
  C37. The amounts of a plan without issues, or only in review, add up exactly, provided that its travel lines
  are not negative. The direct cost is then the exact sum of the cost lines and of the category totals, the
  company cost is the exact sum of direct cost, overhead and risk reserve, neither of them negative, the net
  price is at least the company cost, and the gross price of a COMPLETE plan is the net price plus a
  nonnegative tax, as the decimal context of 28 digits adds them. The other lines need no condition, and the amounts need no bound: a sum that the context
  of 28 digits could not represent makes a later rounding to the money scale fail.
\<close>

theorem priced_amounts_add_up:
  assumes calc: "calculate_plan_pricing digest isoformat context i = Inr r" and status: "rs_status r \<noteq> INCOMPLETE"
    and lines: "list_all (\<lambda>l. ln_category l = VEHICLE_TRAVEL \<longrightarrow> 0 \<le> ln_total l) (rs_cost_lines r)"
  shows "\<exists>direct overhead risk net.
     rs_direct_cost r = Some direct \<and> direct = sum_list (map ln_total (rs_cost_lines r)) \<and>
     direct = sum_list (map ct_total (rs_category_totals r)) \<and>
     rs_overhead_amount r = Some overhead \<and> 0 \<le> overhead \<and> rs_cost_before_risk r = Some (direct + overhead) \<and>
     rs_risk_reserve_amount r = Some risk \<and> 0 \<le> risk \<and> rs_modeled_company_cost r = Some (direct + overhead + risk) \<and>
     rs_recommended_net_price r = Some net \<and> direct + overhead + risk \<le> net \<and>
     (rs_status r = COMPLETE \<longrightarrow>
        (\<exists>tax. rs_tax_amount r = Some tax \<and> 0 \<le> tax \<and> rs_gross_price r = Some (dround (net + tax))))"
  using calc
proof (cases rule: calculate_cases)
  case (incomplete run totals)
  with status show ?thesis by (simp add: pricing_result_def)
next
  case (priced run totals)
  let ?policy = "jx_pricing_policy context" let ?scale = "effective_scale ?policy" let ?ls = "run_lines run"
  have "run_issues (initial_run context i) = []"
    using price_all_bills [OF priced(1,2)] by (simp add: billed_def)
  then obtain overhead_rate risk_rate margin where
      rates: "po_overhead_rate ?policy = Some overhead_rate" "po_risk_reserve_rate ?policy = Some risk_rate"
        "po_target_margin_rate ?policy = Some margin"
      and signs: "0 \<le> overhead_rate" "0 \<le> risk_rate" "0 \<le> margin" "margin < 1"
      and tax_rate: "\<exists>t. jx_tax_treatment context = Some t \<and>
         (t = STANDARD_19 \<longrightarrow> (\<exists>r. jx_standard_tax_rate context = Some r \<and> 0 \<le> r))"
    by (rule policy_rates)
  obtain direct overhead risk net tax where
      direct: "money (decimal_sum (map ln_total ?ls)) ?scale = Inr direct"
      and overhead: "money (dround (direct * overhead_rate)) ?scale = Inr overhead"
      and risk: "money (dround (dround (direct + overhead) * risk_rate)) ?scale = Inr risk"
      and net: "money (dround (dround (dround (direct + overhead) + risk) / dround (1 - margin))) ?scale = Inr net"
      and tax: "tax_of context net ?scale = Inr tax"
      and fields: "rs_status r = tx_status tax" "rs_cost_lines r = ?ls" "rs_category_totals r = totals"
        "rs_direct_cost r = Some direct" "rs_overhead_amount r = Some overhead"
        "rs_cost_before_risk r = Some (dround (direct + overhead))" "rs_risk_reserve_amount r = Some risk"
        "rs_modeled_company_cost r = Some (dround (dround (direct + overhead) + risk))"
        "rs_recommended_net_price r = Some net" "rs_tax_amount r = tx_tax_amount tax" "rs_gross_price r = tx_gross_price tax"
    by (rule price_totals_values [OF priced(4) rates])
  have amounts: "\<forall>l\<in>set ?ls. amount ?scale (ln_total l)"
    using priced_lines_amounts [OF priced(1,2)] lines fields(2) by simp
  then have sum: "direct = sum_list (map ln_total ?ls)" "amount ?scale direct"
    using money_decimal_sum [OF direct] by auto
  have categories: "sum_list (map ct_total totals) = direct"
    unfolding category_sums [OF priced(3) amounts] sum(1) using sum_by_category [of ln_total ?ls] by (simp add: comp_def)
  let ?cost = "dround (direct + overhead)" let ?company = "dround (?cost + risk)"
  have a_overhead: "amount ?scale overhead"
    using overhead signs(1) amount_nonneg [OF sum(2)] by (intro money_amount [OF overhead] dround_nonneg) simp
  have cost0: "0 \<le> ?cost" using amount_nonneg [OF sum(2)] amount_nonneg [OF a_overhead] by (intro dround_nonneg) simp
  have a_risk: "amount ?scale risk" using cost0 signs(2) by (intro money_amount [OF risk] dround_nonneg) simp
  have company0: "0 \<le> ?cost + risk" using cost0 amount_nonneg [OF a_risk] by simp
  have ge: "?company \<le> ?company / dround (1 - margin)"
    using dround_nonneg [OF company0] signs(3,4) by (rule quotient_ge)
  have company_fits: "\<not> too_large ?scale ?company"
    using money_not_too_large [OF net] too_large_mono [OF _ ge] too_large_dround by blast
  have "?cost \<le> ?cost + risk" using amount_nonneg [OF a_risk] by simp
  then have "\<not> too_large ?scale ?cost" using company_fits too_large_mono too_large_dround by blast
  note cost = dround_sum_small [OF sum(2) a_overhead this]
  have a_cost: "amount ?scale ?cost" using cost by simp
  note company = dround_sum_small [OF a_cost a_risk company_fits]
  have exact: "?company = direct + overhead + risk" unfolding company(1) by (simp add: cost(1))
  have a_company: "amount ?scale ?company" using company by simp
  have "?company \<le> dround (?company / dround (1 - margin))"
    using dround_mono [OF ge] dround_amount [OF a_company] by simp
  then have net_ge: "?company \<le> net" by (rule money_ge_amount [OF net a_company])
  then have net0: "0 \<le> net" using amount_nonneg [OF a_company] by simp
  have gross: "\<exists>t. rs_tax_amount r = Some t \<and> 0 \<le> t \<and> rs_gross_price r = Some (dround (net + t))" if "rs_status r = COMPLETE"
    using tax
  proof (cases rule: tax_of_cases)
    case (standard rate t)
    then have "0 \<le> dround (net * rate)" using net0 tax_rate by (intro dround_nonneg) simp
    then have "0 \<le> t" using money_amount [OF standard(3)] amount_nonneg by blast
    with standard fields show ?thesis by simp
  next
    case review
    with that fields show ?thesis by simp
  qed
  show ?thesis
    using fields sum categories a_overhead a_risk amount_nonneg exact cost(1) net_ge gross by (auto simp: fields)
qed

text \<open>
  Every cost source is billed exactly once: the cost lines of a priced plan are, in order, one
  per assignment, one per vehicle of the plan (which has exactly one usage), one per material and one
  per direct cost, each with the category of its input, and no two of them share a source.
\<close>

theorem sources_billed_once:
  assumes "calculate_plan_pricing digest isoformat context i = Inr r" "rs_status r \<noteq> INCOMPLETE"
  shows "map bill_of (rs_cost_lines r) = plan_bills context i \<and> distinct (map ln_cost_source_id (rs_cost_lines r))"
  using assms(1)
proof (cases rule: calculate_cases)
  case (incomplete run totals)
  with assms(2) show ?thesis by (simp add: pricing_result_def)
next
  case (priced run totals)
  have "rs_cost_lines r = run_lines run"
    using priced(4) by (auto simp: price_totals_def Let_def pricing_result_def)
  moreover have "map ln_cost_source_id ls = map fst (map bill_of ls)" for ls
    by (simp add: bill_of_def)
  ultimately show ?thesis using price_all_bills [OF priced(1,2)] by (auto simp: billed_def simp del: map_map)
qed

text \<open>The eight amounts of a result, in the order of its fields.\<close>

definition result_amounts :: "PlanPricingResult \<Rightarrow> rat option list" where
  "result_amounts r =
     [rs_direct_cost r, rs_overhead_amount r, rs_cost_before_risk r, rs_risk_reserve_amount r, rs_modeled_company_cost r,
      rs_recommended_net_price r, rs_tax_amount r, rs_gross_price r]"

text \<open>
  C38. A result with an issue carries no final price. An INCOMPLETE result has none of the eight amounts, a
  COMPLETE one has all of them and no issue, and a result in review has all but the tax and the gross price, and an
  issue. A plan is COMPLETE only with the STANDARD_19 treatment, and goes to review only with another one.
\<close>

theorem unclear_plans_are_not_priced:
  assumes "calculate_plan_pricing digest isoformat context i = Inr r"
  shows "(rs_status r = COMPLETE \<longleftrightarrow> rs_issues r = []) \<and>
    map (\<lambda>x. x \<noteq> None) (result_amounts r) =
      (case rs_status r of
         INCOMPLETE \<Rightarrow> replicate 8 False
       | REVIEW_REQUIRED \<Rightarrow> replicate 6 True @ [False, False]
       | COMPLETE \<Rightarrow> replicate 8 True) \<and>
    (rs_status r = COMPLETE \<longrightarrow> jx_tax_treatment context = Some STANDARD_19) \<and>
    (rs_status r = REVIEW_REQUIRED \<longrightarrow> jx_tax_treatment context \<in> {Some MANUAL_REVIEW, Some REVERSE_CHARGE_13B})"
  using assms
proof (cases rule: calculate_cases)
  case (incomplete run totals)
  then show ?thesis by (simp add: pricing_result_def result_amounts_def numeral_eq_Suc)
next
  case (priced run totals)
  have "run_issues (initial_run context i) = []"
    using price_all_bills [OF priced(1,2)] by (simp add: billed_def)
  then obtain o' r' m' where rates: "po_overhead_rate (jx_pricing_policy context) = Some o'"
      "po_risk_reserve_rate (jx_pricing_policy context) = Some r'"
      "po_target_margin_rate (jx_pricing_policy context) = Some m'"
      and treatment: "\<exists>t. jx_tax_treatment context = Some t"
    by (rule policy_rates) auto
  obtain direct overhead risk net tax where tax: "tax_of context net (effective_scale (jx_pricing_policy context)) = Inr tax"
    and fields: "rs_status r = tx_status tax" "rs_issues r = tx_issues tax"
    and amounts: "map (\<lambda>x. x \<noteq> None) (result_amounts r) = replicate 6 True @ [tx_tax_amount tax \<noteq> None, tx_gross_price tax \<noteq> None]"
    by (rule price_totals_values [OF priced(4) rates]) (simp add: result_amounts_def numeral_eq_Suc)
  from tax show ?thesis
  proof (cases rule: tax_of_cases)
    case review
    from treatment obtain t where t: "jx_tax_treatment context = Some t" ..
    with review(1) have "t = MANUAL_REVIEW \<or> t = REVERSE_CHARGE_13B" by (cases t) auto
    with t review fields amounts show ?thesis by auto
  qed (use fields amounts in \<open>simp add: numeral_eq_Suc\<close>)
qed

section \<open>Concrete plans\<close>

definition example_policy :: "decimal \<Rightarrow> PricingPolicy" where
  "example_policy scale =
     \<lparr>po_policy_id = ''p'', po_policy_version = ''1'', po_currency = ''EUR'', po_overhead_rate = Some (1 / 10),
      po_risk_reserve_rate = Some (1 / 20), po_target_margin_rate = Some (1 / 5), po_rounding_mode = ''ROUND_HALF_UP'',
      po_money_scale = scale, po_data_classification = ''DEMO_SYNTHETIC''\<rparr>"

definition example_context :: "decimal \<Rightarrow> JobPricingContext" where
  "example_context scale =
     \<lparr>jx_job_request_id = ''j'', jx_pricing_policy = example_policy scale, jx_tax_treatment = Some STANDARD_19,
      jx_standard_tax_rate = Some (19 / 100),
      jx_materials = [\<lparr>mc_cost_source_id = ''m1'', mc_description = ''paint'', mc_quantity_base = Some 10, mc_unit = ''l'',
        mc_purchase_net_unit_cost = Some (333 / 100), mc_currency = ''EUR'', mc_waste_rate = Some (1 / 10),
        mc_source_reference = ''s'', mc_data_classification = ''DEMO_SYNTHETIC''\<rparr>],
      jx_common_direct_costs = [\<lparr>dc_cost_source_id = ''d1'', dc_category = DISPOSAL, dc_description = ''skip'',
        dc_quantity = Some 1, dc_unit = ''piece'', dc_unit_cost = Some 80, dc_currency = ''EUR'',
        dc_source_reference = ''s'', dc_data_classification = ''DEMO_SYNTHETIC''\<rparr>],
      jx_data_classification = ''DEMO_SYNTHETIC''\<rparr>"

definition example_plan_input :: "rat \<Rightarrow> PlanPricingInput" where
  "example_plan_input km_rate =
     \<lparr>pi_job_request_id = ''j'',
      pi_plan = \<lparr>pv_id = ''A'', pv_job_request_id = ''j'', pv_label = ''Plan A'', pv_start_at = Aware 0,
        pv_end_at = Aware 7200000000,
        pv_assignments = [\<lparr>st_work_item_id = ''w1'', st_work_item_name = ''painting'', st_employee_id = ''e1'',
          st_start_at = Aware 0, st_end_at = Aware 7200000000, st_vehicle_id = Some ''van''\<rparr>],
        pv_employee_ids = [''e1''], pv_vehicle_ids = [''van''], pv_rationale = ''r'', pv_limitations = []\<rparr>,
      pi_planning_rule_version = ''v1'',
      pi_employee_rates = [\<lparr>er_employee_id = ''e1'', er_employee_name = ''Adam'', er_hourly_cost_amount = Some 30,
        er_currency = ''EUR'', er_data_classification = ''DEMO_SYNTHETIC''\<rparr>],
      pi_vehicle_rates = [\<lparr>vr_vehicle_id = ''van'', vr_vehicle_name = ''Van'', vr_cost_per_km_amount = Some km_rate,
        vr_currency = ''EUR'', vr_data_classification = ''DEMO_SYNTHETIC''\<rparr>],
      pi_vehicle_usages = [\<lparr>vu_cost_source_id = ''u1'', vu_plan_id = ''A'', vu_vehicle_id = ''van'',
        vu_purpose = ''JOB_EXECUTION'', vu_distance_km_total = Some 100, vu_currency = ''EUR'',
        vu_source_reference = ''s'', vu_data_classification = ''DEMO_SYNTHETIC''\<rparr>],
      pi_plan_specific_direct_costs = [], pi_data_classification = ''DEMO_SYNTHETIC''\<rparr>"

text \<open>The cost lines of the example.\<close>

definition example_lines :: "rat \<Rightarrow> CostLine list" where
  "example_lines km_rate =
     [\<lparr>ln_cost_source_id = ''labor:A:w1:e1'', ln_category = LABOR, ln_description = ''painting - Adam'', ln_quantity = 2,
       ln_unit = ''hour'', ln_unit_cost = 30, ln_total = 60, ln_source_reference = ''w1'',
       ln_data_classification = ''DEMO_SYNTHETIC''\<rparr>,
      \<lparr>ln_cost_source_id = ''u1'', ln_category = VEHICLE_TRAVEL, ln_description = ''JOB_EXECUTION - Van'', ln_quantity = 100,
       ln_unit = ''km'', ln_unit_cost = km_rate, ln_total = 100 * km_rate, ln_source_reference = ''s'',
       ln_data_classification = ''DEMO_SYNTHETIC''\<rparr>,
      \<lparr>ln_cost_source_id = ''m1'', ln_category = MATERIAL, ln_description = ''paint'', ln_quantity = 11, ln_unit = ''l'',
       ln_unit_cost = 333 / 100, ln_total = 3663 / 100, ln_source_reference = ''s'',
       ln_data_classification = ''DEMO_SYNTHETIC''\<rparr>,
      \<lparr>ln_cost_source_id = ''d1'', ln_category = DISPOSAL, ln_description = ''skip'', ln_quantity = 1, ln_unit = ''piece'',
       ln_unit_cost = 80, ln_total = 80, ln_source_reference = ''s'', ln_data_classification = ''DEMO_SYNTHETIC''\<rparr>]"

definition example_run :: "rat \<Rightarrow> pricing_run" where
  "example_run km_rate =
     \<lparr>run_issues = [], run_lines = example_lines km_rate, run_sources = [''d1'', ''m1'', ''u1'', ''labor:A:w1:e1'']\<rparr>"

definition example_totals :: "rat \<Rightarrow> CategoryTotal list" where
  "example_totals km_rate =
     [\<lparr>ct_category = LABOR, ct_total = 60\<rparr>, \<lparr>ct_category = VEHICLE_TRAVEL, ct_total = 100 * km_rate\<rparr>,
      \<lparr>ct_category = MATERIAL, ct_total = 3663 / 100\<rparr>, \<lparr>ct_category = DISPOSAL, ct_total = 80\<rparr>]"

lemma example_scale [simp]:
  "effective_scale (example_policy (Decimal 1 (- 2))) = Decimal 1 (- 2)"
  "effective_scale (example_policy (Decimal 10 (- 3))) = Decimal 10 (- 3)"
  by code_simp+

lemma example_context_policy [simp]: "jx_pricing_policy (example_context scale) = example_policy scale"
  by (simp add: example_context_def)

lemma example_run_simps [simp]: "run_issues (example_run km_rate) = []" "run_lines (example_run km_rate) = example_lines km_rate"
  by (simp_all add: example_run_def)

lemma price_totals_intro:
  assumes "po_overhead_rate (jx_pricing_policy context) = Some overhead_rate"
    and "po_risk_reserve_rate (jx_pricing_policy context) = Some risk_rate"
    and "po_target_margin_rate (jx_pricing_policy context) = Some margin"
    and "money (decimal_sum (map ln_total ls)) (effective_scale (jx_pricing_policy context)) = Inr direct"
    and "money (dround (direct * overhead_rate)) (effective_scale (jx_pricing_policy context)) = Inr overhead"
    and "money (dround (dround (direct + overhead) * risk_rate)) (effective_scale (jx_pricing_policy context)) = Inr risk"
    and "money (dround (dround (dround (direct + overhead) + risk) / dround (1 - margin))) (effective_scale (jx_pricing_policy context)) = Inr net"
    and "tax_of context net (effective_scale (jx_pricing_policy context)) = Inr tax"
  shows "returns (price_totals context i fingerprint ls totals) (\<lambda>r. rs_status r = tx_status tax \<and> rs_cost_lines r = ls \<and>
    rs_category_totals r = totals \<and> rs_direct_cost r = Some direct \<and> rs_recommended_net_price r = Some net \<and>
    rs_gross_price r = tx_gross_price tax \<and> rs_issues r = tx_issues tax \<and> rs_input_fingerprint r = fingerprint)"
  using assms by (simp add: price_totals_def present_def Let_def pricing_result_def)

text \<open>The prices of the example for three pairs of scale and rate.\<close>

lemma example_quote_from:
  assumes "price_all (example_context scale) (example_plan_input km_rate) = Inr (example_run km_rate)"
    and "category_totals (example_lines km_rate) (effective_scale (example_policy scale)) = Inr (example_totals km_rate)"
    and "money (decimal_sum (map ln_total (example_lines km_rate))) (effective_scale (example_policy scale)) = Inr direct"
    and "money (dround (direct * (1 / 10))) (effective_scale (example_policy scale)) = Inr overhead"
    and "money (dround (dround (direct + overhead) * (1 / 20))) (effective_scale (example_policy scale)) = Inr risk"
    and "money (dround (dround (dround (direct + overhead) + risk) / dround (1 - 1 / 5))) (effective_scale (example_policy scale)) = Inr net"
    and "tax_of (example_context scale) net (effective_scale (example_policy scale)) = Inr tax" "tx_status tax = COMPLETE"
    and "tx_gross_price tax = Some gross" "tx_issues tax = []"
  shows "returns (calculate_plan_pricing digest isoformat (example_context scale) (example_plan_input km_rate)) (\<lambda>r.
    rs_status r = COMPLETE \<and> rs_cost_lines r = example_lines km_rate \<and> rs_category_totals r = example_totals km_rate \<and>
    rs_direct_cost r = Some direct \<and> rs_recommended_net_price r = Some net \<and> rs_gross_price r = Some gross \<and>
    rs_issues r = [] \<and> rs_input_fingerprint r =
      pricing_input_fingerprint digest isoformat (example_context scale) (example_plan_input km_rate))"
proof -
  have "calculate_plan_pricing digest isoformat (example_context scale) (example_plan_input km_rate) =
      price_totals (example_context scale) (example_plan_input km_rate)
        (pricing_input_fingerprint digest isoformat (example_context scale) (example_plan_input km_rate))
        (example_lines km_rate) (example_totals km_rate)"
    using assms(1,2) by (simp add: calculate_plan_pricing_def)
  then show ?thesis
    using price_totals_intro [of "example_context scale", OF _ _ _ assms(3-7)[folded example_context_policy]] assms(8-10)
    by (simp add: example_policy_def)
qed

lemma example_price_all: "price_all (example_context (Decimal 1 (- 2))) (example_plan_input (1 / 2)) = Inr (example_run (1 / 2))"
  by code_simp

lemma example_price_all_negative:
  "price_all (example_context (Decimal 1 (- 2))) (example_plan_input (- 1 / 2)) = Inr (example_run (- 1 / 2))"
  by code_simp

lemma example_price_all_fine: "price_all (example_context (Decimal 10 (- 3))) (example_plan_input (1 / 2)) = Inr (example_run (1 / 2))"
  by code_simp

lemma example_category_totals:
  "category_totals (example_lines (1 / 2)) (effective_scale (example_policy (Decimal 1 (- 2)))) = Inr (example_totals (1 / 2))"
  "category_totals (example_lines (- 1 / 2)) (effective_scale (example_policy (Decimal 1 (- 2)))) = Inr (example_totals (- 1 / 2))"
  "category_totals (example_lines (1 / 2)) (effective_scale (example_policy (Decimal 10 (- 3)))) = Inr (example_totals (1 / 2))"
  by code_simp+

definition example_tax :: "rat \<Rightarrow> rat \<Rightarrow> TaxCalculation" where
  "example_tax tax gross =
     \<lparr>tx_status = COMPLETE, tx_tax_amount = Some tax, tx_gross_price = Some gross, tx_issues = []\<rparr>"

lemmas example_quote = example_quote_from [OF example_price_all example_category_totals(1), where direct = "22663 / 100"
    and overhead = "2266 / 100" and risk = "1246 / 100" and net = "32719 / 100" and gross = "38936 / 100"
    and tax = "example_tax (6217 / 100) (38936 / 100)"]

lemmas example_quote_negative = example_quote_from [OF example_price_all_negative example_category_totals(2),
    where direct = "12663 / 100" and overhead = "1266 / 100" and risk = "696 / 100" and net = "18281 / 100"
    and gross = "21754 / 100" and tax = "example_tax (3473 / 100) (21754 / 100)"]

lemmas example_quote_fine = example_quote_from [OF example_price_all_fine example_category_totals(3), where direct = "22663 / 100"
    and overhead = "22663 / 1000" and risk = "12465 / 1000" and net = "327198 / 1000" and gross = "389366 / 1000"
    and tax = "example_tax (62168 / 1000) (389366 / 1000)"]

lemma example_price:
  obtains r where "calculate_plan_pricing digest isoformat (example_context (Decimal 1 (- 2))) (example_plan_input (1 / 2)) = Inr r"
    "rs_status r = COMPLETE" "rs_cost_lines r = example_lines (1 / 2)" "rs_direct_cost r = Some (22663 / 100)"
    "rs_recommended_net_price r = Some (32719 / 100)" "rs_issues r = []"
    "rs_input_fingerprint r =
      pricing_input_fingerprint digest isoformat (example_context (Decimal 1 (- 2))) (example_plan_input (1 / 2))"
proof -
  have "returns (calculate_plan_pricing digest isoformat (example_context (Decimal 1 (- 2))) (example_plan_input (1 / 2))) (\<lambda>r.
    rs_status r = COMPLETE \<and> rs_cost_lines r = example_lines (1 / 2) \<and> rs_category_totals r = example_totals (1 / 2) \<and>
    rs_direct_cost r = Some (22663 / 100) \<and> rs_recommended_net_price r = Some (32719 / 100) \<and>
    rs_gross_price r = Some (38936 / 100) \<and> rs_issues r = [] \<and> rs_input_fingerprint r =
      pricing_input_fingerprint digest isoformat (example_context (Decimal 1 (- 2))) (example_plan_input (1 / 2)))"
    by (rule example_quote; code_simp)
  then show ?thesis using that by (auto simp: returns_iff)
qed

theorem priced_amounts_add_up_witness:
  "returns (calculate_plan_pricing (\<lambda>_. ''digest'') (\<lambda>_. ''time'') (example_context (Decimal 1 (- 2))) (example_plan_input (1 / 2)))
     (\<lambda>r. sum_list (map ct_total (rs_category_totals r)) = 22663 / 100 \<and> sum_list (map ln_total (rs_cost_lines r)) = 22663 / 100)"
proof (rule example_price [of "\<lambda>_. ''digest''" "\<lambda>_. ''time''"])
  fix r assume r: "calculate_plan_pricing (\<lambda>_. ''digest'') (\<lambda>_. ''time'') (example_context (Decimal 1 (- 2))) (example_plan_input (1 / 2)) = Inr r"
    "rs_status r = COMPLETE" "rs_cost_lines r = example_lines (1 / 2)" "rs_direct_cost r = Some (22663 / 100)"
  have "list_all (\<lambda>l. ln_category l = VEHICLE_TRAVEL \<longrightarrow> 0 \<le> ln_total l) (rs_cost_lines r)"
    by (simp add: r(3) example_lines_def)
  with r priced_amounts_add_up [OF r(1)] show ?thesis by auto
qed

theorem sources_billed_once_witness:
  "returns (calculate_plan_pricing (\<lambda>_. ''digest'') (\<lambda>_. ''time'') (example_context (Decimal 1 (- 2))) (example_plan_input (1 / 2)))
     (\<lambda>r. distinct (map ln_cost_source_id (rs_cost_lines r)) \<and> length (rs_cost_lines r) = 4)"
proof (rule example_price [of "\<lambda>_. ''digest''" "\<lambda>_. ''time''"])
  fix r assume r: "calculate_plan_pricing (\<lambda>_. ''digest'') (\<lambda>_. ''time'') (example_context (Decimal 1 (- 2))) (example_plan_input (1 / 2)) = Inr r"
    "rs_status r = COMPLETE" "rs_cost_lines r = example_lines (1 / 2)"
  with sources_billed_once [OF r(1)] show ?thesis by (simp add: example_lines_def)
qed

theorem unclear_plans_are_not_priced_witness:
  "returns (calculate_plan_pricing (\<lambda>_. ''digest'') (\<lambda>_. ''time'') (example_context (Decimal 1 (- 2))) (example_plan_input (1 / 2)))
     (\<lambda>r. rs_issues r = [] \<and> None \<notin> set (result_amounts r))"
proof (rule example_price [of "\<lambda>_. ''digest''" "\<lambda>_. ''time''"])
  fix r assume r: "calculate_plan_pricing (\<lambda>_. ''digest'') (\<lambda>_. ''time'') (example_context (Decimal 1 (- 2))) (example_plan_input (1 / 2)) = Inr r"
    "rs_status r = COMPLETE"
  with unclear_plans_are_not_priced [OF r(1)] show ?thesis by (simp add: result_amounts_def numeral_eq_Suc) fastforce
qed

section \<open>Two gaps\<close>

text \<open>
  A negative rate per kilometre is not rejected, unlike every other negative amount of the inputs:
  the plan is COMPLETE and its travel costs are negative.
\<close>

theorem negative_km_rate_is_priced:
  "returns (calculate_plan_pricing digest isoformat (example_context (Decimal 1 (- 2))) (example_plan_input (- 1 / 2)))
     (\<lambda>r. rs_status r = COMPLETE \<and> rs_issues r = [] \<and> category_total r VEHICLE_TRAVEL = Some (- 50))"
proof -
  have "returns (calculate_plan_pricing digest isoformat (example_context (Decimal 1 (- 2))) (example_plan_input (- 1 / 2))) (\<lambda>r.
    rs_status r = COMPLETE \<and> rs_cost_lines r = example_lines (- 1 / 2) \<and> rs_category_totals r = example_totals (- 1 / 2) \<and>
    rs_direct_cost r = Some (12663 / 100) \<and> rs_recommended_net_price r = Some (18281 / 100) \<and>
    rs_gross_price r = Some (21754 / 100) \<and> rs_issues r = [] \<and> rs_input_fingerprint r =
      pricing_input_fingerprint digest isoformat (example_context (Decimal 1 (- 2))) (example_plan_input (- 1 / 2)))"
    by (rule example_quote_negative; code_simp)
  then show ?thesis by (auto simp: returns_iff category_total_def example_totals_def)
qed

text \<open>
  The fingerprint contains the money scale by value only: under a policy that rounds to three places
  (scale 0.010) the quotes reuse a result computed with two (scale 0.01), with another net price.
\<close>

theorem fingerprint_ignores_scale:
  "returns (calculate_plan_pricing digest isoformat (example_context (Decimal 1 (- 2))) (example_plan_input (1 / 2))) (\<lambda>r.
     rs_recommended_net_price r = Some (32719 / 100) \<and>
     calculate_plan_quotes digest isoformat (example_context (Decimal 10 (- 3))) [example_plan_input (1 / 2)] [r] = Inr [r]) \<and>
   returns (calculate_plan_pricing digest isoformat (example_context (Decimal 10 (- 3))) (example_plan_input (1 / 2))) (\<lambda>r.
     rs_recommended_net_price r = Some (327198 / 1000))"
proof -
  have "dvalue (Decimal 10 (- 3)) = dvalue (Decimal 1 (- 2))" by code_simp
  then have same: "pricing_input_fingerprint digest isoformat (example_context (Decimal 10 (- 3))) (example_plan_input (1 / 2)) =
      pricing_input_fingerprint digest isoformat (example_context (Decimal 1 (- 2))) (example_plan_input (1 / 2))"
    by (simp add: pricing_input_fingerprint_def canonical_context_def canonical_policy_def example_context_def example_policy_def)
  have "returns (calculate_plan_pricing digest isoformat (example_context (Decimal 10 (- 3))) (example_plan_input (1 / 2))) (\<lambda>r.
    rs_status r = COMPLETE \<and> rs_cost_lines r = example_lines (1 / 2) \<and> rs_category_totals r = example_totals (1 / 2) \<and>
    rs_direct_cost r = Some (22663 / 100) \<and> rs_recommended_net_price r = Some (327198 / 1000) \<and>
    rs_gross_price r = Some (389366 / 1000) \<and> rs_issues r = [] \<and> rs_input_fingerprint r =
      pricing_input_fingerprint digest isoformat (example_context (Decimal 10 (- 3))) (example_plan_input (1 / 2)))"
    by (rule example_quote_fine; code_simp)
  then have fine: "returns (calculate_plan_pricing digest isoformat (example_context (Decimal 10 (- 3))) (example_plan_input (1 / 2))) (\<lambda>r.
     rs_recommended_net_price r = Some (327198 / 1000))"
    by (auto simp: returns_iff)
  show ?thesis
  proof (rule example_price [of digest isoformat])
    fix r assume r: "calculate_plan_pricing digest isoformat (example_context (Decimal 1 (- 2))) (example_plan_input (1 / 2)) = Inr r"
      "rs_recommended_net_price r = Some (32719 / 100)"
      "rs_input_fingerprint r =
        pricing_input_fingerprint digest isoformat (example_context (Decimal 1 (- 2))) (example_plan_input (1 / 2))"
    have "calculate_plan_quotes digest isoformat (example_context (Decimal 10 (- 3))) [example_plan_input (1 / 2)] [r] = Inr [r]"
      by (simp add: calculate_plan_quotes_def quote_plan_def dict_by_def r(3) same)
    with r fine show ?thesis by simp
  qed
qed

end
