(* ===== verification/Json_Text.thy ===== *)
theory Json_Text
  imports Json_Values
begin

text \<open>
  The text of JSON values: \<open>print_json\<close> is \<open>json.dumps(..., ensure_ascii=False, separators=(",", ":"))\<close>,
  \<open>canonical_json\<close> sorts the keys first, \<open>loads\<close> is \<open>json.loads\<close>. Numbers with a fraction or an
  exponent are rejected (the values of this program have none, and every decoder rejects a float),
  and so are escapes of code points above 255. The parser has fuel; \<open>loads\<close> gives it twice the length
  of the text, which is enough for every text (\<open>parse_fuel\<close>).
\<close>

section \<open>Printing\<close>

definition hex_digit :: "nat \<Rightarrow> char" where
  "hex_digit d = (if d < 10 then char_of (48 + d) else char_of (87 + d))"

definition escape_char :: "char \<Rightarrow> string" where
  "escape_char c =
     (let n = (of_char c :: nat); b = CHR 0x5C in
      if n = 34 then [b, CHR 0x22] else if n = 92 then [b, b]
      else if n = 8 then [b, CHR ''b''] else if n = 12 then [b, CHR ''f'']
      else if n = 10 then [b, CHR ''n''] else if n = 13 then [b, CHR ''r''] else if n = 9 then [b, CHR ''t'']
      else if n < 32 then [b, CHR ''u'', CHR ''0'', CHR ''0'', hex_digit (n div 16), hex_digit (n mod 16)]
      else [c])"

definition quote_text :: "string \<Rightarrow> string" where
  "quote_text s = CHR 0x22 # concat (map escape_char s) @ [CHR 0x22]"

fun print_json :: "json \<Rightarrow> string" and print_members :: "(string \<times> json) list \<Rightarrow> string" and print_elems :: "json list \<Rightarrow> string" where
  "print_json JNull = ''null''"
| "print_json (JBool b) = (if b then ''true'' else ''false'')"
| "print_json (JInt n) = str_int n"
| "print_json (JString s) = quote_text s"
| "print_json (JList xs) = ''['' @ print_elems xs @ '']''"
| "print_json (JObject kvs) = ''{'' @ print_members kvs @ ''}''"
| "print_members [] = []"
| "print_members [(k, v)] = quote_text k @ '':'' @ print_json v"
| "print_members ((k, v) # kv # kvs) = quote_text k @ '':'' @ print_json v @ '','' @ print_members (kv # kvs)"
| "print_elems [] = []"
| "print_elems [x] = print_json x"
| "print_elems (x # y # xs) = print_json x @ '','' @ print_elems (y # xs)"

text \<open>\<open>sort_keys=True\<close> on every level.\<close>

fun sort_keys :: "json \<Rightarrow> json" where
  "sort_keys (JList xs) = JList (map sort_keys xs)"
| "sort_keys (JObject kvs) = JObject (sort_key fst (map (\<lambda>(k, v). (k, sort_keys v)) kvs))"
| "sort_keys j = j"

definition canonical_json :: "json \<Rightarrow> string" where
  "canonical_json j = print_json (sort_keys j)"

section \<open>Parsing\<close>

definition json_space :: "char \<Rightarrow> bool" where
  "json_space c \<longleftrightarrow> (of_char c :: nat) \<in> {32, 9, 10, 13}"

definition skip_space :: "string \<Rightarrow> string" where
  "skip_space s = dropWhile json_space s"

definition hex_value :: "char \<Rightarrow> nat option" where
  "hex_value c =
     (let n = (of_char c :: nat) in
      if 48 \<le> n \<and> n \<le> 57 then Some (n - 48)
      else if 97 \<le> n \<and> n \<le> 102 then Some (n - 87)
      else if 65 \<le> n \<and> n \<le> 70 then Some (n - 55) else None)"

definition hex4 :: "char \<Rightarrow> char \<Rightarrow> char \<Rightarrow> char \<Rightarrow> nat option" where
  "hex4 a b c d = (case (hex_value a, hex_value b, hex_value c, hex_value d) of
     (Some w, Some x, Some y, Some z) \<Rightarrow> Some (((w * 16 + x) * 16 + y) * 16 + z) | _ \<Rightarrow> None)"

definition unescape :: "char \<Rightarrow> char option" where
  "unescape e =
     (if (of_char e :: nat) \<in> {34, 92, 47} then Some e
      else if e = CHR ''b'' then Some (char_of (8 :: nat)) else if e = CHR ''f'' then Some (char_of (12 :: nat))
      else if e = CHR ''n'' then Some (char_of (10 :: nat)) else if e = CHR ''r'' then Some (char_of (13 :: nat))
      else if e = CHR ''t'' then Some (char_of (9 :: nat)) else None)"

definition cons_text :: "char \<Rightarrow> (string \<times> string) option \<Rightarrow> (string \<times> string) option" where
  "cons_text c r = map_option (\<lambda>(t, s). (c # t, s)) r"

text \<open>The rest of a string after its opening quote.\<close>

function parse_text :: "string \<Rightarrow> (string \<times> string) option" where
  "parse_text s = (case s of
     [] \<Rightarrow> None
   | c # r \<Rightarrow>
       if c = CHR 0x22 then Some ([], r)
       else if c = CHR 0x5C then
         (case r of
            [] \<Rightarrow> None
          | e # r' \<Rightarrow>
              if e = CHR ''u'' then
                (case r' of
                   h1 # h2 # h3 # h4 # r'' \<Rightarrow>
                     (case hex4 h1 h2 h3 h4 of
                        Some n \<Rightarrow> if n < 256 then cons_text (char_of n) (parse_text r'') else None
                      | None \<Rightarrow> None)
                 | _ \<Rightarrow> None)
              else (case unescape e of Some c' \<Rightarrow> cons_text c' (parse_text r') | None \<Rightarrow> None))
       else if (of_char c :: nat) < 32 then None
       else cons_text c (parse_text r))"
  by pat_completeness auto

termination
  by (relation "measure length") auto

declare parse_text.simps [simp del]

definition is_digit :: "char \<Rightarrow> bool" where
  "is_digit c \<longleftrightarrow> (let n = (of_char c :: nat) in 48 \<le> n \<and> n \<le> 57)"

text \<open>An integer: no leading zeros.\<close>

definition parse_digits :: "string \<Rightarrow> (nat \<times> string) option" where
  "parse_digits s =
     (let ds = takeWhile is_digit s in
      if ds = [] then None
      else if hd ds = CHR ''0'' then Some (0, tl s)
      else Some (digits_value ds, dropWhile is_digit s))"

definition parse_number :: "string \<Rightarrow> (json \<times> string) option" where
  "parse_number s =
     (case s of
        c # r \<Rightarrow> if c = CHR ''-'' then map_option (\<lambda>(n, r). (JInt (- int n), r)) (parse_digits r)
                else map_option (\<lambda>(n, r). (JInt (int n), r)) (parse_digits s)
      | [] \<Rightarrow> None)"

definition strip_prefix :: "string \<Rightarrow> string \<Rightarrow> string option" where
  "strip_prefix p s = (if take (length p) s = p then Some (drop (length p) s) else None)"

text \<open>\<open>null\<close>, \<open>true\<close>, \<open>false\<close> or a number.\<close>

definition parse_word :: "string \<Rightarrow> (json \<times> string) option" where
  "parse_word s =
     (case strip_prefix ''null'' s of Some r \<Rightarrow> Some (JNull, r) | None \<Rightarrow>
     (case strip_prefix ''true'' s of Some r \<Rightarrow> Some (JBool True, r) | None \<Rightarrow>
     (case strip_prefix ''false'' s of Some r \<Rightarrow> Some (JBool False, r) | None \<Rightarrow> parse_number s)))"

text \<open>\<open>dict(pairs)\<close>: a repeated key keeps its first position and its last value.\<close>

fun dict_put :: "string \<Rightarrow> json \<Rightarrow> (string \<times> json) list \<Rightarrow> (string \<times> json) list" where
  "dict_put k v [] = [(k, v)]"
| "dict_put k v ((k', v') # kvs) = (if k' = k then (k, v) # kvs else (k', v') # dict_put k v kvs)"

definition dict_pairs :: "(string \<times> json) list \<Rightarrow> (string \<times> json) list" where
  "dict_pairs kvs = foldl (\<lambda>d (k, v). dict_put k v d) [] kvs"

fun parse_value :: "nat \<Rightarrow> string \<Rightarrow> (json \<times> string) option"
  and parse_elems :: "nat \<Rightarrow> string \<Rightarrow> (json list \<times> string) option"
  and parse_members :: "nat \<Rightarrow> string \<Rightarrow> ((string \<times> json) list \<times> string) option" where
  "parse_value 0 s = None"
| "parse_value (Suc n) s = (case s of
     [] \<Rightarrow> None
   | c # r \<Rightarrow>
       if c = CHR 0x22 then map_option (\<lambda>(t, r). (JString t, r)) (parse_text r)
       else if c = CHR ''['' then
         (let r = skip_space r in
          if take 1 r = '']'' then Some (JList [], tl r)
          else map_option (\<lambda>(xs, r). (JList xs, r)) (parse_elems n r))
       else if c = CHR ''{'' then
         (let r = skip_space r in
          if take 1 r = ''}'' then Some (JObject [], tl r)
          else map_option (\<lambda>(kvs, r). (JObject (dict_pairs kvs), r)) (parse_members n r))
       else parse_word s)"
| "parse_elems 0 s = None"
| "parse_elems (Suc n) s = (case parse_value n s of
     None \<Rightarrow> None
   | Some (x, r) \<Rightarrow>
       (case skip_space r of
          [] \<Rightarrow> None
        | c # r \<Rightarrow>
            if c = CHR '']'' then Some ([x], r)
            else if c = CHR '','' then map_option (\<lambda>(xs, r). (x # xs, r)) (parse_elems n (skip_space r))
            else None))"
| "parse_members 0 s = None"
| "parse_members (Suc n) s = (case s of
     [] \<Rightarrow> None
   | q # r \<Rightarrow>
       if q \<noteq> CHR 0x22 then None
       else (case parse_text r of
          None \<Rightarrow> None
        | Some (k, r) \<Rightarrow>
            (case skip_space r of
               [] \<Rightarrow> None
             | c # r \<Rightarrow>
                 if c \<noteq> CHR '':'' then None
                 else (case parse_value n (skip_space r) of
                    None \<Rightarrow> None
                  | Some (v, r) \<Rightarrow>
                      (case skip_space r of
                         [] \<Rightarrow> None
                       | c # r \<Rightarrow>
                           if c = CHR ''}'' then Some ([(k, v)], r)
                           else if c = CHR '','' then map_option (\<lambda>(kvs, r). ((k, v) # kvs, r)) (parse_members n (skip_space r))
                           else None)))))"

definition loads :: "string \<Rightarrow> json option" where
  "loads raw =
     (case parse_value (2 * length raw + 1) (skip_space raw) of
        Some (v, r) \<Rightarrow> if skip_space r = [] then Some v else None
      | None \<Rightarrow> None)"

end
