(* ===== verification/Json_Round_Trip.thy ===== *)
theory Json_Round_Trip
  imports Json_Text
begin

text \<open>
  Reading what was printed: \<open>loads\<close> inverts \<open>print_json\<close> on every value whose objects have distinct
  keys, and its fuel is enough for every text.
\<close>

section \<open>The fuel\<close>

lemma length_skip_space: "length (skip_space s) \<le> length s"
  by (simp add: skip_space_def length_dropWhile_le)

lemma parse_text_shorter: "parse_text s = Some (t, r) \<Longrightarrow> length r < length s"
proof (induction s arbitrary: t r rule: parse_text.induct)
  case (1 s)
  show ?case
  proof (cases s)
    case Nil
    with 1(4) show ?thesis by (subst (asm) parse_text.simps) simp
  next
    case (Cons c r')
    show ?thesis
      using 1(4) 1(1) [OF Cons] 1(2) [OF Cons] 1(3) [OF Cons]
      by (subst (asm) parse_text.simps)
        (fastforce simp: Cons cons_text_def split: if_splits list.splits option.splits prod.splits)
  qed
qed

lemma strip_prefix_shorter: "strip_prefix p s = Some r \<Longrightarrow> p \<noteq> [] \<Longrightarrow> length r < length s"
  by (cases s) (auto simp: strip_prefix_def split: if_splits)

lemma parse_digits_shorter: "parse_digits s = Some (n, r) \<Longrightarrow> length r < length s"
proof -
  assume p: "parse_digits s = Some (n, r)"
  then have ne: "takeWhile is_digit s \<noteq> []" by (auto simp: parse_digits_def Let_def split: if_splits)
  then have "s \<noteq> []" by auto
  have "length s = length (takeWhile is_digit s) + length (dropWhile is_digit s)"
    by (metis length_append takeWhile_dropWhile_id)
  with ne have "length (dropWhile is_digit s) < length s" by simp
  with p \<open>s \<noteq> []\<close> show ?thesis by (auto simp: parse_digits_def Let_def split: if_splits)
qed

lemma parse_word_shorter: "parse_word s = Some (j, r) \<Longrightarrow> length r < length s"
  by (auto simp: parse_word_def parse_number_def dest!: strip_prefix_shorter parse_digits_shorter
      split: option.splits list.splits if_splits)

lemma parse_shorter:
  "parse_value n s = Some (j, r) \<Longrightarrow> length r < length s"
  "parse_elems n s = Some (xs, r) \<Longrightarrow> length r < length s"
  "parse_members n s = Some (kvs, r) \<Longrightarrow> length r < length s"
proof (induction n s and n s and n s arbitrary: j r and xs r and kvs r rule: parse_value_parse_elems_parse_members.induct)
  case (2 n s)
  show ?case
  proof (cases s)
    case (Cons c t)
    note le = length_skip_space [of t]
    have val: "parse_value (Suc n) (c # t) = Some (j, r)" using 2(3) Cons by simp
    have elems: "length r' < length s" if "parse_elems n (skip_space t) = Some (xs, r')" "c = CHR ''[''" "take 1 (skip_space t) \<noteq> '']''" for xs r'
      using 2(1) [OF Cons _ that(2) refl _ that(1)] that(2,3) le by (simp add: Cons)
    have members: "length r' < length s" if "parse_members n (skip_space t) = Some (kvs, r')" "c = CHR ''{''" "take 1 (skip_space t) \<noteq> ''}''" for kvs r'
      using 2(2) [OF Cons _ _ that(2) refl _ that(1)] that(2,3) le by (simp add: Cons)
    have tl: "length (tl (skip_space t)) < length s" using le by (simp add: Cons)
    show ?thesis
    proof (cases "c = CHR 0x22")
      case True
      with val show ?thesis using parse_text_shorter [of t] by (auto simp: Cons)
    next
      case q: False
      show ?thesis
      proof (cases "c = CHR ''[''")
        case True
        with val tl elems show ?thesis by (auto simp: Let_def split: if_splits)
      next
        case b: False
        show ?thesis
        proof (cases "c = CHR ''{''")
          case True
          with val tl members show ?thesis by (auto simp: Let_def split: if_splits)
        next
          case False
          with q b val have "parse_word (c # t) = Some (j, r)" by simp
          then show ?thesis unfolding Cons by (rule parse_word_shorter)
        qed
      qed
    qed
  qed (use 2 in simp)
next
  case (4 n s)
  then obtain x r1 c r2 where val: "parse_value n s = Some (x, r1)" and sp: "skip_space r1 = c # r2"
    and rest: "r = r2 \<or> (\<exists>ys. c \<noteq> CHR '']'' \<and> c = CHR '','' \<and> parse_elems n (skip_space r2) = Some (ys, r))"
    by (auto split: option.splits list.splits if_splits)
  have "length r1 < length s" using 4(1) val by blast
  moreover have "length r2 < length r1" using length_skip_space [of r1] sp by simp
  moreover have "length r \<le> length r2"
    using rest 4(2) [OF val refl sp] length_skip_space [of r2] by fastforce
  ultimately show ?case by linarith
next
  case (6 n s)
  then obtain q t k r0 c r1 v r2 c' r3 where s: "s = q # t" and tx: "parse_text t = Some (k, r0)" and q: "q = CHR 0x22"
    and colon: "skip_space r0 = c # r1" "c = CHR '':''" and val: "parse_value n (skip_space r1) = Some (v, r2)"
    and sp: "skip_space r2 = c' # r3"
    and rest: "r = r3 \<or> (\<exists>ys. c' \<noteq> CHR ''}'' \<and> c' = CHR '','' \<and> parse_members n (skip_space r3) = Some (ys, r))"
    by (auto split: option.splits list.splits if_splits)
  have "length r0 < length s" using parse_text_shorter [OF tx] s by simp
  moreover have "length r1 < length r0" using length_skip_space [of r0] colon by simp
  moreover have "length r2 < length (skip_space r1)" using 6(1) [OF s] q tx colon val by simp
  moreover have "length r3 < length r2" using length_skip_space [of r2] sp by simp
  moreover have "length r \<le> length r3"
    using rest 6(2) [OF s _ tx refl colon(1) _ val refl sp] q colon length_skip_space [of r3] by fastforce
  ultimately show ?case using length_skip_space [of r1] by linarith
qed simp_all

text \<open>Any two amounts of fuel beyond the length of the text give the same result.\<close>

lemma parse_fuel:
  "(\<forall>n m. 2 * length s + 1 \<le> n \<longrightarrow> 2 * length s + 1 \<le> m \<longrightarrow> parse_value n s = parse_value m s) \<and>
   (\<forall>n m. 2 * length s + 2 \<le> n \<longrightarrow> 2 * length s + 2 \<le> m \<longrightarrow> parse_elems n s = parse_elems m s) \<and>
   (\<forall>n m. 2 * length s + 2 \<le> n \<longrightarrow> 2 * length s + 2 \<le> m \<longrightarrow> parse_members n s = parse_members m s)"
proof (induction s rule: length_induct)
  case (1 s)
  have of_value: "parse_value n s = parse_value m s" if n: "2 * length s + 1 \<le> n" and m: "2 * length s + 1 \<le> m" for n m
  proof -
    obtain n' m' where nm: "n = Suc n'" "m = Suc m'" using n m by (cases n; cases m) auto
    show ?thesis
    proof (cases s)
      case (Cons c t)
      have le: "length (skip_space t) < length s" using length_skip_space [of t] Cons by simp
      have f: "2 * length (skip_space t) + 2 \<le> n'" "2 * length (skip_space t) + 2 \<le> m'"
        using n m nm length_skip_space [of t] by (simp_all add: Cons)
      have "parse_elems n' (skip_space t) = parse_elems m' (skip_space t)"
        "parse_members n' (skip_space t) = parse_members m' (skip_space t)"
        using 1 le f by blast+
      then show ?thesis by (simp add: nm Cons Let_def)
    qed (simp add: nm)
  qed
  have later: "parse_elems n' (skip_space r) = parse_elems m' (skip_space r) \<and> parse_members n' (skip_space r) = parse_members m' (skip_space r) \<and>
    parse_value n' (skip_space r) = parse_value m' (skip_space r)"
    if r: "length r < length s" and n: "2 * length s + 1 \<le> n'" and m: "2 * length s + 1 \<le> m'" for r n' m'
  proof -
    let ?r = "skip_space r"
    have len: "length ?r < length s" using r length_skip_space [of r] by linarith
    then have "2 * length ?r + 2 \<le> n'" "2 * length ?r + 2 \<le> m'" "2 * length ?r + 1 \<le> n'" "2 * length ?r + 1 \<le> m'"
      using n m by linarith+
    then show ?thesis using 1 len by blast
  qed
  have of_elems: "parse_elems n s = parse_elems m s" if n: "2 * length s + 2 \<le> n" and m: "2 * length s + 2 \<le> m" for n m
  proof -
    obtain n' m' where nm: "n = Suc n'" "m = Suc m'" using n m by (cases n; cases m) auto
    have f: "2 * length s + 1 \<le> n'" "2 * length s + 1 \<le> m'" using n m nm by simp_all
    show ?thesis
    proof (cases "parse_value m' s")
      case (Some xr)
      obtain x r1 where xr: "xr = (x, r1)" by (cases xr)
      have "length r1 < length s" using Some xr parse_shorter(1) by blast
      then have "parse_elems n' (skip_space r2) = parse_elems m' (skip_space r2)" if "skip_space r1 = c # r2" for c r2
        using later [OF _ f, of r2] that length_skip_space [of r1] by simp
      then show ?thesis using Some xr of_value [OF f] by (simp add: nm split: list.splits)
    qed (simp add: nm of_value [OF f])
  qed
  have of_members: "parse_members n s = parse_members m s" if n: "2 * length s + 2 \<le> n" and m: "2 * length s + 2 \<le> m" for n m
  proof -
    obtain n' m' where nm: "n = Suc n'" "m = Suc m'" using n m by (cases n; cases m) auto
    have f: "2 * length s + 1 \<le> n'" "2 * length s + 1 \<le> m'" using n m nm by simp_all
    have v: "parse_value n' (skip_space r1) = parse_value m' (skip_space r1)"
      and k: "parse_value m' (skip_space r1) = Some (x, r2) \<Longrightarrow> skip_space r2 = c' # r3 \<Longrightarrow>
        parse_members n' (skip_space r3) = parse_members m' (skip_space r3)"
      if "s = q # t" "parse_text t = Some (key, r0)" "skip_space r0 = c # r1" for q t key r0 c r1 x r2 c' r3
    proof -
      have r1: "length r1 < length s"
        using that parse_text_shorter [of t] length_skip_space [of r0] by fastforce
      then show "parse_value n' (skip_space r1) = parse_value m' (skip_space r1)" using later [OF _ f] by blast
      show "parse_members n' (skip_space r3) = parse_members m' (skip_space r3)"
        if "parse_value m' (skip_space r1) = Some (x, r2)" "skip_space r2 = c' # r3"
        using later [OF _ f, of r3] r1 that parse_shorter(1) [OF that(1)] length_skip_space [of r1] length_skip_space [of r2] by simp
    qed
    show ?thesis using v k by (simp add: nm split: list.splits option.splits prod.splits)
  qed
  show ?case using of_value of_elems of_members by blast
qed

section \<open>Scalars\<close>

lemma of_char_char_of [simp]: "n < 256 \<Longrightarrow> (of_char (char_of n) :: nat) = n"
  by simp

lemma hex_value_digit: "d < 16 \<Longrightarrow> hex_value (hex_digit d) = Some d"
  by (auto simp: hex_value_def hex_digit_def Let_def)

lemma hex4_digits:
  assumes "n < 256"
  shows "hex4 (CHR ''0'') (CHR ''0'') (hex_digit (n div 16)) (hex_digit (n mod 16)) = Some n"
proof -
  have "hex_value (CHR ''0'') = Some 0" by (simp add: hex_value_def Let_def)
  then show ?thesis using assms by (simp add: hex4_def hex_value_digit)
qed

lemma special_chars:
  "char_of (34 :: nat) = CHR 0x22" "char_of (92 :: nat) = CHR 0x5C" "char_of (8 :: nat) = CHR 0x08" "char_of (12 :: nat) = CHR 0x0C"
  "char_of (10 :: nat) = CHR 0x0A" "char_of (13 :: nat) = CHR 0x0D" "char_of (9 :: nat) = CHR 0x09" "char_of (48 :: nat) = CHR ''0''"
  by code_simp+

lemma parse_escape_special:
  assumes "c \<in> {CHR 0x22, CHR 0x5C, CHR 0x08, CHR 0x0C, CHR 0x0A, CHR 0x0D, CHR 0x09}"
  shows "parse_text (escape_char c @ s) = cons_text c (parse_text s)"
  using assms by (elim insertE emptyE; simp add: escape_char_def Let_def;
    subst parse_text.simps; simp add: unescape_def special_chars)

lemma parse_escape:
  "parse_text (escape_char c @ s) = cons_text c (parse_text s)"
proof -
  let ?n = "of_char c :: nat"
  have c: "char_of ?n = c" "?n < 256" by simp_all
  have special: "c \<in> {CHR 0x22, CHR 0x5C, CHR 0x08, CHR 0x0C, CHR 0x0A, CHR 0x0D, CHR 0x09}"
    if "?n \<in> {34, 92, 8, 12, 10, 13, 9}"
    using that c(1) special_chars by (elim insertE emptyE) simp_all
  consider (special) "?n \<in> {34, 92, 8, 12, 10, 13, 9}"
    | (control) "?n < 32" "?n \<notin> {34, 92, 8, 9, 10, 12, 13}" | (plain) "32 \<le> ?n" "?n \<notin> {34, 92}" by fastforce
  then show ?thesis
  proof cases
    case special
    with parse_escape_special \<open>?n \<in> _ \<Longrightarrow> c \<in> _\<close> show ?thesis by blast
  next
    case control
    then show ?thesis using c hex4_digits [OF c(2)]
      by (subst parse_text.simps) (simp add: escape_char_def Let_def)
  next
    case plain
    then have "c \<noteq> CHR 0x22" "c \<noteq> CHR 0x5C" by auto
    with plain show ?thesis by (subst parse_text.simps) (simp add: escape_char_def Let_def)
  qed
qed

lemma parse_quoted: "parse_text (concat (map escape_char t) @ CHR 0x22 # s) = Some (t, s)"
proof (induction t)
  case Nil
  show ?case by (subst parse_text.simps) simp
next
  case (Cons c t)
  then show ?case by (simp add: parse_escape cons_text_def)
qed

text \<open>A rest that does not continue a number.\<close>

definition ends_number :: "string \<Rightarrow> bool" where
  "ends_number r \<longleftrightarrow> (case r of [] \<Rightarrow> True | c # _ \<Rightarrow> \<not> is_digit c)"

lemma digit_chars: "n < 10 \<Longrightarrow> is_digit (char_of (48 + n :: nat))"
  by (simp add: is_digit_def Let_def)

lemma nat_digits_digits: "\<forall>c\<in>set (nat_digits n). is_digit c"
  by (induction n rule: nat_digits.induct) (subst nat_digits.simps, auto simp: digit_chars)

lemma nat_digits_ne [simp]: "nat_digits n \<noteq> []"
  by (subst nat_digits.simps) simp

lemma nat_digits_hd: "hd (nat_digits n) = CHR ''0'' \<Longrightarrow> n = 0"
proof (induction n rule: nat_digits.induct)
  case (1 n)
  show ?case
  proof (cases "n < 10")
    case True
    with 1(2) have "char_of (48 + n) = CHR ''0''" by (subst (asm) nat_digits.simps) simp
    then have "(of_char (char_of (48 + n) :: char) :: nat) = of_char (CHR ''0'')" by simp
    with True show ?thesis by simp
  next
    case False
    with 1(2) have "hd (nat_digits (n div 10)) = CHR ''0''" by (subst (asm) nat_digits.simps) simp
    with 1(1) False have "n div 10 = 0" by blast
    with False show ?thesis by simp
  qed
qed

lemma takeWhile_digits:
  assumes "ends_number r"
  shows "takeWhile is_digit (nat_digits n @ r) = nat_digits n" "dropWhile is_digit (nat_digits n @ r) = r"
proof -
  have "takeWhile is_digit r = []" "dropWhile is_digit r = r"
    using assms by (cases r; simp add: ends_number_def)+
  then show "takeWhile is_digit (nat_digits n @ r) = nat_digits n" "dropWhile is_digit (nat_digits n @ r) = r"
    using nat_digits_digits [of n] by (simp_all add: takeWhile_append2 dropWhile_append2)
qed

lemma parse_nat: "ends_number r \<Longrightarrow> parse_digits (nat_digits n @ r) = Some (n, r)"
proof (cases "n = 0")
  case True
  assume "ends_number r"
  moreover have "nat_digits 0 = ''0''" by (subst nat_digits.simps) (simp add: special_chars)
  ultimately show ?thesis using True takeWhile_digits [of r 0] by (simp add: parse_digits_def Let_def)
next
  case False
  assume "ends_number r"
  with False show ?thesis using nat_digits_hd [of n] takeWhile_digits [of r n]
    by (auto simp: parse_digits_def Let_def)
qed

lemma digit_head: "\<exists>c t. nat_digits n = c # t \<and> is_digit c"
  using nat_digits_digits [of n] by (cases "nat_digits n") auto

lemma str_int_head: "\<exists>c t. str_int n = c # t \<and> (is_digit c \<or> c = CHR ''-'')"
  using digit_head [of "nat n"] by (auto simp: str_int_def)

lemma parse_int:
  assumes "ends_number r" shows "parse_word (str_int n @ r) = Some (JInt n, r)"
proof -
  obtain c t where ct: "str_int n @ r = c # t" "is_digit c \<or> c = CHR ''-''"
    using str_int_head [of n] by auto
  then have "c \<notin> {CHR ''n'', CHR ''t'', CHR ''f''}" by (auto simp: is_digit_def)
  then have word: "parse_word (str_int n @ r) = parse_number (str_int n @ r)"
    by (simp add: parse_word_def strip_prefix_def ct(1))
  show ?thesis
  proof (cases "n < 0")
    case True
    then show ?thesis unfolding word using parse_nat [OF assms] by (simp add: parse_number_def str_int_def)
  next
    case False
    moreover obtain c t where "nat_digits (nat n) = c # t" "is_digit c" using digit_head by blast
    moreover from this have "c \<noteq> CHR ''-''" by (auto simp: is_digit_def)
    ultimately show ?thesis unfolding word using parse_nat [OF assms, of "nat n"] by (simp add: parse_number_def str_int_def)
  qed
qed

section \<open>Values\<close>

text \<open>Objects have distinct keys on every level, as a dict has.\<close>

fun keys_distinct :: "json \<Rightarrow> bool" where
  "keys_distinct (JList xs) = (\<forall>x\<in>set xs. keys_distinct x)"
| "keys_distinct (JObject kvs) = (distinct (map fst kvs) \<and> (\<forall>kv\<in>set kvs. keys_distinct (snd kv)))"
| "keys_distinct j = True"

lemma dict_put_new: "k \<notin> fst ` set d \<Longrightarrow> dict_put k v d = d @ [(k, v)]"
  by (induction k v d rule: dict_put.induct) auto

lemma dict_pairs_distinct:
  "distinct (map fst (d @ kvs)) \<Longrightarrow> foldl (\<lambda>d (k, v). dict_put k v d) d kvs = d @ kvs"
proof (induction kvs arbitrary: d)
  case (Cons kv kvs)
  obtain k v where kv: "kv = (k, v)" by (cases kv)
  have "k \<notin> fst ` set d" using Cons.prems by (auto simp: kv)
  then show ?case using Cons.IH [of "d @ [(k, v)]"] Cons.prems by (simp add: kv dict_put_new)
qed simp

lemma skip_space_quote: "skip_space (CHR 0x22 # s) = CHR 0x22 # s"
  by (simp add: skip_space_def json_space_def)

lemma print_head:
  "\<exists>c t. print_json j = c # t \<and> \<not> json_space c \<and> c \<noteq> CHR '']'' \<and> c \<noteq> CHR ''}''"
proof (cases j)
  case (JInt n)
  obtain c t where "str_int n = c # t" "is_digit c \<or> c = CHR ''-''" using str_int_head [of n] by auto
  with JInt show ?thesis by (auto simp: is_digit_def json_space_def Let_def)
qed (auto simp: json_space_def quote_text_def)

lemma skip_space_print: "skip_space (print_json j @ s) = print_json j @ s"
  using print_head [of j] by (auto simp: skip_space_def)

lemma print_elems_head: "xs \<noteq> [] \<Longrightarrow> \<exists>j s. print_elems xs = print_json j @ s"
  by (cases xs rule: print_elems.cases) auto

lemma print_members_head: "kvs \<noteq> [] \<Longrightarrow> \<exists>s. print_members kvs = CHR 0x22 # s"
  by (cases kvs rule: print_members.cases) (auto simp: quote_text_def)

lemma skip_space_elems: "xs \<noteq> [] \<Longrightarrow> skip_space (print_elems xs @ s) = print_elems xs @ s"
  using print_elems_head [of xs] skip_space_print by fastforce

lemma skip_space_members: "kvs \<noteq> [] \<Longrightarrow> skip_space (print_members kvs @ s) = print_members kvs @ s"
  using print_members_head [of kvs] skip_space_quote by fastforce

lemma skip_space_punct: "c \<in> {CHR '','', CHR '':'', CHR '']'', CHR ''}''} \<Longrightarrow> skip_space (c # s) = c # s"
  by (auto simp: skip_space_def json_space_def)

lemma parse_quote: "parse_text (tl (quote_text k) @ s) = Some (k, s)" "quote_text k = CHR 0x22 # tl (quote_text k)"
  using parse_quoted by (simp_all add: quote_text_def)

text \<open>With enough fuel, the parser reads back what was printed and leaves the rest.\<close>

definition eventually_reads :: "(nat \<Rightarrow> ('a \<times> string) option) \<Rightarrow> 'a \<Rightarrow> string \<Rightarrow> bool" where
  "eventually_reads p x r \<longleftrightarrow> (\<exists>N. \<forall>n\<ge>N. p n = Some (x, r))"

lemma eventually_readsI: "(\<And>n. N \<le> n \<Longrightarrow> p (Suc n) = Some (x, r)) \<Longrightarrow> eventually_reads p x r"
  unfolding eventually_reads_def by (rule exI [of _ "Suc N"]) (metis Suc_le_D Suc_le_mono)

lemma print_parse:
  "keys_distinct j \<Longrightarrow> ends_number r \<Longrightarrow> eventually_reads (\<lambda>n. parse_value n (print_json j @ r)) j r"
  "kvs \<noteq> [] \<Longrightarrow> \<forall>kv\<in>set kvs. keys_distinct (snd kv) \<Longrightarrow>
     eventually_reads (\<lambda>n. parse_members n (print_members kvs @ CHR ''}'' # r)) kvs r"
  "xs \<noteq> [] \<Longrightarrow> \<forall>x\<in>set xs. keys_distinct x \<Longrightarrow>
     eventually_reads (\<lambda>n. parse_elems n (print_elems xs @ CHR '']'' # r)) xs r"
proof (induction j and kvs and xs arbitrary: r and r and r rule: print_json_print_members_print_elems.induct)
  case 1
  show ?case by (rule eventually_readsI [of 0]) (simp add: parse_word_def strip_prefix_def)
next
  case (2 b)
  show ?case by (rule eventually_readsI [of 0]) (simp add: parse_word_def strip_prefix_def)
next
  case (3 n)
  obtain c t where ct: "str_int n = c # t" "is_digit c \<or> c = CHR ''-''" using str_int_head [of n] by auto
  then have "c \<notin> {CHR 0x22, CHR ''['', CHR ''{''}" by (auto simp: is_digit_def)
  with ct(1) parse_int [OF 3(2), of n] show ?case by (intro eventually_readsI [of 0]) simp
next
  case (4 s)
  show ?case using parse_quote(1) [of s r] by (intro eventually_readsI [of 0]) (subst print_json.simps, subst parse_quote(2), simp)
next
  case (5 xs)
  show ?case
  proof (cases "xs = []")
    case True
    then show ?thesis by (intro eventually_readsI [of 0]) (simp add: skip_space_punct)
  next
    case False
    then obtain j s where h: "print_elems xs = print_json j @ s" using print_elems_head by blast
    obtain N where "\<forall>n\<ge>N. parse_elems n (print_elems xs @ CHR '']'' # r) = Some (xs, r)"
      using 5(1) [of r] 5(2) False by (auto simp: eventually_reads_def)
    moreover have "take 1 (print_elems xs @ CHR '']'' # r) \<noteq> '']''" using h print_head [of j] by auto
    ultimately show ?thesis using False
      by (intro eventually_readsI [of N]) (simp add: skip_space_elems Let_def)
  qed
next
  case (6 kvs)
  show ?case
  proof (cases "kvs = []")
    case True
    then show ?thesis by (intro eventually_readsI [of 0]) (simp add: skip_space_punct)
  next
    case False
    then obtain s where h: "print_members kvs = CHR 0x22 # s" using print_members_head by blast
    obtain N where "\<forall>n\<ge>N. parse_members n (print_members kvs @ CHR ''}'' # r) = Some (kvs, r)"
      using 6(1) [of r] 6(2) False by (auto simp: eventually_reads_def)
    moreover have "take 1 (print_members kvs @ CHR ''}'' # r) \<noteq> ''}''" using h by simp
    moreover have "dict_pairs kvs = kvs" using dict_pairs_distinct [of "[]" kvs] 6(2) by (simp add: dict_pairs_def)
    ultimately show ?thesis using False
      by (intro eventually_readsI [of N]) (simp add: skip_space_members Let_def)
  qed
next
  case (8 k v)
  have "ends_number (CHR ''}'' # r)" by (simp add: ends_number_def is_digit_def)
  then obtain N where "\<forall>n\<ge>N. parse_value n (print_json v @ CHR ''}'' # r) = Some (v, CHR ''}'' # r)"
    using 8(1) [of "CHR ''}'' # r"] 8(3) by (auto simp: eventually_reads_def)
  then show ?case
    using parse_quote(1) [of k "'':'' @ print_json v @ CHR ''}'' # r"]
    by (intro eventually_readsI [of N])
      (subst print_members.simps, subst parse_quote(2), simp add: skip_space_punct skip_space_print)
next
  case (9 k v kv kvs)
  have "ends_number (CHR '','' # s)" for s by (simp add: ends_number_def is_digit_def)
  then obtain N where "\<forall>n\<ge>N. parse_value n (print_json v @ '','' @ print_members (kv # kvs) @ CHR ''}'' # r) =
      Some (v, '','' @ print_members (kv # kvs) @ CHR ''}'' # r)"
    using 9(1) [of "'','' @ print_members (kv # kvs) @ CHR ''}'' # r"] 9(4) by (auto simp: eventually_reads_def)
  moreover obtain M where "\<forall>n\<ge>M. parse_members n (print_members (kv # kvs) @ CHR ''}'' # r) = Some (kv # kvs, r)"
    using 9(2) [of r] 9(4) by (auto simp: eventually_reads_def)
  ultimately show ?case
    using parse_quote(1) [of k "'':'' @ print_json v @ '','' @ print_members (kv # kvs) @ CHR ''}'' # r"]
    by (intro eventually_readsI [of "max N M"])
      (subst print_members.simps, subst parse_quote(2), simp add: skip_space_punct skip_space_print skip_space_members)
next
  case (11 x)
  have "ends_number (CHR '']'' # r)" by (simp add: ends_number_def is_digit_def)
  then obtain N where "\<forall>n\<ge>N. parse_value n (print_json x @ CHR '']'' # r) = Some (x, CHR '']'' # r)"
    using 11(1) [of "CHR '']'' # r"] 11(3) by (auto simp: eventually_reads_def)
  then show ?case by (intro eventually_readsI [of N]) (simp add: skip_space_punct)
next
  case (12 x y xs)
  have "ends_number (CHR '','' # s)" for s by (simp add: ends_number_def is_digit_def)
  then obtain N where "\<forall>n\<ge>N. parse_value n (print_json x @ '','' @ print_elems (y # xs) @ CHR '']'' # r) =
      Some (x, '','' @ print_elems (y # xs) @ CHR '']'' # r)"
    using 12(1) [of "'','' @ print_elems (y # xs) @ CHR '']'' # r"] 12(4) by (auto simp: eventually_reads_def)
  moreover obtain M where "\<forall>n\<ge>M. parse_elems n (print_elems (y # xs) @ CHR '']'' # r) = Some (y # xs, r)"
    using 12(2) [of r] 12(4) by (auto simp: eventually_reads_def)
  ultimately show ?case
    by (intro eventually_readsI [of "max N M"]) (simp add: skip_space_punct skip_space_elems)
qed simp_all

theorem loads_print: "keys_distinct j \<Longrightarrow> loads (print_json j) = Some j"
proof -
  assume "keys_distinct j"
  then obtain N where N: "\<forall>n\<ge>N. parse_value n (print_json j) = Some (j, [])"
    using print_parse(1) [of j "[]"] by (auto simp: eventually_reads_def ends_number_def)
  have "parse_value (2 * length (print_json j) + 1) (print_json j) =
      parse_value (max N (2 * length (print_json j) + 1)) (print_json j)"
    using parse_fuel [of "print_json j"] by auto
  then have "parse_value (2 * length (print_json j) + 1) (print_json j) = Some (j, [])" using N by simp
  then show ?thesis using skip_space_print [of j "[]"] by (simp add: loads_def skip_space_def)
qed

end
