(* ===== verification/Field_Types.thy ===== *)
theory Field_Types
  imports Field_Invariant
begin

text \<open>
  Constructors of the M2 values return well-typed values: what \<open>X_init\<close> makes of any arguments, it
  leaves alone when it is run on it again, as every \<open>dataclasses.replace\<close> of the code does.
\<close>

lemma optionally_nonblank_Inr [simp]:
  "optionally (\<lambda>v. nonblank v n) a = Inr b \<longleftrightarrow> b = map_option strip a \<and> (\<forall>s\<in>set_option a. strip s \<noteq> [])"
  by (cases a) (auto simp: optionally_def)

lemma traverse_nonblank_Inr [simp]:
  "traverse (\<lambda>v. nonblank v n) xs = Inr ys \<longleftrightarrow> ys = map strip xs \<and> (\<forall>x\<in>set xs. strip x \<noteq> [])"
  by (induction xs arbitrary: ys) auto

lemma map_strip_id: "\<forall>x\<in>set xs. strip x = x \<Longrightarrow> map strip xs = xs"
  by (rule map_idI) simp

lemma map_strip_sorted: "map strip (sort (map strip xs)) = sort (map strip xs)"
  by (rule map_strip_id) auto

lemma sort_key_twice [simp]: "sort_key f (sort_key f xs) = sort_key f xs"
  by (simp add: sort_key_id_iff)

lemma distinct_map_sort_key [simp]: "distinct (map f (sort_key g xs)) \<longleftrightarrow> distinct (map f xs)"
  by (simp add: distinct_map)

lemma EvidenceItem_typed: "EvidenceItem_init x = Inr y \<Longrightarrow> evidence_ok y"
  by (cases x) (auto simp: EvidenceItem_init_def evidence_ok_def)

lemma StageState_typed: "StageState_init x = Inr y \<Longrightarrow> stage_ok y"
  by (cases x) (auto simp: StageState_init_def stage_ok_def)

lemma FieldObservation_typed: "FieldObservation_init x = Inr y \<Longrightarrow> observation_ok y"
  by (cases x) (auto simp: FieldObservation_init_def observation_ok_def)

lemma TaskDefinition_typed: "TaskDefinition_init x = Inr y \<Longrightarrow> TaskDefinition_init y = Inr y"
  by (cases x) (auto simp: TaskDefinition_init_def option.map_comp comp_def)

lemma TaskState_typed: "TaskState_init x = Inr y \<Longrightarrow> TaskState_init y = Inr y"
  by (cases x) (auto simp: TaskState_init_def Let_def)

lemma AssignmentState_typed: "AssignmentState_init x = Inr y \<Longrightarrow> assignment_ok y"
  by (cases x) (auto simp: AssignmentState_init_def assignment_ok_def option.map_comp comp_def map_strip_sorted)

lemma M2JobExecutionRoot_typed: "M2JobExecutionRoot_init x = Inr y \<Longrightarrow> M2JobExecutionRoot_init y = Inr y"
  by (cases x) (auto simp: M2JobExecutionRoot_init_def Let_def)

lemma PlanDayRoot_typed: "PlanDayRoot_init x = Inr y \<Longrightarrow> plan_ok y"
  by (cases x) (auto simp: PlanDayRoot_init_def plan_ok_def option.map_comp comp_def)

lemma DirectiveDefinition_typed: "DirectiveDefinition_init x = Inr y \<Longrightarrow> DirectiveDefinition_init y = Inr y"
  by (cases x) (auto simp: DirectiveDefinition_init_def option.map_comp comp_def)

lemma DirectiveRoot_typed: "DirectiveRoot_init x = Inr y \<Longrightarrow> DirectiveRoot_init y = Inr y"
  by (cases x) (auto simp: DirectiveRoot_init_def option.map_comp comp_def)

lemma WorkerIdentityRegistry_typed: "WorkerIdentityRegistry_init x = Inr y \<Longrightarrow> WorkerIdentityRegistry_init y = Inr y"
  by (cases x) (auto simp: WorkerIdentityRegistry_init_def map_strip_sorted)

lemma FieldEventEnvelope_typed: "FieldEventEnvelope_init x = Inr y \<Longrightarrow> FieldEventEnvelope_init y = Inr y"
  by (cases x) (auto simp: FieldEventEnvelope_init_def)

lemma FieldEventInput_typed: "FieldEventInput_init x = Inr y \<Longrightarrow> FieldEventInput_init y = Inr y"
  by (cases x) (auto simp: FieldEventInput_init_def)

lemma SystemSignal_typed: "SystemSignal_init x = Inr y \<Longrightarrow> SystemSignal_init y = Inr y"
  by (cases x) (auto simp: SystemSignal_init_def)

lemma PolicyTimeContext_typed: "PolicyTimeContext_init x = Inr y \<Longrightarrow> PolicyTimeContext_init y = Inr y"
  by (cases x) (auto simp: PolicyTimeContext_init_def)

lemma SystemEffect_typed: "SystemEffect_init x = Inr y \<Longrightarrow> SystemEffect_init y = Inr y"
  by (cases x) (auto simp: SystemEffect_init_def)

end
