(* ===== verification/Field_Codec.thy ===== *)
theory Field_Codec
  imports Field_Invariant Json_Round_Trip
begin

text \<open>
  field/serialization.py: the canonical documents of the M2 values. A payload is a \<open>json\<close> value, a
  decoder \<open>X_of\<close> reads one back and ends in the constructor check \<open>X_init\<close>, as the code's does;
  \<open>SerializationError\<close> is a \<open>ValueError\<close>. The texts of datetimes and dates (\<open>isoformat\<close> and
  \<open>fromisoformat\<close>) are the parameter \<open>cal\<close>, SHA-256 is the parameter \<open>sha256\<close>.
\<close>

section \<open>Reading JSON values\<close>

record calendar =
  datetime_text :: "py_datetime \<Rightarrow> string"
  datetime_of_text :: "string \<Rightarrow> py_datetime option"
  date_text :: "int \<Rightarrow> string"
  date_of_text :: "string \<Rightarrow> int option"

definition serialization_error :: "string \<Rightarrow> 'a result" where
  "serialization_error msg = Inl (ValueError msg)"

definition mapping_of :: "string \<Rightarrow> json \<Rightarrow> (string \<times> json) list result" where
  "mapping_of path v = (case v of JObject kvs \<Rightarrow> Inr kvs | _ \<Rightarrow> serialization_error (path @ '' must be an object''))"

definition list_of :: "string \<Rightarrow> json \<Rightarrow> json list result" where
  "list_of path v = (case v of JList xs \<Rightarrow> Inr xs | _ \<Rightarrow> serialization_error (path @ '' must be an array''))"

definition keys_match :: "(string \<times> json) list \<Rightarrow> string list \<Rightarrow> string \<Rightarrow> unit result" where
  "keys_match data expected path =
     (if set (map fst data) = set expected then Inr () else serialization_error (path @ '' fields do not match schema''))"

definition string_of :: "string \<Rightarrow> json \<Rightarrow> string result" where
  "string_of path v = (case v of JString s \<Rightarrow> Inr s | _ \<Rightarrow> serialization_error (path @ '' must be text''))"

text \<open>\<open>optional=True\<close>.\<close>

definition optional_of :: "(string \<Rightarrow> json \<Rightarrow> 'a result) \<Rightarrow> string \<Rightarrow> json \<Rightarrow> 'a option result" where
  "optional_of dec path v = (if v = JNull then Inr None else and_then (dec path v) (\<lambda>x. Inr (Some x)))"

definition integer_of :: "string \<Rightarrow> json \<Rightarrow> int result" where
  "integer_of path v = (case v of JInt n \<Rightarrow> Inr n | _ \<Rightarrow> serialization_error (path @ '' must be an integer''))"

definition boolean_of :: "string \<Rightarrow> json \<Rightarrow> bool result" where
  "boolean_of path v = (case v of JBool b \<Rightarrow> Inr b | _ \<Rightarrow> serialization_error (path @ '' must be a boolean''))"

definition datetime_of :: "calendar \<Rightarrow> string \<Rightarrow> json \<Rightarrow> py_datetime result" where
  "datetime_of cal path v =
     and_then (string_of path v) (\<lambda>text.
     case datetime_of_text cal text of
       None \<Rightarrow> serialization_error (path @ '' is not an ISO datetime'')
     | Some t \<Rightarrow> if is_aware t then Inr t else serialization_error (path @ '' must be timezone-aware''))"

definition date_of :: "calendar \<Rightarrow> string \<Rightarrow> json \<Rightarrow> int result" where
  "date_of cal path v =
     and_then (string_of path v) (\<lambda>text.
     case date_of_text cal text of
       None \<Rightarrow> serialization_error (path @ '' is not an ISO date'')
     | Some d \<Rightarrow> Inr d)"

definition enum_of :: "('e \<Rightarrow> string) \<Rightarrow> 'e list \<Rightarrow> string \<Rightarrow> json \<Rightarrow> 'e result" where
  "enum_of text members path v =
     and_then (string_of path v) (\<lambda>s.
     case lookup_by text s members of
       None \<Rightarrow> serialization_error (path @ '' has an unsupported value'')
     | Some e \<Rightarrow> Inr e)"

text \<open>\<open>tuple(dec(item, path[]) for item in _list(value, path))\<close>.\<close>

definition items_of :: "(string \<Rightarrow> json \<Rightarrow> 'a result) \<Rightarrow> string \<Rightarrow> json \<Rightarrow> 'a list result" where
  "items_of dec path v = and_then (list_of path v) (traverse (dec (path @ ''[]'')))"

text \<open>A list of exactly two texts.\<close>

definition pair_of :: "string \<Rightarrow> string \<Rightarrow> json \<Rightarrow> (string \<times> string) result" where
  "pair_of msg path v =
     and_then (list_of path v) (\<lambda>xs.
     case xs of
       [k, t] \<Rightarrow> and_then (string_of (path @ ''.key'') k) (\<lambda>key.
                 and_then (string_of (path @ ''.value'') t) (\<lambda>text. Inr (key, text)))
     | _ \<Rightarrow> serialization_error msg)"

text \<open>\<open>dec(data[name], path.name)\<close>.\<close>

definition field_of :: "(string \<times> json) list \<Rightarrow> string \<Rightarrow> string \<Rightarrow> (string \<Rightarrow> json \<Rightarrow> 'a result) \<Rightarrow> 'a result" where
  "field_of data path name dec =
     (case map_of data name of None \<Rightarrow> Inl KeyError | Some v \<Rightarrow> dec (path @ ''.'' @ name) v)"

definition json_strings :: "string list \<Rightarrow> json" where
  "json_strings xs = JList (map JString xs)"

definition json_pair :: "string \<times> string \<Rightarrow> json" where
  "json_pair kv = JList [JString (fst kv), JString (snd kv)]"

section \<open>Enum values\<close>

definition EvidenceKind_members :: "EvidenceKind list" where
  "EvidenceKind_members =
    [EvidenceKind.PHOTO, EvidenceKind.VOICE, EvidenceKind.TEXT, EvidenceKind.MEASUREMENT]"

fun StageStatus_value :: "StageStatus \<Rightarrow> string" where
  "StageStatus_value StageStatus.OPEN = ''OPEN''"
| "StageStatus_value StageStatus.DONE = ''DONE''"
| "StageStatus_value StageStatus.DISPUTED = ''DISPUTED''"
| "StageStatus_value StageStatus.SAFE_HOLD = ''SAFE_HOLD''"

definition StageStatus_members :: "StageStatus list" where
  "StageStatus_members =
    [StageStatus.OPEN, StageStatus.DONE, StageStatus.DISPUTED, StageStatus.SAFE_HOLD]"

fun CompletionType_value :: "CompletionType \<Rightarrow> string" where
  "CompletionType_value CompletionType.TASK = ''TASK''"
| "CompletionType_value CompletionType.STAGE = ''STAGE''"
| "CompletionType_value CompletionType.WAITING = ''WAITING''"
| "CompletionType_value CompletionType.VISIT = ''VISIT''"
| "CompletionType_value CompletionType.DAY_CLOSE = ''DAY_CLOSE''"

definition CompletionType_members :: "CompletionType list" where
  "CompletionType_members =
    [CompletionType.TASK, CompletionType.STAGE, CompletionType.WAITING, CompletionType.VISIT,
     CompletionType.DAY_CLOSE]"

fun AssignmentKind_value :: "AssignmentKind \<Rightarrow> string" where
  "AssignmentKind_value AssignmentKind.SINGLE = ''SINGLE''"
| "AssignmentKind_value AssignmentKind.CREW = ''CREW''"

definition AssignmentKind_members :: "AssignmentKind list" where
  "AssignmentKind_members =
    [AssignmentKind.SINGLE, AssignmentKind.CREW]"

fun TaskStatus_value :: "TaskStatus \<Rightarrow> string" where
  "TaskStatus_value TaskStatus.OPEN = ''OPEN''"
| "TaskStatus_value TaskStatus.BLOCKED = ''BLOCKED''"
| "TaskStatus_value TaskStatus.WAITING = ''WAITING''"
| "TaskStatus_value TaskStatus.DONE = ''DONE''"
| "TaskStatus_value TaskStatus.DISPUTED = ''DISPUTED''"
| "TaskStatus_value TaskStatus.SAFE_HOLD = ''SAFE_HOLD''"

definition TaskStatus_members :: "TaskStatus list" where
  "TaskStatus_members =
    [TaskStatus.OPEN, TaskStatus.BLOCKED, TaskStatus.WAITING, TaskStatus.DONE, TaskStatus.DISPUTED,
     TaskStatus.SAFE_HOLD]"

fun PlanDayStatus_value :: "PlanDayStatus \<Rightarrow> string" where
  "PlanDayStatus_value PlanDayStatus.DRAFT = ''DRAFT''"
| "PlanDayStatus_value PlanDayStatus.ISSUED = ''ISSUED''"
| "PlanDayStatus_value PlanDayStatus.ACTIVE = ''ACTIVE''"
| "PlanDayStatus_value PlanDayStatus.CLOSED = ''DAY_CLOSED''"

definition PlanDayStatus_members :: "PlanDayStatus list" where
  "PlanDayStatus_members =
    [PlanDayStatus.DRAFT, PlanDayStatus.ISSUED, PlanDayStatus.ACTIVE, PlanDayStatus.CLOSED]"

fun DirectiveType_value :: "DirectiveType \<Rightarrow> string" where
  "DirectiveType_value DirectiveType.INFO_NOTICE = ''INFO_NOTICE''"
| "DirectiveType_value DirectiveType.ACTION_REQUIRED = ''ACTION_REQUIRED''"
| "DirectiveType_value DirectiveType.STOP_DIRECTIVE = ''STOP_DIRECTIVE''"
| "DirectiveType_value DirectiveType.END_OF_DAY_OPTIONS = ''END_OF_DAY_OPTIONS''"
| "DirectiveType_value DirectiveType.WHY_EXPLAINED = ''WHY_EXPLAINED''"

definition DirectiveType_members :: "DirectiveType list" where
  "DirectiveType_members =
    [DirectiveType.INFO_NOTICE, DirectiveType.ACTION_REQUIRED, DirectiveType.STOP_DIRECTIVE,
     DirectiveType.END_OF_DAY_OPTIONS, DirectiveType.WHY_EXPLAINED]"

fun DirectiveClass_value :: "DirectiveClass \<Rightarrow> string" where
  "DirectiveClass_value DirectiveClass.INFO = ''INFO''"
| "DirectiveClass_value DirectiveClass.ACTION = ''ACTION''"
| "DirectiveClass_value DirectiveClass.STOP = ''STOP''"

definition DirectiveClass_members :: "DirectiveClass list" where
  "DirectiveClass_members =
    [DirectiveClass.INFO, DirectiveClass.ACTION, DirectiveClass.STOP]"

fun DeliveryEvidence_value :: "DeliveryEvidence \<Rightarrow> string" where
  "DeliveryEvidence_value DeliveryEvidence.QUEUED = ''QUEUED''"
| "DeliveryEvidence_value DeliveryEvidence.CHANNEL_ACCEPTED = ''CHANNEL_ACCEPTED''"
| "DeliveryEvidence_value DeliveryEvidence.APP_OBSERVED = ''APP_OBSERVED''"
| "DeliveryEvidence_value DeliveryEvidence.ACKED = ''ACKED''"

definition DeliveryEvidence_members :: "DeliveryEvidence list" where
  "DeliveryEvidence_members =
    [DeliveryEvidence.QUEUED, DeliveryEvidence.CHANNEL_ACCEPTED, DeliveryEvidence.APP_OBSERVED,
     DeliveryEvidence.ACKED]"

fun FieldEventType_value :: "FieldEventType \<Rightarrow> string" where
  "FieldEventType_value FieldEventType.DAY_PLAN_ACTIVATED = ''DAY_PLAN_ACTIVATED''"
| "FieldEventType_value FieldEventType.START_DELAY_REPORTED = ''START_DELAY_REPORTED''"
| "FieldEventType_value FieldEventType.START_EXCEPTION_REPORTED = ''START_EXCEPTION_REPORTED''"
| "FieldEventType_value FieldEventType.UNAVAILABLE_TODAY_REPORTED = ''UNAVAILABLE_TODAY_REPORTED''"
| "FieldEventType_value FieldEventType.WORK_START_BLOCKED = ''WORK_START_BLOCKED''"
| "FieldEventType_value FieldEventType.RESOURCE_MISSING_REPORTED = ''RESOURCE_MISSING_REPORTED''"
| "FieldEventType_value FieldEventType.SITE_PROBLEM_REPORTED = ''SITE_PROBLEM_REPORTED''"
| "FieldEventType_value FieldEventType.SCOPE_FACT_REPORTED = ''SCOPE_FACT_REPORTED''"
| "FieldEventType_value FieldEventType.TASK_COMPLETION_REPORTED = ''TASK_COMPLETION_REPORTED''"
| "FieldEventType_value FieldEventType.STAGE_COMPLETION_REPORTED = ''STAGE_COMPLETION_REPORTED''"
| "FieldEventType_value FieldEventType.TECHNICAL_WAIT_REPORTED = ''TECHNICAL_WAIT_REPORTED''"
| "FieldEventType_value FieldEventType.VISIT_COMPLETION_REPORTED = ''VISIT_COMPLETION_REPORTED''"
| "FieldEventType_value FieldEventType.DAY_CLOSE_REPORTED = ''DAY_CLOSE_REPORTED''"
| "FieldEventType_value FieldEventType.COMPLETION_DISPUTED = ''COMPLETION_DISPUTED''"
| "FieldEventType_value FieldEventType.WORKER_ACKNOWLEDGED = ''WORKER_ACKNOWLEDGED''"
| "FieldEventType_value FieldEventType.WORKER_ACTION_EXCEPTION = ''WORKER_ACTION_EXCEPTION''"

definition FieldEventType_members :: "FieldEventType list" where
  "FieldEventType_members =
    [FieldEventType.DAY_PLAN_ACTIVATED, FieldEventType.START_DELAY_REPORTED,
     FieldEventType.START_EXCEPTION_REPORTED, FieldEventType.UNAVAILABLE_TODAY_REPORTED,
     FieldEventType.WORK_START_BLOCKED, FieldEventType.RESOURCE_MISSING_REPORTED,
     FieldEventType.SITE_PROBLEM_REPORTED, FieldEventType.SCOPE_FACT_REPORTED,
     FieldEventType.TASK_COMPLETION_REPORTED, FieldEventType.STAGE_COMPLETION_REPORTED,
     FieldEventType.TECHNICAL_WAIT_REPORTED, FieldEventType.VISIT_COMPLETION_REPORTED,
     FieldEventType.DAY_CLOSE_REPORTED, FieldEventType.COMPLETION_DISPUTED,
     FieldEventType.WORKER_ACKNOWLEDGED, FieldEventType.WORKER_ACTION_EXCEPTION]"

fun ProblemHint_value :: "ProblemHint \<Rightarrow> string" where
  "ProblemHint_value ProblemHint.BLOCKS_WORK = ''BLOCKS_WORK''"
| "ProblemHint_value ProblemHint.UNSAFE = ''UNSAFE''"
| "ProblemHint_value ProblemHint.QUALITY = ''QUALITY''"
| "ProblemHint_value ProblemHint.OTHER = ''OTHER''"

definition ProblemHint_members :: "ProblemHint list" where
  "ProblemHint_members =
    [ProblemHint.BLOCKS_WORK, ProblemHint.UNSAFE, ProblemHint.QUALITY, ProblemHint.OTHER]"

fun SystemSignalType_value :: "SystemSignalType \<Rightarrow> string" where
  "SystemSignalType_value SystemSignalType.START_WINDOW_ELAPSED = ''START_WINDOW_ELAPSED''"
| "SystemSignalType_value SystemSignalType.DIRECTIVE_E1_ELAPSED = ''DIRECTIVE_E1_ELAPSED''"
| "SystemSignalType_value SystemSignalType.EARLY_FINISH_EVALUATED = ''EARLY_FINISH_EVALUATED''"
| "SystemSignalType_value SystemSignalType.END_OF_DAY_POLICY_SATISFIED = ''END_OF_DAY_POLICY_SATISFIED''"
| "SystemSignalType_value SystemSignalType.STATE_REHYDRATED = ''STATE_REHYDRATED''"
| "SystemSignalType_value SystemSignalType.SYNC_REPLAYED = ''SYNC_REPLAYED''"
| "SystemSignalType_value SystemSignalType.DAY_ROLLED_OVER = ''DAY_ROLLED_OVER''"

definition SystemSignalType_members :: "SystemSignalType list" where
  "SystemSignalType_members =
    [SystemSignalType.START_WINDOW_ELAPSED, SystemSignalType.DIRECTIVE_E1_ELAPSED,
     SystemSignalType.EARLY_FINISH_EVALUATED, SystemSignalType.END_OF_DAY_POLICY_SATISFIED,
     SystemSignalType.STATE_REHYDRATED, SystemSignalType.SYNC_REPLAYED,
     SystemSignalType.DAY_ROLLED_OVER]"

definition EndOfDayAction_members :: "EndOfDayAction list" where
  "EndOfDayAction_members =
    [EndOfDayAction.RETURN_BASE, EndOfDayAction.PREP_NEXT_DAY, EndOfDayAction.OFFER_SOFT_OPTIONS,
     EndOfDayAction.END_ON_SITE, EndOfDayAction.ASK_OWNER]"

fun SiteProblemAction_value :: "SiteProblemAction \<Rightarrow> string" where
  "SiteProblemAction_value SiteProblemAction.RECORD_ONLY = ''RECORD_ONLY''"
| "SiteProblemAction_value SiteProblemAction.HOLD = ''HOLD''"
| "SiteProblemAction_value SiteProblemAction.ESCALATE = ''ESCALATE''"
| "SiteProblemAction_value SiteProblemAction.HOLD_AND_ESCALATE = ''HOLD_AND_ESCALATE''"
| "SiteProblemAction_value SiteProblemAction.REQUEST_STOP = ''REQUEST_STOP''"

definition SiteProblemAction_members :: "SiteProblemAction list" where
  "SiteProblemAction_members =
    [SiteProblemAction.RECORD_ONLY, SiteProblemAction.HOLD, SiteProblemAction.ESCALATE,
     SiteProblemAction.HOLD_AND_ESCALATE, SiteProblemAction.REQUEST_STOP]"

fun EffectType_value :: "EffectType \<Rightarrow> string" where
  "EffectType_value EffectType.PLAN_DAY_ACTIVATED = ''PLAN_DAY_ACTIVATED''"
| "EffectType_value EffectType.START_UNKNOWN_ESCALATED = ''START_UNKNOWN_ESCALATED''"
| "EffectType_value EffectType.START_DELAY_RECORDED = ''START_DELAY_RECORDED''"
| "EffectType_value EffectType.DELAY_IMPACT_EVALUATION_REQUIRED = ''DELAY_IMPACT_EVALUATION_REQUIRED''"
| "EffectType_value EffectType.START_EXCEPTION_RECORDED = ''START_EXCEPTION_RECORDED''"
| "EffectType_value EffectType.TRANSPORT_RESOLUTION_REQUIRED = ''TRANSPORT_RESOLUTION_REQUIRED''"
| "EffectType_value EffectType.UNAVAILABLE_TODAY_RECORDED = ''UNAVAILABLE_TODAY_RECORDED''"
| "EffectType_value EffectType.TASK_HELD = ''TASK_HELD''"
| "EffectType_value EffectType.RESOURCE_MISSING_RECORDED = ''RESOURCE_MISSING_RECORDED''"
| "EffectType_value EffectType.SITE_PROBLEM_RECORDED = ''SITE_PROBLEM_RECORDED''"
| "EffectType_value EffectType.SITE_PROBLEM_ESCALATED = ''SITE_PROBLEM_ESCALATED''"
| "EffectType_value EffectType.STOP_DIRECTIVE_REQUESTED = ''STOP_DIRECTIVE_REQUESTED''"
| "EffectType_value EffectType.NON_BINDING_SCOPE_CHANGE_RECORDED = ''NON_BINDING_SCOPE_CHANGE_RECORDED''"
| "EffectType_value EffectType.COMPLETION_ACCEPTED = ''COMPLETION_ACCEPTED''"
| "EffectType_value EffectType.COMPLETION_REJECTED = ''COMPLETION_REJECTED''"
| "EffectType_value EffectType.ASSIGNMENT_INVALID = ''ASSIGNMENT_INVALID''"
| "EffectType_value EffectType.TECHNICAL_WAIT_RECORDED = ''TECHNICAL_WAIT_RECORDED''"
| "EffectType_value EffectType.COMPLETION_DISPUTED = ''COMPLETION_DISPUTED''"
| "EffectType_value EffectType.HUMAN_REVIEW_REQUIRED = ''HUMAN_REVIEW_REQUIRED''"
| "EffectType_value EffectType.DIRECTIVE_ACKED = ''DIRECTIVE_ACKED''"
| "EffectType_value EffectType.ACTION_REEVALUATION_REQUIRED = ''ACTION_REEVALUATION_REQUIRED''"
| "EffectType_value EffectType.SAFE_HOLD_ENTERED = ''SAFE_HOLD_ENTERED''"
| "EffectType_value EffectType.ACK_MISSING_ESCALATED = ''ACK_MISSING_ESCALATED''"
| "EffectType_value EffectType.STOP_UNCONFIRMED = ''STOP_UNCONFIRMED''"
| "EffectType_value EffectType.EARLY_FINISH_SOFT_OPTIONS = ''EARLY_FINISH_SOFT_OPTIONS''"
| "EffectType_value EffectType.END_OF_DAY_POLICY_REQUESTED = ''END_OF_DAY_POLICY_REQUESTED''"
| "EffectType_value EffectType.DAY_CLOSED = ''DAY_CLOSED''"

definition EffectType_members :: "EffectType list" where
  "EffectType_members =
    [EffectType.PLAN_DAY_ACTIVATED, EffectType.START_UNKNOWN_ESCALATED,
     EffectType.START_DELAY_RECORDED, EffectType.DELAY_IMPACT_EVALUATION_REQUIRED,
     EffectType.START_EXCEPTION_RECORDED, EffectType.TRANSPORT_RESOLUTION_REQUIRED,
     EffectType.UNAVAILABLE_TODAY_RECORDED, EffectType.TASK_HELD, EffectType.RESOURCE_MISSING_RECORDED,
     EffectType.SITE_PROBLEM_RECORDED, EffectType.SITE_PROBLEM_ESCALATED,
     EffectType.STOP_DIRECTIVE_REQUESTED, EffectType.NON_BINDING_SCOPE_CHANGE_RECORDED,
     EffectType.COMPLETION_ACCEPTED, EffectType.COMPLETION_REJECTED, EffectType.ASSIGNMENT_INVALID,
     EffectType.TECHNICAL_WAIT_RECORDED, EffectType.COMPLETION_DISPUTED,
     EffectType.HUMAN_REVIEW_REQUIRED, EffectType.DIRECTIVE_ACKED,
     EffectType.ACTION_REEVALUATION_REQUIRED, EffectType.SAFE_HOLD_ENTERED,
     EffectType.ACK_MISSING_ESCALATED, EffectType.STOP_UNCONFIRMED,
     EffectType.EARLY_FINISH_SOFT_OPTIONS, EffectType.END_OF_DAY_POLICY_REQUESTED,
     EffectType.DAY_CLOSED]"

fun ReductionOutcome_value :: "ReductionOutcome \<Rightarrow> string" where
  "ReductionOutcome_value ReductionOutcome.APPLIED = ''APPLIED''"
| "ReductionOutcome_value ReductionOutcome.REPORTED = ''REPORTED''"
| "ReductionOutcome_value ReductionOutcome.NOOP = ''NOOP''"
| "ReductionOutcome_value ReductionOutcome.REJECTED = ''REJECTED''"

definition ReductionOutcome_members :: "ReductionOutcome list" where
  "ReductionOutcome_members =
    [ReductionOutcome.APPLIED, ReductionOutcome.REPORTED, ReductionOutcome.NOOP,
     ReductionOutcome.REJECTED]"

section \<open>Evidence, stages, definitions and observations\<close>

definition evidence_payload :: "EvidenceItem \<Rightarrow> json" where
  "evidence_payload x = JObject
     [(''content_reference'', JString (ev_content_reference x)),
      (''evidence_id'', JString (ev_evidence_id x)),
      (''kind'', JString (EvidenceKind_value (ev_kind x)))]"

definition evidence_keys :: "string list" where
  "evidence_keys =
     [''content_reference'', ''evidence_id'', ''kind'']"

definition evidence_of :: "string \<Rightarrow> json \<Rightarrow> EvidenceItem result" where
  "evidence_of path v =
     and_then (mapping_of path v) (\<lambda>data.
     and_then (keys_match data evidence_keys path) (\<lambda>_.
     and_then (field_of data path ''evidence_id'' string_of) (\<lambda>evidence_id.
     and_then (field_of data path ''kind'' (enum_of EvidenceKind_value EvidenceKind_members)) (\<lambda>kind.
     and_then (field_of data path ''content_reference'' string_of) (\<lambda>content_reference.
     EvidenceItem_init
       \<lparr>ev_evidence_id = evidence_id, ev_kind = kind,
         ev_content_reference = content_reference\<rparr>)))))"

definition stage_payload :: "StageState \<Rightarrow> json" where
  "stage_payload x = JObject
     [(''completion_event_id'', json_option JString (sg_completion_event_id x)),
      (''stage_id'', JString (sg_stage_id x)),
      (''status'', JString (StageStatus_value (sg_status x)))]"

definition stage_keys :: "string list" where
  "stage_keys =
     [''completion_event_id'', ''stage_id'', ''status'']"

definition stage_of :: "string \<Rightarrow> json \<Rightarrow> StageState result" where
  "stage_of path v =
     and_then (mapping_of path v) (\<lambda>data.
     and_then (keys_match data stage_keys path) (\<lambda>_.
     and_then (field_of data path ''stage_id'' string_of) (\<lambda>stage_id.
     and_then (field_of data path ''status'' (enum_of StageStatus_value StageStatus_members)) (\<lambda>status.
     and_then (field_of data path ''completion_event_id'' (optional_of string_of)) (\<lambda>completion_event_id.
     StageState_init
       \<lparr>sg_stage_id = stage_id, sg_status = status,
         sg_completion_event_id = completion_event_id\<rparr>)))))"

definition task_definition_payload :: "TaskDefinition \<Rightarrow> json" where
  "task_definition_payload x = JObject
     [(''assignment_kind'', JString (AssignmentKind_value (td_assignment_kind x))),
      (''business_meaning'', JString (td_business_meaning x)),
      (''completion_type'', JString (CompletionType_value (td_completion_type x))),
      (''definition_version'', JString (td_definition_version x)),
      (''job_id'', JString (td_job_id x)),
      (''required_evidence'', json_list (JString \<circ> EvidenceKind_value) (td_required_evidence x)),
      (''required_postconditions'', json_strings (td_required_postconditions x)),
      (''requires_quantity'', JBool (td_requires_quantity x)),
      (''source_handoff_id'', JString (td_source_handoff_id x)),
      (''source_revision'', JInt (td_source_revision x)),
      (''stage_ids'', json_strings (td_stage_ids x)),
      (''supersedes_task_id'', json_option JString (td_supersedes_task_id x)),
      (''task_id'', JString (td_task_id x))]"

definition task_definition_keys :: "string list" where
  "task_definition_keys =
     [''assignment_kind'', ''business_meaning'', ''completion_type'', ''definition_version'',
      ''job_id'', ''required_evidence'', ''required_postconditions'', ''requires_quantity'',
      ''source_handoff_id'', ''source_revision'', ''stage_ids'', ''supersedes_task_id'',
      ''task_id'']"

definition task_definition_of :: "string \<Rightarrow> json \<Rightarrow> TaskDefinition result" where
  "task_definition_of path v =
     and_then (mapping_of path v) (\<lambda>data.
     and_then (keys_match data task_definition_keys path) (\<lambda>_.
     and_then (field_of data path ''task_id'' string_of) (\<lambda>task_id.
     and_then (field_of data path ''definition_version'' string_of) (\<lambda>definition_version.
     and_then (field_of data path ''job_id'' string_of) (\<lambda>job_id.
     and_then (field_of data path ''source_handoff_id'' string_of) (\<lambda>source_handoff_id.
     and_then (field_of data path ''source_revision'' integer_of) (\<lambda>source_revision.
     and_then (field_of data path ''business_meaning'' string_of) (\<lambda>business_meaning.
     and_then (field_of data path ''completion_type'' (enum_of CompletionType_value CompletionType_members)) (\<lambda>completion_type.
     and_then (field_of data path ''required_postconditions'' (items_of string_of)) (\<lambda>required_postconditions.
     and_then (field_of data path ''required_evidence'' (items_of (enum_of EvidenceKind_value EvidenceKind_members))) (\<lambda>required_evidence.
     and_then (field_of data path ''stage_ids'' (items_of string_of)) (\<lambda>stage_ids.
     and_then (field_of data path ''requires_quantity'' boolean_of) (\<lambda>requires_quantity.
     and_then (field_of data path ''assignment_kind'' (enum_of AssignmentKind_value AssignmentKind_members)) (\<lambda>assignment_kind.
     and_then (field_of data path ''supersedes_task_id'' (optional_of string_of)) (\<lambda>supersedes_task_id.
     TaskDefinition_init
       \<lparr>td_task_id = task_id, td_definition_version = definition_version, td_job_id = job_id,
         td_source_handoff_id = source_handoff_id, td_source_revision = source_revision,
         td_business_meaning = business_meaning, td_completion_type = completion_type,
         td_required_postconditions = required_postconditions, td_required_evidence = required_evidence,
         td_stage_ids = stage_ids, td_requires_quantity = requires_quantity,
         td_assignment_kind = assignment_kind, td_supersedes_task_id = supersedes_task_id\<rparr>)))))))))))))))"

definition observation_payload :: "FieldObservation \<Rightarrow> json" where
  "observation_payload x = JObject
     [(''actor_id'', JString (fo_actor_id x)),
      (''event_id'', JString (fo_event_id x)),
      (''evidence'', json_list evidence_payload (fo_evidence x)),
      (''interpretation'', json_option JString (fo_interpretation x)),
      (''text'', json_option JString (fo_text x))]"

definition observation_keys :: "string list" where
  "observation_keys =
     [''actor_id'', ''event_id'', ''evidence'', ''interpretation'', ''text'']"

definition observation_of :: "string \<Rightarrow> json \<Rightarrow> FieldObservation result" where
  "observation_of path v =
     and_then (mapping_of path v) (\<lambda>data.
     and_then (keys_match data observation_keys path) (\<lambda>_.
     and_then (field_of data path ''event_id'' string_of) (\<lambda>event_id.
     and_then (field_of data path ''actor_id'' string_of) (\<lambda>actor_id.
     and_then (field_of data path ''text'' (optional_of string_of)) (\<lambda>t.
     and_then (field_of data path ''evidence'' (items_of evidence_of)) (\<lambda>evs.
     and_then (field_of data path ''interpretation'' (optional_of string_of)) (\<lambda>interpretation.
     FieldObservation_init
       \<lparr>fo_event_id = event_id, fo_actor_id = actor_id, fo_text = t, fo_evidence = evs,
         fo_interpretation = interpretation\<rparr>)))))))"

section \<open>Tasks and assignments\<close>

definition task_payload :: "TaskState \<Rightarrow> json" where
  "task_payload x = JObject
     [(''blocked_pending_resolution'', JBool (ts_blocked_pending_resolution x)),
      (''completion_event_id'', json_option JString (ts_completion_event_id x)),
      (''definition'', task_definition_payload (ts_definition x)),
      (''evidence'', json_list evidence_payload (ts_evidence x)),
      (''execution_authorized'', JBool (ts_execution_authorized x)),
      (''observations'', json_list observation_payload (ts_observations x)),
      (''safe_hold_directive_id'', json_option JString (ts_safe_hold_directive_id x)),
      (''stages'', json_list stage_payload (ts_stages x)),
      (''status'', JString (TaskStatus_value (ts_status x)))]"

definition task_keys :: "string list" where
  "task_keys =
     [''blocked_pending_resolution'', ''completion_event_id'', ''definition'', ''evidence'',
      ''execution_authorized'', ''observations'', ''safe_hold_directive_id'', ''stages'',
      ''status'']"

definition task_of :: "string \<Rightarrow> json \<Rightarrow> TaskState result" where
  "task_of path v =
     and_then (mapping_of path v) (\<lambda>data.
     and_then (keys_match data task_keys path) (\<lambda>_.
     and_then (field_of data path ''definition'' task_definition_of) (\<lambda>d.
     and_then (field_of data path ''status'' (enum_of TaskStatus_value TaskStatus_members)) (\<lambda>status.
     and_then (field_of data path ''stages'' (items_of stage_of)) (\<lambda>stages.
     and_then (field_of data path ''evidence'' (items_of evidence_of)) (\<lambda>evs.
     and_then (field_of data path ''observations'' (items_of observation_of)) (\<lambda>observations.
     and_then (field_of data path ''completion_event_id'' (optional_of string_of)) (\<lambda>completion_event_id.
     and_then (field_of data path ''safe_hold_directive_id'' (optional_of string_of)) (\<lambda>safe_hold_directive_id.
     and_then (field_of data path ''blocked_pending_resolution'' boolean_of) (\<lambda>blocked_pending_resolution.
     and_then (field_of data path ''execution_authorized'' boolean_of) (\<lambda>execution_authorized.
     TaskState_init
       \<lparr>ts_definition = d, ts_status = status, ts_stages = stages, ts_evidence = evs,
         ts_observations = observations, ts_completion_event_id = completion_event_id,
         ts_safe_hold_directive_id = safe_hold_directive_id,
         ts_blocked_pending_resolution = blocked_pending_resolution,
         ts_execution_authorized = execution_authorized\<rparr>)))))))))))"

definition assignment_payload :: "AssignmentState \<Rightarrow> json" where
  "assignment_payload x = JObject
     [(''assignment_id'', JString (as_assignment_id x)),
      (''job_id'', JString (as_job_id x)),
      (''kind'', JString (AssignmentKind_value (as_kind x))),
      (''lead_worker_id'', json_option JString (as_lead_worker_id x)),
      (''member_worker_ids'', json_strings (as_member_worker_ids x)),
      (''plan_day_ids'', json_strings (as_plan_day_ids x)),
      (''released_worker_ids'', json_strings (as_released_worker_ids x)),
      (''supersedes_assignment_id'', json_option JString (as_supersedes_assignment_id x)),
      (''task_definition_version'', JString (as_task_definition_version x)),
      (''task_id'', JString (as_task_id x))]"

definition assignment_keys :: "string list" where
  "assignment_keys =
     [''assignment_id'', ''job_id'', ''kind'', ''lead_worker_id'', ''member_worker_ids'',
      ''plan_day_ids'', ''released_worker_ids'', ''supersedes_assignment_id'',
      ''task_definition_version'', ''task_id'']"

definition assignment_of :: "string \<Rightarrow> json \<Rightarrow> AssignmentState result" where
  "assignment_of path v =
     and_then (mapping_of path v) (\<lambda>data.
     and_then (keys_match data assignment_keys path) (\<lambda>_.
     and_then (field_of data path ''assignment_id'' string_of) (\<lambda>assignment_id.
     and_then (field_of data path ''job_id'' string_of) (\<lambda>job_id.
     and_then (field_of data path ''task_id'' string_of) (\<lambda>task_id.
     and_then (field_of data path ''task_definition_version'' string_of) (\<lambda>task_definition_version.
     and_then (field_of data path ''kind'' (enum_of AssignmentKind_value AssignmentKind_members)) (\<lambda>kind.
     and_then (field_of data path ''member_worker_ids'' (items_of string_of)) (\<lambda>member_worker_ids.
     and_then (field_of data path ''plan_day_ids'' (items_of string_of)) (\<lambda>plan_day_ids.
     and_then (field_of data path ''lead_worker_id'' (optional_of string_of)) (\<lambda>lead_worker_id.
     and_then (field_of data path ''released_worker_ids'' (items_of string_of)) (\<lambda>released_worker_ids.
     and_then (field_of data path ''supersedes_assignment_id'' (optional_of string_of)) (\<lambda>supersedes_assignment_id.
     AssignmentState_init
       \<lparr>as_assignment_id = assignment_id, as_job_id = job_id, as_task_id = task_id,
         as_task_definition_version = task_definition_version, as_kind = kind,
         as_member_worker_ids = member_worker_ids, as_plan_day_ids = plan_day_ids,
         as_lead_worker_id = lead_worker_id, as_released_worker_ids = released_worker_ids,
         as_supersedes_assignment_id = supersedes_assignment_id\<rparr>))))))))))))"

section \<open>Roots\<close>

definition job_execution_root_payload :: "M2JobExecutionRoot \<Rightarrow> json" where
  "job_execution_root_payload x = JObject
     [(''assignments'', json_list assignment_payload (jr_assignments x)),
      (''job_execution_revision'', JInt (jr_job_execution_revision x)),
      (''job_id'', JString (jr_job_id x)),
      (''tasks'', json_list task_payload (jr_tasks x))]"

definition job_execution_root_keys :: "string list" where
  "job_execution_root_keys =
     [''assignments'', ''job_execution_revision'', ''job_id'', ''tasks'']"

definition job_execution_root_of :: "string \<Rightarrow> json \<Rightarrow> M2JobExecutionRoot result" where
  "job_execution_root_of path v =
     and_then (mapping_of path v) (\<lambda>data.
     and_then (keys_match data job_execution_root_keys path) (\<lambda>_.
     and_then (field_of data path ''job_id'' string_of) (\<lambda>job_id.
     and_then (field_of data path ''tasks'' (items_of task_of)) (\<lambda>ts.
     and_then (field_of data path ''assignments'' (items_of assignment_of)) (\<lambda>as.
     and_then (field_of data path ''job_execution_revision'' integer_of) (\<lambda>job_execution_revision.
     M2JobExecutionRoot_init
       \<lparr>jr_job_id = job_id, jr_tasks = ts, jr_assignments = as,
         jr_job_execution_revision = job_execution_revision\<rparr>))))))"

definition plan_day_root_payload :: "calendar \<Rightarrow> PlanDayRoot \<Rightarrow> json" where
  "plan_day_root_payload cal x = JObject
     [(''business_date'', JString (date_text cal (pd_business_date x))),
      (''confirmed_plan_reference'', json_option JString (pd_confirmed_plan_reference x)),
      (''day_close_reported'', JBool (pd_day_close_reported x)),
      (''plan_day_id'', JString (pd_plan_day_id x)),
      (''plan_day_revision'', JInt (pd_plan_day_revision x)),
      (''start_at'', JString (datetime_text cal (pd_start_at x))),
      (''start_unknown_escalated'', JBool (pd_start_unknown_escalated x)),
      (''status'', JString (PlanDayStatus_value (pd_status x))),
      (''worker_available'', JBool (pd_worker_available x)),
      (''worker_id'', JString (pd_worker_id x))]"

definition plan_day_root_keys :: "string list" where
  "plan_day_root_keys =
     [''business_date'', ''confirmed_plan_reference'', ''day_close_reported'', ''plan_day_id'',
      ''plan_day_revision'', ''start_at'', ''start_unknown_escalated'', ''status'',
      ''worker_available'', ''worker_id'']"

definition plan_day_root_of :: "calendar \<Rightarrow> string \<Rightarrow> json \<Rightarrow> PlanDayRoot result" where
  "plan_day_root_of cal path v =
     and_then (mapping_of path v) (\<lambda>data.
     and_then (keys_match data plan_day_root_keys path) (\<lambda>_.
     and_then (field_of data path ''plan_day_id'' string_of) (\<lambda>plan_day_id.
     and_then (field_of data path ''worker_id'' string_of) (\<lambda>worker_id.
     and_then (field_of data path ''business_date'' (date_of cal)) (\<lambda>business_date.
     and_then (field_of data path ''start_at'' (datetime_of cal)) (\<lambda>start_at.
     and_then (field_of data path ''status'' (enum_of PlanDayStatus_value PlanDayStatus_members)) (\<lambda>status.
     and_then (field_of data path ''worker_available'' boolean_of) (\<lambda>worker_available.
     and_then (field_of data path ''day_close_reported'' boolean_of) (\<lambda>day_close_reported.
     and_then (field_of data path ''start_unknown_escalated'' boolean_of) (\<lambda>start_unknown_escalated.
     and_then (field_of data path ''confirmed_plan_reference'' (optional_of string_of)) (\<lambda>confirmed_plan_reference.
     and_then (field_of data path ''plan_day_revision'' integer_of) (\<lambda>plan_day_revision.
     PlanDayRoot_init
       \<lparr>pd_plan_day_id = plan_day_id, pd_worker_id = worker_id, pd_business_date = business_date,
         pd_start_at = start_at, pd_status = status, pd_worker_available = worker_available,
         pd_day_close_reported = day_close_reported,
         pd_start_unknown_escalated = start_unknown_escalated,
         pd_confirmed_plan_reference = confirmed_plan_reference,
         pd_plan_day_revision = plan_day_revision\<rparr>))))))))))))"

definition directive_definition_payload :: "calendar \<Rightarrow> DirectiveDefinition \<Rightarrow> json" where
  "directive_definition_payload cal x = JObject
     [(''assignment_id'', json_option JString (dd_assignment_id x)),
      (''directive_class'', JString (DirectiveClass_value (dd_directive_class x))),
      (''directive_id'', JString (dd_directive_id x)),
      (''directive_type'', JString (DirectiveType_value (dd_directive_type x))),
      (''escalation_due_at'', json_option (JString \<circ> datetime_text cal) (dd_escalation_due_at x)),
      (''issuance_sequence'', JInt (dd_issuance_sequence x)),
      (''issued_at'', JString (datetime_text cal (dd_issued_at x))),
      (''job_id'', json_option JString (dd_job_id x)),
      (''plan_day_id'', json_option JString (dd_plan_day_id x)),
      (''proposed_plan_reference'', json_option JString (dd_proposed_plan_reference x)),
      (''supersedes_directive_id'', json_option JString (dd_supersedes_directive_id x)),
      (''task_id'', json_option JString (dd_task_id x)),
      (''worker_id'', JString (dd_worker_id x))]"

definition directive_definition_keys :: "string list" where
  "directive_definition_keys =
     [''assignment_id'', ''directive_class'', ''directive_id'', ''directive_type'',
      ''escalation_due_at'', ''issuance_sequence'', ''issued_at'', ''job_id'', ''plan_day_id'',
      ''proposed_plan_reference'', ''supersedes_directive_id'', ''task_id'', ''worker_id'']"

definition directive_definition_of :: "calendar \<Rightarrow> string \<Rightarrow> json \<Rightarrow> DirectiveDefinition result" where
  "directive_definition_of cal path v =
     and_then (mapping_of path v) (\<lambda>data.
     and_then (keys_match data directive_definition_keys path) (\<lambda>_.
     and_then (field_of data path ''directive_id'' string_of) (\<lambda>directive_id.
     and_then (field_of data path ''directive_type'' (enum_of DirectiveType_value DirectiveType_members)) (\<lambda>directive_type.
     and_then (field_of data path ''directive_class'' (enum_of DirectiveClass_value DirectiveClass_members)) (\<lambda>directive_class.
     and_then (field_of data path ''worker_id'' string_of) (\<lambda>worker_id.
     and_then (field_of data path ''issued_at'' (datetime_of cal)) (\<lambda>issued_at.
     and_then (field_of data path ''escalation_due_at'' (optional_of (datetime_of cal))) (\<lambda>escalation_due_at.
     and_then (field_of data path ''job_id'' (optional_of string_of)) (\<lambda>job_id.
     and_then (field_of data path ''task_id'' (optional_of string_of)) (\<lambda>task_id.
     and_then (field_of data path ''assignment_id'' (optional_of string_of)) (\<lambda>assignment_id.
     and_then (field_of data path ''plan_day_id'' (optional_of string_of)) (\<lambda>plan_day_id.
     and_then (field_of data path ''proposed_plan_reference'' (optional_of string_of)) (\<lambda>proposed_plan_reference.
     and_then (field_of data path ''issuance_sequence'' integer_of) (\<lambda>issuance_sequence.
     and_then (field_of data path ''supersedes_directive_id'' (optional_of string_of)) (\<lambda>supersedes_directive_id.
     DirectiveDefinition_init
       \<lparr>dd_directive_id = directive_id, dd_directive_type = directive_type,
         dd_directive_class = directive_class, dd_worker_id = worker_id, dd_issued_at = issued_at,
         dd_escalation_due_at = escalation_due_at, dd_job_id = job_id, dd_task_id = task_id,
         dd_assignment_id = assignment_id, dd_plan_day_id = plan_day_id,
         dd_proposed_plan_reference = proposed_plan_reference, dd_issuance_sequence = issuance_sequence,
         dd_supersedes_directive_id = supersedes_directive_id\<rparr>)))))))))))))))"

definition directive_root_payload :: "calendar \<Rightarrow> DirectiveRoot \<Rightarrow> json" where
  "directive_root_payload cal x = JObject
     [(''acknowledged_event_id'', json_option JString (dr_acknowledged_event_id x)),
      (''definition'', directive_definition_payload cal (dr_definition x)),
      (''delivery_evidence'', JString (DeliveryEvidence_value (dr_delivery_evidence x))),
      (''directive_revision'', JInt (dr_directive_revision x)),
      (''e1_escalated'', JBool (dr_e1_escalated x)),
      (''exception_event_id'', json_option JString (dr_exception_event_id x)),
      (''stop_in_force'', JBool (dr_stop_in_force x))]"

definition directive_root_keys :: "string list" where
  "directive_root_keys =
     [''acknowledged_event_id'', ''definition'', ''delivery_evidence'', ''directive_revision'',
      ''e1_escalated'', ''exception_event_id'', ''stop_in_force'']"

definition directive_root_of :: "calendar \<Rightarrow> string \<Rightarrow> json \<Rightarrow> DirectiveRoot result" where
  "directive_root_of cal path v =
     and_then (mapping_of path v) (\<lambda>data.
     and_then (keys_match data directive_root_keys path) (\<lambda>_.
     and_then (field_of data path ''definition'' (directive_definition_of cal)) (\<lambda>d.
     and_then (field_of data path ''delivery_evidence'' (enum_of DeliveryEvidence_value DeliveryEvidence_members)) (\<lambda>delivery_evidence.
     and_then (field_of data path ''acknowledged_event_id'' (optional_of string_of)) (\<lambda>acknowledged_event_id.
     and_then (field_of data path ''exception_event_id'' (optional_of string_of)) (\<lambda>exception_event_id.
     and_then (field_of data path ''e1_escalated'' boolean_of) (\<lambda>e1_escalated.
     and_then (field_of data path ''stop_in_force'' boolean_of) (\<lambda>stop_in_force.
     and_then (field_of data path ''directive_revision'' integer_of) (\<lambda>directive_revision.
     DirectiveRoot_init
       \<lparr>dr_definition = d, dr_delivery_evidence = delivery_evidence,
         dr_acknowledged_event_id = acknowledged_event_id, dr_exception_event_id = exception_event_id,
         dr_e1_escalated = e1_escalated, dr_stop_in_force = stop_in_force,
         dr_directive_revision = directive_revision\<rparr>)))))))))"

definition worker_registry_payload :: "WorkerIdentityRegistry \<Rightarrow> json" where
  "worker_registry_payload x = JObject
     [(''registry_revision'', JInt (wr_registry_revision x)),
      (''worker_ids'', json_strings (wr_worker_ids x))]"

definition worker_registry_keys :: "string list" where
  "worker_registry_keys =
     [''registry_revision'', ''worker_ids'']"

definition worker_registry_of :: "string \<Rightarrow> json \<Rightarrow> WorkerIdentityRegistry result" where
  "worker_registry_of path v =
     and_then (mapping_of path v) (\<lambda>data.
     and_then (keys_match data worker_registry_keys path) (\<lambda>_.
     and_then (field_of data path ''worker_ids'' (items_of string_of)) (\<lambda>worker_ids.
     and_then (field_of data path ''registry_revision'' integer_of) (\<lambda>registry_revision.
     WorkerIdentityRegistry_init
       \<lparr>wr_worker_ids = worker_ids, wr_registry_revision = registry_revision\<rparr>))))"

section \<open>Inputs, effects and receipts\<close>

definition event_payload :: "calendar \<Rightarrow> FieldEventEnvelope \<Rightarrow> json" where
  "event_payload cal x = JObject
     [(''actor_id'', JString (fe_actor_id x)),
      (''against_event_id'', json_option JString (fe_against_event_id x)),
      (''assignment_id'', json_option JString (fe_assignment_id x)),
      (''attachments'', json_list evidence_payload (fe_attachments x)),
      (''client_context'', json_list json_pair (fe_client_context x)),
      (''directive_id'', json_option JString (fe_directive_id x)),
      (''eta'', json_option JString (fe_eta x)),
      (''event_id'', JString (fe_event_id x)),
      (''event_type'', JString (FieldEventType_value (fe_event_type x))),
      (''job_id'', json_option JString (fe_job_id x)),
      (''occurred_at'', JString (datetime_text cal (fe_occurred_at x))),
      (''offline_origin'', JBool (fe_offline_origin x)),
      (''plan_day_id'', json_option JString (fe_plan_day_id x)),
      (''quantity'', json_option JString (fe_quantity x)),
      (''reason_class'', json_option JString (fe_reason_class x)),
      (''satisfied_postconditions'', json_strings (fe_satisfied_postconditions x)),
      (''schema_version'', JInt (fe_schema_version x)),
      (''severity_hint'', json_option (JString \<circ> ProblemHint_value) (fe_severity_hint x)),
      (''stage_id'', json_option JString (fe_stage_id x)),
      (''task_id'', json_option JString (fe_task_id x)),
      (''text'', json_option JString (fe_text x)),
      (''unit'', json_option JString (fe_unit x)),
      (''wait_condition'', json_option JString (fe_wait_condition x)),
      (''wait_until'', json_option (JString \<circ> datetime_text cal) (fe_wait_until x))]"

definition event_keys :: "string list" where
  "event_keys =
     [''actor_id'', ''against_event_id'', ''assignment_id'', ''attachments'', ''client_context'',
      ''directive_id'', ''eta'', ''event_id'', ''event_type'', ''job_id'', ''occurred_at'',
      ''offline_origin'', ''plan_day_id'', ''quantity'', ''reason_class'',
      ''satisfied_postconditions'', ''schema_version'', ''severity_hint'', ''stage_id'',
      ''task_id'', ''text'', ''unit'', ''wait_condition'', ''wait_until'']"

definition event_of :: "calendar \<Rightarrow> string \<Rightarrow> json \<Rightarrow> FieldEventEnvelope result" where
  "event_of cal path v =
     and_then (mapping_of path v) (\<lambda>data.
     and_then (keys_match data event_keys path) (\<lambda>_.
     and_then (field_of data path ''client_context'' (items_of (pair_of ''client context entries must be pairs''))) (\<lambda>client_context.
     and_then (field_of data path ''event_id'' string_of) (\<lambda>event_id.
     and_then (field_of data path ''schema_version'' integer_of) (\<lambda>schema_version.
     and_then (field_of data path ''event_type'' (enum_of FieldEventType_value FieldEventType_members)) (\<lambda>event_type.
     and_then (field_of data path ''actor_id'' string_of) (\<lambda>actor_id.
     and_then (field_of data path ''occurred_at'' (datetime_of cal)) (\<lambda>occurred_at.
     and_then (field_of data path ''plan_day_id'' (optional_of string_of)) (\<lambda>plan_day_id.
     and_then (field_of data path ''job_id'' (optional_of string_of)) (\<lambda>job_id.
     and_then (field_of data path ''task_id'' (optional_of string_of)) (\<lambda>task_id.
     and_then (field_of data path ''assignment_id'' (optional_of string_of)) (\<lambda>assignment_id.
     and_then (field_of data path ''stage_id'' (optional_of string_of)) (\<lambda>stage_id.
     and_then (field_of data path ''directive_id'' (optional_of string_of)) (\<lambda>directive_id.
     and_then (field_of data path ''against_event_id'' (optional_of string_of)) (\<lambda>against_event_id.
     and_then (field_of data path ''reason_class'' (optional_of string_of)) (\<lambda>reason_class.
     and_then (field_of data path ''eta'' (optional_of string_of)) (\<lambda>eta.
     and_then (field_of data path ''text'' (optional_of string_of)) (\<lambda>t.
     and_then (field_of data path ''wait_condition'' (optional_of string_of)) (\<lambda>wait_condition.
     and_then (field_of data path ''wait_until'' (optional_of (datetime_of cal))) (\<lambda>wait_until.
     and_then (field_of data path ''quantity'' (optional_of string_of)) (\<lambda>quantity.
     and_then (field_of data path ''unit'' (optional_of string_of)) (\<lambda>u.
     and_then (field_of data path ''severity_hint'' (optional_of (enum_of ProblemHint_value ProblemHint_members))) (\<lambda>severity_hint.
     and_then (field_of data path ''attachments'' (items_of evidence_of)) (\<lambda>attachments.
     and_then (field_of data path ''satisfied_postconditions'' (items_of string_of)) (\<lambda>satisfied_postconditions.
     and_then (field_of data path ''offline_origin'' boolean_of) (\<lambda>offline_origin.
     FieldEventEnvelope_init
       \<lparr>fe_event_id = event_id, fe_schema_version = schema_version, fe_event_type = event_type,
         fe_actor_id = actor_id, fe_occurred_at = occurred_at, fe_plan_day_id = plan_day_id,
         fe_job_id = job_id, fe_task_id = task_id, fe_assignment_id = assignment_id,
         fe_stage_id = stage_id, fe_directive_id = directive_id, fe_against_event_id = against_event_id,
         fe_reason_class = reason_class, fe_eta = eta, fe_text = t, fe_wait_condition = wait_condition,
         fe_wait_until = wait_until, fe_quantity = quantity, fe_unit = u,
         fe_severity_hint = severity_hint, fe_attachments = attachments,
         fe_satisfied_postconditions = satisfied_postconditions, fe_offline_origin = offline_origin,
         fe_client_context = client_context\<rparr>))))))))))))))))))))))))))"

definition event_input_payload :: "calendar \<Rightarrow> FieldEventInput \<Rightarrow> json" where
  "event_input_payload cal x = JObject
     [(''event'', event_payload cal (fi_event x)),
      (''server_event_id'', JString (fi_server_event_id x))]"

definition event_input_keys :: "string list" where
  "event_input_keys =
     [''event'', ''server_event_id'']"

definition event_input_of :: "calendar \<Rightarrow> string \<Rightarrow> json \<Rightarrow> FieldEventInput result" where
  "event_input_of cal path v =
     and_then (mapping_of path v) (\<lambda>data.
     and_then (keys_match data event_input_keys path) (\<lambda>_.
     and_then (field_of data path ''event'' (event_of cal)) (\<lambda>event.
     and_then (field_of data path ''server_event_id'' string_of) (\<lambda>server_event_id.
     FieldEventInput_init
       \<lparr>fi_event = event, fi_server_event_id = server_event_id\<rparr>))))"

definition signal_payload :: "SystemSignal \<Rightarrow> json" where
  "signal_payload x = JObject
     [(''directive_id'', json_option JString (sy_directive_id x)),
      (''plan_day_id'', json_option JString (sy_plan_day_id x)),
      (''policy_result'', json_option (JString \<circ> EndOfDayAction_value) (sy_policy_result x)),
      (''signal_id'', JString (sy_signal_id x)),
      (''signal_type'', JString (SystemSignalType_value (sy_signal_type x))),
      (''task_id'', json_option JString (sy_task_id x))]"

definition signal_keys :: "string list" where
  "signal_keys =
     [''directive_id'', ''plan_day_id'', ''policy_result'', ''signal_id'', ''signal_type'',
      ''task_id'']"

definition signal_of :: "string \<Rightarrow> json \<Rightarrow> SystemSignal result" where
  "signal_of path v =
     and_then (mapping_of path v) (\<lambda>data.
     and_then (keys_match data signal_keys path) (\<lambda>_.
     and_then (field_of data path ''signal_id'' string_of) (\<lambda>signal_id.
     and_then (field_of data path ''signal_type'' (enum_of SystemSignalType_value SystemSignalType_members)) (\<lambda>signal_type.
     and_then (field_of data path ''plan_day_id'' (optional_of string_of)) (\<lambda>plan_day_id.
     and_then (field_of data path ''directive_id'' (optional_of string_of)) (\<lambda>directive_id.
     and_then (field_of data path ''task_id'' (optional_of string_of)) (\<lambda>task_id.
     and_then (field_of data path ''policy_result'' (optional_of (enum_of EndOfDayAction_value EndOfDayAction_members))) (\<lambda>policy_result.
     SystemSignal_init
       \<lparr>sy_signal_id = signal_id, sy_signal_type = signal_type, sy_plan_day_id = plan_day_id,
         sy_directive_id = directive_id, sy_task_id = task_id, sy_policy_result = policy_result\<rparr>))))))))"

definition policy_payload :: "M2Policy \<Rightarrow> json" where
  "policy_payload x = JObject
     [(''early_finish_options'', json_list (JString \<circ> EndOfDayAction_value) (po_early_finish_options x)),
      (''end_of_day_action'', JString (EndOfDayAction_value (po_end_of_day_action x))),
      (''site_problem_action'', JString (SiteProblemAction_value (po_site_problem_action x))),
      (''start_unknown_escalation_enabled'', JBool (po_start_unknown_escalation_enabled x))]"

definition policy_keys :: "string list" where
  "policy_keys =
     [''early_finish_options'', ''end_of_day_action'', ''site_problem_action'',
      ''start_unknown_escalation_enabled'']"

definition policy_of :: "string \<Rightarrow> json \<Rightarrow> M2Policy result" where
  "policy_of path v =
     and_then (mapping_of path v) (\<lambda>data.
     and_then (keys_match data policy_keys path) (\<lambda>_.
     and_then (field_of data path ''start_unknown_escalation_enabled'' boolean_of) (\<lambda>start_unknown_escalation_enabled.
     and_then (field_of data path ''site_problem_action'' (enum_of SiteProblemAction_value SiteProblemAction_members)) (\<lambda>site_problem_action.
     and_then (field_of data path ''early_finish_options'' (items_of (enum_of EndOfDayAction_value EndOfDayAction_members))) (\<lambda>early_finish_options.
     and_then (field_of data path ''end_of_day_action'' (enum_of EndOfDayAction_value EndOfDayAction_members)) (\<lambda>end_of_day_action.
     M2Policy_init
       \<lparr>po_start_unknown_escalation_enabled = start_unknown_escalation_enabled,
         po_site_problem_action = site_problem_action, po_early_finish_options = early_finish_options,
         po_end_of_day_action = end_of_day_action\<rparr>))))))"

definition time_context_payload :: "calendar \<Rightarrow> PolicyTimeContext \<Rightarrow> json" where
  "time_context_payload cal x = JObject
     [(''now'', JString (datetime_text cal (cx_now x))),
      (''policy'', policy_payload (cx_policy x)),
      (''rule_version'', JString (cx_rule_version x))]"

definition time_context_keys :: "string list" where
  "time_context_keys =
     [''now'', ''policy'', ''rule_version'']"

definition time_context_of :: "calendar \<Rightarrow> string \<Rightarrow> json \<Rightarrow> PolicyTimeContext result" where
  "time_context_of cal path v =
     and_then (mapping_of path v) (\<lambda>data.
     and_then (keys_match data time_context_keys path) (\<lambda>_.
     and_then (field_of data path ''policy'' policy_of) (\<lambda>p.
     and_then (field_of data path ''now'' (datetime_of cal)) (\<lambda>t.
     and_then (field_of data path ''rule_version'' string_of) (\<lambda>rule_version.
     PolicyTimeContext_init
       \<lparr>cx_now = t, cx_policy = p, cx_rule_version = rule_version\<rparr>)))))"

definition effect_payload :: "SystemEffect \<Rightarrow> json" where
  "effect_payload x = JObject
     [(''actor_id'', json_option JString (ef_actor_id x)),
      (''assignment_id'', json_option JString (ef_assignment_id x)),
      (''details'', json_list json_pair (ef_details x)),
      (''directive_id'', json_option JString (ef_directive_id x)),
      (''effect_type'', JString (EffectType_value (ef_effect_type x))),
      (''job_id'', json_option JString (ef_job_id x)),
      (''plan_day_id'', json_option JString (ef_plan_day_id x)),
      (''source_id'', JString (ef_source_id x)),
      (''stage_id'', json_option JString (ef_stage_id x)),
      (''task_id'', json_option JString (ef_task_id x))]"

definition effect_keys :: "string list" where
  "effect_keys =
     [''actor_id'', ''assignment_id'', ''details'', ''directive_id'', ''effect_type'', ''job_id'',
      ''plan_day_id'', ''source_id'', ''stage_id'', ''task_id'']"

definition effect_of :: "string \<Rightarrow> json \<Rightarrow> SystemEffect result" where
  "effect_of path v =
     and_then (mapping_of path v) (\<lambda>data.
     and_then (keys_match data effect_keys path) (\<lambda>_.
     and_then (field_of data path ''details'' (items_of (pair_of ''effect details must be key/value pairs''))) (\<lambda>details.
     and_then (field_of data path ''effect_type'' (enum_of EffectType_value EffectType_members)) (\<lambda>effect_type.
     and_then (field_of data path ''source_id'' string_of) (\<lambda>source_id.
     and_then (field_of data path ''plan_day_id'' (optional_of string_of)) (\<lambda>plan_day_id.
     and_then (field_of data path ''job_id'' (optional_of string_of)) (\<lambda>job_id.
     and_then (field_of data path ''task_id'' (optional_of string_of)) (\<lambda>task_id.
     and_then (field_of data path ''assignment_id'' (optional_of string_of)) (\<lambda>assignment_id.
     and_then (field_of data path ''stage_id'' (optional_of string_of)) (\<lambda>stage_id.
     and_then (field_of data path ''directive_id'' (optional_of string_of)) (\<lambda>directive_id.
     and_then (field_of data path ''actor_id'' (optional_of string_of)) (\<lambda>actor_id.
     SystemEffect_init
       \<lparr>ef_effect_type = effect_type, ef_source_id = source_id, ef_plan_day_id = plan_day_id,
         ef_job_id = job_id, ef_task_id = task_id, ef_assignment_id = assignment_id,
         ef_stage_id = stage_id, ef_directive_id = directive_id, ef_actor_id = actor_id,
         ef_details = details\<rparr>))))))))))))"

definition receipt_payload :: "calendar \<Rightarrow> ProcessedEventReceipt \<Rightarrow> json" where
  "receipt_payload cal x = JObject
     [(''event'', event_payload cal (rc_event x)),
      (''missing_requirements'', json_strings (rc_missing_requirements x)),
      (''outcome'', JString (ReductionOutcome_value (rc_outcome x))),
      (''reason_codes'', json_strings (rc_reason_codes x)),
      (''response_effects'', json_list effect_payload (rc_response_effects x)),
      (''server_event_id'', JString (rc_server_event_id x))]"

definition receipt_keys :: "string list" where
  "receipt_keys =
     [''event'', ''missing_requirements'', ''outcome'', ''reason_codes'', ''response_effects'',
      ''server_event_id'']"

definition receipt_of :: "calendar \<Rightarrow> string \<Rightarrow> json \<Rightarrow> ProcessedEventReceipt result" where
  "receipt_of cal path v =
     and_then (mapping_of path v) (\<lambda>data.
     and_then (keys_match data receipt_keys path) (\<lambda>_.
     and_then (field_of data path ''event'' (event_of cal)) (\<lambda>event.
     and_then (field_of data path ''server_event_id'' string_of) (\<lambda>server_event_id.
     and_then (field_of data path ''outcome'' (enum_of ReductionOutcome_value ReductionOutcome_members)) (\<lambda>outcome.
     and_then (field_of data path ''response_effects'' (items_of effect_of)) (\<lambda>response_effects.
     and_then (field_of data path ''missing_requirements'' (items_of string_of)) (\<lambda>missing_requirements.
     and_then (field_of data path ''reason_codes'' (items_of string_of)) (\<lambda>reason_codes.
     Inr
       \<lparr>rc_event = event, rc_server_event_id = server_event_id, rc_outcome = outcome,
         rc_response_effects = response_effects, rc_missing_requirements = missing_requirements,
         rc_reason_codes = reason_codes\<rparr>))))))))"

end
