(* ===== verification/Field_Documents.thy ===== *)
theory Field_Documents
  imports Field_Codec "HOL-Library.Product_Lexorder"
begin

text \<open>
  field/serialization.py: canonical documents around the payloads of theory Field_Codec, their hashes,
  and the vectors of preconditions, revisions and routing keys that the durable inbox stores.
\<close>

section \<open>Documents\<close>

text \<open>\<open>_document\<close> and the strict reader \<open>verify_canonical_document\<close> with its digest check.\<close>

definition document_text :: "string \<Rightarrow> string \<Rightarrow> json \<Rightarrow> string" where
  "document_text document_type schema_version payload =
     canonical_json (JObject
       [(''document_type'', JString document_type), (''payload'', payload), (''schema_version'', JString schema_version)])"

definition digest_ok :: "string \<Rightarrow> bool" where
  "digest_ok d \<longleftrightarrow> length d = 64 \<and> (\<forall>c\<in>set d. c \<in> set ''0123456789abcdef'')"

definition validate_digest :: "string \<Rightarrow> unit result" where
  "validate_digest d = require (digest_ok d) ''SHA-256 digest must be 64 lowercase hexadecimal characters''"

definition verify_canonical_document :: "(string \<Rightarrow> string) \<Rightarrow> string \<Rightarrow> string option \<Rightarrow> json result" where
  "verify_canonical_document sha256 raw expected_sha256 =
     (case loads raw of
        None \<Rightarrow> serialization_error ''canonical document is not valid JSON''
      | Some v \<Rightarrow>
          if canonical_json v \<noteq> raw then serialization_error ''stored JSON is not canonical''
          else case expected_sha256 of
            None \<Rightarrow> Inr v
          | Some d \<Rightarrow> and_then (validate_digest d) (\<lambda>_.
              if sha256 raw \<noteq> d then serialization_error ''stored content hash does not match'' else Inr v))"

definition canonical_document_hash :: "(string \<Rightarrow> string) \<Rightarrow> ('a \<Rightarrow> string) \<Rightarrow> 'a \<Rightarrow> string \<times> string" where
  "canonical_document_hash sha256 serializer x = (serializer x, sha256 (serializer x))"

text \<open>\<open>_payload\<close>: without an expected digest the hash is not computed.\<close>

definition payload_of :: "string \<Rightarrow> string \<Rightarrow> string \<Rightarrow> json result" where
  "payload_of raw document_type schema_version =
     and_then (verify_canonical_document (\<lambda>_. []) raw None) (\<lambda>v.
     and_then (mapping_of ''document'' v) (\<lambda>m.
     and_then (keys_match m [''document_type'', ''payload'', ''schema_version''] ''document'') (\<lambda>_.
     and_then (field_of m [] ''document_type'' (\<lambda>_. Inr)) (\<lambda>t.
     and_then (require (t = JString document_type) (''expected document type '' @ document_type)) (\<lambda>_.
     and_then (field_of m [] ''schema_version'' (\<lambda>_. Inr)) (\<lambda>s.
     and_then (require (s = JString schema_version) (''unsupported schema for '' @ document_type)) (\<lambda>_.
     and_then (field_of m [] ''payload'' (\<lambda>_. Inr)) (\<lambda>p.
     and_then (mapping_of ''payload'' p) (\<lambda>_. Inr p)))))))))"

text \<open>The shape of every \<open>deserialize_X\<close>: the result must serialise to the same text.\<close>

definition deserialize ::
    "string \<Rightarrow> string \<Rightarrow> (string \<Rightarrow> json \<Rightarrow> 'a result) \<Rightarrow> ('a \<Rightarrow> string) \<Rightarrow> string \<Rightarrow> string \<Rightarrow> 'a result" where
  "deserialize document_type schema_version dec serialize what raw =
     and_then (payload_of raw document_type schema_version) (\<lambda>p.
     and_then (dec ''payload'' p) (\<lambda>x.
     if serialize x \<noteq> raw then serialization_error (what @ '' does not round-trip canonically'') else Inr x))"

definition serialize_job_execution_root :: "M2JobExecutionRoot \<Rightarrow> string" where
  "serialize_job_execution_root x = document_text ''M2JobExecutionRoot'' ''m2-job-execution-root-v1'' (job_execution_root_payload x)"

definition deserialize_job_execution_root :: "string \<Rightarrow> M2JobExecutionRoot result" where
  "deserialize_job_execution_root =
     deserialize ''M2JobExecutionRoot'' ''m2-job-execution-root-v1'' job_execution_root_of serialize_job_execution_root ''job execution root''"

definition serialize_plan_day_root :: "calendar \<Rightarrow> PlanDayRoot \<Rightarrow> string" where
  "serialize_plan_day_root cal x = document_text ''PlanDayRoot'' ''m2-plan-day-root-v1'' (plan_day_root_payload cal x)"

definition deserialize_plan_day_root :: "calendar \<Rightarrow> string \<Rightarrow> PlanDayRoot result" where
  "deserialize_plan_day_root cal =
     deserialize ''PlanDayRoot'' ''m2-plan-day-root-v1'' (plan_day_root_of cal) (serialize_plan_day_root cal) ''plan day root''"

definition serialize_directive_root :: "calendar \<Rightarrow> DirectiveRoot \<Rightarrow> string" where
  "serialize_directive_root cal x = document_text ''DirectiveRoot'' ''m2-directive-root-v1'' (directive_root_payload cal x)"

definition deserialize_directive_root :: "calendar \<Rightarrow> string \<Rightarrow> DirectiveRoot result" where
  "deserialize_directive_root cal =
     deserialize ''DirectiveRoot'' ''m2-directive-root-v1'' (directive_root_of cal) (serialize_directive_root cal) ''directive root''"

definition serialize_worker_registry :: "WorkerIdentityRegistry \<Rightarrow> string" where
  "serialize_worker_registry x = document_text ''WorkerIdentityRegistry'' ''m2-worker-registry-v1'' (worker_registry_payload x)"

definition deserialize_worker_registry :: "string \<Rightarrow> WorkerIdentityRegistry result" where
  "deserialize_worker_registry =
     deserialize ''WorkerIdentityRegistry'' ''m2-worker-registry-v1'' worker_registry_of serialize_worker_registry ''worker registry''"

definition serialize_field_event_envelope :: "calendar \<Rightarrow> FieldEventEnvelope \<Rightarrow> string" where
  "serialize_field_event_envelope cal x = document_text ''FieldEventEnvelope'' ''m2-field-event-envelope-v1'' (event_payload cal x)"

definition deserialize_field_event_envelope :: "calendar \<Rightarrow> string \<Rightarrow> FieldEventEnvelope result" where
  "deserialize_field_event_envelope cal =
     deserialize ''FieldEventEnvelope'' ''m2-field-event-envelope-v1'' (event_of cal) (serialize_field_event_envelope cal) ''field event''"

definition serialize_field_event_input :: "calendar \<Rightarrow> FieldEventInput \<Rightarrow> string" where
  "serialize_field_event_input cal x = document_text ''FieldEventInput'' ''m2-field-event-input-v1'' (event_input_payload cal x)"

definition deserialize_field_event_input :: "calendar \<Rightarrow> string \<Rightarrow> FieldEventInput result" where
  "deserialize_field_event_input cal =
     deserialize ''FieldEventInput'' ''m2-field-event-input-v1'' (event_input_of cal) (serialize_field_event_input cal) ''field input''"

definition serialize_system_signal :: "SystemSignal \<Rightarrow> string" where
  "serialize_system_signal x = document_text ''SystemSignal'' ''m2-system-signal-v1'' (signal_payload x)"

definition deserialize_system_signal :: "string \<Rightarrow> SystemSignal result" where
  "deserialize_system_signal =
     deserialize ''SystemSignal'' ''m2-system-signal-v1'' signal_of serialize_system_signal ''system signal''"

definition serialize_policy_time_context :: "calendar \<Rightarrow> PolicyTimeContext \<Rightarrow> string" where
  "serialize_policy_time_context cal x = document_text ''PolicyTimeContext'' ''m2-policy-time-context-v1'' (time_context_payload cal x)"

definition deserialize_policy_time_context :: "calendar \<Rightarrow> string \<Rightarrow> PolicyTimeContext result" where
  "deserialize_policy_time_context cal =
     deserialize ''PolicyTimeContext'' ''m2-policy-time-context-v1'' (time_context_of cal) (serialize_policy_time_context cal) ''policy context''"

definition serialize_effect :: "SystemEffect \<Rightarrow> string" where
  "serialize_effect x = document_text ''SystemEffect'' ''m2-system-effect-v1'' (effect_payload x)"

definition deserialize_effect :: "string \<Rightarrow> SystemEffect result" where
  "deserialize_effect =
     deserialize ''SystemEffect'' ''m2-system-effect-v1'' effect_of serialize_effect ''effect''"

definition serialize_processed_event_receipt :: "calendar \<Rightarrow> ProcessedEventReceipt \<Rightarrow> string" where
  "serialize_processed_event_receipt cal x = document_text ''ProcessedEventReceipt'' ''m2-processed-event-receipt-v1'' (receipt_payload cal x)"

definition deserialize_processed_event_receipt :: "calendar \<Rightarrow> string \<Rightarrow> ProcessedEventReceipt result" where
  "deserialize_processed_event_receipt cal =
     deserialize ''ProcessedEventReceipt'' ''m2-processed-event-receipt-v1'' (receipt_of cal) (serialize_processed_event_receipt cal) ''receipt''"

text \<open>Lists of effects and of strings.\<close>

definition effects_payload :: "SystemEffect list \<Rightarrow> json" where
  "effects_payload xs = JObject [(''effects'', json_list effect_payload xs)]"

definition effects_of :: "string \<Rightarrow> json \<Rightarrow> SystemEffect list result" where
  "effects_of path v =
     and_then (mapping_of path v) (\<lambda>data.
     and_then (keys_match data [''effects''] path) (\<lambda>_.
     field_of data path ''effects'' (items_of effect_of)))"

definition serialize_effects :: "SystemEffect list \<Rightarrow> string" where
  "serialize_effects xs = document_text ''SystemEffectList'' ''m2-system-effect-list-v1'' (effects_payload xs)"

definition deserialize_effects :: "string \<Rightarrow> SystemEffect list result" where
  "deserialize_effects =
     deserialize ''SystemEffectList'' ''m2-system-effect-list-v1'' effects_of serialize_effects ''effect list''"

definition strings_payload :: "string list \<Rightarrow> json" where
  "strings_payload xs = JObject [(''values'', json_strings xs)]"

definition strings_of :: "string \<Rightarrow> json \<Rightarrow> string list result" where
  "strings_of path v =
     and_then (mapping_of path v) (\<lambda>data.
     and_then (keys_match data [''values''] path) (\<lambda>_.
     field_of data path ''values'' (items_of string_of)))"

definition serialize_string_tuple :: "string \<Rightarrow> string list \<Rightarrow> string" where
  "serialize_string_tuple document_type xs = document_text document_type ''m2-string-list-v1'' (strings_payload xs)"

definition deserialize_string_tuple :: "string \<Rightarrow> string \<Rightarrow> string list result" where
  "deserialize_string_tuple document_type =
     deserialize document_type ''m2-string-list-v1'' strings_of (serialize_string_tuple document_type) ''string list''"

section \<open>Preconditions, revisions and routing\<close>

datatype RootAccess = MUTATE | READ_AUTHORITY

fun RootAccess_value :: "RootAccess \<Rightarrow> string" where
  "RootAccess_value MUTATE = ''MUTATE''"
| "RootAccess_value READ_AUTHORITY = ''READ_AUTHORITY''"

definition RootAccess_members :: "RootAccess list" where
  "RootAccess_members = [MUTATE, READ_AUTHORITY]"

record RootPrecondition =
  rp_root_kind :: string
  rp_root_id :: string
  rp_access :: RootAccess
  rp_expected_revision :: int
  rp_expected_content_sha256 :: string

definition RootPrecondition_init :: "RootPrecondition \<Rightarrow> RootPrecondition result" where
  "RootPrecondition_init x =
     and_then (require (strip (rp_root_kind x) \<noteq> [] \<and> strip (rp_root_id x) \<noteq> [])
        ''root precondition identity must be non-blank'') (\<lambda>_.
     and_then (require (0 \<le> rp_expected_revision x) ''expected_revision must be non-negative'') (\<lambda>_.
     and_then (validate_digest (rp_expected_content_sha256 x)) (\<lambda>_. Inr x)))"

record ImmutablePrecondition =
  ip_record_kind :: string
  ip_record_id :: string
  ip_content_sha256 :: string

definition ImmutablePrecondition_init :: "ImmutablePrecondition \<Rightarrow> ImmutablePrecondition result" where
  "ImmutablePrecondition_init x =
     and_then (require (strip (ip_record_kind x) \<noteq> [] \<and> strip (ip_record_id x) \<noteq> [])
        ''immutable precondition identity must be non-blank'') (\<lambda>_.
     and_then (validate_digest (ip_content_sha256 x)) (\<lambda>_. Inr x))"

record PreconditionVector =
  pc_roots :: "RootPrecondition list"
  pc_immutable_records :: "ImmutablePrecondition list"

definition root_key :: "RootPrecondition \<Rightarrow> string \<times> string" where
  "root_key x = (rp_root_kind x, rp_root_id x)"

definition record_key :: "ImmutablePrecondition \<Rightarrow> string \<times> string" where
  "record_key x = (ip_record_kind x, ip_record_id x)"

definition PreconditionVector_init :: "PreconditionVector \<Rightarrow> PreconditionVector result" where
  "PreconditionVector_init x =
     (let roots = sort_key root_key (pc_roots x); immutable = sort_key record_key (pc_immutable_records x) in
      and_then (require (distinct (map root_key roots)) ''root preconditions must be unique'') (\<lambda>_.
      and_then (require (distinct (map record_key immutable)) ''immutable preconditions must be unique'') (\<lambda>_.
      Inr \<lparr>pc_roots = roots, pc_immutable_records = immutable\<rparr>)))"

record ResultingRevision =
  rr_root_kind :: string
  rr_root_id :: string
  rr_resulting_revision :: int
  rr_resulting_content_sha256 :: string

definition ResultingRevision_init :: "ResultingRevision \<Rightarrow> ResultingRevision result" where
  "ResultingRevision_init x =
     and_then (require (strip (rr_root_kind x) \<noteq> [] \<and> strip (rr_root_id x) \<noteq> [])
        ''resulting revision identity must be non-blank'') (\<lambda>_.
     and_then (require (0 \<le> rr_resulting_revision x) ''resulting_revision must be non-negative'') (\<lambda>_.
     and_then (validate_digest (rr_resulting_content_sha256 x)) (\<lambda>_. Inr x)))"

record ResultingRevisionVector =
  rv_roots :: "ResultingRevision list"

definition resulting_key :: "ResultingRevision \<Rightarrow> string \<times> string" where
  "resulting_key x = (rr_root_kind x, rr_root_id x)"

definition ResultingRevisionVector_init :: "ResultingRevisionVector \<Rightarrow> ResultingRevisionVector result" where
  "ResultingRevisionVector_init x =
     (let roots = sort_key resulting_key (rv_roots x) in
      and_then (require (distinct (map resulting_key roots)) ''resulting revisions must be unique'') (\<lambda>_.
      Inr \<lparr>rv_roots = roots\<rparr>))"

record RoutingVector =
  rt_job_root_ids :: "string list"
  rt_plan_day_ids :: "string list"
  rt_directive_ids :: "string list"
  rt_publication_keys :: "(string \<times> int \<times> string) list"
  rt_receipt_event_ids :: "string list"
  rt_evidence_ids :: "string list"

definition RoutingVector_init :: "RoutingVector \<Rightarrow> RoutingVector result" where
  "RoutingVector_init x =
     and_then (unique (rt_job_root_ids x) ''job_root_ids'') (\<lambda>jobs.
     and_then (unique (rt_plan_day_ids x) ''plan_day_ids'') (\<lambda>plans.
     and_then (unique (rt_directive_ids x) ''directive_ids'') (\<lambda>directives.
     and_then (unique (rt_receipt_event_ids x) ''receipt_event_ids'') (\<lambda>receipts.
     and_then (unique (rt_evidence_ids x) ''evidence_ids'') (\<lambda>evidence.
     and_then (require (distinct (rt_publication_keys x)) ''publication_keys must be unique'') (\<lambda>_.
     Inr \<lparr>rt_job_root_ids = jobs, rt_plan_day_ids = plans, rt_directive_ids = directives,
          rt_publication_keys = sort (rt_publication_keys x), rt_receipt_event_ids = receipts,
          rt_evidence_ids = evidence\<rparr>))))))"

text \<open>Their payloads. The path of a field here is its name alone.\<close>

definition named_field :: "(string \<times> json) list \<Rightarrow> string \<Rightarrow> (string \<Rightarrow> json \<Rightarrow> 'a result) \<Rightarrow> 'a result" where
  "named_field data name dec = (case map_of data name of None \<Rightarrow> Inl KeyError | Some v \<Rightarrow> dec name v)"

definition root_precondition_payload :: "RootPrecondition \<Rightarrow> json" where
  "root_precondition_payload x = JObject
     [(''access'', JString (RootAccess_value (rp_access x))),
      (''expected_content_sha256'', JString (rp_expected_content_sha256 x)),
      (''expected_revision'', JInt (rp_expected_revision x)),
      (''root_id'', JString (rp_root_id x)), (''root_kind'', JString (rp_root_kind x))]"

definition root_precondition_of :: "string \<Rightarrow> json \<Rightarrow> RootPrecondition result" where
  "root_precondition_of path v =
     and_then (mapping_of path v) (\<lambda>item.
     and_then (keys_match item [''access'', ''expected_content_sha256'', ''expected_revision'', ''root_id'', ''root_kind''] path) (\<lambda>_.
     and_then (named_field item ''root_kind'' string_of) (\<lambda>kind.
     and_then (named_field item ''root_id'' string_of) (\<lambda>root_id.
     and_then (named_field item ''access'' (enum_of RootAccess_value RootAccess_members)) (\<lambda>access.
     and_then (named_field item ''expected_revision'' integer_of) (\<lambda>revision.
     and_then (named_field item ''expected_content_sha256'' string_of) (\<lambda>sha.
     RootPrecondition_init
       \<lparr>rp_root_kind = kind, rp_root_id = root_id, rp_access = access, rp_expected_revision = revision,
        rp_expected_content_sha256 = sha\<rparr>)))))))"

definition immutable_precondition_payload :: "ImmutablePrecondition \<Rightarrow> json" where
  "immutable_precondition_payload x = JObject
     [(''content_sha256'', JString (ip_content_sha256 x)), (''record_id'', JString (ip_record_id x)),
      (''record_kind'', JString (ip_record_kind x))]"

definition immutable_precondition_of :: "string \<Rightarrow> json \<Rightarrow> ImmutablePrecondition result" where
  "immutable_precondition_of path v =
     and_then (mapping_of path v) (\<lambda>item.
     and_then (keys_match item [''content_sha256'', ''record_id'', ''record_kind''] ''immutable'') (\<lambda>_.
     and_then (named_field item ''record_kind'' string_of) (\<lambda>kind.
     and_then (named_field item ''record_id'' string_of) (\<lambda>record_id.
     and_then (named_field item ''content_sha256'' string_of) (\<lambda>sha.
     ImmutablePrecondition_init \<lparr>ip_record_kind = kind, ip_record_id = record_id, ip_content_sha256 = sha\<rparr>)))))"

definition precondition_vector_payload :: "PreconditionVector \<Rightarrow> json" where
  "precondition_vector_payload x = JObject
     [(''immutable_records'', json_list immutable_precondition_payload (pc_immutable_records x)),
      (''roots'', json_list root_precondition_payload (pc_roots x))]"

definition precondition_vector_of :: "string \<Rightarrow> json \<Rightarrow> PreconditionVector result" where
  "precondition_vector_of path v =
     and_then (mapping_of path v) (\<lambda>data.
     and_then (keys_match data [''immutable_records'', ''roots''] path) (\<lambda>_.
     and_then (field_of data path ''roots'' (items_of root_precondition_of)) (\<lambda>roots.
     and_then (field_of data path ''immutable_records'' (items_of immutable_precondition_of)) (\<lambda>immutable.
     PreconditionVector_init \<lparr>pc_roots = roots, pc_immutable_records = immutable\<rparr>))))"

definition serialize_precondition_vector :: "PreconditionVector \<Rightarrow> string" where
  "serialize_precondition_vector x =
     document_text ''PreconditionVector'' ''m2-precondition-vector-v1'' (precondition_vector_payload x)"

definition deserialize_precondition_vector :: "string \<Rightarrow> PreconditionVector result" where
  "deserialize_precondition_vector =
     deserialize ''PreconditionVector'' ''m2-precondition-vector-v1'' precondition_vector_of
       serialize_precondition_vector ''precondition vector''"

definition resulting_revision_payload :: "ResultingRevision \<Rightarrow> json" where
  "resulting_revision_payload x = JObject
     [(''resulting_content_sha256'', JString (rr_resulting_content_sha256 x)),
      (''resulting_revision'', JInt (rr_resulting_revision x)),
      (''root_id'', JString (rr_root_id x)), (''root_kind'', JString (rr_root_kind x))]"

definition resulting_revision_of :: "string \<Rightarrow> json \<Rightarrow> ResultingRevision result" where
  "resulting_revision_of path v =
     and_then (mapping_of path v) (\<lambda>item.
     and_then (keys_match item [''resulting_content_sha256'', ''resulting_revision'', ''root_id'', ''root_kind''] path) (\<lambda>_.
     and_then (named_field item ''root_kind'' string_of) (\<lambda>kind.
     and_then (named_field item ''root_id'' string_of) (\<lambda>root_id.
     and_then (named_field item ''resulting_revision'' integer_of) (\<lambda>revision.
     and_then (named_field item ''resulting_content_sha256'' string_of) (\<lambda>sha.
     ResultingRevision_init
       \<lparr>rr_root_kind = kind, rr_root_id = root_id, rr_resulting_revision = revision,
        rr_resulting_content_sha256 = sha\<rparr>))))))"

definition resulting_revision_vector_payload :: "ResultingRevisionVector \<Rightarrow> json" where
  "resulting_revision_vector_payload x = JObject [(''roots'', json_list resulting_revision_payload (rv_roots x))]"

definition resulting_revision_vector_of :: "string \<Rightarrow> json \<Rightarrow> ResultingRevisionVector result" where
  "resulting_revision_vector_of path v =
     and_then (mapping_of path v) (\<lambda>data.
     and_then (keys_match data [''roots''] path) (\<lambda>_.
     and_then (field_of data path ''roots'' (items_of resulting_revision_of)) (\<lambda>roots.
     ResultingRevisionVector_init \<lparr>rv_roots = roots\<rparr>)))"

definition serialize_resulting_revision_vector :: "ResultingRevisionVector \<Rightarrow> string" where
  "serialize_resulting_revision_vector x =
     document_text ''ResultingRevisionVector'' ''m2-resulting-revision-vector-v1'' (resulting_revision_vector_payload x)"

definition deserialize_resulting_revision_vector :: "string \<Rightarrow> ResultingRevisionVector result" where
  "deserialize_resulting_revision_vector =
     deserialize ''ResultingRevisionVector'' ''m2-resulting-revision-vector-v1'' resulting_revision_vector_of
       serialize_resulting_revision_vector ''resulting vector''"

definition publication_key_payload :: "string \<times> int \<times> string \<Rightarrow> json" where
  "publication_key_payload k = JList [JString (fst k), JInt (fst (snd k)), JString (snd (snd k))]"

definition publication_key_of :: "string \<Rightarrow> json \<Rightarrow> (string \<times> int \<times> string) result" where
  "publication_key_of path v =
     and_then (list_of path v) (\<lambda>xs.
     case xs of
       [a, b, c] \<Rightarrow>
         and_then (string_of ''publication.job_id'' a) (\<lambda>job_id.
         and_then (integer_of ''publication.source_revision'' b) (\<lambda>revision.
         and_then (string_of ''publication.handoff_id'' c) (\<lambda>handoff_id.
         Inr (job_id, revision, handoff_id))))
     | _ \<Rightarrow> serialization_error ''publication keys must have three values'')"

definition routing_vector_payload :: "RoutingVector \<Rightarrow> json" where
  "routing_vector_payload x = JObject
     [(''directive_ids'', json_strings (rt_directive_ids x)), (''evidence_ids'', json_strings (rt_evidence_ids x)),
      (''job_root_ids'', json_strings (rt_job_root_ids x)), (''plan_day_ids'', json_strings (rt_plan_day_ids x)),
      (''publication_keys'', json_list publication_key_payload (rt_publication_keys x)),
      (''receipt_event_ids'', json_strings (rt_receipt_event_ids x))]"

definition routing_vector_of :: "string \<Rightarrow> json \<Rightarrow> RoutingVector result" where
  "routing_vector_of path v =
     and_then (mapping_of path v) (\<lambda>data.
     and_then (keys_match data [''directive_ids'', ''evidence_ids'', ''job_root_ids'', ''plan_day_ids'',
       ''publication_keys'', ''receipt_event_ids''] path) (\<lambda>_.
     and_then (field_of data path ''publication_keys'' (items_of publication_key_of)) (\<lambda>keys.
     and_then (field_of data path ''job_root_ids'' (items_of string_of)) (\<lambda>jobs.
     and_then (field_of data path ''plan_day_ids'' (items_of string_of)) (\<lambda>plans.
     and_then (field_of data path ''directive_ids'' (items_of string_of)) (\<lambda>directives.
     and_then (field_of data path ''receipt_event_ids'' (items_of string_of)) (\<lambda>receipts.
     and_then (field_of data path ''evidence_ids'' (items_of string_of)) (\<lambda>evidence.
     RoutingVector_init
       \<lparr>rt_job_root_ids = jobs, rt_plan_day_ids = plans, rt_directive_ids = directives, rt_publication_keys = keys,
        rt_receipt_event_ids = receipts, rt_evidence_ids = evidence\<rparr>))))))))"

definition serialize_routing_vector :: "RoutingVector \<Rightarrow> string" where
  "serialize_routing_vector x = document_text ''RoutingVector'' ''m2-routing-vector-v1'' (routing_vector_payload x)"

definition deserialize_routing_vector :: "string \<Rightarrow> RoutingVector result" where
  "deserialize_routing_vector =
     deserialize ''RoutingVector'' ''m2-routing-vector-v1'' routing_vector_of serialize_routing_vector ''routing vector''"

end
