(* ===== verification/Field_Codec_Properties.thy ===== *)
theory Field_Codec_Properties
  imports Field_Documents Field_Types
begin

text \<open>
  Round trips of the canonical documents. A locale \<open>codec\<close> states what a payload writer and its reader
  promise each other, a locale \<open>enum_texts\<close> what the texts of an enum promise; each writer/reader pair
  of theory Field_Codec is an interpretation, composed from those of its parts.
\<close>

section \<open>Canonical values\<close>

definition canonical :: "json \<Rightarrow> bool" where
  "canonical j \<longleftrightarrow> sort_keys j = j \<and> keys_distinct j"

fun ascending :: "'a::linorder list \<Rightarrow> bool" where
  "ascending (x # y # zs) \<longleftrightarrow> x < y \<and> ascending (y # zs)"
| "ascending _ \<longleftrightarrow> True"

lemma ascending_sorted_wrt: "ascending xs \<longleftrightarrow> sorted_wrt (<) xs"
  by (induction xs rule: ascending.induct) (auto intro: less_trans)

lemma ascendingD: "ascending xs \<Longrightarrow> sorted xs \<and> distinct xs"
  by (simp add: ascending_sorted_wrt strict_sorted_iff)

named_theorems canonical_rules

lemma canonical_scalars [canonical_rules, simp]:
  "canonical JNull" "canonical (JBool b)" "canonical (JInt n)" "canonical (JString s)"
  by (simp_all add: canonical_def)

lemma canonical_JList [canonical_rules, simp]: "canonical (JList xs) \<longleftrightarrow> (\<forall>x\<in>set xs. canonical x)"
proof -
  have "map sort_keys xs = xs \<longleftrightarrow> (\<forall>x\<in>set xs. sort_keys x = x)" by (induction xs) auto
  then show ?thesis by (auto simp: canonical_def)
qed

lemma canonical_JObject:
  assumes "ascending (map fst kvs)" "\<forall>v\<in>set (map snd kvs). canonical v"
  shows "canonical (JObject kvs)"
proof -
  have "map (\<lambda>(k, v). (k, sort_keys v)) kvs = kvs"
    using assms(2) by (intro map_idI) (auto simp: canonical_def)
  moreover have "sort_key fst kvs = kvs" using ascendingD [OF assms(1)] by (simp add: sort_key_id_iff)
  ultimately show ?thesis using assms(2) ascendingD [OF assms(1)]
    by (auto simp: canonical_def)
qed

lemma canonical_strings [canonical_rules, simp]: "canonical (json_strings xs)" "canonical (json_pair p)"
  by (simp_all add: json_strings_def json_pair_def)

lemma canonical_option [canonical_rules]: "(\<And>x. canonical (f x)) \<Longrightarrow> canonical (json_option f v)"
  by (simp add: json_option_def split: option.splits)

lemma canonical_list [canonical_rules]: "(\<And>x. canonical (f x)) \<Longrightarrow> canonical (json_list f xs)"
  by (simp add: json_list_def)

text \<open>A canonical value is read back from its text, and the text is canonical.\<close>

lemma canonical_text:
  "canonical j \<Longrightarrow> loads (canonical_json j) = Some j"
  by (simp add: canonical_def canonical_json_def loads_print)

section \<open>Documents\<close>

lemma document_canonical:
  "canonical p \<Longrightarrow>
   canonical (JObject [(''document_type'', JString t), (''payload'', p), (''schema_version'', JString s)])"
  by (rule canonical_JObject) simp_all

lemma verify_canonical: "canonical j \<Longrightarrow> verify_canonical_document h (canonical_json j) None = Inr j"
  by (simp add: verify_canonical_document_def canonical_text)

lemma verify_document:
  assumes "canonical p"
  shows "verify_canonical_document h (document_text t s p) None =
     Inr (JObject [(''document_type'', JString t), (''payload'', p), (''schema_version'', JString s)])"
  unfolding document_text_def by (rule verify_canonical [OF document_canonical [OF assms]])

lemma payload_of_document:
  assumes "canonical (JObject kvs)"
  shows "payload_of (document_text t s (JObject kvs)) t s = Inr (JObject kvs)"
  by (simp add: payload_of_def verify_document [OF assms] mapping_of_def keys_match_def field_of_def)

text \<open>The guard of every reader of a document: what it returns serialises to the text it was given.\<close>

lemma deserialize_Inr:
  "deserialize t s dec ser what raw = Inr x \<Longrightarrow> ser x = raw"
  by (auto simp: deserialize_def serialization_error_def split: if_splits)

section \<open>Writers and readers\<close>

locale codec =
  fixes enc :: "'a \<Rightarrow> json" and dec :: "string \<Rightarrow> json \<Rightarrow> 'a result" and ok :: "'a \<Rightarrow> bool"
  assumes reads: "ok x \<Longrightarrow> dec path (enc x) = Inr x"
    and canonical_enc: "canonical (enc x)"
    and not_null: "enc x \<noteq> JNull"
begin

lemma reads_list: "\<forall>x\<in>set xs. ok x \<Longrightarrow> items_of dec path (json_list enc xs) = Inr xs"
  by (simp add: items_of_def json_list_def list_of_def traverse_Inr_iff list_all2_conv_all_nth reads)

lemma reads_option: "\<forall>x\<in>set_option v. ok x \<Longrightarrow> optional_of dec path (json_option enc v) = Inr v"
  by (cases v) (simp_all add: optional_of_def json_option_def reads not_null)

lemma canonical_parts: "canonical (json_list enc xs)" "canonical (json_option enc v)"
  by (simp_all add: canonical_list canonical_option canonical_enc)

lemma document_round_trip:
  assumes "enc x = JObject kvs" "ok x" "ser x = document_text t s (enc x)"
  shows "deserialize t s dec ser what (ser x) = Inr x"
proof -
  have "payload_of (document_text t s (enc x)) t s = Inr (enc x)"
    using payload_of_document canonical_enc [of x] assms(1) by simp
  then show ?thesis using assms(2,3) by (simp add: deserialize_def reads)
qed

text \<open>Texts of well-formed values are told apart: equal payloads come from equal values.\<close>

lemma enc_injective: "ok x \<Longrightarrow> ok y \<Longrightarrow> enc x = enc y \<Longrightarrow> x = y"
  by (metis reads sum.inject(2))

end

locale enum_texts =
  fixes text_of :: "'e \<Rightarrow> string" and members :: "'e list"
  assumes distinct_texts: "distinct (map text_of members)"
    and complete: "e \<in> set members"
begin

lemma reads_enum: "enum_of text_of members path (JString (text_of e)) = Inr e"
  by (simp add: enum_of_def string_of_def lookup_by_distinct [OF distinct_texts complete])

lemma text_injective: "text_of e = text_of e' \<Longrightarrow> e = e'"
  using distinct_texts complete by (metis distinct_map inj_onD)

end

sublocale enum_texts \<subseteq> codec "JString \<circ> text_of" "enum_of text_of members" "\<lambda>_. True"
  by unfold_locales (simp_all add: reads_enum)

interpretation text_codec: codec JString string_of "\<lambda>_. True"
  by unfold_locales (simp_all add: string_of_def)

interpretation int_codec: codec JInt integer_of "\<lambda>_. True"
  by unfold_locales (simp_all add: integer_of_def)

interpretation bool_codec: codec JBool boolean_of "\<lambda>_. True"
  by unfold_locales (simp_all add: boolean_of_def)

interpretation pair_codec: codec json_pair "pair_of msg" "\<lambda>_. True" for msg
  by unfold_locales (simp_all add: json_pair_def pair_of_def list_of_def string_of_def)

lemma json_strings_list: "json_strings = json_list JString"
  by (simp add: json_strings_def json_list_def fun_eq_iff)

section \<open>Enums\<close>

interpretation EvidenceKind_texts: enum_texts EvidenceKind_value EvidenceKind_members
proof
  show "distinct (map EvidenceKind_value EvidenceKind_members)" by code_simp
  show "e \<in> set EvidenceKind_members" for e by (cases e) (simp_all add: EvidenceKind_members_def)
qed

interpretation StageStatus_texts: enum_texts StageStatus_value StageStatus_members
proof
  show "distinct (map StageStatus_value StageStatus_members)" by code_simp
  show "e \<in> set StageStatus_members" for e by (cases e) (simp_all add: StageStatus_members_def)
qed

interpretation CompletionType_texts: enum_texts CompletionType_value CompletionType_members
proof
  show "distinct (map CompletionType_value CompletionType_members)" by code_simp
  show "e \<in> set CompletionType_members" for e by (cases e) (simp_all add: CompletionType_members_def)
qed

interpretation AssignmentKind_texts: enum_texts AssignmentKind_value AssignmentKind_members
proof
  show "distinct (map AssignmentKind_value AssignmentKind_members)" by code_simp
  show "e \<in> set AssignmentKind_members" for e by (cases e) (simp_all add: AssignmentKind_members_def)
qed

interpretation TaskStatus_texts: enum_texts TaskStatus_value TaskStatus_members
proof
  show "distinct (map TaskStatus_value TaskStatus_members)" by code_simp
  show "e \<in> set TaskStatus_members" for e by (cases e) (simp_all add: TaskStatus_members_def)
qed

interpretation PlanDayStatus_texts: enum_texts PlanDayStatus_value PlanDayStatus_members
proof
  show "distinct (map PlanDayStatus_value PlanDayStatus_members)" by code_simp
  show "e \<in> set PlanDayStatus_members" for e by (cases e) (simp_all add: PlanDayStatus_members_def)
qed

interpretation DirectiveType_texts: enum_texts DirectiveType_value DirectiveType_members
proof
  show "distinct (map DirectiveType_value DirectiveType_members)" by code_simp
  show "e \<in> set DirectiveType_members" for e by (cases e) (simp_all add: DirectiveType_members_def)
qed

interpretation DirectiveClass_texts: enum_texts DirectiveClass_value DirectiveClass_members
proof
  show "distinct (map DirectiveClass_value DirectiveClass_members)" by code_simp
  show "e \<in> set DirectiveClass_members" for e by (cases e) (simp_all add: DirectiveClass_members_def)
qed

interpretation DeliveryEvidence_texts: enum_texts DeliveryEvidence_value DeliveryEvidence_members
proof
  show "distinct (map DeliveryEvidence_value DeliveryEvidence_members)" by code_simp
  show "e \<in> set DeliveryEvidence_members" for e by (cases e) (simp_all add: DeliveryEvidence_members_def)
qed

interpretation FieldEventType_texts: enum_texts FieldEventType_value FieldEventType_members
proof
  show "distinct (map FieldEventType_value FieldEventType_members)" by code_simp
  show "e \<in> set FieldEventType_members" for e by (cases e) (simp_all add: FieldEventType_members_def)
qed

interpretation ProblemHint_texts: enum_texts ProblemHint_value ProblemHint_members
proof
  show "distinct (map ProblemHint_value ProblemHint_members)" by code_simp
  show "e \<in> set ProblemHint_members" for e by (cases e) (simp_all add: ProblemHint_members_def)
qed

interpretation SystemSignalType_texts: enum_texts SystemSignalType_value SystemSignalType_members
proof
  show "distinct (map SystemSignalType_value SystemSignalType_members)" by code_simp
  show "e \<in> set SystemSignalType_members" for e by (cases e) (simp_all add: SystemSignalType_members_def)
qed

interpretation EndOfDayAction_texts: enum_texts EndOfDayAction_value EndOfDayAction_members
proof
  show "distinct (map EndOfDayAction_value EndOfDayAction_members)" by code_simp
  show "e \<in> set EndOfDayAction_members" for e by (cases e) (simp_all add: EndOfDayAction_members_def)
qed

interpretation SiteProblemAction_texts: enum_texts SiteProblemAction_value SiteProblemAction_members
proof
  show "distinct (map SiteProblemAction_value SiteProblemAction_members)" by code_simp
  show "e \<in> set SiteProblemAction_members" for e by (cases e) (simp_all add: SiteProblemAction_members_def)
qed

interpretation EffectType_texts: enum_texts EffectType_value EffectType_members
proof
  show "distinct (map EffectType_value EffectType_members)" by code_simp
  show "e \<in> set EffectType_members" for e by (cases e) (simp_all add: EffectType_members_def)
qed

interpretation ReductionOutcome_texts: enum_texts ReductionOutcome_value ReductionOutcome_members
proof
  show "distinct (map ReductionOutcome_value ReductionOutcome_members)" by code_simp
  show "e \<in> set ReductionOutcome_members" for e by (cases e) (simp_all add: ReductionOutcome_members_def)
qed

section \<open>Records\<close>

text \<open>What the model asks of \<open>isoformat\<close> and \<open>fromisoformat\<close>: the text of an aware datetime and of a date
  is read back as the same instant and the same date.\<close>

definition calendar_law :: "calendar \<Rightarrow> bool" where
  "calendar_law cal \<longleftrightarrow> (\<forall>t. is_aware t \<longrightarrow> datetime_of_text cal (datetime_text cal t) = Some t) \<and>
     (\<forall>d. date_of_text cal (date_text cal d) = Some d)"

interpretation instant_codec: codec "JString \<circ> datetime_text cal" "datetime_of cal" "\<lambda>t. calendar_law cal \<and> is_aware t" for cal
  by unfold_locales (simp_all add: datetime_of_def string_of_def calendar_law_def)

interpretation date_codec: codec "JString \<circ> date_text cal" "date_of cal" "\<lambda>_. calendar_law cal" for cal
  by unfold_locales (simp_all add: date_of_def string_of_def calendar_law_def)

text \<open>Reading the fields of an object.\<close>

named_theorems reading

lemma read_object [reading]:
  "mapping_of path (JObject kvs) = Inr kvs"
  "set (map fst kvs) = set ks \<Longrightarrow> keys_match kvs ks path = Inr ()"
  by (simp_all add: mapping_of_def keys_match_def)

lemma read_field [reading]:
  "field_of ((k, v) # kvs) path name dec = (if k = name then dec (path @ ''.'' @ name) v else field_of kvs path name dec)"
  by (simp add: field_of_def)

lemmas read_leaf [reading] =
  text_codec.reads int_codec.reads bool_codec.reads pair_codec.reads
  instant_codec.reads [unfolded comp_apply] date_codec.reads [unfolded comp_apply]

lemmas read_text_groups [reading] =
  text_codec.reads_list [folded json_strings_list, simplified] text_codec.reads_option [simplified]
  pair_codec.reads_list [simplified] instant_codec.reads_option

lemmas canonical_groups [canonical_rules] = canonical_list canonical_option

lemmas read_enum [reading] =
  EvidenceKind_texts.reads_enum EvidenceKind_texts.reads_list [simplified] EvidenceKind_texts.reads_option [simplified]
  StageStatus_texts.reads_enum StageStatus_texts.reads_list [simplified] StageStatus_texts.reads_option [simplified]
  CompletionType_texts.reads_enum CompletionType_texts.reads_list [simplified] CompletionType_texts.reads_option [simplified]
  AssignmentKind_texts.reads_enum AssignmentKind_texts.reads_list [simplified] AssignmentKind_texts.reads_option [simplified]
  TaskStatus_texts.reads_enum TaskStatus_texts.reads_list [simplified] TaskStatus_texts.reads_option [simplified]
  PlanDayStatus_texts.reads_enum PlanDayStatus_texts.reads_list [simplified] PlanDayStatus_texts.reads_option [simplified]
  DirectiveType_texts.reads_enum DirectiveType_texts.reads_list [simplified] DirectiveType_texts.reads_option [simplified]
  DirectiveClass_texts.reads_enum DirectiveClass_texts.reads_list [simplified] DirectiveClass_texts.reads_option [simplified]
  DeliveryEvidence_texts.reads_enum DeliveryEvidence_texts.reads_list [simplified] DeliveryEvidence_texts.reads_option [simplified]
  FieldEventType_texts.reads_enum FieldEventType_texts.reads_list [simplified] FieldEventType_texts.reads_option [simplified]
  ProblemHint_texts.reads_enum ProblemHint_texts.reads_list [simplified] ProblemHint_texts.reads_option [simplified]
  SystemSignalType_texts.reads_enum SystemSignalType_texts.reads_list [simplified] SystemSignalType_texts.reads_option [simplified]
  EndOfDayAction_texts.reads_enum EndOfDayAction_texts.reads_list [simplified] EndOfDayAction_texts.reads_option [simplified]
  SiteProblemAction_texts.reads_enum SiteProblemAction_texts.reads_list [simplified] SiteProblemAction_texts.reads_option [simplified]
  EffectType_texts.reads_enum EffectType_texts.reads_list [simplified] EffectType_texts.reads_option [simplified]
  ReductionOutcome_texts.reads_enum ReductionOutcome_texts.reads_list [simplified] ReductionOutcome_texts.reads_option [simplified]

lemma read_evidence: "evidence_ok x \<Longrightarrow> evidence_of path (evidence_payload x) = Inr x"
  by (cases x) (simp add: evidence_of_def evidence_payload_def evidence_keys_def reading evidence_ok_def)

lemma canonical_evidence: "canonical (evidence_payload x)"
  unfolding evidence_payload_def
  by (rule canonical_JObject) (code_simp, simp add: canonical_rules)

interpretation evidence_codec: codec "evidence_payload" "evidence_of" "\<lambda>x. evidence_ok x"
  by unfold_locales (simp add: read_evidence, rule canonical_evidence, simp add: evidence_payload_def)

lemmas evidence_rules [reading] = evidence_codec.reads evidence_codec.reads_list evidence_codec.reads_option
declare canonical_evidence [canonical_rules]

lemma read_stage: "stage_ok x \<Longrightarrow> stage_of path (stage_payload x) = Inr x"
  by (cases x) (simp add: stage_of_def stage_payload_def stage_keys_def reading stage_ok_def)

lemma canonical_stage: "canonical (stage_payload x)"
  unfolding stage_payload_def
  by (rule canonical_JObject) (code_simp, simp add: canonical_rules)

interpretation stage_codec: codec "stage_payload" "stage_of" "\<lambda>x. stage_ok x"
  by unfold_locales (simp add: read_stage, rule canonical_stage, simp add: stage_payload_def)

lemmas stage_rules [reading] = stage_codec.reads stage_codec.reads_list stage_codec.reads_option
declare canonical_stage [canonical_rules]

lemma read_task_definition: "TaskDefinition_init x = Inr x \<Longrightarrow> task_definition_of path (task_definition_payload x) = Inr x"
  by (cases x) (simp add: task_definition_of_def task_definition_payload_def task_definition_keys_def reading )

lemma canonical_task_definition: "canonical (task_definition_payload x)"
  unfolding task_definition_payload_def
  by (rule canonical_JObject) (code_simp, simp add: canonical_rules)

interpretation task_definition_codec: codec "task_definition_payload" "task_definition_of" "\<lambda>x. TaskDefinition_init x = Inr x"
  by unfold_locales (simp add: read_task_definition, rule canonical_task_definition, simp add: task_definition_payload_def)

lemmas task_definition_rules [reading] = task_definition_codec.reads task_definition_codec.reads_list task_definition_codec.reads_option
declare canonical_task_definition [canonical_rules]

lemma read_observation: "observation_ok x \<Longrightarrow> (\<forall>e\<in>set (fo_evidence x). evidence_ok e) \<Longrightarrow> observation_of path (observation_payload x) = Inr x"
  by (cases x) (simp add: observation_of_def observation_payload_def observation_keys_def reading observation_ok_def)

lemma canonical_observation: "canonical (observation_payload x)"
  unfolding observation_payload_def
  by (rule canonical_JObject) (code_simp, simp add: canonical_rules)

interpretation observation_codec: codec "observation_payload" "observation_of" "\<lambda>x. observation_ok x \<and> (\<forall>e\<in>set (fo_evidence x). evidence_ok e)"
  by unfold_locales (simp add: read_observation, rule canonical_observation, simp add: observation_payload_def)

lemmas observation_rules [reading] = observation_codec.reads observation_codec.reads_list observation_codec.reads_option
declare canonical_observation [canonical_rules]

text \<open>\<open>task_ok\<close> says nothing of the evidence inside an observation; a document holds it too.\<close>

definition task_readable :: "TaskState \<Rightarrow> bool" where
  "task_readable t \<longleftrightarrow> task_ok t \<and> (\<forall>ob\<in>set (ts_observations t). \<forall>e\<in>set (fo_evidence ob). evidence_ok e)"

lemma read_task: "task_readable x \<Longrightarrow> task_of path (task_payload x) = Inr x"
  by (cases x) (simp add: task_of_def task_payload_def task_keys_def reading task_ok_def task_readable_def)

lemma canonical_task: "canonical (task_payload x)"
  unfolding task_payload_def
  by (rule canonical_JObject) (code_simp, simp add: canonical_rules)

interpretation task_codec: codec "task_payload" "task_of" "\<lambda>x. task_readable x"
  by unfold_locales (simp add: read_task, rule canonical_task, simp add: task_payload_def)

lemmas task_rules [reading] = task_codec.reads task_codec.reads_list task_codec.reads_option
declare canonical_task [canonical_rules]

lemma read_assignment: "assignment_ok x \<Longrightarrow> assignment_of path (assignment_payload x) = Inr x"
  by (cases x) (simp add: assignment_of_def assignment_payload_def assignment_keys_def reading assignment_ok_def)

lemma canonical_assignment: "canonical (assignment_payload x)"
  unfolding assignment_payload_def
  by (rule canonical_JObject) (code_simp, simp add: canonical_rules)

interpretation assignment_codec: codec "assignment_payload" "assignment_of" "\<lambda>x. assignment_ok x"
  by unfold_locales (simp add: read_assignment, rule canonical_assignment, simp add: assignment_payload_def)

lemmas assignment_rules [reading] = assignment_codec.reads assignment_codec.reads_list assignment_codec.reads_option
declare canonical_assignment [canonical_rules]

definition root_readable :: "M2JobExecutionRoot \<Rightarrow> bool" where
  "root_readable r \<longleftrightarrow> root_ok r \<and> (\<forall>t\<in>set (jr_tasks r). task_readable t)"

lemma read_job_execution_root: "root_readable x \<Longrightarrow> job_execution_root_of path (job_execution_root_payload x) = Inr x"
  by (cases x) (simp add: job_execution_root_of_def job_execution_root_payload_def job_execution_root_keys_def reading root_ok_def root_readable_def)

lemma canonical_job_execution_root: "canonical (job_execution_root_payload x)"
  unfolding job_execution_root_payload_def
  by (rule canonical_JObject) (code_simp, simp add: canonical_rules)

interpretation job_execution_root_codec: codec "job_execution_root_payload" "job_execution_root_of" "\<lambda>x. root_readable x"
  by unfold_locales (simp add: read_job_execution_root, rule canonical_job_execution_root, simp add: job_execution_root_payload_def)

lemmas job_execution_root_rules [reading] = job_execution_root_codec.reads job_execution_root_codec.reads_list job_execution_root_codec.reads_option
declare canonical_job_execution_root [canonical_rules]

lemma plan_day_root_aware: "plan_ok x \<Longrightarrow> is_aware (pd_start_at x)"
  by (cases x) (auto simp: plan_ok_def PlanDayRoot_init_def split: option.splits)

lemma read_plan_day_root: "calendar_law cal \<Longrightarrow> plan_ok x \<Longrightarrow> plan_day_root_of cal path (plan_day_root_payload cal x) = Inr x"
  using plan_day_root_aware [of x]
  by (cases x) (simp add: plan_day_root_of_def plan_day_root_payload_def plan_day_root_keys_def reading plan_ok_def)

lemma canonical_plan_day_root: "canonical (plan_day_root_payload cal x)"
  unfolding plan_day_root_payload_def
  by (rule canonical_JObject) (code_simp, simp add: canonical_rules)

interpretation plan_day_root_codec: codec "plan_day_root_payload cal" "plan_day_root_of cal" "\<lambda>x. calendar_law cal \<and> plan_ok x" for cal
  by unfold_locales (simp add: read_plan_day_root, rule canonical_plan_day_root, simp add: plan_day_root_payload_def)

lemmas plan_day_root_rules [reading] = plan_day_root_codec.reads plan_day_root_codec.reads_list plan_day_root_codec.reads_option
declare canonical_plan_day_root [canonical_rules]

lemma directive_definition_aware: "DirectiveDefinition_init x = Inr x \<Longrightarrow> is_aware (dd_issued_at x) \<and> Ball (set_option (dd_escalation_due_at x)) is_aware"
  by (cases x) (auto simp: DirectiveDefinition_init_def aware_opt_def optionally_def split: option.splits)

lemma read_directive_definition: "calendar_law cal \<Longrightarrow> DirectiveDefinition_init x = Inr x \<Longrightarrow> directive_definition_of cal path (directive_definition_payload cal x) = Inr x"
  using directive_definition_aware [of x]
  by (cases x) (simp add: directive_definition_of_def directive_definition_payload_def directive_definition_keys_def reading )

lemma canonical_directive_definition: "canonical (directive_definition_payload cal x)"
  unfolding directive_definition_payload_def
  by (rule canonical_JObject) (code_simp, simp add: canonical_rules)

interpretation directive_definition_codec: codec "directive_definition_payload cal" "directive_definition_of cal" "\<lambda>x. calendar_law cal \<and> DirectiveDefinition_init x = Inr x" for cal
  by unfold_locales (simp add: read_directive_definition, rule canonical_directive_definition, simp add: directive_definition_payload_def)

lemmas directive_definition_rules [reading] = directive_definition_codec.reads directive_definition_codec.reads_list directive_definition_codec.reads_option
declare canonical_directive_definition [canonical_rules]

lemma read_directive_root: "calendar_law cal \<Longrightarrow> directive_ok x \<Longrightarrow> directive_root_of cal path (directive_root_payload cal x) = Inr x"
  by (cases x) (simp add: directive_root_of_def directive_root_payload_def directive_root_keys_def reading directive_ok_def)

lemma canonical_directive_root: "canonical (directive_root_payload cal x)"
  unfolding directive_root_payload_def
  by (rule canonical_JObject) (code_simp, simp add: canonical_rules)

interpretation directive_root_codec: codec "directive_root_payload cal" "directive_root_of cal" "\<lambda>x. calendar_law cal \<and> directive_ok x" for cal
  by unfold_locales (simp add: read_directive_root, rule canonical_directive_root, simp add: directive_root_payload_def)

lemmas directive_root_rules [reading] = directive_root_codec.reads directive_root_codec.reads_list directive_root_codec.reads_option
declare canonical_directive_root [canonical_rules]

lemma read_worker_registry: "WorkerIdentityRegistry_init x = Inr x \<Longrightarrow> worker_registry_of path (worker_registry_payload x) = Inr x"
  by (cases x) (simp add: worker_registry_of_def worker_registry_payload_def worker_registry_keys_def reading )

lemma canonical_worker_registry: "canonical (worker_registry_payload x)"
  unfolding worker_registry_payload_def
  by (rule canonical_JObject) (code_simp, simp add: canonical_rules)

interpretation worker_registry_codec: codec "worker_registry_payload" "worker_registry_of" "\<lambda>x. WorkerIdentityRegistry_init x = Inr x"
  by unfold_locales (simp add: read_worker_registry, rule canonical_worker_registry, simp add: worker_registry_payload_def)

lemmas worker_registry_rules [reading] = worker_registry_codec.reads worker_registry_codec.reads_list worker_registry_codec.reads_option
declare canonical_worker_registry [canonical_rules]

lemma event_aware: "event_ok x \<Longrightarrow> is_aware (fe_occurred_at x) \<and> Ball (set_option (fe_wait_until x)) is_aware"
  by (cases x) (auto simp: event_ok_def FieldEventEnvelope_init_def aware_opt_def optionally_def split: option.splits)

lemma read_event: "calendar_law cal \<Longrightarrow> event_ok x \<Longrightarrow> event_of cal path (event_payload cal x) = Inr x"
  using event_aware [of x]
  by (cases x) (simp add: event_of_def event_payload_def event_keys_def reading event_ok_def)

lemma canonical_event: "canonical (event_payload cal x)"
  unfolding event_payload_def
  by (rule canonical_JObject) (code_simp, simp add: canonical_rules)

interpretation event_codec: codec "event_payload cal" "event_of cal" "\<lambda>x. calendar_law cal \<and> event_ok x" for cal
  by unfold_locales (simp add: read_event, rule canonical_event, simp add: event_payload_def)

lemmas event_rules [reading] = event_codec.reads event_codec.reads_list event_codec.reads_option
declare canonical_event [canonical_rules]

definition event_input_ok :: "FieldEventInput \<Rightarrow> bool" where
  "event_input_ok x \<longleftrightarrow> FieldEventInput_init x = Inr x \<and> event_ok (fi_event x)"

lemma read_event_input: "calendar_law cal \<Longrightarrow> event_input_ok x \<Longrightarrow> event_input_of cal path (event_input_payload cal x) = Inr x"
  by (cases x) (simp add: event_input_of_def event_input_payload_def event_input_keys_def reading event_input_ok_def)

lemma canonical_event_input: "canonical (event_input_payload cal x)"
  unfolding event_input_payload_def
  by (rule canonical_JObject) (code_simp, simp add: canonical_rules)

interpretation event_input_codec: codec "event_input_payload cal" "event_input_of cal" "\<lambda>x. calendar_law cal \<and> event_input_ok x" for cal
  by unfold_locales (simp add: read_event_input, rule canonical_event_input, simp add: event_input_payload_def)

lemmas event_input_rules [reading] = event_input_codec.reads event_input_codec.reads_list event_input_codec.reads_option
declare canonical_event_input [canonical_rules]

lemma read_signal: "SystemSignal_init x = Inr x \<Longrightarrow> signal_of path (signal_payload x) = Inr x"
  by (cases x) (simp add: signal_of_def signal_payload_def signal_keys_def reading )

lemma canonical_signal: "canonical (signal_payload x)"
  unfolding signal_payload_def
  by (rule canonical_JObject) (code_simp, simp add: canonical_rules)

interpretation signal_codec: codec "signal_payload" "signal_of" "\<lambda>x. SystemSignal_init x = Inr x"
  by unfold_locales (simp add: read_signal, rule canonical_signal, simp add: signal_payload_def)

lemmas signal_rules [reading] = signal_codec.reads signal_codec.reads_list signal_codec.reads_option
declare canonical_signal [canonical_rules]

lemma read_policy: "M2Policy_init x = Inr x \<Longrightarrow> policy_of path (policy_payload x) = Inr x"
  by (cases x) (simp add: policy_of_def policy_payload_def policy_keys_def reading )

lemma canonical_policy: "canonical (policy_payload x)"
  unfolding policy_payload_def
  by (rule canonical_JObject) (code_simp, simp add: canonical_rules)

interpretation policy_codec: codec "policy_payload" "policy_of" "\<lambda>x. M2Policy_init x = Inr x"
  by unfold_locales (simp add: read_policy, rule canonical_policy, simp add: policy_payload_def)

lemmas policy_rules [reading] = policy_codec.reads policy_codec.reads_list policy_codec.reads_option
declare canonical_policy [canonical_rules]

definition time_context_ok :: "PolicyTimeContext \<Rightarrow> bool" where
  "time_context_ok x \<longleftrightarrow> PolicyTimeContext_init x = Inr x \<and> M2Policy_init (cx_policy x) = Inr (cx_policy x)"

lemma time_context_aware: "time_context_ok x \<Longrightarrow> is_aware (cx_now x)"
  by (cases x) (auto simp: time_context_ok_def PolicyTimeContext_init_def split: option.splits)

lemma read_time_context: "calendar_law cal \<Longrightarrow> time_context_ok x \<Longrightarrow> time_context_of cal path (time_context_payload cal x) = Inr x"
  using time_context_aware [of x]
  by (cases x) (simp add: time_context_of_def time_context_payload_def time_context_keys_def reading time_context_ok_def)

lemma canonical_time_context: "canonical (time_context_payload cal x)"
  unfolding time_context_payload_def
  by (rule canonical_JObject) (code_simp, simp add: canonical_rules)

interpretation time_context_codec: codec "time_context_payload cal" "time_context_of cal" "\<lambda>x. calendar_law cal \<and> time_context_ok x" for cal
  by unfold_locales (simp add: read_time_context, rule canonical_time_context, simp add: time_context_payload_def)

lemmas time_context_rules [reading] = time_context_codec.reads time_context_codec.reads_list time_context_codec.reads_option
declare canonical_time_context [canonical_rules]

lemma read_effect: "SystemEffect_init x = Inr x \<Longrightarrow> effect_of path (effect_payload x) = Inr x"
  by (cases x) (simp add: effect_of_def effect_payload_def effect_keys_def reading )

lemma canonical_effect: "canonical (effect_payload x)"
  unfolding effect_payload_def
  by (rule canonical_JObject) (code_simp, simp add: canonical_rules)

interpretation effect_codec: codec "effect_payload" "effect_of" "\<lambda>x. SystemEffect_init x = Inr x"
  by unfold_locales (simp add: read_effect, rule canonical_effect, simp add: effect_payload_def)

lemmas effect_rules [reading] = effect_codec.reads effect_codec.reads_list effect_codec.reads_option
declare canonical_effect [canonical_rules]

definition receipt_ok :: "ProcessedEventReceipt \<Rightarrow> bool" where
  "receipt_ok x \<longleftrightarrow> event_ok (rc_event x) \<and> (\<forall>e\<in>set (rc_response_effects x). SystemEffect_init e = Inr e)"

lemma read_receipt: "calendar_law cal \<Longrightarrow> receipt_ok x \<Longrightarrow> receipt_of cal path (receipt_payload cal x) = Inr x"
  by (cases x) (simp add: receipt_of_def receipt_payload_def receipt_keys_def reading receipt_ok_def)

lemma canonical_receipt: "canonical (receipt_payload cal x)"
  unfolding receipt_payload_def
  by (rule canonical_JObject) (code_simp, simp add: canonical_rules)

interpretation receipt_codec: codec "receipt_payload cal" "receipt_of cal" "\<lambda>x. calendar_law cal \<and> receipt_ok x" for cal
  by unfold_locales (simp add: read_receipt, rule canonical_receipt, simp add: receipt_payload_def)

lemmas receipt_rules [reading] = receipt_codec.reads receipt_codec.reads_list receipt_codec.reads_option
declare canonical_receipt [canonical_rules]

section \<open>Vectors\<close>

interpretation RootAccess_texts: enum_texts RootAccess_value RootAccess_members
proof
  show "distinct (map RootAccess_value RootAccess_members)" by code_simp
  show "e \<in> set RootAccess_members" for e by (cases e) (simp_all add: RootAccess_members_def)
qed

lemma read_named [reading]:
  "named_field ((k, v) # kvs) name dec = (if k = name then dec name v else named_field kvs name dec)"
  by (simp add: named_field_def)

lemmas read_access [reading] = RootAccess_texts.reads_enum

lemma read_root_precondition: "RootPrecondition_init x = Inr x \<Longrightarrow> root_precondition_of path (root_precondition_payload x) = Inr x"
  by (cases x) (simp add: root_precondition_of_def root_precondition_payload_def reading )

lemma canonical_root_precondition: "canonical (root_precondition_payload x)"
  unfolding root_precondition_payload_def
  by (rule canonical_JObject) (code_simp, simp add: canonical_rules)

interpretation root_precondition_codec: codec "root_precondition_payload" "root_precondition_of" "\<lambda>x. RootPrecondition_init x = Inr x"
  by unfold_locales (simp add: read_root_precondition, rule canonical_root_precondition, simp add: root_precondition_payload_def)

lemmas root_precondition_rules [reading] = root_precondition_codec.reads root_precondition_codec.reads_list root_precondition_codec.reads_option
declare canonical_root_precondition [canonical_rules]

lemma read_immutable_precondition: "ImmutablePrecondition_init x = Inr x \<Longrightarrow> immutable_precondition_of path (immutable_precondition_payload x) = Inr x"
  by (cases x) (simp add: immutable_precondition_of_def immutable_precondition_payload_def reading )

lemma canonical_immutable_precondition: "canonical (immutable_precondition_payload x)"
  unfolding immutable_precondition_payload_def
  by (rule canonical_JObject) (code_simp, simp add: canonical_rules)

interpretation immutable_precondition_codec: codec "immutable_precondition_payload" "immutable_precondition_of" "\<lambda>x. ImmutablePrecondition_init x = Inr x"
  by unfold_locales (simp add: read_immutable_precondition, rule canonical_immutable_precondition, simp add: immutable_precondition_payload_def)

lemmas immutable_precondition_rules [reading] = immutable_precondition_codec.reads immutable_precondition_codec.reads_list immutable_precondition_codec.reads_option
declare canonical_immutable_precondition [canonical_rules]

lemma read_resulting_revision: "ResultingRevision_init x = Inr x \<Longrightarrow> resulting_revision_of path (resulting_revision_payload x) = Inr x"
  by (cases x) (simp add: resulting_revision_of_def resulting_revision_payload_def reading )

lemma canonical_resulting_revision: "canonical (resulting_revision_payload x)"
  unfolding resulting_revision_payload_def
  by (rule canonical_JObject) (code_simp, simp add: canonical_rules)

interpretation resulting_revision_codec: codec "resulting_revision_payload" "resulting_revision_of" "\<lambda>x. ResultingRevision_init x = Inr x"
  by unfold_locales (simp add: read_resulting_revision, rule canonical_resulting_revision, simp add: resulting_revision_payload_def)

lemmas resulting_revision_rules [reading] = resulting_revision_codec.reads resulting_revision_codec.reads_list resulting_revision_codec.reads_option
declare canonical_resulting_revision [canonical_rules]

definition vector_ok :: "PreconditionVector \<Rightarrow> bool" where
  "vector_ok x \<longleftrightarrow> PreconditionVector_init x = Inr x \<and> (\<forall>p\<in>set (pc_roots x). RootPrecondition_init p = Inr p) \<and>
     (\<forall>p\<in>set (pc_immutable_records x). ImmutablePrecondition_init p = Inr p)"

lemma read_precondition_vector: "vector_ok x \<Longrightarrow> precondition_vector_of path (precondition_vector_payload x) = Inr x"
  by (cases x) (simp add: precondition_vector_of_def precondition_vector_payload_def reading vector_ok_def)

lemma canonical_precondition_vector: "canonical (precondition_vector_payload x)"
  unfolding precondition_vector_payload_def
  by (rule canonical_JObject) (code_simp, simp add: canonical_rules)

interpretation precondition_vector_codec: codec "precondition_vector_payload" "precondition_vector_of" "\<lambda>x. vector_ok x"
  by unfold_locales (simp add: read_precondition_vector, rule canonical_precondition_vector, simp add: precondition_vector_payload_def)

lemmas precondition_vector_rules [reading] = precondition_vector_codec.reads precondition_vector_codec.reads_list precondition_vector_codec.reads_option
declare canonical_precondition_vector [canonical_rules]

definition revisions_ok :: "ResultingRevisionVector \<Rightarrow> bool" where
  "revisions_ok x \<longleftrightarrow> ResultingRevisionVector_init x = Inr x \<and> (\<forall>p\<in>set (rv_roots x). ResultingRevision_init p = Inr p)"

lemma read_resulting_revision_vector: "revisions_ok x \<Longrightarrow> resulting_revision_vector_of path (resulting_revision_vector_payload x) = Inr x"
  by (cases x) (simp add: resulting_revision_vector_of_def resulting_revision_vector_payload_def reading revisions_ok_def)

lemma canonical_resulting_revision_vector: "canonical (resulting_revision_vector_payload x)"
  unfolding resulting_revision_vector_payload_def
  by (rule canonical_JObject) (code_simp, simp add: canonical_rules)

interpretation resulting_revision_vector_codec: codec "resulting_revision_vector_payload" "resulting_revision_vector_of" "\<lambda>x. revisions_ok x"
  by unfold_locales (simp add: read_resulting_revision_vector, rule canonical_resulting_revision_vector, simp add: resulting_revision_vector_payload_def)

lemmas resulting_revision_vector_rules [reading] = resulting_revision_vector_codec.reads resulting_revision_vector_codec.reads_list resulting_revision_vector_codec.reads_option
declare canonical_resulting_revision_vector [canonical_rules]

interpretation publication_codec: codec publication_key_payload publication_key_of "\<lambda>_. True"
  by unfold_locales (auto simp: publication_key_payload_def publication_key_of_def list_of_def string_of_def integer_of_def)

lemmas publication_rules [reading] = publication_codec.reads_list [simplified]
lemmas publication_canonical [canonical_rules] = publication_codec.canonical_enc

lemma read_routing_vector: "RoutingVector_init x = Inr x \<Longrightarrow> routing_vector_of path (routing_vector_payload x) = Inr x"
  by (cases x) (simp add: routing_vector_of_def routing_vector_payload_def reading )

lemma canonical_routing_vector: "canonical (routing_vector_payload x)"
  unfolding routing_vector_payload_def
  by (rule canonical_JObject) (code_simp, simp add: canonical_rules)

interpretation routing_vector_codec: codec "routing_vector_payload" "routing_vector_of" "\<lambda>x. RoutingVector_init x = Inr x"
  by unfold_locales (simp add: read_routing_vector, rule canonical_routing_vector, simp add: routing_vector_payload_def)

lemmas routing_vector_rules [reading] = routing_vector_codec.reads routing_vector_codec.reads_list routing_vector_codec.reads_option
declare canonical_routing_vector [canonical_rules]

text \<open>Lists of effects and of texts.\<close>

lemma read_effects [reading]: "\<forall>e\<in>set xs. SystemEffect_init e = Inr e \<Longrightarrow> effects_of path (effects_payload xs) = Inr xs"
  by (simp add: effects_of_def effects_payload_def reading)

lemma canonical_effects [canonical_rules]: "canonical (effects_payload xs)"
  unfolding effects_payload_def by (rule canonical_JObject) (code_simp, simp add: canonical_rules)

interpretation effects_codec: codec effects_payload effects_of "\<lambda>xs. \<forall>e\<in>set xs. SystemEffect_init e = Inr e"
  by unfold_locales (simp add: read_effects, rule canonical_effects, simp add: effects_payload_def)

lemma read_strings [reading]: "strings_of path (strings_payload xs) = Inr xs"
  by (simp add: strings_of_def strings_payload_def reading)

lemma canonical_strings_payload [canonical_rules]: "canonical (strings_payload xs)"
  unfolding strings_payload_def by (rule canonical_JObject) (code_simp, simp add: canonical_rules)

interpretation strings_codec: codec strings_payload strings_of "\<lambda>_. True"
  by unfold_locales (simp add: read_strings, rule canonical_strings_payload, simp add: strings_payload_def)

section \<open>Documents read back\<close>

lemma string_tuple_round_trip: "deserialize_string_tuple t (serialize_string_tuple t xs) = Inr xs"
  unfolding deserialize_string_tuple_def
  by (rule strings_codec.document_round_trip) (simp_all add: strings_payload_def serialize_string_tuple_def)

lemma job_execution_root_round_trip: "root_readable x \<Longrightarrow> deserialize_job_execution_root (serialize_job_execution_root x) = Inr x"
  unfolding deserialize_job_execution_root_def
  by (rule job_execution_root_codec.document_round_trip) (simp_all add: job_execution_root_payload_def serialize_job_execution_root_def)

lemma plan_day_root_round_trip: "calendar_law cal \<Longrightarrow> plan_ok x \<Longrightarrow> deserialize_plan_day_root cal (serialize_plan_day_root cal x) = Inr x"
  unfolding deserialize_plan_day_root_def
  by (rule plan_day_root_codec.document_round_trip) (simp_all add: plan_day_root_payload_def serialize_plan_day_root_def)

lemma directive_root_round_trip: "calendar_law cal \<Longrightarrow> directive_ok x \<Longrightarrow> deserialize_directive_root cal (serialize_directive_root cal x) = Inr x"
  unfolding deserialize_directive_root_def
  by (rule directive_root_codec.document_round_trip) (simp_all add: directive_root_payload_def serialize_directive_root_def)

lemma worker_registry_round_trip: "WorkerIdentityRegistry_init x = Inr x \<Longrightarrow> deserialize_worker_registry (serialize_worker_registry x) = Inr x"
  unfolding deserialize_worker_registry_def
  by (rule worker_registry_codec.document_round_trip) (simp_all add: worker_registry_payload_def serialize_worker_registry_def)

lemma field_event_envelope_round_trip: "calendar_law cal \<Longrightarrow> event_ok x \<Longrightarrow> deserialize_field_event_envelope cal (serialize_field_event_envelope cal x) = Inr x"
  unfolding deserialize_field_event_envelope_def
  by (rule event_codec.document_round_trip) (simp_all add: event_payload_def serialize_field_event_envelope_def)

lemma field_event_input_round_trip: "calendar_law cal \<Longrightarrow> event_input_ok x \<Longrightarrow> deserialize_field_event_input cal (serialize_field_event_input cal x) = Inr x"
  unfolding deserialize_field_event_input_def
  by (rule event_input_codec.document_round_trip) (simp_all add: event_input_payload_def serialize_field_event_input_def)

lemma system_signal_round_trip: "SystemSignal_init x = Inr x \<Longrightarrow> deserialize_system_signal (serialize_system_signal x) = Inr x"
  unfolding deserialize_system_signal_def
  by (rule signal_codec.document_round_trip) (simp_all add: signal_payload_def serialize_system_signal_def)

lemma policy_time_context_round_trip: "calendar_law cal \<Longrightarrow> time_context_ok x \<Longrightarrow> deserialize_policy_time_context cal (serialize_policy_time_context cal x) = Inr x"
  unfolding deserialize_policy_time_context_def
  by (rule time_context_codec.document_round_trip) (simp_all add: time_context_payload_def serialize_policy_time_context_def)

lemma effect_round_trip: "SystemEffect_init x = Inr x \<Longrightarrow> deserialize_effect (serialize_effect x) = Inr x"
  unfolding deserialize_effect_def
  by (rule effect_codec.document_round_trip) (simp_all add: effect_payload_def serialize_effect_def)

lemma processed_event_receipt_round_trip: "calendar_law cal \<Longrightarrow> receipt_ok x \<Longrightarrow> deserialize_processed_event_receipt cal (serialize_processed_event_receipt cal x) = Inr x"
  unfolding deserialize_processed_event_receipt_def
  by (rule receipt_codec.document_round_trip) (simp_all add: receipt_payload_def serialize_processed_event_receipt_def)

lemma effects_round_trip: "\<forall>e\<in>set x. SystemEffect_init e = Inr e \<Longrightarrow> deserialize_effects (serialize_effects x) = Inr x"
  unfolding deserialize_effects_def
  by (rule effects_codec.document_round_trip) (simp_all add: effects_payload_def serialize_effects_def)

lemma precondition_vector_round_trip: "vector_ok x \<Longrightarrow> deserialize_precondition_vector (serialize_precondition_vector x) = Inr x"
  unfolding deserialize_precondition_vector_def
  by (rule precondition_vector_codec.document_round_trip) (simp_all add: precondition_vector_payload_def serialize_precondition_vector_def)

lemma resulting_revision_vector_round_trip: "revisions_ok x \<Longrightarrow> deserialize_resulting_revision_vector (serialize_resulting_revision_vector x) = Inr x"
  unfolding deserialize_resulting_revision_vector_def
  by (rule resulting_revision_vector_codec.document_round_trip) (simp_all add: resulting_revision_vector_payload_def serialize_resulting_revision_vector_def)

lemma routing_vector_round_trip: "RoutingVector_init x = Inr x \<Longrightarrow> deserialize_routing_vector (serialize_routing_vector x) = Inr x"
  unfolding deserialize_routing_vector_def
  by (rule routing_vector_codec.document_round_trip) (simp_all add: routing_vector_payload_def serialize_routing_vector_def)

section \<open>What is read is well formed\<close>

lemma items_of_typed: "items_of dec path v = Inr xs \<Longrightarrow> (\<And>p j y. dec p j = Inr y \<Longrightarrow> ok y) \<Longrightarrow> \<forall>y\<in>set xs. ok y"
  by (auto simp: items_of_def traverse_Inr_iff list_all2_conv_all_nth in_set_conv_nth) blast

lemma evidence_of_typed: "evidence_of p v = Inr x \<Longrightarrow> evidence_ok x"
  by (auto simp: evidence_of_def dest: EvidenceItem_typed)

lemma stage_of_typed: "stage_of p v = Inr x \<Longrightarrow> stage_ok x"
  by (auto simp: stage_of_def dest: StageState_typed)

lemma observation_of_typed: "observation_of p v = Inr x \<Longrightarrow> observation_ok x \<and> (\<forall>e\<in>set (fo_evidence x). evidence_ok e)"
  by (auto simp: observation_of_def field_of_def FieldObservation_init_def observation_ok_def
      dest!: items_of_typed [where ok = evidence_ok, OF _ evidence_of_typed] split: option.splits)

lemma task_definition_of_typed: "task_definition_of p v = Inr x \<Longrightarrow> TaskDefinition_init x = Inr x"
  by (auto simp: task_definition_of_def dest: TaskDefinition_typed)

lemma TaskState_init_parts:
  "TaskState_init x = Inr y \<Longrightarrow> ts_definition y = ts_definition x \<and> set (ts_stages y) = set (ts_stages x) \<and>
     ts_evidence y = ts_evidence x \<and> ts_observations y = ts_observations x"
  by (auto simp: TaskState_init_def Let_def)

lemma task_of_typed:
  assumes "task_of p v = Inr x" shows "task_readable x"
proof -
  obtain y where y: "TaskState_init y = Inr x" "TaskDefinition_init (ts_definition y) = Inr (ts_definition y)"
      "\<forall>s\<in>set (ts_stages y). stage_ok s" "\<forall>e\<in>set (ts_evidence y). evidence_ok e"
      "\<forall>ob\<in>set (ts_observations y). observation_ok ob \<and> (\<forall>e\<in>set (fo_evidence ob). evidence_ok e)"
    using assms
    by (auto simp: task_of_def field_of_def split: option.splits dest!: task_definition_of_typed
        items_of_typed [where ok = stage_ok, OF _ stage_of_typed] items_of_typed [where ok = evidence_ok, OF _ evidence_of_typed]
        items_of_typed [where ok = "\<lambda>ob. observation_ok ob \<and> (\<forall>e\<in>set (fo_evidence ob). evidence_ok e)", OF _ observation_of_typed])
  then show ?thesis using TaskState_init_parts [OF y(1)] TaskState_typed [OF y(1)]
    by (simp add: task_readable_def task_ok_def)
qed

lemma assignment_of_typed: "assignment_of p v = Inr x \<Longrightarrow> assignment_ok x"
  by (auto simp: assignment_of_def dest: AssignmentState_typed)

lemma M2JobExecutionRoot_init_parts:
  "M2JobExecutionRoot_init x = Inr y \<Longrightarrow> set (jr_tasks y) = set (jr_tasks x) \<and> set (jr_assignments y) = set (jr_assignments x)"
  by (auto simp: M2JobExecutionRoot_init_def Let_def)

lemma job_execution_root_of_typed:
  assumes "job_execution_root_of p v = Inr x" shows "root_readable x"
proof -
  obtain y where y: "M2JobExecutionRoot_init y = Inr x" "\<forall>t\<in>set (jr_tasks y). task_readable t"
      "\<forall>a\<in>set (jr_assignments y). assignment_ok a"
    using assms
    by (auto simp: job_execution_root_of_def field_of_def split: option.splits
        dest!: items_of_typed [where ok = task_readable, OF _ task_of_typed] items_of_typed [where ok = assignment_ok, OF _ assignment_of_typed])
  then show ?thesis using M2JobExecutionRoot_init_parts [OF y(1)] M2JobExecutionRoot_typed [OF y(1)]
    by (simp add: root_readable_def root_ok_def task_readable_def)
qed

lemma plan_day_root_of_typed: "plan_day_root_of cal p v = Inr x \<Longrightarrow> plan_ok x"
  by (auto simp: plan_day_root_of_def dest: PlanDayRoot_typed)

lemma directive_definition_of_typed: "directive_definition_of cal p v = Inr x \<Longrightarrow> DirectiveDefinition_init x = Inr x"
  by (auto simp: directive_definition_of_def dest: DirectiveDefinition_typed)

lemma directive_root_of_typed:
  assumes "directive_root_of cal p v = Inr x" shows "directive_ok x"
proof -
  obtain y where y: "DirectiveRoot_init y = Inr x" "DirectiveDefinition_init (dr_definition y) = Inr (dr_definition y)"
    using assms by (auto simp: directive_root_of_def field_of_def split: option.splits dest!: directive_definition_of_typed)
  moreover have "dr_definition x = dr_definition y" using y(1) by (auto simp: DirectiveRoot_init_def)
  ultimately show ?thesis using DirectiveRoot_typed [OF y(1)] by (simp add: directive_ok_def)
qed

lemma event_of_typed:
  assumes "event_of cal p v = Inr x" shows "event_ok x"
proof -
  obtain y where y: "FieldEventEnvelope_init y = Inr x" "\<forall>e\<in>set (fe_attachments y). evidence_ok e"
    using assms by (auto simp: event_of_def field_of_def split: option.splits
        dest!: items_of_typed [where ok = evidence_ok, OF _ evidence_of_typed])
  moreover have "fe_attachments x = fe_attachments y" using y(1) by (auto simp: FieldEventEnvelope_init_def)
  ultimately show ?thesis using FieldEventEnvelope_typed [OF y(1)] by (simp add: event_ok_def)
qed

lemma event_input_of_typed:
  assumes "event_input_of cal p v = Inr x" shows "event_input_ok x"
proof -
  obtain y where y: "FieldEventInput_init y = Inr x" "event_ok (fi_event y)"
    using assms by (auto simp: event_input_of_def field_of_def split: option.splits dest!: event_of_typed)
  moreover have "fi_event x = fi_event y" using y(1) by (auto simp: FieldEventInput_init_def)
  ultimately show ?thesis using FieldEventInput_typed [OF y(1)] by (simp add: event_input_ok_def)
qed

lemma effect_of_typed: "effect_of p v = Inr x \<Longrightarrow> SystemEffect_init x = Inr x"
  by (auto simp: effect_of_def dest: SystemEffect_typed)

lemma receipt_of_typed: "receipt_of cal p v = Inr x \<Longrightarrow> receipt_ok x"
  by (auto simp: receipt_of_def field_of_def receipt_ok_def split: option.splits
      dest!: event_of_typed items_of_typed [where ok = "\<lambda>e. SystemEffect_init e = Inr e", OF _ effect_of_typed])

lemma deserialize_decodes: "deserialize t s dec ser what raw = Inr x \<Longrightarrow> \<exists>p v. dec p v = Inr x"
  by (auto simp: deserialize_def serialization_error_def split: if_splits)

lemma readable_iff:
  assumes "\<And>p v. dec p v = Inr x \<Longrightarrow> ok" "ok \<Longrightarrow> deserialize t s dec ser what (ser x) = Inr x"
  shows "deserialize t s dec ser what raw = Inr x \<longleftrightarrow> ok \<and> raw = ser x"
  using assms deserialize_Inr deserialize_decodes by metis

section \<open>A calendar\<close>

text \<open>A calendar for the examples: an instant is written as the number it is.\<close>

definition plain_calendar :: calendar where
  "plain_calendar = \<lparr>datetime_text = (\<lambda>t. print_json (JInt (instant t))),
     datetime_of_text = (\<lambda>s. case loads s of Some (JInt n) \<Rightarrow> Some (Aware n) | _ \<Rightarrow> None),
     date_text = (\<lambda>d. print_json (JInt d)),
     date_of_text = (\<lambda>s. case loads s of Some (JInt n) \<Rightarrow> Some n | _ \<Rightarrow> None)\<rparr>"

lemma plain_calendar_law: "calendar_law plain_calendar"
proof -
  have "is_aware t \<Longrightarrow> Aware (instant t) = t" for t by (cases t) simp_all
  moreover have "loads (print_json (JInt n)) = Some (JInt n)" for n by (rule loads_print) simp
  ultimately show ?thesis by (simp add: calendar_law_def plain_calendar_def del: print_json.simps)
qed

end
