(* ===== verification/Field_Document_Properties.thy ===== *)
theory Field_Document_Properties
  imports Field_Codec_Properties Field_Example
begin

text \<open>
  What the durable store can rely on: a text is read back as a value exactly when it is the canonical
  document of a well-formed value, and the digest of a document binds its text.
\<close>

section \<open>Roots and inputs\<close>

lemma job_execution_root_read_iff:
  "deserialize_job_execution_root raw = Inr r \<longleftrightarrow> root_readable r \<and> raw = serialize_job_execution_root r"
  unfolding deserialize_job_execution_root_def
  by (rule readable_iff) (erule job_execution_root_of_typed, fold deserialize_job_execution_root_def, erule job_execution_root_round_trip)

lemma plan_day_root_read_iff:
  assumes "calendar_law cal"
  shows "deserialize_plan_day_root cal raw = Inr p \<longleftrightarrow> plan_ok p \<and> raw = serialize_plan_day_root cal p"
  unfolding deserialize_plan_day_root_def
  by (rule readable_iff) (erule plan_day_root_of_typed, fold deserialize_plan_day_root_def, rule plan_day_root_round_trip [OF assms])

lemma directive_root_read_iff:
  assumes "calendar_law cal"
  shows "deserialize_directive_root cal raw = Inr d \<longleftrightarrow> directive_ok d \<and> raw = serialize_directive_root cal d"
  unfolding deserialize_directive_root_def
  by (rule readable_iff) (erule directive_root_of_typed, fold deserialize_directive_root_def, rule directive_root_round_trip [OF assms])

lemma field_event_input_read_iff:
  assumes "calendar_law cal"
  shows "deserialize_field_event_input cal raw = Inr i \<longleftrightarrow> event_input_ok i \<and> raw = serialize_field_event_input cal i"
  unfolding deserialize_field_event_input_def
  by (rule readable_iff) (erule event_input_of_typed, fold deserialize_field_event_input_def, rule field_event_input_round_trip [OF assms])

lemma receipt_read_iff:
  assumes "calendar_law cal"
  shows "deserialize_processed_event_receipt cal raw = Inr c \<longleftrightarrow> receipt_ok c \<and> raw = serialize_processed_event_receipt cal c"
  unfolding deserialize_processed_event_receipt_def
  by (rule readable_iff) (erule receipt_of_typed, fold deserialize_processed_event_receipt_def, rule processed_event_receipt_round_trip [OF assms])

text \<open>
  C39. The stored roots: reading a text gives a root exactly when the text is the canonical document of
  that root and the root is well formed, so every well-formed root survives the store unchanged, no
  ill-formed root is ever loaded, and no root has a second text. The calendar's part is that the ISO text
  of an aware datetime or a date is read back as itself.
\<close>

theorem stored_roots_are_read_exactly:
  assumes "calendar_law cal"
  shows "(deserialize_job_execution_root raw1 = Inr r \<longleftrightarrow> root_readable r \<and> raw1 = serialize_job_execution_root r) \<and>
    (deserialize_plan_day_root cal raw2 = Inr p \<longleftrightarrow> plan_ok p \<and> raw2 = serialize_plan_day_root cal p) \<and>
    (deserialize_directive_root cal raw3 = Inr d \<longleftrightarrow> directive_ok d \<and> raw3 = serialize_directive_root cal d)"
  by (simp only: job_execution_root_read_iff plan_day_root_read_iff [OF assms] directive_root_read_iff [OF assms])

lemma ex_values_ok: "root_readable ex_root" "plan_ok ex_plan" "directive_ok ex_action" "event_input_ok ex_input"
  by code_simp+

theorem stored_roots_are_read_exactly_witness:
  "deserialize_job_execution_root (serialize_job_execution_root ex_root) = Inr ex_root \<and>
   deserialize_plan_day_root plain_calendar (serialize_plan_day_root plain_calendar ex_plan) = Inr ex_plan \<and>
   deserialize_directive_root plain_calendar (serialize_directive_root plain_calendar ex_action) = Inr ex_action"
  using stored_roots_are_read_exactly [OF plain_calendar_law, of "serialize_job_execution_root ex_root" ex_root
      "serialize_plan_day_root plain_calendar ex_plan" ex_plan "serialize_directive_root plain_calendar ex_action" ex_action]
  by (simp only: ex_values_ok simp_thms)

text \<open>
  C40. The stored inputs and receipts: the same for the field event inputs of the inbox and the receipts
  of the ledger, down to the attachments and the effects of the receipt.
\<close>

theorem stored_inputs_are_read_exactly:
  assumes "calendar_law cal"
  shows "(deserialize_field_event_input cal raw1 = Inr i \<longleftrightarrow> event_input_ok i \<and> raw1 = serialize_field_event_input cal i) \<and>
    (deserialize_processed_event_receipt cal raw2 = Inr c \<longleftrightarrow> receipt_ok c \<and> raw2 = serialize_processed_event_receipt cal c)"
  by (simp only: field_event_input_read_iff [OF assms] receipt_read_iff [OF assms])

definition ex_receipt :: ProcessedEventReceipt where
  "ex_receipt = \<lparr>rc_event = ex_event, rc_server_event_id = ''V1'', rc_outcome = ReductionOutcome.APPLIED,
     rc_response_effects = [], rc_missing_requirements = [], rc_reason_codes = [''DONE'']\<rparr>"

theorem stored_inputs_are_read_exactly_witness:
  "deserialize_field_event_input plain_calendar (serialize_field_event_input plain_calendar ex_input) = Inr ex_input \<and>
   deserialize_processed_event_receipt plain_calendar (serialize_processed_event_receipt plain_calendar ex_receipt) = Inr ex_receipt"
proof -
  have "receipt_ok ex_receipt" by code_simp
  then show ?thesis
    using stored_inputs_are_read_exactly [OF plain_calendar_law, of "serialize_field_event_input plain_calendar ex_input" ex_input
      "serialize_processed_event_receipt plain_calendar ex_receipt" ex_receipt]
    by (simp only: ex_values_ok simp_thms)
qed

end
