(* ===== verification/Crew_Planner.thy ===== *)
theory Crew_Planner
  imports Pricing_Model "HOL-Library.Product_Lexorder"
begin

text \<open>
  planning/crew_planner.py and planning/job_assessment.py with the values of domain/models.py they work
  on: a job's work items are put in order of their predecessors, a depth-first search places them on the
  free time of employees and vehicles (at most 1000 complete schedules), the schedules are ranked, and
  the first two that pass the validation become PLAN A and PLAN B.

  A slot's datetimes are aware and stand as their instants (a naive one raises when it is compared with
  the aware planning window); the overflow of \<open>datetime\<close> beyond the year 9999 is not modelled. The start
  and the end of a calendar day in a zone and \<open>isoformat\<close> are parameters. Texts are written without
  diacritics.
\<close>

section \<open>Values\<close>

record Availability =
  av_start_at :: int
  av_end_at :: int
  av_is_available :: bool
  av_note :: string
  av_zone :: string \<comment> \<open>\<open>start_at.tzinfo\<close>\<close>

record Employee =
  em_id :: string
  em_name :: string
  em_is_active :: bool
  em_skill_ids :: "string list"
  em_availability :: "Availability list"
  em_hourly_cost_amount :: rat
  em_cost_currency :: string

record Vehicle =
  ve_id :: string
  ve_name :: string
  ve_vehicle_type :: string
  ve_is_active :: bool
  ve_availability :: "Availability list"
  ve_cost_per_km_amount :: rat
  ve_cost_currency :: string
  ve_capacity_note :: string

record JobRequirement =
  rq_id :: string
  rq_description :: string
  rq_quantity :: "rat option"
  rq_unit :: "string option"
  rq_is_confirmed :: bool
  rq_requires_site_verification :: bool

record JobRequest =
  jq_id :: string
  jq_title :: string
  jq_description :: string
  jq_site_address :: "string option"
  jq_desired_start_date :: "int option"
  jq_requirements :: "JobRequirement list"
  jq_missing_information :: "string list"
  jq_reported_risks :: "string list"

record PlanningWorkItem =
  wi_id :: string
  wi_job_requirement_id :: string
  wi_name :: string
  wi_required_skill_ids :: "string list"
  wi_estimated_hours :: rat
  wi_predecessor_ids :: "string list"
  wi_required_vehicle_type :: "string option"

record DecisionTraceEntry =
  tr_work_item_id :: string
  tr_work_item_name :: string
  tr_candidate_type :: string
  tr_candidate_id :: string
  tr_candidate_name :: string
  tr_outcome :: string
  tr_reason_code :: string
  tr_reason :: string

record PlanningResult =
  pn_plans :: "PlanVariant list"
  pn_decision_trace :: "DecisionTraceEntry list"
  pn_inability_reasons :: "string list"
  pn_rule_version :: string

record CandidateEvaluation =
  ce_eligible :: bool
  ce_reason_code :: string
  ce_reason :: string

section \<open>The decision trace\<close>

text \<open>\<open>_TraceCollector.add\<close>: an entry is kept once per key, the names apart.\<close>

definition trace_key :: "DecisionTraceEntry \<Rightarrow> string list" where
  "trace_key e = [tr_work_item_id e, tr_candidate_type e, tr_candidate_id e, tr_outcome e, tr_reason_code e, tr_reason e]"

definition trace_add :: "DecisionTraceEntry \<Rightarrow> DecisionTraceEntry list \<Rightarrow> DecisionTraceEntry list" where
  "trace_add e trace = (if trace_key e \<in> set (map trace_key trace) then trace else trace @ [e])"

definition trace_entry ::
    "PlanningWorkItem \<Rightarrow> string \<Rightarrow> string \<Rightarrow> string \<Rightarrow> string \<Rightarrow> string \<Rightarrow> string \<Rightarrow> DecisionTraceEntry" where
  "trace_entry w type_name candidate_id candidate_name outcome code reason =
     \<lparr>tr_work_item_id = wi_id w, tr_work_item_name = wi_name w, tr_candidate_type = type_name,
      tr_candidate_id = candidate_id, tr_candidate_name = candidate_name, tr_outcome = outcome,
      tr_reason_code = code, tr_reason = reason\<rparr>"

definition trace_employee ::
    "PlanningWorkItem \<Rightarrow> Employee \<Rightarrow> string \<Rightarrow> string \<Rightarrow> string \<Rightarrow> DecisionTraceEntry list \<Rightarrow> DecisionTraceEntry list" where
  "trace_employee w e outcome code reason = trace_add (trace_entry w ''EMPLOYEE'' (em_id e) (em_name e) outcome code reason)"

definition trace_vehicle ::
    "PlanningWorkItem \<Rightarrow> Vehicle \<Rightarrow> string \<Rightarrow> string \<Rightarrow> string \<Rightarrow> DecisionTraceEntry list \<Rightarrow> DecisionTraceEntry list" where
  "trace_vehicle w v outcome code reason = trace_add (trace_entry w ''VEHICLE'' (ve_id v) (ve_name v) outcome code reason)"

section \<open>Time\<close>

definition intervals_overlap :: "int \<Rightarrow> int \<Rightarrow> int \<Rightarrow> int \<Rightarrow> bool" where
  "intervals_overlap first_start first_end second_start second_end \<longleftrightarrow>
     first_start < second_end \<and> second_start < first_end"

text \<open>\<open>int()\<close> of a Decimal truncates towards zero; a \<open>timedelta\<close> counts microseconds.\<close>

definition truncate_rat :: "rat \<Rightarrow> int" where
  "truncate_rat x = (if 0 \<le> x then floor x else ceiling x)"

definition item_duration :: "PlanningWorkItem \<Rightarrow> int result" where
  "item_duration w =
     (let s = truncate_rat (dround (wi_estimated_hours w * 3600))
      in if s \<le> 0 then Inl (ValueError (''Czas zadania '' @ wi_id w @ '' musi byc dodatni'')) else Inr (s * 1000000))"

definition availability_covers :: "Availability list \<Rightarrow> int \<Rightarrow> int \<Rightarrow> bool" where
  "availability_covers slots start_at end_at \<longleftrightarrow>
     (\<exists>s\<in>set slots. av_is_available s \<and> av_start_at s \<le> start_at \<and> end_at \<le> av_end_at s)"

definition task_start :: "ScheduledTask \<Rightarrow> int" where
  "task_start a = instant (st_start_at a)"

definition task_end :: "ScheduledTask \<Rightarrow> int" where
  "task_end a = instant (st_end_at a)"

section \<open>Candidates\<close>

definition evaluate_employee_candidate ::
    "PlanningWorkItem \<Rightarrow> Employee \<Rightarrow> int \<Rightarrow> int \<Rightarrow> CandidateEvaluation result" where
  "evaluate_employee_candidate w e window_start window_end =
     (if \<not> em_is_active e then
        Inr \<lparr>ce_eligible = False, ce_reason_code = ''INACTIVE'', ce_reason = ''Pracownik jest nieaktywny.''\<rparr>
      else
        let missing = filter (\<lambda>s. s \<notin> set (em_skill_ids e)) (wi_required_skill_ids w) in
        if missing \<noteq> [] then
          Inr \<lparr>ce_eligible = False, ce_reason_code = ''MISSING_SKILL'',
               ce_reason = ''Brak wymaganych skillow: '' @ join '', '' missing @ ''.''\<rparr>
        else and_then (item_duration w) (\<lambda>duration.
          if \<not> (\<exists>s\<in>set (em_availability e). av_is_available s \<and>
                max (av_start_at s) window_start + duration \<le> min (av_end_at s) window_end) then
            Inr \<lparr>ce_eligible = False, ce_reason_code = ''NO_AVAILABILITY'',
                 ce_reason = ''Brak wystarczajacego przedzialu dostepnosci w oknie planowania.''\<rparr>
          else Inr \<lparr>ce_eligible = True, ce_reason_code = ''ELIGIBLE'',
                 ce_reason = ''Aktywny pracownik ma wymagane skille i dostepnosc.''\<rparr>))"

section \<open>The order of the work items\<close>

text \<open>\<open>repr\<close> of a list of identities, for identities without quotes, backslashes and control characters.\<close>

definition quoted_list :: "string list \<Rightarrow> string" where
  "quoted_list xs = ''['' @ join '', '' (map (\<lambda>x. CHR 0x27 # x @ [CHR 0x27]) xs) @ '']''"

definition check_predecessors :: "PlanningWorkItem list \<Rightarrow> PlanningWorkItem \<Rightarrow> unit result" where
  "check_predecessors items w =
     (let unknown = sorted_set (filter (\<lambda>p. p \<notin> set (map wi_id items)) (wi_predecessor_ids w))
      in require (unknown = []) (''Zadanie '' @ wi_id w @ '' wskazuje nieznanych poprzednikow: '' @ quoted_list unknown))"

definition ready_items :: "string set \<Rightarrow> PlanningWorkItem list \<Rightarrow> PlanningWorkItem list" where
  "ready_items resolved remaining = sort_key wi_id (filter (\<lambda>w. set (wi_predecessor_ids w) \<subseteq> resolved) remaining)"

text \<open>\<open>remaining.remove(item)\<close> for every item that is ready.\<close>

definition remove_items :: "PlanningWorkItem list \<Rightarrow> PlanningWorkItem list \<Rightarrow> PlanningWorkItem list" where
  "remove_items ready remaining = fold remove1 ready remaining"

lemma length_remove_items: "length (remove_items ready remaining) \<le> length remaining"
proof (induction ready arbitrary: remaining)
  case (Cons w ready)
  have "length (remove1 w remaining) \<le> length remaining" by (simp add: length_remove1)
  with Cons [of "remove1 w remaining"] show ?case by (simp add: remove_items_def)
qed (simp add: remove_items_def)

lemma remove_items_shorter:
  assumes "ready \<noteq> []" "set ready \<subseteq> set remaining"
  shows "length (remove_items ready remaining) < length remaining"
proof -
  obtain w ws where ready: "ready = w # ws" using assms(1) by (cases ready) auto
  have "w \<in> set remaining" using assms(2) by (simp add: ready)
  then have "length (remove1 w remaining) < length remaining"
    using length_pos_if_in_set [of w remaining] by (simp add: length_remove1)
  moreover have "remove_items ready remaining = remove_items ws (remove1 w remaining)"
    by (simp add: ready remove_items_def)
  ultimately show ?thesis using length_remove_items [of ws "remove1 w remaining"] by simp
qed

function order_layers :: "string set \<Rightarrow> PlanningWorkItem list \<Rightarrow> PlanningWorkItem list result" where
  "order_layers resolved remaining =
     (if remaining = [] then Inr []
      else
        let ready = ready_items resolved remaining in
        if ready = [] then Inl (ValueError ''Zaleznosci zadan planistycznych zawieraja cykl'')
        else and_then (order_layers (resolved \<union> set (map wi_id ready)) (remove_items ready remaining)) (\<lambda>rest.
          Inr (ready @ rest)))"
  by pat_completeness auto
termination
proof (relation "measure (length \<circ> snd)", goal_cases)
  case (2 resolved remaining ready)
  have "set ready \<subseteq> set remaining" using 2(2) by (auto simp: ready_items_def)
  then show ?case using remove_items_shorter [OF 2(3)] by simp
qed simp

definition topological_order :: "PlanningWorkItem list \<Rightarrow> PlanningWorkItem list result" where
  "topological_order items =
     and_then (require (distinct (map wi_id items)) ''Identyfikatory zadan planistycznych musza byc unikalne'') (\<lambda>_.
     and_then (check_all (check_predecessors items) items) (\<lambda>_.
     order_layers {} items))"

section \<open>Options for a work item\<close>

definition timezone_for_resources :: "Employee list \<Rightarrow> Vehicle list \<Rightarrow> string" where
  "timezone_for_resources employees vehicles =
     (case concat (map em_availability employees) @ concat (map ve_availability vehicles) of
        [] \<Rightarrow> ''UTC'' | slot # _ \<Rightarrow> av_zone slot)"

definition busy :: "ScheduledTask list \<Rightarrow> int \<Rightarrow> int \<Rightarrow> bool" where
  "busy tasks start_at end_at \<longleftrightarrow> (\<exists>a\<in>set tasks. intervals_overlap start_at end_at (task_start a) (task_end a))"

definition possible_starts :: "ScheduledTask list \<Rightarrow> int \<Rightarrow> Availability \<Rightarrow> int list" where
  "possible_starts occupied earliest_start slot =
     sorted_set (max (av_start_at slot) earliest_start #
       filter (\<lambda>t. av_start_at slot \<le> t \<and> t < av_end_at slot) (map task_end occupied))"

definition time_conflict :: "PlanningWorkItem \<Rightarrow> Employee \<Rightarrow> DecisionTraceEntry list \<Rightarrow> DecisionTraceEntry list" where
  "time_conflict w e =
     trace_employee w e ''REJECTED'' ''TIME_CONFLICT'' ''Pracownik ma w tym czasie inne zadanie w tym wariancie.''"

definition slot_starts :: "int \<Rightarrow> int \<Rightarrow> int \<Rightarrow> ScheduledTask list \<Rightarrow> Availability \<Rightarrow> int list" where
  "slot_starts duration earliest_start window_end occupied slot =
     (if av_is_available slot then
        filter (\<lambda>t. t + duration \<le> av_end_at slot \<and> t + duration \<le> window_end) (possible_starts occupied earliest_start slot)
      else [])"

text \<open>
  The starts tried for an employee, slot by slot: a start in conflict with the employee's tasks leaves a
  trace entry, the others are the options, sorted and without duplicates (the end is the start plus the
  duration, the employee is the same).
\<close>

definition tried_starts :: "int \<Rightarrow> int \<Rightarrow> int \<Rightarrow> ScheduledTask list \<Rightarrow> Availability list \<Rightarrow> int list" where
  "tried_starts duration earliest_start window_end occupied slots =
     concat (map (slot_starts duration earliest_start window_end occupied) slots)"

definition employee_tasks :: "Employee \<Rightarrow> ScheduledTask list \<Rightarrow> ScheduledTask list" where
  "employee_tasks e assignments = filter (\<lambda>a. st_employee_id a = em_id e) assignments"

definition employee_options ::
    "PlanningWorkItem \<Rightarrow> Employee \<Rightarrow> int \<Rightarrow> int \<Rightarrow> ScheduledTask list \<Rightarrow> DecisionTraceEntry list \<Rightarrow>
     ((int \<times> int) list \<times> DecisionTraceEntry list) result" where
  "employee_options w e earliest_start window_end assignments trace =
     and_then (item_duration w) (\<lambda>duration.
       let occupied = employee_tasks e assignments;
           starts = tried_starts duration earliest_start window_end occupied (em_availability e)
       in Inr (map (\<lambda>t. (t, t + duration)) (sorted_set (filter (\<lambda>t. \<not> busy occupied t (t + duration)) starts)),
               fold (\<lambda>t. if busy occupied t (t + duration) then time_conflict w e else id) starts trace))"

definition vehicle_tasks :: "Vehicle \<Rightarrow> ScheduledTask list \<Rightarrow> ScheduledTask list" where
  "vehicle_tasks v assignments = filter (\<lambda>a. st_vehicle_id a = Some (ve_id v)) assignments"

text \<open>Why a vehicle is no option, in the order of the checks.\<close>

definition vehicle_rejection :: "string \<Rightarrow> int \<Rightarrow> int \<Rightarrow> ScheduledTask list \<Rightarrow> Vehicle \<Rightarrow> (string \<times> string) option" where
  "vehicle_rejection required start_at end_at assignments v =
     (if \<not> ve_is_active v then Some (''VEHICLE_INACTIVE'', ''Pojazd jest nieaktywny.'')
      else if ve_vehicle_type v \<noteq> required then
        Some (''VEHICLE_TYPE_MISMATCH'', ''Wymagany typ pojazdu: '' @ required @ ''.'')
      else if \<not> availability_covers (ve_availability v) start_at end_at then
        Some (''VEHICLE_UNAVAILABLE'', ''Pojazd jest niedostepny w terminie zadania.'')
      else if busy (vehicle_tasks v assignments) start_at end_at then
        Some (''VEHICLE_CONFLICT'', ''Pojazd jest juz uzywany przez inne zadanie w tym wariancie.'')
      else None)"

definition vehicle_options ::
    "PlanningWorkItem \<Rightarrow> int \<Rightarrow> int \<Rightarrow> Vehicle list \<Rightarrow> ScheduledTask list \<Rightarrow> DecisionTraceEntry list \<Rightarrow>
     Vehicle option list \<times> DecisionTraceEntry list" where
  "vehicle_options w start_at end_at vehicles assignments trace =
     (case wi_required_vehicle_type w of
        None \<Rightarrow> ([None], trace)
      | Some required \<Rightarrow>
          (map Some (sort_key ve_id (filter (\<lambda>v. vehicle_rejection required start_at end_at assignments v = None) vehicles)),
           fold (\<lambda>v. case vehicle_rejection required start_at end_at assignments v of
             None \<Rightarrow> id | Some (code, reason) \<Rightarrow> trace_vehicle w v ''REJECTED'' code reason) vehicles trace))"

section \<open>Validation\<close>

definition assignment_errors ::
    "PlanVariant \<Rightarrow> PlanningWorkItem list \<Rightarrow> Employee list \<Rightarrow> Vehicle list \<Rightarrow> ScheduledTask \<Rightarrow> string list" where
  "assignment_errors plan items employees vehicles a =
     (case (dict_by wi_id items (st_work_item_id a), dict_by em_id employees (st_employee_id a)) of
        (Some w, Some e) \<Rightarrow>
          (if em_is_active e then [] else [''Nieaktywny pracownik: '' @ em_id e @ ''.'']) @
          (if set (wi_required_skill_ids w) \<subseteq> set (em_skill_ids e) then []
           else [''Brak wymaganych skillow: '' @ em_id e @ ''/'' @ wi_id w @ ''.'']) @
          (if availability_covers (em_availability e) (task_start a) (task_end a) then []
           else [''Pracownik niedostepny: '' @ em_id e @ ''/'' @ wi_id w @ ''.'']) @
          (case wi_required_vehicle_type w of
             None \<Rightarrow> []
           | Some required \<Rightarrow>
               (case dict_by ve_id vehicles (case st_vehicle_id a of None \<Rightarrow> [] | Some v \<Rightarrow> v) of
                  None \<Rightarrow> [''Brak pojazdu dla zadania: '' @ wi_id w @ ''.'']
                | Some v \<Rightarrow>
                    if \<not> ve_is_active v \<or> ve_vehicle_type v \<noteq> required \<or>
                       \<not> availability_covers (ve_availability v) (task_start a) (task_end a)
                    then [''Niewykonalny przydzial pojazdu: '' @ ve_id v @ ''.''] else [])) @
          concat (map (\<lambda>p. case dict_by st_work_item_id (pv_assignments plan) p of
              None \<Rightarrow> [''Naruszona kolejnosc: '' @ p @ '' -> '' @ wi_id w @ ''.'']
            | Some predecessor \<Rightarrow>
                if task_end predecessor > task_start a then [''Naruszona kolejnosc: '' @ p @ '' -> '' @ wi_id w @ ''.''] else [])
            (wi_predecessor_ids w))
      | _ \<Rightarrow> [''Nieznane zadanie lub pracownik: '' @ st_work_item_id a @ ''.''])"

definition pair_errors :: "ScheduledTask \<Rightarrow> ScheduledTask \<Rightarrow> string list" where
  "pair_errors first second =
     (if \<not> intervals_overlap (task_start first) (task_end first) (task_start second) (task_end second) then []
      else (if st_employee_id first = st_employee_id second then [''Konflikt pracownika: '' @ st_employee_id first @ ''.''] else []) @
           (case st_vehicle_id first of
              None \<Rightarrow> []
            | Some v \<Rightarrow> if st_vehicle_id second = Some v then [''Konflikt pojazdu: '' @ v @ ''.''] else []))"

fun conflict_errors :: "ScheduledTask list \<Rightarrow> string list" where
  "conflict_errors [] = []"
| "conflict_errors (a # as) = concat (map (pair_errors a) as) @ conflict_errors as"

definition validate_plan :: "PlanVariant \<Rightarrow> PlanningWorkItem list \<Rightarrow> Employee list \<Rightarrow> Vehicle list \<Rightarrow> string list" where
  "validate_plan plan items employees vehicles =
     sorted_set
       ((if set (map st_work_item_id (pv_assignments plan)) = set (map wi_id items) then []
         else [''Plan nie zawiera dokladnie jednego przypisania dla kazdego zadania.'']) @
        concat (map (assignment_errors plan items employees vehicles) (pv_assignments plan)) @
        conflict_errors (pv_assignments plan))"

section \<open>The search\<close>

definition MAX_SCHEDULES :: nat where
  "MAX_SCHEDULES = 1000"

record search_context =
  sx_employees :: "Employee list"
  sx_vehicles :: "Vehicle list"
  sx_window_start :: int
  sx_window_end :: int
  sx_evaluations :: "((string \<times> string) \<times> CandidateEvaluation) list"

record search_state =
  ss_trace :: "DecisionTraceEntry list"
  ss_complete :: "ScheduledTask list list"

text \<open>A \<open>for\<close> loop whose body may raise.\<close>

fun loop :: "('a \<Rightarrow> 's \<Rightarrow> 's result) \<Rightarrow> 'a list \<Rightarrow> 's \<Rightarrow> 's result" where
  "loop f [] s = Inr s"
| "loop f (x # xs) s = and_then (f x s) (loop f xs)"

definition earliest_start_of :: "int \<Rightarrow> ScheduledTask list \<Rightarrow> PlanningWorkItem \<Rightarrow> int result" where
  "earliest_start_of window_start assignments w =
     and_then (traverse (\<lambda>p. case dict_by st_work_item_id assignments p of
                 None \<Rightarrow> Inl KeyError | Some a \<Rightarrow> Inr (task_end a)) (wi_predecessor_ids w)) (\<lambda>ends.
     Inr (fold max ends window_start))"

definition evaluation_for :: "search_context \<Rightarrow> PlanningWorkItem \<Rightarrow> Employee \<Rightarrow> CandidateEvaluation result" where
  "evaluation_for cx w e =
     (case dict_by fst (sx_evaluations cx) (wi_id w, em_id e) of None \<Rightarrow> Inl KeyError | Some ev \<Rightarrow> Inr (snd ev))"

definition scheduled_task :: "PlanningWorkItem \<Rightarrow> Employee \<Rightarrow> int \<times> int \<Rightarrow> Vehicle option \<Rightarrow> ScheduledTask" where
  "scheduled_task w e slot v =
     \<lparr>st_work_item_id = wi_id w, st_work_item_name = wi_name w, st_employee_id = em_id e,
      st_start_at = Aware (fst slot), st_end_at = Aware (snd slot), st_vehicle_id = map_option ve_id v\<rparr>"

definition full :: "search_state \<Rightarrow> bool" where
  "full st \<longleftrightarrow> MAX_SCHEDULES \<le> length (ss_complete st)"

text \<open>
  One work item for one employee; \<open>continue_with\<close> is the recursive call for the next work item.
\<close>

definition try_slot ::
    "search_context \<Rightarrow> PlanningWorkItem \<Rightarrow> ScheduledTask list \<Rightarrow> (ScheduledTask list \<Rightarrow> search_state \<Rightarrow> search_state result) \<Rightarrow>
     Employee \<Rightarrow> int \<times> int \<Rightarrow> search_state \<Rightarrow> search_state result" where
  "try_slot cx w assignments continue_with e slot st =
     (let (options, trace) = vehicle_options w (fst slot) (snd slot) (sx_vehicles cx) assignments (ss_trace st)
      in loop (\<lambda>v. continue_with (assignments @ [scheduled_task w e slot v])) options (st\<lparr>ss_trace := trace\<rparr>))"

definition try_employee ::
    "search_context \<Rightarrow> PlanningWorkItem \<Rightarrow> ScheduledTask list \<Rightarrow> (ScheduledTask list \<Rightarrow> search_state \<Rightarrow> search_state result) \<Rightarrow>
     int \<Rightarrow> Employee \<Rightarrow> search_state \<Rightarrow> search_state result" where
  "try_employee cx w assignments continue_with earliest_start e st =
     and_then (evaluation_for cx w e) (\<lambda>evaluation.
       if \<not> ce_eligible evaluation then Inr st
       else and_then (employee_options w e earliest_start (sx_window_end cx) assignments (ss_trace st)) (\<lambda>(options, trace).
         loop (try_slot cx w assignments continue_with e) options (st\<lparr>ss_trace := trace\<rparr>)))"

fun search :: "search_context \<Rightarrow> PlanningWorkItem list \<Rightarrow> ScheduledTask list \<Rightarrow> search_state \<Rightarrow> search_state result" where
  "search cx [] assignments st =
     (if full st then Inr st else Inr (st\<lparr>ss_complete := ss_complete st @ [assignments]\<rparr>))"
| "search cx (w # items) assignments st =
     (if full st then Inr st
      else and_then (earliest_start_of (sx_window_start cx) assignments w) (\<lambda>earliest_start.
        loop (try_employee cx w assignments (search cx items) earliest_start) (sort_key em_id (sx_employees cx)) st))"

section \<open>Ranking and the plans\<close>

type_synonym plan_signature = "(string \<times> string \<times> string \<times> string \<times> string) list"

definition plan_signature_of :: "(py_datetime \<Rightarrow> string) \<Rightarrow> ScheduledTask list \<Rightarrow> plan_signature" where
  "plan_signature_of isoformat assignments =
     map (\<lambda>a. (st_work_item_id a, st_employee_id a, (case st_vehicle_id a of None \<Rightarrow> [] | Some v \<Rightarrow> v),
               isoformat (st_start_at a), isoformat (st_end_at a))) assignments"

text \<open>A dict comprehension: a repeated key keeps its first place and its last value.\<close>

definition dict_store :: "('a \<Rightarrow> 'k) \<Rightarrow> 'a \<Rightarrow> 'a list \<Rightarrow> 'a list" where
  "dict_store key x d = (if key x \<in> set (map key d) then map (\<lambda>y. if key y = key x then x else y) d else d @ [x])"

definition dict_values :: "('a \<Rightarrow> 'k) \<Rightarrow> 'a list \<Rightarrow> 'a list" where
  "dict_values key xs = fold (dict_store key) xs []"

definition schedule_start :: "ScheduledTask list \<Rightarrow> int" where
  "schedule_start s = Min (set (map task_start s))"

definition schedule_end :: "ScheduledTask list \<Rightarrow> int" where
  "schedule_end s = Max (set (map task_end s))"

definition schedule_key :: "(py_datetime \<Rightarrow> string) \<Rightarrow> ScheduledTask list \<Rightarrow> int \<times> int \<times> nat \<times> plan_signature" where
  "schedule_key isoformat s =
     (schedule_start s, schedule_end s, length (dedup (map st_employee_id s)), plan_signature_of isoformat s)"

text \<open>\<open>min\<close> of no assignment raises.\<close>

definition ranked_schedules :: "(py_datetime \<Rightarrow> string) \<Rightarrow> ScheduledTask list list \<Rightarrow> ScheduledTask list list result" where
  "ranked_schedules isoformat found =
     (let schedules = dict_values (plan_signature_of isoformat) found
      in if [] \<in> set schedules then Inl (ValueError ''min() iterable argument is empty'')
         else Inr (sort_key (schedule_key isoformat) schedules))"

definition PLAN_LIMITATIONS :: "string list" where
  "PLAN_LIMITATIONS =
     [''Plan opiera sie wylacznie na syntetycznych przedzialach dostepnosci DEMO.'',
      ''Nie uwzglednia nadgodzin, weekendow ani optymalizacji tras.'',
      ''Wariant wymaga pozniejszego przegladu przez wlasciciela.'']"

definition plan_rationale :: "bool \<Rightarrow> PlanVariant list \<Rightarrow> py_datetime \<Rightarrow> py_datetime \<Rightarrow> string list \<Rightarrow> string" where
  "plan_rationale first plans start_at end_at employee_ids =
     (if first then ''Najwczesniejszy wykonalny wariant z najmniejsza liczba osob wsrod harmonogramow o tym samym terminie.''
      else case plans of
        p # _ \<Rightarrow> if start_at = pv_start_at p \<and> end_at = pv_end_at p \<and> employee_ids \<noteq> pv_employee_ids p
          then ''Rzeczywista alternatywa skladu przy tym samym terminie: dostepna osoba z tymi samymi wymaganymi skillami zastepuje wykonawce Planu A.''
          else ''Drugi najwyzej sklasyfikowany, rzeczywiscie odmienny wariant wykonalny.''
      | [] \<Rightarrow> ''Drugi najwyzej sklasyfikowany, rzeczywiscie odmienny wariant wykonalny.'')"

definition plan_variant :: "JobRequest \<Rightarrow> bool \<Rightarrow> PlanVariant list \<Rightarrow> ScheduledTask list \<Rightarrow> PlanVariant" where
  "plan_variant job first plans s =
     (let start_at = Aware (schedule_start s); end_at = Aware (schedule_end s);
          employee_ids = sorted_set (map st_employee_id s);
          vehicle_ids = sorted_set (List.map_filter st_vehicle_id s)
      in \<lparr>pv_id = ''plan-'' @ jq_id job @ (if first then ''-a'' else ''-b''), pv_job_request_id = jq_id job,
          pv_label = (if first then ''PLAN A'' else ''PLAN B''), pv_start_at = start_at, pv_end_at = end_at,
          pv_assignments = s, pv_employee_ids = employee_ids, pv_vehicle_ids = vehicle_ids,
          pv_rationale = plan_rationale first plans start_at end_at employee_ids, pv_limitations = PLAN_LIMITATIONS\<rparr>)"

definition trace_selected ::
    "PlanningWorkItem list \<Rightarrow> Employee list \<Rightarrow> Vehicle list \<Rightarrow> string \<Rightarrow> ScheduledTask \<Rightarrow> DecisionTraceEntry list \<Rightarrow>
     DecisionTraceEntry list result" where
  "trace_selected items employees vehicles label a trace =
     (case (dict_by wi_id items (st_work_item_id a), dict_by em_id employees (st_employee_id a)) of
        (Some w, Some e) \<Rightarrow>
          (let trace' = trace_employee w e ''SELECTED'' ''SELECTED'' (''Wybrany do '' @ label @ '' w dostepnym terminie.'') trace
           in case st_vehicle_id a of
                None \<Rightarrow> Inr trace'
              | Some vid \<Rightarrow>
                  (case dict_by ve_id vehicles vid of
                     None \<Rightarrow> Inl KeyError
                   | Some v \<Rightarrow> Inr (trace_vehicle w v ''SELECTED'' ''SELECTED''
                       (''Wybrany do '' @ label @ ''; typ i dostepnosc sa zgodne.'') trace')))
      | _ \<Rightarrow> Inl KeyError)"

record plan_state =
  ps_plans :: "PlanVariant list"
  ps_reasons :: "string list"
  ps_trace :: "DecisionTraceEntry list"

definition add_plan ::
    "JobRequest \<Rightarrow> PlanningWorkItem list \<Rightarrow> Employee list \<Rightarrow> Vehicle list \<Rightarrow> bool \<times> ScheduledTask list \<Rightarrow>
     plan_state \<Rightarrow> plan_state result" where
  "add_plan job items employees vehicles position st =
     (let plan = plan_variant job (fst position) (ps_plans st) (snd position);
          errors = validate_plan plan items employees vehicles
      in if errors \<noteq> [] then Inr (st\<lparr>ps_reasons := ps_reasons st @ errors\<rparr>)
         else and_then (loop (trace_selected items employees vehicles (pv_label plan)) (snd position) (ps_trace st)) (\<lambda>trace.
           Inr (st\<lparr>ps_plans := ps_plans st @ [plan], ps_trace := trace\<rparr>)))"

definition positions :: "'a list \<Rightarrow> (bool \<times> 'a) list" where
  "positions xs = zip [True, False] xs"

section \<open>generate_plan_variants\<close>

definition no_plans :: "string \<Rightarrow> PlanningResult" where
  "no_plans reason =
     \<lparr>pn_plans = [], pn_decision_trace = [], pn_inability_reasons = [reason], pn_rule_version = ''crew-planner-v1''\<rparr>"

definition evaluate_candidate ::
    "int \<Rightarrow> int \<Rightarrow> PlanningWorkItem \<Rightarrow> Employee \<Rightarrow>
     ((string \<times> string) \<times> CandidateEvaluation) list \<times> DecisionTraceEntry list \<Rightarrow>
     (((string \<times> string) \<times> CandidateEvaluation) list \<times> DecisionTraceEntry list) result" where
  "evaluate_candidate window_start window_end w e st =
     and_then (evaluate_employee_candidate w e window_start window_end) (\<lambda>evaluation.
     Inr (fst st @ [((wi_id w, em_id e), evaluation)],
          trace_employee w e (if ce_eligible evaluation then ''CONSIDERED'' else ''REJECTED'')
            (ce_reason_code evaluation) (ce_reason evaluation) (snd st)))"

definition evaluate_candidates ::
    "int \<Rightarrow> int \<Rightarrow> PlanningWorkItem list \<Rightarrow> Employee list \<Rightarrow>
     (((string \<times> string) \<times> CandidateEvaluation) list \<times> DecisionTraceEntry list) result" where
  "evaluate_candidates window_start window_end items employees =
     loop (\<lambda>w. loop (evaluate_candidate window_start window_end w) employees) items ([], [])"

definition closing_reasons :: "plan_state \<Rightarrow> string list" where
  "closing_reasons st =
     ps_reasons st @
     (if ps_plans st = [] then [''Nie znaleziono wykonalnego wariantu w podanym oknie planowania.'']
      else if length (ps_plans st) = 1 then [''Znaleziono tylko jeden unikalny wykonalny wariant; Plan B nie powstal.'']
      else [])"

record day_bounds =
  first_instant :: "string \<Rightarrow> int \<Rightarrow> int" \<comment> \<open>\<open>datetime.combine(day, time.min, tzinfo)\<close>\<close>
  last_instant :: "string \<Rightarrow> int \<Rightarrow> int" \<comment> \<open>\<open>datetime.combine(day, time.max, tzinfo)\<close>\<close>

definition plan_window ::
    "day_bounds \<Rightarrow> int \<Rightarrow> int \<Rightarrow> Employee list \<Rightarrow> Vehicle list \<Rightarrow> (int \<times> int) result" where
  "plan_window days start_date end_date employees vehicles =
     (let zone = timezone_for_resources employees vehicles;
          window = (first_instant days zone start_date, last_instant days zone end_date)
      in and_then (require (fst window \<le> snd window) ''Koniec okna planowania nie moze poprzedzac jego poczatku'') (\<lambda>_.
         Inr window))"

definition plan_schedules ::
    "(py_datetime \<Rightarrow> string) \<Rightarrow> JobRequest \<Rightarrow> PlanningWorkItem list \<Rightarrow> Employee list \<Rightarrow> Vehicle list \<Rightarrow>
     search_state \<Rightarrow> PlanningResult result" where
  "plan_schedules isoformat job items employees vehicles found =
     and_then (ranked_schedules isoformat (ss_complete found)) (\<lambda>ranked.
     and_then (loop (add_plan job items employees vehicles) (positions ranked)
        \<lparr>ps_plans = [], ps_reasons = [], ps_trace = ss_trace found\<rparr>) (\<lambda>st.
     Inr \<lparr>pn_plans = ps_plans st, pn_decision_trace = ps_trace st,
          pn_inability_reasons = sorted_set (closing_reasons st), pn_rule_version = ''crew-planner-v1''\<rparr>))"

definition run_search ::
    "PlanningWorkItem list \<Rightarrow> Employee list \<Rightarrow> Vehicle list \<Rightarrow> int \<times> int \<Rightarrow> search_state result" where
  "run_search ordered employees vehicles window =
     and_then (evaluate_candidates (fst window) (snd window) ordered employees) (\<lambda>(evaluations, trace).
     search \<lparr>sx_employees = employees, sx_vehicles = vehicles, sx_window_start = fst window,
             sx_window_end = snd window, sx_evaluations = evaluations\<rparr> ordered []
       \<lparr>ss_trace = trace, ss_complete = []\<rparr>)"

definition generate_plan_variants ::
    "day_bounds \<Rightarrow> (py_datetime \<Rightarrow> string) \<Rightarrow> JobRequest \<Rightarrow> PlanningWorkItem list \<Rightarrow> Employee list \<Rightarrow> Vehicle list \<Rightarrow>
     int \<Rightarrow> PlanningResult result" where
  "generate_plan_variants days isoformat job items employees vehicles planning_window_end =
     (case jq_desired_start_date job of
        None \<Rightarrow> Inr (no_plans ''Brak planowanej daty rozpoczecia zlecenia.'')
      | Some start_date \<Rightarrow>
          if jq_missing_information job \<noteq> [] \<or> jq_reported_risks job \<noteq> [] then
            Inr (no_plans ''Zlecenie nadal zawiera braki lub ryzyka.'')
          else if \<exists>r\<in>set (jq_requirements job). \<not> rq_is_confirmed r then
            Inr (no_plans ''Nie wszystkie wymagania zlecenia sa potwierdzone.'')
          else if set (map wi_job_requirement_id items) \<noteq> set (map rq_id (jq_requirements job)) then
            Inr (no_plans ''Jawne zadania planistyczne nie pokrywaja dokladnie wymagan zlecenia.'')
          else and_then (topological_order items) (\<lambda>ordered.
               and_then (plan_window days start_date planning_window_end employees vehicles) (\<lambda>window.
               and_then (run_search ordered employees vehicles window) (\<lambda>found.
               plan_schedules isoformat job items employees vehicles found))))"

section \<open>Assessment of a job request\<close>

datatype AssessmentDecision = REMOTE_QUOTE_POSSIBLE | SITE_VISIT_REQUIRED

record JobAssessment =
  ja_decision :: AssessmentDecision
  ja_missing_information :: "string list"
  ja_detected_risks :: "string list"
  ja_rationale :: string
  ja_site_visit_required :: bool
  ja_peter_attention_required :: bool
  ja_rule_version :: string

definition requirement_name :: "JobRequirement \<Rightarrow> string" where
  "requirement_name r = (if strip (rq_description r) = [] then rq_id r else strip (rq_description r))"

definition requirement_gaps :: "JobRequirement \<Rightarrow> string list" where
  "requirement_gaps r =
     (if strip (rq_description r) = [] then [''Brak opisu wymagania: '' @ rq_id r] else []) @
     (if rq_quantity r = None \<or> \<not> truthy (rq_unit r) then [''Brak ilosci lub jednostki: '' @ requirement_name r] else []) @
     (if rq_is_confirmed r then [] else [''Niepotwierdzony zakres: '' @ requirement_name r])"

definition requirement_risks :: "JobRequirement \<Rightarrow> string list" where
  "requirement_risks r =
     (if rq_requires_site_verification r then [''Wymaga weryfikacji na miejscu: '' @ requirement_name r] else [])"

definition request_gaps :: "JobRequest \<Rightarrow> string list" where
  "request_gaps job =
     (if strip (jq_description job) = [] then [''Brak opisu zlecenia''] else []) @
     (if has_text (jq_site_address job) then [] else [''Brak adresu realizacji'']) @
     (if jq_requirements job = [] then [''Brak wymagan zlecenia''] else [])"

definition assess_job_request :: "JobRequest \<Rightarrow> JobAssessment" where
  "assess_job_request job =
     (let missing = sorted_set (jq_missing_information job @ request_gaps job @ concat (map requirement_gaps (jq_requirements job)));
          risks = sorted_set (jq_reported_risks job @ concat (map requirement_risks (jq_requirements job)));
          visit = (missing \<noteq> [] \<or> risks \<noteq> [])
      in \<lparr>ja_decision = (if visit then SITE_VISIT_REQUIRED else REMOTE_QUOTE_POSSIBLE),
          ja_missing_information = missing, ja_detected_risks = risks,
          ja_rationale = (if visit
            then ''Nie mozna przygotowac pewnej zdalnej wyceny, poniewaz zlecenie zawiera braki lub ryzyka wymagajace weryfikacji na miejscu.''
            else ''Zakres zawiera komplet podstawowych danych i nie zgloszono ryzyk wymagajacych ogledzin; mozna przejsc do przygotowania zdalnej wyceny.''),
          ja_site_visit_required = visit, ja_peter_attention_required = visit, ja_rule_version = ''job-assessment-v1''\<rparr>)"

end
