(* ===== verification/Crew_Search.thy ===== *)
theory Crew_Search
  imports Crew_Planner
begin

text \<open>
  The crew planner: its order of work items is a linear extension of the predecessors, its search is
  the first 1000 schedules of a plain enumeration, and every plan it returns is a feasible schedule.
\<close>

section \<open>The topological order\<close>

text \<open>\<open>precedes items p w\<close>: \<open>p\<close> is a predecessor of the item with identity \<open>w\<close>.\<close>

definition precedes :: "PlanningWorkItem list \<Rightarrow> (string \<times> string) set" where
  "precedes items = {(p, wi_id w) | p w. w \<in> set items \<and> p \<in> set (wi_predecessor_ids w)}"

text \<open>Every item comes after its predecessors, which may also come from \<open>done\<close>.\<close>

fun in_order :: "string set \<Rightarrow> PlanningWorkItem list \<Rightarrow> bool" where
  "in_order placed [] = True"
| "in_order placed (w # ws) = (set (wi_predecessor_ids w) \<subseteq> placed \<and> in_order (insert (wi_id w) placed) ws)"

lemma in_order_append:
  "in_order placed (xs @ ys) \<longleftrightarrow> in_order placed xs \<and> in_order (placed \<union> set (map wi_id xs)) ys"
  by (induction xs arbitrary: placed) auto

lemma in_order_mono: "in_order placed xs \<Longrightarrow> placed \<subseteq> larger \<Longrightarrow> in_order larger xs"
proof (induction xs arbitrary: placed larger)
  case (Cons w ws)
  then show ?case using Cons.IH [of "insert (wi_id w) placed" "insert (wi_id w) larger"] by auto
qed simp

lemma in_order_ready: "\<forall>w\<in>set xs. set (wi_predecessor_ids w) \<subseteq> placed \<Longrightarrow> in_order placed xs"
proof (induction xs arbitrary: placed)
  case (Cons w ws)
  then show ?case using in_order_mono [of placed ws "insert (wi_id w) placed"] by auto
qed simp

lemma set_remove_items:
  "distinct xs \<Longrightarrow> set (remove_items ys xs) = set xs - set ys \<and> distinct (remove_items ys xs)"
  by (induction ys arbitrary: xs) (auto simp: remove_items_def)

lemma set_ready_items: "set (ready_items resolved xs) = {w \<in> set xs. set (wi_predecessor_ids w) \<subseteq> resolved}"
  by (auto simp: ready_items_def)

lemma distinct_ready_items: "distinct xs \<Longrightarrow> distinct (ready_items resolved xs)"
  by (simp add: ready_items_def)

declare order_layers.simps [simp del]

lemma order_layers_sound:
  "order_layers resolved remaining = Inr ordered \<Longrightarrow> distinct remaining \<Longrightarrow>
   distinct ordered \<and> set ordered = set remaining \<and> in_order resolved ordered"
proof (induction resolved remaining arbitrary: ordered rule: order_layers.induct)
  case (1 resolved remaining)
  show ?case
  proof (cases "remaining = []")
    case True
    with 1(2) show ?thesis by (simp add: order_layers.simps)
  next
    case False
    let ?ready = "ready_items resolved remaining"
    have ready: "?ready \<noteq> []" using 1(2) False by (auto simp: order_layers.simps Let_def)
    then obtain rest where rest: "order_layers (resolved \<union> set (map wi_id ?ready)) (remove_items ?ready remaining) = Inr rest"
        "ordered = ?ready @ rest"
      using 1(2) False by (subst (asm) order_layers.simps) (auto simp: Let_def)
    have rem: "set (remove_items ?ready remaining) = set remaining - set ?ready" "distinct (remove_items ?ready remaining)"
      using set_remove_items [OF 1(3)] by auto
    from 1(1) [OF False refl ready rest(1) rem(2)]
    have ih: "distinct rest" "set rest = set remaining - set ?ready" "in_order (resolved \<union> set (map wi_id ?ready)) rest"
      by (simp_all add: rem(1))
    have "set ?ready \<subseteq> set remaining" by (auto simp: set_ready_items)
    moreover have "in_order resolved ?ready" by (rule in_order_ready) (simp add: set_ready_items)
    ultimately show ?thesis using ih rest(2) distinct_ready_items [OF 1(3), of resolved]
      by (auto simp: in_order_append)
  qed
qed

lemma order_layers_complete:
  assumes "wf (precedes items)" "distinct remaining" "set remaining \<subseteq> set items" "distinct (map wi_id items)"
    "\<forall>w\<in>set items. set (wi_predecessor_ids w) \<subseteq> set (map wi_id items)"
    "resolved = wi_id ` (set items - set remaining)"
  shows "\<exists>ordered. order_layers resolved remaining = Inr ordered"
  using assms
proof (induction resolved remaining rule: order_layers.induct)
  case (1 resolved remaining)
  show ?case
  proof (cases "remaining = []")
    case True
    then show ?thesis by (simp add: order_layers.simps)
  next
    case False
    let ?ready = "ready_items resolved remaining"
    obtain w where w: "w \<in> set remaining" using False by (cases remaining) auto
    have "wi_id w \<in> wi_id ` set remaining" using w by simp
    then obtain m where m: "m \<in> wi_id ` set remaining" "\<And>y. (y, m) \<in> precedes items \<Longrightarrow> y \<notin> wi_id ` set remaining"
      using 1(2) by (meson wfE_min)
    then obtain u where u: "u \<in> set remaining" "m = wi_id u" by auto
    have "p \<in> resolved" if p: "p \<in> set (wi_predecessor_ids u)" for p
    proof -
      have "(p, m) \<in> precedes items" using p u 1(4) by (auto simp: precedes_def)
      then have "p \<notin> wi_id ` set remaining" by (rule m(2))
      moreover have "p \<in> wi_id ` set items" using 1(6) u(1) 1(4) p by fastforce
      ultimately show ?thesis using 1(7) by auto
    qed
    then have "u \<in> set ?ready" using u(1) by (auto simp: set_ready_items)
    then have ready: "?ready \<noteq> []" by auto
    have rem: "set (remove_items ?ready remaining) = set remaining - set ?ready" "distinct (remove_items ?ready remaining)"
      using set_remove_items [OF 1(3)] by auto
    have "resolved \<union> set (map wi_id ?ready) = wi_id ` (set items - set (remove_items ?ready remaining))"
    proof -
      have "set items - (set remaining - set ?ready) = (set items - set remaining) \<union> set ?ready"
        using 1(4) by (auto simp: set_ready_items)
      then have "wi_id ` (set items - (set remaining - set ?ready)) = wi_id ` (set items - set remaining) \<union> wi_id ` set ?ready"
        by (simp only: image_Un)
      then show ?thesis unfolding rem(1) by (metis 1(7) set_map)
    qed
    then have "\<exists>rest. order_layers (resolved \<union> set (map wi_id ?ready)) (remove_items ?ready remaining) = Inr rest"
    proof (intro 1(1) [OF False refl ready 1(2) rem(2) _ 1(5,6)])
      show "set (remove_items ?ready remaining) \<subseteq> set items" using 1(4) rem(1) by auto
    qed
    then show ?thesis using False ready by (subst order_layers.simps) (auto simp: Let_def)
  qed
qed

lemma in_order_rank:
  "in_order placed xs \<Longrightarrow> distinct (map wi_id xs) \<Longrightarrow> w \<in> set xs \<Longrightarrow> p \<in> set (wi_predecessor_ids w) \<Longrightarrow>
   p \<in> placed \<or> (\<exists>us vs. xs = us @ w # vs \<and> p \<in> set (map wi_id us))"
proof (induction xs arbitrary: placed)
  case (Cons x xs)
  show ?case
  proof (cases "w = x")
    case True
    then show ?thesis using Cons.prems by auto
  next
    case False
    then have ih: "p \<in> insert (wi_id x) placed \<or> (\<exists>us vs. xs = us @ w # vs \<and> p \<in> set (map wi_id us))"
      using Cons by auto
    obtain us vs where us: "xs = us @ w # vs" using False Cons.prems(3) by (auto dest: split_list)
    show ?thesis
    proof (cases "p \<in> placed")
      case False
      show ?thesis
      proof (cases "p = wi_id x")
        case True
        with us have "x # xs = (x # us) @ w # vs \<and> p \<in> set (map wi_id (x # us))" by simp
        then show ?thesis by blast
      next
        case other: False
        with False ih obtain us vs where "xs = us @ w # vs" "p \<in> set (map wi_id us)" by blast
        then have "x # xs = (x # us) @ w # vs \<and> p \<in> set (map wi_id (x # us))" by simp
        then show ?thesis by blast
      qed
    qed simp
  qed
qed simp

lemma in_order_wf:
  assumes "in_order {} xs" "distinct (map wi_id xs)"
  shows "wf (precedes xs)"
proof -
  define rank where "rank i = length (takeWhile (\<lambda>w. wi_id w \<noteq> i) xs)" for i
  have rank: "rank (wi_id w) = length us" if "xs = us @ w # vs" for us w vs
  proof -
    have "\<forall>x\<in>set us. wi_id x \<noteq> wi_id w" using assms(2) that by (auto simp: image_iff)
    then have "takeWhile (\<lambda>v. wi_id v \<noteq> wi_id w) (us @ w # vs) = us" by (simp add: takeWhile_append2)
    then show ?thesis by (simp add: rank_def that)
  qed
  have "rank p < rank (wi_id w)" if wp: "w \<in> set xs" "p \<in> set (wi_predecessor_ids w)" for p w
  proof -
    obtain us vs where us: "xs = us @ w # vs" "p \<in> set (map wi_id us)"
      using in_order_rank [OF assms wp] by auto
    then obtain v where v: "v \<in> set us" "p = wi_id v" by auto
    then obtain as bs where "us = as @ v # bs" by (meson split_list)
    then have "rank p = length as" "length as < length us" using rank [of as v "bs @ w # vs"] us(1) v(2) by auto
    then show ?thesis using rank [OF us(1)] by simp
  qed
  then have "precedes xs \<subseteq> measure rank" by (auto simp: precedes_def)
  then show ?thesis by (rule wf_subset [OF wf_measure])
qed

lemma precedes_set: "set xs = set ys \<Longrightarrow> precedes xs = precedes ys"
  by (simp add: precedes_def)

definition known_predecessors :: "PlanningWorkItem list \<Rightarrow> bool" where
  "known_predecessors items \<longleftrightarrow> (\<forall>w\<in>set items. set (wi_predecessor_ids w) \<subseteq> set (map wi_id items))"

lemma check_predecessors_iff:
  "check_all (check_predecessors items) items = Inr u \<longleftrightarrow> known_predecessors items"
  by (auto simp: check_predecessors_def Let_def known_predecessors_def filter_empty_conv)

lemma topological_order_sound:
  assumes "topological_order items = Inr ordered"
  shows "distinct (map wi_id items)" "known_predecessors items" "set ordered = set items" "distinct ordered"
    "in_order {} ordered" "wf (precedes items)" "distinct (map wi_id ordered)"
proof -
  show d: "distinct (map wi_id items)" and "known_predecessors items"
    using assms check_predecessors_iff by (auto simp: topological_order_def)
  have "order_layers {} items = Inr ordered" using assms by (simp add: topological_order_def)
  then have s: "distinct ordered \<and> set ordered = set items \<and> in_order {} ordered"
    using order_layers_sound d by (metis distinct_map)
  then show "set ordered = set items" "distinct ordered" "in_order {} ordered" by simp_all
  show o: "distinct (map wi_id ordered)" using s d by (simp add: distinct_map)
  show "wf (precedes items)" using in_order_wf s o precedes_set by metis
qed

lemma topological_order_complete:
  assumes "distinct (map wi_id items)" "known_predecessors items" "wf (precedes items)"
  shows "\<exists>ordered. topological_order items = Inr ordered"
proof -
  have "distinct items" using assms(1) by (simp add: distinct_map)
  then obtain ordered where "order_layers {} items = Inr ordered"
    using order_layers_complete [of items items "{}"] assms by (auto simp: known_predecessors_def)
  then show ?thesis using assms(1,2) check_predecessors_iff [of items "()"] by (auto simp: topological_order_def)
qed

section \<open>The search enumerates the schedules\<close>

text \<open>The placements of one item after given assignments, and all schedules, without trace and without limit.\<close>

definition earliest_after :: "int \<Rightarrow> ScheduledTask list \<Rightarrow> PlanningWorkItem \<Rightarrow> int" where
  "earliest_after window_start assignments w =
     fold max (map (\<lambda>p. task_end (the (dict_by st_work_item_id assignments p))) (wi_predecessor_ids w)) window_start"

definition free_slots :: "search_context \<Rightarrow> PlanningWorkItem \<Rightarrow> ScheduledTask list \<Rightarrow> Employee \<Rightarrow> (int \<times> int) list" where
  "free_slots cx w assignments e =
     (case employee_options w e (earliest_after (sx_window_start cx) assignments w) (sx_window_end cx) assignments [] of
        Inl _ \<Rightarrow> [] | Inr options \<Rightarrow> fst options)"

definition eligible_for :: "search_context \<Rightarrow> PlanningWorkItem \<Rightarrow> Employee \<Rightarrow> bool" where
  "eligible_for cx w e \<longleftrightarrow> (case evaluation_for cx w e of Inl _ \<Rightarrow> False | Inr ev \<Rightarrow> ce_eligible ev)"

definition slot_placements :: "search_context \<Rightarrow> PlanningWorkItem \<Rightarrow> ScheduledTask list \<Rightarrow> Employee \<Rightarrow> int \<times> int \<Rightarrow> ScheduledTask list" where
  "slot_placements cx w assignments e slot =
     map (scheduled_task w e slot) (fst (vehicle_options w (fst slot) (snd slot) (sx_vehicles cx) assignments []))"

definition employee_placements :: "search_context \<Rightarrow> PlanningWorkItem \<Rightarrow> ScheduledTask list \<Rightarrow> Employee \<Rightarrow> ScheduledTask list" where
  "employee_placements cx w assignments e =
     (if eligible_for cx w e then concat (map (slot_placements cx w assignments e) (free_slots cx w assignments e)) else [])"

fun schedules :: "search_context \<Rightarrow> PlanningWorkItem list \<Rightarrow> ScheduledTask list \<Rightarrow> ScheduledTask list list" where
  "schedules cx [] assignments = [assignments]"
| "schedules cx (w # items) assignments =
     concat (map (\<lambda>e. concat (map (\<lambda>t. schedules cx items (assignments @ [t])) (employee_placements cx w assignments e)))
       (sort_key em_id (sx_employees cx)))"

text \<open>A computation that collects the given schedules as far as the limit allows.\<close>

definition collects :: "(search_state \<Rightarrow> search_state result) \<Rightarrow> ScheduledTask list list \<Rightarrow> bool" where
  "collects f found \<longleftrightarrow> (\<forall>st. length (ss_complete st) \<le> MAX_SCHEDULES \<longrightarrow>
     (\<exists>st'. f st = Inr st' \<and> ss_complete st' = take MAX_SCHEDULES (ss_complete st @ found)))"

lemma collectsE:
  assumes "collects f found" "length (ss_complete st) \<le> MAX_SCHEDULES"
  obtains st' where "f st = Inr st'" "ss_complete st' = take MAX_SCHEDULES (ss_complete st @ found)"
    "length (ss_complete st') \<le> MAX_SCHEDULES"
  using assms by (auto simp: collects_def)

lemma take_take_append: "take n (take n xs @ ys) = take n (xs @ ys)"
  by (simp add: take_append min_def)

lemma collects_loop:
  "(\<And>x. x \<in> set xs \<Longrightarrow> collects (f x) (g x)) \<Longrightarrow> collects (loop f xs) (concat (map g xs))"
proof (induction xs)
  case Nil
  show ?case by (simp add: collects_def)
next
  case (Cons x xs)
  have ih: "collects (loop f xs) (concat (map g xs))" using Cons by simp
  show ?case
    unfolding collects_def
  proof (intro allI impI)
    fix st :: search_state assume st: "length (ss_complete st) \<le> MAX_SCHEDULES"
    have "collects (f x) (g x)" by (simp add: Cons.prems)
    then obtain st1 where st1: "f x st = Inr st1" "ss_complete st1 = take MAX_SCHEDULES (ss_complete st @ g x)"
        "length (ss_complete st1) \<le> MAX_SCHEDULES"
      using st by (rule collectsE)
    from ih st1(3) obtain st2 where st2: "loop f xs st1 = Inr st2"
        "ss_complete st2 = take MAX_SCHEDULES (ss_complete st1 @ concat (map g xs))"
      by (rule collectsE)
    have "ss_complete st2 = take MAX_SCHEDULES ((ss_complete st @ g x) @ concat (map g xs))"
      unfolding st2(2) st1(2) by (rule take_take_append)
    then show "\<exists>st'. loop f (x # xs) st = Inr st' \<and>
        ss_complete st' = take MAX_SCHEDULES (ss_complete st @ concat (map g (x # xs)))"
      by (simp add: st1(1) st2(1))
  qed
qed

lemma collects_trace: "collects f found \<Longrightarrow> collects (\<lambda>st. f (st\<lparr>ss_trace := h st\<rparr>)) found"
proof -
  assume f: "collects f found"
  have "ss_complete (st\<lparr>ss_trace := t\<rparr>) = ss_complete st" for st :: search_state and t by (cases st) simp
  with f show ?thesis unfolding collects_def by metis
qed

lemma collects_none: "collects Inr []"
  by (simp add: collects_def)

lemma employee_options_trace:
  "employee_options w e earliest window_end assignments trace =
     and_then (employee_options w e earliest window_end assignments []) (\<lambda>options.
       Inr (fst options, snd (case employee_options w e earliest window_end assignments trace of Inr x \<Rightarrow> x)))"
  by (cases "item_duration w") (simp_all add: employee_options_def Let_def)

lemma vehicle_options_trace:
  "fst (vehicle_options w a b vehicles assignments trace) = fst (vehicle_options w a b vehicles assignments [])"
  by (simp add: vehicle_options_def split: option.splits)

text \<open>Every employee was evaluated for every item, and an eligible pair has a duration.\<close>

definition evaluated :: "search_context \<Rightarrow> PlanningWorkItem list \<Rightarrow> bool" where
  "evaluated cx items \<longleftrightarrow> (\<forall>w\<in>set items. \<forall>e\<in>set (sx_employees cx).
     \<exists>ev. evaluation_for cx w e = Inr ev \<and> (ce_eligible ev \<longrightarrow> (\<exists>d. item_duration w = Inr d)))"

lemma dict_by_Some_iff: "(\<exists>x. dict_by key xs k = Some x) \<longleftrightarrow> k \<in> key ` set xs"
  using lookup_by_None_iff [of key k "rev xs"] by (auto simp: dict_by_def)

lemma dict_by_in: "dict_by key xs k = Some x \<Longrightarrow> x \<in> set xs \<and> key x = k"
  unfolding dict_by_def by (drule lookup_by_Some) simp

lemma earliest_start_of_after:
  assumes "set (wi_predecessor_ids w) \<subseteq> set (map st_work_item_id assignments)"
  shows "earliest_start_of window_start assignments w = Inr (earliest_after window_start assignments w)"
proof -
  have "traverse (\<lambda>p. case dict_by st_work_item_id assignments p of None \<Rightarrow> Inl KeyError | Some a \<Rightarrow> Inr (task_end a))
      (wi_predecessor_ids w) = Inr (map (\<lambda>p. task_end (the (dict_by st_work_item_id assignments p))) (wi_predecessor_ids w))"
  proof (rule traverse_map)
    fix p assume "p \<in> set (wi_predecessor_ids w)"
    then have "p \<in> st_work_item_id ` set assignments" using assms by auto
    then obtain a where "dict_by st_work_item_id assignments p = Some a" using dict_by_Some_iff by metis
    then show "(case dict_by st_work_item_id assignments p of None \<Rightarrow> Inl KeyError | Some a \<Rightarrow> Inr (task_end a)) =
        Inr (task_end (the (dict_by st_work_item_id assignments p)))" by simp
  qed
  then show ?thesis by (simp add: earliest_start_of_def earliest_after_def)
qed

lemma collects_slot:
  assumes "\<And>t. st_work_item_id t = wi_id w \<Longrightarrow> collects (continue_with (assignments @ [t])) (found (assignments @ [t]))"
  shows "collects (try_slot cx w assignments continue_with e slot)
    (concat (map (\<lambda>t. found (assignments @ [t])) (slot_placements cx w assignments e slot)))"
proof -
  let ?options = "fst (vehicle_options w (fst slot) (snd slot) (sx_vehicles cx) assignments [])"
  have "collects (loop (\<lambda>v. continue_with (assignments @ [scheduled_task w e slot v])) ?options)
      (concat (map (\<lambda>v. found (assignments @ [scheduled_task w e slot v])) ?options))"
    by (rule collects_loop, rule assms) (simp add: scheduled_task_def)
  then have "collects (\<lambda>st. loop (\<lambda>v. continue_with (assignments @ [scheduled_task w e slot v])) ?options
      (st\<lparr>ss_trace := snd (vehicle_options w (fst slot) (snd slot) (sx_vehicles cx) assignments (ss_trace st))\<rparr>))
      (concat (map (\<lambda>v. found (assignments @ [scheduled_task w e slot v])) ?options))"
    by (rule collects_trace)
  moreover have "try_slot cx w assignments continue_with e slot =
      (\<lambda>st. loop (\<lambda>v. continue_with (assignments @ [scheduled_task w e slot v])) ?options
      (st\<lparr>ss_trace := snd (vehicle_options w (fst slot) (snd slot) (sx_vehicles cx) assignments (ss_trace st))\<rparr>))"
    using vehicle_options_trace by (auto simp: try_slot_def Let_def fun_eq_iff split: prod.splits) (metis fst_conv)+
  ultimately show ?thesis by (simp add: slot_placements_def comp_def)
qed

lemma concat_map_concat: "concat (map f (concat (map g xs))) = concat (map (\<lambda>x. concat (map f (g x))) xs)"
  by (induction xs) simp_all

lemma collects_employee:
  assumes "evaluated cx (w # items)" "e \<in> set (sx_employees cx)"
    and "\<And>t. st_work_item_id t = wi_id w \<Longrightarrow> collects (continue_with (assignments @ [t])) (found (assignments @ [t]))"
  shows "collects (try_employee cx w assignments continue_with (earliest_after (sx_window_start cx) assignments w) e)
    (concat (map (\<lambda>t. found (assignments @ [t])) (employee_placements cx w assignments e)))"
proof -
  let ?earliest = "earliest_after (sx_window_start cx) assignments w"
  let ?employee = "try_employee cx w assignments continue_with ?earliest e"
  let ?trace = "\<lambda>st. snd (case employee_options w e ?earliest (sx_window_end cx) assignments (ss_trace st) of Inr x \<Rightarrow> x)"
  obtain ev where ev: "evaluation_for cx w e = Inr ev" "ce_eligible ev \<Longrightarrow> \<exists>d. item_duration w = Inr d"
    using assms(1,2) by (auto simp: evaluated_def)
  show ?thesis
  proof (cases "ce_eligible ev")
    case False
    then have "?employee = Inr" by (simp add: fun_eq_iff try_employee_def ev(1))
    then show ?thesis using False ev(1) by (simp add: employee_placements_def eligible_for_def collects_none)
  next
    case True
    obtain options where options: "employee_options w e ?earliest (sx_window_end cx) assignments [] = Inr options"
      using ev(2) [OF True] by (auto simp: employee_options_def Let_def)
    have "collects (loop (try_slot cx w assignments continue_with e) (fst options))
        (concat (map (\<lambda>slot. concat (map (\<lambda>t. found (assignments @ [t])) (slot_placements cx w assignments e slot))) (fst options)))"
      by (rule collects_loop, rule collects_slot, rule assms(3))
    then have "collects (\<lambda>st. loop (try_slot cx w assignments continue_with e) (fst options) (st\<lparr>ss_trace := ?trace st\<rparr>))
        (concat (map (\<lambda>slot. concat (map (\<lambda>t. found (assignments @ [t])) (slot_placements cx w assignments e slot))) (fst options)))"
      by (rule collects_trace)
    moreover have "?employee = (\<lambda>st. loop (try_slot cx w assignments continue_with e) (fst options) (st\<lparr>ss_trace := ?trace st\<rparr>))"
      using True
      by (subst fun_eq_iff, intro allI, unfold try_employee_def, subst employee_options_trace) (simp add: ev(1) options)
    moreover have "employee_placements cx w assignments e = concat (map (slot_placements cx w assignments e) (fst options))"
      using True by (simp add: employee_placements_def eligible_for_def ev(1) free_slots_def options)
    ultimately show ?thesis by (simp only: concat_map_concat)
  qed
qed

lemma collects_search:
  "in_order (set (map st_work_item_id assignments)) items \<Longrightarrow> evaluated cx items \<Longrightarrow>
   collects (search cx items assignments) (schedules cx items assignments)"
proof (induction items arbitrary: assignments)
  case Nil
  show ?case by (auto simp: collects_def full_def)
next
  case (Cons w items)
  let ?employees = "sort_key em_id (sx_employees cx)"
  let ?earliest = "earliest_after (sx_window_start cx) assignments w"
  have ev: "evaluated cx items" using Cons.prems(2) by (simp add: evaluated_def)
  have sub: "collects (search cx items (assignments @ [t])) (schedules cx items (assignments @ [t]))"
    if "st_work_item_id t = wi_id w" for t
    using Cons.IH [of "assignments @ [t]"] Cons.prems(1) ev that by (simp add: insert_commute Un_commute)
  have "collects (loop (try_employee cx w assignments (search cx items) ?earliest) ?employees)
      (concat (map (\<lambda>e. concat (map (\<lambda>t. schedules cx items (assignments @ [t])) (employee_placements cx w assignments e))) ?employees))"
    by (rule collects_loop, rule collects_employee [OF Cons.prems(2)]) (simp_all add: sub)
  then have c: "collects (loop (try_employee cx w assignments (search cx items) ?earliest) ?employees) (schedules cx (w # items) assignments)"
    by simp
  have "earliest_start_of (sx_window_start cx) assignments w = Inr ?earliest"
    using Cons.prems(1) by (intro earliest_start_of_after) simp
  then have step: "search cx (w # items) assignments st =
      (if full st then Inr st else loop (try_employee cx w assignments (search cx items) ?earliest) ?employees st)" for st
    by simp
  show ?case
    unfolding collects_def
  proof (intro allI impI)
    fix st :: search_state assume st: "length (ss_complete st) \<le> MAX_SCHEDULES"
    show "\<exists>st'. search cx (w # items) assignments st = Inr st' \<and>
        ss_complete st' = take MAX_SCHEDULES (ss_complete st @ schedules cx (w # items) assignments)"
    proof (cases "full st")
      case True
      then show ?thesis using st by (simp add: full_def)
    next
      case False
      from c st obtain st' where
        "loop (try_employee cx w assignments (search cx items) ?earliest) ?employees st = Inr st'"
        "ss_complete st' = take MAX_SCHEDULES (ss_complete st @ schedules cx (w # items) assignments)"
        by (rule collectsE)
      then show ?thesis using False by (simp only: step if_False) blast
    qed
  qed
qed

section \<open>Evaluations\<close>

lemma evaluate_loop_entries:
  "loop (evaluate_candidate a b w) es st = Inr st' \<Longrightarrow>
   fst ` set (fst st') = fst ` set (fst st) \<union> (\<lambda>e. (wi_id w, em_id e)) ` set es \<and>
   (\<forall>x\<in>set (fst st'). x \<in> set (fst st) \<or> (\<exists>e\<in>set es. fst x = (wi_id w, em_id e) \<and> evaluate_employee_candidate w e a b = Inr (snd x)))"
proof (induction es arbitrary: st)
  case (Cons e es)
  obtain st1 where st1: "evaluate_candidate a b w e st = Inr st1" "loop (evaluate_candidate a b w) es st1 = Inr st'"
    using Cons.prems by auto
  obtain ev where ev: "evaluate_employee_candidate w e a b = Inr ev" "fst st1 = fst st @ [((wi_id w, em_id e), ev)]"
    using st1(1) by (auto simp: evaluate_candidate_def)
  show ?case using Cons.IH [OF st1(2)] by (auto simp: ev)
qed simp

lemma evaluate_all_entries:
  "loop (\<lambda>w. loop (evaluate_candidate a b w) es) ws st = Inr st' \<Longrightarrow>
   fst ` set (fst st') = fst ` set (fst st) \<union> (\<Union>w\<in>set ws. (\<lambda>e. (wi_id w, em_id e)) ` set es) \<and>
   (\<forall>x\<in>set (fst st'). x \<in> set (fst st) \<or>
     (\<exists>w\<in>set ws. \<exists>e\<in>set es. fst x = (wi_id w, em_id e) \<and> evaluate_employee_candidate w e a b = Inr (snd x)))"
proof (induction ws arbitrary: st)
  case (Cons w ws)
  obtain st1 where st1: "loop (evaluate_candidate a b w) es st = Inr st1"
      "loop (\<lambda>w. loop (evaluate_candidate a b w) es) ws st1 = Inr st'"
    using Cons.prems by auto
  show ?case using Cons.IH [OF st1(2)] evaluate_loop_entries [OF st1(1)] by auto
qed simp

lemma eligible_duration:
  "evaluate_employee_candidate w e a b = Inr ev \<Longrightarrow> ce_eligible ev \<Longrightarrow> \<exists>d. item_duration w = Inr d"
  by (auto simp: evaluate_employee_candidate_def Let_def split: if_splits)

lemma evaluate_candidates_evaluated:
  assumes "evaluate_candidates a b items es = Inr (evs, trace)" "distinct (map wi_id items)"
  shows "evaluated \<lparr>sx_employees = es, sx_vehicles = vs, sx_window_start = a', sx_window_end = b', sx_evaluations = evs\<rparr> items"
proof -
  have entries: "fst ` set evs = (\<Union>w\<in>set items. (\<lambda>e. (wi_id w, em_id e)) ` set es)"
      "\<forall>x\<in>set evs. \<exists>w\<in>set items. \<exists>e\<in>set es. fst x = (wi_id w, em_id e) \<and> evaluate_employee_candidate w e a b = Inr (snd x)"
    using evaluate_all_entries [OF assms(1) [unfolded evaluate_candidates_def]] by simp_all
  show ?thesis
    unfolding evaluated_def
  proof (intro ballI)
    fix w e
    assume w: "w \<in> set items" and "e \<in> set (sx_employees
      \<lparr>sx_employees = es, sx_vehicles = vs, sx_window_start = a', sx_window_end = b', sx_evaluations = evs\<rparr>)"
    then have "(wi_id w, em_id e) \<in> fst ` set evs" unfolding entries(1) by auto
    then obtain x where x: "dict_by fst evs (wi_id w, em_id e) = Some x" using dict_by_Some_iff by metis
    obtain w' e' where we: "w' \<in> set items" "fst x = (wi_id w', em_id e')" "evaluate_employee_candidate w' e' a b = Inr (snd x)"
      using entries(2) dict_by_in [OF x] by blast
    have "w' = w" using dict_by_in [OF x] we(1,2) w assms(2) by (auto simp: distinct_map dest: inj_onD)
    then show "\<exists>ev. evaluation_for \<lparr>sx_employees = es, sx_vehicles = vs, sx_window_start = a', sx_window_end = b',
        sx_evaluations = evs\<rparr> w e = Inr ev \<and> (ce_eligible ev \<longrightarrow> (\<exists>d. item_duration w = Inr d))"
      using eligible_duration [OF we(3)] by (simp add: evaluation_for_def x)
  qed
qed

section \<open>What the search places\<close>

definition placed_ok :: "search_context \<Rightarrow> PlanningWorkItem list \<Rightarrow> ScheduledTask \<Rightarrow> bool" where
  "placed_ok cx items t \<longleftrightarrow> (\<exists>w\<in>set items. st_work_item_id t = wi_id w \<and>
     item_duration w = Inr (task_end t - task_start t) \<and>
     sx_window_start cx \<le> task_start t \<and> task_end t \<le> sx_window_end cx \<and>
     (wi_required_vehicle_type w = None \<longleftrightarrow> st_vehicle_id t = None))"

lemma item_duration_pos: "item_duration w = Inr d \<Longrightarrow> 0 < d"
  by (auto simp: item_duration_def Let_def split: if_splits)

lemma fold_max_ge: "a \<le> fold max xs (a :: int)"
proof (induction xs arbitrary: a)
  case (Cons x xs)
  have "a \<le> max x a" by simp
  also have "\<dots> \<le> fold max xs (max x a)" by (rule Cons.IH)
  finally show ?case by simp
qed simp

lemma earliest_after_ge: "window_start \<le> earliest_after window_start assignments w"
  by (simp add: earliest_after_def fold_max_ge)

lemma tried_starts_bounds:
  assumes "t \<in> set (tried_starts d earliest window_end occupied slots)"
  shows "t + d \<le> window_end \<and> (earliest \<le> t \<or> t \<in> task_end ` set occupied)"
  using assms by (auto simp: tried_starts_def slot_starts_def possible_starts_def split: if_splits)

lemma free_slots_bounds:
  assumes "slot \<in> set (free_slots cx w assignments e)" "\<forall>t\<in>set assignments. sx_window_start cx \<le> task_end t"
  shows "item_duration w = Inr (snd slot - fst slot) \<and> snd slot \<le> sx_window_end cx \<and> sx_window_start cx \<le> fst slot"
proof -
  obtain d where d: "item_duration w = Inr d"
    using assms(1) by (cases "item_duration w") (auto simp: free_slots_def employee_options_def)
  let ?earliest = "earliest_after (sx_window_start cx) assignments w"
  obtain t where t: "slot = (t, t + d)"
      "t \<in> set (tried_starts d ?earliest (sx_window_end cx) (employee_tasks e assignments) (em_availability e))"
    using assms(1) by (auto simp: free_slots_def employee_options_def Let_def d)
  have "?earliest \<le> t \<or> t \<in> task_end ` set assignments"
    using tried_starts_bounds [OF t(2)] by (auto simp: employee_tasks_def)
  then have "sx_window_start cx \<le> t"
    using earliest_after_ge [of "sx_window_start cx" assignments w] assms(2) by auto
  with t d tried_starts_bounds [OF t(2)] show ?thesis by simp
qed

lemma vehicle_options_kind:
  "v \<in> set (fst (vehicle_options w a b vehicles assignments trace)) \<Longrightarrow> wi_required_vehicle_type w = None \<longleftrightarrow> v = None"
  by (auto simp: vehicle_options_def split: option.splits)

lemma employee_placements_ok:
  assumes "t \<in> set (employee_placements cx w assignments e)" "\<forall>t\<in>set assignments. placed_ok cx items t" "w \<in> set items"
  shows "placed_ok cx items t \<and> st_work_item_id t = wi_id w"
proof -
  obtain slot v where t: "slot \<in> set (free_slots cx w assignments e)" "t = scheduled_task w e slot v"
      "v \<in> set (fst (vehicle_options w (fst slot) (snd slot) (sx_vehicles cx) assignments []))"
    using assms(1) by (auto simp: employee_placements_def slot_placements_def split: if_splits)
  have "\<forall>t\<in>set assignments. sx_window_start cx \<le> task_end t"
    using assms(2) by (force simp: placed_ok_def dest: item_duration_pos)
  from free_slots_bounds [OF t(1) this] vehicle_options_kind [OF t(3)] assms(3)
  show ?thesis by (auto simp: placed_ok_def t(2) scheduled_task_def task_start_def task_end_def)
qed

lemma schedules_ok:
  "s \<in> set (schedules cx items assignments) \<Longrightarrow> \<forall>t\<in>set assignments. placed_ok cx all_items t \<Longrightarrow> set items \<subseteq> set all_items \<Longrightarrow>
   (\<forall>t\<in>set s. placed_ok cx all_items t) \<and> map st_work_item_id s = map st_work_item_id assignments @ map wi_id items"
proof (induction items arbitrary: assignments)
  case (Cons w items)
  from Cons.prems(1) obtain e t where
    t: "t \<in> set (employee_placements cx w assignments e)" "s \<in> set (schedules cx items (assignments @ [t]))"
    by auto
  have "placed_ok cx all_items t \<and> st_work_item_id t = wi_id w"
    using employee_placements_ok [OF t(1) Cons.prems(2)] Cons.prems(3) by simp
  with Cons.IH [OF t(2)] Cons.prems(2,3) show ?case by auto
qed simp

section \<open>Feasible schedules\<close>

definition vehicle_fits :: "Vehicle list \<Rightarrow> PlanningWorkItem \<Rightarrow> ScheduledTask \<Rightarrow> bool" where
  "vehicle_fits vehicles w a = (case wi_required_vehicle_type w of
     None \<Rightarrow> st_vehicle_id a = None
   | Some required \<Rightarrow> (\<exists>v\<in>set vehicles. st_vehicle_id a = Some (ve_id v) \<and> ve_is_active v \<and> ve_vehicle_type v = required \<and>
       availability_covers (ve_availability v) (task_start a) (task_end a)))"

definition employee_fits :: "Employee list \<Rightarrow> PlanningWorkItem \<Rightarrow> ScheduledTask \<Rightarrow> bool" where
  "employee_fits employees w a \<longleftrightarrow> (\<exists>e\<in>set employees. st_employee_id a = em_id e \<and> em_is_active e \<and>
     set (wi_required_skill_ids w) \<subseteq> set (em_skill_ids e) \<and>
     availability_covers (em_availability e) (task_start a) (task_end a))"

definition after_predecessors :: "ScheduledTask list \<Rightarrow> PlanningWorkItem \<Rightarrow> ScheduledTask \<Rightarrow> bool" where
  "after_predecessors s w a \<longleftrightarrow> (\<forall>p\<in>set (wi_predecessor_ids w). \<exists>b\<in>set s. st_work_item_id b = p \<and> task_end b \<le> task_start a)"

definition shares_resource :: "ScheduledTask \<Rightarrow> ScheduledTask \<Rightarrow> bool" where
  "shares_resource a b \<longleftrightarrow> st_employee_id a = st_employee_id b \<or>
     (st_vehicle_id a \<noteq> None \<and> st_vehicle_id a = st_vehicle_id b)"

definition feasible_schedule ::
    "PlanningWorkItem list \<Rightarrow> Employee list \<Rightarrow> Vehicle list \<Rightarrow> int \<times> int \<Rightarrow> ScheduledTask list \<Rightarrow> bool" where
  "feasible_schedule items employees vehicles window s \<longleftrightarrow>
     distinct (map st_work_item_id s) \<and> set (map st_work_item_id s) = set (map wi_id items) \<and>
     (\<forall>a\<in>set s. \<exists>w\<in>set items. st_work_item_id a = wi_id w \<and> item_duration w = Inr (task_end a - task_start a) \<and>
        fst window \<le> task_start a \<and> task_end a \<le> snd window \<and>
        employee_fits employees w a \<and> vehicle_fits vehicles w a \<and> after_predecessors s w a) \<and>
     (\<forall>a\<in>set s. \<forall>b\<in>set s. a \<noteq> b \<and> shares_resource a b \<longrightarrow> task_end a \<le> task_start b \<or> task_end b \<le> task_start a)"

lemma conflict_errors_pairs:
  "conflict_errors s = [] \<Longrightarrow> a \<in> set s \<Longrightarrow> b \<in> set s \<Longrightarrow> a \<noteq> b \<Longrightarrow> pair_errors a b = [] \<or> pair_errors b a = []"
  by (induction s) auto

lemma pair_errors_none:
  "pair_errors a b = [] \<Longrightarrow> shares_resource a b \<Longrightarrow> task_end a \<le> task_start b \<or> task_end b \<le> task_start a"
  by (auto simp: pair_errors_def shares_resource_def intervals_overlap_def split: if_splits option.splits)

lemma validated_assignment:
  assumes "assignment_errors plan items employees vehicles a = []"
    and "distinct (map wi_id items)" "w \<in> set items" "st_work_item_id a = wi_id w"
    and "wi_required_vehicle_type w = None \<longleftrightarrow> st_vehicle_id a = None"
  shows "employee_fits employees w a \<and> vehicle_fits vehicles w a \<and> after_predecessors (pv_assignments plan) w a"
proof -
  have w: "dict_by wi_id items (st_work_item_id a) = Some w"
    using assms(2-4) by (simp add: dict_by_distinct lookup_by_distinct)
  obtain e where e: "dict_by em_id employees (st_employee_id a) = Some e"
    using assms(1) by (auto simp: assignment_errors_def w split: option.splits)
  have "employee_fits employees w a"
    unfolding employee_fits_def
  proof (rule bexI [of _ e])
    show "e \<in> set employees" using dict_by_in [OF e] by simp
    show "st_employee_id a = em_id e \<and> em_is_active e \<and> set (wi_required_skill_ids w) \<subseteq> set (em_skill_ids e) \<and>
        availability_covers (em_availability e) (task_start a) (task_end a)"
      using assms(1) dict_by_in [OF e] by (simp add: assignment_errors_def w e split: if_splits)
  qed
  moreover have "vehicle_fits vehicles w a"
  proof (cases "wi_required_vehicle_type w")
    case None
    then show ?thesis using assms(5) by (simp add: vehicle_fits_def)
  next
    case (Some required)
    then obtain vid where vid: "st_vehicle_id a = Some vid" using assms(5) by auto
    obtain v where v: "dict_by ve_id vehicles vid = Some v"
      using assms(1) by (auto simp: assignment_errors_def w e Some vid split: option.splits)
    then show ?thesis
      using assms(1) dict_by_in [OF v] by (auto simp: assignment_errors_def w e Some vid vehicle_fits_def split: if_splits)
  qed
  moreover have "after_predecessors (pv_assignments plan) w a"
    unfolding after_predecessors_def
  proof
    fix p assume p: "p \<in> set (wi_predecessor_ids w)"
    have "(case dict_by st_work_item_id (pv_assignments plan) p of
        None \<Rightarrow> [''Naruszona kolejnosc: '' @ p @ '' -> '' @ wi_id w @ ''.'']
      | Some predecessor \<Rightarrow> if task_end predecessor > task_start a then [''Naruszona kolejnosc: '' @ p @ '' -> '' @ wi_id w @ ''.''] else []) = []"
      using assms(1) p by (auto simp: assignment_errors_def w e)
    then obtain b where "dict_by st_work_item_id (pv_assignments plan) p = Some b" "task_end b \<le> task_start a"
      by (auto split: option.splits if_splits)
    then show "\<exists>b\<in>set (pv_assignments plan). st_work_item_id b = p \<and> task_end b \<le> task_start a"
      using dict_by_in [of st_work_item_id "pv_assignments plan" p b] by auto
  qed
  ultimately show ?thesis by simp
qed

lemma validated_feasible:
  assumes "validate_plan plan items employees vehicles = []" "distinct (map wi_id items)"
    and "\<forall>t\<in>set (pv_assignments plan). placed_ok cx items t" "distinct (map st_work_item_id (pv_assignments plan))"
  shows "feasible_schedule items employees vehicles (sx_window_start cx, sx_window_end cx) (pv_assignments plan)"
proof -
  let ?s = "pv_assignments plan"
  have v: "set (map st_work_item_id ?s) = set (map wi_id items)" "conflict_errors ?s = []"
      "\<And>a. a \<in> set ?s \<Longrightarrow> assignment_errors plan items employees vehicles a = []"
    using assms(1) by (auto simp: validate_plan_def split: if_splits)
  have "\<exists>w\<in>set items. st_work_item_id a = wi_id w \<and> item_duration w = Inr (task_end a - task_start a) \<and>
      sx_window_start cx \<le> task_start a \<and> task_end a \<le> sx_window_end cx \<and>
      employee_fits employees w a \<and> vehicle_fits vehicles w a \<and> after_predecessors ?s w a" if a: "a \<in> set ?s" for a
  proof -
    obtain w where w: "w \<in> set items" "st_work_item_id a = wi_id w" "item_duration w = Inr (task_end a - task_start a)"
        "sx_window_start cx \<le> task_start a" "task_end a \<le> sx_window_end cx" "wi_required_vehicle_type w = None \<longleftrightarrow> st_vehicle_id a = None"
      using assms(3) a by (auto simp: placed_ok_def)
    with validated_assignment [OF v(3) [OF a] assms(2) w(1,2,6)] show ?thesis by blast
  qed
  moreover have "shares_resource b a" if "shares_resource a b" for a b using that by (metis shares_resource_def)
  ultimately show ?thesis
    using assms(4) v(1) conflict_errors_pairs [OF v(2)] pair_errors_none
    unfolding feasible_schedule_def fst_conv snd_conv by blast
qed

end
