(* ===== verification/Crew_Properties.thy ===== *)
theory Crew_Properties
  imports Crew_Search
begin

text \<open>
  What the crew planner promises: it returns, every plan is a feasible schedule, PLAN A is the first in
  the ranking of the schedules found; and a job whose feasible schedules rank behind two infeasible ones
  is refused.
\<close>

section \<open>The ranking\<close>

lemma dict_store_values: "set (dict_store key x d) \<subseteq> insert x (set d)"
  by (auto simp: dict_store_def)

lemma dict_store_keys: "key ` set (dict_store key x d) = insert (key x) (key ` set d)"
proof (cases "key x \<in> key ` set d")
  case True
  then have store: "dict_store key x d = map (\<lambda>y. if key y = key x then x else y) d" by (simp add: dict_store_def)
  have "map key (dict_store key x d) = map key d" unfolding store by simp
  then show ?thesis using True by (metis insert_absorb set_map)
qed (simp add: dict_store_def)

lemma dict_values_subset: "set (fold (dict_store key) xs d) \<subseteq> set xs \<union> set d"
proof (induction xs arbitrary: d)
  case (Cons x xs)
  then show ?case using dict_store_values [of key x d] Cons [of "dict_store key x d"] by auto
qed simp

lemma dict_values_fold_keys: "key ` set (fold (dict_store key) xs d) = key ` set xs \<union> key ` set d"
  by (induction xs arbitrary: d) (auto simp: dict_store_keys)

lemma dict_values_keys: "key ` set (dict_values key xs) = key ` set xs"
  by (simp add: dict_values_def dict_values_fold_keys)

lemma ranked_sound:
  assumes "ranked_schedules isoformat found = Inr ranked"
  shows "set ranked \<subseteq> set found" "sorted (map (schedule_key isoformat) ranked)"
    "plan_signature_of isoformat ` set ranked = plan_signature_of isoformat ` set found" "[] \<notin> set ranked"
  using assms dict_values_subset [of "plan_signature_of isoformat" found "[]"]
    dict_values_keys [of "plan_signature_of isoformat" found]
  by (auto simp: ranked_schedules_def Let_def dict_values_def split: if_splits)

lemma signature_key:
  assumes "inj isoformat" "plan_signature_of isoformat v = plan_signature_of isoformat u"
  shows "schedule_key isoformat v = schedule_key isoformat u"
proof -
  have "length v = length u" using assms(2) unfolding plan_signature_of_def by (rule map_eq_imp_length_eq)
  then have "map st_employee_id v = map st_employee_id u \<and> map task_start v = map task_start u \<and> map task_end v = map task_end u"
    using assms(2)
  proof (induction v u rule: list_induct2)
    case (Cons a v b u)
    then show ?case by (simp add: plan_signature_of_def task_start_def task_end_def inj_eq [OF assms(1)])
  qed simp
  then show ?thesis using assms(2) by (simp only: schedule_key_def schedule_start_def schedule_end_def)
qed

section \<open>The plans\<close>

definition context_of :: "Employee list \<Rightarrow> Vehicle list \<Rightarrow> int \<times> int \<Rightarrow> ((string \<times> string) \<times> CandidateEvaluation) list \<Rightarrow> search_context" where
  "context_of employees vehicles window evaluations =
     \<lparr>sx_employees = employees, sx_vehicles = vehicles, sx_window_start = fst window, sx_window_end = snd window,
      sx_evaluations = evaluations\<rparr>"

text \<open>The schedules the search may find, by the plain enumeration.\<close>

definition all_schedules :: "PlanningWorkItem list \<Rightarrow> Employee list \<Rightarrow> Vehicle list \<Rightarrow> int \<times> int \<Rightarrow> ScheduledTask list list" where
  "all_schedules ordered employees vehicles window =
     (case evaluate_candidates (fst window) (snd window) ordered employees of
        Inl _ \<Rightarrow> [] | Inr (evaluations, trace) \<Rightarrow> schedules (context_of employees vehicles window evaluations) ordered [])"

lemma run_search_collects:
  assumes "in_order {} ordered" "distinct (map wi_id ordered)"
    "evaluate_candidates (fst window) (snd window) ordered employees = Inr evaluated_pairs"
  shows "\<exists>found. run_search ordered employees vehicles window = Inr found \<and>
    ss_complete found = take MAX_SCHEDULES (all_schedules ordered employees vehicles window)"
proof -
  obtain evs trace where e: "evaluated_pairs = (evs, trace)" by (cases evaluated_pairs)
  let ?cx = "context_of employees vehicles window evs"
  have "evaluated ?cx ordered"
    unfolding context_of_def by (rule evaluate_candidates_evaluated [OF assms(3) [unfolded e] assms(2)])
  then have "collects (search ?cx ordered []) (schedules ?cx ordered [])"
    using assms(1) by (intro collects_search) simp_all
  then obtain found where "search ?cx ordered [] \<lparr>ss_trace = trace, ss_complete = []\<rparr> = Inr found"
      "ss_complete found = take MAX_SCHEDULES ([] @ schedules ?cx ordered [])"
    by (rule collectsE [where st = "\<lparr>ss_trace = trace, ss_complete = []\<rparr>"]) (simp, auto)
  then show ?thesis using assms(3) by (auto simp: run_search_def all_schedules_def e context_of_def)
qed

lemma run_search_returns_evaluations:
  "run_search ordered employees vehicles window = Inr found \<Longrightarrow>
   \<exists>pairs. evaluate_candidates (fst window) (snd window) ordered employees = Inr pairs"
  by (auto simp: run_search_def)

lemma all_schedules_ok:
  assumes "s \<in> set (all_schedules ordered employees vehicles window)" "set ordered = set items"
  shows "\<exists>cx. sx_window_start cx = fst window \<and> sx_window_end cx = snd window \<and>
    (\<forall>t\<in>set s. placed_ok cx items t) \<and> map st_work_item_id s = map wi_id ordered"
proof -
  obtain evs trace where e: "evaluate_candidates (fst window) (snd window) ordered employees = Inr (evs, trace)"
      "s \<in> set (schedules (context_of employees vehicles window evs) ordered [])"
    using assms(1) by (cases "evaluate_candidates (fst window) (snd window) ordered employees") (auto simp: all_schedules_def)
  have "(\<forall>t\<in>set s. placed_ok (context_of employees vehicles window evs) items t) \<and> map st_work_item_id s = map wi_id ordered"
    using schedules_ok [OF e(2), of items] assms(2) by simp
  then show ?thesis by (intro exI [of _ "context_of employees vehicles window evs"]) (simp add: context_of_def)
qed

text \<open>A planning run that reaches the search.\<close>

lemma generate_cases:
  assumes "generate_plan_variants days isoformat job items employees vehicles planning_window_end = Inr r" "pn_plans r \<noteq> []"
  obtains start_date ordered window found where
    "jq_desired_start_date job = Some start_date" "topological_order items = Inr ordered"
    "plan_window days start_date planning_window_end employees vehicles = Inr window"
    "run_search ordered employees vehicles window = Inr found"
    "ss_complete found = take MAX_SCHEDULES (all_schedules ordered employees vehicles window)"
    "plan_schedules isoformat job items employees vehicles found = Inr r"
proof -
  obtain start_date ordered window found where
    g: "jq_desired_start_date job = Some start_date" "topological_order items = Inr ordered"
    "plan_window days start_date planning_window_end employees vehicles = Inr window"
    "run_search ordered employees vehicles window = Inr found"
    "plan_schedules isoformat job items employees vehicles found = Inr r"
    using assms by (auto simp: generate_plan_variants_def no_plans_def split: option.splits if_splits)
  moreover have "ss_complete found = take MAX_SCHEDULES (all_schedules ordered employees vehicles window)"
  proof -
    obtain pairs where "evaluate_candidates (fst window) (snd window) ordered employees = Inr pairs"
      using run_search_returns_evaluations [OF g(4)] by blast
    from run_search_collects [OF topological_order_sound(5,7) [OF g(2)] this, of vehicles] g(4) show ?thesis by auto
  qed
  ultimately show ?thesis using that by blast
qed

lemma add_plan_result:
  assumes "add_plan job items employees vehicles position st = Inr st'"
  shows "ps_plans st' = ps_plans st \<or>
    (ps_plans st' = ps_plans st @ [plan_variant job (fst position) (ps_plans st) (snd position)] \<and>
     validate_plan (plan_variant job (fst position) (ps_plans st) (snd position)) items employees vehicles = [])"
  using assms by (auto simp: add_plan_def Let_def split: if_splits)

lemma plan_variant_fields [simp]:
  "pv_assignments (plan_variant job first plans s) = s"
  "pv_label (plan_variant job first plans s) = (if first then ''PLAN A'' else ''PLAN B'')"
  "pv_start_at (plan_variant job first plans s) = Aware (schedule_start s)"
  "pv_end_at (plan_variant job first plans s) = Aware (schedule_end s)"
  by (simp_all add: plan_variant_def Let_def)

lemma planned_result:
  assumes "plan_schedules isoformat job items employees vehicles found = Inr r" "p \<in> set (pn_plans r)"
  shows "\<exists>ranked first s plans. ranked_schedules isoformat (ss_complete found) = Inr ranked \<and>
    (first, s) \<in> set (positions ranked) \<and> p = plan_variant job first plans s \<and> validate_plan p items employees vehicles = []"
proof -
  obtain ranked st where ranked: "ranked_schedules isoformat (ss_complete found) = Inr ranked"
      "loop (add_plan job items employees vehicles) (positions ranked)
         \<lparr>ps_plans = [], ps_reasons = [], ps_trace = ss_trace found\<rparr> = Inr st" "p \<in> set (ps_plans st)"
    using assms by (auto simp: plan_schedules_def)
  have "loop (add_plan job items employees vehicles) xs st0 = Inr st \<Longrightarrow> p \<in> set (ps_plans st) \<Longrightarrow>
      p \<in> set (ps_plans st0) \<or> (\<exists>first s plans. (first, s) \<in> set xs \<and> p = plan_variant job first plans s \<and>
        validate_plan p items employees vehicles = [])" for xs st0
  proof (induction xs arbitrary: st0)
    case (Cons x xs)
    obtain st1 where st1: "add_plan job items employees vehicles x st0 = Inr st1"
        "loop (add_plan job items employees vehicles) xs st1 = Inr st"
      using Cons.prems(1) by auto
    obtain first s where x: "x = (first, s)" by (cases x)
    from Cons.IH [OF st1(2) Cons.prems(2)] show ?case
    proof
      assume "p \<in> set (ps_plans st1)"
      then consider "p \<in> set (ps_plans st0)" | "p = plan_variant job first (ps_plans st0) s" "validate_plan p items employees vehicles = []"
        using add_plan_result [OF st1(1)] unfolding x fst_conv snd_conv by auto
      then show ?thesis
      proof cases
        case 2
        moreover have "(first, s) \<in> set (x # xs)" by (simp add: x)
        ultimately show ?thesis by blast
      qed simp
    qed auto
  qed simp
  from this [OF ranked(2,3)] ranked(1) show ?thesis by auto
qed

lemma positions_set: "(first, s) \<in> set (positions xs) \<Longrightarrow> s \<in> set xs"
  by (auto simp: positions_def dest: set_zip_rightD)

lemma positions_first: "(True, s) \<in> set (positions xs) \<Longrightarrow> \<exists>ys. xs = s # ys"
  by (cases xs) (auto simp: positions_def dest: set_zip_leftD)

section \<open>Plans are feasible\<close>

text \<open>
  C19. Every plan the planner returns is a feasible schedule of the job's work items: each item is done
  exactly once, within the planning window and for its duration, by an active employee with the skills
  who is available throughout, with an active and available vehicle of the required type and none
  otherwise, not before its predecessors are finished, and nobody and no vehicle is booked twice at a time.
\<close>

theorem plans_are_feasible:
  assumes "generate_plan_variants days isoformat job items employees vehicles planning_window_end = Inr r"
    and "p \<in> set (pn_plans r)"
  shows "\<exists>start_date window. jq_desired_start_date job = Some start_date \<and>
    plan_window days start_date planning_window_end employees vehicles = Inr window \<and>
    feasible_schedule items employees vehicles window (pv_assignments p) \<and>
    pv_start_at p = Aware (schedule_start (pv_assignments p)) \<and> pv_end_at p = Aware (schedule_end (pv_assignments p))"
proof -
  have "pn_plans r \<noteq> []" using assms(2) by auto
  with assms(1) obtain start_date ordered window found where g:
    "jq_desired_start_date job = Some start_date" "topological_order items = Inr ordered"
    "plan_window days start_date planning_window_end employees vehicles = Inr window"
    "run_search ordered employees vehicles window = Inr found"
    "ss_complete found = take MAX_SCHEDULES (all_schedules ordered employees vehicles window)"
    "plan_schedules isoformat job items employees vehicles found = Inr r"
    by (rule generate_cases)
  obtain ranked first s plans where p: "ranked_schedules isoformat (ss_complete found) = Inr ranked"
      "(first, s) \<in> set (positions ranked)" "p = plan_variant job first plans s" "validate_plan p items employees vehicles = []"
    using planned_result [OF g(6) assms(2)] by blast
  note order = topological_order_sound [OF g(2)]
  have s: "pv_assignments p = s" by (simp add: p(3))
  have "s \<in> set (all_schedules ordered employees vehicles window)"
    using positions_set [OF p(2)] ranked_sound(1) [OF p(1)] g(5) by (auto dest: in_set_takeD)
  from all_schedules_ok [OF this order(3)] obtain cx where cx: "sx_window_start cx = fst window" "sx_window_end cx = snd window"
      "\<forall>t\<in>set s. placed_ok cx items t" "map st_work_item_id s = map wi_id ordered"
    by blast
  have "feasible_schedule items employees vehicles (sx_window_start cx, sx_window_end cx) (pv_assignments p)"
    by (rule validated_feasible [OF p(4) order(1)]) (use s cx order(7) in auto)
  then have "feasible_schedule items employees vehicles window (pv_assignments p)" by (simp add: cx(1,2))
  with g(1,3) show ?thesis by (intro exI [of _ start_date] exI [of _ window]) (simp add: p(3))
qed

section \<open>The ranking decides\<close>

text \<open>What a search returns: the front of the plain enumeration.\<close>

lemma search_is_enumeration:
  assumes "topological_order items = Inr ordered" "run_search ordered employees vehicles window = Inr found"
  shows "ss_complete found = take 1000 (all_schedules ordered employees vehicles window)"
proof -
  obtain pairs where "evaluate_candidates (fst window) (snd window) ordered employees = Inr pairs"
    using run_search_returns_evaluations [OF assms(2)] by blast
  from run_search_collects [OF topological_order_sound(5,7) [OF assms(1)] this, of vehicles] assms(2)
  show ?thesis by (auto simp: MAX_SCHEDULES_def)
qed

text \<open>
  C20. The recursive search over a shared list and trace, with its cut-off in the middle, finds exactly the
  first 1000 schedules of the plain enumeration (employees, their free slots and fitting vehicles, item by
  item), in that order. PLAN A, when there is one, is one of them and no schedule among these starts earlier,
  or as early but ends earlier, or needs fewer people for the same times. Different instants have different
  ISO texts.
\<close>

theorem plan_a_is_first_ranked:
  assumes "inj isoformat" and "topological_order items = Inr ordered"
    and "plan_window days start_date planning_window_end employees vehicles = Inr window"
    and "run_search ordered employees vehicles window = Inr found" and "jq_desired_start_date job = Some start_date"
  shows "ss_complete found = take 1000 (all_schedules ordered employees vehicles window) \<and>
    (\<forall>r p. generate_plan_variants days isoformat job items employees vehicles planning_window_end = Inr r \<and>
        p \<in> set (pn_plans r) \<and> pv_label p = ''PLAN A'' \<longrightarrow>
      pv_assignments p \<in> set (ss_complete found) \<and>
      (\<forall>s\<in>set (ss_complete found). schedule_key isoformat (pv_assignments p) \<le> schedule_key isoformat s))"
proof (intro conjI allI impI)
  show "ss_complete found = take 1000 (all_schedules ordered employees vehicles window)"
    by (rule search_is_enumeration [OF assms(2,4)])
next
  fix r p
  assume r: "generate_plan_variants days isoformat job items employees vehicles planning_window_end = Inr r \<and>
    p \<in> set (pn_plans r) \<and> pv_label p = ''PLAN A''"
  then have "pn_plans r \<noteq> []" by auto
  with r assms(2-5) have g: "plan_schedules isoformat job items employees vehicles found = Inr r"
    by (auto elim!: generate_cases)
  obtain ranked first s plans where p: "ranked_schedules isoformat (ss_complete found) = Inr ranked"
      "(first, s) \<in> set (positions ranked)" "p = plan_variant job first plans s"
    using planned_result [OF g] r by blast
  have "first = True" using r p(3) by (cases first) simp_all
  then obtain others where ranked: "ranked = s # others" using positions_first [of s ranked] p(2) by auto
  have s: "pv_assignments p = s" by (simp add: p(3))
  note sound = ranked_sound [OF p(1)]
  show "pv_assignments p \<in> set (ss_complete found)" using sound(1) by (auto simp: ranked s)
  show "\<forall>u\<in>set (ss_complete found). schedule_key isoformat (pv_assignments p) \<le> schedule_key isoformat u"
  proof
    fix u
    assume "u \<in> set (ss_complete found)"
    then obtain v where v: "v \<in> set ranked" "plan_signature_of isoformat v = plan_signature_of isoformat u"
      using sound(3) by (metis imageE imageI)
    have "schedule_key isoformat s \<le> schedule_key isoformat v" using sound(2) v(1) by (auto simp: ranked)
    also have "schedule_key isoformat v = schedule_key isoformat u"
      by (rule signature_key [OF assms(1) v(2)])
    finally show "schedule_key isoformat (pv_assignments p) \<le> schedule_key isoformat u" by (simp add: s)
  qed
qed

section \<open>The planner returns\<close>

lemma loop_returns:
  assumes "\<And>x s. x \<in> set xs \<Longrightarrow> \<exists>s'. f x s = Inr s'"
  shows "\<exists>s'. loop f xs s = Inr s'"
  using assms
proof (induction xs arbitrary: s)
  case (Cons x xs)
  obtain s1 where "f x s = Inr s1" using Cons.prems [of x s] by auto
  moreover obtain s2 where "loop f xs s1 = Inr s2" using Cons by fastforce
  ultimately show ?case by simp
qed simp

lemma evaluate_candidates_returns:
  assumes "\<forall>w\<in>set items. \<exists>d. item_duration w = Inr d"
  shows "\<exists>pairs. evaluate_candidates a b items employees = Inr pairs"
proof -
  have "\<exists>st'. evaluate_candidate a b w e st = Inr st'" if w: "w \<in> set items" for w e st
  proof -
    obtain d where "item_duration w = Inr d" using assms w by auto
    then show ?thesis by (simp add: evaluate_candidate_def evaluate_employee_candidate_def Let_def)
  qed
  then show ?thesis unfolding evaluate_candidates_def by (intro loop_returns)
qed

lemma validated_traced:
  assumes "assignment_errors plan items employees vehicles a = []" "distinct (map wi_id items)" "placed_ok cx items a"
  shows "\<exists>trace'. trace_selected items employees vehicles label a trace = Inr trace'"
proof -
  obtain w where w: "w \<in> set items" "st_work_item_id a = wi_id w" "wi_required_vehicle_type w = None \<longleftrightarrow> st_vehicle_id a = None"
    using assms(3) by (auto simp: placed_ok_def)
  have "dict_by wi_id items (st_work_item_id a) = Some w"
    using assms(2) w by (simp add: dict_by_distinct lookup_by_distinct)
  moreover obtain e where "dict_by em_id employees (st_employee_id a) = Some e"
    using assms(1) calculation by (auto simp: assignment_errors_def split: option.splits)
  moreover have "\<exists>v. dict_by ve_id vehicles vid = Some v" if "st_vehicle_id a = Some vid" for vid
    using assms(1) calculation w(3) that by (auto simp: assignment_errors_def split: option.splits)
  ultimately show ?thesis by (auto simp: trace_selected_def Let_def split: option.splits)
qed

lemma add_plan_returns:
  assumes "distinct (map wi_id items)" "\<forall>a\<in>set (snd position). placed_ok cx items a"
  shows "\<exists>st'. add_plan job items employees vehicles position st = Inr st'"
proof -
  let ?plan = "plan_variant job (fst position) (ps_plans st) (snd position)"
  show ?thesis
  proof (cases "validate_plan ?plan items employees vehicles = []")
    case True
    then have e: "assignment_errors ?plan items employees vehicles a = []" if "a \<in> set (snd position)" for a
      using that by (auto simp: validate_plan_def)
    have "\<exists>trace'. trace_selected items employees vehicles label a trace = Inr trace'" if a: "a \<in> set (snd position)" for a label trace
      using validated_traced [OF e [OF a] assms(1)] assms(2) a by blast
    then obtain trace where "loop (trace_selected items employees vehicles (pv_label ?plan)) (snd position) (ps_trace st) = Inr trace"
      using loop_returns [of "snd position" "trace_selected items employees vehicles (pv_label ?plan)" "ps_trace st"] by blast
    then show ?thesis by (simp add: add_plan_def Let_def)
  qed (simp add: add_plan_def Let_def)
qed

lemma plan_schedules_returns:
  assumes "\<forall>s\<in>set (ss_complete found). s \<noteq> [] \<and> (\<exists>cx. \<forall>a\<in>set s. placed_ok cx items a)" "distinct (map wi_id items)"
  shows "\<exists>r. plan_schedules isoformat job items employees vehicles found = Inr r"
proof -
  have "set (dict_values (plan_signature_of isoformat) (ss_complete found)) \<subseteq> set (ss_complete found)"
    using dict_values_subset [of "plan_signature_of isoformat" "ss_complete found" "[]"] by (simp add: dict_values_def)
  then have "[] \<notin> set (dict_values (plan_signature_of isoformat) (ss_complete found))" using assms(1) by auto
  then obtain ranked where ranked: "ranked_schedules isoformat (ss_complete found) = Inr ranked"
    by (simp add: ranked_schedules_def Let_def)
  have "\<exists>st'. add_plan job items employees vehicles position st = Inr st'" if "position \<in> set (positions ranked)" for position st
  proof -
    have "snd position \<in> set (ss_complete found)"
      using positions_set [of "fst position" "snd position" ranked] that ranked_sound(1) [OF ranked] by (simp add: subset_iff)
    with assms(1) obtain cx where "\<forall>a\<in>set (snd position). placed_ok cx items a" by blast
    then show ?thesis by (rule add_plan_returns [OF assms(2)])
  qed
  note returned = this
  have "\<exists>st. loop (add_plan job items employees vehicles) (positions ranked)
      \<lparr>ps_plans = [], ps_reasons = [], ps_trace = ss_trace found\<rparr> = Inr st"
    by (rule loop_returns, rule returned)
  then obtain st where "loop (add_plan job items employees vehicles) (positions ranked)
      \<lparr>ps_plans = [], ps_reasons = [], ps_trace = ss_trace found\<rparr> = Inr st"
    by blast
  then show ?thesis by (simp add: plan_schedules_def ranked)
qed

text \<open>The checks before the search.\<close>

definition ready_to_plan :: "JobRequest \<Rightarrow> PlanningWorkItem list \<Rightarrow> bool" where
  "ready_to_plan job items \<longleftrightarrow> jq_desired_start_date job \<noteq> None \<and> jq_missing_information job = [] \<and> jq_reported_risks job = [] \<and>
     (\<forall>r\<in>set (jq_requirements job). rq_is_confirmed r) \<and>
     set (map wi_job_requirement_id items) = set (map rq_id (jq_requirements job))"

lemma finite_precedes: "finite (precedes items)"
proof -
  have "precedes items = (\<Union>w\<in>set items. (\<lambda>p. (p, wi_id w)) ` set (wi_predecessor_ids w))"
    by (auto simp: precedes_def)
  then show ?thesis by simp
qed

lemma generate_not_ready:
  "\<not> ready_to_plan job items \<Longrightarrow>
   \<exists>reason. generate_plan_variants days isoformat job items employees vehicles planning_window_end = Inr (no_plans reason)"
  by (auto simp: generate_plan_variants_def ready_to_plan_def split: option.splits)

lemma generate_ready:
  "ready_to_plan job items \<Longrightarrow> jq_desired_start_date job = Some start_date \<Longrightarrow>
   generate_plan_variants days isoformat job items employees vehicles planning_window_end =
     and_then (topological_order items) (\<lambda>ordered.
     and_then (plan_window days start_date planning_window_end employees vehicles) (\<lambda>window.
     and_then (run_search ordered employees vehicles window) (\<lambda>found.
     plan_schedules isoformat job items employees vehicles found)))"
  by (auto simp: generate_plan_variants_def ready_to_plan_def)

text \<open>
  C21. For a nonempty list of work items with unique identities, known predecessors and positive durations
  and a planning window that does not end before it starts, planning ends with a result if and only if the
  predecessors have no cycle; only a job that does not get as far as the search has a result in spite of one.
\<close>

theorem planner_returns_iff_acyclic:
  assumes "items \<noteq> []" "distinct (map wi_id items)" "known_predecessors items"
    and "\<forall>w\<in>set items. \<exists>d. item_duration w = Inr d"
    and "\<forall>start_date\<in>set_option (jq_desired_start_date job). \<exists>window. plan_window days start_date planning_window_end employees vehicles = Inr window"
  shows "(\<exists>r. generate_plan_variants days isoformat job items employees vehicles planning_window_end = Inr r) \<longleftrightarrow>
    \<not> ready_to_plan job items \<or> acyclic (precedes items)"
proof (cases "ready_to_plan job items")
  case False
  then show ?thesis using generate_not_ready [OF False] by blast
next
  case True
  then obtain start_date where date: "jq_desired_start_date job = Some start_date" by (auto simp: ready_to_plan_def)
  note generate = generate_ready [OF True date, of days isoformat employees vehicles planning_window_end]
  obtain window where window: "plan_window days start_date planning_window_end employees vehicles = Inr window"
    using assms(5) date by auto
  show ?thesis
  proof
    assume "\<exists>r. generate_plan_variants days isoformat job items employees vehicles planning_window_end = Inr r"
    then obtain ordered where "topological_order items = Inr ordered" by (auto simp: generate)
    from topological_order_sound(6) [OF this] show "\<not> ready_to_plan job items \<or> acyclic (precedes items)"
      by (simp add: wf_acyclic)
  next
    assume "\<not> ready_to_plan job items \<or> acyclic (precedes items)"
    then have "wf (precedes items)" using True finite_precedes by (simp add: finite_acyclic_wf)
    then obtain ordered where ordered: "topological_order items = Inr ordered"
      using topological_order_complete [OF assms(2,3)] by blast
    note order = topological_order_sound [OF ordered]
    obtain pairs where "evaluate_candidates (fst window) (snd window) ordered employees = Inr pairs"
      using evaluate_candidates_returns [of ordered "fst window" "snd window" employees] assms(4) order(3) by blast
    from run_search_collects [OF order(5,7) this, of vehicles] obtain found where
      found: "run_search ordered employees vehicles window = Inr found"
        "ss_complete found = take MAX_SCHEDULES (all_schedules ordered employees vehicles window)"
      by blast
    have "s \<noteq> [] \<and> (\<exists>cx. \<forall>a\<in>set s. placed_ok cx items a)" if "s \<in> set (ss_complete found)" for s
    proof -
      have "s \<in> set (all_schedules ordered employees vehicles window)" using that found(2) by (auto dest: in_set_takeD)
      from all_schedules_ok [OF this order(3)] obtain cx where cx: "\<forall>t\<in>set s. placed_ok cx items t" "map st_work_item_id s = map wi_id ordered"
        by blast
      have "ordered \<noteq> []" using order(3) assms(1) by auto
      with cx(2) have "s \<noteq> []" by auto
      with cx(1) show ?thesis by blast
    qed
    then obtain r where "plan_schedules isoformat job items employees vehicles found = Inr r"
      using plan_schedules_returns [OF _ assms(2)] by blast
    then show "\<exists>r. generate_plan_variants days isoformat job items employees vehicles planning_window_end = Inr r"
      by (simp add: generate ordered window found(1))
  qed
qed

text \<open>A job without requirements and work items is not refused: \<open>min()\<close> of its empty schedule raises.\<close>

lemma empty_job_raises:
  assumes "ready_to_plan job []" "jq_desired_start_date job = Some start_date"
    and "plan_window days start_date planning_window_end employees vehicles = Inr window"
  shows "generate_plan_variants days isoformat job [] employees vehicles planning_window_end =
    Inl (ValueError ''min() iterable argument is empty'')"
  by (simp add: generate_ready [OF assms(1,2)] assms(3) topological_order_def order_layers.simps run_search_def
      evaluate_candidates_def full_def MAX_SCHEDULES_def plan_schedules_def ranked_schedules_def dict_values_def dict_store_def)

text \<open>The assessment lets through only jobs the planner does not turn away and does not raise on.\<close>

lemma remote_quote_ready:
  assumes "ja_decision (assess_job_request job) = REMOTE_QUOTE_POSSIBLE" "jq_desired_start_date job \<noteq> None"
    and "set (map wi_job_requirement_id items) = set (map rq_id (jq_requirements job))"
  shows "ready_to_plan job items \<and> items \<noteq> []"
proof -
  have empty: "jq_missing_information job = []" "jq_reported_risks job = []" "request_gaps job = []"
      "\<forall>r\<in>set (jq_requirements job). requirement_gaps r = []"
    using assms(1) by (auto simp: assess_job_request_def Let_def split: if_splits)
  have "jq_requirements job \<noteq> []" using empty(3) by (auto simp: request_gaps_def split: if_splits)
  then have "items \<noteq> []" using assms(3) by auto
  moreover have "\<forall>r\<in>set (jq_requirements job). rq_is_confirmed r"
    using empty(4) by (auto simp: requirement_gaps_def split: if_splits)
  ultimately show ?thesis using assms(2,3) empty(1,2) by (simp add: ready_to_plan_def)
qed

section \<open>Examples\<close>

text \<open>An injective text for datetimes.\<close>

function text_bits :: "int \<Rightarrow> string" where
  "text_bits n = (if n \<le> 0 then [] else (if n mod 2 = 0 then CHR ''0'' else CHR ''1'') # text_bits (n div 2))"
  by pat_completeness auto
termination by (relation "measure nat") auto

fun bits_value :: "string \<Rightarrow> int" where
  "bits_value [] = 0"
| "bits_value (c # cs) = (if c = CHR ''1'' then 1 else 0) + 2 * bits_value cs"

declare text_bits.simps [simp del]

lemma bits_value_text_bits: "bits_value (text_bits n) = max n 0"
proof (induction n rule: text_bits.induct)
  case (1 n)
  show ?case
  proof (cases "n \<le> 0")
    case False
    have "n mod 2 = 0 \<Longrightarrow> 2 * (n div 2) = n" "n mod 2 \<noteq> 0 \<Longrightarrow> 1 + 2 * (n div 2) = n" by presburger+
    then show ?thesis using 1 [OF False] False by (subst text_bits.simps) auto
  qed (simp add: text_bits.simps)
qed

definition plain_isoformat :: "py_datetime \<Rightarrow> string" where
  "plain_isoformat t =
     (if is_aware t then CHR ''A'' else CHR ''N'') # (if instant t < 0 then CHR ''-'' else CHR ''+'') # text_bits \<bar>instant t\<bar>"

lemma inj_plain_isoformat: "inj plain_isoformat"
proof (rule injI)
  fix s t assume st: "plain_isoformat s = plain_isoformat t"
  have "text_bits \<bar>instant s\<bar> = text_bits \<bar>instant t\<bar>" using st by (simp add: plain_isoformat_def)
  then have "bits_value (text_bits \<bar>instant s\<bar>) = bits_value (text_bits \<bar>instant t\<bar>)" by simp
  then have "\<bar>instant s\<bar> = \<bar>instant t\<bar>" by (simp add: bits_value_text_bits)
  with st show "s = t" by (cases s; cases t) (auto simp: plain_isoformat_def split: if_splits)
qed

definition hour :: int where "hour = 3600000000"

definition ex_shift :: Availability where
  "ex_shift = \<lparr>av_start_at = 8 * hour, av_end_at = 16 * hour, av_is_available = True, av_note = [], av_zone = ''UTC''\<rparr>"

definition ex_employee :: "string \<Rightarrow> string \<Rightarrow> Employee" where
  "ex_employee i skill = \<lparr>em_id = i, em_name = i, em_is_active = True, em_skill_ids = [skill], em_availability = [ex_shift],
     em_hourly_cost_amount = 1, em_cost_currency = ''EUR''\<rparr>"

definition ex_item :: "string \<Rightarrow> string \<Rightarrow> rat \<Rightarrow> string list \<Rightarrow> PlanningWorkItem" where
  "ex_item i skill hours predecessors = \<lparr>wi_id = i, wi_job_requirement_id = ''R'', wi_name = i, wi_required_skill_ids = [skill],
     wi_estimated_hours = hours, wi_predecessor_ids = predecessors, wi_required_vehicle_type = None\<rparr>"

definition ex_job :: JobRequest where
  "ex_job = \<lparr>jq_id = ''J'', jq_title = ''T'', jq_description = ''D'', jq_site_address = None, jq_desired_start_date = Some 0,
     jq_requirements = [\<lparr>rq_id = ''R'', rq_description = ''r'', rq_quantity = None, rq_unit = None, rq_is_confirmed = True,
       rq_requires_site_verification = False\<rparr>], jq_missing_information = [], jq_reported_risks = []\<rparr>"

definition ex_first :: "string \<Rightarrow> int \<Rightarrow> int" where "ex_first zone day = day * 24 * hour"
definition ex_last :: "string \<Rightarrow> int \<Rightarrow> int" where "ex_last zone day = (day + 1) * 24 * hour - 1"

definition ex_days :: day_bounds where
  "ex_days = \<lparr>first_instant = ex_first, last_instant = ex_last\<rparr>"

definition ex_items :: "PlanningWorkItem list" where
  "ex_items = [ex_item ''A'' ''a'' 1 [], ex_item ''B'' ''b'' 4 [], ex_item ''C'' ''a'' 1 [''B'']]"

definition ex_crew :: "Employee list" where
  "ex_crew = [ex_employee ''E1'' ''a'', ex_employee ''E2'' ''b'', ex_employee ''E3'' ''a'']"

definition ex_late_schedule :: "ScheduledTask list" where
  "ex_late_schedule =
     [scheduled_task (ex_item ''A'' ''a'' 1 []) (ex_employee ''E1'' ''a'') (8 * hour, 9 * hour) None,
      scheduled_task (ex_item ''B'' ''b'' 4 []) (ex_employee ''E2'' ''b'') (8 * hour, 12 * hour) None,
      scheduled_task (ex_item ''C'' ''a'' 1 [''B'']) (ex_employee ''E1'' ''a'') (12 * hour, 13 * hour) None]"

lemma ex_late_feasible: "feasible_schedule ex_items ex_crew [] (0, 24 * hour - 1) ex_late_schedule"
  by code_simp

lemma ex_refused: "returns (generate_plan_variants ex_days plain_isoformat ex_job ex_items ex_crew [] 0) (\<lambda>r. pn_plans r = [])"
  by code_simp

lemma ex_window: "plan_window ex_days 0 0 ex_crew [] = Inr (0, 24 * hour - 1)"
  by code_simp

text \<open>The first two of the ranking start C before B ends; a later one is the feasible schedule.\<close>

definition starts_too_early :: "PlanningWorkItem list \<Rightarrow> ScheduledTask list \<Rightarrow> bool" where
  "starts_too_early items s \<longleftrightarrow> (\<exists>a\<in>set s. \<exists>w\<in>set items. st_work_item_id a = wi_id w \<and> \<not> after_predecessors s w a)"

lemma ex_order: "returns (topological_order ex_items) (\<lambda>ordered. ordered = ex_items)"
  by code_simp

lemma ex_ranking:
  "returns (run_search ex_items ex_crew [] (0, 24 * hour - 1)) (\<lambda>found.
     returns (ranked_schedules plain_isoformat (ss_complete found)) (\<lambda>ranked.
       case ranked of s1 # s2 # rest \<Rightarrow> starts_too_early ex_items s1 \<and> starts_too_early ex_items s2 \<and> ex_late_schedule \<in> set rest
       | _ \<Rightarrow> False))"
  by code_simp

text \<open>
  C22. A job whose feasible schedules the search has found can be refused. The job passes every guard
  before the search: it has a date, no missing information and no risk, its requirements are confirmed and
  covered, and its items can be ordered. The search finds a feasible schedule, but \<open>_employee_options\<close> also
  tries the end of an employee's earlier task as a start, even before the predecessors end; schedules of that
  kind take the first two places of the ranking, only these two are validated, and no plan is returned.
\<close>

theorem feasible_job_is_refused:
  "\<exists>days isoformat job items employees vehicles planning_window_end r start_date window ordered found s1 s2 rest s.
     generate_plan_variants days isoformat job items employees vehicles planning_window_end = Inr r \<and> pn_plans r = [] \<and>
     jq_desired_start_date job = Some start_date \<and> jq_missing_information job = [] \<and> jq_reported_risks job = [] \<and>
     list_all rq_is_confirmed (jq_requirements job) \<and>
     set (map wi_job_requirement_id items) = set (map rq_id (jq_requirements job)) \<and>
     topological_order items = Inr ordered \<and>
     plan_window days start_date planning_window_end employees vehicles = Inr window \<and>
     run_search ordered employees vehicles window = Inr found \<and>
     ranked_schedules isoformat (ss_complete found) = Inr (s1 # s2 # rest) \<and>
     starts_too_early items s1 \<and> starts_too_early items s2 \<and>
     s \<in> set rest \<and> feasible_schedule items employees vehicles window s"
proof -
  obtain r where r: "generate_plan_variants ex_days plain_isoformat ex_job ex_items ex_crew [] 0 = Inr r" "pn_plans r = []"
    using ex_refused by (auto simp: returns_iff)
  have order: "topological_order ex_items = Inr ex_items" using ex_order by (auto simp: returns_iff)
  obtain found ranked where found: "run_search ex_items ex_crew [] (0, 24 * hour - 1) = Inr found"
      "ranked_schedules plain_isoformat (ss_complete found) = Inr ranked"
      "case ranked of s1 # s2 # rest \<Rightarrow> starts_too_early ex_items s1 \<and> starts_too_early ex_items s2 \<and> ex_late_schedule \<in> set rest
       | _ \<Rightarrow> False"
    using ex_ranking unfolding returns_iff by blast
  then obtain s1 s2 rest where "ranked = s1 # s2 # rest" by (cases ranked; cases "tl ranked") auto
  note f = found [unfolded this list.case]
  have job: "jq_desired_start_date ex_job = Some 0" "jq_missing_information ex_job = []" "jq_reported_risks ex_job = []"
      "list_all rq_is_confirmed (jq_requirements ex_job)"
      "set (map wi_job_requirement_id ex_items) = set (map rq_id (jq_requirements ex_job))"
    by code_simp+
  show ?thesis
    by (rule exI [of _ ex_days], rule exI [of _ plain_isoformat], rule exI [of _ ex_job], rule exI [of _ ex_items],
        rule exI [of _ ex_crew], rule exI [of _ "[]"], rule exI [of _ 0], rule exI [of _ r], rule exI [of _ 0],
        rule exI [of _ "(0, 24 * hour - 1)"], rule exI [of _ ex_items], rule exI [of _ found], rule exI [of _ s1],
        rule exI [of _ s2], rule exI [of _ rest], rule exI [of _ ex_late_schedule])
      (use f in \<open>intro conjI r job order ex_window ex_late_feasible; blast\<close>)
qed

definition ex_van :: Vehicle where
  "ex_van = \<lparr>ve_id = ''V1'', ve_name = ''van'', ve_vehicle_type = ''VAN'', ve_is_active = True, ve_availability = [ex_shift],
     ve_cost_per_km_amount = 1, ve_cost_currency = ''EUR'', ve_capacity_note = []\<rparr>"

definition ex_van_items :: "PlanningWorkItem list" where
  "ex_van_items = [(ex_item ''C'' ''a'' 1 [''B'']), (ex_item ''B'' ''b'' 4 [])\<lparr>wi_required_vehicle_type := Some ''VAN''\<rparr>]"

lemma ex_planned:
  "returns (generate_plan_variants ex_days plain_isoformat ex_job ex_van_items ex_crew [ex_van] 0)
     (\<lambda>r. map pv_label (pn_plans r) = [''PLAN A'', ''PLAN B''])"
  by code_simp

lemma ex_van_window: "plan_window ex_days 0 0 ex_crew [ex_van] = Inr (0, 24 * hour - 1)"
  by code_simp

lemma ex_van_order: "topological_order ex_van_items = Inr (rev ex_van_items)"
  by code_simp

lemma ex_job_date: "jq_desired_start_date ex_job = Some 0"
  by (simp add: ex_job_def)

theorem plans_are_feasible_witness:
  "returns (generate_plan_variants ex_days plain_isoformat ex_job ex_van_items ex_crew [ex_van] 0)
     (\<lambda>r. pn_plans r \<noteq> [] \<and> list_all (\<lambda>p. feasible_schedule ex_van_items ex_crew [ex_van] (0, 24 * hour - 1) (pv_assignments p)) (pn_plans r))"
proof -
  obtain r where r: "generate_plan_variants ex_days plain_isoformat ex_job ex_van_items ex_crew [ex_van] 0 = Inr r"
      "map pv_label (pn_plans r) = [''PLAN A'', ''PLAN B'']"
    using ex_planned by (auto simp: returns_iff)
  have "feasible_schedule ex_van_items ex_crew [ex_van] (0, 24 * hour - 1) (pv_assignments p)" if "p \<in> set (pn_plans r)" for p
    using plans_are_feasible [OF r(1) that] by (simp add: ex_job_date ex_van_window)
  moreover have "pn_plans r \<noteq> []" using r(2) by auto
  ultimately show ?thesis by (simp add: r(1) list_all_iff)
qed

theorem plan_a_is_first_ranked_witness:
  "returns (run_search (rev ex_van_items) ex_crew [ex_van] (0, 24 * hour - 1))
     (\<lambda>found. ss_complete found = take 1000 (all_schedules (rev ex_van_items) ex_crew [ex_van] (0, 24 * hour - 1)) \<and>
       returns (generate_plan_variants ex_days plain_isoformat ex_job ex_van_items ex_crew [ex_van] 0)
         (\<lambda>r. pv_assignments (hd (pn_plans r)) \<in> set (ss_complete found)))"
proof -
  obtain r where r: "generate_plan_variants ex_days plain_isoformat ex_job ex_van_items ex_crew [ex_van] 0 = Inr r"
      "map pv_label (pn_plans r) = [''PLAN A'', ''PLAN B'']"
    using ex_planned by (auto simp: returns_iff)
  then obtain p q where p: "pn_plans r = [p, q]" "pv_label p = ''PLAN A''" by auto
  then have "pn_plans r \<noteq> []" by simp
  with r(1) obtain found where f: "run_search (rev ex_van_items) ex_crew [ex_van] (0, 24 * hour - 1) = Inr found"
    by (rule generate_cases) (simp add: ex_job_date ex_van_window ex_van_order)
  note t = plan_a_is_first_ranked [OF inj_plain_isoformat ex_van_order ex_van_window f ex_job_date]
  have "pv_assignments p \<in> set (ss_complete found)" using t r(1) p by auto
  with conjunct1 [OF t] show ?thesis by (simp add: f r(1) p(1))
qed

theorem planner_returns_iff_acyclic_witness:
  "\<exists>r. generate_plan_variants ex_days plain_isoformat ex_job ex_van_items ex_crew [ex_van] 0 = Inr r"
proof -
  have order: "known_predecessors ex_van_items" "distinct (map wi_id ex_van_items)" "acyclic (precedes ex_van_items)"
    using topological_order_sound [OF ex_van_order] by (simp_all add: wf_acyclic)
  have d: "\<exists>d. item_duration w = Inr d" if "w \<in> set ex_van_items" for w
  proof -
    have "list_all (\<lambda>w. returns (item_duration w) (\<lambda>_. True)) ex_van_items" by code_simp
    then show ?thesis using that by (auto simp: list_all_iff returns_iff)
  qed
  have "ex_van_items \<noteq> []" by (simp add: ex_van_items_def)
  from planner_returns_iff_acyclic [OF this order(2,1), of ex_job ex_days 0 ex_crew "[ex_van]" plain_isoformat]
  show ?thesis using d order(3) by (simp add: ex_job_date ex_van_window)
qed

end
