(* ===== verification/Evidence_Checks.thy ===== *)
theory Evidence_Checks
  imports Field_Codec_Properties "HOL-Library.Product_Lexorder"
begin

text \<open>
  The checks that the constructors of the planning documents share (\<open>_require\<close>, \<open>_identity\<close>, \<open>_digest\<close>,
  \<open>_revision\<close>, \<open>_identities\<close>, \<open>_records\<close> of planning/evaluation_input.py, feasibility_support.py,
  bounded_feasibility.py and current_plan.py; the modules repeat them), and the spreading of a set of
  tasks along dependency edges, which three of the modules compute. Every check raises a \<open>ValueError\<close>
  whose text is the code and the field.
\<close>

section \<open>Checks\<close>

definition invalid :: "string \<Rightarrow> string" where
  "invalid name = ''INVALID_VALUE: '' @ name"

definition check_value :: "bool \<Rightarrow> string \<Rightarrow> unit result" where
  "check_value c name = require c (invalid name)"

definition control_char :: "char \<Rightarrow> bool" where
  "control_char c \<longleftrightarrow> (let n = (of_char c :: nat) in n < 32 \<or> n = 127)"

definition identity_ok :: "string \<Rightarrow> bool" where
  "identity_ok v \<longleftrightarrow> v \<noteq> [] \<and> strip v = v \<and> list_all (\<lambda>c. \<not> control_char c) v"

definition check_identity :: "string \<Rightarrow> string \<Rightarrow> unit result" where
  "check_identity v name = check_value (identity_ok v) name"

definition check_optional_identity :: "string option \<Rightarrow> string \<Rightarrow> unit result" where
  "check_optional_identity v name = (case v of None \<Rightarrow> Inr () | Some i \<Rightarrow> check_identity i name)"

definition fingerprint_ok :: "string \<Rightarrow> bool" where
  "fingerprint_ok v \<longleftrightarrow> length v = 64 \<and> list_all (\<lambda>c. c \<in> set ''0123456789abcdef'') v"

definition check_digest :: "string \<Rightarrow> string \<Rightarrow> unit result" where
  "check_digest v name = check_value (fingerprint_ok v) name"

definition check_revision :: "int \<Rightarrow> string \<Rightarrow> unit result" where
  "check_revision v name = check_value (0 \<le> v \<and> v \<le> 9223372036854775807) name"

text \<open>\<open>_identities\<close>: identities, each once, in order.\<close>

definition canonical_identities :: "string list \<Rightarrow> string \<Rightarrow> string list result" where
  "canonical_identities vs name =
     and_then (check_all (\<lambda>v. check_identity v name) vs) (\<lambda>_.
     and_then (check_value (distinct vs) name) (\<lambda>_. Inr (sort vs)))"

text \<open>
  \<open>_records\<close>: \<open>replace(value) == value\<close> runs the constructor again and compares; the keys are distinct,
  the result is in their order.
\<close>

definition canonical_records ::
    "('a \<Rightarrow> 'a result) \<Rightarrow> ('a \<Rightarrow> 'k::linorder) \<Rightarrow> string \<Rightarrow> 'a list \<Rightarrow> 'a list result" where
  "canonical_records init key name vs =
     and_then (check_all (\<lambda>v. and_then (init v) (\<lambda>w. check_value (w = v) name)) vs) (\<lambda>_.
     and_then (check_value (distinct (map key vs)) name) (\<lambda>_. Inr (sort_key key vs)))"

text \<open>\<open>_require(replace(value) == value)\<close> of a single value.\<close>

definition check_record :: "('a \<Rightarrow> 'a result) \<Rightarrow> string \<Rightarrow> 'a \<Rightarrow> unit result" where
  "check_record init name v = and_then (init v) (\<lambda>w. check_value (w = v) name)"

lemma check_value_Inr [simp]: "check_value c name = Inr u \<longleftrightarrow> c"
  by (simp add: check_value_def)

lemma check_identity_Inr [simp]: "check_identity v name = Inr u \<longleftrightarrow> identity_ok v"
  by (simp add: check_identity_def)

lemma check_optional_identity_Inr [simp]:
  "check_optional_identity v name = Inr u \<longleftrightarrow> (\<forall>i\<in>set_option v. identity_ok i)"
  by (auto simp: check_optional_identity_def split: option.splits)

lemma check_digest_Inr [simp]: "check_digest v name = Inr u \<longleftrightarrow> fingerprint_ok v"
  by (simp add: check_digest_def)

lemma check_revision_Inr [simp]: "check_revision v name = Inr u \<longleftrightarrow> 0 \<le> v \<and> v \<le> 9223372036854775807"
  by (simp add: check_revision_def)

lemma check_record_Inr [simp]: "check_record init name v = Inr u \<longleftrightarrow> init v = Inr v"
  by (auto simp: check_record_def)

lemma canonical_identities_Inr [simp]:
  "canonical_identities vs name = Inr ws \<longleftrightarrow> (\<forall>v\<in>set vs. identity_ok v) \<and> distinct vs \<and> ws = sort vs"
  by (auto simp: canonical_identities_def)

lemma canonical_records_Inr [simp]:
  "canonical_records init key name vs = Inr ws \<longleftrightarrow>
     (\<forall>v\<in>set vs. init v = Inr v) \<and> distinct (map key vs) \<and> ws = sort_key key vs"
  by (auto simp: canonical_records_def)

lemma sort_idem [simp]: "sort (sort xs) = sort xs"
  by (simp add: sort_key_sorted)

lemma sort_key_idem [simp]: "sort_key k (sort_key k xs) = sort_key k xs"
  by (simp add: sort_key_sorted)

text \<open>The prefix of an identity and the digest behind it.\<close>

lemma digest_identity:
  assumes "fingerprint_ok d" "p \<noteq> []" "list_all (\<lambda>c. \<not> control_char c) p" "\<not> py_space (hd p)"
  shows "identity_ok (p @ d)"
proof -
  have ne: "d \<noteq> []" and hex: "list_all (\<lambda>c. c \<in> set ''0123456789abcdef'') d"
    using assms(1) by (auto simp: fingerprint_ok_def)
  have chars: "list_all (\<lambda>c. \<not> control_char c \<and> \<not> py_space c) ''0123456789abcdef''" by code_simp
  have ok: "\<not> control_char c \<and> \<not> py_space c" if "c \<in> set d" for c
    using that hex chars by (simp only: list_all_iff) blast
  have "dropWhile py_space (p @ d) = p @ d" using assms(2,4) by (cases p) simp_all
  moreover have "dropWhile py_space (rev d @ rev p) = rev d @ rev p"
    using ne ok [of "last d"] by (cases d rule: rev_cases) simp_all
  ultimately have "strip (p @ d) = p @ d" by (simp add: strip_def)
  moreover have "list_all (\<lambda>c. \<not> control_char c) d" using ok by (simp add: list_all_iff)
  ultimately show ?thesis using assms(2,3) by (simp add: identity_ok_def)
qed

text \<open>A long reader is simplified from its first step on, not under its binders.\<close>

lemma and_then_weak_cong: "m = m' \<Longrightarrow> and_then m f = and_then m' f"
  by simp

text \<open>The keys of an object apart from its values.\<close>

lemma canonical_JObject_keys:
  "map fst kvs = ks \<Longrightarrow> ascending ks \<Longrightarrow> \<forall>v\<in>set (map snd kvs). canonical v \<Longrightarrow> canonical (JObject kvs)"
  by (simp add: canonical_JObject)

section \<open>Spreading along edges\<close>

text \<open>
  One pass \<open>for edge in edges: if pred in reached and succ not in reached: reached.add(succ)\<close>, and
  \<open>while changed\<close> around it.
\<close>

definition spread_edge :: "string list \<Rightarrow> string \<times> string \<Rightarrow> string list" where
  "spread_edge reached e = (if fst e \<in> set reached \<and> snd e \<notin> set reached then reached @ [snd e] else reached)"

definition spread_pass :: "(string \<times> string) list \<Rightarrow> string list \<Rightarrow> string list" where
  "spread_pass edges reached = foldl spread_edge reached edges"

lemma set_spread_edge: "set (spread_edge r e) = set r \<union> (if fst e \<in> set r then {snd e} else {})"
  by (auto simp: spread_edge_def)

lemma spread_pass_Cons: "spread_pass (e # edges) r = spread_pass edges (spread_edge r e)"
  by (simp add: spread_pass_def)

lemma spread_pass_grows: "\<exists>new. spread_pass edges r = r @ new \<and> set new \<subseteq> snd ` set edges - set r"
proof (induction edges arbitrary: r)
  case (Cons e edges)
  from Cons [of "spread_edge r e"] obtain new where
    "spread_pass edges (spread_edge r e) = spread_edge r e @ new" "set new \<subseteq> snd ` set edges - set (spread_edge r e)"
    by blast
  then show ?case by (auto simp: spread_pass_Cons spread_edge_def)
qed (simp add: spread_pass_def)

function spread :: "(string \<times> string) list \<Rightarrow> string list \<Rightarrow> string list" where
  "spread edges reached =
     (let next = spread_pass edges reached
      in if length next = length reached then reached else spread edges next)"
  by pat_completeness auto
termination
proof (relation "measure (\<lambda>(edges, reached). card (snd ` set edges - set reached))", goal_cases)
  case (2 edges reached x)
  obtain new where new: "x = reached @ new" "set new \<subseteq> snd ` set edges - set reached"
    using spread_pass_grows [of edges reached] 2(1) by blast
  with 2(2) have "new \<noteq> []" by auto
  then have "snd ` set edges - set x \<subset> snd ` set edges - set reached"
    using new by (cases new) auto
  then show ?case by (simp add: psubset_card_mono)
qed simp

declare spread.simps [simp del]

lemma rtrancl_Image_closed: "A \<subseteq> R\<^sup>* `` B \<Longrightarrow> R\<^sup>* `` A \<subseteq> R\<^sup>* `` B"
  by (blast intro: rtrancl_trans)

lemma spread_pass_reach:
  "set (spread_pass edges r) \<subseteq> (set edges)\<^sup>* `` set r"
proof (induction edges arbitrary: r)
  case (Cons e edges)
  have step: "set (spread_edge r e) \<subseteq> (set (e # edges))\<^sup>* `` set r"
    by (cases e) (auto simp: set_spread_edge)
  have mono: "(set edges)\<^sup>* `` X \<subseteq> (set (e # edges))\<^sup>* `` X" for X
    by (intro Image_mono rtrancl_mono) auto
  have "(set (e # edges))\<^sup>* `` set (spread_edge r e) \<subseteq> (set (e # edges))\<^sup>* `` set r"
    using step by (rule rtrancl_Image_closed)
  with Cons [of "spread_edge r e"] mono [of "set (spread_edge r e)"] show ?case
    unfolding spread_pass_Cons by blast
qed (auto simp: spread_pass_def)

lemma spread_pass_same:
  assumes "spread_pass edges r = r" "(p, s) \<in> set edges" "p \<in> set r"
  shows "s \<in> set r"
  using assms
proof (induction edges arbitrary: r)
  case (Cons e edges)
  obtain new where new: "spread_pass edges (spread_edge r e) = spread_edge r e @ new"
    using spread_pass_grows by blast
  have same: "spread_edge r e = r" using Cons.prems(1) new
    by (auto simp: spread_pass_Cons spread_edge_def split: if_splits)
  with Cons show ?case by (auto simp: spread_pass_Cons spread_edge_def split: if_splits)
qed simp

text \<open>The loop computes the tasks reachable along the edges.\<close>

lemma spread_pass_stable: "length (spread_pass edges r) = length r \<Longrightarrow> spread_pass edges r = r"
  using spread_pass_grows [of edges r] by auto

theorem set_spread: "set (spread edges r) = (set edges)\<^sup>* `` set r"
proof (induction edges r rule: spread.induct)
  case (1 edges reached)
  show ?case
  proof (cases "length (spread_pass edges reached) = length reached")
    case True
    note same = spread_pass_same [OF spread_pass_stable [OF True]]
    have "y \<in> set reached" if "(x, y) \<in> (set edges)\<^sup>*" "x \<in> set reached" for x y
      using that by (induction rule: rtrancl_induct) (auto intro: same)
    then show ?thesis using True by (subst spread.simps) (auto simp: Let_def)
  next
    case False
    have "set reached \<subseteq> set (spread_pass edges reached)" using spread_pass_grows [of edges reached] by auto
    then have "(set edges)\<^sup>* `` set (spread_pass edges reached) = (set edges)\<^sup>* `` set reached"
      by (intro equalityI rtrancl_Image_closed spread_pass_reach Image_mono) auto
    with 1 [OF refl False] False show ?thesis by (subst spread.simps) (simp add: Let_def)
  qed
qed

end
