(* ===== verification/Evaluation_Input.thy ===== *)
theory Evaluation_Input
  imports Evidence_Checks
begin

text \<open>
  planning/evaluation_input.py: the immutable evidence of one planning evaluation. The company's active
  commitments, the tasks and assignments they rest on, the commitments an unavailable worker strikes
  directly and those behind them along the dependency edges, with the constructor checks that tie the
  parts together, the semantic document and its SHA-256 fingerprint (the parameter \<open>sha256\<close>).
\<close>

section \<open>Values\<close>

datatype M3ImpactOutcome = NO_LINKED_COMMITMENTS | NO_REPLAN_REQUIRED | REPLAN_REQUIRED | INSUFFICIENT_INFORMATION

fun M3ImpactOutcome_value :: "M3ImpactOutcome \<Rightarrow> string" where
  "M3ImpactOutcome_value NO_LINKED_COMMITMENTS = ''NO_LINKED_COMMITMENTS''"
| "M3ImpactOutcome_value NO_REPLAN_REQUIRED = ''NO_REPLAN_REQUIRED''"
| "M3ImpactOutcome_value REPLAN_REQUIRED = ''REPLAN_REQUIRED''"
| "M3ImpactOutcome_value INSUFFICIENT_INFORMATION = ''INSUFFICIENT_INFORMATION''"

definition M3ImpactOutcome_members :: "M3ImpactOutcome list" where
  "M3ImpactOutcome_members = [NO_LINKED_COMMITMENTS, NO_REPLAN_REQUIRED, REPLAN_REQUIRED, INSUFFICIENT_INFORMATION]"

record HistoricalJobRootEvidence =
  hj_job_id :: string
  hj_revision :: int
  hj_content_sha256 :: string

record HistoricalAssignmentEvidence =
  ha_assignment_id :: string
  ha_job_id :: string
  ha_task_id :: string
  ha_task_definition_version :: string
  ha_assignment_kind :: AssignmentKind
  ha_member_worker_ids :: "string list"
  ha_plan_day_ids :: "string list"
  ha_lead_worker_id :: "string option"
  ha_released_worker_ids :: "string list"
  ha_supersedes_assignment_id :: "string option"
  ha_task_status :: TaskStatus
  ha_task_source_handoff_id :: string
  ha_task_source_revision :: int
  ha_supersedes_task_id :: "string option"
  ha_job_execution_revision :: int
  ha_job_root_sha256 :: string

record HistoricalSourceScope =
  hs_request_fingerprint :: string
  hs_input_namespace :: string
  hs_event_id :: string
  hs_server_event_id :: string
  hs_input_payload_sha256 :: string
  hs_reduction_proof_sha256 :: string
  hs_effect_ordinal :: int
  hs_effect_sha256 :: string
  hs_historical_plan_result_sha256 :: string
  hs_assignments :: "HistoricalAssignmentEvidence list"
  hs_job_roots :: "HistoricalJobRootEvidence list"

record PlanDayAssociationEvidence =
  pe_plan_day_id :: string
  pe_worker_id :: string
  pe_business_date :: int

record CurrentCommitmentEvidence =
  cv_commitment_id :: string
  cv_job_id :: string
  cv_task_id :: string
  cv_task_definition_version :: string
  cv_source_handoff_id :: string
  cv_source_revision :: int
  cv_source_handoff_sha256 :: string
  cv_business_date :: int
  cv_planned_worker_ids :: "string list"
  cv_source_m2_assignment_ids :: "string list"

record CurrentM2TaskPrecondition =
  tp_job_id :: string
  tp_job_execution_revision :: int
  tp_job_root_sha256 :: string
  tp_task_id :: string
  tp_task_definition_version :: string
  tp_task_route_sha256 :: string
  tp_source_handoff_id :: string
  tp_source_revision :: int
  tp_task_status :: TaskStatus

record CurrentM2AssignmentPrecondition =
  ap_assignment_id :: string
  ap_job_id :: string
  ap_task_id :: string
  ap_assignment_route_sha256 :: string
  ap_plan_day_ids :: "string list"

record DependencyEvidence =
  de_predecessor_task_id :: string
  de_successor_task_id :: string
  de_relation :: string
  de_provenance_reference :: string

record ImpactCommitmentReference =
  ir_commitment_id :: string
  ir_job_id :: string
  ir_task_id :: string

record DependencyImpactReference =
  di_commitment_id :: string
  di_job_id :: string
  di_task_id :: string
  di_originating_direct_task_ids :: "string list"

record DirectCurrentImpactScope =
  dx_m3a_evaluation_id :: string
  dx_m3a_evaluation_fingerprint :: string
  dx_outcome :: M3ImpactOutcome
  dx_commitments :: "ImpactCommitmentReference list"

record DependencyImpactScope =
  dn_edges :: "DependencyEvidence list"
  dn_commitments :: "DependencyImpactReference list"

record CandidateInducedImpactScope =
  cd_status :: string
  cd_candidate_fingerprint :: "string option"
  cd_commitments :: "ImpactCommitmentReference list"

record M3EvaluationInput =
  ei_historical_source_scope :: HistoricalSourceScope
  ei_company_plan_id :: string
  ei_base_plan_revision :: int
  ei_base_plan_revision_id :: string
  ei_base_plan_revision_fingerprint :: string
  ei_current_planning_scope_fingerprint :: string
  ei_unavailable_worker_id :: string
  ei_business_date :: int
  ei_plan_day_id :: string
  ei_plan_day_associations :: "PlanDayAssociationEvidence list"
  ei_current_active_commitments :: "CurrentCommitmentEvidence list"
  ei_current_m2_task_preconditions :: "CurrentM2TaskPrecondition list"
  ei_current_m2_assignment_preconditions :: "CurrentM2AssignmentPrecondition list"
  ei_direct_current_impact :: DirectCurrentImpactScope
  ei_dependency_impact :: DependencyImpactScope
  ei_candidate_induced_impact :: CandidateInducedImpactScope

section \<open>Constructor checks\<close>

definition HistoricalJobRootEvidence_init :: "HistoricalJobRootEvidence \<Rightarrow> HistoricalJobRootEvidence result" where
  "HistoricalJobRootEvidence_init x =
     and_then (check_identity (hj_job_id x) ''historical_job_id'') (\<lambda>_.
     and_then (check_revision (hj_revision x) ''historical_job_revision'') (\<lambda>_.
     and_then (check_digest (hj_content_sha256 x) ''historical_job_sha256'') (\<lambda>_. Inr x)))"

definition HistoricalAssignmentEvidence_init :: "HistoricalAssignmentEvidence \<Rightarrow> HistoricalAssignmentEvidence result" where
  "HistoricalAssignmentEvidence_init x =
     and_then (check_identity (ha_assignment_id x) ''assignment_id'') (\<lambda>_.
     and_then (check_identity (ha_job_id x) ''job_id'') (\<lambda>_.
     and_then (check_identity (ha_task_id x) ''task_id'') (\<lambda>_.
     and_then (check_identity (ha_task_definition_version x) ''task_definition_version'') (\<lambda>_.
     and_then (check_identity (ha_task_source_handoff_id x) ''task_source_handoff_id'') (\<lambda>_.
     and_then (canonical_identities (ha_member_worker_ids x) ''member_worker_ids'') (\<lambda>members.
     and_then (canonical_identities (ha_plan_day_ids x) ''plan_day_ids'') (\<lambda>days.
     and_then (canonical_identities (ha_released_worker_ids x) ''released_worker_ids'') (\<lambda>released.
     and_then (check_optional_identity (ha_lead_worker_id x) ''lead_worker_id'') (\<lambda>_.
     and_then (check_optional_identity (ha_supersedes_assignment_id x) ''supersedes_assignment_id'') (\<lambda>_.
     and_then (check_optional_identity (ha_supersedes_task_id x) ''supersedes_task_id'') (\<lambda>_.
     and_then (check_revision (ha_task_source_revision x) ''task_source_revision'') (\<lambda>_.
     and_then (check_value (0 < ha_task_source_revision x) ''task_source_revision'') (\<lambda>_.
     and_then (check_revision (ha_job_execution_revision x) ''historical_job_execution_revision'') (\<lambda>_.
     and_then (check_digest (ha_job_root_sha256 x) ''historical_job_root_sha256'') (\<lambda>_.
     Inr (x\<lparr>ha_member_worker_ids := members, ha_plan_day_ids := days, ha_released_worker_ids := released\<rparr>))))))))))))))))"

definition HistoricalSourceScope_init :: "HistoricalSourceScope \<Rightarrow> HistoricalSourceScope result" where
  "HistoricalSourceScope_init x =
     and_then (check_digest (hs_request_fingerprint x) ''request_fingerprint'') (\<lambda>_.
     and_then (check_identity (hs_input_namespace x) ''input_namespace'') (\<lambda>_.
     and_then (check_identity (hs_event_id x) ''event_id'') (\<lambda>_.
     and_then (check_identity (hs_server_event_id x) ''server_event_id'') (\<lambda>_.
     and_then (check_digest (hs_input_payload_sha256 x) ''input_payload_sha256'') (\<lambda>_.
     and_then (check_digest (hs_reduction_proof_sha256 x) ''reduction_proof_sha256'') (\<lambda>_.
     and_then (check_digest (hs_effect_sha256 x) ''effect_sha256'') (\<lambda>_.
     and_then (check_digest (hs_historical_plan_result_sha256 x) ''historical_plan_result_sha256'') (\<lambda>_.
     and_then (check_revision (hs_effect_ordinal x) ''effect_ordinal'') (\<lambda>_.
     and_then (canonical_records HistoricalAssignmentEvidence_init
        (\<lambda>a. (ha_job_id a, ha_task_id a, ha_assignment_id a)) ''historical_assignments'' (hs_assignments x)) (\<lambda>assignments.
     and_then (canonical_records HistoricalJobRootEvidence_init hj_job_id ''historical_job_roots'' (hs_job_roots x)) (\<lambda>roots.
     and_then (check_value (ha_job_id ` set assignments = hj_job_id ` set roots) ''historical_scope'') (\<lambda>_.
     Inr (x\<lparr>hs_assignments := assignments, hs_job_roots := roots\<rparr>)))))))))))))"

definition PlanDayAssociationEvidence_init :: "PlanDayAssociationEvidence \<Rightarrow> PlanDayAssociationEvidence result" where
  "PlanDayAssociationEvidence_init x =
     and_then (check_identity (pe_plan_day_id x) ''plan_day_id'') (\<lambda>_.
     and_then (check_identity (pe_worker_id x) ''worker_id'') (\<lambda>_. Inr x))"

definition CurrentCommitmentEvidence_init :: "CurrentCommitmentEvidence \<Rightarrow> CurrentCommitmentEvidence result" where
  "CurrentCommitmentEvidence_init x =
     and_then (check_identity (cv_commitment_id x) ''commitment_id'') (\<lambda>_.
     and_then (check_identity (cv_job_id x) ''job_id'') (\<lambda>_.
     and_then (check_identity (cv_task_id x) ''task_id'') (\<lambda>_.
     and_then (check_identity (cv_task_definition_version x) ''task_definition_version'') (\<lambda>_.
     and_then (check_identity (cv_source_handoff_id x) ''source_handoff_id'') (\<lambda>_.
     and_then (check_revision (cv_source_revision x) ''source_revision'') (\<lambda>_.
     and_then (check_value (0 < cv_source_revision x) ''source_revision'') (\<lambda>_.
     and_then (check_digest (cv_source_handoff_sha256 x) ''source_handoff_sha256'') (\<lambda>_.
     and_then (canonical_identities (cv_planned_worker_ids x) ''planned_worker_ids'') (\<lambda>workers.
     and_then (canonical_identities (cv_source_m2_assignment_ids x) ''source_m2_assignment_ids'') (\<lambda>assignments.
     Inr (x\<lparr>cv_planned_worker_ids := workers, cv_source_m2_assignment_ids := assignments\<rparr>)))))))))))"

definition CurrentM2TaskPrecondition_init :: "CurrentM2TaskPrecondition \<Rightarrow> CurrentM2TaskPrecondition result" where
  "CurrentM2TaskPrecondition_init x =
     and_then (check_identity (tp_job_id x) ''job_id'') (\<lambda>_.
     and_then (check_identity (tp_task_id x) ''task_id'') (\<lambda>_.
     and_then (check_identity (tp_task_definition_version x) ''task_definition_version'') (\<lambda>_.
     and_then (check_identity (tp_source_handoff_id x) ''source_handoff_id'') (\<lambda>_.
     and_then (check_revision (tp_job_execution_revision x) ''job_execution_revision'') (\<lambda>_.
     and_then (check_digest (tp_job_root_sha256 x) ''job_root_sha256'') (\<lambda>_.
     and_then (check_digest (tp_task_route_sha256 x) ''task_route_sha256'') (\<lambda>_.
     and_then (check_revision (tp_source_revision x) ''source_revision'') (\<lambda>_.
     and_then (check_value (0 < tp_source_revision x) ''source_revision'') (\<lambda>_. Inr x)))))))))"

definition CurrentM2AssignmentPrecondition_init :: "CurrentM2AssignmentPrecondition \<Rightarrow> CurrentM2AssignmentPrecondition result" where
  "CurrentM2AssignmentPrecondition_init x =
     and_then (check_identity (ap_assignment_id x) ''assignment_id'') (\<lambda>_.
     and_then (check_identity (ap_job_id x) ''job_id'') (\<lambda>_.
     and_then (check_identity (ap_task_id x) ''task_id'') (\<lambda>_.
     and_then (check_digest (ap_assignment_route_sha256 x) ''assignment_route_sha256'') (\<lambda>_.
     and_then (canonical_identities (ap_plan_day_ids x) ''assignment_plan_day_ids'') (\<lambda>days.
     Inr (x\<lparr>ap_plan_day_ids := days\<rparr>))))))"

definition DependencyEvidence_init :: "DependencyEvidence \<Rightarrow> DependencyEvidence result" where
  "DependencyEvidence_init x =
     and_then (check_identity (de_predecessor_task_id x) ''predecessor_task_id'') (\<lambda>_.
     and_then (check_identity (de_successor_task_id x) ''successor_task_id'') (\<lambda>_.
     and_then (check_identity (de_relation x) ''relation'') (\<lambda>_.
     and_then (check_identity (de_provenance_reference x) ''provenance_reference'') (\<lambda>_.
     and_then (check_value (de_relation x = ''FINISH_BEFORE_START'') ''dependency_relation'') (\<lambda>_.
     and_then (check_value (de_predecessor_task_id x \<noteq> de_successor_task_id x) ''dependency_self_edge'') (\<lambda>_. Inr x))))))"

definition ImpactCommitmentReference_init :: "ImpactCommitmentReference \<Rightarrow> ImpactCommitmentReference result" where
  "ImpactCommitmentReference_init x =
     and_then (check_identity (ir_commitment_id x) ''commitment_id'') (\<lambda>_.
     and_then (check_identity (ir_job_id x) ''job_id'') (\<lambda>_.
     and_then (check_identity (ir_task_id x) ''task_id'') (\<lambda>_. Inr x)))"

definition DependencyImpactReference_init :: "DependencyImpactReference \<Rightarrow> DependencyImpactReference result" where
  "DependencyImpactReference_init x =
     and_then (check_identity (di_commitment_id x) ''commitment_id'') (\<lambda>_.
     and_then (check_identity (di_job_id x) ''job_id'') (\<lambda>_.
     and_then (check_identity (di_task_id x) ''task_id'') (\<lambda>_.
     and_then (canonical_identities (di_originating_direct_task_ids x) ''originating_direct_task_ids'') (\<lambda>origins.
     and_then (check_value (origins \<noteq> []) ''originating_direct_task_ids'') (\<lambda>_.
     Inr (x\<lparr>di_originating_direct_task_ids := origins\<rparr>))))))"

definition ir_key :: "ImpactCommitmentReference \<Rightarrow> string \<times> string \<times> string" where
  "ir_key r = (ir_job_id r, ir_task_id r, ir_commitment_id r)"

definition di_key :: "DependencyImpactReference \<Rightarrow> string \<times> string \<times> string" where
  "di_key r = (di_job_id r, di_task_id r, di_commitment_id r)"

definition cv_key :: "CurrentCommitmentEvidence \<Rightarrow> string \<times> string \<times> string" where
  "cv_key c = (cv_job_id c, cv_task_id c, cv_commitment_id c)"

definition DirectCurrentImpactScope_init :: "DirectCurrentImpactScope \<Rightarrow> DirectCurrentImpactScope result" where
  "DirectCurrentImpactScope_init x =
     and_then (check_identity (dx_m3a_evaluation_id x) ''m3a_evaluation_id'') (\<lambda>_.
     and_then (check_digest (dx_m3a_evaluation_fingerprint x) ''m3a_evaluation_fingerprint'') (\<lambda>_.
     and_then (canonical_records ImpactCommitmentReference_init ir_key ''direct_current_impact'' (dx_commitments x)) (\<lambda>cs.
     Inr (x\<lparr>dx_commitments := cs\<rparr>))))"

definition DependencyImpactScope_init :: "DependencyImpactScope \<Rightarrow> DependencyImpactScope result" where
  "DependencyImpactScope_init x =
     and_then (canonical_records DependencyEvidence_init (\<lambda>e. (de_predecessor_task_id e, de_successor_task_id e))
        ''dependency_edges'' (dn_edges x)) (\<lambda>edges.
     and_then (canonical_records DependencyImpactReference_init di_key ''dependency_impact'' (dn_commitments x)) (\<lambda>cs.
     Inr (x\<lparr>dn_edges := edges, dn_commitments := cs\<rparr>)))"

definition CANDIDATE_ABSENCE :: string where
  "CANDIDATE_ABSENCE = ''NO_CANDIDATE_PROVIDED''"

definition CandidateInducedImpactScope_init :: "CandidateInducedImpactScope \<Rightarrow> CandidateInducedImpactScope result" where
  "CandidateInducedImpactScope_init x =
     and_then (check_value (cd_status x = CANDIDATE_ABSENCE) ''candidate_status'') (\<lambda>_.
     and_then (check_value (cd_candidate_fingerprint x = None) ''candidate_fingerprint'') (\<lambda>_.
     and_then (check_value (cd_commitments x = []) ''candidate_commitments'') (\<lambda>_. Inr (x\<lparr>cd_commitments := []\<rparr>))))"

section \<open>The evaluation input\<close>

text \<open>
  The breadth-first search of \<open>dependency_impact_path\<close>: it stops when the impacted task is visited or
  nothing is pending; the successors of a task are taken in order.
\<close>

definition successors :: "(string \<times> string) list \<Rightarrow> string \<Rightarrow> string list" where
  "successors edges p = sorted_set (map snd (filter (\<lambda>e. fst e = p) edges))"

definition edge_pairs :: "DependencyEvidence list \<Rightarrow> (string \<times> string) list" where
  "edge_pairs edges = map (\<lambda>e. (de_predecessor_task_id e, de_successor_task_id e)) edges"

function path_search :: "(string \<times> string) list \<Rightarrow> string \<Rightarrow> string list \<Rightarrow> string list \<Rightarrow> string list" where
  "path_search edges target pending visited =
     (case pending of
        [] \<Rightarrow> visited
      | p # rest \<Rightarrow>
          if target \<in> set visited then visited
          else let new = filter (\<lambda>s. s \<notin> set visited) (successors edges p)
               in path_search edges target (rest @ new) (visited @ new))"
  by pat_completeness auto
termination
proof (relation "measures [\<lambda>(edges, _, _, visited). card (snd ` set edges - set visited), \<lambda>(_, _, pending, _). length pending]", goal_cases)
  case (2 edges target pending visited p rest x)
  have sub: "set x \<subseteq> snd ` set edges - set visited" using 2(3) by (auto simp: successors_def)
  show ?case
  proof (cases "x = []")
    case True
    then show ?thesis using 2(1) by simp
  next
    case False
    then have "snd ` set edges - set (visited @ x) \<subset> snd ` set edges - set visited"
      using sub by (cases x) auto
    then show ?thesis by (simp add: psubset_card_mono)
  qed
qed simp

declare path_search.simps [simp del]

definition check_origin :: "(string \<times> string) list \<Rightarrow> string \<Rightarrow> string \<Rightarrow> unit result" where
  "check_origin edges target origin =
     check_value (target \<in> set (path_search edges target [origin] [origin])) ''dependency_impact_path''"

definition check_impact :: "(string \<times> string) list \<Rightarrow> string set \<Rightarrow> DependencyImpactReference \<Rightarrow> unit result" where
  "check_impact edges direct r =
     and_then (check_value (set (di_originating_direct_task_ids r) \<subseteq> direct) ''dependency_impact_origin'') (\<lambda>_.
     check_all (check_origin edges (di_task_id r)) (di_originating_direct_task_ids r))"

definition check_commitment ::
    "CurrentM2TaskPrecondition list \<Rightarrow> CurrentM2AssignmentPrecondition list \<Rightarrow> PlanDayAssociationEvidence list \<Rightarrow>
     CurrentCommitmentEvidence \<Rightarrow> unit result" where
  "check_commitment ts asg days c =
     and_then (case dict_by (\<lambda>t. (tp_job_id t, tp_task_id t)) ts (cv_job_id c, cv_task_id c) of
         None \<Rightarrow> Inl KeyError
       | Some t \<Rightarrow> check_value
           (tp_task_definition_version t = cv_task_definition_version c \<and> tp_source_handoff_id t = cv_source_handoff_id c \<and>
            tp_source_revision t = cv_source_revision c) ''current_task_binding'') (\<lambda>_.
     and_then (check_value (\<forall>w\<in>set (cv_planned_worker_ids c). \<exists>d\<in>set days. pe_worker_id d = w \<and> pe_business_date d = cv_business_date c)
         ''current_commitment_worker_day'') (\<lambda>_.
     check_all (\<lambda>i. check_value
         (case dict_by ap_assignment_id asg i of
            None \<Rightarrow> False
          | Some a \<Rightarrow> ap_job_id a = cv_job_id c \<and> ap_task_id a = cv_task_id c) ''current_assignment_binding'')
       (cv_source_m2_assignment_ids c)))"

definition M3EvaluationInput_init :: "M3EvaluationInput \<Rightarrow> M3EvaluationInput result" where
  "M3EvaluationInput_init x =
     and_then (check_record HistoricalSourceScope_init ''historical_source_scope'' (ei_historical_source_scope x)) (\<lambda>_.
     and_then (check_identity (ei_company_plan_id x) ''company_plan_id'') (\<lambda>_.
     and_then (check_revision (ei_base_plan_revision x) ''base_plan_revision'') (\<lambda>_.
     and_then (check_identity (ei_base_plan_revision_id x) ''base_plan_revision_id'') (\<lambda>_.
     and_then (check_digest (ei_base_plan_revision_fingerprint x) ''base_plan_revision_fingerprint'') (\<lambda>_.
     and_then (check_digest (ei_current_planning_scope_fingerprint x) ''current_planning_scope_fingerprint'') (\<lambda>_.
     and_then (check_value (ei_base_plan_revision_id x = ''m3-plan-revision-'' @ ei_base_plan_revision_fingerprint x)
        ''base_plan_revision_identity'') (\<lambda>_.
     and_then (check_identity (ei_unavailable_worker_id x) ''unavailable_worker_id'') (\<lambda>_.
     and_then (check_identity (ei_plan_day_id x) ''plan_day_id'') (\<lambda>_.
     and_then (canonical_records PlanDayAssociationEvidence_init pe_plan_day_id ''plan_day_associations'' (ei_plan_day_associations x)) (\<lambda>days.
     and_then (canonical_records CurrentCommitmentEvidence_init cv_key ''current_active_commitments'' (ei_current_active_commitments x)) (\<lambda>commitments.
     and_then (canonical_records CurrentM2TaskPrecondition_init (\<lambda>t. (tp_job_id t, tp_task_id t))
        ''current_m2_task_preconditions'' (ei_current_m2_task_preconditions x)) (\<lambda>tasks.
     and_then (canonical_records CurrentM2AssignmentPrecondition_init ap_assignment_id
        ''current_m2_assignment_preconditions'' (ei_current_m2_assignment_preconditions x)) (\<lambda>assignments.
     and_then (check_record DirectCurrentImpactScope_init ''direct_current_impact'' (ei_direct_current_impact x)) (\<lambda>_.
     and_then (check_record DependencyImpactScope_init ''dependency_impact'' (ei_dependency_impact x)) (\<lambda>_.
     and_then (check_record CandidateInducedImpactScope_init ''candidate_induced_impact'' (ei_candidate_induced_impact x)) (\<lambda>_.
     and_then (check_value (\<exists>d\<in>set days. pe_plan_day_id d = ei_plan_day_id x \<and> pe_worker_id d = ei_unavailable_worker_id x \<and>
        pe_business_date d = ei_business_date x) ''plan_day_association'') (\<lambda>_.
     let active = (\<lambda>c. (cv_job_id c, cv_task_id c)) ` set commitments in
     and_then (check_value (active \<subseteq> (\<lambda>t. (tp_job_id t, tp_task_id t)) ` set tasks) ''current_task_preconditions'') (\<lambda>_.
     and_then (check_value (\<forall>t\<in>set tasks. (tp_job_id t, tp_task_id t) \<in> active \<longrightarrow> tp_task_status t \<noteq> TaskStatus.DONE)
        ''active_done_task'') (\<lambda>_.
     and_then (check_all (check_commitment tasks assignments days) commitments) (\<lambda>_.
     let refs = cv_key ` set commitments;
         direct = dx_commitments (ei_direct_current_impact x);
         direct_refs = ir_key ` set direct;
         impacted = dn_commitments (ei_dependency_impact x);
         dependency_refs = di_key ` set impacted;
         fingerprint = dx_m3a_evaluation_fingerprint (ei_direct_current_impact x);
         outcome = dx_outcome (ei_direct_current_impact x) in
     and_then (check_value (direct_refs \<subseteq> refs \<and> dependency_refs \<subseteq> refs) ''impact_commitments'') (\<lambda>_.
     and_then (check_value (direct_refs \<inter> dependency_refs = {}) ''impact_scope_overlap'') (\<lambda>_.
     and_then (check_value (dx_m3a_evaluation_id (ei_direct_current_impact x) = ''m3-impact-'' @ fingerprint)
        ''m3a_evaluation_identity'') (\<lambda>_.
     and_then (check_value ((direct \<noteq> [] \<and> outcome = REPLAN_REQUIRED) \<or>
        (direct = [] \<and> (outcome = NO_LINKED_COMMITMENTS \<or> outcome = NO_REPLAN_REQUIRED))) ''direct_impact_outcome'') (\<lambda>_.
     and_then (check_value (\<forall>c\<in>set commitments. cv_key c \<in> direct_refs \<longrightarrow> ei_unavailable_worker_id x \<in> set (cv_planned_worker_ids c))
        ''direct_worker_binding'') (\<lambda>_.
     and_then (check_all (check_impact (edge_pairs (dn_edges (ei_dependency_impact x))) (ir_task_id ` set direct)) impacted) (\<lambda>_.
     Inr (x\<lparr>ei_plan_day_associations := days, ei_current_active_commitments := commitments,
            ei_current_m2_task_preconditions := tasks, ei_current_m2_assignment_preconditions := assignments\<rparr>)))))))))))))))))))))))))))"

section \<open>Documents\<close>

definition historical_root_payload :: "HistoricalJobRootEvidence \<Rightarrow> json" where
  "historical_root_payload x = JObject
     [(''content_sha256'', JString (hj_content_sha256 x)), (''job_id'', JString (hj_job_id x)),
      (''revision'', JInt (hj_revision x))]"

definition historical_assignment_payload :: "HistoricalAssignmentEvidence \<Rightarrow> json" where
  "historical_assignment_payload x = JObject
     [(''assignment_id'', JString (ha_assignment_id x)),
      (''assignment_kind'', JString (AssignmentKind_value (ha_assignment_kind x))),
      (''job_execution_revision'', JInt (ha_job_execution_revision x)), (''job_id'', JString (ha_job_id x)),
      (''job_root_sha256'', JString (ha_job_root_sha256 x)),
      (''lead_worker_id'', json_option JString (ha_lead_worker_id x)),
      (''member_worker_ids'', json_strings (ha_member_worker_ids x)),
      (''plan_day_ids'', json_strings (ha_plan_day_ids x)),
      (''released_worker_ids'', json_strings (ha_released_worker_ids x)),
      (''supersedes_assignment_id'', json_option JString (ha_supersedes_assignment_id x)),
      (''supersedes_task_id'', json_option JString (ha_supersedes_task_id x)),
      (''task_definition_version'', JString (ha_task_definition_version x)),
      (''task_id'', JString (ha_task_id x)),
      (''task_source_handoff_id'', JString (ha_task_source_handoff_id x)),
      (''task_source_revision'', JInt (ha_task_source_revision x)),
      (''task_status'', JString (TaskStatus_value (ha_task_status x)))]"

definition historical_scope_payload :: "HistoricalSourceScope \<Rightarrow> json" where
  "historical_scope_payload x = JObject
     [(''assignments'', json_list historical_assignment_payload (hs_assignments x)),
      (''effect_ordinal'', JInt (hs_effect_ordinal x)), (''effect_sha256'', JString (hs_effect_sha256 x)),
      (''event_id'', JString (hs_event_id x)),
      (''historical_plan_result_sha256'', JString (hs_historical_plan_result_sha256 x)),
      (''input_namespace'', JString (hs_input_namespace x)),
      (''input_payload_sha256'', JString (hs_input_payload_sha256 x)),
      (''job_roots'', json_list historical_root_payload (hs_job_roots x)),
      (''reduction_proof_sha256'', JString (hs_reduction_proof_sha256 x)),
      (''request_fingerprint'', JString (hs_request_fingerprint x)),
      (''server_event_id'', JString (hs_server_event_id x))]"

definition day_association_payload :: "calendar \<Rightarrow> PlanDayAssociationEvidence \<Rightarrow> json" where
  "day_association_payload cal x = JObject
     [(''business_date'', JString (date_text cal (pe_business_date x))),
      (''plan_day_id'', JString (pe_plan_day_id x)), (''worker_id'', JString (pe_worker_id x))]"

definition commitment_evidence_payload :: "calendar \<Rightarrow> CurrentCommitmentEvidence \<Rightarrow> json" where
  "commitment_evidence_payload cal x = JObject
     [(''business_date'', JString (date_text cal (cv_business_date x))),
      (''commitment_id'', JString (cv_commitment_id x)), (''job_id'', JString (cv_job_id x)),
      (''planned_worker_ids'', json_strings (cv_planned_worker_ids x)),
      (''source_handoff_id'', JString (cv_source_handoff_id x)),
      (''source_handoff_sha256'', JString (cv_source_handoff_sha256 x)),
      (''source_m2_assignment_ids'', json_strings (cv_source_m2_assignment_ids x)),
      (''source_revision'', JInt (cv_source_revision x)),
      (''task_definition_version'', JString (cv_task_definition_version x)),
      (''task_id'', JString (cv_task_id x))]"

definition task_precondition_payload :: "CurrentM2TaskPrecondition \<Rightarrow> json" where
  "task_precondition_payload x = JObject
     [(''job_execution_revision'', JInt (tp_job_execution_revision x)), (''job_id'', JString (tp_job_id x)),
      (''job_root_sha256'', JString (tp_job_root_sha256 x)),
      (''source_handoff_id'', JString (tp_source_handoff_id x)),
      (''source_revision'', JInt (tp_source_revision x)),
      (''task_definition_version'', JString (tp_task_definition_version x)),
      (''task_id'', JString (tp_task_id x)), (''task_route_sha256'', JString (tp_task_route_sha256 x)),
      (''task_status'', JString (TaskStatus_value (tp_task_status x)))]"

definition assignment_precondition_payload :: "CurrentM2AssignmentPrecondition \<Rightarrow> json" where
  "assignment_precondition_payload x = JObject
     [(''assignment_id'', JString (ap_assignment_id x)),
      (''assignment_route_sha256'', JString (ap_assignment_route_sha256 x)),
      (''job_id'', JString (ap_job_id x)), (''plan_day_ids'', json_strings (ap_plan_day_ids x)),
      (''task_id'', JString (ap_task_id x))]"

definition dependency_evidence_payload :: "DependencyEvidence \<Rightarrow> json" where
  "dependency_evidence_payload x = JObject
     [(''predecessor_task_id'', JString (de_predecessor_task_id x)),
      (''provenance_reference'', JString (de_provenance_reference x)),
      (''relation'', JString (de_relation x)), (''successor_task_id'', JString (de_successor_task_id x))]"

definition impact_reference_payload :: "ImpactCommitmentReference \<Rightarrow> json" where
  "impact_reference_payload x = JObject
     [(''commitment_id'', JString (ir_commitment_id x)), (''job_id'', JString (ir_job_id x)),
      (''task_id'', JString (ir_task_id x))]"

definition dependency_reference_payload :: "DependencyImpactReference \<Rightarrow> json" where
  "dependency_reference_payload x = JObject
     [(''commitment_id'', JString (di_commitment_id x)), (''job_id'', JString (di_job_id x)),
      (''originating_direct_task_ids'', json_strings (di_originating_direct_task_ids x)),
      (''task_id'', JString (di_task_id x))]"

definition direct_scope_payload :: "DirectCurrentImpactScope \<Rightarrow> json" where
  "direct_scope_payload x = JObject
     [(''commitments'', json_list impact_reference_payload (dx_commitments x)),
      (''m3a_evaluation_fingerprint'', JString (dx_m3a_evaluation_fingerprint x)),
      (''m3a_evaluation_id'', JString (dx_m3a_evaluation_id x)),
      (''outcome'', JString (M3ImpactOutcome_value (dx_outcome x)))]"

definition dependency_scope_payload :: "DependencyImpactScope \<Rightarrow> json" where
  "dependency_scope_payload x = JObject
     [(''commitments'', json_list dependency_reference_payload (dn_commitments x)),
      (''edges'', json_list dependency_evidence_payload (dn_edges x))]"

definition candidate_scope_payload :: "CandidateInducedImpactScope \<Rightarrow> json" where
  "candidate_scope_payload x = JObject
     [(''candidate_fingerprint'', json_option JString (cd_candidate_fingerprint x)),
      (''commitments'', json_list impact_reference_payload (cd_commitments x)),
      (''status'', JString (cd_status x))]"

definition semantic_payload :: "calendar \<Rightarrow> M3EvaluationInput \<Rightarrow> json" where
  "semantic_payload cal x = JObject
     [(''base_plan_revision'', JInt (ei_base_plan_revision x)),
      (''base_plan_revision_fingerprint'', JString (ei_base_plan_revision_fingerprint x)),
      (''base_plan_revision_id'', JString (ei_base_plan_revision_id x)),
      (''business_date'', JString (date_text cal (ei_business_date x))),
      (''candidate_induced_impact'', candidate_scope_payload (ei_candidate_induced_impact x)),
      (''company_plan_id'', JString (ei_company_plan_id x)),
      (''current_active_commitments'', json_list (commitment_evidence_payload cal) (ei_current_active_commitments x)),
      (''current_m2_assignment_preconditions'', json_list assignment_precondition_payload (ei_current_m2_assignment_preconditions x)),
      (''current_m2_task_preconditions'', json_list task_precondition_payload (ei_current_m2_task_preconditions x)),
      (''current_planning_scope_fingerprint'', JString (ei_current_planning_scope_fingerprint x)),
      (''dependency_impact'', dependency_scope_payload (ei_dependency_impact x)),
      (''direct_current_impact'', direct_scope_payload (ei_direct_current_impact x)),
      (''historical_source_scope'', historical_scope_payload (ei_historical_source_scope x)),
      (''plan_day_associations'', json_list (day_association_payload cal) (ei_plan_day_associations x)),
      (''plan_day_id'', JString (ei_plan_day_id x)),
      (''rule_version'', JString ''m3-unavailability-impact-analysis-v1''),
      (''schema_version'', JString ''m3-evaluation-input-v1''),
      (''unavailable_worker_id'', JString (ei_unavailable_worker_id x))]"

definition semantic_json :: "calendar \<Rightarrow> M3EvaluationInput \<Rightarrow> string" where
  "semantic_json cal x = canonical_json (semantic_payload cal x)"

definition evaluation_input_fingerprint :: "(string \<Rightarrow> string) \<Rightarrow> calendar \<Rightarrow> M3EvaluationInput \<Rightarrow> string" where
  "evaluation_input_fingerprint sha256 cal x = sha256 (semantic_json cal x)"

definition evaluation_input_id :: "(string \<Rightarrow> string) \<Rightarrow> calendar \<Rightarrow> M3EvaluationInput \<Rightarrow> string" where
  "evaluation_input_id sha256 cal x = ''m3-evaluation-input-'' @ evaluation_input_fingerprint sha256 cal x"

section \<open>What the checks establish\<close>

lemma set_successors: "set (successors edges p) = {s. (p, s) \<in> set edges}"
  by (force simp: successors_def)

lemma path_search_subset:
  "set pending \<subseteq> set visited \<Longrightarrow> set (path_search edges t pending visited) \<subseteq> (set edges)\<^sup>* `` set visited"
proof (induction edges t pending visited rule: path_search.induct)
  case (1 edges t pending visited)
  show ?case
  proof (cases "pending = [] \<or> t \<in> set visited")
    case True
    then show ?thesis by (subst path_search.simps) (cases pending, auto)
  next
    case False
    then obtain p rest where pending: "pending = p # rest" by (cases pending) auto
    let ?new = "filter (\<lambda>s. s \<notin> set visited) (successors edges p)"
    have step: "path_search edges t pending visited = path_search edges t (rest @ ?new) (visited @ ?new)"
      using False by (subst path_search.simps) (simp add: pending Let_def)
    have "set (visited @ ?new) \<subseteq> (set edges)\<^sup>* `` set visited"
    proof -
      have "set ?new \<subseteq> set edges `` set visited" using 1(2) by (auto simp: pending set_successors)
      also have "\<dots> \<subseteq> (set edges)\<^sup>* `` set visited" by (intro Image_mono) auto
      finally show ?thesis by auto
    qed
    moreover have "set (path_search edges t (rest @ ?new) (visited @ ?new)) \<subseteq> (set edges)\<^sup>* `` set (visited @ ?new)"
      by (rule 1(1) [OF pending _ refl]) (use False 1(2) in \<open>auto simp: pending\<close>)
    ultimately show ?thesis unfolding step by (blast dest: rtrancl_Image_closed)
  qed
qed

lemma path_search_complete:
  assumes "\<forall>x\<in>set visited - set pending. \<forall>y. (x, y) \<in> set edges \<longrightarrow> y \<in> set visited"
    "t \<in> (set edges)\<^sup>* `` set visited"
  shows "t \<in> set (path_search edges t pending visited)"
  using assms
proof (induction edges t pending visited rule: path_search.induct)
  case (1 edges t pending visited)
  show ?case
  proof (cases "t \<in> set visited")
    case True
    then show ?thesis by (subst path_search.simps) (auto split: list.splits)
  next
    case False
    show ?thesis
    proof (cases pending)
      case Nil
      have "y \<in> set visited" if "(x, y) \<in> (set edges)\<^sup>*" "x \<in> set visited" for x y
        using that by (induction rule: rtrancl_induct) (use 1(2) Nil in auto)
      with 1(3) False show ?thesis by auto
    next
      case (Cons p rest)
      let ?new = "filter (\<lambda>s. s \<notin> set visited) (successors edges p)"
      have step: "path_search edges t pending visited = path_search edges t (rest @ ?new) (visited @ ?new)"
        using False by (subst path_search.simps) (simp add: Cons Let_def)
      have "t \<in> set (path_search edges t (rest @ ?new) (visited @ ?new))"
      proof (rule 1(1) [OF Cons False refl])
        show "\<forall>x\<in>set (visited @ ?new) - set (rest @ ?new). \<forall>y. (x, y) \<in> set edges \<longrightarrow> y \<in> set (visited @ ?new)"
        proof (intro ballI allI impI)
          fix x y assume x: "x \<in> set (visited @ ?new) - set (rest @ ?new)" and e: "(x, y) \<in> set edges"
          then have "x \<in> set visited" "x \<notin> set rest" by auto
          then show "y \<in> set (visited @ ?new)"
          proof (cases "x = p")
            case True
            then show ?thesis using e by (auto simp: set_successors)
          next
            case other: False
            then have "x \<in> set visited - set pending" using \<open>x \<in> set visited\<close> \<open>x \<notin> set rest\<close> by (simp add: Cons)
            then show ?thesis using 1(2) e by (metis UnCI set_append)
          qed
        qed
        show "t \<in> (set edges)\<^sup>* `` set (visited @ ?new)" using 1(3) by auto
      qed
      then show ?thesis unfolding step .
    qed
  qed
qed

text \<open>The path check of the code is reachability along the dependency edges.\<close>

lemma check_origin_Inr [simp]: "check_origin edges target origin = Inr u \<longleftrightarrow> (origin, target) \<in> (set edges)\<^sup>*"
  using path_search_subset [of "[origin]" "[origin]" edges target] path_search_complete [of "[origin]" "[origin]" edges target]
  by (auto simp: check_origin_def)

lemma check_impact_Inr [simp]:
  "check_impact edges direct r = Inr u \<longleftrightarrow>
     set (di_originating_direct_task_ids r) \<subseteq> direct \<and>
     (\<forall>o'\<in>set (di_originating_direct_task_ids r). (o', di_task_id r) \<in> (set edges)\<^sup>*)"
  by (auto simp: check_impact_def)

end
