(* ===== verification/Evaluation_Documents.thy ===== *)
theory Evaluation_Documents
  imports Evaluation_Input
begin

text \<open>
  The documents of planning/evaluation_input.py: \<open>serialize_evaluation_input\<close>,
  \<open>deserialize_evaluation_input\<close>, \<open>restore_evaluation_input\<close>. A dictionary passed as keyword arguments
  must have exactly the fields of the class (\<open>keys_match\<close>; Python raises a \<open>TypeError\<close>). Every exception
  of a reader becomes the one storage error. What is read back is exactly what was stored.
\<close>

section \<open>Readers\<close>

definition historical_root_keys :: "string list" where
  "historical_root_keys =
    [''content_sha256'', ''job_id'', ''revision'']"

definition historical_root_of :: "string \<Rightarrow> json \<Rightarrow> HistoricalJobRootEvidence result" where
  "historical_root_of path v =
     and_then (mapping_of path v) (\<lambda>data.
     and_then (keys_match data historical_root_keys path) (\<lambda>_.
     and_then (field_of data path ''job_id'' string_of) (\<lambda>job_id.
     and_then (field_of data path ''revision'' integer_of) (\<lambda>revision.
     and_then (field_of data path ''content_sha256'' string_of) (\<lambda>content_sha256.
     HistoricalJobRootEvidence_init
       \<lparr>hj_job_id = job_id, hj_revision = revision, hj_content_sha256 = content_sha256\<rparr>)))))"

definition historical_assignment_keys :: "string list" where
  "historical_assignment_keys =
    [''assignment_id'', ''assignment_kind'', ''job_execution_revision'', ''job_id'', ''job_root_sha256'',
     ''lead_worker_id'', ''member_worker_ids'', ''plan_day_ids'', ''released_worker_ids'',
     ''supersedes_assignment_id'', ''supersedes_task_id'', ''task_definition_version'', ''task_id'',
     ''task_source_handoff_id'', ''task_source_revision'', ''task_status'']"

definition historical_assignment_of :: "string \<Rightarrow> json \<Rightarrow> HistoricalAssignmentEvidence result" where
  "historical_assignment_of path v =
     and_then (mapping_of path v) (\<lambda>data.
     and_then (keys_match data historical_assignment_keys path) (\<lambda>_.
     and_then (field_of data path ''assignment_id'' string_of) (\<lambda>assignment_id.
     and_then (field_of data path ''job_id'' string_of) (\<lambda>job_id.
     and_then (field_of data path ''task_id'' string_of) (\<lambda>task_id.
     and_then (field_of data path ''task_definition_version'' string_of) (\<lambda>task_definition_version.
     and_then (field_of data path ''assignment_kind'' (enum_of AssignmentKind_value AssignmentKind_members)) (\<lambda>assignment_kind.
     and_then (field_of data path ''member_worker_ids'' (items_of string_of)) (\<lambda>member_worker_ids.
     and_then (field_of data path ''plan_day_ids'' (items_of string_of)) (\<lambda>plan_day_ids.
     and_then (field_of data path ''lead_worker_id'' (optional_of string_of)) (\<lambda>lead_worker_id.
     and_then (field_of data path ''released_worker_ids'' (items_of string_of)) (\<lambda>released_worker_ids.
     and_then (field_of data path ''supersedes_assignment_id'' (optional_of string_of)) (\<lambda>supersedes_assignment_id.
     and_then (field_of data path ''task_status'' (enum_of TaskStatus_value TaskStatus_members)) (\<lambda>task_status.
     and_then (field_of data path ''task_source_handoff_id'' string_of) (\<lambda>task_source_handoff_id.
     and_then (field_of data path ''task_source_revision'' integer_of) (\<lambda>task_source_revision.
     and_then (field_of data path ''supersedes_task_id'' (optional_of string_of)) (\<lambda>supersedes_task_id.
     and_then (field_of data path ''job_execution_revision'' integer_of) (\<lambda>job_execution_revision.
     and_then (field_of data path ''job_root_sha256'' string_of) (\<lambda>job_root_sha256.
     HistoricalAssignmentEvidence_init
       \<lparr>ha_assignment_id = assignment_id, ha_job_id = job_id, ha_task_id = task_id,
        ha_task_definition_version = task_definition_version, ha_assignment_kind = assignment_kind,
        ha_member_worker_ids = member_worker_ids, ha_plan_day_ids = plan_day_ids,
        ha_lead_worker_id = lead_worker_id, ha_released_worker_ids = released_worker_ids,
        ha_supersedes_assignment_id = supersedes_assignment_id, ha_task_status = task_status,
        ha_task_source_handoff_id = task_source_handoff_id, ha_task_source_revision = task_source_revision,
        ha_supersedes_task_id = supersedes_task_id, ha_job_execution_revision = job_execution_revision,
        ha_job_root_sha256 = job_root_sha256\<rparr>))))))))))))))))))"

definition historical_scope_keys :: "string list" where
  "historical_scope_keys =
    [''assignments'', ''effect_ordinal'', ''effect_sha256'', ''event_id'',
     ''historical_plan_result_sha256'', ''input_namespace'', ''input_payload_sha256'', ''job_roots'',
     ''reduction_proof_sha256'', ''request_fingerprint'', ''server_event_id'']"

definition historical_scope_of :: "string \<Rightarrow> json \<Rightarrow> HistoricalSourceScope result" where
  "historical_scope_of path v =
     and_then (mapping_of path v) (\<lambda>data.
     and_then (keys_match data historical_scope_keys path) (\<lambda>_.
     and_then (field_of data path ''request_fingerprint'' string_of) (\<lambda>request_fingerprint.
     and_then (field_of data path ''input_namespace'' string_of) (\<lambda>input_namespace.
     and_then (field_of data path ''event_id'' string_of) (\<lambda>event_id.
     and_then (field_of data path ''server_event_id'' string_of) (\<lambda>server_event_id.
     and_then (field_of data path ''input_payload_sha256'' string_of) (\<lambda>input_payload_sha256.
     and_then (field_of data path ''reduction_proof_sha256'' string_of) (\<lambda>reduction_proof_sha256.
     and_then (field_of data path ''effect_ordinal'' integer_of) (\<lambda>effect_ordinal.
     and_then (field_of data path ''effect_sha256'' string_of) (\<lambda>effect_sha256.
     and_then (field_of data path ''historical_plan_result_sha256'' string_of) (\<lambda>historical_plan_result_sha256.
     and_then (field_of data path ''assignments'' (items_of historical_assignment_of)) (\<lambda>assignments.
     and_then (field_of data path ''job_roots'' (items_of historical_root_of)) (\<lambda>job_roots.
     HistoricalSourceScope_init
       \<lparr>hs_request_fingerprint = request_fingerprint, hs_input_namespace = input_namespace,
        hs_event_id = event_id, hs_server_event_id = server_event_id,
        hs_input_payload_sha256 = input_payload_sha256, hs_reduction_proof_sha256 = reduction_proof_sha256,
        hs_effect_ordinal = effect_ordinal, hs_effect_sha256 = effect_sha256,
        hs_historical_plan_result_sha256 = historical_plan_result_sha256, hs_assignments = assignments,
        hs_job_roots = job_roots\<rparr>)))))))))))))"

definition day_association_keys :: "string list" where
  "day_association_keys =
    [''business_date'', ''plan_day_id'', ''worker_id'']"

definition day_association_of :: "calendar \<Rightarrow> string \<Rightarrow> json \<Rightarrow> PlanDayAssociationEvidence result" where
  "day_association_of cal path v =
     and_then (mapping_of path v) (\<lambda>data.
     and_then (keys_match data day_association_keys path) (\<lambda>_.
     and_then (field_of data path ''plan_day_id'' string_of) (\<lambda>plan_day_id.
     and_then (field_of data path ''worker_id'' string_of) (\<lambda>worker_id.
     and_then (field_of data path ''business_date'' (date_of cal)) (\<lambda>business_date.
     PlanDayAssociationEvidence_init
       \<lparr>pe_plan_day_id = plan_day_id, pe_worker_id = worker_id, pe_business_date = business_date\<rparr>)))))"

definition commitment_evidence_keys :: "string list" where
  "commitment_evidence_keys =
    [''business_date'', ''commitment_id'', ''job_id'', ''planned_worker_ids'', ''source_handoff_id'',
     ''source_handoff_sha256'', ''source_m2_assignment_ids'', ''source_revision'',
     ''task_definition_version'', ''task_id'']"

definition commitment_evidence_of :: "calendar \<Rightarrow> string \<Rightarrow> json \<Rightarrow> CurrentCommitmentEvidence result" where
  "commitment_evidence_of cal path v =
     and_then (mapping_of path v) (\<lambda>data.
     and_then (keys_match data commitment_evidence_keys path) (\<lambda>_.
     and_then (field_of data path ''commitment_id'' string_of) (\<lambda>commitment_id.
     and_then (field_of data path ''job_id'' string_of) (\<lambda>job_id.
     and_then (field_of data path ''task_id'' string_of) (\<lambda>task_id.
     and_then (field_of data path ''task_definition_version'' string_of) (\<lambda>task_definition_version.
     and_then (field_of data path ''source_handoff_id'' string_of) (\<lambda>source_handoff_id.
     and_then (field_of data path ''source_revision'' integer_of) (\<lambda>source_revision.
     and_then (field_of data path ''source_handoff_sha256'' string_of) (\<lambda>source_handoff_sha256.
     and_then (field_of data path ''business_date'' (date_of cal)) (\<lambda>business_date.
     and_then (field_of data path ''planned_worker_ids'' (items_of string_of)) (\<lambda>planned_worker_ids.
     and_then (field_of data path ''source_m2_assignment_ids'' (items_of string_of)) (\<lambda>source_m2_assignment_ids.
     CurrentCommitmentEvidence_init
       \<lparr>cv_commitment_id = commitment_id, cv_job_id = job_id, cv_task_id = task_id,
        cv_task_definition_version = task_definition_version, cv_source_handoff_id = source_handoff_id,
        cv_source_revision = source_revision, cv_source_handoff_sha256 = source_handoff_sha256,
        cv_business_date = business_date, cv_planned_worker_ids = planned_worker_ids,
        cv_source_m2_assignment_ids = source_m2_assignment_ids\<rparr>))))))))))))"

definition task_precondition_keys :: "string list" where
  "task_precondition_keys =
    [''job_execution_revision'', ''job_id'', ''job_root_sha256'', ''source_handoff_id'',
     ''source_revision'', ''task_definition_version'', ''task_id'', ''task_route_sha256'', ''task_status'']"

definition task_precondition_of :: "string \<Rightarrow> json \<Rightarrow> CurrentM2TaskPrecondition result" where
  "task_precondition_of path v =
     and_then (mapping_of path v) (\<lambda>data.
     and_then (keys_match data task_precondition_keys path) (\<lambda>_.
     and_then (field_of data path ''job_id'' string_of) (\<lambda>job_id.
     and_then (field_of data path ''job_execution_revision'' integer_of) (\<lambda>job_execution_revision.
     and_then (field_of data path ''job_root_sha256'' string_of) (\<lambda>job_root_sha256.
     and_then (field_of data path ''task_id'' string_of) (\<lambda>task_id.
     and_then (field_of data path ''task_definition_version'' string_of) (\<lambda>task_definition_version.
     and_then (field_of data path ''task_route_sha256'' string_of) (\<lambda>task_route_sha256.
     and_then (field_of data path ''source_handoff_id'' string_of) (\<lambda>source_handoff_id.
     and_then (field_of data path ''source_revision'' integer_of) (\<lambda>source_revision.
     and_then (field_of data path ''task_status'' (enum_of TaskStatus_value TaskStatus_members)) (\<lambda>task_status.
     CurrentM2TaskPrecondition_init
       \<lparr>tp_job_id = job_id, tp_job_execution_revision = job_execution_revision,
        tp_job_root_sha256 = job_root_sha256, tp_task_id = task_id,
        tp_task_definition_version = task_definition_version, tp_task_route_sha256 = task_route_sha256,
        tp_source_handoff_id = source_handoff_id, tp_source_revision = source_revision,
        tp_task_status = task_status\<rparr>)))))))))))"

definition assignment_precondition_keys :: "string list" where
  "assignment_precondition_keys =
    [''assignment_id'', ''assignment_route_sha256'', ''job_id'', ''plan_day_ids'', ''task_id'']"

definition assignment_precondition_of :: "string \<Rightarrow> json \<Rightarrow> CurrentM2AssignmentPrecondition result" where
  "assignment_precondition_of path v =
     and_then (mapping_of path v) (\<lambda>data.
     and_then (keys_match data assignment_precondition_keys path) (\<lambda>_.
     and_then (field_of data path ''assignment_id'' string_of) (\<lambda>assignment_id.
     and_then (field_of data path ''job_id'' string_of) (\<lambda>job_id.
     and_then (field_of data path ''task_id'' string_of) (\<lambda>task_id.
     and_then (field_of data path ''assignment_route_sha256'' string_of) (\<lambda>assignment_route_sha256.
     and_then (field_of data path ''plan_day_ids'' (items_of string_of)) (\<lambda>plan_day_ids.
     CurrentM2AssignmentPrecondition_init
       \<lparr>ap_assignment_id = assignment_id, ap_job_id = job_id, ap_task_id = task_id,
        ap_assignment_route_sha256 = assignment_route_sha256, ap_plan_day_ids = plan_day_ids\<rparr>)))))))"

definition dependency_evidence_keys :: "string list" where
  "dependency_evidence_keys =
    [''predecessor_task_id'', ''provenance_reference'', ''relation'', ''successor_task_id'']"

definition dependency_evidence_of :: "string \<Rightarrow> json \<Rightarrow> DependencyEvidence result" where
  "dependency_evidence_of path v =
     and_then (mapping_of path v) (\<lambda>data.
     and_then (keys_match data dependency_evidence_keys path) (\<lambda>_.
     and_then (field_of data path ''predecessor_task_id'' string_of) (\<lambda>predecessor_task_id.
     and_then (field_of data path ''successor_task_id'' string_of) (\<lambda>successor_task_id.
     and_then (field_of data path ''relation'' string_of) (\<lambda>relation.
     and_then (field_of data path ''provenance_reference'' string_of) (\<lambda>provenance_reference.
     DependencyEvidence_init
       \<lparr>de_predecessor_task_id = predecessor_task_id, de_successor_task_id = successor_task_id,
        de_relation = relation, de_provenance_reference = provenance_reference\<rparr>))))))"

definition impact_reference_keys :: "string list" where
  "impact_reference_keys =
    [''commitment_id'', ''job_id'', ''task_id'']"

definition impact_reference_of :: "string \<Rightarrow> json \<Rightarrow> ImpactCommitmentReference result" where
  "impact_reference_of path v =
     and_then (mapping_of path v) (\<lambda>data.
     and_then (keys_match data impact_reference_keys path) (\<lambda>_.
     and_then (field_of data path ''commitment_id'' string_of) (\<lambda>commitment_id.
     and_then (field_of data path ''job_id'' string_of) (\<lambda>job_id.
     and_then (field_of data path ''task_id'' string_of) (\<lambda>task_id.
     ImpactCommitmentReference_init
       \<lparr>ir_commitment_id = commitment_id, ir_job_id = job_id, ir_task_id = task_id\<rparr>)))))"

definition dependency_reference_keys :: "string list" where
  "dependency_reference_keys =
    [''commitment_id'', ''job_id'', ''originating_direct_task_ids'', ''task_id'']"

definition dependency_reference_of :: "string \<Rightarrow> json \<Rightarrow> DependencyImpactReference result" where
  "dependency_reference_of path v =
     and_then (mapping_of path v) (\<lambda>data.
     and_then (keys_match data dependency_reference_keys path) (\<lambda>_.
     and_then (field_of data path ''commitment_id'' string_of) (\<lambda>commitment_id.
     and_then (field_of data path ''job_id'' string_of) (\<lambda>job_id.
     and_then (field_of data path ''task_id'' string_of) (\<lambda>task_id.
     and_then (field_of data path ''originating_direct_task_ids'' (items_of string_of)) (\<lambda>originating_direct_task_ids.
     DependencyImpactReference_init
       \<lparr>di_commitment_id = commitment_id, di_job_id = job_id, di_task_id = task_id,
        di_originating_direct_task_ids = originating_direct_task_ids\<rparr>))))))"

definition direct_scope_keys :: "string list" where
  "direct_scope_keys =
    [''commitments'', ''m3a_evaluation_fingerprint'', ''m3a_evaluation_id'', ''outcome'']"

definition direct_scope_of :: "string \<Rightarrow> json \<Rightarrow> DirectCurrentImpactScope result" where
  "direct_scope_of path v =
     and_then (mapping_of path v) (\<lambda>data.
     and_then (keys_match data direct_scope_keys path) (\<lambda>_.
     and_then (field_of data path ''m3a_evaluation_id'' string_of) (\<lambda>m3a_evaluation_id.
     and_then (field_of data path ''m3a_evaluation_fingerprint'' string_of) (\<lambda>m3a_evaluation_fingerprint.
     and_then (field_of data path ''outcome'' (enum_of M3ImpactOutcome_value M3ImpactOutcome_members)) (\<lambda>outcome.
     and_then (field_of data path ''commitments'' (items_of impact_reference_of)) (\<lambda>commitments.
     DirectCurrentImpactScope_init
       \<lparr>dx_m3a_evaluation_id = m3a_evaluation_id,
        dx_m3a_evaluation_fingerprint = m3a_evaluation_fingerprint, dx_outcome = outcome,
        dx_commitments = commitments\<rparr>))))))"

definition dependency_scope_keys :: "string list" where
  "dependency_scope_keys =
    [''commitments'', ''edges'']"

definition dependency_scope_of :: "string \<Rightarrow> json \<Rightarrow> DependencyImpactScope result" where
  "dependency_scope_of path v =
     and_then (mapping_of path v) (\<lambda>data.
     and_then (keys_match data dependency_scope_keys path) (\<lambda>_.
     and_then (field_of data path ''edges'' (items_of dependency_evidence_of)) (\<lambda>edges.
     and_then (field_of data path ''commitments'' (items_of dependency_reference_of)) (\<lambda>commitments.
     DependencyImpactScope_init
       \<lparr>dn_edges = edges, dn_commitments = commitments\<rparr>))))"

definition candidate_scope_keys :: "string list" where
  "candidate_scope_keys =
    [''candidate_fingerprint'', ''commitments'', ''status'']"

definition candidate_scope_of :: "string \<Rightarrow> json \<Rightarrow> CandidateInducedImpactScope result" where
  "candidate_scope_of path v =
     and_then (mapping_of path v) (\<lambda>data.
     and_then (keys_match data candidate_scope_keys path) (\<lambda>_.
     and_then (field_of data path ''status'' string_of) (\<lambda>status.
     and_then (field_of data path ''candidate_fingerprint'' (optional_of string_of)) (\<lambda>candidate_fingerprint.
     and_then (field_of data path ''commitments'' (items_of impact_reference_of)) (\<lambda>commitments.
     CandidateInducedImpactScope_init
       \<lparr>cd_status = status, cd_candidate_fingerprint = candidate_fingerprint, cd_commitments = commitments\<rparr>)))))"

definition evaluation_keys :: "string list" where
  "evaluation_keys =
    [''base_plan_revision'', ''base_plan_revision_fingerprint'', ''base_plan_revision_id'',
     ''business_date'', ''candidate_induced_impact'', ''company_plan_id'', ''current_active_commitments'',
     ''current_m2_assignment_preconditions'', ''current_m2_task_preconditions'',
     ''current_planning_scope_fingerprint'', ''dependency_impact'', ''direct_current_impact'',
     ''historical_source_scope'', ''plan_day_associations'', ''plan_day_id'', ''unavailable_worker_id'']"

definition evaluation_of :: "calendar \<Rightarrow> string \<Rightarrow> json \<Rightarrow> M3EvaluationInput result" where
  "evaluation_of cal path v =
     and_then (mapping_of path v) (\<lambda>data.
     and_then (keys_match data evaluation_keys path) (\<lambda>_.
     and_then (field_of data path ''historical_source_scope'' historical_scope_of) (\<lambda>historical_source_scope.
     and_then (field_of data path ''company_plan_id'' string_of) (\<lambda>company_plan_id.
     and_then (field_of data path ''base_plan_revision'' integer_of) (\<lambda>base_plan_revision.
     and_then (field_of data path ''base_plan_revision_id'' string_of) (\<lambda>base_plan_revision_id.
     and_then (field_of data path ''base_plan_revision_fingerprint'' string_of) (\<lambda>base_plan_revision_fingerprint.
     and_then (field_of data path ''current_planning_scope_fingerprint'' string_of) (\<lambda>current_planning_scope_fingerprint.
     and_then (field_of data path ''unavailable_worker_id'' string_of) (\<lambda>unavailable_worker_id.
     and_then (field_of data path ''business_date'' (date_of cal)) (\<lambda>business_date.
     and_then (field_of data path ''plan_day_id'' string_of) (\<lambda>plan_day_id.
     and_then (field_of data path ''plan_day_associations'' (items_of (day_association_of cal))) (\<lambda>plan_day_associations.
     and_then (field_of data path ''current_active_commitments'' (items_of (commitment_evidence_of cal))) (\<lambda>current_active_commitments.
     and_then (field_of data path ''current_m2_task_preconditions'' (items_of task_precondition_of)) (\<lambda>current_m2_task_preconditions.
     and_then (field_of data path ''current_m2_assignment_preconditions'' (items_of assignment_precondition_of)) (\<lambda>current_m2_assignment_preconditions.
     and_then (field_of data path ''direct_current_impact'' direct_scope_of) (\<lambda>direct_current_impact.
     and_then (field_of data path ''dependency_impact'' dependency_scope_of) (\<lambda>dependency_impact.
     and_then (field_of data path ''candidate_induced_impact'' candidate_scope_of) (\<lambda>candidate_induced_impact.
     M3EvaluationInput_init
       \<lparr>ei_historical_source_scope = historical_source_scope, ei_company_plan_id = company_plan_id,
        ei_base_plan_revision = base_plan_revision, ei_base_plan_revision_id = base_plan_revision_id,
        ei_base_plan_revision_fingerprint = base_plan_revision_fingerprint,
        ei_current_planning_scope_fingerprint = current_planning_scope_fingerprint,
        ei_unavailable_worker_id = unavailable_worker_id, ei_business_date = business_date,
        ei_plan_day_id = plan_day_id, ei_plan_day_associations = plan_day_associations,
        ei_current_active_commitments = current_active_commitments,
        ei_current_m2_task_preconditions = current_m2_task_preconditions,
        ei_current_m2_assignment_preconditions = current_m2_assignment_preconditions,
        ei_direct_current_impact = direct_current_impact, ei_dependency_impact = dependency_impact,
        ei_candidate_induced_impact = candidate_induced_impact\<rparr>))))))))))))))))))"

definition document_extras :: "string list" where
  "document_extras = [''schema_version'', ''rule_version'', ''evaluation_input_fingerprint'', ''evaluation_input_id'']"

definition from_document :: "calendar \<Rightarrow> (string \<times> json) list \<Rightarrow> M3EvaluationInput result" where
  "from_document cal data =
     and_then (field_of data [] ''schema_version'' (\<lambda>_. Inr)) (\<lambda>_.
     and_then (field_of data [] ''rule_version'' (\<lambda>_. Inr)) (\<lambda>_.
     evaluation_of cal ''document'' (JObject (filter (\<lambda>kv. fst kv \<notin> set document_extras) data))))"

section \<open>Texts\<close>

definition full_payload :: "(string \<Rightarrow> string) \<Rightarrow> calendar \<Rightarrow> M3EvaluationInput \<Rightarrow> json" where
  "full_payload sha256 cal x = JObject
     [(''base_plan_revision'', JInt (ei_base_plan_revision x)),
      (''base_plan_revision_fingerprint'', JString (ei_base_plan_revision_fingerprint x)),
      (''base_plan_revision_id'', JString (ei_base_plan_revision_id x)),
      (''business_date'', JString (date_text cal (ei_business_date x))),
      (''candidate_induced_impact'', candidate_scope_payload (ei_candidate_induced_impact x)),
      (''company_plan_id'', JString (ei_company_plan_id x)),
      (''current_active_commitments'', json_list (commitment_evidence_payload cal) (ei_current_active_commitments x)),
      (''current_m2_assignment_preconditions'', json_list assignment_precondition_payload (ei_current_m2_assignment_preconditions x)),
      (''current_m2_task_preconditions'', json_list task_precondition_payload (ei_current_m2_task_preconditions x)),
      (''current_planning_scope_fingerprint'', JString (ei_current_planning_scope_fingerprint x)),
      (''dependency_impact'', dependency_scope_payload (ei_dependency_impact x)),
      (''direct_current_impact'', direct_scope_payload (ei_direct_current_impact x)),
      (''evaluation_input_fingerprint'', JString (evaluation_input_fingerprint sha256 cal x)),
      (''evaluation_input_id'', JString (evaluation_input_id sha256 cal x)),
      (''historical_source_scope'', historical_scope_payload (ei_historical_source_scope x)),
      (''plan_day_associations'', json_list (day_association_payload cal) (ei_plan_day_associations x)),
      (''plan_day_id'', JString (ei_plan_day_id x)),
      (''rule_version'', JString ''m3-unavailability-impact-analysis-v1''),
      (''schema_version'', JString ''m3-evaluation-input-v1''),
      (''unavailable_worker_id'', JString (ei_unavailable_worker_id x))]"

definition validate_evaluation :: "(string \<Rightarrow> string) \<Rightarrow> calendar \<Rightarrow> M3EvaluationInput \<Rightarrow> unit result" where
  "validate_evaluation sha256 cal x =
     and_then (check_digest (evaluation_input_fingerprint sha256 cal x) ''evaluation_input_fingerprint'') (\<lambda>_.
     and_then (check_identity (evaluation_input_id sha256 cal x) ''evaluation_input_id'') (\<lambda>_.
     check_record M3EvaluationInput_init ''evaluation_input'' x))"

definition semantic_evaluation_input_json :: "(string \<Rightarrow> string) \<Rightarrow> calendar \<Rightarrow> M3EvaluationInput \<Rightarrow> string result" where
  "semantic_evaluation_input_json sha256 cal x =
     and_then (validate_evaluation sha256 cal x) (\<lambda>_. Inr (semantic_json cal x))"

definition serialize_evaluation_input :: "(string \<Rightarrow> string) \<Rightarrow> calendar \<Rightarrow> M3EvaluationInput \<Rightarrow> string result" where
  "serialize_evaluation_input sha256 cal x =
     and_then (validate_evaluation sha256 cal x) (\<lambda>_. Inr (canonical_json (full_payload sha256 cal x)))"

text \<open>\<open>except (KeyError, TypeError, ValueError, ...): raise StorageError(msg)\<close>.\<close>

definition storage_errors :: "string \<Rightarrow> 'a result \<Rightarrow> 'a result" where
  "storage_errors msg m = (case m of Inl _ \<Rightarrow> Inl (ValueError msg) | Inr x \<Rightarrow> Inr x)"

definition load_document :: "string \<Rightarrow> string \<Rightarrow> (string \<times> json) list result" where
  "load_document name raw =
     (case loads raw of
        Some (JObject data) \<Rightarrow> and_then (check_value (canonical_json (JObject data) = raw) name) (\<lambda>_. Inr data)
      | _ \<Rightarrow> Inl (ValueError (invalid name)))"

definition deserialize_evaluation_input :: "(string \<Rightarrow> string) \<Rightarrow> calendar \<Rightarrow> string \<Rightarrow> M3EvaluationInput result" where
  "deserialize_evaluation_input sha256 cal raw =
     storage_errors ''INVALID_EVALUATION_INPUT: evaluation_input''
      (and_then (load_document ''canonical_document'' raw) (\<lambda>data.
       and_then (check_value (map_of data ''schema_version'' = Some (JString ''m3-evaluation-input-v1'')) ''schema_version'') (\<lambda>_.
       and_then (check_value (map_of data ''rule_version'' = Some (JString ''m3-unavailability-impact-analysis-v1'')) ''rule_version'') (\<lambda>_.
       and_then (from_document cal data) (\<lambda>x.
       and_then (check_value (map_of data ''evaluation_input_fingerprint'' = Some (JString (evaluation_input_fingerprint sha256 cal x)))
          ''evaluation_input_fingerprint'') (\<lambda>_.
       and_then (check_value (map_of data ''evaluation_input_id'' = Some (JString (evaluation_input_id sha256 cal x)))
          ''evaluation_input_id'') (\<lambda>_.
       and_then (serialize_evaluation_input sha256 cal x) (\<lambda>text.
       and_then (check_value (text = raw) ''canonical_order'') (\<lambda>_. Inr x)))))))))"

definition restore_evaluation_input ::
    "(string \<Rightarrow> string) \<Rightarrow> calendar \<Rightarrow> string \<Rightarrow> string \<Rightarrow> string \<Rightarrow> M3EvaluationInput result" where
  "restore_evaluation_input sha256 cal raw_semantic fingerprint input_id =
     storage_errors ''INVALID_EVALUATION_INPUT: evaluation_input''
      (and_then (load_document ''canonical_semantic_document'' raw_semantic) (\<lambda>data.
       and_then (from_document cal data) (\<lambda>x.
       and_then (semantic_evaluation_input_json sha256 cal x) (\<lambda>text.
       and_then (check_value (text = raw_semantic) ''canonical_order'') (\<lambda>_.
       and_then (check_value (evaluation_input_fingerprint sha256 cal x = fingerprint) ''evaluation_input_fingerprint'') (\<lambda>_.
       and_then (check_value (evaluation_input_id sha256 cal x = input_id) ''evaluation_input_id'') (\<lambda>_. Inr x)))))))"

section \<open>Round trips of the parts\<close>

interpretation M3ImpactOutcome_texts: enum_texts M3ImpactOutcome_value M3ImpactOutcome_members
proof
  show "distinct (map M3ImpactOutcome_value M3ImpactOutcome_members)" by code_simp
  show "e \<in> set M3ImpactOutcome_members" for e by (cases e) (simp_all add: M3ImpactOutcome_members_def)
qed

lemmas read_impact_outcome [reading] = M3ImpactOutcome_texts.reads_enum

lemma read_historical_root: "HistoricalJobRootEvidence_init x = Inr x \<Longrightarrow> historical_root_of path (historical_root_payload x) = Inr x"
  by (cases x) (simp add: historical_root_of_def historical_root_payload_def historical_root_keys_def reading cong: and_then_weak_cong)

lemma canonical_historical_root: "canonical (historical_root_payload x)"
  unfolding historical_root_payload_def
  by (rule canonical_JObject_keys, simp only: list.map fst_conv, code_simp, simp add: canonical_rules)

interpretation historical_root_codec: codec "historical_root_payload" "historical_root_of" "\<lambda>x. HistoricalJobRootEvidence_init x = Inr x"
  by unfold_locales (simp add: read_historical_root, rule canonical_historical_root, simp add: historical_root_payload_def)

lemmas historical_root_rules [reading] = historical_root_codec.reads historical_root_codec.reads_list historical_root_codec.reads_option
declare canonical_historical_root [canonical_rules]

lemma read_historical_assignment: "HistoricalAssignmentEvidence_init x = Inr x \<Longrightarrow> historical_assignment_of path (historical_assignment_payload x) = Inr x"
  by (cases x) (simp add: historical_assignment_of_def historical_assignment_payload_def historical_assignment_keys_def reading cong: and_then_weak_cong)

lemma canonical_historical_assignment: "canonical (historical_assignment_payload x)"
  unfolding historical_assignment_payload_def
  by (rule canonical_JObject_keys, simp only: list.map fst_conv, code_simp, simp add: canonical_rules)

interpretation historical_assignment_codec: codec "historical_assignment_payload" "historical_assignment_of" "\<lambda>x. HistoricalAssignmentEvidence_init x = Inr x"
  by unfold_locales (simp add: read_historical_assignment, rule canonical_historical_assignment, simp add: historical_assignment_payload_def)

lemmas historical_assignment_rules [reading] = historical_assignment_codec.reads historical_assignment_codec.reads_list historical_assignment_codec.reads_option
declare canonical_historical_assignment [canonical_rules]

lemma historical_scope_parts: "HistoricalSourceScope_init x = Inr x \<Longrightarrow>
   (\<forall>a\<in>set (hs_assignments x). HistoricalAssignmentEvidence_init a = Inr a) \<and> (\<forall>a\<in>set (hs_job_roots x). HistoricalJobRootEvidence_init a = Inr a)"
  by (simp add: HistoricalSourceScope_init_def Let_def)

lemma read_historical_scope: "HistoricalSourceScope_init x = Inr x \<Longrightarrow> historical_scope_of path (historical_scope_payload x) = Inr x"
  using historical_scope_parts [of x]
  by (cases x) (simp add: historical_scope_of_def historical_scope_payload_def historical_scope_keys_def reading cong: and_then_weak_cong)

lemma canonical_historical_scope: "canonical (historical_scope_payload x)"
  unfolding historical_scope_payload_def
  by (rule canonical_JObject_keys, simp only: list.map fst_conv, code_simp, simp add: canonical_rules)

interpretation historical_scope_codec: codec "historical_scope_payload" "historical_scope_of" "\<lambda>x. HistoricalSourceScope_init x = Inr x"
  by unfold_locales (simp add: read_historical_scope, rule canonical_historical_scope, simp add: historical_scope_payload_def)

lemmas historical_scope_rules [reading] = historical_scope_codec.reads historical_scope_codec.reads_list historical_scope_codec.reads_option
declare canonical_historical_scope [canonical_rules]

lemma read_day_association: "calendar_law cal \<Longrightarrow> PlanDayAssociationEvidence_init x = Inr x \<Longrightarrow> day_association_of cal path (day_association_payload cal x) = Inr x"
  by (cases x) (simp add: day_association_of_def day_association_payload_def day_association_keys_def reading cong: and_then_weak_cong)

lemma canonical_day_association: "canonical (day_association_payload cal x)"
  unfolding day_association_payload_def
  by (rule canonical_JObject_keys, simp only: list.map fst_conv, code_simp, simp add: canonical_rules)

interpretation day_association_codec: codec "day_association_payload cal" "day_association_of cal" "\<lambda>x. calendar_law cal \<and> PlanDayAssociationEvidence_init x = Inr x" for cal
  by unfold_locales (simp add: read_day_association, rule canonical_day_association, simp add: day_association_payload_def)

lemmas day_association_rules [reading] = day_association_codec.reads day_association_codec.reads_list day_association_codec.reads_option
declare canonical_day_association [canonical_rules]

lemma read_commitment_evidence: "calendar_law cal \<Longrightarrow> CurrentCommitmentEvidence_init x = Inr x \<Longrightarrow> commitment_evidence_of cal path (commitment_evidence_payload cal x) = Inr x"
  by (cases x) (simp add: commitment_evidence_of_def commitment_evidence_payload_def commitment_evidence_keys_def reading cong: and_then_weak_cong)

lemma canonical_commitment_evidence: "canonical (commitment_evidence_payload cal x)"
  unfolding commitment_evidence_payload_def
  by (rule canonical_JObject_keys, simp only: list.map fst_conv, code_simp, simp add: canonical_rules)

interpretation commitment_evidence_codec: codec "commitment_evidence_payload cal" "commitment_evidence_of cal" "\<lambda>x. calendar_law cal \<and> CurrentCommitmentEvidence_init x = Inr x" for cal
  by unfold_locales (simp add: read_commitment_evidence, rule canonical_commitment_evidence, simp add: commitment_evidence_payload_def)

lemmas commitment_evidence_rules [reading] = commitment_evidence_codec.reads commitment_evidence_codec.reads_list commitment_evidence_codec.reads_option
declare canonical_commitment_evidence [canonical_rules]

lemma read_task_precondition: "CurrentM2TaskPrecondition_init x = Inr x \<Longrightarrow> task_precondition_of path (task_precondition_payload x) = Inr x"
  by (cases x) (simp add: task_precondition_of_def task_precondition_payload_def task_precondition_keys_def reading cong: and_then_weak_cong)

lemma canonical_task_precondition: "canonical (task_precondition_payload x)"
  unfolding task_precondition_payload_def
  by (rule canonical_JObject_keys, simp only: list.map fst_conv, code_simp, simp add: canonical_rules)

interpretation task_precondition_codec: codec "task_precondition_payload" "task_precondition_of" "\<lambda>x. CurrentM2TaskPrecondition_init x = Inr x"
  by unfold_locales (simp add: read_task_precondition, rule canonical_task_precondition, simp add: task_precondition_payload_def)

lemmas task_precondition_rules [reading] = task_precondition_codec.reads task_precondition_codec.reads_list task_precondition_codec.reads_option
declare canonical_task_precondition [canonical_rules]

lemma read_assignment_precondition: "CurrentM2AssignmentPrecondition_init x = Inr x \<Longrightarrow> assignment_precondition_of path (assignment_precondition_payload x) = Inr x"
  by (cases x) (simp add: assignment_precondition_of_def assignment_precondition_payload_def assignment_precondition_keys_def reading cong: and_then_weak_cong)

lemma canonical_assignment_precondition: "canonical (assignment_precondition_payload x)"
  unfolding assignment_precondition_payload_def
  by (rule canonical_JObject_keys, simp only: list.map fst_conv, code_simp, simp add: canonical_rules)

interpretation assignment_precondition_codec: codec "assignment_precondition_payload" "assignment_precondition_of" "\<lambda>x. CurrentM2AssignmentPrecondition_init x = Inr x"
  by unfold_locales (simp add: read_assignment_precondition, rule canonical_assignment_precondition, simp add: assignment_precondition_payload_def)

lemmas assignment_precondition_rules [reading] = assignment_precondition_codec.reads assignment_precondition_codec.reads_list assignment_precondition_codec.reads_option
declare canonical_assignment_precondition [canonical_rules]

lemma read_dependency_evidence: "DependencyEvidence_init x = Inr x \<Longrightarrow> dependency_evidence_of path (dependency_evidence_payload x) = Inr x"
  by (cases x) (simp add: dependency_evidence_of_def dependency_evidence_payload_def dependency_evidence_keys_def reading cong: and_then_weak_cong)

lemma canonical_dependency_evidence: "canonical (dependency_evidence_payload x)"
  unfolding dependency_evidence_payload_def
  by (rule canonical_JObject_keys, simp only: list.map fst_conv, code_simp, simp add: canonical_rules)

interpretation dependency_evidence_codec: codec "dependency_evidence_payload" "dependency_evidence_of" "\<lambda>x. DependencyEvidence_init x = Inr x"
  by unfold_locales (simp add: read_dependency_evidence, rule canonical_dependency_evidence, simp add: dependency_evidence_payload_def)

lemmas dependency_evidence_rules [reading] = dependency_evidence_codec.reads dependency_evidence_codec.reads_list dependency_evidence_codec.reads_option
declare canonical_dependency_evidence [canonical_rules]

lemma read_impact_reference: "ImpactCommitmentReference_init x = Inr x \<Longrightarrow> impact_reference_of path (impact_reference_payload x) = Inr x"
  by (cases x) (simp add: impact_reference_of_def impact_reference_payload_def impact_reference_keys_def reading cong: and_then_weak_cong)

lemma canonical_impact_reference: "canonical (impact_reference_payload x)"
  unfolding impact_reference_payload_def
  by (rule canonical_JObject_keys, simp only: list.map fst_conv, code_simp, simp add: canonical_rules)

interpretation impact_reference_codec: codec "impact_reference_payload" "impact_reference_of" "\<lambda>x. ImpactCommitmentReference_init x = Inr x"
  by unfold_locales (simp add: read_impact_reference, rule canonical_impact_reference, simp add: impact_reference_payload_def)

lemmas impact_reference_rules [reading] = impact_reference_codec.reads impact_reference_codec.reads_list impact_reference_codec.reads_option
declare canonical_impact_reference [canonical_rules]

lemma read_dependency_reference: "DependencyImpactReference_init x = Inr x \<Longrightarrow> dependency_reference_of path (dependency_reference_payload x) = Inr x"
  by (cases x) (simp add: dependency_reference_of_def dependency_reference_payload_def dependency_reference_keys_def reading cong: and_then_weak_cong)

lemma canonical_dependency_reference: "canonical (dependency_reference_payload x)"
  unfolding dependency_reference_payload_def
  by (rule canonical_JObject_keys, simp only: list.map fst_conv, code_simp, simp add: canonical_rules)

interpretation dependency_reference_codec: codec "dependency_reference_payload" "dependency_reference_of" "\<lambda>x. DependencyImpactReference_init x = Inr x"
  by unfold_locales (simp add: read_dependency_reference, rule canonical_dependency_reference, simp add: dependency_reference_payload_def)

lemmas dependency_reference_rules [reading] = dependency_reference_codec.reads dependency_reference_codec.reads_list dependency_reference_codec.reads_option
declare canonical_dependency_reference [canonical_rules]

lemma direct_scope_parts: "DirectCurrentImpactScope_init x = Inr x \<Longrightarrow>
   (\<forall>a\<in>set (dx_commitments x). ImpactCommitmentReference_init a = Inr a)"
  by (simp add: DirectCurrentImpactScope_init_def Let_def)

lemma read_direct_scope: "DirectCurrentImpactScope_init x = Inr x \<Longrightarrow> direct_scope_of path (direct_scope_payload x) = Inr x"
  using direct_scope_parts [of x]
  by (cases x) (simp add: direct_scope_of_def direct_scope_payload_def direct_scope_keys_def reading cong: and_then_weak_cong)

lemma canonical_direct_scope: "canonical (direct_scope_payload x)"
  unfolding direct_scope_payload_def
  by (rule canonical_JObject_keys, simp only: list.map fst_conv, code_simp, simp add: canonical_rules)

interpretation direct_scope_codec: codec "direct_scope_payload" "direct_scope_of" "\<lambda>x. DirectCurrentImpactScope_init x = Inr x"
  by unfold_locales (simp add: read_direct_scope, rule canonical_direct_scope, simp add: direct_scope_payload_def)

lemmas direct_scope_rules [reading] = direct_scope_codec.reads direct_scope_codec.reads_list direct_scope_codec.reads_option
declare canonical_direct_scope [canonical_rules]

lemma dependency_scope_parts: "DependencyImpactScope_init x = Inr x \<Longrightarrow>
   (\<forall>a\<in>set (dn_edges x). DependencyEvidence_init a = Inr a) \<and> (\<forall>a\<in>set (dn_commitments x). DependencyImpactReference_init a = Inr a)"
  by (simp add: DependencyImpactScope_init_def Let_def)

lemma read_dependency_scope: "DependencyImpactScope_init x = Inr x \<Longrightarrow> dependency_scope_of path (dependency_scope_payload x) = Inr x"
  using dependency_scope_parts [of x]
  by (cases x) (simp add: dependency_scope_of_def dependency_scope_payload_def dependency_scope_keys_def reading cong: and_then_weak_cong)

lemma canonical_dependency_scope: "canonical (dependency_scope_payload x)"
  unfolding dependency_scope_payload_def
  by (rule canonical_JObject_keys, simp only: list.map fst_conv, code_simp, simp add: canonical_rules)

interpretation dependency_scope_codec: codec "dependency_scope_payload" "dependency_scope_of" "\<lambda>x. DependencyImpactScope_init x = Inr x"
  by unfold_locales (simp add: read_dependency_scope, rule canonical_dependency_scope, simp add: dependency_scope_payload_def)

lemmas dependency_scope_rules [reading] = dependency_scope_codec.reads dependency_scope_codec.reads_list dependency_scope_codec.reads_option
declare canonical_dependency_scope [canonical_rules]

lemma candidate_scope_parts: "CandidateInducedImpactScope_init x = Inr x \<Longrightarrow>
   (\<forall>a\<in>set (cd_commitments x). ImpactCommitmentReference_init a = Inr a)"
  by (simp add: CandidateInducedImpactScope_init_def Let_def)

lemma read_candidate_scope: "CandidateInducedImpactScope_init x = Inr x \<Longrightarrow> candidate_scope_of path (candidate_scope_payload x) = Inr x"
  using candidate_scope_parts [of x]
  by (cases x) (simp add: candidate_scope_of_def candidate_scope_payload_def candidate_scope_keys_def reading cong: and_then_weak_cong)

lemma canonical_candidate_scope: "canonical (candidate_scope_payload x)"
  unfolding candidate_scope_payload_def
  by (rule canonical_JObject_keys, simp only: list.map fst_conv, code_simp, simp add: canonical_rules)

interpretation candidate_scope_codec: codec "candidate_scope_payload" "candidate_scope_of" "\<lambda>x. CandidateInducedImpactScope_init x = Inr x"
  by unfold_locales (simp add: read_candidate_scope, rule canonical_candidate_scope, simp add: candidate_scope_payload_def)

lemmas candidate_scope_rules [reading] = candidate_scope_codec.reads candidate_scope_codec.reads_list candidate_scope_codec.reads_option
declare canonical_candidate_scope [canonical_rules]

lemma evaluation_parts: "M3EvaluationInput_init x = Inr x \<Longrightarrow>
   HistoricalSourceScope_init (ei_historical_source_scope x) = Inr (ei_historical_source_scope x) \<and> (\<forall>a\<in>set (ei_plan_day_associations x). PlanDayAssociationEvidence_init a = Inr a) \<and> (\<forall>a\<in>set (ei_current_active_commitments x). CurrentCommitmentEvidence_init a = Inr a) \<and> (\<forall>a\<in>set (ei_current_m2_task_preconditions x). CurrentM2TaskPrecondition_init a = Inr a) \<and> (\<forall>a\<in>set (ei_current_m2_assignment_preconditions x). CurrentM2AssignmentPrecondition_init a = Inr a) \<and> DirectCurrentImpactScope_init (ei_direct_current_impact x) = Inr (ei_direct_current_impact x) \<and> DependencyImpactScope_init (ei_dependency_impact x) = Inr (ei_dependency_impact x) \<and> CandidateInducedImpactScope_init (ei_candidate_induced_impact x) = Inr (ei_candidate_induced_impact x)"
  by (simp add: M3EvaluationInput_init_def Let_def)

text \<open>The fields of the document without the four others are the evaluation input's own.\<close>

definition field_payload :: "calendar \<Rightarrow> M3EvaluationInput \<Rightarrow> json" where
  "field_payload cal x = JObject
     [(''base_plan_revision'', JInt (ei_base_plan_revision x)),
      (''base_plan_revision_fingerprint'', JString (ei_base_plan_revision_fingerprint x)),
      (''base_plan_revision_id'', JString (ei_base_plan_revision_id x)),
      (''business_date'', JString (date_text cal (ei_business_date x))),
      (''candidate_induced_impact'', candidate_scope_payload (ei_candidate_induced_impact x)),
      (''company_plan_id'', JString (ei_company_plan_id x)),
      (''current_active_commitments'', json_list (commitment_evidence_payload cal) (ei_current_active_commitments x)),
      (''current_m2_assignment_preconditions'', json_list assignment_precondition_payload (ei_current_m2_assignment_preconditions x)),
      (''current_m2_task_preconditions'', json_list task_precondition_payload (ei_current_m2_task_preconditions x)),
      (''current_planning_scope_fingerprint'', JString (ei_current_planning_scope_fingerprint x)),
      (''dependency_impact'', dependency_scope_payload (ei_dependency_impact x)),
      (''direct_current_impact'', direct_scope_payload (ei_direct_current_impact x)),
      (''historical_source_scope'', historical_scope_payload (ei_historical_source_scope x)),
      (''plan_day_associations'', json_list (day_association_payload cal) (ei_plan_day_associations x)),
      (''plan_day_id'', JString (ei_plan_day_id x)),
      (''unavailable_worker_id'', JString (ei_unavailable_worker_id x))]"

lemma read_evaluation: "calendar_law cal \<Longrightarrow> M3EvaluationInput_init x = Inr x \<Longrightarrow> evaluation_of cal path (field_payload cal x) = Inr x"
  using evaluation_parts [of x]
  by (cases x) (simp add: evaluation_of_def field_payload_def evaluation_keys_def reading cong: and_then_weak_cong)

lemma canonical_evaluation: "canonical (field_payload cal x)"
  unfolding field_payload_def
  by (rule canonical_JObject_keys, simp only: list.map fst_conv, code_simp, simp add: canonical_rules)

interpretation evaluation_codec: codec "field_payload cal" "evaluation_of cal" "\<lambda>x. calendar_law cal \<and> M3EvaluationInput_init x = Inr x" for cal
  by unfold_locales (simp add: read_evaluation, rule canonical_evaluation, simp add: field_payload_def)

lemmas evaluation_rules [reading] = evaluation_codec.reads evaluation_codec.reads_list evaluation_codec.reads_option
declare canonical_evaluation [canonical_rules]

lemma canonical_semantic: "canonical (semantic_payload cal x)"
  unfolding semantic_payload_def by (rule canonical_JObject_keys, simp only: list.map fst_conv, code_simp, simp add: canonical_rules)

lemma canonical_full: "canonical (full_payload sha256 cal x)"
  unfolding full_payload_def by (rule canonical_JObject_keys, simp only: list.map fst_conv, code_simp, simp add: canonical_rules)

lemma from_semantic:
  assumes "calendar_law cal" "M3EvaluationInput_init x = Inr x"
  shows "\<exists>data. semantic_payload cal x = JObject data \<and> from_document cal data = Inr x"
proof -
  have "evaluation_of cal ''document'' (field_payload cal x) = Inr x" by (rule read_evaluation [OF assms])
  then show ?thesis
    by (simp add: semantic_payload_def from_document_def field_of_def document_extras_def field_payload_def)
qed

lemma from_full:
  assumes "calendar_law cal" "M3EvaluationInput_init x = Inr x"
  shows "\<exists>data. full_payload sha256 cal x = JObject data \<and> from_document cal data = Inr x \<and>
    map_of data ''schema_version'' = Some (JString ''m3-evaluation-input-v1'') \<and>
    map_of data ''rule_version'' = Some (JString ''m3-unavailability-impact-analysis-v1'') \<and>
    map_of data ''evaluation_input_fingerprint'' = Some (JString (evaluation_input_fingerprint sha256 cal x)) \<and>
    map_of data ''evaluation_input_id'' = Some (JString (evaluation_input_id sha256 cal x))"
proof -
  have "evaluation_of cal ''document'' (field_payload cal x) = Inr x" by (rule read_evaluation [OF assms])
  then show ?thesis
    by (simp add: full_payload_def from_document_def field_of_def document_extras_def field_payload_def)
qed

section \<open>Stored evaluation inputs\<close>

text \<open>SHA-256 in hexadecimal.\<close>

definition digest_law :: "(string \<Rightarrow> string) \<Rightarrow> bool" where
  "digest_law sha256 \<longleftrightarrow> (\<forall>s. fingerprint_ok (sha256 s))"

lemma validate_evaluation_Inr:
  assumes "digest_law sha256"
  shows "validate_evaluation sha256 cal x = Inr u \<longleftrightarrow> M3EvaluationInput_init x = Inr x"
proof -
  have "fingerprint_ok (evaluation_input_fingerprint sha256 cal x)"
    using assms by (simp add: digest_law_def evaluation_input_fingerprint_def)
  moreover from this have "identity_ok (evaluation_input_id sha256 cal x)"
    unfolding evaluation_input_id_def by (rule digest_identity) code_simp+
  ultimately show ?thesis by (simp add: validate_evaluation_def)
qed

lemma load_canonical: "canonical (JObject data) \<Longrightarrow> load_document name (canonical_json (JObject data)) = Inr data"
  by (simp add: load_document_def canonical_text)

lemma storage_errors_Inr [simp]: "storage_errors msg m = Inr x \<longleftrightarrow> m = Inr x"
  by (cases m) (simp_all add: storage_errors_def)

text \<open>Every well-formed evaluation input can be written, and its text is read back as itself.\<close>

lemma evaluation_round_trip:
  assumes "calendar_law cal" "digest_law sha256" "M3EvaluationInput_init x = Inr x"
  shows "deserialize_evaluation_input sha256 cal (canonical_json (full_payload sha256 cal x)) = Inr x"
proof -
  obtain data where data: "full_payload sha256 cal x = JObject data" "from_document cal data = Inr x"
    "map_of data ''schema_version'' = Some (JString ''m3-evaluation-input-v1'')"
    "map_of data ''rule_version'' = Some (JString ''m3-unavailability-impact-analysis-v1'')"
    "map_of data ''evaluation_input_fingerprint'' = Some (JString (evaluation_input_fingerprint sha256 cal x))"
    "map_of data ''evaluation_input_id'' = Some (JString (evaluation_input_id sha256 cal x))"
    using from_full [OF assms(1,3), of sha256] by blast
  have load: "load_document ''canonical_document'' (canonical_json (JObject data)) = Inr data"
    by (rule load_canonical) (metis canonical_full data(1))
  have "serialize_evaluation_input sha256 cal x = Inr (canonical_json (full_payload sha256 cal x))"
    using assms(3) by (simp add: serialize_evaluation_input_def validate_evaluation_Inr [OF assms(2)])
  then show ?thesis
    by (simp add: deserialize_evaluation_input_def load data)
qed

lemma evaluation_read_iff:
  assumes "calendar_law cal" "digest_law sha256"
  shows "deserialize_evaluation_input sha256 cal raw = Inr x \<longleftrightarrow>
    M3EvaluationInput_init x = Inr x \<and> raw = canonical_json (full_payload sha256 cal x)"
proof
  assume "deserialize_evaluation_input sha256 cal raw = Inr x"
  then have "serialize_evaluation_input sha256 cal x = Inr raw"
    by (auto simp: deserialize_evaluation_input_def)
  then show "M3EvaluationInput_init x = Inr x \<and> raw = canonical_json (full_payload sha256 cal x)"
    by (simp add: serialize_evaluation_input_def validate_evaluation_Inr [OF assms(2)])
qed (use evaluation_round_trip [OF assms] in simp)

lemma restore_round_trip:
  assumes "calendar_law cal" "digest_law sha256"
  shows "restore_evaluation_input sha256 cal raw fp i = Inr x \<longleftrightarrow>
    M3EvaluationInput_init x = Inr x \<and> raw = semantic_json cal x \<and> fp = evaluation_input_fingerprint sha256 cal x \<and>
    i = evaluation_input_id sha256 cal x"
proof
  assume "restore_evaluation_input sha256 cal raw fp i = Inr x"
  then show "M3EvaluationInput_init x = Inr x \<and> raw = semantic_json cal x \<and> fp = evaluation_input_fingerprint sha256 cal x \<and>
      i = evaluation_input_id sha256 cal x"
    by (auto simp: restore_evaluation_input_def semantic_evaluation_input_json_def validate_evaluation_Inr [OF assms(2)])
next
  assume x: "M3EvaluationInput_init x = Inr x \<and> raw = semantic_json cal x \<and> fp = evaluation_input_fingerprint sha256 cal x \<and>
      i = evaluation_input_id sha256 cal x"
  then obtain data where data: "semantic_payload cal x = JObject data" "from_document cal data = Inr x"
    using from_semantic [OF assms(1)] by blast
  have "load_document ''canonical_semantic_document'' (canonical_json (JObject data)) = Inr data"
    by (rule load_canonical) (metis canonical_semantic data(1))
  then show "restore_evaluation_input sha256 cal raw fp i = Inr x"
    using x data(2) by (simp add: restore_evaluation_input_def semantic_evaluation_input_json_def
      validate_evaluation_Inr [OF assms(2)] semantic_json_def data(1))
qed

end
