(* ===== verification/Support_Evidence.thy ===== *)
theory Support_Evidence
  imports Evaluation_Documents Catalog_Validation
begin

text \<open>
  planning/feasibility_support.py: the frozen evidence a repair is judged by. Source records (task
  constraints, the schedule of a plan revision, availability of workers and vehicles, readiness, routes)
  name their predecessor and carry a fingerprint of their own content; a support snapshot is a projection
  of the selected ones. Instants are aware datetimes, normalised to UTC, in microseconds. SHA-256 and the
  data base of time zones are the parameters \<open>sha256\<close> and \<open>zones\<close>; a computed identity (fingerprint,
  record id) is a function of the record.
\<close>

section \<open>Enums and records\<close>

datatype FeasibilitySourceKind = TASK_CONSTRAINT | PLAN_SCHEDULE | WORKER_AVAILABILITY | TASK_READINESS | VEHICLE_AVAILABILITY | ROUTE

fun FeasibilitySourceKind_value :: "FeasibilitySourceKind \<Rightarrow> string" where
  "FeasibilitySourceKind_value FeasibilitySourceKind.TASK_CONSTRAINT = ''TASK_CONSTRAINT''"
| "FeasibilitySourceKind_value FeasibilitySourceKind.PLAN_SCHEDULE = ''PLAN_SCHEDULE''"
| "FeasibilitySourceKind_value FeasibilitySourceKind.WORKER_AVAILABILITY = ''WORKER_AVAILABILITY''"
| "FeasibilitySourceKind_value FeasibilitySourceKind.TASK_READINESS = ''TASK_READINESS''"
| "FeasibilitySourceKind_value FeasibilitySourceKind.VEHICLE_AVAILABILITY = ''VEHICLE_AVAILABILITY''"
| "FeasibilitySourceKind_value FeasibilitySourceKind.ROUTE = ''ROUTE''"

definition FeasibilitySourceKind_members :: "FeasibilitySourceKind list" where
  "FeasibilitySourceKind_members = [FeasibilitySourceKind.TASK_CONSTRAINT, FeasibilitySourceKind.PLAN_SCHEDULE, FeasibilitySourceKind.WORKER_AVAILABILITY, FeasibilitySourceKind.TASK_READINESS, FeasibilitySourceKind.VEHICLE_AVAILABILITY, FeasibilitySourceKind.ROUTE]"

datatype ConstraintKnowledge = KNOWN | ABSENT | UNKNOWN

fun ConstraintKnowledge_value :: "ConstraintKnowledge \<Rightarrow> string" where
  "ConstraintKnowledge_value ConstraintKnowledge.KNOWN = ''KNOWN''"
| "ConstraintKnowledge_value ConstraintKnowledge.ABSENT = ''ABSENT''"
| "ConstraintKnowledge_value ConstraintKnowledge.UNKNOWN = ''UNKNOWN''"

definition ConstraintKnowledge_members :: "ConstraintKnowledge list" where
  "ConstraintKnowledge_members = [ConstraintKnowledge.KNOWN, ConstraintKnowledge.ABSENT, ConstraintKnowledge.UNKNOWN]"

datatype AvailabilityKnowledge = KNOWN | UNKNOWN

fun AvailabilityKnowledge_value :: "AvailabilityKnowledge \<Rightarrow> string" where
  "AvailabilityKnowledge_value AvailabilityKnowledge.KNOWN = ''KNOWN''"
| "AvailabilityKnowledge_value AvailabilityKnowledge.UNKNOWN = ''UNKNOWN''"

definition AvailabilityKnowledge_members :: "AvailabilityKnowledge list" where
  "AvailabilityKnowledge_members = [AvailabilityKnowledge.KNOWN, AvailabilityKnowledge.UNKNOWN]"

datatype ReadinessState = READY | EXPECTED | UNKNOWN | BLOCKED

fun ReadinessState_value :: "ReadinessState \<Rightarrow> string" where
  "ReadinessState_value ReadinessState.READY = ''READY''"
| "ReadinessState_value ReadinessState.EXPECTED = ''EXPECTED''"
| "ReadinessState_value ReadinessState.UNKNOWN = ''UNKNOWN''"
| "ReadinessState_value ReadinessState.BLOCKED = ''BLOCKED''"

definition ReadinessState_members :: "ReadinessState list" where
  "ReadinessState_members = [ReadinessState.READY, ReadinessState.EXPECTED, ReadinessState.UNKNOWN, ReadinessState.BLOCKED]"

datatype RouteKnowledge = KNOWN | UNKNOWN

fun RouteKnowledge_value :: "RouteKnowledge \<Rightarrow> string" where
  "RouteKnowledge_value RouteKnowledge.KNOWN = ''KNOWN''"
| "RouteKnowledge_value RouteKnowledge.UNKNOWN = ''UNKNOWN''"

definition RouteKnowledge_members :: "RouteKnowledge list" where
  "RouteKnowledge_members = [RouteKnowledge.KNOWN, RouteKnowledge.UNKNOWN]"

record WorkerRegistryProvenance =
  wp_worker_registry_revision :: int
  wp_worker_registry_fingerprint :: string
  wp_canonical_worker_registry_json :: string

record WorkerRegistryProvenanceCapture =
  wc_ledger_generation :: int
  wc_worker_registry_provenance_id :: string
  wc_worker_registry_provenance_fingerprint :: string
  wc_worker_registry_revision :: int
  wc_worker_registry_fingerprint :: string

record TaskConstraintSource =
  tc_job_id :: string
  tc_task_id :: string
  tc_task_definition_version :: string
  tc_source_handoff_id :: string
  tc_source_revision_number :: int
  tc_m8_sku :: string
  tc_duration_seconds :: int
  tc_location_reference :: string
  tc_location_fingerprint :: string
  tc_customer_window_state :: ConstraintKnowledge
  tc_customer_window_start :: "int option"
  tc_customer_window_end :: "int option"
  tc_hard_deadline_state :: ConstraintKnowledge
  tc_hard_deadline :: "int option"
  tc_source_revision :: int
  tc_previous_source_record_id :: "string option"
  tc_provenance_reference :: string
  tc_m8_service_catalog_version :: string
  tc_m8_planning_profile_version :: string
  tc_m8_configuration_fingerprint :: string
  tc_required_skill_key :: string
  tc_minimum_skill_level :: int
  tc_required_vehicle_class :: string

record ScheduledPlacementEvidence =
  sl_commitment_id :: string
  sl_job_id :: string
  sl_task_id :: string
  sl_task_definition_version :: string
  sl_business_date :: int
  sl_worker_ids :: "string list"
  sl_vehicle_id :: "string option"
  sl_planned_start :: int
  sl_planned_end :: int

record PlanScheduleSource =
  sh_company_plan_id :: string
  sh_base_plan_revision :: int
  sh_base_plan_revision_id :: string
  sh_base_plan_revision_fingerprint :: string
  sh_business_timezone :: string
  sh_placements :: "ScheduledPlacementEvidence list"
  sh_source_revision :: int
  sh_previous_source_record_id :: "string option"
  sh_provenance_reference :: string

record AvailabilityWindowEvidence =
  ae_start_at :: int
  ae_end_at :: int

record WorkerAvailabilitySource =
  wa_worker_id :: string
  wa_coverage_start :: int
  wa_coverage_end :: int
  wa_available_windows :: "AvailabilityWindowEvidence list"
  wa_source_revision :: int
  wa_previous_source_record_id :: "string option"
  wa_provenance_reference :: string

record TaskReadinessSource =
  ry_job_id :: string
  ry_task_id :: string
  ry_task_definition_version :: string
  ry_status :: ReadinessState
  ry_expected_at :: "int option"
  ry_blocker_references :: "string list"
  ry_source_revision :: int
  ry_previous_source_record_id :: "string option"
  ry_provenance_reference :: string

record VehicleAvailabilitySource =
  vs_vehicle_id :: string
  vs_coverage_start :: int
  vs_coverage_end :: int
  vs_available_windows :: "AvailabilityWindowEvidence list"
  vs_source_revision :: int
  vs_previous_source_record_id :: "string option"
  vs_provenance_reference :: string

record RouteSource =
  ru_origin_reference :: string
  ru_origin_fingerprint :: string
  ru_destination_reference :: string
  ru_destination_fingerprint :: string
  ru_transport_mode :: string
  ru_departure_time_basis :: string
  ru_distance_meters :: int
  ru_travel_duration_seconds :: int
  ru_buffer_seconds :: int
  ru_buffer_rule_version :: string
  ru_route_snapshot_version :: string
  ru_provider :: string
  ru_source_revision :: int
  ru_previous_source_record_id :: "string option"
  ru_provenance_reference :: string

record WorkerSkillLevelEvidence =
  wk_required_skill_key :: string
  wk_level :: "int option"

record WorkerTechnicalEvidence =
  wt_worker_id :: string
  wt_m8_worker_known :: bool
  wt_skill_matrix_version :: string
  wt_license_b :: "bool option"
  wt_skill_levels :: "WorkerSkillLevelEvidence list"

record AvailabilityEvidence =
  ad_subject_id :: string
  ad_knowledge :: AvailabilityKnowledge
  ad_coverage_start :: "int option"
  ad_coverage_end :: "int option"
  ad_available_windows :: "AvailabilityWindowEvidence list"
  ad_source_record_id :: "string option"
  ad_source_fingerprint :: "string option"
  ad_source_revision :: "int option"

record ReadinessEvidence =
  rn_job_id :: string
  rn_task_id :: string
  rn_task_definition_version :: string
  rn_status :: ReadinessState
  rn_expected_at :: "int option"
  rn_blocker_references :: "string list"
  rn_source_record_id :: "string option"
  rn_source_fingerprint :: "string option"
  rn_source_revision :: "int option"

record VehicleTechnicalEvidence =
  vt_vehicle_id :: string
  vt_kind :: string
  vt_capabilities :: "string list"
  vt_assigned_worker_id :: "string option"
  vt_private_authority_evidence_included :: bool

record RouteEvidence =
  ro_origin_reference :: string
  ro_origin_fingerprint :: string
  ro_destination_reference :: string
  ro_destination_fingerprint :: string
  ro_transport_mode :: string
  ro_knowledge :: RouteKnowledge
  ro_departure_time_basis :: "string option"
  ro_distance_meters :: "int option"
  ro_travel_duration_seconds :: "int option"
  ro_buffer_seconds :: "int option"
  ro_buffer_rule_version :: "string option"
  ro_route_snapshot_version :: "string option"
  ro_provider :: "string option"
  ro_source_record_id :: "string option"
  ro_source_fingerprint :: "string option"
  ro_source_revision :: "int option"

record SourceSelection =
  sn_source_kind :: FeasibilitySourceKind
  sn_subject_fingerprint :: string
  sn_source_record_id :: "string option"
  sn_source_revision :: "int option"
  sn_source_fingerprint :: "string option"

record SourceSelectionCut =
  cu_evaluation_input_id :: string
  cu_evaluation_input_fingerprint :: string
  cu_company_plan_id :: string
  cu_base_plan_revision :: int
  cu_base_plan_revision_id :: string
  cu_base_plan_revision_fingerprint :: string
  cu_worker_registry_provenance_id :: string
  cu_worker_registry_provenance_fingerprint :: string
  cu_worker_registry_capture_id :: string
  cu_worker_registry_capture_fingerprint :: string
  cu_worker_registry_capture_generation :: int
  cu_source_cut_generation :: int
  cu_selections :: "SourceSelection list"

record FeasibilitySupportSnapshot =
  fs_evaluation_input_id :: string
  fs_evaluation_input_fingerprint :: string
  fs_company_plan_id :: string
  fs_base_plan_revision :: int
  fs_base_plan_revision_id :: string
  fs_base_plan_revision_fingerprint :: string
  fs_source_cut_id :: string
  fs_source_cut_generation :: int
  fs_source_cut_fingerprint :: string
  fs_m8_service_catalog_version :: string
  fs_m8_planning_profile_version :: string
  fs_m8_skill_matrix_version :: string
  fs_m8_vehicle_policy_version :: string
  fs_m8_configuration_fingerprint :: string
  fs_worker_registry_provenance_id :: string
  fs_worker_registry_provenance_fingerprint :: string
  fs_worker_registry_capture_id :: string
  fs_worker_registry_capture_fingerprint :: string
  fs_worker_registry_capture_generation :: int
  fs_worker_registry_revision :: int
  fs_worker_registry_fingerprint :: string
  fs_task_constraints :: "TaskConstraintSource list"
  fs_schedule :: PlanScheduleSource
  fs_worker_technical_evidence :: "WorkerTechnicalEvidence list"
  fs_worker_availability :: "AvailabilityEvidence list"
  fs_readiness :: "ReadinessEvidence list"
  fs_vehicle_technical_evidence :: "VehicleTechnicalEvidence list"
  fs_vehicle_availability :: "AvailabilityEvidence list"
  fs_routes :: "RouteEvidence list"

section \<open>Checks of single values\<close>

text \<open>The fields every source record ends with (\<open>_set_source_identity\<close>).\<close>

definition check_source_identity :: "int \<Rightarrow> string option \<Rightarrow> string \<Rightarrow> unit result" where
  "check_source_identity source_revision previous provenance =
     and_then (check_revision source_revision ''source_revision'') (\<lambda>_.
     and_then (check_identity provenance ''provenance_reference'') (\<lambda>_.
     and_then (check_optional_identity previous ''previous_source_record_id'') (\<lambda>_.
     check_value ((source_revision = 0) = (previous = None)) ''previous_source_record_id'')))"

definition WorkerRegistryProvenance_init :: "(string \<Rightarrow> string) \<Rightarrow> WorkerRegistryProvenance \<Rightarrow> WorkerRegistryProvenance result" where
  "WorkerRegistryProvenance_init sha256 x =
     and_then (check_revision (wp_worker_registry_revision x) ''worker_registry_revision'') (\<lambda>_.
     and_then (check_digest (wp_worker_registry_fingerprint x) ''worker_registry_fingerprint'') (\<lambda>_.
     case deserialize_worker_registry (wp_canonical_worker_registry_json x) of
       Inl _ \<Rightarrow> Inl (ValueError (invalid ''canonical_worker_registry_json''))
     | Inr registry \<Rightarrow>
         and_then (check_value (wr_registry_revision registry = wp_worker_registry_revision x) ''worker_registry_revision'') (\<lambda>_.
         and_then (check_value (sha256 (wp_canonical_worker_registry_json x) = wp_worker_registry_fingerprint x)
            ''worker_registry_fingerprint'') (\<lambda>_. Inr x))))"

definition WorkerRegistryProvenanceCapture_init :: "WorkerRegistryProvenanceCapture \<Rightarrow> WorkerRegistryProvenanceCapture result" where
  "WorkerRegistryProvenanceCapture_init x =
     and_then (check_revision (wc_ledger_generation x) ''ledger_generation'') (\<lambda>_.
     and_then (check_value (0 < wc_ledger_generation x) ''ledger_generation'') (\<lambda>_.
     and_then (check_identity (wc_worker_registry_provenance_id x) ''worker_registry_provenance_id'') (\<lambda>_.
     and_then (check_digest (wc_worker_registry_provenance_fingerprint x) ''worker_registry_provenance_fingerprint'') (\<lambda>_.
     and_then (check_digest (wc_worker_registry_fingerprint x) ''worker_registry_fingerprint'') (\<lambda>_.
     and_then (check_revision (wc_worker_registry_revision x) ''worker_registry_revision'') (\<lambda>_.
     and_then (check_value (wc_worker_registry_provenance_id x =
         ''m3-feasibility-worker-registry-'' @ wc_worker_registry_provenance_fingerprint x) ''worker_registry_provenance_id'') (\<lambda>_.
     Inr x)))))))"

text \<open>\<open>_validate_base_semantics\<close>, \<open>_validate_m8_semantics\<close>.\<close>

definition task_constraint_base :: "TaskConstraintSource \<Rightarrow> unit result" where
  "task_constraint_base x =
     and_then (check_identity (tc_job_id x) ''job_id'') (\<lambda>_.
     and_then (check_identity (tc_task_id x) ''task_id'') (\<lambda>_.
     and_then (check_identity (tc_task_definition_version x) ''task_definition_version'') (\<lambda>_.
     and_then (check_identity (tc_source_handoff_id x) ''source_handoff_id'') (\<lambda>_.
     and_then (check_identity (tc_location_reference x) ''location_reference'') (\<lambda>_.
     and_then (check_revision (tc_source_revision_number x) ''source_revision_number'') (\<lambda>_.
     and_then (check_value (0 < tc_source_revision_number x) ''source_revision_number'') (\<lambda>_.
     and_then (check_digest (tc_location_fingerprint x) ''location_fingerprint'') (\<lambda>_.
     and_then (check_value (0 < tc_duration_seconds x \<and> tc_duration_seconds x \<le> 315576000) ''duration_seconds'') (\<lambda>_.
     and_then (check_value
        (if tc_customer_window_state x = ConstraintKnowledge.KNOWN then
           (case (tc_customer_window_start x, tc_customer_window_end x) of (Some s, Some e) \<Rightarrow> s < e | _ \<Rightarrow> False)
         else tc_customer_window_start x = None \<and> tc_customer_window_end x = None) ''customer_window'') (\<lambda>_.
     check_value ((tc_hard_deadline_state x = ConstraintKnowledge.KNOWN) = (tc_hard_deadline x \<noteq> None)) ''hard_deadline''))))))))))"

definition task_constraint_m8 :: "TaskConstraintSource \<Rightarrow> unit result" where
  "task_constraint_m8 x =
     and_then (check_identity (tc_m8_sku x) ''m8_sku'') (\<lambda>_.
     and_then (check_identity (tc_m8_service_catalog_version x) ''m8_service_catalog_version'') (\<lambda>_.
     and_then (check_identity (tc_m8_planning_profile_version x) ''m8_planning_profile_version'') (\<lambda>_.
     and_then (check_identity (tc_required_skill_key x) ''required_skill_key'') (\<lambda>_.
     and_then (check_identity (tc_required_vehicle_class x) ''required_vehicle_class'') (\<lambda>_.
     and_then (check_digest (tc_m8_configuration_fingerprint x) ''m8_configuration_fingerprint'') (\<lambda>_.
     check_value (0 \<le> tc_minimum_skill_level x \<and> tc_minimum_skill_level x \<le> 3) ''minimum_skill_level''))))))"

text \<open>
  \<open>_record\<close> of a task constraint validates it without consulting the current configuration (the
  fingerprints it also compares are functions of the record here).
\<close>

definition TaskConstraintSource_record :: "TaskConstraintSource \<Rightarrow> TaskConstraintSource result" where
  "TaskConstraintSource_record x =
     and_then (task_constraint_base x) (\<lambda>_. and_then (task_constraint_m8 x) (\<lambda>_. Inr x))"

text \<open>\<open>_restore_task_constraint\<close> ends in \<open>_finish_identity\<close>.\<close>

definition TaskConstraintSource_init :: "TaskConstraintSource \<Rightarrow> TaskConstraintSource result" where
  "TaskConstraintSource_init x =
     and_then (task_constraint_base x) (\<lambda>_.
     and_then (task_constraint_m8 x) (\<lambda>_.
     and_then (check_source_identity (tc_source_revision x) (tc_previous_source_record_id x) (tc_provenance_reference x)) (\<lambda>_.
     Inr x)))"

definition ScheduledPlacementEvidence_init :: "ScheduledPlacementEvidence \<Rightarrow> ScheduledPlacementEvidence result" where
  "ScheduledPlacementEvidence_init x =
     and_then (check_identity (sl_commitment_id x) ''commitment_id'') (\<lambda>_.
     and_then (check_identity (sl_job_id x) ''job_id'') (\<lambda>_.
     and_then (check_identity (sl_task_id x) ''task_id'') (\<lambda>_.
     and_then (check_identity (sl_task_definition_version x) ''task_definition_version'') (\<lambda>_.
     and_then (canonical_identities (sl_worker_ids x) ''worker_ids'') (\<lambda>workers.
     and_then (check_optional_identity (sl_vehicle_id x) ''vehicle_id'') (\<lambda>_.
     and_then (check_value (sl_planned_start x < sl_planned_end x) ''planned_interval'') (\<lambda>_.
     Inr (x\<lparr>sl_worker_ids := workers\<rparr>))))))))"

definition sl_key :: "ScheduledPlacementEvidence \<Rightarrow> string \<times> string \<times> string" where
  "sl_key p = (sl_job_id p, sl_task_id p, sl_commitment_id p)"

text \<open>
  A time zone, as the \<open>ZoneInfo\<close> of a name: the local date of an instant and the instant at which a
  local date begins. The data base of zones is the parameter \<open>zones\<close>.
\<close>

record zone_rules =
  zr_local_date :: "int \<Rightarrow> int"
  zr_day_start :: "int \<Rightarrow> int"

definition PlanScheduleSource_init ::
    "(string \<Rightarrow> zone_rules option) \<Rightarrow> PlanScheduleSource \<Rightarrow> PlanScheduleSource result" where
  "PlanScheduleSource_init zones x =
     and_then (check_identity (sh_company_plan_id x) ''company_plan_id'') (\<lambda>_.
     and_then (check_revision (sh_base_plan_revision x) ''base_plan_revision'') (\<lambda>_.
     and_then (check_identity (sh_base_plan_revision_id x) ''base_plan_revision_id'') (\<lambda>_.
     and_then (check_digest (sh_base_plan_revision_fingerprint x) ''base_plan_revision_fingerprint'') (\<lambda>_.
     and_then (check_value (sh_base_plan_revision_id x = ''m3-plan-revision-'' @ sh_base_plan_revision_fingerprint x)
        ''base_plan_revision_id'') (\<lambda>_.
     and_then (check_identity (sh_business_timezone x) ''business_timezone'') (\<lambda>_.
     case zones (sh_business_timezone x) of
       None \<Rightarrow> Inl (ValueError ''UNKNOWN_TIMEZONE: business_timezone'')
     | Some zone \<Rightarrow>
         and_then (canonical_records ScheduledPlacementEvidence_init sl_key ''placements'' (sh_placements x)) (\<lambda>placements.
         and_then (check_value (\<forall>p\<in>set placements. zr_local_date zone (sl_planned_start p) = sl_business_date p)
            ''placement_business_date'') (\<lambda>_.
         and_then (check_source_identity (sh_source_revision x) (sh_previous_source_record_id x) (sh_provenance_reference x)) (\<lambda>_.
         Inr (x\<lparr>sh_placements := placements\<rparr>))))))))))"

definition AvailabilityWindowEvidence_init :: "AvailabilityWindowEvidence \<Rightarrow> AvailabilityWindowEvidence result" where
  "AvailabilityWindowEvidence_init x =
     and_then (check_value (ae_start_at x < ae_end_at x) ''availability_window'') (\<lambda>_. Inr x)"

text \<open>\<open>_canonical_windows\<close>: sorted, and a window that starts before or at the end of the last one is merged into it.\<close>

definition merge_window :: "AvailabilityWindowEvidence list \<Rightarrow> AvailabilityWindowEvidence \<Rightarrow> AvailabilityWindowEvidence list" where
  "merge_window merged v =
     (if merged \<noteq> [] \<and> ae_start_at v \<le> ae_end_at (last merged) then
        butlast merged @ [\<lparr>ae_start_at = ae_start_at (last merged), ae_end_at = max (ae_end_at (last merged)) (ae_end_at v)\<rparr>]
      else merged @ [v])"

definition canonical_windows ::
    "AvailabilityWindowEvidence list \<Rightarrow> int \<Rightarrow> int \<Rightarrow> AvailabilityWindowEvidence list result" where
  "canonical_windows vs coverage_start coverage_end =
     and_then (check_all (\<lambda>v.
        and_then (check_record AvailabilityWindowEvidence_init ''available_windows'' v) (\<lambda>_.
        check_value (coverage_start \<le> ae_start_at v \<and> ae_start_at v < ae_end_at v \<and> ae_end_at v \<le> coverage_end)
          ''available_windows'')) vs) (\<lambda>_.
     Inr (foldl merge_window [] (sort_key (\<lambda>v. (ae_start_at v, ae_end_at v)) vs)))"

definition WorkerAvailabilitySource_init :: "WorkerAvailabilitySource \<Rightarrow> WorkerAvailabilitySource result" where
  "WorkerAvailabilitySource_init x =
     and_then (check_identity (wa_worker_id x) ''worker_id'') (\<lambda>_.
     and_then (check_value (wa_coverage_start x < wa_coverage_end x) ''availability_coverage'') (\<lambda>_.
     and_then (canonical_windows (wa_available_windows x) (wa_coverage_start x) (wa_coverage_end x)) (\<lambda>windows.
     and_then (check_source_identity (wa_source_revision x) (wa_previous_source_record_id x) (wa_provenance_reference x)) (\<lambda>_.
     Inr (x\<lparr>wa_available_windows := windows\<rparr>)))))"

definition TaskReadinessSource_init :: "TaskReadinessSource \<Rightarrow> TaskReadinessSource result" where
  "TaskReadinessSource_init x =
     and_then (check_identity (ry_job_id x) ''job_id'') (\<lambda>_.
     and_then (check_identity (ry_task_id x) ''task_id'') (\<lambda>_.
     and_then (check_identity (ry_task_definition_version x) ''task_definition_version'') (\<lambda>_.
     and_then (check_value ((ry_status x = ReadinessState.EXPECTED) = (ry_expected_at x \<noteq> None)) ''expected_at'') (\<lambda>_.
     and_then (canonical_identities (ry_blocker_references x) ''blocker_references'') (\<lambda>blockers.
     and_then (check_source_identity (ry_source_revision x) (ry_previous_source_record_id x) (ry_provenance_reference x)) (\<lambda>_.
     Inr (x\<lparr>ry_blocker_references := blockers\<rparr>)))))))"

definition VehicleAvailabilitySource_init :: "VehicleAvailabilitySource \<Rightarrow> VehicleAvailabilitySource result" where
  "VehicleAvailabilitySource_init x =
     and_then (check_identity (vs_vehicle_id x) ''vehicle_id'') (\<lambda>_.
     and_then (check_value (vs_coverage_start x < vs_coverage_end x) ''availability_coverage'') (\<lambda>_.
     and_then (canonical_windows (vs_available_windows x) (vs_coverage_start x) (vs_coverage_end x)) (\<lambda>windows.
     and_then (check_source_identity (vs_source_revision x) (vs_previous_source_record_id x) (vs_provenance_reference x)) (\<lambda>_.
     Inr (x\<lparr>vs_available_windows := windows\<rparr>)))))"

definition RouteSource_init :: "RouteSource \<Rightarrow> RouteSource result" where
  "RouteSource_init x =
     and_then (check_identity (ru_origin_reference x) ''origin_reference'') (\<lambda>_.
     and_then (check_identity (ru_destination_reference x) ''destination_reference'') (\<lambda>_.
     and_then (check_identity (ru_transport_mode x) ''transport_mode'') (\<lambda>_.
     and_then (check_identity (ru_departure_time_basis x) ''departure_time_basis'') (\<lambda>_.
     and_then (check_identity (ru_buffer_rule_version x) ''buffer_rule_version'') (\<lambda>_.
     and_then (check_identity (ru_route_snapshot_version x) ''route_snapshot_version'') (\<lambda>_.
     and_then (check_identity (ru_provider x) ''provider'') (\<lambda>_.
     and_then (check_digest (ru_origin_fingerprint x) ''origin_fingerprint'') (\<lambda>_.
     and_then (check_digest (ru_destination_fingerprint x) ''destination_fingerprint'') (\<lambda>_.
     and_then (check_value (0 \<le> ru_distance_meters x) ''distance_meters'') (\<lambda>_.
     and_then (check_value (0 \<le> ru_travel_duration_seconds x) ''travel_duration_seconds'') (\<lambda>_.
     and_then (check_value (0 \<le> ru_buffer_seconds x) ''buffer_seconds'') (\<lambda>_.
     and_then (check_value ((ru_origin_reference x, ru_origin_fingerprint x) \<noteq> (ru_destination_reference x, ru_destination_fingerprint x))
        ''route_endpoints'') (\<lambda>_.
     and_then (check_source_identity (ru_source_revision x) (ru_previous_source_record_id x) (ru_provenance_reference x)) (\<lambda>_.
     Inr x))))))))))))))"

definition WorkerSkillLevelEvidence_init :: "WorkerSkillLevelEvidence \<Rightarrow> WorkerSkillLevelEvidence result" where
  "WorkerSkillLevelEvidence_init x =
     and_then (check_identity (wk_required_skill_key x) ''required_skill_key'') (\<lambda>_.
     and_then (check_value (case wk_level x of None \<Rightarrow> True | Some n \<Rightarrow> 0 \<le> n \<and> n \<le> 3) ''skill_level'') (\<lambda>_. Inr x))"

definition WorkerTechnicalEvidence_init :: "WorkerTechnicalEvidence \<Rightarrow> WorkerTechnicalEvidence result" where
  "WorkerTechnicalEvidence_init x =
     and_then (check_identity (wt_worker_id x) ''worker_id'') (\<lambda>_.
     and_then (check_identity (wt_skill_matrix_version x) ''skill_matrix_version'') (\<lambda>_.
     and_then (check_value (wt_m8_worker_known x = (wt_license_b x \<noteq> None)) ''license_b'') (\<lambda>_.
     and_then (canonical_records WorkerSkillLevelEvidence_init wk_required_skill_key ''skill_levels'' (wt_skill_levels x)) (\<lambda>levels.
     and_then (check_value (\<forall>l\<in>set levels. (wk_level l \<noteq> None) = wt_m8_worker_known x) ''skill_levels'') (\<lambda>_.
     Inr (x\<lparr>wt_skill_levels := levels\<rparr>))))))"

definition AvailabilityEvidence_init :: "AvailabilityEvidence \<Rightarrow> AvailabilityEvidence result" where
  "AvailabilityEvidence_init x =
     and_then (check_identity (ad_subject_id x) ''availability_subject_id'') (\<lambda>_.
     if ad_knowledge x = AvailabilityKnowledge.UNKNOWN then
       and_then (check_value (ad_coverage_start x = None \<and> ad_coverage_end x = None \<and> ad_available_windows x = [] \<and>
          ad_source_record_id x = None \<and> ad_source_fingerprint x = None \<and> ad_source_revision x = None) ''unknown_availability'') (\<lambda>_.
       Inr (x\<lparr>ad_available_windows := []\<rparr>))
     else
       case (ad_coverage_start x, ad_coverage_end x) of
         (Some s, Some e) \<Rightarrow>
           and_then (check_value (s < e) ''availability_coverage'') (\<lambda>_.
           and_then (case ad_source_record_id x of None \<Rightarrow> Inl (ValueError (invalid ''source_record_id''))
             | Some i \<Rightarrow> check_identity i ''source_record_id'') (\<lambda>_.
           and_then (case ad_source_fingerprint x of None \<Rightarrow> Inl (ValueError (invalid ''source_fingerprint''))
             | Some d \<Rightarrow> check_digest d ''source_fingerprint'') (\<lambda>_.
           and_then (case ad_source_revision x of None \<Rightarrow> Inl (ValueError (invalid ''source_revision''))
             | Some n \<Rightarrow> check_revision n ''source_revision'') (\<lambda>_.
           and_then (canonical_windows (ad_available_windows x) s e) (\<lambda>windows.
           Inr (x\<lparr>ad_available_windows := windows\<rparr>))))))
       | (None, _) \<Rightarrow> Inl (ValueError (invalid ''coverage_start''))
       | (_, None) \<Rightarrow> Inl (ValueError (invalid ''coverage_end'')))"

definition ReadinessEvidence_init :: "ReadinessEvidence \<Rightarrow> ReadinessEvidence result" where
  "ReadinessEvidence_init x =
     and_then (check_identity (rn_job_id x) ''job_id'') (\<lambda>_.
     and_then (check_identity (rn_task_id x) ''task_id'') (\<lambda>_.
     and_then (check_identity (rn_task_definition_version x) ''task_definition_version'') (\<lambda>_.
     and_then (check_value ((rn_status x = ReadinessState.EXPECTED) = (rn_expected_at x \<noteq> None)) ''expected_at'') (\<lambda>_.
     and_then (canonical_identities (rn_blocker_references x) ''blocker_references'') (\<lambda>blockers.
     and_then (case rn_source_record_id x of
         None \<Rightarrow> check_value (rn_status x = ReadinessState.UNKNOWN \<and> rn_source_fingerprint x = None \<and>
           rn_source_revision x = None \<and> blockers = []) ''missing_readiness_source''
       | Some i \<Rightarrow>
           and_then (check_identity i ''source_record_id'') (\<lambda>_.
           and_then (case rn_source_fingerprint x of None \<Rightarrow> Inl (ValueError (invalid ''source_fingerprint''))
             | Some d \<Rightarrow> check_digest d ''source_fingerprint'') (\<lambda>_.
           case rn_source_revision x of None \<Rightarrow> Inl (ValueError (invalid ''source_revision''))
             | Some n \<Rightarrow> check_revision n ''source_revision''))) (\<lambda>_.
     Inr (x\<lparr>rn_blocker_references := blockers\<rparr>)))))))"

definition VehicleTechnicalEvidence_init :: "VehicleTechnicalEvidence \<Rightarrow> VehicleTechnicalEvidence result" where
  "VehicleTechnicalEvidence_init x =
     and_then (check_identity (vt_vehicle_id x) ''vehicle_id'') (\<lambda>_.
     and_then (check_identity (vt_kind x) ''vehicle_kind'') (\<lambda>_.
     and_then (canonical_identities (vt_capabilities x) ''capabilities'') (\<lambda>capabilities.
     and_then (check_optional_identity (vt_assigned_worker_id x) ''assigned_worker_id'') (\<lambda>_.
     and_then (check_value (\<not> vt_private_authority_evidence_included x) ''private_authority_evidence_included'') (\<lambda>_.
     Inr (x\<lparr>vt_capabilities := capabilities\<rparr>))))))"

definition check_some_identity :: "string option \<Rightarrow> string \<Rightarrow> unit result" where
  "check_some_identity v name = (case v of None \<Rightarrow> Inl (ValueError (invalid name)) | Some i \<Rightarrow> check_identity i name)"

definition check_some_amount :: "int option \<Rightarrow> string \<Rightarrow> unit result" where
  "check_some_amount v name = (case v of None \<Rightarrow> Inl (ValueError (invalid name)) | Some n \<Rightarrow> check_value (0 \<le> n) name)"

definition RouteEvidence_init :: "RouteEvidence \<Rightarrow> RouteEvidence result" where
  "RouteEvidence_init x =
     and_then (check_identity (ro_origin_reference x) ''origin_reference'') (\<lambda>_.
     and_then (check_identity (ro_destination_reference x) ''destination_reference'') (\<lambda>_.
     and_then (check_identity (ro_transport_mode x) ''transport_mode'') (\<lambda>_.
     and_then (check_digest (ro_origin_fingerprint x) ''origin_fingerprint'') (\<lambda>_.
     and_then (check_digest (ro_destination_fingerprint x) ''destination_fingerprint'') (\<lambda>_.
     if ro_knowledge x = RouteKnowledge.UNKNOWN then
       and_then (check_value (ro_departure_time_basis x = None \<and> ro_distance_meters x = None \<and>
          ro_travel_duration_seconds x = None \<and> ro_buffer_seconds x = None \<and> ro_buffer_rule_version x = None \<and>
          ro_route_snapshot_version x = None \<and> ro_provider x = None \<and> ro_source_record_id x = None \<and>
          ro_source_fingerprint x = None \<and> ro_source_revision x = None) ''unknown_route'') (\<lambda>_. Inr x)
     else
       and_then (check_some_identity (ro_departure_time_basis x) ''departure_time_basis'') (\<lambda>_.
       and_then (check_some_identity (ro_buffer_rule_version x) ''buffer_rule_version'') (\<lambda>_.
       and_then (check_some_identity (ro_route_snapshot_version x) ''route_snapshot_version'') (\<lambda>_.
       and_then (check_some_identity (ro_provider x) ''provider'') (\<lambda>_.
       and_then (check_some_identity (ro_source_record_id x) ''source_record_id'') (\<lambda>_.
       and_then (case ro_source_fingerprint x of None \<Rightarrow> Inl (ValueError (invalid ''source_fingerprint''))
         | Some d \<Rightarrow> check_digest d ''source_fingerprint'') (\<lambda>_.
       and_then (case ro_source_revision x of None \<Rightarrow> Inl (ValueError (invalid ''source_revision''))
         | Some n \<Rightarrow> check_revision n ''source_revision'') (\<lambda>_.
       and_then (check_some_amount (ro_distance_meters x) ''distance_meters'') (\<lambda>_.
       and_then (check_some_amount (ro_travel_duration_seconds x) ''travel_duration_seconds'') (\<lambda>_.
       and_then (check_some_amount (ro_buffer_seconds x) ''buffer_seconds'') (\<lambda>_. Inr x)))))))))))))))"

definition SourceSelection_init :: "SourceSelection \<Rightarrow> SourceSelection result" where
  "SourceSelection_init x =
     and_then (check_digest (sn_subject_fingerprint x) ''subject_fingerprint'') (\<lambda>_.
     case (sn_source_record_id x, sn_source_revision x, sn_source_fingerprint x) of
       (None, None, None) \<Rightarrow> Inr x
     | (Some i, Some n, Some d) \<Rightarrow>
         and_then (check_identity i ''source_record_id'') (\<lambda>_.
         and_then (check_revision n ''source_revision'') (\<lambda>_.
         and_then (check_digest d ''source_fingerprint'') (\<lambda>_.
         and_then (check_value (i = ''m3-feasibility-source-'' @ d) ''source_record_id'') (\<lambda>_. Inr x))))
     | _ \<Rightarrow> Inl (ValueError (invalid ''source_selection'')))"

definition SourceSelectionCut_init :: "SourceSelectionCut \<Rightarrow> SourceSelectionCut result" where
  "SourceSelectionCut_init x =
     and_then (check_identity (cu_evaluation_input_id x) ''evaluation_input_id'') (\<lambda>_.
     and_then (check_identity (cu_company_plan_id x) ''company_plan_id'') (\<lambda>_.
     and_then (check_identity (cu_base_plan_revision_id x) ''base_plan_revision_id'') (\<lambda>_.
     and_then (check_identity (cu_worker_registry_provenance_id x) ''worker_registry_provenance_id'') (\<lambda>_.
     and_then (check_identity (cu_worker_registry_capture_id x) ''worker_registry_capture_id'') (\<lambda>_.
     and_then (check_digest (cu_evaluation_input_fingerprint x) ''evaluation_input_fingerprint'') (\<lambda>_.
     and_then (check_digest (cu_base_plan_revision_fingerprint x) ''base_plan_revision_fingerprint'') (\<lambda>_.
     and_then (check_digest (cu_worker_registry_provenance_fingerprint x) ''worker_registry_provenance_fingerprint'') (\<lambda>_.
     and_then (check_digest (cu_worker_registry_capture_fingerprint x) ''worker_registry_capture_fingerprint'') (\<lambda>_.
     and_then (check_revision (cu_base_plan_revision x) ''base_plan_revision'') (\<lambda>_.
     and_then (check_revision (cu_worker_registry_capture_generation x) ''worker_registry_capture_generation'') (\<lambda>_.
     and_then (check_revision (cu_source_cut_generation x) ''source_cut_generation'') (\<lambda>_.
     and_then (check_value (cu_evaluation_input_id x = ''m3-evaluation-input-'' @ cu_evaluation_input_fingerprint x)
        ''evaluation_input_id'') (\<lambda>_.
     and_then (check_value (cu_base_plan_revision_id x = ''m3-plan-revision-'' @ cu_base_plan_revision_fingerprint x)
        ''base_plan_revision_id'') (\<lambda>_.
     and_then (check_value (cu_worker_registry_provenance_id x =
        ''m3-feasibility-worker-registry-'' @ cu_worker_registry_provenance_fingerprint x) ''worker_registry_provenance_id'') (\<lambda>_.
     and_then (check_value (cu_worker_registry_capture_id x =
        ''m3-feasibility-worker-registry-capture-'' @ cu_worker_registry_capture_fingerprint x) ''worker_registry_capture_id'') (\<lambda>_.
     and_then (canonical_records SourceSelection_init
        (\<lambda>s. (FeasibilitySourceKind_value (sn_source_kind s), sn_subject_fingerprint s)) ''source_selections'' (cu_selections x)) (\<lambda>selections.
     Inr (x\<lparr>cu_selections := selections\<rparr>))))))))))))))))))"

section \<open>The support snapshot\<close>

definition ro_key :: "RouteEvidence \<Rightarrow> string \<times> string \<times> string \<times> string \<times> string" where
  "ro_key r = (ro_origin_reference r, ro_origin_fingerprint r, ro_destination_reference r, ro_destination_fingerprint r, ro_transport_mode r)"

definition FeasibilitySupportSnapshot_init ::
    "(string \<Rightarrow> zone_rules option) \<Rightarrow> FeasibilitySupportSnapshot \<Rightarrow> FeasibilitySupportSnapshot result" where
  "FeasibilitySupportSnapshot_init zones x =
     and_then (check_identity (fs_evaluation_input_id x) ''evaluation_input_id'') (\<lambda>_.
     and_then (check_identity (fs_company_plan_id x) ''company_plan_id'') (\<lambda>_.
     and_then (check_identity (fs_base_plan_revision_id x) ''base_plan_revision_id'') (\<lambda>_.
     and_then (check_identity (fs_source_cut_id x) ''source_cut_id'') (\<lambda>_.
     and_then (check_identity (fs_m8_service_catalog_version x) ''m8_service_catalog_version'') (\<lambda>_.
     and_then (check_identity (fs_m8_planning_profile_version x) ''m8_planning_profile_version'') (\<lambda>_.
     and_then (check_identity (fs_m8_skill_matrix_version x) ''m8_skill_matrix_version'') (\<lambda>_.
     and_then (check_identity (fs_m8_vehicle_policy_version x) ''m8_vehicle_policy_version'') (\<lambda>_.
     and_then (check_identity (fs_worker_registry_provenance_id x) ''worker_registry_provenance_id'') (\<lambda>_.
     and_then (check_identity (fs_worker_registry_capture_id x) ''worker_registry_capture_id'') (\<lambda>_.
     and_then (check_digest (fs_evaluation_input_fingerprint x) ''evaluation_input_fingerprint'') (\<lambda>_.
     and_then (check_digest (fs_base_plan_revision_fingerprint x) ''base_plan_revision_fingerprint'') (\<lambda>_.
     and_then (check_digest (fs_source_cut_fingerprint x) ''source_cut_fingerprint'') (\<lambda>_.
     and_then (check_digest (fs_m8_configuration_fingerprint x) ''m8_configuration_fingerprint'') (\<lambda>_.
     and_then (check_digest (fs_worker_registry_provenance_fingerprint x) ''worker_registry_provenance_fingerprint'') (\<lambda>_.
     and_then (check_digest (fs_worker_registry_capture_fingerprint x) ''worker_registry_capture_fingerprint'') (\<lambda>_.
     and_then (check_digest (fs_worker_registry_fingerprint x) ''worker_registry_fingerprint'') (\<lambda>_.
     and_then (check_revision (fs_base_plan_revision x) ''base_plan_revision'') (\<lambda>_.
     and_then (check_revision (fs_source_cut_generation x) ''source_cut_generation'') (\<lambda>_.
     and_then (check_revision (fs_worker_registry_capture_generation x) ''worker_registry_capture_generation'') (\<lambda>_.
     and_then (check_revision (fs_worker_registry_revision x) ''worker_registry_revision'') (\<lambda>_.
     and_then (check_value (fs_evaluation_input_id x = ''m3-evaluation-input-'' @ fs_evaluation_input_fingerprint x)
        ''evaluation_input_id'') (\<lambda>_.
     and_then (check_value (fs_base_plan_revision_id x = ''m3-plan-revision-'' @ fs_base_plan_revision_fingerprint x)
        ''base_plan_revision_id'') (\<lambda>_.
     and_then (check_value (fs_source_cut_id x = ''m3-feasibility-source-cut-'' @ fs_source_cut_fingerprint x) ''source_cut_id'') (\<lambda>_.
     and_then (check_value (fs_worker_registry_provenance_id x =
        ''m3-feasibility-worker-registry-'' @ fs_worker_registry_provenance_fingerprint x) ''worker_registry_provenance_id'') (\<lambda>_.
     and_then (check_value (fs_worker_registry_capture_id x =
        ''m3-feasibility-worker-registry-capture-'' @ fs_worker_registry_capture_fingerprint x) ''worker_registry_capture_id'') (\<lambda>_.
     and_then (canonical_records TaskConstraintSource_record (\<lambda>c. (tc_job_id c, tc_task_id c)) ''task_constraints'' (fs_task_constraints x)) (\<lambda>constraints.
     and_then (check_record (PlanScheduleSource_init zones) ''schedule'' (fs_schedule x)) (\<lambda>_.
     and_then (canonical_records WorkerTechnicalEvidence_init wt_worker_id ''worker_technical_evidence'' (fs_worker_technical_evidence x)) (\<lambda>workers.
     and_then (canonical_records AvailabilityEvidence_init ad_subject_id ''worker_availability'' (fs_worker_availability x)) (\<lambda>worker_avail.
     and_then (canonical_records ReadinessEvidence_init (\<lambda>r. (rn_job_id r, rn_task_id r)) ''readiness'' (fs_readiness x)) (\<lambda>readiness.
     and_then (canonical_records VehicleTechnicalEvidence_init vt_vehicle_id ''vehicle_technical_evidence'' (fs_vehicle_technical_evidence x)) (\<lambda>vehicles.
     and_then (canonical_records AvailabilityEvidence_init ad_subject_id ''vehicle_availability'' (fs_vehicle_availability x)) (\<lambda>vehicle_avail.
     and_then (canonical_records RouteEvidence_init ro_key ''routes'' (fs_routes x)) (\<lambda>routes.
     and_then (check_value (wt_worker_id ` set workers = ad_subject_id ` set worker_avail) ''worker_availability_coverage'') (\<lambda>_.
     and_then (check_value (vt_vehicle_id ` set vehicles = ad_subject_id ` set vehicle_avail) ''vehicle_availability_coverage'') (\<lambda>_.
     Inr (x\<lparr>fs_task_constraints := constraints, fs_worker_technical_evidence := workers, fs_worker_availability := worker_avail,
            fs_readiness := readiness, fs_vehicle_technical_evidence := vehicles, fs_vehicle_availability := vehicle_avail,
            fs_routes := routes\<rparr>)))))))))))))))))))))))))))))))))))))"

section \<open>The frozen business configuration\<close>

fun VehicleKind_value :: "VehicleKind \<Rightarrow> string" where
  "VehicleKind_value COMPANY = ''COMPANY''"
| "VehicleKind_value PRIVATE = ''PRIVATE''"
| "VehicleKind_value RENTAL = ''RENTAL''"

definition m8_profile_json :: "SkuPlanningProfile \<Rightarrow> json" where
  "m8_profile_json p = JObject
     [(''minimum_skill_level'', JInt (pp_min_skill_level p)), (''required_skill_key'', JString (pp_required_skill_key p)),
      (''sku'', JString (pp_sku p)), (''vehicle_class'', JString (VehicleClass_value (pp_vehicle_class p)))]"

definition m8_worker_json :: "CrewMember \<Rightarrow> json" where
  "m8_worker_json w = JObject
     [(''license_b'', JBool (cm_license_b w)),
      (''skills'', json_list (\<lambda>s. JObject [(''level'', JInt (sr_level s)), (''skill_key'', JString (sr_sku s))])
         (sort_key sr_sku (cm_skills w))),
      (''worker_id'', JString (cm_worker_id w))]"

definition m8_vehicle_json :: "VehicleProfile \<Rightarrow> json" where
  "m8_vehicle_json v = JObject
     [(''assigned_worker_id'', json_option JString (vp_assigned_worker_id v)),
      (''capabilities'', json_strings (sort (map VehicleClass_value (vp_capabilities v)))),
      (''kind'', JString (VehicleKind_value (vp_kind v))), (''vehicle_id'', JString (vp_vehicle_id v))]"

text \<open>An invalid configuration raises a \<open>RuntimeError\<close> with this text; it stands here as a \<open>ValueError\<close>.\<close>

definition m8_feasibility_configuration_json :: "M8BusinessConfiguration \<Rightarrow> string result" where
  "m8_feasibility_configuration_json config =
     and_then (assert_valid_m8_configuration config) (\<lambda>checked.
     case checked of
       Inl issues \<Rightarrow> Inl (ValueError (''Invalid M8.0 business configuration: '' @ join ''; ''
         (map (\<lambda>i. ci_code i @ ''['' @ ci_affected_id i @ '']: '' @ ci_explanation i) issues)))
     | Inr _ \<Rightarrow> Inr (canonical_json (JObject
         [(''planning_profile_version'', JString (bc_sku_planning_profile_version config)),
          (''profiles'', json_list m8_profile_json (sort_key pp_sku (bc_planning_profiles config))),
          (''schema_version'', JString ''m8-feasibility-configuration-v1''),
          (''service_catalog_version'', JString (bc_service_catalog_version config)),
          (''skill_matrix_version'', JString (bc_skill_matrix_version config)),
          (''vehicle_policy_version'', JString (bc_vehicle_policy_version config)),
          (''vehicles'', json_list m8_vehicle_json (sort_key vp_vehicle_id (bc_vehicles config))),
          (''workers'', json_list m8_worker_json (sort_key cm_worker_id (bc_crew config)))])))"

text \<open>
  \<open>TaskConstraintSource(...)\<close>: the technical fields are taken from the current configuration (the
  argument \<open>config\<close>), whatever the caller's record holds in them.
\<close>

definition TaskConstraintSource_make ::
    "(string \<Rightarrow> string) \<Rightarrow> M8BusinessConfiguration \<Rightarrow> TaskConstraintSource \<Rightarrow> TaskConstraintSource result" where
  "TaskConstraintSource_make sha256 config x =
     and_then (task_constraint_base x) (\<lambda>_.
     and_then (m8_feasibility_configuration_json config) (\<lambda>text.
     case (profile config (tc_m8_sku x), catalog_item config (tc_m8_sku x)) of
       (Inr p, Inr _) \<Rightarrow>
         TaskConstraintSource_init (x\<lparr>tc_m8_service_catalog_version := bc_service_catalog_version config,
           tc_m8_planning_profile_version := bc_sku_planning_profile_version config,
           tc_m8_configuration_fingerprint := sha256 text, tc_required_skill_key := pp_required_skill_key p,
           tc_minimum_skill_level := pp_min_skill_level p,
           tc_required_vehicle_class := VehicleClass_value (pp_vehicle_class p)\<rparr>)
     | _ \<Rightarrow> Inl (ValueError ''UNKNOWN_M8_SKU: m8_sku'')))"

section \<open>Documents and fingerprints\<close>

definition instant_json :: "calendar \<Rightarrow> int \<Rightarrow> json" where
  "instant_json cal t = JString (datetime_text cal (Aware t))"

text \<open>\<open>_source_subject\<close>: the digest of what a source record is about.\<close>

definition source_subject :: "(string \<Rightarrow> string) \<Rightarrow> FeasibilitySourceKind \<Rightarrow> (string \<times> json) list \<Rightarrow> string" where
  "source_subject sha256 kind subject =
     sha256 (canonical_json (JObject
       [(''schema_version'', JString ''m3-feasibility-source-subject-v1''),
        (''source_kind'', JString (FeasibilitySourceKind_value kind)), (''subject'', JObject subject)]))"

definition placement_payload :: "calendar \<Rightarrow> ScheduledPlacementEvidence \<Rightarrow> json" where
  "placement_payload cal x = JObject
     [(''business_date'', JString (date_text cal (sl_business_date x))),
      (''commitment_id'', JString (sl_commitment_id x)), (''job_id'', JString (sl_job_id x)),
      (''planned_end'', instant_json cal (sl_planned_end x)),
      (''planned_start'', instant_json cal (sl_planned_start x)),
      (''task_definition_version'', JString (sl_task_definition_version x)),
      (''task_id'', JString (sl_task_id x)), (''vehicle_id'', json_option JString (sl_vehicle_id x)),
      (''worker_ids'', json_strings (sl_worker_ids x))]"

definition window_payload :: "calendar \<Rightarrow> AvailabilityWindowEvidence \<Rightarrow> json" where
  "window_payload cal x = JObject
     [(''end_at'', instant_json cal (ae_end_at x)), (''start_at'', instant_json cal (ae_start_at x))]"

definition task_constraint_subject :: "(string \<Rightarrow> string) \<Rightarrow> TaskConstraintSource \<Rightarrow> string" where
  "task_constraint_subject sha256 x = source_subject sha256 FeasibilitySourceKind.TASK_CONSTRAINT
     [(''job_id'', JString (tc_job_id x)),
      (''task_definition_version'', JString (tc_task_definition_version x)),
      (''task_id'', JString (tc_task_id x))]"

definition task_constraint_semantic :: "(string \<Rightarrow> string) \<Rightarrow> calendar \<Rightarrow> TaskConstraintSource \<Rightarrow> json" where
  "task_constraint_semantic sha256 cal x = JObject
     [(''customer_window_end'', json_option (instant_json cal) (tc_customer_window_end x)),
      (''customer_window_start'', json_option (instant_json cal) (tc_customer_window_start x)),
      (''customer_window_state'', JString (ConstraintKnowledge_value (tc_customer_window_state x))),
      (''duration_seconds'', JInt (tc_duration_seconds x)),
      (''hard_deadline'', json_option (instant_json cal) (tc_hard_deadline x)),
      (''hard_deadline_state'', JString (ConstraintKnowledge_value (tc_hard_deadline_state x))),
      (''job_id'', JString (tc_job_id x)), (''location_fingerprint'', JString (tc_location_fingerprint x)),
      (''location_reference'', JString (tc_location_reference x)),
      (''m8_configuration_fingerprint'', JString (tc_m8_configuration_fingerprint x)),
      (''m8_planning_profile_version'', JString (tc_m8_planning_profile_version x)),
      (''m8_service_catalog_version'', JString (tc_m8_service_catalog_version x)),
      (''m8_sku'', JString (tc_m8_sku x)), (''minimum_skill_level'', JInt (tc_minimum_skill_level x)),
      (''previous_source_record_id'', json_option JString (tc_previous_source_record_id x)),
      (''provenance_reference'', JString (tc_provenance_reference x)),
      (''required_skill_key'', JString (tc_required_skill_key x)),
      (''required_vehicle_class'', JString (tc_required_vehicle_class x)),
      (''schema_version'', JString ''m3-feasibility-source-v1''),
      (''source_handoff_id'', JString (tc_source_handoff_id x)),
      (''source_kind'', JString ''TASK_CONSTRAINT''), (''source_revision'', JInt (tc_source_revision x)),
      (''source_revision_number'', JInt (tc_source_revision_number x)),
      (''subject_fingerprint'', JString (task_constraint_subject sha256 x)),
      (''task_definition_version'', JString (tc_task_definition_version x)),
      (''task_id'', JString (tc_task_id x))]"

definition task_constraint_fingerprint :: "(string \<Rightarrow> string) \<Rightarrow> calendar \<Rightarrow> TaskConstraintSource \<Rightarrow> string" where
  "task_constraint_fingerprint sha256 cal x = sha256 (canonical_json (task_constraint_semantic sha256 cal x))"

definition task_constraint_record_id :: "(string \<Rightarrow> string) \<Rightarrow> calendar \<Rightarrow> TaskConstraintSource \<Rightarrow> string" where
  "task_constraint_record_id sha256 cal x = ''m3-feasibility-source-'' @ task_constraint_fingerprint sha256 cal x"

definition task_constraint_payload :: "(string \<Rightarrow> string) \<Rightarrow> calendar \<Rightarrow> TaskConstraintSource \<Rightarrow> json" where
  "task_constraint_payload sha256 cal x = JObject
     [(''customer_window_end'', json_option (instant_json cal) (tc_customer_window_end x)),
      (''customer_window_start'', json_option (instant_json cal) (tc_customer_window_start x)),
      (''customer_window_state'', JString (ConstraintKnowledge_value (tc_customer_window_state x))),
      (''duration_seconds'', JInt (tc_duration_seconds x)),
      (''hard_deadline'', json_option (instant_json cal) (tc_hard_deadline x)),
      (''hard_deadline_state'', JString (ConstraintKnowledge_value (tc_hard_deadline_state x))),
      (''job_id'', JString (tc_job_id x)), (''location_fingerprint'', JString (tc_location_fingerprint x)),
      (''location_reference'', JString (tc_location_reference x)),
      (''m8_configuration_fingerprint'', JString (tc_m8_configuration_fingerprint x)),
      (''m8_planning_profile_version'', JString (tc_m8_planning_profile_version x)),
      (''m8_service_catalog_version'', JString (tc_m8_service_catalog_version x)),
      (''m8_sku'', JString (tc_m8_sku x)), (''minimum_skill_level'', JInt (tc_minimum_skill_level x)),
      (''previous_source_record_id'', json_option JString (tc_previous_source_record_id x)),
      (''provenance_reference'', JString (tc_provenance_reference x)),
      (''required_skill_key'', JString (tc_required_skill_key x)),
      (''required_vehicle_class'', JString (tc_required_vehicle_class x)),
      (''schema_version'', JString ''m3-feasibility-source-v1''),
      (''source_fingerprint'', JString (task_constraint_fingerprint sha256 cal x)),
      (''source_handoff_id'', JString (tc_source_handoff_id x)),
      (''source_kind'', JString ''TASK_CONSTRAINT''),
      (''source_record_id'', JString (task_constraint_record_id sha256 cal x)),
      (''source_revision'', JInt (tc_source_revision x)),
      (''source_revision_number'', JInt (tc_source_revision_number x)),
      (''subject_fingerprint'', JString (task_constraint_subject sha256 x)),
      (''task_definition_version'', JString (tc_task_definition_version x)),
      (''task_id'', JString (tc_task_id x))]"

definition plan_schedule_subject :: "(string \<Rightarrow> string) \<Rightarrow> PlanScheduleSource \<Rightarrow> string" where
  "plan_schedule_subject sha256 x = source_subject sha256 FeasibilitySourceKind.PLAN_SCHEDULE
     [(''base_plan_revision_id'', JString (sh_base_plan_revision_id x)),
      (''company_plan_id'', JString (sh_company_plan_id x))]"

definition plan_schedule_semantic :: "(string \<Rightarrow> string) \<Rightarrow> calendar \<Rightarrow> PlanScheduleSource \<Rightarrow> json" where
  "plan_schedule_semantic sha256 cal x = JObject
     [(''base_plan_revision'', JInt (sh_base_plan_revision x)),
      (''base_plan_revision_fingerprint'', JString (sh_base_plan_revision_fingerprint x)),
      (''base_plan_revision_id'', JString (sh_base_plan_revision_id x)),
      (''business_timezone'', JString (sh_business_timezone x)),
      (''company_plan_id'', JString (sh_company_plan_id x)),
      (''placements'', json_list (placement_payload cal) (sh_placements x)),
      (''previous_source_record_id'', json_option JString (sh_previous_source_record_id x)),
      (''provenance_reference'', JString (sh_provenance_reference x)),
      (''schema_version'', JString ''m3-feasibility-source-v1''),
      (''source_kind'', JString ''PLAN_SCHEDULE''), (''source_revision'', JInt (sh_source_revision x)),
      (''subject_fingerprint'', JString (plan_schedule_subject sha256 x))]"

definition plan_schedule_fingerprint :: "(string \<Rightarrow> string) \<Rightarrow> calendar \<Rightarrow> PlanScheduleSource \<Rightarrow> string" where
  "plan_schedule_fingerprint sha256 cal x = sha256 (canonical_json (plan_schedule_semantic sha256 cal x))"

definition plan_schedule_record_id :: "(string \<Rightarrow> string) \<Rightarrow> calendar \<Rightarrow> PlanScheduleSource \<Rightarrow> string" where
  "plan_schedule_record_id sha256 cal x = ''m3-feasibility-source-'' @ plan_schedule_fingerprint sha256 cal x"

definition plan_schedule_payload :: "(string \<Rightarrow> string) \<Rightarrow> calendar \<Rightarrow> PlanScheduleSource \<Rightarrow> json" where
  "plan_schedule_payload sha256 cal x = JObject
     [(''base_plan_revision'', JInt (sh_base_plan_revision x)),
      (''base_plan_revision_fingerprint'', JString (sh_base_plan_revision_fingerprint x)),
      (''base_plan_revision_id'', JString (sh_base_plan_revision_id x)),
      (''business_timezone'', JString (sh_business_timezone x)),
      (''company_plan_id'', JString (sh_company_plan_id x)),
      (''placements'', json_list (placement_payload cal) (sh_placements x)),
      (''previous_source_record_id'', json_option JString (sh_previous_source_record_id x)),
      (''provenance_reference'', JString (sh_provenance_reference x)),
      (''schema_version'', JString ''m3-feasibility-source-v1''),
      (''source_fingerprint'', JString (plan_schedule_fingerprint sha256 cal x)),
      (''source_kind'', JString ''PLAN_SCHEDULE''),
      (''source_record_id'', JString (plan_schedule_record_id sha256 cal x)),
      (''source_revision'', JInt (sh_source_revision x)),
      (''subject_fingerprint'', JString (plan_schedule_subject sha256 x))]"

definition worker_availability_subject :: "(string \<Rightarrow> string) \<Rightarrow> WorkerAvailabilitySource \<Rightarrow> string" where
  "worker_availability_subject sha256 x = source_subject sha256 FeasibilitySourceKind.WORKER_AVAILABILITY
     [(''worker_id'', JString (wa_worker_id x))]"

definition worker_availability_semantic :: "(string \<Rightarrow> string) \<Rightarrow> calendar \<Rightarrow> WorkerAvailabilitySource \<Rightarrow> json" where
  "worker_availability_semantic sha256 cal x = JObject
     [(''available_windows'', json_list (window_payload cal) (wa_available_windows x)),
      (''coverage_end'', instant_json cal (wa_coverage_end x)),
      (''coverage_start'', instant_json cal (wa_coverage_start x)),
      (''previous_source_record_id'', json_option JString (wa_previous_source_record_id x)),
      (''provenance_reference'', JString (wa_provenance_reference x)),
      (''schema_version'', JString ''m3-feasibility-source-v1''),
      (''source_kind'', JString ''WORKER_AVAILABILITY''),
      (''source_revision'', JInt (wa_source_revision x)),
      (''subject_fingerprint'', JString (worker_availability_subject sha256 x)),
      (''worker_id'', JString (wa_worker_id x))]"

definition worker_availability_fingerprint :: "(string \<Rightarrow> string) \<Rightarrow> calendar \<Rightarrow> WorkerAvailabilitySource \<Rightarrow> string" where
  "worker_availability_fingerprint sha256 cal x = sha256 (canonical_json (worker_availability_semantic sha256 cal x))"

definition worker_availability_record_id :: "(string \<Rightarrow> string) \<Rightarrow> calendar \<Rightarrow> WorkerAvailabilitySource \<Rightarrow> string" where
  "worker_availability_record_id sha256 cal x = ''m3-feasibility-source-'' @ worker_availability_fingerprint sha256 cal x"

definition task_readiness_subject :: "(string \<Rightarrow> string) \<Rightarrow> TaskReadinessSource \<Rightarrow> string" where
  "task_readiness_subject sha256 x = source_subject sha256 FeasibilitySourceKind.TASK_READINESS
     [(''job_id'', JString (ry_job_id x)),
      (''task_definition_version'', JString (ry_task_definition_version x)),
      (''task_id'', JString (ry_task_id x))]"

definition task_readiness_semantic :: "(string \<Rightarrow> string) \<Rightarrow> calendar \<Rightarrow> TaskReadinessSource \<Rightarrow> json" where
  "task_readiness_semantic sha256 cal x = JObject
     [(''blocker_references'', json_strings (ry_blocker_references x)),
      (''expected_at'', json_option (instant_json cal) (ry_expected_at x)),
      (''job_id'', JString (ry_job_id x)),
      (''previous_source_record_id'', json_option JString (ry_previous_source_record_id x)),
      (''provenance_reference'', JString (ry_provenance_reference x)),
      (''schema_version'', JString ''m3-feasibility-source-v1''),
      (''source_kind'', JString ''TASK_READINESS''), (''source_revision'', JInt (ry_source_revision x)),
      (''status'', JString (ReadinessState_value (ry_status x))),
      (''subject_fingerprint'', JString (task_readiness_subject sha256 x)),
      (''task_definition_version'', JString (ry_task_definition_version x)),
      (''task_id'', JString (ry_task_id x))]"

definition task_readiness_fingerprint :: "(string \<Rightarrow> string) \<Rightarrow> calendar \<Rightarrow> TaskReadinessSource \<Rightarrow> string" where
  "task_readiness_fingerprint sha256 cal x = sha256 (canonical_json (task_readiness_semantic sha256 cal x))"

definition task_readiness_record_id :: "(string \<Rightarrow> string) \<Rightarrow> calendar \<Rightarrow> TaskReadinessSource \<Rightarrow> string" where
  "task_readiness_record_id sha256 cal x = ''m3-feasibility-source-'' @ task_readiness_fingerprint sha256 cal x"

definition vehicle_availability_subject :: "(string \<Rightarrow> string) \<Rightarrow> VehicleAvailabilitySource \<Rightarrow> string" where
  "vehicle_availability_subject sha256 x = source_subject sha256 FeasibilitySourceKind.VEHICLE_AVAILABILITY
     [(''vehicle_id'', JString (vs_vehicle_id x))]"

definition vehicle_availability_semantic :: "(string \<Rightarrow> string) \<Rightarrow> calendar \<Rightarrow> VehicleAvailabilitySource \<Rightarrow> json" where
  "vehicle_availability_semantic sha256 cal x = JObject
     [(''available_windows'', json_list (window_payload cal) (vs_available_windows x)),
      (''coverage_end'', instant_json cal (vs_coverage_end x)),
      (''coverage_start'', instant_json cal (vs_coverage_start x)),
      (''previous_source_record_id'', json_option JString (vs_previous_source_record_id x)),
      (''provenance_reference'', JString (vs_provenance_reference x)),
      (''schema_version'', JString ''m3-feasibility-source-v1''),
      (''source_kind'', JString ''VEHICLE_AVAILABILITY''),
      (''source_revision'', JInt (vs_source_revision x)),
      (''subject_fingerprint'', JString (vehicle_availability_subject sha256 x)),
      (''vehicle_id'', JString (vs_vehicle_id x))]"

definition vehicle_availability_fingerprint :: "(string \<Rightarrow> string) \<Rightarrow> calendar \<Rightarrow> VehicleAvailabilitySource \<Rightarrow> string" where
  "vehicle_availability_fingerprint sha256 cal x = sha256 (canonical_json (vehicle_availability_semantic sha256 cal x))"

definition vehicle_availability_record_id :: "(string \<Rightarrow> string) \<Rightarrow> calendar \<Rightarrow> VehicleAvailabilitySource \<Rightarrow> string" where
  "vehicle_availability_record_id sha256 cal x = ''m3-feasibility-source-'' @ vehicle_availability_fingerprint sha256 cal x"

definition route_subject :: "(string \<Rightarrow> string) \<Rightarrow> RouteSource \<Rightarrow> string" where
  "route_subject sha256 x = source_subject sha256 FeasibilitySourceKind.ROUTE
     [(''destination_fingerprint'', JString (ru_destination_fingerprint x)),
      (''destination_reference'', JString (ru_destination_reference x)),
      (''origin_fingerprint'', JString (ru_origin_fingerprint x)),
      (''origin_reference'', JString (ru_origin_reference x)),
      (''transport_mode'', JString (ru_transport_mode x))]"

definition route_semantic :: "(string \<Rightarrow> string) \<Rightarrow> calendar \<Rightarrow> RouteSource \<Rightarrow> json" where
  "route_semantic sha256 cal x = JObject
     [(''buffer_rule_version'', JString (ru_buffer_rule_version x)),
      (''buffer_seconds'', JInt (ru_buffer_seconds x)),
      (''departure_time_basis'', JString (ru_departure_time_basis x)),
      (''destination_fingerprint'', JString (ru_destination_fingerprint x)),
      (''destination_reference'', JString (ru_destination_reference x)),
      (''distance_meters'', JInt (ru_distance_meters x)),
      (''origin_fingerprint'', JString (ru_origin_fingerprint x)),
      (''origin_reference'', JString (ru_origin_reference x)),
      (''previous_source_record_id'', json_option JString (ru_previous_source_record_id x)),
      (''provenance_reference'', JString (ru_provenance_reference x)),
      (''provider'', JString (ru_provider x)),
      (''route_snapshot_version'', JString (ru_route_snapshot_version x)),
      (''schema_version'', JString ''m3-feasibility-source-v1''), (''source_kind'', JString ''ROUTE''),
      (''source_revision'', JInt (ru_source_revision x)),
      (''subject_fingerprint'', JString (route_subject sha256 x)),
      (''transport_mode'', JString (ru_transport_mode x)),
      (''travel_duration_seconds'', JInt (ru_travel_duration_seconds x))]"

definition route_fingerprint :: "(string \<Rightarrow> string) \<Rightarrow> calendar \<Rightarrow> RouteSource \<Rightarrow> string" where
  "route_fingerprint sha256 cal x = sha256 (canonical_json (route_semantic sha256 cal x))"

definition route_record_id :: "(string \<Rightarrow> string) \<Rightarrow> calendar \<Rightarrow> RouteSource \<Rightarrow> string" where
  "route_record_id sha256 cal x = ''m3-feasibility-source-'' @ route_fingerprint sha256 cal x"

definition skill_level_payload :: "WorkerSkillLevelEvidence \<Rightarrow> json" where
  "skill_level_payload x = JObject
     [(''level'', json_option JInt (wk_level x)),
      (''required_skill_key'', JString (wk_required_skill_key x))]"

definition worker_technical_payload :: "WorkerTechnicalEvidence \<Rightarrow> json" where
  "worker_technical_payload x = JObject
     [(''license_b'', json_option JBool (wt_license_b x)),
      (''m8_worker_known'', JBool (wt_m8_worker_known x)),
      (''skill_levels'', json_list skill_level_payload (wt_skill_levels x)),
      (''skill_matrix_version'', JString (wt_skill_matrix_version x)),
      (''worker_id'', JString (wt_worker_id x))]"

definition availability_payload :: "calendar \<Rightarrow> AvailabilityEvidence \<Rightarrow> json" where
  "availability_payload cal x = JObject
     [(''available_windows'', json_list (window_payload cal) (ad_available_windows x)),
      (''coverage_end'', json_option (instant_json cal) (ad_coverage_end x)),
      (''coverage_start'', json_option (instant_json cal) (ad_coverage_start x)),
      (''knowledge'', JString (AvailabilityKnowledge_value (ad_knowledge x))),
      (''source_fingerprint'', json_option JString (ad_source_fingerprint x)),
      (''source_record_id'', json_option JString (ad_source_record_id x)),
      (''source_revision'', json_option JInt (ad_source_revision x)),
      (''subject_id'', JString (ad_subject_id x))]"

definition readiness_payload :: "calendar \<Rightarrow> ReadinessEvidence \<Rightarrow> json" where
  "readiness_payload cal x = JObject
     [(''blocker_references'', json_strings (rn_blocker_references x)),
      (''expected_at'', json_option (instant_json cal) (rn_expected_at x)),
      (''job_id'', JString (rn_job_id x)),
      (''source_fingerprint'', json_option JString (rn_source_fingerprint x)),
      (''source_record_id'', json_option JString (rn_source_record_id x)),
      (''source_revision'', json_option JInt (rn_source_revision x)),
      (''status'', JString (ReadinessState_value (rn_status x))),
      (''task_definition_version'', JString (rn_task_definition_version x)),
      (''task_id'', JString (rn_task_id x))]"

definition vehicle_technical_payload :: "VehicleTechnicalEvidence \<Rightarrow> json" where
  "vehicle_technical_payload x = JObject
     [(''assigned_worker_id'', json_option JString (vt_assigned_worker_id x)),
      (''capabilities'', json_strings (vt_capabilities x)), (''kind'', JString (vt_kind x)),
      (''private_authority_evidence_included'', JBool (vt_private_authority_evidence_included x)),
      (''vehicle_id'', JString (vt_vehicle_id x))]"

definition route_evidence_payload :: "RouteEvidence \<Rightarrow> json" where
  "route_evidence_payload x = JObject
     [(''buffer_rule_version'', json_option JString (ro_buffer_rule_version x)),
      (''buffer_seconds'', json_option JInt (ro_buffer_seconds x)),
      (''departure_time_basis'', json_option JString (ro_departure_time_basis x)),
      (''destination_fingerprint'', JString (ro_destination_fingerprint x)),
      (''destination_reference'', JString (ro_destination_reference x)),
      (''distance_meters'', json_option JInt (ro_distance_meters x)),
      (''knowledge'', JString (RouteKnowledge_value (ro_knowledge x))),
      (''origin_fingerprint'', JString (ro_origin_fingerprint x)),
      (''origin_reference'', JString (ro_origin_reference x)),
      (''provider'', json_option JString (ro_provider x)),
      (''route_snapshot_version'', json_option JString (ro_route_snapshot_version x)),
      (''source_fingerprint'', json_option JString (ro_source_fingerprint x)),
      (''source_record_id'', json_option JString (ro_source_record_id x)),
      (''source_revision'', json_option JInt (ro_source_revision x)),
      (''transport_mode'', JString (ro_transport_mode x)),
      (''travel_duration_seconds'', json_option JInt (ro_travel_duration_seconds x))]"

definition source_selection_payload :: "SourceSelection \<Rightarrow> json" where
  "source_selection_payload x = JObject
     [(''source_fingerprint'', json_option JString (sn_source_fingerprint x)),
      (''source_kind'', JString (FeasibilitySourceKind_value (sn_source_kind x))),
      (''source_record_id'', json_option JString (sn_source_record_id x)),
      (''source_revision'', json_option JInt (sn_source_revision x)),
      (''subject_fingerprint'', JString (sn_subject_fingerprint x))]"

definition registry_provenance_semantic :: "WorkerRegistryProvenance \<Rightarrow> json" where
  "registry_provenance_semantic x = JObject
     [(''canonical_worker_registry_json'', JString (wp_canonical_worker_registry_json x)),
      (''schema_version'', JString ''m3-feasibility-worker-registry-provenance-v1''),
      (''worker_registry_fingerprint'', JString (wp_worker_registry_fingerprint x)),
      (''worker_registry_revision'', JInt (wp_worker_registry_revision x)),
      (''worker_registry_schema_version'', JString ''m2-worker-registry-v1'')]"

definition registry_provenance_fingerprint :: "(string \<Rightarrow> string) \<Rightarrow> WorkerRegistryProvenance \<Rightarrow> string" where
  "registry_provenance_fingerprint sha256 x = sha256 (canonical_json (registry_provenance_semantic x))"

definition registry_provenance_id :: "(string \<Rightarrow> string) \<Rightarrow> WorkerRegistryProvenance \<Rightarrow> string" where
  "registry_provenance_id sha256 x = ''m3-feasibility-worker-registry-'' @ registry_provenance_fingerprint sha256 x"

definition registry_capture_semantic :: "WorkerRegistryProvenanceCapture \<Rightarrow> json" where
  "registry_capture_semantic x = JObject
     [(''capture_kind'', JString ''WORKER_REGISTRY_PROVENANCE''),
      (''ledger_generation'', JInt (wc_ledger_generation x)),
      (''schema_version'', JString ''m3-feasibility-worker-registry-capture-v1''),
      (''worker_registry_fingerprint'', JString (wc_worker_registry_fingerprint x)),
      (''worker_registry_provenance_fingerprint'', JString (wc_worker_registry_provenance_fingerprint x)),
      (''worker_registry_provenance_id'', JString (wc_worker_registry_provenance_id x)),
      (''worker_registry_revision'', JInt (wc_worker_registry_revision x))]"

definition registry_capture_fingerprint :: "(string \<Rightarrow> string) \<Rightarrow> WorkerRegistryProvenanceCapture \<Rightarrow> string" where
  "registry_capture_fingerprint sha256 x = sha256 (canonical_json (registry_capture_semantic x))"

definition registry_capture_id :: "(string \<Rightarrow> string) \<Rightarrow> WorkerRegistryProvenanceCapture \<Rightarrow> string" where
  "registry_capture_id sha256 x = ''m3-feasibility-worker-registry-capture-'' @ registry_capture_fingerprint sha256 x"

definition selection_cut_semantic :: "SourceSelectionCut \<Rightarrow> json" where
  "selection_cut_semantic x = JObject
     [(''base_plan_revision'', JInt (cu_base_plan_revision x)),
      (''base_plan_revision_fingerprint'', JString (cu_base_plan_revision_fingerprint x)),
      (''base_plan_revision_id'', JString (cu_base_plan_revision_id x)),
      (''company_plan_id'', JString (cu_company_plan_id x)),
      (''evaluation_input_fingerprint'', JString (cu_evaluation_input_fingerprint x)),
      (''evaluation_input_id'', JString (cu_evaluation_input_id x)),
      (''schema_version'', JString ''m3-feasibility-source-cut-v1''),
      (''selections'', json_list source_selection_payload (cu_selections x)),
      (''source_cut_generation'', JInt (cu_source_cut_generation x)),
      (''worker_registry_capture_fingerprint'', JString (cu_worker_registry_capture_fingerprint x)),
      (''worker_registry_capture_generation'', JInt (cu_worker_registry_capture_generation x)),
      (''worker_registry_capture_id'', JString (cu_worker_registry_capture_id x)),
      (''worker_registry_provenance_fingerprint'', JString (cu_worker_registry_provenance_fingerprint x)),
      (''worker_registry_provenance_id'', JString (cu_worker_registry_provenance_id x))]"

definition selection_cut_fingerprint :: "(string \<Rightarrow> string) \<Rightarrow> SourceSelectionCut \<Rightarrow> string" where
  "selection_cut_fingerprint sha256 x = sha256 (canonical_json (selection_cut_semantic x))"

definition selection_cut_id :: "(string \<Rightarrow> string) \<Rightarrow> SourceSelectionCut \<Rightarrow> string" where
  "selection_cut_id sha256 x = ''m3-feasibility-source-cut-'' @ selection_cut_fingerprint sha256 x"

definition snapshot_semantic :: "(string \<Rightarrow> string) \<Rightarrow> calendar \<Rightarrow> FeasibilitySupportSnapshot \<Rightarrow> json" where
  "snapshot_semantic sha256 cal x = JObject
     [(''base_plan_revision'', JInt (fs_base_plan_revision x)),
      (''base_plan_revision_fingerprint'', JString (fs_base_plan_revision_fingerprint x)),
      (''base_plan_revision_id'', JString (fs_base_plan_revision_id x)),
      (''company_plan_id'', JString (fs_company_plan_id x)),
      (''evaluation_input_fingerprint'', JString (fs_evaluation_input_fingerprint x)),
      (''evaluation_input_id'', JString (fs_evaluation_input_id x)),
      (''m8_configuration_fingerprint'', JString (fs_m8_configuration_fingerprint x)),
      (''m8_planning_profile_version'', JString (fs_m8_planning_profile_version x)),
      (''m8_service_catalog_version'', JString (fs_m8_service_catalog_version x)),
      (''m8_skill_matrix_version'', JString (fs_m8_skill_matrix_version x)),
      (''m8_vehicle_policy_version'', JString (fs_m8_vehicle_policy_version x)),
      (''readiness'', json_list (readiness_payload cal) (fs_readiness x)),
      (''routes'', json_list route_evidence_payload (fs_routes x)),
      (''rule_version'', JString ''m3-feasibility-evidence-selection-v1''),
      (''schedule'', plan_schedule_payload sha256 cal (fs_schedule x)),
      (''schema_version'', JString ''m3-feasibility-support-v1''),
      (''source_cut_fingerprint'', JString (fs_source_cut_fingerprint x)),
      (''source_cut_generation'', JInt (fs_source_cut_generation x)),
      (''source_cut_id'', JString (fs_source_cut_id x)),
      (''task_constraints'', json_list (task_constraint_payload sha256 cal) (fs_task_constraints x)),
      (''vehicle_availability'', json_list (availability_payload cal) (fs_vehicle_availability x)),
      (''vehicle_technical_evidence'', json_list vehicle_technical_payload (fs_vehicle_technical_evidence x)),
      (''worker_availability'', json_list (availability_payload cal) (fs_worker_availability x)),
      (''worker_registry_capture_fingerprint'', JString (fs_worker_registry_capture_fingerprint x)),
      (''worker_registry_capture_generation'', JInt (fs_worker_registry_capture_generation x)),
      (''worker_registry_capture_id'', JString (fs_worker_registry_capture_id x)),
      (''worker_registry_fingerprint'', JString (fs_worker_registry_fingerprint x)),
      (''worker_registry_provenance_fingerprint'', JString (fs_worker_registry_provenance_fingerprint x)),
      (''worker_registry_provenance_id'', JString (fs_worker_registry_provenance_id x)),
      (''worker_registry_revision'', JInt (fs_worker_registry_revision x)),
      (''worker_technical_evidence'', json_list worker_technical_payload (fs_worker_technical_evidence x))]"

definition support_fingerprint :: "(string \<Rightarrow> string) \<Rightarrow> calendar \<Rightarrow> FeasibilitySupportSnapshot \<Rightarrow> string" where
  "support_fingerprint sha256 cal x = sha256 (canonical_json (snapshot_semantic sha256 cal x))"

definition support_snapshot_id :: "(string \<Rightarrow> string) \<Rightarrow> calendar \<Rightarrow> FeasibilitySupportSnapshot \<Rightarrow> string" where
  "support_snapshot_id sha256 cal x = ''m3-feasibility-support-'' @ support_fingerprint sha256 cal x"

definition support_payload :: "(string \<Rightarrow> string) \<Rightarrow> calendar \<Rightarrow> FeasibilitySupportSnapshot \<Rightarrow> json" where
  "support_payload sha256 cal x = JObject
     [(''base_plan_revision'', JInt (fs_base_plan_revision x)),
      (''base_plan_revision_fingerprint'', JString (fs_base_plan_revision_fingerprint x)),
      (''base_plan_revision_id'', JString (fs_base_plan_revision_id x)),
      (''company_plan_id'', JString (fs_company_plan_id x)),
      (''evaluation_input_fingerprint'', JString (fs_evaluation_input_fingerprint x)),
      (''evaluation_input_id'', JString (fs_evaluation_input_id x)),
      (''m8_configuration_fingerprint'', JString (fs_m8_configuration_fingerprint x)),
      (''m8_planning_profile_version'', JString (fs_m8_planning_profile_version x)),
      (''m8_service_catalog_version'', JString (fs_m8_service_catalog_version x)),
      (''m8_skill_matrix_version'', JString (fs_m8_skill_matrix_version x)),
      (''m8_vehicle_policy_version'', JString (fs_m8_vehicle_policy_version x)),
      (''readiness'', json_list (readiness_payload cal) (fs_readiness x)),
      (''routes'', json_list route_evidence_payload (fs_routes x)),
      (''rule_version'', JString ''m3-feasibility-evidence-selection-v1''),
      (''schedule'', plan_schedule_payload sha256 cal (fs_schedule x)),
      (''schema_version'', JString ''m3-feasibility-support-v1''),
      (''source_cut_fingerprint'', JString (fs_source_cut_fingerprint x)),
      (''source_cut_generation'', JInt (fs_source_cut_generation x)),
      (''source_cut_id'', JString (fs_source_cut_id x)),
      (''support_fingerprint'', JString (support_fingerprint sha256 cal x)),
      (''support_snapshot_id'', JString (support_snapshot_id sha256 cal x)),
      (''task_constraints'', json_list (task_constraint_payload sha256 cal) (fs_task_constraints x)),
      (''vehicle_availability'', json_list (availability_payload cal) (fs_vehicle_availability x)),
      (''vehicle_technical_evidence'', json_list vehicle_technical_payload (fs_vehicle_technical_evidence x)),
      (''worker_availability'', json_list (availability_payload cal) (fs_worker_availability x)),
      (''worker_registry_capture_fingerprint'', JString (fs_worker_registry_capture_fingerprint x)),
      (''worker_registry_capture_generation'', JInt (fs_worker_registry_capture_generation x)),
      (''worker_registry_capture_id'', JString (fs_worker_registry_capture_id x)),
      (''worker_registry_fingerprint'', JString (fs_worker_registry_fingerprint x)),
      (''worker_registry_provenance_fingerprint'', JString (fs_worker_registry_provenance_fingerprint x)),
      (''worker_registry_provenance_id'', JString (fs_worker_registry_provenance_id x)),
      (''worker_registry_revision'', JInt (fs_worker_registry_revision x)),
      (''worker_technical_evidence'', json_list worker_technical_payload (fs_worker_technical_evidence x))]"

section \<open>The availability windows\<close>

text \<open>The instants of a list of windows, half-open, and windows that neither overlap nor touch.\<close>

definition window_instants :: "AvailabilityWindowEvidence list \<Rightarrow> int set" where
  "window_instants ws = (\<Union>w\<in>set ws. {ae_start_at w..<ae_end_at w})"

definition windows_apart :: "AvailabilityWindowEvidence list \<Rightarrow> bool" where
  "windows_apart ws \<longleftrightarrow> (\<forall>w\<in>set ws. ae_start_at w < ae_end_at w) \<and> sorted_wrt (\<lambda>v w. ae_end_at v < ae_start_at w) ws"

definition after_all :: "AvailabilityWindowEvidence list \<Rightarrow> AvailabilityWindowEvidence \<Rightarrow> bool" where
  "after_all ws v \<longleftrightarrow> (ws \<noteq> [] \<longrightarrow> ae_start_at (last ws) \<le> ae_start_at v)"

lemma windows_apart_snoc:
  "windows_apart (ws @ [w]) \<longleftrightarrow> windows_apart ws \<and> ae_start_at w < ae_end_at w \<and> (\<forall>v\<in>set ws. ae_end_at v < ae_start_at w)"
  by (auto simp: windows_apart_def sorted_wrt_append)

lemma merge_window_step:
  assumes "windows_apart ws" "after_all ws v" "ae_start_at v < ae_end_at v"
  shows "windows_apart (merge_window ws v) \<and> window_instants (merge_window ws v) = window_instants (ws @ [v]) \<and>
    merge_window ws v \<noteq> [] \<and> ae_start_at (last (merge_window ws v)) \<le> ae_start_at v"
proof (cases "ws = []")
  case True
  then show ?thesis using assms by (simp add: merge_window_def windows_apart_def)
next
  case False
  then obtain us u where ws: "ws = us @ [u]" by (cases ws rule: rev_cases) auto
  have u: "ae_start_at u \<le> ae_start_at v" using assms(2) by (simp add: after_all_def ws)
  show ?thesis
  proof (cases "ae_start_at v \<le> ae_end_at u")
    case True
    have "{ae_start_at u..<ae_end_at u} \<union> {ae_start_at v..<ae_end_at v} = {ae_start_at u..<max (ae_end_at u) (ae_end_at v)}"
      using True u by auto
    then show ?thesis using True u assms(1)
      by (auto simp: merge_window_def ws windows_apart_snoc window_instants_def)
  next
    case far: False
    have "\<forall>w\<in>set us. ae_end_at w < ae_start_at v" using assms(1) u by (auto simp: ws windows_apart_snoc)
    then show ?thesis using far assms(1,3) windows_apart_snoc [of "us @ [u]" v]
      by (auto simp: merge_window_def ws windows_apart_snoc)
  qed
qed

lemma merge_windows:
  assumes "windows_apart ws" "sorted (map ae_start_at vs)" "\<forall>v\<in>set vs. ae_start_at v < ae_end_at v"
    "vs \<noteq> [] \<Longrightarrow> after_all ws (hd vs)"
  shows "windows_apart (foldl merge_window ws vs) \<and> window_instants (foldl merge_window ws vs) = window_instants (ws @ vs)"
  using assms
proof (induction vs arbitrary: ws)
  case (Cons v vs)
  have v: "after_all ws v" "ae_start_at v < ae_end_at v" using Cons.prems by auto
  note step = merge_window_step [OF Cons.prems(1) v]
  have next_after: "after_all (merge_window ws v) (hd vs)" if "vs \<noteq> []"
    using that Cons.prems(2) step by (cases vs) (auto simp: after_all_def)
  have "windows_apart (foldl merge_window (merge_window ws v) vs) \<and>
      window_instants (foldl merge_window (merge_window ws v) vs) = window_instants (merge_window ws v @ vs)"
    by (rule Cons.IH) (use step Cons.prems next_after in auto)
  moreover have "window_instants (merge_window ws v @ vs) = window_instants (ws @ v # vs)"
    using step by (auto simp: window_instants_def)
  ultimately show ?case by simp
qed simp

lemma sorted_starts: "sorted (map ae_start_at (sort_key (\<lambda>v. (ae_start_at v, ae_end_at v)) vs))"
proof -
  have "sorted (map (\<lambda>v. (ae_start_at v, ae_end_at v)) (sort_key (\<lambda>v. (ae_start_at v, ae_end_at v)) vs))" by simp
  moreover have "sorted (map (\<lambda>v. (ae_start_at v, ae_end_at v)) ws) \<Longrightarrow> sorted (map ae_start_at ws)" for ws
    by (induction ws) (auto simp: less_eq_prod_def)
  ultimately show ?thesis by blast
qed

lemma canonical_windows_Inr:
  assumes "canonical_windows vs s e = Inr ws"
  shows "windows_apart ws \<and> window_instants ws = window_instants vs"
proof -
  let ?vs = "sort_key (\<lambda>v. (ae_start_at v, ae_end_at v)) vs"
  have ws: "ws = foldl merge_window [] ?vs" and ok: "\<forall>v\<in>set vs. ae_start_at v < ae_end_at v"
    using assms by (auto simp: canonical_windows_def)
  have "windows_apart (foldl merge_window [] ?vs) \<and> window_instants (foldl merge_window [] ?vs) = window_instants ([] @ ?vs)"
    by (rule merge_windows) (use ok in \<open>auto simp: windows_apart_def sorted_starts after_all_def\<close>)
  then show ?thesis by (simp add: ws window_instants_def)
qed

text \<open>Between windows that are apart no interval can be covered by two of them.\<close>

lemma apart_cover:
  assumes "windows_apart ws" "s < e" "{s..<e} \<subseteq> window_instants ws"
  shows "\<exists>w\<in>set ws. ae_start_at w \<le> s \<and> e \<le> ae_end_at w"
proof -
  obtain w where w: "w \<in> set ws" "ae_start_at w \<le> s" "s < ae_end_at w"
    using assms(2,3) by (force simp: window_instants_def)
  have "e \<le> ae_end_at w"
  proof (rule ccontr)
    assume "\<not> e \<le> ae_end_at w"
    then have "ae_end_at w \<in> {s..<e}" using w by auto
    then obtain v where v: "v \<in> set ws" "ae_start_at v \<le> ae_end_at w" "ae_end_at w < ae_end_at v"
      using assms(3) by (force simp: window_instants_def)
    have distinct: "v \<noteq> w" using v by auto
    obtain i j where ij: "i < length ws" "j < length ws" "ws ! i = w" "ws ! j = v" using w(1) v(1) by (metis in_set_conv_nth)
    have apart: "ae_end_at (ws ! a) < ae_start_at (ws ! b)" if "a < b" "b < length ws" for a b
      using assms(1) that by (simp add: windows_apart_def sorted_wrt_iff_nth_less)
    have pos: "ae_start_at w < ae_end_at w" using assms(1) w(1) by (simp add: windows_apart_def)
    consider "i < j" | "j < i" using distinct ij by (metis linorder_neqE_nat)
    then show False
    proof cases
      case 1
      then show False using apart [of i j] ij v by simp
    next
      case 2
      then show False using apart [of j i] ij v pos by simp
    qed
  qed
  then show ?thesis using w by blast
qed

lemma canonical_windows_cover:
  assumes "canonical_windows vs a b = Inr ws" "s < e"
  shows "(\<exists>w\<in>set ws. ae_start_at w \<le> s \<and> e \<le> ae_end_at w) \<longleftrightarrow> {s..<e} \<subseteq> window_instants vs"
proof
  assume "\<exists>w\<in>set ws. ae_start_at w \<le> s \<and> e \<le> ae_end_at w"
  then have "{s..<e} \<subseteq> window_instants ws" by (force simp: window_instants_def)
  then show "{s..<e} \<subseteq> window_instants vs" using canonical_windows_Inr [OF assms(1)] by simp
next
  assume "{s..<e} \<subseteq> window_instants vs"
  then show "\<exists>w\<in>set ws. ae_start_at w \<le> s \<and> e \<le> ae_end_at w"
    using canonical_windows_Inr [OF assms(1)] assms(2) by (intro apart_cover) auto
qed

end
