(* ===== verification/Support_Documents.thy ===== *)
theory Support_Documents
  imports Support_Evidence
begin

text \<open>
  The documents of planning/feasibility_support.py: source records and support snapshots are restored from
  their semantic JSON, their fingerprint and their identity, and a snapshot survives
  \<open>serialize_feasibility_support\<close> and \<open>deserialize_feasibility_support\<close> unchanged.
\<close>

section \<open>Readers\<close>

definition instant_of :: "calendar \<Rightarrow> string \<Rightarrow> json \<Rightarrow> int result" where
  "instant_of cal path v = and_then (datetime_of cal path v) (\<lambda>t. Inr (instant t))"

definition placement_keys :: "string list" where
  "placement_keys =
    [''business_date'', ''commitment_id'', ''job_id'', ''planned_end'', ''planned_start'',
     ''task_definition_version'', ''task_id'', ''vehicle_id'', ''worker_ids'']"

definition scheduled_placement_of :: "calendar \<Rightarrow> string \<Rightarrow> json \<Rightarrow> ScheduledPlacementEvidence result" where
  "scheduled_placement_of cal path v =
     and_then (mapping_of path v) (\<lambda>data.
     and_then (keys_match data placement_keys path) (\<lambda>_.
     and_then (field_of data path ''commitment_id'' string_of) (\<lambda>commitment_id.
     and_then (field_of data path ''job_id'' string_of) (\<lambda>job_id.
     and_then (field_of data path ''task_id'' string_of) (\<lambda>task_id.
     and_then (field_of data path ''task_definition_version'' string_of) (\<lambda>task_definition_version.
     and_then (field_of data path ''business_date'' (date_of cal)) (\<lambda>business_date.
     and_then (field_of data path ''worker_ids'' (items_of string_of)) (\<lambda>worker_ids.
     and_then (field_of data path ''vehicle_id'' (optional_of string_of)) (\<lambda>vehicle_id.
     and_then (field_of data path ''planned_start'' (instant_of cal)) (\<lambda>planned_start.
     and_then (field_of data path ''planned_end'' (instant_of cal)) (\<lambda>planned_end.
     ScheduledPlacementEvidence_init
       \<lparr>sl_commitment_id = commitment_id, sl_job_id = job_id, sl_task_id = task_id,
        sl_task_definition_version = task_definition_version, sl_business_date = business_date,
        sl_worker_ids = worker_ids, sl_vehicle_id = vehicle_id, sl_planned_start = planned_start,
        sl_planned_end = planned_end\<rparr>)))))))))))"

definition window_keys :: "string list" where
  "window_keys =
    [''end_at'', ''start_at'']"

definition window_of :: "calendar \<Rightarrow> string \<Rightarrow> json \<Rightarrow> AvailabilityWindowEvidence result" where
  "window_of cal path v =
     and_then (mapping_of path v) (\<lambda>data.
     and_then (keys_match data window_keys path) (\<lambda>_.
     and_then (field_of data path ''start_at'' (instant_of cal)) (\<lambda>start_at.
     and_then (field_of data path ''end_at'' (instant_of cal)) (\<lambda>end_at.
     AvailabilityWindowEvidence_init
       \<lparr>ae_start_at = start_at, ae_end_at = end_at\<rparr>))))"

definition plan_schedule_keys :: "string list" where
  "plan_schedule_keys =
    [''base_plan_revision'', ''base_plan_revision_fingerprint'', ''base_plan_revision_id'',
     ''business_timezone'', ''company_plan_id'', ''placements'', ''previous_source_record_id'',
     ''provenance_reference'', ''source_revision'']"

definition plan_schedule_of :: "(string \<Rightarrow> zone_rules option) \<Rightarrow> calendar \<Rightarrow> string \<Rightarrow> json \<Rightarrow> PlanScheduleSource result" where
  "plan_schedule_of zones cal path v =
     and_then (mapping_of path v) (\<lambda>data.
     and_then (keys_match data plan_schedule_keys path) (\<lambda>_.
     and_then (field_of data path ''company_plan_id'' string_of) (\<lambda>company_plan_id.
     and_then (field_of data path ''base_plan_revision'' integer_of) (\<lambda>base_plan_revision.
     and_then (field_of data path ''base_plan_revision_id'' string_of) (\<lambda>base_plan_revision_id.
     and_then (field_of data path ''base_plan_revision_fingerprint'' string_of) (\<lambda>base_plan_revision_fingerprint.
     and_then (field_of data path ''business_timezone'' string_of) (\<lambda>business_timezone.
     and_then (field_of data path ''placements'' (items_of (scheduled_placement_of cal))) (\<lambda>placements.
     and_then (field_of data path ''source_revision'' integer_of) (\<lambda>source_revision.
     and_then (field_of data path ''previous_source_record_id'' (optional_of string_of)) (\<lambda>previous_source_record_id.
     and_then (field_of data path ''provenance_reference'' string_of) (\<lambda>provenance_reference.
     PlanScheduleSource_init zones
       \<lparr>sh_company_plan_id = company_plan_id, sh_base_plan_revision = base_plan_revision,
        sh_base_plan_revision_id = base_plan_revision_id,
        sh_base_plan_revision_fingerprint = base_plan_revision_fingerprint,
        sh_business_timezone = business_timezone, sh_placements = placements,
        sh_source_revision = source_revision, sh_previous_source_record_id = previous_source_record_id,
        sh_provenance_reference = provenance_reference\<rparr>)))))))))))"

definition worker_availability_keys :: "string list" where
  "worker_availability_keys =
    [''available_windows'', ''coverage_end'', ''coverage_start'', ''previous_source_record_id'',
     ''provenance_reference'', ''source_revision'', ''worker_id'']"

definition worker_availability_of :: "calendar \<Rightarrow> string \<Rightarrow> json \<Rightarrow> WorkerAvailabilitySource result" where
  "worker_availability_of cal path v =
     and_then (mapping_of path v) (\<lambda>data.
     and_then (keys_match data worker_availability_keys path) (\<lambda>_.
     and_then (field_of data path ''worker_id'' string_of) (\<lambda>worker_id.
     and_then (field_of data path ''coverage_start'' (instant_of cal)) (\<lambda>coverage_start.
     and_then (field_of data path ''coverage_end'' (instant_of cal)) (\<lambda>coverage_end.
     and_then (field_of data path ''available_windows'' (items_of (window_of cal))) (\<lambda>available_windows.
     and_then (field_of data path ''source_revision'' integer_of) (\<lambda>source_revision.
     and_then (field_of data path ''previous_source_record_id'' (optional_of string_of)) (\<lambda>previous_source_record_id.
     and_then (field_of data path ''provenance_reference'' string_of) (\<lambda>provenance_reference.
     WorkerAvailabilitySource_init
       \<lparr>wa_worker_id = worker_id, wa_coverage_start = coverage_start, wa_coverage_end = coverage_end,
        wa_available_windows = available_windows, wa_source_revision = source_revision,
        wa_previous_source_record_id = previous_source_record_id,
        wa_provenance_reference = provenance_reference\<rparr>)))))))))"

definition task_readiness_keys :: "string list" where
  "task_readiness_keys =
    [''blocker_references'', ''expected_at'', ''job_id'', ''previous_source_record_id'',
     ''provenance_reference'', ''source_revision'', ''status'', ''task_definition_version'', ''task_id'']"

definition task_readiness_of :: "calendar \<Rightarrow> string \<Rightarrow> json \<Rightarrow> TaskReadinessSource result" where
  "task_readiness_of cal path v =
     and_then (mapping_of path v) (\<lambda>data.
     and_then (keys_match data task_readiness_keys path) (\<lambda>_.
     and_then (field_of data path ''job_id'' string_of) (\<lambda>job_id.
     and_then (field_of data path ''task_id'' string_of) (\<lambda>task_id.
     and_then (field_of data path ''task_definition_version'' string_of) (\<lambda>task_definition_version.
     and_then (field_of data path ''status'' (enum_of ReadinessState_value ReadinessState_members)) (\<lambda>status.
     and_then (field_of data path ''expected_at'' (optional_of (instant_of cal))) (\<lambda>expected_at.
     and_then (field_of data path ''blocker_references'' (items_of string_of)) (\<lambda>blocker_references.
     and_then (field_of data path ''source_revision'' integer_of) (\<lambda>source_revision.
     and_then (field_of data path ''previous_source_record_id'' (optional_of string_of)) (\<lambda>previous_source_record_id.
     and_then (field_of data path ''provenance_reference'' string_of) (\<lambda>provenance_reference.
     TaskReadinessSource_init
       \<lparr>ry_job_id = job_id, ry_task_id = task_id, ry_task_definition_version = task_definition_version,
        ry_status = status, ry_expected_at = expected_at, ry_blocker_references = blocker_references,
        ry_source_revision = source_revision, ry_previous_source_record_id = previous_source_record_id,
        ry_provenance_reference = provenance_reference\<rparr>)))))))))))"

definition vehicle_availability_keys :: "string list" where
  "vehicle_availability_keys =
    [''available_windows'', ''coverage_end'', ''coverage_start'', ''previous_source_record_id'',
     ''provenance_reference'', ''source_revision'', ''vehicle_id'']"

definition vehicle_availability_of :: "calendar \<Rightarrow> string \<Rightarrow> json \<Rightarrow> VehicleAvailabilitySource result" where
  "vehicle_availability_of cal path v =
     and_then (mapping_of path v) (\<lambda>data.
     and_then (keys_match data vehicle_availability_keys path) (\<lambda>_.
     and_then (field_of data path ''vehicle_id'' string_of) (\<lambda>vehicle_id.
     and_then (field_of data path ''coverage_start'' (instant_of cal)) (\<lambda>coverage_start.
     and_then (field_of data path ''coverage_end'' (instant_of cal)) (\<lambda>coverage_end.
     and_then (field_of data path ''available_windows'' (items_of (window_of cal))) (\<lambda>available_windows.
     and_then (field_of data path ''source_revision'' integer_of) (\<lambda>source_revision.
     and_then (field_of data path ''previous_source_record_id'' (optional_of string_of)) (\<lambda>previous_source_record_id.
     and_then (field_of data path ''provenance_reference'' string_of) (\<lambda>provenance_reference.
     VehicleAvailabilitySource_init
       \<lparr>vs_vehicle_id = vehicle_id, vs_coverage_start = coverage_start, vs_coverage_end = coverage_end,
        vs_available_windows = available_windows, vs_source_revision = source_revision,
        vs_previous_source_record_id = previous_source_record_id,
        vs_provenance_reference = provenance_reference\<rparr>)))))))))"

definition route_keys :: "string list" where
  "route_keys =
    [''buffer_rule_version'', ''buffer_seconds'', ''departure_time_basis'', ''destination_fingerprint'',
     ''destination_reference'', ''distance_meters'', ''origin_fingerprint'', ''origin_reference'',
     ''previous_source_record_id'', ''provenance_reference'', ''provider'', ''route_snapshot_version'',
     ''source_revision'', ''transport_mode'', ''travel_duration_seconds'']"

definition route_of :: "string \<Rightarrow> json \<Rightarrow> RouteSource result" where
  "route_of path v =
     and_then (mapping_of path v) (\<lambda>data.
     and_then (keys_match data route_keys path) (\<lambda>_.
     and_then (field_of data path ''origin_reference'' string_of) (\<lambda>origin_reference.
     and_then (field_of data path ''origin_fingerprint'' string_of) (\<lambda>origin_fingerprint.
     and_then (field_of data path ''destination_reference'' string_of) (\<lambda>destination_reference.
     and_then (field_of data path ''destination_fingerprint'' string_of) (\<lambda>destination_fingerprint.
     and_then (field_of data path ''transport_mode'' string_of) (\<lambda>transport_mode.
     and_then (field_of data path ''departure_time_basis'' string_of) (\<lambda>departure_time_basis.
     and_then (field_of data path ''distance_meters'' integer_of) (\<lambda>distance_meters.
     and_then (field_of data path ''travel_duration_seconds'' integer_of) (\<lambda>travel_duration_seconds.
     and_then (field_of data path ''buffer_seconds'' integer_of) (\<lambda>buffer_seconds.
     and_then (field_of data path ''buffer_rule_version'' string_of) (\<lambda>buffer_rule_version.
     and_then (field_of data path ''route_snapshot_version'' string_of) (\<lambda>route_snapshot_version.
     and_then (field_of data path ''provider'' string_of) (\<lambda>provider.
     and_then (field_of data path ''source_revision'' integer_of) (\<lambda>source_revision.
     and_then (field_of data path ''previous_source_record_id'' (optional_of string_of)) (\<lambda>previous_source_record_id.
     and_then (field_of data path ''provenance_reference'' string_of) (\<lambda>provenance_reference.
     RouteSource_init
       \<lparr>ru_origin_reference = origin_reference, ru_origin_fingerprint = origin_fingerprint,
        ru_destination_reference = destination_reference,
        ru_destination_fingerprint = destination_fingerprint, ru_transport_mode = transport_mode,
        ru_departure_time_basis = departure_time_basis, ru_distance_meters = distance_meters,
        ru_travel_duration_seconds = travel_duration_seconds, ru_buffer_seconds = buffer_seconds,
        ru_buffer_rule_version = buffer_rule_version, ru_route_snapshot_version = route_snapshot_version,
        ru_provider = provider, ru_source_revision = source_revision,
        ru_previous_source_record_id = previous_source_record_id,
        ru_provenance_reference = provenance_reference\<rparr>)))))))))))))))))"

text \<open>\<open>_restore_task_constraint\<close> reads the fields it knows.\<close>

definition task_constraint_of :: "calendar \<Rightarrow> string \<Rightarrow> json \<Rightarrow> TaskConstraintSource result" where
  "task_constraint_of cal path v =
     and_then (mapping_of path v) (\<lambda>data.
     and_then (field_of data path ''subject_fingerprint'' (\<lambda>_. Inr)) (\<lambda>_.
     and_then (field_of data path ''job_id'' string_of) (\<lambda>job_id.
     and_then (field_of data path ''task_id'' string_of) (\<lambda>task_id.
     and_then (field_of data path ''task_definition_version'' string_of) (\<lambda>task_definition_version.
     and_then (field_of data path ''source_handoff_id'' string_of) (\<lambda>source_handoff_id.
     and_then (field_of data path ''source_revision_number'' integer_of) (\<lambda>source_revision_number.
     and_then (field_of data path ''m8_sku'' string_of) (\<lambda>m8_sku.
     and_then (field_of data path ''duration_seconds'' integer_of) (\<lambda>duration_seconds.
     and_then (field_of data path ''location_reference'' string_of) (\<lambda>location_reference.
     and_then (field_of data path ''location_fingerprint'' string_of) (\<lambda>location_fingerprint.
     and_then (field_of data path ''customer_window_state'' (enum_of ConstraintKnowledge_value ConstraintKnowledge_members)) (\<lambda>customer_window_state.
     and_then (field_of data path ''customer_window_start'' (optional_of (instant_of cal))) (\<lambda>customer_window_start.
     and_then (field_of data path ''customer_window_end'' (optional_of (instant_of cal))) (\<lambda>customer_window_end.
     and_then (field_of data path ''hard_deadline_state'' (enum_of ConstraintKnowledge_value ConstraintKnowledge_members)) (\<lambda>hard_deadline_state.
     and_then (field_of data path ''hard_deadline'' (optional_of (instant_of cal))) (\<lambda>hard_deadline.
     and_then (field_of data path ''source_revision'' integer_of) (\<lambda>source_revision.
     and_then (field_of data path ''previous_source_record_id'' (optional_of string_of)) (\<lambda>previous_source_record_id.
     and_then (field_of data path ''provenance_reference'' string_of) (\<lambda>provenance_reference.
     and_then (field_of data path ''m8_service_catalog_version'' string_of) (\<lambda>m8_service_catalog_version.
     and_then (field_of data path ''m8_planning_profile_version'' string_of) (\<lambda>m8_planning_profile_version.
     and_then (field_of data path ''m8_configuration_fingerprint'' string_of) (\<lambda>m8_configuration_fingerprint.
     and_then (field_of data path ''required_skill_key'' string_of) (\<lambda>required_skill_key.
     and_then (field_of data path ''minimum_skill_level'' integer_of) (\<lambda>minimum_skill_level.
     and_then (field_of data path ''required_vehicle_class'' string_of) (\<lambda>required_vehicle_class.
     TaskConstraintSource_init
       \<lparr>tc_job_id = job_id, tc_task_id = task_id, tc_task_definition_version = task_definition_version,
        tc_source_handoff_id = source_handoff_id, tc_source_revision_number = source_revision_number,
        tc_m8_sku = m8_sku, tc_duration_seconds = duration_seconds,
        tc_location_reference = location_reference, tc_location_fingerprint = location_fingerprint,
        tc_customer_window_state = customer_window_state, tc_customer_window_start = customer_window_start,
        tc_customer_window_end = customer_window_end, tc_hard_deadline_state = hard_deadline_state,
        tc_hard_deadline = hard_deadline, tc_source_revision = source_revision,
        tc_previous_source_record_id = previous_source_record_id,
        tc_provenance_reference = provenance_reference,
        tc_m8_service_catalog_version = m8_service_catalog_version,
        tc_m8_planning_profile_version = m8_planning_profile_version,
        tc_m8_configuration_fingerprint = m8_configuration_fingerprint,
        tc_required_skill_key = required_skill_key, tc_minimum_skill_level = minimum_skill_level,
        tc_required_vehicle_class = required_vehicle_class\<rparr>)))))))))))))))))))))))))"

definition skill_level_keys :: "string list" where
  "skill_level_keys =
    [''level'', ''required_skill_key'']"

definition skill_level_of :: "string \<Rightarrow> json \<Rightarrow> WorkerSkillLevelEvidence result" where
  "skill_level_of path v =
     and_then (mapping_of path v) (\<lambda>data.
     and_then (keys_match data skill_level_keys path) (\<lambda>_.
     and_then (field_of data path ''required_skill_key'' string_of) (\<lambda>required_skill_key.
     and_then (field_of data path ''level'' (optional_of integer_of)) (\<lambda>level.
     WorkerSkillLevelEvidence_init
       \<lparr>wk_required_skill_key = required_skill_key, wk_level = level\<rparr>))))"

definition worker_technical_keys :: "string list" where
  "worker_technical_keys =
    [''license_b'', ''m8_worker_known'', ''skill_levels'', ''skill_matrix_version'', ''worker_id'']"

definition worker_technical_of :: "string \<Rightarrow> json \<Rightarrow> WorkerTechnicalEvidence result" where
  "worker_technical_of path v =
     and_then (mapping_of path v) (\<lambda>data.
     and_then (keys_match data worker_technical_keys path) (\<lambda>_.
     and_then (field_of data path ''worker_id'' string_of) (\<lambda>worker_id.
     and_then (field_of data path ''m8_worker_known'' boolean_of) (\<lambda>m8_worker_known.
     and_then (field_of data path ''skill_matrix_version'' string_of) (\<lambda>skill_matrix_version.
     and_then (field_of data path ''license_b'' (optional_of boolean_of)) (\<lambda>license_b.
     and_then (field_of data path ''skill_levels'' (items_of skill_level_of)) (\<lambda>skill_levels.
     WorkerTechnicalEvidence_init
       \<lparr>wt_worker_id = worker_id, wt_m8_worker_known = m8_worker_known,
        wt_skill_matrix_version = skill_matrix_version, wt_license_b = license_b,
        wt_skill_levels = skill_levels\<rparr>)))))))"

definition availability_keys :: "string list" where
  "availability_keys =
    [''available_windows'', ''coverage_end'', ''coverage_start'', ''knowledge'', ''source_fingerprint'',
     ''source_record_id'', ''source_revision'', ''subject_id'']"

definition availability_of :: "calendar \<Rightarrow> string \<Rightarrow> json \<Rightarrow> AvailabilityEvidence result" where
  "availability_of cal path v =
     and_then (mapping_of path v) (\<lambda>data.
     and_then (keys_match data availability_keys path) (\<lambda>_.
     and_then (field_of data path ''subject_id'' string_of) (\<lambda>subject_id.
     and_then (field_of data path ''knowledge'' (enum_of AvailabilityKnowledge_value AvailabilityKnowledge_members)) (\<lambda>knowledge.
     and_then (field_of data path ''coverage_start'' (optional_of (instant_of cal))) (\<lambda>coverage_start.
     and_then (field_of data path ''coverage_end'' (optional_of (instant_of cal))) (\<lambda>coverage_end.
     and_then (field_of data path ''available_windows'' (items_of (window_of cal))) (\<lambda>available_windows.
     and_then (field_of data path ''source_record_id'' (optional_of string_of)) (\<lambda>source_record_id.
     and_then (field_of data path ''source_fingerprint'' (optional_of string_of)) (\<lambda>source_fingerprint.
     and_then (field_of data path ''source_revision'' (optional_of integer_of)) (\<lambda>source_revision.
     AvailabilityEvidence_init
       \<lparr>ad_subject_id = subject_id, ad_knowledge = knowledge, ad_coverage_start = coverage_start,
        ad_coverage_end = coverage_end, ad_available_windows = available_windows,
        ad_source_record_id = source_record_id, ad_source_fingerprint = source_fingerprint,
        ad_source_revision = source_revision\<rparr>))))))))))"

definition readiness_keys :: "string list" where
  "readiness_keys =
    [''blocker_references'', ''expected_at'', ''job_id'', ''source_fingerprint'', ''source_record_id'',
     ''source_revision'', ''status'', ''task_definition_version'', ''task_id'']"

definition readiness_of :: "calendar \<Rightarrow> string \<Rightarrow> json \<Rightarrow> ReadinessEvidence result" where
  "readiness_of cal path v =
     and_then (mapping_of path v) (\<lambda>data.
     and_then (keys_match data readiness_keys path) (\<lambda>_.
     and_then (field_of data path ''job_id'' string_of) (\<lambda>job_id.
     and_then (field_of data path ''task_id'' string_of) (\<lambda>task_id.
     and_then (field_of data path ''task_definition_version'' string_of) (\<lambda>task_definition_version.
     and_then (field_of data path ''status'' (enum_of ReadinessState_value ReadinessState_members)) (\<lambda>status.
     and_then (field_of data path ''expected_at'' (optional_of (instant_of cal))) (\<lambda>expected_at.
     and_then (field_of data path ''blocker_references'' (items_of string_of)) (\<lambda>blocker_references.
     and_then (field_of data path ''source_record_id'' (optional_of string_of)) (\<lambda>source_record_id.
     and_then (field_of data path ''source_fingerprint'' (optional_of string_of)) (\<lambda>source_fingerprint.
     and_then (field_of data path ''source_revision'' (optional_of integer_of)) (\<lambda>source_revision.
     ReadinessEvidence_init
       \<lparr>rn_job_id = job_id, rn_task_id = task_id, rn_task_definition_version = task_definition_version,
        rn_status = status, rn_expected_at = expected_at, rn_blocker_references = blocker_references,
        rn_source_record_id = source_record_id, rn_source_fingerprint = source_fingerprint,
        rn_source_revision = source_revision\<rparr>)))))))))))"

definition vehicle_technical_keys :: "string list" where
  "vehicle_technical_keys =
    [''assigned_worker_id'', ''capabilities'', ''kind'', ''private_authority_evidence_included'',
     ''vehicle_id'']"

definition vehicle_technical_of :: "string \<Rightarrow> json \<Rightarrow> VehicleTechnicalEvidence result" where
  "vehicle_technical_of path v =
     and_then (mapping_of path v) (\<lambda>data.
     and_then (keys_match data vehicle_technical_keys path) (\<lambda>_.
     and_then (field_of data path ''vehicle_id'' string_of) (\<lambda>vehicle_id.
     and_then (field_of data path ''kind'' string_of) (\<lambda>kind.
     and_then (field_of data path ''capabilities'' (items_of string_of)) (\<lambda>capabilities.
     and_then (field_of data path ''assigned_worker_id'' (optional_of string_of)) (\<lambda>assigned_worker_id.
     and_then (field_of data path ''private_authority_evidence_included'' boolean_of) (\<lambda>private_authority_evidence_included.
     VehicleTechnicalEvidence_init
       \<lparr>vt_vehicle_id = vehicle_id, vt_kind = kind, vt_capabilities = capabilities,
        vt_assigned_worker_id = assigned_worker_id,
        vt_private_authority_evidence_included = private_authority_evidence_included\<rparr>)))))))"

definition route_evidence_keys :: "string list" where
  "route_evidence_keys =
    [''buffer_rule_version'', ''buffer_seconds'', ''departure_time_basis'', ''destination_fingerprint'',
     ''destination_reference'', ''distance_meters'', ''knowledge'', ''origin_fingerprint'',
     ''origin_reference'', ''provider'', ''route_snapshot_version'', ''source_fingerprint'',
     ''source_record_id'', ''source_revision'', ''transport_mode'', ''travel_duration_seconds'']"

definition route_evidence_of :: "string \<Rightarrow> json \<Rightarrow> RouteEvidence result" where
  "route_evidence_of path v =
     and_then (mapping_of path v) (\<lambda>data.
     and_then (keys_match data route_evidence_keys path) (\<lambda>_.
     and_then (field_of data path ''origin_reference'' string_of) (\<lambda>origin_reference.
     and_then (field_of data path ''origin_fingerprint'' string_of) (\<lambda>origin_fingerprint.
     and_then (field_of data path ''destination_reference'' string_of) (\<lambda>destination_reference.
     and_then (field_of data path ''destination_fingerprint'' string_of) (\<lambda>destination_fingerprint.
     and_then (field_of data path ''transport_mode'' string_of) (\<lambda>transport_mode.
     and_then (field_of data path ''knowledge'' (enum_of RouteKnowledge_value RouteKnowledge_members)) (\<lambda>knowledge.
     and_then (field_of data path ''departure_time_basis'' (optional_of string_of)) (\<lambda>departure_time_basis.
     and_then (field_of data path ''distance_meters'' (optional_of integer_of)) (\<lambda>distance_meters.
     and_then (field_of data path ''travel_duration_seconds'' (optional_of integer_of)) (\<lambda>travel_duration_seconds.
     and_then (field_of data path ''buffer_seconds'' (optional_of integer_of)) (\<lambda>buffer_seconds.
     and_then (field_of data path ''buffer_rule_version'' (optional_of string_of)) (\<lambda>buffer_rule_version.
     and_then (field_of data path ''route_snapshot_version'' (optional_of string_of)) (\<lambda>route_snapshot_version.
     and_then (field_of data path ''provider'' (optional_of string_of)) (\<lambda>provider.
     and_then (field_of data path ''source_record_id'' (optional_of string_of)) (\<lambda>source_record_id.
     and_then (field_of data path ''source_fingerprint'' (optional_of string_of)) (\<lambda>source_fingerprint.
     and_then (field_of data path ''source_revision'' (optional_of integer_of)) (\<lambda>source_revision.
     RouteEvidence_init
       \<lparr>ro_origin_reference = origin_reference, ro_origin_fingerprint = origin_fingerprint,
        ro_destination_reference = destination_reference,
        ro_destination_fingerprint = destination_fingerprint, ro_transport_mode = transport_mode,
        ro_knowledge = knowledge, ro_departure_time_basis = departure_time_basis,
        ro_distance_meters = distance_meters, ro_travel_duration_seconds = travel_duration_seconds,
        ro_buffer_seconds = buffer_seconds, ro_buffer_rule_version = buffer_rule_version,
        ro_route_snapshot_version = route_snapshot_version, ro_provider = provider,
        ro_source_record_id = source_record_id, ro_source_fingerprint = source_fingerprint,
        ro_source_revision = source_revision\<rparr>))))))))))))))))))"

section \<open>Source records\<close>

datatype FeasibilitySource =
    TaskConstraint TaskConstraintSource
  | PlanSchedule PlanScheduleSource
  | WorkerAvailability WorkerAvailabilitySource
  | TaskReadiness TaskReadinessSource
  | VehicleAvailability VehicleAvailabilitySource
  | Route RouteSource

fun source_kind :: "FeasibilitySource \<Rightarrow> FeasibilitySourceKind" where
  "source_kind (TaskConstraint _) = FeasibilitySourceKind.TASK_CONSTRAINT"
| "source_kind (PlanSchedule _) = FeasibilitySourceKind.PLAN_SCHEDULE"
| "source_kind (WorkerAvailability _) = FeasibilitySourceKind.WORKER_AVAILABILITY"
| "source_kind (TaskReadiness _) = FeasibilitySourceKind.TASK_READINESS"
| "source_kind (VehicleAvailability _) = FeasibilitySourceKind.VEHICLE_AVAILABILITY"
| "source_kind (Route _) = FeasibilitySourceKind.ROUTE"

fun source_semantic :: "(string \<Rightarrow> string) \<Rightarrow> calendar \<Rightarrow> FeasibilitySource \<Rightarrow> json" where
  "source_semantic sha256 cal (TaskConstraint x) = task_constraint_semantic sha256 cal x"
| "source_semantic sha256 cal (PlanSchedule x) = plan_schedule_semantic sha256 cal x"
| "source_semantic sha256 cal (WorkerAvailability x) = worker_availability_semantic sha256 cal x"
| "source_semantic sha256 cal (TaskReadiness x) = task_readiness_semantic sha256 cal x"
| "source_semantic sha256 cal (VehicleAvailability x) = vehicle_availability_semantic sha256 cal x"
| "source_semantic sha256 cal (Route x) = route_semantic sha256 cal x"

definition source_fingerprint :: "(string \<Rightarrow> string) \<Rightarrow> calendar \<Rightarrow> FeasibilitySource \<Rightarrow> string" where
  "source_fingerprint sha256 cal x = sha256 (canonical_json (source_semantic sha256 cal x))"

definition source_record_id :: "(string \<Rightarrow> string) \<Rightarrow> calendar \<Rightarrow> FeasibilitySource \<Rightarrow> string" where
  "source_record_id sha256 cal x = ''m3-feasibility-source-'' @ source_fingerprint sha256 cal x"

fun source_record :: "(string \<Rightarrow> zone_rules option) \<Rightarrow> FeasibilitySource \<Rightarrow> unit result" where
  "source_record zones (TaskConstraint x) = check_record TaskConstraintSource_record ''source'' x"
| "source_record zones (PlanSchedule x) = check_record (PlanScheduleSource_init zones) ''source'' x"
| "source_record zones (WorkerAvailability x) = check_record WorkerAvailabilitySource_init ''source'' x"
| "source_record zones (TaskReadiness x) = check_record TaskReadinessSource_init ''source'' x"
| "source_record zones (VehicleAvailability x) = check_record VehicleAvailabilitySource_init ''source'' x"
| "source_record zones (Route x) = check_record RouteSource_init ''source'' x"

definition source_semantic_json ::
    "(string \<Rightarrow> string) \<Rightarrow> (string \<Rightarrow> zone_rules option) \<Rightarrow> calendar \<Rightarrow> FeasibilitySource \<Rightarrow> string result" where
  "source_semantic_json sha256 zones cal x =
     and_then (source_record zones x) (\<lambda>_. Inr (canonical_json (source_semantic sha256 cal x)))"

definition source_extras :: "string list" where
  "source_extras = [''source_kind'', ''schema_version'', ''subject_fingerprint'', ''source_fingerprint'', ''source_record_id'']"

text \<open>\<open>_source_kwargs\<close>.\<close>

definition source_kwargs :: "(string \<times> json) list \<Rightarrow> json" where
  "source_kwargs data = JObject (filter (\<lambda>kv. fst kv \<notin> set source_extras) data)"

fun read_source ::
    "(string \<Rightarrow> zone_rules option) \<Rightarrow> calendar \<Rightarrow> FeasibilitySourceKind \<Rightarrow> (string \<times> json) list \<Rightarrow> FeasibilitySource result" where
  "read_source zones cal FeasibilitySourceKind.TASK_CONSTRAINT data =
     and_then (task_constraint_of cal [] (JObject data)) (\<lambda>x. Inr (TaskConstraint x))"
| "read_source zones cal FeasibilitySourceKind.PLAN_SCHEDULE data =
     and_then (plan_schedule_of zones cal [] (source_kwargs data)) (\<lambda>x. Inr (PlanSchedule x))"
| "read_source zones cal FeasibilitySourceKind.WORKER_AVAILABILITY data =
     and_then (worker_availability_of cal [] (source_kwargs data)) (\<lambda>x. Inr (WorkerAvailability x))"
| "read_source zones cal FeasibilitySourceKind.TASK_READINESS data =
     and_then (task_readiness_of cal [] (source_kwargs data)) (\<lambda>x. Inr (TaskReadiness x))"
| "read_source zones cal FeasibilitySourceKind.VEHICLE_AVAILABILITY data =
     and_then (vehicle_availability_of cal [] (source_kwargs data)) (\<lambda>x. Inr (VehicleAvailability x))"
| "read_source zones cal FeasibilitySourceKind.ROUTE data =
     and_then (route_of [] (source_kwargs data)) (\<lambda>x. Inr (Route x))"

definition restore_source ::
    "(string \<Rightarrow> string) \<Rightarrow> (string \<Rightarrow> zone_rules option) \<Rightarrow> calendar \<Rightarrow> string \<Rightarrow> string \<Rightarrow> string \<Rightarrow> FeasibilitySource result" where
  "restore_source sha256 zones cal raw_semantic fingerprint record_id =
     storage_errors ''INVALID_FEASIBILITY_SOURCE: source''
      (and_then (load_document ''canonical_source_document'' raw_semantic) (\<lambda>data.
       and_then (check_value (map_of data ''schema_version'' = Some (JString ''m3-feasibility-source-v1'')) ''source_schema_version'') (\<lambda>_.
       and_then (field_of data [] ''source_kind'' (enum_of FeasibilitySourceKind_value FeasibilitySourceKind_members)) (\<lambda>kind.
       and_then (read_source zones cal kind data) (\<lambda>x.
       and_then (check_value (source_fingerprint sha256 cal x = fingerprint) ''source_fingerprint'') (\<lambda>_.
       and_then (check_value (source_record_id sha256 cal x = record_id) ''source_record_id'') (\<lambda>_.
       and_then (source_semantic_json sha256 zones cal x) (\<lambda>text.
       and_then (check_value (text = raw_semantic) ''source_canonical_order'') (\<lambda>_. Inr x)))))))))"

section \<open>Snapshots\<close>

text \<open>\<open>restore_source(source_semantic_json_from_document(item), item["source_fingerprint"], item["source_record_id"])\<close>.\<close>

definition semantic_text_of_document :: "(string \<times> json) list \<Rightarrow> string" where
  "semantic_text_of_document item =
     canonical_json (JObject (filter (\<lambda>kv. fst kv \<noteq> ''source_fingerprint'' \<and> fst kv \<noteq> ''source_record_id'') item))"

definition nested_source ::
    "(string \<Rightarrow> string) \<Rightarrow> (string \<Rightarrow> zone_rules option) \<Rightarrow> calendar \<Rightarrow> string \<Rightarrow> json \<Rightarrow> FeasibilitySource result" where
  "nested_source sha256 zones cal path v =
     and_then (mapping_of path v) (\<lambda>item.
     and_then (field_of item path ''source_fingerprint'' string_of) (\<lambda>fingerprint.
     and_then (field_of item path ''source_record_id'' string_of) (\<lambda>record_id.
     restore_source sha256 zones cal (semantic_text_of_document item) fingerprint record_id)))"

definition nested_constraint ::
    "(string \<Rightarrow> string) \<Rightarrow> (string \<Rightarrow> zone_rules option) \<Rightarrow> calendar \<Rightarrow> string \<Rightarrow> json \<Rightarrow> TaskConstraintSource result" where
  "nested_constraint sha256 zones cal path v =
     and_then (nested_source sha256 zones cal path v) (\<lambda>s.
     case s of TaskConstraint x \<Rightarrow> Inr x | _ \<Rightarrow> Inl (ValueError (invalid ''task_constraints'')))"

definition nested_schedule ::
    "(string \<Rightarrow> string) \<Rightarrow> (string \<Rightarrow> zone_rules option) \<Rightarrow> calendar \<Rightarrow> string \<Rightarrow> json \<Rightarrow> PlanScheduleSource result" where
  "nested_schedule sha256 zones cal path v =
     and_then (nested_source sha256 zones cal path v) (\<lambda>s.
     case s of PlanSchedule x \<Rightarrow> Inr x | _ \<Rightarrow> Inl (ValueError (invalid ''schedule'')))"

definition support_keys :: "string list" where
  "support_keys =
    [''base_plan_revision'', ''base_plan_revision_fingerprint'', ''base_plan_revision_id'',
     ''company_plan_id'', ''evaluation_input_fingerprint'', ''evaluation_input_id'',
     ''m8_configuration_fingerprint'', ''m8_planning_profile_version'', ''m8_service_catalog_version'',
     ''m8_skill_matrix_version'', ''m8_vehicle_policy_version'', ''readiness'', ''routes'', ''schedule'',
     ''source_cut_fingerprint'', ''source_cut_generation'', ''source_cut_id'', ''task_constraints'',
     ''vehicle_availability'', ''vehicle_technical_evidence'', ''worker_availability'',
     ''worker_registry_capture_fingerprint'', ''worker_registry_capture_generation'',
     ''worker_registry_capture_id'', ''worker_registry_fingerprint'',
     ''worker_registry_provenance_fingerprint'', ''worker_registry_provenance_id'',
     ''worker_registry_revision'', ''worker_technical_evidence'']"

definition support_of :: "(string \<Rightarrow> string) \<Rightarrow> (string \<Rightarrow> zone_rules option) \<Rightarrow> calendar \<Rightarrow> string \<Rightarrow> json \<Rightarrow> FeasibilitySupportSnapshot result" where
  "support_of sha256 zones cal path v =
     and_then (mapping_of path v) (\<lambda>data.
     and_then (keys_match data support_keys path) (\<lambda>_.
     and_then (field_of data path ''evaluation_input_id'' string_of) (\<lambda>evaluation_input_id.
     and_then (field_of data path ''evaluation_input_fingerprint'' string_of) (\<lambda>evaluation_input_fingerprint.
     and_then (field_of data path ''company_plan_id'' string_of) (\<lambda>company_plan_id.
     and_then (field_of data path ''base_plan_revision'' integer_of) (\<lambda>base_plan_revision.
     and_then (field_of data path ''base_plan_revision_id'' string_of) (\<lambda>base_plan_revision_id.
     and_then (field_of data path ''base_plan_revision_fingerprint'' string_of) (\<lambda>base_plan_revision_fingerprint.
     and_then (field_of data path ''source_cut_id'' string_of) (\<lambda>source_cut_id.
     and_then (field_of data path ''source_cut_generation'' integer_of) (\<lambda>source_cut_generation.
     and_then (field_of data path ''source_cut_fingerprint'' string_of) (\<lambda>source_cut_fingerprint.
     and_then (field_of data path ''m8_service_catalog_version'' string_of) (\<lambda>m8_service_catalog_version.
     and_then (field_of data path ''m8_planning_profile_version'' string_of) (\<lambda>m8_planning_profile_version.
     and_then (field_of data path ''m8_skill_matrix_version'' string_of) (\<lambda>m8_skill_matrix_version.
     and_then (field_of data path ''m8_vehicle_policy_version'' string_of) (\<lambda>m8_vehicle_policy_version.
     and_then (field_of data path ''m8_configuration_fingerprint'' string_of) (\<lambda>m8_configuration_fingerprint.
     and_then (field_of data path ''worker_registry_provenance_id'' string_of) (\<lambda>worker_registry_provenance_id.
     and_then (field_of data path ''worker_registry_provenance_fingerprint'' string_of) (\<lambda>worker_registry_provenance_fingerprint.
     and_then (field_of data path ''worker_registry_capture_id'' string_of) (\<lambda>worker_registry_capture_id.
     and_then (field_of data path ''worker_registry_capture_fingerprint'' string_of) (\<lambda>worker_registry_capture_fingerprint.
     and_then (field_of data path ''worker_registry_capture_generation'' integer_of) (\<lambda>worker_registry_capture_generation.
     and_then (field_of data path ''worker_registry_revision'' integer_of) (\<lambda>worker_registry_revision.
     and_then (field_of data path ''worker_registry_fingerprint'' string_of) (\<lambda>worker_registry_fingerprint.
     and_then (field_of data path ''task_constraints'' (items_of (nested_constraint sha256 zones cal))) (\<lambda>task_constraints.
     and_then (field_of data path ''schedule'' (nested_schedule sha256 zones cal)) (\<lambda>schedule.
     and_then (field_of data path ''worker_technical_evidence'' (items_of worker_technical_of)) (\<lambda>worker_technical_evidence.
     and_then (field_of data path ''worker_availability'' (items_of (availability_of cal))) (\<lambda>worker_availability.
     and_then (field_of data path ''readiness'' (items_of (readiness_of cal))) (\<lambda>readiness.
     and_then (field_of data path ''vehicle_technical_evidence'' (items_of vehicle_technical_of)) (\<lambda>vehicle_technical_evidence.
     and_then (field_of data path ''vehicle_availability'' (items_of (availability_of cal))) (\<lambda>vehicle_availability.
     and_then (field_of data path ''routes'' (items_of route_evidence_of)) (\<lambda>routes.
     FeasibilitySupportSnapshot_init zones
       \<lparr>fs_evaluation_input_id = evaluation_input_id,
        fs_evaluation_input_fingerprint = evaluation_input_fingerprint,
        fs_company_plan_id = company_plan_id, fs_base_plan_revision = base_plan_revision,
        fs_base_plan_revision_id = base_plan_revision_id,
        fs_base_plan_revision_fingerprint = base_plan_revision_fingerprint,
        fs_source_cut_id = source_cut_id, fs_source_cut_generation = source_cut_generation,
        fs_source_cut_fingerprint = source_cut_fingerprint,
        fs_m8_service_catalog_version = m8_service_catalog_version,
        fs_m8_planning_profile_version = m8_planning_profile_version,
        fs_m8_skill_matrix_version = m8_skill_matrix_version,
        fs_m8_vehicle_policy_version = m8_vehicle_policy_version,
        fs_m8_configuration_fingerprint = m8_configuration_fingerprint,
        fs_worker_registry_provenance_id = worker_registry_provenance_id,
        fs_worker_registry_provenance_fingerprint = worker_registry_provenance_fingerprint,
        fs_worker_registry_capture_id = worker_registry_capture_id,
        fs_worker_registry_capture_fingerprint = worker_registry_capture_fingerprint,
        fs_worker_registry_capture_generation = worker_registry_capture_generation,
        fs_worker_registry_revision = worker_registry_revision,
        fs_worker_registry_fingerprint = worker_registry_fingerprint,
        fs_task_constraints = task_constraints, fs_schedule = schedule,
        fs_worker_technical_evidence = worker_technical_evidence,
        fs_worker_availability = worker_availability, fs_readiness = readiness,
        fs_vehicle_technical_evidence = vehicle_technical_evidence,
        fs_vehicle_availability = vehicle_availability, fs_routes = routes\<rparr>)))))))))))))))))))))))))))))))"

definition snapshot_extras :: "string list" where
  "snapshot_extras = [''schema_version'', ''rule_version'']"

definition restore_feasibility_support ::
    "(string \<Rightarrow> string) \<Rightarrow> (string \<Rightarrow> zone_rules option) \<Rightarrow> calendar \<Rightarrow> string \<Rightarrow> json \<Rightarrow> json \<Rightarrow> FeasibilitySupportSnapshot result" where
  "restore_feasibility_support sha256 zones cal raw_semantic fingerprint snapshot_id =
     storage_errors ''INVALID_FEASIBILITY_SUPPORT: feasibility_support''
      (and_then (load_document ''canonical_support_document'' raw_semantic) (\<lambda>data.
       and_then (check_value (map_of data ''schema_version'' = Some (JString ''m3-feasibility-support-v1'')) ''support_schema_version'') (\<lambda>_.
       and_then (check_value (map_of data ''rule_version'' = Some (JString ''m3-feasibility-evidence-selection-v1''))
          ''support_rule_version'') (\<lambda>_.
       and_then (support_of sha256 zones cal [] (JObject (filter (\<lambda>kv. fst kv \<notin> set snapshot_extras) data))) (\<lambda>x.
       and_then (check_value (JString (support_fingerprint sha256 cal x) = fingerprint) ''support_fingerprint'') (\<lambda>_.
       and_then (check_value (JString (support_snapshot_id sha256 cal x) = snapshot_id) ''support_snapshot_id'') (\<lambda>_.
       and_then (check_value (canonical_json (snapshot_semantic sha256 cal x) = raw_semantic) ''support_canonical_order'') (\<lambda>_.
       Inr x))))))))"

definition serialize_feasibility_support ::
    "(string \<Rightarrow> string) \<Rightarrow> (string \<Rightarrow> zone_rules option) \<Rightarrow> calendar \<Rightarrow> FeasibilitySupportSnapshot \<Rightarrow> string result" where
  "serialize_feasibility_support sha256 zones cal x =
     and_then (check_record (FeasibilitySupportSnapshot_init zones) ''feasibility_support'' x) (\<lambda>_.
     Inr (canonical_json (support_payload sha256 cal x)))"

definition deserialize_feasibility_support ::
    "(string \<Rightarrow> string) \<Rightarrow> (string \<Rightarrow> zone_rules option) \<Rightarrow> calendar \<Rightarrow> string \<Rightarrow> FeasibilitySupportSnapshot result" where
  "deserialize_feasibility_support sha256 zones cal raw =
     storage_errors ''INVALID_FEASIBILITY_SUPPORT: feasibility_support''
      (and_then (load_document ''canonical_support_document'' raw) (\<lambda>data.
       and_then (field_of data [] ''support_fingerprint'' (\<lambda>_. Inr)) (\<lambda>fingerprint.
       and_then (field_of data [] ''support_snapshot_id'' (\<lambda>_. Inr)) (\<lambda>snapshot_id.
       restore_feasibility_support sha256 zones cal
         (canonical_json (JObject (filter (\<lambda>kv. fst kv \<noteq> ''support_fingerprint'' \<and> fst kv \<noteq> ''support_snapshot_id'') data)))
         fingerprint snapshot_id))))"

section \<open>Round trips\<close>

interpretation FeasibilitySourceKind_texts: enum_texts FeasibilitySourceKind_value FeasibilitySourceKind_members
proof
  show "distinct (map FeasibilitySourceKind_value FeasibilitySourceKind_members)" by code_simp
  show "e \<in> set FeasibilitySourceKind_members" for e by (cases e) (simp_all add: FeasibilitySourceKind_members_def)
qed

interpretation ConstraintKnowledge_texts: enum_texts ConstraintKnowledge_value ConstraintKnowledge_members
proof
  show "distinct (map ConstraintKnowledge_value ConstraintKnowledge_members)" by code_simp
  show "e \<in> set ConstraintKnowledge_members" for e by (cases e) (simp_all add: ConstraintKnowledge_members_def)
qed

interpretation AvailabilityKnowledge_texts: enum_texts AvailabilityKnowledge_value AvailabilityKnowledge_members
proof
  show "distinct (map AvailabilityKnowledge_value AvailabilityKnowledge_members)" by code_simp
  show "e \<in> set AvailabilityKnowledge_members" for e by (cases e) (simp_all add: AvailabilityKnowledge_members_def)
qed

interpretation ReadinessState_texts: enum_texts ReadinessState_value ReadinessState_members
proof
  show "distinct (map ReadinessState_value ReadinessState_members)" by code_simp
  show "e \<in> set ReadinessState_members" for e by (cases e) (simp_all add: ReadinessState_members_def)
qed

interpretation RouteKnowledge_texts: enum_texts RouteKnowledge_value RouteKnowledge_members
proof
  show "distinct (map RouteKnowledge_value RouteKnowledge_members)" by code_simp
  show "e \<in> set RouteKnowledge_members" for e by (cases e) (simp_all add: RouteKnowledge_members_def)
qed

lemmas read_support_enum [reading] =
  FeasibilitySourceKind_texts.reads_enum ConstraintKnowledge_texts.reads_enum AvailabilityKnowledge_texts.reads_enum ReadinessState_texts.reads_enum RouteKnowledge_texts.reads_enum

interpretation instant_value_codec: codec "instant_json cal" "instant_of cal" "\<lambda>_. calendar_law cal" for cal
  by unfold_locales (simp_all add: instant_json_def instant_of_def datetime_of_def string_of_def calendar_law_def)

lemma canonical_instant [canonical_rules]: "canonical (instant_json cal t)"
  by (simp add: instant_json_def)

lemmas read_instants [reading] = instant_value_codec.reads instant_value_codec.reads_option [simplified]
  int_codec.reads_option [simplified] bool_codec.reads_option [simplified]

lemma read_placement: "calendar_law cal \<Longrightarrow> ScheduledPlacementEvidence_init x = Inr x \<Longrightarrow> scheduled_placement_of cal path (placement_payload cal x) = Inr x"
  by (cases x) (simp add: scheduled_placement_of_def placement_payload_def placement_keys_def reading cong: and_then_weak_cong)

lemma canonical_placement: "canonical (placement_payload cal x)"
  unfolding placement_payload_def
  by (rule canonical_JObject_keys, simp only: list.map fst_conv, code_simp, simp add: canonical_rules)

interpretation placement_codec: codec "placement_payload cal" "scheduled_placement_of cal" "\<lambda>x. calendar_law cal \<and> ScheduledPlacementEvidence_init x = Inr x" for cal
  by unfold_locales (simp add: read_placement, rule canonical_placement, simp add: placement_payload_def)

lemmas placement_rules [reading] = placement_codec.reads placement_codec.reads_list placement_codec.reads_option
declare canonical_placement [canonical_rules]

lemma read_window: "calendar_law cal \<Longrightarrow> AvailabilityWindowEvidence_init x = Inr x \<Longrightarrow> window_of cal path (window_payload cal x) = Inr x"
  by (cases x) (simp add: window_of_def window_payload_def window_keys_def reading cong: and_then_weak_cong)

lemma canonical_window: "canonical (window_payload cal x)"
  unfolding window_payload_def
  by (rule canonical_JObject_keys, simp only: list.map fst_conv, code_simp, simp add: canonical_rules)

interpretation window_codec: codec "window_payload cal" "window_of cal" "\<lambda>x. calendar_law cal \<and> AvailabilityWindowEvidence_init x = Inr x" for cal
  by unfold_locales (simp add: read_window, rule canonical_window, simp add: window_payload_def)

lemmas window_rules [reading] = window_codec.reads window_codec.reads_list window_codec.reads_option
declare canonical_window [canonical_rules]

lemma read_skill_level: "WorkerSkillLevelEvidence_init x = Inr x \<Longrightarrow> skill_level_of path (skill_level_payload x) = Inr x"
  by (cases x) (simp add: skill_level_of_def skill_level_payload_def skill_level_keys_def reading cong: and_then_weak_cong)

lemma canonical_skill_level: "canonical (skill_level_payload x)"
  unfolding skill_level_payload_def
  by (rule canonical_JObject_keys, simp only: list.map fst_conv, code_simp, simp add: canonical_rules)

interpretation skill_level_codec: codec "skill_level_payload" "skill_level_of" "\<lambda>x. WorkerSkillLevelEvidence_init x = Inr x"
  by unfold_locales (simp add: read_skill_level, rule canonical_skill_level, simp add: skill_level_payload_def)

lemmas skill_level_rules [reading] = skill_level_codec.reads skill_level_codec.reads_list skill_level_codec.reads_option
declare canonical_skill_level [canonical_rules]

lemma worker_technical_parts: "WorkerTechnicalEvidence_init x = Inr x \<Longrightarrow>
   (\<forall>a\<in>set (wt_skill_levels x). WorkerSkillLevelEvidence_init a = Inr a)"
  by (simp add: WorkerTechnicalEvidence_init_def Let_def)

lemma read_worker_technical: "WorkerTechnicalEvidence_init x = Inr x \<Longrightarrow> worker_technical_of path (worker_technical_payload x) = Inr x"
  using worker_technical_parts [of x]
  by (cases x) (simp add: worker_technical_of_def worker_technical_payload_def worker_technical_keys_def reading cong: and_then_weak_cong)

lemma canonical_worker_technical: "canonical (worker_technical_payload x)"
  unfolding worker_technical_payload_def
  by (rule canonical_JObject_keys, simp only: list.map fst_conv, code_simp, simp add: canonical_rules)

interpretation worker_technical_codec: codec "worker_technical_payload" "worker_technical_of" "\<lambda>x. WorkerTechnicalEvidence_init x = Inr x"
  by unfold_locales (simp add: read_worker_technical, rule canonical_worker_technical, simp add: worker_technical_payload_def)

lemmas worker_technical_rules [reading] = worker_technical_codec.reads worker_technical_codec.reads_list worker_technical_codec.reads_option
declare canonical_worker_technical [canonical_rules]

lemma canonical_windows_parts:
  "canonical_windows vs s e = Inr ws \<Longrightarrow> \<forall>v\<in>set vs. AvailabilityWindowEvidence_init v = Inr v"
  by (auto simp: canonical_windows_def)

lemma availability_parts: "AvailabilityEvidence_init x = Inr x \<Longrightarrow>
   \<forall>a\<in>set (ad_available_windows x). AvailabilityWindowEvidence_init a = Inr a"
  by (auto simp: AvailabilityEvidence_init_def dest: canonical_windows_parts split: if_splits option.splits)

lemma read_availability: "calendar_law cal \<Longrightarrow> AvailabilityEvidence_init x = Inr x \<Longrightarrow> availability_of cal path (availability_payload cal x) = Inr x"
  using availability_parts [of x]
  by (cases x) (simp add: availability_of_def availability_payload_def availability_keys_def reading cong: and_then_weak_cong)

lemma canonical_availability: "canonical (availability_payload cal x)"
  unfolding availability_payload_def
  by (rule canonical_JObject_keys, simp only: list.map fst_conv, code_simp, simp add: canonical_rules)

interpretation availability_codec: codec "availability_payload cal" "availability_of cal" "\<lambda>x. calendar_law cal \<and> AvailabilityEvidence_init x = Inr x" for cal
  by unfold_locales (simp add: read_availability, rule canonical_availability, simp add: availability_payload_def)

lemmas availability_rules [reading] = availability_codec.reads availability_codec.reads_list availability_codec.reads_option
declare canonical_availability [canonical_rules]

lemma read_readiness: "calendar_law cal \<Longrightarrow> ReadinessEvidence_init x = Inr x \<Longrightarrow> readiness_of cal path (readiness_payload cal x) = Inr x"
  by (cases x) (simp add: readiness_of_def readiness_payload_def readiness_keys_def reading cong: and_then_weak_cong)

lemma canonical_readiness: "canonical (readiness_payload cal x)"
  unfolding readiness_payload_def
  by (rule canonical_JObject_keys, simp only: list.map fst_conv, code_simp, simp add: canonical_rules)

interpretation readiness_codec: codec "readiness_payload cal" "readiness_of cal" "\<lambda>x. calendar_law cal \<and> ReadinessEvidence_init x = Inr x" for cal
  by unfold_locales (simp add: read_readiness, rule canonical_readiness, simp add: readiness_payload_def)

lemmas readiness_rules [reading] = readiness_codec.reads readiness_codec.reads_list readiness_codec.reads_option
declare canonical_readiness [canonical_rules]

lemma read_vehicle_technical: "VehicleTechnicalEvidence_init x = Inr x \<Longrightarrow> vehicle_technical_of path (vehicle_technical_payload x) = Inr x"
  by (cases x) (simp add: vehicle_technical_of_def vehicle_technical_payload_def vehicle_technical_keys_def reading cong: and_then_weak_cong)

lemma canonical_vehicle_technical: "canonical (vehicle_technical_payload x)"
  unfolding vehicle_technical_payload_def
  by (rule canonical_JObject_keys, simp only: list.map fst_conv, code_simp, simp add: canonical_rules)

interpretation vehicle_technical_codec: codec "vehicle_technical_payload" "vehicle_technical_of" "\<lambda>x. VehicleTechnicalEvidence_init x = Inr x"
  by unfold_locales (simp add: read_vehicle_technical, rule canonical_vehicle_technical, simp add: vehicle_technical_payload_def)

lemmas vehicle_technical_rules [reading] = vehicle_technical_codec.reads vehicle_technical_codec.reads_list vehicle_technical_codec.reads_option
declare canonical_vehicle_technical [canonical_rules]

lemma read_route_evidence: "RouteEvidence_init x = Inr x \<Longrightarrow> route_evidence_of path (route_evidence_payload x) = Inr x"
  by (cases x) (simp add: route_evidence_of_def route_evidence_payload_def route_evidence_keys_def reading cong: and_then_weak_cong)

lemma canonical_route_evidence: "canonical (route_evidence_payload x)"
  unfolding route_evidence_payload_def
  by (rule canonical_JObject_keys, simp only: list.map fst_conv, code_simp, simp add: canonical_rules)

interpretation route_evidence_codec: codec "route_evidence_payload" "route_evidence_of" "\<lambda>x. RouteEvidence_init x = Inr x"
  by unfold_locales (simp add: read_route_evidence, rule canonical_route_evidence, simp add: route_evidence_payload_def)

lemmas route_evidence_rules [reading] = route_evidence_codec.reads route_evidence_codec.reads_list route_evidence_codec.reads_option
declare canonical_route_evidence [canonical_rules]

text \<open>Source records that the constructors leave as they are.\<close>

fun source_ok :: "(string \<Rightarrow> zone_rules option) \<Rightarrow> FeasibilitySource \<Rightarrow> bool" where
  "source_ok zones (TaskConstraint x) \<longleftrightarrow> TaskConstraintSource_init x = Inr x"
| "source_ok zones (PlanSchedule x) \<longleftrightarrow> PlanScheduleSource_init zones x = Inr x"
| "source_ok zones (WorkerAvailability x) \<longleftrightarrow> WorkerAvailabilitySource_init x = Inr x"
| "source_ok zones (TaskReadiness x) \<longleftrightarrow> TaskReadinessSource_init x = Inr x"
| "source_ok zones (VehicleAvailability x) \<longleftrightarrow> VehicleAvailabilitySource_init x = Inr x"
| "source_ok zones (Route x) \<longleftrightarrow> RouteSource_init x = Inr x"

lemma plan_schedule_parts: "PlanScheduleSource_init zones x = Inr x \<Longrightarrow>
   \<forall>a\<in>set (sh_placements x). ScheduledPlacementEvidence_init a = Inr a"
  by (auto simp: PlanScheduleSource_init_def split: option.splits)

lemma worker_availability_parts: "WorkerAvailabilitySource_init x = Inr x \<Longrightarrow>
   \<forall>a\<in>set (wa_available_windows x). AvailabilityWindowEvidence_init a = Inr a"
  by (auto simp: WorkerAvailabilitySource_init_def dest: canonical_windows_parts)

lemma vehicle_availability_parts: "VehicleAvailabilitySource_init x = Inr x \<Longrightarrow>
   \<forall>a\<in>set (vs_available_windows x). AvailabilityWindowEvidence_init a = Inr a"
  by (auto simp: VehicleAvailabilitySource_init_def dest: canonical_windows_parts)

lemma canonical_source: "canonical (source_semantic sha256 cal s)"
proof (cases s)
  case (TaskConstraint x)
  show ?thesis unfolding TaskConstraint source_semantic.simps task_constraint_semantic_def
    by (rule canonical_JObject_keys, simp only: list.map fst_conv, code_simp, simp add: canonical_rules)
next
  case (PlanSchedule x)
  show ?thesis unfolding PlanSchedule source_semantic.simps plan_schedule_semantic_def
    by (rule canonical_JObject_keys, simp only: list.map fst_conv, code_simp, simp add: canonical_rules)
next
  case (WorkerAvailability x)
  show ?thesis unfolding WorkerAvailability source_semantic.simps worker_availability_semantic_def
    by (rule canonical_JObject_keys, simp only: list.map fst_conv, code_simp, simp add: canonical_rules)
next
  case (TaskReadiness x)
  show ?thesis unfolding TaskReadiness source_semantic.simps task_readiness_semantic_def
    by (rule canonical_JObject_keys, simp only: list.map fst_conv, code_simp, simp add: canonical_rules)
next
  case (VehicleAvailability x)
  show ?thesis unfolding VehicleAvailability source_semantic.simps vehicle_availability_semantic_def
    by (rule canonical_JObject_keys, simp only: list.map fst_conv, code_simp, simp add: canonical_rules)
next
  case (Route x)
  show ?thesis unfolding Route source_semantic.simps route_semantic_def
    by (rule canonical_JObject_keys, simp only: list.map fst_conv, code_simp, simp add: canonical_rules)
qed

text \<open>What \<open>restore_source\<close> needs of the semantic document of a record.\<close>

definition reads_semantic :: "(string \<Rightarrow> zone_rules option) \<Rightarrow> calendar \<Rightarrow> FeasibilitySource \<Rightarrow> json \<Rightarrow> bool" where
  "reads_semantic zones cal s j \<longleftrightarrow> (case j of JObject data \<Rightarrow>
     map_of data ''schema_version'' = Some (JString ''m3-feasibility-source-v1'') \<and>
     field_of data [] ''source_kind'' (enum_of FeasibilitySourceKind_value FeasibilitySourceKind_members) = Inr (source_kind s) \<and>
     read_source zones cal (source_kind s) data = Inr s | _ \<Rightarrow> False)"

lemma kind_text [reading]:
  "enum_of FeasibilitySourceKind_value FeasibilitySourceKind_members path (JString ''TASK_CONSTRAINT'') = Inr FeasibilitySourceKind.TASK_CONSTRAINT"
  "enum_of FeasibilitySourceKind_value FeasibilitySourceKind_members path (JString ''PLAN_SCHEDULE'') = Inr FeasibilitySourceKind.PLAN_SCHEDULE"
  "enum_of FeasibilitySourceKind_value FeasibilitySourceKind_members path (JString ''WORKER_AVAILABILITY'') = Inr FeasibilitySourceKind.WORKER_AVAILABILITY"
  "enum_of FeasibilitySourceKind_value FeasibilitySourceKind_members path (JString ''TASK_READINESS'') = Inr FeasibilitySourceKind.TASK_READINESS"
  "enum_of FeasibilitySourceKind_value FeasibilitySourceKind_members path (JString ''VEHICLE_AVAILABILITY'') = Inr FeasibilitySourceKind.VEHICLE_AVAILABILITY"
  "enum_of FeasibilitySourceKind_value FeasibilitySourceKind_members path (JString ''ROUTE'') = Inr FeasibilitySourceKind.ROUTE"
  by (simp_all add: enum_of_def string_of_def FeasibilitySourceKind_members_def)

lemma reads_task_constraint:
  assumes "calendar_law cal" "source_ok zones (TaskConstraint x)"
  shows "reads_semantic zones cal (TaskConstraint x) (task_constraint_semantic sha256 cal x)"
  using assms
  by (cases x) (simp add: reads_semantic_def task_constraint_semantic_def task_constraint_of_def reading)

lemma reads_plan_schedule:
  assumes "calendar_law cal" "source_ok zones (PlanSchedule x)"
  shows "reads_semantic zones cal (PlanSchedule x) (plan_schedule_semantic sha256 cal x)"
  using plan_schedule_parts [OF assms(2) [unfolded source_ok.simps]] assms
  by (cases x) (simp add: reads_semantic_def plan_schedule_semantic_def plan_schedule_of_def plan_schedule_keys_def source_kwargs_def source_extras_def reading)

lemma reads_worker_availability:
  assumes "calendar_law cal" "source_ok zones (WorkerAvailability x)"
  shows "reads_semantic zones cal (WorkerAvailability x) (worker_availability_semantic sha256 cal x)"
  using worker_availability_parts [OF assms(2) [unfolded source_ok.simps]] assms
  by (cases x) (simp add: reads_semantic_def worker_availability_semantic_def worker_availability_of_def worker_availability_keys_def source_kwargs_def source_extras_def reading)

lemma reads_task_readiness:
  assumes "calendar_law cal" "source_ok zones (TaskReadiness x)"
  shows "reads_semantic zones cal (TaskReadiness x) (task_readiness_semantic sha256 cal x)"
  using assms
  by (cases x) (simp add: reads_semantic_def task_readiness_semantic_def task_readiness_of_def task_readiness_keys_def source_kwargs_def source_extras_def reading)

lemma reads_vehicle_availability:
  assumes "calendar_law cal" "source_ok zones (VehicleAvailability x)"
  shows "reads_semantic zones cal (VehicleAvailability x) (vehicle_availability_semantic sha256 cal x)"
  using vehicle_availability_parts [OF assms(2) [unfolded source_ok.simps]] assms
  by (cases x) (simp add: reads_semantic_def vehicle_availability_semantic_def vehicle_availability_of_def vehicle_availability_keys_def source_kwargs_def source_extras_def reading)

lemma reads_route:
  assumes "calendar_law cal" "source_ok zones (Route x)"
  shows "reads_semantic zones cal (Route x) (route_semantic sha256 cal x)"
  using assms
  by (cases x) (simp add: reads_semantic_def route_semantic_def route_of_def route_keys_def source_kwargs_def source_extras_def reading)

lemma reads_source: "calendar_law cal \<Longrightarrow> source_ok zones s \<Longrightarrow> reads_semantic zones cal s (source_semantic sha256 cal s)"
  by (cases s) (simp_all add: reads_task_constraint reads_plan_schedule reads_worker_availability reads_task_readiness
    reads_vehicle_availability reads_route del: source_ok.simps)

lemma source_ok_record: "source_ok zones s \<Longrightarrow> source_record zones s = Inr ()"
  by (cases s) (auto simp: TaskConstraintSource_init_def TaskConstraintSource_record_def)

text \<open>A task constraint read back has passed all of its constructor's checks.\<close>

lemma task_constraint_of_typed: "task_constraint_of cal path v = Inr x \<Longrightarrow> TaskConstraintSource_init x = Inr x"
proof -
  have "TaskConstraintSource_init y = Inr x \<Longrightarrow> TaskConstraintSource_init x = Inr x" for y
    by (auto simp: TaskConstraintSource_init_def)
  then show "task_constraint_of cal path v = Inr x \<Longrightarrow> TaskConstraintSource_init x = Inr x"
    by (auto simp: task_constraint_of_def)
qed

lemma read_source_ok:
  assumes "read_source zones cal k data = Inr s" "source_record zones s = Inr ()"
  shows "source_ok zones s"
  using assms by (cases k) (auto simp: task_constraint_of_typed)

lemma source_read_iff:
  assumes "calendar_law cal"
  shows "restore_source sha256 zones cal raw fp i = Inr s \<longleftrightarrow>
    source_ok zones s \<and> raw = canonical_json (source_semantic sha256 cal s) \<and> fp = source_fingerprint sha256 cal s \<and>
    i = source_record_id sha256 cal s"
proof
  assume "restore_source sha256 zones cal raw fp i = Inr s"
  then show "source_ok zones s \<and> raw = canonical_json (source_semantic sha256 cal s) \<and> fp = source_fingerprint sha256 cal s \<and>
      i = source_record_id sha256 cal s"
    by (auto simp: restore_source_def source_semantic_json_def dest: read_source_ok)
next
  assume s: "source_ok zones s \<and> raw = canonical_json (source_semantic sha256 cal s) \<and> fp = source_fingerprint sha256 cal s \<and>
      i = source_record_id sha256 cal s"
  have reads: "reads_semantic zones cal s (source_semantic sha256 cal s)" using reads_source [OF assms] s by blast
  then obtain data where data: "source_semantic sha256 cal s = JObject data"
    by (auto simp: reads_semantic_def split: json.splits)
  have "load_document ''canonical_source_document'' (canonical_json (JObject data)) = Inr data"
    by (rule load_canonical) (metis canonical_source data)
  then show "restore_source sha256 zones cal raw fp i = Inr s"
    using reads s source_ok_record [of zones s]
    by (simp add: restore_source_def source_semantic_json_def data reads_semantic_def)
qed

lemma read_nested_constraint:
  assumes "calendar_law cal" "TaskConstraintSource_init x = Inr x"
  shows "nested_constraint sha256 zones cal path (task_constraint_payload sha256 cal x) = Inr x"
proof -
  have "restore_source sha256 zones cal (canonical_json (task_constraint_semantic sha256 cal x))
      (task_constraint_fingerprint sha256 cal x) (task_constraint_record_id sha256 cal x) = Inr (TaskConstraint x)"
    using assms(2) by (simp add: source_read_iff [OF assms(1)] source_fingerprint_def source_record_id_def
      task_constraint_fingerprint_def task_constraint_record_id_def)
  then show ?thesis
    by (simp add: nested_constraint_def nested_source_def task_constraint_payload_def semantic_text_of_document_def
      task_constraint_semantic_def reading)
qed

lemma read_nested_schedule:
  assumes "calendar_law cal" "PlanScheduleSource_init zones x = Inr x"
  shows "nested_schedule sha256 zones cal path (plan_schedule_payload sha256 cal x) = Inr x"
proof -
  have "restore_source sha256 zones cal (canonical_json (plan_schedule_semantic sha256 cal x))
      (plan_schedule_fingerprint sha256 cal x) (plan_schedule_record_id sha256 cal x) = Inr (PlanSchedule x)"
    using assms(2) by (simp add: source_read_iff [OF assms(1)] source_fingerprint_def source_record_id_def
      plan_schedule_fingerprint_def plan_schedule_record_id_def)
  then show ?thesis
    by (simp add: nested_schedule_def nested_source_def plan_schedule_payload_def semantic_text_of_document_def
      plan_schedule_semantic_def reading)
qed

lemma canonical_task_constraint [canonical_rules]: "canonical (task_constraint_payload sha256 cal x)"
  unfolding task_constraint_payload_def by (rule canonical_JObject_keys, simp only: list.map fst_conv, code_simp, simp add: canonical_rules)

lemma canonical_plan_schedule [canonical_rules]: "canonical (plan_schedule_payload sha256 cal x)"
  unfolding plan_schedule_payload_def by (rule canonical_JObject_keys, simp only: list.map fst_conv, code_simp, simp add: canonical_rules)

interpretation task_constraint_codec: codec "task_constraint_payload sha256 cal" "nested_constraint sha256 zones cal"
    "\<lambda>x. calendar_law cal \<and> TaskConstraintSource_init x = Inr x" for sha256 zones cal
  by unfold_locales (simp add: read_nested_constraint, rule canonical_task_constraint, simp add: task_constraint_payload_def)

lemmas nested_rules [reading] = task_constraint_codec.reads_list read_nested_schedule

section \<open>Stored snapshots\<close>

definition support_ok :: "(string \<Rightarrow> zone_rules option) \<Rightarrow> FeasibilitySupportSnapshot \<Rightarrow> bool" where
  "support_ok zones x \<longleftrightarrow> FeasibilitySupportSnapshot_init zones x = Inr x \<and>
     (\<forall>c\<in>set (fs_task_constraints x). TaskConstraintSource_init c = Inr c)"

lemma support_parts: "FeasibilitySupportSnapshot_init zones x = Inr x \<Longrightarrow>
   PlanScheduleSource_init zones (fs_schedule x) = Inr (fs_schedule x) \<and>
   (\<forall>a\<in>set (fs_worker_technical_evidence x). WorkerTechnicalEvidence_init a = Inr a) \<and>
   (\<forall>a\<in>set (fs_worker_availability x). AvailabilityEvidence_init a = Inr a) \<and>
   (\<forall>a\<in>set (fs_readiness x). ReadinessEvidence_init a = Inr a) \<and>
   (\<forall>a\<in>set (fs_vehicle_technical_evidence x). VehicleTechnicalEvidence_init a = Inr a) \<and>
   (\<forall>a\<in>set (fs_vehicle_availability x). AvailabilityEvidence_init a = Inr a) \<and>
   (\<forall>a\<in>set (fs_routes x). RouteEvidence_init a = Inr a)"
  by (simp add: FeasibilitySupportSnapshot_init_def)

text \<open>The fields of the snapshot itself.\<close>

definition snapshot_fields :: "(string \<Rightarrow> string) \<Rightarrow> calendar \<Rightarrow> FeasibilitySupportSnapshot \<Rightarrow> json" where
  "snapshot_fields sha256 cal x = JObject
     [(''base_plan_revision'', JInt (fs_base_plan_revision x)),
      (''base_plan_revision_fingerprint'', JString (fs_base_plan_revision_fingerprint x)),
      (''base_plan_revision_id'', JString (fs_base_plan_revision_id x)),
      (''company_plan_id'', JString (fs_company_plan_id x)),
      (''evaluation_input_fingerprint'', JString (fs_evaluation_input_fingerprint x)),
      (''evaluation_input_id'', JString (fs_evaluation_input_id x)),
      (''m8_configuration_fingerprint'', JString (fs_m8_configuration_fingerprint x)),
      (''m8_planning_profile_version'', JString (fs_m8_planning_profile_version x)),
      (''m8_service_catalog_version'', JString (fs_m8_service_catalog_version x)),
      (''m8_skill_matrix_version'', JString (fs_m8_skill_matrix_version x)),
      (''m8_vehicle_policy_version'', JString (fs_m8_vehicle_policy_version x)),
      (''readiness'', json_list (readiness_payload cal) (fs_readiness x)),
      (''routes'', json_list route_evidence_payload (fs_routes x)),
      (''schedule'', plan_schedule_payload sha256 cal (fs_schedule x)),
      (''source_cut_fingerprint'', JString (fs_source_cut_fingerprint x)),
      (''source_cut_generation'', JInt (fs_source_cut_generation x)),
      (''source_cut_id'', JString (fs_source_cut_id x)),
      (''task_constraints'', json_list (task_constraint_payload sha256 cal) (fs_task_constraints x)),
      (''vehicle_availability'', json_list (availability_payload cal) (fs_vehicle_availability x)),
      (''vehicle_technical_evidence'', json_list vehicle_technical_payload (fs_vehicle_technical_evidence x)),
      (''worker_availability'', json_list (availability_payload cal) (fs_worker_availability x)),
      (''worker_registry_capture_fingerprint'', JString (fs_worker_registry_capture_fingerprint x)),
      (''worker_registry_capture_generation'', JInt (fs_worker_registry_capture_generation x)),
      (''worker_registry_capture_id'', JString (fs_worker_registry_capture_id x)),
      (''worker_registry_fingerprint'', JString (fs_worker_registry_fingerprint x)),
      (''worker_registry_provenance_fingerprint'', JString (fs_worker_registry_provenance_fingerprint x)),
      (''worker_registry_provenance_id'', JString (fs_worker_registry_provenance_id x)),
      (''worker_registry_revision'', JInt (fs_worker_registry_revision x)),
      (''worker_technical_evidence'', json_list worker_technical_payload (fs_worker_technical_evidence x))]"

lemmas read_steps = and_then.simps if_True if_False list.inject char.inject simp_thms list.distinct

lemma read_support:
  assumes "calendar_law cal" "support_ok zones x"
  shows "support_of sha256 zones cal path (snapshot_fields sha256 cal x) = Inr x"
  using support_parts [of zones x] assms
  apply (simp only: support_of_def snapshot_fields_def read_object(1) and_then.simps support_ok_def simp_thms)
  apply (subst read_object(2), simp add: support_keys_def)
  apply (elim conjE)
  apply (simp only: reading read_steps cong: and_then_weak_cong)
  apply (cases x, simp add: reading)
  done

lemma canonical_snapshot: "canonical (snapshot_semantic sha256 cal x)" "canonical (support_payload sha256 cal x)"
  unfolding snapshot_semantic_def support_payload_def
  by (rule canonical_JObject_keys, simp only: list.map fst_conv, code_simp, simp add: canonical_rules)+

lemma restore_snapshot:
  assumes "calendar_law cal" "support_ok zones x"
  shows "restore_feasibility_support sha256 zones cal (canonical_json (snapshot_semantic sha256 cal x))
    (JString (support_fingerprint sha256 cal x)) (JString (support_snapshot_id sha256 cal x)) = Inr x"
proof -
  obtain data where data: "snapshot_semantic sha256 cal x = JObject data"
      "map_of data ''schema_version'' = Some (JString ''m3-feasibility-support-v1'')"
      "map_of data ''rule_version'' = Some (JString ''m3-feasibility-evidence-selection-v1'')"
      "JObject (filter (\<lambda>kv. fst kv \<notin> set snapshot_extras) data) = snapshot_fields sha256 cal x"
    by (simp add: snapshot_semantic_def snapshot_fields_def snapshot_extras_def)
  have "load_document ''canonical_support_document'' (canonical_json (JObject data)) = Inr data"
    by (rule load_canonical) (metis canonical_snapshot(1) data(1))
  then show ?thesis using read_support [OF assms, of sha256 "[]"]
    by (simp add: restore_feasibility_support_def data)
qed

lemma support_round_trip:
  assumes "calendar_law cal" "support_ok zones x"
  shows "deserialize_feasibility_support sha256 zones cal (canonical_json (support_payload sha256 cal x)) = Inr x"
proof -
  obtain data where data: "support_payload sha256 cal x = JObject data"
      "map_of data ''support_fingerprint'' = Some (JString (support_fingerprint sha256 cal x))"
      "map_of data ''support_snapshot_id'' = Some (JString (support_snapshot_id sha256 cal x))"
      "JObject (filter (\<lambda>kv. fst kv \<noteq> ''support_fingerprint'' \<and> fst kv \<noteq> ''support_snapshot_id'') data) = snapshot_semantic sha256 cal x"
    by (simp add: support_payload_def snapshot_semantic_def)
  have "load_document ''canonical_support_document'' (canonical_json (JObject data)) = Inr data"
    by (rule load_canonical) (metis canonical_snapshot(2) data(1))
  then show ?thesis using restore_snapshot [OF assms, of sha256]
    by (simp add: deserialize_feasibility_support_def data field_of_def)
qed

end
