(* ===== verification/Repair_Model.thy ===== *)
theory Repair_Model
  imports Support_Documents Crew_Planner
begin

text \<open>
  The values of planning/bounded_feasibility.py: proposed placements, constraint results, the impact and
  the technical order of a repair candidate, the candidate and the result of the search, with their
  constructor checks and the documents their identities are the SHA-256 of.
\<close>

section \<open>Enums and records\<close>

datatype CandidateVerdict = FEASIBLE | REJECTED

fun CandidateVerdict_value :: "CandidateVerdict \<Rightarrow> string" where
  "CandidateVerdict_value CandidateVerdict.FEASIBLE = ''FEASIBLE''"
| "CandidateVerdict_value CandidateVerdict.REJECTED = ''REJECTED''"

datatype ConstraintStatus = PASS | FAIL | UNKNOWN

fun ConstraintStatus_value :: "ConstraintStatus \<Rightarrow> string" where
  "ConstraintStatus_value ConstraintStatus.PASS = ''PASS''"
| "ConstraintStatus_value ConstraintStatus.FAIL = ''FAIL''"
| "ConstraintStatus_value ConstraintStatus.UNKNOWN = ''UNKNOWN''"

datatype SearchOutcome =
    FEASIBLE_CANDIDATES_FOUND
  | ALL_EVALUATED_CANDIDATES_REJECTED
  | SEARCH_ENVELOPE_EXHAUSTED
  | CREW_REPAIR_UNSUPPORTED
  | INSUFFICIENT_CRITICAL_EVIDENCE
  | NO_REPAIR_REQUIRED

fun SearchOutcome_value :: "SearchOutcome \<Rightarrow> string" where
  "SearchOutcome_value SearchOutcome.FEASIBLE_CANDIDATES_FOUND = ''FEASIBLE_CANDIDATES_FOUND''"
| "SearchOutcome_value SearchOutcome.ALL_EVALUATED_CANDIDATES_REJECTED = ''ALL_EVALUATED_CANDIDATES_REJECTED''"
| "SearchOutcome_value SearchOutcome.SEARCH_ENVELOPE_EXHAUSTED = ''SEARCH_ENVELOPE_EXHAUSTED''"
| "SearchOutcome_value SearchOutcome.CREW_REPAIR_UNSUPPORTED = ''CREW_REPAIR_UNSUPPORTED''"
| "SearchOutcome_value SearchOutcome.INSUFFICIENT_CRITICAL_EVIDENCE = ''INSUFFICIENT_CRITICAL_EVIDENCE''"
| "SearchOutcome_value SearchOutcome.NO_REPAIR_REQUIRED = ''NO_REPAIR_REQUIRED''"

datatype ReasonCode =
    EXACT_SKILL_MATCH
  | EXACT_SKILL_MISMATCH
  | SKILL_EVIDENCE_UNKNOWN
  | WORKER_AVAILABLE
  | WORKER_UNAVAILABLE
  | AVAILABILITY_UNKNOWN
  | NO_OVERLAP
  | OVERLAP_CONFLICT
  | DEPENDENCY_SATISFIED
  | DEPENDENCY_VIOLATION
  | READINESS_READY
  | READINESS_NOT_READY
  | READINESS_UNKNOWN
  | VEHICLE_AVAILABLE
  | VEHICLE_NOT_REQUIRED
  | VEHICLE_UNAVAILABLE
  | VEHICLE_EVIDENCE_UNKNOWN
  | ROUTE_BUFFER_SATISFIED
  | ROUTE_BUFFER_VIOLATION
  | ROUTE_EVIDENCE_UNKNOWN
  | TECHNICALLY_FITS_WINDOW
  | CUSTOMER_WINDOW_ABSENT
  | CUSTOMER_WINDOW_VIOLATION
  | CUSTOMER_WINDOW_EVIDENCE_UNKNOWN
  | DEADLINE_MET
  | DEADLINE_ABSENT
  | DEADLINE_VIOLATION
  | DEADLINE_EVIDENCE_UNKNOWN
  | CREW_REPAIR_UNSUPPORTED
  | SINGLE_KIND_EVIDENCE_UNKNOWN
  | SEARCH_ENVELOPE_LIMIT
  | PRIVATE_VEHICLE_AUTHORITY_REQUIRED

fun ReasonCode_value :: "ReasonCode \<Rightarrow> string" where
  "ReasonCode_value ReasonCode.EXACT_SKILL_MATCH = ''EXACT_SKILL_MATCH''"
| "ReasonCode_value ReasonCode.EXACT_SKILL_MISMATCH = ''EXACT_SKILL_MISMATCH''"
| "ReasonCode_value ReasonCode.SKILL_EVIDENCE_UNKNOWN = ''SKILL_EVIDENCE_UNKNOWN''"
| "ReasonCode_value ReasonCode.WORKER_AVAILABLE = ''WORKER_AVAILABLE''"
| "ReasonCode_value ReasonCode.WORKER_UNAVAILABLE = ''WORKER_UNAVAILABLE''"
| "ReasonCode_value ReasonCode.AVAILABILITY_UNKNOWN = ''AVAILABILITY_UNKNOWN''"
| "ReasonCode_value ReasonCode.NO_OVERLAP = ''NO_OVERLAP''"
| "ReasonCode_value ReasonCode.OVERLAP_CONFLICT = ''OVERLAP_CONFLICT''"
| "ReasonCode_value ReasonCode.DEPENDENCY_SATISFIED = ''DEPENDENCY_SATISFIED''"
| "ReasonCode_value ReasonCode.DEPENDENCY_VIOLATION = ''DEPENDENCY_VIOLATION''"
| "ReasonCode_value ReasonCode.READINESS_READY = ''READINESS_READY''"
| "ReasonCode_value ReasonCode.READINESS_NOT_READY = ''READINESS_NOT_READY''"
| "ReasonCode_value ReasonCode.READINESS_UNKNOWN = ''READINESS_UNKNOWN''"
| "ReasonCode_value ReasonCode.VEHICLE_AVAILABLE = ''VEHICLE_AVAILABLE''"
| "ReasonCode_value ReasonCode.VEHICLE_NOT_REQUIRED = ''VEHICLE_NOT_REQUIRED''"
| "ReasonCode_value ReasonCode.VEHICLE_UNAVAILABLE = ''VEHICLE_UNAVAILABLE''"
| "ReasonCode_value ReasonCode.VEHICLE_EVIDENCE_UNKNOWN = ''VEHICLE_EVIDENCE_UNKNOWN''"
| "ReasonCode_value ReasonCode.ROUTE_BUFFER_SATISFIED = ''ROUTE_BUFFER_SATISFIED''"
| "ReasonCode_value ReasonCode.ROUTE_BUFFER_VIOLATION = ''ROUTE_BUFFER_VIOLATION''"
| "ReasonCode_value ReasonCode.ROUTE_EVIDENCE_UNKNOWN = ''ROUTE_EVIDENCE_UNKNOWN''"
| "ReasonCode_value ReasonCode.TECHNICALLY_FITS_WINDOW = ''TECHNICALLY_FITS_WINDOW''"
| "ReasonCode_value ReasonCode.CUSTOMER_WINDOW_ABSENT = ''CUSTOMER_WINDOW_ABSENT''"
| "ReasonCode_value ReasonCode.CUSTOMER_WINDOW_VIOLATION = ''CUSTOMER_WINDOW_VIOLATION''"
| "ReasonCode_value ReasonCode.CUSTOMER_WINDOW_EVIDENCE_UNKNOWN = ''CUSTOMER_WINDOW_EVIDENCE_UNKNOWN''"
| "ReasonCode_value ReasonCode.DEADLINE_MET = ''DEADLINE_MET''"
| "ReasonCode_value ReasonCode.DEADLINE_ABSENT = ''DEADLINE_ABSENT''"
| "ReasonCode_value ReasonCode.DEADLINE_VIOLATION = ''DEADLINE_VIOLATION''"
| "ReasonCode_value ReasonCode.DEADLINE_EVIDENCE_UNKNOWN = ''DEADLINE_EVIDENCE_UNKNOWN''"
| "ReasonCode_value ReasonCode.CREW_REPAIR_UNSUPPORTED = ''CREW_REPAIR_UNSUPPORTED''"
| "ReasonCode_value ReasonCode.SINGLE_KIND_EVIDENCE_UNKNOWN = ''SINGLE_KIND_EVIDENCE_UNKNOWN''"
| "ReasonCode_value ReasonCode.SEARCH_ENVELOPE_LIMIT = ''SEARCH_ENVELOPE_LIMIT''"
| "ReasonCode_value ReasonCode.PRIVATE_VEHICLE_AUTHORITY_REQUIRED = ''PRIVATE_VEHICLE_AUTHORITY_REQUIRED''"

record ProposedWorkerPlacement =
  pw_commitment_id :: string
  pw_job_id :: string
  pw_task_id :: string
  pw_worker_id :: string
  pw_vehicle_id :: "string option"
  pw_business_date :: int
  pw_proposed_start :: int
  pw_proposed_end :: int

record TechnicalConstraintResult =
  tk_status :: ConstraintStatus
  tk_reason_code :: ReasonCode
  tk_commitment_id :: string
  tk_subject_id :: string
  tk_related_commitment_ids :: "string list"
  tk_evidence_reference_ids :: "string list"
  tk_required_value :: "string option"
  tk_actual_value :: "string option"

record CandidateImpactEvidence =
  im_direct_current_impact :: "ImpactCommitmentReference list"
  im_dependency_impact :: "ImpactCommitmentReference list"
  im_candidate_induced_impact :: "ImpactCommitmentReference list"
  im_restored_impact :: "ImpactCommitmentReference list"
  im_residual_unresolved_impact :: "ImpactCommitmentReference list"

record TechnicalOrderingEvidence =
  tx_restored_commitment_count :: int
  tx_protected_known_customer_window_count :: int
  tx_modified_commitment_count :: int
  tx_travel_and_buffer_seconds :: int

record M3RepairCandidate =
  mr_source_evaluation_input_id :: string
  mr_source_evaluation_input_fingerprint :: string
  mr_source_support_snapshot_id :: string
  mr_source_support_snapshot_fingerprint :: string
  mr_company_plan_id :: string
  mr_base_plan_revision :: int
  mr_base_plan_revision_id :: string
  mr_base_plan_revision_fingerprint :: string
  mr_modified_commitment_ids :: "string list"
  mr_canonical_job_ids :: "string list"
  mr_canonical_task_ids :: "string list"
  mr_proposed_worker_placements :: "ProposedWorkerPlacement list"
  mr_affected_dependencies :: "DependencyEvidence list"
  mr_impact :: CandidateImpactEvidence
  mr_technical_constraint_results :: "TechnicalConstraintResult list"
  mr_verdict :: CandidateVerdict
  mr_rejection_trace :: "TechnicalConstraintResult list"
  mr_authority_impacts :: "ReasonCode list"
  mr_technical_ordering :: TechnicalOrderingEvidence

record SearchTraceEntry =
  se_reason_code :: ReasonCode
  se_commitment_ids :: "string list"
  se_detail :: string

record M3BoundedFeasibilityResult =
  br_source_evaluation_input_id :: string
  br_source_evaluation_input_fingerprint :: string
  br_source_support_snapshot_id :: string
  br_source_support_snapshot_fingerprint :: string
  br_company_plan_id :: string
  br_base_plan_revision :: int
  br_outcome :: SearchOutcome
  br_candidates :: "M3RepairCandidate list"
  br_feasible_candidate_ids :: "string list"
  br_rejected_candidate_ids :: "string list"
  br_evaluated_candidate_count :: int
  br_search_envelope_exhausted :: bool
  br_global_solution_status :: string
  br_unsupported_commitment_ids :: "string list"
  br_insufficient_evidence_commitment_ids :: "string list"
  br_search_trace :: "SearchTraceEntry list"

definition MAX_EVALUATED_CANDIDATES :: nat where
  "MAX_EVALUATED_CANDIDATES = 12"

definition MAX_MODIFIED_COMMITMENTS :: nat where
  "MAX_MODIFIED_COMMITMENTS = 3"

definition MAX_SEED_PAIR_PROBES :: nat where
  "MAX_SEED_PAIR_PROBES = MAX_EVALUATED_CANDIDATES + 1"

definition MAX_ANCHORS_PER_SEED_PAIR :: nat where
  "MAX_ANCHORS_PER_SEED_PAIR = MAX_EVALUATED_CANDIDATES + 1"

definition PLANNING_HORIZON_DAYS :: int where
  "PLANNING_HORIZON_DAYS = 3"

definition BUSINESS_TIMEZONE :: string where
  "BUSINESS_TIMEZONE = ''Europe/Berlin''"

section \<open>Constructor checks\<close>

text \<open>\<open>_instant\<close>: an instant of whole seconds.\<close>

definition check_instant :: "int \<Rightarrow> string \<Rightarrow> unit result" where
  "check_instant t name = check_value (t mod 1000000 = 0) name"

definition pw_key :: "ProposedWorkerPlacement \<Rightarrow> string \<times> string \<times> string" where
  "pw_key p = (pw_job_id p, pw_task_id p, pw_commitment_id p)"

definition ProposedWorkerPlacement_init :: "ProposedWorkerPlacement \<Rightarrow> ProposedWorkerPlacement result" where
  "ProposedWorkerPlacement_init x =
     and_then (check_identity (pw_commitment_id x) ''commitment_id'') (\<lambda>_.
     and_then (check_identity (pw_job_id x) ''job_id'') (\<lambda>_.
     and_then (check_identity (pw_task_id x) ''task_id'') (\<lambda>_.
     and_then (check_identity (pw_worker_id x) ''worker_id'') (\<lambda>_.
     and_then (check_optional_identity (pw_vehicle_id x) ''vehicle_id'') (\<lambda>_.
     and_then (check_instant (pw_proposed_start x) ''proposed_start'') (\<lambda>_.
     and_then (check_instant (pw_proposed_end x) ''proposed_end'') (\<lambda>_.
     and_then (check_value (pw_proposed_start x < pw_proposed_end x) ''proposed_interval'') (\<lambda>_. Inr x))))))))"

definition TechnicalConstraintResult_init :: "TechnicalConstraintResult \<Rightarrow> TechnicalConstraintResult result" where
  "TechnicalConstraintResult_init x =
     and_then (check_identity (tk_commitment_id x) ''commitment_id'') (\<lambda>_.
     and_then (check_identity (tk_subject_id x) ''constraint_subject_id'') (\<lambda>_.
     and_then (canonical_identities (tk_related_commitment_ids x) ''related_commitment_ids'') (\<lambda>related.
     and_then (canonical_identities (tk_evidence_reference_ids x) ''evidence_reference_ids'') (\<lambda>evidence.
     Inr (x\<lparr>tk_related_commitment_ids := related, tk_evidence_reference_ids := evidence\<rparr>)))))"

definition CandidateImpactEvidence_init :: "CandidateImpactEvidence \<Rightarrow> CandidateImpactEvidence result" where
  "CandidateImpactEvidence_init x =
     and_then (canonical_records ImpactCommitmentReference_init ir_key ''direct_current_impact'' (im_direct_current_impact x)) (\<lambda>direct.
     and_then (canonical_records ImpactCommitmentReference_init ir_key ''dependency_impact'' (im_dependency_impact x)) (\<lambda>dependency.
     and_then (canonical_records ImpactCommitmentReference_init ir_key ''candidate_induced_impact'' (im_candidate_induced_impact x)) (\<lambda>induced.
     and_then (canonical_records ImpactCommitmentReference_init ir_key ''restored_impact'' (im_restored_impact x)) (\<lambda>restored.
     and_then (canonical_records ImpactCommitmentReference_init ir_key ''residual_unresolved_impact'' (im_residual_unresolved_impact x)) (\<lambda>residual.
     Inr (x\<lparr>im_direct_current_impact := direct, im_dependency_impact := dependency, im_candidate_induced_impact := induced,
            im_restored_impact := restored, im_residual_unresolved_impact := residual\<rparr>))))))"

definition TechnicalOrderingEvidence_init :: "TechnicalOrderingEvidence \<Rightarrow> TechnicalOrderingEvidence result" where
  "TechnicalOrderingEvidence_init x =
     and_then (check_value (0 \<le> tx_restored_commitment_count x) ''restored_commitment_count'') (\<lambda>_.
     and_then (check_value (0 \<le> tx_protected_known_customer_window_count x) ''protected_known_customer_window_count'') (\<lambda>_.
     and_then (check_value (0 \<le> tx_modified_commitment_count x) ''modified_commitment_count'') (\<lambda>_.
     and_then (check_value (0 \<le> tx_travel_and_buffer_seconds x) ''travel_and_buffer_seconds'') (\<lambda>_.
     and_then (check_value (tx_modified_commitment_count x \<le> int MAX_MODIFIED_COMMITMENTS) ''modified_commitment_count'') (\<lambda>_.
     Inr x)))))"

definition M3RepairCandidate_init :: "M3RepairCandidate \<Rightarrow> M3RepairCandidate result" where
  "M3RepairCandidate_init x =
     and_then (check_identity (mr_source_evaluation_input_id x) ''source_evaluation_input_id'') (\<lambda>_.
     and_then (check_identity (mr_source_support_snapshot_id x) ''source_support_snapshot_id'') (\<lambda>_.
     and_then (check_identity (mr_company_plan_id x) ''company_plan_id'') (\<lambda>_.
     and_then (check_identity (mr_base_plan_revision_id x) ''base_plan_revision_id'') (\<lambda>_.
     and_then (check_digest (mr_source_evaluation_input_fingerprint x) ''source_evaluation_input_fingerprint'') (\<lambda>_.
     and_then (check_digest (mr_source_support_snapshot_fingerprint x) ''source_support_snapshot_fingerprint'') (\<lambda>_.
     and_then (check_digest (mr_base_plan_revision_fingerprint x) ''base_plan_revision_fingerprint'') (\<lambda>_.
     and_then (check_value (mr_source_evaluation_input_id x = ''m3-evaluation-input-'' @ mr_source_evaluation_input_fingerprint x)
        ''source_evaluation_input_id'') (\<lambda>_.
     and_then (check_value (mr_source_support_snapshot_id x = ''m3-feasibility-support-'' @ mr_source_support_snapshot_fingerprint x)
        ''source_support_snapshot_id'') (\<lambda>_.
     and_then (check_value (mr_base_plan_revision_id x = ''m3-plan-revision-'' @ mr_base_plan_revision_fingerprint x)
        ''base_plan_revision_id'') (\<lambda>_.
     and_then (check_value (0 \<le> mr_base_plan_revision x) ''base_plan_revision'') (\<lambda>_.
     and_then (canonical_records ProposedWorkerPlacement_init pw_key ''proposed_worker_placements'' (mr_proposed_worker_placements x)) (\<lambda>placements.
     let modified = map pw_commitment_id placements in
     and_then (check_value (mr_modified_commitment_ids x = modified) ''modified_commitment_ids'') (\<lambda>_.
     and_then (check_value (0 < length modified \<and> length modified \<le> MAX_MODIFIED_COMMITMENTS) ''modified_commitment_ids'') (\<lambda>_.
     and_then (check_value (mr_canonical_job_ids x = sorted_set (map pw_job_id placements)) ''canonical_job_ids'') (\<lambda>_.
     and_then (check_value (mr_canonical_task_ids x = sorted_set (map pw_task_id placements)) ''canonical_task_ids'') (\<lambda>_.
     and_then (canonical_records DependencyEvidence_init (\<lambda>e. (de_predecessor_task_id e, de_successor_task_id e))
        ''affected_dependencies'' (mr_affected_dependencies x)) (\<lambda>dependencies.
     let rejection = filter (\<lambda>r. tk_status r \<noteq> ConstraintStatus.PASS) (mr_technical_constraint_results x) in
     and_then (check_value (mr_rejection_trace x = rejection) ''rejection_trace'') (\<lambda>_.
     and_then (check_value ((mr_verdict x = CandidateVerdict.FEASIBLE \<and> rejection = []) \<or>
        (mr_verdict x = CandidateVerdict.REJECTED \<and> rejection \<noteq> [])) ''verdict'') (\<lambda>_.
     and_then (check_record CandidateImpactEvidence_init ''impact'' (mr_impact x)) (\<lambda>_.
     and_then (check_record TechnicalOrderingEvidence_init ''technical_ordering'' (mr_technical_ordering x)) (\<lambda>_.
     Inr (x\<lparr>mr_proposed_worker_placements := placements, mr_affected_dependencies := dependencies,
            mr_authority_impacts := sort_key ReasonCode_value (remdups (mr_authority_impacts x))\<rparr>))))))))))))))))))))))"

definition SearchTraceEntry_init :: "SearchTraceEntry \<Rightarrow> SearchTraceEntry result" where
  "SearchTraceEntry_init x =
     and_then (check_all (\<lambda>v. check_identity v ''search_commitment_ids'') (se_commitment_ids x)) (\<lambda>_.
     Inr (x\<lparr>se_commitment_ids := sorted_set (se_commitment_ids x)\<rparr>))"

section \<open>Documents and identities\<close>

definition proposed_placement_payload :: "calendar \<Rightarrow> ProposedWorkerPlacement \<Rightarrow> json" where
  "proposed_placement_payload cal x = JObject
     [(''business_date'', JString (date_text cal (pw_business_date x))),
      (''commitment_id'', JString (pw_commitment_id x)), (''job_id'', JString (pw_job_id x)),
      (''proposed_end'', instant_json cal (pw_proposed_end x)),
      (''proposed_start'', instant_json cal (pw_proposed_start x)), (''task_id'', JString (pw_task_id x)),
      (''vehicle_id'', json_option JString (pw_vehicle_id x)), (''worker_id'', JString (pw_worker_id x))]"

definition constraint_result_payload :: "TechnicalConstraintResult \<Rightarrow> json" where
  "constraint_result_payload x = JObject
     [(''actual_value'', json_option JString (tk_actual_value x)),
      (''commitment_id'', JString (tk_commitment_id x)),
      (''evidence_reference_ids'', json_strings (tk_evidence_reference_ids x)),
      (''reason_code'', JString (ReasonCode_value (tk_reason_code x))),
      (''related_commitment_ids'', json_strings (tk_related_commitment_ids x)),
      (''required_value'', json_option JString (tk_required_value x)),
      (''status'', JString (ConstraintStatus_value (tk_status x))),
      (''subject_id'', JString (tk_subject_id x))]"

definition impact_evidence_payload :: "CandidateImpactEvidence \<Rightarrow> json" where
  "impact_evidence_payload x = JObject
     [(''candidate_induced_impact'', json_list impact_reference_payload (im_candidate_induced_impact x)),
      (''dependency_impact'', json_list impact_reference_payload (im_dependency_impact x)),
      (''direct_current_impact'', json_list impact_reference_payload (im_direct_current_impact x)),
      (''residual_unresolved_impact'', json_list impact_reference_payload (im_residual_unresolved_impact x)),
      (''restored_impact'', json_list impact_reference_payload (im_restored_impact x))]"

definition ordering_evidence_payload :: "TechnicalOrderingEvidence \<Rightarrow> json" where
  "ordering_evidence_payload x = JObject
     [(''modified_commitment_count'', JInt (tx_modified_commitment_count x)),
      (''protected_known_customer_window_count'', JInt (tx_protected_known_customer_window_count x)),
      (''restored_commitment_count'', JInt (tx_restored_commitment_count x)),
      (''travel_and_buffer_seconds'', JInt (tx_travel_and_buffer_seconds x))]"

definition candidate_semantic :: "calendar \<Rightarrow> M3RepairCandidate \<Rightarrow> json" where
  "candidate_semantic cal x = JObject
     [(''affected_dependencies'', json_list dependency_evidence_payload (mr_affected_dependencies x)),
      (''authority_impacts'', json_strings (map ReasonCode_value (mr_authority_impacts x))),
      (''base_plan_revision'', JInt (mr_base_plan_revision x)),
      (''base_plan_revision_fingerprint'', JString (mr_base_plan_revision_fingerprint x)),
      (''base_plan_revision_id'', JString (mr_base_plan_revision_id x)),
      (''canonical_job_ids'', json_strings (mr_canonical_job_ids x)),
      (''canonical_task_ids'', json_strings (mr_canonical_task_ids x)),
      (''company_plan_id'', JString (mr_company_plan_id x)),
      (''impact'', impact_evidence_payload (mr_impact x)),
      (''modified_commitment_ids'', json_strings (mr_modified_commitment_ids x)),
      (''proposed_worker_placements'', json_list (proposed_placement_payload cal) (mr_proposed_worker_placements x)),
      (''rejection_trace'', json_list constraint_result_payload (mr_rejection_trace x)),
      (''rule_version'', JString ''m3-bounded-feasibility-v1''),
      (''schema_version'', JString ''m3-bounded-repair-candidate-v1''),
      (''source_evaluation_input_fingerprint'', JString (mr_source_evaluation_input_fingerprint x)),
      (''source_evaluation_input_id'', JString (mr_source_evaluation_input_id x)),
      (''source_support_snapshot_fingerprint'', JString (mr_source_support_snapshot_fingerprint x)),
      (''source_support_snapshot_id'', JString (mr_source_support_snapshot_id x)),
      (''technical_constraint_results'', json_list constraint_result_payload (mr_technical_constraint_results x)),
      (''technical_ordering'', ordering_evidence_payload (mr_technical_ordering x)),
      (''verdict'', JString (CandidateVerdict_value (mr_verdict x)))]"

definition candidate_fingerprint :: "(string \<Rightarrow> string) \<Rightarrow> calendar \<Rightarrow> M3RepairCandidate \<Rightarrow> string" where
  "candidate_fingerprint sha256 cal x = sha256 (canonical_json (candidate_semantic cal x))"

definition candidate_id :: "(string \<Rightarrow> string) \<Rightarrow> calendar \<Rightarrow> M3RepairCandidate \<Rightarrow> string" where
  "candidate_id sha256 cal x = ''m3-candidate-'' @ candidate_fingerprint sha256 cal x"

definition candidate_payload :: "(string \<Rightarrow> string) \<Rightarrow> calendar \<Rightarrow> M3RepairCandidate \<Rightarrow> json" where
  "candidate_payload sha256 cal x = JObject
     [(''affected_dependencies'', json_list dependency_evidence_payload (mr_affected_dependencies x)),
      (''authority_impacts'', json_strings (map ReasonCode_value (mr_authority_impacts x))),
      (''base_plan_revision'', JInt (mr_base_plan_revision x)),
      (''base_plan_revision_fingerprint'', JString (mr_base_plan_revision_fingerprint x)),
      (''base_plan_revision_id'', JString (mr_base_plan_revision_id x)),
      (''candidate_fingerprint'', JString (candidate_fingerprint sha256 cal x)),
      (''candidate_id'', JString (candidate_id sha256 cal x)),
      (''canonical_job_ids'', json_strings (mr_canonical_job_ids x)),
      (''canonical_task_ids'', json_strings (mr_canonical_task_ids x)),
      (''company_plan_id'', JString (mr_company_plan_id x)),
      (''impact'', impact_evidence_payload (mr_impact x)),
      (''modified_commitment_ids'', json_strings (mr_modified_commitment_ids x)),
      (''proposed_worker_placements'', json_list (proposed_placement_payload cal) (mr_proposed_worker_placements x)),
      (''rejection_trace'', json_list constraint_result_payload (mr_rejection_trace x)),
      (''rule_version'', JString ''m3-bounded-feasibility-v1''),
      (''schema_version'', JString ''m3-bounded-repair-candidate-v1''),
      (''source_evaluation_input_fingerprint'', JString (mr_source_evaluation_input_fingerprint x)),
      (''source_evaluation_input_id'', JString (mr_source_evaluation_input_id x)),
      (''source_support_snapshot_fingerprint'', JString (mr_source_support_snapshot_fingerprint x)),
      (''source_support_snapshot_id'', JString (mr_source_support_snapshot_id x)),
      (''technical_constraint_results'', json_list constraint_result_payload (mr_technical_constraint_results x)),
      (''technical_ordering'', ordering_evidence_payload (mr_technical_ordering x)),
      (''verdict'', JString (CandidateVerdict_value (mr_verdict x)))]"

definition trace_entry_payload :: "SearchTraceEntry \<Rightarrow> json" where
  "trace_entry_payload x = JObject
     [(''commitment_ids'', json_strings (se_commitment_ids x)), (''detail'', JString (se_detail x)),
      (''reason_code'', JString (ReasonCode_value (se_reason_code x)))]"

definition result_semantic :: "(string \<Rightarrow> string) \<Rightarrow> calendar \<Rightarrow> M3BoundedFeasibilityResult \<Rightarrow> json" where
  "result_semantic sha256 cal x = JObject
     [(''base_plan_revision'', JInt (br_base_plan_revision x)),
      (''candidates'', json_list (candidate_payload sha256 cal) (br_candidates x)),
      (''company_plan_id'', JString (br_company_plan_id x)),
      (''evaluated_candidate_count'', JInt (br_evaluated_candidate_count x)),
      (''feasible_candidate_ids'', json_strings (br_feasible_candidate_ids x)),
      (''global_solution_status'', JString (br_global_solution_status x)),
      (''insufficient_evidence_commitment_ids'', json_strings (br_insufficient_evidence_commitment_ids x)),
      (''outcome'', JString (SearchOutcome_value (br_outcome x))),
      (''rejected_candidate_ids'', json_strings (br_rejected_candidate_ids x)),
      (''rule_version'', JString ''m3-bounded-feasibility-v1''),
      (''schema_version'', JString ''m3-bounded-feasibility-result-v1''),
      (''search_envelope_exhausted'', JBool (br_search_envelope_exhausted x)),
      (''search_trace'', json_list trace_entry_payload (br_search_trace x)),
      (''source_evaluation_input_fingerprint'', JString (br_source_evaluation_input_fingerprint x)),
      (''source_evaluation_input_id'', JString (br_source_evaluation_input_id x)),
      (''source_support_snapshot_fingerprint'', JString (br_source_support_snapshot_fingerprint x)),
      (''source_support_snapshot_id'', JString (br_source_support_snapshot_id x)),
      (''unsupported_commitment_ids'', json_strings (br_unsupported_commitment_ids x))]"

definition result_fingerprint :: "(string \<Rightarrow> string) \<Rightarrow> calendar \<Rightarrow> M3BoundedFeasibilityResult \<Rightarrow> string" where
  "result_fingerprint sha256 cal x = sha256 (canonical_json (result_semantic sha256 cal x))"

definition result_id :: "(string \<Rightarrow> string) \<Rightarrow> calendar \<Rightarrow> M3BoundedFeasibilityResult \<Rightarrow> string" where
  "result_id sha256 cal x = ''m3-feasibility-result-'' @ result_fingerprint sha256 cal x"

definition M3BoundedFeasibilityResult_init ::
    "(string \<Rightarrow> string) \<Rightarrow> calendar \<Rightarrow> M3BoundedFeasibilityResult \<Rightarrow> M3BoundedFeasibilityResult result" where
  "M3BoundedFeasibilityResult_init sha256 cal x =
     and_then (check_identity (br_source_evaluation_input_id x) ''source_evaluation_input_id'') (\<lambda>_.
     and_then (check_identity (br_source_support_snapshot_id x) ''source_support_snapshot_id'') (\<lambda>_.
     and_then (check_identity (br_company_plan_id x) ''company_plan_id'') (\<lambda>_.
     and_then (check_digest (br_source_evaluation_input_fingerprint x) ''source_evaluation_input_fingerprint'') (\<lambda>_.
     and_then (check_digest (br_source_support_snapshot_fingerprint x) ''source_support_snapshot_fingerprint'') (\<lambda>_.
     and_then (check_value (br_source_evaluation_input_id x = ''m3-evaluation-input-'' @ br_source_evaluation_input_fingerprint x)
        ''source_evaluation_input_id'') (\<lambda>_.
     and_then (check_value (br_source_support_snapshot_id x = ''m3-feasibility-support-'' @ br_source_support_snapshot_fingerprint x)
        ''source_support_snapshot_id'') (\<lambda>_.
     and_then (check_value (0 \<le> br_base_plan_revision x) ''base_plan_revision'') (\<lambda>_.
     and_then (check_value (br_global_solution_status x = ''NOT_EVALUATED_GLOBALLY'') ''global_solution_status'') (\<lambda>_.
     and_then (check_value (length (br_candidates x) \<le> MAX_EVALUATED_CANDIDATES) ''candidates'') (\<lambda>_.
     and_then (check_value (br_evaluated_candidate_count x = int (length (br_candidates x))) ''evaluated_candidate_count'') (\<lambda>_.
     and_then (check_value (\<forall>c\<in>set (br_candidates x).
         mr_source_evaluation_input_id c = br_source_evaluation_input_id x \<and>
         mr_source_evaluation_input_fingerprint c = br_source_evaluation_input_fingerprint x \<and>
         mr_source_support_snapshot_id c = br_source_support_snapshot_id x \<and>
         mr_source_support_snapshot_fingerprint c = br_source_support_snapshot_fingerprint x \<and>
         mr_company_plan_id c = br_company_plan_id x \<and> mr_base_plan_revision c = br_base_plan_revision x)
        ''candidate_source_binding'') (\<lambda>_.
     and_then (check_value (br_feasible_candidate_ids x =
         map (candidate_id sha256 cal) (filter (\<lambda>c. mr_verdict c = CandidateVerdict.FEASIBLE) (br_candidates x)))
        ''feasible_candidate_ids'') (\<lambda>_.
     and_then (check_value (br_rejected_candidate_ids x =
         map (candidate_id sha256 cal) (filter (\<lambda>c. mr_verdict c = CandidateVerdict.REJECTED) (br_candidates x)))
        ''rejected_candidate_ids'') (\<lambda>_.
     and_then (check_value (distinct (br_unsupported_commitment_ids x)) ''unsupported_commitment_ids'') (\<lambda>_.
     and_then (check_value (distinct (br_insufficient_evidence_commitment_ids x)) ''insufficient_evidence_commitment_ids'') (\<lambda>_.
     let exhausted = br_search_envelope_exhausted x;
         proved = (\<exists>e\<in>set (br_search_trace x). se_reason_code e = ReasonCode.SEARCH_ENVELOPE_LIMIT);
         feasible = (\<exists>c\<in>set (br_candidates x). mr_verdict c = CandidateVerdict.FEASIBLE) in
     and_then (check_value (exhausted = proved) ''search_envelope_exhausted'') (\<lambda>_.
     and_then (check_value ((br_outcome x = SearchOutcome.FEASIBLE_CANDIDATES_FOUND) = feasible) ''search_outcome'') (\<lambda>_.
     and_then (check_value (\<not> feasible \<and> exhausted \<longrightarrow> br_outcome x = SearchOutcome.SEARCH_ENVELOPE_EXHAUSTED) ''search_outcome'') (\<lambda>_.
     and_then (check_value (br_outcome x = SearchOutcome.SEARCH_ENVELOPE_EXHAUSTED \<longrightarrow> exhausted \<and> \<not> feasible) ''search_outcome'') (\<lambda>_.
     and_then (check_value (br_outcome x = SearchOutcome.ALL_EVALUATED_CANDIDATES_REJECTED \<longrightarrow>
         \<not> exhausted \<and> \<not> proved \<and> \<not> feasible \<and> (\<forall>c\<in>set (br_candidates x). mr_verdict c = CandidateVerdict.REJECTED)) ''search_outcome'') (\<lambda>_.
     Inr (x\<lparr>br_unsupported_commitment_ids := sort (br_unsupported_commitment_ids x),
            br_insufficient_evidence_commitment_ids := sort (br_insufficient_evidence_commitment_ids x)\<rparr>))))))))))))))))))))))"

definition result_payload :: "(string \<Rightarrow> string) \<Rightarrow> calendar \<Rightarrow> M3BoundedFeasibilityResult \<Rightarrow> json" where
  "result_payload sha256 cal x = JObject
     [(''base_plan_revision'', JInt (br_base_plan_revision x)),
      (''candidates'', json_list (candidate_payload sha256 cal) (br_candidates x)),
      (''company_plan_id'', JString (br_company_plan_id x)),
      (''evaluated_candidate_count'', JInt (br_evaluated_candidate_count x)),
      (''feasible_candidate_ids'', json_strings (br_feasible_candidate_ids x)),
      (''global_solution_status'', JString (br_global_solution_status x)),
      (''insufficient_evidence_commitment_ids'', json_strings (br_insufficient_evidence_commitment_ids x)),
      (''outcome'', JString (SearchOutcome_value (br_outcome x))),
      (''rejected_candidate_ids'', json_strings (br_rejected_candidate_ids x)),
      (''result_fingerprint'', JString (result_fingerprint sha256 cal x)),
      (''result_id'', JString (result_id sha256 cal x)),
      (''rule_version'', JString ''m3-bounded-feasibility-v1''),
      (''schema_version'', JString ''m3-bounded-feasibility-result-v1''),
      (''search_envelope_exhausted'', JBool (br_search_envelope_exhausted x)),
      (''search_trace'', json_list trace_entry_payload (br_search_trace x)),
      (''source_evaluation_input_fingerprint'', JString (br_source_evaluation_input_fingerprint x)),
      (''source_evaluation_input_id'', JString (br_source_evaluation_input_id x)),
      (''source_support_snapshot_fingerprint'', JString (br_source_support_snapshot_fingerprint x)),
      (''source_support_snapshot_id'', JString (br_source_support_snapshot_id x)),
      (''unsupported_commitment_ids'', json_strings (br_unsupported_commitment_ids x))]"

definition serialize_repair_candidate :: "(string \<Rightarrow> string) \<Rightarrow> calendar \<Rightarrow> M3RepairCandidate \<Rightarrow> string result" where
  "serialize_repair_candidate sha256 cal x =
     and_then (check_record M3RepairCandidate_init ''candidate'' x) (\<lambda>_. Inr (canonical_json (candidate_payload sha256 cal x)))"

definition serialize_bounded_feasibility_result ::
    "(string \<Rightarrow> string) \<Rightarrow> calendar \<Rightarrow> M3BoundedFeasibilityResult \<Rightarrow> string result" where
  "serialize_bounded_feasibility_result sha256 cal x =
     and_then (check_record (M3BoundedFeasibilityResult_init sha256 cal) ''result'' x) (\<lambda>_.
     Inr (canonical_json (result_payload sha256 cal x)))"

end
