(* ===== verification/Repair_Context.thy ===== *)
theory Repair_Context
  imports Repair_Model
begin

text \<open>
  The evidence cut of a repair search (\<open>_validated_context\<close> of planning/bounded_feasibility.py): the
  evaluation input and the support snapshot survive their own serialisation, belong to the same plan
  revision, cover exactly the active commitments and their routes, and are turned into the dictionaries
  the search reads. A dictionary that is only read is a function, one that is iterated is the list of its
  values in insertion order.
\<close>

section \<open>The context\<close>

record repair_context =
  kx_evaluation :: M3EvaluationInput
  kx_support :: FeasibilitySupportSnapshot
  kx_zone :: zone_rules
  kx_horizon_start :: int
  kx_horizon_end :: int
  kx_commitments :: "CurrentCommitmentEvidence list"
  kx_active_placements :: "ScheduledPlacementEvidence list"
  kx_constraints :: "string \<Rightarrow> TaskConstraintSource option"
  kx_workers :: "string \<Rightarrow> WorkerTechnicalEvidence option"
  kx_worker_availability :: "string \<Rightarrow> AvailabilityEvidence option"
  kx_readiness :: "string \<Rightarrow> ReadinessEvidence option"
  kx_vehicles :: "string \<Rightarrow> VehicleTechnicalEvidence option"
  kx_vehicle_availability :: "string \<Rightarrow> AvailabilityEvidence option"
  kx_routes :: "string \<times> string \<times> string \<times> string \<Rightarrow> RouteEvidence option"
  kx_task_to_commitment :: "string \<Rightarrow> string option"
  kx_direct_ids :: "string list"

text \<open>\<open>d[k]\<close> raises \<open>KeyError\<close>; the values of \<open>{key(x): x for x in xs}\<close>.\<close>

definition subscript :: "('k \<Rightarrow> 'v option) \<Rightarrow> 'k \<Rightarrow> 'v result" where
  "subscript d k = (case d k of None \<Rightarrow> Inl KeyError | Some v \<Rightarrow> Inr v)"

definition values_by :: "('a \<Rightarrow> 'k) \<Rightarrow> 'a list \<Rightarrow> 'a list" where
  "values_by key xs = map (\<lambda>k. the (dict_by key xs k)) (dedup (map key xs))"

lemma subscript_Inr [simp]: "subscript d k = Inr v \<longleftrightarrow> d k = Some v"
  by (simp add: subscript_def split: option.splits)

lemma values_by_distinct:
  assumes "distinct (map key xs)"
  shows "values_by key xs = xs"
proof -
  have "map (\<lambda>k. the (dict_by key xs k)) (map key xs) = xs"
    by (simp, rule map_idI) (simp add: dict_by_distinct [OF assms] lookup_by_distinct [OF assms])
  then show ?thesis by (simp add: values_by_def dedup_id [OF assms])
qed

section \<open>Validation\<close>

definition binding :: "bool \<Rightarrow> string \<Rightarrow> string \<Rightarrow> unit result" where
  "binding c code name = require c (code @ '': '' @ name)"

lemma binding_Inr [simp]: "binding c code name = Inr u \<longleftrightarrow> c"
  by (simp add: binding_def)

text \<open>\<open>except ValueError: raise BindingError("SOURCE_INTEGRITY_FAILURE", "source")\<close>.\<close>

definition integrity :: "'a result \<Rightarrow> 'a result" where
  "integrity m = (case m of Inl (ValueError _) \<Rightarrow> Inl (ValueError ''SOURCE_INTEGRITY_FAILURE: source'') | _ \<Rightarrow> m)"

lemma integrity_Inr [simp]: "integrity m = Inr x \<longleftrightarrow> m = Inr x"
  by (auto simp: integrity_def split: sum.splits py_error.splits)

definition same_placement :: "ScheduledPlacementEvidence option \<Rightarrow> CurrentCommitmentEvidence \<Rightarrow> bool" where
  "same_placement p c = (case p of
     None \<Rightarrow> False
   | Some s \<Rightarrow> sl_job_id s = cv_job_id c \<and> sl_task_id s = cv_task_id c \<and>
       sl_task_definition_version s = cv_task_definition_version c \<and> sl_business_date s = cv_business_date c \<and>
       sl_worker_ids s = cv_planned_worker_ids c)"

text \<open>\<open>int(d.total_seconds())\<close> truncates towards zero (exact for differences below 31 years).\<close>

definition whole_seconds :: "int \<Rightarrow> int" where
  "whole_seconds d = (if 0 \<le> d then d div 1000000 else - ((- d) div 1000000))"

definition micros :: "int \<Rightarrow> int" where
  "micros n = n * 1000000"

text \<open>The evidence of one active commitment.\<close>

definition check_task_evidence ::
    "FeasibilitySupportSnapshot \<Rightarrow> (string \<Rightarrow> ScheduledPlacementEvidence option) \<Rightarrow> CurrentCommitmentEvidence \<Rightarrow>
     (TaskConstraintSource \<times> ReadinessEvidence) result" where
  "check_task_evidence support placement_by_id c =
     (case (dict_by (\<lambda>t. (tc_job_id t, tc_task_id t)) (fs_task_constraints support) (cv_job_id c, cv_task_id c),
            dict_by (\<lambda>r. (rn_job_id r, rn_task_id r)) (fs_readiness support) (cv_job_id c, cv_task_id c)) of
        (Some constraint, Some readiness) \<Rightarrow>
          and_then (binding (tc_task_definition_version constraint = cv_task_definition_version c \<and>
              tc_source_handoff_id constraint = cv_source_handoff_id c \<and>
              tc_source_revision_number constraint = cv_source_revision c \<and>
              rn_task_definition_version readiness = cv_task_definition_version c)
            ''SUPPORT_TASK_BINDING_MISMATCH'' ''task_evidence'') (\<lambda>_.
          and_then (binding (tc_m8_configuration_fingerprint constraint = fs_m8_configuration_fingerprint support \<and>
              tc_m8_service_catalog_version constraint = fs_m8_service_catalog_version support \<and>
              tc_m8_planning_profile_version constraint = fs_m8_planning_profile_version support)
            ''SUPPORT_M8_BINDING_MISMATCH'' ''task_constraint'') (\<lambda>_.
          and_then (subscript placement_by_id (cv_commitment_id c)) (\<lambda>placement.
          and_then (binding (whole_seconds (sl_planned_end placement - sl_planned_start placement) = tc_duration_seconds constraint)
            ''SUPPORT_PLANNED_DURATION_MISMATCH'' ''schedule'') (\<lambda>_.
          Inr (constraint, readiness)))))
      | _ \<Rightarrow> Inl (ValueError ''SUPPORT_TASK_COVERAGE_MISMATCH: task_evidence''))"

definition endpoint :: "TaskConstraintSource \<Rightarrow> string \<times> string" where
  "endpoint t = (tc_location_reference t, tc_location_fingerprint t)"

definition expected_routes :: "TaskConstraintSource list \<Rightarrow> (string \<times> string \<times> string \<times> string) list" where
  "expected_routes constraints =
     (let endpoints = map endpoint constraints
      in concat (map (\<lambda>a. map (\<lambda>b. (fst a, snd a, fst b, snd b)) (filter (\<lambda>b. a \<noteq> b) endpoints)) endpoints))"

definition actual_routes :: "RouteEvidence list \<Rightarrow> (string \<times> string \<times> string \<times> string) list" where
  "actual_routes routes =
     map (\<lambda>r. (ro_origin_reference r, ro_origin_fingerprint r, ro_destination_reference r, ro_destination_fingerprint r)) routes"

text \<open>The bindings between an evaluation input and a support snapshot, once both are known to be intact.\<close>

definition bound_context ::
    "(string \<Rightarrow> string) \<Rightarrow> (string \<Rightarrow> zone_rules option) \<Rightarrow> calendar \<Rightarrow>
     M3EvaluationInput \<Rightarrow> FeasibilitySupportSnapshot \<Rightarrow> repair_context result" where
  "bound_context sha256 zones cal evaluation support =
     and_then (binding (evaluation_input_id sha256 cal evaluation = fs_evaluation_input_id support \<and>
         evaluation_input_fingerprint sha256 cal evaluation = fs_evaluation_input_fingerprint support \<and>
         ei_company_plan_id evaluation = fs_company_plan_id support \<and>
         ei_base_plan_revision evaluation = fs_base_plan_revision support \<and>
         ei_base_plan_revision_id evaluation = fs_base_plan_revision_id support \<and>
         ei_base_plan_revision_fingerprint evaluation = fs_base_plan_revision_fingerprint support)
       ''SUPPORT_EVALUATION_INPUT_MISMATCH'' ''support_snapshot'') (\<lambda>_.
     let schedule = fs_schedule support in
     and_then (binding (sh_company_plan_id schedule = fs_company_plan_id support \<and>
         sh_base_plan_revision schedule = fs_base_plan_revision support \<and>
         sh_base_plan_revision_id schedule = fs_base_plan_revision_id support \<and>
         sh_base_plan_revision_fingerprint schedule = fs_base_plan_revision_fingerprint support)
       ''SUPPORT_SCHEDULE_REVISION_MISMATCH'' ''schedule'') (\<lambda>_.
     and_then (binding (sh_business_timezone schedule = BUSINESS_TIMEZONE) ''UNSUPPORTED_BUSINESS_TIMEZONE'' ''business_timezone'') (\<lambda>_.
     and_then (binding (cd_status (ei_candidate_induced_impact evaluation) = CANDIDATE_ABSENCE)
       ''EVALUATION_INPUT_ALREADY_HAS_CANDIDATE'' ''candidate_induced_impact'') (\<lambda>_.
     let active = ei_current_active_commitments evaluation;
         commitments = values_by cv_commitment_id active;
         placement_by_id = dict_by sl_commitment_id (sh_placements schedule) in
     and_then (check_all (\<lambda>c. binding (same_placement (placement_by_id (cv_commitment_id c)) c)
       ''SUPPORT_ACTIVE_SCHEDULE_MISMATCH'' ''schedule'') commitments) (\<lambda>_.
     and_then (traverse (check_task_evidence support placement_by_id) active) (\<lambda>evidence.
     let resolved = zip (map cv_commitment_id active) evidence in
     and_then (binding (length (remdups (map (\<lambda>t. (tc_job_id t, tc_task_id t)) (fs_task_constraints support))) = length commitments \<and>
         length (remdups (map (\<lambda>r. (rn_job_id r, rn_task_id r)) (fs_readiness support))) = length commitments)
       ''SUPPORT_TASK_COVERAGE_MISMATCH'' ''task_evidence'') (\<lambda>_.
     and_then (binding (\<forall>w\<in>set (fs_worker_technical_evidence support). wt_skill_matrix_version w = fs_m8_skill_matrix_version support)
       ''SUPPORT_M8_BINDING_MISMATCH'' ''worker_technical_evidence'') (\<lambda>_.
     and_then (binding (set (actual_routes (fs_routes support)) = set (expected_routes (fs_task_constraints support)) \<and>
         (\<forall>r\<in>set (fs_routes support). ro_transport_mode r = ''CAR'')) ''SUPPORT_ROUTE_COVERAGE_MISMATCH'' ''routes'') (\<lambda>_.
     case zones BUSINESS_TIMEZONE of
       None \<Rightarrow> Inl (ValueError ''No time zone found'')
     | Some zone \<Rightarrow>
     and_then (traverse (\<lambda>c. subscript placement_by_id (cv_commitment_id c)) commitments) (\<lambda>active_placements.
     Inr \<lparr>kx_evaluation = evaluation, kx_support = support, kx_zone = zone,
          kx_horizon_start = zr_day_start zone (ei_business_date evaluation),
          kx_horizon_end = zr_day_start zone (ei_business_date evaluation + PLANNING_HORIZON_DAYS),
          kx_commitments = commitments, kx_active_placements = active_placements,
          kx_constraints = (\<lambda>i. map_option (fst \<circ> snd) (dict_by fst resolved i)),
          kx_workers = dict_by wt_worker_id (fs_worker_technical_evidence support),
          kx_worker_availability = dict_by ad_subject_id (fs_worker_availability support),
          kx_readiness = (\<lambda>i. map_option (snd \<circ> snd) (dict_by fst resolved i)),
          kx_vehicles = dict_by vt_vehicle_id (fs_vehicle_technical_evidence support),
          kx_vehicle_availability = dict_by ad_subject_id (fs_vehicle_availability support),
          kx_routes = dict_by (\<lambda>r. (ro_origin_fingerprint r, ro_destination_fingerprint r, ro_origin_reference r,
             ro_destination_reference r)) (fs_routes support),
          kx_task_to_commitment = (\<lambda>t. map_option cv_commitment_id (dict_by cv_task_id active t)),
          kx_direct_ids = map ir_commitment_id (dx_commitments (ei_direct_current_impact evaluation))\<rparr>))))))))))"

definition validated_context ::
    "(string \<Rightarrow> string) \<Rightarrow> (string \<Rightarrow> zone_rules option) \<Rightarrow> calendar \<Rightarrow>
     M3EvaluationInput \<Rightarrow> FeasibilitySupportSnapshot \<Rightarrow> repair_context result" where
  "validated_context sha256 zones cal evaluation support =
     and_then (integrity (and_then (serialize_evaluation_input sha256 cal evaluation) (deserialize_evaluation_input sha256 cal))) (\<lambda>restored_evaluation.
     and_then (integrity (and_then (serialize_feasibility_support sha256 zones cal support)
        (deserialize_feasibility_support sha256 zones cal))) (\<lambda>restored_support.
     and_then (binding (restored_evaluation = evaluation) ''EVALUATION_INPUT_INTEGRITY_FAILURE'' ''evaluation_input'') (\<lambda>_.
     and_then (binding (restored_support = support) ''SUPPORT_INTEGRITY_FAILURE'' ''support_snapshot'') (\<lambda>_.
     bound_context sha256 zones cal evaluation support))))"

end
