(* ===== verification/Repair_Evaluation.thy ===== *)
theory Repair_Evaluation
  imports Repair_Context
begin

text \<open>
  The technical validation of a repair draft (\<open>_evaluate_draft\<close> of planning/bounded_feasibility.py): the
  skill, availability, readiness, vehicle, customer window and deadline of every proposed placement, the
  overlaps and the routes it makes in the final schedule, the dependencies it reaches, and the candidate
  with its verdict, impact and technical order. A draft is the list of its placements.
\<close>

type_synonym draft = "ProposedWorkerPlacement list"

section \<open>The schedule of a draft\<close>

definition commitment_kind :: "repair_context \<Rightarrow> string \<Rightarrow> AssignmentKind option result" where
  "commitment_kind k i =
     and_then (subscript (\<lambda>i. lookup_by cv_commitment_id i (kx_commitments k)) i) (\<lambda>c.
     let historical = dict_by ha_assignment_id (hs_assignments (ei_historical_source_scope (kx_evaluation k)));
         sources = map historical (cv_source_m2_assignment_ids c);
         kinds = map (\<lambda>a. ha_assignment_kind (the a)) sources in
     Inr (if 1 < length (cv_planned_worker_ids c) then Some AssignmentKind.CREW
          else if sources = [] then None
          else if None \<in> set sources then None
          else if AssignmentKind.CREW \<in> set kinds then Some AssignmentKind.CREW
          else if set kinds = {AssignmentKind.SINGLE} then Some AssignmentKind.SINGLE else None))"

definition active_placement :: "repair_context \<Rightarrow> string \<Rightarrow> ScheduledPlacementEvidence result" where
  "active_placement k i = subscript (\<lambda>i. lookup_by sl_commitment_id i (kx_active_placements k)) i"

definition proposed_evidence :: "ScheduledPlacementEvidence \<Rightarrow> ProposedWorkerPlacement \<Rightarrow> ScheduledPlacementEvidence result" where
  "proposed_evidence original p =
     ScheduledPlacementEvidence_init
       \<lparr>sl_commitment_id = sl_commitment_id original, sl_job_id = sl_job_id original, sl_task_id = sl_task_id original,
        sl_task_definition_version = sl_task_definition_version original, sl_business_date = pw_business_date p,
        sl_worker_ids = [pw_worker_id p], sl_vehicle_id = pw_vehicle_id p,
        sl_planned_start = pw_proposed_start p, sl_planned_end = pw_proposed_end p\<rparr>"

fun place_drafts :: "ScheduledPlacementEvidence list \<Rightarrow> draft \<Rightarrow> ScheduledPlacementEvidence list result" where
  "place_drafts schedule [] = Inr schedule"
| "place_drafts schedule (p # ps) =
     and_then (subscript (\<lambda>i. lookup_by sl_commitment_id i schedule) (pw_commitment_id p)) (\<lambda>original.
     and_then (proposed_evidence original p) (\<lambda>s.
     place_drafts (put_by sl_commitment_id s schedule) ps))"

definition final_schedule :: "repair_context \<Rightarrow> draft \<Rightarrow> ScheduledPlacementEvidence list result" where
  "final_schedule k d = place_drafts (kx_active_placements k) d"

definition route_between :: "repair_context \<Rightarrow> string \<Rightarrow> string \<Rightarrow> RouteEvidence option result" where
  "route_between k i j =
     and_then (subscript (kx_constraints k) i) (\<lambda>a.
     and_then (subscript (kx_constraints k) j) (\<lambda>b.
     Inr (if (tc_location_reference a, tc_location_fingerprint a) = (tc_location_reference b, tc_location_fingerprint b) then None
          else kx_routes k (tc_location_fingerprint a, tc_location_fingerprint b, tc_location_reference a, tc_location_reference b))))"

text \<open>\<open>None + n\<close> and comparisons with \<open>None\<close> are a \<open>TypeError\<close>.\<close>

definition known_value :: "'a option \<Rightarrow> 'a result" where
  "known_value v = (case v of None \<Rightarrow> Inl PyTypeError | Some x \<Rightarrow> Inr x)"

lemma known_value_Inr [simp]: "known_value v = Inr x \<longleftrightarrow> v = Some x"
  by (simp add: known_value_def split: option.splits)

definition route_seconds :: "RouteEvidence \<Rightarrow> int result" where
  "route_seconds r =
     and_then (known_value (ro_travel_duration_seconds r)) (\<lambda>t.
     and_then (known_value (ro_buffer_seconds r)) (\<lambda>b. Inr (t + b)))"

section \<open>The constraints of one placement\<close>

definition tk_result ::
    "ConstraintStatus \<Rightarrow> ReasonCode \<Rightarrow> ProposedWorkerPlacement \<Rightarrow> string \<Rightarrow> string list \<Rightarrow> string list \<Rightarrow>
     string option \<Rightarrow> string option \<Rightarrow> TechnicalConstraintResult result" where
  "tk_result status code p subject related evidence required actual =
     TechnicalConstraintResult_init
       \<lparr>tk_status = status, tk_reason_code = code, tk_commitment_id = pw_commitment_id p, tk_subject_id = subject,
        tk_related_commitment_ids = related, tk_evidence_reference_ids = evidence,
        tk_required_value = required, tk_actual_value = actual\<rparr>"

definition pass_or_fail :: "bool \<Rightarrow> ConstraintStatus" where
  "pass_or_fail b = (if b then ConstraintStatus.PASS else ConstraintStatus.FAIL)"

definition skill_text :: "TaskConstraintSource \<Rightarrow> int \<Rightarrow> string" where
  "skill_text t n = tc_required_skill_key t @ '':'' @ str_int n"

definition worker_level :: "WorkerTechnicalEvidence \<Rightarrow> string \<Rightarrow> int option" where
  "worker_level w key = (case lookup_by wk_required_skill_key key (wt_skill_levels w) of None \<Rightarrow> None | Some l \<Rightarrow> wk_level l)"

definition skill_result ::
    "TaskConstraintSource \<Rightarrow> WorkerTechnicalEvidence \<Rightarrow> ProposedWorkerPlacement \<Rightarrow> TechnicalConstraintResult result" where
  "skill_result t w p =
     (let required = skill_text t (tc_minimum_skill_level t) in
      case worker_level w (tc_required_skill_key t) of
        Some level \<Rightarrow>
          if \<not> wt_m8_worker_known w then
            tk_result ConstraintStatus.UNKNOWN ReasonCode.SKILL_EVIDENCE_UNKNOWN p (pw_worker_id p) [] [] (Some required) (Some ''UNKNOWN'')
          else if level < tc_minimum_skill_level t then
            tk_result ConstraintStatus.FAIL ReasonCode.EXACT_SKILL_MISMATCH p (pw_worker_id p) [] [] (Some required) (Some (skill_text t level))
          else
            tk_result ConstraintStatus.PASS ReasonCode.EXACT_SKILL_MATCH p (pw_worker_id p) [] [] (Some required) (Some (skill_text t level))
      | None \<Rightarrow>
          tk_result ConstraintStatus.UNKNOWN ReasonCode.SKILL_EVIDENCE_UNKNOWN p (pw_worker_id p) [] [] (Some required) (Some ''UNKNOWN''))"

definition window_covers :: "AvailabilityWindowEvidence list \<Rightarrow> ProposedWorkerPlacement \<Rightarrow> bool" where
  "window_covers ws p \<longleftrightarrow> (\<exists>w\<in>set ws. ae_start_at w \<le> pw_proposed_start p \<and> pw_proposed_end p \<le> ae_end_at w)"

definition availability_result :: "ProposedWorkerPlacement \<Rightarrow> AvailabilityEvidence \<Rightarrow> bool \<Rightarrow> TechnicalConstraintResult result" where
  "availability_result p e vehicle =
     (let unknown = (if vehicle then ReasonCode.VEHICLE_EVIDENCE_UNKNOWN else ReasonCode.AVAILABILITY_UNKNOWN);
          unavailable = (if vehicle then ReasonCode.VEHICLE_UNAVAILABLE else ReasonCode.WORKER_UNAVAILABLE);
          available = (if vehicle then ReasonCode.VEHICLE_AVAILABLE else ReasonCode.WORKER_AVAILABLE) in
      if ad_knowledge e = AvailabilityKnowledge.UNKNOWN then
        tk_result ConstraintStatus.UNKNOWN unknown p (ad_subject_id e) [] [] None None
      else
        and_then (known_value (ad_source_record_id e)) (\<lambda>source.
        and_then (known_value (ad_coverage_start e)) (\<lambda>coverage_start.
        and_then (known_value (ad_coverage_end e)) (\<lambda>coverage_end.
        if \<not> (coverage_start \<le> pw_proposed_start p \<and> pw_proposed_end p \<le> coverage_end) then
          tk_result ConstraintStatus.UNKNOWN unknown p (ad_subject_id e) [] [source] None None
        else
          let covered = window_covers (ad_available_windows e) p in
          tk_result (pass_or_fail covered) (if covered then available else unavailable) p (ad_subject_id e) [] [source] None None))))"

definition readiness_result :: "ReadinessEvidence \<Rightarrow> ProposedWorkerPlacement \<Rightarrow> TechnicalConstraintResult result" where
  "readiness_result r p =
     (let (status, code) =
        (case rn_status r of
           ReadinessState.READY \<Rightarrow> (ConstraintStatus.PASS, ReasonCode.READINESS_READY)
         | ReadinessState.UNKNOWN \<Rightarrow> (ConstraintStatus.UNKNOWN, ReasonCode.READINESS_UNKNOWN)
         | _ \<Rightarrow> (ConstraintStatus.FAIL, ReasonCode.READINESS_NOT_READY)) in
      tk_result status code p (pw_task_id p) [] (case rn_source_record_id r of None \<Rightarrow> [] | Some i \<Rightarrow> [i])
        (Some ''READY'') (Some (ReadinessState_value (rn_status r))))"

text \<open>The vehicle result and the authority the vehicle needs.\<close>

definition vehicle_result ::
    "repair_context \<Rightarrow> TaskConstraintSource \<Rightarrow> ProposedWorkerPlacement \<Rightarrow> (TechnicalConstraintResult \<times> ReasonCode list) result" where
  "vehicle_result k t p =
     (let required = tc_required_vehicle_class t in
      if required = ''NONE'' then
        and_then (tk_result ConstraintStatus.PASS ReasonCode.VEHICLE_NOT_REQUIRED p (pw_commitment_id p) [] [] (Some ''NONE'') None) (\<lambda>r. Inr (r, []))
      else case pw_vehicle_id p of
        None \<Rightarrow>
          and_then (tk_result ConstraintStatus.FAIL ReasonCode.VEHICLE_UNAVAILABLE p (pw_commitment_id p) [] []
             (Some required) (Some ''NO_CANONICAL_VEHICLE'')) (\<lambda>r. Inr (r, []))
      | Some i \<Rightarrow>
          (case kx_vehicles k i of
             Some v \<Rightarrow>
               if required \<in> set (vt_capabilities v) then
                 and_then (subscript (kx_vehicle_availability k) i) (\<lambda>e.
                 and_then (availability_result p e True) (\<lambda>r.
                 Inr (r, if vt_kind v = ''PRIVATE'' then [ReasonCode.PRIVATE_VEHICLE_AUTHORITY_REQUIRED] else [])))
               else
                 and_then (tk_result ConstraintStatus.FAIL ReasonCode.VEHICLE_UNAVAILABLE p i [] []
                    (Some required) (Some ''CAPABILITY_MISMATCH'')) (\<lambda>r. Inr (r, []))
           | None \<Rightarrow>
               and_then (tk_result ConstraintStatus.FAIL ReasonCode.VEHICLE_UNAVAILABLE p i [] []
                  (Some required) (Some ''CAPABILITY_MISMATCH'')) (\<lambda>r. Inr (r, []))))"

definition iso :: "calendar \<Rightarrow> int \<Rightarrow> string" where
  "iso cal t = datetime_text cal (Aware t)"

definition window_result :: "calendar \<Rightarrow> TaskConstraintSource \<Rightarrow> ProposedWorkerPlacement \<Rightarrow> TechnicalConstraintResult result" where
  "window_result cal t p =
     (case tc_customer_window_state t of
        ConstraintKnowledge.UNKNOWN \<Rightarrow>
          tk_result ConstraintStatus.UNKNOWN ReasonCode.CUSTOMER_WINDOW_EVIDENCE_UNKNOWN p (pw_task_id p) [] [] None None
      | ConstraintKnowledge.ABSENT \<Rightarrow>
          tk_result ConstraintStatus.PASS ReasonCode.CUSTOMER_WINDOW_ABSENT p (pw_task_id p) [] [] None None
      | ConstraintKnowledge.KNOWN \<Rightarrow>
          and_then (known_value (tc_customer_window_start t)) (\<lambda>s.
          and_then (known_value (tc_customer_window_end t)) (\<lambda>e.
          let fits = (s \<le> pw_proposed_start p \<and> pw_proposed_end p \<le> e) in
          tk_result (pass_or_fail fits)
            (if fits then ReasonCode.TECHNICALLY_FITS_WINDOW else ReasonCode.CUSTOMER_WINDOW_VIOLATION) p (pw_task_id p) [] []
            (Some (iso cal s @ ''/'' @ iso cal e)) (Some (iso cal (pw_proposed_start p) @ ''/'' @ iso cal (pw_proposed_end p))))))"

definition deadline_result :: "calendar \<Rightarrow> TaskConstraintSource \<Rightarrow> ProposedWorkerPlacement \<Rightarrow> TechnicalConstraintResult result" where
  "deadline_result cal t p =
     (case tc_hard_deadline_state t of
        ConstraintKnowledge.UNKNOWN \<Rightarrow>
          tk_result ConstraintStatus.UNKNOWN ReasonCode.DEADLINE_EVIDENCE_UNKNOWN p (pw_task_id p) [] [] None None
      | ConstraintKnowledge.ABSENT \<Rightarrow>
          tk_result ConstraintStatus.PASS ReasonCode.DEADLINE_ABSENT p (pw_task_id p) [] [] None None
      | ConstraintKnowledge.KNOWN \<Rightarrow>
          and_then (known_value (tc_hard_deadline t)) (\<lambda>d.
          let meets = (pw_proposed_end p \<le> d) in
          tk_result (pass_or_fail meets) (if meets then ReasonCode.DEADLINE_MET else ReasonCode.DEADLINE_VIOLATION) p (pw_task_id p) [] []
            (Some (iso cal d)) (Some (iso cal (pw_proposed_end p)))))"

definition placement_results ::
    "calendar \<Rightarrow> repair_context \<Rightarrow> ProposedWorkerPlacement \<Rightarrow> (TechnicalConstraintResult list \<times> ReasonCode list) result" where
  "placement_results cal k p =
     and_then (subscript (kx_constraints k) (pw_commitment_id p)) (\<lambda>t.
     and_then (subscript (kx_workers k) (pw_worker_id p)) (\<lambda>w.
     and_then (skill_result t w p) (\<lambda>skill.
     and_then (subscript (kx_worker_availability k) (pw_worker_id p)) (\<lambda>e.
     and_then (availability_result p e False) (\<lambda>available.
     and_then (subscript (kx_readiness k) (pw_commitment_id p)) (\<lambda>r.
     and_then (readiness_result r p) (\<lambda>ready.
     and_then (vehicle_result k t p) (\<lambda>(vehicle, authority).
     and_then (window_result cal t p) (\<lambda>window.
     and_then (deadline_result cal t p) (\<lambda>deadline.
     Inr ([skill, available, ready, vehicle, window, deadline], authority)))))))))))"

section \<open>Overlaps\<close>

definition placement_key :: "ScheduledPlacementEvidence \<Rightarrow> int \<times> int \<times> string \<times> string \<times> string" where
  "placement_key s = (sl_planned_start s, sl_planned_end s, sl_job_id s, sl_task_id s, sl_commitment_id s)"

text \<open>Every pair of a list, the earlier element first.\<close>

fun ordered_pairs :: "'a list \<Rightarrow> ('a \<times> 'a) list" where
  "ordered_pairs [] = []"
| "ordered_pairs (x # xs) = map (Pair x) xs @ ordered_pairs xs"

definition touches :: "string list \<Rightarrow> ScheduledPlacementEvidence \<times> ScheduledPlacementEvidence \<Rightarrow> bool" where
  "touches modified ab \<longleftrightarrow> sl_commitment_id (fst ab) \<in> set modified \<or> sl_commitment_id (snd ab) \<in> set modified"

definition shared_workers :: "ScheduledPlacementEvidence \<Rightarrow> ScheduledPlacementEvidence \<Rightarrow> string list" where
  "shared_workers a b = sorted_set (filter (\<lambda>w. w \<in> set (sl_worker_ids b)) (sl_worker_ids a))"

definition shared_vehicle :: "ScheduledPlacementEvidence \<Rightarrow> ScheduledPlacementEvidence \<Rightarrow> string option" where
  "shared_vehicle a b = (if sl_vehicle_id a \<noteq> None \<and> sl_vehicle_id a = sl_vehicle_id b then sl_vehicle_id a else None)"

definition overlapping :: "ScheduledPlacementEvidence \<times> ScheduledPlacementEvidence \<Rightarrow> bool" where
  "overlapping ab \<longleftrightarrow> intervals_overlap (sl_planned_start (fst ab)) (sl_planned_end (fst ab))
     (sl_planned_start (snd ab)) (sl_planned_end (snd ab))"

text \<open>\<open>proposed_by_id.get(i) or proposed_by_id[j]\<close>.\<close>

definition anchor_of :: "draft \<Rightarrow> string \<Rightarrow> string \<Rightarrow> ProposedWorkerPlacement result" where
  "anchor_of d i j =
     (case dict_by pw_commitment_id d i of Some p \<Rightarrow> Inr p | None \<Rightarrow> subscript (dict_by pw_commitment_id d) j)"

definition overlap_subject :: "ScheduledPlacementEvidence \<times> ScheduledPlacementEvidence \<Rightarrow> string option" where
  "overlap_subject ab =
     (case shared_workers (fst ab) (snd ab) of w # _ \<Rightarrow> Some w | [] \<Rightarrow> shared_vehicle (fst ab) (snd ab))"

definition overlap_result ::
    "draft \<Rightarrow> ScheduledPlacementEvidence \<times> ScheduledPlacementEvidence \<Rightarrow> TechnicalConstraintResult list result" where
  "overlap_result d ab =
     (if \<not> touches (map pw_commitment_id d) ab then Inr []
      else case overlap_subject ab of
        None \<Rightarrow> Inr []
      | Some subject \<Rightarrow>
          if overlapping ab then
            and_then (anchor_of d (sl_commitment_id (fst ab)) (sl_commitment_id (snd ab))) (\<lambda>anchor.
            and_then (tk_result ConstraintStatus.FAIL ReasonCode.OVERLAP_CONFLICT anchor subject
               [sl_commitment_id (fst ab), sl_commitment_id (snd ab)] [] None None) (\<lambda>r. Inr [r]))
          else Inr [])"

section \<open>Routes\<close>

definition resource_sequences :: "draft \<Rightarrow> ScheduledPlacementEvidence list \<Rightarrow> (string \<times> ScheduledPlacementEvidence list) list" where
  "resource_sequences d ordered =
     map (\<lambda>w. (w, filter (\<lambda>s. w \<in> set (sl_worker_ids s)) ordered)) (sorted_set (map pw_worker_id d)) @
     map (\<lambda>v. (v, filter (\<lambda>s. sl_vehicle_id s = Some v) ordered)) (sorted_set (List.map_filter pw_vehicle_id d))"

definition neighbours :: "'a list \<Rightarrow> ('a \<times> 'a) list" where
  "neighbours xs = zip xs (tl xs)"

text \<open>The result for two neighbours of a resource, and the seconds it adds to the travel and buffer time.\<close>

definition route_result ::
    "repair_context \<Rightarrow> draft \<Rightarrow> string \<Rightarrow> ScheduledPlacementEvidence \<times> ScheduledPlacementEvidence \<Rightarrow>
     (TechnicalConstraintResult list \<times> int) result" where
  "route_result k d resource ab =
     (let i = sl_commitment_id (fst ab); j = sl_commitment_id (snd ab) in
      if \<not> touches (map pw_commitment_id d) ab then Inr ([], 0)
      else
        and_then (route_between k i j) (\<lambda>route.
        and_then (anchor_of d j i) (\<lambda>anchor.
        case route of
          None \<Rightarrow>
            and_then (subscript (kx_constraints k) i) (\<lambda>a.
            and_then (subscript (kx_constraints k) j) (\<lambda>b.
            if tc_location_fingerprint a = tc_location_fingerprint b then
              and_then (tk_result ConstraintStatus.PASS ReasonCode.ROUTE_BUFFER_SATISFIED anchor resource [i, j] [] (Some ''0'')
                 (Some (str_int (whole_seconds (sl_planned_start (snd ab) - sl_planned_end (fst ab)))))) (\<lambda>r. Inr ([r], 0))
            else
              and_then (tk_result ConstraintStatus.UNKNOWN ReasonCode.ROUTE_EVIDENCE_UNKNOWN anchor resource [i, j] [] None None) (\<lambda>r.
              Inr ([r], 0))))
        | Some e \<Rightarrow>
            if ro_knowledge e = RouteKnowledge.UNKNOWN then
              and_then (tk_result ConstraintStatus.UNKNOWN ReasonCode.ROUTE_EVIDENCE_UNKNOWN anchor resource [i, j] [] None None) (\<lambda>r.
              Inr ([r], 0))
            else
              and_then (route_seconds e) (\<lambda>required.
              let actual = whole_seconds (sl_planned_start (snd ab) - sl_planned_end (fst ab)); fits = (required \<le> actual) in
              and_then (tk_result (pass_or_fail fits)
                 (if fits then ReasonCode.ROUTE_BUFFER_SATISFIED else ReasonCode.ROUTE_BUFFER_VIOLATION) anchor resource [i, j]
                 (case ro_source_record_id e of None \<Rightarrow> [] | Some s \<Rightarrow> [s]) (Some (str_int required)) (Some (str_int actual))) (\<lambda>r.
              Inr ([r], required))))))"

definition sequence_results ::
    "repair_context \<Rightarrow> draft \<Rightarrow> string \<times> ScheduledPlacementEvidence list \<Rightarrow> (TechnicalConstraintResult list \<times> int) list result" where
  "sequence_results k d rs = traverse (route_result k d (fst rs)) (neighbours (snd rs))"

section \<open>Dependencies\<close>

definition active_edges :: "repair_context \<Rightarrow> DependencyEvidence list" where
  "active_edges k =
     filter (\<lambda>e. kx_task_to_commitment k (de_predecessor_task_id e) \<noteq> None \<and> kx_task_to_commitment k (de_successor_task_id e) \<noteq> None)
       (dn_edges (ei_dependency_impact (kx_evaluation k)))"

definition affected_dependencies :: "repair_context \<Rightarrow> string list \<Rightarrow> DependencyEvidence list" where
  "affected_dependencies k modified_tasks =
     (let affected = spread (edge_pairs (active_edges k)) (remdups modified_tasks)
      in filter (\<lambda>e. de_predecessor_task_id e \<in> set affected \<or> de_successor_task_id e \<in> set affected) (active_edges k))"

definition edge_subject :: "DependencyEvidence \<Rightarrow> string" where
  "edge_subject e = de_predecessor_task_id e @ ''->'' @ de_successor_task_id e"

definition dependency_result ::
    "calendar \<Rightarrow> repair_context \<Rightarrow> draft \<Rightarrow> ScheduledPlacementEvidence list \<Rightarrow> DependencyEvidence \<Rightarrow> TechnicalConstraintResult list result" where
  "dependency_result cal k d schedule e =
     (case (kx_task_to_commitment k (de_predecessor_task_id e), kx_task_to_commitment k (de_successor_task_id e)) of
        (Some i, Some j) \<Rightarrow>
          and_then (subscript (\<lambda>i. lookup_by sl_commitment_id i schedule) i) (\<lambda>predecessor.
          and_then (subscript (\<lambda>i. lookup_by sl_commitment_id i schedule) j) (\<lambda>successor.
          let fits = (sl_planned_end predecessor \<le> sl_planned_start successor);
              anchor = (case dict_by pw_commitment_id d i of Some p \<Rightarrow> Inr p | None \<Rightarrow>
                (case dict_by pw_commitment_id d j of Some p \<Rightarrow> Inr p | None \<Rightarrow>
                (case d of p # _ \<Rightarrow> Inr p | [] \<Rightarrow> Inl KeyError))) in
          and_then anchor (\<lambda>p.
          and_then (tk_result (pass_or_fail fits)
             (if fits then ReasonCode.DEPENDENCY_SATISFIED else ReasonCode.DEPENDENCY_VIOLATION) p (edge_subject e) [i, j]
             [de_provenance_reference e] (Some ''FINISH_BEFORE_START'')
             (Some (iso cal (sl_planned_end predecessor) @ ''/'' @ iso cal (sl_planned_start successor)))) (\<lambda>r. Inr [r]))))
      | _ \<Rightarrow> Inr [])"

section \<open>The candidate\<close>

definition all_results ::
    "calendar \<Rightarrow> repair_context \<Rightarrow> draft \<Rightarrow> ScheduledPlacementEvidence list \<Rightarrow>
     (TechnicalConstraintResult list \<times> ReasonCode list \<times> int) result" where
  "all_results cal k d schedule =
     and_then (traverse (placement_results cal k) (sort_key pw_key d)) (\<lambda>single.
     let ordered = sort_key placement_key schedule in
     and_then (traverse (overlap_result d) (ordered_pairs ordered)) (\<lambda>overlaps.
     and_then (traverse (sequence_results k d) (resource_sequences d ordered)) (\<lambda>sequences.
     let routes = concat sequences in
     and_then (traverse (dependency_result cal k d schedule) (affected_dependencies k (map pw_task_id d))) (\<lambda>dependencies.
     Inr (concat (map fst single) @ concat overlaps @ concat (map fst routes) @ concat dependencies,
          concat (map snd single), sum_list (map snd routes))))))"

definition impact_reference :: "CurrentCommitmentEvidence \<Rightarrow> ImpactCommitmentReference result" where
  "impact_reference c = ImpactCommitmentReference_init
     \<lparr>ir_commitment_id = cv_commitment_id c, ir_job_id = cv_job_id c, ir_task_id = cv_task_id c\<rparr>"

definition induced_ids :: "repair_context \<Rightarrow> draft \<Rightarrow> ScheduledPlacementEvidence list \<Rightarrow> DependencyEvidence list \<Rightarrow> string list" where
  "induced_ids k d schedule dependencies =
     (let modified = map pw_commitment_id d;
          workers = map pw_worker_id d;
          vehicles = List.map_filter pw_vehicle_id d;
          sharing = filter (\<lambda>s. sl_commitment_id s \<notin> set modified \<and>
             ((\<exists>w\<in>set workers. w \<in> set (sl_worker_ids s)) \<or> (\<exists>v\<in>set vehicles. sl_vehicle_id s = Some v))) schedule;
          reached = spread (edge_pairs dependencies) (remdups (map pw_task_id d))
      in remdups (filter (\<lambda>i. i \<notin> set (kx_direct_ids k)) modified @ map sl_commitment_id sharing @
           List.map_filter (kx_task_to_commitment k) (filter (\<lambda>t. t \<notin> pw_task_id ` set d) reached)))"

definition candidate_induced_refs ::
    "repair_context \<Rightarrow> draft \<Rightarrow> ScheduledPlacementEvidence list \<Rightarrow> DependencyEvidence list \<Rightarrow> ImpactCommitmentReference list result" where
  "candidate_induced_refs k d schedule dependencies =
     traverse (\<lambda>i. and_then (subscript (\<lambda>i. lookup_by cv_commitment_id i (kx_commitments k)) i) impact_reference)
       (induced_ids k d schedule dependencies)"

definition baseline_dependency :: "repair_context \<Rightarrow> ImpactCommitmentReference list result" where
  "baseline_dependency k =
     traverse (\<lambda>r. ImpactCommitmentReference_init
        \<lparr>ir_commitment_id = di_commitment_id r, ir_job_id = di_job_id r, ir_task_id = di_task_id r\<rparr>)
       (dn_commitments (ei_dependency_impact (kx_evaluation k)))"

definition evaluate_draft ::
    "(string \<Rightarrow> string) \<Rightarrow> calendar \<Rightarrow> repair_context \<Rightarrow> draft \<Rightarrow> M3RepairCandidate result" where
  "evaluate_draft sha256 cal k d =
     (let modified = remdups (map pw_commitment_id d); ordered_draft = sort_key pw_key d in
      and_then (require (length modified \<le> MAX_MODIFIED_COMMITMENTS) ''SEARCH_ENVELOPE_LIMIT: modified_commitment_ids'') (\<lambda>_.
      and_then (final_schedule k d) (\<lambda>schedule.
      and_then (all_results cal k d schedule) (\<lambda>(results, authority, travel).
      let verdict = (if \<forall>r\<in>set results. tk_status r = ConstraintStatus.PASS then CandidateVerdict.FEASIBLE else CandidateVerdict.REJECTED);
          direct = dx_commitments (ei_direct_current_impact (kx_evaluation k));
          dependencies = affected_dependencies k (map pw_task_id d) in
      and_then (baseline_dependency k) (\<lambda>dependency.
      let baseline = values_by ir_commitment_id (direct @ dependency);
          restored = (if verdict = CandidateVerdict.FEASIBLE
            then List.map_filter (\<lambda>i. lookup_by ir_commitment_id i baseline) modified else []);
          residual = filter (\<lambda>r. ir_commitment_id r \<notin> ir_commitment_id ` set restored) baseline in
      and_then (candidate_induced_refs k d schedule dependencies) (\<lambda>induced.
      and_then (CandidateImpactEvidence_init
         \<lparr>im_direct_current_impact = direct, im_dependency_impact = dependency, im_candidate_induced_impact = induced,
          im_restored_impact = restored, im_residual_unresolved_impact = residual\<rparr>) (\<lambda>impact.
      and_then (TechnicalOrderingEvidence_init
         \<lparr>tx_restored_commitment_count = int (length restored),
          tx_protected_known_customer_window_count = int (length (filter (\<lambda>r.
             tk_reason_code r = ReasonCode.TECHNICALLY_FITS_WINDOW \<and> tk_status r = ConstraintStatus.PASS) results)),
          tx_modified_commitment_count = int (length modified), tx_travel_and_buffer_seconds = travel\<rparr>) (\<lambda>technical.
      M3RepairCandidate_init
        \<lparr>mr_source_evaluation_input_id = evaluation_input_id sha256 cal (kx_evaluation k),
         mr_source_evaluation_input_fingerprint = evaluation_input_fingerprint sha256 cal (kx_evaluation k),
         mr_source_support_snapshot_id = support_snapshot_id sha256 cal (kx_support k),
         mr_source_support_snapshot_fingerprint = support_fingerprint sha256 cal (kx_support k),
         mr_company_plan_id = ei_company_plan_id (kx_evaluation k),
         mr_base_plan_revision = ei_base_plan_revision (kx_evaluation k),
         mr_base_plan_revision_id = ei_base_plan_revision_id (kx_evaluation k),
         mr_base_plan_revision_fingerprint = ei_base_plan_revision_fingerprint (kx_evaluation k),
         mr_modified_commitment_ids = map pw_commitment_id ordered_draft,
         mr_canonical_job_ids = sorted_set (map pw_job_id d), mr_canonical_task_ids = sorted_set (map pw_task_id d),
         mr_proposed_worker_placements = d, mr_affected_dependencies = dependencies, mr_impact = impact,
         mr_technical_constraint_results = results, mr_verdict = verdict,
         mr_rejection_trace = filter (\<lambda>r. tk_status r \<noteq> ConstraintStatus.PASS) results,
         mr_authority_impacts = authority, mr_technical_ordering = technical\<rparr>))))))))"

end
