(* ===== verification/Repair_Search.thy ===== *)
theory Repair_Search
  imports Repair_Evaluation
begin

text \<open>
  The bounded search of planning/bounded_feasibility.py: the anchor starts and vehicles of a seed pair, the
  lazy stream of primary drafts, the one repair path a rejected draft is expanded along, and the loop of
  \<open>generate_bounded_repair_candidates\<close> with its limits and outcome.
\<close>

section \<open>Seed pairs\<close>

definition repair_vehicle_options :: "repair_context \<Rightarrow> string \<Rightarrow> string \<Rightarrow> string option list result" where
  "repair_vehicle_options k i w =
     and_then (subscript (kx_constraints k) i) (\<lambda>t.
     let required = tc_required_vehicle_class t in
     if required = ''NONE'' then Inr [None]
     else
       let matches = sort (map vt_vehicle_id (filter (\<lambda>v. required \<in> set (vt_capabilities v) \<and>
             (vt_assigned_worker_id v = None \<or> vt_assigned_worker_id v = Some w))
           (fs_vehicle_technical_evidence (kx_support k))))
       in Inr (if matches \<noteq> [] then map Some matches else [None]))"

definition availability_anchors :: "AvailabilityEvidence \<Rightarrow> int \<Rightarrow> int list" where
  "availability_anchors e duration =
     (if ad_knowledge e = AvailabilityKnowledge.KNOWN then
        concat (map (\<lambda>w. ae_start_at w # (if ae_start_at w \<le> ae_end_at w - duration then [ae_end_at w - duration] else []))
          (ad_available_windows e))
      else [])"

definition window_anchors :: "TaskConstraintSource \<Rightarrow> int \<Rightarrow> int list result" where
  "window_anchors t duration =
     (if tc_customer_window_state t = ConstraintKnowledge.KNOWN then
        and_then (known_value (tc_customer_window_start t)) (\<lambda>s.
        and_then (known_value (tc_customer_window_end t)) (\<lambda>e. Inr [s, e - duration]))
      else Inr [])"

definition neighbour_anchors :: "repair_context \<Rightarrow> string \<Rightarrow> string \<Rightarrow> ScheduledPlacementEvidence \<Rightarrow> int list result" where
  "neighbour_anchors k i w s =
     (if w \<notin> set (sl_worker_ids s) \<or> sl_commitment_id s = i then Inr []
      else
        and_then (route_between k (sl_commitment_id s) i) (\<lambda>route.
        case route of
          Some e \<Rightarrow>
            if ro_knowledge e = RouteKnowledge.KNOWN then
              and_then (route_seconds e) (\<lambda>n. Inr [sl_planned_end s, sl_planned_end s + micros n])
            else Inr [sl_planned_end s]
        | None \<Rightarrow> Inr [sl_planned_end s]))"

definition edge_anchors :: "repair_context \<Rightarrow> string \<Rightarrow> int \<Rightarrow> DependencyEvidence \<Rightarrow> int list result" where
  "edge_anchors k tid duration e =
     and_then
       (if de_successor_task_id e = tid then
          (case kx_task_to_commitment k (de_predecessor_task_id e) of
             None \<Rightarrow> Inr []
           | Some p \<Rightarrow> and_then (active_placement k p) (\<lambda>s. Inr [sl_planned_end s]))
        else Inr []) (\<lambda>before.
     and_then
       (if de_predecessor_task_id e = tid then
          (case kx_task_to_commitment k (de_successor_task_id e) of
             None \<Rightarrow> Inr []
           | Some p \<Rightarrow> and_then (active_placement k p) (\<lambda>s. Inr [sl_planned_start s - duration]))
        else Inr []) (\<lambda>after. Inr (before @ after)))"

text \<open>The anchors within the horizon, the original start first, then by time, at most thirteen.\<close>

definition order_anchors :: "repair_context \<Rightarrow> int \<Rightarrow> int list \<Rightarrow> int list" where
  "order_anchors k original candidates =
     (let inside = filter (\<lambda>t. kx_horizon_start k \<le> t \<and> t < kx_horizon_end k) (sorted_set candidates)
      in take MAX_ANCHORS_PER_SEED_PAIR
           ((if original \<in> set inside then [original] else []) @ filter (\<lambda>t. t \<noteq> original) inside))"

definition anchor_starts :: "repair_context \<Rightarrow> string \<Rightarrow> string \<Rightarrow> int list result" where
  "anchor_starts k i w =
     and_then (active_placement k i) (\<lambda>placement.
     and_then (subscript (kx_constraints k) i) (\<lambda>t.
     let original = sl_planned_start placement; duration = micros (tc_duration_seconds t) in
     and_then (subscript (kx_worker_availability k) w) (\<lambda>e.
     and_then (window_anchors t duration) (\<lambda>window.
     and_then (traverse (neighbour_anchors k i w) (kx_active_placements k)) (\<lambda>neighbours.
     and_then (subscript (\<lambda>i. lookup_by cv_commitment_id i (kx_commitments k)) i) (\<lambda>c.
     and_then (traverse (edge_anchors k (cv_task_id c) duration) (dn_edges (ei_dependency_impact (kx_evaluation k)))) (\<lambda>edges.
     Inr (order_anchors k original
       (original # availability_anchors e duration @ window @ concat neighbours @ concat edges)))))))))"

section \<open>The stream of primary drafts\<close>

text \<open>The state of \<open>_PrimaryDraftStream\<close>; the two lists are the fields its constructor fixes.\<close>

record draft_stream =
  dm_single_ids :: "string list"
  dm_workers :: "string list"
  dm_pair_index :: nat
  dm_pair_probe_count :: nat
  dm_probe_budget_exhausted :: bool
  dm_starts :: "int list"
  dm_vehicles :: "string option list"
  dm_anchor_index :: nat
  dm_vehicle_index :: nat
  dm_commitment_id :: "string option"
  dm_worker_id :: "string option"

definition initial_stream :: "repair_context \<Rightarrow> string list \<Rightarrow> draft_stream" where
  "initial_stream k single_ids =
     \<lparr>dm_single_ids = single_ids,
      dm_workers = filter (\<lambda>w. w \<noteq> ei_unavailable_worker_id (kx_evaluation k))
        (sorted_set (map wt_worker_id (fs_worker_technical_evidence (kx_support k)))),
      dm_pair_index = 0, dm_pair_probe_count = 0, dm_probe_budget_exhausted = False, dm_starts = [], dm_vehicles = [],
      dm_anchor_index = 0, dm_vehicle_index = 0, dm_commitment_id = None, dm_worker_id = None\<rparr>"

definition total_pair_count :: "draft_stream \<Rightarrow> nat" where
  "total_pair_count st = length (dm_single_ids st) * length (dm_workers st)"

definition has_unexplored :: "draft_stream \<Rightarrow> bool" where
  "has_unexplored st \<longleftrightarrow> dm_anchor_index st < length (dm_starts st) \<or> dm_pair_index st < total_pair_count st"

definition probe_next_pair :: "repair_context \<Rightarrow> draft_stream \<Rightarrow> (bool \<times> draft_stream) result" where
  "probe_next_pair k st =
     (if total_pair_count st \<le> dm_pair_index st then Inr (False, st)
      else if MAX_SEED_PAIR_PROBES \<le> dm_pair_probe_count st then Inr (False, st\<lparr>dm_probe_budget_exhausted := True\<rparr>)
      else
        let i = dm_single_ids st ! (dm_pair_index st div length (dm_workers st));
            w = dm_workers st ! (dm_pair_index st mod length (dm_workers st)) in
        and_then (anchor_starts k i w) (\<lambda>starts.
        and_then (repair_vehicle_options k i w) (\<lambda>vehicles.
        Inr (True, st\<lparr>dm_pair_index := dm_pair_index st + 1, dm_pair_probe_count := dm_pair_probe_count st + 1,
          dm_commitment_id := Some i, dm_worker_id := Some w, dm_starts := starts, dm_vehicles := vehicles,
          dm_anchor_index := 0, dm_vehicle_index := 0\<rparr>))))"

text \<open>One anchor and vehicle of the current pair: the draft, unless it would end after the horizon.\<close>

definition advance :: "draft_stream \<Rightarrow> draft_stream" where
  "advance st =
     (if length (dm_vehicles st) \<le> dm_vehicle_index st + 1
      then st\<lparr>dm_vehicle_index := 0, dm_anchor_index := dm_anchor_index st + 1\<rparr>
      else st\<lparr>dm_vehicle_index := dm_vehicle_index st + 1\<rparr>)"

definition seed_draft :: "repair_context \<Rightarrow> string \<Rightarrow> string \<Rightarrow> int \<Rightarrow> string option \<Rightarrow> draft option result" where
  "seed_draft k i w start vehicle =
     and_then (subscript (kx_constraints k) i) (\<lambda>t.
     let finish = start + micros (tc_duration_seconds t) in
     if kx_horizon_end k < finish then Inr None
     else
       and_then (subscript (\<lambda>i. lookup_by cv_commitment_id i (kx_commitments k)) i) (\<lambda>c.
       and_then (ProposedWorkerPlacement_init
         \<lparr>pw_commitment_id = i, pw_job_id = cv_job_id c, pw_task_id = cv_task_id c, pw_worker_id = w, pw_vehicle_id = vehicle,
          pw_business_date = zr_local_date (kx_zone k) start, pw_proposed_start = start, pw_proposed_end = finish\<rparr>) (\<lambda>p.
       Inr (Some [p]))))"

definition take_draft :: "repair_context \<Rightarrow> draft_stream \<Rightarrow> draft option result" where
  "take_draft k st =
     (case (dm_commitment_id st, dm_worker_id st) of
        (Some i, Some w) \<Rightarrow>
          if length (dm_vehicles st) \<le> dm_vehicle_index st then Inl KeyError
          else seed_draft k i w (dm_starts st ! dm_anchor_index st) (dm_vehicles st ! dm_vehicle_index st)
      | _ \<Rightarrow> Inl AssertionError)"

text \<open>What is left of the stream: pairs, then anchors, then vehicles.\<close>

definition stream_left :: "draft_stream \<Rightarrow> nat \<times> nat \<times> nat" where
  "stream_left st = (total_pair_count st - dm_pair_index st, length (dm_starts st) - dm_anchor_index st,
     length (dm_vehicles st) - dm_vehicle_index st)"

definition stream_order :: "((nat \<times> nat \<times> nat) \<times> (nat \<times> nat \<times> nat)) set" where
  "stream_order = less_than <*lex*> less_than <*lex*> less_than"

lemma wf_stream_order [simp]: "wf stream_order"
  by (simp add: stream_order_def wf_lex_prod)

lemma probe_next_pair_left:
  "probe_next_pair k st = Inr (True, st') \<Longrightarrow> (stream_left st', stream_left st) \<in> stream_order"
  by (auto simp: probe_next_pair_def stream_left_def stream_order_def total_pair_count_def Let_def split: if_splits)

lemma advance_left:
  assumes "dm_anchor_index st < length (dm_starts st)" "dm_vehicle_index st < length (dm_vehicles st)"
  shows "(stream_left (advance st), stream_left st) \<in> stream_order"
  using assms by (auto simp: advance_def stream_left_def stream_order_def total_pair_count_def)

function next_draft :: "repair_context \<Rightarrow> draft_stream \<Rightarrow> (draft option \<times> draft_stream) result" where
  "next_draft k st =
     (if dm_anchor_index st < length (dm_starts st) then
        (case take_draft k st of
           Inl e \<Rightarrow> Inl e
         | Inr (Some d) \<Rightarrow> Inr (Some d, advance st)
         | Inr None \<Rightarrow> next_draft k (advance st))
      else
        (case probe_next_pair k st of
           Inl e \<Rightarrow> Inl e
         | Inr (False, st') \<Rightarrow> Inr (None, st')
         | Inr (True, st') \<Rightarrow> next_draft k st'))"
  by pat_completeness auto
termination
proof (relation "inv_image stream_order (\<lambda>(k, st). stream_left st)", goal_cases)
  case (2 k st x2)
  then have "dm_vehicle_index st < length (dm_vehicles st)"
    by (auto simp: take_draft_def split: option.splits if_splits)
  with 2(1) show ?case by (simp add: advance_left)
next
  case (3 k st x2 x1 st')
  then show ?case by (auto dest: probe_next_pair_left)
qed simp

declare next_draft.simps [simp del]

section \<open>Expanding a rejected draft\<close>

definition overlap_conflict_ids :: "M3RepairCandidate \<Rightarrow> string list" where
  "overlap_conflict_ids c =
     sorted_set (filter (\<lambda>i. i \<notin> set (mr_modified_commitment_ids c))
       (concat (map tk_related_commitment_ids
          (filter (\<lambda>r. tk_reason_code r = ReasonCode.OVERLAP_CONFLICT) (mr_rejection_trace c)))))"

definition trace_of :: "ReasonCode \<Rightarrow> string list \<Rightarrow> string \<Rightarrow> SearchTraceEntry result" where
  "trace_of code ids detail = SearchTraceEntry_init \<lparr>se_reason_code = code, se_commitment_ids = ids, se_detail = detail\<rparr>"

definition envelope_limit_trace :: "string list \<Rightarrow> string \<Rightarrow> SearchTraceEntry result" where
  "envelope_limit_trace ids detail = trace_of ReasonCode.SEARCH_ENVELOPE_LIMIT (sorted_set ids) detail"

text \<open>\<open>_repair_eligibility_trace\<close>: why a commitment may not be moved, if it may not.\<close>

definition repair_eligibility_trace :: "repair_context \<Rightarrow> string \<Rightarrow> string \<Rightarrow> SearchTraceEntry option result" where
  "repair_eligibility_trace k i conflict_kind =
     (let reject = (\<lambda>code detail. and_then (trace_of code [i] detail) (\<lambda>e. Inr (Some e))) in
      and_then (commitment_kind k i) (\<lambda>kind.
      if kind = Some AssignmentKind.CREW then
        reject ReasonCode.CREW_REPAIR_UNSUPPORTED (conflict_kind @ '' commitment is not eligible for autonomous SINGLE repair'')
      else if kind \<noteq> Some AssignmentKind.SINGLE then
        reject ReasonCode.SINGLE_KIND_EVIDENCE_UNKNOWN ''authoritative input does not prove SINGLE assignment kind''
      else
        and_then (active_placement k i) (\<lambda>original.
        case sl_worker_ids original of
          [w] \<Rightarrow>
            if kx_workers k w = None then
              reject ReasonCode.SKILL_EVIDENCE_UNKNOWN (conflict_kind @ '' worker has no frozen technical evidence'')
            else if kx_worker_availability k w = None then
              reject ReasonCode.AVAILABILITY_UNKNOWN (conflict_kind @ '' worker has no frozen availability evidence'')
            else Inr None
        | _ \<Rightarrow> reject ReasonCode.CREW_REPAIR_UNSUPPORTED (conflict_kind @ '' placement does not contain exactly one worker''))))"

definition expanded_draft :: "draft \<Rightarrow> ProposedWorkerPlacement \<Rightarrow> draft" where
  "expanded_draft d p = filter (\<lambda>q. pw_commitment_id q \<noteq> pw_commitment_id p) d @ [p]"

type_synonym expansion = "draft option \<times> SearchTraceEntry option"

definition give_up :: "SearchTraceEntry result \<Rightarrow> expansion result" where
  "give_up m = and_then m (\<lambda>e. Inr (None, Some e))"

definition expand_overlap :: "repair_context \<Rightarrow> draft \<Rightarrow> string \<Rightarrow> expansion result" where
  "expand_overlap k d i =
     (let modified = remdups (map pw_commitment_id d) in
      if MAX_MODIFIED_COMMITMENTS \<le> length modified then
        give_up (envelope_limit_trace (modified @ [i]) ''candidate would modify more than 3 existing commitments'')
      else
        and_then (repair_eligibility_trace k i ''overlap-conflicting'') (\<lambda>eligibility.
        case eligibility of
          Some e \<Rightarrow> Inr (None, Some e)
        | None \<Rightarrow>
            and_then (active_placement k i) (\<lambda>original.
            case d of
              [] \<Rightarrow> Inl (ValueError ''max() arg is an empty sequence'')
            | q # qs \<Rightarrow>
                let latest = max_by (\<lambda>p. (pw_proposed_end p, pw_commitment_id p)) q qs in
                and_then (route_between k (pw_commitment_id latest) i) (\<lambda>route.
                and_then (case route of
                    Some e \<Rightarrow> if ro_knowledge e = RouteKnowledge.KNOWN then route_seconds e else Inr 0
                  | None \<Rightarrow> Inr 0) (\<lambda>n.
                and_then (subscript (kx_constraints k) i) (\<lambda>t.
                let start = pw_proposed_end latest + micros n; finish = start + micros (tc_duration_seconds t) in
                if \<not> (kx_horizon_start k \<le> start \<and> start < finish \<and> finish \<le> kx_horizon_end k) then
                  give_up (envelope_limit_trace [i] ''overlap repair would leave D..D+2 planning horizon'')
                else
                  and_then (subscript (\<lambda>i. lookup_by cv_commitment_id i (kx_commitments k)) i) (\<lambda>c.
                  and_then (ProposedWorkerPlacement_init
                    \<lparr>pw_commitment_id = i, pw_job_id = cv_job_id c, pw_task_id = cv_task_id c, pw_worker_id = hd (sl_worker_ids original),
                     pw_vehicle_id = sl_vehicle_id original, pw_business_date = zr_local_date (kx_zone k) start,
                     pw_proposed_start = start, pw_proposed_end = finish\<rparr>) (\<lambda>p.
                  Inr (Some (expanded_draft d p), None)))))))))"

definition first_dependency_violation :: "M3RepairCandidate \<Rightarrow> DependencyEvidence option" where
  "first_dependency_violation c =
     (let rejected = filter (\<lambda>r. tk_reason_code r = ReasonCode.DEPENDENCY_VIOLATION) (mr_rejection_trace c) in
      find (\<lambda>e. case find (\<lambda>r. tk_subject_id r = edge_subject e) rejected of
          None \<Rightarrow> False
        | Some r \<Rightarrow> (\<exists>i\<in>set (tk_related_commitment_ids r). i \<in> set (mr_modified_commitment_ids c))) (mr_affected_dependencies c))"

definition shared_route_seconds ::
    "repair_context \<Rightarrow> ScheduledPlacementEvidence \<Rightarrow> ScheduledPlacementEvidence \<Rightarrow> int result" where
  "shared_route_seconds k a b =
     (if shared_workers a b = [] \<and> shared_vehicle a b = None then Inr 0
      else
        and_then (route_between k (sl_commitment_id a) (sl_commitment_id b)) (\<lambda>route.
        case route of
          Some e \<Rightarrow> if ro_knowledge e = RouteKnowledge.KNOWN then route_seconds e else Inr 0
        | None \<Rightarrow> Inr 0))"

text \<open>\<open>target_shape\<close>: the moved placement before the travel time is known.\<close>

definition target_shape ::
    "repair_context \<Rightarrow> ScheduledPlacementEvidence \<Rightarrow> string \<Rightarrow> string option \<Rightarrow> int \<Rightarrow> int \<Rightarrow> ScheduledPlacementEvidence result" where
  "target_shape k original w vehicle start finish =
     ScheduledPlacementEvidence_init
       \<lparr>sl_commitment_id = sl_commitment_id original, sl_job_id = sl_job_id original, sl_task_id = sl_task_id original,
        sl_task_definition_version = sl_task_definition_version original,
        sl_business_date = zr_local_date (kx_zone k) start, sl_worker_ids = [w], sl_vehicle_id = vehicle,
        sl_planned_start = start, sl_planned_end = finish\<rparr>"

text \<open>The start of the moved commitment: after its predecessor, or before its successor.\<close>

definition dependency_start ::
    "repair_context \<Rightarrow> ScheduledPlacementEvidence list \<Rightarrow> ScheduledPlacementEvidence \<Rightarrow> string \<Rightarrow> string option \<Rightarrow> int \<Rightarrow>
     bool \<Rightarrow> string \<Rightarrow> string \<Rightarrow> int result" where
  "dependency_start k schedule original w vehicle duration move_after predecessor_id successor_id =
     (if move_after then
        and_then (subscript (\<lambda>i. lookup_by sl_commitment_id i schedule) predecessor_id) (\<lambda>predecessor.
        and_then (target_shape k original w vehicle (sl_planned_end predecessor) (sl_planned_end predecessor + duration)) (\<lambda>shape.
        and_then (shared_route_seconds k predecessor shape) (\<lambda>n. Inr (sl_planned_end predecessor + micros n))))
      else
        and_then (subscript (\<lambda>i. lookup_by sl_commitment_id i schedule) successor_id) (\<lambda>successor.
        and_then (target_shape k original w vehicle (sl_planned_start successor - duration) (sl_planned_start successor)) (\<lambda>shape.
        and_then (shared_route_seconds k shape successor) (\<lambda>n. Inr (sl_planned_start successor - micros n - duration)))))"

definition expand_dependency :: "repair_context \<Rightarrow> draft \<Rightarrow> DependencyEvidence \<Rightarrow> expansion result" where
  "expand_dependency k d e =
     and_then (final_schedule k d) (\<lambda>schedule.
     and_then (subscript (kx_task_to_commitment k) (de_predecessor_task_id e)) (\<lambda>predecessor_id.
     and_then (subscript (kx_task_to_commitment k) (de_successor_task_id e)) (\<lambda>successor_id.
     let modified = remdups (map pw_commitment_id d);
         move_after = (predecessor_id \<in> set modified);
         target = (if move_after then successor_id else predecessor_id) in
     if \<not> move_after \<and> successor_id \<notin> set modified then Inr (None, None)
     else if target \<notin> set modified \<and> MAX_MODIFIED_COMMITMENTS \<le> length modified then
       give_up (envelope_limit_trace (modified @ [target]) ''candidate would modify more than 3 existing commitments'')
     else
       and_then (repair_eligibility_trace k target ''dependency-counterpart'') (\<lambda>eligibility.
       case eligibility of
         Some t \<Rightarrow> Inr (None, Some t)
       | None \<Rightarrow>
           and_then (active_placement k target) (\<lambda>original.
           let existing = lookup_by pw_commitment_id target d;
               w = (case existing of Some p \<Rightarrow> pw_worker_id p | None \<Rightarrow> hd (sl_worker_ids original));
               vehicle = (case existing of Some p \<Rightarrow> pw_vehicle_id p | None \<Rightarrow> sl_vehicle_id original) in
           and_then (subscript (kx_constraints k) target) (\<lambda>t.
           let duration = micros (tc_duration_seconds t) in
           and_then (dependency_start k schedule original w vehicle duration move_after predecessor_id successor_id) (\<lambda>start.
           let finish = start + duration in
           if \<not> (kx_horizon_start k \<le> start \<and> start < finish \<and> finish \<le> kx_horizon_end k) then
             give_up (envelope_limit_trace (modified @ [target]) ''dependency repair would leave D..D+2 planning horizon'')
           else
             and_then (subscript (\<lambda>i. lookup_by cv_commitment_id i (kx_commitments k)) target) (\<lambda>c.
             and_then (ProposedWorkerPlacement_init
               \<lparr>pw_commitment_id = target, pw_job_id = cv_job_id c, pw_task_id = cv_task_id c, pw_worker_id = w,
                pw_vehicle_id = vehicle, pw_business_date = zr_local_date (kx_zone k) start,
                pw_proposed_start = start, pw_proposed_end = finish\<rparr>) (\<lambda>p.
             Inr (Some (expanded_draft d p), None))))))))))"

definition expand_first_repairable_rejection :: "repair_context \<Rightarrow> draft \<Rightarrow> M3RepairCandidate \<Rightarrow> expansion result" where
  "expand_first_repairable_rejection k d c =
     (case overlap_conflict_ids c of
        i # _ \<Rightarrow> expand_overlap k d i
      | [] \<Rightarrow>
          (case first_dependency_violation c of
             Some e \<Rightarrow> expand_dependency k d e
           | None \<Rightarrow> Inr (None, None)))"

section \<open>The search\<close>

type_synonym signature = "(string \<times> string \<times> string option \<times> int \<times> int) list"

definition signature_of :: "draft \<Rightarrow> signature" where
  "signature_of d =
     map (\<lambda>p. (pw_commitment_id p, pw_worker_id p, pw_vehicle_id p, pw_proposed_start p, pw_proposed_end p)) (sort_key pw_key d)"

record repair_search =
  rp_primary :: draft_stream
  rp_pending :: "draft list"
  rp_candidates :: "M3RepairCandidate list"
  rp_seen :: "signature list"
  rp_insufficient :: "string list"
  rp_trace :: "SearchTraceEntry list"
  rp_exhausted :: bool
  rp_truncated :: bool

definition insufficient_codes :: "ReasonCode list" where
  "insufficient_codes = [ReasonCode.SINGLE_KIND_EVIDENCE_UNKNOWN, ReasonCode.SKILL_EVIDENCE_UNKNOWN, ReasonCode.AVAILABILITY_UNKNOWN]"

text \<open>The end of an iteration: the trace entry and the expansion of the candidate just evaluated.\<close>

definition record_trace :: "SearchTraceEntry option \<Rightarrow> repair_search \<Rightarrow> repair_search" where
  "record_trace t st =
     (case t of
        None \<Rightarrow> st
      | Some e \<Rightarrow>
          st\<lparr>rp_trace := rp_trace st @ [e],
             rp_insufficient := (if se_reason_code e \<in> set insufficient_codes
               then rp_insufficient st @ se_commitment_ids e else rp_insufficient st),
             rp_exhausted := (rp_exhausted st \<or> se_reason_code e = ReasonCode.SEARCH_ENVELOPE_LIMIT)\<rparr>)"

definition push_expansion :: "draft option \<Rightarrow> repair_search \<Rightarrow> repair_search" where
  "push_expansion x st =
     (case x of
        None \<Rightarrow> st
      | Some d \<Rightarrow>
          if signature_of d \<in> set (rp_seen st) then st
          else if length (rp_candidates st) < MAX_EVALUATED_CANDIDATES then st\<lparr>rp_pending := d # rp_pending st\<rparr>
          else st\<lparr>rp_exhausted := True, rp_truncated := True\<rparr>)"

definition candidate_recorded :: "draft \<Rightarrow> M3RepairCandidate \<Rightarrow> repair_search \<Rightarrow> repair_search" where
  "candidate_recorded d c st =
     st\<lparr>rp_seen := signature_of d # rp_seen st, rp_candidates := rp_candidates st @ [c],
        rp_insufficient := (if \<exists>r\<in>set (mr_rejection_trace c). tk_status r = ConstraintStatus.UNKNOWN
          then rp_insufficient st @ mr_modified_commitment_ids c else rp_insufficient st)\<rparr>"

text \<open>A draft that was not seen before is evaluated and expanded.\<close>

definition evaluate_step ::
    "(string \<Rightarrow> string) \<Rightarrow> calendar \<Rightarrow> repair_context \<Rightarrow> draft \<Rightarrow> repair_search \<Rightarrow> repair_search result" where
  "evaluate_step sha256 cal k d st =
     and_then (evaluate_draft sha256 cal k d) (\<lambda>c.
     and_then (expand_first_repairable_rejection k d c) (\<lambda>(x, t).
     Inr (push_expansion x (record_trace t (candidate_recorded d c st)))))"

text \<open>\<open>pending.popleft() if pending else primary.next_draft()\<close>.\<close>

definition pop_draft :: "repair_context \<Rightarrow> repair_search \<Rightarrow> (draft option \<times> repair_search) result" where
  "pop_draft k st =
     (case rp_pending st of
        d # ds \<Rightarrow> Inr (Some d, st\<lparr>rp_pending := ds\<rparr>)
      | [] \<Rightarrow> and_then (next_draft k (rp_primary st)) (\<lambda>(d, primary). Inr (d, st\<lparr>rp_primary := primary\<rparr>)))"

definition search_left :: "repair_search \<Rightarrow> nat \<times> nat \<times> nat \<times> nat \<times> nat" where
  "search_left st = (MAX_EVALUATED_CANDIDATES - length (rp_candidates st), length (rp_pending st), stream_left (rp_primary st))"

definition search_order :: "((nat \<times> nat \<times> nat \<times> nat \<times> nat) \<times> (nat \<times> nat \<times> nat \<times> nat \<times> nat)) set" where
  "search_order = less_than <*lex*> less_than <*lex*> stream_order"

lemma wf_search_order [simp]: "wf search_order"
  by (simp add: search_order_def wf_lex_prod)

lemma trans_stream_order: "trans stream_order"
  by (simp add: stream_order_def trans_lex_prod)

lemma take_draft_vehicle: "take_draft k st = Inr x \<Longrightarrow> dm_vehicle_index st < length (dm_vehicles st)"
  by (auto simp: take_draft_def split: option.splits if_splits)

lemma next_draft_left:
  "next_draft k st = Inr (Some d, st') \<Longrightarrow> (stream_left st', stream_left st) \<in> stream_order"
proof (induction k st rule: next_draft.induct)
  case (1 k st)
  show ?case
  proof (cases "dm_anchor_index st < length (dm_starts st)")
    case True
    show ?thesis
    proof (cases "take_draft k st")
      case (Inl e)
      then show ?thesis using 1(3) True by (simp add: next_draft.simps [of k st])
    next
      case (Inr x)
      note left = advance_left [OF True take_draft_vehicle [OF Inr]]
      show ?thesis
      proof (cases x)
        case None
        have "next_draft k (advance st) = Inr (Some d, st')" using 1(3) True Inr None by (simp add: next_draft.simps [of k st])
        from 1(1) [OF True Inr None this] left show ?thesis by (rule transD [OF trans_stream_order])
      next
        case (Some d')
        then show ?thesis using 1(3) True Inr left by (simp add: next_draft.simps [of k st])
      qed
    qed
  next
    case False
    show ?thesis
    proof (cases "probe_next_pair k st")
      case (Inl e)
      then show ?thesis using 1(3) False by (simp add: next_draft.simps [of k st])
    next
      case (Inr y)
      obtain b s where y: "y = (b, s)" by (cases y)
      have b: "b" using 1(3) False Inr y by (cases b) (simp_all add: next_draft.simps [of k st])
      have next_s: "next_draft k s = Inr (Some d, st')" using 1(3) False Inr y b by (simp add: next_draft.simps [of k st])
      have "(stream_left st', stream_left s) \<in> stream_order"
        by (rule 1(2) [OF False Inr y [symmetric] _ next_s]) (simp add: b)
      moreover have "(stream_left s, stream_left st) \<in> stream_order"
        by (rule probe_next_pair_left [of k]) (simp add: Inr y b)
      ultimately show ?thesis by (rule transD [OF trans_stream_order])
    qed
  qed
qed

lemma pop_draft_left:
  assumes "pop_draft k st = Inr (Some d, st')"
  shows "(search_left st', search_left st) \<in> search_order \<and> rp_candidates st' = rp_candidates st \<and> rp_seen st' = rp_seen st"
proof (cases "rp_pending st")
  case Nil
  obtain primary where primary: "next_draft k (rp_primary st) = Inr (Some d, primary)" "st' = st\<lparr>rp_primary := primary\<rparr>"
  proof (cases "next_draft k (rp_primary st)")
    case (Inl e)
    then show ?thesis using assms by (simp add: pop_draft_def Nil)
  next
    case (Inr x)
    then show ?thesis using assms that by (cases x) (simp add: pop_draft_def Nil)
  qed
  from next_draft_left [OF primary(1)] show ?thesis by (simp add: primary(2) search_left_def search_order_def)
next
  case (Cons p ps)
  then have "d = p" "st' = st\<lparr>rp_pending := ps\<rparr>" using assms by (simp_all add: pop_draft_def)
  then show ?thesis by (simp add: Cons search_left_def search_order_def)
qed

text \<open>What recording a candidate, a trace entry and an expansion leave of the search state.\<close>

lemma record_trace_fields [simp]:
  "rp_candidates (record_trace t st) = rp_candidates st"
  "rp_seen (record_trace t st) = rp_seen st"
  "rp_pending (record_trace t st) = rp_pending st"
  "rp_primary (record_trace t st) = rp_primary st"
  "rp_truncated (record_trace t st) = rp_truncated st"
  by (simp_all add: record_trace_def split: option.splits)

lemma push_expansion_fields [simp]:
  "rp_candidates (push_expansion x st) = rp_candidates st"
  "rp_seen (push_expansion x st) = rp_seen st"
  "rp_trace (push_expansion x st) = rp_trace st"
  "rp_primary (push_expansion x st) = rp_primary st"
  "rp_insufficient (push_expansion x st) = rp_insufficient st"
  by (simp_all add: push_expansion_def split: option.splits)

lemma candidate_recorded_fields [simp]:
  "rp_candidates (candidate_recorded d c st) = rp_candidates st @ [c]"
  "rp_seen (candidate_recorded d c st) = signature_of d # rp_seen st"
  "rp_pending (candidate_recorded d c st) = rp_pending st"
  "rp_primary (candidate_recorded d c st) = rp_primary st"
  "rp_trace (candidate_recorded d c st) = rp_trace st"
  "rp_exhausted (candidate_recorded d c st) = rp_exhausted st"
  "rp_truncated (candidate_recorded d c st) = rp_truncated st"
  by (simp_all add: candidate_recorded_def)

lemma evaluate_step_Inr:
  assumes "evaluate_step sha256 cal k d st = Inr st'"
  obtains c x t where "evaluate_draft sha256 cal k d = Inr c" "expand_first_repairable_rejection k d c = Inr (x, t)"
    "st' = push_expansion x (record_trace t (candidate_recorded d c st))"
proof (cases "evaluate_draft sha256 cal k d")
  case (Inl e)
  then show ?thesis using assms by (simp add: evaluate_step_def)
next
  case (Inr c)
  show ?thesis
  proof (cases "expand_first_repairable_rejection k d c")
    case (Inl e)
    then show ?thesis using assms by (simp add: evaluate_step_def Inr)
  next
    case (Inr y)
    obtain x t where y: "y = (x, t)" by (cases y)
    show ?thesis
      by (rule that [OF \<open>evaluate_draft sha256 cal k d = Inr c\<close> Inr [unfolded y]])
        (use assms in \<open>simp add: evaluate_step_def Inr y \<open>evaluate_draft sha256 cal k d = Inr c\<close>\<close>)
  qed
qed

lemma evaluate_step_candidates:
  assumes "evaluate_step sha256 cal k d st = Inr st'"
  shows "length (rp_candidates st') = length (rp_candidates st) + 1"
  by (rule evaluate_step_Inr [OF assms]) simp

function search_loop ::
    "(string \<Rightarrow> string) \<Rightarrow> calendar \<Rightarrow> repair_context \<Rightarrow> repair_search \<Rightarrow> repair_search result" where
  "search_loop sha256 cal k st =
     (if MAX_EVALUATED_CANDIDATES \<le> length (rp_candidates st) then Inr st
      else
        (case pop_draft k st of
           Inl e \<Rightarrow> Inl e
         | Inr (None, st1) \<Rightarrow> Inr st1
         | Inr (Some d, st1) \<Rightarrow>
             if signature_of d \<in> set (rp_seen st1) then search_loop sha256 cal k st1
             else
               (case evaluate_step sha256 cal k d st1 of
                  Inl e \<Rightarrow> Inl e
                | Inr st2 \<Rightarrow> search_loop sha256 cal k st2)))"
  by pat_completeness auto
termination
proof (relation "inv_image search_order (\<lambda>(sha256, cal, k, st). search_left st)", goal_cases)
  case (2 sha256 cal k st y x st1 d)
  then show ?case using pop_draft_left [of k st d st1] by simp
next
  case (3 sha256 cal k st y x st1 d st2)
  have "length (rp_candidates st1) = length (rp_candidates st)"
    using pop_draft_left [of k st d st1] 3 by simp
  moreover have "length (rp_candidates st2) = length (rp_candidates st1) + 1"
    by (rule evaluate_step_candidates) (use 3 in simp)
  ultimately have "MAX_EVALUATED_CANDIDATES - length (rp_candidates st2) < MAX_EVALUATED_CANDIDATES - length (rp_candidates st)"
    using 3(1) by linarith
  then show ?case by (simp add: search_left_def search_order_def)
qed simp

declare search_loop.simps [simp del]

section \<open>The result\<close>

definition make_result ::
    "(string \<Rightarrow> string) \<Rightarrow> calendar \<Rightarrow> repair_context \<Rightarrow> SearchOutcome \<Rightarrow> M3RepairCandidate list \<Rightarrow> bool \<Rightarrow>
     string list \<Rightarrow> string list \<Rightarrow> SearchTraceEntry list \<Rightarrow> M3BoundedFeasibilityResult result" where
  "make_result sha256 cal k outcome candidates exhausted unsupported insufficient trace =
     M3BoundedFeasibilityResult_init sha256 cal
       \<lparr>br_source_evaluation_input_id = evaluation_input_id sha256 cal (kx_evaluation k),
        br_source_evaluation_input_fingerprint = evaluation_input_fingerprint sha256 cal (kx_evaluation k),
        br_source_support_snapshot_id = support_snapshot_id sha256 cal (kx_support k),
        br_source_support_snapshot_fingerprint = support_fingerprint sha256 cal (kx_support k),
        br_company_plan_id = ei_company_plan_id (kx_evaluation k),
        br_base_plan_revision = ei_base_plan_revision (kx_evaluation k),
        br_outcome = outcome, br_candidates = candidates,
        br_feasible_candidate_ids = map (candidate_id sha256 cal) (filter (\<lambda>c. mr_verdict c = CandidateVerdict.FEASIBLE) candidates),
        br_rejected_candidate_ids = map (candidate_id sha256 cal) (filter (\<lambda>c. mr_verdict c = CandidateVerdict.REJECTED) candidates),
        br_evaluated_candidate_count = int (length candidates), br_search_envelope_exhausted = exhausted,
        br_global_solution_status = ''NOT_EVALUATED_GLOBALLY'', br_unsupported_commitment_ids = unsupported,
        br_insufficient_evidence_commitment_ids = insufficient, br_search_trace = trace\<rparr>"

text \<open>The kinds of the direct commitments, in order, and the trace entries of those that are not SINGLE.\<close>

definition classify :: "repair_context \<Rightarrow> string \<Rightarrow> (AssignmentKind option \<times> SearchTraceEntry list) result" where
  "classify k i =
     and_then (commitment_kind k i) (\<lambda>kind.
     if kind = Some AssignmentKind.SINGLE then Inr (kind, [])
     else if kind = Some AssignmentKind.CREW then
       and_then (trace_of ReasonCode.CREW_REPAIR_UNSUPPORTED [i] ''autonomous M3 v0.1 repair supports SINGLE commitments only'') (\<lambda>e.
       Inr (kind, [e]))
     else
       and_then (trace_of ReasonCode.SINGLE_KIND_EVIDENCE_UNKNOWN [i] ''historical evidence does not prove SINGLE assignment kind'') (\<lambda>e.
       Inr (kind, [e])))"

definition commitment_order :: "repair_context \<Rightarrow> string \<Rightarrow> string \<times> string \<times> string" where
  "commitment_order k i = (case lookup_by cv_commitment_id i (kx_commitments k) of
     Some c \<Rightarrow> (cv_job_id c, cv_task_id c, i) | None \<Rightarrow> ([], [], i))"

definition final_traces :: "repair_context \<Rightarrow> string list \<Rightarrow> repair_search \<Rightarrow> (bool \<times> SearchTraceEntry list) result" where
  "final_traces k single_ids st =
     and_then
       (if dm_probe_budget_exhausted (rp_primary st) then
          and_then (trace_of ReasonCode.SEARCH_ENVELOPE_LIMIT single_ids ''seed-pair probing stopped at the explicit 13-pair budget'') (\<lambda>e. Inr [e])
        else Inr []) (\<lambda>probes.
     and_then
       (if MAX_EVALUATED_CANDIDATES \<le> length (rp_candidates st) \<and>
           (rp_truncated st \<or> rp_pending st \<noteq> [] \<or> has_unexplored (rp_primary st)) then
          and_then (trace_of ReasonCode.SEARCH_ENVELOPE_LIMIT single_ids ''technical validation stopped at 12 candidate variants'') (\<lambda>e. Inr [e])
        else Inr []) (\<lambda>stopped.
     Inr (rp_exhausted st \<or> probes \<noteq> [] \<or> stopped \<noteq> [], rp_trace st @ probes @ stopped)))"

definition choose_outcome :: "bool \<Rightarrow> bool \<Rightarrow> string list \<Rightarrow> string list \<Rightarrow> SearchOutcome" where
  "choose_outcome feasible exhausted insufficient crew_ids =
     (if feasible then SearchOutcome.FEASIBLE_CANDIDATES_FOUND
      else if exhausted then SearchOutcome.SEARCH_ENVELOPE_EXHAUSTED
      else if insufficient \<noteq> [] then SearchOutcome.INSUFFICIENT_CRITICAL_EVIDENCE
      else if crew_ids \<noteq> [] then SearchOutcome.CREW_REPAIR_UNSUPPORTED
      else SearchOutcome.ALL_EVALUATED_CANDIDATES_REJECTED)"

definition initial_search :: "repair_context \<Rightarrow> string list \<Rightarrow> string list \<Rightarrow> SearchTraceEntry list \<Rightarrow> repair_search" where
  "initial_search k single_ids unknown_ids trace =
     \<lparr>rp_primary = initial_stream k single_ids, rp_pending = [], rp_candidates = [], rp_seen = [],
      rp_insufficient = unknown_ids, rp_trace = trace, rp_exhausted = False, rp_truncated = False\<rparr>"

definition search_repairs ::
    "(string \<Rightarrow> string) \<Rightarrow> calendar \<Rightarrow> repair_context \<Rightarrow> M3BoundedFeasibilityResult result" where
  "search_repairs sha256 cal k =
     (if kx_direct_ids k = [] then make_result sha256 cal k SearchOutcome.NO_REPAIR_REQUIRED [] False [] [] []
      else
        and_then (traverse (classify k) (kx_direct_ids k)) (\<lambda>kinds.
        let classified = zip (kx_direct_ids k) (map fst kinds);
            trace = concat (map snd kinds);
            single_ids = sort_key (commitment_order k) (map fst (filter (\<lambda>x. snd x = Some AssignmentKind.SINGLE) classified));
            crew_ids = map fst (filter (\<lambda>x. snd x = Some AssignmentKind.CREW) classified);
            unknown_ids = map fst (filter (\<lambda>x. snd x = None) classified) in
        if single_ids = [] then
          make_result sha256 cal k
            (if crew_ids \<noteq> [] \<and> unknown_ids = [] then SearchOutcome.CREW_REPAIR_UNSUPPORTED else SearchOutcome.INSUFFICIENT_CRITICAL_EVIDENCE)
            [] False crew_ids unknown_ids trace
        else
          and_then (search_loop sha256 cal k (initial_search k single_ids unknown_ids trace)) (\<lambda>st.
          and_then (final_traces k single_ids st) (\<lambda>(exhausted, search_trace).
          let insufficient = remdups (rp_insufficient st);
              feasible = (\<exists>c\<in>set (rp_candidates st). mr_verdict c = CandidateVerdict.FEASIBLE) in
          make_result sha256 cal k (choose_outcome feasible exhausted insufficient crew_ids) (rp_candidates st) exhausted
            crew_ids insufficient search_trace))))"

definition generate_bounded_repair_candidates ::
    "(string \<Rightarrow> string) \<Rightarrow> (string \<Rightarrow> zone_rules option) \<Rightarrow> calendar \<Rightarrow>
     M3EvaluationInput \<Rightarrow> FeasibilitySupportSnapshot \<Rightarrow> M3BoundedFeasibilityResult result" where
  "generate_bounded_repair_candidates sha256 zones cal evaluation support =
     and_then (validated_context sha256 zones cal evaluation support) (search_repairs sha256 cal)"

text \<open>\<open>M3BoundedFeasibilityService.evaluate\<close> over a reader of the two persisted documents.\<close>

definition evaluate_persisted ::
    "(string \<Rightarrow> string) \<Rightarrow> (string \<Rightarrow> zone_rules option) \<Rightarrow> calendar \<Rightarrow> (string \<Rightarrow> M3EvaluationInput result) \<Rightarrow>
     (string \<Rightarrow> FeasibilitySupportSnapshot result) \<Rightarrow> string \<Rightarrow> string \<Rightarrow> M3BoundedFeasibilityResult result" where
  "evaluate_persisted sha256 zones cal get_evaluation get_support i j =
     and_then (check_identity i ''evaluation_input_id'') (\<lambda>_.
     and_then (check_identity j ''support_snapshot_id'') (\<lambda>_.
     and_then (get_evaluation i) (\<lambda>evaluation.
     and_then (get_support j) (\<lambda>support.
     generate_bounded_repair_candidates sha256 zones cal evaluation support))))"

end
