(* ===== verification/Repair_Soundness.thy ===== *)
theory Repair_Soundness
  imports Repair_Search "HOL-Library.Multiset"
begin

text \<open>
  What the technical validation of a repair draft decides, stated without result records: a placement
  fits the evidence of its worker, vehicle, customer and task, nothing it moves overlaps on a shared
  resource, neighbours on a resource leave time for the route, and every dependency reached from a moved
  task holds. The lemmas show that an evaluated candidate is FEASIBLE exactly when its draft has all of it.
\<close>

section \<open>The contract of a placement\<close>

definition covered :: "AvailabilityEvidence \<Rightarrow> ProposedWorkerPlacement \<Rightarrow> bool" where
  "covered e p \<longleftrightarrow> ad_knowledge e = AvailabilityKnowledge.KNOWN \<and>
     (\<exists>s f. ad_coverage_start e = Some s \<and> ad_coverage_end e = Some f \<and> s \<le> pw_proposed_start p \<and> pw_proposed_end p \<le> f) \<and>
     (\<exists>w\<in>set (ad_available_windows e). ae_start_at w \<le> pw_proposed_start p \<and> pw_proposed_end p \<le> ae_end_at w)"

definition skilled :: "TaskConstraintSource \<Rightarrow> WorkerTechnicalEvidence \<Rightarrow> bool" where
  "skilled t w \<longleftrightarrow> wt_m8_worker_known w \<and>
     (\<exists>level. worker_level w (tc_required_skill_key t) = Some level \<and> tc_minimum_skill_level t \<le> level)"

definition vehicle_suits :: "repair_context \<Rightarrow> TaskConstraintSource \<Rightarrow> ProposedWorkerPlacement \<Rightarrow> bool" where
  "vehicle_suits k t p \<longleftrightarrow> tc_required_vehicle_class t = ''NONE'' \<or>
     (\<exists>i v e. pw_vehicle_id p = Some i \<and> kx_vehicles k i = Some v \<and> tc_required_vehicle_class t \<in> set (vt_capabilities v) \<and>
        kx_vehicle_availability k i = Some e \<and> covered e p)"

definition in_customer_window :: "TaskConstraintSource \<Rightarrow> ProposedWorkerPlacement \<Rightarrow> bool" where
  "in_customer_window t p \<longleftrightarrow> tc_customer_window_state t = ConstraintKnowledge.ABSENT \<or>
     (tc_customer_window_state t = ConstraintKnowledge.KNOWN \<and>
      (\<exists>s e. tc_customer_window_start t = Some s \<and> tc_customer_window_end t = Some e \<and>
         s \<le> pw_proposed_start p \<and> pw_proposed_end p \<le> e))"

definition before_deadline :: "TaskConstraintSource \<Rightarrow> ProposedWorkerPlacement \<Rightarrow> bool" where
  "before_deadline t p \<longleftrightarrow> tc_hard_deadline_state t = ConstraintKnowledge.ABSENT \<or>
     (tc_hard_deadline_state t = ConstraintKnowledge.KNOWN \<and> (\<exists>d. tc_hard_deadline t = Some d \<and> pw_proposed_end p \<le> d))"

definition placement_fits :: "repair_context \<Rightarrow> ProposedWorkerPlacement \<Rightarrow> bool" where
  "placement_fits k p \<longleftrightarrow>
     (\<exists>t w e r. kx_constraints k (pw_commitment_id p) = Some t \<and> kx_workers k (pw_worker_id p) = Some w \<and>
        kx_worker_availability k (pw_worker_id p) = Some e \<and> kx_readiness k (pw_commitment_id p) = Some r \<and>
        skilled t w \<and> covered e p \<and> rn_status r = ReadinessState.READY \<and> vehicle_suits k t p \<and>
        in_customer_window t p \<and> before_deadline t p)"

lemma tk_result_fields:
  assumes "tk_result status code p subject related evidence required actual = Inr r"
  shows "tk_status r = status" "tk_reason_code r = code"
  using assms by (auto simp: tk_result_def TechnicalConstraintResult_init_def)

lemma pass_or_fail_PASS [simp]: "pass_or_fail b = ConstraintStatus.PASS \<longleftrightarrow> b" "ConstraintStatus.PASS = pass_or_fail b \<longleftrightarrow> b"
  "pass_or_fail True = ConstraintStatus.PASS" "pass_or_fail False = ConstraintStatus.FAIL"
  by (simp_all add: pass_or_fail_def)

lemma skill_passes: "skill_result t w p = Inr r \<Longrightarrow> tk_status r = ConstraintStatus.PASS \<longleftrightarrow> skilled t w"
  by (auto simp: skill_result_def skilled_def Let_def dest: tk_result_fields(1) split: option.splits if_splits)

lemma availability_passes: "availability_result p e v = Inr r \<Longrightarrow> tk_status r = ConstraintStatus.PASS \<longleftrightarrow> covered e p"
  by (cases "ad_knowledge e")
    (auto simp: availability_result_def covered_def window_covers_def Let_def dest!: tk_result_fields(1) split: if_splits)

lemma readiness_passes:
  "readiness_result x p = Inr r \<Longrightarrow> tk_status r = ConstraintStatus.PASS \<longleftrightarrow> rn_status x = ReadinessState.READY"
  by (cases "rn_status x") (auto simp: readiness_result_def dest!: tk_result_fields(1))

lemma vehicle_passes:
  "vehicle_result k t p = Inr (r, authority) \<Longrightarrow> tk_status r = ConstraintStatus.PASS \<longleftrightarrow> vehicle_suits k t p"
  by (auto simp: vehicle_result_def vehicle_suits_def Let_def dest!: tk_result_fields(1) availability_passes
      split: if_splits option.splits)

lemma window_passes: "window_result cal t p = Inr r \<Longrightarrow> tk_status r = ConstraintStatus.PASS \<longleftrightarrow> in_customer_window t p"
  by (cases "tc_customer_window_state t")
    (auto simp: window_result_def in_customer_window_def Let_def dest!: tk_result_fields(1))

lemma deadline_passes: "deadline_result cal t p = Inr r \<Longrightarrow> tk_status r = ConstraintStatus.PASS \<longleftrightarrow> before_deadline t p"
  by (cases "tc_hard_deadline_state t")
    (auto simp: deadline_result_def before_deadline_def Let_def dest!: tk_result_fields(1))

lemma placement_passes:
  assumes "placement_results cal k p = Inr (rs, authority)"
  shows "(\<forall>r\<in>set rs. tk_status r = ConstraintStatus.PASS) \<longleftrightarrow> placement_fits k p"
proof -
  obtain t w skill e available x ready vehicle window deadline where
    "kx_constraints k (pw_commitment_id p) = Some t" "kx_workers k (pw_worker_id p) = Some w"
    "kx_worker_availability k (pw_worker_id p) = Some e" "kx_readiness k (pw_commitment_id p) = Some x"
    and results: "skill_result t w p = Inr skill" "availability_result p e False = Inr available" "readiness_result x p = Inr ready"
      "vehicle_result k t p = Inr (vehicle, authority)" "window_result cal t p = Inr window" "deadline_result cal t p = Inr deadline"
    and rs: "rs = [skill, available, ready, vehicle, window, deadline]"
    using assms(1) by (auto simp: placement_results_def)
  then show ?thesis
    by (simp add: placement_fits_def skill_passes [OF results(1)] availability_passes [OF results(2)]
        readiness_passes [OF results(3)] vehicle_passes [OF results(4)] window_passes [OF results(5)] deadline_passes [OF results(6)])
qed


section \<open>Overlaps\<close>

definition shares :: "ScheduledPlacementEvidence \<Rightarrow> ScheduledPlacementEvidence \<Rightarrow> bool" where
  "shares a b \<longleftrightarrow> (\<exists>w. w \<in> set (sl_worker_ids a) \<and> w \<in> set (sl_worker_ids b)) \<or>
     (\<exists>v. sl_vehicle_id a = Some v \<and> sl_vehicle_id b = Some v)"

definition no_double_booking :: "string list \<Rightarrow> ScheduledPlacementEvidence list \<Rightarrow> bool" where
  "no_double_booking moved schedule \<longleftrightarrow>
     (\<forall>a b. {#a, b#} \<subseteq># mset schedule \<longrightarrow> sl_commitment_id a \<in> set moved \<longrightarrow> shares a b \<longrightarrow>
        sl_planned_end a \<le> sl_planned_start b \<or> sl_planned_end b \<le> sl_planned_start a)"

lemma overlap_subject_None: "overlap_subject (a, b) = None \<longleftrightarrow> \<not> shares a b"
proof -
  have "shared_workers a b = [] \<longleftrightarrow> \<not> (\<exists>w. w \<in> set (sl_worker_ids a) \<and> w \<in> set (sl_worker_ids b))"
    by (simp add: shared_workers_def filter_empty_conv flip: set_empty)
  moreover have "shared_vehicle a b = None \<longleftrightarrow> \<not> (\<exists>v. sl_vehicle_id a = Some v \<and> sl_vehicle_id b = Some v)"
    by (auto simp: shared_vehicle_def)
  ultimately show ?thesis by (auto simp: overlap_subject_def shares_def split: list.split)
qed

lemma shares_sym: "shares a b \<longleftrightarrow> shares b a"
  by (auto simp: shares_def)

lemma overlap_passes:
  assumes "overlap_result d (a, b) = Inr rs"
  shows "(\<forall>r\<in>set rs. tk_status r = ConstraintStatus.PASS) \<longleftrightarrow>
    (touches (map pw_commitment_id d) (a, b) \<longrightarrow> shares a b \<longrightarrow>
      sl_planned_end a \<le> sl_planned_start b \<or> sl_planned_end b \<le> sl_planned_start a)"
proof (cases "touches (map pw_commitment_id d) (a, b) \<and> shares a b")
  case True
  then obtain subject where "overlap_subject (a, b) = Some subject" using overlap_subject_None [of a b] by auto
  then have "(\<forall>r\<in>set rs. tk_status r = ConstraintStatus.PASS) \<longleftrightarrow> \<not> overlapping (a, b)"
    using assms True by (auto simp: overlap_result_def dest!: tk_result_fields(1) split: if_splits)
  then show ?thesis using True by (auto simp: overlapping_def intervals_overlap_def)
next
  case False
  then have "rs = []" using assms overlap_subject_None [of a b] by (auto simp: overlap_result_def split: if_splits option.splits)
  with False show ?thesis by simp
qed

text \<open>The pairs of a list, in either order, are its two-element sub-multisets.\<close>

lemma ordered_pairs_mset:
  assumes "\<And>a b. Q a b \<Longrightarrow> Q b a"
  shows "(\<forall>(a, b)\<in>set (ordered_pairs xs). Q a b) \<longleftrightarrow> (\<forall>a b. {#a, b#} \<subseteq># mset xs \<longrightarrow> Q a b)"
proof (induction xs)
  case (Cons x xs)
  have pairs: "{#a, b#} \<subseteq># mset (x # xs) \<longleftrightarrow> {#a, b#} \<subseteq># mset xs \<or> a = x \<and> b \<in> set xs \<or> b = x \<and> a \<in> set xs" for a b
    by (cases "a = x"; cases "b = x") (auto simp: insert_subset_eq_iff add_mset_commute subset_mset.diff_add)
  have "(\<forall>(a, b)\<in>set (ordered_pairs (x # xs)). Q a b) \<longleftrightarrow>
      (\<forall>b\<in>set xs. Q x b) \<and> (\<forall>(a, b)\<in>set (ordered_pairs xs). Q a b)"
    by (auto simp: ball_Un)
  also have "\<dots> \<longleftrightarrow> (\<forall>a b. {#a, b#} \<subseteq># mset (x # xs) \<longrightarrow> Q a b)"
    unfolding Cons pairs using assms by blast
  finally show ?case .
qed simp

text \<open>What the results of a loop have, each of its steps has.\<close>

lemma traverse_member:
  assumes "traverse f xs = Inr ys" "x \<in> set xs"
  obtains y where "f x = Inr y" "y \<in> set ys"
proof -
  have "\<exists>y\<in>set ys. f x = Inr y"
    using assms unfolding traverse_Inr_iff by (induction rule: list_all2_induct) auto
  with that show thesis by blast
qed

lemma traverse_all:
  assumes "traverse f xs = Inr ys" "\<And>x y. x \<in> set xs \<Longrightarrow> f x = Inr y \<Longrightarrow> Q y \<longleftrightarrow> P x"
  shows "(\<forall>y\<in>set ys. Q y) \<longleftrightarrow> (\<forall>x\<in>set xs. P x)"
  using assms unfolding traverse_Inr_iff by (induction rule: list_all2_induct) auto

lemma overlaps_pass:
  assumes "traverse (overlap_result d) (ordered_pairs (sort_key placement_key schedule)) = Inr overlaps"
  shows "(\<forall>r\<in>set (concat overlaps). tk_status r = ConstraintStatus.PASS) \<longleftrightarrow> no_double_booking (map pw_commitment_id d) schedule"
proof -
  let ?Q = "\<lambda>a b. touches (map pw_commitment_id d) (a, b) \<longrightarrow> shares a b \<longrightarrow>
    sl_planned_end a \<le> sl_planned_start b \<or> sl_planned_end b \<le> sl_planned_start a"
  have "(\<forall>r\<in>set (concat overlaps). tk_status r = ConstraintStatus.PASS) \<longleftrightarrow>
      (\<forall>rs\<in>set overlaps. \<forall>r\<in>set rs. tk_status r = ConstraintStatus.PASS)" by auto
  also have "\<dots> \<longleftrightarrow> (\<forall>(a, b)\<in>set (ordered_pairs (sort_key placement_key schedule)). ?Q a b)"
    by (rule traverse_all [OF assms]) (simp only: split_paired_all overlap_passes prod.case)
  also have "\<dots> \<longleftrightarrow> (\<forall>a b. {#a, b#} \<subseteq># mset schedule \<longrightarrow> ?Q a b)"
    by (subst ordered_pairs_mset) (auto simp: touches_def shares_sym)
  also have "\<dots> \<longleftrightarrow> no_double_booking (map pw_commitment_id d) schedule"
  proof -
    have "{#a, b#} \<subseteq># mset schedule \<Longrightarrow> {#b, a#} \<subseteq># mset schedule" for a b by (simp add: add_mset_commute)
    then show ?thesis unfolding no_double_booking_def touches_def fst_conv snd_conv using shares_sym by blast
  qed
  finally show ?thesis .
qed

section \<open>Routes\<close>

definition route_fits :: "repair_context \<Rightarrow> ScheduledPlacementEvidence \<Rightarrow> ScheduledPlacementEvidence \<Rightarrow> bool" where
  "route_fits k a b \<longleftrightarrow>
     (\<exists>t u. kx_constraints k (sl_commitment_id a) = Some t \<and> kx_constraints k (sl_commitment_id b) = Some u \<and>
        (tc_location_fingerprint t = tc_location_fingerprint u \<and>
           (endpoint t = endpoint u \<or>
            kx_routes k (tc_location_fingerprint t, tc_location_fingerprint u, tc_location_reference t, tc_location_reference u) = None) \<or>
         endpoint t \<noteq> endpoint u \<and>
         (\<exists>e travel buffer.
            kx_routes k (tc_location_fingerprint t, tc_location_fingerprint u, tc_location_reference t, tc_location_reference u) = Some e \<and>
            ro_knowledge e = RouteKnowledge.KNOWN \<and> ro_travel_duration_seconds e = Some travel \<and> ro_buffer_seconds e = Some buffer \<and>
            travel + buffer \<le> whole_seconds (sl_planned_start b - sl_planned_end a))))"

text \<open>The schedule of a resource, in the order of time.\<close>

definition timeline :: "(ScheduledPlacementEvidence \<Rightarrow> bool) \<Rightarrow> ScheduledPlacementEvidence list \<Rightarrow> ScheduledPlacementEvidence list" where
  "timeline uses schedule = filter uses (sort_key placement_key schedule)"

definition routes_fit :: "repair_context \<Rightarrow> draft \<Rightarrow> ScheduledPlacementEvidence list \<Rightarrow> bool" where
  "routes_fit k d schedule \<longleftrightarrow>
     (\<forall>p\<in>set d. \<forall>uses\<in>{\<lambda>s. pw_worker_id p \<in> set (sl_worker_ids s), \<lambda>s. pw_vehicle_id p \<noteq> None \<and> sl_vehicle_id s = pw_vehicle_id p}.
        \<forall>(a, b)\<in>set (neighbours (timeline uses schedule)). touches (map pw_commitment_id d) (a, b) \<longrightarrow> route_fits k a b)"

lemma route_passes:
  assumes "route_result k d resource (a, b) = Inr (rs, n)"
  shows "(\<forall>r\<in>set rs. tk_status r = ConstraintStatus.PASS) \<longleftrightarrow> (touches (map pw_commitment_id d) (a, b) \<longrightarrow> route_fits k a b)"
proof (cases "touches (map pw_commitment_id d) (a, b)")
  case True
  obtain route anchor t u where route: "route_between k (sl_commitment_id a) (sl_commitment_id b) = Inr route"
    and tu: "kx_constraints k (sl_commitment_id a) = Some t" "kx_constraints k (sl_commitment_id b) = Some u"
    and anchor: "anchor_of d (sl_commitment_id b) (sl_commitment_id a) = Inr anchor"
    using assms True by (auto simp: route_result_def route_between_def Let_def)
  show ?thesis
  proof (cases route)
    case None
    then have "(\<forall>r\<in>set rs. tk_status r = ConstraintStatus.PASS) \<longleftrightarrow> tc_location_fingerprint t = tc_location_fingerprint u"
      using assms True route tu anchor by (auto simp: route_result_def Let_def dest!: tk_result_fields(1) split: if_splits)
    moreover have "endpoint t = endpoint u \<or>
        kx_routes k (tc_location_fingerprint t, tc_location_fingerprint u, tc_location_reference t, tc_location_reference u) = None"
      using route tu None by (auto simp: route_between_def endpoint_def split: if_splits)
    ultimately show ?thesis using tu True by (auto simp: route_fits_def endpoint_def)
  next
    case (Some e)
    then have e: "kx_routes k (tc_location_fingerprint t, tc_location_fingerprint u, tc_location_reference t, tc_location_reference u) = Some e"
        "endpoint t \<noteq> endpoint u"
      using route tu by (auto simp: route_between_def endpoint_def split: if_splits)
    have "(\<forall>r\<in>set rs. tk_status r = ConstraintStatus.PASS) \<longleftrightarrow>
        ro_knowledge e = RouteKnowledge.KNOWN \<and> (\<exists>travel buffer. ro_travel_duration_seconds e = Some travel \<and>
        ro_buffer_seconds e = Some buffer \<and> travel + buffer \<le> whole_seconds (sl_planned_start b - sl_planned_end a))"
      using assms True route anchor Some
      by (cases "ro_knowledge e") (auto simp: route_result_def route_seconds_def Let_def dest!: tk_result_fields(1) split: if_splits)
    with tu e True show ?thesis by (auto simp: route_fits_def)
  qed
next
  case False
  then show ?thesis using assms by (simp add: route_result_def Let_def)
qed

lemma sequence_passes:
  assumes "sequence_results k d (resource, xs) = Inr rs"
  shows "(\<forall>y\<in>set rs. \<forall>r\<in>set (fst y). tk_status r = ConstraintStatus.PASS) \<longleftrightarrow>
    (\<forall>(a, b)\<in>set (neighbours xs). touches (map pw_commitment_id d) (a, b) \<longrightarrow> route_fits k a b)"
  using assms unfolding sequence_results_def fst_conv snd_conv
proof (rule traverse_all)
  fix x y
  assume "route_result k d resource x = Inr y"
  then have "route_result k d resource (fst x, snd x) = Inr (fst y, snd y)" by simp
  from route_passes [OF this]
  show "(\<forall>r\<in>set (fst y). tk_status r = ConstraintStatus.PASS) \<longleftrightarrow>
      (case x of (a, b) \<Rightarrow> touches (map pw_commitment_id d) (a, b) \<longrightarrow> route_fits k a b)"
    unfolding prod.collapse by (cases x) simp
qed

lemma map_filter_members: "set (List.map_filter f xs) = {y. \<exists>x\<in>set xs. f x = Some y}"
  by (force simp: List.map_filter_def)

lemma routes_pass:
  assumes "traverse (sequence_results k d) (resource_sequences d (sort_key placement_key schedule)) = Inr sequences"
  shows "(\<forall>r\<in>set (concat (map fst (concat sequences))). tk_status r = ConstraintStatus.PASS) \<longleftrightarrow> routes_fit k d schedule"
proof -
  let ?fits = "\<lambda>xs. \<forall>(a, b)\<in>set (neighbours xs). touches (map pw_commitment_id d) (a, b) \<longrightarrow> route_fits k a b"
  have "(\<forall>r\<in>set (concat (map fst (concat sequences))). tk_status r = ConstraintStatus.PASS) \<longleftrightarrow>
      (\<forall>rs\<in>set sequences. \<forall>y\<in>set rs. \<forall>r\<in>set (fst y). tk_status r = ConstraintStatus.PASS)" by auto
  also have "\<dots> \<longleftrightarrow> (\<forall>q\<in>set (resource_sequences d (sort_key placement_key schedule)). ?fits (snd q))"
    by (rule traverse_all [OF assms]) (simp only: split_paired_all sequence_passes snd_conv)
  also have "\<dots> \<longleftrightarrow>
      (\<forall>p\<in>set d. ?fits (timeline (\<lambda>s. pw_worker_id p \<in> set (sl_worker_ids s)) schedule)) \<and>
      (\<forall>p\<in>set d. \<forall>v. pw_vehicle_id p = Some v \<longrightarrow> ?fits (timeline (\<lambda>s. sl_vehicle_id s = Some v) schedule))"
    unfolding resource_sequences_def timeline_def set_append set_map ball_Un ball_simps snd_conv set_sorted_set map_filter_members
    by blast
  also have "\<dots> \<longleftrightarrow> routes_fit k d schedule"
  proof -
    have vehicle: "?fits (timeline (\<lambda>s. pw_vehicle_id p \<noteq> None \<and> sl_vehicle_id s = pw_vehicle_id p) schedule) \<longleftrightarrow>
        (\<forall>v. pw_vehicle_id p = Some v \<longrightarrow> ?fits (timeline (\<lambda>s. sl_vehicle_id s = Some v) schedule))" for p
      by (cases "pw_vehicle_id p") (simp_all add: timeline_def neighbours_def)
    show ?thesis unfolding routes_fit_def by (simp only: ball_simps ball_conj_distrib simp_thms vehicle)
  qed
  finally show ?thesis .
qed


section \<open>Dependencies\<close>

text \<open>The edges between tasks of active commitments, and the tasks they reach from the moved ones.\<close>

definition active_relation :: "repair_context \<Rightarrow> (string \<times> string) set" where
  "active_relation k = {(x, y). \<exists>e\<in>set (dn_edges (ei_dependency_impact (kx_evaluation k))).
     x = de_predecessor_task_id e \<and> y = de_successor_task_id e \<and> kx_task_to_commitment k x \<noteq> None \<and> kx_task_to_commitment k y \<noteq> None}"

definition reached :: "repair_context \<Rightarrow> draft \<Rightarrow> string set" where
  "reached k d = (active_relation k)\<^sup>* `` (pw_task_id ` set d)"

definition dependencies_hold :: "repair_context \<Rightarrow> draft \<Rightarrow> ScheduledPlacementEvidence list \<Rightarrow> bool" where
  "dependencies_hold k d schedule \<longleftrightarrow>
     (\<forall>(x, y)\<in>active_relation k. x \<in> reached k d \<or> y \<in> reached k d \<longrightarrow>
        (\<exists>i j a b. kx_task_to_commitment k x = Some i \<and> kx_task_to_commitment k y = Some j \<and>
           lookup_by sl_commitment_id i schedule = Some a \<and> lookup_by sl_commitment_id j schedule = Some b \<and>
           sl_planned_end a \<le> sl_planned_start b))"

lemma active_relation_edges: "active_relation k = set (edge_pairs (active_edges k))"
  by (auto simp: active_relation_def edge_pairs_def active_edges_def)

lemma set_affected_dependencies:
  "set (affected_dependencies k (map pw_task_id d)) =
     {e \<in> set (active_edges k). de_predecessor_task_id e \<in> reached k d \<or> de_successor_task_id e \<in> reached k d}"
  by (auto simp: affected_dependencies_def Let_def set_spread reached_def active_relation_edges)

definition edge_holds :: "repair_context \<Rightarrow> ScheduledPlacementEvidence list \<Rightarrow> string \<Rightarrow> string \<Rightarrow> bool" where
  "edge_holds k schedule x y \<longleftrightarrow>
     (\<exists>i j a b. kx_task_to_commitment k x = Some i \<and> kx_task_to_commitment k y = Some j \<and>
        lookup_by sl_commitment_id i schedule = Some a \<and> lookup_by sl_commitment_id j schedule = Some b \<and>
        sl_planned_end a \<le> sl_planned_start b)"

lemma dependency_passes:
  assumes "dependency_result cal k d schedule e = Inr rs" "e \<in> set (active_edges k)"
  shows "(\<forall>r\<in>set rs. tk_status r = ConstraintStatus.PASS) \<longleftrightarrow>
    edge_holds k schedule (de_predecessor_task_id e) (de_successor_task_id e)"
  using assms unfolding edge_holds_def
  by (auto simp: dependency_result_def active_edges_def Let_def dest!: tk_result_fields(1))

lemma dependencies_pass:
  assumes "traverse (dependency_result cal k d schedule) (affected_dependencies k (map pw_task_id d)) = Inr rs"
  shows "(\<forall>r\<in>set (concat rs). tk_status r = ConstraintStatus.PASS) \<longleftrightarrow> dependencies_hold k d schedule"
proof -
  have "(\<forall>r\<in>set (concat rs). tk_status r = ConstraintStatus.PASS) \<longleftrightarrow>
      (\<forall>xs\<in>set rs. \<forall>r\<in>set xs. tk_status r = ConstraintStatus.PASS)" by auto
  also have "\<dots> \<longleftrightarrow> (\<forall>e\<in>set (affected_dependencies k (map pw_task_id d)).
      edge_holds k schedule (de_predecessor_task_id e) (de_successor_task_id e))"
    by (rule traverse_all [OF assms]) (simp add: dependency_passes set_affected_dependencies)
  also have "\<dots> \<longleftrightarrow> dependencies_hold k d schedule"
    unfolding dependencies_hold_def edge_holds_def [symmetric]
    by (auto simp: set_affected_dependencies active_relation_edges edge_pairs_def)
  finally show ?thesis .
qed

section \<open>A feasible candidate\<close>

text \<open>The contract of a draft: its placements, its overlaps, its routes and its dependencies.\<close>

definition draft_feasible :: "repair_context \<Rightarrow> draft \<Rightarrow> bool" where
  "draft_feasible k d \<longleftrightarrow>
     (\<exists>schedule. final_schedule k d = Inr schedule \<and> (\<forall>p\<in>set d. placement_fits k p) \<and>
        no_double_booking (map pw_commitment_id d) schedule \<and> routes_fit k d schedule \<and> dependencies_hold k d schedule)"

lemma all_results_pass:
  assumes "all_results cal k d schedule = Inr (results, authority, travel)"
  shows "(\<forall>r\<in>set results. tk_status r = ConstraintStatus.PASS) \<longleftrightarrow>
    (\<forall>p\<in>set d. placement_fits k p) \<and> no_double_booking (map pw_commitment_id d) schedule \<and>
    routes_fit k d schedule \<and> dependencies_hold k d schedule"
proof -
  obtain single overlaps sequences dependencies where
    single: "traverse (placement_results cal k) (sort_key pw_key d) = Inr single"
    and overlaps: "traverse (overlap_result d) (ordered_pairs (sort_key placement_key schedule)) = Inr overlaps"
    and sequences: "traverse (sequence_results k d) (resource_sequences d (sort_key placement_key schedule)) = Inr sequences"
    and dependencies: "traverse (dependency_result cal k d schedule) (affected_dependencies k (map pw_task_id d)) = Inr dependencies"
    and results: "results = concat (map fst single) @ concat overlaps @ concat (map fst (concat sequences)) @ concat dependencies"
    using assms(1) by (auto simp: all_results_def Let_def)
  have "(\<forall>r\<in>set (concat (map fst single)). tk_status r = ConstraintStatus.PASS) \<longleftrightarrow>
      (\<forall>y\<in>set single. \<forall>r\<in>set (fst y). tk_status r = ConstraintStatus.PASS)" by auto
  also have "\<dots> \<longleftrightarrow> (\<forall>p\<in>set (sort_key pw_key d). placement_fits k p)"
    by (rule traverse_all [OF single]) (simp only: split_paired_all placement_passes fst_conv)
  finally have placements: "(\<forall>r\<in>set (concat (map fst single)). tk_status r = ConstraintStatus.PASS) \<longleftrightarrow>
    (\<forall>p\<in>set d. placement_fits k p)" by simp
  show ?thesis
    unfolding results set_append ball_Un placements overlaps_pass [OF overlaps] routes_pass [OF sequences]
      dependencies_pass [OF dependencies] by blast
qed

text \<open>What an evaluated draft and its candidate have in common.\<close>

lemma evaluate_draft_Inr:
  assumes "evaluate_draft sha256 cal k d = Inr c"
  obtains schedule results authority travel where "final_schedule k d = Inr schedule"
    "all_results cal k d schedule = Inr (results, authority, travel)"
    "mr_technical_constraint_results c = results" "mr_proposed_worker_placements c = sort_key pw_key d"
    "mr_verdict c = (if \<forall>r\<in>set results. tk_status r = ConstraintStatus.PASS then CandidateVerdict.FEASIBLE else CandidateVerdict.REJECTED)"
    "mr_modified_commitment_ids c = map pw_commitment_id (sort_key pw_key d)"
    "mr_rejection_trace c = filter (\<lambda>r. tk_status r \<noteq> ConstraintStatus.PASS) results"
    "d \<noteq> []" "length d \<le> MAX_MODIFIED_COMMITMENTS" "distinct (map pw_key d)"
    "mr_source_evaluation_input_id c = evaluation_input_id sha256 cal (kx_evaluation k)"
    "mr_source_evaluation_input_fingerprint c = evaluation_input_fingerprint sha256 cal (kx_evaluation k)"
    "mr_source_support_snapshot_id c = support_snapshot_id sha256 cal (kx_support k)"
    "mr_source_support_snapshot_fingerprint c = support_fingerprint sha256 cal (kx_support k)"
    "mr_company_plan_id c = ei_company_plan_id (kx_evaluation k)" "mr_base_plan_revision c = ei_base_plan_revision (kx_evaluation k)"
proof -
  have sorted: "map pw_commitment_id (sort_key pw_key d) = [] \<longleftrightarrow> d = []"
    by (metis length_0_conv length_map length_sort)
  show thesis
    using assms
    by (auto simp: evaluate_draft_def M3RepairCandidate_init_def Let_def sorted intro!: that)
qed

lemma feasible_candidate:
  assumes "evaluate_draft sha256 cal k d = Inr c"
  shows "mr_verdict c = CandidateVerdict.FEASIBLE \<longleftrightarrow> draft_feasible k d"
  using assms(1)
proof (rule evaluate_draft_Inr)
  fix schedule results authority travel
  assume "final_schedule k d = Inr schedule" and results: "all_results cal k d schedule = Inr (results, authority, travel)"
    and "mr_verdict c = (if \<forall>r\<in>set results. tk_status r = ConstraintStatus.PASS then CandidateVerdict.FEASIBLE else CandidateVerdict.REJECTED)"
  with all_results_pass [OF results] show "mr_verdict c = CandidateVerdict.FEASIBLE \<longleftrightarrow> draft_feasible k d"
    by (simp add: draft_feasible_def)
qed

end
