(* ===== verification/Repair_Completeness.thy ===== *)
theory Repair_Completeness
  imports Repair_Soundness
begin

text \<open>
  The loop of the repair search. Every candidate is the evaluation of a draft of its own; the search says
  that it was cut off exactly when its trace has an entry for it; and a search that was not cut off has
  tried every seed placement of every direct SINGLE commitment.
\<close>

section \<open>The drafts behind the candidates\<close>

text \<open>
  A placement that the search proposes takes its job, task and business date from the context, so it is
  determined by what its signature records: commitment, worker, vehicle, start and end.
\<close>

definition regular :: "repair_context \<Rightarrow> ProposedWorkerPlacement \<Rightarrow> bool" where
  "regular k p \<longleftrightarrow> (\<exists>c. lookup_by cv_commitment_id (pw_commitment_id p) (kx_commitments k) = Some c \<and>
     pw_job_id p = cv_job_id c \<and> pw_task_id p = cv_task_id c \<and>
     pw_business_date p = zr_local_date (kx_zone k) (pw_proposed_start p))"

lemma regular_determined:
  assumes "regular k p" "regular k q" "pw_commitment_id p = pw_commitment_id q" "pw_worker_id p = pw_worker_id q"
    "pw_vehicle_id p = pw_vehicle_id q" "pw_proposed_start p = pw_proposed_start q" "pw_proposed_end p = pw_proposed_end q"
  shows "p = q"
  using assms by (cases p; cases q) (auto simp: regular_def)

lemma regular_signature:
  assumes "signature_of d = signature_of d'" "\<forall>p\<in>set d. regular k p" "\<forall>p\<in>set d'. regular k p"
  shows "sort_key pw_key d = sort_key pw_key d'"
proof -
  have len: "length (sort_key pw_key d) = length (sort_key pw_key d')"
    using arg_cong [OF assms(1), of length] by (simp add: signature_of_def)
  show ?thesis
  proof (rule nth_equalityI [OF len])
    fix n
    assume n: "n < length (sort_key pw_key d)"
    then have "signature_of d ! n = signature_of d' ! n" "n < length (sort_key pw_key d')" using assms(1) len by simp_all
    moreover have "regular k (sort_key pw_key d ! n)" "regular k (sort_key pw_key d' ! n)"
      using n len assms(2,3) nth_mem [of n "sort_key pw_key d"] nth_mem [of n "sort_key pw_key d'"] by auto
    ultimately show "sort_key pw_key d ! n = sort_key pw_key d' ! n"
      using n by (intro regular_determined [of k]) (simp_all add: signature_of_def)
  qed
qed

lemma seed_draft_regular: "seed_draft k i w s v = Inr (Some d) \<Longrightarrow> \<exists>p. d = [p] \<and> regular k p"
  by (auto simp: seed_draft_def regular_def ProposedWorkerPlacement_init_def Let_def split: if_splits)

lemma next_draft_regular: "next_draft k st = Inr (Some d, st') \<Longrightarrow> \<forall>p\<in>set d. regular k p"
proof (induction k st rule: next_draft.induct)
  case (1 k st)
  then show ?case
    by (auto simp: next_draft.simps [of k st] take_draft_def dest!: seed_draft_regular
        split: if_splits sum.splits option.splits prod.splits bool.splits)
qed

lemma pop_draft_regular:
  assumes "pop_draft k st = Inr (x, st')" "\<forall>d\<in>set (rp_pending st). \<forall>p\<in>set d. regular k p"
  shows "\<forall>d\<in>set (rp_pending st'). \<forall>p\<in>set d. regular k p" "x = Some d \<Longrightarrow> \<forall>p\<in>set d. regular k p"
  using assms by (auto simp: pop_draft_def dest: next_draft_regular split: list.splits)

lemma expanded_regular:
  assumes "lookup_by cv_commitment_id i (kx_commitments k) = Some c"
    "ProposedWorkerPlacement_init \<lparr>pw_commitment_id = i, pw_job_id = cv_job_id c, pw_task_id = cv_task_id c, pw_worker_id = w,
       pw_vehicle_id = v, pw_business_date = zr_local_date (kx_zone k) s, pw_proposed_start = s, pw_proposed_end = e\<rparr> = Inr p"
    "\<forall>p\<in>set d. regular k p"
  shows "\<forall>q\<in>set (expanded_draft d p). regular k q"
  using assms by (auto simp: expanded_draft_def ProposedWorkerPlacement_init_def regular_def)

lemma expand_overlap_regular:
  assumes "expand_overlap k d i = Inr (Some d', t)" "\<forall>p\<in>set d. regular k p"
  shows "\<forall>p\<in>set d'. regular k p"
proof -
  have less: "\<not> MAX_MODIFIED_COMMITMENTS \<le> length (remdups (map pw_commitment_id d))"
    using assms(1) by (auto simp: expand_overlap_def Let_def give_up_def)
  then obtain e where e: "repair_eligibility_trace k i ''overlap-conflicting'' = Inr e"
    using assms(1) by (auto simp: expand_overlap_def Let_def)
  then have "e = None" using assms(1) less by (cases e) (auto simp: expand_overlap_def Let_def)
  with e less assms(1) show ?thesis
    using expanded_regular [OF _ _ assms(2)]
    by (cases d) (auto simp: expand_overlap_def Let_def give_up_def simp del: ProposedWorkerPlacement_init_def split: if_splits)
qed

lemma expand_dependency_regular:
  assumes "expand_dependency k d e = Inr (Some d', t)" "\<forall>p\<in>set d. regular k p"
  shows "\<forall>p\<in>set d'. regular k p"
proof -
  obtain target x where x: "repair_eligibility_trace k target ''dependency-counterpart'' = Inr x"
    and f: "x = None \<Longrightarrow> \<exists>i c w v s f p. lookup_by cv_commitment_id i (kx_commitments k) = Some c \<and>
      ProposedWorkerPlacement_init \<lparr>pw_commitment_id = i, pw_job_id = cv_job_id c, pw_task_id = cv_task_id c, pw_worker_id = w,
       pw_vehicle_id = v, pw_business_date = zr_local_date (kx_zone k) s, pw_proposed_start = s, pw_proposed_end = f\<rparr> = Inr p \<and>
      d' = expanded_draft d p" and "x = None"
    using assms(1) by (fastforce simp: expand_dependency_def Let_def give_up_def split: if_splits option.splits)
  from f [OF \<open>x = None\<close>] show ?thesis using expanded_regular [OF _ _ assms(2)] by blast
qed

lemma expansion_regular:
  "expand_first_repairable_rejection k d c = Inr (Some d', t) \<Longrightarrow> \<forall>p\<in>set d. regular k p \<Longrightarrow> \<forall>p\<in>set d'. regular k p"
  by (auto simp: expand_first_repairable_rejection_def dest: expand_overlap_regular expand_dependency_regular
      split: list.splits option.splits)

definition evaluated ::
    "(string \<Rightarrow> string) \<Rightarrow> calendar \<Rightarrow> repair_context \<Rightarrow> draft list \<Rightarrow> repair_search \<Rightarrow> bool" where
  "evaluated sha256 cal k ds st \<longleftrightarrow>
     list_all2 (\<lambda>d c. evaluate_draft sha256 cal k d = Inr c) ds (rp_candidates st) \<and>
     set (rp_seen st) = set (map signature_of ds) \<and> distinct (map signature_of ds) \<and>
     length ds \<le> MAX_EVALUATED_CANDIDATES \<and>
     (\<forall>d\<in>set ds \<union> set (rp_pending st). \<forall>p\<in>set d. regular k p)"

definition limit_entry :: "SearchTraceEntry \<Rightarrow> bool" where
  "limit_entry e \<longleftrightarrow> se_reason_code e = ReasonCode.SEARCH_ENVELOPE_LIMIT"

definition exhaustion_recorded :: "repair_search \<Rightarrow> bool" where
  "exhaustion_recorded st \<longleftrightarrow>
     (rp_exhausted st \<longleftrightarrow> (\<exists>e\<in>set (rp_trace st). limit_entry e) \<or> rp_truncated st) \<and>
     (rp_truncated st \<longrightarrow> MAX_EVALUATED_CANDIDATES \<le> length (rp_candidates st))"

lemma pop_draft_keeps:
  assumes "pop_draft k st = Inr (x, st')"
  shows "rp_candidates st' = rp_candidates st" "rp_seen st' = rp_seen st" "rp_trace st' = rp_trace st"
    "rp_exhausted st' = rp_exhausted st" "rp_truncated st' = rp_truncated st" "rp_insufficient st' = rp_insufficient st"
  using assms by (auto simp: pop_draft_def split: list.splits)

lemma evaluate_step_evaluated:
  assumes "evaluate_step sha256 cal k d st = Inr st'" "evaluated sha256 cal k ds st" "signature_of d \<notin> set (rp_seen st)"
    "length (rp_candidates st) < MAX_EVALUATED_CANDIDATES" "\<forall>p\<in>set d. regular k p"
  shows "evaluated sha256 cal k (ds @ [d]) st'"
proof (rule evaluate_step_Inr [OF assms(1)])
  fix c x t
  assume "evaluate_draft sha256 cal k d = Inr c" "st' = push_expansion x (record_trace t (candidate_recorded d c st))"
  moreover assume "expand_first_repairable_rejection k d c = Inr (x, t)"
  then have "\<forall>p\<in>set d'. regular k p" if "x = Some d'" for d' using that expansion_regular [of k d c d' t] assms(5) by simp
  moreover have "length ds = length (rp_candidates st)" using assms(2) by (auto simp: evaluated_def dest: list_all2_lengthD)
  moreover have "set (rp_pending (push_expansion x (record_trace t (candidate_recorded d c st)))) \<subseteq> set_option x \<union> set (rp_pending st)"
    by (auto simp: push_expansion_def split: option.split)
  ultimately show ?thesis
    using assms(2-5) by (fastforce simp: evaluated_def list_all2_appendI)
qed

lemma evaluate_step_exhaustion:
  assumes "evaluate_step sha256 cal k d st = Inr st'" "exhaustion_recorded st" "length (rp_candidates st) < MAX_EVALUATED_CANDIDATES"
  shows "exhaustion_recorded st'"
proof (rule evaluate_step_Inr [OF assms(1)])
  fix c x t
  assume st': "st' = push_expansion x (record_trace t (candidate_recorded d c st))"
  have "exhaustion_recorded (candidate_recorded d c st)" using assms(2,3) by (auto simp: exhaustion_recorded_def)
  then have "exhaustion_recorded (record_trace t (candidate_recorded d c st))"
    by (auto simp: exhaustion_recorded_def record_trace_def limit_entry_def split: option.split)
  then show ?thesis unfolding st'
    by (auto simp: exhaustion_recorded_def push_expansion_def split: option.split)
qed

lemma search_loop_evaluated:
  "search_loop sha256 cal k st = Inr st' \<Longrightarrow> evaluated sha256 cal k ds st \<Longrightarrow> exhaustion_recorded st \<Longrightarrow>
     \<exists>ds'. evaluated sha256 cal k ds' st' \<and> exhaustion_recorded st'"
proof (induction sha256 cal k st arbitrary: ds rule: search_loop.induct)
  case (1 sha256 cal k st)
  show ?case
  proof (cases "MAX_EVALUATED_CANDIDATES \<le> length (rp_candidates st)")
    case True
    then show ?thesis using 1(3-) by (auto simp: search_loop.simps [of _ _ _ st])
  next
    case False
    show ?thesis
    proof (cases "pop_draft k st")
      case (Inl e)
      then show ?thesis using 1(3) False by (simp add: search_loop.simps [of _ _ _ st])
    next
      case (Inr y)
      obtain x st1 where y: "y = (x, st1)" by (cases y)
      note keeps = pop_draft_keeps [OF Inr [unfolded y]]
      note regular = pop_draft_regular [OF Inr [unfolded y]]
      have "\<forall>d\<in>set (rp_pending st). \<forall>p\<in>set d. regular k p" using 1(4) by (simp add: evaluated_def ball_Un)
      note pending = regular(1) [OF this]
      have ok: "evaluated sha256 cal k ds st1" "exhaustion_recorded st1"
        using 1(4,5) keeps pending by (auto simp: evaluated_def exhaustion_recorded_def)
      have x: "\<forall>p\<in>set d. regular k p" if "x = Some d" for d
        using regular(2) [OF _ that] 1(4) by (simp add: evaluated_def ball_Un)
      show ?thesis
      proof (cases x)
        case None
        then show ?thesis using 1(3) False Inr y ok by (auto simp: search_loop.simps [of _ _ _ st])
      next
        case (Some d)
        show ?thesis
        proof (cases "signature_of d \<in> set (rp_seen st1)")
          case True
          have "search_loop sha256 cal k st1 = Inr st'" using 1(3) False Inr y Some True by (simp add: search_loop.simps [of _ _ _ st])
          from 1(1) [OF False Inr y [symmetric] Some True this ok] show ?thesis .
        next
          case new: False
          show ?thesis
          proof (cases "evaluate_step sha256 cal k d st1")
            case (Inl e)
            then show ?thesis using 1(3) False Inr y Some new by (simp add: search_loop.simps [of _ _ _ st] \<open>pop_draft k st = Inr y\<close>)
          next
            case step: (Inr st2)
            have "search_loop sha256 cal k st2 = Inr st'"
              using 1(3) False Inr y Some new step by (simp add: search_loop.simps [of _ _ _ st])
            moreover have less: "length (rp_candidates st1) < MAX_EVALUATED_CANDIDATES" using False keeps(1) by simp
            ultimately show ?thesis
              using 1(2) [OF False Inr y [symmetric] Some new step _ evaluate_step_evaluated [OF step ok(1) new less x [OF Some]]
                evaluate_step_exhaustion [OF step ok(2) less]] by simp
          qed
        qed
      qed
    qed
  qed
qed


text \<open>An invariant of the loop is one of its two steps.\<close>

lemma search_loop_invariant:
  assumes "search_loop sha256 cal k st = Inr st'" "P st"
    and pop: "\<And>st x st1. pop_draft k st = Inr (x, st1) \<Longrightarrow> P st \<Longrightarrow> P st1"
    and step: "\<And>d st st1. evaluate_step sha256 cal k d st = Inr st1 \<Longrightarrow> P st \<Longrightarrow> P st1"
  shows "P st'"
  using assms
proof (induction sha256 cal k st rule: search_loop.induct)
  case (1 sha256 cal k st)
  show ?case
  proof (cases "MAX_EVALUATED_CANDIDATES \<le> length (rp_candidates st)")
    case True
    then show ?thesis using 1(3,4) by (simp add: search_loop.simps [of _ _ _ st])
  next
    case False
    then obtain x st1 where pop: "pop_draft k st = Inr (x, st1)"
      using 1(3) by (cases "pop_draft k st") (auto simp: search_loop.simps [of _ _ _ st])
    have p: "P st1" by (rule 1(5) [OF pop 1(4)])
    show ?thesis
    proof (cases x)
      case None
      then show ?thesis using 1(3) False pop p by (simp add: search_loop.simps [of _ _ _ st])
    next
      case (Some d)
      show ?thesis
      proof (cases "signature_of d \<in> set (rp_seen st1)")
        case True
        have "search_loop sha256 cal k st1 = Inr st'" using 1(3) False pop Some True by (simp add: search_loop.simps [of _ _ _ st])
        from 1(1) [OF False pop refl Some True this p 1(5,6)] show ?thesis .
      next
        case new: False
        then obtain st2 where st2: "evaluate_step sha256 cal k d st1 = Inr st2"
          using 1(3) False pop Some by (cases "evaluate_step sha256 cal k d st1") (auto simp: search_loop.simps [of _ _ _ st])
        have "search_loop sha256 cal k st2 = Inr st'" using 1(3) False pop Some new st2 by (simp add: search_loop.simps [of _ _ _ st])
        from 1(2) [OF False pop refl Some new st2 this 1(6) [OF st2 p] 1(5,6)] show ?thesis .
      qed
    qed
  qed
qed

text \<open>Missing evidence is kept: of the direct commitments, and of every candidate that met it.\<close>

definition unknown_kept :: "string list \<Rightarrow> repair_search \<Rightarrow> bool" where
  "unknown_kept unknown st \<longleftrightarrow> set unknown \<subseteq> set (rp_insufficient st) \<and>
     (\<forall>c\<in>set (rp_candidates st). (\<exists>r\<in>set (mr_rejection_trace c). tk_status r = ConstraintStatus.UNKNOWN) \<longrightarrow>
        set (mr_modified_commitment_ids c) \<subseteq> set (rp_insufficient st))"

lemma search_loop_unknown_kept:
  assumes "search_loop sha256 cal k st = Inr st'" "unknown_kept unknown st"
  shows "unknown_kept unknown st'"
  using assms
proof (rule search_loop_invariant)
  fix st x st1
  assume "pop_draft k st = Inr (x, st1)" "unknown_kept unknown st"
  then show "unknown_kept unknown st1" using pop_draft_keeps by (simp add: unknown_kept_def)
next
  fix d st st1
  assume step: "evaluate_step sha256 cal k d st = Inr st1" and kept: "unknown_kept unknown st"
  show "unknown_kept unknown st1"
  proof (rule evaluate_step_Inr [OF step])
    fix c x t
    assume st1: "st1 = push_expansion x (record_trace t (candidate_recorded d c st))"
    have "unknown_kept unknown (candidate_recorded d c st)"
      using kept by (fastforce simp: unknown_kept_def candidate_recorded_def)
    then show "unknown_kept unknown st1"
      unfolding st1 by (fastforce simp: unknown_kept_def record_trace_def split: option.splits)
  qed
qed


section \<open>What is left of the stream\<close>

text \<open>The seed placements that the stream still has to propose: of the current pair, and of later pairs.\<close>

type_synonym seed = "string \<times> string \<times> int \<times> string option"

definition seed_of :: "repair_context \<Rightarrow> seed \<Rightarrow> draft option result" where
  "seed_of k q = (case q of (i, w, s, v) \<Rightarrow> seed_draft k i w s v)"

definition current_seeds :: "draft_stream \<Rightarrow> seed set" where
  "current_seeds st = {(i, w, s, v). dm_commitment_id st = Some i \<and> dm_worker_id st = Some w \<and>
     (\<exists>a b. dm_anchor_index st \<le> a \<and> a < length (dm_starts st) \<and> b < length (dm_vehicles st) \<and>
        (a = dm_anchor_index st \<longrightarrow> dm_vehicle_index st \<le> b) \<and> s = dm_starts st ! a \<and> v = dm_vehicles st ! b)}"

definition pair_seeds :: "repair_context \<Rightarrow> string \<Rightarrow> string \<Rightarrow> seed set" where
  "pair_seeds k i w = {(i', w', s, v). i' = i \<and> w' = w \<and>
     (\<exists>starts vehicles. anchor_starts k i w = Inr starts \<and> repair_vehicle_options k i w = Inr vehicles \<and>
        s \<in> set starts \<and> v \<in> set vehicles)}"

definition later_seeds :: "repair_context \<Rightarrow> draft_stream \<Rightarrow> seed set" where
  "later_seeds k st = (\<Union>n\<in>{dm_pair_index st..<total_pair_count st}.
     pair_seeds k (dm_single_ids st ! (n div length (dm_workers st))) (dm_workers st ! (n mod length (dm_workers st))))"

definition seeds_left :: "repair_context \<Rightarrow> draft_stream \<Rightarrow> seed set" where
  "seeds_left k st = current_seeds st \<union> later_seeds k st"

lemma seeds_left_None:
  assumes "\<not> has_unexplored st"
  shows "seeds_left k st = {}"
  using assms by (auto simp: seeds_left_def current_seeds_def later_seeds_def has_unexplored_def)

lemma take_draft_seeds:
  assumes "dm_anchor_index st < length (dm_starts st)" "take_draft k st = Inr x" "q \<in> seeds_left k st"
  shows "q \<in> seeds_left k (advance st) \<or> seed_of k q = Inr x"
proof (cases "q \<in> current_seeds st")
  case True
  obtain i w s v where q: "q = (i, w, s, v)" by (cases q)
  obtain a b where ab: "dm_anchor_index st \<le> a" "a < length (dm_starts st)" "b < length (dm_vehicles st)"
      "a = dm_anchor_index st \<longrightarrow> dm_vehicle_index st \<le> b" "s = dm_starts st ! a" "v = dm_vehicles st ! b"
    and iw: "dm_commitment_id st = Some i" "dm_worker_id st = Some w"
    using True by (auto simp: q current_seeds_def)
  show ?thesis
  proof (cases "a = dm_anchor_index st \<and> b = dm_vehicle_index st")
    case True
    then show ?thesis using assms(2) ab iw by (auto simp: q take_draft_def seed_of_def split: if_splits)
  next
    case False
    have "dm_anchor_index (advance st) \<le> a" "a = dm_anchor_index (advance st) \<longrightarrow> dm_vehicle_index (advance st) \<le> b"
      using ab(1,3,4) False by (auto simp: advance_def)
    moreover have "dm_starts (advance st) = dm_starts st" "dm_vehicles (advance st) = dm_vehicles st"
        "dm_commitment_id (advance st) = dm_commitment_id st" "dm_worker_id (advance st) = dm_worker_id st"
      by (simp_all add: advance_def)
    ultimately have "q \<in> current_seeds (advance st)"
      unfolding q current_seeds_def using ab iw by simp blast
    then show ?thesis by (simp add: seeds_left_def)
  qed
next
  case False
  then have "q \<in> later_seeds k st" using assms(3) by (simp add: seeds_left_def)
  then have "q \<in> later_seeds k (advance st)" by (simp add: later_seeds_def advance_def total_pair_count_def)
  then show ?thesis by (simp add: seeds_left_def)
qed

lemma probe_seeds:
  assumes "\<not> dm_anchor_index st < length (dm_starts st)" "probe_next_pair k st = Inr (True, st')" "q \<in> seeds_left k st"
  shows "q \<in> seeds_left k st'"
proof -
  have none: "current_seeds st = {}" using assms(1) by (auto simp: current_seeds_def)
  then obtain n where n: "dm_pair_index st \<le> n" "n < total_pair_count st"
    "q \<in> pair_seeds k (dm_single_ids st ! (n div length (dm_workers st))) (dm_workers st ! (n mod length (dm_workers st)))"
    using assms(3) by (auto simp: seeds_left_def later_seeds_def)
  obtain starts vehicles where probe: "anchor_starts k (dm_single_ids st ! (dm_pair_index st div length (dm_workers st)))
        (dm_workers st ! (dm_pair_index st mod length (dm_workers st))) = Inr starts"
      "repair_vehicle_options k (dm_single_ids st ! (dm_pair_index st div length (dm_workers st)))
        (dm_workers st ! (dm_pair_index st mod length (dm_workers st))) = Inr vehicles"
      "st' = st\<lparr>dm_pair_index := dm_pair_index st + 1, dm_pair_probe_count := dm_pair_probe_count st + 1,
          dm_commitment_id := Some (dm_single_ids st ! (dm_pair_index st div length (dm_workers st))),
          dm_worker_id := Some (dm_workers st ! (dm_pair_index st mod length (dm_workers st))),
          dm_starts := starts, dm_vehicles := vehicles, dm_anchor_index := 0, dm_vehicle_index := 0\<rparr>"
    using assms(2) by (auto simp: probe_next_pair_def Let_def split: if_splits)
  show ?thesis
  proof (cases "n = dm_pair_index st")
    case True
    then have "q \<in> current_seeds st'"
      using n(3) probe by (auto simp: pair_seeds_def current_seeds_def in_set_conv_nth)
    then show ?thesis by (simp add: seeds_left_def)
  next
    case False
    then have "n \<in> {dm_pair_index st'..<total_pair_count st'}" using n probe(3) by (simp add: total_pair_count_def)
    then have "q \<in> later_seeds k st'" using n(3) probe(3) unfolding later_seeds_def by auto
    then show ?thesis by (simp add: seeds_left_def)
  qed
qed

lemma probe_stops:
  assumes "probe_next_pair k st = Inr (False, st')" "\<not> dm_probe_budget_exhausted st'"
  shows "st' = st" "total_pair_count st \<le> dm_pair_index st"
  using assms by (auto simp: probe_next_pair_def Let_def split: if_splits)

text \<open>A seed leaves the stream only as the draft it returns, or past the horizon.\<close>

lemma next_draft_seeds:
  "next_draft k st = Inr (x, st') \<Longrightarrow> q \<in> seeds_left k st \<Longrightarrow>
     (x = None \<and> dm_probe_budget_exhausted st') \<or> seed_of k q = Inr None \<or>
     (x \<noteq> None \<and> (q \<in> seeds_left k st' \<or> seed_of k q = Inr x))"
proof (induction k st rule: next_draft.induct)
  case (1 k st)
  show ?case
  proof (cases "dm_anchor_index st < length (dm_starts st)")
    case True
    show ?thesis
    proof (cases "take_draft k st")
      case (Inl e)
      then show ?thesis using 1(3) True by (simp add: next_draft.simps [of k st])
    next
      case (Inr y)
      note seeds = take_draft_seeds [OF True Inr 1(4)]
      show ?thesis
      proof (cases y)
        case None
        have "next_draft k (advance st) = Inr (x, st')" using 1(3) True Inr None by (simp add: next_draft.simps [of k st])
        with 1(1) [OF True Inr None] seeds None show ?thesis by blast
      next
        case (Some d)
        then show ?thesis using 1(3) True Inr seeds by (auto simp: next_draft.simps [of k st])
      qed
    qed
  next
    case False
    show ?thesis
    proof (cases "probe_next_pair k st")
      case (Inl e)
      then show ?thesis using 1(3) False by (simp add: next_draft.simps [of k st])
    next
      case (Inr y)
      obtain b s where y: "y = (b, s)" by (cases y)
      show ?thesis
      proof (cases b)
        case True
        have "next_draft k s = Inr (x, st')" using 1(3) False Inr y True by (simp add: next_draft.simps [of k st])
        moreover have "q \<in> seeds_left k s" by (rule probe_seeds [OF False _ 1(4)]) (simp add: Inr y True)
        ultimately show ?thesis using 1(2) [OF False Inr y [symmetric]] True by simp
      next
        case b: False
        have x: "x = None" "st' = s" using 1(3) False Inr y b by (simp_all add: next_draft.simps [of k st])
        have "dm_probe_budget_exhausted s"
        proof (rule ccontr)
          assume "\<not> dm_probe_budget_exhausted s"
          then have "\<not> has_unexplored st" using probe_stops [of k st s] Inr y b False by (simp add: has_unexplored_def)
          with 1(4) show False by (simp add: seeds_left_None)
        qed
        then show ?thesis using x by simp
      qed
    qed
  qed
qed


section \<open>The seeds a search has settled\<close>

definition settled :: "repair_context \<Rightarrow> repair_search \<Rightarrow> seed \<Rightarrow> bool" where
  "settled k st q \<longleftrightarrow> seed_of k q = Inr None \<or> (\<exists>d. seed_of k q = Inr (Some d) \<and> signature_of d \<in> set (rp_seen st))"

definition accounted :: "repair_context \<Rightarrow> seed set \<Rightarrow> repair_search \<Rightarrow> bool" where
  "accounted k Q st \<longleftrightarrow> (\<forall>q\<in>Q. q \<in> seeds_left k (rp_primary st) \<or> settled k st q)"

lemma settled_mono: "settled k st q \<Longrightarrow> set (rp_seen st) \<subseteq> set (rp_seen st') \<Longrightarrow> settled k st' q"
  by (auto simp: settled_def)

lemma pop_draft_primary:
  assumes "pop_draft k st = Inr (x, st')"
  shows "(\<exists>d. x = Some d \<and> rp_primary st' = rp_primary st) \<or> next_draft k (rp_primary st) = Inr (x, rp_primary st')"
  using assms by (auto simp: pop_draft_def split: list.splits)

lemma pop_draft_accounted:
  assumes "pop_draft k st = Inr (Some d, st')" "accounted k Q st" "q \<in> Q"
  shows "q \<in> seeds_left k (rp_primary st') \<or> settled k st' q \<or> seed_of k q = Inr (Some d)"
proof (cases "settled k st q")
  case True
  then show ?thesis using pop_draft_keeps(2) [OF assms(1)] by (auto intro: settled_mono)
next
  case False
  then have "q \<in> seeds_left k (rp_primary st)" using assms(2,3) by (auto simp: accounted_def)
  with pop_draft_primary [OF assms(1)] next_draft_seeds [of k "rp_primary st" "Some d" "rp_primary st'" q]
  show ?thesis by (auto simp: settled_def)
qed

lemma pop_draft_ends:
  assumes "pop_draft k st = Inr (None, st')" "accounted k Q st"
  shows "dm_probe_budget_exhausted (rp_primary st') \<or> (\<forall>q\<in>Q. settled k st' q)"
proof (rule disjCI)
  assume budget: "\<not> (\<forall>q\<in>Q. settled k st' q)"
  show "dm_probe_budget_exhausted (rp_primary st')"
  proof (rule ccontr)
    assume no: "\<not> dm_probe_budget_exhausted (rp_primary st')"
    have "settled k st' r" if "r \<in> Q" for r
    proof (cases "settled k st r")
      case True
      then show ?thesis using pop_draft_keeps(2) [OF assms(1)] by (auto intro: settled_mono)
    next
      case False
      then have "r \<in> seeds_left k (rp_primary st)" using assms(2) that by (auto simp: accounted_def)
      with pop_draft_primary [OF assms(1)] next_draft_seeds [of k "rp_primary st" None "rp_primary st'" r] no
      show ?thesis by (auto simp: settled_def)
    qed
    with budget show False by blast
  qed
qed

lemma evaluate_step_accounted:
  assumes "evaluate_step sha256 cal k d st = Inr st'"
    "\<forall>q\<in>Q. q \<in> seeds_left k (rp_primary st) \<or> settled k st q \<or> seed_of k q = Inr (Some d)"
  shows "accounted k Q st'"
proof (rule evaluate_step_Inr [OF assms(1)])
  fix c x t
  assume "st' = push_expansion x (record_trace t (candidate_recorded d c st))"
  with assms(2) show ?thesis by (fastforce simp: accounted_def settled_def)
qed

lemma search_loop_accounted:
  "search_loop sha256 cal k st = Inr st' \<Longrightarrow> accounted k Q st \<Longrightarrow>
     (MAX_EVALUATED_CANDIDATES \<le> length (rp_candidates st') \<and> accounted k Q st') \<or>
     dm_probe_budget_exhausted (rp_primary st') \<or> (\<forall>q\<in>Q. settled k st' q)"
proof (induction sha256 cal k st rule: search_loop.induct)
  case (1 sha256 cal k st)
  show ?case
  proof (cases "MAX_EVALUATED_CANDIDATES \<le> length (rp_candidates st)")
    case True
    then show ?thesis using 1(3-) by (auto simp: search_loop.simps [of _ _ _ st])
  next
    case False
    show ?thesis
    proof (cases "pop_draft k st")
      case (Inl e)
      then show ?thesis using 1(3) False by (simp add: search_loop.simps [of _ _ _ st])
    next
      case (Inr y)
      obtain x st1 where y: "y = (x, st1)" by (cases y)
      show ?thesis
      proof (cases x)
        case None
        then have "st' = st1" using 1(3) False Inr y by (simp add: search_loop.simps [of _ _ _ st])
        with pop_draft_ends [of k st st1 Q] Inr y None 1(4) show ?thesis by simp
      next
        case (Some d)
        note popped = pop_draft_accounted [OF Inr [unfolded y Some] 1(4)]
        show ?thesis
        proof (cases "signature_of d \<in> set (rp_seen st1)")
          case True
          have "accounted k Q st1" unfolding accounted_def
          proof
            fix q
            assume "q \<in> Q"
            from popped [OF this] True show "q \<in> seeds_left k (rp_primary st1) \<or> settled k st1 q" by (auto simp: settled_def)
          qed
          moreover have "search_loop sha256 cal k st1 = Inr st'" using 1(3) False Inr y Some True by (simp add: search_loop.simps [of _ _ _ st])
          ultimately show ?thesis using 1(1) [OF False Inr y [symmetric] Some True] by simp
        next
          case new: False
          show ?thesis
          proof (cases "evaluate_step sha256 cal k d st1")
            case (Inl e)
            then show ?thesis using 1(3) False Inr y Some new by (simp add: search_loop.simps [of _ _ _ st] \<open>pop_draft k st = Inr y\<close>)
          next
            case step: (Inr st2)
            have "search_loop sha256 cal k st2 = Inr st'"
              using 1(3) False Inr y Some new step by (simp add: search_loop.simps [of _ _ _ st])
            moreover have "accounted k Q st2" using popped by (intro evaluate_step_accounted [OF step]) blast
            ultimately show ?thesis using 1(2) [OF False Inr y [symmetric] Some new step] by simp
          qed
        qed
      qed
    qed
  qed
qed

text \<open>The seeds of the direct commitments are those of the first stream.\<close>

lemma initial_seeds:
  assumes "i \<in> set single_ids" "w \<in> set (map wt_worker_id (fs_worker_technical_evidence (kx_support k)))"
    "w \<noteq> ei_unavailable_worker_id (kx_evaluation k)"
  shows "pair_seeds k i w \<subseteq> seeds_left k (initial_stream k single_ids)"
proof -
  let ?st = "initial_stream k single_ids"
  have "w \<in> set (dm_workers ?st)" "i \<in> set (dm_single_ids ?st)" using assms by (simp_all add: initial_stream_def)
  then obtain a b where a: "a < length (dm_single_ids ?st)" "dm_single_ids ?st ! a = i"
    and b: "b < length (dm_workers ?st)" "dm_workers ?st ! b = w" by (auto simp: in_set_conv_nth)
  have position: "(a * m + b) div m = a \<and> (a * m + b) mod m = b" if "b < m" for a b m :: nat
    using that by (cases "m = 0") (simp_all add: div_mult_self3)
  let ?n = "a * length (dm_workers ?st) + b"
  have "?n < (a + 1) * length (dm_workers ?st)" using b by simp
  also have "\<dots> \<le> total_pair_count ?st" using a(1) unfolding total_pair_count_def by (intro mult_le_mono1) simp
  finally have "?n \<in> {dm_pair_index ?st..<total_pair_count ?st}" by (simp add: initial_stream_def)
  moreover have "?n div length (dm_workers ?st) = a" "?n mod length (dm_workers ?st) = b"
    using b position [of b "length (dm_workers ?st)"] by simp_all
  ultimately show ?thesis unfolding seeds_left_def later_seeds_def using a b by (intro le_supI2 SUP_upper2) auto
qed

end
