(* ===== verification/Repair_Example.thy ===== *)
theory Repair_Example
  imports Repair_Completeness
begin

text \<open>
  A small evidence cut: worker W1 is unavailable, her commitment C1 of 08:00 may go to W2, who is skilled for
  it and available from 08:00 to 09:00. The search proposes that one placement, and it is feasible.
\<close>

definition ex_digest :: string where
  "ex_digest = replicate 64 (CHR ''a'')"

definition ex_sha :: "string \<Rightarrow> string" where
  "ex_sha s = ex_digest"

definition ex_hour :: "int \<Rightarrow> int" where
  "ex_hour h = h * 3600000000"

definition ex_zone :: zone_rules where
  "ex_zone = \<lparr>zr_local_date = (\<lambda>t. t div 86400000000), zr_day_start = (\<lambda>d. d * 86400000000)\<rparr>"

definition ex_zones :: "string \<Rightarrow> zone_rules option" where
  "ex_zones n = (if n = BUSINESS_TIMEZONE then Some ex_zone else None)"

definition ex_commitment :: "string \<Rightarrow> string \<Rightarrow> string \<Rightarrow> string \<Rightarrow> string \<Rightarrow> CurrentCommitmentEvidence" where
  "ex_commitment i j t w a =
     \<lparr>cv_commitment_id = i, cv_job_id = j, cv_task_id = t, cv_task_definition_version = ''v1'', cv_source_handoff_id = ''H1'',
      cv_source_revision = 1, cv_source_handoff_sha256 = ex_digest, cv_business_date = 0, cv_planned_worker_ids = [w],
      cv_source_m2_assignment_ids = [a]\<rparr>"

definition ex_assignment :: "string \<Rightarrow> string \<Rightarrow> string \<Rightarrow> string \<Rightarrow> HistoricalAssignmentEvidence" where
  "ex_assignment a j t w =
     \<lparr>ha_assignment_id = a, ha_job_id = j, ha_task_id = t, ha_task_definition_version = ''v1'',
      ha_assignment_kind = AssignmentKind.SINGLE, ha_member_worker_ids = [w], ha_plan_day_ids = [''P1''], ha_lead_worker_id = None,
      ha_released_worker_ids = [], ha_supersedes_assignment_id = None, ha_task_status = TaskStatus.OPEN,
      ha_task_source_handoff_id = ''H1'', ha_task_source_revision = 1, ha_supersedes_task_id = None,
      ha_job_execution_revision = 0, ha_job_root_sha256 = ex_digest\<rparr>"

definition ex_evaluation :: M3EvaluationInput where
  "ex_evaluation =
     \<lparr>ei_historical_source_scope = \<lparr>hs_request_fingerprint = ex_digest, hs_input_namespace = ''field'', hs_event_id = ''E1'',
        hs_server_event_id = ''S1'', hs_input_payload_sha256 = ex_digest, hs_reduction_proof_sha256 = ex_digest, hs_effect_ordinal = 0,
        hs_effect_sha256 = ex_digest, hs_historical_plan_result_sha256 = ex_digest,
        hs_assignments = [ex_assignment ''A1'' ''J1'' ''T1'' ''W1''], hs_job_roots = [\<lparr>hj_job_id = ''J1'', hj_revision = 0, hj_content_sha256 = ex_digest\<rparr>]\<rparr>,
      ei_company_plan_id = ''PLAN'', ei_base_plan_revision = 1, ei_base_plan_revision_id = ''m3-plan-revision-'' @ ex_digest,
      ei_base_plan_revision_fingerprint = ex_digest, ei_current_planning_scope_fingerprint = ex_digest,
      ei_unavailable_worker_id = ''W1'', ei_business_date = 0, ei_plan_day_id = ''P1'',
      ei_plan_day_associations = [\<lparr>pe_plan_day_id = ''P1'', pe_worker_id = ''W1'', pe_business_date = 0\<rparr>],
      ei_current_active_commitments = [ex_commitment ''C1'' ''J1'' ''T1'' ''W1'' ''A1''],
      ei_current_m2_task_preconditions = [\<lparr>tp_job_id = ''J1'', tp_job_execution_revision = 0, tp_job_root_sha256 = ex_digest,
        tp_task_id = ''T1'', tp_task_definition_version = ''v1'', tp_task_route_sha256 = ex_digest, tp_source_handoff_id = ''H1'',
        tp_source_revision = 1, tp_task_status = TaskStatus.OPEN\<rparr>],
      ei_current_m2_assignment_preconditions = [\<lparr>ap_assignment_id = ''A1'', ap_job_id = ''J1'', ap_task_id = ''T1'',
        ap_assignment_route_sha256 = ex_digest, ap_plan_day_ids = [''P1'']\<rparr>],
      ei_direct_current_impact = \<lparr>dx_m3a_evaluation_id = ''m3-impact-'' @ ex_digest, dx_m3a_evaluation_fingerprint = ex_digest,
        dx_outcome = M3ImpactOutcome.REPLAN_REQUIRED,
        dx_commitments = [\<lparr>ir_commitment_id = ''C1'', ir_job_id = ''J1'', ir_task_id = ''T1''\<rparr>]\<rparr>,
      ei_dependency_impact = \<lparr>dn_edges = [], dn_commitments = []\<rparr>,
      ei_candidate_induced_impact = \<lparr>cd_status = CANDIDATE_ABSENCE, cd_candidate_fingerprint = None, cd_commitments = []\<rparr>\<rparr>"

definition ex_constraint :: "string \<Rightarrow> string \<Rightarrow> string \<Rightarrow> TaskConstraintSource" where
  "ex_constraint j t place =
     \<lparr>tc_job_id = j, tc_task_id = t, tc_task_definition_version = ''v1'', tc_source_handoff_id = ''H1'', tc_source_revision_number = 1,
      tc_m8_sku = ''SKU'', tc_duration_seconds = 3600, tc_location_reference = place, tc_location_fingerprint = ex_digest,
      tc_customer_window_state = ConstraintKnowledge.ABSENT, tc_customer_window_start = None, tc_customer_window_end = None,
      tc_hard_deadline_state = ConstraintKnowledge.ABSENT, tc_hard_deadline = None, tc_source_revision = 0,
      tc_previous_source_record_id = None, tc_provenance_reference = ''p'', tc_m8_service_catalog_version = ''c1'',
      tc_m8_planning_profile_version = ''p1'', tc_m8_configuration_fingerprint = ex_digest, tc_required_skill_key = ''K'',
      tc_minimum_skill_level = 2, tc_required_vehicle_class = ''NONE''\<rparr>"

definition ex_placement :: "string \<Rightarrow> string \<Rightarrow> string \<Rightarrow> string \<Rightarrow> int \<Rightarrow> ScheduledPlacementEvidence" where
  "ex_placement i j t w start =
     \<lparr>sl_commitment_id = i, sl_job_id = j, sl_task_id = t, sl_task_definition_version = ''v1'', sl_business_date = 0,
      sl_worker_ids = [w], sl_vehicle_id = None, sl_planned_start = start, sl_planned_end = start + ex_hour 1\<rparr>"

definition ex_technical :: "string \<Rightarrow> WorkerTechnicalEvidence" where
  "ex_technical w = \<lparr>wt_worker_id = w, wt_m8_worker_known = True, wt_skill_matrix_version = ''m1'', wt_license_b = Some True,
     wt_skill_levels = [\<lparr>wk_required_skill_key = ''K'', wk_level = Some 2\<rparr>]\<rparr>"

definition ex_available :: "string \<Rightarrow> AvailabilityEvidence" where
  "ex_available w = \<lparr>ad_subject_id = w, ad_knowledge = AvailabilityKnowledge.KNOWN, ad_coverage_start = Some 0,
     ad_coverage_end = Some (ex_hour 24), ad_available_windows = [\<lparr>ae_start_at = ex_hour 8, ae_end_at = ex_hour 9\<rparr>],
     ad_source_record_id = Some ''s'', ad_source_fingerprint = Some ex_digest, ad_source_revision = Some 0\<rparr>"

definition ex_ready :: "string \<Rightarrow> string \<Rightarrow> ReadinessEvidence" where
  "ex_ready j t = \<lparr>rn_job_id = j, rn_task_id = t, rn_task_definition_version = ''v1'', rn_status = ReadinessState.READY,
     rn_expected_at = None, rn_blocker_references = [], rn_source_record_id = Some ''r'', rn_source_fingerprint = Some ex_digest,
     rn_source_revision = Some 0\<rparr>"

definition ex_support :: FeasibilitySupportSnapshot where
  "ex_support =
     \<lparr>fs_evaluation_input_id = ''m3-evaluation-input-'' @ ex_digest, fs_evaluation_input_fingerprint = ex_digest,
      fs_company_plan_id = ''PLAN'', fs_base_plan_revision = 1, fs_base_plan_revision_id = ''m3-plan-revision-'' @ ex_digest,
      fs_base_plan_revision_fingerprint = ex_digest, fs_source_cut_id = ''m3-feasibility-source-cut-'' @ ex_digest,
      fs_source_cut_generation = 1, fs_source_cut_fingerprint = ex_digest, fs_m8_service_catalog_version = ''c1'',
      fs_m8_planning_profile_version = ''p1'', fs_m8_skill_matrix_version = ''m1'', fs_m8_vehicle_policy_version = ''v1'',
      fs_m8_configuration_fingerprint = ex_digest,
      fs_worker_registry_provenance_id = ''m3-feasibility-worker-registry-'' @ ex_digest,
      fs_worker_registry_provenance_fingerprint = ex_digest,
      fs_worker_registry_capture_id = ''m3-feasibility-worker-registry-capture-'' @ ex_digest,
      fs_worker_registry_capture_fingerprint = ex_digest, fs_worker_registry_capture_generation = 1,
      fs_worker_registry_revision = 0, fs_worker_registry_fingerprint = ex_digest,
      fs_task_constraints = [ex_constraint ''J1'' ''T1'' ''here''],
      fs_schedule = \<lparr>sh_company_plan_id = ''PLAN'', sh_base_plan_revision = 1, sh_base_plan_revision_id = ''m3-plan-revision-'' @ ex_digest,
        sh_base_plan_revision_fingerprint = ex_digest, sh_business_timezone = BUSINESS_TIMEZONE,
        sh_placements = [ex_placement ''C1'' ''J1'' ''T1'' ''W1'' (ex_hour 8)],
        sh_source_revision = 0, sh_previous_source_record_id = None, sh_provenance_reference = ''p''\<rparr>,
      fs_worker_technical_evidence = [ex_technical ''W1'', ex_technical ''W2''],
      fs_worker_availability = [ex_available ''W1'', ex_available ''W2''],
      fs_readiness = [ex_ready ''J1'' ''T1''], fs_vehicle_technical_evidence = [],
      fs_vehicle_availability = [], fs_routes = []\<rparr>"

definition ex_resolved :: "(string \<times> TaskConstraintSource \<times> ReadinessEvidence) list" where
  "ex_resolved = [(''C1'', ex_constraint ''J1'' ''T1'' ''here'', ex_ready ''J1'' ''T1'')]"

definition ex_context :: repair_context where
  "ex_context =
     \<lparr>kx_evaluation = ex_evaluation, kx_support = ex_support, kx_zone = ex_zone, kx_horizon_start = 0,
      kx_horizon_end = ex_hour 72, kx_commitments = ei_current_active_commitments ex_evaluation,
      kx_active_placements = sh_placements (fs_schedule ex_support),
      kx_constraints = (\<lambda>i. map_option (fst \<circ> snd) (dict_by fst ex_resolved i)),
      kx_workers = dict_by wt_worker_id (fs_worker_technical_evidence ex_support),
      kx_worker_availability = dict_by ad_subject_id (fs_worker_availability ex_support),
      kx_readiness = (\<lambda>i. map_option (snd \<circ> snd) (dict_by fst ex_resolved i)),
      kx_vehicles = dict_by vt_vehicle_id (fs_vehicle_technical_evidence ex_support),
      kx_vehicle_availability = dict_by ad_subject_id (fs_vehicle_availability ex_support),
      kx_routes = dict_by (\<lambda>r. (ro_origin_fingerprint r, ro_destination_fingerprint r, ro_origin_reference r,
         ro_destination_reference r)) (fs_routes ex_support),
      kx_task_to_commitment = (\<lambda>t. map_option cv_commitment_id (dict_by cv_task_id (ei_current_active_commitments ex_evaluation) t)),
      kx_direct_ids = map ir_commitment_id (dx_commitments (ei_direct_current_impact ex_evaluation))\<rparr>"

definition ex_draft :: draft where
  "ex_draft = [\<lparr>pw_commitment_id = ''C1'', pw_job_id = ''J1'', pw_task_id = ''T1'', pw_worker_id = ''W2'', pw_vehicle_id = None,
     pw_business_date = 0, pw_proposed_start = ex_hour 8, pw_proposed_end = ex_hour 9\<rparr>]"

definition ex_check :: "ReasonCode \<Rightarrow> string \<Rightarrow> string list \<Rightarrow> string option \<Rightarrow> string option \<Rightarrow> TechnicalConstraintResult" where
  "ex_check code subject evidence required actual =
     \<lparr>tk_status = ConstraintStatus.PASS, tk_reason_code = code, tk_commitment_id = ''C1'', tk_subject_id = subject,
      tk_related_commitment_ids = [], tk_evidence_reference_ids = evidence, tk_required_value = required, tk_actual_value = actual\<rparr>"

definition ex_checks :: "TechnicalConstraintResult list" where
  "ex_checks =
     [ex_check ReasonCode.EXACT_SKILL_MATCH ''W2'' [] (Some ''K:2'') (Some ''K:2''),
      ex_check ReasonCode.WORKER_AVAILABLE ''W2'' [''s''] None None,
      ex_check ReasonCode.READINESS_READY ''T1'' [''r''] (Some ''READY'') (Some ''READY''),
      ex_check ReasonCode.VEHICLE_NOT_REQUIRED ''C1'' [] (Some ''NONE'') None,
      ex_check ReasonCode.CUSTOMER_WINDOW_ABSENT ''T1'' [] None None,
      ex_check ReasonCode.DEADLINE_ABSENT ''T1'' [] None None]"

definition ex_reference :: ImpactCommitmentReference where
  "ex_reference = \<lparr>ir_commitment_id = ''C1'', ir_job_id = ''J1'', ir_task_id = ''T1''\<rparr>"

definition ex_candidate :: M3RepairCandidate where
  "ex_candidate =
     \<lparr>mr_source_evaluation_input_id = ''m3-evaluation-input-'' @ ex_digest, mr_source_evaluation_input_fingerprint = ex_digest,
      mr_source_support_snapshot_id = ''m3-feasibility-support-'' @ ex_digest, mr_source_support_snapshot_fingerprint = ex_digest,
      mr_company_plan_id = ''PLAN'', mr_base_plan_revision = 1, mr_base_plan_revision_id = ''m3-plan-revision-'' @ ex_digest,
      mr_base_plan_revision_fingerprint = ex_digest, mr_modified_commitment_ids = [''C1''], mr_canonical_job_ids = [''J1''],
      mr_canonical_task_ids = [''T1''], mr_proposed_worker_placements = ex_draft, mr_affected_dependencies = [],
      mr_impact = \<lparr>im_direct_current_impact = [ex_reference], im_dependency_impact = [], im_candidate_induced_impact = [],
        im_restored_impact = [ex_reference], im_residual_unresolved_impact = []\<rparr>,
      mr_technical_constraint_results = ex_checks, mr_verdict = CandidateVerdict.FEASIBLE, mr_rejection_trace = [],
      mr_authority_impacts = [], mr_technical_ordering = \<lparr>tx_restored_commitment_count = 1,
        tx_protected_known_customer_window_count = 0, tx_modified_commitment_count = 1, tx_travel_and_buffer_seconds = 0\<rparr>\<rparr>"

text \<open>The parts of the evaluation that no digest enters are computed, the identities are rewritten.\<close>

lemma ex_identities [simp]:
  "evaluation_input_fingerprint ex_sha cal x = ex_digest" "evaluation_input_id ex_sha cal x = ''m3-evaluation-input-'' @ ex_digest"
  "support_fingerprint ex_sha cal y = ex_digest" "support_snapshot_id ex_sha cal y = ''m3-feasibility-support-'' @ ex_digest"
  "candidate_id ex_sha cal z = ''m3-candidate-'' @ ex_digest"
  by (simp_all add: evaluation_input_fingerprint_def evaluation_input_id_def support_fingerprint_def support_snapshot_id_def
      candidate_id_def candidate_fingerprint_def ex_sha_def)

lemma ex_schedule: "final_schedule ex_context ex_draft = Inr [ex_placement ''C1'' ''J1'' ''T1'' ''W2'' (ex_hour 8)]"
  by code_simp

lemma ex_results:
  "all_results plain_calendar ex_context ex_draft [ex_placement ''C1'' ''J1'' ''T1'' ''W2'' (ex_hour 8)] = Inr (ex_checks, [], 0)"
  by code_simp

lemma ex_candidate_ok: "M3RepairCandidate_init ex_candidate = Inr ex_candidate"
  by code_simp

lemma ex_induced:
  "candidate_induced_refs ex_context ex_draft [ex_placement ''C1'' ''J1'' ''T1'' ''W2'' (ex_hour 8)]
     (affected_dependencies ex_context (map pw_task_id ex_draft)) = Inr []"
  by code_simp

lemma ex_parts:
  "remdups (map pw_commitment_id ex_draft) = [''C1'']" "sort_key pw_key ex_draft = ex_draft"
  "map pw_commitment_id ex_draft = [''C1'']" "sorted_set (map pw_job_id ex_draft) = [''J1'']"
  "sorted_set (map pw_task_id ex_draft) = [''T1'']" "baseline_dependency ex_context = Inr []"
  "affected_dependencies ex_context (map pw_task_id ex_draft) = []"
  "dx_commitments (ei_direct_current_impact ex_evaluation) = [ex_reference]"
  "values_by ir_commitment_id [ex_reference] = [ex_reference]" "ir_commitment_id ex_reference = ''C1''"
  by code_simp+

lemma ex_impact:
  "CandidateImpactEvidence_init (mr_impact ex_candidate) = Inr (mr_impact ex_candidate)"
  "TechnicalOrderingEvidence_init (mr_technical_ordering ex_candidate) = Inr (mr_technical_ordering ex_candidate)"
  by code_simp+

lemma ex_context_fields [simp]:
  "kx_evaluation ex_context = ex_evaluation" "kx_support ex_context = ex_support" "kx_direct_ids ex_context = [''C1'']"
  by (simp_all add: ex_context_def ex_evaluation_def)

lemma ex_evaluation_fields:
  "ei_company_plan_id ex_evaluation = ''PLAN''" "ei_base_plan_revision ex_evaluation = 1"
  "ei_base_plan_revision_id ex_evaluation = ''m3-plan-revision-'' @ ex_digest"
  "ei_base_plan_revision_fingerprint ex_evaluation = ex_digest"
  by (simp_all add: ex_evaluation_def)

lemma ex_evaluated: "evaluate_draft ex_sha plain_calendar ex_context ex_draft = Inr ex_candidate"
proof -
  have impact: "\<lparr>im_direct_current_impact = [ex_reference], im_dependency_impact = [], im_candidate_induced_impact = [],
        im_restored_impact = [ex_reference], im_residual_unresolved_impact = []\<rparr> = mr_impact ex_candidate"
    "\<lparr>tx_restored_commitment_count = 1, tx_protected_known_customer_window_count = 0, tx_modified_commitment_count = 1,
        tx_travel_and_buffer_seconds = 0\<rparr> = mr_technical_ordering ex_candidate"
    by (simp_all add: ex_candidate_def)
  have pass: "\<forall>r\<in>set ex_checks. tk_status r = ConstraintStatus.PASS" "filter (\<lambda>r. tk_status r \<noteq> ConstraintStatus.PASS) ex_checks = []"
    "filter (\<lambda>r. tk_reason_code r = ReasonCode.TECHNICALLY_FITS_WINDOW \<and> tk_status r = ConstraintStatus.PASS) ex_checks = []"
    by (simp_all add: ex_checks_def ex_check_def)
  have restored: "List.map_filter (\<lambda>i. lookup_by ir_commitment_id i [ex_reference]) [''C1''] = [ex_reference]"
    by (simp add: List.map_filter_def ex_reference_def)
  show ?thesis
    using ex_candidate_ok
    by (simp add: evaluate_draft_def Let_def ex_parts ex_schedule ex_results ex_induced [unfolded ex_parts] pass restored
        impact ex_impact ex_evaluation_fields MAX_MODIFIED_COMMITMENTS_def)
      (simp add: ex_candidate_def)
qed

text \<open>The search: one draft, one candidate, and the stream is at its end.\<close>

definition ex_stream :: draft_stream where
  "ex_stream =
     \<lparr>dm_single_ids = [''C1''], dm_workers = [''W2''], dm_pair_index = 1, dm_pair_probe_count = 1, dm_probe_budget_exhausted = False,
      dm_starts = [ex_hour 8], dm_vehicles = [None], dm_anchor_index = 1, dm_vehicle_index = 0, dm_commitment_id = Some ''C1'',
      dm_worker_id = Some ''W2''\<rparr>"

definition ex_state :: repair_search where
  "ex_state =
     \<lparr>rp_primary = ex_stream, rp_pending = [], rp_candidates = [], rp_seen = [], rp_insufficient = [], rp_trace = [],
      rp_exhausted = False, rp_truncated = False\<rparr>"

definition ex_done :: repair_search where
  "ex_done =
     \<lparr>rp_primary = ex_stream, rp_pending = [], rp_candidates = [ex_candidate], rp_seen = [signature_of ex_draft],
      rp_insufficient = [], rp_trace = [], rp_exhausted = False, rp_truncated = False\<rparr>"

lemma ex_pops:
  "pop_draft ex_context (initial_search ex_context [''C1''] [] []) = Inr (Some ex_draft, ex_state)"
  "pop_draft ex_context ex_done = Inr (None, ex_done)"
  by code_simp+

lemma ex_step: "evaluate_step ex_sha plain_calendar ex_context ex_draft ex_state = Inr ex_done"
proof -
  have "expand_first_repairable_rejection ex_context ex_draft ex_candidate = Inr (None, None)" by code_simp
  then show ?thesis
    by (simp add: evaluate_step_def ex_evaluated candidate_recorded_def record_trace_def push_expansion_def ex_done_def ex_state_def)
      (simp add: ex_candidate_def)
qed

lemma ex_loop: "search_loop ex_sha plain_calendar ex_context (initial_search ex_context [''C1''] [] []) = Inr ex_done"
proof -
  have fields: "rp_candidates (initial_search ex_context [''C1''] [] []) = []" "rp_seen ex_state = []" "rp_candidates ex_done = [ex_candidate]"
    by (simp_all add: initial_search_def ex_state_def ex_done_def)
  show ?thesis
    by (simp add: search_loop.simps [of _ _ _ "initial_search ex_context [''C1''] [] []"] search_loop.simps [of _ _ _ ex_done]
        MAX_EVALUATED_CANDIDATES_def fields ex_pops ex_step)
qed

definition ex_result :: M3BoundedFeasibilityResult where
  "ex_result =
     \<lparr>br_source_evaluation_input_id = ''m3-evaluation-input-'' @ ex_digest, br_source_evaluation_input_fingerprint = ex_digest,
      br_source_support_snapshot_id = ''m3-feasibility-support-'' @ ex_digest, br_source_support_snapshot_fingerprint = ex_digest,
      br_company_plan_id = ''PLAN'', br_base_plan_revision = 1, br_outcome = SearchOutcome.FEASIBLE_CANDIDATES_FOUND,
      br_candidates = [ex_candidate], br_feasible_candidate_ids = [''m3-candidate-'' @ ex_digest], br_rejected_candidate_ids = [],
      br_evaluated_candidate_count = 1, br_search_envelope_exhausted = False, br_global_solution_status = ''NOT_EVALUATED_GLOBALLY'',
      br_unsupported_commitment_ids = [], br_insufficient_evidence_commitment_ids = [], br_search_trace = []\<rparr>"

lemma ex_search: "search_repairs ex_sha plain_calendar ex_context = Inr ex_result"
proof -
  have classified: "traverse (classify ex_context) [''C1''] = Inr [(Some AssignmentKind.SINGLE, [])]" by code_simp
  have sorted: "sort_key (commitment_order ex_context) [''C1''] = [''C1'']" by simp
  have final: "final_traces ex_context [''C1''] ex_done = Inr (False, [])" by code_simp
  have verdict: "mr_verdict ex_candidate = CandidateVerdict.FEASIBLE" by (simp add: ex_candidate_def)
  have ids: "identity_ok (''m3-evaluation-input-'' @ ex_digest)" "identity_ok (''m3-feasibility-support-'' @ ex_digest)"
    "identity_ok ''PLAN''" "fingerprint_ok ex_digest" by code_simp+
  have done_fields: "rp_candidates ex_done = [ex_candidate]" "rp_insufficient ex_done = []" by (simp_all add: ex_done_def)
  have "search_repairs ex_sha plain_calendar ex_context =
      make_result ex_sha plain_calendar ex_context SearchOutcome.FEASIBLE_CANDIDATES_FOUND [ex_candidate] False [] [] []"
    unfolding search_repairs_def ex_context_fields classified
    by (simp add: Let_def ex_loop final verdict done_fields choose_outcome_def)
  also have "\<dots> = M3BoundedFeasibilityResult_init ex_sha plain_calendar ex_result"
    by (simp add: make_result_def ex_evaluation_fields verdict ex_result_def)
  also have "\<dots> = Inr ex_result"
    by (simp add: M3BoundedFeasibilityResult_init_def Let_def ids [simplified] verdict ex_result_def MAX_EVALUATED_CANDIDATES_def)
      (simp add: ex_candidate_def)
  finally show ?thesis .
qed

section \<open>The evidence is well formed\<close>

lemma ex_evaluation_ok: "M3EvaluationInput_init ex_evaluation = Inr ex_evaluation"
  by code_simp

lemma ex_support_ok: "support_ok ex_zones ex_support"
  by code_simp

text \<open>The binding checks read only the placements of the schedule, so the schedule may be exchanged.\<close>

definition ex_support_with :: "ScheduledPlacementEvidence list \<Rightarrow> FeasibilitySupportSnapshot" where
  "ex_support_with ps = ex_support\<lparr>fs_schedule := (fs_schedule ex_support)\<lparr>sh_placements := ps\<rparr>\<rparr>"

definition ex_context_with :: "ScheduledPlacementEvidence list \<Rightarrow> repair_context" where
  "ex_context_with ps = ex_context\<lparr>kx_support := ex_support_with ps, kx_active_placements := ps\<rparr>"

lemma ex_support_with_fields:
  "fs_evaluation_input_id (ex_support_with ps) = fs_evaluation_input_id ex_support"
  "fs_evaluation_input_fingerprint (ex_support_with ps) = fs_evaluation_input_fingerprint ex_support"
  "fs_company_plan_id (ex_support_with ps) = fs_company_plan_id ex_support"
  "fs_base_plan_revision (ex_support_with ps) = fs_base_plan_revision ex_support"
  "fs_base_plan_revision_id (ex_support_with ps) = fs_base_plan_revision_id ex_support"
  "fs_base_plan_revision_fingerprint (ex_support_with ps) = fs_base_plan_revision_fingerprint ex_support"
  "fs_task_constraints (ex_support_with ps) = fs_task_constraints ex_support"
  "fs_readiness (ex_support_with ps) = fs_readiness ex_support"
  "fs_worker_technical_evidence (ex_support_with ps) = fs_worker_technical_evidence ex_support"
  "fs_m8_skill_matrix_version (ex_support_with ps) = fs_m8_skill_matrix_version ex_support"
  "fs_routes (ex_support_with ps) = fs_routes ex_support"
  "fs_worker_availability (ex_support_with ps) = fs_worker_availability ex_support"
  "fs_vehicle_technical_evidence (ex_support_with ps) = fs_vehicle_technical_evidence ex_support"
  "fs_vehicle_availability (ex_support_with ps) = fs_vehicle_availability ex_support"
  "sh_company_plan_id (fs_schedule (ex_support_with ps)) = sh_company_plan_id (fs_schedule ex_support)"
  "sh_base_plan_revision (fs_schedule (ex_support_with ps)) = sh_base_plan_revision (fs_schedule ex_support)"
  "sh_base_plan_revision_id (fs_schedule (ex_support_with ps)) = sh_base_plan_revision_id (fs_schedule ex_support)"
  "sh_base_plan_revision_fingerprint (fs_schedule (ex_support_with ps)) = sh_base_plan_revision_fingerprint (fs_schedule ex_support)"
  "sh_business_timezone (fs_schedule (ex_support_with ps)) = sh_business_timezone (fs_schedule ex_support)"
  "sh_placements (fs_schedule (ex_support_with ps)) = ps"
  by (simp_all add: ex_support_with_def)

lemma ex_context_with_eq:
  "ex_context_with ps = \<lparr>kx_evaluation = ex_evaluation, kx_support = ex_support_with ps, kx_zone = ex_zone, kx_horizon_start = 0,
      kx_horizon_end = kx_horizon_end ex_context, kx_commitments = kx_commitments ex_context, kx_active_placements = ps,
      kx_constraints = kx_constraints ex_context, kx_workers = kx_workers ex_context,
      kx_worker_availability = kx_worker_availability ex_context, kx_readiness = kx_readiness ex_context,
      kx_vehicles = kx_vehicles ex_context, kx_vehicle_availability = kx_vehicle_availability ex_context,
      kx_routes = kx_routes ex_context, kx_task_to_commitment = kx_task_to_commitment ex_context,
      kx_direct_ids = kx_direct_ids ex_context\<rparr>"
  by (simp add: ex_context_with_def ex_context_def del: ex_context_fields)

lemma ex_bound_with:
  fixes ps :: "ScheduledPlacementEvidence list"
  defines "placements \<equiv> dict_by sl_commitment_id ps"
  assumes placed: "check_all (\<lambda>c. binding (same_placement (placements (cv_commitment_id c)) c) ''SUPPORT_ACTIVE_SCHEDULE_MISMATCH'' ''schedule'')
      (ei_current_active_commitments ex_evaluation) = Inr ()"
    and evidence: "traverse (check_task_evidence (ex_support_with ps) placements) (ei_current_active_commitments ex_evaluation) =
      Inr (map snd ex_resolved)"
    and chosen: "traverse (\<lambda>c. subscript placements (cv_commitment_id c)) (ei_current_active_commitments ex_evaluation) = Inr ps"
  shows "bound_context ex_sha ex_zones plain_calendar ex_evaluation (ex_support_with ps) = Inr (ex_context_with ps)"
proof -
  have revision: "''m3-evaluation-input-'' @ ex_digest = fs_evaluation_input_id ex_support \<and> ex_digest = fs_evaluation_input_fingerprint ex_support \<and>
      ei_company_plan_id ex_evaluation = fs_company_plan_id ex_support \<and>
      ei_base_plan_revision ex_evaluation = fs_base_plan_revision ex_support \<and>
      ei_base_plan_revision_id ex_evaluation = fs_base_plan_revision_id ex_support \<and>
      ei_base_plan_revision_fingerprint ex_evaluation = fs_base_plan_revision_fingerprint ex_support"
    and schedule: "sh_company_plan_id (fs_schedule ex_support) = fs_company_plan_id ex_support \<and>
      sh_base_plan_revision (fs_schedule ex_support) = fs_base_plan_revision ex_support \<and>
      sh_base_plan_revision_id (fs_schedule ex_support) = fs_base_plan_revision_id ex_support \<and>
      sh_base_plan_revision_fingerprint (fs_schedule ex_support) = fs_base_plan_revision_fingerprint ex_support"
    and zone: "sh_business_timezone (fs_schedule ex_support) = BUSINESS_TIMEZONE"
    and absent: "cd_status (ei_candidate_induced_impact ex_evaluation) = CANDIDATE_ABSENCE"
    and active: "values_by cv_commitment_id (ei_current_active_commitments ex_evaluation) = ei_current_active_commitments ex_evaluation"
    and resolved: "zip (map cv_commitment_id (ei_current_active_commitments ex_evaluation)) (map snd ex_resolved) = ex_resolved"
    and count: "length (remdups (map (\<lambda>t. (tc_job_id t, tc_task_id t)) (fs_task_constraints ex_support))) = length (ei_current_active_commitments ex_evaluation) \<and>
      length (remdups (map (\<lambda>r. (rn_job_id r, rn_task_id r)) (fs_readiness ex_support))) = length (ei_current_active_commitments ex_evaluation)"
    and matrix: "\<forall>w\<in>set (fs_worker_technical_evidence ex_support). wt_skill_matrix_version w = fs_m8_skill_matrix_version ex_support"
    and routes: "set (actual_routes (fs_routes ex_support)) = set (expected_routes (fs_task_constraints ex_support)) \<and>
      (\<forall>r\<in>set (fs_routes ex_support). ro_transport_mode r = ''CAR'')"
    and horizon: "zr_day_start ex_zone (ei_business_date ex_evaluation) = 0"
      "zr_day_start ex_zone (ei_business_date ex_evaluation + PLANNING_HORIZON_DAYS) = ex_hour 72"
    by code_simp+
  have holds: "binding True code name = Inr ()" for code name by (simp add: binding_def)
  have rules: "ex_zones BUSINESS_TIMEZONE = Some ex_zone" by (simp add: ex_zones_def)
  note steps = rules active placed [unfolded placements_def] evidence [unfolded placements_def]
    resolved chosen [unfolded placements_def] horizon
    revision [THEN eqTrueI] schedule [THEN eqTrueI] zone [THEN eqTrueI] absent [THEN eqTrueI]
    count [THEN eqTrueI] matrix [THEN eqTrueI] routes [THEN eqTrueI]
  show ?thesis
    by (simp only: bound_context_def Let_def ex_support_with_fields ex_identities steps holds and_then.simps option.case
        ex_context_with_eq ex_context_def repair_context.simps cong: and_then_weak_cong)
qed

lemma ex_bound: "bound_context ex_sha ex_zones plain_calendar ex_evaluation ex_support = Inr ex_context"
proof -
  have same: "ex_support_with (sh_placements (fs_schedule ex_support)) = ex_support"
    "ex_context_with (sh_placements (fs_schedule ex_support)) = ex_context"
    by (simp_all add: ex_support_with_def ex_context_with_def ex_context_def)
  show ?thesis
    by (rule ex_bound_with [of "sh_placements (fs_schedule ex_support)", unfolded same]) code_simp+
qed

end
