(* ===== verification/Repair_Properties.thy ===== *)
theory Repair_Properties
  imports Repair_Example
begin

text \<open>
  The properties of the bounded repair search. Each is stated of the search over an arbitrary validated
  evidence cut, and its witness is the cut of theory Repair_Example.
\<close>

section \<open>The result of a search\<close>

lemma sort_key_Nil: "sort_key f xs = [] \<longleftrightarrow> xs = []"
  by (metis length_0_conv length_sort)

lemma result_init_Inr:
  assumes "M3BoundedFeasibilityResult_init sha256 cal x = Inr r"
  shows "r = x\<lparr>br_unsupported_commitment_ids := sort (br_unsupported_commitment_ids x),
      br_insufficient_evidence_commitment_ids := sort (br_insufficient_evidence_commitment_ids x)\<rparr> \<and>
    length (br_candidates x) \<le> MAX_EVALUATED_CANDIDATES \<and>
    (br_search_envelope_exhausted x \<longleftrightarrow> (\<exists>e\<in>set (br_search_trace x). limit_entry e))"
  using assms unfolding M3BoundedFeasibilityResult_init_def Let_def limit_entry_def and_then_Inr check_value_Inr sum.inject(2)
  by - (elim exE conjE, intro conjI, erule sym, assumption+)

lemma make_result_fields:
  assumes "make_result sha256 cal k outcome candidates exhausted unsupported insufficient trace = Inr r"
  shows "br_candidates r = candidates" "br_outcome r = outcome" "br_search_envelope_exhausted r = exhausted"
    "br_search_trace r = trace" "br_unsupported_commitment_ids r = sort unsupported"
    "br_insufficient_evidence_commitment_ids r = sort insufficient" "length candidates \<le> MAX_EVALUATED_CANDIDATES"
    "exhausted \<longleftrightarrow> (\<exists>e\<in>set trace. limit_entry e)"
  using result_init_Inr [OF assms [unfolded make_result_def]] by simp_all

lemma final_traces_Inr:
  assumes "final_traces k single_ids st = Inr (exhausted, trace)" "\<not> exhausted"
  shows "\<not> rp_exhausted st" "\<not> dm_probe_budget_exhausted (rp_primary st)"
    "MAX_EVALUATED_CANDIDATES \<le> length (rp_candidates st) \<Longrightarrow> \<not> has_unexplored (rp_primary st)"
  using assms by (auto simp: final_traces_def split: if_splits)

lemma initial_search_fields [simp]:
  "rp_candidates (initial_search k ids unknown trace) = []" "rp_seen (initial_search k ids unknown trace) = []"
  "rp_primary (initial_search k ids unknown trace) = initial_stream k ids"
  "rp_trace (initial_search k ids unknown trace) = trace"
  "rp_insufficient (initial_search k ids unknown trace) = unknown"
  "\<not> rp_exhausted (initial_search k ids unknown trace)" "\<not> rp_truncated (initial_search k ids unknown trace)"
  by (simp_all add: initial_search_def)

lemma classify_trace: "classify k i = Inr (kind, trace) \<Longrightarrow> \<forall>e\<in>set trace. \<not> limit_entry e"
  by (auto simp: classify_def trace_of_def SearchTraceEntry_init_def limit_entry_def split: if_splits)

lemma classify_kind: "classify k i = Inr (kind, trace) \<Longrightarrow> commitment_kind k i = Inr kind"
  by (auto simp: classify_def split: if_splits)

text \<open>The cases of a search: nothing to repair, nothing it may repair, or the loop.\<close>

lemma search_repairs_cases:
  assumes "search_repairs sha256 cal k = Inr r"
  obtains (nothing) "kx_direct_ids k = []" "br_candidates r = []" "\<not> br_search_envelope_exhausted r" "br_search_trace r = []"
      "br_outcome r = SearchOutcome.NO_REPAIR_REQUIRED"
  | (unsupported) crew unknown where "kx_direct_ids k \<noteq> []" "\<forall>i\<in>set (kx_direct_ids k). commitment_kind k i \<noteq> Inr (Some AssignmentKind.SINGLE)"
      "br_candidates r = []" "\<not> br_search_envelope_exhausted r" "\<forall>e\<in>set (br_search_trace r). \<not> limit_entry e" "crew \<noteq> [] \<or> unknown \<noteq> []"
      "\<forall>i\<in>set (kx_direct_ids k). commitment_kind k i = Inr (Some AssignmentKind.CREW) \<longleftrightarrow> i \<in> set crew"
      "\<forall>i\<in>set (kx_direct_ids k). commitment_kind k i = Inr None \<longleftrightarrow> i \<in> set unknown"
      "br_unsupported_commitment_ids r = sort crew" "br_insufficient_evidence_commitment_ids r = sort unknown"
      "br_outcome r = (if crew \<noteq> [] \<and> unknown = [] then SearchOutcome.CREW_REPAIR_UNSUPPORTED else SearchOutcome.INSUFFICIENT_CRITICAL_EVIDENCE)"
  | (searched) single_ids crew unknown trace st exhausted search_trace where "kx_direct_ids k \<noteq> []"
      "\<forall>i\<in>set (kx_direct_ids k). commitment_kind k i = Inr (Some AssignmentKind.CREW) \<longleftrightarrow> i \<in> set crew"
      "\<forall>i\<in>set (kx_direct_ids k). commitment_kind k i = Inr None \<longleftrightarrow> i \<in> set unknown"
      "\<forall>i\<in>set (kx_direct_ids k). \<exists>kind. commitment_kind k i = Inr kind"
      "\<forall>i\<in>set (kx_direct_ids k). commitment_kind k i = Inr (Some AssignmentKind.SINGLE) \<longrightarrow> i \<in> set single_ids"
      "\<forall>e\<in>set trace. \<not> limit_entry e" "search_loop sha256 cal k (initial_search k single_ids unknown trace) = Inr st"
      "final_traces k single_ids st = Inr (exhausted, search_trace)" "br_candidates r = rp_candidates st"
      "br_search_envelope_exhausted r = exhausted" "br_search_trace r = search_trace" "exhausted \<longleftrightarrow> (\<exists>e\<in>set search_trace. limit_entry e)"
      "br_unsupported_commitment_ids r = sort crew" "br_insufficient_evidence_commitment_ids r = sort (remdups (rp_insufficient st))"
      "br_outcome r = choose_outcome (\<exists>c\<in>set (rp_candidates st). mr_verdict c = CandidateVerdict.FEASIBLE) exhausted (remdups (rp_insufficient st)) crew"
      "\<forall>i\<in>set single_ids. i \<in> set (kx_direct_ids k) \<and> commitment_kind k i = Inr (Some AssignmentKind.SINGLE)"
      "sorted (map (commitment_order k) single_ids)"
proof (cases "kx_direct_ids k = []")
  case True
  then have "make_result sha256 cal k SearchOutcome.NO_REPAIR_REQUIRED [] False [] [] [] = Inr r"
    using assms by (simp add: search_repairs_def)
  note fields = make_result_fields [OF this]
  show thesis by (rule nothing) (use fields True in simp_all)
next
  case False
  obtain kinds where kinds: "traverse (classify k) (kx_direct_ids k) = Inr kinds"
    using assms False by (auto simp: search_repairs_def)
  let ?classified = "zip (kx_direct_ids k) (map fst kinds)" and ?trace = "concat (map snd kinds)"
  let ?single = "sort_key (commitment_order k) (map fst (filter (\<lambda>x. snd x = Some AssignmentKind.SINGLE) ?classified))"
  let ?crew = "map fst (filter (\<lambda>x. snd x = Some AssignmentKind.CREW) ?classified)"
  let ?unknown = "map fst (filter (\<lambda>x. snd x = None) ?classified)"
  have all: "list_all2 (\<lambda>i x. classify k i = Inr x) (kx_direct_ids k) kinds" using kinds by (simp add: traverse_Inr_iff)
  have member: "(i, kind) \<in> set ?classified" if "i \<in> set (kx_direct_ids k)" "commitment_kind k i = Inr kind" for i kind
  proof -
    obtain n where n: "n < length (kx_direct_ids k)" "kx_direct_ids k ! n = i" using \<open>i \<in> set (kx_direct_ids k)\<close> by (auto simp: in_set_conv_nth)
    moreover from n all have "classify k i = Inr (kinds ! n)" "n < length kinds" by (auto simp: list_all2_conv_all_nth)
    moreover from this classify_kind [of k i "fst (kinds ! n)" "snd (kinds ! n)"] that(2) have "fst (kinds ! n) = kind" by simp
    ultimately show ?thesis by (force simp: in_set_conv_nth)
  qed
  have classified: "commitment_kind k i = Inr kind \<and> i \<in> set (kx_direct_ids k)" if "(i, kind) \<in> set ?classified" for i kind
  proof -
    from that obtain n where n: "n < length (kx_direct_ids k)" "n < length kinds" "kx_direct_ids k ! n = i" "fst (kinds ! n) = kind"
      by (auto simp: in_set_zip)
    with all have "classify k i = Inr (kinds ! n)" by (auto simp: list_all2_conv_all_nth)
    then have "classify k i = Inr (kind, snd (kinds ! n))" using n(4) by (metis prod.collapse)
    moreover have "i \<in> set (kx_direct_ids k)" using n nth_mem by blast
    ultimately show ?thesis using classify_kind by blast
  qed
  have kinds_of: "\<forall>i\<in>set (kx_direct_ids k). commitment_kind k i = Inr (Some y) \<longleftrightarrow>
      i \<in> set (map fst (filter (\<lambda>x. snd x = Some y) ?classified))" for y
  proof (intro ballI iffI)
    fix i
    assume "i \<in> set (kx_direct_ids k)" "commitment_kind k i = Inr (Some y)"
    from member [OF this] show "i \<in> set (map fst (filter (\<lambda>x. snd x = Some y) ?classified))" by force
  next
    fix i
    assume "i \<in> set (map fst (filter (\<lambda>x. snd x = Some y) ?classified))"
    then have "(i, Some y) \<in> set ?classified" by auto
    from classified [OF this] show "commitment_kind k i = Inr (Some y)" ..
  qed
  have unknown_of: "\<forall>i\<in>set (kx_direct_ids k). commitment_kind k i = Inr None \<longleftrightarrow> i \<in> set ?unknown"
  proof (intro ballI iffI)
    fix i
    assume "i \<in> set (kx_direct_ids k)" "commitment_kind k i = Inr None"
    from member [OF this] show "i \<in> set ?unknown" by force
  next
    fix i
    assume "i \<in> set ?unknown"
    then have "(i, None) \<in> set ?classified" by auto
    from classified [OF this] show "commitment_kind k i = Inr None" ..
  qed
  have no_limit: "\<forall>e\<in>set ?trace. \<not> limit_entry e"
  proof
    fix e
    assume "e \<in> set ?trace"
    then obtain x where "x \<in> set kinds" "e \<in> set (snd x)" by auto
    moreover from this(1) all obtain i where "classify k i = Inr x" by (auto simp: list_all2_conv_all_nth in_set_conv_nth)
    ultimately show "\<not> limit_entry e" using classify_trace [of k i "fst x" "snd x"] by simp
  qed
  show thesis
  proof (cases "?single = []")
    case True
    then have none: "filter (\<lambda>x. snd x = Some AssignmentKind.SINGLE) ?classified = []"
      by (simp only: sort_key_Nil map_is_Nil_conv)
    have result: "make_result sha256 cal k
        (if ?crew \<noteq> [] \<and> ?unknown = [] then SearchOutcome.CREW_REPAIR_UNSUPPORTED else SearchOutcome.INSUFFICIENT_CRITICAL_EVIDENCE)
        [] False ?crew ?unknown ?trace = Inr r"
      using assms False kinds True by (simp add: search_repairs_def Let_def)
    have "?classified \<noteq> []" using False all by (cases "kx_direct_ids k"; cases kinds) auto
    then obtain x where x: "x \<in> set ?classified" by (cases ?classified) auto
    moreover have "snd x \<noteq> Some AssignmentKind.SINGLE" using none x by (auto simp: filter_empty_conv)
    ultimately have "?crew \<noteq> [] \<or> ?unknown \<noteq> []"
      by (cases "snd x") (auto simp: filter_empty_conv, metis AssignmentKind.exhaust)
    moreover note kinds_of [of AssignmentKind.CREW] unknown_of
    moreover have "\<forall>i\<in>set (kx_direct_ids k). commitment_kind k i \<noteq> Inr (Some AssignmentKind.SINGLE)"
    proof
      fix i
      assume i: "i \<in> set (kx_direct_ids k)"
      show "commitment_kind k i \<noteq> Inr (Some AssignmentKind.SINGLE)"
      proof
        assume "commitment_kind k i = Inr (Some AssignmentKind.SINGLE)"
        from member [OF i this] none show False by (auto simp: filter_empty_conv)
      qed
    qed
    ultimately show thesis
      by (intro unsupported [of ?crew ?unknown]) (use make_result_fields [OF result] False in simp_all)
  next
    case some: False
    obtain st where st: "search_loop sha256 cal k (initial_search k ?single ?unknown ?trace) = Inr st"
      using assms False kinds some by (auto simp: search_repairs_def Let_def)
    obtain exhausted search_trace where final: "final_traces k ?single st = Inr (exhausted, search_trace)"
      using assms False kinds some st by (auto simp: search_repairs_def Let_def)
    have result: "make_result sha256 cal k (choose_outcome (\<exists>c\<in>set (rp_candidates st). mr_verdict c = CandidateVerdict.FEASIBLE)
        exhausted (remdups (rp_insufficient st)) ?crew) (rp_candidates st) exhausted ?crew (remdups (rp_insufficient st)) search_trace = Inr r"
      using assms False kinds some st final by (simp add: search_repairs_def Let_def)
    have "\<forall>i\<in>set (kx_direct_ids k). commitment_kind k i = Inr (Some AssignmentKind.SINGLE) \<longrightarrow> i \<in> set ?single"
      using member by force
    moreover have "\<forall>i\<in>set (kx_direct_ids k). \<exists>kind. commitment_kind k i = Inr kind"
    proof
      fix i
      assume "i \<in> set (kx_direct_ids k)"
      then obtain y where "classify k i = Inr y" by (rule traverse_member [OF kinds])
      then show "\<exists>kind. commitment_kind k i = Inr kind" by (cases y) (auto dest: classify_kind)
    qed
    moreover have "\<forall>i\<in>set ?single. i \<in> set (kx_direct_ids k) \<and> commitment_kind k i = Inr (Some AssignmentKind.SINGLE)"
      using classified by auto
    moreover have "sorted (map (commitment_order k) ?single)" by (rule sorted_sort_key)
    moreover note kinds_of [of AssignmentKind.CREW] unknown_of
    ultimately show thesis
      by (intro searched [of ?crew ?unknown ?single ?trace st exhausted search_trace])
        (use make_result_fields [OF result] False no_limit st final in \<open>simp_all only: simp_thms\<close>)
  qed
qed

text \<open>Behind the candidates of a result are drafts of their own.\<close>

lemma search_repairs_drafts:
  assumes "search_repairs sha256 cal k = Inr r"
  obtains ds where "list_all2 (\<lambda>d c. evaluate_draft sha256 cal k d = Inr c) ds (br_candidates r)"
    "distinct (map signature_of ds)" "length ds \<le> MAX_EVALUATED_CANDIDATES"
  using assms
proof (cases rule: search_repairs_cases)
  case nothing
  then show ?thesis using that [of "[]"] by simp
next
  case unsupported
  then show ?thesis using that [of "[]"] by simp
next
  case (searched single_ids crew unknown trace st exhausted search_trace)
  have "evaluated sha256 cal k [] (initial_search k single_ids unknown trace)" by (simp add: evaluated_def initial_search_def)
  moreover have "exhaustion_recorded (initial_search k single_ids unknown trace)"
    using searched(6) by (auto simp: exhaustion_recorded_def)
  ultimately obtain ds where "evaluated sha256 cal k ds st" using search_loop_evaluated [OF searched(7)] by blast
  then show ?thesis using that [of ds] searched(9) by (auto simp: evaluated_def)
qed

lemma signature_of_sorted [simp]: "signature_of (sort_key pw_key d) = signature_of d"
  by (simp add: signature_of_def)

lemma evaluated_signature:
  "evaluate_draft sha256 cal k d = Inr c \<Longrightarrow> signature_of (mr_proposed_worker_placements c) = signature_of d"
  by (erule evaluate_draft_Inr) simp


section \<open>Properties\<close>

lemma feasible_draft:
  assumes "search_repairs sha256 cal k = Inr r" "c \<in> set (br_candidates r)" "mr_verdict c = CandidateVerdict.FEASIBLE"
  shows "\<exists>d. mr_proposed_worker_placements c = sort_key pw_key d \<and> draft_feasible k d"
  using assms(1)
proof (rule search_repairs_drafts)
  fix ds
  assume "list_all2 (\<lambda>d c. evaluate_draft sha256 cal k d = Inr c) ds (br_candidates r)"
  with assms(2) obtain d where d: "evaluate_draft sha256 cal k d = Inr c"
    by (auto simp: list_all2_conv_all_nth in_set_conv_nth)
  have "mr_proposed_worker_placements c = sort_key pw_key d" by (rule evaluate_draft_Inr [OF d])
  with feasible_candidate [OF d] assms(3) show ?thesis by blast
qed

text \<open>C15. A candidate that the search calls FEASIBLE fits: every worker it proposes has the exact skill and is
  available, the task is READY, the vehicle suits and is available, the customer window and the deadline are
  kept, nothing moved overlaps on a shared worker or vehicle, neighbours leave time for the route, and every
  dependency that a moved task reaches along the edges holds in the resulting schedule.\<close>

theorem feasible_repair_is_sound:
  assumes "search_repairs sha256 cal k = Inr r" "c \<in> set (br_candidates r)" "mr_verdict c = CandidateVerdict.FEASIBLE"
  shows "\<exists>d. mr_proposed_worker_placements c = sort_key pw_key d \<and> draft_feasible k d"
  using assms by (rule feasible_draft)

lemma feasible_repair_witness:
  "\<exists>d. ex_draft = sort_key pw_key d \<and> draft_feasible ex_context d"
  using feasible_repair_is_sound [OF ex_search, of ex_candidate] by (simp add: ex_result_def, simp add: ex_candidate_def)

text \<open>C17. A search evaluates at most twelve candidates, each a different change of one to three
  commitments.\<close>

theorem repair_search_is_bounded:
  assumes "search_repairs sha256 cal k = Inr r"
  shows "length (br_candidates r) \<le> 12 \<and>
    list_all (\<lambda>c. mr_proposed_worker_placements c \<noteq> [] \<and> length (mr_proposed_worker_placements c) \<le> 3) (br_candidates r) \<and>
    distinct (map (\<lambda>c. signature_of (mr_proposed_worker_placements c)) (br_candidates r))"
  using assms
proof (rule search_repairs_drafts)
  fix ds
  assume ds: "list_all2 (\<lambda>d c. evaluate_draft sha256 cal k d = Inr c) ds (br_candidates r)"
    and distinct: "distinct (map signature_of ds)" and few: "length ds \<le> MAX_EVALUATED_CANDIDATES"
  have "map (\<lambda>c. signature_of (mr_proposed_worker_placements c)) (br_candidates r) = map signature_of ds"
    using ds by (induction rule: list_all2_induct) (simp_all add: evaluated_signature)
  moreover have "mr_proposed_worker_placements c \<noteq> [] \<and> length (mr_proposed_worker_placements c) \<le> 3"
    if "evaluate_draft sha256 cal k d = Inr c" for c d
    by (rule evaluate_draft_Inr [OF that]) (simp add: MAX_MODIFIED_COMMITMENTS_def sort_key_Nil)
  then have "list_all (\<lambda>c. mr_proposed_worker_placements c \<noteq> [] \<and> length (mr_proposed_worker_placements c) \<le> 3) (br_candidates r)"
    using ds by (auto simp: list_all_length list_all2_conv_all_nth)
  ultimately show ?thesis
    using distinct few list_all2_lengthD [OF ds] by (simp add: MAX_EVALUATED_CANDIDATES_def)
qed

lemma repair_search_witness:
  "length (br_candidates ex_result) \<le> 12 \<and>
    distinct (map (\<lambda>c. signature_of (mr_proposed_worker_placements c)) (br_candidates ex_result))"
  using repair_search_is_bounded [OF ex_search] by simp

text \<open>A search that is not cut off evaluates every seed of a direct commitment that is proved SINGLE.\<close>

lemma seed_evaluated:
  assumes "search_repairs sha256 cal k = Inr r" "\<not> br_search_envelope_exhausted r"
    and "i \<in> set (kx_direct_ids k)" "commitment_kind k i = Inr (Some AssignmentKind.SINGLE)"
    and "w \<in> set (map wt_worker_id (fs_worker_technical_evidence (kx_support k)))" "w \<noteq> ei_unavailable_worker_id (kx_evaluation k)"
    and "anchor_starts k i w = Inr starts" "repair_vehicle_options k i w = Inr vehicles" "s \<in> set starts" "v \<in> set vehicles"
    and "seed_draft k i w s v = Inr (Some d)"
  obtains c where "c \<in> set (br_candidates r)" "evaluate_draft sha256 cal k d = Inr c"
  using assms(1)
proof (cases rule: search_repairs_cases)
  case (searched single_ids crew unknown trace st exhausted search_trace)
  let ?st = "initial_search k single_ids unknown trace"
  have q: "(i, w, s, v) \<in> pair_seeds k i w" using assms(7-10) by (auto simp: pair_seeds_def)
  have single: "i \<in> set single_ids" using searched(5) assms(3,4) by blast
  have "accounted k (pair_seeds k i w) ?st"
    using initial_seeds [OF single assms(5,6)] by (auto simp: accounted_def)
  from search_loop_accounted [OF searched(7) this] final_traces_Inr [OF searched(8)] assms(2) searched(10)
  have "settled k st (i, w, s, v)" using q seeds_left_None [of "rp_primary st" k] by (auto simp: accounted_def)
  then have seen: "signature_of d \<in> set (rp_seen st)" using assms(11) by (simp add: settled_def seed_of_def)
  have "evaluated sha256 cal k [] ?st" "exhaustion_recorded ?st"
    using searched(6) by (auto simp: evaluated_def exhaustion_recorded_def initial_search_def)
  then obtain ds where "evaluated sha256 cal k ds st" using search_loop_evaluated [OF searched(7)] by blast
  then have all: "list_all2 (\<lambda>d c. evaluate_draft sha256 cal k d = Inr c) ds (rp_candidates st)"
    and "set (rp_seen st) = set (map signature_of ds)" and regular: "\<forall>d\<in>set ds. \<forall>p\<in>set d. regular k p"
    by (auto simp: evaluated_def)
  with seen obtain n where n: "n < length ds" "signature_of d = signature_of (ds ! n)" by (auto simp: in_set_conv_nth)
  obtain p where p: "d = [p]" "regular k p" using seed_draft_regular [OF assms(11)] by blast
  have "sort_key pw_key d = sort_key pw_key (ds ! n)"
    by (rule regular_signature [OF n(2)]) (use p regular n(1) in auto)
  then have "mset (ds ! n) = {#p#}" using p(1) by (metis mset_single_iff mset_sort sort_key_simps mset.simps insort_key.simps(1))
  then have "ds ! n = d" using p(1) by simp
  moreover from n(1) all have "rp_candidates st ! n \<in> set (rp_candidates st)"
      "evaluate_draft sha256 cal k (ds ! n) = Inr (rp_candidates st ! n)"
    by (simp_all add: list_all2_conv_all_nth)
  ultimately show ?thesis using that searched(9) by simp
qed (use assms(3,4) in auto)

text \<open>C16. A search that does not report an exhausted envelope is complete: for every direct commitment that is
  proved SINGLE and every known worker but the unavailable one, each anchor start with each suitable vehicle
  that ends within the planning horizon was evaluated as a candidate. The anchor starts are those of
  \<open>anchor_starts\<close>: the first thirteen.\<close>

theorem unexhausted_search_is_complete:
  assumes "search_repairs sha256 cal k = Inr r" "\<not> br_search_envelope_exhausted r"
    and "i \<in> set (kx_direct_ids k)" "commitment_kind k i = Inr (Some AssignmentKind.SINGLE)"
    and "w \<in> set (map wt_worker_id (fs_worker_technical_evidence (kx_support k)))" "w \<noteq> ei_unavailable_worker_id (kx_evaluation k)"
    and "anchor_starts k i w = Inr starts" "repair_vehicle_options k i w = Inr vehicles" "s \<in> set starts" "v \<in> set vehicles"
    and "seed_draft k i w s v = Inr (Some d)"
  shows "\<exists>c\<in>set (br_candidates r). signature_of (mr_proposed_worker_placements c) = signature_of d"
proof (rule seed_evaluated [OF assms])
  fix c
  assume "c \<in> set (br_candidates r)" "evaluate_draft sha256 cal k d = Inr c"
  with evaluated_signature show ?thesis by blast
qed

lemma unexhausted_search_witness:
  "\<exists>c\<in>set (br_candidates ex_result). signature_of (mr_proposed_worker_placements c) = signature_of ex_draft"
proof (rule unexhausted_search_is_complete [OF ex_search])
  show "commitment_kind ex_context ''C1'' = Inr (Some AssignmentKind.SINGLE)" by code_simp
  show "anchor_starts ex_context ''C1'' ''W2'' = Inr [ex_hour 8]" by code_simp
  show "repair_vehicle_options ex_context ''C1'' ''W2'' = Inr [None]" by code_simp
  show "seed_draft ex_context ''C1'' ''W2'' (ex_hour 8) None = Inr (Some ex_draft)" by code_simp
qed (simp_all add: ex_result_def ex_support_def ex_technical_def ex_evaluation_def)

text \<open>A simple repair: one direct commitment, proved SINGLE, given to another known worker at an anchor start.\<close>

definition simple_repair :: "repair_context \<Rightarrow> draft \<Rightarrow> bool" where
  "simple_repair k d \<longleftrightarrow> (\<exists>i w s v starts vehicles.
     i \<in> set (kx_direct_ids k) \<and> commitment_kind k i = Inr (Some AssignmentKind.SINGLE) \<and>
     w \<in> set (map wt_worker_id (fs_worker_technical_evidence (kx_support k))) \<and> w \<noteq> ei_unavailable_worker_id (kx_evaluation k) \<and>
     anchor_starts k i w = Inr starts \<and> s \<in> set starts \<and> repair_vehicle_options k i w = Inr vehicles \<and> v \<in> set vehicles \<and>
     seed_draft k i w s v = Inr (Some d))"

lemma choose_outcome_iff:
  "choose_outcome f x u c = SearchOutcome.FEASIBLE_CANDIDATES_FOUND \<longleftrightarrow> f"
  "choose_outcome f x u c = SearchOutcome.SEARCH_ENVELOPE_EXHAUSTED \<longleftrightarrow> \<not> f \<and> x"
  "choose_outcome f x u c = SearchOutcome.CREW_REPAIR_UNSUPPORTED \<longleftrightarrow> \<not> f \<and> \<not> x \<and> u = [] \<and> c \<noteq> []"
  "choose_outcome f x u c = SearchOutcome.ALL_EVALUATED_CANDIDATES_REJECTED \<longleftrightarrow> \<not> f \<and> \<not> x \<and> u = [] \<and> c = []"
  "choose_outcome f x u c \<noteq> SearchOutcome.NO_REPAIR_REQUIRED"
  by (simp_all add: choose_outcome_def)

lemma outcome_feasible:
  assumes "search_repairs sha256 cal k = Inr r"
  shows "br_outcome r = SearchOutcome.FEASIBLE_CANDIDATES_FOUND \<longleftrightarrow>
      (\<exists>c\<in>set (br_candidates r). mr_verdict c = CandidateVerdict.FEASIBLE)"
    "br_outcome r = SearchOutcome.NO_REPAIR_REQUIRED \<longleftrightarrow> kx_direct_ids k = []"
    "br_search_envelope_exhausted r \<Longrightarrow>
      br_outcome r \<in> {SearchOutcome.FEASIBLE_CANDIDATES_FOUND, SearchOutcome.SEARCH_ENVELOPE_EXHAUSTED}"
  using assms by (cases rule: search_repairs_cases; auto simp: choose_outcome_iff choose_outcome_def split: if_splits)+

lemma simple_repair_judged:
  assumes r: "search_repairs sha256 cal k = Inr r" "\<not> br_search_envelope_exhausted r" and d: "simple_repair k d" "draft_feasible k d"
  shows "br_outcome r = SearchOutcome.FEASIBLE_CANDIDATES_FOUND"
proof -
  from d(1) obtain c where "c \<in> set (br_candidates r)" "evaluate_draft sha256 cal k d = Inr c"
    unfolding simple_repair_def by (elim exE conjE) (rule seed_evaluated [OF r])
  with d(2) feasible_candidate outcome_feasible(1) [OF r(1)] show ?thesis by blast
qed

text \<open>What an outcome without a feasible candidate says of the commitments and of the evidence.\<close>

lemma rejected_outcome:
  assumes "search_repairs sha256 cal k = Inr r" "br_outcome r = SearchOutcome.ALL_EVALUATED_CANDIDATES_REJECTED"
  shows "(\<forall>i\<in>set (kx_direct_ids k). commitment_kind k i = Inr (Some AssignmentKind.SINGLE)) \<and>
    (\<forall>c\<in>set (br_candidates r). \<forall>x\<in>set (mr_rejection_trace c). tk_status x = ConstraintStatus.FAIL)"
  using assms(1)
proof (cases rule: search_repairs_cases)
  case (searched single_ids crew unknown trace st exhausted search_trace)
  have "choose_outcome (\<exists>c\<in>set (rp_candidates st). mr_verdict c = CandidateVerdict.FEASIBLE) exhausted
      (remdups (rp_insufficient st)) crew = SearchOutcome.ALL_EVALUATED_CANDIDATES_REJECTED"
    using searched(15) assms(2) by simp
  then have none: "rp_insufficient st = []" "crew = []" by (simp_all add: choose_outcome_iff)
  have "unknown_kept unknown (initial_search k single_ids unknown trace)" by (simp add: unknown_kept_def)
  from search_loop_unknown_kept [OF searched(7) this] none(1) have kept: "unknown = []"
    "\<forall>c\<in>set (rp_candidates st). (\<exists>r\<in>set (mr_rejection_trace c). tk_status r = ConstraintStatus.UNKNOWN) \<longrightarrow> mr_modified_commitment_ids c = []"
    by (simp_all add: unknown_kept_def)
  have "commitment_kind k i = Inr (Some AssignmentKind.SINGLE)" if i: "i \<in> set (kx_direct_ids k)" for i
  proof -
    from searched(4) i obtain kind where kind: "commitment_kind k i = Inr kind" by blast
    from kind searched(2,3) none(2) kept(1) i have "kind \<noteq> Some AssignmentKind.CREW" "kind \<noteq> None" by auto
    then show ?thesis using kind by (cases kind) (auto, metis AssignmentKind.exhaust)
  qed
  moreover have "tk_status x = ConstraintStatus.FAIL" if c: "c \<in> set (br_candidates r)" "x \<in> set (mr_rejection_trace c)" for c x
  proof (rule search_repairs_drafts [OF assms(1)])
    fix ds
    assume "list_all2 (\<lambda>d c. evaluate_draft sha256 cal k d = Inr c) ds (br_candidates r)"
    with c(1) obtain d where "evaluate_draft sha256 cal k d = Inr c" by (auto simp: list_all2_conv_all_nth in_set_conv_nth)
    then show ?thesis
    proof (rule evaluate_draft_Inr)
      fix results
      assume ids: "mr_modified_commitment_ids c = map pw_commitment_id (sort_key pw_key d)" and "d \<noteq> []"
        and trace: "mr_rejection_trace c = filter (\<lambda>r. tk_status r \<noteq> ConstraintStatus.PASS) results"
      then have "mr_modified_commitment_ids c \<noteq> []" by (simp add: sort_key_Nil)
      with kept(2) c searched(9) have "tk_status x \<noteq> ConstraintStatus.UNKNOWN" by auto
      moreover have "tk_status x \<noteq> ConstraintStatus.PASS" using c(2) trace by simp
      ultimately show ?thesis by (cases "tk_status x") simp_all
    qed
  qed
  ultimately show ?thesis by blast
qed (use assms(2) in \<open>auto split: if_splits\<close>)

text \<open>C18. The outcome of a search is true. NO_REPAIR_REQUIRED is said exactly when no commitment is directly
  affected; FEASIBLE_CANDIDATES_FOUND only with a candidate whose draft fits everything; and any outcome but
  that one and SEARCH_ENVELOPE_EXHAUSTED only when no simple repair fits. ALL_EVALUATED_CANDIDATES_REJECTED
  moreover means that every direct commitment is proved SINGLE and that every rejection is a proved failure,
  not missing evidence.\<close>

theorem repair_outcome:
  assumes "search_repairs sha256 cal k = Inr r"
  shows "(br_outcome r = SearchOutcome.NO_REPAIR_REQUIRED \<longleftrightarrow> kx_direct_ids k = []) \<and>
    (br_outcome r = SearchOutcome.FEASIBLE_CANDIDATES_FOUND \<longrightarrow>
      (\<exists>c\<in>set (br_candidates r). \<exists>d. mr_proposed_worker_placements c = sort_key pw_key d \<and> draft_feasible k d)) \<and>
    (br_outcome r \<notin> {SearchOutcome.FEASIBLE_CANDIDATES_FOUND, SearchOutcome.SEARCH_ENVELOPE_EXHAUSTED} \<longrightarrow>
      (\<forall>d. simple_repair k d \<longrightarrow> \<not> draft_feasible k d)) \<and>
    (br_outcome r = SearchOutcome.ALL_EVALUATED_CANDIDATES_REJECTED \<longrightarrow>
      (\<forall>i\<in>set (kx_direct_ids k). commitment_kind k i = Inr (Some AssignmentKind.SINGLE)) \<and>
      (\<forall>c\<in>set (br_candidates r). \<forall>x\<in>set (mr_rejection_trace c). tk_status x = ConstraintStatus.FAIL))"
proof (intro conjI impI)
  show "br_outcome r = SearchOutcome.NO_REPAIR_REQUIRED \<longleftrightarrow> kx_direct_ids k = []" by (rule outcome_feasible(2) [OF assms])
next
  assume "br_outcome r = SearchOutcome.FEASIBLE_CANDIDATES_FOUND"
  then obtain c where c: "c \<in> set (br_candidates r)" "mr_verdict c = CandidateVerdict.FEASIBLE"
    using outcome_feasible(1) [OF assms] by blast
  then show "\<exists>c\<in>set (br_candidates r). \<exists>d. mr_proposed_worker_placements c = sort_key pw_key d \<and> draft_feasible k d"
    using feasible_draft [OF assms] by blast
next
  assume "br_outcome r \<notin> {SearchOutcome.FEASIBLE_CANDIDATES_FOUND, SearchOutcome.SEARCH_ENVELOPE_EXHAUSTED}"
  then show "\<forall>d. simple_repair k d \<longrightarrow> \<not> draft_feasible k d"
    using outcome_feasible(3) [OF assms] simple_repair_judged [OF assms] by blast
qed (use rejected_outcome [OF assms] in \<open>blast+\<close>)

lemma repair_outcome_witness:
  "\<exists>d. ex_draft = sort_key pw_key d \<and> draft_feasible ex_context d"
  using repair_outcome [OF ex_search] by (simp add: ex_result_def, simp add: ex_candidate_def)

end
