(* ===== verification/Evidence_Properties.thy ===== *)
theory Evidence_Properties
  imports Repair_Properties
begin

text \<open>
  The properties of the evidence that a repair search rests on: its documents are read back exactly, altered
  ones are refused, well-formed evidence reaches the search, merged availability windows cover what the
  recorded ones cover, and an impact along the dependencies is one that the edges reach.
\<close>

section \<open>Documents\<close>

text \<open>C30. A stored evaluation input is read as a value exactly when it is the canonical document of that value
  and the value passes its own constructor: whatever else is stored, one character, one key or one digest
  apart, is refused.\<close>

theorem evaluation_documents_are_exact:
  assumes "calendar_law cal" "digest_law sha256"
  shows "(deserialize_evaluation_input sha256 cal raw = Inr x \<longleftrightarrow>
      M3EvaluationInput_init x = Inr x \<and> serialize_evaluation_input sha256 cal x = Inr raw) \<and>
    (restore_evaluation_input sha256 cal raw fp i = Inr x \<longleftrightarrow>
      M3EvaluationInput_init x = Inr x \<and> raw = semantic_json cal x \<and> fp = evaluation_input_fingerprint sha256 cal x \<and>
      i = evaluation_input_id sha256 cal x)"
  using evaluation_read_iff [OF assms] restore_round_trip [OF assms]
  by (auto simp: serialize_evaluation_input_def validate_evaluation_Inr [OF assms(2)])

lemma ex_sha_law: "digest_law ex_sha"
  by (simp add: digest_law_def ex_sha_def, code_simp)

lemma evaluation_documents_witness:
  "returns (serialize_evaluation_input ex_sha plain_calendar ex_evaluation)
     (\<lambda>raw. deserialize_evaluation_input ex_sha plain_calendar raw = Inr ex_evaluation)"
proof -
  have "serialize_evaluation_input ex_sha plain_calendar ex_evaluation = Inr (canonical_json (full_payload ex_sha plain_calendar ex_evaluation))"
    by (simp add: serialize_evaluation_input_def validate_evaluation_Inr [OF ex_sha_law] ex_evaluation_ok)
  with evaluation_documents_are_exact [OF plain_calendar_law ex_sha_law] ex_evaluation_ok show ?thesis by (auto simp: returns_iff)
qed

text \<open>A support snapshot, with its six kinds of nested sources, is read back from its document as it was
  written.\<close>

theorem support_documents_round_trip:
  assumes "calendar_law cal" "support_ok zones x" "serialize_feasibility_support sha256 zones cal x = Inr raw"
  shows "deserialize_feasibility_support sha256 zones cal raw = Inr x"
  using support_round_trip [OF assms(1,2)] assms(3) by (auto simp: serialize_feasibility_support_def)

lemma ex_support_written:
  "serialize_feasibility_support ex_sha ex_zones plain_calendar ex_support =
     Inr (canonical_json (support_payload ex_sha plain_calendar ex_support))"
  using ex_support_ok by (auto simp: serialize_feasibility_support_def support_ok_def)

lemma support_documents_witness:
  "deserialize_feasibility_support ex_sha ex_zones plain_calendar (canonical_json (support_payload ex_sha plain_calendar ex_support)) = Inr ex_support"
  by (rule support_documents_round_trip [OF plain_calendar_law ex_support_ok ex_support_written])

lemma search_of_bound_context:
  assumes "calendar_law cal" "digest_law sha256" "M3EvaluationInput_init e = Inr e" "support_ok zones s"
  shows "generate_bounded_repair_candidates sha256 zones cal e s =
    and_then (bound_context sha256 zones cal e s) (search_repairs sha256 cal)"
proof -
  have evaluation: "and_then (serialize_evaluation_input sha256 cal e) (deserialize_evaluation_input sha256 cal) = Inr e"
    using evaluation_round_trip [OF assms(1-3)] assms(3)
    by (simp add: serialize_evaluation_input_def validate_evaluation_Inr [OF assms(2)])
  have support: "and_then (serialize_feasibility_support sha256 zones cal s) (deserialize_feasibility_support sha256 zones cal) = Inr s"
    using support_round_trip [OF assms(1,4), of sha256] assms(4) by (auto simp: serialize_feasibility_support_def support_ok_def)
  show ?thesis
    unfolding generate_bounded_repair_candidates_def validated_context_def evaluation support
    by (simp add: integrity_def binding_def)
qed

text \<open>C29. Evidence that its own constructors accept survives the integrity check of the search: the service
  result is then the search over the context that the bindings between the two values give, or the binding
  error.\<close>

theorem well_formed_evidence_is_searched:
  assumes "calendar_law cal" "digest_law sha256" "M3EvaluationInput_init e = Inr e" "support_ok zones s"
  shows "generate_bounded_repair_candidates sha256 zones cal e s =
    and_then (bound_context sha256 zones cal e s) (search_repairs sha256 cal)"
  by (rule search_of_bound_context [OF assms])

lemma well_formed_evidence_witness:
  "generate_bounded_repair_candidates ex_sha ex_zones plain_calendar ex_evaluation ex_support = Inr ex_result"
  using well_formed_evidence_is_searched [OF plain_calendar_law ex_sha_law ex_evaluation_ok ex_support_ok]
  by (simp add: ex_bound ex_search)

section \<open>Windows\<close>

text \<open>C31. Merging the recorded windows of a worker or vehicle loses nothing and adds nothing: a placement is
  inside one merged window exactly when every instant of it lies in some recorded window.\<close>

theorem merged_windows_cover:
  assumes "AvailabilityEvidence_init x = Inr y" "ad_knowledge x = AvailabilityKnowledge.KNOWN"
    "pw_proposed_start p < pw_proposed_end p"
  shows "window_covers (ad_available_windows y) p \<longleftrightarrow>
    {pw_proposed_start p..<pw_proposed_end p} \<subseteq> window_instants (ad_available_windows x)"
proof -
  obtain a b where "canonical_windows (ad_available_windows x) a b = Inr (ad_available_windows y)"
    using assms(1,2) by (auto simp: AvailabilityEvidence_init_def split: option.splits)
  from canonical_windows_cover [OF this assms(3)] show ?thesis by (simp add: window_covers_def)
qed

definition ex_split :: AvailabilityEvidence where
  "ex_split = (ex_available ''W2'')\<lparr>ad_available_windows :=
     [\<lparr>ae_start_at = ex_hour 9, ae_end_at = ex_hour 11\<rparr>, \<lparr>ae_start_at = ex_hour 7, ae_end_at = ex_hour 9\<rparr>]\<rparr>"

definition ex_merged :: AvailabilityEvidence where
  "ex_merged = (ex_available ''W2'')\<lparr>ad_available_windows := [\<lparr>ae_start_at = ex_hour 7, ae_end_at = ex_hour 11\<rparr>]\<rparr>"

lemma merged_windows_witness:
  "window_covers (ad_available_windows ex_merged) (hd ex_draft) \<and>
     {pw_proposed_start (hd ex_draft)..<pw_proposed_end (hd ex_draft)} \<subseteq> window_instants (ad_available_windows ex_split)"
proof -
  have "AvailabilityEvidence_init ex_split = Inr ex_merged" by code_simp
  moreover have "ad_knowledge ex_split = AvailabilityKnowledge.KNOWN" by code_simp
  moreover have "pw_proposed_start (hd ex_draft) < pw_proposed_end (hd ex_draft)" by code_simp
  moreover have "window_covers (ad_available_windows ex_merged) (hd ex_draft)" by code_simp
  ultimately show ?thesis using merged_windows_cover by blast
qed

section \<open>Dependencies\<close>

text \<open>C32. An evaluation input is accepted only if every dependency impact starts from directly impacted tasks and
  its task is reachable from each of them along the dependency edges; the breadth-first search of the
  constructor is complete for it.\<close>

theorem dependency_impact_is_reachable:
  assumes "M3EvaluationInput_init x = Inr y" "r \<in> set (dn_commitments (ei_dependency_impact x))"
    "t \<in> set (di_originating_direct_task_ids r)"
  shows "t \<in> ir_task_id ` set (dx_commitments (ei_direct_current_impact x)) \<and>
    (t, di_task_id r) \<in> (set (edge_pairs (dn_edges (ei_dependency_impact x))))\<^sup>*"
proof -
  have "check_all (check_impact (edge_pairs (dn_edges (ei_dependency_impact x)))
      (ir_task_id ` set (dx_commitments (ei_direct_current_impact x)))) (dn_commitments (ei_dependency_impact x)) = Inr ()"
    using assms(1) unfolding M3EvaluationInput_init_def Let_def and_then_Inr by - (elim exE conjE, simp)
  with assms(2,3) show ?thesis by auto
qed

definition ex_chain :: M3EvaluationInput where
  "ex_chain = ex_evaluation\<lparr>
     ei_plan_day_associations := ei_plan_day_associations ex_evaluation @ [\<lparr>pe_plan_day_id = ''P2'', pe_worker_id = ''W2'', pe_business_date = 0\<rparr>],
     ei_current_active_commitments := ei_current_active_commitments ex_evaluation @ [ex_commitment ''C2'' ''J1'' ''T2'' ''W2'' ''A2''],
     ei_current_m2_task_preconditions := ei_current_m2_task_preconditions ex_evaluation @
       [(hd (ei_current_m2_task_preconditions ex_evaluation))\<lparr>tp_task_id := ''T2''\<rparr>],
     ei_current_m2_assignment_preconditions := ei_current_m2_assignment_preconditions ex_evaluation @
       [\<lparr>ap_assignment_id = ''A2'', ap_job_id = ''J1'', ap_task_id = ''T2'', ap_assignment_route_sha256 = ex_digest, ap_plan_day_ids = [''P2'']\<rparr>],
     ei_dependency_impact :=
       \<lparr>dn_edges = [\<lparr>de_predecessor_task_id = ''T1'', de_successor_task_id = ''T2'', de_relation = ''FINISH_BEFORE_START'',
          de_provenance_reference = ''p''\<rparr>],
        dn_commitments = [\<lparr>di_commitment_id = ''C2'', di_job_id = ''J1'', di_task_id = ''T2'', di_originating_direct_task_ids = [''T1'']\<rparr>]\<rparr>\<rparr>"

lemma dependency_impact_witness:
  "(''T1'', ''T2'') \<in> (set (edge_pairs (dn_edges (ei_dependency_impact ex_chain))))\<^sup>*"
proof -
  have "M3EvaluationInput_init ex_chain = Inr ex_chain" by code_simp
  from dependency_impact_is_reachable [OF this, of "hd (dn_commitments (ei_dependency_impact ex_chain))" "''T1''"]
  show ?thesis by (simp add: ex_chain_def)
qed

section \<open>A flaw\<close>

text \<open>The seed of the first pair: its first anchor is the original start, whenever that lies within the horizon.\<close>

lemma anchor_starts_first:
  assumes "anchor_starts k i w = Inr starts" "active_placement k i = Inr p"
    "kx_horizon_start k \<le> sl_planned_start p" "sl_planned_start p < kx_horizon_end k"
  shows "\<exists>later. starts = sl_planned_start p # later"
proof -
  obtain others where "starts = order_anchors k (sl_planned_start p) (sl_planned_start p # others)"
    using assms(1,2) by (auto simp: anchor_starts_def Let_def)
  moreover have "sl_planned_start p \<in> set (filter (\<lambda>t. kx_horizon_start k \<le> t \<and> t < kx_horizon_end k)
      (sorted_set (sl_planned_start p # others)))" using assms(3,4) by (simp add: sorted_set_def)
  ultimately show ?thesis by (simp add: order_anchors_def Let_def MAX_ANCHORS_PER_SEED_PAIR_def)
qed

lemma repair_vehicle_options_some: "repair_vehicle_options k i w = Inr vs \<Longrightarrow> vs \<noteq> []"
  by (auto simp: repair_vehicle_options_def Let_def split: if_splits)

lemma seed_draft_subsecond:
  assumes "kx_constraints k i = Some t" "start + micros (tc_duration_seconds t) \<le> kx_horizon_end k" "\<not> 1000000 dvd start"
  shows "\<exists>x. seed_draft k i w start v = Inl x"
proof (cases "seed_draft k i w start v")
  case (Inr d)
  with assms show ?thesis
    by (auto simp: seed_draft_def subscript_def Let_def ProposedWorkerPlacement_init_def check_instant_def check_value_def
        dvd_eq_mod_eq_0 split: if_splits)
qed simp

lemma first_draft_subsecond:
  assumes stream: "dm_single_ids st = i # js" "dm_workers st = w # ws" "dm_pair_index st = 0" "dm_pair_probe_count st = 0"
      "dm_starts st = []"
    and p: "active_placement k i = Inr p" "kx_horizon_start k \<le> sl_planned_start p" "sl_planned_start p < kx_horizon_end k"
      "\<not> 1000000 dvd sl_planned_start p"
    and t: "kx_constraints k i = Some t" "sl_planned_start p + micros (tc_duration_seconds t) \<le> kx_horizon_end k"
  shows "\<exists>x. next_draft k st = Inl x"
proof (cases "probe_next_pair k st")
  case (Inr y)
  from stream have pairs: "\<not> total_pair_count st \<le> 0" by (simp add: total_pair_count_def)
  with Inr stream obtain starts vs where probe: "anchor_starts k i w = Inr starts" "repair_vehicle_options k i w = Inr vs"
      "y = (True, st\<lparr>dm_pair_index := 1, dm_pair_probe_count := 1, dm_commitment_id := Some i, dm_worker_id := Some w,
         dm_starts := starts, dm_vehicles := vs, dm_anchor_index := 0, dm_vehicle_index := 0\<rparr>)"
    by (auto simp: probe_next_pair_def Let_def MAX_SEED_PAIR_PROBES_def)
  from anchor_starts_first [OF probe(1) p(1-3)] obtain later where starts: "starts = sl_planned_start p # later" by blast
  from repair_vehicle_options_some [OF probe(2)] obtain v vs' where vs: "vs = v # vs'" by (cases vs) auto
  obtain x where x: "seed_draft k i w (sl_planned_start p) v = Inl x" using seed_draft_subsecond [OF t p(4)] by blast
  let ?st = "st\<lparr>dm_pair_index := 1, dm_pair_probe_count := 1, dm_commitment_id := Some i, dm_worker_id := Some w,
      dm_starts := starts, dm_vehicles := vs, dm_anchor_index := 0, dm_vehicle_index := 0\<rparr>"
  have "take_draft k ?st = Inl x" using starts vs x by (simp add: take_draft_def)
  moreover have "dm_anchor_index ?st < length (dm_starts ?st)" using starts by simp
  ultimately have "next_draft k ?st = Inl x" by (simp only: next_draft.simps [of k ?st] if_True sum.case)
  moreover have "next_draft k st = next_draft k ?st" using Inr probe(3) stream by (simp add: next_draft.simps [of k st])
  ultimately show ?thesis by simp
next
  case (Inl x)
  then show ?thesis using stream by (simp add: next_draft.simps [of k st])
qed

lemma commitment_order_id [simp]: "snd (snd (commitment_order k i)) = i"
  by (simp add: commitment_order_def split: option.split)

lemma sorted_first:
  assumes "sorted (map f xs)" "inj f" "x \<in> set xs" "\<forall>y\<in>set xs. f x \<le> f y"
  shows "\<exists>ys. xs = x # ys"
proof (cases xs)
  case (Cons y ys)
  with assms have "f y \<le> f x" "f x \<le> f y" by auto
  with assms(2) Cons show ?thesis by (metis injD order_antisym)
qed (use assms(3) in simp)

lemma inj_commitment_order: "inj (commitment_order k)"
  by (metis commitment_order_id injI)

lemma search_repairs_subsecond:
  assumes i: "i \<in> set (kx_direct_ids k)" "commitment_kind k i = Inr (Some AssignmentKind.SINGLE)"
    and first: "\<forall>j\<in>set (kx_direct_ids k). commitment_kind k j = Inr (Some AssignmentKind.SINGLE) \<longrightarrow>
      commitment_order k i \<le> commitment_order k j"
    and w: "w \<in> set (map wt_worker_id (fs_worker_technical_evidence (kx_support k)))" "w \<noteq> ei_unavailable_worker_id (kx_evaluation k)"
    and p: "active_placement k i = Inr p" "kx_horizon_start k \<le> sl_planned_start p" "sl_planned_start p < kx_horizon_end k"
      "\<not> 1000000 dvd sl_planned_start p"
    and t: "kx_constraints k i = Some t" "sl_planned_start p + micros (tc_duration_seconds t) \<le> kx_horizon_end k"
  shows "search_repairs sha256 cal k \<noteq> Inr r"
proof
  assume r: "search_repairs sha256 cal k = Inr r"
  then show False
  proof (cases rule: search_repairs_cases)
    case (searched single_ids crew unknown trace st exhausted search_trace)
    let ?st = "initial_search k single_ids unknown trace"
    from searched(5) i have "i \<in> set single_ids" by blast
    then obtain js where ids: "single_ids = i # js"
      using sorted_first [OF searched(17) inj_commitment_order] searched(16) first by blast
    have "w \<in> set (dm_workers (rp_primary ?st))" using w by (simp add: initial_search_def initial_stream_def sorted_set_def)
    then obtain v ws where workers: "dm_workers (rp_primary ?st) = v # ws" by (cases "dm_workers (rp_primary ?st)") auto
    obtain x where "next_draft k (rp_primary ?st) = Inl x"
      using first_draft_subsecond [OF _ workers _ _ _ p t, of js] ids by (auto simp: initial_search_def initial_stream_def)
    then have "pop_draft k ?st = Inl x" by (simp add: pop_draft_def initial_search_def)
    then have "search_loop sha256 cal k ?st = Inl x"
      by (simp add: search_loop.simps [of _ _ _ ?st]) (simp add: initial_search_def MAX_EVALUATED_CANDIDATES_def)
    with searched(7) show ?thesis by simp
  qed (use i in auto)
qed

text \<open>C33. One schedule entry that does not start on a whole second ends the whole search with an exception. Take
  evidence that its constructors accept and whose bindings hold. If the first SINGLE commitment of the direct
  impact, in the order of the search, is placed at a fraction of a second within the horizon, and some known
  worker may take it, the service returns no result: the search proposes the original start first, and the
  constructor of a proposed placement refuses it.\<close>

theorem subsecond_start_aborts_search:
  assumes "calendar_law cal" "digest_law sha256" "M3EvaluationInput_init e = Inr e" "support_ok zones s"
    and bound: "bound_context sha256 zones cal e s = Inr k"
    and i: "i \<in> set (kx_direct_ids k)" "commitment_kind k i = Inr (Some AssignmentKind.SINGLE)"
    and first: "\<forall>j\<in>set (kx_direct_ids k). commitment_kind k j = Inr (Some AssignmentKind.SINGLE) \<longrightarrow>
      commitment_order k i \<le> commitment_order k j"
    and w: "w \<in> set (map wt_worker_id (fs_worker_technical_evidence (kx_support k)))" "w \<noteq> ei_unavailable_worker_id (kx_evaluation k)"
    and p: "active_placement k i = Inr p" "kx_horizon_start k \<le> sl_planned_start p" "sl_planned_start p < kx_horizon_end k"
      "\<not> 1000000 dvd sl_planned_start p"
    and t: "kx_constraints k i = Some t" "sl_planned_start p + micros (tc_duration_seconds t) \<le> kx_horizon_end k"
  shows "\<exists>x. generate_bounded_repair_candidates sha256 zones cal e s = Inl x"
proof (cases "search_repairs sha256 cal k")
  case (Inl x)
  then show ?thesis by (simp add: search_of_bound_context [OF assms(1-4)] bound)
next
  case (Inr r)
  with search_repairs_subsecond [OF i first w p t] show ?thesis by blast
qed

definition ex_odd :: ScheduledPlacementEvidence where
  "ex_odd = ex_placement ''C1'' ''J1'' ''T1'' ''W1'' (ex_hour 8 + 1)"

lemma subsecond_start_witness:
  "\<exists>x. generate_bounded_repair_candidates ex_sha ex_zones plain_calendar ex_evaluation (ex_support_with [ex_odd]) = Inl x"
proof (rule subsecond_start_aborts_search [OF plain_calendar_law ex_sha_law ex_evaluation_ok])
  show "support_ok ex_zones (ex_support_with [ex_odd])" by code_simp
  show "bound_context ex_sha ex_zones plain_calendar ex_evaluation (ex_support_with [ex_odd]) = Inr (ex_context_with [ex_odd])"
    by (rule ex_bound_with) code_simp+
  show "''C1'' \<in> set (kx_direct_ids (ex_context_with [ex_odd]))"
    "\<forall>j\<in>set (kx_direct_ids (ex_context_with [ex_odd])).
       commitment_kind (ex_context_with [ex_odd]) j = Inr (Some AssignmentKind.SINGLE) \<longrightarrow>
       commitment_order (ex_context_with [ex_odd]) ''C1'' \<le> commitment_order (ex_context_with [ex_odd]) j"
    by (simp_all add: ex_context_with_def)
  show "commitment_kind (ex_context_with [ex_odd]) ''C1'' = Inr (Some AssignmentKind.SINGLE)" by code_simp
  show "''W2'' \<in> set (map wt_worker_id (fs_worker_technical_evidence (kx_support (ex_context_with [ex_odd]))))" by code_simp
  show "''W2'' \<noteq> ei_unavailable_worker_id (kx_evaluation (ex_context_with [ex_odd]))" by code_simp
  show "active_placement (ex_context_with [ex_odd]) ''C1'' = Inr ex_odd" by code_simp
  show "kx_constraints (ex_context_with [ex_odd]) ''C1'' = Some (ex_constraint ''J1'' ''T1'' ''here'')" by code_simp
  show "kx_horizon_start (ex_context_with [ex_odd]) \<le> sl_planned_start ex_odd"
    "sl_planned_start ex_odd < kx_horizon_end (ex_context_with [ex_odd])" "\<not> 1000000 dvd sl_planned_start ex_odd"
    "sl_planned_start ex_odd + micros (tc_duration_seconds (ex_constraint ''J1'' ''T1'' ''here'')) \<le> kx_horizon_end (ex_context_with [ex_odd])"
    by (simp_all add: ex_context_with_def ex_context_def ex_odd_def ex_placement_def ex_constraint_def ex_hour_def micros_def
        del: ex_context_fields)
qed

end
