(* ===== verification/Spec2Isabelle.thy ===== *)
theory Spec2Isabelle
  imports
    Prelude Machine
    Field_Model Field_Scope Field_Reducer
    Field_Invariant Field_Updates Field_Spec Field_Refinement Field_Evolution
    Field_Finalization Field_Reduction Field_Example Field_Properties
    Decision_Semantics Decision_Properties
    Permutations Dispatch_Planner Dispatch_Properties
    Decimals Catalog_Chunking Catalog_Validation Catalog_Properties
    Json_Values Pricing_Model Pricing_Engine Pricing_Properties
    Json_Text Json_Round_Trip Field_Types Field_Codec Field_Documents Field_Codec_Properties
    Field_Document_Properties
    Crew_Planner Crew_Search Crew_Properties
    Evidence_Checks Evaluation_Input Evaluation_Documents Support_Evidence Support_Documents
    Repair_Model Repair_Context Repair_Evaluation Repair_Search Repair_Soundness Repair_Completeness
    Repair_Example Repair_Properties Evidence_Properties
begin

text \<open>
  Verification of the WerkCrew AI backend (Python, src/src/werkcrew_ai/, abbreviated here to its subdirectories).

  The program keeps the operations of a small crafts company. Its decision core is deterministic and free of
  input and output, and is what these theories model; HTTP, SQL and the language model agent around it only load
  values, call the core and store what it returns. The parts, in the order in which work flows through them:

  \<^item> Catalog (catalog/): the business configuration, its validation, the eligibility of a worker for a job item,
    and the division of a job item into chunks of at most one task day. Theories Catalog_Chunking and
    Catalog_Validation; amounts are Python decimals, theory Decimals.
  \<^item> Crew planner (planning/crew_planner.py, planning/job_assessment.py): orders a job's work items by their
    predecessors and places them on free time of people and vehicles. Theory Crew_Planner; Crew_Search relates the
    stateful limited search to a plain enumeration.
  \<^item> Pricing (pricing/models.py, engine.py, tax.py): prices the plans. Theories Json_Values, Pricing_Model,
    Pricing_Engine.
  \<^item> Decision semantics (domain/decision_semantics.py): what facts allow which action, which promise may be
    executed, what an owner can override, and the voice pipeline to an approved and sent message. Theory
    Decision_Semantics.
  \<^item> M2 field core (field/models.py, field/reducer.py): jobs, tasks, assignments, plan days and directives form a
    reduction scope; workers submit events, the system raises signals, and reduce (state, input, policy, clock)
    returns the next state, the effects, a receipt and the deltas of the roots that changed. Field_Model has the
    values up to the receipt, a record X with its constructor check X_init; Field_Scope the roots, the ledger and
    the scope; Field_Reducer is the reducer, function by function in the code's order.
  \<^item> M2 serialization (field/serialization.py): the canonical documents of these values, from which the store
    reads them back. Json_Text has the printer and the parser of JSON text, Field_Codec the payloads,
    Field_Documents the documents and hashes.
  \<^item> Daily dispatch planner (dispatch/): the orderings of one worker's confirmed assignments of a day, the
    earliest schedule of each, and the proposal. Theories Permutations and Dispatch_Planner.
  \<^item> M3 evidence and repair (planning/evaluation_input.py, feasibility_support.py, bounded_feasibility.py): when a
    worker is unavailable, the evaluation input says which commitments this strikes directly and through
    dependencies, the support snapshot freezes the evidence, and a bounded search looks for repairs. Theories
    Evidence_Checks, Evaluation_Input, Evaluation_Documents, Support_Evidence, Support_Documents for the evidence,
    Repair_Model, Repair_Context, Repair_Evaluation, Repair_Search for the search.

  How Python is modelled (theory Prelude). Exceptions are values, py_error + 'a with Inl the exception; an early
  return, a raise and a failing look-up are branches of the model. A frozen dataclass is a record; dataclasses.replace
  runs the constructor check again, as in the code. A Python int is an int, a str a string over the code points below
  256, a tuple a list, a dict built by a comprehension the look-up of the last binding, a set a list of distinct
  elements where its order is fixed by sorting. An aware datetime is its instant in microseconds; its UTC offset is
  not kept (the texts of one instant in two offsets coincide in the model), and a naive one is a constructor of its
  own where the code can meet it. Polish diacritics of message texts are dropped.

  What the code calls but the repository does not contain is a parameter: the ISO texts of datetimes (cal or
  isoformat, with the law calendar_law that texts are read back), SHA-256 (sha256 or digest; digest_law only says
  that a digest is 64 lower case hexadecimal digits), the time zone data base (zones, days) and, in the dispatch
  planner, the last instant that a datetime can hold. The dispatch planner raises OverflowError behind that instant;
  the crew planner and the repair search model datetimes without an end, as their theories say.

  Bounds and fuel. The JSON parser takes fuel; loads gives it twice the length of the text plus one, and Json_Round_Trip
  shows that this is enough for every printed document. Escapes and characters from 256 on and numbers with a fraction
  are refused by the modelled parser; no document of these components contains them. Every other loop is a function
  with a termination proof: supersession chains and depth-first searches by the finite set of unvisited nodes, the
  repair search by a lexicographic measure over candidates left, pending drafts and the stream of seeds. The limits in
  the code are definitions of the same name: 1000 complete schedules of the crew planner, and of the repair search 12
  candidates, 3 modified commitments, 13 probed seed pairs and 13 anchors of a pair.

  Groups of lemmas. Machine runs a step function over a list of inputs (locale monotone_machine, interpreted on
  reduce). Field_Invariant, Field_Updates, Field_Spec, Field_Refinement, Field_Evolution, Field_Finalization and
  Field_Reduction: well-formed scopes, the keyed updates of the reducer, the abstract specification permitted and the
  proof that every handler implements it, the order in which scopes evolve, the revision step (locale
  revisioned_root, interpreted for the three kinds of roots), and the case distinctions of a reduction. Json_Round_Trip,
  Field_Types, Field_Codec_Properties: printing and parsing, typed constructors, and a round trip per value (locale
  codec, interpreted for every kind of value). Repair_Soundness and Repair_Completeness: an evaluated candidate is
  feasible exactly when its draft fits everything, and a search that was not cut off has tried every seed.

  The properties, by theory: Field_Properties (totality, monotone runs, authority of completion, safe hold, STOP,
  revisions and deltas, the write-once ledger and exactly-once retries, refinement, acyclic supersession);
  Repair_Properties (soundness, completeness, bounds and truth of the outcome of the repair search);
  Crew_Properties (feasible plans, ranking, return); Dispatch_Properties (return, feasible and minimal proposals);
  Decision_Properties; Evidence_Properties (exact documents, windows, dependency impacts); Catalog_Properties (exact
  division, exact cycle check, sufficient validation); Pricing_Properties (exact sums, no price for unclear plans);
  Field_Document_Properties (stored texts are read exactly). Some of them state a flaw of the code as it is, such as a
  feasible job that is refused. Field_Example and Repair_Example and the ends of the property theories hold the
  concrete values on which the properties are instantiated.

  Not modelled, with the reasons in the manifest: the SQL repositories and the durable inbox, HTTP, the agent, the
  intake lifecycle, the site visit demonstration, the plan revisions and the bridge from which the evaluation input is
  assembled, the worker registry provenance and the readers of the M8 snapshot in feasibility_support.py, the
  operational authority that follows the repair search, and the internal cost records.
\<close>

end
